(* ===== verification/Prelude.thy ===== *)
theory Prelude
  imports
    Complex_Main
    "HOL-Library.Char_ord"
    "HOL-Library.List_Lexorder"
    "HOL-Library.Multiset"
begin

text \<open>
  Shared vocabulary of the development: the pieces of the JavaScript standard library that the
  modelled code uses (strings, \<open>Array.find\<close>, \<open>Array.sort\<close>, \<open>Map\<close> grouping, \<open>Math.round\<close>,
  \<open>parseInt\<close>), the laws they satisfy, and the two contracts the components share: a comparator
  for \<open>Array.sort\<close> and an in-place update of one record of a store that keeps the record's id.

  A JavaScript string is modelled by a HOL \<open>string\<close> that holds its UTF-8 bytes. Two such strings
  are equal exactly when the JavaScript strings are; the places of the program where the number
  of UTF-16 code units matters (the audit hash) decode the bytes first. Case conversion is the
  ASCII one. \<open>localeCompare\<close> and \<open><\<close> on strings are both the lexicographic order: the code
  applies them to ISO dates and timestamps, where the two agree. A number is an \<open>int\<close> or a
  \<open>nat\<close> where it counts, and an exact \<open>rat\<close> where it measures (money, hours, scores).
\<close>

section \<open>Collections of facts\<close>

named_theorems js_simps
  \<open>unfolding of the small string and list helpers\<close>
named_theorems store_simps
  \<open>what a lookup returns after an update of a store\<close>

section \<open>Strings\<close>

definition em_dash :: string where
  "em_dash = [CHR 0xE2, CHR 0x80, CHR 0x94]"

definition arrow_right :: string where
  "arrow_right = [CHR 0xE2, CHR 0x86, CHR 0x92]"

definition is_digit :: "char \<Rightarrow> bool" where
  "is_digit c \<longleftrightarrow> 48 \<le> (of_char c :: nat) \<and> (of_char c :: nat) \<le> 57"

definition digit_val :: "char \<Rightarrow> nat" where
  "digit_val c = of_char c - 48"

definition digit_char :: "nat \<Rightarrow> char" where
  "digit_char n = char_of (48 + n)"

definition lower_char :: "char \<Rightarrow> char" where
  "lower_char c = (let n = (of_char c :: nat) in if 65 \<le> n \<and> n \<le> 90 then char_of (n + 32) else c)"

definition upper_char :: "char \<Rightarrow> char" where
  "upper_char c = (let n = (of_char c :: nat) in if 97 \<le> n \<and> n \<le> 122 then char_of (n - 32) else c)"

definition toLowerCase :: "string \<Rightarrow> string" where
  "toLowerCase s = map lower_char s"

definition toUpperCase :: "string \<Rightarrow> string" where
  "toUpperCase s = map upper_char s"

definition is_space :: "char \<Rightarrow> bool" where
  "is_space c \<longleftrightarrow> (of_char c :: nat) \<in> {9, 10, 11, 12, 13, 32}"

definition trim :: "string \<Rightarrow> string" where
  "trim s = rev (dropWhile is_space (rev (dropWhile is_space s)))"

text \<open>For evaluation, case conversion and white space on the bits of a character.\<close>

lemma of_char_bits:
  "(of_char (Char b0 b1 b2 b3 b4 b5 b6 b7) :: nat) =
   of_bool b0 + 2 * (of_bool b1 + 2 * (of_bool b2 + 2 * (of_bool b3 + 2 * (of_bool b4 +
   2 * (of_bool b5 + 2 * (of_bool b6 + 2 * of_bool b7))))))"
  by (simp add: of_char_def)

lemma lower_char_bits [code]:
  "lower_char (Char b0 b1 b2 b3 b4 b5 b6 b7) =
   Char b0 b1 b2 b3 b4
     (b5 \<or> \<not> b7 \<and> b6 \<and> (b0 \<or> b1 \<or> b2 \<or> b3 \<or> b4) \<and> \<not> (b4 \<and> b3 \<and> (b2 \<or> b1 \<and> b0))) b6 b7"
proof -
  have "(of_char (Char b0 b1 b2 b3 b4 True b6 b7) :: nat) = 32 + of_char (Char b0 b1 b2 b3 b4 False b6 b7)"
    by (simp add: of_char_bits)
  then have "char_of ((of_char (Char b0 b1 b2 b3 b4 False b6 b7) :: nat) + 32) = Char b0 b1 b2 b3 b4 True b6 b7"
    by (metis add.commute char_of_char)
  then show ?thesis
    by (cases b5; cases b6; cases b7; cases b0; cases b1; cases b2; cases b3; cases b4)
      (simp_all add: lower_char_def of_char_bits Let_def)
qed

lemma is_space_cases [code]:
  "is_space c \<longleftrightarrow> c = CHR '' '' \<or> c = CHR 0x09 \<or> c = CHR 0x0A \<or> c = CHR 0x0B \<or> c = CHR 0x0C \<or> c = CHR 0x0D"
proof -
  have "of_char c = (of_char k :: nat) \<longleftrightarrow> c = k" for k
    by (simp add: of_char_eq_iff)
  from this [of "CHR 0x09"] this [of "CHR 0x0A"] this [of "CHR 0x0B"] this [of "CHR 0x0C"]
    this [of "CHR 0x0D"] this [of "CHR '' ''"]
  show ?thesis by (simp add: is_space_def) blast
qed

text \<open>\<open>hay.startsWith(p)\<close> and \<open>hay.includes(p)\<close>.\<close>

fun startsWith :: "string \<Rightarrow> string \<Rightarrow> bool" where
  "startsWith hay [] = True"
| "startsWith [] (p # ps) = False"
| "startsWith (h # hs) (p # ps) = (h = p \<and> startsWith hs ps)"

fun str_includes :: "string \<Rightarrow> string \<Rightarrow> bool" where
  "str_includes [] p = (p = [])"
| "str_includes (h # hs) p = (startsWith (h # hs) p \<or> str_includes hs p)"

text \<open>\<open>s.replace(/_/g, " ")\<close>.\<close>

definition unscore :: "string \<Rightarrow> string" where
  "unscore s = map (\<lambda>c. if c = CHR ''_'' then CHR '' '' else c) s"

text \<open>\<open>xs.join(sep)\<close>.\<close>

fun join :: "string \<Rightarrow> string list \<Rightarrow> string" where
  "join sep [] = []"
| "join sep [x] = x"
| "join sep (x # y # ys) = x @ sep @ join sep (y # ys)"

text \<open>\<open>s.split(/\s+/)\<close>: the pieces between runs of white space, the empty ones at the ends
  included.\<close>

fun split_ws_acc :: "string \<Rightarrow> string \<Rightarrow> bool \<Rightarrow> string list" where
  "split_ws_acc [] acc gap = [rev acc]"
| "split_ws_acc (c # cs) acc gap =
     (if is_space c then (if gap then split_ws_acc cs acc True
                          else rev acc # split_ws_acc cs [] True)
      else split_ws_acc cs (c # acc) False)"

definition split_ws :: "string \<Rightarrow> string list" where
  "split_ws s = split_ws_acc s [] False"

lemma startsWith_append [simp]: "startsWith (p @ s) p"
  by (induction p) auto

lemma startsWith_iff: "startsWith s p \<longleftrightarrow> (\<exists>r. s = p @ r)"
proof (induction s p rule: startsWith.induct)
  case (1 hay)
  then show ?case by simp
next
  case (2 p ps)
  then show ?case by simp
next
  case (3 h hs p ps)
  then show ?case by auto
qed

lemma str_includes_iff: "str_includes s p \<longleftrightarrow> (\<exists>a b. s = a @ p @ b)"
proof (induction s p rule: str_includes.induct)
  case (1 p)
  then show ?case by auto
next
  case (2 h hs p)
  have "(\<exists>a b. h # hs = a @ p @ b) \<longleftrightarrow> (\<exists>b. h # hs = p @ b) \<or> (\<exists>a b. hs = a @ p @ b)"
    (is "?L \<longleftrightarrow> ?R")
  proof
    assume ?L
    then obtain a b where ab: "h # hs = a @ p @ b" by blast
    show ?R
    proof (cases a)
      case Nil
      with ab show ?thesis by auto
    next
      case (Cons c cs)
      with ab show ?thesis by auto
    qed
  next
    assume ?R
    then show ?L
    proof
      assume "\<exists>b. h # hs = p @ b"
      then obtain b where "h # hs = [] @ p @ b" by auto
      then show ?L by blast
    next
      assume "\<exists>a b. hs = a @ p @ b"
      then obtain a b where "h # hs = (h # a) @ p @ b" by auto
      then show ?L by blast
    qed
  qed
  with 2 show ?case by (simp add: startsWith_iff)
qed

section \<open>Numbers as text\<close>

fun show_nat :: "nat \<Rightarrow> string" where
  "show_nat n = (if n < 10 then [digit_char n] else show_nat (n div 10) @ [digit_char (n mod 10)])"

declare show_nat.simps [simp del]

definition show_int :: "int \<Rightarrow> string" where
  "show_int i = (if i < 0 then CHR ''-'' # show_nat (nat (- i)) else show_nat (nat i))"

text \<open>
  \<open>String(x)\<close> for a number: an integer in decimal; otherwise the fraction's decimal digits, up
  to seventeen of them (every decimal fraction the data holds is printed in full).
\<close>

fun frac_digits :: "nat \<Rightarrow> rat \<Rightarrow> string" where
  "frac_digits 0 x = []"
| "frac_digits (Suc k) x =
     (if x = 0 then []
      else let y = x * 10; d = nat (floor y) in digit_char d # frac_digits k (y - of_nat d))"

definition show_num :: "rat \<Rightarrow> string" where
  "show_num x =
     (let a = \<bar>x\<bar>; i = nat (floor a); f = a - of_nat i
      in (if x < 0 then ''-'' else '''') @ show_nat i @
         (if f = 0 then [] else CHR ''.'' # frac_digits 17 f))"

text \<open>\<open>Math.round\<close>: to the nearest integer, ties upwards.\<close>

definition math_round :: "rat \<Rightarrow> int" where
  "math_round x = floor (x + 1 / 2)"

text \<open>\<open>parseInt(s, 10)\<close> on an unsigned prefix; \<open>None\<close> is \<open>NaN\<close>.\<close>

definition digits_value :: "string \<Rightarrow> nat" where
  "digits_value s = foldl (\<lambda>a c. 10 * a + digit_val c) 0 s"

definition parseInt :: "string \<Rightarrow> nat option" where
  "parseInt s = (let ds = takeWhile is_digit (dropWhile is_space s)
                 in if ds = [] then None else Some (digits_value ds))"

lemma of_char_digit_char: "n < 10 \<Longrightarrow> (of_char (digit_char n) :: nat) = 48 + n"
  by (simp add: digit_char_def)

lemma is_digit_digit_char [simp]: "n < 10 \<Longrightarrow> is_digit (digit_char n)"
  by (simp add: is_digit_def of_char_digit_char)

lemma digit_val_digit_char [simp]: "n < 10 \<Longrightarrow> digit_val (digit_char n) = n"
  by (simp add: digit_val_def of_char_digit_char)

lemma digit_not_space: "is_digit c \<Longrightarrow> \<not> is_space c"
  by (auto simp: is_digit_def is_space_def)

lemma show_nat_digits: "\<forall>c \<in> set (show_nat n). is_digit c"
proof (induction n rule: show_nat.induct)
  case (1 n)
  then show ?case by (subst show_nat.simps) auto
qed

lemma show_nat_ne [simp]: "show_nat n \<noteq> []"
  by (subst show_nat.simps) simp

text \<open>The digits of a date on binary integers, for evaluation.\<close>

definition int_digit :: "int \<Rightarrow> char" where
  "int_digit k =
     (if k = 0 then CHR ''0'' else if k = 1 then CHR ''1'' else if k = 2 then CHR ''2''
      else if k = 3 then CHR ''3'' else if k = 4 then CHR ''4'' else if k = 5 then CHR ''5''
      else if k = 6 then CHR ''6'' else if k = 7 then CHR ''7'' else if k = 8 then CHR ''8'' else CHR ''9'')"

definition int_two_digits :: "int \<Rightarrow> string" where
  "int_two_digits k = [int_digit (k div 10 mod 10), int_digit (k mod 10)]"

lemma digit_char_int: "n < 10 \<Longrightarrow> digit_char n = int_digit (int n)"
proof -
  assume "n < 10"
  then have "n \<in> {0, 1, 2, 3, 4, 5, 6, 7, 8, 9}" by auto
  moreover have "of_char (int_digit (int n)) = 48 + n" if "n \<in> {0, 1, 2, 3, 4, 5, 6, 7, 8, 9}"
    using that by (auto simp: int_digit_def)
  ultimately show ?thesis by (metis digit_char_def char_of_char)
qed

lemma is_digit_int [code]:
  "is_digit c \<longleftrightarrow> 48 \<le> (of_char c :: int) \<and> (of_char c :: int) \<le> 57"
  by (metis is_digit_def of_nat_le_iff of_nat_numeral of_nat_of_char)

definition int_digit_val :: "char \<Rightarrow> int" where
  "int_digit_val c = max 0 (of_char c - 48)"

lemma int_digits_value [code_unfold]:
  "int (digits_value s) = foldl (\<lambda>a c. 10 * a + int_digit_val c) 0 s"
proof -
  have d: "int (digit_val c) = int_digit_val c" for c
    using of_nat_of_char [where 'a = int, of c] by (simp add: digit_val_def int_digit_val_def max_def)
  show ?thesis
    by (induction s rule: rev_induct) (simp_all add: digits_value_def d)
qed

lemma digits_value_snoc: "digits_value (s @ [c]) = 10 * digits_value s + digit_val c"
  by (simp add: digits_value_def)

lemma digits_value_show_nat [simp]: "digits_value (show_nat n) = n"
proof (induction n rule: show_nat.induct)
  case (1 n)
  show ?case
  proof (cases "n < 10")
    case True
    then show ?thesis by (subst show_nat.simps) (simp add: digits_value_def)
  next
    case False
    then have "digits_value (show_nat n) = 10 * digits_value (show_nat (n div 10)) + n mod 10"
      by (subst show_nat.simps) (simp add: digits_value_snoc)
    also have "\<dots> = n" using 1 [OF False] by simp
    finally show ?thesis .
  qed
qed

lemma show_nat_inject [simp]: "show_nat m = show_nat n \<longleftrightarrow> m = n"
  by (metis digits_value_show_nat)

lemma takeWhile_show_nat:
  "\<not> is_digit c \<Longrightarrow> takeWhile is_digit (show_nat n @ c # s) = show_nat n"
  using show_nat_digits [of n] by simp

lemma dropWhile_space_show_nat: "dropWhile is_space (show_nat n @ s) = show_nat n @ s"
proof (cases "show_nat n")
  case Nil
  then show ?thesis by simp
next
  case (Cons a list)
  then have "is_digit a" using show_nat_digits [of n] by simp
  with Cons show ?thesis by (simp add: digit_not_space)
qed

lemma parseInt_show_nat: "\<not> is_digit c \<Longrightarrow> parseInt (show_nat n @ c # s) = Some n"
  by (simp add: parseInt_def Let_def dropWhile_space_show_nat takeWhile_show_nat)

section \<open>Option and list helpers\<close>

text \<open>\<open>x ?? d\<close> and \<open>x?.f\<close>.\<close>

definition or_else :: "'a option \<Rightarrow> 'a \<Rightarrow> 'a" where
  "or_else x d = (case x of None \<Rightarrow> d | Some v \<Rightarrow> v)"

lemma or_else_simps [simp]: "or_else None d = d" "or_else (Some v) d = v"
  by (simp_all add: or_else_def)

text \<open>JavaScript's \<open>a || b\<close> on numbers, as chained comparators use it.\<close>

definition js_or :: "int \<Rightarrow> int \<Rightarrow> int" where
  "js_or a b = (if a \<noteq> 0 then a else b)"

definition count_if :: "('a \<Rightarrow> bool) \<Rightarrow> 'a list \<Rightarrow> nat" where
  "count_if P xs = length (filter P xs)"

lemma count_if_simps [simp]:
  "count_if P [] = 0"
  "count_if P (x # xs) = (if P x then Suc (count_if P xs) else count_if P xs)"
  by (simp_all add: count_if_def)

lemma count_if_le: "count_if P xs \<le> length xs"
  by (simp add: count_if_def)

lemma count_if_disj:
  "(\<And>x. x \<in> set xs \<Longrightarrow> \<not> (P x \<and> Q x)) \<Longrightarrow>
   count_if (\<lambda>x. P x \<or> Q x) xs = count_if P xs + count_if Q xs"
  by (induction xs) auto

lemma count_if_inter:
  "count_if (\<lambda>x. P x \<or> Q x) xs + count_if (\<lambda>x. P x \<and> Q x) xs = count_if P xs + count_if Q xs"
  by (induction xs) auto

lemma count_if_zero: "count_if P xs = 0 \<longleftrightarrow> (\<forall>x \<in> set xs. \<not> P x)"
  by (induction xs) auto

lemma count_if_mono:
  "(\<And>x. x \<in> set xs \<Longrightarrow> P x \<Longrightarrow> Q x) \<Longrightarrow> count_if P xs \<le> count_if Q xs"
  by (induction xs) (auto simp: le_SucI)

lemma find_Some_mem: "find P xs = Some x \<Longrightarrow> x \<in> set xs \<and> P x"
  by (metis find_Some_iff nth_mem)

lemma find_None_all: "find P xs = None \<Longrightarrow> x \<in> set xs \<Longrightarrow> \<not> P x"
  by (simp add: find_None_iff)

lemma find_isSome: "x \<in> set xs \<Longrightarrow> P x \<Longrightarrow> \<exists>y. find P xs = Some y"
  by (metis find_None_iff not_None_eq)

lemma find_distinct:
  "distinct (map f xs) \<Longrightarrow> x \<in> set xs \<Longrightarrow> find (\<lambda>y. f y = f x) xs = Some x"
  by (induction xs) (auto simp: image_iff)

lemma str_includes_skip:
  "\<forall>c \<in> set p. c \<noteq> q \<Longrightarrow> str_includes (p @ s) (q # qs) = str_includes s (q # qs)"
  by (induction p) auto

lemma filter_nil_iff: "filter P xs = [] \<longleftrightarrow> (\<forall>x \<in> set xs. \<not> P x)"
  by (auto simp: filter_empty_conv)

text \<open>Grouping into a \<open>Map\<close>: keys in order of first insertion, each with its values in order.\<close>

fun group_add :: "'k \<Rightarrow> 'a \<Rightarrow> ('k \<times> 'a list) list \<Rightarrow> ('k \<times> 'a list) list" where
  "group_add k x [] = [(k, [x])]"
| "group_add k x ((j, ys) # g) = (if j = k then (j, ys @ [x]) # g else (j, ys) # group_add k x g)"

definition group_by :: "('a \<Rightarrow> 'k) \<Rightarrow> 'a list \<Rightarrow> ('k \<times> 'a list) list" where
  "group_by key xs = foldl (\<lambda>g x. group_add (key x) x g) [] xs"

lemma group_by_snoc: "group_by key (xs @ [x]) = group_add (key x) x (group_by key xs)"
  by (simp add: group_by_def)

lemma group_add_keys: "fst ` set (group_add k x g) = insert k (fst ` set g)"
  by (induction k x g rule: group_add.induct) auto

lemma group_add_distinct: "distinct (map fst g) \<Longrightarrow> distinct (map fst (group_add k x g))"
proof (induction k x g rule: group_add.induct)
  case (1 k x)
  then show ?case by simp
next
  case (2 k x j ys g)
  then show ?case using group_add_keys [of k x g] by (auto simp: image_iff)
qed

lemma group_by_distinct: "distinct (map fst (group_by key xs))"
  by (induction xs rule: rev_induct) (auto simp: group_by_snoc group_add_distinct group_by_def)

lemma group_by_keys: "fst ` set (group_by key xs) = key ` set xs"
proof (induction xs rule: rev_induct)
  case Nil
  then show ?case by (simp add: group_by_def)
next
  case (snoc x xs)
  then show ?case by (simp only: group_by_snoc group_add_keys) auto
qed

lemma group_add_mem:
  "distinct (map fst g) \<Longrightarrow> (j, ys) \<in> set (group_add k x g) \<longleftrightarrow>
     (if j = k then (\<exists>zs. (k, zs) \<in> set g \<and> ys = zs @ [x]) \<or> (k \<notin> fst ` set g \<and> ys = [x])
      else (j, ys) \<in> set g)"
proof (induction k x g rule: group_add.induct)
  case (1 k x)
  then show ?case by auto
next
  case (2 k x i zs g)
  show ?case
  proof (cases "i = k")
    case True
    with 2 show ?thesis by (auto simp: image_iff)
  next
    case False
    with 2 show ?thesis by (auto simp: image_iff)
  qed
qed

lemma group_by_mem: "(k, ys) \<in> set (group_by key xs) \<Longrightarrow> ys = filter (\<lambda>x. key x = k) xs"
proof (induction xs arbitrary: k ys rule: rev_induct)
  case Nil
  then show ?case by (simp add: group_by_def)
next
  case (snoc x xs)
  note mem = snoc.prems [unfolded group_by_snoc group_add_mem [OF group_by_distinct]]
  show ?case
  proof (cases "k = key x")
    case True
    with mem consider
        (old) zs where "(k, zs) \<in> set (group_by key xs)" "ys = zs @ [x]"
      | (new) "k \<notin> fst ` set (group_by key xs)" "ys = [x]"
      by auto
    then show ?thesis
    proof cases
      case old
      with snoc.IH [OF old(1)] True show ?thesis by simp
    next
      case new
      then have "k \<notin> key ` set xs" by (simp add: group_by_keys)
      then have "filter (\<lambda>y. key y = k) xs = []" by (auto simp: filter_empty_conv)
      with True new show ?thesis by simp
    qed
  next
    case False
    with mem have "(k, ys) \<in> set (group_by key xs)" by simp
    from snoc.IH [OF this] False show ?thesis by simp
  qed
qed

lemma group_by_ne: "(k, ys) \<in> set (group_by key xs) \<Longrightarrow> ys \<noteq> []"
proof -
  assume a: "(k, ys) \<in> set (group_by key xs)"
  then have "k \<in> key ` set xs" by (metis fst_conv group_by_keys image_eqI)
  with group_by_mem [OF a] show "ys \<noteq> []" by (auto simp: filter_empty_conv)
qed

end
