(* ===== verification/Contracts.thy ===== *)
theory Contracts
  imports Prelude
begin

text \<open>
  The interfaces the components share, as locales: what \<open>Array.sort\<close> may assume of a comparator
  and what it then promises, what an in-place update of one record of a store must keep, what a
  status classification is, and what makes a predicate an invariant of a deterministic machine.
  Every locale is interpreted on the program's own definitions in the theory of the component
  that provides them.
\<close>

section \<open>\<open>Array.sort\<close> with a comparator\<close>

text \<open>
  ECMAScript 2019 requires \<open>Array.prototype.sort\<close> to be stable when the comparator is consistent.
  The model inserts the elements from left to right, each before the first one that it precedes
  strictly; \<open>js_sort_unique\<close> shows that every stable sort gives the same list.
\<close>

fun js_insert :: "('a \<Rightarrow> 'a \<Rightarrow> int) \<Rightarrow> 'a \<Rightarrow> 'a list \<Rightarrow> 'a list" where
  "js_insert cmp x [] = [x]"
| "js_insert cmp x (y # ys) = (if cmp x y < 0 then x # y # ys else y # js_insert cmp x ys)"

definition js_sort :: "('a \<Rightarrow> 'a \<Rightarrow> int) \<Rightarrow> 'a list \<Rightarrow> 'a list" where
  "js_sort cmp xs = foldl (\<lambda>acc x. js_insert cmp x acc) [] xs"

lemma js_sort_Nil [simp]: "js_sort cmp [] = []"
  by (simp add: js_sort_def)

lemma js_sort_snoc: "js_sort cmp (xs @ [x]) = js_insert cmp x (js_sort cmp xs)"
  by (simp add: js_sort_def)

lemma mset_js_insert: "mset (js_insert cmp x xs) = add_mset x (mset xs)"
  by (induction xs) auto

lemma mset_js_sort [simp]: "mset (js_sort cmp xs) = mset xs"
  by (induction xs rule: rev_induct) (simp_all add: js_sort_snoc mset_js_insert)

lemma set_js_sort [simp]: "set (js_sort cmp xs) = set xs"
  by (metis mset_js_sort set_mset_mset)

lemma length_js_sort [simp]: "length (js_sort cmp xs) = length xs"
  by (metis mset_js_sort size_mset)

lemma set_js_insert [simp]: "set (js_insert cmp x xs) = insert x (set xs)"
  by (metis mset_js_insert set_mset_add_mset_insert set_mset_mset)

lemma js_sort_eq_Nil [simp]: "js_sort cmp xs = [] \<longleftrightarrow> xs = []"
  by (metis length_0_conv length_js_sort)

lemma count_if_js_sort [simp]: "count_if P (js_sort cmp xs) = count_if P xs"
  unfolding count_if_def by (metis mset_filter mset_js_sort size_mset)

definition localeCompare :: "string \<Rightarrow> string \<Rightarrow> int" where
  "localeCompare a b = (if a < b then - 1 else if a = b then 0 else 1)"

locale comparator =
  fixes cmp :: "'a \<Rightarrow> 'a \<Rightarrow> int"
  assumes antisym: "sgn (cmp y x) = - sgn (cmp x y)"
    and trans: "cmp x y \<le> 0 \<Longrightarrow> cmp y z \<le> 0 \<Longrightarrow> cmp x z \<le> 0"
begin

lemma neg_flip: "cmp x y < 0 \<longleftrightarrow> 0 < cmp y x"
  using antisym [of y x] by (simp add: sgn_if split: if_splits)

lemma total: "\<not> cmp x y < 0 \<Longrightarrow> cmp y x \<le> 0"
  using neg_flip [of x y] by linarith

lemma refl0 [simp]: "cmp x x = 0"
  using antisym [of x x] by (simp add: sgn_if split: if_splits)

lemma zero_sym: "cmp x y = 0 \<longleftrightarrow> cmp y x = 0"
  using neg_flip [of x y] neg_flip [of y x] by linarith

lemma zero_trans: "cmp x y = 0 \<Longrightarrow> cmp y z = 0 \<Longrightarrow> cmp x z = 0"
  using trans [of x y z] trans [of z y x] zero_sym [of x y] zero_sym [of y z] neg_flip [of x z]
  by linarith

lemma zero_class: "cmp x y = 0 \<Longrightarrow> cmp z y = 0 \<longleftrightarrow> cmp z x = 0"
  using zero_trans [of z y x] zero_trans [of z x y] zero_sym [of x y] by blast

lemma js_insert_sorted:
  "sorted_wrt (\<lambda>x y. cmp x y \<le> 0) xs \<Longrightarrow> sorted_wrt (\<lambda>x y. cmp x y \<le> 0) (js_insert cmp x xs)"
proof (induction xs)
  case Nil
  then show ?case by simp
next
  case (Cons y ys)
  show ?case
  proof (cases "cmp x y < 0")
    case True
    then show ?thesis using Cons.prems by (auto intro: trans [of x y])
  next
    case False
    with Cons show ?thesis by (auto simp: total)
  qed
qed

lemma js_sort_sorted: "sorted_wrt (\<lambda>x y. cmp x y \<le> 0) (js_sort cmp xs)"
  by (induction xs rule: rev_induct) (simp_all add: js_sort_snoc js_insert_sorted)

text \<open>The first element of a sorted array precedes or equals every other one.\<close>

lemma js_sort_head:
  assumes "js_sort cmp xs = b # bs" and "y \<in> set xs"
  shows "cmp b y \<le> 0"
proof -
  from assms(2) have "y \<in> set (b # bs)" by (metis assms(1) set_js_sort)
  moreover have "sorted_wrt (\<lambda>x y. cmp x y \<le> 0) (b # bs)"
    using js_sort_sorted [of xs] by (simp only: assms(1))
  ultimately show ?thesis by auto
qed

lemma js_insert_class:
  "sorted_wrt (\<lambda>x y. cmp x y \<le> 0) xs \<Longrightarrow>
   filter (\<lambda>z. cmp z y = 0) (js_insert cmp x xs) =
   filter (\<lambda>z. cmp z y = 0) xs @ (if cmp x y = 0 then [x] else [])"
proof (induction xs)
  case Nil
  then show ?case by simp
next
  case (Cons a as)
  show ?case
  proof (cases "cmp x a < 0")
    case True
    have "cmp x y \<noteq> 0" if "cmp z y = 0" "z \<in> set (a # as)" for z
    proof
      assume "cmp x y = 0"
      with that(1) have "cmp z x = 0" using zero_class [of x y z] by (simp add: zero_sym)
      moreover have "cmp a z \<le> 0" using that(2) Cons.prems by auto
      ultimately have "cmp a x \<le> 0" using trans [of a z x] by simp
      with True show False using neg_flip [of x a] by simp
    qed
    then have "cmp x y = 0 \<Longrightarrow> filter (\<lambda>z. cmp z y = 0) (a # as) = []"
      by (metis (mono_tags, lifting) filter_False)
    with True show ?thesis by auto
  next
    case False
    with Cons show ?thesis by auto
  qed
qed

text \<open>Stability: the elements that compare equal keep their order.\<close>

lemma js_sort_stable:
  "filter (\<lambda>z. cmp z y = 0) (js_sort cmp xs) = filter (\<lambda>z. cmp z y = 0) xs"
  by (induction xs rule: rev_induct) (simp_all add: js_sort_snoc js_insert_class js_sort_sorted)

lemma sorted_stable_unique:
  assumes "sorted_wrt (\<lambda>x y. cmp x y \<le> 0) xs" and "sorted_wrt (\<lambda>x y. cmp x y \<le> 0) ys"
    and "\<And>y. filter (\<lambda>z. cmp z y = 0) xs = filter (\<lambda>z. cmp z y = 0) ys"
  shows "xs = ys"
  using assms
proof (induction xs arbitrary: ys)
  case Nil
  show ?case
  proof (cases ys)
    case Nil
    then show ?thesis by simp
  next
    case (Cons y zs)
    have "[] = filter (\<lambda>z. cmp z y = 0) ys" using Nil.prems(3) [of y] by simp
    then show ?thesis using Cons by simp
  qed
next
  case (Cons x xs)
  have x_ys: "x \<in> set ys"
  proof -
    have "x \<in> set (filter (\<lambda>z. cmp z x = 0) (x # xs))" by simp
    then have "x \<in> set (filter (\<lambda>z. cmp z x = 0) ys)" by (simp only: Cons.prems(3))
    then show ?thesis by simp
  qed
  then obtain y zs where ys: "ys = y # zs" by (cases ys) auto
  have y_xs: "y \<in> set (x # xs)"
  proof -
    have "y \<in> set (filter (\<lambda>z. cmp z y = 0) ys)" using ys by simp
    then have "y \<in> set (filter (\<lambda>z. cmp z y = 0) (x # xs))" by (simp only: Cons.prems(3))
    then show ?thesis by (auto split: if_splits)
  qed
  have "cmp y x \<le> 0" using x_ys ys Cons.prems(2) by auto
  moreover have "cmp x y \<le> 0" using y_xs Cons.prems(1) by auto
  ultimately have xy: "cmp y x = 0" using neg_flip [of y x] by linarith
  have "x = y" using Cons.prems(3) [of x] ys xy by simp
  moreover have "xs = zs"
  proof (rule Cons.IH)
    show "sorted_wrt (\<lambda>x y. cmp x y \<le> 0) xs" using Cons.prems(1) by simp
    show "sorted_wrt (\<lambda>x y. cmp x y \<le> 0) zs" using Cons.prems(2) ys by simp
    show "filter (\<lambda>z. cmp z w = 0) xs = filter (\<lambda>z. cmp z w = 0) zs" for w
      using Cons.prems(3) [of w] ys \<open>x = y\<close> by (auto split: if_splits)
  qed
  ultimately show ?case using ys by simp
qed

lemma js_sort_unique:
  assumes "sorted_wrt (\<lambda>x y. cmp x y \<le> 0) ys"
    and "\<And>y. filter (\<lambda>z. cmp z y = 0) ys = filter (\<lambda>z. cmp z y = 0) xs"
  shows "js_sort cmp xs = ys"
  by (rule sorted_stable_unique) (simp_all add: js_sort_sorted js_sort_stable assms)

end

text \<open>The usual comparators: a difference of integer ranks, a string key, and their chains.\<close>

locale rank_comparator =
  fixes rank :: "'a \<Rightarrow> int"

sublocale rank_comparator \<subseteq> by_rank: comparator "\<lambda>x y. rank x - rank y"
  by unfold_locales (auto simp: sgn_if)

locale text_comparator =
  fixes text_key :: "'a \<Rightarrow> string"

sublocale text_comparator \<subseteq> ascending: comparator "\<lambda>x y. localeCompare (text_key x) (text_key y)"
  by unfold_locales (auto simp: localeCompare_def sgn_if split: if_splits)

sublocale text_comparator \<subseteq> descending: comparator "\<lambda>x y. localeCompare (text_key y) (text_key x)"
  by unfold_locales (auto simp: localeCompare_def sgn_if split: if_splits)

lemma sgn_js_or: "sgn (js_or a b) = js_or (sgn a) (sgn b)"
  by (simp add: js_or_def sgn_if)

lemma comparator_chain:
  assumes "comparator c" and "comparator d"
  shows "comparator (\<lambda>x y. js_or (c x y) (d x y))"
proof
  fix x y z
  show "sgn (js_or (c y x) (d y x)) = - sgn (js_or (c x y) (d x y))"
    using comparator.antisym [OF assms(1), of y x] comparator.antisym [OF assms(2), of y x]
    by (auto simp: sgn_js_or js_or_def sgn_0_0)
  assume xy: "js_or (c x y) (d x y) \<le> 0" and yz: "js_or (c y z) (d y z) \<le> 0"
  have c: "c x y \<le> 0" "c y z \<le> 0" using xy yz by (auto simp: js_or_def split: if_splits)
  then have cxz: "c x z \<le> 0" by (rule comparator.trans [OF assms(1)])
  show "js_or (c x z) (d x z) \<le> 0"
  proof (cases "c x z = 0")
    case False
    with cxz show ?thesis by (simp add: js_or_def)
  next
    case True
    then have "c z x = 0" using comparator.zero_sym [OF assms(1)] by blast
    then have "c y x \<le> 0" "c z y \<le> 0"
      using c comparator.trans [OF assms(1), of y z x] comparator.trans [OF assms(1), of z x y]
      by simp_all
    then have "c x y = 0" "c y z = 0"
      using c comparator.neg_flip [OF assms(1)] by (metis linorder_not_less order_less_le)+
    then have "d x z \<le> 0" using xy yz comparator.trans [OF assms(2), of x y z]
      by (simp add: js_or_def)
    with True show ?thesis by (simp add: js_or_def)
  qed
qed

section \<open>In-place update of one record of a store\<close>

text \<open>
  The stores are arrays; \<open>const w = xs.find((x) => x.id === id)\<close> followed by assignments to
  fields of \<open>w\<close> changes the first record with that id, in place.
\<close>

fun update_first :: "('a \<Rightarrow> bool) \<Rightarrow> ('a \<Rightarrow> 'a) \<Rightarrow> 'a list \<Rightarrow> 'a list" where
  "update_first P f [] = []"
| "update_first P f (x # xs) = (if P x then f x # xs else x # update_first P f xs)"

text \<open>\<open>findIndex\<close> and \<open>splice(idx, 1)\<close>.\<close>

fun remove_first :: "('a \<Rightarrow> bool) \<Rightarrow> 'a list \<Rightarrow> 'a list" where
  "remove_first P [] = []"
| "remove_first P (x # xs) = (if P x then xs else x # remove_first P xs)"

lemma length_update_first [simp]: "length (update_first P f xs) = length xs"
  by (induction xs) auto

lemma update_first_none: "find P xs = None \<Longrightarrow> update_first P f xs = xs"
  by (induction xs) (auto split: if_splits)

lemma set_update_first:
  "y \<in> set (update_first P f xs) \<Longrightarrow> y \<in> set xs \<or> (\<exists>x. find P xs = Some x \<and> y = f x)"
  by (induction xs) (auto split: if_splits)

lemma update_first_split:
  "find P xs = Some x \<Longrightarrow> \<exists>as bs. xs = as @ x # bs \<and> (\<forall>a \<in> set as. \<not> P a) \<and>
     update_first P f xs = as @ f x # bs"
proof (induction xs)
  case Nil
  then show ?case by simp
next
  case (Cons y ys)
  show ?case
  proof (cases "P y")
    case True
    with Cons.prems show ?thesis by (intro exI [of _ "[]"] exI [of _ ys]) simp
  next
    case False
    with Cons.prems have "find P ys = Some x" by simp
    from Cons.IH [OF this] obtain as bs
      where "ys = as @ x # bs" "\<forall>a \<in> set as. \<not> P a" "update_first P f ys = as @ f x # bs"
      by blast
    with False show ?thesis by (intro exI [of _ "y # as"] exI [of _ bs]) simp
  qed
qed

lemma remove_first_subset: "set (remove_first P xs) \<subseteq> set xs"
  by (induction xs) auto

lemma remove_first_length: "find P xs = Some x \<Longrightarrow> length xs = Suc (length (remove_first P xs))"
  by (induction xs) (auto split: if_splits)

lemma remove_first_mset:
  "find P xs = Some x \<Longrightarrow> mset xs = add_mset x (mset (remove_first P xs))"
  by (induction xs) (auto split: if_splits)

locale keyed_update =
  fixes key :: "'r \<Rightarrow> 'k" and upd :: "'r \<Rightarrow> 'r"
  assumes key_upd: "key (upd r) = key r"
begin

lemma find_update_same:
  "find (\<lambda>r. key r = k) xs = Some r \<Longrightarrow>
   find (\<lambda>r. key r = k) (update_first (\<lambda>r. key r = k) upd xs) = Some (upd r)"
  by (induction xs) (auto simp: key_upd split: if_splits)

lemma find_update_other:
  "j \<noteq> k \<Longrightarrow>
   find (\<lambda>r. key r = j) (update_first (\<lambda>r. key r = k) upd xs) = find (\<lambda>r. key r = j) xs"
  by (induction xs) (auto simp: key_upd)

lemma find_update:
  "find (\<lambda>r. key r = j) (update_first (\<lambda>r. key r = k) upd xs) =
   (if j = k then map_option upd (find (\<lambda>r. key r = k) xs) else find (\<lambda>r. key r = j) xs)"
  by (cases "find (\<lambda>r. key r = k) xs")
    (auto simp: find_update_same find_update_other update_first_none)

lemma keys_update: "map key (update_first P upd xs) = map key xs"
  by (induction xs) (auto simp: key_upd)

lemma filter_update_inv:
  "(\<And>r. Q (upd r) \<longleftrightarrow> Q r) \<Longrightarrow> count_if Q (update_first P upd xs) = count_if Q xs"
  by (induction xs) auto

end

section \<open>Classification into finitely many statuses\<close>

text \<open>A summary that counts a population per status accounts for every member exactly once.\<close>

locale status_partition =
  fixes classify :: "'a \<Rightarrow> 's" and statuses :: "'s list"
  assumes distinct_statuses: "distinct statuses"
    and classify_in: "classify x \<in> set statuses"
begin

lemma sum_list_indicator:
  "distinct ss \<Longrightarrow> (\<Sum>s \<leftarrow> ss. if c = s then 1 else (0::nat)) = (if c \<in> set ss then 1 else 0)"
  by (induction ss) auto

lemma summary_total: "(\<Sum>s \<leftarrow> statuses. count_if (\<lambda>x. classify x = s) xs) = length xs"
proof (induction xs)
  case Nil
  then show ?case by (induction statuses) auto
next
  case (Cons x xs)
  have "(\<Sum>s \<leftarrow> statuses. count_if (\<lambda>x. classify x = s) (x # xs)) =
        (\<Sum>s \<leftarrow> statuses. (if classify x = s then 1 else 0) + count_if (\<lambda>x. classify x = s) xs)"
    by (rule arg_cong [where f = sum_list]) (rule map_cong, auto)
  also have "\<dots> = 1 + length xs"
    using sum_list_indicator [OF distinct_statuses, of "classify x"] classify_in [of x] Cons.IH
    by (simp add: sum_list_addf)
  finally show ?case by simp
qed

end

section \<open>Deterministic machines and their invariants\<close>

text \<open>
  A component whose operations change a state: \<open>step\<close> runs one operation, \<open>inv\<close> holds of the
  state. Every run of operations keeps what every operation keeps.
\<close>

fun run :: "('s \<Rightarrow> 'e \<Rightarrow> 's) \<Rightarrow> 's \<Rightarrow> 'e list \<Rightarrow> 's" where
  "run step s [] = s"
| "run step s (e # es) = run step (step s e) es"

lemma run_append: "run step s (es @ fs) = run step (run step s es) fs"
  by (induction es arbitrary: s) auto

locale machine =
  fixes step :: "'s \<Rightarrow> 'e \<Rightarrow> 's" and inv :: "'s \<Rightarrow> bool"
  assumes step_inv: "inv s \<Longrightarrow> inv (step s e)"
begin

lemma run_inv: "inv s \<Longrightarrow> inv (run step s es)"
  by (induction es arbitrary: s) (auto simp: step_inv)

end

text \<open>A relation between the state before and after that composes along a run.\<close>

locale monotone_machine =
  fixes step :: "'s \<Rightarrow> 'e \<Rightarrow> 's" and rel :: "'s \<Rightarrow> 's \<Rightarrow> bool"
  assumes rel_refl: "rel s s"
    and rel_trans: "rel s t \<Longrightarrow> rel t u \<Longrightarrow> rel s u"
    and step_rel: "rel s (step s e)"
begin

lemma run_rel: "rel s (run step s es)"
proof (induction es arbitrary: s)
  case Nil
  then show ?case by (simp add: rel_refl)
next
  case (Cons e es)
  have "rel (step s e) (run step (step s e) es)" by (rule Cons.IH)
  with step_rel [of s e] show ?case by (auto intro: rel_trans)
qed

end

end
