(* ===== verification/Dates.thy ===== *)
theory Dates
  imports Contracts
begin

text \<open>
  The calendar arithmetic behind \<open>new Date(iso)\<close>, \<open>getTime()\<close> and \<open>toISOString()\<close>: the day number of
  ECMAScript's \<open>DayFromYear\<close> formula, the parser of the two formats the data holds
  (\<open>YYYY-MM-DD\<close> and \<open>YYYY-MM-DDTHH:mm:ss[.mmm]Z\<close>) and the printer. An unparsable date is \<open>None\<close>
  (\<open>NaN\<close>); arithmetic on it stays \<open>None\<close> and every comparison with it is false. The time zone is UTC.
  The last section shows that the order of the strings is the order of the days, which is what the
  code uses when it compares ISO dates with \<open><\<close> and \<open>localeCompare\<close>.
\<close>

section \<open>Day numbers\<close>

definition is_leap :: "int \<Rightarrow> bool" where
  "is_leap y \<longleftrightarrow> y mod 4 = 0 \<and> (y mod 100 \<noteq> 0 \<or> y mod 400 = 0)"

definition day_from_year :: "int \<Rightarrow> int" where
  "day_from_year y = 365 * (y - 1970) + (y - 1969) div 4 - (y - 1901) div 100 + (y - 1601) div 400"

definition days_in_month :: "int \<Rightarrow> int \<Rightarrow> int" where
  "days_in_month y m =
     (if m = 2 then (if is_leap y then 29 else 28)
      else if m = 4 \<or> m = 6 \<or> m = 9 \<or> m = 11 then 30 else 31)"

fun days_before :: "int \<Rightarrow> nat \<Rightarrow> int" where
  "days_before y 0 = 0"
| "days_before y (Suc k) = days_before y k + days_in_month y (int k + 1)"

text \<open>Month \<open>m\<close> counts from 1.\<close>

definition day_number :: "int \<Rightarrow> nat \<Rightarrow> int \<Rightarrow> int" where
  "day_number y m d = day_from_year y + days_before y (m - 1) + (d - 1)"

definition valid_date :: "int \<Rightarrow> nat \<Rightarrow> int \<Rightarrow> bool" where
  "valid_date y m d \<longleftrightarrow> 0 \<le> y \<and> y \<le> 9999 \<and> 1 \<le> m \<and> m \<le> 12 \<and> 1 \<le> d \<and> d \<le> days_in_month y (int m)"

lemma div_succ: "0 < k \<Longrightarrow> (x + 1) div k = x div k + (if (x + 1) mod k = 0 then 1 else (0::int))"
proof -
  assume k: "0 < k"
  have x: "x = k * (x div k) + x mod k" by simp
  have r: "0 \<le> x mod k" "x mod k < k" using k by simp_all
  show ?thesis
  proof (cases "x mod k + 1 = k")
    case True
    then have "x + 1 = k * (x div k + 1) + 0" using x unfolding distrib_left by linarith
    then have "(x + 1) div k = x div k + 1" "(x + 1) mod k = 0"
      using k int_div_pos_eq int_mod_pos_eq by blast+
    then show ?thesis by simp
  next
    case False
    have "x + 1 = k * (x div k) + (x mod k + 1)" using x by simp
    moreover have "0 \<le> x mod k + 1" "x mod k + 1 < k" using r False by simp_all
    ultimately have "(x + 1) div k = x div k" "(x + 1) mod k = x mod k + 1"
      using int_div_pos_eq int_mod_pos_eq by blast+
    then show ?thesis using r by simp
  qed
qed

lemma year_sum:
  "365 * (y + 1 - 1970) + (p + a) - (q + b) + (r + c) =
   365 * (y - 1970) + p - q + r + 365 + a - b + (c::int)"
  by simp

lemma leap_sum:
  "(c \<Longrightarrow> b) \<Longrightarrow> (b \<Longrightarrow> a) \<Longrightarrow>
   s + 365 + (if a then 1 else 0) - (if b then 1 else 0) + (if c then 1 else 0) =
   s + (if a \<and> (\<not> b \<or> c) then 366 else (365::int))"
  by (cases a; cases b; cases c) simp_all

lemma day_from_year_Suc: "day_from_year (y + 1) = day_from_year y + (if is_leap y then 366 else 365)"
proof -
  have a: "(y - 1968) div 4 = (y - 1969) div 4 + (if y mod 4 = 0 then 1 else 0)"
    using div_succ [of 4 "y - 1969"] mod_mult_self1 [of y "- 492" 4] by simp
  have b: "(y - 1900) div 100 = (y - 1901) div 100 + (if y mod 100 = 0 then 1 else 0)"
    using div_succ [of 100 "y - 1901"] mod_mult_self1 [of y "- 19" 100] by simp
  have c: "(y - 1600) div 400 = (y - 1601) div 400 + (if y mod 400 = 0 then 1 else 0)"
    using div_succ [of 400 "y - 1601"] mod_mult_self1 [of y "- 4" 400] by simp
  have d: "y mod 400 = 0 \<Longrightarrow> y mod 100 = 0" "y mod 100 = 0 \<Longrightarrow> y mod 4 = 0"
    using mod_mod_cancel [of 100 400 y] mod_mod_cancel [of 4 100 y] by simp_all
  have e: "y + 1 - 1969 = y - 1968" "y + 1 - 1901 = y - 1900" "y + 1 - 1601 = y - 1600" by simp_all
  have "day_from_year (y + 1) = day_from_year y + 365 + (if y mod 4 = 0 then 1 else 0)
      - (if y mod 100 = 0 then 1 else 0) + (if y mod 400 = 0 then 1 else 0)"
    unfolding day_from_year_def e a b c by (rule year_sum)
  also have "\<dots> = day_from_year y + (if is_leap y then 366 else 365)"
    unfolding is_leap_def by (rule leap_sum) (rule d, assumption)+
  finally show ?thesis .
qed

lemma day_from_year_add: "day_from_year y + 365 * int k \<le> day_from_year (y + int k)"
proof (induction k)
  case 0
  then show ?case by simp
next
  case (Suc k)
  then show ?case using day_from_year_Suc [of "y + int k"] by (simp add: algebra_simps split: if_splits)
qed

lemma day_from_year_mono: "y \<le> z \<Longrightarrow> day_from_year y \<le> day_from_year z"
  using day_from_year_add [of y "nat (z - y)"] by simp

lemma days_in_month_pos: "28 \<le> days_in_month y m"
  by (simp add: days_in_month_def)

lemma days_before_mono: "j \<le> k \<Longrightarrow> days_before y j \<le> days_before y k"
proof (induction k)
  case 0
  then show ?case by simp
next
  case (Suc k)
  then show ?case using days_in_month_pos [of y "int k + 1"] by (cases "j = Suc k") auto
qed

lemma days_before_12: "days_before y 12 = (if is_leap y then 366 else 365)"
  by (simp add: eval_nat_numeral days_in_month_def)

lemma days_before_nonneg: "0 \<le> days_before y k"
  using days_before_mono [of 0 k y] by simp

lemma day_number_in_month:
  assumes "valid_date y m d"
  shows "day_from_year y + days_before y (m - 1) \<le> day_number y m d"
    and "day_number y m d < day_from_year y + days_before y m"
proof -
  obtain k where m: "m = Suc k" using assms by (cases m) (simp_all add: valid_date_def)
  have "days_before y m = days_before y (m - 1) + days_in_month y (int m)"
    by (simp add: m add.commute)
  then show "day_number y m d < day_from_year y + days_before y m"
    using assms by (simp add: day_number_def valid_date_def)
  show "day_from_year y + days_before y (m - 1) \<le> day_number y m d"
    using assms by (simp add: day_number_def valid_date_def)
qed

lemma day_number_in_year:
  assumes "valid_date y m d"
  shows "day_from_year y \<le> day_number y m d" and "day_number y m d < day_from_year (y + 1)"
proof -
  show "day_from_year y \<le> day_number y m d"
    using day_number_in_month(1) [OF assms] days_before_nonneg [of y "m - 1"] by linarith
  have "days_before y m \<le> days_before y 12"
    using assms by (intro days_before_mono) (simp add: valid_date_def)
  then show "day_number y m d < day_from_year (y + 1)"
    using day_number_in_month(2) [OF assms] by (simp add: day_from_year_Suc days_before_12 split: if_splits)
qed

lemma day_number_less:
  assumes "valid_date y m d" and "valid_date z n e"
    and "y < z \<or> y = z \<and> (m < n \<or> m = n \<and> d < e)"
  shows "day_number y m d < day_number z n e"
  using assms(3)
proof (elim disjE conjE)
  assume "y < z"
  then have "day_from_year (y + 1) \<le> day_from_year z" by (intro day_from_year_mono) simp
  then show ?thesis
    using day_number_in_year(2) [OF assms(1)] day_number_in_year(1) [OF assms(2)] by linarith
next
  assume yz: "y = z" and "m < n"
  then have "days_before y m \<le> days_before y (n - 1)" by (intro days_before_mono) simp
  then show ?thesis
    using day_number_in_month(2) [OF assms(1)] day_number_in_month(1) [OF assms(2)] yz by simp
next
  assume "y = z" "m = n" "d < e"
  then show ?thesis by (simp add: day_number_def)
qed

section \<open>Reading and printing\<close>

definition ms_per_day :: int where
  "ms_per_day = 86400000"

definition all_digits :: "string \<Rightarrow> bool" where
  "all_digits s \<longleftrightarrow> list_all is_digit s"

text \<open>The day number of an ISO date \<open>YYYY-MM-DD\<close>.\<close>

definition parse_day :: "string \<Rightarrow> int option" where
  "parse_day s =
     (if length s = 10 \<and> s ! 4 = CHR ''-'' \<and> s ! 7 = CHR ''-'' \<and>
         all_digits (take 4 s) \<and> all_digits (take 2 (drop 5 s)) \<and> all_digits (drop 8 s)
      then let y = int (digits_value (take 4 s)); m = digits_value (take 2 (drop 5 s));
               d = int (digits_value (drop 8 s))
           in if valid_date y m d then Some (day_number y m d) else None
      else None)"

text \<open>The milliseconds of a time \<open>HH:mm:ss\<close> or \<open>HH:mm:ss.mmm\<close>.\<close>

definition parse_clock :: "string \<Rightarrow> int option" where
  "parse_clock s =
     (if (length s = 8 \<or> length s = 12 \<and> s ! 8 = CHR ''.'' \<and> all_digits (drop 9 s)) \<and>
         s ! 2 = CHR '':'' \<and> s ! 5 = CHR '':'' \<and>
         all_digits (take 2 s) \<and> all_digits (take 2 (drop 3 s)) \<and> all_digits (take 2 (drop 6 s))
      then let h = int (digits_value (take 2 s)); m = int (digits_value (take 2 (drop 3 s)));
               sec = int (digits_value (take 2 (drop 6 s))); ms = int (digits_value (drop 9 s))
           in if h < 24 \<and> m < 60 \<and> sec < 60 then Some (((h * 60 + m) * 60 + sec) * 1000 + ms) else None
      else None)"

text \<open>\<open>new Date(s).getTime()\<close>.\<close>

definition getTime :: "string \<Rightarrow> int option" where
  "getTime s =
     (if length s = 10 then map_option (\<lambda>d. d * ms_per_day) (parse_day s)
      else if 10 < length s \<and> s ! 10 = CHR ''T'' \<and> last s = CHR ''Z'' then
        (case (parse_day (take 10 s), parse_clock (butlast (drop 11 s))) of
           (Some d, Some t) \<Rightarrow> Some (d * ms_per_day + t)
         | _ \<Rightarrow> None)
      else None)"

text \<open>\<open>Math.round((new Date(a).getTime() - new Date(b).getTime()) / 86400000)\<close>.\<close>

definition daysBetween :: "string \<Rightarrow> string \<Rightarrow> int option" where
  "daysBetween a b =
     (case (getTime a, getTime b) of
        (Some x, Some y) \<Rightarrow> Some (math_round (of_int (x - y) / of_int ms_per_day))
      | _ \<Rightarrow> None)"

definition two_digits :: "nat \<Rightarrow> string" where
  "two_digits n = [digit_char (n div 10 mod 10), digit_char (n mod 10)]"

definition four_digits :: "nat \<Rightarrow> string" where
  "four_digits n = two_digits (n div 100) @ two_digits n"

definition iso_date :: "int \<Rightarrow> nat \<Rightarrow> int \<Rightarrow> string" where
  "iso_date y m d = four_digits (nat y) @ ''-'' @ two_digits m @ ''-'' @ two_digits (nat d)"

lemma two_digits_int: "two_digits n = int_two_digits (int n)"
  by (simp add: two_digits_def int_two_digits_def digit_char_int zdiv_int zmod_int)

lemma iso_date_code [code]:
  "iso_date y m d =
     (let y = max 0 y in int_two_digits (y div 100) @ int_two_digits y) @ ''-'' @
     int_two_digits (int m) @ ''-'' @ int_two_digits (max 0 d)"
  by (simp add: iso_date_def four_digits_def two_digits_int zdiv_int Let_def max.commute)
text \<open>The year and the month of a day number, as \<open>YearFromTime\<close> and \<open>MonthFromTime\<close> find them.\<close>

function year_from :: "int \<Rightarrow> int \<Rightarrow> int" where
  "year_from y n = (if day_from_year (y + 1) \<le> n then year_from (y + 1) n else y)"
  by auto
termination
proof (relation "measure (\<lambda>(y, n). nat (n + 1 - day_from_year y))")
  show "wf (measure (\<lambda>(y, n). nat (n + 1 - day_from_year y)))" by simp
  fix y n :: int
  assume "day_from_year (y + 1) \<le> n"
  then show "((y + 1, n), (y, n)) \<in> measure (\<lambda>(y, n). nat (n + 1 - day_from_year y))"
    using day_from_year_Suc [of y] by (simp split: if_splits)
qed

declare year_from.simps [simp del]

fun month_from :: "int \<Rightarrow> int \<Rightarrow> nat \<Rightarrow> nat \<Rightarrow> nat" where
  "month_from y r m 0 = m"
| "month_from y r m (Suc k) = (if r < days_before y m then m else month_from y r (Suc m) k)"

definition first_guess :: "int \<Rightarrow> int" where
  "first_guess n = (if 0 \<le> n then 1970 + n div 366 else 1969 + n div 365)"

text \<open>\<open>toISOString().slice(0, 10)\<close> of midnight of the day, for the years 0 to 9999.\<close>

definition iso_of_day :: "int \<Rightarrow> string" where
  "iso_of_day n =
     (let y = year_from (first_guess n) n; r = n - day_from_year y; m = month_from y r 1 11
      in iso_date y m (r - days_before y (m - 1) + 1))"

lemma day_from_year_upper: "day_from_year (y + int k) \<le> day_from_year y + 366 * int k"
proof (induction k)
  case 0
  then show ?case by simp
next
  case (Suc k)
  then show ?case using day_from_year_Suc [of "y + int k"] by (simp add: algebra_simps split: if_splits)
qed

lemma first_guess_le: "day_from_year (first_guess n) \<le> n"
proof (cases "0 \<le> n")
  case True
  have "day_from_year (1970 + int (nat (n div 366))) \<le> day_from_year 1970 + 366 * int (nat (n div 366))"
    by (rule day_from_year_upper)
  moreover have "day_from_year 1970 = 0" by (simp add: day_from_year_def)
  ultimately show ?thesis using True by (simp add: first_guess_def pos_imp_zdiv_nonneg_iff)
next
  case False
  define k where "k = nat (1 - n div 365)"
  have neg: "n div 365 < 0" using False by (simp add: neg_imp_zdiv_neg_iff)
  have "day_from_year (1970 - int k) + 365 * int k \<le> day_from_year (1970 - int k + int k)"
    by (rule day_from_year_add)
  moreover have "day_from_year 1970 = 0" by (simp add: day_from_year_def)
  moreover have "1970 - int k = first_guess n" using False neg by (simp add: k_def first_guess_def)
  ultimately show ?thesis using neg by (simp add: k_def)
qed

lemma year_from_bounds:
  "day_from_year y \<le> n \<Longrightarrow>
   day_from_year (year_from y n) \<le> n \<and> n < day_from_year (year_from y n + 1)"
proof (induction y n rule: year_from.induct)
  case (1 y n)
  then show ?case by (subst (1 2) year_from.simps) auto
qed

lemma year_unique:
  assumes "day_from_year y \<le> n" "n < day_from_year (y + 1)" "day_from_year z \<le> n" "n < day_from_year (z + 1)"
  shows "y = z"
  using assms day_from_year_mono [of "y + 1" z] day_from_year_mono [of "z + 1" y] by linarith

lemma month_from_eq:
  assumes "1 \<le> j" "j \<le> m" "m \<le> j + k" "days_before y (m - 1) \<le> r" "r < days_before y m"
  shows "month_from y r j k = m"
  using assms
proof (induction k arbitrary: j)
  case 0
  then show ?case by simp
next
  case (Suc k)
  show ?case
  proof (cases "j = m")
    case True
    with Suc.prems show ?thesis by simp
  next
    case False
    with Suc.prems have "j \<le> m - 1" by simp
    then have "days_before y j \<le> r" using Suc.prems days_before_mono [of j "m - 1" y] by linarith
    with False Suc.prems show ?thesis by (simp add: Suc.IH)
  qed
qed

lemma iso_of_day_number:
  assumes "valid_date y m d"
  shows "iso_of_day (day_number y m d) = iso_date y m d"
proof -
  let ?n = "day_number y m d"
  have y: "year_from (first_guess ?n) ?n = y"
    using year_from_bounds [OF first_guess_le [of ?n]] day_number_in_year [OF assms]
    by (intro year_unique) auto
  have m: "month_from y (?n - day_from_year y) 1 11 = m"
    using assms day_number_in_month [OF assms] by (intro month_from_eq) (auto simp: valid_date_def)
  show ?thesis unfolding iso_of_day_def Let_def y m by (simp add: day_number_def)
qed

lemma digits_value_two_mod: "digits_value (two_digits n) = n mod 100"
  using mod_mult2_eq [of n 10 10] by (simp add: digits_value_def two_digits_def)

lemma digits_value_two: "n < 100 \<Longrightarrow> digits_value (two_digits n) = n"
  by (simp add: digits_value_two_mod)

lemma digits_value_append_two:
  "digits_value (s @ two_digits n) = 100 * digits_value s + n mod 100"
  using mod_mult2_eq [of n 10 10] by (simp add: digits_value_def two_digits_def)

lemma digits_value_four: "n < 10000 \<Longrightarrow> digits_value (four_digits n) = n"
proof -
  assume "n < 10000"
  then have "n div 100 < 100" by (intro less_mult_imp_div_less) simp
  then show ?thesis
    by (simp only: four_digits_def digits_value_append_two digits_value_two_mod mod_less mult_div_mod_eq)
qed

lemma days_in_month_le: "days_in_month y m \<le> 31"
  by (simp add: days_in_month_def)

lemma length_digits [simp]: "length (two_digits n) = 2" "length (four_digits n) = 4"
  by (simp_all add: four_digits_def two_digits_def)

lemma all_digits_digits [simp]: "all_digits (two_digits n)" "all_digits (four_digits n)"
  by (simp_all only: all_digits_def four_digits_def two_digits_def list_all_append list.pred_inject
      is_digit_digit_char mod_less_divisor zero_less_numeral simp_thms)

lemma iso_date_fields:
  "length (iso_date y m d) = 10" "iso_date y m d ! 4 = CHR ''-''" "iso_date y m d ! 7 = CHR ''-''"
  "take 4 (iso_date y m d) = four_digits (nat y)" "take 2 (drop 5 (iso_date y m d)) = two_digits m"
  "drop 8 (iso_date y m d) = two_digits (nat d)"
  by (simp_all add: iso_date_def nth_append)

lemma parse_day_iso:
  assumes "valid_date y m d"
  shows "parse_day (iso_date y m d) = Some (day_number y m d)"
proof -
  have "d \<le> 31" using assms days_in_month_le [of y "int m"] by (simp add: valid_date_def)
  then have "nat y < 10000" "m < 100" "nat d < 100" using assms by (simp_all add: valid_date_def nat_less_iff)
  then have v: "digits_value (four_digits (nat y)) = nat y" "digits_value (two_digits m) = m"
      "digits_value (two_digits (nat d)) = nat d"
    by (simp_all only: digits_value_four digits_value_two)
  have "int (nat y) = y" "int (nat d) = d" using assms by (simp_all add: valid_date_def)
  then show ?thesis using assms by (simp only: parse_day_def iso_date_fields all_digits_digits v Let_def) simp
qed

lemma getTime_iso: "valid_date y m d \<Longrightarrow> getTime (iso_date y m d) = Some (day_number y m d * ms_per_day)"
  by (simp add: getTime_def iso_date_fields parse_day_iso)

section \<open>The order of ISO dates\<close>

lemma digit_char_less: "a < 10 \<Longrightarrow> b < 10 \<Longrightarrow> digit_char a < digit_char b \<longleftrightarrow> a < b"
  by (simp add: less_char_def of_char_digit_char)

lemma digit_char_eq: "a < 10 \<Longrightarrow> b < 10 \<Longrightarrow> digit_char a = digit_char b \<longleftrightarrow> a = b"
  by (metis digit_val_digit_char)

lemma append_less_same_length:
  "length a = length b \<Longrightarrow> (a @ c :: string) < b @ d \<longleftrightarrow> a < b \<or> a = b \<and> c < d"
  by (induction a b rule: list_induct2) auto

lemma less_lex:
  "x < k \<Longrightarrow> y < k \<Longrightarrow> k * p + x < k * q + y \<longleftrightarrow> p < q \<or> p = q \<and> x < (y::nat)"
proof -
  assume xy: "x < k" "y < k"
  have "p < q \<Longrightarrow> k * p + x < k * q + y"
  proof -
    assume "p < q"
    then have "k * Suc p \<le> k * q" by (intro mult_le_mono2) simp
    with xy show ?thesis by simp
  qed
  moreover have "q < p \<Longrightarrow> k * q + y < k * p + x"
  proof -
    assume "q < p"
    then have "k * Suc q \<le> k * p" by (intro mult_le_mono2) simp
    with xy show ?thesis by simp
  qed
  ultimately show ?thesis by (cases p q rule: linorder_cases) auto
qed

lemma two_digits_less_mod: "two_digits a < two_digits b \<longleftrightarrow> a mod 100 < b mod 100"
  using mod_mult2_eq [of a 10 10] mod_mult2_eq [of b 10 10]
    less_lex [of "a mod 10" 10 "b mod 10" "a div 10 mod 10" "b div 10 mod 10"]
  by (simp add: two_digits_def digit_char_less digit_char_eq)

lemma two_digits_less: "a < 100 \<Longrightarrow> b < 100 \<Longrightarrow> two_digits a < two_digits b \<longleftrightarrow> a < b"
  by (simp add: two_digits_less_mod)

lemma two_digits_inj: "a < 100 \<Longrightarrow> b < 100 \<Longrightarrow> two_digits a = two_digits b \<longleftrightarrow> a = b"
  by (metis digits_value_two)

lemma four_digits_less:
  assumes "a < 10000" "b < 10000"
  shows "four_digits a < four_digits b \<longleftrightarrow> a < b"
proof -
  have h: "a div 100 < 100" "b div 100 < 100" using assms by auto
  have "four_digits a < four_digits b \<longleftrightarrow>
      a div 100 < b div 100 \<or> a div 100 = b div 100 \<and> a mod 100 < b mod 100"
    using h by (simp add: four_digits_def append_less_same_length two_digits_less
        two_digits_inj two_digits_less_mod)
  also have "\<dots> \<longleftrightarrow> a < b"
    using less_lex [of "a mod 100" 100 "b mod 100" "a div 100" "b div 100"] by simp
  finally show ?thesis .
qed

lemma four_digits_inj: "a < 10000 \<Longrightarrow> b < 10000 \<Longrightarrow> four_digits a = four_digits b \<longleftrightarrow> a = b"
  by (metis digits_value_four)

lemma iso_date_less:
  assumes "valid_date y m d" and "valid_date z n e"
  shows "iso_date y m d < iso_date z n e \<longleftrightarrow> y < z \<or> y = z \<and> (m < n \<or> m = n \<and> d < e)"
proof -
  have "d \<le> 31" "e \<le> 31"
    using assms days_in_month_le [of y "int m"] days_in_month_le [of z "int n"]
    by (simp_all add: valid_date_def)
  then have b: "nat y < 10000" "nat z < 10000" "m < 100" "n < 100" "nat d < 100" "nat e < 100"
      "0 \<le> y" "0 \<le> z" "1 \<le> d" "1 \<le> e"
    using assms by (auto simp: valid_date_def)
  show ?thesis
    using b unfolding iso_date_def
    by (simp add: append_less_same_length four_digits_less four_digits_inj two_digits_less
        two_digits_inj) auto
qed

lemma day_number_less_iff:
  assumes "valid_date y m d" and "valid_date z n e"
  shows "day_number y m d < day_number z n e \<longleftrightarrow> iso_date y m d < iso_date z n e"
  using day_number_less [OF assms] day_number_less [OF assms(2,1)] iso_date_less [OF assms]
  by (metis linorder_neqE_linordered_idom nat_neq_iff order_less_asym order_less_irrefl)

lemma math_round_int [simp]: "math_round (of_int i) = i"
  by (simp add: math_round_def floor_eq_iff)

lemma math_round_days: "math_round (of_int (x * ms_per_day) / of_int ms_per_day) = x"
  by (simp add: ms_per_day_def)

lemma daysBetween_iso:
  assumes "valid_date y m d" and "valid_date z n e"
  shows "daysBetween (iso_date y m d) (iso_date z n e) = Some (day_number y m d - day_number z n e)"
proof -
  have "daysBetween (iso_date y m d) (iso_date z n e) =
    Some (math_round (of_int ((day_number y m d - day_number z n e) * ms_per_day) / of_int ms_per_day))"
    by (simp add: daysBetween_def getTime_iso assms algebra_simps)
  then show ?thesis by (simp only: math_round_days)
qed

text \<open>An ISO date string: what the date fields of the data hold.\<close>

definition is_iso_date :: "string \<Rightarrow> bool" where
  "is_iso_date s \<longleftrightarrow> (case parse_day s of None \<Rightarrow> False | Some n \<Rightarrow> iso_of_day n = s)"

end
