(* ===== verification/DomainCompliance.thy ===== *)
theory DomainCompliance
  imports Prelude
begin

text \<open>
  Applicability decisions, the aircraft configuration, the regulatory documents and the assessments:
  lines 1 to 357 of \<open>src/frontend/lib/mock/types.ts\<close>.
  The conventions are those of the theory Domain.
\<close>

section \<open>Applicability decisions\<close>

datatype SystemResult =
    SR_APPLICABLE | SR_NOT_APPLICABLE | SR_REVIEW_REQUIRED | SR_INSUFFICIENT_DATA

datatype HumanDecision =
    HD_PENDING | HD_CONFIRMED_APPLICABLE | HD_CONFIRMED_NOT_APPLICABLE
    | HD_REQUEST_MORE_EVIDENCE | HD_OVERRIDDEN

datatype FinalStatus = FS_COMPLIANT | FS_NON_COMPLIANT | FS_REVIEW_REQUIRED | FS_INSUFFICIENT_DATA

datatype ConditionResult = K_TRUE | K_FALSE | K_UNKNOWN

section \<open>Aircraft, engines and components\<close>

record AircraftVariant =
  av_id :: string
  av_aircraftTypeId :: string
  av_modelDesignation :: string
  av_tcdsNumber :: string

datatype AircraftStatus = AS_ACTIVE | AS_STORED | AS_WRITTEN_OFF

record RegistrationHistoryEntry =
  rh_id :: string
  rh_registrationMark :: string
  rh_effectiveFrom :: string
  rh_effectiveTo :: "string option"

record Aircraft =
  ac_id :: string
  ac_msn :: string
  ac_aircraftVariantId :: string
  ac_operatorOrgId :: string
  ac_status :: "AircraftStatus"
  ac_entryIntoServiceDate :: string
  ac_firstRegistration :: "RegistrationHistoryEntry"
  ac_laterRegistrations :: "RegistrationHistoryEntry list"
  ac_flightHours :: "rat option"
  ac_flightCycles :: "rat option"
  ac_utilizationAsOfDate :: "string option"
  ac_utilizationSource :: "string option"

record EngineType =
  et_id :: string
  et_manufacturer :: string
  et_modelDesignation :: string

record Engine =
  en_id :: string
  en_serialNumber :: string
  en_engineTypeId :: string

datatype EnginePosition = EP_ENGINE_1 | EP_ENGINE_2 | EP_ENGINE_3 | EP_ENGINE_4

record EngineInstallation =
  ei_id :: string
  ei_aircraftId :: string
  ei_engineId :: string
  ei_position :: "EnginePosition"
  ei_installedAt :: string
  ei_removedAt :: "string option"

record Component =
  cp_id :: string
  cp_partNumber :: string
  cp_description :: string
  cp_manufacturer :: string
  cp_requiresSerialization :: bool

record ComponentInstance =
  ci_id :: string
  ci_componentId :: string
  ci_serialNumber :: string

datatype ParentAssetType = PA_AIRCRAFT | PA_ENGINE

record ComponentInstallation =
  cx_id :: string
  cx_componentInstanceId :: string
  cx_parentAssetType :: "ParentAssetType"
  cx_aircraftParentId :: "string option"
  cx_engineParentId :: "string option"
  cx_position :: string
  cx_installedAt :: string
  cx_removedAt :: "string option"

section \<open>Regulatory documents, rules and evidence\<close>

record RegulatoryAuthority =
  ra_id :: string
  ra_code :: string
  ra_name :: string

datatype RequirementType =
    RT_AD | RT_SB | RT_REGULATION | RT_RULE | RT_AMC | RT_GM | RT_SIB | RT_NOTICE | RT_OTHER

datatype SourceStatus = SS_DRAFT | SS_PUBLISHED | SS_SUPERSEDED | SS_WITHDRAWN

record RegulatoryDocument =
  rd_id :: string
  rd_regulatoryAuthorityId :: string
  rd_docType :: "RequirementType"
  rd_docNumber :: string
  rd_title :: string
  rd_revision :: string
  rd_publicationDate :: string
  rd_effectiveDate :: string
  rd_sourceStatus :: "SourceStatus"

record RegulatoryRequirement =
  rr_id :: string
  rr_regulatoryDocumentId :: string
  rr_requirementType :: "RequirementType"
  rr_requirementNumber :: string
  rr_description :: string
  rr_effectiveDate :: string
  rr_complianceTime :: string

datatype ConditionType =
    CT_AIRCRAFT_TYPE | CT_AIRCRAFT_VARIANT | CT_MSN_RANGE | CT_ENGINE_TYPE | CT_COMPONENT_PART
    | CT_REGISTRATION | CT_MODIFICATION_EXCLUSION | CT_AND | CT_OR | CT_NOT

datatype ParameterValue =
    PV_string string
    | PV_number rat

datatype ApplicabilityCondition =
  Condition (cond_id: string) (cond_conditionType: ConditionType) (cond_label: string)
    (cond_parameters: "(string \<times> ParameterValue) list option")
    (cond_children: "ApplicabilityCondition list option")

record ApplicabilityRule =
  ru_id :: string
  ru_regulatoryRequirementId :: string
  ru_ruleVersion :: string
  ru_description :: string
  ru_rootCondition :: "ApplicabilityCondition"

record ConditionEvaluation =
  ce_conditionId :: string
  ce_conditionType :: "ConditionType"
  ce_label :: string
  ce_expected :: string
  ce_actual :: "string option"
  ce_result :: "ConditionResult"
  ce_evidenceIds :: "string list"
  ce_note :: "string option"

datatype EvidenceType =
    ET_MAINTENANCE_RECORD | ET_OEM_DOCUMENT | ET_INSPECTION_RECORD | ET_UPLOADED_DOCUMENT
    | ET_STRUCTURED_RECORD_REFERENCE | ET_REGULATORY_DOCUMENT

datatype VerificationStatus = VS_VERIFIED | VS_UNVERIFIED

record Evidence =
  ev_id :: string
  ev_applicabilityAssessmentId :: string
  ev_evidenceType :: "EvidenceType"
  ev_description :: string
  ev_sourceLabel :: string
  ev_structuredRecordId :: "string option"
  ev_uploadedOrReferencedAt :: string
  ev_verificationStatus :: "VerificationStatus"
  ev_relatedConditionIds :: "string list"
  ev_uploadedBy :: "string option"
  ev_linkedWorkOrderId :: "string option"
  ev_linkedPartId :: "string option"

datatype EvidenceLifecycleState =
    ELS_UPLOADED | ELS_PROCESSING | ELS_VERIFIED | ELS_REJECTED | ELS_UNKNOWN

section \<open>Applicability assessments and maintenance events\<close>

datatype AssessmentSubjectType = SUB_AIRCRAFT | SUB_ENGINE

record EngineSnapshot =
  es_position :: string
  es_engineType :: string
  es_serialNumber :: string

record ComponentSnapshot =
  ps_position :: string
  ps_partNumber :: string
  ps_serialNumber :: string

record ConfigurationSnapshot =
  cs_capturedAt :: string
  cs_aircraftVariant :: string
  cs_msn :: string
  cs_registration :: string
  cs_engines :: "EngineSnapshot list"
  cs_components :: "ComponentSnapshot list"
  cs_dataVersion :: string

datatype ChangeReason =
    CR_REGULATORY_REVISION | CR_CONFIG_CHANGE | CR_COMPONENT_CHANGE | CR_RULE_CHANGE
    | CR_NEW_EVIDENCE | CR_DATA_CORRECTION

record ApplicabilityAssessment =
  aa_id :: string
  aa_regulatoryRequirementId :: string
  aa_applicabilityRuleId :: string
  aa_subjectType :: "AssessmentSubjectType"
  aa_subjectId :: string
  aa_previousAssessmentId :: "string option"
  aa_systemResult :: "SystemResult"
  aa_confidence :: rat
  aa_conditionEvaluations :: "ConditionEvaluation list"
  aa_ruleVersion :: string
  aa_regulatoryDocumentVersion :: string
  aa_configurationSnapshot :: "ConfigurationSnapshot"
  aa_evaluatedAt :: string
  aa_humanDecision :: "HumanDecision"
  aa_humanDecisionBy :: "string option"
  aa_humanDecisionByRole :: "string option"
  aa_humanDecisionAt :: "string option"
  aa_overrideReason :: "string option"
  aa_finalStatus :: "FinalStatus"
  aa_changeReason :: "ChangeReason option"
  aa_evidenceIds :: "string list"

datatype MaintenanceEventType =
    MET_INSPECTION | MET_REMOVAL | MET_INSTALLATION | MET_REPAIR | MET_OVERHAUL
    | MET_REPLACEMENT

datatype MaintenanceEventStatus =
    MES_SCHEDULED | MES_IN_PROGRESS | MES_COMPLETED | MES_OVERDUE | MES_AWAITING_EVIDENCE
    | MES_AWAITING_REVIEW

datatype MaintenanceSubjectType = MST_AIRCRAFT | MST_ENGINE | MST_COMPONENT_INSTANCE

record MaintenanceEvent =
  me_id :: string
  me_eventType :: "MaintenanceEventType"
  me_status :: "MaintenanceEventStatus"
  me_subjectType :: "MaintenanceSubjectType"
  me_aircraftId :: string
  me_engineId :: "string option"
  me_componentInstanceId :: "string option"
  me_description :: string
  me_date :: string
  me_relatedRequirementId :: "string option"
  me_relatedAssessmentId :: "string option"

end
