(* ===== verification/DomainOperations.thy ===== *)
theory DomainOperations
  imports Prelude
begin

text \<open>
  Projects, work orders, parts, tasks, gates, deferrals and queues: lines 359 to 930 of
  \<open>src/frontend/lib/mock/types.ts\<close>.
  The conventions are those of the theory Domain.
\<close>

section \<open>Projects, work packages and work orders\<close>

datatype MaintenanceProjectType =
    MPT_C_CHECK | MPT_A_CHECK | MPT_D_CHECK | MPT_UNSCHEDULED | MPT_MODIFICATION

datatype MaintenanceProjectStatus =
    MPS_PLANNED | MPS_IN_PROGRESS | MPS_ON_HOLD | MPS_COMPLETED | MPS_CANCELLED

datatype Priority = PR_LOW | PR_MEDIUM | PR_HIGH | PR_CRITICAL

datatype WorkPackageStatus =
    WPS_NOT_STARTED | WPS_IN_PROGRESS | WPS_BLOCKED | WPS_READY_FOR_INSPECTION | WPS_COMPLETED

record WorkPackage =
  wp_id :: string
  wp_projectId :: string
  wp_aircraftId :: string
  wp_title :: string
  wp_description :: string
  wp_ataChapter :: string
  wp_status :: "WorkPackageStatus"
  wp_completionPercent :: int
  wp_dueDate :: string
  wp_assignedTechnicianId :: "string option"
  wp_inspectorId :: "string option"
  wp_requiredPartIds :: "string list"
  wp_requiredTools :: "string list"
  wp_complianceReference :: "string option"

record MaintenanceProject =
  mp_id :: string
  mp_projectNumber :: string
  mp_title :: string
  mp_aircraftId :: string
  mp_projectType :: "MaintenanceProjectType"
  mp_status :: "MaintenanceProjectStatus"
  mp_priority :: "Priority"
  mp_projectManager :: string
  mp_leadTechnicianId :: "string option"
  mp_startDate :: string
  mp_targetCompletionDate :: string
  mp_actualStartDate :: "string option"
  mp_actualCompletionDate :: "string option"
  mp_progressPercent :: int
  mp_workPackageIds :: "string list"
  mp_riskNotes :: "string list"

datatype WorkOrderStatus =
    WO_DRAFT | WO_ASSIGNED | WO_IN_PROGRESS | WO_WAITING_PARTS | WO_WAITING_INSPECTION
    | WO_COMPLETED | WO_CANCELLED

datatype MaintenanceType =
    MT_INSPECTION | MT_REPAIR | MT_REPLACEMENT | MT_MODIFICATION | MT_SCHEDULED

record Technician =
  te_id :: string
  te_name :: string
  te_role :: string
  te_shiftStart :: string
  te_shiftEnd :: string
  te_certifications :: "string list"
  te_isInspector :: "bool option"
  te_licenseType :: "string option"
  te_aircraftTypeQualifications :: "string list option"

datatype PartStatus = PS_IN_STOCK | PS_ORDERED | PS_AWAITING_RECEIPT

datatype PartClassification = PC_BATCH | PC_SERIALIZED

datatype PartAviationClassification =
    PAC_CONSUMABLE | PAC_EXPENDABLE | PAC_ROTABLE | PAC_REPAIRABLE

datatype PartServiceability =
    SV_SERVICEABLE | SV_UNSERVICEABLE | SV_QUARANTINED | SV_RECEIVING_INSPECTION | SV_UNKNOWN

record Part =
  pt_id :: string
  pt_partNumber :: string
  pt_serialNumber :: "string option"
  pt_description :: string
  pt_classification :: "PartClassification"
  pt_status :: "PartStatus"
  pt_quantity :: int
  pt_location :: string
  pt_installedAircraftId :: "string option"
  pt_installedComponentInstanceId :: "string option"
  pt_workOrderId :: "string option"
  pt_lifeLimitInfo :: "string option"
  pt_manufacturer :: "string option"
  pt_batchOrLot :: "string option"
  pt_aviationClassification :: "PartAviationClassification option"
  pt_serviceability :: "PartServiceability option"
  pt_quarantineReason :: "string option"

datatype CertificateType = CERT_FAA_8130_3 | CERT_EASA_FORM_1 | CERT_OTHER | CERT_UNKNOWN

datatype CertificateVerificationStatus =
    CV_PRESENT | CV_MISSING | CV_REFERENCE_UNKNOWN | CV_NOT_VERIFIED

datatype TraceabilityStatus = TS_TRACEABLE | TS_PARTIAL | TS_UNKNOWN

record PartReceivingRecord =
  prr_id :: string
  prr_partId :: string
  prr_receivedDate :: string
  prr_receivedBy :: string
  prr_source :: string
  prr_quantityReceived :: int

record PartCertificate =
  pce_id :: string
  pce_partId :: string
  pce_certificateType :: "CertificateType"
  pce_certificateReference :: "string option"
  pce_certificateIssuer :: "string option"
  pce_certificateDate :: "string option"
  pce_verificationStatus :: "CertificateVerificationStatus"

record PartInstallation =
  pin_id :: string
  pin_partId :: string
  pin_aircraftId :: string
  pin_componentInstanceId :: "string option"
  pin_workOrderId :: "string option"
  pin_installationDate :: string
  pin_installedBy :: string

record PartRemoval =
  prm_id :: string
  prm_partId :: string
  prm_aircraftId :: string
  prm_workOrderId :: "string option"
  prm_removalDate :: string
  prm_removedBy :: string
  prm_reason :: string

record Finding =
  fi_id :: string
  fi_workOrderId :: string
  fi_checklistItemId :: "string option"
  fi_description :: string
  fi_severity :: "Priority"
  fi_requiresDefect :: bool

record TechnicianSignOff =
  so_technicianId :: string
  so_timestamp :: string
  so_confirmed :: bool

datatype InspectorReviewStatus =
    IR_PENDING_INSPECTION | IR_APPROVED | IR_REJECTED | IR_RETURNED_FOR_CORRECTION

record InspectorReview =
  ir_id :: string
  ir_workOrderId :: string
  ir_inspectorId :: string
  ir_status :: "InspectorReviewStatus"
  ir_comments :: string
  ir_reviewedAt :: "string option"

record WorkOrder =
  wo_id :: string
  wo_workOrderNumber :: string
  wo_projectId :: "string option"
  wo_workPackageId :: "string option"
  wo_aircraftId :: string
  wo_assetId :: "string option"
  wo_title :: string
  wo_ataChapter :: string
  wo_maintenanceType :: "MaintenanceType"
  wo_priority :: "Priority"
  wo_assignedTechnicianId :: "string option"
  wo_inspectorId :: "string option"
  wo_plannedStartDate :: string
  wo_dueDate :: string
  wo_completionDate :: "string option"
  wo_status :: "WorkOrderStatus"
  wo_requiredPartIds :: "string list"
  wo_requiredTools :: "string list"
  wo_relatedRequirementId :: "string option"
  wo_relatedAssessmentId :: "string option"
  wo_checklistId :: "string option"
  wo_findingIds :: "string list"
  wo_signOff :: "TechnicianSignOff option"
  wo_inspectorReviewId :: "string option"
  wo_maintenanceTaskId :: "string option"

datatype DefectStatus = DF_OPEN | DF_DEFERRED | DF_RESOLVED

record Defect =
  df_id :: string
  df_aircraftId :: string
  df_workOrderId :: "string option"
  df_componentInstanceId :: "string option"
  df_ataChapter :: string
  df_description :: string
  df_severity :: "Priority"
  df_status :: "DefectStatus"
  df_discoveredBy :: string
  df_reportedDate :: string
  df_correctiveAction :: "string option"
  df_inspectorDecision :: "string option"

section \<open>Audit, programs, tasks and execution evidence\<close>

datatype ActorType = ACT_USER | ACT_AI | ACT_SYSTEM

record AuditEvent =
  au_id :: string
  au_timestamp :: string
  au_actor :: string
  au_actorRole :: string
  au_action :: string
  au_objectType :: string
  au_objectLabel :: string
  au_previousState :: "string option"
  au_newState :: "string option"
  au_reason :: "string option"
  au_relatedAssessmentId :: "string option"
  au_actorType :: "ActorType option"
  au_organizationId :: "string option"
  au_reasonCode :: "string option"

datatype MaintenanceTaskReferenceType = REF_AMM | REF_SB | REF_AD | REF_MPD | REF_OTHER

datatype MaintenanceTaskEvidenceStatus = TES_SOURCE_AVAILABLE | TES_SOURCE_UNKNOWN

datatype MaintenanceProgramStatus = PG_ACTIVE | PG_SUPERSEDED | PG_DRAFT

record MaintenanceProgram =
  pg_id :: string
  pg_name :: string
  pg_revision :: string
  pg_effectiveDate :: string
  pg_source :: string
  pg_status :: "MaintenanceProgramStatus"

datatype MaintenanceIntervalType =
    IT_FH | IT_FC | IT_CALENDAR | IT_FH_OR_CALENDAR | IT_FC_OR_CALENDAR | IT_FH_AND_FC

record MaintenanceRequirement =
  mr_id :: string
  mr_programId :: string
  mr_description :: string
  mr_ataChapter :: string
  mr_intervalType :: "MaintenanceIntervalType"
  mr_fhInterval :: "rat option"
  mr_fcInterval :: "rat option"
  mr_calendarIntervalDays :: "int option"
  mr_taskReference :: "string option"
  mr_applicableAircraftIds :: "string list"

record MaintenanceAccomplishment =
  ma_id :: string
  ma_requirementId :: string
  ma_aircraftId :: string
  ma_accomplishedDate :: string
  ma_accomplishedFH :: "rat option"
  ma_accomplishedFC :: "rat option"
  ma_workOrderId :: "string option"
  ma_source :: string

datatype EvidenceRequirement = EQ_NOT_REQUIRED | EQ_OPTIONAL | EQ_REQUIRED

record MaintenanceTask =
  mt_id :: string
  mt_description :: string
  mt_ataChapter :: string
  mt_referenceType :: "MaintenanceTaskReferenceType"
  mt_referenceId :: "string option"
  mt_requiredSkill :: "string option"
  mt_inspectionRequired :: bool
  mt_evidenceStatus :: "MaintenanceTaskEvidenceStatus"
  mt_fhThreshold :: "rat option"
  mt_fcThreshold :: "rat option"
  mt_calendarThresholdDays :: "int option"
  mt_governingRequirementId :: "string option"
  mt_evidenceRequirement :: "EvidenceRequirement option"

datatype EvidenceRecordType =
    ERT_BEFORE | ERT_DAMAGE | ERT_INSPECTION | ERT_REMOVAL | ERT_INSTALLATION | ERT_AFTER
    | ERT_COMPLETION | ERT_OTHER

datatype EvidenceRecordStatus = ER_SUBMITTED | ER_REVIEWED | ER_ACCEPTED | ER_REJECTED

record EvidenceRecord =
  er_id :: string
  er_workOrderId :: string
  er_maintenanceTaskId :: "string option"
  er_aircraftId :: string
  er_uploadedByTechnicianId :: string
  er_evidenceType :: "EvidenceRecordType"
  er_fileRef :: string
  er_fileName :: string
  er_capturedAt :: string
  er_technicianNote :: "string option"
  er_status :: "EvidenceRecordStatus"
  er_createdAt :: string
  er_reviewedBy :: "string option"
  er_reviewedAt :: "string option"
  er_reviewNote :: "string option"

section \<open>Gates, deferrals and queues\<close>

datatype ExecutionState =
    ES_NOT_STARTED | ES_IN_PROGRESS | ES_TECHNICIAN_COMPLETED | ES_INSPECTION_REQUIRED
    | ES_INSPECTION_COMPLETED | ES_READY_FOR_RELEASE | ES_RELEASED | ES_BLOCKED

datatype SafetyGateType =
    MATERIAL_GATE | QUALIFICATION_GATE | INSPECTION_GATE | EVIDENCE_GATE
    | EXECUTION_EVIDENCE_GATE | RELEASE_GATE

datatype SafetyGateState = GS_PASS | GS_FAIL | GS_UNKNOWN | GS_NOT_REQUIRED

record SafetyGate =
  sg_type :: "SafetyGateType"
  sg_open :: bool
  sg_reason :: string
  sg_state :: "SafetyGateState"

datatype DeferredItemCategory = DC_A | DC_B | DC_C | DC_D | DC_UNKNOWN

datatype DeferredItemStatus = DI_OPEN | DI_CLOSED

datatype DeferredItemBasis = DB_MEL | DB_CDL | DB_OTHER | DB_UNKNOWN

datatype DeferredItemApprovalStatus = DA_PENDING | DA_APPROVED | DA_NOT_REQUIRED

record DeferredItem =
  di_id :: string
  di_aircraftId :: string
  di_defectId :: string
  di_melReference :: "string option"
  di_category :: "DeferredItemCategory"
  di_openedAt :: string
  di_dueAt :: "string option"
  di_status :: "DeferredItemStatus"
  di_workOrderId :: "string option"
  di_deferralBasis :: "DeferredItemBasis"
  di_operationalLimitations :: "string option"
  di_requiredActions :: "string list"
  di_evidenceReferences :: "string list"
  di_approvalRequired :: bool
  di_approvalStatus :: "DeferredItemApprovalStatus"

datatype CannibalizationAuthorizationStatus =
    CA_PENDING_HUMAN_REVIEW | CA_AUTHORIZED | CA_REJECTED

datatype CannibalizationTraceabilityStatus = CTS_TRACEABLE | CTS_UNKNOWN

datatype RemovalStatus = RM_NOT_STARTED | RM_REMOVED

datatype InstallationStatus = IN_NOT_STARTED | IN_INSTALLED

record CannibalizationRequest =
  ca_id :: string
  ca_sourceAircraftId :: "string option"
  ca_targetAircraftId :: string
  ca_partId :: string
  ca_reason :: string
  ca_authorizationStatus :: "CannibalizationAuthorizationStatus"
  ca_removalStatus :: "RemovalStatus"
  ca_installationStatus :: "InstallationStatus"
  ca_traceabilityStatus :: "CannibalizationTraceabilityStatus"
  ca_createdAt :: string

datatype AutomationQueueCategory =
    AQ_MATERIAL_BLOCKER | AQ_TECHNICIAN_RECOMMENDATION | AQ_AOG_ESCALATION
    | AQ_RII_INSPECTOR_RECOMMENDATION | AQ_QUARANTINE_REVIEW | AQ_DEFERRED_ITEM_REVIEW
    | AQ_CANNIBALIZATION_REVIEW | AQ_SAFETY_GATE_FAILURE | AQ_MISSING_EVIDENCE
    | AQ_RELEASE_PACKAGE_INCOMPLETE

record AutomationQueueItem =
  aq_id :: string
  aq_category :: "AutomationQueueCategory"
  aq_title :: string
  aq_detection :: string
  aq_source :: string
  aq_impact :: string
  aq_recommendedAction :: string
  aq_responsibleRole :: string
  aq_approvalRequired :: bool
  aq_destinationHref :: string

datatype SignatureAction = SA_TECHNICIAN_SIGN_OFF | SA_INSPECTOR_REVIEW

datatype SignatureRecordType = SRT_WorkOrder

datatype AuthenticationMethod = AM_PROTOTYPE_SESSION

record SignatureRecord =
  sr_id :: string
  sr_userId :: string
  sr_action :: "SignatureAction"
  sr_recordType :: "SignatureRecordType"
  sr_recordId :: string
  sr_timestamp :: string
  sr_authenticationMethod :: "AuthenticationMethod"
  sr_signatureIntent :: string
  sr_reasonCode :: "string option"

end
