(* ===== verification/DomainCommerce.thy ===== *)
theory DomainCommerce
  imports Prelude
begin

text \<open>
  Costs, charges, vendors, part requests and purchase orders: lines 240 to 293 and 932 to 1086 of
  \<open>src/frontend/lib/mock/types.ts\<close>.
  The conventions are those of the theory Domain.
\<close>

section \<open>Costs and charges\<close>

datatype CostSource = SRC_DEMO_SEED

record LaborCost =
  lc_id :: string
  lc_workOrderId :: string
  lc_taskId :: "string option"
  lc_technicianId :: string
  lc_hours :: rat
  lc_hourlyRate :: rat
  lc_currency :: string
  lc_amount :: rat
  lc_source :: "CostSource"

record PartCost =
  pc_id :: string
  pc_workOrderId :: string
  pc_partId :: string
  pc_quantity :: int
  pc_unitCost :: rat
  pc_currency :: string
  pc_amount :: rat
  pc_vendorName :: "string option"
  pc_source :: "CostSource"

record VendorCost =
  vc_id :: string
  vc_workOrderId :: string
  vc_vendorName :: string
  vc_description :: string
  vc_amount :: rat
  vc_currency :: string
  vc_date :: string
  vc_source :: "CostSource"

record CustomerCharge =
  cc_id :: string
  cc_workOrderId :: string
  cc_customerOrgId :: string
  cc_laborCharge :: rat
  cc_partsCharge :: rat
  cc_otherCharge :: rat
  cc_totalCharge :: rat
  cc_currency :: string
  cc_source :: "CostSource"

section \<open>Procurement\<close>

datatype VendorApprovalStatus =
    VA_APPROVED | VA_PENDING | VA_SUSPENDED | VA_NOT_APPROVED | VA_UNKNOWN

datatype VendorQualityStatus = VQ_VERIFIED | VQ_UNDER_REVIEW | VQ_ISSUES_OPEN | VQ_UNKNOWN

datatype VendorRelationshipStatus = VR_PREFERRED | VR_APPROVED | VR_NEW | VR_UNKNOWN

datatype VendorStatus = VST_ACTIVE | VST_INACTIVE

record Vendor =
  ve_id :: string
  ve_name :: string
  ve_legalName :: "string option"
  ve_vendorCode :: "string option"
  ve_country :: "string option"
  ve_city :: "string option"
  ve_contactName :: "string option"
  ve_email :: "string option"
  ve_phone :: "string option"
  ve_website :: "string option"
  ve_status :: "VendorStatus"
  ve_approvalStatus :: "VendorApprovalStatus"
  ve_qualityStatus :: "VendorQualityStatus"
  ve_approvedForAircraftTypes :: "string list option"
  ve_suppliedPartCategories :: "string list option"
  ve_capabilities :: "string list option"
  ve_certifications :: "string list option"
  ve_paymentTerms :: "string option"
  ve_currency :: "string option"
  ve_shippingRegions :: "string list option"
  ve_aogSupport :: "bool option"
  ve_leadTimeDays :: "int option"
  ve_reliabilityScore :: "rat option"
  ve_qualityScore :: "rat option"
  ve_deliveryScore :: "rat option"
  ve_relationshipStatus :: "VendorRelationshipStatus"
  ve_source :: "CostSource"

datatype PartAvailabilityStatus =
    AV_IN_STOCK | AV_LIMITED | AV_OUT_OF_STOCK | AV_ON_ORDER | AV_UNKNOWN

datatype PartCertificationStatus =
    PCS_VERIFIED | PCS_REFERENCE_UNKNOWN | PCS_NOT_VERIFIED | PCS_UNKNOWN

record VendorPartAvailability =
  va_id :: string
  va_vendorId :: string
  va_partId :: "string option"
  va_partNumber :: string
  va_description :: string
  va_availabilityStatus :: "PartAvailabilityStatus"
  va_quantityAvailable :: "int option"
  va_quantityOnOrder :: "int option"
  va_leadTimeDays :: "int option"
  va_unitPrice :: "rat option"
  va_currency :: "string option"
  va_moq :: "int option"
  va_aogAvailability :: "bool option"
  va_certificationStatus :: "PartCertificationStatus"
  va_lastUpdated :: "string option"
  va_source :: "CostSource"

datatype PartRequestStatus =
    PQ_DRAFT | PQ_SUBMITTED | PQ_UNDER_REVIEW | PQ_APPROVED | PQ_REJECTED
    | PQ_CLARIFICATION_REQUIRED | PQ_ORDERED | PQ_RECEIVED | PQ_CLOSED

datatype PartRequestPriority = PP_ROUTINE | PP_HIGH | PP_AOG

record PartRequest =
  pq_id :: string
  pq_aircraftId :: string
  pq_workOrderId :: "string option"
  pq_taskId :: "string option"
  pq_requestedBy :: string
  pq_requestedAt :: string
  pq_partNumber :: string
  pq_partId :: "string option"
  pq_description :: string
  pq_quantity :: int
  pq_priority :: "PartRequestPriority"
  pq_reason :: string
  pq_requiredBy :: "string option"
  pq_preferredVendorId :: "string option"
  pq_alternateVendorIds :: "string list"
  pq_evidenceIds :: "string list"
  pq_status :: "PartRequestStatus"
  pq_estimatedCost :: "rat option"
  pq_selectedVendorId :: "string option"
  pq_approvedBy :: "string option"
  pq_approvedAt :: "string option"
  pq_rejectionReason :: "string option"
  pq_clarificationNote :: "string option"
  pq_source :: "CostSource"

record ProcurementCartItem =
  ct_id :: string
  ct_partNumber :: string
  ct_partId :: "string option"
  ct_description :: string
  ct_quantity :: int
  ct_aircraftId :: string
  ct_workOrderId :: "string option"
  ct_priority :: "PartRequestPriority"
  ct_justification :: string
  ct_requestedBy :: string
  ct_preferredVendorId :: "string option"
  ct_notes :: "string option"

datatype PurchaseOrderStatus =
    PO_DRAFT | PO_PENDING_APPROVAL | PO_APPROVED | PO_SENT | PO_ACKNOWLEDGED
    | PO_PARTIALLY_RECEIVED | PO_RECEIVED | PO_CANCELLED

record PurchaseOrderLineItem =
  pl_requestId :: string
  pl_partNumber :: string
  pl_description :: string
  pl_manufacturer :: "string option"
  pl_quantity :: int
  pl_unitPrice :: "rat option"
  pl_currency :: "string option"

record PurchaseOrder =
  po_id :: string
  po_poNumber :: string
  po_vendorId :: string
  po_requestIds :: "string list"
  po_items :: "PurchaseOrderLineItem list"
  po_aircraftId :: "string option"
  po_workOrderIds :: "string list"
  po_createdBy :: string
  po_approvedBy :: "string option"
  po_createdAt :: string
  po_status :: "PurchaseOrderStatus"
  po_currency :: string
  po_subtotal :: rat
  po_tax :: "rat option"
  po_shipping :: "rat option"
  po_total :: rat
  po_requiredBy :: "string option"
  po_expectedDelivery :: "string option"
  po_notes :: "string option"
  po_vendorAcknowledgedAt :: "string option"
  po_sentAt :: "string option"
  po_source :: "CostSource"

end
