(* ===== verification/Domain.thy ===== *)
theory Domain
  imports DomainCompliance DomainOperations DomainCommerce
begin

text \<open>
  The data of \<open>src/frontend/lib/mock/types.ts\<close>. An interface is a \<open>record\<close> with the source's field
  names behind a short prefix of the type; a union of string literals is a \<open>datatype\<close> with the
  literals behind a prefix. \<open>T | null\<close> and an optional field \<open>f?: T\<close> are both \<open>T option\<close>: the code
  tests them with \<open>??\<close>, \<open>?.\<close>, truthiness or \<open>== null\<close>, which do not tell \<open>null\<close> from \<open>undefined\<close>.
  The registration history of an aircraft is a first entry and the later ones: the code reads the
  mark of its last entry without a test, so an aircraft with no registration is outside its domain.
\<close>

end
