(* ===== verification/Store.thy ===== *)
theory Store
  imports Dates Domain
begin

text \<open>
  The program keeps its data in module-level arrays under \<open>src/frontend/lib/mock\<close>, one per entity,
  which every page and every analysis reads and a few operations change in place. The record
  \<open>world\<close> holds them all, with the id counters of the modules that create records; an operation
  that changes data takes a world and returns one. The lookups and filters of the modules follow.
  The clock (\<open>new Date().toISOString()\<close>) is an argument of the operations that read it; the date the
  demo data is computed against is the constant \<open>MOCK_TODAY\<close>.
\<close>

record world =
  workOrders :: "WorkOrder list"
  parts :: "Part list"
  technicians :: "Technician list"
  defects :: "Defect list"
  aircraft :: "Aircraft list"
  aircraftVariants :: "AircraftVariant list"
  inspectorReviews :: "InspectorReview list"
  assessments :: "ApplicabilityAssessment list"
  maintenanceEvents :: "MaintenanceEvent list"
  maintenanceTasks :: "MaintenanceTask list"
  deferredItems :: "DeferredItem list"
  cannibalizationRequests :: "CannibalizationRequest list"
  maintenancePrograms :: "MaintenanceProgram list"
  maintenanceRequirements :: "MaintenanceRequirement list"
  maintenanceAccomplishments :: "MaintenanceAccomplishment list"
  maintenanceProjects :: "MaintenanceProject list"
  workPackages :: "WorkPackage list"
  evidenceRecords :: "EvidenceRecord list"
  evidenceCounter :: nat
  regulatoryAuthorities :: "RegulatoryAuthority list"
  regulatoryDocuments :: "RegulatoryDocument list"
  regulatoryRequirements :: "RegulatoryRequirement list"
  applicabilityRules :: "ApplicabilityRule list"
  engineTypes :: "EngineType list"
  engines :: "Engine list"
  engineInstallations :: "EngineInstallation list"
  componentCatalog :: "Component list"
  componentInstances :: "ComponentInstance list"
  componentInstallations :: "ComponentInstallation list"
  evidence :: "Evidence list"
  auditEvents :: "AuditEvent list"
  partReceivingRecords :: "PartReceivingRecord list"
  partCertificates :: "PartCertificate list"
  partInstallations :: "PartInstallation list"
  partRemovals :: "PartRemoval list"
  laborCosts :: "LaborCost list"
  partCosts :: "PartCost list"
  vendorCosts :: "VendorCost list"
  customerCharges :: "CustomerCharge list"
  vendors :: "Vendor list"
  vendorPartAvailability :: "VendorPartAvailability list"
  partRequests :: "PartRequest list"
  cartItems :: "ProcurementCartItem list"
  purchaseOrders :: "PurchaseOrder list"
  requestCounter :: nat
  cartCounter :: nat
  poCounter :: nat

definition MOCK_TODAY :: string where
  "MOCK_TODAY = ''2026-03-17''"

definition empty_world :: world where
  "empty_world = \<lparr>workOrders = [], parts = [], technicians = [], defects = [], aircraft = [],
     aircraftVariants = [], inspectorReviews = [], assessments = [], maintenanceEvents = [],
     maintenanceTasks = [], deferredItems = [], cannibalizationRequests = [],
     maintenancePrograms = [], maintenanceRequirements = [], maintenanceAccomplishments = [],
     maintenanceProjects = [], workPackages = [], evidenceRecords = [], evidenceCounter = 0,
     regulatoryAuthorities = [], regulatoryDocuments = [], regulatoryRequirements = [],
     applicabilityRules = [], engineTypes = [], engines = [], engineInstallations = [],
     componentCatalog = [], componentInstances = [], componentInstallations = [], evidence = [],
     auditEvents = [], partReceivingRecords = [], partCertificates = [], partInstallations = [],
     partRemovals = [], laborCosts = [], partCosts = [], vendorCosts = [], customerCharges = [],
     vendors = [], vendorPartAvailability = [], partRequests = [], cartItems = [],
     purchaseOrders = [], requestCounter = 0, cartCounter = 0, poCounter = 0\<rparr>"

section \<open>Work orders: \<open>workOrders.ts\<close>\<close>

definition getWorkOrderById :: "world \<Rightarrow> string \<Rightarrow> WorkOrder option" where
  "getWorkOrderById W i = find (\<lambda>w. wo_id w = i) (workOrders W)"

definition workOrdersForAircraft :: "world \<Rightarrow> string \<Rightarrow> WorkOrder list" where
  "workOrdersForAircraft W a = filter (\<lambda>w. wo_aircraftId w = a) (workOrders W)"

definition workOrdersForProject :: "world \<Rightarrow> string \<Rightarrow> WorkOrder list" where
  "workOrdersForProject W p = filter (\<lambda>w. wo_projectId w = Some p) (workOrders W)"

definition workOrdersForTechnician :: "world \<Rightarrow> string \<Rightarrow> WorkOrder list" where
  "workOrdersForTechnician W t = filter (\<lambda>w. wo_assignedTechnicianId w = Some t) (workOrders W)"

text \<open>\<open>w.status !== "COMPLETED" && w.status !== "CANCELLED"\<close>, which the code repeats everywhere.\<close>

definition wo_open :: "WorkOrder \<Rightarrow> bool" where
  "wo_open w \<longleftrightarrow> wo_status w \<noteq> WO_COMPLETED \<and> wo_status w \<noteq> WO_CANCELLED"

definition isOverdue_on :: "string \<Rightarrow> WorkOrder \<Rightarrow> bool" where
  "isOverdue_on today w \<longleftrightarrow>
     wo_dueDate w < today \<and> wo_status w \<noteq> WO_COMPLETED \<and> wo_status w \<noteq> WO_CANCELLED"

abbreviation isOverdue :: "WorkOrder \<Rightarrow> bool" where
  "isOverdue w \<equiv> isOverdue_on MOCK_TODAY w"

definition openWorkOrders :: "world \<Rightarrow> WorkOrder list" where
  "openWorkOrders W = filter wo_open (workOrders W)"

definition overdueWorkOrders :: "world \<Rightarrow> WorkOrder list" where
  "overdueWorkOrders W = filter isOverdue (workOrders W)"

definition awaitingPartsWorkOrders :: "world \<Rightarrow> WorkOrder list" where
  "awaitingPartsWorkOrders W = filter (\<lambda>w. wo_status w = WO_WAITING_PARTS) (workOrders W)"

definition awaitingReviewWorkOrders :: "world \<Rightarrow> WorkOrder list" where
  "awaitingReviewWorkOrders W = filter (\<lambda>w. wo_status w = WO_WAITING_INSPECTION) (workOrders W)"

section \<open>Parts, defects, reviews, tasks, programs, deferrals: the lookups of their modules\<close>

definition getPartById :: "world \<Rightarrow> string \<Rightarrow> Part option" where
  "getPartById W i = find (\<lambda>p. pt_id p = i) (parts W)"

definition partsForWorkOrder :: "world \<Rightarrow> string \<Rightarrow> Part list" where
  "partsForWorkOrder W i = filter (\<lambda>p. pt_workOrderId p = Some i) (parts W)"

definition partsForAircraft :: "world \<Rightarrow> string \<Rightarrow> Part list" where
  "partsForAircraft W a = filter (\<lambda>p. pt_installedAircraftId p = Some a) (parts W)"

definition getTechnicianById :: "world \<Rightarrow> string \<Rightarrow> Technician option" where
  "getTechnicianById W i = find (\<lambda>t. te_id t = i) (technicians W)"

definition isOnShiftAt :: "string \<Rightarrow> Technician \<Rightarrow> bool" where
  "isOnShiftAt now t =
     (if te_shiftStart t < te_shiftEnd t then te_shiftStart t \<le> now \<and> now < te_shiftEnd t
      else te_shiftStart t \<le> now \<or> now < te_shiftEnd t)"

text \<open>The default of the parameter \<open>nowHHMM\<close>; every caller of the program uses it.\<close>

definition isOnShiftNow :: "Technician \<Rightarrow> bool" where
  "isOnShiftNow t = isOnShiftAt ''09:00'' t"

definition techniciansOnShift :: "world \<Rightarrow> string \<Rightarrow> Technician list" where
  "techniciansOnShift W now = filter (isOnShiftAt now) (technicians W)"

definition is_inspector :: "Technician \<Rightarrow> bool" where
  "is_inspector t \<longleftrightarrow> te_isInspector t = Some True"

definition inspectors :: "world \<Rightarrow> Technician list" where
  "inspectors W = filter is_inspector (technicians W)"

definition defectsForAircraft :: "world \<Rightarrow> string \<Rightarrow> Defect list" where
  "defectsForAircraft W a = filter (\<lambda>d. df_aircraftId d = a) (defects W)"

definition getDefectById :: "world \<Rightarrow> string \<Rightarrow> Defect option" where
  "getDefectById W i = find (\<lambda>d. df_id d = i) (defects W)"

definition openDefects :: "world \<Rightarrow> Defect list" where
  "openDefects W = filter (\<lambda>d. df_status d = DF_OPEN) (defects W)"

definition defectsForWorkOrder :: "world \<Rightarrow> string \<Rightarrow> Defect list" where
  "defectsForWorkOrder W i = filter (\<lambda>d. df_workOrderId d = Some i) (defects W)"

definition getInspectorReviewById :: "world \<Rightarrow> string \<Rightarrow> InspectorReview option" where
  "getInspectorReviewById W i = find (\<lambda>r. ir_id r = i) (inspectorReviews W)"

definition getInspectorReviewForWorkOrder :: "world \<Rightarrow> string \<Rightarrow> InspectorReview option" where
  "getInspectorReviewForWorkOrder W i = find (\<lambda>r. ir_workOrderId r = i) (inspectorReviews W)"

definition getMaintenanceTaskById :: "world \<Rightarrow> string \<Rightarrow> MaintenanceTask option" where
  "getMaintenanceTaskById W i = find (\<lambda>t. mt_id t = i) (maintenanceTasks W)"

text \<open>\<open>w.maintenanceTaskId ? getMaintenanceTaskById(w.maintenanceTaskId) : undefined\<close>.\<close>

definition task_of :: "world \<Rightarrow> WorkOrder \<Rightarrow> MaintenanceTask option" where
  "task_of W w = (case wo_maintenanceTaskId w of
                    None \<Rightarrow> None
                  | Some i \<Rightarrow> if i = [] then None else getMaintenanceTaskById W i)"

definition getMaintenanceProgramById :: "world \<Rightarrow> string \<Rightarrow> MaintenanceProgram option" where
  "getMaintenanceProgramById W i = find (\<lambda>p. pg_id p = i) (maintenancePrograms W)"

definition getMaintenanceRequirementById :: "world \<Rightarrow> string \<Rightarrow> MaintenanceRequirement option" where
  "getMaintenanceRequirementById W i = find (\<lambda>r. mr_id r = i) (maintenanceRequirements W)"

definition requirementsForProgram :: "world \<Rightarrow> string \<Rightarrow> MaintenanceRequirement list" where
  "requirementsForProgram W p = filter (\<lambda>r. mr_programId r = p) (maintenanceRequirements W)"

definition accomplishmentsForRequirementAndAircraft ::
  "world \<Rightarrow> string \<Rightarrow> string \<Rightarrow> MaintenanceAccomplishment list" where
  "accomplishmentsForRequirementAndAircraft W r a =
     filter (\<lambda>m. ma_requirementId m = r \<and> ma_aircraftId m = a) (maintenanceAccomplishments W)"

definition latestAccomplishment :: "world \<Rightarrow> string \<Rightarrow> string \<Rightarrow> MaintenanceAccomplishment option" where
  "latestAccomplishment W r a =
     (case js_sort (\<lambda>x y. localeCompare (ma_accomplishedDate y) (ma_accomplishedDate x))
             (accomplishmentsForRequirementAndAircraft W r a) of
        [] \<Rightarrow> None
      | m # _ \<Rightarrow> Some m)"

definition getCannibalizationCandidatesForAircraft :: "world \<Rightarrow> string \<Rightarrow> CannibalizationRequest list" where
  "getCannibalizationCandidatesForAircraft W a =
     filter (\<lambda>c. ca_targetAircraftId c = a) (cannibalizationRequests W)"

definition getProjectById :: "world \<Rightarrow> string \<Rightarrow> MaintenanceProject option" where
  "getProjectById W i = find (\<lambda>p. mp_id p = i) (maintenanceProjects W)"

definition projectsForAircraft :: "world \<Rightarrow> string \<Rightarrow> MaintenanceProject list" where
  "projectsForAircraft W a = filter (\<lambda>p. mp_aircraftId p = a) (maintenanceProjects W)"

definition workPackagesForProject :: "world \<Rightarrow> string \<Rightarrow> WorkPackage list" where
  "workPackagesForProject W p = filter (\<lambda>wp. wp_projectId wp = p) (workPackages W)"

definition getWorkPackageById :: "world \<Rightarrow> string \<Rightarrow> WorkPackage option" where
  "getWorkPackageById W i = find (\<lambda>wp. wp_id wp = i) (workPackages W)"

definition activeProjects :: "world \<Rightarrow> MaintenanceProject list" where
  "activeProjects W =
     filter (\<lambda>p. mp_status p = MPS_IN_PROGRESS \<or> mp_status p = MPS_PLANNED) (maintenanceProjects W)"

section \<open>Aircraft: \<open>aircraft.ts\<close>\<close>

definition getAircraftById :: "world \<Rightarrow> string \<Rightarrow> Aircraft option" where
  "getAircraftById W i = find (\<lambda>a. ac_id a = i) (aircraft W)"

definition getAircraftVariant :: "world \<Rightarrow> string \<Rightarrow> AircraftVariant option" where
  "getAircraftVariant W i = find (\<lambda>v. av_id v = i) (aircraftVariants W)"

definition registrationHistory :: "Aircraft \<Rightarrow> RegistrationHistoryEntry list" where
  "registrationHistory a = ac_firstRegistration a # ac_laterRegistrations a"

definition currentRegistration :: "Aircraft \<Rightarrow> string" where
  "currentRegistration a =
     (case find (\<lambda>r. rh_effectiveTo r = None) (registrationHistory a) of
        Some r \<Rightarrow> rh_registrationMark r
      | None \<Rightarrow> rh_registrationMark (last (registrationHistory a)))"

definition registrationAsOf :: "Aircraft \<Rightarrow> string \<Rightarrow> string option" where
  "registrationAsOf a isoDate =
     map_option rh_registrationMark
       (find (\<lambda>r. rh_effectiveFrom r \<le> isoDate \<and>
                  (case rh_effectiveTo r of None \<Rightarrow> True | Some e \<Rightarrow> isoDate < e))
          (registrationHistory a))"

definition getAircraftByRegistration :: "world \<Rightarrow> string \<Rightarrow> Aircraft option" where
  "getAircraftByRegistration W mark =
     find (\<lambda>a. list_ex (\<lambda>r. rh_registrationMark r = mark) (registrationHistory a)) (aircraft W)"

text \<open>\<open>a ? currentRegistration(a) : id\<close>.\<close>

definition registration_or_id :: "world \<Rightarrow> string \<Rightarrow> string" where
  "registration_or_id W i = (case getAircraftById W i of None \<Rightarrow> i | Some a \<Rightarrow> currentRegistration a)"

section \<open>Maintenance events: \<open>maintenance.ts\<close>\<close>

definition by_date_desc :: "MaintenanceEvent \<Rightarrow> MaintenanceEvent \<Rightarrow> int" where
  "by_date_desc a b = localeCompare (me_date b) (me_date a)"

definition by_date_asc :: "MaintenanceEvent \<Rightarrow> MaintenanceEvent \<Rightarrow> int" where
  "by_date_asc a b = localeCompare (me_date a) (me_date b)"

definition maintenanceEventsForAircraft :: "world \<Rightarrow> string \<Rightarrow> MaintenanceEvent list" where
  "maintenanceEventsForAircraft W a =
     js_sort by_date_desc (filter (\<lambda>m. me_aircraftId m = a) (maintenanceEvents W))"

definition maintenanceEventsForEngine :: "world \<Rightarrow> string \<Rightarrow> MaintenanceEvent list" where
  "maintenanceEventsForEngine W e =
     js_sort by_date_desc (filter (\<lambda>m. me_engineId m = Some e) (maintenanceEvents W))"

definition maintenanceEventsForComponentInstance :: "world \<Rightarrow> string \<Rightarrow> MaintenanceEvent list" where
  "maintenanceEventsForComponentInstance W c =
     js_sort by_date_desc (filter (\<lambda>m. me_componentInstanceId m = Some c) (maintenanceEvents W))"

definition overdueMaintenanceEvents :: "world \<Rightarrow> MaintenanceEvent list" where
  "overdueMaintenanceEvents W =
     js_sort by_date_asc (filter (\<lambda>m. me_status m = MES_OVERDUE) (maintenanceEvents W))"

definition upcomingMaintenanceEvents :: "world \<Rightarrow> nat \<Rightarrow> MaintenanceEvent list" where
  "upcomingMaintenanceEvents W limit =
     take limit (js_sort by_date_asc (filter (\<lambda>m. me_status m = MES_SCHEDULED) (maintenanceEvents W)))"

definition awaitingActionMaintenanceEvents :: "world \<Rightarrow> MaintenanceEvent list" where
  "awaitingActionMaintenanceEvents W =
     filter (\<lambda>m. me_status m = MES_AWAITING_EVIDENCE \<or> me_status m = MES_AWAITING_REVIEW)
       (maintenanceEvents W)"

definition maintenanceEventsForRequirement :: "world \<Rightarrow> string \<Rightarrow> MaintenanceEvent list" where
  "maintenanceEventsForRequirement W r =
     js_sort by_date_asc (filter (\<lambda>m. me_relatedRequirementId m = Some r) (maintenanceEvents W))"

section \<open>Facts about the lookups\<close>

interpretation event_dates: text_comparator me_date .

interpretation accomplishment_dates: text_comparator ma_accomplishedDate .

lemma getWorkOrderById_Some: "getWorkOrderById W i = Some w \<Longrightarrow> w \<in> set (workOrders W) \<and> wo_id w = i"
  unfolding getWorkOrderById_def by (rule find_Some_mem)

lemma getTechnicianById_Some: "getTechnicianById W i = Some t \<Longrightarrow> t \<in> set (technicians W) \<and> te_id t = i"
  unfolding getTechnicianById_def by (rule find_Some_mem)

lemma latestAccomplishment_None:
  "latestAccomplishment W r a = None \<longleftrightarrow> accomplishmentsForRequirementAndAircraft W r a = []"
proof (cases "js_sort (\<lambda>x y. localeCompare (ma_accomplishedDate y) (ma_accomplishedDate x))
    (accomplishmentsForRequirementAndAircraft W r a)")
  case Nil
  then show ?thesis by (simp add: latestAccomplishment_def)
next
  case (Cons m ms)
  then have "accomplishmentsForRequirementAndAircraft W r a \<noteq> []" by auto
  with Cons show ?thesis by (simp add: latestAccomplishment_def)
qed

lemma latestAccomplishment_latest:
  assumes "latestAccomplishment W r a = Some m"
  shows "m \<in> set (accomplishmentsForRequirementAndAircraft W r a)"
    and "n \<in> set (accomplishmentsForRequirementAndAircraft W r a) \<Longrightarrow>
         ma_accomplishedDate n \<le> ma_accomplishedDate m"
proof -
  let ?s = "js_sort (\<lambda>x y. localeCompare (ma_accomplishedDate y) (ma_accomplishedDate x))
              (accomplishmentsForRequirementAndAircraft W r a)"
  from assms obtain ms where s: "?s = m # ms"
    by (auto simp: latestAccomplishment_def split: list.splits)
  then have "m \<in> set ?s" by simp
  then show "m \<in> set (accomplishmentsForRequirementAndAircraft W r a)" by simp
  assume "n \<in> set (accomplishmentsForRequirementAndAircraft W r a)"
  from accomplishment_dates.descending.js_sort_head [OF s this]
  show "ma_accomplishedDate n \<le> ma_accomplishedDate m"
    by (auto simp: localeCompare_def split: if_splits)
qed

lemma isOverdue_open: "isOverdue_on d w \<Longrightarrow> wo_open w"
  by (simp add: isOverdue_on_def wo_open_def)

text \<open>The string test of \<open>isOverdue\<close> is the calendar's.\<close>

lemma isOverdue_calendar:
  assumes "valid_date y m d" and "valid_date z n e" and "wo_dueDate w = iso_date z n e"
  shows "isOverdue_on (iso_date y m d) w \<longleftrightarrow>
         wo_open w \<and> (\<exists>k > 0. daysBetween (iso_date y m d) (wo_dueDate w) = Some k)"
  using assms day_number_less_iff [OF assms(2,1)]
  by (auto simp: isOverdue_on_def wo_open_def daysBetween_iso)

end
