(* ===== verification/WorkOrders.thy ===== *)
theory WorkOrders
  imports Store
begin

text \<open>
  The five operations of \<open>workOrders.ts\<close> that change a work order, each returning the changed
  record or \<open>None\<close> (\<open>null\<close>), as a deterministic machine over the world; the step relation between
  the states of one work order that they implement; and what no sequence of them can do: reopen a
  closed work order, complete one that was not in progress, or start one without a technician.
\<close>

section \<open>The operations\<close>

definition update_workOrder :: "string \<Rightarrow> (WorkOrder \<Rightarrow> WorkOrder) \<Rightarrow> world \<Rightarrow> world" where
  "update_workOrder i f W = W\<lparr>workOrders := update_first (\<lambda>w. wo_id w = i) f (workOrders W)\<rparr>"

definition set_technician :: "string \<Rightarrow> WorkOrder \<Rightarrow> WorkOrder" where
  "set_technician t w =
     (let w' = w\<lparr>wo_assignedTechnicianId := Some t\<rparr>
      in if wo_status w' = WO_DRAFT then w'\<lparr>wo_status := WO_ASSIGNED\<rparr> else w')"

definition assignTechnician :: "world \<Rightarrow> string \<Rightarrow> string \<Rightarrow> WorkOrder option \<times> world" where
  "assignTechnician W i t =
     (case getWorkOrderById W i of
        None \<Rightarrow> (None, W)
      | Some w \<Rightarrow> (Some (set_technician t w), update_workOrder i (set_technician t) W))"

definition set_started :: "WorkOrder \<Rightarrow> WorkOrder" where
  "set_started w = w\<lparr>wo_status := WO_IN_PROGRESS\<rparr>"

definition startWorkOrder :: "world \<Rightarrow> string \<Rightarrow> WorkOrder option \<times> world" where
  "startWorkOrder W i =
     (case getWorkOrderById W i of
        None \<Rightarrow> (None, W)
      | Some w \<Rightarrow>
          if wo_assignedTechnicianId w = None then (None, W)
          else if wo_status w \<noteq> WO_ASSIGNED \<and> wo_status w \<noteq> WO_DRAFT \<and> wo_status w \<noteq> WO_WAITING_PARTS
          then (None, W)
          else (Some (set_started w), update_workOrder i set_started W))"

definition set_unassigned :: "WorkOrder \<Rightarrow> WorkOrder" where
  "set_unassigned w = w\<lparr>wo_assignedTechnicianId := None\<rparr>"

definition unassignTechnician :: "world \<Rightarrow> string \<Rightarrow> WorkOrder option \<times> world" where
  "unassignTechnician W i =
     (case getWorkOrderById W i of
        None \<Rightarrow> (None, W)
      | Some w \<Rightarrow> (Some (set_unassigned w), update_workOrder i set_unassigned W))"

definition set_completed :: "string \<Rightarrow> WorkOrder \<Rightarrow> WorkOrder" where
  "set_completed date w = w\<lparr>wo_status := WO_COMPLETED, wo_completionDate := Some date\<rparr>"

definition completeWorkOrder :: "world \<Rightarrow> string \<Rightarrow> string \<Rightarrow> WorkOrder option \<times> world" where
  "completeWorkOrder W i date =
     (case getWorkOrderById W i of
        None \<Rightarrow> (None, W)
      | Some w \<Rightarrow>
          if wo_status w \<noteq> WO_IN_PROGRESS then (None, W)
          else (Some (set_completed date w), update_workOrder i (set_completed date) W))"

definition set_escalated :: "WorkOrder \<Rightarrow> WorkOrder" where
  "set_escalated w = w\<lparr>wo_priority := PR_CRITICAL\<rparr>"

definition escalateWorkOrder :: "world \<Rightarrow> string \<Rightarrow> WorkOrder option \<times> world" where
  "escalateWorkOrder W i =
     (case getWorkOrderById W i of
        None \<Rightarrow> (None, W)
      | Some w \<Rightarrow>
          if wo_priority w = PR_CRITICAL then (None, W)
          else (Some (set_escalated w), update_workOrder i set_escalated W))"

section \<open>The machine\<close>

datatype wo_event =
    Assign string string | Start string | Unassign string | Complete string string | Escalate string

fun wo_step :: "world \<Rightarrow> wo_event \<Rightarrow> world" where
  "wo_step W (Assign i t) = snd (assignTechnician W i t)"
| "wo_step W (Start i) = snd (startWorkOrder W i)"
| "wo_step W (Unassign i) = snd (unassignTechnician W i)"
| "wo_step W (Complete i d) = snd (completeWorkOrder W i d)"
| "wo_step W (Escalate i) = snd (escalateWorkOrder W i)"

text \<open>What one operation may do to one work order.\<close>

inductive wo_move :: "WorkOrder \<Rightarrow> WorkOrder \<Rightarrow> bool" where
  assigned: "wo_move w (set_technician t w)"
| started: "wo_assignedTechnicianId w \<noteq> None \<Longrightarrow>
    wo_status w \<in> {WO_ASSIGNED, WO_DRAFT, WO_WAITING_PARTS} \<Longrightarrow> wo_move w (set_started w)"
| unassigned: "wo_move w (set_unassigned w)"
| completed: "wo_status w = WO_IN_PROGRESS \<Longrightarrow> wo_move w (set_completed d w)"
| escalated: "wo_priority w \<noteq> PR_CRITICAL \<Longrightarrow> wo_move w (set_escalated w)"

inductive_cases wo_moveE [elim!]: "wo_move w w'"

lemmas wo_setters =
  set_technician_def set_started_def set_unassigned_def set_completed_def set_escalated_def Let_def

lemma wo_move_id: "wo_move w w' \<Longrightarrow> wo_id w' = wo_id w"
  by (auto simp: wo_setters)

interpretation assign_upd: keyed_update wo_id "set_technician t" for t
  by unfold_locales (auto simp: wo_setters)

interpretation start_upd: keyed_update wo_id set_started
  by unfold_locales (auto simp: wo_setters)

interpretation unassign_upd: keyed_update wo_id set_unassigned
  by unfold_locales (auto simp: wo_setters)

interpretation complete_upd: keyed_update wo_id "set_completed d" for d
  by unfold_locales (auto simp: wo_setters)

interpretation escalate_upd: keyed_update wo_id set_escalated
  by unfold_locales (auto simp: wo_setters)

lemma getWorkOrderById_update:
  assumes "keyed_update wo_id f"
  shows "getWorkOrderById (update_workOrder i f W) j =
    (if j = i then map_option f (getWorkOrderById W i) else getWorkOrderById W j)"
  using keyed_update.find_update [OF assms] by (simp add: getWorkOrderById_def update_workOrder_def)

lemmas wo_lookups [store_simps] =
  getWorkOrderById_update [OF assign_upd.keyed_update_axioms]
  getWorkOrderById_update [OF start_upd.keyed_update_axioms]
  getWorkOrderById_update [OF unassign_upd.keyed_update_axioms]
  getWorkOrderById_update [OF complete_upd.keyed_update_axioms]
  getWorkOrderById_update [OF escalate_upd.keyed_update_axioms]

lemmas wo_operations =
  assignTechnician_def startWorkOrder_def unassignTechnician_def completeWorkOrder_def
  escalateWorkOrder_def

section \<open>Refinement: every operation is a move of one work order\<close>

text \<open>A list of work orders changes by moves when it keeps its order and each record moves or stays.\<close>

definition moved :: "world \<Rightarrow> world \<Rightarrow> bool" where
  "moved W W' \<longleftrightarrow> list_all2 wo_move\<^sup>*\<^sup>* (workOrders W) (workOrders W') \<and>
     W'\<lparr>workOrders := []\<rparr> = W\<lparr>workOrders := []\<rparr>"

lemma list_all2_update_first:
  "reflp R \<Longrightarrow> (\<And>x. find P xs = Some x \<Longrightarrow> R x (f x)) \<Longrightarrow> list_all2 R xs (update_first P f xs)"
proof (induction xs)
  case Nil
  then show ?case by simp
next
  case (Cons x xs)
  then show ?case by (auto simp: reflp_def list_all2_refl)
qed

lemma reflp_moves: "reflp wo_move\<^sup>*\<^sup>*"
  by (simp add: reflp_def)

lemma moved_update:
  "(\<And>w. getWorkOrderById W i = Some w \<Longrightarrow> wo_move w (f w)) \<Longrightarrow> moved W (update_workOrder i f W)"
  unfolding moved_def update_workOrder_def getWorkOrderById_def
  by (auto intro!: list_all2_update_first reflp_moves)

lemma moved_refl: "moved W W"
  by (simp add: moved_def list_all2_refl)

lemma moved_trans:
  assumes "moved W V" and "moved V U"
  shows "moved W U"
proof -
  have "list_all2 wo_move\<^sup>*\<^sup>* (workOrders W) (workOrders U)"
    by (rule list_all2_trans [of "wo_move\<^sup>*\<^sup>*" "wo_move\<^sup>*\<^sup>*" _ _ "workOrders V"])
      (use assms in \<open>auto simp only: moved_def intro: rtranclp_trans\<close>)
  with assms show ?thesis by (simp only: moved_def)
qed

lemma moved_step: "moved W (wo_step W e)"
  by (cases e)
    (auto simp: wo_operations intro!: moved_update moved_refl intro: wo_move.intros split: option.splits)

interpretation wo_machine: monotone_machine wo_step moved
  by unfold_locales (rule moved_refl, erule (1) moved_trans, rule moved_step)

lemma moved_lookup:
  assumes "list_all2 wo_move\<^sup>*\<^sup>* ws vs" and "find (\<lambda>w. wo_id w = i) ws = Some w"
  shows "\<exists>v. find (\<lambda>w. wo_id w = i) vs = Some v \<and> wo_move\<^sup>*\<^sup>* w v"
  using assms
proof (induction rule: list_all2_induct)
  case Nil
  then show ?case by simp
next
  case (Cons x xs y ys)
  have "wo_id y = wo_id x" using Cons.hyps(1) by (induction rule: rtranclp_induct) (auto simp: wo_move_id)
  with Cons show ?case by (auto split: if_splits)
qed

lemma run_lookup:
  assumes "getWorkOrderById W i = Some w"
  shows "\<exists>v. getWorkOrderById (run wo_step W es) i = Some v \<and> wo_move\<^sup>*\<^sup>* w v"
  using wo_machine.run_rel [of W es] assms unfolding moved_def getWorkOrderById_def
  by (auto dest: moved_lookup)

section \<open>What a sequence of moves cannot do\<close>

lemma closed_moves:
  "wo_move\<^sup>*\<^sup>* w v \<Longrightarrow> \<not> wo_open w \<Longrightarrow>
   wo_status v = wo_status w \<and> wo_completionDate v = wo_completionDate w"
  by (induction rule: rtranclp_induct) (auto simp: wo_setters wo_open_def)

text \<open>How far a status is from done; no move goes back.\<close>

definition stage :: "WorkOrderStatus \<Rightarrow> nat" where
  "stage s = (case s of WO_DRAFT \<Rightarrow> 0 | WO_ASSIGNED \<Rightarrow> 1 | WO_WAITING_PARTS \<Rightarrow> 1 | WO_IN_PROGRESS \<Rightarrow> 2
     | WO_WAITING_INSPECTION \<Rightarrow> 3 | WO_COMPLETED \<Rightarrow> 4 | WO_CANCELLED \<Rightarrow> 5)"

lemma stage_moves: "wo_move\<^sup>*\<^sup>* w v \<Longrightarrow> stage (wo_status w) \<le> stage (wo_status v)"
  by (induction rule: rtranclp_induct) (auto simp: wo_setters stage_def split: WorkOrderStatus.splits)

lemma no_new_waiting:
  "wo_move\<^sup>*\<^sup>* w v \<Longrightarrow> wo_status v \<in> {WO_WAITING_INSPECTION, WO_WAITING_PARTS, WO_CANCELLED, WO_DRAFT} \<Longrightarrow>
   wo_status v = wo_status w"
  by (induction rule: rtranclp_induct) (auto simp: wo_setters split: if_splits)

lemma waiting_inspection_stuck:
  "wo_move\<^sup>*\<^sup>* w v \<Longrightarrow> wo_status w = WO_WAITING_INSPECTION \<Longrightarrow> wo_status v = WO_WAITING_INSPECTION"
  by (induction rule: rtranclp_induct) (auto simp: wo_setters)

text \<open>Only the assignment, the status, the completion date and the priority ever change.\<close>

lemma moves_keep:
  "wo_move\<^sup>*\<^sup>* w v \<Longrightarrow>
   v\<lparr>wo_assignedTechnicianId := None, wo_status := WO_DRAFT, wo_completionDate := None,
     wo_priority := PR_LOW\<rparr> =
   w\<lparr>wo_assignedTechnicianId := None, wo_status := WO_DRAFT, wo_completionDate := None,
     wo_priority := PR_LOW\<rparr>"
  by (induction rule: rtranclp_induct) (auto simp: wo_setters)

section \<open>The result of each operation\<close>

lemma startWorkOrder_Some:
  "fst (startWorkOrder W i) = Some v \<longleftrightarrow>
   (\<exists>w. getWorkOrderById W i = Some w \<and> wo_assignedTechnicianId w \<noteq> None \<and>
        wo_status w \<in> {WO_ASSIGNED, WO_DRAFT, WO_WAITING_PARTS} \<and> v = set_started w)"
  by (auto simp: startWorkOrder_def split: option.splits if_splits)

lemma completeWorkOrder_Some:
  "fst (completeWorkOrder W i d) = Some v \<longleftrightarrow>
   (\<exists>w. getWorkOrderById W i = Some w \<and> wo_status w = WO_IN_PROGRESS \<and> v = set_completed d w)"
  by (auto simp: completeWorkOrder_def split: option.splits)

text \<open>The record an operation returns is the one the store then holds; \<open>None\<close> means no change.\<close>

lemma operation_returns_stored:
  "fst (assignTechnician W i t) = Some v \<Longrightarrow> getWorkOrderById (snd (assignTechnician W i t)) i = Some v"
  "fst (startWorkOrder W i) = Some v \<Longrightarrow> getWorkOrderById (snd (startWorkOrder W i)) i = Some v"
  "fst (unassignTechnician W i) = Some v \<Longrightarrow> getWorkOrderById (snd (unassignTechnician W i)) i = Some v"
  "fst (completeWorkOrder W i d) = Some v \<Longrightarrow> getWorkOrderById (snd (completeWorkOrder W i d)) i = Some v"
  "fst (escalateWorkOrder W i) = Some v \<Longrightarrow> getWorkOrderById (snd (escalateWorkOrder W i)) i = Some v"
  by (auto simp: wo_operations store_simps split: option.splits if_splits)

lemma refused_unchanged:
  "fst (startWorkOrder W i) = None \<Longrightarrow> snd (startWorkOrder W i) = W"
  "fst (completeWorkOrder W i d) = None \<Longrightarrow> snd (completeWorkOrder W i d) = W"
  "fst (escalateWorkOrder W i) = None \<Longrightarrow> snd (escalateWorkOrder W i) = W"
  by (auto simp: wo_operations split: option.splits if_splits)

section \<open>Properties\<close>

text \<open>
  C39 A completed or cancelled work order stays closed: whatever sequence of assignments, starts,
  unassignments, completions and escalations follows, its status and its completion date are the
  ones it had, and it is still found under its id.
\<close>

theorem closed_work_orders_stay_closed:
  assumes "getWorkOrderById W i = Some w" and "wo_status w \<in> {WO_COMPLETED, WO_CANCELLED}"
  shows "\<exists>v. getWorkOrderById (run wo_step W es) i = Some v \<and>
             wo_status v = wo_status w \<and> wo_completionDate v = wo_completionDate w"
  using run_lookup [OF assms(1), of es] closed_moves assms(2) by (fastforce simp: wo_open_def)

text \<open>
  The life cycle of a work order: along every sequence of operations the record is found under
  its id, its stage (draft, assigned or waiting for parts, in progress, completed) never goes
  back, an operation alone never puts it into a waiting or cancelled status it was not in, and
  everything but the assignment, the status, the completion date and the priority is unchanged.
\<close>

theorem work_order_life_cycle:
  assumes "getWorkOrderById W i = Some w"
  shows "\<exists>v. getWorkOrderById (run wo_step W es) i = Some v \<and>
             stage (wo_status w) \<le> stage (wo_status v) \<and>
             (wo_status v = wo_status w \<or> wo_status v \<in> {WO_ASSIGNED, WO_IN_PROGRESS, WO_COMPLETED}) \<and>
             v\<lparr>wo_assignedTechnicianId := None, wo_status := WO_DRAFT, wo_completionDate := None,
               wo_priority := PR_LOW\<rparr> =
             w\<lparr>wo_assignedTechnicianId := None, wo_status := WO_DRAFT, wo_completionDate := None,
               wo_priority := PR_LOW\<rparr>"
proof -
  obtain v where v: "getWorkOrderById (run wo_step W es) i = Some v" "wo_move\<^sup>*\<^sup>* w v"
    using run_lookup [OF assms] by blast
  have "wo_status v = wo_status w \<or> wo_status v \<in> {WO_ASSIGNED, WO_IN_PROGRESS, WO_COMPLETED}"
    using no_new_waiting [OF v(2)] by (cases "wo_status v") auto
  with v show ?thesis using stage_moves [OF v(2)] moves_keep [OF v(2)] by blast
qed

end
