(* ===== verification/Labels.thy ===== *)
theory Labels
  imports Domain
begin

text \<open>
  The string literal behind each constructor: what \<open>${x.status}\<close> puts into a message.
\<close>

primrec lit_SystemResult :: "SystemResult \<Rightarrow> string" where
  "lit_SystemResult SR_APPLICABLE = ''APPLICABLE''"
| "lit_SystemResult SR_NOT_APPLICABLE = ''NOT_APPLICABLE''"
| "lit_SystemResult SR_REVIEW_REQUIRED = ''REVIEW_REQUIRED''"
| "lit_SystemResult SR_INSUFFICIENT_DATA = ''INSUFFICIENT_DATA''"

primrec lit_HumanDecision :: "HumanDecision \<Rightarrow> string" where
  "lit_HumanDecision HD_PENDING = ''PENDING''"
| "lit_HumanDecision HD_CONFIRMED_APPLICABLE = ''CONFIRMED_APPLICABLE''"
| "lit_HumanDecision HD_CONFIRMED_NOT_APPLICABLE = ''CONFIRMED_NOT_APPLICABLE''"
| "lit_HumanDecision HD_REQUEST_MORE_EVIDENCE = ''REQUEST_MORE_EVIDENCE''"
| "lit_HumanDecision HD_OVERRIDDEN = ''OVERRIDDEN''"

primrec lit_FinalStatus :: "FinalStatus \<Rightarrow> string" where
  "lit_FinalStatus FS_COMPLIANT = ''COMPLIANT''"
| "lit_FinalStatus FS_NON_COMPLIANT = ''NON_COMPLIANT''"
| "lit_FinalStatus FS_REVIEW_REQUIRED = ''REVIEW_REQUIRED''"
| "lit_FinalStatus FS_INSUFFICIENT_DATA = ''INSUFFICIENT_DATA''"

primrec lit_ChangeReason :: "ChangeReason \<Rightarrow> string" where
  "lit_ChangeReason CR_REGULATORY_REVISION = ''REGULATORY_REVISION''"
| "lit_ChangeReason CR_CONFIG_CHANGE = ''CONFIG_CHANGE''"
| "lit_ChangeReason CR_COMPONENT_CHANGE = ''COMPONENT_CHANGE''"
| "lit_ChangeReason CR_RULE_CHANGE = ''RULE_CHANGE''"
| "lit_ChangeReason CR_NEW_EVIDENCE = ''NEW_EVIDENCE''"
| "lit_ChangeReason CR_DATA_CORRECTION = ''DATA_CORRECTION''"

primrec lit_EnginePosition :: "EnginePosition \<Rightarrow> string" where
  "lit_EnginePosition EP_ENGINE_1 = ''ENGINE_1''"
| "lit_EnginePosition EP_ENGINE_2 = ''ENGINE_2''"
| "lit_EnginePosition EP_ENGINE_3 = ''ENGINE_3''"
| "lit_EnginePosition EP_ENGINE_4 = ''ENGINE_4''"

primrec lit_RequirementType :: "RequirementType \<Rightarrow> string" where
  "lit_RequirementType RT_AD = ''AD''"
| "lit_RequirementType RT_SB = ''SB''"
| "lit_RequirementType RT_REGULATION = ''REGULATION''"
| "lit_RequirementType RT_RULE = ''RULE''"
| "lit_RequirementType RT_AMC = ''AMC''"
| "lit_RequirementType RT_GM = ''GM''"
| "lit_RequirementType RT_SIB = ''SIB''"
| "lit_RequirementType RT_NOTICE = ''NOTICE''"
| "lit_RequirementType RT_OTHER = ''OTHER''"

primrec lit_MaintenanceEventStatus :: "MaintenanceEventStatus \<Rightarrow> string" where
  "lit_MaintenanceEventStatus MES_SCHEDULED = ''SCHEDULED''"
| "lit_MaintenanceEventStatus MES_IN_PROGRESS = ''IN_PROGRESS''"
| "lit_MaintenanceEventStatus MES_COMPLETED = ''COMPLETED''"
| "lit_MaintenanceEventStatus MES_OVERDUE = ''OVERDUE''"
| "lit_MaintenanceEventStatus MES_AWAITING_EVIDENCE = ''AWAITING_EVIDENCE''"
| "lit_MaintenanceEventStatus MES_AWAITING_REVIEW = ''AWAITING_REVIEW''"

primrec lit_Priority :: "Priority \<Rightarrow> string" where
  "lit_Priority PR_LOW = ''LOW''"
| "lit_Priority PR_MEDIUM = ''MEDIUM''"
| "lit_Priority PR_HIGH = ''HIGH''"
| "lit_Priority PR_CRITICAL = ''CRITICAL''"

primrec lit_WorkOrderStatus :: "WorkOrderStatus \<Rightarrow> string" where
  "lit_WorkOrderStatus WO_DRAFT = ''DRAFT''"
| "lit_WorkOrderStatus WO_ASSIGNED = ''ASSIGNED''"
| "lit_WorkOrderStatus WO_IN_PROGRESS = ''IN_PROGRESS''"
| "lit_WorkOrderStatus WO_WAITING_PARTS = ''WAITING_PARTS''"
| "lit_WorkOrderStatus WO_WAITING_INSPECTION = ''WAITING_INSPECTION''"
| "lit_WorkOrderStatus WO_COMPLETED = ''COMPLETED''"
| "lit_WorkOrderStatus WO_CANCELLED = ''CANCELLED''"

primrec lit_PartStatus :: "PartStatus \<Rightarrow> string" where
  "lit_PartStatus PS_IN_STOCK = ''IN_STOCK''"
| "lit_PartStatus PS_ORDERED = ''ORDERED''"
| "lit_PartStatus PS_AWAITING_RECEIPT = ''AWAITING_RECEIPT''"

primrec lit_PartServiceability :: "PartServiceability \<Rightarrow> string" where
  "lit_PartServiceability SV_SERVICEABLE = ''SERVICEABLE''"
| "lit_PartServiceability SV_UNSERVICEABLE = ''UNSERVICEABLE''"
| "lit_PartServiceability SV_QUARANTINED = ''QUARANTINED''"
| "lit_PartServiceability SV_RECEIVING_INSPECTION = ''RECEIVING_INSPECTION''"
| "lit_PartServiceability SV_UNKNOWN = ''UNKNOWN''"

primrec lit_DefectStatus :: "DefectStatus \<Rightarrow> string" where
  "lit_DefectStatus DF_OPEN = ''OPEN''"
| "lit_DefectStatus DF_DEFERRED = ''DEFERRED''"
| "lit_DefectStatus DF_RESOLVED = ''RESOLVED''"

primrec lit_MaintenanceTaskReferenceType :: "MaintenanceTaskReferenceType \<Rightarrow> string" where
  "lit_MaintenanceTaskReferenceType REF_AMM = ''AMM''"
| "lit_MaintenanceTaskReferenceType REF_SB = ''SB''"
| "lit_MaintenanceTaskReferenceType REF_AD = ''AD''"
| "lit_MaintenanceTaskReferenceType REF_MPD = ''MPD''"
| "lit_MaintenanceTaskReferenceType REF_OTHER = ''OTHER''"

primrec lit_ExecutionState :: "ExecutionState \<Rightarrow> string" where
  "lit_ExecutionState ES_NOT_STARTED = ''NOT_STARTED''"
| "lit_ExecutionState ES_IN_PROGRESS = ''IN_PROGRESS''"
| "lit_ExecutionState ES_TECHNICIAN_COMPLETED = ''TECHNICIAN_COMPLETED''"
| "lit_ExecutionState ES_INSPECTION_REQUIRED = ''INSPECTION_REQUIRED''"
| "lit_ExecutionState ES_INSPECTION_COMPLETED = ''INSPECTION_COMPLETED''"
| "lit_ExecutionState ES_READY_FOR_RELEASE = ''READY_FOR_RELEASE''"
| "lit_ExecutionState ES_RELEASED = ''RELEASED''"
| "lit_ExecutionState ES_BLOCKED = ''BLOCKED''"

primrec lit_SafetyGateType :: "SafetyGateType \<Rightarrow> string" where
  "lit_SafetyGateType MATERIAL_GATE = ''MATERIAL_GATE''"
| "lit_SafetyGateType QUALIFICATION_GATE = ''QUALIFICATION_GATE''"
| "lit_SafetyGateType INSPECTION_GATE = ''INSPECTION_GATE''"
| "lit_SafetyGateType EVIDENCE_GATE = ''EVIDENCE_GATE''"
| "lit_SafetyGateType EXECUTION_EVIDENCE_GATE = ''EXECUTION_EVIDENCE_GATE''"
| "lit_SafetyGateType RELEASE_GATE = ''RELEASE_GATE''"

primrec lit_SafetyGateState :: "SafetyGateState \<Rightarrow> string" where
  "lit_SafetyGateState GS_PASS = ''PASS''"
| "lit_SafetyGateState GS_FAIL = ''FAIL''"
| "lit_SafetyGateState GS_UNKNOWN = ''UNKNOWN''"
| "lit_SafetyGateState GS_NOT_REQUIRED = ''NOT_REQUIRED''"

primrec lit_DeferredItemCategory :: "DeferredItemCategory \<Rightarrow> string" where
  "lit_DeferredItemCategory DC_A = ''A''"
| "lit_DeferredItemCategory DC_B = ''B''"
| "lit_DeferredItemCategory DC_C = ''C''"
| "lit_DeferredItemCategory DC_D = ''D''"
| "lit_DeferredItemCategory DC_UNKNOWN = ''UNKNOWN''"

primrec lit_DeferredItemBasis :: "DeferredItemBasis \<Rightarrow> string" where
  "lit_DeferredItemBasis DB_MEL = ''MEL''"
| "lit_DeferredItemBasis DB_CDL = ''CDL''"
| "lit_DeferredItemBasis DB_OTHER = ''OTHER''"
| "lit_DeferredItemBasis DB_UNKNOWN = ''UNKNOWN''"

primrec lit_DeferredItemApprovalStatus :: "DeferredItemApprovalStatus \<Rightarrow> string" where
  "lit_DeferredItemApprovalStatus DA_PENDING = ''PENDING''"
| "lit_DeferredItemApprovalStatus DA_APPROVED = ''APPROVED''"
| "lit_DeferredItemApprovalStatus DA_NOT_REQUIRED = ''NOT_REQUIRED''"

primrec lit_EvidenceRecordStatus :: "EvidenceRecordStatus \<Rightarrow> string" where
  "lit_EvidenceRecordStatus ER_SUBMITTED = ''SUBMITTED''"
| "lit_EvidenceRecordStatus ER_REVIEWED = ''REVIEWED''"
| "lit_EvidenceRecordStatus ER_ACCEPTED = ''ACCEPTED''"
| "lit_EvidenceRecordStatus ER_REJECTED = ''REJECTED''"

primrec lit_CannibalizationAuthorizationStatus :: "CannibalizationAuthorizationStatus \<Rightarrow> string" where
  "lit_CannibalizationAuthorizationStatus CA_PENDING_HUMAN_REVIEW = ''PENDING_HUMAN_REVIEW''"
| "lit_CannibalizationAuthorizationStatus CA_AUTHORIZED = ''AUTHORIZED''"
| "lit_CannibalizationAuthorizationStatus CA_REJECTED = ''REJECTED''"

primrec lit_AutomationQueueCategory :: "AutomationQueueCategory \<Rightarrow> string" where
  "lit_AutomationQueueCategory AQ_MATERIAL_BLOCKER = ''MATERIAL_BLOCKER''"
| "lit_AutomationQueueCategory AQ_TECHNICIAN_RECOMMENDATION = ''TECHNICIAN_RECOMMENDATION''"
| "lit_AutomationQueueCategory AQ_AOG_ESCALATION = ''AOG_ESCALATION''"
| "lit_AutomationQueueCategory AQ_RII_INSPECTOR_RECOMMENDATION = ''RII_INSPECTOR_RECOMMENDATION''"
| "lit_AutomationQueueCategory AQ_QUARANTINE_REVIEW = ''QUARANTINE_REVIEW''"
| "lit_AutomationQueueCategory AQ_DEFERRED_ITEM_REVIEW = ''DEFERRED_ITEM_REVIEW''"
| "lit_AutomationQueueCategory AQ_CANNIBALIZATION_REVIEW = ''CANNIBALIZATION_REVIEW''"
| "lit_AutomationQueueCategory AQ_SAFETY_GATE_FAILURE = ''SAFETY_GATE_FAILURE''"
| "lit_AutomationQueueCategory AQ_MISSING_EVIDENCE = ''MISSING_EVIDENCE''"
| "lit_AutomationQueueCategory AQ_RELEASE_PACKAGE_INCOMPLETE = ''RELEASE_PACKAGE_INCOMPLETE''"

primrec lit_PartAvailabilityStatus :: "PartAvailabilityStatus \<Rightarrow> string" where
  "lit_PartAvailabilityStatus AV_IN_STOCK = ''IN_STOCK''"
| "lit_PartAvailabilityStatus AV_LIMITED = ''LIMITED''"
| "lit_PartAvailabilityStatus AV_OUT_OF_STOCK = ''OUT_OF_STOCK''"
| "lit_PartAvailabilityStatus AV_ON_ORDER = ''ON_ORDER''"
| "lit_PartAvailabilityStatus AV_UNKNOWN = ''UNKNOWN''"

primrec lit_PartRequestStatus :: "PartRequestStatus \<Rightarrow> string" where
  "lit_PartRequestStatus PQ_DRAFT = ''DRAFT''"
| "lit_PartRequestStatus PQ_SUBMITTED = ''SUBMITTED''"
| "lit_PartRequestStatus PQ_UNDER_REVIEW = ''UNDER_REVIEW''"
| "lit_PartRequestStatus PQ_APPROVED = ''APPROVED''"
| "lit_PartRequestStatus PQ_REJECTED = ''REJECTED''"
| "lit_PartRequestStatus PQ_CLARIFICATION_REQUIRED = ''CLARIFICATION_REQUIRED''"
| "lit_PartRequestStatus PQ_ORDERED = ''ORDERED''"
| "lit_PartRequestStatus PQ_RECEIVED = ''RECEIVED''"
| "lit_PartRequestStatus PQ_CLOSED = ''CLOSED''"

primrec lit_PartRequestPriority :: "PartRequestPriority \<Rightarrow> string" where
  "lit_PartRequestPriority PP_ROUTINE = ''ROUTINE''"
| "lit_PartRequestPriority PP_HIGH = ''HIGH''"
| "lit_PartRequestPriority PP_AOG = ''AOG''"

primrec lit_PurchaseOrderStatus :: "PurchaseOrderStatus \<Rightarrow> string" where
  "lit_PurchaseOrderStatus PO_DRAFT = ''DRAFT''"
| "lit_PurchaseOrderStatus PO_PENDING_APPROVAL = ''PENDING_APPROVAL''"
| "lit_PurchaseOrderStatus PO_APPROVED = ''APPROVED''"
| "lit_PurchaseOrderStatus PO_SENT = ''SENT''"
| "lit_PurchaseOrderStatus PO_ACKNOWLEDGED = ''ACKNOWLEDGED''"
| "lit_PurchaseOrderStatus PO_PARTIALLY_RECEIVED = ''PARTIALLY_RECEIVED''"
| "lit_PurchaseOrderStatus PO_RECEIVED = ''RECEIVED''"
| "lit_PurchaseOrderStatus PO_CANCELLED = ''CANCELLED''"

primrec lit_AircraftStatus :: "AircraftStatus \<Rightarrow> string" where
  "lit_AircraftStatus AS_ACTIVE = ''ACTIVE''"
| "lit_AircraftStatus AS_STORED = ''STORED''"
| "lit_AircraftStatus AS_WRITTEN_OFF = ''WRITTEN_OFF''"

primrec lit_MaintenanceIntervalType :: "MaintenanceIntervalType \<Rightarrow> string" where
  "lit_MaintenanceIntervalType IT_FH = ''FH''"
| "lit_MaintenanceIntervalType IT_FC = ''FC''"
| "lit_MaintenanceIntervalType IT_CALENDAR = ''CALENDAR''"
| "lit_MaintenanceIntervalType IT_FH_OR_CALENDAR = ''FH_OR_CALENDAR''"
| "lit_MaintenanceIntervalType IT_FC_OR_CALENDAR = ''FC_OR_CALENDAR''"
| "lit_MaintenanceIntervalType IT_FH_AND_FC = ''FH_AND_FC''"

end
