(* ===== verification/Fleet.thy ===== *)
theory Fleet
  imports Store Labels
begin

text \<open>
  The aircraft configuration and its regulation: engines and components as of a date
  (\<open>engines.ts\<close>, \<open>components.ts\<close>), the regulatory documents and requirements
  (\<open>regulations.ts\<close>), the applicability assessments with their snapshots and their lineage
  (\<open>assessments.ts\<close>), the evidence attached to them (\<open>evidence.ts\<close>), and the recent regulatory
  changes with the aircraft they affect. A lookup the code asserts with \<open>!\<close> raises when it fails;
  the functions that do this return an \<open>option\<close>, \<open>None\<close> for the exception. The lineage loop follows
  \<open>previousAssessmentId\<close> and may not end: it is a \<open>partial_function\<close>, \<open>None\<close> for not returning.
\<close>

section \<open>Engines and components\<close>

definition getEngineById :: "world \<Rightarrow> string \<Rightarrow> Engine option" where
  "getEngineById W i = find (\<lambda>e. en_id e = i) (engines W)"

definition getEngineType :: "world \<Rightarrow> string \<Rightarrow> EngineType option" where
  "getEngineType W i = find (\<lambda>t. et_id t = i) (engineTypes W)"

definition installationsForEngine :: "world \<Rightarrow> string \<Rightarrow> EngineInstallation list" where
  "installationsForEngine W e = filter (\<lambda>i. ei_engineId i = e) (engineInstallations W)"

definition installationsForAircraft :: "world \<Rightarrow> string \<Rightarrow> EngineInstallation list" where
  "installationsForAircraft W a =
     js_sort (\<lambda>x y. localeCompare (ei_installedAt x) (ei_installedAt y))
       (filter (\<lambda>i. ei_aircraftId i = a) (engineInstallations W))"

text \<open>\<open>installedAt <= d && (removedAt === null || removedAt > d)\<close>.\<close>

definition installed_during :: "string \<Rightarrow> string option \<Rightarrow> string \<Rightarrow> bool" where
  "installed_during installedAt removedAt d \<longleftrightarrow>
     installedAt \<le> d \<and> (case removedAt of None \<Rightarrow> True | Some r \<Rightarrow> d < r)"

definition engineAsOf :: "world \<Rightarrow> string \<Rightarrow> string \<Rightarrow> string \<Rightarrow> EngineInstallation option" where
  "engineAsOf W a position d =
     find (\<lambda>i. ei_aircraftId i = a \<and> lit_EnginePosition (ei_position i) = position \<and>
               installed_during (ei_installedAt i) (ei_removedAt i) d) (engineInstallations W)"

definition currentEnginesForAircraft :: "world \<Rightarrow> string \<Rightarrow> EngineInstallation list" where
  "currentEnginesForAircraft W a =
     filter (\<lambda>i. ei_aircraftId i = a \<and> ei_removedAt i = None) (engineInstallations W)"

definition currentAircraftForEngine :: "world \<Rightarrow> string \<Rightarrow> string option" where
  "currentAircraftForEngine W e =
     map_option ei_aircraftId
       (find (\<lambda>i. ei_engineId i = e \<and> ei_removedAt i = None) (engineInstallations W))"

definition getComponentById :: "world \<Rightarrow> string \<Rightarrow> Component option" where
  "getComponentById W i = find (\<lambda>c. cp_id c = i) (componentCatalog W)"

definition getComponentInstance :: "world \<Rightarrow> string \<Rightarrow> ComponentInstance option" where
  "getComponentInstance W i = find (\<lambda>c. ci_id c = i) (componentInstances W)"

definition componentForInstance :: "world \<Rightarrow> string \<Rightarrow> Component option" where
  "componentForInstance W i =
     (case find (\<lambda>c. ci_id c = i) (componentInstances W) of
        None \<Rightarrow> None
      | Some inst \<Rightarrow> find (\<lambda>c. cp_id c = ci_componentId inst) (componentCatalog W))"

definition componentInstallationsForAircraft :: "world \<Rightarrow> string \<Rightarrow> ComponentInstallation list" where
  "componentInstallationsForAircraft W a =
     filter (\<lambda>i. cx_aircraftParentId i = Some a) (componentInstallations W)"

definition componentInstallationsForEngine :: "world \<Rightarrow> string \<Rightarrow> ComponentInstallation list" where
  "componentInstallationsForEngine W e =
     filter (\<lambda>i. cx_engineParentId i = Some e) (componentInstallations W)"

definition installationsForComponentInstance :: "world \<Rightarrow> string \<Rightarrow> ComponentInstallation list" where
  "installationsForComponentInstance W c =
     js_sort (\<lambda>x y. localeCompare (cx_installedAt x) (cx_installedAt y))
       (filter (\<lambda>i. cx_componentInstanceId i = c) (componentInstallations W))"

definition isComponentPresentOnAircraft :: "world \<Rightarrow> string \<Rightarrow> string \<Rightarrow> string \<Rightarrow> bool" where
  "isComponentPresentOnAircraft W c a d =
     (let instanceIds = map ci_id (filter (\<lambda>x. ci_componentId x = c) (componentInstances W))
      in list_ex (\<lambda>i. cx_componentInstanceId i \<in> set instanceIds \<and> cx_aircraftParentId i = Some a \<and>
                      installed_during (cx_installedAt i) (cx_removedAt i) d)
           (componentInstallations W))"

definition hasAnyInstallationRecordForComponentOnAircraft :: "world \<Rightarrow> string \<Rightarrow> string \<Rightarrow> bool" where
  "hasAnyInstallationRecordForComponentOnAircraft W c a =
     (let instanceIds = map ci_id (filter (\<lambda>x. ci_componentId x = c) (componentInstances W))
      in list_ex (\<lambda>i. cx_componentInstanceId i \<in> set instanceIds \<and> cx_aircraftParentId i = Some a)
           (componentInstallations W))"

lemma present_recorded:
  "isComponentPresentOnAircraft W c a d \<Longrightarrow> hasAnyInstallationRecordForComponentOnAircraft W c a"
  by (auto simp: isComponentPresentOnAircraft_def hasAnyInstallationRecordForComponentOnAircraft_def
      Let_def list_ex_iff)

section \<open>Regulations\<close>

definition getRequirementById :: "world \<Rightarrow> string \<Rightarrow> RegulatoryRequirement option" where
  "getRequirementById W i = find (\<lambda>r. rr_id r = i) (regulatoryRequirements W)"

definition getDocumentById :: "world \<Rightarrow> string \<Rightarrow> RegulatoryDocument option" where
  "getDocumentById W i = find (\<lambda>d. rd_id d = i) (regulatoryDocuments W)"

definition getAuthorityById :: "world \<Rightarrow> string \<Rightarrow> RegulatoryAuthority option" where
  "getAuthorityById W i = find (\<lambda>a. ra_id a = i) (regulatoryAuthorities W)"

definition getRuleForRequirement :: "world \<Rightarrow> string \<Rightarrow> ApplicabilityRule option" where
  "getRuleForRequirement W i = find (\<lambda>r. ru_regulatoryRequirementId r = i) (applicabilityRules W)"

fun flattenConditions :: "ApplicabilityCondition \<Rightarrow> ApplicabilityCondition list" where
  "flattenConditions (Condition i t l ps children) =
     Condition i t l ps children #
     (case children of None \<Rightarrow> [] | Some cs \<Rightarrow> concat (map flattenConditions cs))"

definition requirementLabel :: "world \<Rightarrow> string option \<Rightarrow> string" where
  "requirementLabel W i =
     (case i of
        None \<Rightarrow> em_dash
      | Some r \<Rightarrow>
          if r = [] then em_dash
          else (case getRequirementById W r of
                  None \<Rightarrow> r
                | Some req \<Rightarrow> lit_RequirementType (rr_requirementType req) @ '' '' @ rr_requirementNumber req))"

section \<open>Assessments\<close>

definition getAssessmentById :: "world \<Rightarrow> string \<Rightarrow> ApplicabilityAssessment option" where
  "getAssessmentById W i = find (\<lambda>a. aa_id a = i) (assessments W)"

definition by_evaluation_desc :: "ApplicabilityAssessment \<Rightarrow> ApplicabilityAssessment \<Rightarrow> int" where
  "by_evaluation_desc a b = localeCompare (aa_evaluatedAt b) (aa_evaluatedAt a)"

definition assessmentsForAircraft :: "world \<Rightarrow> string \<Rightarrow> ApplicabilityAssessment list" where
  "assessmentsForAircraft W a =
     js_sort by_evaluation_desc
       (filter (\<lambda>x. aa_subjectType x = SUB_AIRCRAFT \<and> aa_subjectId x = a) (assessments W))"

definition assessmentsForEngine :: "world \<Rightarrow> string \<Rightarrow> ApplicabilityAssessment list" where
  "assessmentsForEngine W e =
     filter (\<lambda>x. aa_subjectType x = SUB_ENGINE \<and> aa_subjectId x = e) (assessments W)"

definition assessmentsForRequirement :: "world \<Rightarrow> string \<Rightarrow> ApplicabilityAssessment list" where
  "assessmentsForRequirement W r = filter (\<lambda>x. aa_regulatoryRequirementId x = r) (assessments W)"

text \<open>\<open>while (current) { chain.unshift(current); current = ... }\<close>.\<close>

definition previous_assessment :: "world \<Rightarrow> ApplicabilityAssessment \<Rightarrow> ApplicabilityAssessment option" where
  "previous_assessment W a =
     (case aa_previousAssessmentId a of
        None \<Rightarrow> None
      | Some p \<Rightarrow> if p = [] then None else getAssessmentById W p)"

partial_function (option) lineage_loop ::
  "world \<Rightarrow> ApplicabilityAssessment option \<Rightarrow> ApplicabilityAssessment list \<Rightarrow>
   ApplicabilityAssessment list option" where
  [code]: "lineage_loop W current chain =
     (case current of
        None \<Rightarrow> Some chain
      | Some a \<Rightarrow> lineage_loop W (previous_assessment W a) (a # chain))"

definition lineageFor :: "world \<Rightarrow> string \<Rightarrow> ApplicabilityAssessment list option" where
  "lineageFor W i =
     map_option
       (\<lambda>chain. case find (\<lambda>a. aa_previousAssessmentId a = Some i) (assessments W) of
                  None \<Rightarrow> chain
                | Some next_a \<Rightarrow> chain @ [next_a])
       (lineage_loop W (getAssessmentById W i) [])"

definition latestAssessmentForAircraft :: "world \<Rightarrow> string \<Rightarrow> ApplicabilityAssessment option" where
  "latestAssessmentForAircraft W a =
     (case assessmentsForAircraft W a of [] \<Rightarrow> None | x # _ \<Rightarrow> Some x)"

definition latestAssessmentForAircraftRequirement ::
  "world \<Rightarrow> string \<Rightarrow> string \<Rightarrow> ApplicabilityAssessment option" where
  "latestAssessmentForAircraftRequirement W a r =
     (case js_sort by_evaluation_desc
             (filter (\<lambda>x. aa_subjectId x = a \<and> aa_regulatoryRequirementId x = r) (assessments W)) of
        [] \<Rightarrow> None
      | x # _ \<Rightarrow> Some x)"

section \<open>The configuration snapshot\<close>

definition engine_snapshot :: "world \<Rightarrow> EngineInstallation \<Rightarrow> EngineSnapshot option" where
  "engine_snapshot W i =
     (case getEngineById W (ei_engineId i) of
        None \<Rightarrow> None
      | Some e \<Rightarrow>
          (case getEngineType W (en_engineTypeId e) of
             None \<Rightarrow> None
           | Some t \<Rightarrow> Some \<lparr>es_position = lit_EnginePosition (ei_position i),
                             es_engineType = et_modelDesignation t,
                             es_serialNumber = en_serialNumber e\<rparr>))"

definition component_snapshot :: "world \<Rightarrow> ComponentInstallation \<Rightarrow> ComponentSnapshot" where
  "component_snapshot W i =
     \<lparr>ps_position = cx_position i,
      ps_partNumber = (case componentForInstance W (cx_componentInstanceId i) of
                         None \<Rightarrow> ''UNKNOWN''
                       | Some c \<Rightarrow> cp_partNumber c),
      ps_serialNumber = cx_componentInstanceId i\<rparr>"

definition buildSnapshot :: "world \<Rightarrow> string \<Rightarrow> string \<Rightarrow> string \<Rightarrow> ConfigurationSnapshot option" where
  "buildSnapshot W aid d version =
     (case getAircraftById W aid of
        None \<Rightarrow> None
      | Some a \<Rightarrow>
          (case getAircraftVariant W (ac_aircraftVariantId a) of
             None \<Rightarrow> None
           | Some v \<Rightarrow>
               (case those (map (engine_snapshot W)
                       (filter (\<lambda>i. ei_aircraftId i = aid \<and>
                                    installed_during (ei_installedAt i) (ei_removedAt i) d)
                          (engineInstallations W))) of
                  None \<Rightarrow> None
                | Some es \<Rightarrow>
                    Some \<lparr>cs_capturedAt = d, cs_aircraftVariant = av_modelDesignation v,
                          cs_msn = ac_msn a,
                          cs_registration = or_else (registrationAsOf a d) ''UNKNOWN'',
                          cs_engines = es,
                          cs_components =
                            map (component_snapshot W)
                              (filter (\<lambda>i. installed_during (cx_installedAt i) (cx_removedAt i) d)
                                 (componentInstallationsForAircraft W aid)),
                          cs_dataVersion = version\<rparr>)))"

section \<open>Evidence of assessments\<close>

definition evidenceLifecycleStateFor :: "Evidence \<Rightarrow> EvidenceLifecycleState" where
  "evidenceLifecycleStateFor e =
     (if ev_verificationStatus e = VS_VERIFIED then ELS_VERIFIED else ELS_UNKNOWN)"

definition getEvidenceById :: "world \<Rightarrow> string \<Rightarrow> Evidence option" where
  "getEvidenceById W i = find (\<lambda>e. ev_id e = i) (evidence W)"

definition evidenceForAssessment :: "world \<Rightarrow> string \<Rightarrow> Evidence list" where
  "evidenceForAssessment W a = filter (\<lambda>e. ev_applicabilityAssessmentId e = a) (evidence W)"

section \<open>Recent regulatory changes\<close>

record RegulatoryChangeAircraftImpact =
  rca_aircraftId :: string
  rca_registration :: string
  rca_systemResult :: SystemResult
  rca_finalStatus :: FinalStatus
  rca_assessmentId :: string

record RegulatoryChangeRequirementImpact =
  rcr_requirement :: RegulatoryRequirement
  rcr_affectedAircraft :: "RegulatoryChangeAircraftImpact list"
  rcr_linkedMaintenanceEventCount :: nat

record RegulatoryChangeImpact =
  rci_document :: RegulatoryDocument
  rci_authority :: "RegulatoryAuthority option"
  rci_daysSincePublication :: int
  rci_requirements :: "RegulatoryChangeRequirementImpact list"

definition aircraft_impact :: "world \<Rightarrow> ApplicabilityAssessment \<Rightarrow> RegulatoryChangeAircraftImpact" where
  "aircraft_impact W a =
     \<lparr>rca_aircraftId = aa_subjectId a, rca_registration = registration_or_id W (aa_subjectId a),
      rca_systemResult = aa_systemResult a, rca_finalStatus = aa_finalStatus a, rca_assessmentId = aa_id a\<rparr>"

definition requirement_impact :: "world \<Rightarrow> RegulatoryRequirement \<Rightarrow> RegulatoryChangeRequirementImpact" where
  "requirement_impact W r =
     \<lparr>rcr_requirement = r,
      rcr_affectedAircraft =
        map (aircraft_impact W)
          (filter (\<lambda>a. aa_subjectType a = SUB_AIRCRAFT) (assessmentsForRequirement W (rr_id r))),
      rcr_linkedMaintenanceEventCount = length (maintenanceEventsForRequirement W (rr_id r))\<rparr>"

text \<open>A document whose publication date cannot be read has \<open>NaN\<close> days and passes no test.\<close>

definition getRecentRegulatoryChanges :: "world \<Rightarrow> int \<Rightarrow> RegulatoryChangeImpact list" where
  "getRecentRegulatoryChanges W days =
     map (\<lambda>(doc, since).
            \<lparr>rci_document = doc, rci_authority = getAuthorityById W (rd_regulatoryAuthorityId doc),
             rci_daysSincePublication = since,
             rci_requirements =
               map (requirement_impact W)
                 (filter (\<lambda>r. rr_regulatoryDocumentId r = rd_id doc) (regulatoryRequirements W))\<rparr>)
       (js_sort (\<lambda>x y. snd x - snd y)
          (filter (\<lambda>x. 0 \<le> snd x \<and> snd x \<le> days)
             (List.map_filter
                (\<lambda>doc. map_option (Pair doc) (daysBetween MOCK_TODAY (rd_publicationDate doc)))
                (regulatoryDocuments W))))"

end
