(* ===== verification/Risk.thy ===== *)
theory Risk
  imports Fleet
begin

text \<open>
  The operational view of the fleet in \<open>ai/analytics.ts\<close>: technician workload, parts at risk, the
  operations analytics, the explainable risk of one aircraft, the control tower rows and summary,
  and the discrepancy groups per ATA chapter. Everything is computed from the world on each call.
\<close>

section \<open>Workload, parts at risk\<close>

datatype RiskLevel = RL_LOW | RL_MEDIUM | RL_HIGH

definition serious :: "Defect \<Rightarrow> bool" where
  "serious d \<longleftrightarrow> df_severity d = PR_HIGH \<or> df_severity d = PR_CRITICAL"

definition open_serious :: "Defect \<Rightarrow> bool" where
  "open_serious d \<longleftrightarrow> df_status d = DF_OPEN \<and> serious d"

definition urgent :: "WorkOrder \<Rightarrow> bool" where
  "urgent w \<longleftrightarrow> wo_priority w = PR_CRITICAL \<or> wo_priority w = PR_HIGH"

record TechnicianWorkload =
  tw_technicianId :: string
  tw_name :: string
  tw_openWorkOrders :: nat
  tw_overdueWorkOrders :: nat
  tw_onShift :: bool

definition technician_workload :: "world \<Rightarrow> Technician \<Rightarrow> TechnicianWorkload" where
  "technician_workload W t =
     (let assigned = filter (\<lambda>w. wo_assignedTechnicianId w = Some (te_id t) \<and> wo_open w) (workOrders W)
      in \<lparr>tw_technicianId = te_id t, tw_name = te_name t, tw_openWorkOrders = length assigned,
          tw_overdueWorkOrders = count_if isOverdue assigned, tw_onShift = isOnShiftNow t\<rparr>)"

definition getTechnicianWorkload :: "world \<Rightarrow> TechnicianWorkload list" where
  "getTechnicianWorkload W = map (technician_workload W) (technicians W)"

record PartAtRisk =
  par_partNumber :: string
  par_description :: string
  par_status :: string
  par_workOrderId :: "string option"

definition getPartsAtRisk :: "world \<Rightarrow> PartAtRisk list" where
  "getPartsAtRisk W =
     map (\<lambda>p. \<lparr>par_partNumber = pt_partNumber p, par_description = pt_description p,
               par_status = lit_PartStatus (pt_status p), par_workOrderId = pt_workOrderId p\<rparr>)
       (filter (\<lambda>p. pt_status p \<noteq> PS_IN_STOCK) (parts W))"

section \<open>Operations analytics\<close>

record AircraftRef =
  ref_aircraftId :: string
  ref_registration :: string

record GroundedAircraft =
  gr_aircraftId :: string
  gr_registration :: string
  gr_reason :: string

record OperationsAnalytics =
  oa_aircraftRequiringMaintenance :: "AircraftRef list"
  oa_aircraftGrounded :: "GroundedAircraft list"
  oa_openProjects :: nat
  oa_openWorkOrders :: nat
  oa_workOrderStatusCounts :: "(WorkOrderStatus \<times> nat) list"
  oa_overdue :: nat
  oa_highPriority :: nat
  oa_openDefects :: nat
  oa_unknownChecklistWorkOrderIds :: "string list"
  oa_pendingInspections :: nat
  oa_technicianWorkload :: "TechnicianWorkload list"
  oa_partsAtRisk :: "PartAtRisk list"
  oa_activeProjectCount :: nat

text \<open>\<open>counts[k] = (counts[k] ?? 0) + 1\<close> over a list: the keys in order of first occurrence.\<close>

definition count_by :: "('a \<Rightarrow> 'k) \<Rightarrow> 'a list \<Rightarrow> ('k \<times> nat) list" where
  "count_by key xs = map (\<lambda>(k, ys). (k, length ys)) (group_by key xs)"

definition grounded :: "world \<Rightarrow> Aircraft \<Rightarrow> GroundedAircraft option" where
  "grounded W a =
     map_option (\<lambda>d. \<lparr>gr_aircraftId = ac_id a, gr_registration = currentRegistration a,
                      gr_reason = df_description d\<rparr>)
       (find open_serious (defectsForAircraft W (ac_id a)))"

definition getOperationsAnalytics :: "world \<Rightarrow> string list \<Rightarrow> OperationsAnalytics" where
  "getOperationsAnalytics W unknownIds =
     (let openWos = filter wo_open (workOrders W);
          withOpenWos = set (map wo_aircraftId openWos);
          openProjects = count_if (\<lambda>p. mp_status p = MPS_IN_PROGRESS \<or> mp_status p = MPS_PLANNED)
                           (maintenanceProjects W)
      in \<lparr>oa_aircraftRequiringMaintenance =
            map (\<lambda>a. \<lparr>ref_aircraftId = ac_id a, ref_registration = currentRegistration a\<rparr>)
              (filter (\<lambda>a. ac_id a \<in> withOpenWos) (aircraft W)),
          oa_aircraftGrounded = List.map_filter (grounded W) (aircraft W),
          oa_openProjects = openProjects,
          oa_openWorkOrders = length openWos,
          oa_workOrderStatusCounts = count_by wo_status (workOrders W),
          oa_overdue = count_if isOverdue (workOrders W),
          oa_highPriority = count_if urgent openWos,
          oa_openDefects = count_if (\<lambda>d. df_status d = DF_OPEN) (defects W),
          oa_unknownChecklistWorkOrderIds = unknownIds,
          oa_pendingInspections = count_if (\<lambda>r. ir_status r = IR_PENDING_INSPECTION) (inspectorReviews W),
          oa_technicianWorkload = getTechnicianWorkload W,
          oa_partsAtRisk = getPartsAtRisk W,
          oa_activeProjectCount = openProjects\<rparr>)"

section \<open>The risk of one aircraft\<close>

record AircraftRiskAssessment =
  ra_aircraftId :: string
  ra_registration :: string
  ra_risk :: RiskLevel
  ra_reasons :: "string list"

text \<open>\<open>p.workOrderId && woIds.has(p.workOrderId)\<close>.\<close>

definition shortageParts :: "world \<Rightarrow> string \<Rightarrow> PartAtRisk list" where
  "shortageParts W a =
     (let woIds = map wo_id (workOrdersForAircraft W a)
      in filter (\<lambda>p. case par_workOrderId p of None \<Rightarrow> False | Some i \<Rightarrow> i \<noteq> [] \<and> i \<in> set woIds)
           (getPartsAtRisk W))"

definition recurringChapters :: "Defect list \<Rightarrow> (string \<times> Defect list) list" where
  "recurringChapters defs = filter (\<lambda>(c, list). 1 < length list) (group_by df_ataChapter defs)"

definition serious_defect_reason :: "nat \<Rightarrow> string" where
  "serious_defect_reason n = show_nat n @ '' open HIGH/CRITICAL-severity defect(s)''"

definition aircraft_risk_reasons :: "world \<Rightarrow> string \<Rightarrow> string list" where
  "aircraft_risk_reasons W i =
     (let defs = defectsForAircraft W i;
          seriousOpen = count_if open_serious defs;
          wos = workOrdersForAircraft W i;
          criticalOpen = count_if (\<lambda>w. wo_open w \<and> urgent w) wos;
          overdue = count_if isOverdue wos;
          short = shortageParts W i
      in map (\<lambda>(c, list). show_nat (length list) @ '' recurring defect(s) in ATA '' @ c)
           (recurringChapters defs) @
         (if 0 < criticalOpen
          then [show_nat criticalOpen @ '' open HIGH/CRITICAL-priority work order(s)''] else []) @
         (if 0 < seriousOpen then [serious_defect_reason seriousOpen] else []) @
         (if short \<noteq> []
          then [''Required part unavailable: '' @ join '', '' (map par_partNumber short)] else []) @
         (if 0 < overdue then [show_nat overdue @ '' overdue work order(s)''] else []))"

definition getAircraftOperationalRisk :: "world \<Rightarrow> string \<Rightarrow> AircraftRiskAssessment option" where
  "getAircraftOperationalRisk W i =
     (case getAircraftById W i of
        None \<Rightarrow> None
      | Some a \<Rightarrow>
          let reasons = aircraft_risk_reasons W i;
              seriousOpen = count_if open_serious (defectsForAircraft W i)
          in Some \<lparr>ra_aircraftId = i, ra_registration = currentRegistration a,
                   ra_risk = (if 0 < seriousOpen \<or> 2 \<le> length reasons then RL_HIGH
                              else if length reasons = 1 then RL_MEDIUM else RL_LOW),
                   ra_reasons =
                     (if reasons \<noteq> [] then reasons
                      else [''No open serious defects, no critical work orders, no material shortages, and no recurring defect pattern found.''])\<rparr>)"

section \<open>The control tower\<close>

datatype OperationalStatus = OS_OPERATIONAL | OS_UNDER_MAINTENANCE | OS_AOG | OS_STORED | OS_WRITTEN_OFF

record ControlTowerAircraftRow =
  ctr_aircraftId :: string
  ctr_registration :: string
  ctr_model :: string
  ctr_operationalStatus :: OperationalStatus
  ctr_aogReason :: "string option"
  ctr_openWorkOrders :: nat
  ctr_openDefects :: nat
  ctr_criticalOpenDefects :: nat
  ctr_nextMaintenanceDue :: "string option"
  ctr_materialShortageCount :: nat
  ctr_risk :: "AircraftRiskAssessment option"

definition operational_status :: "world \<Rightarrow> Aircraft \<Rightarrow> OperationalStatus" where
  "operational_status W a =
     (if ac_status a = AS_STORED then OS_STORED
      else if ac_status a = AS_WRITTEN_OFF then OS_WRITTEN_OFF
      else if find open_serious (defectsForAircraft W (ac_id a)) \<noteq> None then OS_AOG
      else if filter wo_open (workOrdersForAircraft W (ac_id a)) \<noteq> [] then OS_UNDER_MAINTENANCE
      else OS_OPERATIONAL)"

text \<open>\<open>risk\<close> is the assessment the code asserts with \<open>!\<close>; \<open>control_tower_risk\<close> shows it is there.\<close>

definition control_tower_row :: "world \<Rightarrow> Aircraft \<Rightarrow> ControlTowerAircraftRow" where
  "control_tower_row W a =
     (let i = ac_id a;
          openDefs = filter (\<lambda>d. df_status d = DF_OPEN) (defectsForAircraft W i)
      in \<lparr>ctr_aircraftId = i,
          ctr_registration = currentRegistration a,
          ctr_model = (case getAircraftVariant W (ac_aircraftVariantId a) of
                         None \<Rightarrow> ''Insufficient source data.'' | Some v \<Rightarrow> av_modelDesignation v),
          ctr_operationalStatus = operational_status W a,
          ctr_aogReason = map_option df_description (find serious openDefs),
          ctr_openWorkOrders = count_if wo_open (workOrdersForAircraft W i),
          ctr_openDefects = length openDefs,
          ctr_criticalOpenDefects = count_if serious openDefs,
          ctr_nextMaintenanceDue =
            map_option me_date (find (\<lambda>e. me_aircraftId e = i) (upcomingMaintenanceEvents W 50)),
          ctr_materialShortageCount = length (shortageParts W i),
          ctr_risk = getAircraftOperationalRisk W i\<rparr>)"

definition getControlTowerFleet :: "world \<Rightarrow> ControlTowerAircraftRow list" where
  "getControlTowerFleet W = map (control_tower_row W) (aircraft W)"

record ControlTowerSummary =
  cts_totalAircraft :: nat
  cts_operational :: nat
  cts_underMaintenance :: nat
  cts_aog :: nat
  cts_openWorkOrders :: nat
  cts_criticalDiscrepancies :: nat
  cts_upcomingMaintenance :: nat
  cts_materialShortages :: nat

definition getControlTowerSummary :: "world \<Rightarrow> ControlTowerSummary" where
  "getControlTowerSummary W =
     (let fleet = getControlTowerFleet W
      in \<lparr>cts_totalAircraft = length fleet,
          cts_operational = count_if (\<lambda>r. ctr_operationalStatus r = OS_OPERATIONAL) fleet,
          cts_underMaintenance = count_if (\<lambda>r. ctr_operationalStatus r = OS_UNDER_MAINTENANCE) fleet,
          cts_aog = count_if (\<lambda>r. ctr_operationalStatus r = OS_AOG) fleet,
          cts_openWorkOrders = count_if wo_open (workOrders W),
          cts_criticalDiscrepancies = count_if open_serious (defects W),
          cts_upcomingMaintenance = length (upcomingMaintenanceEvents W 50),
          cts_materialShortages = length (getPartsAtRisk W)\<rparr>)"

section \<open>Discrepancy groups\<close>

record DiscrepancyGroup =
  dg_ataChapter :: string
  dg_occurrences :: nat
  dg_aircraftIds :: "string list"
  dg_aircraftCount :: nat
  dg_recurringAircraftCount :: nat
  dg_highSeverityCount :: nat
  dg_firstOccurrence :: string
  dg_latestOccurrence :: string
  dg_openCount :: nat
  dg_deferredCount :: nat
  dg_resolvedCount :: nat
  dg_defects :: "Defect list"

text \<open>\<open>dates\<close> is not empty: a group holds the defects that made it.\<close>

definition discrepancy_group :: "string \<times> Defect list \<Rightarrow> DiscrepancyGroup" where
  "discrepancy_group = (\<lambda>(c, list).
     let byAircraft = group_by df_aircraftId list;
         dates = sort (map df_reportedDate list)
     in \<lparr>dg_ataChapter = c, dg_occurrences = length list,
         dg_aircraftIds = map fst byAircraft, dg_aircraftCount = length byAircraft,
         dg_recurringAircraftCount = count_if (\<lambda>(a, l). 1 < length l) byAircraft,
         dg_highSeverityCount = count_if serious list,
         dg_firstOccurrence = hd dates, dg_latestOccurrence = last dates,
         dg_openCount = count_if (\<lambda>d. df_status d = DF_OPEN) list,
         dg_deferredCount = count_if (\<lambda>d. df_status d = DF_DEFERRED) list,
         dg_resolvedCount = count_if (\<lambda>d. df_status d = DF_RESOLVED) list,
         dg_defects = list\<rparr>)"

definition getDiscrepancyGroups :: "world \<Rightarrow> DiscrepancyGroup list" where
  "getDiscrepancyGroups W =
     js_sort (\<lambda>a b. int (dg_occurrences b) - int (dg_occurrences a))
       (map discrepancy_group (group_by df_ataChapter (defects W)))"

definition getDiscrepancyGroup :: "world \<Rightarrow> string \<Rightarrow> DiscrepancyGroup option" where
  "getDiscrepancyGroup W c = find (\<lambda>g. dg_ataChapter g = c) (getDiscrepancyGroups W)"

definition getDiscrepancyGroupAnalysis :: "world \<Rightarrow> string \<Rightarrow> string list" where
  "getDiscrepancyGroupAnalysis W c =
     (case getDiscrepancyGroup W c of
        None \<Rightarrow> [''Insufficient source data '' @ em_dash @ '' no defects recorded against this ATA chapter.'']
      | Some g \<Rightarrow>
          if dg_occurrences g < 2 \<or> dg_recurringAircraftCount g = 0 \<and> dg_aircraftCount g < 2
          then [''Insufficient source data to determine the recurrence cause.'']
          else
            [show_nat (dg_occurrences g) @ '' ATA '' @ dg_ataChapter g @ '' discrepanc'' @
             (if dg_occurrences g = 1 then ''y has'' else ''ies have'') @ '' appeared on '' @
             show_nat (dg_aircraftCount g) @ '' aircraft'' @
             (if 0 < dg_recurringAircraftCount g
              then '', including '' @ show_nat (dg_recurringAircraftCount g) @
                   '' aircraft with more than one occurrence.''
              else ''.'')] @
            (if 0 < dg_resolvedCount g \<or> 0 < dg_deferredCount g
             then [show_nat (dg_resolvedCount g) @ '' occurrence(s) were resolved by corrective action, '' @
                   show_nat (dg_deferredCount g) @ '' deferred, and '' @ show_nat (dg_openCount g) @
                   '' remain open.'']
             else [''All '' @ show_nat (dg_openCount g) @ '' occurrence(s) are currently open.'']) @
            (if 0 < dg_recurringAircraftCount g
             then [''The recurrence pattern suggests this should be reviewed as a repeated component/system issue rather than treated as isolated events.'']
             else []))"

section \<open>Assessment differences\<close>

definition change_line :: "string \<Rightarrow> string \<Rightarrow> string \<Rightarrow> string list" where
  "change_line what x y = (if x = y then [] else [what @ '' changed: '' @ x @ '' '' @ arrow_right @ '' '' @ y])"

definition assessmentDiffSummary :: "world \<Rightarrow> string \<Rightarrow> string \<Rightarrow> bool \<times> string list" where
  "assessmentDiffSummary W i j =
     (case (getAssessmentById W i, getAssessmentById W j) of
        (Some a, Some b) \<Rightarrow>
          let summary =
            change_line ''Final status'' (lit_FinalStatus (aa_finalStatus a)) (lit_FinalStatus (aa_finalStatus b)) @
            change_line ''System result'' (lit_SystemResult (aa_systemResult a)) (lit_SystemResult (aa_systemResult b)) @
            change_line ''Human decision'' (lit_HumanDecision (aa_humanDecision a)) (lit_HumanDecision (aa_humanDecision b)) @
            change_line ''Rule version'' (aa_ruleVersion a) (aa_ruleVersion b) @
            change_line ''Evidence count'' (show_nat (length (aa_evidenceIds a))) (show_nat (length (aa_evidenceIds b))) @
            (case aa_changeReason b of None \<Rightarrow> [] | Some r \<Rightarrow> [''Change reason recorded: '' @ lit_ChangeReason r])
          in (True, if summary = []
                    then [''No material differences detected between these two assessment versions.'']
                    else summary)
      | _ \<Rightarrow> (False, []))"

definition assessmentUnknownReasons :: "world \<Rightarrow> string \<Rightarrow> string list" where
  "assessmentUnknownReasons W i =
     (case getAssessmentById W i of
        None \<Rightarrow> []
      | Some a \<Rightarrow>
          let unknown = filter (\<lambda>c. ce_result c = K_UNKNOWN) (aa_conditionEvaluations a)
          in if unknown = [] then [''No condition on this assessment is currently UNKNOWN.'']
             else map (\<lambda>c. ce_label c @ '': expected '' @ ce_expected c @ '', actual '' @
                           or_else (ce_actual c) ''not recorded'' @
                           (case ce_note c of
                              None \<Rightarrow> []
                            | Some n \<Rightarrow> if n = [] then [] else '' '' @ em_dash @ '' '' @ n)) unknown)"

section \<open>Facts about the risk and the groups\<close>

lemma find_None_count: "find P xs = None \<longleftrightarrow> count_if P xs = 0"
  by (auto simp: find_None_iff count_if_zero)

lemma open_serious_filter:
  "count_if serious (filter (\<lambda>d. df_status d = DF_OPEN) ds) = count_if open_serious ds"
  by (induction ds) (auto simp: open_serious_def)

lemma getAircraftById_mem: "a \<in> set (aircraft W) \<Longrightarrow> \<exists>b. getAircraftById W (ac_id a) = Some b"
  unfolding getAircraftById_def by (rule find_isSome) auto

text \<open>The assertion \<open>getAircraftOperationalRisk(a.id)!\<close> of the fleet table never fails.\<close>

lemma control_tower_risk: "r \<in> set (getControlTowerFleet W) \<Longrightarrow> ctr_risk r \<noteq> None"
proof -
  assume "r \<in> set (getControlTowerFleet W)"
  then obtain a where a: "a \<in> set (aircraft W)" "r = control_tower_row W a"
    by (auto simp: getControlTowerFleet_def)
  from getAircraftById_mem [OF a(1)] show ?thesis
    by (auto simp: a(2) control_tower_row_def Let_def getAircraftOperationalRisk_def)
qed

interpretation occurrences: rank_comparator "\<lambda>g. - int (dg_occurrences g)" .

lemma groups_sorted: "sorted_wrt (\<lambda>a b. dg_occurrences b \<le> dg_occurrences a) (getDiscrepancyGroups W)"
proof -
  have "js_sort (\<lambda>x y. - int (dg_occurrences x) - - int (dg_occurrences y)) =
        js_sort (\<lambda>a b. int (dg_occurrences b) - int (dg_occurrences a))"
    by (rule arg_cong [where f = js_sort]) (simp add: fun_eq_iff)
  then show ?thesis
    using occurrences.by_rank.js_sort_sorted [of "map discrepancy_group (group_by df_ataChapter (defects W))"]
    by (simp add: getDiscrepancyGroups_def algebra_simps)
qed

lemma length_concat_group_add:
  "(\<Sum>(k, ys) \<leftarrow> group_add j x g. length ys) = Suc (\<Sum>(k, ys) \<leftarrow> g. length ys)"
  by (induction j x g rule: group_add.induct) auto

lemma group_by_total: "(\<Sum>(k, ys) \<leftarrow> group_by key xs. length ys) = length xs"
proof (induction xs rule: rev_induct)
  case Nil
  then show ?case by (simp add: group_by_def)
next
  case (snoc x xs)
  then show ?case by (simp only: group_by_snoc length_concat_group_add) simp
qed

lemma sum_list_js_sort:
  "(\<Sum>x \<leftarrow> js_sort c xs. f x) = (\<Sum>x \<leftarrow> xs. (f x :: nat))"
  by (metis mset_js_sort mset_map sum_mset_sum_list)

lemma groups_total: "(\<Sum>g \<leftarrow> getDiscrepancyGroups W. dg_occurrences g) = length (defects W)"
  using group_by_total [of df_ataChapter "defects W"]
  by (simp add: getDiscrepancyGroups_def sum_list_js_sort comp_def discrepancy_group_def Let_def split_def)

lemma group_mem:
  assumes "g \<in> set (getDiscrepancyGroups W)"
  shows "dg_defects g = filter (\<lambda>d. df_ataChapter d = dg_ataChapter g) (defects W)"
    and "dg_defects g \<noteq> []" and "g = discrepancy_group (dg_ataChapter g, dg_defects g)"
proof -
  from assms obtain c l where cl: "(c, l) \<in> set (group_by df_ataChapter (defects W))"
      and g: "g = discrepancy_group (c, l)"
    by (auto simp: getDiscrepancyGroups_def)
  have f: "dg_ataChapter g = c" "dg_defects g = l" by (simp_all add: g discrepancy_group_def Let_def)
  show "dg_defects g = filter (\<lambda>d. df_ataChapter d = dg_ataChapter g) (defects W)"
    using group_by_mem [OF cl] by (simp add: f)
  show "dg_defects g \<noteq> []" using group_by_ne [OF cl] by (simp add: f)
  show "g = discrepancy_group (dg_ataChapter g, dg_defects g)" by (simp only: f) (rule g)
qed

lemma defect_status_total:
  "count_if (\<lambda>d. df_status d = DF_OPEN) l + count_if (\<lambda>d. df_status d = DF_DEFERRED) l +
   count_if (\<lambda>d. df_status d = DF_RESOLVED) l = length l"
proof (induction l)
  case Nil
  then show ?case by simp
next
  case (Cons d l)
  then show ?case by (cases "df_status d") auto
qed

interpretation operational: status_partition "operational_status W"
  "[OS_OPERATIONAL, OS_UNDER_MAINTENANCE, OS_AOG, OS_STORED, OS_WRITTEN_OFF]" for W
  by unfold_locales (auto simp: operational_status_def)

lemma count_if_map: "count_if P (map f xs) = count_if (\<lambda>x. P (f x)) xs"
  by (induction xs) auto

lemma control_tower_counts:
  "count_if (\<lambda>r. ctr_operationalStatus r = s) (getControlTowerFleet W) =
   count_if (\<lambda>a. operational_status W a = s) (aircraft W)"
  by (simp add: getControlTowerFleet_def count_if_map control_tower_row_def Let_def)

section \<open>Properties\<close>

text \<open>
  The discrepancy groups partition the defects: the groups come with the most frequent chapter
  first, their occurrences add up to the number of defects, each group holds exactly the defects
  of its chapter, in order, with at least one of them, and its open, deferred and resolved counts
  add up to its occurrences.
\<close>

theorem discrepancy_groups_partition:
  "sorted_wrt (\<lambda>a b. dg_occurrences b \<le> dg_occurrences a) (getDiscrepancyGroups W) \<and>
   (\<Sum>g \<leftarrow> getDiscrepancyGroups W. dg_occurrences g) = length (defects W) \<and>
   list_all (\<lambda>g. dg_defects g = filter (\<lambda>d. df_ataChapter d = dg_ataChapter g) (defects W) \<and>
                 dg_occurrences g = length (dg_defects g) \<and> 1 \<le> dg_occurrences g \<and>
                 dg_openCount g + dg_deferredCount g + dg_resolvedCount g = dg_occurrences g)
     (getDiscrepancyGroups W)"
proof (intro conjI groups_sorted groups_total)
  show "list_all (\<lambda>g. dg_defects g = filter (\<lambda>d. df_ataChapter d = dg_ataChapter g) (defects W) \<and>
                 dg_occurrences g = length (dg_defects g) \<and> 1 \<le> dg_occurrences g \<and>
                 dg_openCount g + dg_deferredCount g + dg_resolvedCount g = dg_occurrences g)
     (getDiscrepancyGroups W)"
    unfolding list_all_iff
  proof
    fix g
    assume g: "g \<in> set (getDiscrepancyGroups W)"
    obtain c l where cl: "g = discrepancy_group (c, l)" using group_mem(3) [OF g] by blast
    have l: "dg_defects g = l" and c: "dg_ataChapter g = c"
      by (simp_all add: cl discrepancy_group_def Let_def)
    show "dg_defects g = filter (\<lambda>d. df_ataChapter d = dg_ataChapter g) (defects W) \<and>
          dg_occurrences g = length (dg_defects g) \<and> 1 \<le> dg_occurrences g \<and>
          dg_openCount g + dg_deferredCount g + dg_resolvedCount g = dg_occurrences g"
      using group_mem(1,2) [OF g] defect_status_total [of l]
      by (simp add: l c) (simp add: cl discrepancy_group_def Let_def Suc_le_eq)
  qed
qed

text \<open>
  The control tower summary accounts for the whole fleet: operational, under maintenance and
  AOG aircraft, with the stored and the written-off ones, are all the aircraft; an aircraft is AOG
  exactly when it is active and has an open defect of high or critical severity.
\<close>

theorem control_tower_accounts_for_fleet:
  "cts_totalAircraft (getControlTowerSummary W) =
     cts_operational (getControlTowerSummary W) + cts_underMaintenance (getControlTowerSummary W) +
     cts_aog (getControlTowerSummary W) + count_if (\<lambda>a. ac_status a \<noteq> AS_ACTIVE) (aircraft W) \<and>
   cts_aog (getControlTowerSummary W) =
     count_if (\<lambda>a. ac_status a = AS_ACTIVE \<and> list_ex open_serious (defectsForAircraft W (ac_id a)))
       (aircraft W)"
proof -
  have stored: "count_if (\<lambda>a. ac_status a \<noteq> AS_ACTIVE) (aircraft W) =
      count_if (\<lambda>a. operational_status W a = OS_STORED) (aircraft W) +
      count_if (\<lambda>a. operational_status W a = OS_WRITTEN_OFF) (aircraft W)"
  proof -
    have "(\<lambda>a. ac_status a \<noteq> AS_ACTIVE) =
        (\<lambda>a. operational_status W a = OS_STORED \<or> operational_status W a = OS_WRITTEN_OFF)"
    proof
      fix a
      show "(ac_status a \<noteq> AS_ACTIVE) =
          (operational_status W a = OS_STORED \<or> operational_status W a = OS_WRITTEN_OFF)"
        by (cases "ac_status a") (simp_all add: operational_status_def)
    qed
    then show ?thesis by (simp add: count_if_disj)
  qed
  have aog: "(\<lambda>a. operational_status W a = OS_AOG) =
      (\<lambda>a. ac_status a = AS_ACTIVE \<and> list_ex open_serious (defectsForAircraft W (ac_id a)))"
  proof
    fix a
    show "(operational_status W a = OS_AOG) =
        (ac_status a = AS_ACTIVE \<and> list_ex open_serious (defectsForAircraft W (ac_id a)))"
      by (cases "ac_status a") (auto simp: operational_status_def find_None_iff list_ex_iff)
  qed
  show ?thesis
    using operational.summary_total [of W "aircraft W"] stored
    by (simp add: getControlTowerSummary_def Let_def control_tower_counts aog)
      (simp add: getControlTowerFleet_def)
qed

end
