(* ===== verification/Planning.thy ===== *)
theory Planning
  imports Risk
begin

text \<open>
  Work order planning in \<open>ai/analytics.ts\<close>: the planning row of a work order with its derived
  status, risk and recommended action; the lists and the summary over the open work orders; the
  one ranking pass of technicians for a work order, with the recommendation, the eligibility list
  and the authorization read from it; the next maintenance actions and the execution queue.
  \<open>daysOverdue\<close> is an \<open>int option option\<close>: \<open>null\<close> when the work order is not overdue, \<open>NaN\<close> when its
  due date cannot be read. Keyword lengths are counted in bytes (the certifications are ASCII).
\<close>

section \<open>The planning row\<close>

datatype PlanningStatus =
    PL_READY | PL_MATERIAL_BLOCKED | PL_TECHNICIAN_BLOCKED | PL_BOTH_BLOCKED | PL_IN_PROGRESS
    | PL_WAITING_INSPECTION | PL_COMPLETED | PL_CANCELLED

record ShortPart =
  sp_partNumber :: string
  sp_description :: string
  sp_status :: string
  sp_quantity :: int

record WorkOrderPlanningRow =
  pr_workOrderId :: string
  pr_workOrderNumber :: string
  pr_title :: string
  pr_aircraftId :: string
  pr_aircraftRegistration :: string
  pr_priority :: Priority
  pr_status :: WorkOrderStatus
  pr_planningStatus :: PlanningStatus
  pr_shortParts :: "ShortPart list"
  pr_assignedTechnicianId :: "string option"
  pr_assignedTechnicianName :: "string option"
  pr_dueDate :: string
  pr_daysOverdue :: "int option option"
  pr_aogAircraft :: bool
  pr_risk :: RiskLevel
  pr_riskReasons :: "string list"
  pr_recommendedAction :: string

definition short_parts :: "world \<Rightarrow> string \<Rightarrow> ShortPart list" where
  "short_parts W i =
     map (\<lambda>p. \<lparr>sp_partNumber = pt_partNumber p, sp_description = pt_description p,
               sp_status = lit_PartStatus (pt_status p), sp_quantity = pt_quantity p\<rparr>)
       (filter (\<lambda>p. pt_status p \<noteq> PS_IN_STOCK) (partsForWorkOrder W i))"

definition planning_status :: "WorkOrderStatus \<Rightarrow> bool \<Rightarrow> bool \<Rightarrow> PlanningStatus" where
  "planning_status s materialBlocked technicianBlocked =
     (if s = WO_COMPLETED then PL_COMPLETED
      else if s = WO_CANCELLED then PL_CANCELLED
      else if s = WO_IN_PROGRESS then PL_IN_PROGRESS
      else if s = WO_WAITING_INSPECTION then PL_WAITING_INSPECTION
      else if materialBlocked \<and> technicianBlocked then PL_BOTH_BLOCKED
      else if materialBlocked then PL_MATERIAL_BLOCKED
      else if technicianBlocked then PL_TECHNICIAN_BLOCKED
      else PL_READY)"

definition aog_phrase :: string where
  "aog_phrase = ''HIGH/CRITICAL-severity defect''"

definition aog_aircraft :: "world \<Rightarrow> string \<Rightarrow> bool" where
  "aog_aircraft W i =
     (case getAircraftById W i of
        None \<Rightarrow> False
      | Some a \<Rightarrow> (case getAircraftOperationalRisk W (ac_id a) of
                    None \<Rightarrow> False
                  | Some r \<Rightarrow> list_ex (\<lambda>x. str_includes x aog_phrase) (ra_reasons r)))"

definition show_days :: "int option \<Rightarrow> string" where
  "show_days d = (case d of None \<Rightarrow> ''NaN'' | Some n \<Rightarrow> show_int n)"

definition inconsistency_note :: string where
  "inconsistency_note = ''Work order status is WAITING_PARTS, but no part currently linked to this work order shows a shortage (source: lib/mock/parts.ts).''"

definition recommended_action ::
  "WorkOrder \<Rightarrow> PlanningStatus \<Rightarrow> string \<Rightarrow> bool \<Rightarrow> bool \<Rightarrow> string" where
  "recommended_action w ps partList inconsistent aog =
     (if ps = PL_COMPLETED \<or> ps = PL_CANCELLED then ''No action required.''
      else if ps = PL_BOTH_BLOCKED then
        ''Assign a technician and resolve material shortage ('' @ partList @ '') before starting.''
      else if ps = PL_MATERIAL_BLOCKED then
        ''Do not start '' @ em_dash @ '' required part unavailable: '' @ partList @ ''.''
      else if ps = PL_TECHNICIAN_BLOCKED then ''Assign a technician before starting.''
      else if ps = PL_READY \<and> inconsistent then
        ''Ready per part records, though work order status still reads WAITING_PARTS '' @ em_dash @ '' '' @
        inconsistency_note
      else if ps = PL_READY \<and> (aog \<or> wo_priority w = PR_CRITICAL) then
        ''Start '' @ wo_workOrderNumber w @ '' now '' @ em_dash @ '' '' @
        (if aog then ''aircraft is AOG'' else ''priority is CRITICAL'') @ '' and material is available.''
      else if ps = PL_READY then
        ''Ready to start when scheduled '' @ em_dash @ '' material and technician are in place.''
      else if ps = PL_WAITING_INSPECTION then
        ''Awaiting inspector review '' @ em_dash @ '' no further planning action.''
      else ''In progress '' @ em_dash @ '' no further planning action.'')"

definition buildPlanningRow :: "world \<Rightarrow> WorkOrder \<Rightarrow> WorkOrderPlanningRow" where
  "buildPlanningRow W w =
     (let short = short_parts W (wo_id w);
          materialBlocked = short \<noteq> [];
          technicianBlocked = wo_assignedTechnicianId w = None;
          tech = (case wo_assignedTechnicianId w of
                    None \<Rightarrow> None
                  | Some t \<Rightarrow> if t = [] then None else getTechnicianById W t);
          overdue = isOverdue w;
          daysOverdue = (if overdue then Some (daysBetween MOCK_TODAY (wo_dueDate w)) else None);
          aog = aog_aircraft W (wo_aircraftId w);
          inconsistent = wo_status w = WO_WAITING_PARTS \<and> \<not> materialBlocked;
          ps = planning_status (wo_status w) materialBlocked technicianBlocked;
          partList = join '', '' (map sp_partNumber short);
          riskReasons =
            (if aog then [''Aircraft is AOG (open HIGH/CRITICAL defect)''] else []) @
            (if urgent w then [''Work order priority is '' @ lit_Priority (wo_priority w)] else []) @
            (if overdue
             then [''Overdue by '' @ show_days (daysBetween MOCK_TODAY (wo_dueDate w)) @ '' day(s)''] else []) @
            (if materialBlocked then [''Required material unavailable: '' @ partList] else []) @
            (if inconsistent then [inconsistency_note] else []);
          risk = (if aog \<or> overdue \<and> urgent w then RL_HIGH
                  else if riskReasons \<noteq> [] then RL_MEDIUM else RL_LOW)
      in \<lparr>pr_workOrderId = wo_id w, pr_workOrderNumber = wo_workOrderNumber w, pr_title = wo_title w,
          pr_aircraftId = wo_aircraftId w,
          pr_aircraftRegistration = registration_or_id W (wo_aircraftId w),
          pr_priority = wo_priority w, pr_status = wo_status w, pr_planningStatus = ps,
          pr_shortParts = short, pr_assignedTechnicianId = wo_assignedTechnicianId w,
          pr_assignedTechnicianName = map_option te_name tech, pr_dueDate = wo_dueDate w,
          pr_daysOverdue = daysOverdue, pr_aogAircraft = aog, pr_risk = risk,
          pr_riskReasons =
            (if riskReasons \<noteq> [] then riskReasons
             else [''No AOG condition, overdue status, or material shortage found for this work order.'']),
          pr_recommendedAction = recommended_action w ps partList inconsistent aog\<rparr>)"

definition getWorkOrderPlanning :: "world \<Rightarrow> WorkOrderPlanningRow list" where
  "getWorkOrderPlanning W = map (buildPlanningRow W) (filter wo_open (workOrders W))"

definition getWorkOrderPlanningRow :: "world \<Rightarrow> string \<Rightarrow> WorkOrderPlanningRow option" where
  "getWorkOrderPlanningRow W i = map_option (buildPlanningRow W) (find (\<lambda>x. wo_id x = i) (workOrders W))"

definition material_blocked_row :: "WorkOrderPlanningRow \<Rightarrow> bool" where
  "material_blocked_row r \<longleftrightarrow>
     pr_planningStatus r = PL_MATERIAL_BLOCKED \<or> pr_planningStatus r = PL_BOTH_BLOCKED"

definition technician_blocked_row :: "WorkOrderPlanningRow \<Rightarrow> bool" where
  "technician_blocked_row r \<longleftrightarrow>
     pr_planningStatus r = PL_TECHNICIAN_BLOCKED \<or> pr_planningStatus r = PL_BOTH_BLOCKED"

definition getMaterialBlockedWorkOrders :: "world \<Rightarrow> WorkOrderPlanningRow list" where
  "getMaterialBlockedWorkOrders W = filter material_blocked_row (getWorkOrderPlanning W)"

definition getReadyToStartWorkOrders :: "world \<Rightarrow> WorkOrderPlanningRow list" where
  "getReadyToStartWorkOrders W = filter (\<lambda>r. pr_planningStatus r = PL_READY) (getWorkOrderPlanning W)"

definition getWorkOrdersAwaitingAssignment :: "world \<Rightarrow> WorkOrderPlanningRow list" where
  "getWorkOrdersAwaitingAssignment W = filter technician_blocked_row (getWorkOrderPlanning W)"

record WorkOrderPlanningSummary =
  wps_openWorkOrders :: nat
  wps_criticalHigh :: nat
  wps_readyToStart :: nat
  wps_materialBlocked :: nat
  wps_technicianAssignmentRequired :: nat
  wps_overdue :: nat
  wps_aogRelated :: nat
  wps_plannedInProgress :: nat

definition getWorkOrderPlanningSummary :: "world \<Rightarrow> WorkOrderPlanningSummary" where
  "getWorkOrderPlanningSummary W =
     (let rows = getWorkOrderPlanning W
      in \<lparr>wps_openWorkOrders = length rows,
          wps_criticalHigh = count_if (\<lambda>r. pr_priority r = PR_CRITICAL \<or> pr_priority r = PR_HIGH) rows,
          wps_readyToStart = count_if (\<lambda>r. pr_planningStatus r = PL_READY) rows,
          wps_materialBlocked = count_if material_blocked_row rows,
          wps_technicianAssignmentRequired = count_if technician_blocked_row rows,
          wps_overdue = count_if (\<lambda>r. pr_daysOverdue r \<noteq> None) rows,
          wps_aogRelated = count_if pr_aogAircraft rows,
          wps_plannedInProgress =
            count_if (\<lambda>r. pr_planningStatus r = PL_IN_PROGRESS \<or>
                          pr_planningStatus r = PL_WAITING_INSPECTION) rows\<rparr>)"

section \<open>Ranking technicians\<close>

definition cert_stoplist :: "string list" where
  "cert_stoplist = [''and'', ''the'', ''of'', ''for'', ''b1.1'', ''b2'']"

definition certificationKeywordMatches :: "Technician \<Rightarrow> string \<Rightarrow> string list" where
  "certificationKeywordMatches t title =
     (let titleLower = toLowerCase title
      in filter
           (\<lambda>c. list_ex (\<lambda>w. str_includes titleLower w)
                  (filter (\<lambda>w. 3 < length w \<and> w \<notin> set cert_stoplist) (split_ws (toLowerCase c))))
           (te_certifications t))"

record RankedTechnicianCandidate =
  rt_technicianId :: string
  rt_name :: string
  rt_reasons :: "string list"
  rt_openWorkOrders :: nat
  rt_onShift :: bool
  rt_certMatches :: nat
  rt_priorAircraftCount :: nat

text \<open>\<open>workload.find((x) => x.technicianId === t.id)!\<close>; \<open>workload_found\<close> shows the default is unused.\<close>

definition workload_of :: "world \<Rightarrow> Technician \<Rightarrow> TechnicianWorkload" where
  "workload_of W t =
     or_else (find (\<lambda>x. tw_technicianId x = te_id t) (getTechnicianWorkload W)) (technician_workload W t)"

definition technician_candidate :: "world \<Rightarrow> WorkOrder \<Rightarrow> Technician \<Rightarrow> RankedTechnicianCandidate" where
  "technician_candidate W w t =
     (let wl = workload_of W t;
          certMatches = certificationKeywordMatches t (wo_title w);
          prior = count_if (\<lambda>p. wo_aircraftId p = wo_aircraftId w \<and> wo_id p \<noteq> wo_id w)
                    (workOrdersForTechnician W (te_id t));
          reasons =
            (if certMatches \<noteq> [] then [''Certification match: '' @ join '', '' certMatches] else []) @
            (if tw_onShift wl then [''On shift now''] else []) @
            (if tw_openWorkOrders wl = 0 then [''No other open work orders''] else []) @
            (if 0 < prior
             then [''Prior work order experience on this aircraft ('' @ show_nat prior @ '')''] else [])
      in \<lparr>rt_technicianId = te_id t, rt_name = te_name t, rt_reasons = reasons,
          rt_openWorkOrders = tw_openWorkOrders wl, rt_onShift = tw_onShift wl,
          rt_certMatches = length certMatches, rt_priorAircraftCount = prior\<rparr>)"

definition candidate_cmp :: "RankedTechnicianCandidate \<Rightarrow> RankedTechnicianCandidate \<Rightarrow> int" where
  "candidate_cmp a b =
     js_or (int (rt_certMatches b) - int (rt_certMatches a))
       (js_or (of_bool (rt_onShift b) - of_bool (rt_onShift a))
              (int (rt_openWorkOrders a) - int (rt_openWorkOrders b)))"

definition rankTechniciansForWorkOrder :: "world \<Rightarrow> WorkOrder \<Rightarrow> RankedTechnicianCandidate list" where
  "rankTechniciansForWorkOrder W w = js_sort candidate_cmp (map (technician_candidate W w) (technicians W))"

record TechnicianRecommendation =
  trec_technicianId :: string
  trec_name :: string
  trec_reasons :: "string list"

definition getTechnicianAssignmentRecommendation ::
  "world \<Rightarrow> string \<Rightarrow> TechnicianRecommendation option" where
  "getTechnicianAssignmentRecommendation W i =
     (case getWorkOrderById W i of
        None \<Rightarrow> None
      | Some w \<Rightarrow>
          (case rankTechniciansForWorkOrder W w of
             [] \<Rightarrow> None
           | c # _ \<Rightarrow>
               if rt_reasons c = [] then None
               else Some \<lparr>trec_technicianId = rt_technicianId c, trec_name = rt_name c,
                          trec_reasons = rt_reasons c\<rparr>))"

record TechnicianEligibility =
  el_technicianId :: string
  el_name :: string
  el_reasons :: "string list"
  el_eligible :: bool
  el_certificationMatch :: string
  el_availability :: string
  el_workload :: string

definition insufficient :: string where
  "insufficient = ''Insufficient source data.''"

definition on_shift_text :: string where
  "on_shift_text = ''On shift now''"

definition eligibility :: "RankedTechnicianCandidate \<Rightarrow> TechnicianEligibility" where
  "eligibility c =
     \<lparr>el_technicianId = rt_technicianId c, el_name = rt_name c, el_reasons = rt_reasons c,
      el_eligible = (rt_reasons c \<noteq> []),
      el_certificationMatch =
        (if 0 < rt_certMatches c then show_nat (rt_certMatches c) @ '' keyword match(es)'' else insufficient),
      el_availability = (if rt_onShift c then on_shift_text else ''Not on shift now''),
      el_workload = show_nat (rt_openWorkOrders c) @ '' open work order(s)''\<rparr>"

definition getTechnicianEligibilityForWorkOrder :: "world \<Rightarrow> string \<Rightarrow> TechnicianEligibility list" where
  "getTechnicianEligibilityForWorkOrder W i =
     (case getWorkOrderById W i of
        None \<Rightarrow> []
      | Some w \<Rightarrow> map eligibility (rankTechniciansForWorkOrder W w))"

record TechnicianAuthorizationView =
  tav_eligibility :: TechnicianEligibility
  tav_hardBlocked :: bool
  tav_blockReasons :: "string list"

definition block_reasons :: "TechnicianEligibility \<Rightarrow> string list" where
  "block_reasons e =
     (if el_certificationMatch e = insufficient
      then [''No certification-keyword match on file for this work order.''] else []) @
     (if el_availability e \<noteq> on_shift_text then [''Not currently on shift.''] else []) @
     (case parseInt (el_workload e) of
        None \<Rightarrow> []
      | Some n \<Rightarrow> if 3 \<le> n then [''Workload already at '' @ show_nat n @ '' open work order(s).''] else [])"

definition authorization_view :: "TechnicianEligibility \<Rightarrow> TechnicianAuthorizationView" where
  "authorization_view e =
     \<lparr>tav_eligibility = e, tav_hardBlocked = (2 \<le> length (block_reasons e)),
      tav_blockReasons = block_reasons e\<rparr>"

definition getTechnicianAuthorizationForWorkOrder :: "world \<Rightarrow> string \<Rightarrow> TechnicianAuthorizationView list" where
  "getTechnicianAuthorizationForWorkOrder W i =
     map authorization_view (getTechnicianEligibilityForWorkOrder W i)"

datatype TechnicianAuthorizationStatus = AUTHORIZED | NOT_AUTHORIZED | AUTH_UNKNOWN

record TechnicianAuthorizationResult =
  tar_technicianId :: string
  tar_name :: string
  tar_status :: TechnicianAuthorizationStatus
  tar_reasons :: "string list"

definition qualification_reason :: "Technician option \<Rightarrow> string" where
  "qualification_reason t =
     (case t of
        Some t' \<Rightarrow>
          (case te_aircraftTypeQualifications t' of
             Some qs \<Rightarrow> ''Aircraft-type qualifications on file: '' @
               (let s = join '', '' qs in if s = [] then ''none recorded'' else s) @ ''.''
           | None \<Rightarrow> ''UNKNOWN: no aircraft-type qualification record exists for this technician in this dataset.'')
      | None \<Rightarrow> ''UNKNOWN: no aircraft-type qualification record exists for this technician in this dataset.'')"

definition getTechnicianAuthorization ::
  "world \<Rightarrow> string \<Rightarrow> string \<Rightarrow> TechnicianAuthorizationResult option" where
  "getTechnicianAuthorization W tid i =
     (case find (\<lambda>m. el_technicianId (tav_eligibility m) = tid)
             (getTechnicianAuthorizationForWorkOrder W i) of
        None \<Rightarrow> None
      | Some row \<Rightarrow>
          let e = tav_eligibility row;
              status = (if tav_hardBlocked row then NOT_AUTHORIZED
                        else if el_certificationMatch e \<noteq> insufficient \<and> el_availability e = on_shift_text
                        then AUTHORIZED else AUTH_UNKNOWN);
              reasons = el_reasons e @ [qualification_reason (getTechnicianById W tid)] @
                        (if tav_hardBlocked row then tav_blockReasons row else [])
          in Some \<lparr>tar_technicianId = tid, tar_name = el_name e, tar_status = status,
                   tar_reasons = reasons @
                     (if status = AUTH_UNKNOWN \<and> \<not> list_ex (\<lambda>r. startsWith r ''UNKNOWN'') reasons
                      then [''UNKNOWN: insufficient positive evidence (certification match + current shift) to authorize, and no disqualifying evidence to block.'']
                      else [])\<rparr>)"

text \<open>\<open>matrix.map((m) => getTechnicianAuthorization(m.technicianId, workOrderId)!)\<close>.\<close>

definition getTechnicianAuthorizationMatrix :: "world \<Rightarrow> string \<Rightarrow> TechnicianAuthorizationResult list" where
  "getTechnicianAuthorizationMatrix W i =
     List.map_filter (\<lambda>m. getTechnicianAuthorization W (el_technicianId (tav_eligibility m)) i)
       (getTechnicianAuthorizationForWorkOrder W i)"

definition getAuthorizedTechniciansForWorkOrder :: "world \<Rightarrow> string \<Rightarrow> TechnicianAuthorizationResult list" where
  "getAuthorizedTechniciansForWorkOrder W i =
     filter (\<lambda>r. tar_status r = AUTHORIZED) (getTechnicianAuthorizationMatrix W i)"

section \<open>Next actions and the execution queue\<close>

definition getNextMaintenanceActions :: "world \<Rightarrow> string list" where
  "getNextMaintenanceActions W =
     (let rows = getWorkOrderPlanning W;
          actions =
            map (\<lambda>r. ''Start '' @ pr_workOrderNumber r @ '' because: '' @ join ''; '' (pr_riskReasons r) @ ''.'')
              (filter (\<lambda>r. pr_planningStatus r = PL_READY \<and>
                           (pr_aogAircraft r \<or> pr_priority r = PR_CRITICAL)) rows) @
            map (\<lambda>r. ''Do not start '' @ pr_workOrderNumber r @ '' '' @ em_dash @
                      '' required part(s) unavailable: '' @ join '', '' (map sp_partNumber (pr_shortParts r)) @
                      ''. Procurement action required.'')
              (filter material_blocked_row rows) @
            map (\<lambda>r. ''Assign a technician before starting '' @ pr_workOrderNumber r @ ''.'')
              (filter (\<lambda>r. pr_planningStatus r = PL_TECHNICIAN_BLOCKED) rows)
      in if actions \<noteq> [] then actions else [''No urgent planning action indicated by current data.''])"

datatype ExecutionActionType =
    EA_ASSIGN_TECHNICIAN | EA_RESOLVE_MATERIAL_BLOCKER | EA_START_WORK | EA_ESCALATE | EA_REVIEW | EA_COMPLETE

definition deriveExecutionAction :: "WorkOrderPlanningRow \<Rightarrow> ExecutionActionType \<times> string" where
  "deriveExecutionAction r =
     (if pr_planningStatus r = PL_BOTH_BLOCKED \<or> pr_planningStatus r = PL_TECHNICIAN_BLOCKED
      then (EA_ASSIGN_TECHNICIAN, ''Assign technician'')
      else if pr_planningStatus r = PL_MATERIAL_BLOCKED
      then (EA_RESOLVE_MATERIAL_BLOCKER, ''Resolve material blocker'')
      else if pr_planningStatus r = PL_READY then (EA_START_WORK, ''Start work'')
      else if pr_planningStatus r = PL_IN_PROGRESS \<and> (pr_risk r = RL_HIGH \<or> pr_aogAircraft r)
      then (EA_ESCALATE, ''Escalate'')
      else if pr_planningStatus r = PL_IN_PROGRESS then (EA_COMPLETE, ''Complete'')
      else (EA_REVIEW, ''Review''))"

definition getExecutionQueue :: "world \<Rightarrow> (WorkOrderPlanningRow \<times> ExecutionActionType \<times> string) list" where
  "getExecutionQueue W = map (\<lambda>r. (r, deriveExecutionAction r)) (getWorkOrderPlanning W)"

section \<open>The planning status\<close>

lemma short_parts_iff:
  "short_parts W i \<noteq> [] \<longleftrightarrow>
   (\<exists>p \<in> set (parts W). pt_workOrderId p = Some i \<and> pt_status p \<noteq> PS_IN_STOCK)"
  by (auto simp: short_parts_def partsForWorkOrder_def filter_empty_conv)

lemma row_fields:
  "pr_workOrderId (buildPlanningRow W w) = wo_id w"
  "pr_status (buildPlanningRow W w) = wo_status w"
  "pr_priority (buildPlanningRow W w) = wo_priority w"
  "pr_shortParts (buildPlanningRow W w) = short_parts W (wo_id w)"
  "pr_aogAircraft (buildPlanningRow W w) = aog_aircraft W (wo_aircraftId w)"
  "pr_planningStatus (buildPlanningRow W w) =
     planning_status (wo_status w) (short_parts W (wo_id w) \<noteq> []) (wo_assignedTechnicianId w = None)"
  "pr_daysOverdue (buildPlanningRow W w) =
     (if isOverdue w then Some (daysBetween MOCK_TODAY (wo_dueDate w)) else None)"
  by (simp_all add: buildPlanningRow_def Let_def)

lemma planning_row_of: "getWorkOrderById W i = Some w \<Longrightarrow> getWorkOrderPlanningRow W i = Some (buildPlanningRow W w)"
  by (simp add: getWorkOrderPlanningRow_def getWorkOrderById_def)

interpretation planning: status_partition pr_planningStatus
  "[PL_READY, PL_MATERIAL_BLOCKED, PL_TECHNICIAN_BLOCKED, PL_BOTH_BLOCKED, PL_IN_PROGRESS,
    PL_WAITING_INSPECTION, PL_COMPLETED, PL_CANCELLED]"
proof
  show "pr_planningStatus x \<in> set [PL_READY, PL_MATERIAL_BLOCKED, PL_TECHNICIAN_BLOCKED,
      PL_BOTH_BLOCKED, PL_IN_PROGRESS, PL_WAITING_INSPECTION, PL_COMPLETED, PL_CANCELLED]" for x
    by (cases "pr_planningStatus x") simp_all
qed simp

lemma planned_open:
  "r \<in> set (getWorkOrderPlanning W) \<Longrightarrow>
   pr_planningStatus r \<noteq> PL_COMPLETED \<and> pr_planningStatus r \<noteq> PL_CANCELLED"
  by (auto simp: getWorkOrderPlanning_def row_fields wo_open_def planning_status_def split: if_splits)

lemma planning_counts:
  "length (getWorkOrderPlanning W) =
   count_if (\<lambda>r. pr_planningStatus r = PL_READY) (getWorkOrderPlanning W) +
   count_if (\<lambda>r. pr_planningStatus r = PL_MATERIAL_BLOCKED) (getWorkOrderPlanning W) +
   count_if (\<lambda>r. pr_planningStatus r = PL_TECHNICIAN_BLOCKED) (getWorkOrderPlanning W) +
   count_if (\<lambda>r. pr_planningStatus r = PL_BOTH_BLOCKED) (getWorkOrderPlanning W) +
   count_if (\<lambda>r. pr_planningStatus r = PL_IN_PROGRESS) (getWorkOrderPlanning W) +
   count_if (\<lambda>r. pr_planningStatus r = PL_WAITING_INSPECTION) (getWorkOrderPlanning W)"
proof -
  have "count_if (\<lambda>r. pr_planningStatus r = PL_COMPLETED) (getWorkOrderPlanning W) = 0"
    "count_if (\<lambda>r. pr_planningStatus r = PL_CANCELLED) (getWorkOrderPlanning W) = 0"
    by (simp_all add: count_if_zero planned_open)
  then show ?thesis using planning.summary_total [of "getWorkOrderPlanning W"] by simp
qed

section \<open>The AOG flag reads a message\<close>

lemma aog_phrase_cons: "aog_phrase = CHR ''H'' # ''IGH/CRITICAL-severity defect''"
  by (simp add: aog_phrase_def)

lemma digits_not_H: "\<forall>c \<in> set (show_nat n). c \<noteq> CHR ''H''"
  using show_nat_digits [of n] by (auto simp: is_digit_def)

lemma includes_after:
  "\<forall>c \<in> set p. c \<noteq> CHR ''H'' \<Longrightarrow> str_includes (p @ s) aog_phrase = str_includes s aog_phrase"
  unfolding aog_phrase_cons by (rule str_includes_skip)

lemma includes_number: "str_includes (show_nat n @ s) aog_phrase = str_includes s aog_phrase"
  by (rule includes_after [OF digits_not_H])

lemma phrase_constants:
  "str_includes '' open HIGH/CRITICAL-severity defect(s)'' aog_phrase = True"
  "str_includes '' open HIGH/CRITICAL-priority work order(s)'' aog_phrase = False"
  "str_includes '' overdue work order(s)'' aog_phrase = False"
  "str_includes ''No open serious defects, no critical work orders, no material shortages, and no recurring defect pattern found.'' aog_phrase = False"
  by code_simp+

lemma phrase_prefixes:
  "str_includes ('' recurring defect(s) in ATA '' @ c) aog_phrase = str_includes c aog_phrase"
  "str_includes (''Required part unavailable: '' @ c) aog_phrase = str_includes c aog_phrase"
  by (rule includes_after, simp)+

lemma phrase_reasons:
  "str_includes (show_nat n @ '' recurring defect(s) in ATA '' @ c) aog_phrase = str_includes c aog_phrase"
  "str_includes (show_nat n @ '' open HIGH/CRITICAL-priority work order(s)'') aog_phrase = False"
  "str_includes (serious_defect_reason n) aog_phrase = True"
  "str_includes (''Required part unavailable: '' @ c) aog_phrase = str_includes c aog_phrase"
  "str_includes (show_nat n @ '' overdue work order(s)'') aog_phrase = False"
  by (simp_all only: includes_number phrase_prefixes phrase_constants serious_defect_reason_def)

lemma list_ex_if: "list_ex P (if b then [x] else []) \<longleftrightarrow> b \<and> P x"
  by simp

lemma list_ex_map: "list_ex P (map f xs) \<longleftrightarrow> list_ex (\<lambda>x. P (f x)) xs"
  by (induction xs) auto

lemma aog_exact:
  "aog_aircraft W i \<longleftrightarrow> getAircraftById W i \<noteq> None \<and>
     (list_ex open_serious (defectsForAircraft W i) \<or>
      list_ex (\<lambda>(c, l). str_includes c aog_phrase) (recurringChapters (defectsForAircraft W i)) \<or>
      str_includes (join '', '' (map par_partNumber (shortageParts W i))) aog_phrase)"
proof (cases "getAircraftById W i")
  case None
  then show ?thesis by (simp add: aog_aircraft_def)
next
  case (Some a)
  then have id: "ac_id a = i" unfolding getAircraftById_def by (auto dest: find_Some_mem)
  let ?rs = "aircraft_risk_reasons W i"
  let ?short = "shortageParts W i"
  have serious: "0 < count_if open_serious ds \<longleftrightarrow> list_ex open_serious ds" for ds
    by (metis bot_nat_0.not_eq_extremum count_if_zero list_ex_iff)
  have none: "?short = [] \<Longrightarrow> \<not> str_includes (join '', '' (map par_partNumber ?short)) aog_phrase"
    by (simp add: aog_phrase_def)
  have rs: "list_ex (\<lambda>x. str_includes x aog_phrase) ?rs \<longleftrightarrow>
      list_ex open_serious (defectsForAircraft W i) \<or>
      list_ex (\<lambda>(c, l). str_includes c aog_phrase) (recurringChapters (defectsForAircraft W i)) \<or>
      str_includes (join '', '' (map par_partNumber ?short)) aog_phrase"
    unfolding aircraft_risk_reasons_def Let_def
    by (simp only: list_ex_append list_ex_map list_ex_if comp_def split_def phrase_reasons serious
        simp_thms) (use none in blast)
  have "list_ex (\<lambda>x. str_includes x aog_phrase)
      (if ?rs \<noteq> [] then ?rs else [''No open serious defects, no critical work orders, no material shortages, and no recurring defect pattern found.''])
      \<longleftrightarrow> list_ex (\<lambda>x. str_includes x aog_phrase) ?rs"
    by (cases "?rs = []") (simp_all only: list_ex_Nil_iff list_ex_Cons_iff phrase_constants simp_thms if_True if_False)
  then show ?thesis
    by (simp only: aog_aircraft_def Some id getAircraftOperationalRisk_def Let_def option.case
        AircraftRiskAssessment.select_convs rs) simp
qed

section \<open>The ranking of technicians\<close>

lemma workload_found:
  assumes "t \<in> set (technicians W)"
  shows "\<exists>u \<in> set (technicians W). te_id u = te_id t \<and>
           find (\<lambda>x. tw_technicianId x = te_id t) (getTechnicianWorkload W) = Some (technician_workload W u)"
proof -
  have "\<exists>y. find (\<lambda>x. tw_technicianId x = te_id t) (getTechnicianWorkload W) = Some y"
    by (rule find_isSome [of "technician_workload W t"])
      (simp_all add: getTechnicianWorkload_def assms technician_workload_def Let_def)
  then obtain y where y: "find (\<lambda>x. tw_technicianId x = te_id t) (getTechnicianWorkload W) = Some y" ..
  then have "y \<in> set (getTechnicianWorkload W) \<and> tw_technicianId y = te_id t" by (rule find_Some_mem)
  moreover then obtain u where "u \<in> set (technicians W)" "y = technician_workload W u"
    by (auto simp: getTechnicianWorkload_def)
  moreover have "tw_technicianId (technician_workload W u) = te_id u"
    by (simp add: technician_workload_def Let_def)
  ultimately show ?thesis using y by auto
qed

lemma workload_of_distinct:
  assumes "t \<in> set (technicians W)" and "distinct (map te_id (technicians W))"
  shows "workload_of W t = technician_workload W t"
proof -
  obtain u where u: "u \<in> set (technicians W)" "te_id u = te_id t"
      "find (\<lambda>x. tw_technicianId x = te_id t) (getTechnicianWorkload W) = Some (technician_workload W u)"
    using workload_found [OF assms(1)] by blast
  moreover have "u = t" using assms u by (metis distinct_map inj_on_def)
  ultimately show ?thesis by (simp add: workload_of_def)
qed

interpretation cert_rank: rank_comparator "\<lambda>c. - int (rt_certMatches c)" .

interpretation shift_rank: rank_comparator "\<lambda>c. - of_bool (rt_onShift c)" .

interpretation load_rank: rank_comparator "\<lambda>c. int (rt_openWorkOrders c)" .

lemma candidate_cmp_chain:
  "candidate_cmp =
    (\<lambda>x y. js_or (- int (rt_certMatches x) - - int (rt_certMatches y))
      (js_or (- of_bool (rt_onShift x) - - of_bool (rt_onShift y))
        (int (rt_openWorkOrders x) - int (rt_openWorkOrders y))))"
  by (simp add: candidate_cmp_def fun_eq_iff)

interpretation candidates: comparator candidate_cmp
  unfolding candidate_cmp_chain
  by (rule comparator_chain [OF cert_rank.by_rank.comparator_axioms
        comparator_chain [OF shift_rank.by_rank.comparator_axioms load_rank.by_rank.comparator_axioms]])

lemma candidate_cmp_le:
  "candidate_cmp a b \<le> 0 \<longleftrightarrow>
   rt_certMatches b < rt_certMatches a \<or> rt_certMatches a = rt_certMatches b \<and>
     (rt_onShift a \<and> \<not> rt_onShift b \<or> rt_onShift a = rt_onShift b \<and>
        rt_openWorkOrders a \<le> rt_openWorkOrders b)"
  by (auto simp: candidate_cmp_def js_or_def of_bool_def)

section \<open>Authorization\<close>

lemma match_text_ne: "show_nat n @ '' keyword match(es)'' \<noteq> insufficient"
proof
  assume "show_nat n @ '' keyword match(es)'' = insufficient"
  then have "hd (show_nat n) = CHR ''I''" by (cases "show_nat n") (simp_all add: insufficient_def)
  moreover have "is_digit (hd (show_nat n))" using show_nat_digits [of n] show_nat_ne hd_in_set by blast
  ultimately show False by (simp add: is_digit_def)
qed

lemma eligibility_reads:
  "el_certificationMatch (eligibility c) = insufficient \<longleftrightarrow> rt_certMatches c = 0"
  "el_availability (eligibility c) = on_shift_text \<longleftrightarrow> rt_onShift c"
  "parseInt (el_workload (eligibility c)) = Some (rt_openWorkOrders c)"
  using match_text_ne parseInt_show_nat [of "CHR '' ''" "rt_openWorkOrders c" "''open work order(s)''"]
  by (auto simp: eligibility_def on_shift_text_def is_digit_def)

lemma block_count:
  "length (block_reasons (eligibility c)) =
   of_bool (rt_certMatches c = 0) + of_bool (\<not> rt_onShift c) + of_bool (3 \<le> rt_openWorkOrders c)"
  by (simp add: block_reasons_def eligibility_reads)

lemma find_map: "find P (map f xs) = map_option f (find (\<lambda>x. P (f x)) xs)"
  by (induction xs) auto

lemma distinct_js_sort: "distinct (map f (js_sort c xs)) \<longleftrightarrow> distinct (map f xs)"
  by (metis mset_eq_imp_distinct_iff mset_js_sort mset_map)

lemma candidate_found:
  assumes "t \<in> set (technicians W)" and "distinct (map te_id (technicians W))"
  shows "find (\<lambda>c. rt_technicianId c = te_id t) (rankTechniciansForWorkOrder W w) =
         Some (technician_candidate W w t)"
proof -
  let ?cs = "map (technician_candidate W w) (technicians W)"
  have id: "rt_technicianId (technician_candidate W w u) = te_id u" for u
    by (simp add: technician_candidate_def Let_def)
  have "distinct (map rt_technicianId (js_sort candidate_cmp ?cs))"
    using assms(2) by (simp add: distinct_js_sort comp_def id)
  moreover have "technician_candidate W w t \<in> set (js_sort candidate_cmp ?cs)" using assms(1) by simp
  ultimately show ?thesis
    unfolding rankTechniciansForWorkOrder_def
    using find_distinct [of rt_technicianId "js_sort candidate_cmp ?cs" "technician_candidate W w t"]
    by (simp add: id)
qed

lemma view_found:
  assumes "getWorkOrderById W i = Some w"
  shows "find (\<lambda>m. el_technicianId (tav_eligibility m) = k) (getTechnicianAuthorizationForWorkOrder W i) =
    map_option (\<lambda>c. authorization_view (eligibility c))
      (find (\<lambda>c. rt_technicianId c = k) (rankTechniciansForWorkOrder W w))"
  by (simp add: getTechnicianAuthorizationForWorkOrder_def getTechnicianEligibilityForWorkOrder_def assms
      find_map authorization_view_def eligibility_def option.map_comp comp_def)


section \<open>Properties\<close>

text \<open>
  The planning status of an open work order is decided by its records and not by its status
  label alone: an order in progress or waiting for inspection keeps its status; every other one is
  ready exactly when no part reserved for it is out of stock and a technician is assigned, and is
  otherwise blocked by material, by the missing technician, or by both.
\<close>

theorem planning_status_exact:
  assumes "getWorkOrderById W i = Some w" and "wo_open w"
  shows "\<exists>r. getWorkOrderPlanningRow W i = Some r \<and>
    pr_planningStatus r =
      (if wo_status w = WO_IN_PROGRESS then PL_IN_PROGRESS
       else if wo_status w = WO_WAITING_INSPECTION then PL_WAITING_INSPECTION
       else
         (let short = list_ex (\<lambda>p. pt_workOrderId p = Some i \<and> pt_status p \<noteq> PS_IN_STOCK) (parts W);
              nobody = wo_assignedTechnicianId w = None
          in if short \<and> nobody then PL_BOTH_BLOCKED else if short then PL_MATERIAL_BLOCKED
             else if nobody then PL_TECHNICIAN_BLOCKED else PL_READY))"
proof -
  have "wo_id w = i" using assms(1) by (auto dest: getWorkOrderById_Some)
  then have "short_parts W (wo_id w) \<noteq> [] \<longleftrightarrow>
      list_ex (\<lambda>p. pt_workOrderId p = Some i \<and> pt_status p \<noteq> PS_IN_STOCK) (parts W)"
    by (simp add: short_parts_iff list_ex_iff)
  moreover have "wo_status w \<noteq> WO_COMPLETED" "wo_status w \<noteq> WO_CANCELLED"
    using assms(2) by (simp_all add: wo_open_def)
  ultimately show ?thesis
    by (simp add: planning_row_of [OF assms(1)] row_fields planning_status_def Let_def)
qed

text \<open>
  The planning summary counts every open work order: the ready ones, the ones in progress or
  under inspection, the ones short of material and the ones short of a technician are all of them,
  where an order blocked by both is counted in both of the last two numbers.
\<close>

theorem planning_summary_accounts:
  "wps_openWorkOrders (getWorkOrderPlanningSummary W) = count_if wo_open (workOrders W) \<and>
   wps_readyToStart (getWorkOrderPlanningSummary W) + wps_plannedInProgress (getWorkOrderPlanningSummary W) +
     wps_materialBlocked (getWorkOrderPlanningSummary W) +
     wps_technicianAssignmentRequired (getWorkOrderPlanningSummary W) =
   wps_openWorkOrders (getWorkOrderPlanningSummary W) +
     count_if (\<lambda>r. pr_planningStatus r = PL_BOTH_BLOCKED) (getWorkOrderPlanning W)"
proof -
  have "count_if material_blocked_row (getWorkOrderPlanning W) =
      count_if (\<lambda>r. pr_planningStatus r = PL_MATERIAL_BLOCKED) (getWorkOrderPlanning W) +
      count_if (\<lambda>r. pr_planningStatus r = PL_BOTH_BLOCKED) (getWorkOrderPlanning W)"
    unfolding material_blocked_row_def by (rule count_if_disj) simp
  moreover have "count_if technician_blocked_row (getWorkOrderPlanning W) =
      count_if (\<lambda>r. pr_planningStatus r = PL_TECHNICIAN_BLOCKED) (getWorkOrderPlanning W) +
      count_if (\<lambda>r. pr_planningStatus r = PL_BOTH_BLOCKED) (getWorkOrderPlanning W)"
    unfolding technician_blocked_row_def by (rule count_if_disj) simp
  moreover have "count_if (\<lambda>r. pr_planningStatus r = PL_IN_PROGRESS \<or>
        pr_planningStatus r = PL_WAITING_INSPECTION) (getWorkOrderPlanning W) =
      count_if (\<lambda>r. pr_planningStatus r = PL_IN_PROGRESS) (getWorkOrderPlanning W) +
      count_if (\<lambda>r. pr_planningStatus r = PL_WAITING_INSPECTION) (getWorkOrderPlanning W)"
    by (rule count_if_disj) simp
  ultimately show ?thesis
    using planning_counts [of W]
    by (simp add: getWorkOrderPlanningSummary_def Let_def)
      (simp add: getWorkOrderPlanning_def count_if_def)
qed

text \<open>
  The AOG flag of a planning row is read from the words of a risk reason. It is set exactly when
  the aircraft is on file and has an open defect of high or critical severity, or when the words
  occur in the name of a recurring chapter or in the part numbers it is short of: for data whose
  chapters and part numbers do not contain that phrase, the flag is the defect test.
\<close>

theorem aog_flag_exact:
  "pr_aogAircraft (buildPlanningRow W w) \<longleftrightarrow> getAircraftById W (wo_aircraftId w) \<noteq> None \<and>
     (list_ex open_serious (defectsForAircraft W (wo_aircraftId w)) \<or>
      list_ex (\<lambda>(c, l). str_includes c aog_phrase)
        (recurringChapters (defectsForAircraft W (wo_aircraftId w))) \<or>
      str_includes (join '', '' (map par_partNumber (shortageParts W (wo_aircraftId w)))) aog_phrase)"
  by (simp add: row_fields aog_exact)

text \<open>
  The technician recommended for a work order is one of the technicians, with at least one
  reason, and no technician ranks before: each other one matches fewer certifications, or as many
  but is off shift while the recommended one is on shift, or is equal in both and has at least as
  many open work orders.
\<close>

theorem recommendation_is_best:
  assumes "getTechnicianAssignmentRecommendation W i = Some r"
  shows "\<exists>w t. getWorkOrderById W i = Some w \<and> t \<in> set (technicians W) \<and>
     trec_technicianId r = te_id t \<and> trec_reasons r = rt_reasons (technician_candidate W w t) \<and>
     trec_reasons r \<noteq> [] \<and>
     (\<forall>u \<in> set (technicians W).
        let c = technician_candidate W w t; d = technician_candidate W w u
        in rt_certMatches d < rt_certMatches c \<or> rt_certMatches c = rt_certMatches d \<and>
             (rt_onShift c \<and> \<not> rt_onShift d \<or> rt_onShift c = rt_onShift d \<and>
                rt_openWorkOrders c \<le> rt_openWorkOrders d))"
proof -
  obtain w c cs where w: "getWorkOrderById W i = Some w"
      and c: "rankTechniciansForWorkOrder W w = c # cs" "rt_reasons c \<noteq> []"
      and r: "r = \<lparr>trec_technicianId = rt_technicianId c, trec_name = rt_name c, trec_reasons = rt_reasons c\<rparr>"
    using assms
    by (auto simp: getTechnicianAssignmentRecommendation_def split: option.splits list.splits if_splits)
  have "c \<in> set (rankTechniciansForWorkOrder W w)" using c(1) by simp
  then obtain t where t: "t \<in> set (technicians W)" "c = technician_candidate W w t"
    by (auto simp: rankTechniciansForWorkOrder_def)
  have "candidate_cmp c (technician_candidate W w u) \<le> 0" if "u \<in> set (technicians W)" for u
    by (rule candidates.js_sort_head [OF c(1) [unfolded rankTechniciansForWorkOrder_def]])
      (use that in simp)
  then have best: "\<forall>u \<in> set (technicians W). candidate_cmp (technician_candidate W w t) (technician_candidate W w u) \<le> 0"
    using t(2) by simp
  have "rt_technicianId c = te_id t" by (simp add: t(2) technician_candidate_def Let_def)
  then show ?thesis
    using w t(1) c(2) best unfolding candidate_cmp_le Let_def
    by (intro exI [of _ w] exI [of _ t]) (simp add: r t(2))
qed

text \<open>
  The authorization of a technician for a work order, when the ids of the technicians are
  distinct: AUTHORIZED exactly when a certification matches and the technician is on shift;
  NOT_AUTHORIZED when at least two of the three objections hold (no match, off shift, three or more
  open work orders) and one of them is a missing match or an absence; UNKNOWN otherwise. One
  objection alone never blocks.
\<close>

theorem authorization_exact:
  assumes "getWorkOrderById W i = Some w" and "t \<in> set (technicians W)"
    and "distinct (map te_id (technicians W))"
  shows "\<exists>r. getTechnicianAuthorization W (te_id t) i = Some r \<and>
    tar_status r =
      (let cert = certificationKeywordMatches t (wo_title w) \<noteq> []; shift = isOnShiftNow t;
           busy = 3 \<le> count_if (\<lambda>v. wo_assignedTechnicianId v = Some (te_id t) \<and> wo_open v) (workOrders W)
       in if cert \<and> shift then AUTHORIZED
          else if \<not> cert \<and> \<not> shift \<or> busy then NOT_AUTHORIZED
          else AUTH_UNKNOWN)"
proof -
  let ?c = "technician_candidate W w t"
  have wl: "workload_of W t = technician_workload W t" using assms(2,3) by (rule workload_of_distinct)
  have c: "rt_certMatches ?c = 0 \<longleftrightarrow> certificationKeywordMatches t (wo_title w) = []"
      "rt_onShift ?c = isOnShiftNow t"
      "rt_openWorkOrders ?c =
        count_if (\<lambda>v. wo_assignedTechnicianId v = Some (te_id t) \<and> wo_open v) (workOrders W)"
    by (simp_all add: technician_candidate_def wl Let_def technician_workload_def count_if_def)
  have f: "find (\<lambda>m. el_technicianId (tav_eligibility m) = te_id t)
      (getTechnicianAuthorizationForWorkOrder W i) = Some (authorization_view (eligibility ?c))"
    by (simp add: view_found [OF assms(1)] candidate_found [OF assms(2,3)])
  have hard: "tav_hardBlocked (authorization_view (eligibility ?c)) \<longleftrightarrow>
      2 \<le> of_bool (rt_certMatches ?c = 0) + of_bool (\<not> rt_onShift ?c) +
          (of_bool (3 \<le> rt_openWorkOrders ?c) :: nat)"
    by (simp add: authorization_view_def block_count)
  have e: "tav_eligibility (authorization_view (eligibility ?c)) = eligibility ?c"
    by (simp add: authorization_view_def)
  show ?thesis
    by (simp add: getTechnicianAuthorization_def f Let_def e hard eligibility_reads c)
qed

end
