(* ===== verification/EvidenceStore.thy ===== *)
theory EvidenceStore
  imports Store
begin

text \<open>
  The execution evidence of technicians, \<open>evidenceRecords.ts\<close>: the store with its id counter and
  its three operations, submission, removal of what nobody has reviewed, and review; as a machine
  over the world with its invariant: record ids are distinct, no id is ahead of the counter, and a
  rejected record carries a note with something other than white space in it.
\<close>

section \<open>Lookups and operations\<close>

definition getEvidenceRecordById :: "world \<Rightarrow> string \<Rightarrow> EvidenceRecord option" where
  "getEvidenceRecordById W i = find (\<lambda>e. er_id e = i) (evidenceRecords W)"

definition evidenceRecordsForWorkOrder :: "world \<Rightarrow> string \<Rightarrow> EvidenceRecord list" where
  "evidenceRecordsForWorkOrder W i =
     js_sort (\<lambda>a b. localeCompare (er_capturedAt a) (er_capturedAt b))
       (filter (\<lambda>e. er_workOrderId e = i) (evidenceRecords W))"

definition evidenceRecordsForAircraft :: "world \<Rightarrow> string \<Rightarrow> EvidenceRecord list" where
  "evidenceRecordsForAircraft W a =
     js_sort (\<lambda>x y. localeCompare (er_capturedAt y) (er_capturedAt x))
       (filter (\<lambda>e. er_aircraftId e = a) (evidenceRecords W))"

record EvidenceInput =
  ein_workOrderId :: string
  ein_maintenanceTaskId :: "string option"
  ein_aircraftId :: string
  ein_uploadedByTechnicianId :: string
  ein_evidenceType :: EvidenceRecordType
  ein_fileRef :: string
  ein_fileName :: string
  ein_technicianNote :: "string option"

definition live_id :: "nat \<Rightarrow> string" where
  "live_id n = ''ev-exec-live-'' @ show_nat n"

text \<open>The clock is read twice, for \<open>capturedAt\<close> and for \<open>createdAt\<close>.\<close>

definition new_evidence :: "nat \<Rightarrow> EvidenceInput \<Rightarrow> string \<Rightarrow> string \<Rightarrow> EvidenceRecord" where
  "new_evidence n inp captured created =
     \<lparr>er_id = live_id n, er_workOrderId = ein_workOrderId inp,
      er_maintenanceTaskId = ein_maintenanceTaskId inp, er_aircraftId = ein_aircraftId inp,
      er_uploadedByTechnicianId = ein_uploadedByTechnicianId inp,
      er_evidenceType = ein_evidenceType inp, er_fileRef = ein_fileRef inp,
      er_fileName = ein_fileName inp, er_capturedAt = captured,
      er_technicianNote = ein_technicianNote inp, er_status = ER_SUBMITTED, er_createdAt = created,
      er_reviewedBy = None, er_reviewedAt = None, er_reviewNote = None\<rparr>"

definition addEvidenceRecord ::
  "world \<Rightarrow> EvidenceInput \<Rightarrow> string \<Rightarrow> string \<Rightarrow> EvidenceRecord \<times> world" where
  "addEvidenceRecord W inp captured created =
     (let n = evidenceCounter W + 1;
          r = new_evidence n inp captured created
      in (r, W\<lparr>evidenceCounter := n, evidenceRecords := evidenceRecords W @ [r]\<rparr>))"

definition removeEvidenceRecord :: "world \<Rightarrow> string \<Rightarrow> bool \<times> world" where
  "removeEvidenceRecord W i =
     (case find (\<lambda>e. er_id e = i) (evidenceRecords W) of
        None \<Rightarrow> (False, W)
      | Some e \<Rightarrow>
          if er_status e \<noteq> ER_SUBMITTED then (False, W)
          else (True, W\<lparr>evidenceRecords := remove_first (\<lambda>e. er_id e = i) (evidenceRecords W)\<rparr>))"

text \<open>\<open>!reviewNote || reviewNote.trim().length === 0\<close>.\<close>

definition blank_note :: "string option \<Rightarrow> bool" where
  "blank_note n = (case n of None \<Rightarrow> True | Some s \<Rightarrow> s = [] \<or> trim s = [])"

definition set_reviewed ::
  "string \<Rightarrow> EvidenceRecordStatus \<Rightarrow> string option \<Rightarrow> string \<Rightarrow> EvidenceRecord \<Rightarrow> EvidenceRecord" where
  "set_reviewed by st note now e =
     e\<lparr>er_status := st, er_reviewedBy := Some by, er_reviewedAt := Some now, er_reviewNote := note\<rparr>"

definition reviewEvidenceRecord ::
  "world \<Rightarrow> string \<Rightarrow> string \<Rightarrow> EvidenceRecordStatus \<Rightarrow> string option \<Rightarrow> string \<Rightarrow>
   EvidenceRecord option \<times> world" where
  "reviewEvidenceRecord W i by st note now =
     (case find (\<lambda>e. er_id e = i) (evidenceRecords W) of
        None \<Rightarrow> (None, W)
      | Some e \<Rightarrow>
          if st = ER_REJECTED \<and> blank_note note then (None, W)
          else (Some (set_reviewed by st note now e),
                W\<lparr>evidenceRecords :=
                    update_first (\<lambda>e. er_id e = i) (set_reviewed by st note now) (evidenceRecords W)\<rparr>))"

definition getEvidencePendingReview :: "world \<Rightarrow> EvidenceRecord list" where
  "getEvidencePendingReview W = filter (\<lambda>e. er_status e = ER_SUBMITTED) (evidenceRecords W)"

section \<open>The machine\<close>

text \<open>A review accepts or rejects; the parameter's type has no other value.\<close>

datatype verdict = Accept | Reject

definition verdict_status :: "verdict \<Rightarrow> EvidenceRecordStatus" where
  "verdict_status v = (case v of Accept \<Rightarrow> ER_ACCEPTED | Reject \<Rightarrow> ER_REJECTED)"

datatype ev_event =
    Submit EvidenceInput string string
  | Withdraw string
  | Review string string verdict "string option" string

fun ev_step :: "world \<Rightarrow> ev_event \<Rightarrow> world" where
  "ev_step W (Submit inp c d) = snd (addEvidenceRecord W inp c d)"
| "ev_step W (Withdraw i) = snd (removeEvidenceRecord W i)"
| "ev_step W (Review i by v note now) = snd (reviewEvidenceRecord W i by (verdict_status v) note now)"

lemmas ev_operations = addEvidenceRecord_def removeEvidenceRecord_def reviewEvidenceRecord_def

definition ev_inv :: "world \<Rightarrow> bool" where
  "ev_inv W \<longleftrightarrow> distinct (map er_id (evidenceRecords W)) \<and>
     (\<forall>e \<in> set (evidenceRecords W).
        (\<forall>n. er_id e = live_id n \<longrightarrow> n \<le> evidenceCounter W) \<and>
        (er_status e = ER_REJECTED \<longrightarrow> \<not> blank_note (er_reviewNote e)))"

interpretation review_upd: keyed_update er_id "set_reviewed r st nt now" for r st nt now
  by unfold_locales (simp add: set_reviewed_def)

interpretation submitted_order: text_comparator er_capturedAt .

lemma live_id_inj [simp]: "live_id m = live_id n \<longleftrightarrow> m = n"
  by (simp add: live_id_def)

lemma map_remove_first_distinct:
  "distinct (map f xs) \<Longrightarrow> distinct (map f (remove_first P xs))"
proof (induction xs)
  case Nil
  then show ?case by simp
next
  case (Cons x xs)
  then show ?case using remove_first_subset [of P xs] by auto
qed

lemma ev_inv_step: "ev_inv W \<Longrightarrow> ev_inv (ev_step W e)"
proof (cases e)
  case (Submit inp c d)
  assume inv: "ev_inv W"
  have "live_id (Suc (evidenceCounter W)) \<notin> er_id ` set (evidenceRecords W)"
  proof
    assume "live_id (Suc (evidenceCounter W)) \<in> er_id ` set (evidenceRecords W)"
    then obtain r where "r \<in> set (evidenceRecords W)" "er_id r = live_id (Suc (evidenceCounter W))" by auto
    then have "Suc (evidenceCounter W) \<le> evidenceCounter W" using inv unfolding ev_inv_def by blast
    then show False by simp
  qed
  then show ?thesis
    using inv Submit
    by (auto simp: ev_inv_def addEvidenceRecord_def Let_def new_evidence_def intro: le_SucI)
next
  case (Withdraw i)
  assume "ev_inv W"
  with Withdraw show ?thesis
    by (auto simp: ev_inv_def removeEvidenceRecord_def map_remove_first_distinct
        dest: subsetD [OF remove_first_subset] split: option.splits)
next
  case (Review i by' v nt now)
  assume inv: "ev_inv W"
  let ?upd = "set_reviewed by' (verdict_status v) nt now"
  show ?thesis
  proof (cases "find (\<lambda>e. er_id e = i) (evidenceRecords W) = None \<or>
                verdict_status v = ER_REJECTED \<and> blank_note nt")
    case True
    then show ?thesis using inv Review by (auto simp: reviewEvidenceRecord_def split: option.splits)
  next
    case False
    then have W': "ev_step W e =
        W\<lparr>evidenceRecords := update_first (\<lambda>e. er_id e = i) ?upd (evidenceRecords W)\<rparr>"
      using Review by (auto simp: reviewEvidenceRecord_def)
    have "(\<forall>n. er_id r = live_id n \<longrightarrow> n \<le> evidenceCounter W) \<and>
        (er_status r = ER_REJECTED \<longrightarrow> \<not> blank_note (er_reviewNote r))"
      if r: "r \<in> set (update_first (\<lambda>e. er_id e = i) ?upd (evidenceRecords W))" for r
      using set_update_first [OF r]
    proof
      assume "r \<in> set (evidenceRecords W)"
      then show ?thesis using inv by (simp add: ev_inv_def)
    next
      assume "\<exists>x. find (\<lambda>e. er_id e = i) (evidenceRecords W) = Some x \<and> r = ?upd x"
      then obtain x where "x \<in> set (evidenceRecords W)" "r = ?upd x" by (auto dest: find_Some_mem)
      then show ?thesis using inv False by (auto simp: ev_inv_def set_reviewed_def)
    qed
    then show ?thesis using inv by (simp add: W' ev_inv_def review_upd.keys_update)
  qed
qed

interpretation evidence_machine: machine ev_step ev_inv
  by unfold_locales (rule ev_inv_step)

text \<open>Every stored record that has been reviewed was the object of a review.\<close>

definition reviewed :: "EvidenceRecord \<Rightarrow> bool" where
  "reviewed e \<longleftrightarrow> er_status e \<noteq> ER_SUBMITTED"

lemma find_append_Some: "find P xs = Some x \<Longrightarrow> find P (xs @ ys) = Some x"
  by (induction xs) auto

lemma find_remove_first_other:
  "(\<And>x. Q x \<Longrightarrow> \<not> P x) \<Longrightarrow> find P (remove_first Q xs) = find P xs"
  by (induction xs) auto

text \<open>What is reviewed is never deleted: it stays in the store, reviewed.\<close>

lemma reviewed_step:
  assumes "getEvidenceRecordById W i = Some e" and "reviewed e"
  shows "\<exists>f. getEvidenceRecordById (ev_step W ev) i = Some f \<and> reviewed f"
proof (cases ev)
  case (Submit inp c d)
  then show ?thesis
    using assms by (auto simp: getEvidenceRecordById_def addEvidenceRecord_def Let_def find_append_Some)
next
  case (Withdraw j)
  show ?thesis
  proof (cases "j = i")
    case True
    then show ?thesis using assms Withdraw
      by (auto simp: getEvidenceRecordById_def removeEvidenceRecord_def reviewed_def)
  next
    case False
    then show ?thesis using assms Withdraw
      by (auto simp: getEvidenceRecordById_def removeEvidenceRecord_def find_remove_first_other
          split: option.splits)
  qed
next
  case (Review j by' v nt now)
  then show ?thesis
    using assms
    by (auto simp: getEvidenceRecordById_def reviewEvidenceRecord_def review_upd.find_update
        reviewed_def set_reviewed_def verdict_status_def split: option.splits verdict.splits)
qed

lemma reviewed_run:
  "getEvidenceRecordById W i = Some e \<Longrightarrow> reviewed e \<Longrightarrow>
   \<exists>f. getEvidenceRecordById (run ev_step W evs) i = Some f \<and> reviewed f"
proof (induction evs arbitrary: W e)
  case Nil
  then show ?case by simp
next
  case (Cons ev evs)
  from reviewed_step [OF Cons.prems] obtain f
    where "getEvidenceRecordById (ev_step W ev) i = Some f" "reviewed f" by blast
  from Cons.IH [OF this] show ?case by simp
qed

text \<open>Without a review nothing becomes accepted.\<close>

definition accepted_of :: "world \<Rightarrow> string \<Rightarrow> EvidenceRecord list" where
  "accepted_of W i = filter (\<lambda>e. er_workOrderId e = i \<and> er_status e = ER_ACCEPTED) (evidenceRecords W)"

lemma filter_remove_first_other:
  "(\<And>x. find Q xs = Some x \<Longrightarrow> \<not> P x) \<Longrightarrow> filter P (remove_first Q xs) = filter P xs"
  by (induction xs) (auto split: if_splits)

definition is_review :: "ev_event \<Rightarrow> bool" where
  "is_review ev = (case ev of Review _ _ _ _ _ \<Rightarrow> True | _ \<Rightarrow> False)"

lemma accepted_unreviewed_step:
  assumes "\<not> is_review ev"
  shows "accepted_of (ev_step W ev) i = accepted_of W i"
proof (cases ev)
  case (Submit inp c d)
  then show ?thesis by (simp add: accepted_of_def addEvidenceRecord_def Let_def new_evidence_def)
next
  case (Withdraw j)
  have "filter (\<lambda>e. er_workOrderId e = i \<and> er_status e = ER_ACCEPTED)
          (remove_first (\<lambda>e. er_id e = j) (evidenceRecords W)) =
        filter (\<lambda>e. er_workOrderId e = i \<and> er_status e = ER_ACCEPTED) (evidenceRecords W)"
    if "find (\<lambda>e. er_id e = j) (evidenceRecords W) = Some e" "er_status e = ER_SUBMITTED" for e
    by (rule filter_remove_first_other) (use that in auto)
  then show ?thesis using Withdraw
    by (auto simp: accepted_of_def removeEvidenceRecord_def split: option.splits)
next
  case (Review j r v nt now)
  with assms show ?thesis by (simp add: is_review_def)
qed

lemma accepted_unreviewed_run:
  "list_all (\<lambda>ev. \<not> is_review ev) evs \<Longrightarrow> accepted_of (run ev_step W evs) i = accepted_of W i"
proof (induction evs arbitrary: W)
  case Nil
  then show ?case by simp
next
  case (Cons ev evs)
  then have "accepted_of (ev_step W ev) i = accepted_of W i"
    by (intro accepted_unreviewed_step) simp
  with Cons show ?case by simp
qed

section \<open>Properties\<close>

text \<open>
  C38 The evidence store keeps its records identifiable and its rejections explained: along every
  sequence of submissions, removals and reviews the ids stay distinct, no stored id is one the
  counter has not reached, and every rejected record has a note that is not blank.
\<close>

theorem evidence_store_invariant:
  assumes "ev_inv W"
  shows "ev_inv (run ev_step W evs)"
  using assms by (rule evidence_machine.run_inv)

text \<open>
  Reviewed evidence is never deleted: a record that a reviewer has acted on is still found under
  its id, and still reviewed, after every sequence of submissions, removals and reviews.
\<close>

theorem reviewed_evidence_persists:
  assumes "getEvidenceRecordById W i = Some e" and "er_status e \<noteq> ER_SUBMITTED"
  shows "\<exists>f. getEvidenceRecordById (run ev_step W evs) i = Some f \<and> er_status f \<noteq> ER_SUBMITTED"
  using reviewed_run [OF assms(1)] assms(2) by (simp add: reviewed_def)

end
