(* ===== verification/Gates.thy ===== *)
theory Gates
  imports Planning EvidenceStore WorkOrders
begin

text \<open>
  Safety-gated execution in \<open>ai/analytics.ts\<close>: whether a work order needs an independent
  inspection, the execution evidence gate, the derived execution state, the inspectors who may
  inspect, the inspection requirement, the six safety gates, the release queue, the release
  readiness with its blockers and the turnaround classification; with the deferred items of
  \<open>deferredItems.ts\<close>, whose operational status the readiness reads. None of this is stored: every
  function reads the world.
\<close>

section \<open>Deferred items\<close>

definition DUE_SOON_DAYS :: int where
  "DUE_SOON_DAYS = 7"

definition getDeferredItemsForAircraft :: "world \<Rightarrow> string \<Rightarrow> DeferredItem list" where
  "getDeferredItemsForAircraft W a = filter (\<lambda>d. di_aircraftId d = a) (deferredItems W)"

definition getOpenDeferredItems :: "world \<Rightarrow> DeferredItem list" where
  "getOpenDeferredItems W = filter (\<lambda>d. di_status d = DI_OPEN) (deferredItems W)"

definition getDeferredItemById :: "world \<Rightarrow> string \<Rightarrow> DeferredItem option" where
  "getDeferredItemById W i = find (\<lambda>d. di_id d = i) (deferredItems W)"

definition set_closed :: "DeferredItem \<Rightarrow> DeferredItem" where
  "set_closed d = d\<lparr>di_status := DI_CLOSED\<rparr>"

definition closeDeferredItem :: "world \<Rightarrow> string \<Rightarrow> DeferredItem option \<times> world" where
  "closeDeferredItem W i =
     (case find (\<lambda>d. di_id d = i) (deferredItems W) of
        None \<Rightarrow> (None, W)
      | Some d \<Rightarrow>
          if di_status d = DI_CLOSED then (None, W)
          else (Some (set_closed d),
                W\<lparr>deferredItems := update_first (\<lambda>d. di_id d = i) set_closed (deferredItems W)\<rparr>))"

datatype DeferredItemOperationalStatus = DO_ACTIVE | DO_DUE_SOON | DO_OVERDUE | DO_CLOSED | DO_UNKNOWN

text \<open>A due date that cannot be read makes both comparisons false.\<close>

definition getDeferredItemStatus :: "DeferredItem \<Rightarrow> DeferredItemOperationalStatus" where
  "getDeferredItemStatus d =
     (if di_status d = DI_CLOSED then DO_CLOSED
      else case di_dueAt d of
             None \<Rightarrow> DO_UNKNOWN
           | Some due \<Rightarrow>
               (case daysBetween due MOCK_TODAY of
                  None \<Rightarrow> DO_ACTIVE
                | Some n \<Rightarrow> if n < 0 then DO_OVERDUE else if n \<le> DUE_SOON_DAYS then DO_DUE_SOON else DO_ACTIVE))"

record FleetDeferredItem =
  fd_item :: DeferredItem
  fd_registration :: string
  fd_operationalStatus :: DeferredItemOperationalStatus

definition getFleetDeferredItems :: "world \<Rightarrow> FleetDeferredItem list" where
  "getFleetDeferredItems W =
     map (\<lambda>d. \<lparr>fd_item = d, fd_registration = registration_or_id W (di_aircraftId d),
               fd_operationalStatus = getDeferredItemStatus d\<rparr>) (deferredItems W)"

record DeferredRiskSummary =
  drs_active :: nat
  drs_dueSoon :: nat
  drs_overdue :: nat
  drs_closed :: nat
  drs_unknown :: nat
  drs_total :: nat

definition getDeferredRiskSummary :: "world \<Rightarrow> DeferredRiskSummary" where
  "getDeferredRiskSummary W =
     (let fleet = getFleetDeferredItems W
      in \<lparr>drs_active = count_if (\<lambda>d. fd_operationalStatus d = DO_ACTIVE) fleet,
          drs_dueSoon = count_if (\<lambda>d. fd_operationalStatus d = DO_DUE_SOON) fleet,
          drs_overdue = count_if (\<lambda>d. fd_operationalStatus d = DO_OVERDUE) fleet,
          drs_closed = count_if (\<lambda>d. fd_operationalStatus d = DO_CLOSED) fleet,
          drs_unknown = count_if (\<lambda>d. fd_operationalStatus d = DO_UNKNOWN) fleet,
          drs_total = length fleet\<rparr>)"

datatype DeferredClosureReadiness = CLOSE_READY | CLOSE_BLOCKED | CLOSE_UNKNOWN

text \<open>\<open>if (item.workOrderId)\<close>: an empty id counts as no work order.\<close>

definition closure_work_order_blockers :: "world \<Rightarrow> DeferredItem \<Rightarrow> string list" where
  "closure_work_order_blockers W d =
     (case di_workOrderId d of
        None \<Rightarrow> [''No corrective work order is linked to this deferred item.'']
      | Some i \<Rightarrow>
          if i = [] then [''No corrective work order is linked to this deferred item.'']
          else (case find (\<lambda>w. wo_id w = i) (workOrders W) of
                  None \<Rightarrow> [''Linked work order not found.'']
                | Some w \<Rightarrow>
                    if wo_status w \<noteq> WO_COMPLETED
                    then [''Linked work order '' @ wo_workOrderNumber w @ '' is not yet COMPLETED (currently '' @
                          unscore (lit_WorkOrderStatus (wo_status w)) @ '').'']
                    else []))"

definition getDeferredClosureReadiness :: "world \<Rightarrow> string \<Rightarrow> DeferredClosureReadiness \<times> string list" where
  "getDeferredClosureReadiness W i =
     (case find (\<lambda>d. di_id d = i) (deferredItems W) of
        None \<Rightarrow> (CLOSE_UNKNOWN, [''Deferred item not found.''])
      | Some d \<Rightarrow>
          if di_status d = DI_CLOSED then (CLOSE_READY, [])
          else
            let blockers =
              (if di_evidenceReferences d = []
               then [''No evidence reference is on file for this deferred item.''] else []) @
              closure_work_order_blockers W d @
              (if di_approvalRequired d \<and> di_approvalStatus d \<noteq> DA_APPROVED
               then [''Approval required but current status is '' @
                     unscore (lit_DeferredItemApprovalStatus (di_approvalStatus d)) @ ''.'']
               else [])
            in if blockers = [] then (CLOSE_READY, []) else (CLOSE_BLOCKED, blockers))"

section \<open>The execution evidence gate\<close>

definition isInspectionRequired :: "world \<Rightarrow> WorkOrder \<Rightarrow> bool" where
  "isInspectionRequired W w =
     (case task_of W w of
        Some t \<Rightarrow> mt_inspectionRequired t
      | None \<Rightarrow> wo_inspectorReviewId w \<noteq> None \<or> wo_status w = WO_WAITING_INSPECTION)"

definition evaluateExecutionEvidenceGate ::
  "world \<Rightarrow> WorkOrder \<Rightarrow> MaintenanceTask option \<Rightarrow> SafetyGateState \<times> string" where
  "evaluateExecutionEvidenceGate W w task =
     (case (case task of None \<Rightarrow> Some EQ_NOT_REQUIRED | Some t \<Rightarrow> mt_evidenceRequirement t) of
        None \<Rightarrow> (GS_UNKNOWN, ''Evidence requirement is not defined for this task.'')
      | Some requirement \<Rightarrow>
          if requirement = EQ_NOT_REQUIRED
          then (GS_NOT_REQUIRED, ''No execution evidence is required for this task.'')
          else
            let records = evidenceRecordsForWorkOrder W (wo_id w);
                nonRejected = filter (\<lambda>r. er_status r \<noteq> ER_REJECTED) records;
                accepted = filter (\<lambda>r. er_status r = ER_ACCEPTED) records
            in if requirement = EQ_OPTIONAL then
                 (GS_NOT_REQUIRED,
                  if 0 < length nonRejected
                  then ''Evidence is optional for this task '' @ em_dash @ '' '' @
                       show_nat (length nonRejected) @ '' item(s) submitted.''
                  else ''Evidence is optional for this task '' @ em_dash @ '' none submitted.'')
               else if records = [] then
                 (GS_FAIL, ''Required execution evidence has not been submitted for this task.'')
               else if 0 < length accepted then
                 (GS_PASS,
                  show_nat (length accepted) @ '' required evidence item(s) accepted by a reviewer'' @
                  (if length accepted \<noteq> length records
                   then '' ('' @ show_nat (length records - length accepted) @
                        '' other submitted item(s) not counted)''
                   else []) @ ''.'')
               else if nonRejected = [] then
                 (GS_FAIL,
                  ''All '' @ show_nat (length records) @
                  '' submitted evidence item(s) were rejected '' @ em_dash @
                  '' resubmission required. Latest reason: '' @
                  or_else (er_reviewNote (last records)) insufficient)
               else
                 (GS_FAIL,
                  show_nat (length nonRejected) @
                  '' evidence item(s) submitted but not yet accepted by a reviewer '' @ em_dash @
                  '' awaiting review.''))"

definition getExecutionEvidenceStatus :: "world \<Rightarrow> string \<Rightarrow> (SafetyGateState \<times> string) option" where
  "getExecutionEvidenceStatus W i =
     map_option (\<lambda>w. evaluateExecutionEvidenceGate W w (task_of W w)) (getWorkOrderById W i)"

definition getEvidenceBlockedWorkOrders :: "world \<Rightarrow> WorkOrder list" where
  "getEvidenceBlockedWorkOrders W =
     filter (\<lambda>w. wo_open w \<and> map_option fst (getExecutionEvidenceStatus W (wo_id w)) = Some GS_FAIL)
       (workOrders W)"

section \<open>The execution state\<close>

definition getExecutionState :: "world \<Rightarrow> WorkOrder \<Rightarrow> ExecutionState" where
  "getExecutionState W w =
     (if wo_status w = WO_DRAFT \<or> wo_status w = WO_ASSIGNED then
        (case getWorkOrderPlanningRow W (wo_id w) of
           Some row \<Rightarrow> if 0 < length (pr_shortParts row) then ES_BLOCKED else ES_NOT_STARTED
         | None \<Rightarrow> ES_NOT_STARTED)
      else if wo_status w = WO_IN_PROGRESS then ES_IN_PROGRESS
      else if wo_status w = WO_WAITING_PARTS then ES_BLOCKED
      else if wo_status w = WO_WAITING_INSPECTION then ES_INSPECTION_REQUIRED
      else if wo_status w = WO_CANCELLED then ES_NOT_STARTED
      else if fst (evaluateExecutionEvidenceGate W w (task_of W w)) = GS_FAIL then ES_BLOCKED
      else if \<not> isInspectionRequired W w then ES_RELEASED
      else
        (case getInspectorReviewForWorkOrder W (wo_id w) of
           None \<Rightarrow> ES_TECHNICIAN_COMPLETED
         | Some review \<Rightarrow>
             if ir_status review = IR_APPROVED then ES_RELEASED
             else if ir_status review = IR_PENDING_INSPECTION then ES_TECHNICIAN_COMPLETED
             else ES_INSPECTION_COMPLETED))"

primrec explainExecutionState :: "ExecutionState \<Rightarrow> string" where
  "explainExecutionState ES_NOT_STARTED = ''Work has not started.''"
| "explainExecutionState ES_BLOCKED = ''Work is blocked before starting (material or qualification gate open).''"
| "explainExecutionState ES_IN_PROGRESS =
     ''Technician work is in progress '' @ em_dash @ '' not yet complete, not inspected, not released.''"
| "explainExecutionState ES_TECHNICIAN_COMPLETED =
     ''TECHNICIAN COMPLETED '' @ em_dash @ '' the technician's step is done. This is NOT inspected and NOT released.''"
| "explainExecutionState ES_INSPECTION_REQUIRED =
     ''Awaiting independent inspection '' @ em_dash @ '' technician step is done, inspection has not occurred.''"
| "explainExecutionState ES_INSPECTION_COMPLETED =
     ''INSPECTED '' @ em_dash @ '' an inspection occurred but did not clear the work order for release (rejected/returned).''"
| "explainExecutionState ES_READY_FOR_RELEASE =
     ''RELEASE READY '' @ em_dash @ '' all required steps are complete; a release action has not yet been recorded.''"
| "explainExecutionState ES_RELEASED =
     ''RELEASED '' @ em_dash @ '' technician completion and (where required) inspection are both on record.''"

section \<open>Independent inspection\<close>

definition getEligibleInspectorsForWorkOrder :: "world \<Rightarrow> string \<Rightarrow> TechnicianEligibility list" where
  "getEligibleInspectorsForWorkOrder W i =
     (case getWorkOrderById W i of
        None \<Rightarrow> []
      | Some w \<Rightarrow>
          filter (\<lambda>e. (case getTechnicianById W (el_technicianId e) of
                         None \<Rightarrow> False | Some t \<Rightarrow> is_inspector t) \<and>
                      Some (el_technicianId e) \<noteq> wo_assignedTechnicianId w)
            (getTechnicianEligibilityForWorkOrder W i))"

datatype InspectionRequirementStatus =
    INS_NOT_REQUIRED | INS_REQUIRED | INS_READY | INS_BLOCKED | INS_COMPLETED | INS_UNKNOWN

record InspectionRequirementResult =
  irq_status :: InspectionRequirementStatus
  irq_eligibleInspectors :: "TechnicianEligibility list"
  irq_excludedTechnicianId :: "string option"
  irq_reason :: string

text \<open>A technician id as a condition (\<open>w.assignedTechnicianId ? ... : ...\<close>).\<close>

definition truthy :: "string option \<Rightarrow> bool" where
  "truthy s = (case s of None \<Rightarrow> False | Some x \<Rightarrow> x \<noteq> [])"

definition getInspectionRequirement :: "world \<Rightarrow> string \<Rightarrow> InspectionRequirementResult" where
  "getInspectionRequirement W i =
     (case getWorkOrderById W i of
        None \<Rightarrow> \<lparr>irq_status = INS_UNKNOWN, irq_eligibleInspectors = [], irq_excludedTechnicianId = None,
                 irq_reason = ''Work order not found.''\<rparr>
      | Some w \<Rightarrow>
          if \<not> isInspectionRequired W w then
            \<lparr>irq_status = INS_NOT_REQUIRED, irq_eligibleInspectors = [], irq_excludedTechnicianId = None,
             irq_reason = ''No inspection is indicated as required for this work order.''\<rparr>
          else if getExecutionState W w = ES_RELEASED \<or> getExecutionState W w = ES_INSPECTION_COMPLETED then
            \<lparr>irq_status = INS_COMPLETED, irq_eligibleInspectors = [],
             irq_excludedTechnicianId = wo_assignedTechnicianId w,
             irq_reason = ''Inspection has already occurred and been recorded.''\<rparr>
          else
            let eligible = getEligibleInspectorsForWorkOrder W i
            in if eligible = [] then
                 \<lparr>irq_status = INS_BLOCKED, irq_eligibleInspectors = [],
                  irq_excludedTechnicianId = wo_assignedTechnicianId w,
                  irq_reason =
                    (if truthy (wo_assignedTechnicianId w)
                     then ''No eligible independent inspector (other than the assigned technician) is currently identified.''
                     else ''No technician is currently assigned, so independent-inspector eligibility cannot be fully evaluated.'')\<rparr>
               else
                 \<lparr>irq_status = INS_READY, irq_eligibleInspectors = eligible,
                  irq_excludedTechnicianId = wo_assignedTechnicianId w,
                  irq_reason = show_nat (length eligible) @ '' eligible independent inspector(s) identified '' @
                    em_dash @ '' the assigned technician is excluded.''\<rparr>)"

section \<open>The safety gates\<close>

definition mk_gate :: "SafetyGateType \<Rightarrow> bool \<Rightarrow> SafetyGateState \<Rightarrow> string \<Rightarrow> SafetyGate" where
  "mk_gate t opn st why = \<lparr>sg_type = t, sg_open = opn, sg_reason = why, sg_state = st\<rparr>"

definition material_gate :: "WorkOrderPlanningRow option \<Rightarrow> SafetyGate" where
  "material_gate row =
     (let blocked = (case row of None \<Rightarrow> False | Some r \<Rightarrow> material_blocked_row r)
      in mk_gate MATERIAL_GATE blocked (if blocked then GS_FAIL else GS_PASS)
           (case row of
              Some r \<Rightarrow> if 0 < length (pr_shortParts r)
                        then ''Required material unavailable: '' @ join '', '' (map sp_partNumber (pr_shortParts r))
                        else ''No material shortage recorded for this work order.''
            | None \<Rightarrow> ''No material shortage recorded for this work order.''))"

definition qualification_gate :: "WorkOrder \<Rightarrow> SafetyGate" where
  "qualification_gate w =
     (let opn = wo_assignedTechnicianId w = None \<and> wo_status w \<noteq> WO_COMPLETED \<and> wo_status w \<noteq> WO_CANCELLED
      in mk_gate QUALIFICATION_GATE opn (if opn then GS_FAIL else GS_PASS)
           (if truthy (wo_assignedTechnicianId w) then ''A technician is assigned.''
            else ''No technician currently assigned.''))"

definition inspection_gate :: "world \<Rightarrow> WorkOrder \<Rightarrow> SafetyGate" where
  "inspection_gate W w =
     (let st = getExecutionState W w;
          required = isInspectionRequired W w;
          opn = required \<and> st \<noteq> ES_RELEASED \<and> st \<noteq> ES_INSPECTION_COMPLETED;
          eligible = (if required then getEligibleInspectorsForWorkOrder W (wo_id w) else [])
      in mk_gate INSPECTION_GATE opn
           (if \<not> required then GS_NOT_REQUIRED
            else if opn then (if length eligible = 0 then GS_UNKNOWN else GS_FAIL)
            else GS_PASS)
           (if \<not> required then ''No inspection is indicated as required for this work order.''
            else if \<not> opn then ''Required inspection has been completed and approved.''
            else if 0 < length eligible
            then ''Independent inspection required before release '' @ em_dash @ '' eligible inspector(s): '' @
                 join '', '' (map el_name eligible) @
                 ''. The assigned technician cannot inspect their own work.''
            else ''Independent inspection required before release '' @ em_dash @
                 '' no eligible inspector (other than the assigned technician) currently identified.''))"

definition evidence_gate :: "world \<Rightarrow> MaintenanceTask option \<Rightarrow> SafetyGate" where
  "evidence_gate W task =
     (case task of
        None \<Rightarrow> mk_gate EVIDENCE_GATE True GS_UNKNOWN
                  ''No maintenance task reference is linked to this work order.''
      | Some t \<Rightarrow>
          let unknown = mt_evidenceStatus t = TES_SOURCE_UNKNOWN
          in mk_gate EVIDENCE_GATE unknown (if unknown then GS_UNKNOWN else GS_PASS)
               (if unknown
                then ''Authoritative maintenance reference is not available in the current dataset for this task.''
                else ''Reference on file: '' @ lit_MaintenanceTaskReferenceType (mt_referenceType t) @
                     (if truthy (mt_referenceId t) then '' ('' @ requirementLabel W (mt_referenceId t) @ '')'' else []) @
                     ''.''))"

definition execution_evidence_gate :: "world \<Rightarrow> WorkOrder \<Rightarrow> SafetyGate" where
  "execution_evidence_gate W w =
     (let g = evaluateExecutionEvidenceGate W w (task_of W w)
      in mk_gate EXECUTION_EVIDENCE_GATE (fst g = GS_FAIL \<or> fst g = GS_UNKNOWN) (fst g) (snd g))"

definition release_gate :: "ExecutionState \<Rightarrow> SafetyGate" where
  "release_gate st =
     mk_gate RELEASE_GATE (st \<noteq> ES_RELEASED) (if st = ES_RELEASED then GS_PASS else GS_FAIL)
       (if st = ES_RELEASED
        then ''Released '' @ em_dash @ '' technician completion and (where required) inspection are both on record.''
        else ''Not yet released '' @ em_dash @ '' current execution state: '' @
             unscore (lit_ExecutionState st) @ ''.'')"

definition getSafetyGatesForWorkOrder :: "world \<Rightarrow> string \<Rightarrow> SafetyGate list" where
  "getSafetyGatesForWorkOrder W i =
     (case getWorkOrderById W i of
        None \<Rightarrow> []
      | Some w \<Rightarrow>
          [material_gate (getWorkOrderPlanningRow W i), qualification_gate w, inspection_gate W w,
           evidence_gate W (task_of W w), execution_evidence_gate W w,
           release_gate (getExecutionState W w)])"

section \<open>The release queue and the release readiness\<close>

record ReleaseQueueRow =
  rq_workOrderId :: string
  rq_workOrderNumber :: string
  rq_aircraftRegistration :: string
  rq_executionState :: ExecutionState

definition getReleaseQueue :: "world \<Rightarrow> ReleaseQueueRow list" where
  "getReleaseQueue W =
     map (\<lambda>w. \<lparr>rq_workOrderId = wo_id w, rq_workOrderNumber = wo_workOrderNumber w,
               rq_aircraftRegistration = registration_or_id W (wo_aircraftId w),
               rq_executionState = getExecutionState W w\<rparr>)
       (filter (\<lambda>w. getExecutionState W w \<noteq> ES_RELEASED)
          (filter (\<lambda>w. wo_status w = WO_COMPLETED \<or> wo_status w = WO_WAITING_INSPECTION) (workOrders W)))"

datatype ReleaseReadinessStatus = REL_READY | REL_BLOCKED | REL_UNKNOWN

datatype ReleaseBlockerCategory =
    RB_MATERIAL | RB_QUALIFICATION | RB_INSPECTION | RB_EVIDENCE | RB_DEFERRED | RB_REGULATORY
    | RB_AUDIT | RB_UNKNOWN

primrec lit_ReleaseBlockerCategory :: "ReleaseBlockerCategory \<Rightarrow> string" where
  "lit_ReleaseBlockerCategory RB_MATERIAL = ''MATERIAL''"
| "lit_ReleaseBlockerCategory RB_QUALIFICATION = ''QUALIFICATION''"
| "lit_ReleaseBlockerCategory RB_INSPECTION = ''INSPECTION''"
| "lit_ReleaseBlockerCategory RB_EVIDENCE = ''EVIDENCE''"
| "lit_ReleaseBlockerCategory RB_DEFERRED = ''DEFERRED''"
| "lit_ReleaseBlockerCategory RB_REGULATORY = ''REGULATORY''"
| "lit_ReleaseBlockerCategory RB_AUDIT = ''AUDIT''"
| "lit_ReleaseBlockerCategory RB_UNKNOWN = ''UNKNOWN''"

record ReleaseBlocker =
  rb_category :: ReleaseBlockerCategory
  rb_source :: string
  rb_explanation :: string
  rb_requiredAction :: string

definition gate_category :: "SafetyGateType \<Rightarrow> ReleaseBlockerCategory" where
  "gate_category t =
     (if t = MATERIAL_GATE then RB_MATERIAL else if t = QUALIFICATION_GATE then RB_QUALIFICATION
      else if t = INSPECTION_GATE then RB_INSPECTION
      else if t = EXECUTION_EVIDENCE_GATE then RB_EVIDENCE else RB_UNKNOWN)"

definition category_action :: "ReleaseBlockerCategory \<Rightarrow> string" where
  "category_action c =
     (if c = RB_MATERIAL then ''Resolve the material shortage (Material Readiness / Procurement).''
      else if c = RB_QUALIFICATION then ''Assign a technician.''
      else if c = RB_INSPECTION then ''Assign an eligible independent inspector.''
      else if c = RB_EVIDENCE then ''Submit the required execution evidence for this task.''
      else ''Resolve the identified blocker.'')"

definition gate_blockers :: "SafetyGate \<Rightarrow> ReleaseBlocker list" where
  "gate_blockers g =
     (let src = ''Safety Gate: '' @ lit_SafetyGateType (sg_type g)
      in if sg_state g = GS_FAIL then
           [\<lparr>rb_category = gate_category (sg_type g), rb_source = src, rb_explanation = sg_reason g,
             rb_requiredAction = category_action (gate_category (sg_type g))\<rparr>]
         else if sg_state g = GS_UNKNOWN then
           [\<lparr>rb_category = (if sg_type g = EVIDENCE_GATE \<or> sg_type g = EXECUTION_EVIDENCE_GATE
                            then RB_EVIDENCE else RB_UNKNOWN),
             rb_source = src, rb_explanation = sg_reason g,
             rb_requiredAction = ''Resolve the missing source data before this gate can be evaluated as PASS or FAIL.''\<rparr>]
         else [])"

definition overdue_deferred :: "world \<Rightarrow> string \<Rightarrow> DeferredItem list" where
  "overdue_deferred W a =
     filter (\<lambda>d. di_aircraftId d = a \<and> di_status d = DI_OPEN \<and> getDeferredItemStatus d = DO_OVERDUE)
       (deferredItems W)"

definition deferred_blocker :: "DeferredItem \<Rightarrow> ReleaseBlocker" where
  "deferred_blocker d =
     \<lparr>rb_category = RB_DEFERRED, rb_source = ''Deferred Item '' @ di_id d,
      rb_explanation = ''Overdue deferred item on this aircraft (due '' @ or_else (di_dueAt d) ''null'' @ '').'',
      rb_requiredAction = ''Review and resolve the overdue deferred item.''\<rparr>"

definition needs_resolution :: "ApplicabilityAssessment \<Rightarrow> bool" where
  "needs_resolution a \<longleftrightarrow> aa_finalStatus a = FS_NON_COMPLIANT \<or> aa_finalStatus a = FS_REVIEW_REQUIRED"

definition regulatory_blocker :: "ApplicabilityAssessment \<Rightarrow> ReleaseBlocker" where
  "regulatory_blocker a =
     \<lparr>rb_category = RB_REGULATORY, rb_source = ''Assessment '' @ aa_id a,
      rb_explanation = ''Assessment is '' @ unscore (lit_FinalStatus (aa_finalStatus a)) @ ''.'',
      rb_requiredAction = ''Resolve the regulatory assessment (Compliance).''\<rparr>"

definition specific_blockers :: "world \<Rightarrow> WorkOrder \<Rightarrow> ReleaseBlocker list" where
  "specific_blockers W w =
     concat (map gate_blockers (getSafetyGatesForWorkOrder W (wo_id w))) @
     map deferred_blocker (overdue_deferred W (wo_aircraftId w)) @
     map regulatory_blocker (filter needs_resolution (assessmentsForAircraft W (wo_aircraftId w)))"

definition residual_blocker :: "world \<Rightarrow> WorkOrder \<Rightarrow> ReleaseBlocker list" where
  "residual_blocker W w =
     (if getExecutionState W w \<noteq> ES_RELEASED then
        [\<lparr>rb_category = RB_UNKNOWN, rb_source = ''Work Order '' @ wo_workOrderNumber w,
          rb_explanation = ''No specific blocker identified, but execution state is '' @
            unscore (lit_ExecutionState (getExecutionState W w)) @ '', not RELEASED.'',
          rb_requiredAction = ''Review the work order's execution state on the Planning detail page.''\<rparr>]
      else [])"

definition unknown_category :: "ReleaseBlocker \<Rightarrow> bool" where
  "unknown_category b \<longleftrightarrow> rb_category b = RB_UNKNOWN \<or> rb_category b = RB_EVIDENCE"

definition readiness_status :: "ReleaseBlocker list \<Rightarrow> ReleaseReadinessStatus" where
  "readiness_status blockers =
     (if blockers = [] then REL_READY
      else if list_ex unknown_category blockers \<and> list_all unknown_category blockers then REL_UNKNOWN
      else REL_BLOCKED)"

definition getReleaseReadinessForWorkOrder ::
  "world \<Rightarrow> string \<Rightarrow> ReleaseReadinessStatus \<times> ReleaseBlocker list" where
  "getReleaseReadinessForWorkOrder W i =
     (case getWorkOrderById W i of
        None \<Rightarrow> (REL_UNKNOWN, [\<lparr>rb_category = RB_UNKNOWN, rb_source = i,
                               rb_explanation = ''Work order not found.'',
                               rb_requiredAction = ''Verify the work order id.''\<rparr>])
      | Some w \<Rightarrow>
          let specific = specific_blockers W w;
              blockers = (if specific = [] then residual_blocker W w else specific)
          in (readiness_status blockers, blockers))"

definition getAircraftReleaseReadiness ::
  "world \<Rightarrow> string \<Rightarrow> (string \<times> string \<times> ReleaseReadinessStatus \<times> ReleaseBlocker list) list" where
  "getAircraftReleaseReadiness W a =
     map (\<lambda>w. (wo_id w, wo_workOrderNumber w, getReleaseReadinessForWorkOrder W (wo_id w)))
       (filter (\<lambda>w. wo_status w \<noteq> WO_CANCELLED)
          (filter (\<lambda>w. wo_status w \<noteq> WO_COMPLETED \<or> getExecutionState W w \<noteq> ES_RELEASED)
             (workOrdersForAircraft W a)))"

section \<open>Turnaround\<close>

datatype TatStatus = TAT_ON_TRACK | TAT_AT_RISK | TAT_DELAYED | TAT_UNKNOWN

record TatAssessment =
  ta_status :: TatStatus
  ta_dueDate :: string
  ta_daysOverdue :: "int option option"
  ta_daysRemaining :: "int option option"
  ta_reason :: string
  ta_contributingBlockers :: "string list"

definition TAT_AT_RISK_WINDOW_DAYS :: int where
  "TAT_AT_RISK_WINDOW_DAYS = 3"

text \<open>\<open>daysRemaining <= TAT_AT_RISK_WINDOW_DAYS\<close>, false for \<open>NaN\<close>.\<close>

definition within_window :: "int option \<Rightarrow> bool" where
  "within_window n = (case n of None \<Rightarrow> False | Some k \<Rightarrow> k \<le> TAT_AT_RISK_WINDOW_DAYS)"

definition getWorkOrderTatStatus :: "world \<Rightarrow> string \<Rightarrow> TatAssessment option" where
  "getWorkOrderTatStatus W i =
     (case getWorkOrderById W i of
        None \<Rightarrow> None
      | Some w \<Rightarrow> Some
          (if wo_status w = WO_COMPLETED \<or> wo_status w = WO_CANCELLED then
             \<lparr>ta_status = TAT_ON_TRACK, ta_dueDate = wo_dueDate w, ta_daysOverdue = None,
              ta_daysRemaining = None,
              ta_reason = ''Work order is '' @ toLowerCase (lit_WorkOrderStatus (wo_status w)) @ '' '' @
                em_dash @ '' turnaround has concluded.'',
              ta_contributingBlockers = []\<rparr>
           else if wo_dueDate w = [] then
             \<lparr>ta_status = TAT_UNKNOWN, ta_dueDate = wo_dueDate w, ta_daysOverdue = None,
              ta_daysRemaining = None, ta_reason = ''No due date is recorded for this work order.'',
              ta_contributingBlockers = []\<rparr>
           else
             let readiness = getReleaseReadinessForWorkOrder W i;
                 summaries = map (\<lambda>b. lit_ReleaseBlockerCategory (rb_category b) @ '': '' @ rb_explanation b)
                               (snd readiness)
             in if isOverdue w then
                  let overdueBy = daysBetween MOCK_TODAY (wo_dueDate w)
                  in \<lparr>ta_status = TAT_DELAYED, ta_dueDate = wo_dueDate w,
                      ta_daysOverdue = Some overdueBy, ta_daysRemaining = None,
                      ta_reason = ''Due date has passed by '' @ show_days overdueBy @ '' day(s).'',
                      ta_contributingBlockers = summaries\<rparr>
                else
                  let remaining = daysBetween (wo_dueDate w) MOCK_TODAY
                  in if fst readiness = REL_BLOCKED \<and> within_window remaining then
                       \<lparr>ta_status = TAT_AT_RISK, ta_dueDate = wo_dueDate w, ta_daysOverdue = None,
                        ta_daysRemaining = Some remaining,
                        ta_reason = ''Due in '' @ show_days remaining @ '' day(s) with '' @
                          show_nat (length (snd readiness)) @ '' open release blocker(s) unresolved.'',
                        ta_contributingBlockers = summaries\<rparr>
                     else if fst readiness = REL_UNKNOWN then
                       \<lparr>ta_status = TAT_UNKNOWN, ta_dueDate = wo_dueDate w, ta_daysOverdue = None,
                        ta_daysRemaining = Some remaining,
                        ta_reason = ''Release readiness could not be fully evaluated from current source data.'',
                        ta_contributingBlockers = summaries\<rparr>
                     else
                       \<lparr>ta_status = TAT_ON_TRACK, ta_dueDate = wo_dueDate w, ta_daysOverdue = None,
                        ta_daysRemaining = Some remaining,
                        ta_reason = ''Due in '' @ show_days remaining @
                          '' day(s); no release blocker currently outstanding.'',
                        ta_contributingBlockers = summaries\<rparr>))"

definition getFleetTatStatus :: "world \<Rightarrow> (string \<times> string \<times> string \<times> TatAssessment) list" where
  "getFleetTatStatus W =
     List.map_filter
       (\<lambda>w. map_option (\<lambda>t. (wo_id w, wo_workOrderNumber w, registration_or_id W (wo_aircraftId w), t))
              (getWorkOrderTatStatus W (wo_id w)))
       (filter wo_open (workOrders W))"

section \<open>The evidence gate\<close>

lemma records_of: "set (evidenceRecordsForWorkOrder W i) = {e \<in> set (evidenceRecords W). er_workOrderId e = i}"
  by (auto simp: evidenceRecordsForWorkOrder_def)

lemma no_accepted_iff:
  "filter (\<lambda>r. er_status r = ER_ACCEPTED) (evidenceRecordsForWorkOrder W i) = [] \<longleftrightarrow> accepted_of W i = []"
  by (auto simp: filter_empty_conv records_of accepted_of_def)

lemma evidence_gate_state:
  "fst (evaluateExecutionEvidenceGate W w task) =
    (case task of
       None \<Rightarrow> GS_NOT_REQUIRED
     | Some t \<Rightarrow>
         (case mt_evidenceRequirement t of
            None \<Rightarrow> GS_UNKNOWN
          | Some EQ_REQUIRED \<Rightarrow> if accepted_of W (wo_id w) = [] then GS_FAIL else GS_PASS
          | Some _ \<Rightarrow> GS_NOT_REQUIRED))"
  using no_accepted_iff [of W "wo_id w"]
  by (auto simp: evaluateExecutionEvidenceGate_def Let_def
      split: option.splits EvidenceRequirement.splits)

section \<open>Execution states\<close>

lemma released_state:
  "getExecutionState W w = ES_RELEASED \<longleftrightarrow>
   wo_status w = WO_COMPLETED \<and>
   fst (evaluateExecutionEvidenceGate W w (task_of W w)) \<noteq> GS_FAIL \<and>
   (isInspectionRequired W w \<longrightarrow>
     (\<exists>r. getInspectorReviewForWorkOrder W (wo_id w) = Some r \<and> ir_status r = IR_APPROVED))"
  by (cases "wo_status w") (auto simp: getExecutionState_def split: option.splits)

lemma inspected_state:
  "getExecutionState W w = ES_INSPECTION_COMPLETED \<longleftrightarrow>
   wo_status w = WO_COMPLETED \<and>
   fst (evaluateExecutionEvidenceGate W w (task_of W w)) \<noteq> GS_FAIL \<and> isInspectionRequired W w \<and>
   (\<exists>r. getInspectorReviewForWorkOrder W (wo_id w) = Some r \<and>
        (ir_status r = IR_REJECTED \<or> ir_status r = IR_RETURNED_FOR_CORRECTION))"
proof -
  have "ir_status r \<noteq> IR_APPROVED \<Longrightarrow> ir_status r \<noteq> IR_PENDING_INSPECTION \<Longrightarrow>
      ir_status r = IR_REJECTED \<or> ir_status r = IR_RETURNED_FOR_CORRECTION" for r :: InspectorReview
    by (cases "ir_status r") simp_all
  then show ?thesis
    by (cases "wo_status w") (auto simp: getExecutionState_def split: option.splits)
qed

section \<open>Inspectors\<close>

lemma eligibility_ids:
  "getWorkOrderById W i = Some w \<Longrightarrow>
   el_technicianId ` set (getTechnicianEligibilityForWorkOrder W i) = te_id ` set (technicians W)"
  by (simp add: getTechnicianEligibilityForWorkOrder_def rankTechniciansForWorkOrder_def image_image
      eligibility_def technician_candidate_def Let_def)

lemma eligible_ids:
  assumes "getWorkOrderById W i = Some w"
  shows "el_technicianId ` set (getEligibleInspectorsForWorkOrder W i) =
    {k. (\<exists>t. getTechnicianById W k = Some t \<and> is_inspector t) \<and> wo_assignedTechnicianId w \<noteq> Some k}"
    (is "?L = ?R")
proof
  show "?L \<subseteq> ?R"
    by (auto simp: getEligibleInspectorsForWorkOrder_def assms split: option.splits)
  show "?R \<subseteq> ?L"
  proof
    fix k
    assume k: "k \<in> ?R"
    then obtain t where t: "getTechnicianById W k = Some t" "is_inspector t" by auto
    then have "k \<in> te_id ` set (technicians W)" by (auto dest: getTechnicianById_Some)
    then obtain e where e: "e \<in> set (getTechnicianEligibilityForWorkOrder W i)" "k = el_technicianId e"
      unfolding eligibility_ids [OF assms, symmetric] by auto
    then have "e \<in> set (getEligibleInspectorsForWorkOrder W i)"
      using k t by (auto simp: getEligibleInspectorsForWorkOrder_def assms)
    then show "k \<in> ?L" using e(2) by blast
  qed
qed

section \<open>Gates\<close>

definition gate_consistent :: "SafetyGate \<Rightarrow> bool" where
  "gate_consistent g \<longleftrightarrow> (sg_open g \<longleftrightarrow> sg_state g = GS_FAIL \<or> sg_state g = GS_UNKNOWN)"

lemma gates_consistent:
  "gate_consistent (material_gate r)" "gate_consistent (qualification_gate w)"
  "gate_consistent (inspection_gate W w)" "gate_consistent (evidence_gate W task)"
  "gate_consistent (execution_evidence_gate W w)" "gate_consistent (release_gate st)"
  by (auto simp: gate_consistent_def material_gate_def qualification_gate_def inspection_gate_def
      evidence_gate_def execution_evidence_gate_def release_gate_def mk_gate_def Let_def
      split: option.splits)

lemma gate_states:
  "sg_state (material_gate r) = (if (case r of None \<Rightarrow> False | Some r \<Rightarrow> material_blocked_row r) then GS_FAIL else GS_PASS)"
  "sg_state (qualification_gate w) = (if wo_assignedTechnicianId w = None \<and> wo_open w then GS_FAIL else GS_PASS)"
  "sg_state (evidence_gate W task) =
     (case task of None \<Rightarrow> GS_UNKNOWN
      | Some t \<Rightarrow> if mt_evidenceStatus t = TES_SOURCE_UNKNOWN then GS_UNKNOWN else GS_PASS)"
  "sg_state (execution_evidence_gate W w) = fst (evaluateExecutionEvidenceGate W w (task_of W w))"
  "sg_state (release_gate st) = (if st = ES_RELEASED then GS_PASS else GS_FAIL)"
  by (auto simp: material_gate_def qualification_gate_def evidence_gate_def wo_open_def
      execution_evidence_gate_def release_gate_def mk_gate_def Let_def split: option.splits)

lemma inspection_gate_state:
  "getWorkOrderById W (wo_id w) = Some w \<Longrightarrow>
   sg_state (inspection_gate W w) =
    (if \<not> isInspectionRequired W w then GS_NOT_REQUIRED
     else if getExecutionState W w = ES_RELEASED \<or> getExecutionState W w = ES_INSPECTION_COMPLETED then GS_PASS
     else if getEligibleInspectorsForWorkOrder W (wo_id w) = [] then GS_UNKNOWN else GS_FAIL)"
  by (simp add: inspection_gate_def Let_def mk_gate_def)

lemma gate_types:
  "sg_type (material_gate r) = MATERIAL_GATE" "sg_type (qualification_gate w) = QUALIFICATION_GATE"
  "sg_type (inspection_gate W w) = INSPECTION_GATE" "sg_type (evidence_gate W task) = EVIDENCE_GATE"
  "sg_type (execution_evidence_gate W w) = EXECUTION_EVIDENCE_GATE"
  "sg_type (release_gate st) = RELEASE_GATE"
  by (auto simp: material_gate_def qualification_gate_def inspection_gate_def evidence_gate_def
      execution_evidence_gate_def release_gate_def mk_gate_def Let_def split: option.splits)

lemma material_blocked_of:
  assumes "getWorkOrderById W i = Some w"
  shows "(case getWorkOrderPlanningRow W i of None \<Rightarrow> False | Some r \<Rightarrow> material_blocked_row r) \<longleftrightarrow>
    wo_status w \<in> {WO_DRAFT, WO_ASSIGNED, WO_WAITING_PARTS} \<and>
    (\<exists>p \<in> set (parts W). pt_workOrderId p = Some i \<and> pt_status p \<noteq> PS_IN_STOCK)"
proof -
  have "wo_id w = i" using assms by (auto dest: getWorkOrderById_Some)
  then show ?thesis
    by (cases "wo_status w")
      (auto simp: planning_row_of [OF assms] material_blocked_row_def row_fields planning_status_def
        short_parts_iff)
qed

section \<open>Readiness\<close>

lemma gate_blockers_nil: "gate_blockers g = [] \<longleftrightarrow> sg_state g = GS_PASS \<or> sg_state g = GS_NOT_REQUIRED"
  by (cases "sg_state g") (simp_all add: gate_blockers_def Let_def)

lemma gate_blockers_unknown:
  "list_all unknown_category (gate_blockers g) \<longleftrightarrow>
   \<not> (sg_state g = GS_FAIL \<and> sg_type g \<in> {MATERIAL_GATE, QUALIFICATION_GATE, INSPECTION_GATE})"
  by (cases "sg_state g"; cases "sg_type g")
    (simp_all add: gate_blockers_def Let_def unknown_category_def gate_category_def)

lemma release_gate_blocks:
  assumes "getWorkOrderById W (wo_id w) = Some w" and "getExecutionState W w \<noteq> ES_RELEASED"
  shows "specific_blockers W w \<noteq> []"
  using assms gate_blockers_nil [of "release_gate (getExecutionState W w)"]
  by (simp add: specific_blockers_def getSafetyGatesForWorkOrder_def gate_states)

lemma blockers_specific:
  assumes "getWorkOrderById W i = Some w"
  shows "getReleaseReadinessForWorkOrder W i = (readiness_status (specific_blockers W w), specific_blockers W w)"
proof -
  have id: "wo_id w = i" using assms by (auto dest: getWorkOrderById_Some)
  show ?thesis
  proof (cases "getExecutionState W w = ES_RELEASED")
    case True
    then show ?thesis by (simp add: getReleaseReadinessForWorkOrder_def assms Let_def residual_blocker_def)
  next
    case False
    then have "specific_blockers W w \<noteq> []" using assms id release_gate_blocks by simp
    then show ?thesis by (simp add: getReleaseReadinessForWorkOrder_def assms Let_def)
  qed
qed

lemma specific_nil:
  assumes "getWorkOrderById W i = Some w"
  shows "specific_blockers W w = [] \<longleftrightarrow>
    getExecutionState W w = ES_RELEASED \<and>
    (\<exists>t. task_of W w = Some t \<and> mt_evidenceStatus t = TES_SOURCE_AVAILABLE \<and> mt_evidenceRequirement t \<noteq> None) \<and>
    overdue_deferred W (wo_aircraftId w) = [] \<and>
    filter needs_resolution (assessmentsForAircraft W (wo_aircraftId w)) = []"
proof -
  have id: "wo_id w = i" using assms by (auto dest: getWorkOrderById_Some)
  have insp: "sg_state (inspection_gate W w) \<in> {GS_PASS, GS_NOT_REQUIRED}"
      "sg_state (material_gate (getWorkOrderPlanningRow W i)) = GS_PASS"
      "sg_state (qualification_gate w) = GS_PASS" if "getExecutionState W w = ES_RELEASED"
    using that assms id released_state [of W w] material_blocked_of [OF assms]
    by (auto simp: inspection_gate_state gate_states wo_open_def)
  have ev: "sg_state (evidence_gate W (task_of W w)) = GS_PASS \<or> sg_state (evidence_gate W (task_of W w)) = GS_NOT_REQUIRED
      \<longleftrightarrow> (\<exists>t. task_of W w = Some t \<and> mt_evidenceStatus t = TES_SOURCE_AVAILABLE)"
    by (auto simp: gate_states split: option.splits intro: MaintenanceTaskEvidenceStatus.exhaust)
  have ex: "sg_state (execution_evidence_gate W w) = GS_PASS \<or> sg_state (execution_evidence_gate W w) = GS_NOT_REQUIRED
      \<longleftrightarrow> (\<forall>t. task_of W w = Some t \<longrightarrow> mt_evidenceRequirement t \<noteq> None)"
    if "getExecutionState W w = ES_RELEASED"
    using that released_state [of W w]
    by (auto simp: gate_states evidence_gate_state split: option.splits EvidenceRequirement.splits if_splits)
  show ?thesis
    using insp ev ex
    by (cases "getExecutionState W w = ES_RELEASED")
      (auto simp: specific_blockers_def getSafetyGatesForWorkOrder_def assms id gate_blockers_nil gate_states(5))
qed

lemma blocked_iff:
  assumes "getWorkOrderById W i = Some w"
  shows "fst (getReleaseReadinessForWorkOrder W i) = REL_BLOCKED \<longleftrightarrow>
    sg_state (material_gate (getWorkOrderPlanningRow W i)) = GS_FAIL \<or>
    sg_state (qualification_gate w) = GS_FAIL \<or> sg_state (inspection_gate W w) = GS_FAIL \<or>
    overdue_deferred W (wo_aircraftId w) \<noteq> [] \<or>
    filter needs_resolution (assessmentsForAircraft W (wo_aircraftId w)) \<noteq> []"
proof -
  have id: "wo_id w = i" using assms by (auto dest: getWorkOrderById_Some)
  have blocked: "readiness_status bs = REL_BLOCKED \<longleftrightarrow> \<not> list_all unknown_category bs" for bs
    by (cases bs) (auto simp: readiness_status_def)
  have known: "\<not> unknown_category (deferred_blocker d)" "\<not> unknown_category (regulatory_blocker a)" for d a
    by (simp_all add: unknown_category_def deferred_blocker_def regulatory_blocker_def)
  have "list_all unknown_category (map deferred_blocker ds) \<longleftrightarrow> ds = []" for ds
    by (cases ds) (simp_all add: known)
  moreover have "list_all unknown_category (map regulatory_blocker as) \<longleftrightarrow> as = []" for as
    by (cases as) (simp_all add: known)
  ultimately show ?thesis
    by (simp add: blockers_specific [OF assms] blocked specific_blockers_def getSafetyGatesForWorkOrder_def
        assms id gate_blockers_unknown gate_types)
qed


section \<open>Deferred items: closure\<close>

interpretation close_upd: keyed_update di_id set_closed
  by unfold_locales (simp add: set_closed_def)

interpretation deferred_status: status_partition getDeferredItemStatus
  "[DO_ACTIVE, DO_DUE_SOON, DO_OVERDUE, DO_CLOSED, DO_UNKNOWN]"
proof
  show "getDeferredItemStatus d \<in> set [DO_ACTIVE, DO_DUE_SOON, DO_OVERDUE, DO_CLOSED, DO_UNKNOWN]" for d
    by (cases "getDeferredItemStatus d") simp_all
qed simp

section \<open>Properties\<close>


text \<open>
  C36 The release readiness of a work order is READY exactly when the work order is released, its
  maintenance task has a reference on file and a stated evidence requirement, no deferred item of
  its aircraft is overdue, and no assessment of its aircraft is non-compliant or to be reviewed;
  and it is READY exactly when it reports no blocker.
\<close>

theorem release_ready_exactly_when:
  assumes "getWorkOrderById W i = Some w"
  shows "(fst (getReleaseReadinessForWorkOrder W i) = REL_READY \<longleftrightarrow>
      getExecutionState W w = ES_RELEASED \<and>
      (\<exists>t. task_of W w = Some t \<and> mt_evidenceStatus t = TES_SOURCE_AVAILABLE \<and> mt_evidenceRequirement t \<noteq> None) \<and>
      overdue_deferred W (wo_aircraftId w) = [] \<and>
      list_all (\<lambda>a. \<not> needs_resolution a) (assessmentsForAircraft W (wo_aircraftId w))) \<and>
    (fst (getReleaseReadinessForWorkOrder W i) = REL_READY \<longleftrightarrow> snd (getReleaseReadinessForWorkOrder W i) = [])"
proof -
  have "readiness_status bs = REL_READY \<longleftrightarrow> bs = []" for bs by (simp add: readiness_status_def)
  moreover have "list_all (\<lambda>a. \<not> P a) xs \<longleftrightarrow> filter P xs = []" for P :: "ApplicabilityAssessment \<Rightarrow> bool" and xs
    by (auto simp: list_all_iff filter_empty_conv)
  ultimately show ?thesis by (simp add: blockers_specific [OF assms] specific_nil [OF assms])
qed

text \<open>
  A work order is BLOCKED for release exactly when its material, qualification or inspection gate
  fails, an overdue deferred item or an unresolved assessment stands against its aircraft. In every
  other case in which it is not ready the answer is UNKNOWN: a work order that is merely in
  progress, or whose required evidence was rejected, is reported as unknown and not as blocked.
\<close>

theorem release_blocked_exactly_when:
  assumes "getWorkOrderById W i = Some w"
  shows "fst (getReleaseReadinessForWorkOrder W i) = REL_BLOCKED \<longleftrightarrow>
    wo_status w \<in> {WO_DRAFT, WO_ASSIGNED, WO_WAITING_PARTS} \<and>
      list_ex (\<lambda>p. pt_workOrderId p = Some i \<and> pt_status p \<noteq> PS_IN_STOCK) (parts W) \<or>
    wo_open w \<and> wo_assignedTechnicianId w = None \<or>
    isInspectionRequired W w \<and> getExecutionState W w \<notin> {ES_RELEASED, ES_INSPECTION_COMPLETED} \<and>
      getEligibleInspectorsForWorkOrder W i \<noteq> [] \<or>
    overdue_deferred W (wo_aircraftId w) \<noteq> [] \<or>
    list_ex needs_resolution (assessmentsForAircraft W (wo_aircraftId w))"
proof -
  have id: "wo_id w = i" using assms by (auto dest: getWorkOrderById_Some)
  have "list_ex P xs \<longleftrightarrow> filter P xs \<noteq> []" for P :: "ApplicabilityAssessment \<Rightarrow> bool" and xs
    by (auto simp: list_ex_iff filter_empty_conv)
  then show ?thesis
    using assms id material_blocked_of [OF assms]
    by (auto simp: blocked_iff [OF assms] gate_states(1,2) inspection_gate_state list_ex_iff split: if_splits)
qed


text \<open>
  Only a reviewer opens the execution evidence gate: for a work order whose task requires
  evidence, the gate passes exactly when an accepted record is on file, and no sequence of
  submissions and removals, whatever a technician uploads or withdraws, changes its state between
  PASS and FAIL.
\<close>

theorem only_review_opens_evidence_gate:
  assumes "task_of W w = Some t" and "mt_evidenceRequirement t = Some EQ_REQUIRED"
    and "list_all (\<lambda>ev. \<not> is_review ev) evs"
  shows "fst (evaluateExecutionEvidenceGate (run ev_step W evs) w (Some t)) =
         fst (evaluateExecutionEvidenceGate W w (Some t)) \<and>
         (fst (evaluateExecutionEvidenceGate W w (Some t)) = GS_PASS \<longleftrightarrow>
           (\<exists>e \<in> set (evidenceRecords W). er_workOrderId e = wo_id w \<and> er_status e = ER_ACCEPTED))"
  using assms(2) accepted_unreviewed_run [OF assms(3), of W "wo_id w"]
  by (auto simp: evidence_gate_state) (auto simp: accepted_of_def filter_empty_conv)

text \<open>
  Independent inspection: the inspectors eligible for a work order are exactly the technicians on
  file who are inspectors and are not the technician currently assigned to it.
\<close>

theorem eligible_inspectors_exact:
  assumes "getWorkOrderById W i = Some w"
  shows "set (map el_technicianId (getEligibleInspectorsForWorkOrder W i)) =
    {k. (\<exists>t. getTechnicianById W k = Some t \<and> te_isInspector t = Some True) \<and> wo_assignedTechnicianId w \<noteq> Some k}"
  using eligible_ids [OF assms] by (simp add: is_inspector_def)

text \<open>
  The exclusion reads only the current assignment, and an assignment has no guard on the status:
  when another technician is assigned to a completed work order, the inspector who performed it,
  excluded before, is eligible to inspect it.
\<close>

theorem reassignment_admits_performer:
  assumes "getWorkOrderById W i = Some w" and "wo_status w = WO_COMPLETED"
    and "wo_assignedTechnicianId w = Some k" and "getTechnicianById W k = Some t"
    and "te_isInspector t = Some True" and "k \<noteq> k'"
  shows "k \<notin> set (map el_technicianId (getEligibleInspectorsForWorkOrder W i)) \<and>
    k \<in> set (map el_technicianId (getEligibleInspectorsForWorkOrder (snd (assignTechnician W i k')) i)) \<and>
    map_option wo_status (getWorkOrderById (snd (assignTechnician W i k')) i) = Some WO_COMPLETED"
proof -
  let ?W = "snd (assignTechnician W i k')"
  have w': "getWorkOrderById ?W i = Some (set_technician k' w)"
    using assms(1) by (simp add: assignTechnician_def store_simps)
  have "getTechnicianById ?W k = Some t"
    using assms(4) by (simp add: assignTechnician_def assms(1) update_workOrder_def getTechnicianById_def)
  moreover have "wo_assignedTechnicianId (set_technician k' w) = Some k'"
      "wo_status (set_technician k' w) = WO_COMPLETED"
    using assms(2) by (simp_all add: set_technician_def)
  ultimately show ?thesis
    using assms eligible_ids [OF assms(1)] eligible_ids [OF w'] by (simp add: w' is_inspector_def)
qed

text \<open>
  A rejected inspection passes the inspection gate: when the review of a completed work order that
  needs an inspection was rejected or returned for correction, the inspection gate is closed with
  state PASS and says the inspection was completed and approved, although the work order is not
  released.
\<close>

theorem rejected_inspection_passes_gate:
  assumes "getWorkOrderById W i = Some w" and "wo_status w = WO_COMPLETED" and "isInspectionRequired W w"
    and "fst (evaluateExecutionEvidenceGate W w (task_of W w)) \<noteq> GS_FAIL"
    and "getInspectorReviewForWorkOrder W i = Some r"
    and "ir_status r \<in> {IR_REJECTED, IR_RETURNED_FOR_CORRECTION}"
  shows "\<exists>g \<in> set (getSafetyGatesForWorkOrder W i).
    sg_type g = INSPECTION_GATE \<and> sg_state g = GS_PASS \<and> \<not> sg_open g \<and>
    sg_reason g = ''Required inspection has been completed and approved.'' \<and>
    getExecutionState W w \<noteq> ES_RELEASED"
proof -
  have id: "wo_id w = i" using assms(1) by (auto dest: getWorkOrderById_Some)
  have st: "getExecutionState W w = ES_INSPECTION_COMPLETED"
    using assms id by (auto simp: inspected_state)
  have "inspection_gate W w \<in> set (getSafetyGatesForWorkOrder W i)"
    by (simp add: getSafetyGatesForWorkOrder_def assms(1))
  moreover have "inspection_gate W w =
      mk_gate INSPECTION_GATE False GS_PASS ''Required inspection has been completed and approved.''"
    by (simp add: inspection_gate_def Let_def st assms(3))
  ultimately show ?thesis using st by (intro bexI [of _ "inspection_gate W w"]) (simp_all add: mk_gate_def)
qed

text \<open>
  The turnaround status of an open work order with a due date: DELAYED exactly when it is overdue;
  otherwise AT_RISK exactly when its release is blocked and it is due within three days; otherwise
  UNKNOWN exactly when its readiness is unknown; otherwise ON_TRACK, and then release blockers are
  outstanding all the same, although the reason given says there is none.
\<close>

theorem turnaround_classification:
  assumes "getWorkOrderById W i = Some w" and "wo_open w" and "wo_dueDate w \<noteq> []"
  shows "\<exists>a. getWorkOrderTatStatus W i = Some a \<and>
    ta_status a =
      (if isOverdue w then TAT_DELAYED
       else if fst (getReleaseReadinessForWorkOrder W i) = REL_BLOCKED \<and>
               within_window (daysBetween (wo_dueDate w) MOCK_TODAY) then TAT_AT_RISK
       else if fst (getReleaseReadinessForWorkOrder W i) = REL_UNKNOWN then TAT_UNKNOWN
       else TAT_ON_TRACK) \<and>
    ta_contributingBlockers a \<noteq> []"
proof -
  have id: "wo_id w = i" using assms(1) by (auto dest: getWorkOrderById_Some)
  have "getExecutionState W w \<noteq> ES_RELEASED" using assms(2) by (auto simp: released_state wo_open_def)
  then have "snd (getReleaseReadinessForWorkOrder W i) \<noteq> []"
    using assms(1) id release_gate_blocks [of W w] by (simp add: blockers_specific)
  then show ?thesis
    using assms by (auto simp: getWorkOrderTatStatus_def Let_def wo_open_def)
qed

text \<open>
  A deferred item may be closed exactly when it has evidence, its corrective work order is on file
  and completed, and the approval it requires was given; every other open item is BLOCKED, with at
  least one blocker.
\<close>

theorem closure_ready_exactly_when:
  assumes "getDeferredItemById W i = Some d" and "di_status d = DI_OPEN"
  shows "(fst (getDeferredClosureReadiness W i) = CLOSE_READY \<longleftrightarrow>
      di_evidenceReferences d \<noteq> [] \<and>
      (\<exists>k w. di_workOrderId d = Some k \<and> k \<noteq> [] \<and> getWorkOrderById W k = Some w \<and> wo_status w = WO_COMPLETED) \<and>
      (di_approvalRequired d \<longrightarrow> di_approvalStatus d = DA_APPROVED)) \<and>
    (fst (getDeferredClosureReadiness W i) \<noteq> CLOSE_READY \<longleftrightarrow>
      fst (getDeferredClosureReadiness W i) = CLOSE_BLOCKED \<and> snd (getDeferredClosureReadiness W i) \<noteq> [])"
proof -
  have "closure_work_order_blockers W d = [] \<longleftrightarrow>
      (\<exists>k w. di_workOrderId d = Some k \<and> k \<noteq> [] \<and> getWorkOrderById W k = Some w \<and> wo_status w = WO_COMPLETED)"
    by (auto simp: closure_work_order_blockers_def getWorkOrderById_def split: option.splits)
  then show ?thesis
    using assms by (simp add: getDeferredClosureReadiness_def getDeferredItemById_def Let_def)
qed

text \<open>
  Closing a deferred item does not read its readiness: the operation succeeds for every open item
  on file, ready or not, refuses closed and unknown ones, and changes nothing but that item's status.
\<close>

theorem close_ignores_readiness:
  "(fst (closeDeferredItem W i) \<noteq> None \<longleftrightarrow> (\<exists>d. getDeferredItemById W i = Some d \<and> di_status d = DI_OPEN)) \<and>
   (fst (closeDeferredItem W i) = None \<longrightarrow> snd (closeDeferredItem W i) = W) \<and>
   getDeferredItemById (snd (closeDeferredItem W i)) j =
     (if j = i then map_option set_closed (getDeferredItemById W i) else getDeferredItemById W j)"
proof -
  have open_iff: "di_status d = DI_OPEN \<longleftrightarrow> di_status d \<noteq> DI_CLOSED" for d :: DeferredItem
    by (cases "di_status d") simp_all
  have "di_status d = DI_CLOSED \<Longrightarrow> set_closed d = d" for d by (simp add: set_closed_def)
  then show ?thesis
    by (auto simp: closeDeferredItem_def getDeferredItemById_def close_upd.find_update open_iff
        split: option.splits)
qed

text \<open>
  The deferred risk summary counts every deferred item exactly once: active, due soon, overdue,
  closed and unknown add up to the total.
\<close>

theorem deferred_summary_total:
  "drs_active (getDeferredRiskSummary W) + drs_dueSoon (getDeferredRiskSummary W) +
   drs_overdue (getDeferredRiskSummary W) + drs_closed (getDeferredRiskSummary W) +
   drs_unknown (getDeferredRiskSummary W) = drs_total (getDeferredRiskSummary W) \<and>
   drs_total (getDeferredRiskSummary W) = length (deferredItems W)"
  using deferred_status.summary_total [of "deferredItems W"]
  by (simp add: getDeferredRiskSummary_def getFleetDeferredItems_def Let_def count_if_map)

end
