(* ===== verification/DueEngine.thy ===== *)
theory DueEngine
  imports Gates
begin

text \<open>
  The maintenance due engine and the utilization view of \<open>ai/analytics.ts\<close>: the quality of an
  aircraft's hours and cycles, the calendar basis and the two utilization bases of a requirement,
  the choice of the most urgent known basis, the due items of an aircraft and of the fleet, and the
  views of one work order's task (chain, execution, signatures). The calendar basis prints the next
  due date with \<open>toISOString\<close>, which raises a \<open>RangeError\<close> when the accomplished date cannot be
  read: the functions above it return an \<open>option\<close>, \<open>None\<close> for the exception.
  Day arithmetic is that of UTC; \<open>setDate\<close> works in local time, so that near a change of clocks the
  program's own result depends on the time zone of the browser.
\<close>

section \<open>Utilization\<close>

datatype UtilizationDataQuality = UQ_CURRENT | UQ_STALE | UQ_UNKNOWN_PROVENANCE | UQ_NO_DATA

record AircraftUtilizationView =
  uv_aircraftId :: string
  uv_registration :: string
  uv_flightHours :: "rat option"
  uv_flightCycles :: "rat option"
  uv_utilizationAsOfDate :: "string option"
  uv_utilizationSource :: "string option"
  uv_dataQuality :: UtilizationDataQuality
  uv_daysSinceUpdate :: "int option option"

definition utilization_quality :: "Aircraft \<Rightarrow> UtilizationDataQuality" where
  "utilization_quality a =
     (if ac_flightHours a = None \<and> ac_flightCycles a = None then UQ_NO_DATA
      else case ac_utilizationAsOfDate a of
             None \<Rightarrow> UQ_UNKNOWN_PROVENANCE
           | Some d \<Rightarrow> (case daysBetween MOCK_TODAY d of
                         None \<Rightarrow> UQ_CURRENT
                       | Some n \<Rightarrow> if 30 < n then UQ_STALE else UQ_CURRENT))"

definition utilization_view :: "Aircraft \<Rightarrow> string \<Rightarrow> AircraftUtilizationView" where
  "utilization_view a i =
     \<lparr>uv_aircraftId = i, uv_registration = currentRegistration a, uv_flightHours = ac_flightHours a,
      uv_flightCycles = ac_flightCycles a, uv_utilizationAsOfDate = ac_utilizationAsOfDate a,
      uv_utilizationSource = ac_utilizationSource a, uv_dataQuality = utilization_quality a,
      uv_daysSinceUpdate = map_option (daysBetween MOCK_TODAY) (ac_utilizationAsOfDate a)\<rparr>"

definition getAircraftUtilization :: "world \<Rightarrow> string \<Rightarrow> AircraftUtilizationView option" where
  "getAircraftUtilization W i = map_option (\<lambda>a. utilization_view a i) (getAircraftById W i)"

text \<open>\<open>aircraft.map((a) => getAircraftUtilization(a.id)!)\<close>.\<close>

definition getFleetUtilization :: "world \<Rightarrow> AircraftUtilizationView list" where
  "getFleetUtilization W = List.map_filter (\<lambda>a. getAircraftUtilization W (ac_id a)) (aircraft W)"

record UtilizationDataQualitySummary =
  uqs_total :: nat
  uqs_current :: nat
  uqs_stale :: nat
  uqs_unknownProvenance :: nat
  uqs_noData :: nat

definition getUtilizationDataQuality :: "world \<Rightarrow> UtilizationDataQualitySummary" where
  "getUtilizationDataQuality W =
     (let fleet = getFleetUtilization W
      in \<lparr>uqs_total = length fleet,
          uqs_current = count_if (\<lambda>f. uv_dataQuality f = UQ_CURRENT) fleet,
          uqs_stale = count_if (\<lambda>f. uv_dataQuality f = UQ_STALE) fleet,
          uqs_unknownProvenance = count_if (\<lambda>f. uv_dataQuality f = UQ_UNKNOWN_PROVENANCE) fleet,
          uqs_noData = count_if (\<lambda>f. uv_dataQuality f = UQ_NO_DATA) fleet\<rparr>)"

section \<open>The bases of a requirement\<close>

datatype MaintenanceDueStatus = DUE_CURRENT | DUE_SOON | DUE_DUE | DUE_OVERDUE | DUE_UNKNOWN

record BasisResult =
  ba_status :: MaintenanceDueStatus
  ba_lastAccomplished :: string
  ba_nextDue :: string
  ba_remaining :: string
  ba_note :: string

definition unknown_basis :: "string \<Rightarrow> string \<Rightarrow> BasisResult" where
  "unknown_basis lastAccomplished why =
     \<lparr>ba_status = DUE_UNKNOWN, ba_lastAccomplished = lastAccomplished, ba_nextDue = insufficient,
      ba_remaining = insufficient, ba_note = why\<rparr>"

definition calendar_status :: "int option \<Rightarrow> MaintenanceDueStatus" where
  "calendar_status n =
     (case n of
        None \<Rightarrow> DUE_CURRENT
      | Some k \<Rightarrow> if k < 0 then DUE_OVERDUE else if k = 0 then DUE_DUE
                  else if k \<le> DUE_SOON_DAYS then DUE_SOON else DUE_CURRENT)"

definition calendar_remaining :: "int option \<Rightarrow> string" where
  "calendar_remaining n =
     (case n of
        None \<Rightarrow> ''NaN day(s) overdue''
      | Some k \<Rightarrow> if 0 \<le> k then show_int k @ '' day(s)'' else show_int \<bar>k\<bar> @ '' day(s) overdue'')"

text \<open>\<open>None\<close>: the exception; \<open>Some None\<close>: the requirement has no calendar interval.\<close>

definition evaluateCalendarBasis ::
  "world \<Rightarrow> MaintenanceRequirement \<Rightarrow> string \<Rightarrow> BasisResult option option" where
  "evaluateCalendarBasis W r a =
     (case mr_calendarIntervalDays r of
        None \<Rightarrow> Some None
      | Some interval \<Rightarrow>
          (case latestAccomplishment W (mr_id r) a of
             None \<Rightarrow> Some (Some (unknown_basis insufficient
               (''No accomplishment record on file for this requirement on this aircraft '' @ em_dash @
                '' cannot establish a last-accomplished date.'')))
           | Some accm \<Rightarrow>
               (case getTime (ma_accomplishedDate accm) of
                  None \<Rightarrow> None
                | Some ms \<Rightarrow>
                    let nextDue = iso_of_day (ms div ms_per_day + interval);
                        remaining = daysBetween nextDue MOCK_TODAY
                    in Some (Some
                         \<lparr>ba_status = calendar_status remaining,
                          ba_lastAccomplished = ma_accomplishedDate accm, ba_nextDue = nextDue,
                          ba_remaining = calendar_remaining remaining,
                          ba_note = ''Calendar interval: '' @ show_int interval @
                            '' days from last accomplishment.''\<rparr>))))"

datatype utilization_unit = FH | FC

primrec lit_unit :: "utilization_unit \<Rightarrow> string" where
  "lit_unit FH = ''FH''"
| "lit_unit FC = ''FC''"

definition with_unit :: "rat \<Rightarrow> utilization_unit \<Rightarrow> string" where
  "with_unit x u = show_num x @ '' '' @ lit_unit u"

definition utilization_status :: "rat \<Rightarrow> rat \<Rightarrow> MaintenanceDueStatus" where
  "utilization_status remaining interval =
     (if remaining < 0 then DUE_OVERDUE
      else if remaining \<le> interval * (1 / 10) then DUE_SOON else DUE_CURRENT)"

definition utilization_forecast ::
  "AircraftUtilizationView \<Rightarrow> utilization_unit \<Rightarrow> rat \<Rightarrow> rat \<Rightarrow> rat \<Rightarrow> BasisResult" where
  "utilization_forecast util u interval done_at current =
     (let nextDue = done_at + interval; remaining = nextDue - current
      in \<lparr>ba_status = utilization_status remaining interval,
          ba_lastAccomplished = with_unit done_at u, ba_nextDue = with_unit nextDue u,
          ba_remaining =
            (if 0 \<le> remaining then with_unit remaining u else with_unit \<bar>remaining\<bar> u @ '' overdue''),
          ba_note =
            (if uv_dataQuality util = UQ_STALE
             then ''CAUTION: utilization data is '' @
                  (case uv_daysSinceUpdate util of None \<Rightarrow> ''null'' | Some n \<Rightarrow> show_days n) @
                  '' day(s) old '' @ em_dash @
                  '' this due status is computed but based on stale data.''
             else lit_unit u @ '' interval: '' @ show_num interval @
                  '' from last accomplishment ('' @ with_unit done_at u @ '').'')\<rparr>)"

definition evaluateUtilizationBasis ::
  "world \<Rightarrow> MaintenanceRequirement \<Rightarrow> string \<Rightarrow> utilization_unit \<Rightarrow> BasisResult option" where
  "evaluateUtilizationBasis W r a u =
     (case (case u of FH \<Rightarrow> mr_fhInterval r | FC \<Rightarrow> mr_fcInterval r) of
        None \<Rightarrow> None
      | Some interval \<Rightarrow> Some
          (case (case latestAccomplishment W (mr_id r) a of
                   None \<Rightarrow> None
                 | Some accm \<Rightarrow> (case u of FH \<Rightarrow> ma_accomplishedFH accm | FC \<Rightarrow> ma_accomplishedFC accm)) of
             None \<Rightarrow> unknown_basis insufficient
               (''No last-accomplished '' @ lit_unit u @
                '' value is recorded for this requirement on this aircraft '' @ em_dash @
                '' an interval alone is not sufficient to forecast against.'')
           | Some done_at \<Rightarrow>
               (case getAircraftUtilization W a of
                  None \<Rightarrow> unknown_basis (with_unit done_at u)
                    (''Aircraft has no recorded current '' @ lit_unit u @ '' to compare against.'')
                | Some util \<Rightarrow>
                    (case (case u of FH \<Rightarrow> uv_flightHours util | FC \<Rightarrow> uv_flightCycles util) of
                       None \<Rightarrow> unknown_basis (with_unit done_at u)
                         (''Aircraft has no recorded current '' @ lit_unit u @ '' to compare against.'')
                     | Some current \<Rightarrow>
                         if uv_dataQuality util = UQ_NO_DATA then
                           unknown_basis (with_unit done_at u)
                             (''Aircraft has no recorded '' @ lit_unit u @ '' data.'')
                         else if uv_dataQuality util = UQ_UNKNOWN_PROVENANCE then
                           unknown_basis (with_unit done_at u)
                             (''Current '' @ lit_unit u @
                              '' value exists but has unknown provenance (no recorded source/as-of date) '' @
                              em_dash @ '' a due status computed from it cannot be presented as authoritative.'')
                         else
                           utilization_forecast util u interval done_at current))))"

definition status_severity :: "MaintenanceDueStatus \<Rightarrow> int" where
  "status_severity s =
     (case s of DUE_OVERDUE \<Rightarrow> 0 | DUE_DUE \<Rightarrow> 1 | DUE_SOON \<Rightarrow> 2 | DUE_CURRENT \<Rightarrow> 3 | DUE_UNKNOWN \<Rightarrow> 4)"

definition basis_results :: "world \<Rightarrow> MaintenanceRequirement \<Rightarrow> string \<Rightarrow> BasisResult list option" where
  "basis_results W r a =
     map_option
       (\<lambda>calendar. List.map_filter id
          [calendar, evaluateUtilizationBasis W r a FH, evaluateUtilizationBasis W r a FC])
       (evaluateCalendarBasis W r a)"

definition choose_basis :: "BasisResult list \<Rightarrow> BasisResult" where
  "choose_basis results =
     (case results of
        [] \<Rightarrow> unknown_basis insufficient ''This requirement defines no interval basis.''
      | first_r # _ \<Rightarrow>
          (case js_sort (\<lambda>a b. status_severity (ba_status a) - status_severity (ba_status b))
                  (filter (\<lambda>x. ba_status x \<noteq> DUE_UNKNOWN) results) of
             [] \<Rightarrow> first_r\<lparr>ba_note := join '' '' (map ba_note results)\<rparr>
           | best # _ \<Rightarrow> best))"

definition evaluateRequirementForAircraft ::
  "world \<Rightarrow> MaintenanceRequirement \<Rightarrow> string \<Rightarrow> BasisResult option" where
  "evaluateRequirementForAircraft W r a = map_option choose_basis (basis_results W r a)"

section \<open>Due items\<close>

record MaintenanceDueItem =
  md_requirementId :: string
  md_description :: string
  md_ataChapter :: string
  md_basis :: MaintenanceIntervalType
  md_lastAccomplished :: string
  md_nextDue :: string
  md_remaining :: string
  md_dueStatus :: MaintenanceDueStatus
  md_dataQualityNote :: "string option"
  md_governingSource :: string

definition due_item :: "world \<Rightarrow> MaintenanceRequirement \<Rightarrow> BasisResult \<Rightarrow> MaintenanceDueItem" where
  "due_item W r b =
     \<lparr>md_requirementId = mr_id r, md_description = mr_description r, md_ataChapter = mr_ataChapter r,
      md_basis = mr_intervalType r, md_lastAccomplished = ba_lastAccomplished b,
      md_nextDue = ba_nextDue b, md_remaining = ba_remaining b, md_dueStatus = ba_status b,
      md_dataQualityNote = Some (ba_note b),
      md_governingSource =
        (case getMaintenanceProgramById W (mr_programId r) of
           None \<Rightarrow> insufficient
         | Some p \<Rightarrow> pg_name p @ '' ('' @ pg_revision p @ '') '' @ em_dash @ '' '' @ pg_source p)\<rparr>"

definition getMaintenanceDueForAircraft :: "world \<Rightarrow> string \<Rightarrow> MaintenanceDueItem list option" where
  "getMaintenanceDueForAircraft W a =
     (case getAircraftById W a of
        None \<Rightarrow> Some []
      | Some _ \<Rightarrow>
          those (map (\<lambda>r. map_option (due_item W r) (evaluateRequirementForAircraft W r a))
            (filter (\<lambda>r. a \<in> set (mr_applicableAircraftIds r)) (maintenanceRequirements W))))"

definition getFleetMaintenanceDue :: "world \<Rightarrow> (string \<times> string \<times> MaintenanceDueItem list) list option" where
  "getFleetMaintenanceDue W =
     those (map (\<lambda>a. map_option (\<lambda>items. (ac_id a, currentRegistration a, items))
                       (getMaintenanceDueForAircraft W (ac_id a))) (aircraft W))"

record FleetMaintenanceDueSummary =
  fds_current :: nat
  fds_dueSoon :: nat
  fds_due :: nat
  fds_overdue :: nat
  fds_unknown :: nat

definition due_summary :: "MaintenanceDueItem list \<Rightarrow> FleetMaintenanceDueSummary" where
  "due_summary all =
     \<lparr>fds_current = count_if (\<lambda>i. md_dueStatus i = DUE_CURRENT) all,
      fds_dueSoon = count_if (\<lambda>i. md_dueStatus i = DUE_SOON) all,
      fds_due = count_if (\<lambda>i. md_dueStatus i = DUE_DUE) all,
      fds_overdue = count_if (\<lambda>i. md_dueStatus i = DUE_OVERDUE) all,
      fds_unknown = count_if (\<lambda>i. md_dueStatus i = DUE_UNKNOWN) all\<rparr>"

definition getFleetMaintenanceDueSummary :: "world \<Rightarrow> FleetMaintenanceDueSummary option" where
  "getFleetMaintenanceDueSummary W =
     map_option (\<lambda>fleet. due_summary (concat (map (\<lambda>(_, _, items). items) fleet))) (getFleetMaintenanceDue W)"

section \<open>Views of one work order's task\<close>

record MaintenanceTaskChainStep =
  mcs_label :: string
  mcs_detail :: string
  mcs_href :: "string option"

definition getMaintenanceTaskChain :: "world \<Rightarrow> string \<Rightarrow> MaintenanceTaskChainStep list" where
  "getMaintenanceTaskChain W i =
     (case getWorkOrderById W i of
        None \<Rightarrow> []
      | Some w \<Rightarrow>
          [\<lparr>mcs_label = ''Aircraft'',
            mcs_detail = (case getAircraftById W (wo_aircraftId w) of
                            None \<Rightarrow> insufficient | Some a \<Rightarrow> currentRegistration a),
            mcs_href = map_option (\<lambda>a. ''/aircraft/'' @ ac_id a) (getAircraftById W (wo_aircraftId w))\<rparr>,
           \<lparr>mcs_label = ''Discrepancy'',
            mcs_detail = (case defectsForWorkOrder W (wo_id w) of
                            [] \<Rightarrow> ''No linked discrepancy record.''
                          | d # _ \<Rightarrow> df_description d @ '' ('' @ lit_Priority (df_severity d) @ '')''),
            mcs_href = None\<rparr>,
           \<lparr>mcs_label = ''Maintenance Task'',
            mcs_detail = (case task_of W w of
                            None \<Rightarrow> ''No maintenance task linked to this work order.''
                          | Some t \<Rightarrow> mt_description t @ '' '' @ em_dash @ '' '' @
                              (if mt_referenceType t = REF_OTHER
                               then ''Insufficient source data (no AD/SB/AMM reference on file)''
                               else lit_MaintenanceTaskReferenceType (mt_referenceType t) @ '' '' @
                                    requirementLabel W (mt_referenceId t))),
            mcs_href = None\<rparr>,
           \<lparr>mcs_label = ''Work Order'', mcs_detail = wo_workOrderNumber w @ '' '' @ em_dash @ '' '' @ wo_title w,
            mcs_href = Some (''/maintenance/planning/'' @ wo_id w)\<rparr>])"

record MaintenanceTaskExecutionView =
  mev_taskId :: "string option"
  mev_taskDescription :: string
  mev_executionState :: ExecutionState
  mev_performedBy :: string
  mev_performedAt :: "string option"
  mev_inspectedBy :: string
  mev_inspectedAt :: "string option"

definition getMaintenanceTaskExecutionView :: "world \<Rightarrow> string \<Rightarrow> MaintenanceTaskExecutionView option" where
  "getMaintenanceTaskExecutionView W i =
     (case getWorkOrderById W i of
        None \<Rightarrow> None
      | Some w \<Rightarrow>
          let task = task_of W w;
              review = getInspectorReviewForWorkOrder W (wo_id w);
              performer = (case wo_signOff w of
                             Some s \<Rightarrow> getTechnicianById W (so_technicianId s)
                           | None \<Rightarrow> if truthy (wo_assignedTechnicianId w)
                                     then Option.bind (wo_assignedTechnicianId w) (getTechnicianById W)
                                     else None);
              inspector = Option.bind review (\<lambda>r. getTechnicianById W (ir_inspectorId r))
          in Some
            \<lparr>mev_taskId = map_option mt_id task,
             mev_taskDescription = (case task of
                                      None \<Rightarrow> ''No maintenance task linked to this work order.''
                                    | Some t \<Rightarrow> mt_description t),
             mev_executionState = getExecutionState W w,
             mev_performedBy =
               (case wo_signOff w of
                  Some _ \<Rightarrow> or_else (map_option te_name performer) insufficient
                | None \<Rightarrow> (case performer of
                            Some p \<Rightarrow> te_name p @ '' (assigned, not yet signed off)''
                          | None \<Rightarrow> insufficient)),
             mev_performedAt = map_option so_timestamp (wo_signOff w),
             mev_inspectedBy =
               (case review of
                  Some r \<Rightarrow>
                    if truthy (ir_reviewedAt r) then or_else (map_option te_name inspector) insufficient
                    else ''Pending '' @ em_dash @ '' '' @
                         or_else (map_option te_name inspector) ''inspector not yet reviewed''
                | None \<Rightarrow> if isInspectionRequired W w then ''Not yet inspected.''
                          else ''No inspection required for this task.''),
             mev_inspectedAt = Option.bind review ir_reviewedAt\<rparr>)"

definition sign_off_record :: "WorkOrder \<Rightarrow> TechnicianSignOff \<Rightarrow> SignatureRecord" where
  "sign_off_record w s =
     \<lparr>sr_id = ''sig-signoff-'' @ wo_id w, sr_userId = so_technicianId s, sr_action = SA_TECHNICIAN_SIGN_OFF,
      sr_recordType = SRT_WorkOrder, sr_recordId = wo_id w, sr_timestamp = so_timestamp s,
      sr_authenticationMethod = AM_PROTOTYPE_SESSION,
      sr_signatureIntent = ''Technician confirms work performed as recorded.'', sr_reasonCode = None\<rparr>"

primrec lit_InspectorReviewStatus :: "InspectorReviewStatus \<Rightarrow> string" where
  "lit_InspectorReviewStatus IR_PENDING_INSPECTION = ''PENDING_INSPECTION''"
| "lit_InspectorReviewStatus IR_APPROVED = ''APPROVED''"
| "lit_InspectorReviewStatus IR_REJECTED = ''REJECTED''"
| "lit_InspectorReviewStatus IR_RETURNED_FOR_CORRECTION = ''RETURNED_FOR_CORRECTION''"

definition review_record :: "WorkOrder \<Rightarrow> InspectorReview \<Rightarrow> SignatureRecord" where
  "review_record w r =
     \<lparr>sr_id = ''sig-review-'' @ ir_id r, sr_userId = ir_inspectorId r, sr_action = SA_INSPECTOR_REVIEW,
      sr_recordType = SRT_WorkOrder, sr_recordId = wo_id w, sr_timestamp = or_else (ir_reviewedAt r) [],
      sr_authenticationMethod = AM_PROTOTYPE_SESSION,
      sr_signatureIntent =
        ''Inspector '' @ unscore (toLowerCase (lit_InspectorReviewStatus (ir_status r))) @ ''.'',
      sr_reasonCode = (if ir_comments r = [] then None else Some (ir_comments r))\<rparr>"

definition getSignatureRecordsForWorkOrder :: "world \<Rightarrow> string \<Rightarrow> SignatureRecord list" where
  "getSignatureRecordsForWorkOrder W i =
     (case getWorkOrderById W i of
        None \<Rightarrow> []
      | Some w \<Rightarrow>
          (case wo_signOff w of None \<Rightarrow> [] | Some s \<Rightarrow> [sign_off_record w s]) @
          (case getInspectorReviewForWorkOrder W (wo_id w) of
             None \<Rightarrow> []
           | Some r \<Rightarrow> if truthy (ir_reviewedAt r) then [review_record w r] else []))"

definition getQuarantinedParts :: "world \<Rightarrow> (string \<times> string \<times> string \<times> string) list" where
  "getQuarantinedParts W =
     map (\<lambda>p. (pt_id p, pt_partNumber p, pt_description p, or_else (pt_quarantineReason p) insufficient))
       (filter (\<lambda>p. pt_serviceability p = Some SV_QUARANTINED) (parts W))"

section \<open>Facts\<close>

interpretation severity: rank_comparator "\<lambda>b. status_severity (ba_status b)" .

lemma status_severity_inj: "status_severity s = status_severity t \<longleftrightarrow> s = t"
  by (cases s; cases t) (simp_all add: status_severity_def)

lemma choose_basis_unknown:
  "ba_status (choose_basis rs) = DUE_UNKNOWN \<longleftrightarrow> list_all (\<lambda>x. ba_status x = DUE_UNKNOWN) rs"
proof (cases rs)
  case Nil
  then show ?thesis by (simp add: choose_basis_def unknown_basis_def)
next
  case (Cons r rest)
  let ?known = "filter (\<lambda>x. ba_status x \<noteq> DUE_UNKNOWN) rs"
  let ?s = "js_sort (\<lambda>a b. status_severity (ba_status a) - status_severity (ba_status b)) ?known"
  show ?thesis
  proof (cases ?s)
    case Nil
    then have all: "list_all (\<lambda>x. ba_status x = DUE_UNKNOWN) rs"
      by (simp add: filter_empty_conv list_all_iff)
    have "choose_basis rs = r\<lparr>ba_note := join '' '' (map ba_note rs)\<rparr>"
      using Nil unfolding choose_basis_def by (simp only: Cons list.case)
    then show ?thesis using all Cons by simp
  next
    case best: (Cons b bs)
    then have "b \<in> set ?known" by (metis list.set_intros(1) set_js_sort)
    moreover have "choose_basis rs = b"
      using best unfolding choose_basis_def by (simp only: Cons list.case)
    ultimately show ?thesis by (auto simp: list_all_iff)
  qed
qed

lemma choose_basis_best:
  assumes "\<not> list_all (\<lambda>x. ba_status x = DUE_UNKNOWN) rs"
  shows "choose_basis rs \<in> set rs \<and>
    (\<forall>x \<in> set rs. ba_status x \<noteq> DUE_UNKNOWN \<longrightarrow>
       status_severity (ba_status (choose_basis rs)) \<le> status_severity (ba_status x))"
proof -
  let ?known = "filter (\<lambda>x. ba_status x \<noteq> DUE_UNKNOWN) rs"
  let ?s = "js_sort (\<lambda>a b. status_severity (ba_status a) - status_severity (ba_status b)) ?known"
  obtain r rest where rs: "rs = r # rest" using assms by (cases rs) auto
  have "?known \<noteq> []" using assms by (auto simp: filter_empty_conv list_all_iff)
  then obtain b bs where s: "?s = b # bs" by (cases ?s) simp_all
  then have "b \<in> set ?known" by (metis list.set_intros(1) set_js_sort)
  moreover have c: "choose_basis rs = b"
    using s unfolding choose_basis_def by (simp only: rs list.case)
  moreover have "status_severity (ba_status b) \<le> status_severity (ba_status x)" if "x \<in> set ?known" for x
    using severity.by_rank.js_sort_head [OF s that] by simp
  ultimately show ?thesis by auto
qed

interpretation due_status: status_partition md_dueStatus
  "[DUE_CURRENT, DUE_SOON, DUE_DUE, DUE_OVERDUE, DUE_UNKNOWN]"
proof
  show "md_dueStatus x \<in> set [DUE_CURRENT, DUE_SOON, DUE_DUE, DUE_OVERDUE, DUE_UNKNOWN]" for x
    by (cases "md_dueStatus x") simp_all
qed simp

interpretation utilization: status_partition uv_dataQuality
  "[UQ_CURRENT, UQ_STALE, UQ_UNKNOWN_PROVENANCE, UQ_NO_DATA]"
proof
  show "uv_dataQuality x \<in> set [UQ_CURRENT, UQ_STALE, UQ_UNKNOWN_PROVENANCE, UQ_NO_DATA]" for x
    by (cases "uv_dataQuality x") simp_all
qed simp

lemma length_map_filter_Some:
  "(\<And>x. x \<in> set xs \<Longrightarrow> f x \<noteq> None) \<Longrightarrow> length (List.map_filter f xs) = length xs"
proof (induction xs)
  case Nil
  then show ?case by (simp add: map_filter_simps)
next
  case (Cons x xs)
  then obtain y where "f x = Some y" by fastforce
  with Cons show ?case by (simp add: map_filter_simps)
qed

lemma fleet_utilization_length: "length (getFleetUtilization W) = length (aircraft W)"
  unfolding getFleetUtilization_def
  by (rule length_map_filter_Some) (use getAircraftById_mem in \<open>fastforce simp: getAircraftUtilization_def\<close>)

lemma those_Some_length: "those xs = Some ys \<Longrightarrow> length ys = length xs"
  by (induction xs arbitrary: ys) (auto split: option.splits)

lemma unknown_basis_simps [simp]:
  "ba_status (unknown_basis l why) = DUE_UNKNOWN" "ba_nextDue (unknown_basis l why) = insufficient"
  by (simp_all add: unknown_basis_def)

lemma forecast_status: "ba_status (utilization_forecast util u n x y) = utilization_status (x + n - y) n"
  by (simp add: utilization_forecast_def Let_def)

lemma evaluate_utilization_cases:
  assumes "evaluateUtilizationBasis W r a u = Some b"
  obtains (unknown) l why where "b = unknown_basis l why"
    | (known) util n x y where "getAircraftUtilization W a = Some util"
        "uv_dataQuality util \<notin> {UQ_NO_DATA, UQ_UNKNOWN_PROVENANCE}" "b = utilization_forecast util u n x y"
proof -
  show thesis
    using assms unfolding evaluateUtilizationBasis_def
    by (simp split: option.split_asm if_split_asm) (use unknown known in auto)
qed

lemma evaluate_utilization_unknown:
  assumes "getAircraftById W a = Some x" and "ac_utilizationAsOfDate x = None"
    and "evaluateUtilizationBasis W r a u = Some b"
  shows "ba_status b = DUE_UNKNOWN \<and> ba_nextDue b = insufficient"
  using assms(3)
proof (cases rule: evaluate_utilization_cases)
  case (unknown l why)
  then show ?thesis by simp
next
  case (known util n p q)
  then have "uv_dataQuality util = utilization_quality x"
    using assms(1) by (auto simp: getAircraftUtilization_def utilization_view_def)
  then show ?thesis using known(2) assms(2) by (simp add: utilization_quality_def split: if_splits)
qed

section \<open>Properties\<close>

text \<open>
  The due status of a requirement is the most urgent one its bases establish: when the evaluation
  returns, the result is UNKNOWN exactly when every basis the requirement defines is UNKNOWN (or it
  defines none); otherwise it is one of the bases' results, and no known basis is more urgent
  (overdue before due before due soon before current).
\<close>

theorem due_status_most_urgent:
  assumes "basis_results W r a = Some rs"
  shows "\<exists>b. evaluateRequirementForAircraft W r a = Some b \<and>
    (ba_status b = DUE_UNKNOWN \<longleftrightarrow> list_all (\<lambda>x. ba_status x = DUE_UNKNOWN) rs) \<and>
    (ba_status b \<noteq> DUE_UNKNOWN \<longrightarrow> b \<in> set rs \<and>
       (\<forall>x \<in> set rs. ba_status x \<noteq> DUE_UNKNOWN \<longrightarrow>
          status_severity (ba_status b) \<le> status_severity (ba_status x)))"
  using choose_basis_unknown [of rs] choose_basis_best [of rs]
  by (simp add: evaluateRequirementForAircraft_def assms)

text \<open>
  The calendar basis counts calendar days: for a requirement with a calendar interval whose latest
  accomplishment is a valid ISO date, with a next due date before the year 10000, the evaluation
  returns, its next due date is the ISO date that many days later, and its status is OVERDUE, DUE,
  DUE SOON or CURRENT as that date is before today, today, within a week, or later.
\<close>

theorem calendar_basis_exact:
  assumes "mr_calendarIntervalDays r = Some n" and "latestAccomplishment W (mr_id r) a = Some m"
    and "ma_accomplishedDate m = iso_date y mo d" and "valid_date y mo d"
    and "valid_date y' mo' d'" and "day_number y' mo' d' = day_number y mo d + n"
  shows "\<exists>b. evaluateCalendarBasis W r a = Some (Some b) \<and> ba_nextDue b = iso_date y' mo' d' \<and>
    (let k = day_number y' mo' d' - day_number 2026 3 17
     in ba_status b = (if k < 0 then DUE_OVERDUE else if k = 0 then DUE_DUE
                       else if k \<le> 7 then DUE_SOON else DUE_CURRENT))"
proof -
  have today: "MOCK_TODAY = iso_date 2026 3 17" "valid_date 2026 3 17" by code_simp+
  have "day_number y mo d * ms_per_day div ms_per_day = day_number y mo d" by (simp add: ms_per_day_def)
  then have "iso_of_day (day_number y mo d * ms_per_day div ms_per_day + n) = iso_date y' mo' d'"
    using iso_of_day_number [OF assms(5)] assms(6) by simp
  then show ?thesis
    by (simp add: evaluateCalendarBasis_def assms(1,2,3) getTime_iso [OF assms(4)] Let_def
        today(1) daysBetween_iso [OF assms(5) today(2)] calendar_status_def DUE_SOON_DAYS_def)
qed

text \<open>
  Hours and cycles are never presented as authoritative without provenance: when the aircraft has
  no date for its utilization, every utilization basis of every requirement is UNKNOWN and gives no
  next due value; and a utilization basis never answers DUE, so that a requirement with nothing
  left (and a positive interval) is still only DUE SOON.
\<close>

theorem utilization_needs_provenance:
  assumes "getAircraftById W a = Some x" and "evaluateUtilizationBasis W r a u = Some b"
  shows "(ac_utilizationAsOfDate x = None \<longrightarrow> ba_status b = DUE_UNKNOWN \<and> ba_nextDue b = insufficient) \<and>
    ba_status b \<noteq> DUE_DUE \<and> (0 < n \<longrightarrow> utilization_status 0 n = DUE_SOON)"
proof -
  have "ba_status b \<noteq> DUE_DUE"
    using assms(2)
    by (cases rule: evaluate_utilization_cases) (simp_all add: forecast_status utilization_status_def)
  then show ?thesis
    using evaluate_utilization_unknown [OF assms(1) _ assms(2)] by (simp add: utilization_status_def)
qed

text \<open>
  The fleet due summary counts every due item exactly once: current, due soon, due, overdue and
  unknown add up to the number of items over all aircraft.
\<close>

theorem due_summary_total:
  assumes "getFleetMaintenanceDue W = Some fleet"
  shows "\<exists>s. getFleetMaintenanceDueSummary W = Some s \<and>
    fds_current s + fds_dueSoon s + fds_due s + fds_overdue s + fds_unknown s =
      (\<Sum>(_, _, items) \<leftarrow> fleet. length items) \<and> length fleet = length (aircraft W)"
proof -
  let ?all = "concat (map (\<lambda>(_, _, items). items) fleet)"
  have "length ?all = (\<Sum>(_, _, items) \<leftarrow> fleet. length items)"
    by (simp add: length_concat comp_def split_def)
  moreover have "length fleet = length (aircraft W)"
    using those_Some_length [OF assms [unfolded getFleetMaintenanceDue_def]] by simp
  ultimately show ?thesis
    using due_status.summary_total [of ?all]
    by (simp add: getFleetMaintenanceDueSummary_def assms due_summary_def)
qed

end
