(* ===== verification/Seed.thy ===== *)
theory Seed
  imports Store
begin

text \<open>
  The data the modules of \<open>src/frontend/lib/mock\<close> start with: the technicians, aircraft, work orders,
  parts, reviews, tasks, defects, execution evidence, deferred items, cannibalization requests,
  maintenance programs, requirements and accomplishments, record by record, and the world made of
  them. The invariants of the stores are shown to hold of it, and the examples of the development
  run on it. The assessments, engines and components, which the modules generate, are left empty.
\<close>

section \<open>\<open>technicians.ts\<close>\<close>

definition seed_tech_1 :: Technician where
  "seed_tech_1 =
    \<lparr>te_id = ''tech-1'', te_name = ''Rahul Menon'', te_role = ''Technician'',
     te_shiftStart = ''06:00'', te_shiftEnd = ''14:00'',
     te_certifications = [''Engine Runup'', ''Borescope Inspection'', ''B1.1''],
     te_isInspector = None, te_licenseType = Some ''B1.1'', te_aircraftTypeQualifications = None\<rparr>"

definition seed_tech_2 :: Technician where
  "seed_tech_2 =
    \<lparr>te_id = ''tech-2'', te_name = ''Fatima Al-Sayed'', te_role = ''Technician'',
     te_shiftStart = ''06:00'', te_shiftEnd = ''14:00'',
     te_certifications = [''Avionics'', ''B2''], te_isInspector = None,
     te_licenseType = Some ''B2'', te_aircraftTypeQualifications = None\<rparr>"

definition seed_tech_3 :: Technician where
  "seed_tech_3 =
    \<lparr>te_id = ''tech-3'', te_name = ''Diego Alvarez'', te_role = ''Senior Technician / Inspector'',
     te_shiftStart = ''14:00'', te_shiftEnd = ''22:00'',
     te_certifications = [''Structures'', ''NDT'', ''B1.1''], te_isInspector = Some True,
     te_licenseType = Some ''B1.1'', te_aircraftTypeQualifications = None\<rparr>"

definition seed_tech_4 :: Technician where
  "seed_tech_4 =
    \<lparr>te_id = ''tech-4'', te_name = ''Wei Zhang'', te_role = ''Technician'',
     te_shiftStart = ''14:00'', te_shiftEnd = ''22:00'',
     te_certifications = [''Hydraulics'', ''B1.1''], te_isInspector = None,
     te_licenseType = Some ''B1.1'', te_aircraftTypeQualifications = None\<rparr>"

definition seed_tech_5 :: Technician where
  "seed_tech_5 =
    \<lparr>te_id = ''tech-5'', te_name = ''Sara Kavanagh'', te_role = ''Lead Technician / Inspector'',
     te_shiftStart = ''22:00'', te_shiftEnd = ''06:00'',
     te_certifications = [''Engine Runup'', ''APU'', ''B1.1'', ''B2''],
     te_isInspector = Some True, te_licenseType = Some ''B1.1/B2'',
     te_aircraftTypeQualifications = None\<rparr>"

definition seed_tech_6 :: Technician where
  "seed_tech_6 =
    \<lparr>te_id = ''tech-6'', te_name = ''Arjun Nair'', te_role = ''Technician'',
     te_shiftStart = ''06:00'', te_shiftEnd = ''14:00'',
     te_certifications = [''Landing Gear'', ''B1.1''], te_isInspector = None,
     te_licenseType = Some ''B1.1'', te_aircraftTypeQualifications = None\<rparr>"

definition seed_tech_7 :: Technician where
  "seed_tech_7 =
    \<lparr>te_id = ''tech-7'', te_name = ''Priya Desai'', te_role = ''Technician'',
     te_shiftStart = ''06:00'', te_shiftEnd = ''14:00'',
     te_certifications = [''Brake Systems'', ''Landing Gear'', ''B1.1''], te_isInspector = None,
     te_licenseType = None, te_aircraftTypeQualifications = None\<rparr>"

definition seed_tech_8 :: Technician where
  "seed_tech_8 =
    \<lparr>te_id = ''tech-8'', te_name = ''Marco Silva'', te_role = ''Technician'',
     te_shiftStart = ''14:00'', te_shiftEnd = ''22:00'',
     te_certifications = [''Fuel Systems'', ''B1.1''], te_isInspector = None,
     te_licenseType = None, te_aircraftTypeQualifications = None\<rparr>"

definition seed_tech_9 :: Technician where
  "seed_tech_9 =
    \<lparr>te_id = ''tech-9'', te_name = ''Elena Petrova'', te_role = ''Senior Technician'',
     te_shiftStart = ''22:00'', te_shiftEnd = ''06:00'',
     te_certifications = [''Cabin Systems'', ''Pressurization'', ''B2''], te_isInspector = None,
     te_licenseType = None, te_aircraftTypeQualifications = None\<rparr>"

definition seed_technicians :: "Technician list" where
  "seed_technicians =
    [seed_tech_1, seed_tech_2, seed_tech_3, seed_tech_4, seed_tech_5, seed_tech_6,
     seed_tech_7, seed_tech_8, seed_tech_9]"

section \<open>\<open>aircraft.ts\<close>\<close>

definition seed_ac_1 :: Aircraft where
  "seed_ac_1 =
    \<lparr>ac_id = ''ac-1'', ac_msn = ''35124'', ac_aircraftVariantId = ''variant-738'',
     ac_operatorOrgId = ''org-1'', ac_status = AS_ACTIVE,
     ac_entryIntoServiceDate = ''2024-01-01'',
     ac_firstRegistration = \<lparr>rh_id = ''reg-1a'', rh_registrationMark = ''VT-ABC'', rh_effectiveFrom = ''2024-01-01'',
     rh_effectiveTo = None\<rparr>,
     ac_laterRegistrations = [], ac_flightHours = Some 8420, ac_flightCycles = Some 3110,
     ac_utilizationAsOfDate = Some ''2026-03-16'', ac_utilizationSource = Some ''DEMO_SEED''\<rparr>"

definition seed_ac_2 :: Aircraft where
  "seed_ac_2 =
    \<lparr>ac_id = ''ac-2'', ac_msn = ''5231'', ac_aircraftVariantId = ''variant-a320-200'',
     ac_operatorOrgId = ''org-1'', ac_status = AS_ACTIVE,
     ac_entryIntoServiceDate = ''2023-06-15'',
     ac_firstRegistration = \<lparr>rh_id = ''reg-2a'', rh_registrationMark = ''VT-XYZ'', rh_effectiveFrom = ''2023-06-15'',
     rh_effectiveTo = None\<rparr>,
     ac_laterRegistrations = [], ac_flightHours = None, ac_flightCycles = None,
     ac_utilizationAsOfDate = None, ac_utilizationSource = None\<rparr>"

definition seed_ac_3 :: Aircraft where
  "seed_ac_3 =
    \<lparr>ac_id = ''ac-3'', ac_msn = ''36011'', ac_aircraftVariantId = ''variant-738'',
     ac_operatorOrgId = ''org-2'', ac_status = AS_ACTIVE,
     ac_entryIntoServiceDate = ''2022-09-10'',
     ac_firstRegistration = \<lparr>rh_id = ''reg-3a'', rh_registrationMark = ''N412ML'', rh_effectiveFrom = ''2022-09-10'',
     rh_effectiveTo = Some ''2025-04-01''\<rparr>,
     ac_laterRegistrations = [\<lparr>rh_id = ''reg-3b'', rh_registrationMark = ''N412MX'', rh_effectiveFrom = ''2025-04-01'',
     rh_effectiveTo = None\<rparr>],
     ac_flightHours = Some 14210, ac_flightCycles = Some 6890, ac_utilizationAsOfDate = None,
     ac_utilizationSource = None\<rparr>"

definition seed_ac_4 :: Aircraft where
  "seed_ac_4 =
    \<lparr>ac_id = ''ac-4'', ac_msn = ''5488'', ac_aircraftVariantId = ''variant-a320-200'',
     ac_operatorOrgId = ''org-2'', ac_status = AS_ACTIVE,
     ac_entryIntoServiceDate = ''2021-03-22'',
     ac_firstRegistration = \<lparr>rh_id = ''reg-4a'', rh_registrationMark = ''N207ML'', rh_effectiveFrom = ''2021-03-22'',
     rh_effectiveTo = None\<rparr>,
     ac_laterRegistrations = [], ac_flightHours = None, ac_flightCycles = None,
     ac_utilizationAsOfDate = None, ac_utilizationSource = None\<rparr>"

definition seed_ac_5 :: Aircraft where
  "seed_ac_5 =
    \<lparr>ac_id = ''ac-5'', ac_msn = ''35980'', ac_aircraftVariantId = ''variant-738'',
     ac_operatorOrgId = ''org-1'', ac_status = AS_ACTIVE,
     ac_entryIntoServiceDate = ''2020-11-05'',
     ac_firstRegistration = \<lparr>rh_id = ''reg-5a'', rh_registrationMark = ''VT-DEF'', rh_effectiveFrom = ''2020-11-05'',
     rh_effectiveTo = None\<rparr>,
     ac_laterRegistrations = [], ac_flightHours = Some 19875, ac_flightCycles = Some 9420,
     ac_utilizationAsOfDate = Some ''2026-01-05'', ac_utilizationSource = Some ''DEMO_SEED''\<rparr>"

definition seed_ac_6 :: Aircraft where
  "seed_ac_6 =
    \<lparr>ac_id = ''ac-6'', ac_msn = ''5099'', ac_aircraftVariantId = ''variant-a320-200'',
     ac_operatorOrgId = ''org-2'', ac_status = AS_ACTIVE,
     ac_entryIntoServiceDate = ''2019-07-18'',
     ac_firstRegistration = \<lparr>rh_id = ''reg-6a'', rh_registrationMark = ''N118ML'', rh_effectiveFrom = ''2019-07-18'',
     rh_effectiveTo = None\<rparr>,
     ac_laterRegistrations = [], ac_flightHours = None, ac_flightCycles = None,
     ac_utilizationAsOfDate = None, ac_utilizationSource = None\<rparr>"

definition seed_ac_7 :: Aircraft where
  "seed_ac_7 =
    \<lparr>ac_id = ''ac-7'', ac_msn = ''36502'', ac_aircraftVariantId = ''variant-738'',
     ac_operatorOrgId = ''org-1'', ac_status = AS_ACTIVE,
     ac_entryIntoServiceDate = ''2023-02-14'',
     ac_firstRegistration = \<lparr>rh_id = ''reg-7a'', rh_registrationMark = ''VT-GHI'', rh_effectiveFrom = ''2023-02-14'',
     rh_effectiveTo = None\<rparr>,
     ac_laterRegistrations = [], ac_flightHours = None, ac_flightCycles = None,
     ac_utilizationAsOfDate = None, ac_utilizationSource = None\<rparr>"

definition seed_ac_8 :: Aircraft where
  "seed_ac_8 =
    \<lparr>ac_id = ''ac-8'', ac_msn = ''5622'', ac_aircraftVariantId = ''variant-a320-200'',
     ac_operatorOrgId = ''org-1'', ac_status = AS_STORED,
     ac_entryIntoServiceDate = ''2018-05-30'',
     ac_firstRegistration = \<lparr>rh_id = ''reg-8a'', rh_registrationMark = ''VT-JKL'', rh_effectiveFrom = ''2018-05-30'',
     rh_effectiveTo = None\<rparr>,
     ac_laterRegistrations = [], ac_flightHours = None, ac_flightCycles = None,
     ac_utilizationAsOfDate = None, ac_utilizationSource = None\<rparr>"

definition seed_ac_9 :: Aircraft where
  "seed_ac_9 =
    \<lparr>ac_id = ''ac-9'', ac_msn = ''35770'', ac_aircraftVariantId = ''variant-738'',
     ac_operatorOrgId = ''org-2'', ac_status = AS_ACTIVE,
     ac_entryIntoServiceDate = ''2022-01-12'',
     ac_firstRegistration = \<lparr>rh_id = ''reg-9a'', rh_registrationMark = ''N305ML'', rh_effectiveFrom = ''2022-01-12'',
     rh_effectiveTo = None\<rparr>,
     ac_laterRegistrations = [], ac_flightHours = None, ac_flightCycles = None,
     ac_utilizationAsOfDate = None, ac_utilizationSource = None\<rparr>"

definition seed_ac_10 :: Aircraft where
  "seed_ac_10 =
    \<lparr>ac_id = ''ac-10'', ac_msn = ''5344'', ac_aircraftVariantId = ''variant-a320-200'',
     ac_operatorOrgId = ''org-2'', ac_status = AS_ACTIVE,
     ac_entryIntoServiceDate = ''2020-08-08'',
     ac_firstRegistration = \<lparr>rh_id = ''reg-10a'', rh_registrationMark = ''N221ML'', rh_effectiveFrom = ''2020-08-08'',
     rh_effectiveTo = None\<rparr>,
     ac_laterRegistrations = [], ac_flightHours = None, ac_flightCycles = None,
     ac_utilizationAsOfDate = None, ac_utilizationSource = None\<rparr>"

definition seed_aircraft :: "Aircraft list" where
  "seed_aircraft =
    [seed_ac_1, seed_ac_2, seed_ac_3, seed_ac_4, seed_ac_5, seed_ac_6, seed_ac_7, seed_ac_8,
     seed_ac_9, seed_ac_10]"

section \<open>\<open>aircraft.ts\<close>\<close>

definition seed_variant_738 :: AircraftVariant where
  "seed_variant_738 =
    \<lparr>av_id = ''variant-738'', av_aircraftTypeId = ''type-737'', av_modelDesignation = ''737-800'',
     av_tcdsNumber = ''A16WE''\<rparr>"

definition seed_variant_a320_200 :: AircraftVariant where
  "seed_variant_a320_200 =
    \<lparr>av_id = ''variant-a320-200'', av_aircraftTypeId = ''type-a320'',
     av_modelDesignation = ''A320-200'', av_tcdsNumber = ''A28NM''\<rparr>"

definition seed_aircraftVariants :: "AircraftVariant list" where
  "seed_aircraftVariants =
    [seed_variant_738, seed_variant_a320_200]"

section \<open>\<open>workOrders.ts\<close>\<close>

definition seed_wo_1042 :: WorkOrder where
  "seed_wo_1042 =
    \<lparr>wo_id = ''wo-1042'', wo_workOrderNumber = ''WO-1042'', wo_projectId = Some ''proj-1'',
     wo_workPackageId = Some ''wp-1'', wo_aircraftId = ''ac-1'', wo_assetId = None,
     wo_title = ''Engine Fan Inspection'', wo_ataChapter = ''72'',
     wo_maintenanceType = MT_INSPECTION, wo_priority = PR_HIGH,
     wo_assignedTechnicianId = Some ''tech-1'', wo_inspectorId = Some ''tech-3'',
     wo_plannedStartDate = ''2026-03-14'', wo_dueDate = ''2026-03-16'', wo_completionDate = None,
     wo_status = WO_WAITING_INSPECTION, wo_requiredPartIds = [''part-2''],
     wo_requiredTools = [''Borescope'', ''Torque Wrench''],
     wo_relatedRequirementId = Some ''req-ad-2026-001'', wo_relatedAssessmentId = Some ''asmt-2'',
     wo_checklistId = Some ''chk-1042'', wo_findingIds = [''finding-1''],
     wo_signOff = Some (\<lparr>so_technicianId = ''tech-1'', so_timestamp = ''2026-03-16T13:40:00Z'', so_confirmed = True\<rparr>),
     wo_inspectorReviewId = Some ''ir-1'', wo_maintenanceTaskId = Some ''mtask-1042''\<rparr>"

definition seed_wo_1043 :: WorkOrder where
  "seed_wo_1043 =
    \<lparr>wo_id = ''wo-1043'', wo_workOrderNumber = ''WO-1043'', wo_projectId = Some ''proj-1'',
     wo_workPackageId = Some ''wp-2'', wo_aircraftId = ''ac-1'', wo_assetId = None,
     wo_title = ''Hydraulic Pump Seal Replacement'', wo_ataChapter = ''29'',
     wo_maintenanceType = MT_REPLACEMENT, wo_priority = PR_MEDIUM,
     wo_assignedTechnicianId = Some ''tech-4'', wo_inspectorId = Some ''tech-5'',
     wo_plannedStartDate = ''2026-03-07'', wo_dueDate = ''2026-03-08'',
     wo_completionDate = Some ''2026-03-08'', wo_status = WO_COMPLETED,
     wo_requiredPartIds = [''part-1''], wo_requiredTools = [''Seal Puller''],
     wo_relatedRequirementId = Some ''req-sb-2025-114'', wo_relatedAssessmentId = None,
     wo_checklistId = Some ''chk-1043'', wo_findingIds = [''finding-3''],
     wo_signOff = Some (\<lparr>so_technicianId = ''tech-4'', so_timestamp = ''2026-03-08T14:20:00Z'', so_confirmed = True\<rparr>),
     wo_inspectorReviewId = Some ''ir-2'', wo_maintenanceTaskId = None\<rparr>"

definition seed_wo_1044 :: WorkOrder where
  "seed_wo_1044 =
    \<lparr>wo_id = ''wo-1044'', wo_workOrderNumber = ''WO-1044'', wo_projectId = Some ''proj-1'',
     wo_workPackageId = Some ''wp-1'', wo_aircraftId = ''ac-1'', wo_assetId = None,
     wo_title = ''Engine 1 Borescope Follow-up'', wo_ataChapter = ''72'',
     wo_maintenanceType = MT_INSPECTION, wo_priority = PR_HIGH,
     wo_assignedTechnicianId = Some ''tech-1'', wo_inspectorId = None,
     wo_plannedStartDate = ''2026-03-12'', wo_dueDate = ''2026-03-13'', wo_completionDate = None,
     wo_status = WO_IN_PROGRESS, wo_requiredPartIds = [], wo_requiredTools = [''Borescope''],
     wo_relatedRequirementId = None, wo_relatedAssessmentId = None,
     wo_checklistId = Some ''chk-1044'', wo_findingIds = [], wo_signOff = None,
     wo_inspectorReviewId = None, wo_maintenanceTaskId = None\<rparr>"

definition seed_wo_1045 :: WorkOrder where
  "seed_wo_1045 =
    \<lparr>wo_id = ''wo-1045'', wo_workOrderNumber = ''WO-1045'', wo_projectId = Some ''proj-2'',
     wo_workPackageId = Some ''wp-3'', wo_aircraftId = ''ac-3'', wo_assetId = None,
     wo_title = ''Wing Spar Fatigue Inspection'', wo_ataChapter = ''57'',
     wo_maintenanceType = MT_INSPECTION, wo_priority = PR_CRITICAL,
     wo_assignedTechnicianId = Some ''tech-3'', wo_inspectorId = Some ''tech-5'',
     wo_plannedStartDate = ''2026-03-15'', wo_dueDate = ''2026-03-19'', wo_completionDate = None,
     wo_status = WO_WAITING_INSPECTION, wo_requiredPartIds = [], wo_requiredTools = [''NDT Kit''],
     wo_relatedRequirementId = Some ''req-ad-2026-004'', wo_relatedAssessmentId = None,
     wo_checklistId = Some ''chk-1045'', wo_findingIds = [''finding-2''],
     wo_signOff = Some (\<lparr>so_technicianId = ''tech-3'', so_timestamp = ''2026-03-16T17:00:00Z'', so_confirmed = True\<rparr>),
     wo_inspectorReviewId = Some ''ir-5'', wo_maintenanceTaskId = Some ''mtask-1045''\<rparr>"

definition seed_wo_1046 :: WorkOrder where
  "seed_wo_1046 =
    \<lparr>wo_id = ''wo-1046'', wo_workOrderNumber = ''WO-1046'', wo_projectId = Some ''proj-3'',
     wo_workPackageId = Some ''wp-4'', wo_aircraftId = ''ac-7'', wo_assetId = None,
     wo_title = ''Cargo Door Latch Mechanism Inspection'', wo_ataChapter = ''52'',
     wo_maintenanceType = MT_INSPECTION, wo_priority = PR_HIGH,
     wo_assignedTechnicianId = Some ''tech-6'', wo_inspectorId = None,
     wo_plannedStartDate = ''2026-03-19'', wo_dueDate = ''2026-03-22'', wo_completionDate = None,
     wo_status = WO_ASSIGNED, wo_requiredPartIds = [''part-6''], wo_requiredTools = [],
     wo_relatedRequirementId = Some ''req-ad-2026-005'',
     wo_relatedAssessmentId = Some ''asmt-bulk-3'', wo_checklistId = None, wo_findingIds = [],
     wo_signOff = None, wo_inspectorReviewId = None, wo_maintenanceTaskId = Some ''mtask-1046''\<rparr>"

definition seed_wo_1047 :: WorkOrder where
  "seed_wo_1047 =
    \<lparr>wo_id = ''wo-1047'', wo_workOrderNumber = ''WO-1047'', wo_projectId = Some ''proj-4'',
     wo_workPackageId = Some ''wp-5'', wo_aircraftId = ''ac-5'', wo_assetId = None,
     wo_title = ''Avionics Software Standard Update'', wo_ataChapter = ''22'',
     wo_maintenanceType = MT_MODIFICATION, wo_priority = PR_HIGH,
     wo_assignedTechnicianId = Some ''tech-2'', wo_inspectorId = Some ''tech-5'',
     wo_plannedStartDate = ''2026-01-24'', wo_dueDate = ''2026-01-25'',
     wo_completionDate = Some ''2026-01-25'', wo_status = WO_COMPLETED, wo_requiredPartIds = [],
     wo_requiredTools = [], wo_relatedRequirementId = Some ''req-ad-2026-003'',
     wo_relatedAssessmentId = Some ''asmt-4'', wo_checklistId = None, wo_findingIds = [],
     wo_signOff = Some (\<lparr>so_technicianId = ''tech-2'', so_timestamp = ''2026-01-25T09:00:00Z'', so_confirmed = True\<rparr>),
     wo_inspectorReviewId = Some ''ir-3'', wo_maintenanceTaskId = None\<rparr>"

definition seed_wo_1048 :: WorkOrder where
  "seed_wo_1048 =
    \<lparr>wo_id = ''wo-1048'', wo_workOrderNumber = ''WO-1048'', wo_projectId = None,
     wo_workPackageId = None, wo_aircraftId = ''ac-9'', wo_assetId = None,
     wo_title = ''Fan Disk Ultrasonic Inspection Sign-off'', wo_ataChapter = ''72'',
     wo_maintenanceType = MT_INSPECTION, wo_priority = PR_HIGH,
     wo_assignedTechnicianId = Some ''tech-5'', wo_inspectorId = Some ''tech-3'',
     wo_plannedStartDate = ''2026-03-08'', wo_dueDate = ''2026-03-10'', wo_completionDate = None,
     wo_status = WO_WAITING_INSPECTION, wo_requiredPartIds = [],
     wo_requiredTools = [''Borescope''], wo_relatedRequirementId = Some ''req-ad-2026-001'',
     wo_relatedAssessmentId = Some ''asmt-bulk-5'', wo_checklistId = Some ''chk-1048'',
     wo_findingIds = [],
     wo_signOff = Some (\<lparr>so_technicianId = ''tech-5'', so_timestamp = ''2026-03-09T18:00:00Z'', so_confirmed = True\<rparr>),
     wo_inspectorReviewId = Some ''ir-4'', wo_maintenanceTaskId = None\<rparr>"

definition seed_wo_1049 :: WorkOrder where
  "seed_wo_1049 =
    \<lparr>wo_id = ''wo-1049'', wo_workOrderNumber = ''WO-1049'', wo_projectId = None,
     wo_workPackageId = None, wo_aircraftId = ''ac-4'', wo_assetId = None,
     wo_title = ''Pitot Tube Heater Functional Check'', wo_ataChapter = ''30'',
     wo_maintenanceType = MT_INSPECTION, wo_priority = PR_LOW,
     wo_assignedTechnicianId = Some ''tech-2'', wo_inspectorId = None,
     wo_plannedStartDate = ''2026-02-18'', wo_dueDate = ''2026-02-20'', wo_completionDate = None,
     wo_status = WO_CANCELLED, wo_requiredPartIds = [], wo_requiredTools = [],
     wo_relatedRequirementId = Some ''req-ad-2026-006'',
     wo_relatedAssessmentId = Some ''asmt-bulk-8'', wo_checklistId = None, wo_findingIds = [],
     wo_signOff = None, wo_inspectorReviewId = None, wo_maintenanceTaskId = None\<rparr>"

definition seed_wo_1050 :: WorkOrder where
  "seed_wo_1050 =
    \<lparr>wo_id = ''wo-1050'', wo_workOrderNumber = ''WO-1050'', wo_projectId = None,
     wo_workPackageId = None, wo_aircraftId = ''ac-1'', wo_assetId = None,
     wo_title = ''Hydraulic Pump Seal Condition Check'', wo_ataChapter = ''29'',
     wo_maintenanceType = MT_INSPECTION, wo_priority = PR_MEDIUM,
     wo_assignedTechnicianId = Some ''tech-4'', wo_inspectorId = None,
     wo_plannedStartDate = ''2026-03-17'', wo_dueDate = ''2026-03-18'', wo_completionDate = None,
     wo_status = WO_WAITING_PARTS, wo_requiredPartIds = [''part-1''], wo_requiredTools = [],
     wo_relatedRequirementId = Some ''req-sb-2025-114'', wo_relatedAssessmentId = None,
     wo_checklistId = None, wo_findingIds = [], wo_signOff = None, wo_inspectorReviewId = None,
     wo_maintenanceTaskId = None\<rparr>"

definition seed_wo_1051 :: WorkOrder where
  "seed_wo_1051 =
    \<lparr>wo_id = ''wo-1051'', wo_workOrderNumber = ''WO-1051'', wo_projectId = None,
     wo_workPackageId = None, wo_aircraftId = ''ac-3'', wo_assetId = None,
     wo_title = ''IDG Seal Repair'', wo_ataChapter = ''24'', wo_maintenanceType = MT_REPAIR,
     wo_priority = PR_CRITICAL, wo_assignedTechnicianId = Some ''tech-3'', wo_inspectorId = None,
     wo_plannedStartDate = ''2026-03-20'', wo_dueDate = ''2026-03-21'', wo_completionDate = None,
     wo_status = WO_ASSIGNED, wo_requiredPartIds = [''part-5''], wo_requiredTools = [],
     wo_relatedRequirementId = None, wo_relatedAssessmentId = None, wo_checklistId = None,
     wo_findingIds = [], wo_signOff = None, wo_inspectorReviewId = None,
     wo_maintenanceTaskId = Some ''mtask-1051''\<rparr>"

definition seed_wo_1052 :: WorkOrder where
  "seed_wo_1052 =
    \<lparr>wo_id = ''wo-1052'', wo_workOrderNumber = ''WO-1052'', wo_projectId = None,
     wo_workPackageId = None, wo_aircraftId = ''ac-2'', wo_assetId = None,
     wo_title = ''Cabin Pressurization Check'', wo_ataChapter = ''21'',
     wo_maintenanceType = MT_INSPECTION, wo_priority = PR_MEDIUM,
     wo_assignedTechnicianId = Some ''tech-2'', wo_inspectorId = None,
     wo_plannedStartDate = ''2026-03-16'', wo_dueDate = ''2026-03-19'', wo_completionDate = None,
     wo_status = WO_IN_PROGRESS, wo_requiredPartIds = [], wo_requiredTools = [],
     wo_relatedRequirementId = None, wo_relatedAssessmentId = None, wo_checklistId = None,
     wo_findingIds = [], wo_signOff = None, wo_inspectorReviewId = None,
     wo_maintenanceTaskId = None\<rparr>"

definition seed_wo_1053 :: WorkOrder where
  "seed_wo_1053 =
    \<lparr>wo_id = ''wo-1053'', wo_workOrderNumber = ''WO-1053'', wo_projectId = None,
     wo_workPackageId = None, wo_aircraftId = ''ac-6'', wo_assetId = None,
     wo_title = ''Brake Wear Inspection'', wo_ataChapter = ''32'',
     wo_maintenanceType = MT_INSPECTION, wo_priority = PR_HIGH, wo_assignedTechnicianId = None,
     wo_inspectorId = None, wo_plannedStartDate = ''2026-03-18'', wo_dueDate = ''2026-03-20'',
     wo_completionDate = None, wo_status = WO_DRAFT, wo_requiredPartIds = [''part-4''],
     wo_requiredTools = [], wo_relatedRequirementId = None, wo_relatedAssessmentId = None,
     wo_checklistId = None, wo_findingIds = [], wo_signOff = None, wo_inspectorReviewId = None,
     wo_maintenanceTaskId = None\<rparr>"

definition seed_wo_1054 :: WorkOrder where
  "seed_wo_1054 =
    \<lparr>wo_id = ''wo-1054'', wo_workOrderNumber = ''WO-1054'', wo_projectId = None,
     wo_workPackageId = None, wo_aircraftId = ''ac-3'', wo_assetId = None,
     wo_title = ''APU Starter Motor Replacement'', wo_ataChapter = ''49'',
     wo_maintenanceType = MT_REPLACEMENT, wo_priority = PR_HIGH,
     wo_assignedTechnicianId = Some ''tech-5'', wo_inspectorId = None,
     wo_plannedStartDate = ''2026-03-10'', wo_dueDate = ''2026-03-14'', wo_completionDate = None,
     wo_status = WO_WAITING_PARTS, wo_requiredPartIds = [''part-8''], wo_requiredTools = [],
     wo_relatedRequirementId = None, wo_relatedAssessmentId = None, wo_checklistId = None,
     wo_findingIds = [], wo_signOff = None, wo_inspectorReviewId = None,
     wo_maintenanceTaskId = Some ''mtask-1054''\<rparr>"

definition seed_wo_1055 :: WorkOrder where
  "seed_wo_1055 =
    \<lparr>wo_id = ''wo-1055'', wo_workOrderNumber = ''WO-1055'', wo_projectId = None,
     wo_workPackageId = None, wo_aircraftId = ''ac-10'', wo_assetId = None,
     wo_title = ''Fuel Control Unit Calibration'', wo_ataChapter = ''73'',
     wo_maintenanceType = MT_REPAIR, wo_priority = PR_CRITICAL,
     wo_assignedTechnicianId = Some ''tech-1'', wo_inspectorId = None,
     wo_plannedStartDate = ''2026-03-11'', wo_dueDate = ''2026-03-15'', wo_completionDate = None,
     wo_status = WO_WAITING_PARTS, wo_requiredPartIds = [''part-3''], wo_requiredTools = [],
     wo_relatedRequirementId = None, wo_relatedAssessmentId = None, wo_checklistId = None,
     wo_findingIds = [], wo_signOff = None, wo_inspectorReviewId = None,
     wo_maintenanceTaskId = Some ''mtask-1055''\<rparr>"

definition seed_wo_1056 :: WorkOrder where
  "seed_wo_1056 =
    \<lparr>wo_id = ''wo-1056'', wo_workOrderNumber = ''WO-1056'', wo_projectId = None,
     wo_workPackageId = None, wo_aircraftId = ''ac-9'', wo_assetId = None,
     wo_title = ''Landing Gear Retraction Test'', wo_ataChapter = ''32'',
     wo_maintenanceType = MT_INSPECTION, wo_priority = PR_MEDIUM,
     wo_assignedTechnicianId = Some ''tech-6'', wo_inspectorId = None,
     wo_plannedStartDate = ''2026-02-25'', wo_dueDate = ''2026-02-27'',
     wo_completionDate = Some ''2026-02-27'', wo_status = WO_COMPLETED, wo_requiredPartIds = [],
     wo_requiredTools = [], wo_relatedRequirementId = None, wo_relatedAssessmentId = None,
     wo_checklistId = None, wo_findingIds = [],
     wo_signOff = Some (\<lparr>so_technicianId = ''tech-6'', so_timestamp = ''2026-02-27T15:10:00Z'', so_confirmed = True\<rparr>),
     wo_inspectorReviewId = None, wo_maintenanceTaskId = None\<rparr>"

definition seed_wo_1057 :: WorkOrder where
  "seed_wo_1057 =
    \<lparr>wo_id = ''wo-1057'', wo_workOrderNumber = ''WO-1057'', wo_projectId = None,
     wo_workPackageId = None, wo_aircraftId = ''ac-5'', wo_assetId = None,
     wo_title = (''Seal Kit Replacement '' @ em_dash @ '' Hydraulic Reservoir''),
     wo_ataChapter = ''29'', wo_maintenanceType = MT_REPLACEMENT, wo_priority = PR_LOW,
     wo_assignedTechnicianId = Some ''tech-4'', wo_inspectorId = None,
     wo_plannedStartDate = ''2026-03-19'', wo_dueDate = ''2026-03-24'', wo_completionDate = None,
     wo_status = WO_ASSIGNED, wo_requiredPartIds = [''part-7''], wo_requiredTools = [],
     wo_relatedRequirementId = None, wo_relatedAssessmentId = None, wo_checklistId = None,
     wo_findingIds = [], wo_signOff = None, wo_inspectorReviewId = None,
     wo_maintenanceTaskId = None\<rparr>"

definition seed_wo_1058 :: WorkOrder where
  "seed_wo_1058 =
    \<lparr>wo_id = ''wo-1058'', wo_workOrderNumber = ''WO-1058'', wo_projectId = None,
     wo_workPackageId = None, wo_aircraftId = ''ac-4'', wo_assetId = None,
     wo_title = ''Pitot Heater Replacement'', wo_ataChapter = ''30'',
     wo_maintenanceType = MT_REPLACEMENT, wo_priority = PR_HIGH, wo_assignedTechnicianId = None,
     wo_inspectorId = None, wo_plannedStartDate = ''2026-03-13'', wo_dueDate = ''2026-03-16'',
     wo_completionDate = None, wo_status = WO_DRAFT, wo_requiredPartIds = [],
     wo_requiredTools = [], wo_relatedRequirementId = None, wo_relatedAssessmentId = None,
     wo_checklistId = None, wo_findingIds = [], wo_signOff = None, wo_inspectorReviewId = None,
     wo_maintenanceTaskId = None\<rparr>"

definition seed_wo_drn_1001 :: WorkOrder where
  "seed_wo_drn_1001 =
    \<lparr>wo_id = ''wo-drn-1001'', wo_workOrderNumber = ''WO-DRN-1001'', wo_projectId = None,
     wo_workPackageId = None, wo_aircraftId = ''drn-kota-001'',
     wo_assetId = Some ''drn-kota-001'',
     wo_title = ''50-Hour Motor & ESC Electrical Diagnostic Check'', wo_ataChapter = ''24'',
     wo_maintenanceType = MT_INSPECTION, wo_priority = PR_MEDIUM,
     wo_assignedTechnicianId = Some ''tech-1'', wo_inspectorId = Some ''tech-3'',
     wo_plannedStartDate = ''2026-03-20'', wo_dueDate = ''2026-03-25'', wo_completionDate = None,
     wo_status = WO_IN_PROGRESS, wo_requiredPartIds = [],
     wo_requiredTools = [''Multimeter'', ''Motor Tachometer''],
     wo_relatedRequirementId = Some ''req-dgca-car-3x'',
     wo_relatedAssessmentId = Some ''asmt-drn-001-1'', wo_checklistId = None, wo_findingIds = [],
     wo_signOff = None, wo_inspectorReviewId = None, wo_maintenanceTaskId = None\<rparr>"

definition seed_wo_drn_1002 :: WorkOrder where
  "seed_wo_drn_1002 =
    \<lparr>wo_id = ''wo-drn-1002'', wo_workOrderNumber = ''WO-DRN-1002'', wo_projectId = None,
     wo_workPackageId = None, wo_aircraftId = ''drn-kota-003'',
     wo_assetId = Some ''drn-kota-003'',
     wo_title = ''100-Hour Airframe Structural Integrity & Arm Fastener Torque'',
     wo_ataChapter = ''53'', wo_maintenanceType = MT_INSPECTION, wo_priority = PR_HIGH,
     wo_assignedTechnicianId = Some ''tech-4'', wo_inspectorId = Some ''tech-5'',
     wo_plannedStartDate = ''2026-03-17'', wo_dueDate = ''2026-03-18'', wo_completionDate = None,
     wo_status = WO_WAITING_PARTS, wo_requiredPartIds = [''part-1''],
     wo_requiredTools = [''Torque Wrench (Micro-scale)''],
     wo_relatedRequirementId = Some ''req-insp-100h'',
     wo_relatedAssessmentId = Some ''asmt-drn-003-1'', wo_checklistId = None,
     wo_findingIds = [''fnd-drn-003-1''], wo_signOff = None, wo_inspectorReviewId = None,
     wo_maintenanceTaskId = None\<rparr>"

definition seed_wo_drn_1003 :: WorkOrder where
  "seed_wo_drn_1003 =
    \<lparr>wo_id = ''wo-drn-1003'', wo_workOrderNumber = ''WO-DRN-1003'', wo_projectId = None,
     wo_workPackageId = None, wo_aircraftId = ''drn-kota-005'',
     wo_assetId = Some ''drn-kota-005'',
     wo_title = ''Propeller Blade #3 Stress Fracture Replacement'', wo_ataChapter = ''61'',
     wo_maintenanceType = MT_REPLACEMENT, wo_priority = PR_CRITICAL,
     wo_assignedTechnicianId = Some ''tech-1'', wo_inspectorId = Some ''tech-3'',
     wo_plannedStartDate = ''2026-03-16'', wo_dueDate = ''2026-03-17'', wo_completionDate = None,
     wo_status = WO_ASSIGNED, wo_requiredPartIds = [], wo_requiredTools = [''Prop Balancer''],
     wo_relatedRequirementId = Some ''req-dgca-car-3x'',
     wo_relatedAssessmentId = Some ''asmt-drn-005-1'', wo_checklistId = None,
     wo_findingIds = [''fnd-drn-005-1''], wo_signOff = None, wo_inspectorReviewId = None,
     wo_maintenanceTaskId = None\<rparr>"

definition seed_workOrders :: "WorkOrder list" where
  "seed_workOrders =
    [seed_wo_1042, seed_wo_1043, seed_wo_1044, seed_wo_1045, seed_wo_1046, seed_wo_1047,
     seed_wo_1048, seed_wo_1049, seed_wo_1050, seed_wo_1051, seed_wo_1052, seed_wo_1053,
     seed_wo_1054, seed_wo_1055, seed_wo_1056, seed_wo_1057, seed_wo_1058, seed_wo_drn_1001,
     seed_wo_drn_1002, seed_wo_drn_1003]"

section \<open>\<open>parts.ts\<close>\<close>

definition seed_part_1 :: Part where
  "seed_part_1 =
    \<lparr>pt_id = ''part-1'', pt_partNumber = ''HP-442'', pt_serialNumber = None,
     pt_description = ''Hydraulic Pump Seal Kit'', pt_classification = PC_BATCH,
     pt_status = PS_IN_STOCK, pt_quantity = 4, pt_location = (''Stores '' @ em_dash @ '' Bay 3''),
     pt_installedAircraftId = None, pt_installedComponentInstanceId = None,
     pt_workOrderId = Some ''wo-1050'', pt_lifeLimitInfo = None,
     pt_manufacturer = Some ''Parker Aerospace (demo)'', pt_batchOrLot = Some ''LOT-8842'',
     pt_aviationClassification = Some PAC_CONSUMABLE, pt_serviceability = Some SV_SERVICEABLE,
     pt_quarantineReason = None\<rparr>"

definition seed_part_2 :: Part where
  "seed_part_2 =
    \<lparr>pt_id = ''part-2'', pt_partNumber = ''ABC-123'', pt_serialNumber = Some ''ABC902'',
     pt_description = ''Fan Disk Assembly'', pt_classification = PC_SERIALIZED,
     pt_status = PS_IN_STOCK, pt_quantity = 1, pt_location = (''Stores '' @ em_dash @ '' Bay 1''),
     pt_installedAircraftId = Some ''ac-1'', pt_installedComponentInstanceId = Some ''ci-abc901'',
     pt_workOrderId = Some ''wo-1042'',
     pt_lifeLimitInfo = Some (''20,000 cycles life limit '' @ em_dash @ '' 6,200 cycles accumulated''),
     pt_manufacturer = Some ''CFM International (demo)'', pt_batchOrLot = None,
     pt_aviationClassification = Some PAC_ROTABLE, pt_serviceability = Some SV_SERVICEABLE,
     pt_quarantineReason = None\<rparr>"

definition seed_part_3 :: Part where
  "seed_part_3 =
    \<lparr>pt_id = ''part-3'', pt_partNumber = ''FCU-220'', pt_serialNumber = Some ''FCU088'',
     pt_description = ''Fuel Control Unit Calibration Kit'', pt_classification = PC_SERIALIZED,
     pt_status = PS_AWAITING_RECEIPT, pt_quantity = 1, pt_location = ''In Transit'',
     pt_installedAircraftId = None, pt_installedComponentInstanceId = None,
     pt_workOrderId = Some ''wo-1055'', pt_lifeLimitInfo = None, pt_manufacturer = None,
     pt_batchOrLot = None, pt_aviationClassification = Some PAC_REPAIRABLE,
     pt_serviceability = Some SV_UNKNOWN, pt_quarantineReason = None\<rparr>"

definition seed_part_4 :: Part where
  "seed_part_4 =
    \<lparr>pt_id = ''part-4'', pt_partNumber = ''BRK-210'', pt_serialNumber = None,
     pt_description = ''Brake Lining Set'', pt_classification = PC_BATCH, pt_status = PS_IN_STOCK,
     pt_quantity = 6, pt_location = (''Stores '' @ em_dash @ '' Bay 2''),
     pt_installedAircraftId = None, pt_installedComponentInstanceId = None, pt_workOrderId = None,
     pt_lifeLimitInfo = None, pt_manufacturer = Some ''Meggitt (demo)'',
     pt_batchOrLot = Some ''LOT-2201'', pt_aviationClassification = Some PAC_EXPENDABLE,
     pt_serviceability = Some SV_SERVICEABLE, pt_quarantineReason = None\<rparr>"

definition seed_part_5 :: Part where
  "seed_part_5 =
    \<lparr>pt_id = ''part-5'', pt_partNumber = ''GEN-305'', pt_serialNumber = Some ''GEN114'',
     pt_description = ''IDG Bearing'', pt_classification = PC_SERIALIZED, pt_status = PS_ORDERED,
     pt_quantity = 1, pt_location = ''On Order'', pt_installedAircraftId = Some ''ac-3'',
     pt_installedComponentInstanceId = Some ''ci-gen114'', pt_workOrderId = Some ''wo-1051'',
     pt_lifeLimitInfo = None, pt_manufacturer = None, pt_batchOrLot = None,
     pt_aviationClassification = Some PAC_ROTABLE, pt_serviceability = Some SV_UNKNOWN,
     pt_quarantineReason = None\<rparr>"

definition seed_part_6 :: Part where
  "seed_part_6 =
    \<lparr>pt_id = ''part-6'', pt_partNumber = ''LATCH-778'', pt_serialNumber = None,
     pt_description = ''Cargo Door Latch Mechanism'', pt_classification = PC_BATCH,
     pt_status = PS_AWAITING_RECEIPT, pt_quantity = 1, pt_location = ''In Transit'',
     pt_installedAircraftId = None, pt_installedComponentInstanceId = None,
     pt_workOrderId = Some ''wo-1046'', pt_lifeLimitInfo = None, pt_manufacturer = None,
     pt_batchOrLot = None, pt_aviationClassification = Some PAC_EXPENDABLE,
     pt_serviceability = Some SV_UNKNOWN, pt_quarantineReason = None\<rparr>"

definition seed_part_7 :: Part where
  "seed_part_7 =
    \<lparr>pt_id = ''part-7'', pt_partNumber = ''SEAL-014'', pt_serialNumber = None,
     pt_description = ''Hydraulic Seal Kit'', pt_classification = PC_BATCH,
     pt_status = PS_IN_STOCK, pt_quantity = 10,
     pt_location = (''Stores '' @ em_dash @ '' Bay 3''), pt_installedAircraftId = None,
     pt_installedComponentInstanceId = None, pt_workOrderId = None, pt_lifeLimitInfo = None,
     pt_manufacturer = Some ''Parker Aerospace (demo)'', pt_batchOrLot = Some ''LOT-5510'',
     pt_aviationClassification = Some PAC_CONSUMABLE, pt_serviceability = Some SV_SERVICEABLE,
     pt_quarantineReason = None\<rparr>"

definition seed_part_8 :: Part where
  "seed_part_8 =
    \<lparr>pt_id = ''part-8'', pt_partNumber = ''APU-410'', pt_serialNumber = Some ''APU301'',
     pt_description = ''APU Starter Motor'', pt_classification = PC_SERIALIZED,
     pt_status = PS_ORDERED, pt_quantity = 1, pt_location = ''On Order'',
     pt_installedAircraftId = Some ''ac-3'', pt_installedComponentInstanceId = Some ''ci-apu301'',
     pt_workOrderId = Some ''wo-1054'', pt_lifeLimitInfo = None, pt_manufacturer = None,
     pt_batchOrLot = None, pt_aviationClassification = Some PAC_ROTABLE,
     pt_serviceability = Some SV_UNKNOWN, pt_quarantineReason = None\<rparr>"

definition seed_part_9 :: Part where
  "seed_part_9 =
    \<lparr>pt_id = ''part-9'', pt_partNumber = ''SEAL-014B'', pt_serialNumber = None,
     pt_description = ''Hydraulic Seal Kit (second batch)'', pt_classification = PC_BATCH,
     pt_status = PS_IN_STOCK, pt_quantity = 8,
     pt_location = (''Stores '' @ em_dash @ '' Receiving Hold''), pt_installedAircraftId = None,
     pt_installedComponentInstanceId = None, pt_workOrderId = None, pt_lifeLimitInfo = None,
     pt_manufacturer = Some ''Parker Aerospace (demo)'', pt_batchOrLot = Some ''LOT-5511'',
     pt_aviationClassification = Some PAC_CONSUMABLE, pt_serviceability = Some SV_QUARANTINED,
     pt_quarantineReason = Some (''Batch/lot certificate on file does not match the received shipment paperwork '' @ em_dash @ '' held pending receiving-inspection resolution.'')\<rparr>"

definition seed_parts :: "Part list" where
  "seed_parts =
    [seed_part_1, seed_part_2, seed_part_3, seed_part_4, seed_part_5, seed_part_6,
     seed_part_7, seed_part_8, seed_part_9]"

section \<open>\<open>inspectorReviews.ts\<close>\<close>

definition seed_ir_1 :: InspectorReview where
  "seed_ir_1 =
    \<lparr>ir_id = ''ir-1'', ir_workOrderId = ''wo-1042'', ir_inspectorId = ''tech-3'',
     ir_status = IR_PENDING_INSPECTION, ir_comments = '''', ir_reviewedAt = None\<rparr>"

definition seed_ir_2 :: InspectorReview where
  "seed_ir_2 =
    \<lparr>ir_id = ''ir-2'', ir_workOrderId = ''wo-1043'', ir_inspectorId = ''tech-5'',
     ir_status = IR_APPROVED, ir_comments = ''Leak check satisfactory. Approved.'',
     ir_reviewedAt = Some ''2026-03-08T15:00:00Z''\<rparr>"

definition seed_ir_3 :: InspectorReview where
  "seed_ir_3 =
    \<lparr>ir_id = ''ir-3'', ir_workOrderId = ''wo-1047'', ir_inspectorId = ''tech-5'',
     ir_status = IR_APPROVED, ir_comments = ''Software update verified against release notes.'',
     ir_reviewedAt = Some ''2026-01-25T10:00:00Z''\<rparr>"

definition seed_ir_4 :: InspectorReview where
  "seed_ir_4 =
    \<lparr>ir_id = ''ir-4'', ir_workOrderId = ''wo-1048'', ir_inspectorId = ''tech-3'',
     ir_status = IR_PENDING_INSPECTION, ir_comments = '''', ir_reviewedAt = None\<rparr>"

definition seed_ir_5 :: InspectorReview where
  "seed_ir_5 =
    \<lparr>ir_id = ''ir-5'', ir_workOrderId = ''wo-1045'', ir_inspectorId = ''tech-5'',
     ir_status = IR_PENDING_INSPECTION, ir_comments = '''', ir_reviewedAt = None\<rparr>"

definition seed_inspectorReviews :: "InspectorReview list" where
  "seed_inspectorReviews =
    [seed_ir_1, seed_ir_2, seed_ir_3, seed_ir_4, seed_ir_5]"

section \<open>\<open>maintenanceTasks.ts\<close>\<close>

definition seed_mtask_1042 :: MaintenanceTask where
  "seed_mtask_1042 =
    \<lparr>mt_id = ''mtask-1042'',
     mt_description = ''Engine 1 fan disk borescope inspection per applicable AD'',
     mt_ataChapter = ''72'', mt_referenceType = REF_AD, mt_referenceId = Some ''req-ad-2026-001'',
     mt_requiredSkill = Some ''Engine Runup'', mt_inspectionRequired = True,
     mt_evidenceStatus = TES_SOURCE_AVAILABLE, mt_fhThreshold = Some 500, mt_fcThreshold = None,
     mt_calendarThresholdDays = None, mt_governingRequirementId = Some ''mreq-1042'',
     mt_evidenceRequirement = Some EQ_REQUIRED\<rparr>"

definition seed_mtask_1045 :: MaintenanceTask where
  "seed_mtask_1045 =
    \<lparr>mt_id = ''mtask-1045'', mt_description = ''Wing spar fatigue inspection per applicable AD'',
     mt_ataChapter = ''57'', mt_referenceType = REF_AD, mt_referenceId = Some ''req-ad-2026-004'',
     mt_requiredSkill = Some ''Structures'', mt_inspectionRequired = True,
     mt_evidenceStatus = TES_SOURCE_AVAILABLE, mt_fhThreshold = None, mt_fcThreshold = None,
     mt_calendarThresholdDays = Some 30, mt_governingRequirementId = Some ''mreq-1045'',
     mt_evidenceRequirement = Some EQ_OPTIONAL\<rparr>"

definition seed_mtask_1046 :: MaintenanceTask where
  "seed_mtask_1046 =
    \<lparr>mt_id = ''mtask-1046'',
     mt_description = ''Cargo door latch mechanism inspection per applicable AD'',
     mt_ataChapter = ''52'', mt_referenceType = REF_AD, mt_referenceId = Some ''req-ad-2026-005'',
     mt_requiredSkill = None, mt_inspectionRequired = False,
     mt_evidenceStatus = TES_SOURCE_AVAILABLE, mt_fhThreshold = None, mt_fcThreshold = None,
     mt_calendarThresholdDays = None, mt_governingRequirementId = None,
     mt_evidenceRequirement = None\<rparr>"

definition seed_mtask_1051 :: MaintenanceTask where
  "seed_mtask_1051 =
    \<lparr>mt_id = ''mtask-1051'', mt_description = ''IDG seal repair'', mt_ataChapter = ''24'',
     mt_referenceType = REF_OTHER, mt_referenceId = None,
     mt_requiredSkill = Some ''Engine Runup'', mt_inspectionRequired = False,
     mt_evidenceStatus = TES_SOURCE_UNKNOWN, mt_fhThreshold = None, mt_fcThreshold = None,
     mt_calendarThresholdDays = None, mt_governingRequirementId = None,
     mt_evidenceRequirement = None\<rparr>"

definition seed_mtask_1054 :: MaintenanceTask where
  "seed_mtask_1054 =
    \<lparr>mt_id = ''mtask-1054'',
     mt_description = ''APU starter motor replacement (serialized rotable)'',
     mt_ataChapter = ''49'', mt_referenceType = REF_OTHER, mt_referenceId = None,
     mt_requiredSkill = Some ''APU'', mt_inspectionRequired = True,
     mt_evidenceStatus = TES_SOURCE_UNKNOWN, mt_fhThreshold = None, mt_fcThreshold = None,
     mt_calendarThresholdDays = None, mt_governingRequirementId = None,
     mt_evidenceRequirement = Some EQ_REQUIRED\<rparr>"

definition seed_mtask_1055 :: MaintenanceTask where
  "seed_mtask_1055 =
    \<lparr>mt_id = ''mtask-1055'', mt_description = ''Fuel control unit calibration'',
     mt_ataChapter = ''73'', mt_referenceType = REF_OTHER, mt_referenceId = None,
     mt_requiredSkill = Some ''Fuel Systems'', mt_inspectionRequired = True,
     mt_evidenceStatus = TES_SOURCE_UNKNOWN, mt_fhThreshold = None, mt_fcThreshold = None,
     mt_calendarThresholdDays = None, mt_governingRequirementId = None,
     mt_evidenceRequirement = Some EQ_REQUIRED\<rparr>"

definition seed_maintenanceTasks :: "MaintenanceTask list" where
  "seed_maintenanceTasks =
    [seed_mtask_1042, seed_mtask_1045, seed_mtask_1046, seed_mtask_1051, seed_mtask_1054,
     seed_mtask_1055]"

section \<open>\<open>defects.ts\<close>\<close>

definition seed_def_1 :: Defect where
  "seed_def_1 =
    \<lparr>df_id = ''def-1'', df_aircraftId = ''ac-1'', df_workOrderId = Some ''wo-1044'',
     df_componentInstanceId = Some ''ci-abc901'', df_ataChapter = ''72'',
     df_description = ''Minor scoring observed on Engine 1 fan blade root during borescope inspection.'',
     df_severity = PR_LOW, df_status = DF_OPEN, df_discoveredBy = ''Rahul Menon'',
     df_reportedDate = ''2026-03-12'', df_correctiveAction = None, df_inspectorDecision = None\<rparr>"

definition seed_def_2 :: Defect where
  "seed_def_2 =
    \<lparr>df_id = ''def-2'', df_aircraftId = ''ac-3'', df_workOrderId = Some ''wo-1045'',
     df_componentInstanceId = None, df_ataChapter = ''57'',
     df_description = ''Hairline fatigue indication at wing spar station 340, pending NDT confirmation.'',
     df_severity = PR_HIGH, df_status = DF_OPEN, df_discoveredBy = ''Diego Alvarez'',
     df_reportedDate = ''2026-03-15'', df_correctiveAction = None, df_inspectorDecision = None\<rparr>"

definition seed_def_3 :: Defect where
  "seed_def_3 =
    \<lparr>df_id = ''def-3'', df_aircraftId = ''ac-7'', df_workOrderId = None,
     df_componentInstanceId = None, df_ataChapter = ''52'',
     df_description = ''Cargo door latch mechanism exhibits excess play beyond service limit.'',
     df_severity = PR_HIGH, df_status = DF_OPEN, df_discoveredBy = ''Arjun Nair'',
     df_reportedDate = ''2026-03-05'',
     df_correctiveAction = Some (''Replace latch mechanism (part-6) '' @ em_dash @ '' awaiting receipt.''),
     df_inspectorDecision = None\<rparr>"

definition seed_def_4 :: Defect where
  "seed_def_4 =
    \<lparr>df_id = ''def-4'', df_aircraftId = ''ac-1'', df_workOrderId = None,
     df_componentInstanceId = None, df_ataChapter = ''33'',
     df_description = (''Cabin reading light intermittent '' @ em_dash @ '' deferred per MEL.''),
     df_severity = PR_LOW, df_status = DF_DEFERRED, df_discoveredBy = ''Rahul Menon'',
     df_reportedDate = ''2026-02-20'',
     df_correctiveAction = Some ''Deferred per MEL item 33-1; monitor next check.'',
     df_inspectorDecision = Some ''Accepted for deferral''\<rparr>"

definition seed_def_5 :: Defect where
  "seed_def_5 =
    \<lparr>df_id = ''def-5'', df_aircraftId = ''ac-3'', df_workOrderId = Some ''wo-1051'',
     df_componentInstanceId = Some ''ci-gen114'', df_ataChapter = ''24'',
     df_description = ''IDG seal weep observed during walk-around, within acceptable limit pending repair.'',
     df_severity = PR_MEDIUM, df_status = DF_RESOLVED, df_discoveredBy = ''Wei Zhang'',
     df_reportedDate = ''2026-03-01'',
     df_correctiveAction = Some ''IDG bearing/seal repair completed under WO-1051.'',
     df_inspectorDecision = Some (''Approved '' @ em_dash @ '' resolved'')\<rparr>"

definition seed_def_6 :: Defect where
  "seed_def_6 =
    \<lparr>df_id = ''def-6'', df_aircraftId = ''ac-2'', df_workOrderId = Some ''wo-1052'',
     df_componentInstanceId = None, df_ataChapter = ''21'',
     df_description = ''Cabin altitude warning triggered intermittently during last two sectors, pending diagnostic confirmation.'',
     df_severity = PR_HIGH, df_status = DF_OPEN, df_discoveredBy = ''Fatima Al-Sayed'',
     df_reportedDate = ''2026-03-16'', df_correctiveAction = None, df_inspectorDecision = None\<rparr>"

definition seed_def_7 :: Defect where
  "seed_def_7 =
    \<lparr>df_id = ''def-7'', df_aircraftId = ''ac-6'', df_workOrderId = Some ''wo-1053'',
     df_componentInstanceId = None, df_ataChapter = ''32'',
     df_description = ''Brake wear indicator approaching minimum limit on main gear #2.'',
     df_severity = PR_MEDIUM, df_status = DF_OPEN, df_discoveredBy = ''Priya Desai'',
     df_reportedDate = ''2026-03-17'', df_correctiveAction = None, df_inspectorDecision = None\<rparr>"

definition seed_def_8 :: Defect where
  "seed_def_8 =
    \<lparr>df_id = ''def-8'', df_aircraftId = ''ac-10'', df_workOrderId = Some ''wo-1055'',
     df_componentInstanceId = None, df_ataChapter = ''73'',
     df_description = ''Fuel control unit calibration drift detected during last engine run, requires recalibration.'',
     df_severity = PR_HIGH, df_status = DF_OPEN, df_discoveredBy = ''Marco Silva'',
     df_reportedDate = ''2026-03-11'', df_correctiveAction = None, df_inspectorDecision = None\<rparr>"

definition seed_def_9 :: Defect where
  "seed_def_9 =
    \<lparr>df_id = ''def-9'', df_aircraftId = ''ac-9'', df_workOrderId = Some ''wo-1056'',
     df_componentInstanceId = None, df_ataChapter = ''32'',
     df_description = ''Minor landing gear retraction delay observed, resolved after lubrication service.'',
     df_severity = PR_LOW, df_status = DF_RESOLVED, df_discoveredBy = ''Arjun Nair'',
     df_reportedDate = ''2026-02-26'',
     df_correctiveAction = Some ''Retraction mechanism lubricated and re-tested under WO-1056.'',
     df_inspectorDecision = Some (''Approved '' @ em_dash @ '' resolved'')\<rparr>"

definition seed_def_10 :: Defect where
  "seed_def_10 =
    \<lparr>df_id = ''def-10'', df_aircraftId = ''ac-3'', df_workOrderId = Some ''wo-1054'',
     df_componentInstanceId = Some ''ci-apu301'', df_ataChapter = ''49'',
     df_description = ''APU starter motor showing elevated starting current, pending replacement.'',
     df_severity = PR_MEDIUM, df_status = DF_OPEN, df_discoveredBy = ''Sara Kavanagh'',
     df_reportedDate = ''2026-03-09'',
     df_correctiveAction = Some (''Replace starter motor (part-8) '' @ em_dash @ '' awaiting receipt.''),
     df_inspectorDecision = None\<rparr>"

definition seed_defects :: "Defect list" where
  "seed_defects =
    [seed_def_1, seed_def_2, seed_def_3, seed_def_4, seed_def_5, seed_def_6, seed_def_7,
     seed_def_8, seed_def_9, seed_def_10]"

section \<open>\<open>evidenceRecords.ts\<close>\<close>

definition seed_ev_exec_1 :: EvidenceRecord where
  "seed_ev_exec_1 =
    \<lparr>er_id = ''ev-exec-1'', er_workOrderId = ''wo-1042'',
     er_maintenanceTaskId = Some ''mtask-1042'', er_aircraftId = ''ac-1'',
     er_uploadedByTechnicianId = ''tech-1'', er_evidenceType = ERT_BEFORE,
     er_fileRef = ''DEMO_SEED_PLACEHOLDER'', er_fileName = ''engine1-fan-before.jpg'',
     er_capturedAt = ''2026-03-14T09:10:00Z'',
     er_technicianNote = Some ''Fan disk prior to borescope inspection, no visible damage.'',
     er_status = ER_ACCEPTED, er_createdAt = ''2026-03-14T09:10:00Z'',
     er_reviewedBy = Some ''tech-3'', er_reviewedAt = Some ''2026-03-14T09:20:00Z'',
     er_reviewNote = None\<rparr>"

definition seed_ev_exec_2 :: EvidenceRecord where
  "seed_ev_exec_2 =
    \<lparr>er_id = ''ev-exec-2'', er_workOrderId = ''wo-1042'',
     er_maintenanceTaskId = Some ''mtask-1042'', er_aircraftId = ''ac-1'',
     er_uploadedByTechnicianId = ''tech-1'', er_evidenceType = ERT_AFTER,
     er_fileRef = ''DEMO_SEED_PLACEHOLDER'', er_fileName = ''engine1-fan-after.jpg'',
     er_capturedAt = ''2026-03-16T13:35:00Z'',
     er_technicianNote = Some ''Borescope inspection complete, findings per finding-1.'',
     er_status = ER_ACCEPTED, er_createdAt = ''2026-03-16T13:35:00Z'',
     er_reviewedBy = Some ''tech-3'', er_reviewedAt = Some ''2026-03-16T13:45:00Z'',
     er_reviewNote = None\<rparr>"

definition seed_ev_exec_3 :: EvidenceRecord where
  "seed_ev_exec_3 =
    \<lparr>er_id = ''ev-exec-3'', er_workOrderId = ''wo-1055'',
     er_maintenanceTaskId = Some ''mtask-1055'', er_aircraftId = ''ac-10'',
     er_uploadedByTechnicianId = ''tech-1'', er_evidenceType = ERT_INSPECTION,
     er_fileRef = ''DEMO_SEED_PLACEHOLDER'', er_fileName = ''fcu-calibration-reading.jpg'',
     er_capturedAt = ''2026-03-11T08:00:00Z'',
     er_technicianNote = Some ''Calibration reading photo.'', er_status = ER_REJECTED,
     er_createdAt = ''2026-03-11T08:00:00Z'', er_reviewedBy = Some ''tech-5'',
     er_reviewedAt = Some ''2026-03-11T14:00:00Z'',
     er_reviewNote = Some (''Calibration display is out of focus and the reading is not legible '' @ em_dash @ '' resubmit with a clear photo of the display.'')\<rparr>"

definition seed_evidenceRecords :: "EvidenceRecord list" where
  "seed_evidenceRecords =
    [seed_ev_exec_1, seed_ev_exec_2, seed_ev_exec_3]"

section \<open>\<open>deferredItems.ts\<close>\<close>

definition seed_defer_1 :: DeferredItem where
  "seed_defer_1 =
    \<lparr>di_id = ''defer-1'', di_aircraftId = ''ac-1'', di_defectId = ''def-4'',
     di_melReference = None, di_category = DC_UNKNOWN, di_openedAt = ''2026-02-20'',
     di_dueAt = None, di_status = DI_OPEN, di_workOrderId = None, di_deferralBasis = DB_MEL,
     di_operationalLimitations = None, di_requiredActions = [], di_evidenceReferences = [],
     di_approvalRequired = True, di_approvalStatus = DA_PENDING\<rparr>"

definition seed_defer_2 :: DeferredItem where
  "seed_defer_2 =
    \<lparr>di_id = ''defer-2'', di_aircraftId = ''ac-7'', di_defectId = ''def-3'',
     di_melReference = None, di_category = DC_UNKNOWN, di_openedAt = ''2026-03-05'',
     di_dueAt = Some ''2026-03-22'', di_status = DI_OPEN, di_workOrderId = None,
     di_deferralBasis = DB_UNKNOWN,
     di_operationalLimitations = Some ''(DEMO) Dispatch permitted with cargo door latch mechanism inspected before each departure.'',
     di_requiredActions = [''(DEMO) Replace latch mechanism (part-6) upon receipt.''],
     di_evidenceReferences = [], di_approvalRequired = True, di_approvalStatus = DA_PENDING\<rparr>"

definition seed_defer_3 :: DeferredItem where
  "seed_defer_3 =
    \<lparr>di_id = ''defer-3'', di_aircraftId = ''ac-2'', di_defectId = ''def-6'',
     di_melReference = None, di_category = DC_UNKNOWN, di_openedAt = ''2026-03-16'',
     di_dueAt = Some ''2026-02-01'', di_status = DI_OPEN, di_workOrderId = Some ''wo-1052'',
     di_deferralBasis = DB_UNKNOWN, di_operationalLimitations = None, di_requiredActions = [],
     di_evidenceReferences = [], di_approvalRequired = True, di_approvalStatus = DA_PENDING\<rparr>"

definition seed_defer_4 :: DeferredItem where
  "seed_defer_4 =
    \<lparr>di_id = ''defer-4'', di_aircraftId = ''ac-6'', di_defectId = ''def-7'',
     di_melReference = None, di_category = DC_UNKNOWN, di_openedAt = ''2026-03-17'',
     di_dueAt = Some ''2026-04-01'', di_status = DI_CLOSED, di_workOrderId = Some ''wo-1053'',
     di_deferralBasis = DB_UNKNOWN, di_operationalLimitations = None, di_requiredActions = [],
     di_evidenceReferences = [''(DEMO) WO-1053 completion record''], di_approvalRequired = True,
     di_approvalStatus = DA_APPROVED\<rparr>"

definition seed_deferredItems :: "DeferredItem list" where
  "seed_deferredItems =
    [seed_defer_1, seed_defer_2, seed_defer_3, seed_defer_4]"

section \<open>\<open>cannibalization.ts\<close>\<close>

definition seed_cann_1 :: CannibalizationRequest where
  "seed_cann_1 =
    \<lparr>ca_id = ''cann-1'', ca_sourceAircraftId = Some ''ac-8'', ca_targetAircraftId = ''ac-3'',
     ca_partId = ''part-8'',
     ca_reason = ''WO-1054 (APU starter motor replacement, N412MX) is material-blocked on APU-410 with no vendor availability on file; ac-8 (VT-JKL) is STORED and a plausible donor candidate.'',
     ca_authorizationStatus = CA_PENDING_HUMAN_REVIEW, ca_removalStatus = RM_NOT_STARTED,
     ca_installationStatus = IN_NOT_STARTED, ca_traceabilityStatus = CTS_UNKNOWN,
     ca_createdAt = ''2026-03-17''\<rparr>"

definition seed_cannibalizationRequests :: "CannibalizationRequest list" where
  "seed_cannibalizationRequests =
    [seed_cann_1]"

section \<open>\<open>maintenanceProgram.ts\<close>\<close>

definition seed_mp_demo_1 :: MaintenanceProgram where
  "seed_mp_demo_1 =
    \<lparr>pg_id = ''mp-demo-1'', pg_name = ''KOTA Demo Maintenance Program (Prototype)'',
     pg_revision = ''DEMO-REV-1'', pg_effectiveDate = ''2026-01-01'',
     pg_source = (''DEMO DATA '' @ em_dash @ '' prototype program for architecture testing, not an approved maintenance program''),
     pg_status = PG_ACTIVE\<rparr>"

definition seed_maintenancePrograms :: "MaintenanceProgram list" where
  "seed_maintenancePrograms =
    [seed_mp_demo_1]"

section \<open>\<open>maintenanceProgram.ts\<close>\<close>

definition seed_mreq_1042 :: MaintenanceRequirement where
  "seed_mreq_1042 =
    \<lparr>mr_id = ''mreq-1042'', mr_programId = ''mp-demo-1'',
     mr_description = ''Engine fan disk borescope inspection (demo interval)'',
     mr_ataChapter = ''72'', mr_intervalType = IT_FH, mr_fhInterval = Some 500,
     mr_fcInterval = None, mr_calendarIntervalDays = None,
     mr_taskReference = Some ''DEMO-TC-72-00-00'',
     mr_applicableAircraftIds = [''ac-1'', ''ac-3'', ''ac-5'']\<rparr>"

definition seed_mreq_1045 :: MaintenanceRequirement where
  "seed_mreq_1045 =
    \<lparr>mr_id = ''mreq-1045'', mr_programId = ''mp-demo-1'',
     mr_description = ''Wing spar fatigue inspection (demo interval)'', mr_ataChapter = ''57'',
     mr_intervalType = IT_CALENDAR, mr_fhInterval = None, mr_fcInterval = None,
     mr_calendarIntervalDays = Some 30, mr_taskReference = Some ''DEMO-TC-57-00-00'',
     mr_applicableAircraftIds = [''ac-1'', ''ac-5'', ''ac-3'']\<rparr>"

definition seed_mreq_fc_1 :: MaintenanceRequirement where
  "seed_mreq_fc_1 =
    \<lparr>mr_id = ''mreq-fc-1'', mr_programId = ''mp-demo-1'',
     mr_description = ''Landing gear retraction cycle check (demo interval)'',
     mr_ataChapter = ''32'', mr_intervalType = IT_FC, mr_fhInterval = None,
     mr_fcInterval = Some 1000, mr_calendarIntervalDays = None,
     mr_taskReference = Some ''DEMO-TC-32-00-00'', mr_applicableAircraftIds = [''ac-1'']\<rparr>"

definition seed_mreq_demo_unknown :: MaintenanceRequirement where
  "seed_mreq_demo_unknown =
    \<lparr>mr_id = ''mreq-demo-unknown'', mr_programId = ''mp-demo-1'',
     mr_description = ''Cabin pressurization system overhaul (applicability not yet determined)'',
     mr_ataChapter = ''21'', mr_intervalType = IT_CALENDAR, mr_fhInterval = None,
     mr_fcInterval = None, mr_calendarIntervalDays = Some 365, mr_taskReference = None,
     mr_applicableAircraftIds = []\<rparr>"

definition seed_maintenanceRequirements :: "MaintenanceRequirement list" where
  "seed_maintenanceRequirements =
    [seed_mreq_1042, seed_mreq_1045, seed_mreq_fc_1, seed_mreq_demo_unknown]"

section \<open>\<open>maintenanceAccomplishments.ts\<close>\<close>

definition seed_accm_1 :: MaintenanceAccomplishment where
  "seed_accm_1 =
    \<lparr>ma_id = ''accm-1'', ma_requirementId = ''mreq-1045'', ma_aircraftId = ''ac-1'',
     ma_accomplishedDate = ''2026-03-12'', ma_accomplishedFH = None, ma_accomplishedFC = None,
     ma_workOrderId = None, ma_source = ''DEMO_SEED''\<rparr>"

definition seed_accm_2 :: MaintenanceAccomplishment where
  "seed_accm_2 =
    \<lparr>ma_id = ''accm-2'', ma_requirementId = ''mreq-1045'', ma_aircraftId = ''ac-5'',
     ma_accomplishedDate = ''2026-02-20'', ma_accomplishedFH = None, ma_accomplishedFC = None,
     ma_workOrderId = None, ma_source = ''DEMO_SEED''\<rparr>"

definition seed_accm_3 :: MaintenanceAccomplishment where
  "seed_accm_3 =
    \<lparr>ma_id = ''accm-3'', ma_requirementId = ''mreq-1045'', ma_aircraftId = ''ac-3'',
     ma_accomplishedDate = ''2026-01-01'', ma_accomplishedFH = None, ma_accomplishedFC = None,
     ma_workOrderId = None, ma_source = ''DEMO_SEED''\<rparr>"

definition seed_accm_4 :: MaintenanceAccomplishment where
  "seed_accm_4 =
    \<lparr>ma_id = ''accm-4'', ma_requirementId = ''mreq-1042'', ma_aircraftId = ''ac-1'',
     ma_accomplishedDate = ''2026-02-01'', ma_accomplishedFH = Some 8000,
     ma_accomplishedFC = None, ma_workOrderId = None, ma_source = ''DEMO_SEED''\<rparr>"

definition seed_accm_5 :: MaintenanceAccomplishment where
  "seed_accm_5 =
    \<lparr>ma_id = ''accm-5'', ma_requirementId = ''mreq-fc-1'', ma_aircraftId = ''ac-1'',
     ma_accomplishedDate = ''2026-02-01'', ma_accomplishedFH = None,
     ma_accomplishedFC = Some 2700, ma_workOrderId = None, ma_source = ''DEMO_SEED''\<rparr>"

definition seed_accm_6 :: MaintenanceAccomplishment where
  "seed_accm_6 =
    \<lparr>ma_id = ''accm-6'', ma_requirementId = ''mreq-1042'', ma_aircraftId = ''ac-5'',
     ma_accomplishedDate = ''2025-11-01'', ma_accomplishedFH = Some 19500,
     ma_accomplishedFC = None, ma_workOrderId = None, ma_source = ''DEMO_SEED''\<rparr>"

definition seed_maintenanceAccomplishments :: "MaintenanceAccomplishment list" where
  "seed_maintenanceAccomplishments =
    [seed_accm_1, seed_accm_2, seed_accm_3, seed_accm_4, seed_accm_5, seed_accm_6]"

section \<open>The world at start\<close>

definition seed_world :: world where
  "seed_world = empty_world\<lparr>technicians := seed_technicians,
     aircraft := seed_aircraft,
     aircraftVariants := seed_aircraftVariants,
     workOrders := seed_workOrders,
     parts := seed_parts,
     inspectorReviews := seed_inspectorReviews,
     maintenanceTasks := seed_maintenanceTasks,
     defects := seed_defects,
     evidenceRecords := seed_evidenceRecords,
     deferredItems := seed_deferredItems,
     cannibalizationRequests := seed_cannibalizationRequests,
     maintenancePrograms := seed_maintenancePrograms,
     maintenanceRequirements := seed_maintenanceRequirements,
     maintenanceAccomplishments := seed_maintenanceAccomplishments,
     evidenceCounter := 3\<rparr>"

end
