(* ===== verification/Examples.thy ===== *)
theory Examples
  imports DueEngine Seed
begin

text \<open>
  The properties at work on the data the program starts with: each theorem below applies one
  property to records of \<open>seed_world\<close> (with a field changed where the data has no such case) and
  discharges its hypotheses by evaluation.
\<close>

section \<open>What the data evaluates to\<close>

text \<open>The unassigned brake inspection with two technicians.\<close>

definition brake_world :: world where
  "brake_world = empty_world\<lparr>workOrders := [seed_wo_1053], technicians := [seed_tech_5, seed_tech_7]\<rparr>"

text \<open>Work order WO-1045, performed by the inspector Diego Alvarez, once it is completed.\<close>

definition world_1045_completed :: world where
  "world_1045_completed =
     seed_world\<lparr>workOrders := [seed_wo_1045\<lparr>wo_status := WO_COMPLETED\<rparr>]\<rparr>"

text \<open>Work order WO-1043 with its review rejected.\<close>

definition world_1043_rejected :: world where
  "world_1043_rejected =
     seed_world\<lparr>inspectorReviews := [seed_ir_2\<lparr>ir_status := IR_REJECTED\<rparr>]\<rparr>"

definition one_aircraft :: world where
  "one_aircraft = seed_world\<lparr>aircraft := [hd seed_aircraft], maintenanceRequirements := [seed_mreq_1045]\<rparr>"

text \<open>Work orders, technicians and parts.  One evaluation proves the whole group; the facts are its parts.\<close>

definition order_facts :: "world \<Rightarrow> world \<Rightarrow> bool" where
  "order_facts W B \<longleftrightarrow>
   getWorkOrderById W ''wo-1047'' = Some seed_wo_1047 \<and>
   getWorkOrderById W ''wo-1053'' = Some seed_wo_1053 \<and>
   getWorkOrderById W ''wo-1042'' = Some seed_wo_1042 \<and>
   getWorkOrderById W ''wo-1045'' = Some seed_wo_1045 \<and>
   getWorkOrderById W ''wo-1054'' = Some seed_wo_1054 \<and>
   (wo_status seed_wo_1047 \<in> {WO_COMPLETED, WO_CANCELLED}) \<and>
   wo_status seed_wo_1047 = WO_COMPLETED \<and>
   task_of W seed_wo_1047 = None \<and>
   getInspectorReviewForWorkOrder W (wo_id seed_wo_1047) = Some seed_ir_3 \<and>
   ir_status seed_ir_3 = IR_APPROVED \<and>
   wo_open seed_wo_1053 \<and>
   wo_status seed_wo_1053 = WO_DRAFT \<and>
   wo_assignedTechnicianId seed_wo_1053 = None \<and>
   (\<not> list_ex (\<lambda>p. pt_workOrderId p = Some ''wo-1053'' \<and> pt_status p \<noteq> PS_IN_STOCK) (parts W)) \<and>
   wo_open seed_wo_1054 \<and>
   wo_dueDate seed_wo_1054 \<noteq> [] \<and>
   isOverdue seed_wo_1054 \<and>
   getTechnicianById W ''tech-5'' = Some seed_tech_5 \<and>
   te_isInspector seed_tech_5 = Some True \<and>
   wo_assignedTechnicianId seed_wo_1045 \<noteq> Some ''tech-5'' \<and>
   (seed_tech_7 \<in> set (technicians W)) \<and>
   distinct (map te_id (technicians W)) \<and>
   certificationKeywordMatches seed_tech_7 (wo_title seed_wo_1053) \<noteq> [] \<and>
   isOnShiftNow seed_tech_7 \<and>
   te_id seed_tech_7 = ''tech-7'' \<and>
   map_option trec_technicianId (getTechnicianAssignmentRecommendation B ''wo-1053'') = Some ''tech-7''"

lemma order_facts_hold: "order_facts seed_world brake_world"
  by code_simp

lemma seed_orders_eval:
  "getWorkOrderById seed_world ''wo-1047'' = Some seed_wo_1047 \<and>
   getWorkOrderById seed_world ''wo-1053'' = Some seed_wo_1053 \<and>
   getWorkOrderById seed_world ''wo-1042'' = Some seed_wo_1042 \<and>
   getWorkOrderById seed_world ''wo-1045'' = Some seed_wo_1045 \<and>
   getWorkOrderById seed_world ''wo-1054'' = Some seed_wo_1054 \<and>
   (wo_status seed_wo_1047 \<in> {WO_COMPLETED, WO_CANCELLED}) \<and>
   wo_status seed_wo_1047 = WO_COMPLETED \<and>
   task_of seed_world seed_wo_1047 = None \<and>
   getInspectorReviewForWorkOrder seed_world (wo_id seed_wo_1047) = Some seed_ir_3 \<and>
   ir_status seed_ir_3 = IR_APPROVED \<and>
   wo_open seed_wo_1053 \<and>
   wo_status seed_wo_1053 = WO_DRAFT \<and>
   wo_assignedTechnicianId seed_wo_1053 = None \<and>
   (\<not> list_ex (\<lambda>p. pt_workOrderId p = Some ''wo-1053'' \<and> pt_status p \<noteq> PS_IN_STOCK) (parts seed_world)) \<and>
   wo_open seed_wo_1054 \<and>
   wo_dueDate seed_wo_1054 \<noteq> [] \<and>
   isOverdue seed_wo_1054 \<and>
   getTechnicianById seed_world ''tech-5'' = Some seed_tech_5 \<and>
   te_isInspector seed_tech_5 = Some True \<and>
   wo_assignedTechnicianId seed_wo_1045 \<noteq> Some ''tech-5'' \<and>
   (seed_tech_7 \<in> set (technicians seed_world)) \<and>
   distinct (map te_id (technicians seed_world)) \<and>
   certificationKeywordMatches seed_tech_7 (wo_title seed_wo_1053) \<noteq> [] \<and>
   isOnShiftNow seed_tech_7 \<and>
   te_id seed_tech_7 = ''tech-7'' \<and>
   map_option trec_technicianId (getTechnicianAssignmentRecommendation brake_world ''wo-1053'') = Some ''tech-7''"
  using order_facts_hold unfolding order_facts_def .

text \<open>Evidence of WO-1055.  One evaluation proves the whole group; the facts are its parts.\<close>

lemma seed_evidence_eval:
  "getEvidenceRecordById seed_world ''ev-exec-1'' = Some seed_ev_exec_1 \<and>
   er_status seed_ev_exec_1 \<noteq> ER_SUBMITTED \<and>
   task_of seed_world seed_wo_1055 = Some seed_mtask_1055 \<and>
   mt_evidenceRequirement seed_mtask_1055 = Some EQ_REQUIRED \<and>
   (list_all (\<lambda>ev. \<not> is_review ev) [Withdraw ''ev-exec-3''])"
  by code_simp

text \<open>The two changed worlds.  One evaluation proves the whole group; the facts are its parts.\<close>

definition inspection_facts :: "world \<Rightarrow> world \<Rightarrow> bool" where
  "inspection_facts C R \<longleftrightarrow>
   getWorkOrderById C ''wo-1045'' = Some (seed_wo_1045\<lparr>wo_status := WO_COMPLETED\<rparr>) \<and>
   wo_status (seed_wo_1045\<lparr>wo_status := WO_COMPLETED\<rparr>) = WO_COMPLETED \<and>
   wo_assignedTechnicianId (seed_wo_1045\<lparr>wo_status := WO_COMPLETED\<rparr>) = Some ''tech-3'' \<and>
   getTechnicianById C ''tech-3'' = Some seed_tech_3 \<and>
   te_isInspector seed_tech_3 = Some True \<and>
   ''tech-3'' \<noteq> ''tech-1'' \<and>
   getWorkOrderById R ''wo-1043'' = Some seed_wo_1043 \<and>
   wo_status seed_wo_1043 = WO_COMPLETED \<and>
   isInspectionRequired R seed_wo_1043 \<and>
   fst (evaluateExecutionEvidenceGate R seed_wo_1043 (task_of R seed_wo_1043)) \<noteq> GS_FAIL \<and>
   getInspectorReviewForWorkOrder R ''wo-1043'' = Some (seed_ir_2\<lparr>ir_status := IR_REJECTED\<rparr>) \<and>
   (ir_status (seed_ir_2\<lparr>ir_status := IR_REJECTED\<rparr>) \<in> {IR_REJECTED, IR_RETURNED_FOR_CORRECTION})"

lemma inspection_facts_hold: "inspection_facts world_1045_completed world_1043_rejected"
  by code_simp

lemma seed_inspections_eval:
  "getWorkOrderById world_1045_completed ''wo-1045'' = Some (seed_wo_1045\<lparr>wo_status := WO_COMPLETED\<rparr>) \<and>
   wo_status (seed_wo_1045\<lparr>wo_status := WO_COMPLETED\<rparr>) = WO_COMPLETED \<and>
   wo_assignedTechnicianId (seed_wo_1045\<lparr>wo_status := WO_COMPLETED\<rparr>) = Some ''tech-3'' \<and>
   getTechnicianById world_1045_completed ''tech-3'' = Some seed_tech_3 \<and>
   te_isInspector seed_tech_3 = Some True \<and>
   ''tech-3'' \<noteq> ''tech-1'' \<and>
   getWorkOrderById world_1043_rejected ''wo-1043'' = Some seed_wo_1043 \<and>
   wo_status seed_wo_1043 = WO_COMPLETED \<and>
   isInspectionRequired world_1043_rejected seed_wo_1043 \<and>
   fst (evaluateExecutionEvidenceGate world_1043_rejected seed_wo_1043 (task_of world_1043_rejected seed_wo_1043)) \<noteq> GS_FAIL \<and>
   getInspectorReviewForWorkOrder world_1043_rejected ''wo-1043'' = Some (seed_ir_2\<lparr>ir_status := IR_REJECTED\<rparr>) \<and>
   (ir_status (seed_ir_2\<lparr>ir_status := IR_REJECTED\<rparr>) \<in> {IR_REJECTED, IR_RETURNED_FOR_CORRECTION})"
  using inspection_facts_hold unfolding inspection_facts_def .

text \<open>The deferred item DEFER-3.  One evaluation proves the whole group; the facts are its parts.\<close>

lemma seed_deferrals_eval:
  "getDeferredItemById seed_world ''defer-3'' = Some seed_defer_3 \<and>
   di_status seed_defer_3 = DI_OPEN \<and>
   di_evidenceReferences seed_defer_3 = [] \<and>
   fst (closeDeferredItem seed_world ''no-such-item'') = None \<and>
   fst (getDeferredClosureReadiness seed_world ''defer-3'') = CLOSE_BLOCKED"
  by code_simp

text \<open>The due engine on the aircraft AC-1.  One evaluation proves the whole group; the facts are its parts.\<close>

definition due_facts :: "world \<Rightarrow> world \<Rightarrow> bool" where
  "due_facts W A \<longleftrightarrow>
   map_option (map ba_status) (basis_results W seed_mreq_1045 ''ac-1'') = Some [DUE_CURRENT] \<and>
   mr_calendarIntervalDays seed_mreq_1045 = Some 30 \<and>
   latestAccomplishment W (mr_id seed_mreq_1045) ''ac-1'' = Some seed_accm_1 \<and>
   ma_accomplishedDate seed_accm_1 = iso_date 2026 3 12 \<and>
   valid_date 2026 3 12 \<and>
   valid_date 2026 4 11 \<and>
   day_number 2026 4 11 = day_number 2026 3 12 + 30 \<and>
   day_number 2026 4 11 - day_number 2026 3 17 = 25 \<and>
   getAircraftById W ''ac-1'' = Some seed_ac_1 \<and>
   (map_option (map (\<lambda>(_, _, items). length items)) (getFleetMaintenanceDue A) = Some [1])"

lemma due_facts_hold: "due_facts seed_world one_aircraft"
  by code_simp

lemma seed_due_eval:
  "map_option (map ba_status) (basis_results seed_world seed_mreq_1045 ''ac-1'') = Some [DUE_CURRENT] \<and>
   mr_calendarIntervalDays seed_mreq_1045 = Some 30 \<and>
   latestAccomplishment seed_world (mr_id seed_mreq_1045) ''ac-1'' = Some seed_accm_1 \<and>
   ma_accomplishedDate seed_accm_1 = iso_date 2026 3 12 \<and>
   valid_date 2026 3 12 \<and>
   valid_date 2026 4 11 \<and>
   day_number 2026 4 11 = day_number 2026 3 12 + 30 \<and>
   day_number 2026 4 11 - day_number 2026 3 17 = 25 \<and>
   getAircraftById seed_world ''ac-1'' = Some seed_ac_1 \<and>
   (map_option (map (\<lambda>(_, _, items). length items)) (getFleetMaintenanceDue one_aircraft) = Some [1])"
  using due_facts_hold unfolding due_facts_def .

section \<open>Work orders and planning\<close>

theorem closed_work_orders_stay_closed_example:
  "\<exists>v. getWorkOrderById (run wo_step seed_world
          [Assign ''wo-1047'' ''tech-1'', Start ''wo-1047'', Unassign ''wo-1047'', Complete ''wo-1047'' ''2026-03-17''])
        ''wo-1047'' = Some v \<and>
      wo_status v = wo_status seed_wo_1047 \<and> wo_completionDate v = wo_completionDate seed_wo_1047"
  by (rule closed_work_orders_stay_closed) (simp_all add: seed_orders_eval)

theorem work_order_life_cycle_example:
  "\<exists>v. getWorkOrderById (run wo_step seed_world [Assign ''wo-1053'' ''tech-7'', Start ''wo-1053'']) ''wo-1053'' = Some v \<and>
      stage (wo_status seed_wo_1053) \<le> stage (wo_status v) \<and>
      (wo_status v = wo_status seed_wo_1053 \<or> wo_status v \<in> {WO_ASSIGNED, WO_IN_PROGRESS, WO_COMPLETED}) \<and>
      v\<lparr>wo_assignedTechnicianId := None, wo_status := WO_DRAFT, wo_completionDate := None,
        wo_priority := PR_LOW\<rparr> =
      seed_wo_1053\<lparr>wo_assignedTechnicianId := None, wo_status := WO_DRAFT, wo_completionDate := None,
        wo_priority := PR_LOW\<rparr>"
  by (rule work_order_life_cycle) (simp add: seed_orders_eval)

theorem planning_status_exact_example:
  "\<exists>r. getWorkOrderPlanningRow seed_world ''wo-1053'' = Some r \<and> pr_planningStatus r = PL_TECHNICIAN_BLOCKED"
proof -
  have h: "getWorkOrderById seed_world ''wo-1053'' = Some seed_wo_1053" "wo_open seed_wo_1053"
    using seed_orders_eval by blast+
  have "\<not> list_ex (\<lambda>p. pt_workOrderId p = Some ''wo-1053'' \<and> pt_status p \<noteq> PS_IN_STOCK) (parts seed_world)"
    "wo_status seed_wo_1053 = WO_DRAFT" "wo_assignedTechnicianId seed_wo_1053 = None"
    using seed_orders_eval by blast+
  then show ?thesis using planning_status_exact [OF h] by simp
qed

theorem recommendation_is_best_example:
  "\<exists>r w t. getTechnicianAssignmentRecommendation brake_world ''wo-1053'' = Some r \<and>
     getWorkOrderById brake_world ''wo-1053'' = Some w \<and> t \<in> set (technicians brake_world) \<and>
     trec_technicianId r = te_id t \<and> trec_reasons r \<noteq> []"
proof -
  have "map_option trec_technicianId (getTechnicianAssignmentRecommendation brake_world ''wo-1053'') = Some ''tech-7''"
    using seed_orders_eval by blast
  then obtain r where r: "getTechnicianAssignmentRecommendation brake_world ''wo-1053'' = Some r" by auto
  from recommendation_is_best [OF r] obtain w t
    where "getWorkOrderById brake_world ''wo-1053'' = Some w" "t \<in> set (technicians brake_world)"
      "trec_technicianId r = te_id t" "trec_reasons r \<noteq> []" by (elim exE conjE) (rule that)
  with r show ?thesis by (intro exI conjI)
qed

theorem authorization_exact_example:
  "\<exists>r. getTechnicianAuthorization seed_world ''tech-7'' ''wo-1053'' = Some r \<and> tar_status r = AUTHORIZED"
proof -
  have h: "getWorkOrderById seed_world ''wo-1053'' = Some seed_wo_1053"
    "seed_tech_7 \<in> set (technicians seed_world)" "distinct (map te_id (technicians seed_world))"
    using seed_orders_eval by blast+
  have "certificationKeywordMatches seed_tech_7 (wo_title seed_wo_1053) \<noteq> []" "isOnShiftNow seed_tech_7"
    "te_id seed_tech_7 = ''tech-7''" using seed_orders_eval by blast+
  then show ?thesis using authorization_exact [OF h] by simp
qed

section \<open>Evidence\<close>

lemma seed_evidence_invariant: "ev_inv seed_world"
  unfolding ev_inv_def
  by (simp add: seed_world_def empty_world_def seed_evidenceRecords_def seed_ev_exec_1_def
      seed_ev_exec_2_def seed_ev_exec_3_def live_id_def blank_note_def, code_simp)

theorem evidence_store_invariant_example:
  "ev_inv (run ev_step seed_world
     [Withdraw ''ev-exec-1'', Review ''ev-exec-3'' ''tech-5'' Reject (Some ''blurred'') ''2026-03-17T08:00:00Z''])"
  by (rule evidence_store_invariant) (rule seed_evidence_invariant)

theorem reviewed_evidence_persists_example:
  "\<exists>f. getEvidenceRecordById (run ev_step seed_world [Withdraw ''ev-exec-1'', Withdraw ''ev-exec-1'']) ''ev-exec-1'' = Some f \<and>
       er_status f \<noteq> ER_SUBMITTED"
  by (rule reviewed_evidence_persists [where e = seed_ev_exec_1]) (simp_all add: seed_evidence_eval)

theorem only_review_opens_evidence_gate_example:
  "fst (evaluateExecutionEvidenceGate (run ev_step seed_world [Withdraw ''ev-exec-3'']) seed_wo_1055 (Some seed_mtask_1055)) =
     fst (evaluateExecutionEvidenceGate seed_world seed_wo_1055 (Some seed_mtask_1055)) \<and>
   (fst (evaluateExecutionEvidenceGate seed_world seed_wo_1055 (Some seed_mtask_1055)) = GS_PASS \<longleftrightarrow>
     (\<exists>e \<in> set (evidenceRecords seed_world). er_workOrderId e = wo_id seed_wo_1055 \<and> er_status e = ER_ACCEPTED))"
  by (rule only_review_opens_evidence_gate) (use seed_evidence_eval in blast)+

section \<open>Gates, release, turnaround\<close>

theorem release_ready_exactly_when_example:
  "fst (getReleaseReadinessForWorkOrder seed_world ''wo-1047'') \<noteq> REL_READY"
proof -
  have "getWorkOrderById seed_world ''wo-1047'' = Some seed_wo_1047" using seed_orders_eval by blast
  from release_ready_exactly_when [OF this] have
    "fst (getReleaseReadinessForWorkOrder seed_world ''wo-1047'') = REL_READY \<Longrightarrow>
     \<exists>t. task_of seed_world seed_wo_1047 = Some t" by blast
  moreover have "task_of seed_world seed_wo_1047 = None" using seed_orders_eval by blast
  ultimately show ?thesis by auto
qed

theorem release_blocked_exactly_when_example:
  "fst (getReleaseReadinessForWorkOrder seed_world ''wo-1053'') = REL_BLOCKED"
proof -
  have "getWorkOrderById seed_world ''wo-1053'' = Some seed_wo_1053" using seed_orders_eval by blast
  moreover have "wo_open seed_wo_1053" "wo_assignedTechnicianId seed_wo_1053 = None" using seed_orders_eval by blast+
  ultimately show ?thesis using release_blocked_exactly_when by blast
qed


theorem eligible_inspectors_exact_example:
  "''tech-5'' \<in> set (map el_technicianId (getEligibleInspectorsForWorkOrder seed_world ''wo-1045''))"
proof -
  have "getWorkOrderById seed_world ''wo-1045'' = Some seed_wo_1045" using seed_orders_eval by blast
  moreover have "getTechnicianById seed_world ''tech-5'' = Some seed_tech_5"
    "te_isInspector seed_tech_5 = Some True" "wo_assignedTechnicianId seed_wo_1045 \<noteq> Some ''tech-5''"
    using seed_orders_eval by blast+
  ultimately show ?thesis using eligible_inspectors_exact by blast
qed

theorem reassignment_admits_performer_example:
  "''tech-3'' \<notin> set (map el_technicianId (getEligibleInspectorsForWorkOrder world_1045_completed ''wo-1045'')) \<and>
   ''tech-3'' \<in> set (map el_technicianId
      (getEligibleInspectorsForWorkOrder (snd (assignTechnician world_1045_completed ''wo-1045'' ''tech-1'')) ''wo-1045'')) \<and>
   map_option wo_status (getWorkOrderById (snd (assignTechnician world_1045_completed ''wo-1045'' ''tech-1'')) ''wo-1045'') =
     Some WO_COMPLETED"
  by (rule reassignment_admits_performer [where w = "seed_wo_1045\<lparr>wo_status := WO_COMPLETED\<rparr>" and t = seed_tech_3])
    (use seed_inspections_eval in blast)+

theorem rejected_inspection_passes_gate_example:
  "\<exists>g \<in> set (getSafetyGatesForWorkOrder world_1043_rejected ''wo-1043'').
    sg_type g = INSPECTION_GATE \<and> sg_state g = GS_PASS \<and> \<not> sg_open g \<and>
    sg_reason g = ''Required inspection has been completed and approved.'' \<and>
    getExecutionState world_1043_rejected seed_wo_1043 \<noteq> ES_RELEASED"
  by (rule rejected_inspection_passes_gate [where r = "seed_ir_2\<lparr>ir_status := IR_REJECTED\<rparr>"])
    (use seed_inspections_eval in blast)+

theorem turnaround_classification_example:
  "\<exists>a. getWorkOrderTatStatus seed_world ''wo-1054'' = Some a \<and> ta_status a = TAT_DELAYED \<and>
       ta_contributingBlockers a \<noteq> []"
proof -
  have h: "getWorkOrderById seed_world ''wo-1054'' = Some seed_wo_1054" "wo_open seed_wo_1054"
    "wo_dueDate seed_wo_1054 \<noteq> []" using seed_orders_eval by blast+
  have "isOverdue seed_wo_1054" using seed_orders_eval by blast
  with turnaround_classification [OF h] show ?thesis by simp
qed


section \<open>Deferred items\<close>

theorem closure_ready_exactly_when_example:
  "fst (getDeferredClosureReadiness seed_world ''defer-3'') = CLOSE_BLOCKED"
proof -
  have h: "getDeferredItemById seed_world ''defer-3'' = Some seed_defer_3" "di_status seed_defer_3 = DI_OPEN"
    using seed_deferrals_eval by blast+
  have "di_evidenceReferences seed_defer_3 = []" using seed_deferrals_eval by blast
  then show ?thesis using closure_ready_exactly_when [OF h] by blast
qed

theorem close_ignores_readiness_example:
  "fst (closeDeferredItem seed_world ''defer-3'') \<noteq> None \<and>
   fst (getDeferredClosureReadiness seed_world ''defer-3'') = CLOSE_BLOCKED \<and>
   snd (closeDeferredItem seed_world ''no-such-item'') = seed_world"
proof -
  have "getDeferredItemById seed_world ''defer-3'' = Some seed_defer_3" "di_status seed_defer_3 = DI_OPEN"
    using seed_deferrals_eval by blast+
  then have "fst (closeDeferredItem seed_world ''defer-3'') \<noteq> None"
    using close_ignores_readiness [of seed_world "''defer-3''" "[]"] by blast
  moreover have "fst (closeDeferredItem seed_world ''no-such-item'') = None" using seed_deferrals_eval by blast
  then have "snd (closeDeferredItem seed_world ''no-such-item'') = seed_world"
    using close_ignores_readiness [of seed_world "''no-such-item''" "[]"] by blast
  moreover have "fst (getDeferredClosureReadiness seed_world ''defer-3'') = CLOSE_BLOCKED" using seed_deferrals_eval by blast
  ultimately show ?thesis by blast
qed

section \<open>Due engine\<close>

text \<open>Requirement MREQ-1045, a calendar interval, on the aircraft AC-1.\<close>

theorem due_status_most_urgent_example:
  "\<exists>b. evaluateRequirementForAircraft seed_world seed_mreq_1045 ''ac-1'' = Some b \<and> ba_status b \<noteq> DUE_UNKNOWN"
proof -
  have "map_option (map ba_status) (basis_results seed_world seed_mreq_1045 ''ac-1'') = Some [DUE_CURRENT]"
    using seed_due_eval by blast
  then obtain rs where rs: "basis_results seed_world seed_mreq_1045 ''ac-1'' = Some rs"
      and "map ba_status rs = [DUE_CURRENT]" by auto
  then have "\<not> list_all (\<lambda>x. ba_status x = DUE_UNKNOWN) rs" by auto
  then show ?thesis using due_status_most_urgent [OF rs] by auto
qed

theorem calendar_basis_exact_example:
  "\<exists>b. evaluateCalendarBasis seed_world seed_mreq_1045 ''ac-1'' = Some (Some b) \<and>
       ba_nextDue b = iso_date 2026 4 11 \<and> ba_status b = DUE_CURRENT"
proof -
  have h: "mr_calendarIntervalDays seed_mreq_1045 = Some 30"
    "latestAccomplishment seed_world (mr_id seed_mreq_1045) ''ac-1'' = Some seed_accm_1"
    "ma_accomplishedDate seed_accm_1 = iso_date 2026 3 12" "valid_date 2026 3 12"
    "valid_date 2026 4 11" "day_number 2026 4 11 = day_number 2026 3 12 + 30"
    using seed_due_eval by blast+
  have "day_number 2026 4 11 - day_number 2026 3 17 = 25" using seed_due_eval by blast
  then show ?thesis using calendar_basis_exact [OF h] by simp
qed

theorem utilization_needs_provenance_example:
  "\<exists>b. evaluateUtilizationBasis seed_world seed_mreq_1042 ''ac-1'' FH = Some b \<and> ba_status b \<noteq> DUE_DUE"
proof -
  have a: "getAircraftById seed_world ''ac-1'' = Some seed_ac_1" using seed_due_eval by blast
  obtain b where b: "evaluateUtilizationBasis seed_world seed_mreq_1042 ''ac-1'' FH = Some b"
    by (simp add: evaluateUtilizationBasis_def seed_mreq_1042_def)
  from utilization_needs_provenance [OF a b] b show ?thesis by blast
qed

theorem due_summary_total_example:
  "\<exists>s. getFleetMaintenanceDueSummary one_aircraft = Some s \<and>
       fds_current s + fds_dueSoon s + fds_due s + fds_overdue s + fds_unknown s = 1"
proof -
  have "map_option (map (\<lambda>(_, _, items). length items)) (getFleetMaintenanceDue one_aircraft) = Some [1]"
    using seed_due_eval by blast
  then obtain fleet where f: "getFleetMaintenanceDue one_aircraft = Some fleet"
      and "map (\<lambda>(_, _, items). length items) fleet = [1]" by auto
  then show ?thesis using due_summary_total [OF f] by auto
qed

end
