(* ===== verification/Json.thy ===== *)
theory Json
  imports Prelude
begin

text \<open>
  JSON values, as \<open>JSON.stringify\<close> sends them and \<open>response.json()\<close> returns them: the request bodies,
  the response bodies and the fields of no declared shape (\<open>Record<string, any>\<close>) of the client code
  under \<open>src/frontend/lib\<close>. An object is the list of its fields in order. A field that is
  \<open>undefined\<close> is not sent, so it is not in the list.
\<close>

datatype json =
    JNull
  | JBool bool
  | JNum rat
  | JStr string
  | JArr "json list"
  | JObj "(string \<times> json) list"

text \<open>\<open>value?.name\<close>: \<open>None\<close> for \<open>undefined\<close>.\<close>

definition json_field :: "json \<Rightarrow> string \<Rightarrow> json option" where
  "json_field v k = (case v of JObj fs \<Rightarrow> map_of fs k | _ \<Rightarrow> None)"

text \<open>A field whose value may be undefined.\<close>

definition field_if :: "string \<Rightarrow> json option \<Rightarrow> (string \<times> json) list" where
  "field_if k v = (case v of None \<Rightarrow> [] | Some x \<Rightarrow> [(k, x)])"

definition jstr :: "string option \<Rightarrow> json" where
  "jstr s = (case s of None \<Rightarrow> JNull | Some x \<Rightarrow> JStr x)"

lemma json_field_simps [simp]:
  "json_field JNull k = None" "json_field (JBool b) k = None" "json_field (JNum n) k = None"
  "json_field (JStr s) k = None" "json_field (JArr l) k = None"
  "json_field (JObj fs) k = map_of fs k"
  by (simp_all add: json_field_def)

lemma field_if_simps [simp]:
  "field_if k None = []" "field_if k (Some x) = [(k, x)]"
  by (simp_all add: field_if_def)

end
