(* ===== verification/Requests.thy ===== *)
theory Requests
  imports Json
begin

text \<open>
  What the typed clients under \<open>src/frontend/lib/api\<close> hand to \<open>apiRequest\<close> and \<open>apiUploadFile\<close>: the
  method, the path with its query, the access token and the body. This theory has the request record
  and the pieces of the JavaScript library the paths are built with: \<open>encodeURIComponent\<close>,
  \<open>URLSearchParams\<close> and \<open>JSON.stringify\<close>. A string is the list of its UTF-8 bytes, so percent
  encoding works byte by byte. Decoding what was encoded gives it back, and a query read back gives the
  parameters it was built from.
\<close>

section \<open>Percent encoding\<close>

definition hex_char :: "nat \<Rightarrow> char" where
  "hex_char n = (if n < 10 then char_of (n + 48) else char_of (n + 55))"

definition hex_val :: "char \<Rightarrow> nat" where
  "hex_val c = (if of_char c < (58::nat) then of_char c - 48 else of_char c - 55)"

definition percent_char :: "char \<Rightarrow> string" where
  "percent_char c = [CHR ''%'', hex_char (of_char c div 16), hex_char (of_char c mod 16)]"

text \<open>\<open>keep\<close>: the bytes that are not escaped, \<open>plain\<close>: what they are written as.\<close>

definition percent_encode :: "(char \<Rightarrow> bool) \<Rightarrow> (char \<Rightarrow> char) \<Rightarrow> string \<Rightarrow> string" where
  "percent_encode keep plain s = concat (map (\<lambda>c. if keep c then [plain c] else percent_char c) s)"

fun percent_decode :: "(char \<Rightarrow> char) \<Rightarrow> string \<Rightarrow> string" where
  "percent_decode unplain [] = []"
| "percent_decode unplain [c] = [unplain c]"
| "percent_decode unplain [c, d] = [unplain c, unplain d]"
| "percent_decode unplain (c # d # e # s) =
     (if c = CHR ''%'' then char_of (16 * hex_val d + hex_val e) # percent_decode unplain s
      else unplain c # percent_decode unplain (d # e # s))"

definition is_alnum :: "char \<Rightarrow> bool" where
  "is_alnum c \<longleftrightarrow> (let n = of_char c :: nat in 48 \<le> n \<and> n \<le> 57 \<or> 65 \<le> n \<and> n \<le> 90 \<or> 97 \<le> n \<and> n \<le> 122)"

definition uri_keep :: "char \<Rightarrow> bool" where
  "uri_keep c \<longleftrightarrow> is_alnum c \<or> c \<in> set ''-_.!~*()'' \<or> c = CHR 0x27"

definition encodeURIComponent :: "string \<Rightarrow> string" where
  "encodeURIComponent s = percent_encode uri_keep (\<lambda>c. c) s"

definition decodeURIComponent :: "string \<Rightarrow> string" where
  "decodeURIComponent s = percent_decode (\<lambda>c. c) s"

text \<open>\<open>application/x-www-form-urlencoded\<close>, as \<open>URLSearchParams\<close> writes it.\<close>

definition form_keep :: "char \<Rightarrow> bool" where
  "form_keep c \<longleftrightarrow> is_alnum c \<or> c \<in> set ''*-._ ''"

definition form_plain :: "char \<Rightarrow> char" where
  "form_plain c = (if c = CHR '' '' then CHR ''+'' else c)"

definition form_back :: "char \<Rightarrow> char" where
  "form_back c = (if c = CHR ''+'' then CHR '' '' else c)"

definition form_encode :: "string \<Rightarrow> string" where
  "form_encode s = percent_encode form_keep form_plain s"

definition form_decode :: "string \<Rightarrow> string" where
  "form_decode s = percent_decode form_back s"

lemma hex_val_char: "n < 16 \<Longrightarrow> hex_val (hex_char n) = n"
  by (simp add: hex_val_def hex_char_def)

lemma percent_char_val: "char_of (16 * hex_val (hex_char (of_char c div 16)) + hex_val (hex_char (of_char c mod 16))) = c"
proof -
  have "of_char c < (256::nat)" by simp
  then have "of_char c div 16 < (16::nat)" by (intro less_mult_imp_div_less) simp
  then show ?thesis by (simp add: hex_val_char)
qed

lemma is_alnum_hex: "n < 16 \<Longrightarrow> is_alnum (hex_char n)"
  by (simp add: is_alnum_def hex_char_def Let_def)

locale percent_code =
  fixes keep :: "char \<Rightarrow> bool" and plain :: "char \<Rightarrow> char" and unplain :: "char \<Rightarrow> char"
  assumes unplain_plain: "keep c \<Longrightarrow> unplain (plain c) = c"
    and plain_percent: "keep c \<Longrightarrow> plain c \<noteq> CHR ''%''"
begin

lemma decode_kept: "keep c \<Longrightarrow> percent_decode unplain (plain c # s) = c # percent_decode unplain s"
  by (cases s rule: remdups_adj.cases) (auto simp: unplain_plain plain_percent)

lemma decode_percent: "percent_decode unplain (percent_char c @ s) = c # percent_decode unplain s"
  by (simp add: percent_char_def percent_char_val)

lemma decode_encode: "percent_decode unplain (percent_encode keep plain s) = s"
proof (induction s)
  case Nil
  then show ?case by (simp add: percent_encode_def)
next
  case (Cons c s)
  then show ?case
    by (cases "keep c") (simp_all add: percent_encode_def decode_kept decode_percent)
qed

text \<open>The bytes of an encoded string.\<close>

lemma encode_bytes:
  "c \<in> set (percent_encode keep plain s) \<Longrightarrow> c = CHR ''%'' \<or> is_alnum c \<or> (\<exists>d. keep d \<and> c = plain d)"
proof (induction s)
  case Nil
  then show ?case by (simp add: percent_encode_def)
next
  case (Cons d s)
  have "of_char d < (256::nat)" by simp
  then have "of_char d div 16 < (16::nat)" by (intro less_mult_imp_div_less) simp
  then show ?case
    using Cons is_alnum_hex [of "of_char d div 16"] is_alnum_hex [of "of_char d mod 16"]
    by (auto simp: percent_encode_def percent_char_def split: if_splits)
qed

lemma encode_avoids:
  assumes "x \<noteq> CHR ''%''" and "\<not> is_alnum x" and "\<And>d. keep d \<Longrightarrow> plain d \<noteq> x"
  shows "x \<notin> set (percent_encode keep plain s)"
  using encode_bytes [of x s] assms by auto

end

interpretation uri: percent_code uri_keep "\<lambda>c. c" "\<lambda>c. c"
  by unfold_locales (auto simp: uri_keep_def is_alnum_def Let_def)

interpretation form: percent_code form_keep form_plain form_back
  by unfold_locales (auto simp: form_keep_def form_plain_def form_back_def is_alnum_def Let_def)

section \<open>Query strings\<close>

text \<open>\<open>URLSearchParams\<close>: the pairs in order; \<open>set\<close> replaces the value of a name or appends the pair.\<close>

type_synonym query = "(string \<times> string) list"

fun query_set :: "string \<Rightarrow> string \<Rightarrow> query \<Rightarrow> query" where
  "query_set k v [] = [(k, v)]"
| "query_set k v ((k', v') # q) =
     (if k = k' then (k, v) # filter (\<lambda>p. fst p \<noteq> k) q else (k', v') # query_set k v q)"

definition query_pair :: "string \<times> string \<Rightarrow> string" where
  "query_pair p = form_encode (fst p) @ ''='' @ form_encode (snd p)"

definition query_text :: "query \<Rightarrow> string" where
  "query_text q = join ''&'' (map query_pair q)"

text \<open>A value that is undefined or empty is falsy.\<close>

definition truthy_text :: "string option \<Rightarrow> string option" where
  "truthy_text v = (case v of None \<Rightarrow> None | Some x \<Rightarrow> if x = [] then None else Some x)"

definition set_if_text :: "string \<Rightarrow> string option \<Rightarrow> query \<Rightarrow> query" where
  "set_if_text k v q = (case truthy_text v of None \<Rightarrow> q | Some x \<Rightarrow> query_set k x q)"

text \<open>\<open>if (n !== undefined)\<close> and \<open>if (n)\<close> on a number.\<close>

definition set_if_defined :: "string \<Rightarrow> int option \<Rightarrow> query \<Rightarrow> query" where
  "set_if_defined k v q = (case v of None \<Rightarrow> q | Some n \<Rightarrow> query_set k (show_int n) q)"

definition set_if_nonzero :: "string \<Rightarrow> int option \<Rightarrow> query \<Rightarrow> query" where
  "set_if_nonzero k v q = (case v of None \<Rightarrow> q | Some n \<Rightarrow> if n = 0 then q else query_set k (show_int n) q)"

text \<open>\<open>qs ? `?${qs}` : ""\<close>.\<close>

definition query_suffix :: "query \<Rightarrow> string" where
  "query_suffix q = (if query_text q = [] then [] else ''?'' @ query_text q)"

section \<open>Reading a query back\<close>

fun split_on :: "char \<Rightarrow> string \<Rightarrow> string list" where
  "split_on x [] = [[]]"
| "split_on x (c # s) =
     (if c = x then [] # split_on x s
      else (case split_on x s of [] \<Rightarrow> [[c]] | w # ws \<Rightarrow> (c # w) # ws))"

definition read_pair :: "string \<Rightarrow> string \<times> string" where
  "read_pair s = (form_decode (takeWhile (\<lambda>c. c \<noteq> CHR ''='') s), form_decode (drop 1 (dropWhile (\<lambda>c. c \<noteq> CHR ''='') s)))"

definition read_query :: "string \<Rightarrow> query" where
  "read_query s = (if s = [] then [] else map read_pair (split_on CHR ''&'' s))"

lemma split_on_ne [simp]: "split_on x s \<noteq> []"
  by (induction s) (auto split: list.split)

lemma split_on_none: "x \<notin> set s \<Longrightarrow> split_on x s = [s]"
  by (induction s) auto

lemma split_on_cons: "x \<notin> set w \<Longrightarrow> split_on x (w @ x # s) = w # split_on x s"
  by (induction w) auto

lemma split_on_join:
  "ws \<noteq> [] \<Longrightarrow> (\<And>w. w \<in> set ws \<Longrightarrow> x \<notin> set w) \<Longrightarrow> split_on x (join [x] ws) = ws"
proof (induction ws rule: induct_list012)
  case (3 v w ws)
  then show ?case by (simp add: split_on_cons)
qed (simp_all add: split_on_none)

lemma form_encode_avoids:
  "CHR ''&'' \<notin> set (form_encode s)" "CHR ''='' \<notin> set (form_encode s)" "CHR ''#'' \<notin> set (form_encode s)"
  "CHR ''?'' \<notin> set (form_encode s)"
  unfolding form_encode_def
  by (intro form.encode_avoids; auto simp: is_alnum_def form_keep_def form_plain_def Let_def split: if_splits)+

lemma stop_at:
  "x \<notin> set w \<Longrightarrow> takeWhile (\<lambda>c. c \<noteq> x) (w @ x # v) = w"
  "x \<notin> set w \<Longrightarrow> dropWhile (\<lambda>c. c \<noteq> x) (w @ x # v) = x # v"
  by (induction w) auto

lemma read_pair_text: "read_pair (query_pair p) = p"
proof -
  have e: "takeWhile (\<lambda>c. c \<noteq> CHR ''='') (form_encode k @ CHR ''='' # v) = form_encode k"
      "dropWhile (\<lambda>c. c \<noteq> CHR ''='') (form_encode k @ CHR ''='' # v) = CHR ''='' # v" for k v
    using form_encode_avoids(2) [of k] by (simp_all add: stop_at)
  have d: "form_decode (form_encode s) = s" for s
    by (simp add: form_decode_def form_encode_def form.decode_encode)
  show ?thesis
    by (simp add: read_pair_def query_pair_def e d prod_eq_iff)
qed

lemma query_pair_ne [simp]: "query_pair p \<noteq> []"
  by (simp add: query_pair_def)

lemma join_ne: "ws \<noteq> [] \<Longrightarrow> [] \<notin> set ws \<Longrightarrow> join sep ws \<noteq> []"
  by (cases ws rule: remdups_adj.cases) auto

lemma query_text_empty [simp]: "query_text q = [] \<longleftrightarrow> q = []"
proof
  assume a: "query_text q = []"
  show "q = []"
  proof (rule ccontr)
    assume "q \<noteq> []"
    then have "join ''&'' (map query_pair q) \<noteq> []" by (intro join_ne) (auto simp: query_pair_def)
    with a show False by (simp add: query_text_def)
  qed
qed (simp add: query_text_def)

lemma read_query_text: "read_query (query_text q) = q"
proof (cases q)
  case Nil
  then show ?thesis by (simp add: read_query_def query_text_def)
next
  case (Cons p q')
  have "\<forall>w \<in> set (map query_pair q). CHR ''&'' \<notin> set w"
    by (simp add: query_pair_def form_encode_avoids)
  then have "split_on CHR ''&'' (query_text q) = map query_pair q"
    unfolding query_text_def using Cons by (intro split_on_join) blast+
  then show ?thesis
    using Cons by (simp add: read_query_def read_pair_text map_idI)
qed

section \<open>Requests\<close>

record upload_file =
  ufile_name :: string
  ufile_type :: string
  ufile_size :: int

datatype request_body = NoBody | JsonBody json | FormFile upload_file

text \<open>\<open>timeoutMs\<close> and \<open>retryOnNetworkFailure\<close> are only set by the login.\<close>

record request =
  rq_method :: string
  rq_path :: string
  rq_token :: "string option"
  rq_body :: request_body
  rq_timeout :: "int option"
  rq_retry :: bool

definition json_request :: "string \<Rightarrow> string \<Rightarrow> string \<Rightarrow> request_body \<Rightarrow> request" where
  "json_request method token path body = \<lparr>rq_method = method, rq_path = path, rq_token = Some token,
     rq_body = body, rq_timeout = None, rq_retry = False\<rparr>"

definition public_request :: "string \<Rightarrow> string \<Rightarrow> request_body \<Rightarrow> request" where
  "public_request method path body = \<lparr>rq_method = method, rq_path = path, rq_token = None,
     rq_body = body, rq_timeout = None, rq_retry = False\<rparr>"

definition upload_request :: "string \<Rightarrow> string \<Rightarrow> upload_file \<Rightarrow> request" where
  "upload_request token path file = \<lparr>rq_method = ''POST'', rq_path = path, rq_token = Some token,
     rq_body = FormFile file, rq_timeout = None, rq_retry = False\<rparr>"

text \<open>\<open>{ ...fields, ...value }\<close>: a name of the second object replaces the first one's value, in its place.\<close>

fun json_put :: "(string \<times> json) list \<Rightarrow> string \<times> json \<Rightarrow> (string \<times> json) list" where
  "json_put [] p = [p]"
| "json_put (q # fs) p = (if fst q = fst p then p # fs else q # json_put fs p)"

definition json_spread :: "(string \<times> json) list \<Rightarrow> json \<Rightarrow> json" where
  "json_spread fs v = (case v of JObj gs \<Rightarrow> JObj (foldl json_put fs gs) | _ \<Rightarrow> JObj fs)"

section \<open>JSON text\<close>

definition json_escape :: "char \<Rightarrow> string" where
  "json_escape c =
     (let n = of_char c :: nat in
      if n = 34 then [CHR 0x5C, c] else if n = 92 then [CHR 0x5C, c]
      else if n = 8 then [CHR 0x5C, CHR ''b''] else if n = 12 then [CHR 0x5C, CHR ''f'']
      else if n = 10 then [CHR 0x5C, CHR ''n''] else if n = 13 then [CHR 0x5C, CHR ''r'']
      else if n = 9 then [CHR 0x5C, CHR ''t'']
      else if n < 32 then [CHR 0x5C, CHR ''u'', CHR ''0'', CHR ''0'', digit_char (n div 16),
        (if n mod 16 < 10 then digit_char (n mod 16) else char_of (n mod 16 + 87))]
      else [c])"

definition json_quote :: "string \<Rightarrow> string" where
  "json_quote s = CHR 0x22 # concat (map json_escape s) @ [CHR 0x22]"

text \<open>\<open>JSON.stringify\<close>.\<close>

fun json_text :: "json \<Rightarrow> string" where
  "json_text JNull = ''null''"
| "json_text (JBool b) = (if b then ''true'' else ''false'')"
| "json_text (JNum n) = show_num n"
| "json_text (JStr s) = json_quote s"
| "json_text (JArr vs) = ''['' @ join '','' (map json_text vs) @ '']''"
| "json_text (JObj fs) = ''{'' @ join '','' (map (\<lambda>(k, v). json_quote k @ '':'' @ json_text v) fs) @ ''}''"

end
