(* ===== verification/ApiFleet.thy ===== *)
theory ApiFleet
  imports Requests
begin

text \<open>
  The clients of the fleet: aircraft, assets, drones, missions, facilities and the control center.
  One definition per method of the clients under \<open>src/frontend/lib/api\<close>: the request it makes.
  A payload that is sent as it is given is a \<open>json\<close>; an optional argument is an option.
\<close>

record LifecyclePageParams =
  page_limit :: "int option"
  page_offset :: "int option"

record MissionQueryParams =
  mquery_asset_id :: "string option"
  mquery_status :: "string option"
  mquery_limit :: "int option"
  mquery_offset :: "int option"

text \<open>One part of a hand-written query: \<open>if (x) parts.push(`k=${encodeURIComponent(x)}`)\<close>, and for a
  number \<open>if (x !== undefined) parts.push(`k=${x}`)\<close>.\<close>

definition text_part :: "string \<Rightarrow> string option \<Rightarrow> string list" where
  "text_part k v = (case truthy_text v of None \<Rightarrow> [] | Some x \<Rightarrow> [k @ ''='' @ encodeURIComponent x])"

definition number_part :: "string \<Rightarrow> int option \<Rightarrow> string list" where
  "number_part k v = (case v of None \<Rightarrow> [] | Some n \<Rightarrow> [k @ ''='' @ show_int n])"

text \<open>\<open>parts.length > 0 ? `?${parts.join("&")}` : ""\<close>.\<close>

definition parts_suffix :: "string list \<Rightarrow> string" where
  "parts_suffix parts = (if length parts > 0 then ''?'' @ join ''&'' parts else [])"

definition lifecycleQuery :: "LifecyclePageParams option \<Rightarrow> string" where
  "lifecycleQuery params = (case params of
     None \<Rightarrow> []
   | Some p \<Rightarrow> parts_suffix (number_part ''limit'' (page_limit p) @ number_part ''offset'' (page_offset p)))"

definition missionQuery :: "MissionQueryParams option \<Rightarrow> string" where
  "missionQuery params = (case params of
     None \<Rightarrow> []
   | Some p \<Rightarrow> parts_suffix (text_part ''asset_id'' (mquery_asset_id p) @ text_part ''status'' (mquery_status p) @
       number_part ''limit'' (mquery_limit p) @ number_part ''offset'' (mquery_offset p)))"

section \<open>\<open>aircraft.ts\<close>\<close>

definition aircraftApi_list :: "string \<Rightarrow> request" where
  "aircraftApi_list accessToken = json_request ''GET'' accessToken ''/aircraft'' NoBody"

definition aircraftApi_get :: "string \<Rightarrow> string \<Rightarrow> request" where
  "aircraftApi_get accessToken aircraftId = json_request ''GET'' accessToken (''/aircraft/'' @ aircraftId) NoBody"

definition aircraftApi_create :: "string \<Rightarrow> json \<Rightarrow> request" where
  "aircraftApi_create accessToken data = json_request ''POST'' accessToken ''/aircraft'' (JsonBody data)"

definition aircraftApi_update :: "string \<Rightarrow> string \<Rightarrow> json \<Rightarrow> request" where
  "aircraftApi_update accessToken aircraftId data =
     json_request ''PATCH'' accessToken (''/aircraft/'' @ aircraftId) (JsonBody data)"

section \<open>\<open>assets.ts\<close>\<close>

definition assetsApi_listAssets ::
  "string \<Rightarrow> string option \<Rightarrow> string option \<Rightarrow> string option \<Rightarrow> request" where
  "assetsApi_listAssets accessToken asset_type status search =
     json_request ''GET'' accessToken (''/assets'' @ query_suffix
       (set_if_text ''search'' search (set_if_text ''status'' status (set_if_text ''asset_type'' asset_type [])))) NoBody"

definition assetsApi_getAsset :: "string \<Rightarrow> string \<Rightarrow> request" where
  "assetsApi_getAsset accessToken assetId = json_request ''GET'' accessToken (''/assets/'' @ assetId) NoBody"

definition assetsApi_createAsset :: "string \<Rightarrow> json \<Rightarrow> request" where
  "assetsApi_createAsset accessToken data = json_request ''POST'' accessToken ''/assets'' (JsonBody data)"

definition assetsApi_updateAsset :: "string \<Rightarrow> string \<Rightarrow> json \<Rightarrow> request" where
  "assetsApi_updateAsset accessToken assetId data =
     json_request ''PATCH'' accessToken (''/assets/'' @ assetId) (JsonBody data)"

definition assetsApi_deleteAsset ::
  "string \<Rightarrow> string \<Rightarrow> string option \<Rightarrow> request" where
  "assetsApi_deleteAsset accessToken assetId reason =
     (let qs = (case truthy_text reason of None \<Rightarrow> [] | Some r \<Rightarrow> ''?reason='' @ encodeURIComponent r)
      in json_request ''DELETE'' accessToken (''/assets/'' @ assetId @ qs) NoBody)"

definition assetsApi_getConfiguration :: "string \<Rightarrow> string \<Rightarrow> request" where
  "assetsApi_getConfiguration accessToken assetId =
     json_request ''GET'' accessToken (''/assets/'' @ assetId @ ''/configuration'') NoBody"

definition assetsApi_getComponents :: "string \<Rightarrow> string \<Rightarrow> request" where
  "assetsApi_getComponents accessToken assetId =
     json_request ''GET'' accessToken (''/assets/'' @ assetId @ ''/components'') NoBody"

definition assetsApi_installComponent :: "string \<Rightarrow> string \<Rightarrow> json \<Rightarrow> request" where
  "assetsApi_installComponent accessToken assetId data =
     json_request ''POST'' accessToken (''/assets/'' @ assetId @ ''/components'') (JsonBody data)"

definition assetsApi_removeComponent :: "string \<Rightarrow> string \<Rightarrow> string \<Rightarrow> request" where
  "assetsApi_removeComponent accessToken assetId componentId =
     json_request ''DELETE'' accessToken (''/assets/'' @ assetId @ ''/components/'' @ componentId) NoBody"

definition assetsApi_getOperations :: "string \<Rightarrow> string \<Rightarrow> request" where
  "assetsApi_getOperations accessToken assetId =
     json_request ''GET'' accessToken (''/assets/'' @ assetId @ ''/operations'') NoBody"

definition assetsApi_recordFlight :: "string \<Rightarrow> string \<Rightarrow> json \<Rightarrow> request" where
  "assetsApi_recordFlight accessToken assetId data =
     json_request ''POST'' accessToken (''/assets/'' @ assetId @ ''/flights'') (JsonBody data)"

definition assetsApi_getUtilization :: "string \<Rightarrow> string \<Rightarrow> request" where
  "assetsApi_getUtilization accessToken assetId =
     json_request ''GET'' accessToken (''/assets/'' @ assetId @ ''/utilization'') NoBody"

definition assetsApi_getMaintenance :: "string \<Rightarrow> string \<Rightarrow> request" where
  "assetsApi_getMaintenance accessToken assetId =
     json_request ''GET'' accessToken (''/assets/'' @ assetId @ ''/maintenance'') NoBody"

definition assetsApi_getInspections :: "string \<Rightarrow> string \<Rightarrow> request" where
  "assetsApi_getInspections accessToken assetId =
     json_request ''GET'' accessToken (''/assets/'' @ assetId @ ''/inspections'') NoBody"

definition assetsApi_getEvidence :: "string \<Rightarrow> string \<Rightarrow> request" where
  "assetsApi_getEvidence accessToken assetId =
     json_request ''GET'' accessToken (''/assets/'' @ assetId @ ''/evidence'') NoBody"

definition assetsApi_getFindings :: "string \<Rightarrow> string \<Rightarrow> request" where
  "assetsApi_getFindings accessToken assetId =
     json_request ''GET'' accessToken (''/assets/'' @ assetId @ ''/findings'') NoBody"

definition assetsApi_getCompliance :: "string \<Rightarrow> string \<Rightarrow> request" where
  "assetsApi_getCompliance accessToken assetId =
     json_request ''GET'' accessToken (''/assets/'' @ assetId @ ''/compliance'') NoBody"

definition assetsApi_getReadiness :: "string \<Rightarrow> string \<Rightarrow> request" where
  "assetsApi_getReadiness accessToken assetId =
     json_request ''GET'' accessToken (''/assets/'' @ assetId @ ''/readiness'') NoBody"

definition assetsApi_getHistory :: "string \<Rightarrow> string \<Rightarrow> request" where
  "assetsApi_getHistory accessToken assetId =
     json_request ''GET'' accessToken (''/assets/'' @ assetId @ ''/history'') NoBody"

definition assetsApi_getContext :: "string \<Rightarrow> string \<Rightarrow> request" where
  "assetsApi_getContext accessToken assetId =
     json_request ''GET'' accessToken (''/assets/'' @ assetId @ ''/context'') NoBody"

definition assetsApi_createBaseline :: "string \<Rightarrow> string \<Rightarrow> json \<Rightarrow> request" where
  "assetsApi_createBaseline accessToken assetId data =
     json_request ''POST'' accessToken (''/assets/'' @ assetId @ ''/baseline'') (JsonBody data)"

definition assetsApi_getBaseline :: "string \<Rightarrow> string \<Rightarrow> request" where
  "assetsApi_getBaseline accessToken assetId =
     json_request ''GET'' accessToken (''/assets/'' @ assetId @ ''/baseline'') NoBody"

definition assetsApi_listBaselines :: "string \<Rightarrow> string \<Rightarrow> request" where
  "assetsApi_listBaselines accessToken assetId =
     json_request ''GET'' accessToken (''/assets/'' @ assetId @ ''/baselines'') NoBody"

section \<open>\<open>drones.ts\<close>\<close>

definition dronesApi_listDrones :: "string \<Rightarrow> request" where
  "dronesApi_listDrones accessToken = json_request ''GET'' accessToken ''/drones'' NoBody"

definition dronesApi_createDrone :: "string \<Rightarrow> json \<Rightarrow> request" where
  "dronesApi_createDrone accessToken payload = json_request ''POST'' accessToken ''/drones'' (JsonBody payload)"

definition dronesApi_getDrone :: "string \<Rightarrow> string \<Rightarrow> request" where
  "dronesApi_getDrone accessToken assetId = json_request ''GET'' accessToken (''/drones/'' @ assetId) NoBody"

definition dronesApi_updateDrone :: "string \<Rightarrow> string \<Rightarrow> json \<Rightarrow> request" where
  "dronesApi_updateDrone accessToken assetId payload =
     json_request ''PATCH'' accessToken (''/drones/'' @ assetId) (JsonBody payload)"

definition dronesApi_listBatteries :: "string \<Rightarrow> string \<Rightarrow> request" where
  "dronesApi_listBatteries accessToken assetId =
     json_request ''GET'' accessToken (''/drones/'' @ assetId @ ''/batteries'') NoBody"

definition dronesApi_attachBattery :: "string \<Rightarrow> string \<Rightarrow> json \<Rightarrow> request" where
  "dronesApi_attachBattery accessToken assetId payload =
     json_request ''POST'' accessToken (''/drones/'' @ assetId @ ''/batteries'') (JsonBody payload)"

definition dronesApi_updateBattery :: "string \<Rightarrow> string \<Rightarrow> json \<Rightarrow> request" where
  "dronesApi_updateBattery accessToken batteryId payload =
     json_request ''PATCH'' accessToken (''/batteries/'' @ batteryId) (JsonBody payload)"

definition dronesApi_listComponents :: "string \<Rightarrow> string \<Rightarrow> request" where
  "dronesApi_listComponents accessToken assetId =
     json_request ''GET'' accessToken (''/drones/'' @ assetId @ ''/components'') NoBody"

definition dronesApi_attachComponent :: "string \<Rightarrow> string \<Rightarrow> json \<Rightarrow> request" where
  "dronesApi_attachComponent accessToken assetId payload =
     json_request ''POST'' accessToken (''/drones/'' @ assetId @ ''/components'') (JsonBody payload)"

definition dronesApi_listFlights :: "string \<Rightarrow> string \<Rightarrow> LifecyclePageParams option \<Rightarrow> request" where
  "dronesApi_listFlights accessToken assetId params =
     json_request ''GET'' accessToken (''/drones/'' @ assetId @ ''/flights'' @ lifecycleQuery params) NoBody"

definition dronesApi_getFlight :: "string \<Rightarrow> string \<Rightarrow> request" where
  "dronesApi_getFlight accessToken flightId = json_request ''GET'' accessToken (''/flights/'' @ flightId) NoBody"

definition dronesApi_recordFlight :: "string \<Rightarrow> string \<Rightarrow> json \<Rightarrow> request" where
  "dronesApi_recordFlight accessToken assetId payload =
     json_request ''POST'' accessToken (''/drones/'' @ assetId @ ''/flights'') (JsonBody payload)"

definition dronesApi_getUtilization :: "string \<Rightarrow> string \<Rightarrow> request" where
  "dronesApi_getUtilization accessToken assetId =
     json_request ''GET'' accessToken (''/drones/'' @ assetId @ ''/utilization'') NoBody"

definition dronesApi_getDeploymentReadiness :: "string \<Rightarrow> string \<Rightarrow> request" where
  "dronesApi_getDeploymentReadiness accessToken assetId =
     json_request ''GET'' accessToken (''/drones/'' @ assetId @ ''/deployment-readiness'') NoBody"

definition dronesApi_getBattery :: "string \<Rightarrow> string \<Rightarrow> request" where
  "dronesApi_getBattery accessToken batteryId = json_request ''GET'' accessToken (''/batteries/'' @ batteryId) NoBody"

definition dronesApi_getBatteryHistory :: "string \<Rightarrow> string \<Rightarrow> LifecyclePageParams option \<Rightarrow> request" where
  "dronesApi_getBatteryHistory accessToken batteryId params =
     json_request ''GET'' accessToken (''/batteries/'' @ batteryId @ ''/history'' @ lifecycleQuery params) NoBody"

definition dronesApi_getComponent :: "string \<Rightarrow> string \<Rightarrow> request" where
  "dronesApi_getComponent accessToken componentId =
     json_request ''GET'' accessToken (''/components/'' @ componentId) NoBody"

definition dronesApi_getComponentHistory :: "string \<Rightarrow> string \<Rightarrow> LifecyclePageParams option \<Rightarrow> request" where
  "dronesApi_getComponentHistory accessToken componentId params =
     json_request ''GET'' accessToken (''/components/'' @ componentId @ ''/history'' @ lifecycleQuery params) NoBody"

definition dronesApi_getAssetLifecycleHistory :: "string \<Rightarrow> string \<Rightarrow> LifecyclePageParams option \<Rightarrow> request" where
  "dronesApi_getAssetLifecycleHistory accessToken assetId params =
     json_request ''GET'' accessToken (''/drones/'' @ assetId @ ''/lifecycle-history'' @ lifecycleQuery params) NoBody"

definition dronesApi_getMaintenanceDue :: "string \<Rightarrow> string \<Rightarrow> request" where
  "dronesApi_getMaintenanceDue accessToken assetId =
     json_request ''GET'' accessToken (''/drones/'' @ assetId @ ''/maintenance-due'') NoBody"

definition dronesApi_listMaintenanceRequirements :: "string \<Rightarrow> request" where
  "dronesApi_listMaintenanceRequirements accessToken =
     json_request ''GET'' accessToken ''/maintenance-requirements'' NoBody"

definition dronesApi_createMaintenanceRequirement :: "string \<Rightarrow> json \<Rightarrow> request" where
  "dronesApi_createMaintenanceRequirement accessToken payload =
     json_request ''POST'' accessToken ''/maintenance-requirements'' (JsonBody payload)"

definition dronesApi_addMaintenanceApplicability :: "string \<Rightarrow> string \<Rightarrow> string \<Rightarrow> request" where
  "dronesApi_addMaintenanceApplicability accessToken assetId requirementId =
     json_request ''POST'' accessToken (''/drones/'' @ assetId @ ''/maintenance-requirements/'' @ requirementId @ ''/applicability'') NoBody"

definition dronesApi_recordMaintenanceAccomplishment :: "string \<Rightarrow> string \<Rightarrow> string \<Rightarrow> json \<Rightarrow> request" where
  "dronesApi_recordMaintenanceAccomplishment accessToken assetId requirementId payload =
     json_request ''POST'' accessToken (''/drones/'' @ assetId @ ''/maintenance-requirements/'' @ requirementId @ ''/accomplishments'') (JsonBody payload)"

definition dronesApi_getBatteryMaintenanceDue :: "string \<Rightarrow> string \<Rightarrow> request" where
  "dronesApi_getBatteryMaintenanceDue accessToken batteryId =
     json_request ''GET'' accessToken (''/batteries/'' @ batteryId @ ''/maintenance-due'') NoBody"

definition dronesApi_addBatteryMaintenanceApplicability :: "string \<Rightarrow> string \<Rightarrow> string \<Rightarrow> request" where
  "dronesApi_addBatteryMaintenanceApplicability accessToken batteryId requirementId =
     json_request ''POST'' accessToken (''/batteries/'' @ batteryId @ ''/maintenance-requirements/'' @ requirementId @ ''/applicability'') NoBody"

definition dronesApi_recordBatteryMaintenanceAccomplishment :: "string \<Rightarrow> string \<Rightarrow> string \<Rightarrow> json \<Rightarrow> request" where
  "dronesApi_recordBatteryMaintenanceAccomplishment accessToken batteryId requirementId payload =
     json_request ''POST'' accessToken (''/batteries/'' @ batteryId @ ''/maintenance-requirements/'' @ requirementId @ ''/accomplishments'') (JsonBody payload)"

definition dronesApi_getComponentMaintenanceDue :: "string \<Rightarrow> string \<Rightarrow> request" where
  "dronesApi_getComponentMaintenanceDue accessToken componentId =
     json_request ''GET'' accessToken (''/components/'' @ componentId @ ''/maintenance-due'') NoBody"

definition dronesApi_addComponentMaintenanceApplicability :: "string \<Rightarrow> string \<Rightarrow> string \<Rightarrow> request" where
  "dronesApi_addComponentMaintenanceApplicability accessToken componentId requirementId =
     json_request ''POST'' accessToken (''/components/'' @ componentId @ ''/maintenance-requirements/'' @ requirementId @ ''/applicability'') NoBody"

definition dronesApi_recordComponentMaintenanceAccomplishment :: "string \<Rightarrow> string \<Rightarrow> string \<Rightarrow> json \<Rightarrow> request" where
  "dronesApi_recordComponentMaintenanceAccomplishment accessToken componentId requirementId payload =
     json_request ''POST'' accessToken (''/components/'' @ componentId @ ''/maintenance-requirements/'' @ requirementId @ ''/accomplishments'') (JsonBody payload)"

section \<open>\<open>missions.ts\<close>\<close>

definition missionsApi_listMissions :: "string \<Rightarrow> MissionQueryParams option \<Rightarrow> request" where
  "missionsApi_listMissions accessToken params =
     json_request ''GET'' accessToken (''/missions'' @ missionQuery params) NoBody"

definition missionsApi_getMission :: "string \<Rightarrow> string \<Rightarrow> request" where
  "missionsApi_getMission accessToken missionId =
     json_request ''GET'' accessToken (''/missions/'' @ missionId) NoBody"

definition missionsApi_createMission :: "string \<Rightarrow> json \<Rightarrow> request" where
  "missionsApi_createMission accessToken payload = json_request ''POST'' accessToken ''/missions'' (JsonBody payload)"

definition missionsApi_updateMission :: "string \<Rightarrow> string \<Rightarrow> json \<Rightarrow> request" where
  "missionsApi_updateMission accessToken missionId payload =
     json_request ''PATCH'' accessToken (''/missions/'' @ missionId) (JsonBody payload)"

definition missionsApi_authorizeMission ::
  "string \<Rightarrow> string \<Rightarrow> json option \<Rightarrow> request" where
  "missionsApi_authorizeMission accessToken missionId payload =
     json_request ''POST'' accessToken (''/missions/'' @ missionId @ ''/authorize'')
       (JsonBody (case payload of None \<Rightarrow> JObj [] | Some p \<Rightarrow> p))"

section \<open>\<open>facilities.ts\<close>\<close>

definition facilitiesApi_listFacilities :: "string \<Rightarrow> request" where
  "facilitiesApi_listFacilities accessToken = json_request ''GET'' accessToken ''/facilities'' NoBody"

definition facilitiesApi_createFacility :: "string \<Rightarrow> json \<Rightarrow> request" where
  "facilitiesApi_createFacility accessToken payload =
     json_request ''POST'' accessToken ''/facilities'' (JsonBody payload)"

definition facilitiesApi_getFacility :: "string \<Rightarrow> string \<Rightarrow> request" where
  "facilitiesApi_getFacility accessToken i = json_request ''GET'' accessToken (''/facilities/'' @ i) NoBody"

definition facilitiesApi_updateFacility :: "string \<Rightarrow> string \<Rightarrow> json \<Rightarrow> request" where
  "facilitiesApi_updateFacility accessToken i payload =
     json_request ''PATCH'' accessToken (''/facilities/'' @ i) (JsonBody payload)"

section \<open>\<open>controlCenter.ts\<close>\<close>

definition controlCenterApi_getSummary :: "string \<Rightarrow> request" where
  "controlCenterApi_getSummary accessToken = json_request ''GET'' accessToken ''/control-center/summary'' NoBody"

definition controlCenterApi_getFleet :: "string \<Rightarrow> request" where
  "controlCenterApi_getFleet accessToken = json_request ''GET'' accessToken ''/control-center/fleet'' NoBody"

definition controlCenterApi_getFleetOperations :: "string \<Rightarrow> request" where
  "controlCenterApi_getFleetOperations accessToken =
     json_request ''GET'' accessToken ''/control-center/fleet-operations'' NoBody"

definition controlCenterApi_getTimeline ::
  "string \<Rightarrow> string option \<Rightarrow> string option \<Rightarrow> int option \<Rightarrow> request" where
  "controlCenterApi_getTimeline accessToken asset_id event_type limit =
     json_request ''GET'' accessToken (''/control-center/timeline'' @ query_suffix
       (set_if_nonzero ''limit'' limit (set_if_text ''event_type'' event_type (set_if_text ''asset_id'' asset_id [])))) NoBody"

section \<open>\<open>aogRecovery.ts\<close>\<close>

definition aogRecoveryApi_getRecoveryStatus :: "string \<Rightarrow> string \<Rightarrow> request" where
  "aogRecoveryApi_getRecoveryStatus accessToken aircraftId =
     json_request ''GET'' accessToken (''/aog-events/recovery-status/'' @ aircraftId) NoBody"

end
