(* ===== verification/ApiMaintenance.thy ===== *)
theory ApiMaintenance
  imports ApiFleet
begin

text \<open>
  The clients of maintenance: work orders and tasks, deferred items, inspections, findings, evidence and
  its files, technicians, parts and procurement.
  One definition per method of the clients under \<open>src/frontend/lib/api\<close>: the request it makes.
  A payload that is sent as it is given is a \<open>json\<close>; an optional argument is an option.
\<close>

record WorkOrderQueryParams =
  wquery_asset_id :: "string option"
  wquery_aircraft_id :: "string option"
  wquery_status :: "string option"
  wquery_priority :: "string option"
  wquery_work_order_type :: "string option"
  wquery_assigned_to_user_id :: "string option"
  wquery_search :: "string option"
  wquery_overdue_only :: "bool option"
  wquery_limit :: "int option"
  wquery_offset :: "int option"

definition bool_part :: "string \<Rightarrow> bool option \<Rightarrow> string list" where
  "bool_part k v = (case v of None \<Rightarrow> [] | Some b \<Rightarrow> [k @ ''='' @ encodeURIComponent (if b then ''true'' else ''false'')])"

definition encoded_number_part :: "string \<Rightarrow> int option \<Rightarrow> string list" where
  "encoded_number_part k v = (case v of None \<Rightarrow> [] | Some n \<Rightarrow> [k @ ''='' @ encodeURIComponent (show_int n)])"

definition workOrderQuery :: "WorkOrderQueryParams option \<Rightarrow> string" where
  "workOrderQuery params = (case params of
     None \<Rightarrow> []
   | Some p \<Rightarrow> parts_suffix
       (text_part ''asset_id'' (wquery_asset_id p) @ text_part ''aircraft_id'' (wquery_aircraft_id p) @
        text_part ''status'' (wquery_status p) @ text_part ''priority'' (wquery_priority p) @
        text_part ''work_order_type'' (wquery_work_order_type p) @
        text_part ''assigned_to_user_id'' (wquery_assigned_to_user_id p) @ text_part ''search'' (wquery_search p) @
        bool_part ''overdue_only'' (wquery_overdue_only p) @
        encoded_number_part ''limit'' (wquery_limit p) @ encoded_number_part ''offset'' (wquery_offset p)))"

section \<open>\<open>workOrders.ts\<close>\<close>

definition workOrdersApi_list :: "string \<Rightarrow> WorkOrderQueryParams option \<Rightarrow> request" where
  "workOrdersApi_list accessToken params =
     json_request ''GET'' accessToken (''/work-orders'' @ workOrderQuery params) NoBody"

definition workOrdersApi_get :: "string \<Rightarrow> string \<Rightarrow> request" where
  "workOrdersApi_get accessToken workOrderId =
     json_request ''GET'' accessToken (''/work-orders/'' @ workOrderId) NoBody"

definition workOrdersApi_create :: "string \<Rightarrow> json \<Rightarrow> request" where
  "workOrdersApi_create accessToken payload = json_request ''POST'' accessToken ''/work-orders'' (JsonBody payload)"

definition workOrdersApi_update :: "string \<Rightarrow> string \<Rightarrow> json \<Rightarrow> request" where
  "workOrdersApi_update accessToken workOrderId payload =
     json_request ''PATCH'' accessToken (''/work-orders/'' @ workOrderId) (JsonBody payload)"

definition workOrdersApi_assign :: "string \<Rightarrow> string \<Rightarrow> json \<Rightarrow> request" where
  "workOrdersApi_assign accessToken workOrderId payload =
     json_request ''POST'' accessToken (''/work-orders/'' @ workOrderId @ ''/assign'') (JsonBody payload)"

definition workOrdersApi_transition :: "string \<Rightarrow> string \<Rightarrow> json \<Rightarrow> request" where
  "workOrdersApi_transition accessToken workOrderId payload =
     json_request ''POST'' accessToken (''/work-orders/'' @ workOrderId @ ''/transition'') (JsonBody payload)"

definition workOrdersApi_complete :: "string \<Rightarrow> string \<Rightarrow> request" where
  "workOrdersApi_complete accessToken workOrderId =
     json_request ''POST'' accessToken (''/work-orders/'' @ workOrderId @ ''/complete'') NoBody"

definition workOrdersApi_close :: "string \<Rightarrow> string \<Rightarrow> request" where
  "workOrdersApi_close accessToken workOrderId =
     json_request ''POST'' accessToken (''/work-orders/'' @ workOrderId @ ''/close'') NoBody"

definition workOrdersApi_cancel :: "string \<Rightarrow> string \<Rightarrow> json \<Rightarrow> request" where
  "workOrdersApi_cancel accessToken workOrderId payload =
     json_request ''POST'' accessToken (''/work-orders/'' @ workOrderId @ ''/cancel'') (JsonBody payload)"

definition workOrdersApi_delete :: "string \<Rightarrow> string \<Rightarrow> request" where
  "workOrdersApi_delete accessToken workOrderId =
     json_request ''DELETE'' accessToken (''/work-orders/'' @ workOrderId) NoBody"

definition workOrdersApi_getTat :: "string \<Rightarrow> string \<Rightarrow> request" where
  "workOrdersApi_getTat accessToken workOrderId =
     json_request ''GET'' accessToken (''/work-orders/'' @ workOrderId @ ''/tat'') NoBody"

definition workOrdersApi_getFleetTat :: "string \<Rightarrow> request" where
  "workOrdersApi_getFleetTat accessToken = json_request ''GET'' accessToken ''/fleet/tat'' NoBody"

section \<open>\<open>tasks.ts\<close>\<close>

definition tasksApi_listForWorkOrder :: "string \<Rightarrow> string \<Rightarrow> request" where
  "tasksApi_listForWorkOrder accessToken workOrderId =
     json_request ''GET'' accessToken (''/work-orders/'' @ workOrderId @ ''/tasks'') NoBody"

definition tasksApi_create :: "string \<Rightarrow> string \<Rightarrow> json \<Rightarrow> request" where
  "tasksApi_create accessToken workOrderId payload =
     json_request ''POST'' accessToken (''/work-orders/'' @ workOrderId @ ''/tasks'') (JsonBody payload)"

definition tasksApi_update :: "string \<Rightarrow> string \<Rightarrow> string \<Rightarrow> json \<Rightarrow> request" where
  "tasksApi_update accessToken workOrderId taskId payload =
     json_request ''PATCH'' accessToken (''/work-orders/'' @ workOrderId @ ''/tasks/'' @ taskId) (JsonBody payload)"

definition tasksApi_complete :: "string \<Rightarrow> string \<Rightarrow> string \<Rightarrow> request" where
  "tasksApi_complete accessToken workOrderId taskId =
     json_request ''POST'' accessToken (''/work-orders/'' @ workOrderId @ ''/tasks/'' @ taskId @ ''/complete'') NoBody"

section \<open>\<open>deferred-items.ts\<close>\<close>

definition deferredItemsApi_listForFleet :: "string \<Rightarrow> bool \<Rightarrow> request" where
  "deferredItemsApi_listForFleet accessToken openOnly =
     json_request ''GET'' accessToken (''/fleet/deferred-items'' @ (if openOnly then ''?open_only=true'' else [])) NoBody"

definition deferredItemsApi_listForAircraft :: "string \<Rightarrow> string \<Rightarrow> bool \<Rightarrow> request" where
  "deferredItemsApi_listForAircraft accessToken aircraftId openOnly =
     json_request ''GET'' accessToken (''/aircraft/'' @ aircraftId @ ''/deferred-items'' @ (if openOnly then ''?open_only=true'' else [])) NoBody"

definition deferredItemsApi_get :: "string \<Rightarrow> string \<Rightarrow> request" where
  "deferredItemsApi_get accessToken itemId = json_request ''GET'' accessToken (''/deferred-items/'' @ itemId) NoBody"

definition deferredItemsApi_update :: "string \<Rightarrow> string \<Rightarrow> json \<Rightarrow> request" where
  "deferredItemsApi_update accessToken itemId payload =
     json_request ''PATCH'' accessToken (''/deferred-items/'' @ itemId) (JsonBody payload)"

definition deferredItemsApi_close :: "string \<Rightarrow> string \<Rightarrow> json \<Rightarrow> request" where
  "deferredItemsApi_close accessToken itemId payload =
     json_request ''POST'' accessToken (''/deferred-items/'' @ itemId @ ''/close'') (JsonBody payload)"

section \<open>\<open>inspections.ts\<close>\<close>

definition inspectionsApi_create :: "string \<Rightarrow> json \<Rightarrow> request" where
  "inspectionsApi_create accessToken payload = json_request ''POST'' accessToken ''/inspections'' (JsonBody payload)"

definition inspectionsApi_get :: "string \<Rightarrow> string \<Rightarrow> request" where
  "inspectionsApi_get accessToken requirementId =
     json_request ''GET'' accessToken (''/inspections/'' @ requirementId) NoBody"

definition inspectionsApi_listForWorkOrder :: "string \<Rightarrow> string \<Rightarrow> request" where
  "inspectionsApi_listForWorkOrder accessToken workOrderId =
     json_request ''GET'' accessToken (''/inspections/by-work-order/'' @ workOrderId) NoBody"

definition inspectionsApi_transition ::
  "string \<Rightarrow> string \<Rightarrow> string \<Rightarrow> string option \<Rightarrow> string option \<Rightarrow> request" where
  "inspectionsApi_transition accessToken requirementId targetStatus inspectorUserId rejectionReason =
     json_request ''POST'' accessToken (''/inspections/'' @ requirementId @ ''/transition'')
       (JsonBody (JObj [(''target_status'', JStr targetStatus), (''inspector_user_id'', jstr inspectorUserId),
         (''rejection_reason'', jstr rejectionReason)]))"

section \<open>\<open>findings.ts\<close>\<close>

definition findingsApi_create :: "string \<Rightarrow> json \<Rightarrow> request" where
  "findingsApi_create accessToken payload = json_request ''POST'' accessToken ''/findings'' (JsonBody payload)"

definition findingsApi_get :: "string \<Rightarrow> string \<Rightarrow> request" where
  "findingsApi_get accessToken findingId = json_request ''GET'' accessToken (''/findings/'' @ findingId) NoBody"

definition findingsApi_listForAircraft :: "string \<Rightarrow> string \<Rightarrow> request" where
  "findingsApi_listForAircraft accessToken aircraftId =
     json_request ''GET'' accessToken (''/findings?aircraft_id='' @ aircraftId) NoBody"

definition findingsApi_listForAsset :: "string \<Rightarrow> string \<Rightarrow> request" where
  "findingsApi_listForAsset accessToken assetId =
     json_request ''GET'' accessToken (''/findings?asset_id='' @ assetId) NoBody"

definition findingsApi_listForOrganization :: "string \<Rightarrow> string option \<Rightarrow> request" where
  "findingsApi_listForOrganization accessToken status =
     json_request ''GET'' accessToken (''/findings'' @ (case truthy_text status of None \<Rightarrow> [] | Some status \<Rightarrow> ''?status='' @ encodeURIComponent status)) NoBody"

definition findingsApi_listForWorkOrder :: "string \<Rightarrow> string \<Rightarrow> request" where
  "findingsApi_listForWorkOrder accessToken workOrderId =
     json_request ''GET'' accessToken (''/findings?work_order_id='' @ encodeURIComponent workOrderId) NoBody"

definition findingsApi_addDisposition :: "string \<Rightarrow> string \<Rightarrow> json \<Rightarrow> request" where
  "findingsApi_addDisposition accessToken findingId payload =
     json_request ''POST'' accessToken (''/findings/'' @ findingId @ ''/dispositions'') (JsonBody payload)"

definition findingsApi_close :: "string \<Rightarrow> string \<Rightarrow> request" where
  "findingsApi_close accessToken findingId =
     json_request ''POST'' accessToken (''/findings/'' @ findingId @ ''/close'') NoBody"

definition findingsApi_correlateCompliance :: "string \<Rightarrow> string \<Rightarrow> json \<Rightarrow> request" where
  "findingsApi_correlateCompliance accessToken findingId payload =
     json_request ''POST'' accessToken (''/findings/'' @ findingId @ ''/correlate-compliance'') (JsonBody payload)"

section \<open>\<open>evidence.ts\<close>\<close>

definition evidenceApi_create ::
  "string \<Rightarrow> json \<Rightarrow> request" where
  "evidenceApi_create accessToken payload =
     (let body = (case payload of JStr taskId \<Rightarrow> JObj [(''task_id'', JStr taskId)] | _ \<Rightarrow> payload)
      in json_request ''POST'' accessToken ''/evidence'' (JsonBody body))"

definition evidenceApi_get :: "string \<Rightarrow> string \<Rightarrow> request" where
  "evidenceApi_get accessToken evidenceId = json_request ''GET'' accessToken (''/evidence/'' @ evidenceId) NoBody"

definition evidenceApi_verify :: "string \<Rightarrow> string \<Rightarrow> string option \<Rightarrow> request" where
  "evidenceApi_verify accessToken evidenceId notes =
     json_request ''POST'' accessToken (''/evidence/'' @ evidenceId @ ''/verify'') (JsonBody (JObj [(''verification_notes'', jstr notes)]))"

definition evidenceApi_reject :: "string \<Rightarrow> string \<Rightarrow> string \<Rightarrow> request" where
  "evidenceApi_reject accessToken evidenceId reason =
     json_request ''POST'' accessToken (''/evidence/'' @ evidenceId @ ''/reject'') (JsonBody (JObj [(''rejection_reason'', JStr reason)]))"

definition evidenceApi_transition :: "string \<Rightarrow> string \<Rightarrow> string \<Rightarrow> string option \<Rightarrow> request" where
  "evidenceApi_transition accessToken evidenceId targetStatus rejectionReason =
     json_request ''POST'' accessToken (''/evidence/'' @ evidenceId @ ''/transition'') (JsonBody (JObj [(''target_status'', JStr targetStatus), (''rejection_reason'', jstr rejectionReason)]))"

section \<open>\<open>evidenceFiles.ts\<close>\<close>

definition evidenceFilesApi_upload :: "string \<Rightarrow> string \<Rightarrow> upload_file \<Rightarrow> request" where
  "evidenceFilesApi_upload accessToken evidenceId file =
     upload_request accessToken (''/evidence/'' @ evidenceId @ ''/files'') file"

definition evidenceFilesApi_list :: "string \<Rightarrow> string \<Rightarrow> request" where
  "evidenceFilesApi_list accessToken evidenceId =
     json_request ''GET'' accessToken (''/evidence/'' @ evidenceId @ ''/files'') NoBody"

definition evidenceFilesApi_getDownloadUrl :: "string \<Rightarrow> string \<Rightarrow> string \<Rightarrow> request" where
  "evidenceFilesApi_getDownloadUrl accessToken evidenceId fileId =
     json_request ''GET'' accessToken (''/evidence/'' @ evidenceId @ ''/files/'' @ fileId @ ''/download'') NoBody"

definition evidenceFilesApi_remove :: "string \<Rightarrow> string \<Rightarrow> string \<Rightarrow> request" where
  "evidenceFilesApi_remove accessToken evidenceId fileId =
     json_request ''DELETE'' accessToken (''/evidence/'' @ evidenceId @ ''/files/'' @ fileId) NoBody"

section \<open>\<open>release-readiness.ts\<close>\<close>

definition releaseReadinessApi_getForWorkOrder :: "string \<Rightarrow> string \<Rightarrow> request" where
  "releaseReadinessApi_getForWorkOrder accessToken workOrderId =
     json_request ''GET'' accessToken (''/work-orders/'' @ workOrderId @ ''/release-readiness'') NoBody"

section \<open>\<open>technicians.ts\<close>\<close>

definition usersApi_list :: "string \<Rightarrow> request" where
  "usersApi_list accessToken = json_request ''GET'' accessToken ''/users'' NoBody"

definition technicianQualificationsApi_list ::
  "string \<Rightarrow> string option \<Rightarrow> request" where
  "technicianQualificationsApi_list accessToken userId =
     json_request ''GET'' accessToken (case truthy_text userId of
       Some u \<Rightarrow> ''/technician-qualifications?user_id='' @ u | None \<Rightarrow> ''/technician-qualifications'') NoBody"

section \<open>\<open>parts.ts\<close>\<close>

definition partsApi_list :: "string \<Rightarrow> request" where
  "partsApi_list accessToken = json_request ''GET'' accessToken ''/parts'' NoBody"

definition partRequirementsApi_listForWorkOrder :: "string \<Rightarrow> string \<Rightarrow> request" where
  "partRequirementsApi_listForWorkOrder accessToken workOrderId =
     json_request ''GET'' accessToken (''/part-requirements/by-work-order/'' @ workOrderId) NoBody"

section \<open>\<open>inventory.ts\<close>\<close>

definition inventoryApi_reserve :: "string \<Rightarrow> string \<Rightarrow> int \<Rightarrow> string option \<Rightarrow> request" where
  "inventoryApi_reserve accessToken partId quantity notes =
     json_request ''POST'' accessToken (''/parts/'' @ partId @ ''/inventory/reserve'') (JsonBody (JObj ([(''quantity'', JNum (of_int quantity))] @ field_if ''notes'' (map_option JStr notes))))"

definition inventoryApi_release :: "string \<Rightarrow> string \<Rightarrow> int \<Rightarrow> string option \<Rightarrow> request" where
  "inventoryApi_release accessToken partId quantity notes =
     json_request ''POST'' accessToken (''/parts/'' @ partId @ ''/inventory/release'') (JsonBody (JObj ([(''quantity'', JNum (of_int quantity))] @ field_if ''notes'' (map_option JStr notes))))"

definition inventoryApi_consume :: "string \<Rightarrow> string \<Rightarrow> int \<Rightarrow> string option \<Rightarrow> request" where
  "inventoryApi_consume accessToken partId quantity notes =
     json_request ''POST'' accessToken (''/parts/'' @ partId @ ''/inventory/consume'') (JsonBody (JObj ([(''quantity'', JNum (of_int quantity))] @ field_if ''notes'' (map_option JStr notes))))"

definition inventoryApi_quarantine :: "string \<Rightarrow> string \<Rightarrow> int \<Rightarrow> string \<Rightarrow> request" where
  "inventoryApi_quarantine accessToken partId quantity reason =
     json_request ''POST'' accessToken (''/parts/'' @ partId @ ''/inventory/quarantine'') (JsonBody (JObj [(''quantity'', JNum (of_int quantity)), (''reason'', JStr reason)]))"

definition inventoryApi_releaseQuarantine :: "string \<Rightarrow> string \<Rightarrow> int \<Rightarrow> string \<Rightarrow> string option \<Rightarrow> request" where
  "inventoryApi_releaseQuarantine accessToken partId quantity newStatus notes =
     json_request ''POST'' accessToken (''/parts/'' @ partId @ ''/inventory/release-quarantine'') (JsonBody (JObj ([(''quantity'', JNum (of_int quantity)), (''new_status'', JStr newStatus)] @ field_if ''notes'' (map_option JStr notes))))"

section \<open>\<open>procurementRequests.ts\<close>\<close>

definition procurementRequestsApi_list :: "string \<Rightarrow> string option \<Rightarrow> request" where
  "procurementRequestsApi_list accessToken status =
     json_request ''GET'' accessToken (''/procurement-requests'' @ (case truthy_text status of None \<Rightarrow> [] | Some status \<Rightarrow> ''?status='' @ status)) NoBody"

definition procurementRequestsApi_get :: "string \<Rightarrow> string \<Rightarrow> request" where
  "procurementRequestsApi_get accessToken i =
     json_request ''GET'' accessToken (''/procurement-requests/'' @ i) NoBody"

section \<open>\<open>purchaseOrders.ts\<close>\<close>

definition purchaseOrdersApi_create :: "string \<Rightarrow> json \<Rightarrow> request" where
  "purchaseOrdersApi_create accessToken payload =
     json_request ''POST'' accessToken ''/purchase-orders'' (JsonBody payload)"

definition purchaseOrdersApi_list :: "string \<Rightarrow> string option \<Rightarrow> request" where
  "purchaseOrdersApi_list accessToken status =
     json_request ''GET'' accessToken (''/purchase-orders'' @ (case truthy_text status of None \<Rightarrow> [] | Some status \<Rightarrow> ''?status='' @ status)) NoBody"

definition purchaseOrdersApi_get :: "string \<Rightarrow> string \<Rightarrow> request" where
  "purchaseOrdersApi_get accessToken i = json_request ''GET'' accessToken (''/purchase-orders/'' @ i) NoBody"

definition purchaseOrdersApi_submitForApproval :: "string \<Rightarrow> string \<Rightarrow> request" where
  "purchaseOrdersApi_submitForApproval accessToken i =
     json_request ''POST'' accessToken (''/purchase-orders/'' @ i @ ''/submit-for-approval'') NoBody"

definition purchaseOrdersApi_approve :: "string \<Rightarrow> string \<Rightarrow> request" where
  "purchaseOrdersApi_approve accessToken i =
     json_request ''POST'' accessToken (''/purchase-orders/'' @ i @ ''/approve'') NoBody"

definition purchaseOrdersApi_send :: "string \<Rightarrow> string \<Rightarrow> request" where
  "purchaseOrdersApi_send accessToken i =
     json_request ''POST'' accessToken (''/purchase-orders/'' @ i @ ''/send'') NoBody"

definition purchaseOrdersApi_cancel :: "string \<Rightarrow> string \<Rightarrow> request" where
  "purchaseOrdersApi_cancel accessToken i =
     json_request ''POST'' accessToken (''/purchase-orders/'' @ i @ ''/cancel'') NoBody"

definition purchaseOrdersApi_receive :: "string \<Rightarrow> string \<Rightarrow> json \<Rightarrow> string option \<Rightarrow> request" where
  "purchaseOrdersApi_receive accessToken i lines notes =
     json_request ''POST'' accessToken (''/purchase-orders/'' @ i @ ''/receive'') (JsonBody (JObj ([(''lines'', lines)] @ field_if ''notes'' (map_option JStr notes))))"

section \<open>\<open>vendors.ts\<close>\<close>

definition vendorsApi_list :: "string \<Rightarrow> request" where
  "vendorsApi_list accessToken = json_request ''GET'' accessToken ''/vendors'' NoBody"

section \<open>The query of the work-order list, read back\<close>

interpretation uri_as_form: percent_code uri_keep "\<lambda>c. c" form_back
  by unfold_locales (auto simp: uri_keep_def form_back_def is_alnum_def Let_def)

lemma form_decode_uri: "form_decode (encodeURIComponent s) = s"
  by (simp add: form_decode_def encodeURIComponent_def uri_as_form.decode_encode)

lemma uri_avoids: "CHR ''&'' \<notin> set (encodeURIComponent s)" "CHR ''='' \<notin> set (encodeURIComponent s)"
  unfolding encodeURIComponent_def
  by (intro uri.encode_avoids; auto simp: is_alnum_def uri_keep_def Let_def)+

definition plain_key :: "string \<Rightarrow> bool" where
  "plain_key k \<longleftrightarrow> form_decode k = k \<and> CHR ''&'' \<notin> set k \<and> CHR ''='' \<notin> set k"

definition uri_pair :: "string \<times> string \<Rightarrow> string" where
  "uri_pair p = fst p @ ''='' @ encodeURIComponent (snd p)"

lemma read_uri_pair: "plain_key (fst p) \<Longrightarrow> read_pair (uri_pair p) = p"
  by (simp add: read_pair_def uri_pair_def plain_key_def stop_at form_decode_uri prod_eq_iff)

lemma read_uri_query:
  assumes "list_all (\<lambda>p. plain_key (fst p)) ps"
  shows "read_query (drop 1 (parts_suffix (map uri_pair ps))) = ps"
proof (cases "ps = []")
  case True
  then show ?thesis by (simp add: parts_suffix_def read_query_def)
next
  case False
  have "\<forall>w \<in> set (map uri_pair ps). CHR ''&'' \<notin> set w"
    using assms by (auto simp: uri_pair_def plain_key_def list_all_iff uri_avoids)
  then have "split_on CHR ''&'' (join ''&'' (map uri_pair ps)) = map uri_pair ps"
    using False by (intro split_on_join) blast+
  moreover have "map (\<lambda>p. read_pair (uri_pair p)) ps = ps"
    using assms by (intro map_idI) (simp add: list_all_iff read_uri_pair)
  moreover have "join ''&'' (map uri_pair ps) \<noteq> []"
    using False by (intro join_ne) (auto simp: uri_pair_def)
  ultimately show ?thesis
    using False by (simp add: parts_suffix_def read_query_def o_def)
qed

text \<open>The parameters that are set: no value is sent for one that is undefined or, for a text, empty.\<close>

definition some_pair :: "string \<Rightarrow> string option \<Rightarrow> query" where
  "some_pair k v = (case v of None \<Rightarrow> [] | Some x \<Rightarrow> [(k, x)])"

definition work_order_params :: "WorkOrderQueryParams \<Rightarrow> query" where
  "work_order_params p =
     some_pair ''asset_id'' (truthy_text (wquery_asset_id p)) @
     some_pair ''aircraft_id'' (truthy_text (wquery_aircraft_id p)) @
     some_pair ''status'' (truthy_text (wquery_status p)) @
     some_pair ''priority'' (truthy_text (wquery_priority p)) @
     some_pair ''work_order_type'' (truthy_text (wquery_work_order_type p)) @
     some_pair ''assigned_to_user_id'' (truthy_text (wquery_assigned_to_user_id p)) @
     some_pair ''search'' (truthy_text (wquery_search p)) @
     some_pair ''overdue_only'' (map_option (\<lambda>b. if b then ''true'' else ''false'') (wquery_overdue_only p)) @
     some_pair ''limit'' (map_option show_int (wquery_limit p)) @
     some_pair ''offset'' (map_option show_int (wquery_offset p))"

lemma part_pairs:
  "text_part k v = map uri_pair (some_pair k (truthy_text v))"
  "bool_part k b = map uri_pair (some_pair k (map_option (\<lambda>b. if b then ''true'' else ''false'') b))"
  "encoded_number_part k n = map uri_pair (some_pair k (map_option show_int n))"
  by (simp_all add: text_part_def bool_part_def encoded_number_part_def some_pair_def uri_pair_def split: option.split)

lemma plain_some_pair: "plain_key k \<Longrightarrow> list_all (\<lambda>p. plain_key (fst p)) (some_pair k v)"
  by (simp add: some_pair_def split: option.split)

lemma plain_work_order_keys:
  "list_all plain_key [''asset_id'', ''aircraft_id'', ''status'', ''priority'', ''work_order_type'',
     ''assigned_to_user_id'', ''search'', ''overdue_only'', ''limit'', ''offset'']"
  by (simp add: plain_key_def form_decode_def form_back_def)

text \<open>
  C25 The work-order list asks for what it was given: reading the query of the path back as the server does
  gives exactly the parameters that are set, in order, with their texts intact whatever characters a
  search or an identifier contains.
\<close>

theorem work_order_query_roundtrip:
  "read_query (drop 1 (workOrderQuery (Some p))) = work_order_params p"
proof -
  have "workOrderQuery (Some p) = parts_suffix (map uri_pair (work_order_params p))"
    by (simp add: workOrderQuery_def work_order_params_def part_pairs)
  moreover have "list_all (\<lambda>p. plain_key (fst p)) (work_order_params p)"
    using plain_work_order_keys by (simp add: work_order_params_def plain_some_pair)
  ultimately show ?thesis using read_uri_query by simp
qed

end
