(* ===== verification/ApiPlatform.thy ===== *)
theory ApiPlatform
  imports ApiFleet
begin

text \<open>
  The clients of the administration: platform, plans, entitlements, subscriptions, approvals, audit,
  deleted records, product catalog, tenant and data import.
  One definition per method of the clients under \<open>src/frontend/lib/api\<close>: the request it makes.
  A payload that is sent as it is given is a \<open>json\<close>; an optional argument is an option.
\<close>

section \<open>\<open>platform.ts\<close>\<close>

definition platformApi_getDashboardStats :: "string \<Rightarrow> request" where
  "platformApi_getDashboardStats accessToken = json_request ''GET'' accessToken ''/platform/dashboard/stats'' NoBody"

definition platformApi_listOrganizations :: "string \<Rightarrow> request" where
  "platformApi_listOrganizations accessToken = json_request ''GET'' accessToken ''/platform/organizations'' NoBody"

definition platformApi_listOrganizationUsers :: "string \<Rightarrow> string \<Rightarrow> request" where
  "platformApi_listOrganizationUsers accessToken organizationId =
     json_request ''GET'' accessToken (''/platform/organizations/'' @ organizationId @ ''/users'') NoBody"

definition platformApi_listPlatformUsers ::
  "string \<Rightarrow> string option \<Rightarrow> string option \<Rightarrow> int option \<Rightarrow> int option \<Rightarrow> request" where
  "platformApi_listPlatformUsers accessToken organizationId role limit offset =
     json_request ''GET'' accessToken (''/platform/users'' @ query_suffix
       (set_if_nonzero ''offset'' offset (set_if_nonzero ''limit'' limit
        (set_if_text ''role'' role (set_if_text ''organization_id'' organizationId []))))) NoBody"

definition platformApi_createOrganization :: "string \<Rightarrow> string \<Rightarrow> request" where
  "platformApi_createOrganization accessToken name =
     json_request ''POST'' accessToken ''/platform/organizations'' (JsonBody (JObj [(''name'', JStr name)]))"

definition platformApi_getOrganization :: "string \<Rightarrow> string \<Rightarrow> request" where
  "platformApi_getOrganization accessToken i =
     json_request ''GET'' accessToken (''/platform/organizations/'' @ i) NoBody"

definition platformApi_activateOrganization :: "string \<Rightarrow> string \<Rightarrow> request" where
  "platformApi_activateOrganization accessToken i =
     json_request ''POST'' accessToken (''/platform/organizations/'' @ i @ ''/activate'') NoBody"

definition platformApi_suspendOrganization :: "string \<Rightarrow> string \<Rightarrow> request" where
  "platformApi_suspendOrganization accessToken i =
     json_request ''POST'' accessToken (''/platform/organizations/'' @ i @ ''/suspend'') NoBody"

definition platformApi_createOrganizationUser :: "string \<Rightarrow> string \<Rightarrow> json \<Rightarrow> request" where
  "platformApi_createOrganizationUser accessToken organizationId payload =
     json_request ''POST'' accessToken (''/platform/organizations/'' @ organizationId @ ''/users'') (JsonBody payload)"

definition platformApi_resetOrganizationUserPassword :: "string \<Rightarrow> string \<Rightarrow> string \<Rightarrow> string \<Rightarrow> request" where
  "platformApi_resetOrganizationUserPassword accessToken organizationId userId password =
     json_request ''POST'' accessToken (''/platform/organizations/'' @ organizationId @ ''/users/'' @ userId @ ''/reset-password'') (JsonBody (JObj [(''password'', JStr password)]))"

definition platformApi_createOrganizationAdmin :: "string \<Rightarrow> string \<Rightarrow> json \<Rightarrow> request" where
  "platformApi_createOrganizationAdmin accessToken organizationId payload =
     json_request ''POST'' accessToken (''/platform/organizations/'' @ organizationId @ ''/admins'') (JsonBody payload)"

definition platformApi_inviteOrganizationAdmin :: "string \<Rightarrow> string \<Rightarrow> json \<Rightarrow> request" where
  "platformApi_inviteOrganizationAdmin accessToken organizationId payload =
     json_request ''POST'' accessToken (''/platform/organizations/'' @ organizationId @ ''/invite-admin'') (JsonBody payload)"

definition platformApi_provisionOrganization :: "string \<Rightarrow> json \<Rightarrow> request" where
  "platformApi_provisionOrganization accessToken payload =
     json_request ''POST'' accessToken ''/platform/organizations/provision'' (JsonBody payload)"

definition platformApi_resendAdminInvitation :: "string \<Rightarrow> string \<Rightarrow> request" where
  "platformApi_resendAdminInvitation accessToken userId =
     json_request ''POST'' accessToken (''/platform/admins/'' @ userId @ ''/resend-invitation'') NoBody"

definition platformApi_revokeAdminInvitation :: "string \<Rightarrow> string \<Rightarrow> request" where
  "platformApi_revokeAdminInvitation accessToken userId =
     json_request ''POST'' accessToken (''/platform/admins/'' @ userId @ ''/revoke-invitation'') NoBody"

section \<open>\<open>plan.ts\<close>\<close>

definition planApi_listPlans :: "string \<Rightarrow> request" where
  "planApi_listPlans accessToken = json_request ''GET'' accessToken ''/platform/plans'' NoBody"

definition planApi_createPlan :: "string \<Rightarrow> json \<Rightarrow> request" where
  "planApi_createPlan accessToken payload = json_request ''POST'' accessToken ''/platform/plans'' (JsonBody payload)"

definition planApi_getPlan :: "string \<Rightarrow> string \<Rightarrow> request" where
  "planApi_getPlan accessToken planId = json_request ''GET'' accessToken (''/platform/plans/'' @ planId) NoBody"

definition planApi_updatePlan :: "string \<Rightarrow> string \<Rightarrow> json \<Rightarrow> request" where
  "planApi_updatePlan accessToken planId payload =
     json_request ''PATCH'' accessToken (''/platform/plans/'' @ planId) (JsonBody payload)"

definition planApi_activatePlan :: "string \<Rightarrow> string \<Rightarrow> request" where
  "planApi_activatePlan accessToken planId =
     json_request ''POST'' accessToken (''/platform/plans/'' @ planId @ ''/activate'') NoBody"

definition planApi_deactivatePlan :: "string \<Rightarrow> string \<Rightarrow> request" where
  "planApi_deactivatePlan accessToken planId =
     json_request ''POST'' accessToken (''/platform/plans/'' @ planId @ ''/deactivate'') NoBody"

definition planApi_listPlanFeatures :: "string \<Rightarrow> string \<Rightarrow> request" where
  "planApi_listPlanFeatures accessToken planId =
     json_request ''GET'' accessToken (''/platform/plans/'' @ planId @ ''/features'') NoBody"

definition planApi_createPlanFeature :: "string \<Rightarrow> string \<Rightarrow> json \<Rightarrow> request" where
  "planApi_createPlanFeature accessToken planId payload =
     json_request ''POST'' accessToken (''/platform/plans/'' @ planId @ ''/features'') (JsonBody payload)"

definition planApi_bulkSetPlanFeatures :: "string \<Rightarrow> string \<Rightarrow> json \<Rightarrow> request" where
  "planApi_bulkSetPlanFeatures accessToken planId features =
     json_request ''PUT'' accessToken (''/platform/plans/'' @ planId @ ''/features'') (JsonBody (JObj [(''features'', features)]))"

definition planApi_setPlanFeatureEnabled :: "string \<Rightarrow> string \<Rightarrow> string \<Rightarrow> bool \<Rightarrow> request" where
  "planApi_setPlanFeatureEnabled accessToken planId featureKey enabled =
     json_request ''PATCH'' accessToken (''/platform/plans/'' @ planId @ ''/features/'' @ encodeURIComponent featureKey) (JsonBody (JObj [(''enabled'', JBool enabled)]))"

definition planApi_listPlanLimits :: "string \<Rightarrow> string \<Rightarrow> request" where
  "planApi_listPlanLimits accessToken planId =
     json_request ''GET'' accessToken (''/platform/plans/'' @ planId @ ''/limits'') NoBody"

definition planApi_bulkSetPlanLimits :: "string \<Rightarrow> string \<Rightarrow> json \<Rightarrow> request" where
  "planApi_bulkSetPlanLimits accessToken planId limits =
     json_request ''PUT'' accessToken (''/platform/plans/'' @ planId @ ''/limits'') (JsonBody (JObj [(''limits'', limits)]))"

definition planApi_listPlanTenants :: "string \<Rightarrow> string \<Rightarrow> request" where
  "planApi_listPlanTenants accessToken planId =
     json_request ''GET'' accessToken (''/platform/plans/'' @ planId @ ''/tenants'') NoBody"

definition planApi_getPlanAuditTrail :: "string \<Rightarrow> string \<Rightarrow> request" where
  "planApi_getPlanAuditTrail accessToken planId =
     json_request ''GET'' accessToken (''/platform/plans/'' @ planId @ ''/audit-trail'') NoBody"

section \<open>\<open>entitlement.ts\<close>\<close>

definition entitlementApi_getMyEntitlements :: "string \<Rightarrow> request" where
  "entitlementApi_getMyEntitlements accessToken = json_request ''GET'' accessToken ''/entitlements'' NoBody"

definition entitlementApi_getEntitlements :: "string \<Rightarrow> string \<Rightarrow> request" where
  "entitlementApi_getEntitlements accessToken organizationId =
     json_request ''GET'' accessToken (''/platform/organizations/'' @ organizationId @ ''/entitlements'') NoBody"

definition entitlementApi_listFeatureOverrides :: "string \<Rightarrow> string \<Rightarrow> request" where
  "entitlementApi_listFeatureOverrides accessToken organizationId =
     json_request ''GET'' accessToken (''/platform/organizations/'' @ organizationId @ ''/feature-overrides'') NoBody"

definition entitlementApi_createFeatureOverride :: "string \<Rightarrow> string \<Rightarrow> json \<Rightarrow> request" where
  "entitlementApi_createFeatureOverride accessToken organizationId payload =
     json_request ''POST'' accessToken (''/platform/organizations/'' @ organizationId @ ''/feature-overrides'') (JsonBody payload)"

definition entitlementApi_updateFeatureOverride :: "string \<Rightarrow> string \<Rightarrow> string \<Rightarrow> json \<Rightarrow> request" where
  "entitlementApi_updateFeatureOverride accessToken organizationId featureKey payload =
     json_request ''PATCH'' accessToken (''/platform/organizations/'' @ organizationId @ ''/feature-overrides/'' @ encodeURIComponent featureKey) (JsonBody payload)"

definition entitlementApi_removeFeatureOverride :: "string \<Rightarrow> string \<Rightarrow> string \<Rightarrow> request" where
  "entitlementApi_removeFeatureOverride accessToken organizationId featureKey =
     json_request ''DELETE'' accessToken (''/platform/organizations/'' @ organizationId @ ''/feature-overrides/'' @ encodeURIComponent featureKey) NoBody"

definition entitlementApi_listUsageLimits :: "string \<Rightarrow> string \<Rightarrow> request" where
  "entitlementApi_listUsageLimits accessToken organizationId =
     json_request ''GET'' accessToken (''/platform/organizations/'' @ organizationId @ ''/usage-limits'') NoBody"

definition entitlementApi_createUsageLimit :: "string \<Rightarrow> string \<Rightarrow> json \<Rightarrow> request" where
  "entitlementApi_createUsageLimit accessToken organizationId payload =
     json_request ''POST'' accessToken (''/platform/organizations/'' @ organizationId @ ''/usage-limits'') (JsonBody payload)"

definition entitlementApi_updateUsageLimit :: "string \<Rightarrow> string \<Rightarrow> string \<Rightarrow> string \<Rightarrow> json \<Rightarrow> request" where
  "entitlementApi_updateUsageLimit accessToken organizationId featureKey limitKey payload =
     json_request ''PATCH'' accessToken (''/platform/organizations/'' @ organizationId @ ''/usage-limits/'' @ encodeURIComponent featureKey @ ''/'' @ encodeURIComponent limitKey) (JsonBody payload)"

definition entitlementApi_removeUsageLimit :: "string \<Rightarrow> string \<Rightarrow> string \<Rightarrow> string \<Rightarrow> request" where
  "entitlementApi_removeUsageLimit accessToken organizationId featureKey limitKey =
     json_request ''DELETE'' accessToken (''/platform/organizations/'' @ organizationId @ ''/usage-limits/'' @ encodeURIComponent featureKey @ ''/'' @ encodeURIComponent limitKey) NoBody"

section \<open>\<open>subscription.ts\<close>\<close>

definition subscriptionApi_listForOrganization :: "string \<Rightarrow> string \<Rightarrow> request" where
  "subscriptionApi_listForOrganization accessToken organizationId =
     json_request ''GET'' accessToken (''/platform/organizations/'' @ organizationId @ ''/subscriptions'') NoBody"

definition subscriptionApi_create :: "string \<Rightarrow> string \<Rightarrow> json \<Rightarrow> request" where
  "subscriptionApi_create accessToken organizationId payload =
     json_request ''POST'' accessToken (''/platform/organizations/'' @ organizationId @ ''/subscriptions'') (JsonBody payload)"

definition subscriptionApi_schedule :: "string \<Rightarrow> string \<Rightarrow> json \<Rightarrow> request" where
  "subscriptionApi_schedule accessToken organizationId payload =
     json_request ''POST'' accessToken (''/platform/organizations/'' @ organizationId @ ''/subscriptions/schedule'') (JsonBody payload)"

definition subscriptionApi_get :: "string \<Rightarrow> string \<Rightarrow> request" where
  "subscriptionApi_get accessToken subscriptionId =
     json_request ''GET'' accessToken (''/platform/subscriptions/'' @ subscriptionId) NoBody"

definition subscriptionApi_update :: "string \<Rightarrow> string \<Rightarrow> json \<Rightarrow> request" where
  "subscriptionApi_update accessToken subscriptionId payload =
     json_request ''PATCH'' accessToken (''/platform/subscriptions/'' @ subscriptionId) (JsonBody payload)"

definition subscriptionApi_cancel :: "string \<Rightarrow> string \<Rightarrow> request" where
  "subscriptionApi_cancel accessToken subscriptionId =
     json_request ''POST'' accessToken (''/platform/subscriptions/'' @ subscriptionId @ ''/cancel'') NoBody"

section \<open>\<open>approvals.ts\<close>\<close>

definition approvalsApi_listApprovals ::
  "string \<Rightarrow> string option \<Rightarrow> string option \<Rightarrow> int option \<Rightarrow> int option \<Rightarrow> request" where
  "approvalsApi_listApprovals accessToken status organization_id limit offset =
     json_request ''GET'' accessToken (''/platform/approvals'' @ query_suffix
       (set_if_defined ''offset'' offset (set_if_defined ''limit'' limit
        (set_if_text ''organization_id'' organization_id (set_if_text ''status'' status []))))) NoBody"

definition approvalsApi_getApproval :: "string \<Rightarrow> string \<Rightarrow> request" where
  "approvalsApi_getApproval accessToken approvalId =
     json_request ''GET'' accessToken (''/platform/approvals/'' @ approvalId) NoBody"

definition approvalsApi_createFeatureOverrideRequest ::
  "string \<Rightarrow> string \<Rightarrow> json \<Rightarrow> request" where
  "approvalsApi_createFeatureOverrideRequest accessToken organizationId params =
     json_request ''POST'' accessToken (''/platform/organizations/'' @ organizationId @ ''/approvals'')
       (JsonBody (json_spread [(''request_type'', JStr ''feature_override_expansion'')] params))"

definition approvalsApi_createUsageLimitRequest ::
  "string \<Rightarrow> string \<Rightarrow> json \<Rightarrow> request" where
  "approvalsApi_createUsageLimitRequest accessToken organizationId params =
     json_request ''POST'' accessToken (''/platform/organizations/'' @ organizationId @ ''/approvals'')
       (JsonBody (json_spread [(''request_type'', JStr ''usage_limit_expansion'')] params))"

definition approvalsApi_approve :: "string \<Rightarrow> string \<Rightarrow> string option \<Rightarrow> request" where
  "approvalsApi_approve accessToken approvalId decisionReason =
     json_request ''POST'' accessToken (''/platform/approvals/'' @ approvalId @ ''/approve'') (JsonBody (JObj (field_if ''decision_reason'' (map_option JStr decisionReason))))"

definition approvalsApi_reject :: "string \<Rightarrow> string \<Rightarrow> string option \<Rightarrow> request" where
  "approvalsApi_reject accessToken approvalId decisionReason =
     json_request ''POST'' accessToken (''/platform/approvals/'' @ approvalId @ ''/reject'') (JsonBody (JObj (field_if ''decision_reason'' (map_option JStr decisionReason))))"

definition approvalsApi_cancel :: "string \<Rightarrow> string \<Rightarrow> request" where
  "approvalsApi_cancel accessToken approvalId =
     json_request ''POST'' accessToken (''/platform/approvals/'' @ approvalId @ ''/cancel'') NoBody"

section \<open>\<open>audit.ts\<close>\<close>

definition auditApi_listAuditEvents ::
  "string \<Rightarrow> string option \<Rightarrow> string option \<Rightarrow> string option \<Rightarrow> string option \<Rightarrow> string option \<Rightarrow>
     int option \<Rightarrow> int option \<Rightarrow> request" where
  "auditApi_listAuditEvents accessToken organization_id action entity_type date_from date_to limit offset =
     json_request ''GET'' accessToken (''/platform/audit'' @ query_suffix
       (set_if_defined ''offset'' offset (set_if_defined ''limit'' limit
        (set_if_text ''date_to'' date_to (set_if_text ''date_from'' date_from
         (set_if_text ''entity_type'' entity_type (set_if_text ''action'' action
          (set_if_text ''organization_id'' organization_id [])))))))) NoBody"

section \<open>\<open>deletion.ts\<close>\<close>

definition deletionApi_listDeletedRecords ::
  "string \<Rightarrow> string option \<Rightarrow> string option \<Rightarrow> int option \<Rightarrow> int option \<Rightarrow> request" where
  "deletionApi_listDeletedRecords accessToken entity_type organization_id limit offset =
     json_request ''GET'' accessToken (''/platform/deleted-records'' @ query_suffix
       (set_if_nonzero ''offset'' offset (set_if_nonzero ''limit'' limit
        (set_if_text ''organization_id'' organization_id (set_if_text ''entity_type'' entity_type []))))) NoBody"

definition deletionApi_restoreAsset :: "string \<Rightarrow> string \<Rightarrow> request" where
  "deletionApi_restoreAsset accessToken assetId =
     json_request ''POST'' accessToken (''/platform/deleted-records/assets/'' @ assetId @ ''/restore'') NoBody"

definition deletionApi_permanentlyDeleteAsset :: "string \<Rightarrow> string \<Rightarrow> string \<Rightarrow> request" where
  "deletionApi_permanentlyDeleteAsset accessToken assetId reason =
     json_request ''POST'' accessToken (''/platform/deleted-records/assets/'' @ assetId @ ''/permanent-delete'') (JsonBody (JObj [(''reason'', JStr reason), (''confirm'', JBool True)]))"

definition deletionApi_restoreOrganization :: "string \<Rightarrow> string \<Rightarrow> request" where
  "deletionApi_restoreOrganization accessToken organizationId =
     json_request ''POST'' accessToken (''/platform/deleted-records/organizations/'' @ organizationId @ ''/restore'') NoBody"

definition deletionApi_permanentlyDeleteOrganization :: "string \<Rightarrow> string \<Rightarrow> string \<Rightarrow> request" where
  "deletionApi_permanentlyDeleteOrganization accessToken organizationId reason =
     json_request ''POST'' accessToken (''/platform/deleted-records/organizations/'' @ organizationId @ ''/permanent-delete'') (JsonBody (JObj [(''reason'', JStr reason), (''confirm'', JBool True)]))"

definition deletionApi_restoreWorkOrder :: "string \<Rightarrow> string \<Rightarrow> request" where
  "deletionApi_restoreWorkOrder accessToken workOrderId =
     json_request ''POST'' accessToken (''/platform/deleted-records/work-orders/'' @ workOrderId @ ''/restore'') NoBody"

definition deletionApi_permanentlyDeleteWorkOrder :: "string \<Rightarrow> string \<Rightarrow> string \<Rightarrow> request" where
  "deletionApi_permanentlyDeleteWorkOrder accessToken workOrderId reason =
     json_request ''POST'' accessToken (''/platform/deleted-records/work-orders/'' @ workOrderId @ ''/permanent-delete'') (JsonBody (JObj [(''reason'', JStr reason), (''confirm'', JBool True)]))"

section \<open>\<open>health.ts\<close>\<close>

definition healthApi_getPlatformHealth :: "string \<Rightarrow> request" where
  "healthApi_getPlatformHealth accessToken = json_request ''GET'' accessToken ''/platform/health'' NoBody"

section \<open>\<open>productCatalog.ts\<close>\<close>

definition productCatalogApi_getCatalogTree :: "string \<Rightarrow> request" where
  "productCatalogApi_getCatalogTree accessToken =
     json_request ''GET'' accessToken ''/platform/product-catalog'' NoBody"

definition productCatalogApi_listSuites :: "string \<Rightarrow> request" where
  "productCatalogApi_listSuites accessToken = json_request ''GET'' accessToken ''/platform/product-suites'' NoBody"

definition productCatalogApi_createSuite :: "string \<Rightarrow> json \<Rightarrow> request" where
  "productCatalogApi_createSuite accessToken payload =
     json_request ''POST'' accessToken ''/platform/product-suites'' (JsonBody payload)"

definition productCatalogApi_createModule :: "string \<Rightarrow> json \<Rightarrow> request" where
  "productCatalogApi_createModule accessToken payload =
     json_request ''POST'' accessToken ''/platform/product-modules'' (JsonBody payload)"

definition productCatalogApi_createPage :: "string \<Rightarrow> json \<Rightarrow> request" where
  "productCatalogApi_createPage accessToken payload =
     json_request ''POST'' accessToken ''/platform/product-pages'' (JsonBody payload)"

definition productCatalogApi_createFeature :: "string \<Rightarrow> json \<Rightarrow> request" where
  "productCatalogApi_createFeature accessToken payload =
     json_request ''POST'' accessToken ''/platform/product-features'' (JsonBody payload)"

definition productCatalogApi_listFeatures :: "string \<Rightarrow> request" where
  "productCatalogApi_listFeatures accessToken =
     json_request ''GET'' accessToken ''/platform/product-features'' NoBody"

section \<open>\<open>tenant.ts\<close>\<close>

definition tenantApi_getDashboard :: "string \<Rightarrow> request" where
  "tenantApi_getDashboard accessToken = json_request ''GET'' accessToken ''/tenant/dashboard'' NoBody"

definition tenantApi_getProfile :: "string \<Rightarrow> request" where
  "tenantApi_getProfile accessToken = json_request ''GET'' accessToken ''/tenant/profile'' NoBody"

definition tenantApi_updateProfile :: "string \<Rightarrow> json \<Rightarrow> request" where
  "tenantApi_updateProfile accessToken payload =
     json_request ''PATCH'' accessToken ''/tenant/profile'' (JsonBody payload)"

definition tenantApi_getSettings :: "string \<Rightarrow> request" where
  "tenantApi_getSettings accessToken = json_request ''GET'' accessToken ''/tenant/settings'' NoBody"

definition tenantApi_updateSettings :: "string \<Rightarrow> json \<Rightarrow> request" where
  "tenantApi_updateSettings accessToken payload =
     json_request ''PATCH'' accessToken ''/tenant/settings'' (JsonBody payload)"

definition tenantApi_requestDeletion :: "string \<Rightarrow> string option \<Rightarrow> request" where
  "tenantApi_requestDeletion accessToken reason =
     json_request ''POST'' accessToken ''/tenant/deletion-request'' (JsonBody (JObj (field_if ''reason'' (map_option JStr reason))))"

definition tenantApi_listUsers :: "string \<Rightarrow> request" where
  "tenantApi_listUsers accessToken = json_request ''GET'' accessToken ''/tenant/users'' NoBody"

definition tenantApi_createUser :: "string \<Rightarrow> json \<Rightarrow> request" where
  "tenantApi_createUser accessToken payload = json_request ''POST'' accessToken ''/tenant/users'' (JsonBody payload)"

definition tenantApi_resetUserPassword :: "string \<Rightarrow> string \<Rightarrow> string \<Rightarrow> request" where
  "tenantApi_resetUserPassword accessToken userId password =
     json_request ''POST'' accessToken (''/tenant/users/'' @ userId @ ''/reset-password'') (JsonBody (JObj [(''password'', JStr password)]))"

definition tenantApi_getUser :: "string \<Rightarrow> string \<Rightarrow> request" where
  "tenantApi_getUser accessToken userId = json_request ''GET'' accessToken (''/tenant/users/'' @ userId) NoBody"

definition tenantApi_updateUserRoles :: "string \<Rightarrow> string \<Rightarrow> string list \<Rightarrow> request" where
  "tenantApi_updateUserRoles accessToken userId roles =
     json_request ''PATCH'' accessToken (''/tenant/users/'' @ userId @ ''/roles'') (JsonBody (JObj [(''roles'', JArr (map JStr roles))]))"

definition tenantApi_updateUserStatus :: "string \<Rightarrow> string \<Rightarrow> bool \<Rightarrow> request" where
  "tenantApi_updateUserStatus accessToken userId isActive =
     json_request ''PATCH'' accessToken (''/tenant/users/'' @ userId @ ''/status'') (JsonBody (JObj [(''is_active'', JBool isActive)]))"

definition tenantApi_listRoles :: "string \<Rightarrow> request" where
  "tenantApi_listRoles accessToken = json_request ''GET'' accessToken ''/tenant/roles'' NoBody"

definition tenantApi_listInvitations :: "string \<Rightarrow> request" where
  "tenantApi_listInvitations accessToken = json_request ''GET'' accessToken ''/tenant/invitations'' NoBody"

definition tenantApi_inviteUser :: "string \<Rightarrow> json \<Rightarrow> request" where
  "tenantApi_inviteUser accessToken payload =
     json_request ''POST'' accessToken ''/tenant/invitations'' (JsonBody payload)"

definition tenantApi_resendInvitation :: "string \<Rightarrow> string \<Rightarrow> request" where
  "tenantApi_resendInvitation accessToken userId =
     json_request ''POST'' accessToken (''/tenant/invitations/'' @ userId @ ''/resend'') NoBody"

definition tenantApi_cancelInvitation :: "string \<Rightarrow> string \<Rightarrow> request" where
  "tenantApi_cancelInvitation accessToken userId =
     json_request ''POST'' accessToken (''/tenant/invitations/'' @ userId @ ''/cancel'') NoBody"

definition tenantApi_listTeams :: "string \<Rightarrow> request" where
  "tenantApi_listTeams accessToken = json_request ''GET'' accessToken ''/tenant/teams'' NoBody"

definition tenantApi_getUsage :: "string \<Rightarrow> request" where
  "tenantApi_getUsage accessToken = json_request ''GET'' accessToken ''/tenant/usage'' NoBody"

definition tenantApi_listAuditEvents ::
  "string \<Rightarrow> int option \<Rightarrow> int option \<Rightarrow> request" where
  "tenantApi_listAuditEvents accessToken limit offset =
     json_request ''GET'' accessToken (''/tenant/audit'' @ query_suffix
       (set_if_defined ''offset'' offset (set_if_defined ''limit'' limit []))) NoBody"

section \<open>\<open>dataImport.ts\<close>\<close>

definition dataImportApi_validate ::
  "string \<Rightarrow> string \<Rightarrow> upload_file \<Rightarrow> string option \<Rightarrow> request" where
  "dataImportApi_validate accessToken domain file sheetName =
     (let query = (case truthy_text sheetName of None \<Rightarrow> [] | Some n \<Rightarrow> ''?sheet_name='' @ encodeURIComponent n)
      in upload_request accessToken (''/data-import/'' @ domain @ ''/validate'' @ query) file)"

definition dataImportApi_configureJob ::
  "string \<Rightarrow> string \<Rightarrow> json \<Rightarrow> request" where
  "dataImportApi_configureJob accessToken jobId req =
     json_request ''POST'' accessToken (''/data-import/jobs/'' @ jobId @ ''/configure'') (JsonBody (JStr (json_text req)))"

definition dataImportApi_listJobs :: "string \<Rightarrow> request" where
  "dataImportApi_listJobs accessToken = json_request ''GET'' accessToken ''/data-import/jobs'' NoBody"

definition dataImportApi_getJob :: "string \<Rightarrow> string \<Rightarrow> request" where
  "dataImportApi_getJob accessToken jobId = json_request ''GET'' accessToken (''/data-import/jobs/'' @ jobId) NoBody"

definition dataImportApi_commitJob :: "string \<Rightarrow> string \<Rightarrow> request" where
  "dataImportApi_commitJob accessToken jobId =
     json_request ''POST'' accessToken (''/data-import/jobs/'' @ jobId @ ''/commit'') NoBody"

definition dataImportApi_listMappings ::
  "string \<Rightarrow> string option \<Rightarrow> request" where
  "dataImportApi_listMappings accessToken domain =
     (let query = (case truthy_text domain of None \<Rightarrow> [] | Some d \<Rightarrow> ''?domain='' @ encodeURIComponent d)
      in json_request ''GET'' accessToken (''/data-import/mappings'' @ query) NoBody)"

definition dataImportApi_createMapping ::
  "string \<Rightarrow> json \<Rightarrow> request" where
  "dataImportApi_createMapping accessToken req =
     json_request ''POST'' accessToken ''/data-import/mappings'' (JsonBody (JStr (json_text req)))"

definition dataImportApi_deleteMapping :: "string \<Rightarrow> string \<Rightarrow> request" where
  "dataImportApi_deleteMapping accessToken mappingId =
     json_request ''DELETE'' accessToken (''/data-import/mappings/'' @ mappingId) NoBody"

end
