(* ===== verification/ApiIntelligence.thy ===== *)
theory ApiIntelligence
  imports Requests
begin

text \<open>
  The clients of assessments, compliance and the intelligence services.
  One definition per method of the clients under \<open>src/frontend/lib/api\<close>: the request it makes.
  A payload that is sent as it is given is a \<open>json\<close>; an optional argument is an option.
\<close>

section \<open>\<open>assessments.ts\<close>\<close>

definition assessmentsApi_list :: "string \<Rightarrow> request" where
  "assessmentsApi_list accessToken = json_request ''GET'' accessToken ''/assessments'' NoBody"

definition assessmentsApi_create :: "string \<Rightarrow> json \<Rightarrow> request" where
  "assessmentsApi_create accessToken payload = json_request ''POST'' accessToken ''/assessments'' (JsonBody payload)"

definition assessmentsApi_get :: "string \<Rightarrow> string \<Rightarrow> request" where
  "assessmentsApi_get accessToken assessmentId =
     json_request ''GET'' accessToken (''/assessments/'' @ assessmentId) NoBody"

definition assessmentsApi_run :: "string \<Rightarrow> string \<Rightarrow> request" where
  "assessmentsApi_run accessToken assessmentId =
     json_request ''POST'' accessToken (''/assessments/'' @ assessmentId @ ''/run'') NoBody"

definition assessmentsApi_getLatestSnapshot :: "string \<Rightarrow> string \<Rightarrow> request" where
  "assessmentsApi_getLatestSnapshot accessToken assessmentId =
     json_request ''GET'' accessToken (''/assessments/'' @ assessmentId @ ''/snapshot'') NoBody"

definition assessmentsApi_getFindings :: "string \<Rightarrow> string \<Rightarrow> request" where
  "assessmentsApi_getFindings accessToken assessmentId =
     json_request ''GET'' accessToken (''/assessments/'' @ assessmentId @ ''/findings'') NoBody"

definition assessmentsApi_getRisks :: "string \<Rightarrow> string \<Rightarrow> request" where
  "assessmentsApi_getRisks accessToken assessmentId =
     json_request ''GET'' accessToken (''/assessments/'' @ assessmentId @ ''/risks'') NoBody"

definition assessmentsApi_getGaps :: "string \<Rightarrow> string \<Rightarrow> request" where
  "assessmentsApi_getGaps accessToken assessmentId =
     json_request ''GET'' accessToken (''/assessments/'' @ assessmentId @ ''/gaps'') NoBody"

definition assessmentsApi_getRecommendations :: "string \<Rightarrow> string \<Rightarrow> request" where
  "assessmentsApi_getRecommendations accessToken assessmentId =
     json_request ''GET'' accessToken (''/assessments/'' @ assessmentId @ ''/recommendations'') NoBody"

definition assessmentsApi_getRoadmap :: "string \<Rightarrow> string \<Rightarrow> request" where
  "assessmentsApi_getRoadmap accessToken assessmentId =
     json_request ''GET'' accessToken (''/assessments/'' @ assessmentId @ ''/roadmap'') NoBody"

definition assessmentsApi_compareSnapshots :: "string \<Rightarrow> string \<Rightarrow> string \<Rightarrow> request" where
  "assessmentsApi_compareSnapshots accessToken snapshotIdA snapshotIdB =
     json_request ''GET'' accessToken (''/assessments/compare/'' @ snapshotIdA @ ''/'' @ snapshotIdB) NoBody"

section \<open>\<open>compliance.ts\<close>\<close>

definition regulatoryRequirementsApi_list :: "string \<Rightarrow> request" where
  "regulatoryRequirementsApi_list accessToken = json_request ''GET'' accessToken ''/regulatory-requirements'' NoBody"

definition regulatoryRequirementsApi_get :: "string \<Rightarrow> string \<Rightarrow> request" where
  "regulatoryRequirementsApi_get accessToken requirementId =
     json_request ''GET'' accessToken (''/regulatory-requirements/'' @ requirementId) NoBody"

definition complianceAssessmentsApi_listForAircraft :: "string \<Rightarrow> string \<Rightarrow> request" where
  "complianceAssessmentsApi_listForAircraft accessToken aircraftId =
     json_request ''GET'' accessToken (''/aircraft/'' @ aircraftId @ ''/compliance-assessments'') NoBody"

definition complianceAssessmentsApi_listForAsset :: "string \<Rightarrow> string \<Rightarrow> request" where
  "complianceAssessmentsApi_listForAsset accessToken assetId =
     json_request ''GET'' accessToken (''/assets/'' @ assetId @ ''/compliance-assessments'') NoBody"

definition complianceAssessmentsApi_analyticsForAircraft :: "string \<Rightarrow> string \<Rightarrow> request" where
  "complianceAssessmentsApi_analyticsForAircraft accessToken aircraftId =
     json_request ''GET'' accessToken (''/aircraft/'' @ aircraftId @ ''/compliance-analytics'') NoBody"

definition complianceAssessmentsApi_analyticsForAsset :: "string \<Rightarrow> string \<Rightarrow> request" where
  "complianceAssessmentsApi_analyticsForAsset accessToken assetId =
     json_request ''GET'' accessToken (''/assets/'' @ assetId @ ''/compliance-analytics'') NoBody"

definition complianceAssessmentsApi_get :: "string \<Rightarrow> string \<Rightarrow> request" where
  "complianceAssessmentsApi_get accessToken assessmentId =
     json_request ''GET'' accessToken (''/compliance-assessments/'' @ assessmentId) NoBody"

definition complianceAssessmentsApi_create :: "string \<Rightarrow> json \<Rightarrow> request" where
  "complianceAssessmentsApi_create accessToken payload =
     json_request ''POST'' accessToken ''/compliance-assessments'' (JsonBody payload)"

definition complianceAssessmentsApi_override :: "string \<Rightarrow> string \<Rightarrow> json \<Rightarrow> request" where
  "complianceAssessmentsApi_override accessToken assessmentId payload =
     json_request ''POST'' accessToken (''/compliance-assessments/'' @ assessmentId @ ''/override'') (JsonBody payload)"

definition complianceObligationsApi_overview :: "string \<Rightarrow> request" where
  "complianceObligationsApi_overview accessToken = json_request ''GET'' accessToken ''/compliance/overview'' NoBody"

definition complianceObligationsApi_list ::
  "string \<Rightarrow> string option \<Rightarrow> string option \<Rightarrow> string option \<Rightarrow> string option \<Rightarrow> request" where
  "complianceObligationsApi_list accessToken status aircraft_id asset_id requirement_id =
     json_request ''GET'' accessToken (''/compliance/obligations'' @ query_suffix
       (set_if_text ''requirement_id'' requirement_id (set_if_text ''asset_id'' asset_id
        (set_if_text ''aircraft_id'' aircraft_id (set_if_text ''status'' status []))))) NoBody"

definition complianceObligationsApi_get :: "string \<Rightarrow> string \<Rightarrow> request" where
  "complianceObligationsApi_get accessToken i =
     json_request ''GET'' accessToken (''/compliance/obligations/'' @ i) NoBody"

definition complianceObligationsApi_create :: "string \<Rightarrow> json \<Rightarrow> request" where
  "complianceObligationsApi_create accessToken payload =
     json_request ''POST'' accessToken ''/compliance/obligations'' (JsonBody payload)"

definition complianceObligationsApi_evaluate :: "string \<Rightarrow> string \<Rightarrow> request" where
  "complianceObligationsApi_evaluate accessToken i =
     json_request ''POST'' accessToken (''/compliance/obligations/'' @ i @ ''/evaluate'') NoBody"

definition complianceObligationsApi_traceability :: "string \<Rightarrow> string \<Rightarrow> request" where
  "complianceObligationsApi_traceability accessToken i =
     json_request ''GET'' accessToken (''/compliance/obligations/'' @ i @ ''/traceability'') NoBody"

definition complianceObligationsApi_listEvidence :: "string \<Rightarrow> string \<Rightarrow> request" where
  "complianceObligationsApi_listEvidence accessToken i =
     json_request ''GET'' accessToken (''/compliance/obligations/'' @ i @ ''/evidence'') NoBody"

definition complianceObligationsApi_attachEvidence :: "string \<Rightarrow> string \<Rightarrow> json \<Rightarrow> request" where
  "complianceObligationsApi_attachEvidence accessToken i payload =
     json_request ''POST'' accessToken (''/compliance/obligations/'' @ i @ ''/evidence'') (JsonBody payload)"

definition complianceIntelligenceApi_getAssetReadiness :: "string \<Rightarrow> string \<Rightarrow> request" where
  "complianceIntelligenceApi_getAssetReadiness accessToken assetId =
     json_request ''GET'' accessToken (''/compliance/assets/'' @ assetId @ ''/readiness'') NoBody"

definition complianceIntelligenceApi_getAssetImpact :: "string \<Rightarrow> string \<Rightarrow> request" where
  "complianceIntelligenceApi_getAssetImpact accessToken assetId =
     json_request ''GET'' accessToken (''/compliance/assets/'' @ assetId @ ''/impact'') NoBody"

definition complianceIntelligenceApi_getFindingImpact :: "string \<Rightarrow> string \<Rightarrow> request" where
  "complianceIntelligenceApi_getFindingImpact accessToken findingId =
     json_request ''GET'' accessToken (''/compliance/findings/'' @ findingId @ ''/impact'') NoBody"

definition complianceIntelligenceApi_getInspectionImpact :: "string \<Rightarrow> string \<Rightarrow> request" where
  "complianceIntelligenceApi_getInspectionImpact accessToken inspectionId =
     json_request ''GET'' accessToken (''/compliance/inspections/'' @ inspectionId @ ''/impact'') NoBody"

definition complianceIntelligenceApi_resolveInspection :: "string \<Rightarrow> string \<Rightarrow> request" where
  "complianceIntelligenceApi_resolveInspection accessToken inspectionId =
     json_request ''POST'' accessToken (''/compliance/inspections/'' @ inspectionId @ ''/resolve'') NoBody"

section \<open>\<open>intelligence.ts\<close>\<close>

definition intelligenceApi_getFleet :: "string \<Rightarrow> request" where
  "intelligenceApi_getFleet accessToken = json_request ''GET'' accessToken ''/intelligence/fleet'' NoBody"

definition intelligenceApi_getReadiness :: "string \<Rightarrow> string \<Rightarrow> request" where
  "intelligenceApi_getReadiness accessToken assetId =
     json_request ''GET'' accessToken (''/intelligence/assets/'' @ assetId @ ''/readiness'') NoBody"

definition intelligenceApi_getRisk :: "string \<Rightarrow> string \<Rightarrow> request" where
  "intelligenceApi_getRisk accessToken assetId =
     json_request ''GET'' accessToken (''/intelligence/assets/'' @ assetId @ ''/risk'') NoBody"

definition intelligenceApi_getPriority :: "string \<Rightarrow> string \<Rightarrow> request" where
  "intelligenceApi_getPriority accessToken assetId =
     json_request ''GET'' accessToken (''/intelligence/assets/'' @ assetId @ ''/priority'') NoBody"

definition intelligenceApi_getDecision :: "string \<Rightarrow> string \<Rightarrow> request" where
  "intelligenceApi_getDecision accessToken assetId =
     json_request ''GET'' accessToken (''/intelligence/assets/'' @ assetId @ ''/decision'') NoBody"

definition intelligenceApi_getRecommendations :: "string \<Rightarrow> string \<Rightarrow> request" where
  "intelligenceApi_getRecommendations accessToken assetId =
     json_request ''GET'' accessToken (''/intelligence/assets/'' @ assetId @ ''/recommendations'') NoBody"

section \<open>\<open>lisa.ts\<close>\<close>

definition lisaApi_ask :: "string \<Rightarrow> json \<Rightarrow> request" where
  "lisaApi_ask accessToken payload = json_request ''POST'' accessToken ''/lisa/ask'' (JsonBody payload)"

section \<open>\<open>lisaContext.ts\<close>\<close>

definition lisaContextApi_get :: "string \<Rightarrow> request" where
  "lisaContextApi_get accessToken = json_request ''GET'' accessToken ''/lisa/context'' NoBody"

definition lisaContextApi_reset :: "string \<Rightarrow> request" where
  "lisaContextApi_reset accessToken = json_request ''POST'' accessToken ''/lisa/context/reset'' NoBody"

section \<open>\<open>proactive.ts\<close>\<close>

definition proactiveApi_getAlerts :: "string \<Rightarrow> request" where
  "proactiveApi_getAlerts accessToken = json_request ''GET'' accessToken ''/lisa/proactive-alerts'' NoBody"

definition proactiveApi_getDailyBrief :: "string \<Rightarrow> request" where
  "proactiveApi_getDailyBrief accessToken = json_request ''GET'' accessToken ''/lisa/daily-brief'' NoBody"

end
