(* ===== verification/ClientPlatform.thy ===== *)
theory ClientPlatform
  imports Json
begin

text \<open>
  The types of the platform administration: organizations, users, plans, subscriptions, entitlements
  and overrides (\<open>src/frontend/lib/api/platform.ts\<close>, \<open>plan.ts\<close>, \<open>subscription.ts\<close>, \<open>entitlement.ts\<close>).
  An interface is a record whose fields carry a prefix. A field that may be null or absent is an
  option, a union of literals a datatype, a value of no declared shape a \<open>json\<close>.
\<close>

datatype PlatformOrgStatus = PORG_ACTIVE | PORG_SUSPENDED

record BackendPlatformOrganization =
  porg_id :: string
  porg_name :: string
  porg_status :: "PlatformOrgStatus"
  porg_industry :: "string option"
  porg_created_at :: string
  porg_user_count :: int
  porg_aircraft_count :: int
  porg_drone_count :: "int option"

record PlatformUser =
  puser_id :: string
  puser_organization_id :: string
  puser_organization_name :: "string option"
  puser_email :: string
  puser_full_name :: string
  puser_is_active :: bool
  puser_roles :: "string list"
  puser_created_at :: string

record PlanResponse =
  plan_id :: string
  plan_name :: string
  plan_code :: string
  plan_description :: "string option"
  plan_is_active :: bool
  plan_suite_id :: "string option"
  plan_asset_scope :: "string option"
  plan_included_features_count :: "int option"
  plan_tenant_count :: "int option"
  plan_created_at :: string
  plan_updated_at :: string

record UsageLimitConfiguration =
  ulimit_feature_key :: string
  ulimit_limit_key :: string
  ulimit_limit_value :: "int option"
  ulimit_is_unlimited :: bool

record EntitlementResolutionResponse =
  entitle_organization_id :: string
  entitle_resolution_status :: string
  entitle_organization_status :: string
  entitle_subscription_id :: "string option"
  entitle_subscription_status :: "string option"
  entitle_plan_id :: "string option"
  entitle_plan_code :: "string option"
  entitle_plan_name :: "string option"
  entitle_effective_features :: "(string \<times> bool) list"
  entitle_usage_limits :: "UsageLimitConfiguration list"
  entitle_reason :: string

record TenantFeatureOverrideResponse =
  foverride_id :: string
  foverride_organization_id :: string
  foverride_feature_key :: string
  foverride_enabled :: bool
  foverride_reason :: "string option"
  foverride_expires_at :: "string option"
  foverride_created_at :: string

record SubscriptionResponse =
  subscr_id :: string
  subscr_organization_id :: string
  subscr_plan_id :: string
  subscr_status :: string
  subscr_starts_at :: string
  subscr_ends_at :: "string option"
  subscr_created_at :: string
  subscr_updated_at :: string

datatype FeatureCategory = FCAT_FLEET_OPERATIONS | FCAT_MAINTENANCE_MRO | FCAT_COMPLIANCE_AUDIT | FCAT_INTELLIGENCE_AI

record PlatformFeatureItem =
  pfeature_feature_key :: string
  pfeature_name :: string
  pfeature_description :: string
  pfeature_category :: "FeatureCategory"
  pfeature_plans :: "string list"

end
