(* ===== verification/Clock.thy ===== *)
theory Clock
  imports Dates
begin

text \<open>
  The clock as the client reads it: \<open>new Date(t).toISOString()\<close> of a time in milliseconds and
  \<open>t.toString(36)\<close>, which the synthetic identifiers are built from. Reading back an ISO time with
  \<open>new Date(s).getTime()\<close> gives the time it was printed from.
\<close>

definition three_digits :: "nat \<Rightarrow> string" where
  "three_digits n = digit_char (n div 100 mod 10) # two_digits n"

definition iso_clock :: "int \<Rightarrow> string" where
  "iso_clock ms =
     (let n = nat ms in
      two_digits (n div 3600000) @ '':'' @ two_digits (n div 60000 mod 60) @ '':'' @
      two_digits (n div 1000 mod 60) @ ''.'' @ three_digits (n mod 1000))"

definition toISOString :: "int \<Rightarrow> string" where
  "toISOString t = iso_of_day (t div ms_per_day) @ ''T'' @ iso_clock (t mod ms_per_day) @ ''Z''"

definition iso_clock_int :: "int \<Rightarrow> string" where
  "iso_clock_int n =
     int_two_digits (n div 3600000) @ '':'' @ int_two_digits (n div 60000 mod 60) @ '':'' @
     int_two_digits (n div 1000 mod 60) @ ''.'' @ int_digit (n mod 1000 div 100 mod 10) # int_two_digits (n mod 1000)"

lemma iso_clock_code [code]: "iso_clock ms = iso_clock_int (max 0 ms)"
  by (simp add: iso_clock_def iso_clock_int_def three_digits_def two_digits_int digit_char_int zdiv_int zmod_int
      Let_def max.commute)

definition base36_char :: "int \<Rightarrow> char" where
  "base36_char d = (if d < 10 then int_digit d else char_of (nat d + 87))"

fun base36_digits :: "nat \<Rightarrow> int \<Rightarrow> string" where
  "base36_digits 0 n = []"
| "base36_digits (Suc k) n = (if n < 36 then [base36_char n] else base36_digits k (n div 36) @ [base36_char (n mod 36)])"

text \<open>Eleven digits hold every integer below \<open>2 ^ 53\<close>.\<close>

definition toString36 :: "int \<Rightarrow> string" where
  "toString36 n = base36_digits 11 n"

lemma base36_digits_ne [simp]: "base36_digits (Suc k) n \<noteq> []"
  by simp

section \<open>Reading an ISO time back\<close>

lemma day_exists:
  assumes "day_from_year 0 \<le> n" and "n < day_from_year 10000"
  obtains y m d where "valid_date y m d" and "day_number y m d = n"
proof -
  define y where "y = year_from (first_guess n) n"
  have b: "day_from_year y \<le> n" "n < day_from_year (y + 1)"
    using year_from_bounds [OF first_guess_le [of n]] by (simp_all add: y_def)
  have y: "0 \<le> y" "y \<le> 9999"
    using assms b day_from_year_mono [of "y + 1" 0] day_from_year_mono [of 10000 y] by linarith+
  define r where "r = n - day_from_year y"
  have r: "0 \<le> r" "r < days_before y 12"
    using b by (simp_all add: r_def day_from_year_Suc days_before_12 split: if_splits)
  define m where "m = (LEAST k. r < days_before y k)"
  have m: "r < days_before y m" "m \<le> 12"
    unfolding m_def by (rule LeastI [of _ 12], rule r) (rule Least_le, rule r)
  have m0: "0 < m" using m r by (cases m) simp_all
  have below: "days_before y (m - 1) \<le> r"
    using not_less_Least [of "m - 1" "\<lambda>k. r < days_before y k"] m0 by (simp add: m_def)
  have "days_before y m = days_before y (m - 1) + days_in_month y (int m)"
    using m0 by (cases m) (simp_all add: add.commute)
  then have "valid_date y m (r - days_before y (m - 1) + 1)"
    using y m m0 below by (simp add: valid_date_def)
  moreover have "day_number y m (r - days_before y (m - 1) + 1) = n"
    by (simp add: day_number_def r_def)
  ultimately show ?thesis by (rule that)
qed

lemma digits_value_three: "n < 1000 \<Longrightarrow> digits_value (three_digits n) = n"
proof -
  assume "n < 1000"
  then have "n div 100 < 10" by (intro less_mult_imp_div_less) simp
  have "digits_value (three_digits n) = digits_value ([digit_char (n div 100 mod 10)] @ two_digits n)"
    by (simp add: three_digits_def)
  also have "\<dots> = 100 * digits_value [digit_char (n div 100 mod 10)] + n mod 100"
    by (rule digits_value_append_two)
  also have "\<dots> = 100 * (n div 100) + n mod 100"
    using \<open>n div 100 < 10\<close> by (simp add: digits_value_def)
  finally show ?thesis by simp
qed

lemma three_digits_shape [simp]: "length (three_digits n) = 3" "all_digits (three_digits n)"
  using all_digits_digits(1) [of n] by (simp_all add: three_digits_def all_digits_def)

lemma iso_clock_fields:
  assumes "n < 86400000"
  shows "length (iso_clock (int n)) = 12" "iso_clock (int n) ! 8 = CHR ''.''"
    "iso_clock (int n) ! 2 = CHR '':''" "iso_clock (int n) ! 5 = CHR '':''"
    "take 2 (iso_clock (int n)) = two_digits (n div 3600000)"
    "take 2 (drop 3 (iso_clock (int n))) = two_digits (n div 60000 mod 60)"
    "take 2 (drop 6 (iso_clock (int n))) = two_digits (n div 1000 mod 60)"
    "drop 9 (iso_clock (int n)) = three_digits (n mod 1000)"
  by (simp_all add: iso_clock_def Let_def nth_append)

lemma clock_parts: "(((n div 3600000) * 60 + n div 60000 mod 60) * 60 + n div 1000 mod 60) * 1000 + n mod 1000 = (n::nat)"
proof -
  have a: "n div 60000 = n div 1000 div 60" "n div 3600000 = n div 60000 div 60"
    using div_mult2_eq [of n 1000 60] div_mult2_eq [of n 60000 60] by simp_all
  have "n div 3600000 * 60 + n div 60000 mod 60 = n div 60000" unfolding a(2) by (rule div_mult_mod_eq)
  moreover have "n div 60000 * 60 + n div 1000 mod 60 = n div 1000" unfolding a(1) by (rule div_mult_mod_eq)
  moreover have "n div 1000 * 1000 + n mod 1000 = n" by (rule div_mult_mod_eq)
  ultimately show ?thesis by simp
qed

lemma parse_clock_iso:
  assumes "n < 86400000"
  shows "parse_clock (iso_clock (int n)) = Some (int n)"
proof -
  have h: "n div 3600000 < 24" using assms by (intro less_mult_imp_div_less) simp
  have d: "digits_value (two_digits (n div 3600000)) = n div 3600000"
      "digits_value (two_digits (n div 60000 mod 60)) = n div 60000 mod 60"
      "digits_value (two_digits (n div 1000 mod 60)) = n div 1000 mod 60"
      "digits_value (three_digits (n mod 1000)) = n mod 1000"
    by (rule digits_value_two digits_value_three, use h in simp)+
  have b: "int (n div 3600000) < 24" "int (n div 60000 mod 60) < 60" "int (n div 1000 mod 60) < 60"
    using h by (simp_all del: of_nat_mod)
  have s: "((int (n div 3600000) * 60 + int (n div 60000 mod 60)) * 60 + int (n div 1000 mod 60)) * 1000 +
      int (n mod 1000) = int n"
    using arg_cong [OF clock_parts [of n], of int] by (simp only: of_nat_add of_nat_mult of_nat_numeral)
  show ?thesis
    by (simp only: parse_clock_def iso_clock_fields [OF assms] all_digits_digits three_digits_shape d Let_def b s) simp
qed

lemma length_iso_of_day:
  assumes "day_from_year 0 \<le> n" and "n < day_from_year 10000"
  shows "length (iso_of_day n) = 10" and "parse_day (iso_of_day n) = Some n"
proof -
  obtain y m d where "valid_date y m d" "day_number y m d = n" by (rule day_exists [OF assms])
  then show "length (iso_of_day n) = 10" "parse_day (iso_of_day n) = Some n"
    using iso_of_day_number [of y m d] parse_day_iso [of y m d] by (simp_all add: iso_date_fields)
qed

lemma getTime_toISOString_aux:
  assumes "day_from_year 0 * ms_per_day \<le> t" and "t < day_from_year 10000 * ms_per_day"
  shows "getTime (toISOString t) = Some t"
proof -
  define n where "n = t div ms_per_day"
  define k where "k = nat (t mod ms_per_day)"
  have "0 \<le> t mod ms_per_day" "t mod ms_per_day < 86400000"
    by (simp_all add: ms_per_day_def)
  then have k: "t mod ms_per_day = int k" "k < 86400000"
    unfolding k_def by (simp, subst nat_less_iff) simp_all
  have t: "n * ms_per_day + int k = t" unfolding n_def k(1) [symmetric] by simp
  have n: "day_from_year 0 \<le> n" "n < day_from_year 10000"
    using assms t k(2) by (simp_all add: ms_per_day_def)
  have len: "length (iso_of_day n) = 10" and day: "parse_day (iso_of_day n) = Some n"
    using length_iso_of_day [OF n] .
  have s: "toISOString t = iso_of_day n @ ''T'' @ iso_clock (int k) @ ''Z''"
    by (simp add: toISOString_def n_def k)
  have "length (toISOString t) = 24" by (simp add: s len iso_clock_fields(1) [OF k(2)])
  moreover have "toISOString t ! 10 = CHR ''T''" "last (toISOString t) = CHR ''Z''"
      "take 10 (toISOString t) = iso_of_day n" "butlast (drop 11 (toISOString t)) = iso_clock (int k)"
    by (simp_all add: s len nth_append butlast_append)
  ultimately show ?thesis
    by (simp add: getTime_def day parse_clock_iso [OF k(2)] t)
qed

end
