(* ===== verification/Machines.thy ===== *)
theory Machines
  imports Contracts
begin

text \<open>
  Refinement between deterministic machines: the detailed machine \<open>step\<close> implements the abstract
  machine \<open>spec\<close> when, on the states where \<open>good\<close> holds, the abstraction \<open>view\<close> of a step is the
  abstract step of the view. The client is shown, once, that whole runs agree.
\<close>

locale simulation =
  fixes step :: "'s \<Rightarrow> 'e \<Rightarrow> 's" and spec :: "'a \<Rightarrow> 'e \<Rightarrow> 'a" and view :: "'s \<Rightarrow> 'a" and good :: "'s \<Rightarrow> bool"
  assumes good_step: "good s \<Longrightarrow> good (step s e)"
    and view_step: "good s \<Longrightarrow> view (step s e) = spec (view s) e"
begin

lemma run_good: "good s \<Longrightarrow> good (run step s es)"
  by (induction es arbitrary: s) (auto simp: good_step)

lemma run_view: "good s \<Longrightarrow> view (run step s es) = run spec (view s) es"
  by (induction es arbitrary: s) (auto simp: good_step view_step)

text \<open>A property the abstract machine keeps holds of every view of the detailed one.\<close>

lemma run_property:
  assumes "good s" and "P (view s)" and "\<And>a e. P a \<Longrightarrow> P (spec a e)"
  shows "P (view (run step s es))"
proof -
  have "P (run spec a es)" if "P a" for a
    using that by (induction es arbitrary: a) (auto simp: assms(3))
  then show ?thesis using assms(1,2) by (simp add: run_view)
qed

end

end
