(* ===== verification/Entitlements.thy ===== *)
theory Entitlements
  imports ClientPlatform Clock Machines
begin

text \<open>
  Plans and entitlements on the client: the expiry of a feature override
  (\<open>src/frontend/lib/api/entitlement.ts\<close>), the states of a subscription (\<open>subscription.ts\<close>), the
  navigation items a tenant's entitlements gray out (\<open>src/frontend/lib/entitlements/navFeatureMap.ts\<close>)
  and the hook that fetches them (\<open>useMyEntitlements.ts\<close>). Times are milliseconds; \<open>getTime\<close> reads the
  ISO dates and times the server sends.
\<close>

section \<open>Feature overrides\<close>

datatype ExpirationState = EXP_PERMANENT | EXP_ACTIVE | EXP_EXPIRING_SOON | EXP_EXPIRED

record OverrideExpiration =
  oexp_state :: ExpirationState
  oexp_label :: string
  oexp_isApplicable :: bool

definition getOverrideExpirationState :: "TenantFeatureOverrideResponse \<Rightarrow> int \<Rightarrow> OverrideExpiration" where
  "getOverrideExpirationState ov now =
     (let mk = (\<lambda>s l a. \<lparr>oexp_state = s, oexp_label = l, oexp_isApplicable = a\<rparr>);
          permanent = mk EXP_PERMANENT ''Permanent (No Expiry)'' True
      in case foverride_expires_at ov of
           None \<Rightarrow> permanent
         | Some e \<Rightarrow>
             if e = [] then permanent
             else (case getTime e of
                None \<Rightarrow> mk EXP_EXPIRED ''Invalid Expiration'' False
              | Some expires \<Rightarrow>
                  let diffMs = expires - now in
                  if diffMs \<le> 0 then mk EXP_EXPIRED ''Expired'' False
                  else if diffMs \<le> 24 * 60 * 60 * 1000 then mk EXP_EXPIRING_SOON ''Expires Soon'' True
                  else mk EXP_ACTIVE ''Active'' True))"

section \<open>Subscriptions\<close>

definition ALLOWED_TRANSITIONS :: "(string \<times> string list) list" where
  "ALLOWED_TRANSITIONS =
     [(''TRIALING'', [''ACTIVE'', ''PAST_DUE'', ''CANCELED'']),
      (''ACTIVE'', [''PAST_DUE'', ''CANCELED'']),
      (''PAST_DUE'', [''ACTIVE'', ''CANCELED'']),
      (''SCHEDULED'', [''TRIALING'', ''ACTIVE'', ''CANCELED'']),
      (''CANCELED'', [])]"

definition CREATABLE_STATUSES :: "string list" where
  "CREATABLE_STATUSES = [''TRIALING'', ''ACTIVE'', ''PAST_DUE'', ''SCHEDULED'']"

definition CURRENT_GRANTING_STATUSES :: "string list" where
  "CURRENT_GRANTING_STATUSES = [''TRIALING'', ''ACTIVE'', ''PAST_DUE'']"

datatype SubscriptionGroup = GRP_Upcoming | GRP_Current | GRP_Historical

text \<open>Comparisons with an invalid date are false.\<close>

definition groupSubscription :: "string \<Rightarrow> string \<Rightarrow> string option \<Rightarrow> int \<Rightarrow> SubscriptionGroup" where
  "groupSubscription status starts_at ends_at now =
     (if status = ''CANCELED'' then GRP_Historical
      else if status = ''SCHEDULED'' then GRP_Upcoming
      else if status \<notin> set CURRENT_GRANTING_STATUSES then GRP_Historical
      else let starts = getTime starts_at;
               ends = (case ends_at of None \<Rightarrow> None | Some e \<Rightarrow> if e = [] then None else getTime e)
        in if (case starts of None \<Rightarrow> False | Some t \<Rightarrow> t > now) then GRP_Upcoming
           else if (case ends of None \<Rightarrow> False | Some t \<Rightarrow> t \<le> now) then GRP_Historical
           else GRP_Current)"

text \<open>The steps the administration offers.\<close>

definition next_statuses :: "string \<Rightarrow> string list" where
  "next_statuses s = or_else (map_of ALLOWED_TRANSITIONS s) []"

inductive sub_step :: "string \<Rightarrow> string \<Rightarrow> bool" where
  sub_stepI: "t \<in> set (next_statuses s) \<Longrightarrow> sub_step s t"

inductive_cases sub_stepE: "sub_step s t"

inductive sub_steps :: "string \<Rightarrow> string \<Rightarrow> bool" where
  sub_refl: "sub_steps s s"
| sub_more: "sub_steps s t \<Longrightarrow> sub_step t u \<Longrightarrow> sub_steps s u"

section \<open>Navigation\<close>

definition NAV_FEATURE_MAP :: "(string \<times> string) list" where
  "NAV_FEATURE_MAP =
     [(''/maintenance/work-orders'', ''work_order_management''),
      (''/drones'', ''drone_fleet_management''),
      (''/procurement'', ''procurement_management''),
      (''/procurement/purchase-orders'', ''procurement_management'')]"

definition isNavItemEntitlementGated :: "string \<Rightarrow> (string \<times> bool) list option \<Rightarrow> bool" where
  "isNavItemEntitlementGated href effectiveFeatures =
     (case effectiveFeatures of
        None \<Rightarrow> False
      | Some fs \<Rightarrow> (case map_of NAV_FEATURE_MAP href of None \<Rightarrow> False | Some key \<Rightarrow> map_of fs key = Some False))"

section \<open>The hook that fetches the entitlements\<close>

text \<open>
  \<open>hook_run\<close> numbers the runs of the effect: a run is cancelled when the next one starts or the component
  is unmounted. For the statements, \<open>hook_asked\<close> records the access token each run asked with,
  \<open>hook_token\<close> is that of the current run and \<open>hook_shown_for\<close> the one the resolution in the state answers.
\<close>

record EntitlementHook =
  hook_resolution :: "EntitlementResolutionResponse option"
  hook_loading :: bool
  hook_run :: nat
  hook_fetching :: bool
  hook_asked :: "(nat \<times> string option) list"
  hook_token :: "string option"
  hook_shown_for :: "string option"

datatype HookEvent =
    HookEffect bool "string option"
  | HookSettled nat "EntitlementResolutionResponse option"
  | HookUnmount

definition hook_init :: EntitlementHook where
  "hook_init = \<lparr>hook_resolution = None, hook_loading = True, hook_run = 0, hook_fetching = False,
     hook_asked = [], hook_token = None, hook_shown_for = None\<rparr>"

text \<open>
  \<open>HookSettled g r\<close>: the request of run \<open>g\<close> settles, with a resolution or with an error (\<open>None\<close>); its
  \<open>then\<close> or \<open>catch\<close> and its \<open>finally\<close> run.
\<close>

fun hook_step :: "EntitlementHook \<Rightarrow> HookEvent \<Rightarrow> EntitlementHook" where
  "hook_step h (HookEffect isAuthenticated accessToken) =
     (if \<not> isAuthenticated \<or> accessToken = None \<or> accessToken = Some []
      then h\<lparr>hook_run := Suc (hook_run h), hook_fetching := False, hook_token := None,
             hook_resolution := None, hook_loading := False\<rparr>
      else h\<lparr>hook_run := Suc (hook_run h), hook_fetching := True, hook_token := accessToken,
             hook_asked := (Suc (hook_run h), accessToken) # hook_asked h, hook_loading := True\<rparr>)"
| "hook_step h (HookSettled g r) =
     (if g = hook_run h \<and> hook_fetching h
      then h\<lparr>hook_resolution := r, hook_shown_for := or_else (map_of (hook_asked h) g) None,
             hook_loading := False, hook_fetching := False\<rparr>
      else h)"
| "hook_step h HookUnmount = h\<lparr>hook_fetching := False\<rparr>"

definition useMyEntitlements :: "EntitlementHook \<Rightarrow> (string \<times> bool) list option \<times> bool" where
  "useMyEntitlements h = (map_option entitle_effective_features (hook_resolution h), hook_loading h)"

section \<open>Lemmas\<close>

definition exp_rank :: "ExpirationState \<Rightarrow> nat" where
  "exp_rank s = (case s of EXP_PERMANENT \<Rightarrow> 0 | EXP_ACTIVE \<Rightarrow> 0 | EXP_EXPIRING_SOON \<Rightarrow> 1 | EXP_EXPIRED \<Rightarrow> 2)"

definition grp_rank :: "SubscriptionGroup \<Rightarrow> nat" where
  "grp_rank g = (case g of GRP_Upcoming \<Rightarrow> 0 | GRP_Current \<Rightarrow> 1 | GRP_Historical \<Rightarrow> 2)"

lemma next_statuses_simps [simp]:
  "next_statuses ''TRIALING'' = [''ACTIVE'', ''PAST_DUE'', ''CANCELED'']"
  "next_statuses ''ACTIVE'' = [''PAST_DUE'', ''CANCELED'']"
  "next_statuses ''PAST_DUE'' = [''ACTIVE'', ''CANCELED'']"
  "next_statuses ''SCHEDULED'' = [''TRIALING'', ''ACTIVE'', ''CANCELED'']"
  "next_statuses ''CANCELED'' = []"
  by (simp_all add: next_statuses_def ALLOWED_TRANSITIONS_def)

lemma next_known: "t \<in> set (next_statuses s) \<Longrightarrow> s \<in> {''TRIALING'', ''ACTIVE'', ''PAST_DUE'', ''SCHEDULED''}"
  by (auto simp: next_statuses_def ALLOWED_TRANSITIONS_def or_else_def split: option.splits if_splits)

lemma sub_step_cases:
  "sub_step s t \<Longrightarrow> s \<noteq> ''CANCELED'' \<and> t \<noteq> ''SCHEDULED'' \<and> (t = ''TRIALING'' \<longrightarrow> s = ''SCHEDULED'')"
  using next_known [of t s] by (auto elim!: sub_stepE)

definition hook_fresh :: "EntitlementHook \<Rightarrow> bool" where
  "hook_fresh h \<longleftrightarrow> hook_loading h \<or> hook_resolution h = None \<or>
     hook_shown_for h = hook_token h \<and> hook_token h \<noteq> None \<and> hook_token h \<noteq> Some []"

definition hook_inv :: "EntitlementHook \<Rightarrow> bool" where
  "hook_inv h \<longleftrightarrow> hook_fresh h \<and> (hook_fetching h \<longrightarrow> hook_token h \<noteq> None \<and> hook_token h \<noteq> Some [] \<and>
     map_of (hook_asked h) (hook_run h) = Some (hook_token h))"

interpretation entitlement_hook: machine hook_step hook_inv
proof
  fix h e
  assume "hook_inv h"
  then show "hook_inv (hook_step h e)"
    by (cases e) (auto simp: hook_inv_def hook_fresh_def or_else_def)
qed

lemma gated_feature:
  "isNavItemEntitlementGated href fs \<Longrightarrow>
   \<exists>key. map_of NAV_FEATURE_MAP href = Some key \<and> (\<exists>m. fs = Some m \<and> map_of m key = Some False)"
  by (auto simp: isNavItemEntitlementGated_def split: option.splits)

section \<open>Properties\<close>

text \<open>
  The state of a feature override only moves forward in time, from active over expiring soon to expired,
  a permanent one never moves; and it is applicable exactly as long as it is not expired.
\<close>

theorem override_expiry_monotone:
  assumes "now \<le> later"
  shows "exp_rank (oexp_state (getOverrideExpirationState ov now)) \<le> exp_rank (oexp_state (getOverrideExpirationState ov later)) \<and>
    (oexp_state (getOverrideExpirationState ov now) = EXP_PERMANENT \<longleftrightarrow>
       oexp_state (getOverrideExpirationState ov later) = EXP_PERMANENT) \<and>
    (oexp_isApplicable (getOverrideExpirationState ov now) \<longleftrightarrow>
       oexp_state (getOverrideExpirationState ov now) \<noteq> EXP_EXPIRED)"
  using assms by (simp add: getOverrideExpirationState_def exp_rank_def Let_def split: option.split)

theorem override_expiry_monotone_witness:
  "let ov = \<lparr>foverride_id = ''o1'', foverride_organization_id = ''t1'', foverride_feature_key = ''f'',
              foverride_enabled = True, foverride_reason = None, foverride_expires_at = Some ''2026-03-20'',
              foverride_created_at = ''2026-03-01''\<rparr> in
   exp_rank (oexp_state (getOverrideExpirationState ov 0)) \<le> exp_rank (oexp_state (getOverrideExpirationState ov 5)) \<and>
   (oexp_state (getOverrideExpirationState ov 0) = EXP_PERMANENT \<longleftrightarrow>
      oexp_state (getOverrideExpirationState ov 5) = EXP_PERMANENT) \<and>
   (oexp_isApplicable (getOverrideExpirationState ov 0) \<longleftrightarrow>
      oexp_state (getOverrideExpirationState ov 0) \<noteq> EXP_EXPIRED)"
  unfolding Let_def by (rule override_expiry_monotone) simp

text \<open>
  C27 The subscription state machine: whatever steps are taken, CANCELED is final, SCHEDULED is never entered
  again, TRIALING is only reached from SCHEDULED or TRIALING itself; and every status a subscription can be
  created with can be cancelled in one step.
\<close>

theorem subscription_lifecycle:
  assumes "sub_steps s t"
  shows "(s = ''CANCELED'' \<longrightarrow> t = ''CANCELED'') \<and> (t = ''SCHEDULED'' \<longrightarrow> s = ''SCHEDULED'') \<and>
    (t = ''TRIALING'' \<longrightarrow> s = ''TRIALING'' \<or> s = ''SCHEDULED'') \<and>
    list_all (\<lambda>c. sub_step c ''CANCELED'') CREATABLE_STATUSES"
proof -
  have "list_all (\<lambda>c. sub_step c ''CANCELED'') CREATABLE_STATUSES"
    by (simp add: CREATABLE_STATUSES_def sub_step.simps)
  moreover have "(s = ''CANCELED'' \<longrightarrow> t = ''CANCELED'') \<and> (t = ''SCHEDULED'' \<longrightarrow> s = ''SCHEDULED'') \<and>
      (t = ''TRIALING'' \<longrightarrow> s = ''TRIALING'' \<or> s = ''SCHEDULED'')"
    using assms
  proof (induction rule: sub_steps.induct)
    case (sub_refl s)
    then show ?case by simp
  next
    case (sub_more s t u)
    then show ?case using sub_step_cases [of t u] by metis
  qed
  ultimately show ?thesis by blast
qed

theorem subscription_lifecycle_witness:
  "sub_steps ''SCHEDULED'' ''ACTIVE'' \<and> list_all (\<lambda>c. sub_step c ''CANCELED'') CREATABLE_STATUSES \<and>
   \<not> sub_steps ''CANCELED'' ''ACTIVE''"
proof -
  have "sub_steps ''SCHEDULED'' ''TRIALING''"
    by (rule sub_more [OF sub_refl sub_stepI]) simp
  then have a: "sub_steps ''SCHEDULED'' ''ACTIVE''"
    by (rule sub_more [OF _ sub_stepI]) simp
  show ?thesis
    using a subscription_lifecycle [OF a] subscription_lifecycle [of "''CANCELED''" "''ACTIVE''"] by auto
qed

text \<open>
  As time passes a subscription moves from upcoming over current to historical, never back; and one that
  is current has a status that grants access.
\<close>

theorem subscription_group_monotone:
  assumes "now \<le> later"
  shows "grp_rank (groupSubscription status starts ends now) \<le> grp_rank (groupSubscription status starts ends later) \<and>
    (groupSubscription status starts ends now = GRP_Current \<longrightarrow> status \<in> set CURRENT_GRANTING_STATUSES)"
  using assms by (simp add: groupSubscription_def grp_rank_def Let_def split: option.split)

lemma active_window:
  "groupSubscription ''ACTIVE'' ''2026-01-01'' (Some ''2026-03-01'') 1769904000000 = GRP_Current"
  "groupSubscription ''ACTIVE'' ''2026-01-01'' (Some ''2026-03-01'') 1774224000000 = GRP_Historical"
  by code_simp+

theorem subscription_group_monotone_witness:
  "groupSubscription ''ACTIVE'' ''2026-01-01'' (Some ''2026-03-01'') 1769904000000 = GRP_Current \<and>
   groupSubscription ''ACTIVE'' ''2026-01-01'' (Some ''2026-03-01'') 1774224000000 = GRP_Historical \<and>
   grp_rank (groupSubscription ''ACTIVE'' ''2026-01-01'' (Some ''2026-03-01'') 1769904000000) \<le>
     grp_rank (groupSubscription ''ACTIVE'' ''2026-01-01'' (Some ''2026-03-01'') 1774224000000)"
  using subscription_group_monotone [of 1769904000000 1774224000000 "''ACTIVE''" "''2026-01-01''" "Some ''2026-03-01''"]
  by (simp add: active_window)

text \<open>
  C24 The entitlement hook under any interleaving of sign-ins, token changes, late answers and unmounting:
  once it is not loading, what it shows is nothing or the answer to the current access token, so an answer
  that arrives late is never shown to another tenant; and a navigation item is then grayed out only when
  that answer names its feature as disabled.
\<close>

theorem entitlement_hook_fresh:
  "let h = run hook_step hook_init es; (features, loading) = useMyEntitlements h in
   hook_fresh h \<and>
   (isNavItemEntitlementGated href features \<and> \<not> loading \<longrightarrow>
      hook_shown_for h = hook_token h \<and> hook_token h \<noteq> None \<and>
      (\<exists>key fs. map_of NAV_FEATURE_MAP href = Some key \<and> features = Some fs \<and> map_of fs key = Some False))"
proof -
  have i: "hook_inv (run hook_step hook_init es)"
    by (rule entitlement_hook.run_inv) (simp add: hook_inv_def hook_fresh_def hook_init_def)
  then show ?thesis
    using gated_feature [of href "map_option entitle_effective_features (hook_resolution (run hook_step hook_init es))"]
    by (auto simp: useMyEntitlements_def hook_inv_def hook_fresh_def Let_def)
qed

text \<open>The answer for the first token arrives late and is dropped, the second one disables the drones.\<close>

definition drones_disabled :: EntitlementResolutionResponse where
  "drones_disabled = \<lparr>entitle_organization_id = ''t2'', entitle_resolution_status = ''ACTIVE'',
     entitle_organization_status = ''ACTIVE'', entitle_subscription_id = None, entitle_subscription_status = None,
     entitle_plan_id = None, entitle_plan_code = None, entitle_plan_name = None,
     entitle_effective_features = [(''drone_fleet_management'', False)], entitle_usage_limits = [], entitle_reason = []\<rparr>"

definition two_tokens :: "HookEvent list" where
  "two_tokens = [HookEffect True (Some ''tokA''), HookEffect True (Some ''tokB''), HookSettled 1 None,
     HookSettled 2 (Some drones_disabled)]"

lemma drones_disabled_gates:
  "isNavItemEntitlementGated ''/drones'' (fst (useMyEntitlements (run hook_step hook_init two_tokens)))"
  "\<not> snd (useMyEntitlements (run hook_step hook_init two_tokens))"
  by (simp_all add: two_tokens_def hook_init_def useMyEntitlements_def isNavItemEntitlementGated_def NAV_FEATURE_MAP_def
      drones_disabled_def)

theorem entitlement_hook_fresh_witness:
  "hook_fresh (run hook_step hook_init two_tokens) \<and>
   isNavItemEntitlementGated ''/drones'' (fst (useMyEntitlements (run hook_step hook_init two_tokens))) \<and>
   hook_shown_for (run hook_step hook_init two_tokens) = hook_token (run hook_step hook_init two_tokens)"
  using entitlement_hook_fresh [of two_tokens "''/drones''"] drones_disabled_gates
  by (simp add: Let_def split_beta)

end
