(* ===== verification/ClientAssets.thy ===== *)
theory ClientAssets
  imports Json
begin

text \<open>
  The types of \<open>src/frontend/lib/api/assets.ts\<close> that the demonstration data and its functions use.
  An interface is a record whose fields carry a prefix. A field that may be null or absent is an
  option, a union of literals a datatype, a value of no declared shape a \<open>json\<close>.
\<close>

record AssetResponse =
  asset_id :: string
  asset_organization_id :: string
  asset_asset_type :: string
  asset_manufacturer :: "string option"
  asset_model :: "string option"
  asset_serial_number :: "string option"
  asset_registration :: "string option"
  asset_status :: string
  asset_acquired_at :: "string option"
  asset_retired_at :: "string option"
  asset_facility_id :: "string option"
  asset_created_at :: string

record AssetCreateRequest =
  acreate_asset_type :: string
  acreate_registration :: string
  acreate_manufacturer :: "string option"
  acreate_model :: "string option"
  acreate_serial_number :: "string option"
  acreate_facility_id :: "string option"
  acreate_status :: "string option"

record AssetComponentResponse =
  acomponent_id :: string
  acomponent_organization_id :: string
  acomponent_asset_id :: "string option"
  acomponent_component_type :: string
  acomponent_name :: string
  acomponent_serial_number :: "string option"
  acomponent_manufacturer :: "string option"
  acomponent_model :: "string option"
  acomponent_status :: string
  acomponent_installed_at :: "string option"
  acomponent_created_at :: string

record AssetConfigurationSlotResponse =
  slot_slot_name :: string
  slot_component_type :: string
  slot_is_occupied :: bool
  slot_component :: "AssetComponentResponse option"

record AssetConfigurationResponse =
  config_asset_id :: string
  config_asset_type :: string
  config_airframe_spec :: json
  config_slots :: "AssetConfigurationSlotResponse list"
  config_total_components_installed :: int

record UsageMetricItem =
  metric_metric_key :: string
  metric_metric_label :: string
  metric_value :: rat
  metric_unit :: string
  metric_source :: string
  metric_is_metered :: bool

record AssetUtilizationResponse =
  autil_asset_id :: string
  autil_asset_type :: string
  autil_total_flight_hours :: rat
  autil_total_minutes :: int
  autil_total_cycles :: int
  autil_total_flights :: int
  autil_total_landings :: int
  autil_metrics :: "UsageMetricItem list"

record AssetFlightResponse =
  aflight_id :: string
  aflight_organization_id :: string
  aflight_asset_id :: string
  aflight_mission_id :: "string option"
  aflight_flight_number :: "string option"
  aflight_origin :: "string option"
  aflight_destination :: "string option"
  aflight_departure_time :: "string option"
  aflight_arrival_time :: "string option"
  aflight_flown_at :: string
  aflight_duration_minutes :: int
  aflight_cycles :: int
  aflight_mission_type :: "string option"
  aflight_status :: "string option"
  aflight_source :: "string option"
  aflight_pilot_user_id :: "string option"
  aflight_notes :: "string option"
  aflight_created_at :: string

record AssetOperationsResponse =
  aops_asset_id :: string
  aops_utilization :: "AssetUtilizationResponse"
  aops_recent_flights :: "AssetFlightResponse list"
  aops_active_missions :: "json list"

record AssetMaintenanceResponse =
  amaint_asset_id :: string
  amaint_due_items :: "json list"
  amaint_accomplishments :: "json list"
  amaint_open_work_orders :: "json list"
  amaint_has_overdue :: bool

record AssetInspectionsResponse =
  ainsp_asset_id :: string
  ainsp_inspections :: "json list"
  ainsp_total :: int
  ainsp_completed :: int
  ainsp_pending :: int

record AssetEvidenceResponse =
  aevid_asset_id :: string
  aevid_evidence_items :: "json list"
  aevid_total :: int
  aevid_accepted_count :: int
  aevid_pending_count :: int

record AssetFindingsResponse =
  afind_asset_id :: string
  afind_findings :: "json list"
  afind_total :: int
  afind_open_count :: int
  afind_closed_count :: int

record AssetComplianceResponse =
  acomp_asset_id :: string
  acomp_assessments :: "json list"
  acomp_overall_status :: string
  acomp_compliant_count :: int
  acomp_non_compliant_count :: int

record ReadinessDimension =
  rdim_dimension :: string
  rdim_status :: string
  rdim_summary :: string
  rdim_blockers :: "string list"

record AssetReadinessResponse =
  aready_asset_id :: string
  aready_overall_status :: string
  aready_dimensions :: "ReadinessDimension list"
  aready_evaluated_at :: string
  aready_disclaimer :: string

record AssetHistoryEventResponse =
  hevent_event_id :: string
  hevent_event_type :: string
  hevent_occurred_at :: string
  hevent_title :: string
  hevent_description :: string
  hevent_actor :: "string option"
  hevent_entity_type :: string
  hevent_entity_id :: string
  hevent_metadata :: json

record AssetHistoryResponse =
  ahist_asset_id :: string
  ahist_events :: "AssetHistoryEventResponse list"
  ahist_total :: int

record AssetDomainContextResponse =
  context_identity :: "AssetResponse"
  context_operational_status :: string
  context_lifecycle_status :: string
  context_readiness :: "AssetReadinessResponse"
  context_configuration :: "AssetConfigurationResponse"
  context_utilization :: "AssetUtilizationResponse"
  context_compliance :: "AssetComplianceResponse"
  context_open_work_orders_count :: int
  context_open_findings_count :: int
  context_overdue_maintenance_count :: int
  context_last_flight_at :: "string option"

end
