(* ===== verification/ClientDrones.thy ===== *)
theory ClientDrones
  imports Json
begin

text \<open>
  The types of \<open>src/frontend/lib/api/drones.ts\<close> and \<open>findings.ts\<close> that the demonstration fleet uses, and the
  assessment type of \<open>src/frontend/lib/demo/demoDrones.ts\<close>.
  An interface is a record whose fields carry a prefix. A field that may be null or absent is an
  option, a union of literals a datatype, a value of no declared shape a \<open>json\<close>.
\<close>

record DroneResponse =
  drone_id :: string
  drone_organization_id :: string
  drone_asset_type :: string
  drone_registration :: "string option"
  drone_manufacturer :: "string option"
  drone_model :: "string option"
  drone_serial_number :: "string option"
  drone_status :: string
  drone_facility_id :: "string option"
  drone_created_at :: string

record DroneCreateRequest =
  dcreate_registration :: string
  dcreate_manufacturer :: "string option"
  dcreate_model :: "string option"
  dcreate_serial_number :: "string option"
  dcreate_facility_id :: "string option"

datatype BatteryStatus = BAT_GOOD | BAT_MONITOR | BAT_SERVICE_DUE | BAT_CRITICAL | BAT_RETIRED

record BatteryResponse =
  battery_id :: string
  battery_organization_id :: string
  battery_asset_id :: "string option"
  battery_serial_number :: string
  battery_manufacturer :: "string option"
  battery_model :: "string option"
  battery_capacity_mah :: "int option"
  battery_voltage :: "rat option"
  battery_cycle_count :: int
  battery_health_percent :: "int option"
  battery_status :: "BatteryStatus"
  battery_installed_at :: "string option"
  battery_notes :: "string option"
  battery_created_at :: string

record ComponentResponse =
  component_id :: string
  component_organization_id :: string
  component_asset_id :: "string option"
  component_component_type :: string
  component_name :: string
  component_serial_number :: "string option"
  component_manufacturer :: "string option"
  component_model :: "string option"
  component_status :: string
  component_created_at :: string

record FlightResponse =
  flight_id :: string
  flight_organization_id :: string
  flight_asset_id :: string
  flight_flown_at :: string
  flight_duration_minutes :: int
  flight_cycles :: int
  flight_pilot_user_id :: "string option"
  flight_notes :: "string option"
  flight_created_at :: string

record UtilizationResponse =
  usage_asset_id :: string
  usage_total_flights :: int
  usage_total_minutes :: int
  usage_total_cycles :: int

record FindingBlocker =
  fblocker_finding_id :: string
  fblocker_title :: string
  fblocker_severity :: string
  fblocker_status :: string

datatype DeploymentStatus = DEP_READY | DEP_BLOCKED

record DeploymentReadinessResponse =
  deploy_asset_id :: string
  deploy_status :: "DeploymentStatus"
  deploy_blockers :: "string list"
  deploy_finding_blockers :: "FindingBlocker list option"

datatype DroneIntervalType =
    DIV_FLIGHT_HOURS | DIV_FLIGHT_CYCLES | DIV_CALENDAR | DIV_BATTERY_CYCLES |
    DIV_COMPONENT_HOURS | DIV_COMPONENT_CYCLES

record MaintenanceRequirementResponse =
  mreq_id :: string
  mreq_organization_id :: string
  mreq_description :: string
  mreq_ata_chapter :: string
  mreq_interval_type :: "DroneIntervalType"
  mreq_fh_interval :: "int option"
  mreq_fc_interval :: "int option"
  mreq_calendar_interval_days :: "int option"
  mreq_task_reference :: "string option"

datatype DroneDueStatus = DDUE_OVERDUE | DDUE_DUE_SOON | DDUE_NOT_DUE | DDUE_UNKNOWN

record DroneMaintenanceDueItem =
  mdue_requirement :: "MaintenanceRequirementResponse"
  mdue_aircraft_id :: "string option"
  mdue_asset_id :: "string option"
  mdue_battery_id :: "string option"
  mdue_component_id :: "string option"
  mdue_last_accomplished_at :: "string option"
  mdue_due_status :: "DroneDueStatus"
  mdue_due_date :: "string option"
  mdue_reason :: string
  mdue_current_usage :: "rat option"
  mdue_remaining_usage :: "rat option"
  mdue_lifetime_usage :: "rat option"

record BackendFindingDisposition =
  disposition_id :: string
  disposition_organization_id :: string
  disposition_finding_id :: string
  disposition_disposition_type :: string
  disposition_corrective_action :: "string option"
  disposition_evidence_id :: "string option"
  disposition_closed_at :: "string option"
  disposition_closed_by_user_id :: "string option"
  disposition_created_at :: string

record BackendFinding =
  finding_id :: string
  finding_organization_id :: string
  finding_aircraft_id :: "string option"
  finding_asset_id :: "string option"
  finding_component_id :: "string option"
  finding_inspection_requirement_id :: "string option"
  finding_work_order_id :: "string option"
  finding_task_id :: "string option"
  finding_compliance_obligation_id :: "string option"
  finding_regulatory_requirement_id :: "string option"
  finding_safety_significance :: "string option"
  finding_compliance_relevance :: "string option"
  finding_title :: string
  finding_description :: string
  finding_severity :: string
  finding_status :: string
  finding_discovered_at :: string
  finding_discovered_by_user_id :: "string option"
  finding_responsible_user_id :: "string option"
  finding_created_at :: string
  finding_updated_at :: string
  finding_dispositions :: "BackendFindingDisposition list"

datatype DemoMissionStatus = DMS_PLANNED | DMS_PRE_FLIGHT | DMS_AUTHORIZED | DMS_IN_PROGRESS | DMS_COMPLETED | DMS_CLOSED

datatype PreflightOverall = PFO_READY | PFO_BLOCKED

datatype PreflightCheck = PFC_PASS | PFC_FAIL | PFC_NOT_CHECKED

record PreflightChecks =
  preflight_airframe_condition :: PreflightCheck
  preflight_battery_state :: PreflightCheck
  preflight_maintenance_status :: PreflightCheck
  preflight_inspection_clearance :: PreflightCheck
  preflight_open_findings :: PreflightCheck
  preflight_pilot_qualification :: PreflightCheck
  preflight_airspace_authorization :: PreflightCheck

record DemoMission =
  mission_id :: string
  mission_mission_code :: string
  mission_asset_id :: string
  mission_pilot_name :: string
  mission_purpose :: string
  mission_status :: "DemoMissionStatus"
  mission_operating_area :: string
  mission_planned_start :: string
  mission_planned_end :: string
  mission_preflight_checks :: "PreflightChecks"
  mission_overall_preflight :: "PreflightOverall"
  mission_blockers :: "string list"
  mission_outcome :: "string option"

datatype DeterminationStatus = DET_COMPLIANT | DET_NON_COMPLIANT | DET_REVIEW_REQUIRED | DET_UNKNOWN

record DemoComplianceAssessment =
  determination_id :: string
  determination_organization_id :: string
  determination_asset_id :: string
  determination_requirement_id :: string
  determination_requirement_number :: string
  determination_authority :: string
  determination_title :: string
  determination_status :: "DeterminationStatus"
  determination_evaluated_at :: string
  determination_evaluated_by_user_id :: "string option"
  determination_notes :: "string option"
  determination_override_reason :: "string option"
  determination_overridden_by_user_id :: "string option"

end
