(* ===== verification/ClientTenant.thy ===== *)
theory ClientTenant
  imports Json
begin

text \<open>
  The types of \<open>src/frontend/lib/api/tenant.ts\<close>, the audit event of \<open>audit.ts\<close> and the signed-in user of
  \<open>src/frontend/lib/apiClient.ts\<close>.
  An interface is a record whose fields carry a prefix. A field that may be null or absent is an
  option, a union of literals a datatype, a value of no declared shape a \<open>json\<close>.
\<close>

record TenantProfile =
  tprofile_id :: string
  tprofile_name :: string
  tprofile_status :: string
  tprofile_industry :: "string option"
  tprofile_created_at :: string
  tprofile_primary_contact_email :: "string option"
  tprofile_primary_contact_name :: "string option"

record TenantSettings =
  tsettings_organization_id :: string
  tsettings_timezone :: string
  tsettings_operational_mode :: string
  tsettings_default_asset_type :: string
  tsettings_notification_email :: "string option"

record TenantUser =
  tuser_id :: string
  tuser_email :: string
  tuser_full_name :: string
  tuser_is_active :: bool
  tuser_roles :: "string list"
  tuser_created_at :: string

record TenantRoleInfo =
  trole_role_name :: string
  trole_display_name :: string
  trole_description :: string
  trole_permissions :: "string list"
  trole_is_system_role :: bool

datatype InvitationStatus = INV_PENDING | INV_ACCEPTED | INV_EXPIRED | INV_CANCELLED

record TenantInvitation =
  tinv_id :: string
  tinv_user_id :: string
  tinv_email :: string
  tinv_full_name :: string
  tinv_role :: string
  tinv_status :: "InvitationStatus"
  tinv_created_at :: string
  tinv_expires_at :: string
  tinv_can_resend :: bool
  tinv_can_cancel :: bool

record TenantTeamMember =
  tmember_user_id :: string
  tmember_full_name :: string
  tmember_email :: string
  tmember_role :: string

record TenantTeam =
  tteam_id :: string
  tteam_name :: string
  tteam_description :: string
  tteam_lead_role :: string
  tteam_member_count :: int
  tteam_members :: "TenantTeamMember list"

datatype UsageMetricStatus = UMS_TRACKED | UMS_NOT_TRACKED | UMS_AT_RISK | UMS_EXCEEDED

record TenantUsageMetric =
  tmetric_key :: string
  tmetric_label :: string
  tmetric_tracked :: bool
  tmetric_value :: "int option"
  tmetric_limit :: "int option"
  tmetric_is_unlimited :: bool
  tmetric_unit :: string
  tmetric_status :: "UsageMetricStatus"

record TenantUsage =
  tusage_organization_id :: string
  tusage_metrics :: "TenantUsageMetric list"

datatype AttentionSeverity = ATT_INFO | ATT_WARNING | ATT_CRITICAL

record TenantDashboardAttentionItem =
  attention_severity :: "AttentionSeverity"
  attention_category :: string
  attention_title :: string
  attention_message :: string
  attention_link_href :: "string option"
  attention_link_label :: "string option"

record TenantDashboardStats =
  dash_organization :: "TenantProfile"
  dash_users_count :: int
  dash_active_users_count :: int
  dash_pending_invitations_count :: int
  dash_fleet_count :: int
  dash_aircraft_count :: int
  dash_drone_count :: int
  dash_facility_count :: int
  dash_team_count :: int
  dash_current_plan :: "string option"
  dash_subscription_status :: "string option"
  dash_effective_features_count :: int
  dash_attention_items :: "TenantDashboardAttentionItem list"

record AuditEventResponse =
  paudit_id :: string
  paudit_organization_id :: string
  paudit_created_at :: string
  paudit_user_id :: "string option"
  paudit_action :: string
  paudit_entity_type :: string
  paudit_entity_id :: "string option"
  paudit_event_metadata :: json

record CurrentUser =
  cuser_id :: string
  cuser_organization_id :: string
  cuser_email :: string
  cuser_full_name :: string
  cuser_roles :: "string list"
  cuser_email_verified :: bool
  cuser_phone_number :: "string option"
  cuser_profile_photo_url :: "string option"
  cuser_pending_email :: "string option"

end
