(* ===== verification/DemoData.thy ===== *)
theory DemoData
  imports ClientAssets ClientDrones ClientTenant ClientPlatform
begin

text \<open>
  The synthetic data set of the demonstration sessions, constant by constant, as
  \<open>src/frontend/lib/demo/demoTenant.ts\<close>, \<open>demoPlatform.ts\<close>, \<open>demoDrones.ts\<close> and \<open>demoAssets.ts\<close>
  declare it. A field the literal leaves out is \<open>None\<close>.
\<close>

definition DEMO_ORG_ID :: string where
  "DEMO_ORG_ID = ''00000000-0000-0000-0000-000000000001''"

definition DEMO_ORG_NAME :: string where
  "DEMO_ORG_NAME = ''KOTA Aerospace Demo Operations''"

definition DEMO_USER_ID :: string where
  "DEMO_USER_ID = ''00000000-0000-0000-0000-000000000002''"

definition DEMO_USER_NAME :: string where
  "DEMO_USER_NAME = ''KOTA Aerospace Demo User''"

definition DEMO_USER_EMAIL :: string where
  "DEMO_USER_EMAIL = ''demo@kotaaerospace.com''"

definition DEMO_TENANT_PROFILE :: "TenantProfile" where
  "DEMO_TENANT_PROFILE = 
    \<lparr>tprofile_id = DEMO_ORG_ID, tprofile_name = DEMO_ORG_NAME, tprofile_status = ''ACTIVE'',
     tprofile_industry = Some ''AIRCRAFT'', tprofile_created_at = ''2026-01-15T08:00:00Z'',
     tprofile_primary_contact_email = Some DEMO_USER_EMAIL,
     tprofile_primary_contact_name = Some DEMO_USER_NAME\<rparr>"

definition DEMO_TENANT_SETTINGS :: "TenantSettings" where
  "DEMO_TENANT_SETTINGS = 
    \<lparr>tsettings_organization_id = DEMO_ORG_ID, tsettings_timezone = ''UTC+05:30'',
     tsettings_operational_mode = ''STANDARD'', tsettings_default_asset_type = ''AIRCRAFT'',
     tsettings_notification_email = Some ''ops@kotaaerospace.com''\<rparr>"

definition DEMO_TENANT_ROLES :: "TenantRoleInfo list" where
  "DEMO_TENANT_ROLES = [
    \<lparr>trole_role_name = ''ORG_ADMIN'', trole_display_name = ''Organization Administrator'',
     trole_description = ''Full administrative authority over the customer organization, users, and operational configuration.'',
     trole_permissions = [''aircraft:read'', ''aircraft:write'', ''assessment:read'', ''assessment:write'', ''audit:read'', ''compliance:assess'', ''compliance:decide'', ''drone:read'', ''drone:write'', ''evidence:read'', ''evidence:upload'', ''facility:read'', ''facility:write'', ''inspection:read'', ''inspection:write'', ''org:manage'', ''part:read'', ''part:write'', ''procurement:approve'', ''procurement:read'', ''procurement:write'', ''regulation:read'', ''technician:read'', ''technician:write'', ''user:manage''],
     trole_is_system_role = True\<rparr>,
    \<lparr>trole_role_name = ''CAMO_MANAGER'', trole_display_name = ''CAMO Manager'',
     trole_description = ''Continuing Airworthiness Management Organization lead; oversees maintenance scheduling, fleet reliability, and work orders.'',
     trole_permissions = [''aircraft:read'', ''aircraft:write'', ''assessment:read'', ''assessment:write'', ''compliance:assess'', ''compliance:decide'', ''drone:read'', ''drone:write'', ''evidence:read'', ''evidence:upload'', ''facility:read'', ''facility:write'', ''inspection:read'', ''inspection:write'', ''part:read'', ''part:write'', ''procurement:approve'', ''procurement:read'', ''procurement:write'', ''regulation:read'', ''technician:read'', ''technician:write'', ''vendor:read'', ''vendor:write''],
     trole_is_system_role = True\<rparr>,
    \<lparr>trole_role_name = ''COMPLIANCE_MANAGER'', trole_display_name = ''Compliance Manager'',
     trole_description = ''Regulatory compliance officer; oversees assessment frameworks, regulatory registries, and audit readiness.'',
     trole_permissions = [''aircraft:read'', ''assessment:read'', ''assessment:write'', ''audit:read'', ''compliance:assess'', ''compliance:decide'', ''drone:read'', ''evidence:read'', ''evidence:upload'', ''facility:read'', ''inspection:read'', ''inspection:write'', ''part:read'', ''procurement:read'', ''regulation:ingest'', ''regulation:read'', ''regulation:write'', ''technician:read'', ''vendor:read''],
     trole_is_system_role = True\<rparr>,
    \<lparr>trole_role_name = ''QUALITY_MANAGER'', trole_display_name = ''Quality Manager'',
     trole_description = ''Quality assurance manager; inspects maintenance findings, RII approvals, and safety governance.'',
     trole_permissions = [''aircraft:read'', ''assessment:read'', ''assessment:write'', ''audit:read'', ''compliance:assess'', ''drone:read'', ''evidence:read'', ''facility:read'', ''inspection:read'', ''inspection:write'', ''part:read'', ''procurement:read'', ''regulation:read'', ''technician:read'', ''vendor:read''],
     trole_is_system_role = True\<rparr>,
    \<lparr>trole_role_name = ''MAINTENANCE_ENGINEER'', trole_display_name = ''Maintenance Engineer'',
     trole_description = ''Licensed maintenance personnel; signs off tasks, uploads documentary evidence, and executes work orders.'',
     trole_permissions = [''aircraft:read'', ''assessment:read'', ''drone:read'', ''evidence:read'', ''evidence:upload'', ''facility:read'', ''inspection:read'', ''part:read'', ''procurement:read'', ''procurement:write'', ''regulation:read'', ''technician:read'', ''technician:write'', ''vendor:read''],
     trole_is_system_role = True\<rparr>,
    \<lparr>trole_role_name = ''VIEWER'', trole_display_name = ''Stakeholder / Viewer'',
     trole_description = ''Read-only stakeholder access to fleet health, documentation, and compliance status.'',
     trole_permissions = [''aircraft:read'', ''assessment:read'', ''drone:read'', ''evidence:read'', ''facility:read'', ''inspection:read'', ''part:read'', ''procurement:read'', ''regulation:read'', ''technician:read'', ''vendor:read''],
     trole_is_system_role = True\<rparr>]"

definition DEMO_TENANT_USERS :: "TenantUser list" where
  "DEMO_TENANT_USERS = [
    \<lparr>tuser_id = DEMO_USER_ID, tuser_email = DEMO_USER_EMAIL, tuser_full_name = DEMO_USER_NAME,
     tuser_is_active = True, tuser_roles = [''ORG_ADMIN'', ''CAMO_MANAGER''],
     tuser_created_at = ''2026-01-15T08:00:00Z''\<rparr>,
    \<lparr>tuser_id = ''00000000-0000-0000-0000-000000000011'',
     tuser_email = ''priya.nair@kotaaerospace.com'', tuser_full_name = ''Priya Nair'',
     tuser_is_active = True, tuser_roles = [''ORG_ADMIN''],
     tuser_created_at = ''2026-01-18T10:15:00Z''\<rparr>,
    \<lparr>tuser_id = ''00000000-0000-0000-0000-000000000012'',
     tuser_email = ''elena.petrov@kotaaerospace.com'', tuser_full_name = ''Elena Petrov'',
     tuser_is_active = True, tuser_roles = [''COMPLIANCE_MANAGER''],
     tuser_created_at = ''2026-01-20T11:30:00Z''\<rparr>,
    \<lparr>tuser_id = ''00000000-0000-0000-0000-000000000013'',
     tuser_email = ''marcus.webb@kotaaerospace.com'', tuser_full_name = ''Marcus Webb'',
     tuser_is_active = True, tuser_roles = [''CAMO_MANAGER''],
     tuser_created_at = ''2026-01-22T09:45:00Z''\<rparr>,
    \<lparr>tuser_id = ''00000000-0000-0000-0000-000000000014'',
     tuser_email = ''rahul.menon@kotaaerospace.com'', tuser_full_name = ''Rahul Menon'',
     tuser_is_active = True, tuser_roles = [''MAINTENANCE_ENGINEER''],
     tuser_created_at = ''2026-02-01T14:20:00Z''\<rparr>,
    \<lparr>tuser_id = ''00000000-0000-0000-0000-000000000015'',
     tuser_email = ''diego.alvarez@kotaaerospace.com'', tuser_full_name = ''Diego Alvarez'',
     tuser_is_active = True, tuser_roles = [''QUALITY_MANAGER''],
     tuser_created_at = ''2026-02-05T08:10:00Z''\<rparr>,
    \<lparr>tuser_id = ''00000000-0000-0000-0000-000000000016'',
     tuser_email = ''auditor@aviation-authority.gov'', tuser_full_name = ''Regulator Liaison'',
     tuser_is_active = True, tuser_roles = [''VIEWER''],
     tuser_created_at = ''2026-02-15T16:00:00Z''\<rparr>]"

definition DEMO_TENANT_INVITATIONS :: "TenantInvitation list" where
  "DEMO_TENANT_INVITATIONS = [
    \<lparr>tinv_id = ''00000000-0000-0000-0000-000000000021'',
     tinv_user_id = ''00000000-0000-0000-0000-000000000031'',
     tinv_email = ''vikram.sharma@kotaaerospace.com'', tinv_full_name = ''Capt. Vikram Sharma'',
     tinv_role = ''CAMO_MANAGER'', tinv_status = INV_PENDING,
     tinv_created_at = ''2026-03-20T09:00:00Z'', tinv_expires_at = ''2026-03-27T09:00:00Z'',
     tinv_can_resend = True, tinv_can_cancel = True\<rparr>,
    \<lparr>tinv_id = ''00000000-0000-0000-0000-000000000022'',
     tinv_user_id = ''00000000-0000-0000-0000-000000000032'',
     tinv_email = ''sarah.chen@kotaaerospace.com'', tinv_full_name = ''Sarah Chen'',
     tinv_role = ''MAINTENANCE_ENGINEER'', tinv_status = INV_PENDING,
     tinv_created_at = ''2026-03-21T14:30:00Z'', tinv_expires_at = ''2026-03-28T14:30:00Z'',
     tinv_can_resend = True, tinv_can_cancel = True\<rparr>,
    \<lparr>tinv_id = ''00000000-0000-0000-0000-000000000023'',
     tinv_user_id = ''00000000-0000-0000-0000-000000000033'',
     tinv_email = ''diego.alvarez@kotaaerospace.com'', tinv_full_name = ''Diego Alvarez'',
     tinv_role = ''QUALITY_MANAGER'', tinv_status = INV_ACCEPTED,
     tinv_created_at = ''2026-02-05T08:00:00Z'', tinv_expires_at = ''2026-02-12T08:00:00Z'',
     tinv_can_resend = False, tinv_can_cancel = False\<rparr>,
    \<lparr>tinv_id = ''00000000-0000-0000-0000-000000000024'',
     tinv_user_id = ''00000000-0000-0000-0000-000000000034'',
     tinv_email = ''james.wilson@partner.com'', tinv_full_name = ''James Wilson'',
     tinv_role = ''VIEWER'', tinv_status = INV_EXPIRED,
     tinv_created_at = ''2026-02-10T10:00:00Z'', tinv_expires_at = ''2026-02-17T10:00:00Z'',
     tinv_can_resend = True, tinv_can_cancel = False\<rparr>]"

definition DEMO_TENANT_TEAMS :: "TenantTeam list" where
  "DEMO_TENANT_TEAMS = [
    \<lparr>tteam_id = ''team-admin'', tteam_name = ''Organization Administration'',
     tteam_description = ''Tenant administrators managing personnel, commercial plans, facilities, and access.'',
     tteam_lead_role = ''ORG_ADMIN'', tteam_member_count = 2,
     tteam_members = [\<lparr>tmember_user_id = DEMO_USER_ID, tmember_full_name = DEMO_USER_NAME,
     tmember_email = DEMO_USER_EMAIL, tmember_role = ''ORG_ADMIN''\<rparr>, \<lparr>tmember_user_id = ''00000000-0000-0000-0000-000000000011'',
     tmember_full_name = ''Priya Nair'', tmember_email = ''priya.nair@kotaaerospace.com'',
     tmember_role = ''ORG_ADMIN''\<rparr>]\<rparr>,
    \<lparr>tteam_id = ''team-maintenance'', tteam_name = ''Maintenance & CAMO'',
     tteam_description = ''CAMO managers, licensed engineers, and technicians executing work orders and AOG recovery.'',
     tteam_lead_role = ''CAMO_MANAGER'', tteam_member_count = 3,
     tteam_members = [\<lparr>tmember_user_id = DEMO_USER_ID, tmember_full_name = DEMO_USER_NAME,
     tmember_email = DEMO_USER_EMAIL, tmember_role = ''CAMO_MANAGER''\<rparr>, \<lparr>tmember_user_id = ''00000000-0000-0000-0000-000000000013'',
     tmember_full_name = ''Marcus Webb'', tmember_email = ''marcus.webb@kotaaerospace.com'',
     tmember_role = ''CAMO_MANAGER''\<rparr>, \<lparr>tmember_user_id = ''00000000-0000-0000-0000-000000000014'',
     tmember_full_name = ''Rahul Menon'', tmember_email = ''rahul.menon@kotaaerospace.com'',
     tmember_role = ''MAINTENANCE_ENGINEER''\<rparr>]\<rparr>,
    \<lparr>tteam_id = ''team-quality'', tteam_name = ''Quality & Inspection'',
     tteam_description = ''Quality assurance inspectors performing RII sign-offs and maintenance verification.'',
     tteam_lead_role = ''QUALITY_MANAGER'', tteam_member_count = 1,
     tteam_members = [\<lparr>tmember_user_id = ''00000000-0000-0000-0000-000000000015'',
     tmember_full_name = ''Diego Alvarez'', tmember_email = ''diego.alvarez@kotaaerospace.com'',
     tmember_role = ''QUALITY_MANAGER''\<rparr>]\<rparr>,
    \<lparr>tteam_id = ''team-compliance'', tteam_name = ''Regulatory & Safety Compliance'',
     tteam_description = ''Compliance managers auditing requirements against CAA, EASA, and FAA frameworks.'',
     tteam_lead_role = ''COMPLIANCE_MANAGER'', tteam_member_count = 1,
     tteam_members = [\<lparr>tmember_user_id = ''00000000-0000-0000-0000-000000000012'',
     tmember_full_name = ''Elena Petrov'', tmember_email = ''elena.petrov@kotaaerospace.com'',
     tmember_role = ''COMPLIANCE_MANAGER''\<rparr>]\<rparr>,
    \<lparr>tteam_id = ''team-viewers'', tteam_name = ''Stakeholders & Viewers'',
     tteam_description = ''External and internal stakeholders with read-only operational visibility.'',
     tteam_lead_role = ''VIEWER'', tteam_member_count = 1,
     tteam_members = [\<lparr>tmember_user_id = ''00000000-0000-0000-0000-000000000016'',
     tmember_full_name = ''Regulator Liaison'',
     tmember_email = ''auditor@aviation-authority.gov'', tmember_role = ''VIEWER''\<rparr>]\<rparr>]"

definition DEMO_TENANT_USAGE :: "TenantUsage" where
  "DEMO_TENANT_USAGE = 
    \<lparr>tusage_organization_id = DEMO_ORG_ID,
     tusage_metrics = [\<lparr>tmetric_key = ''user_seats'', tmetric_label = ''User Accounts'', tmetric_tracked = True,
     tmetric_value = Some 7, tmetric_limit = Some 25, tmetric_is_unlimited = False,
     tmetric_unit = ''Seats'', tmetric_status = UMS_TRACKED\<rparr>, \<lparr>tmetric_key = ''aircraft_assets'', tmetric_label = ''Fixed-Wing Aircraft Fleet'',
     tmetric_tracked = True, tmetric_value = Some 4, tmetric_limit = Some 10,
     tmetric_is_unlimited = False, tmetric_unit = ''Aircraft'', tmetric_status = UMS_TRACKED\<rparr>, \<lparr>tmetric_key = ''drone_assets'', tmetric_label = ''Drone UAV Fleet'',
     tmetric_tracked = True, tmetric_value = Some 3, tmetric_limit = Some 50,
     tmetric_is_unlimited = False, tmetric_unit = ''Drones'', tmetric_status = UMS_TRACKED\<rparr>, \<lparr>tmetric_key = ''facilities'', tmetric_label = ''Operational Facilities & Bases'',
     tmetric_tracked = True, tmetric_value = Some 3, tmetric_limit = Some 5,
     tmetric_is_unlimited = False, tmetric_unit = ''Sites'', tmetric_status = UMS_TRACKED\<rparr>, \<lparr>tmetric_key = ''blob_storage'', tmetric_label = ''Document / Evidence Blob Storage'',
     tmetric_tracked = False, tmetric_value = None, tmetric_limit = None,
     tmetric_is_unlimited = False, tmetric_unit = ''GB'', tmetric_status = UMS_NOT_TRACKED\<rparr>, \<lparr>tmetric_key = ''api_bandwidth'', tmetric_label = ''API Traffic & Query Bandwidth'',
     tmetric_tracked = False, tmetric_value = None, tmetric_limit = None,
     tmetric_is_unlimited = False, tmetric_unit = ''Req/mo'', tmetric_status = UMS_NOT_TRACKED\<rparr>, \<lparr>tmetric_key = ''lisa_ai_tokens'', tmetric_label = ''LISA AI Copilot Inference Tokens'',
     tmetric_tracked = False, tmetric_value = None, tmetric_limit = None,
     tmetric_is_unlimited = False, tmetric_unit = ''Tokens'', tmetric_status = UMS_NOT_TRACKED\<rparr>]\<rparr>"

definition DEMO_TENANT_DASHBOARD_STATS :: "TenantDashboardStats" where
  "DEMO_TENANT_DASHBOARD_STATS = 
    \<lparr>dash_organization = DEMO_TENANT_PROFILE, dash_users_count = 7, dash_active_users_count = 7,
     dash_pending_invitations_count = 2, dash_fleet_count = 7, dash_aircraft_count = 4,
     dash_drone_count = 3, dash_facility_count = 3, dash_team_count = 5,
     dash_current_plan = Some ''ENTERPRISE'', dash_subscription_status = Some ''ACTIVE'',
     dash_effective_features_count = 8,
     dash_attention_items = [\<lparr>attention_severity = ATT_INFO, attention_category = ''PEOPLE'',
     attention_title = ''2 Pending Invitations'',
     attention_message = ''Capt. Vikram Sharma and Sarah Chen have pending onboarding invitations.'',
     attention_link_href = Some ''/tenant/invitations'',
     attention_link_label = Some ''Inspect Invitations''\<rparr>, \<lparr>attention_severity = ATT_INFO, attention_category = ''FLEET'',
     attention_title = ''Mixed Fleet Operational'',
     attention_message = ''Tenant is operating 4 fixed-wing aircraft and 3 drone UAV assets under unified compliance.'',
     attention_link_href = Some ''/tenant/fleet'', attention_link_label = Some ''View Fleet''\<rparr>]\<rparr>"

definition DEMO_TENANT_AUDIT_EVENTS :: "AuditEventResponse list" where
  "DEMO_TENANT_AUDIT_EVENTS = [
    \<lparr>paudit_id = ''00000000-0000-0000-0000-000000000041'', paudit_organization_id = DEMO_ORG_ID,
     paudit_created_at = ''2026-03-21T14:30:00Z'', paudit_user_id = Some DEMO_USER_ID,
     paudit_action = ''tenant.user.invited'', paudit_entity_type = ''User'',
     paudit_entity_id = Some ''00000000-0000-0000-0000-000000000032'',
     paudit_event_metadata = JObj [(''email'', JStr ''sarah.chen@kotaaerospace.com''), (''role'', JStr ''MAINTENANCE_ENGINEER'')]\<rparr>,
    \<lparr>paudit_id = ''00000000-0000-0000-0000-000000000042'', paudit_organization_id = DEMO_ORG_ID,
     paudit_created_at = ''2026-03-20T09:00:00Z'', paudit_user_id = Some DEMO_USER_ID,
     paudit_action = ''tenant.user.invited'', paudit_entity_type = ''User'',
     paudit_entity_id = Some ''00000000-0000-0000-0000-000000000031'',
     paudit_event_metadata = JObj [(''email'', JStr ''vikram.sharma@kotaaerospace.com''), (''role'', JStr ''CAMO_MANAGER'')]\<rparr>,
    \<lparr>paudit_id = ''00000000-0000-0000-0000-000000000043'', paudit_organization_id = DEMO_ORG_ID,
     paudit_created_at = ''2026-03-15T11:20:00Z'', paudit_user_id = Some DEMO_USER_ID,
     paudit_action = ''tenant.profile.updated'', paudit_entity_type = ''Organization'',
     paudit_entity_id = Some DEMO_ORG_ID,
     paudit_event_metadata = JObj [(''industry'', JStr ''AIRCRAFT'')]\<rparr>,
    \<lparr>paudit_id = ''00000000-0000-0000-0000-000000000044'', paudit_organization_id = DEMO_ORG_ID,
     paudit_created_at = ''2026-03-10T16:45:00Z'', paudit_user_id = Some DEMO_USER_ID,
     paudit_action = ''tenant.settings.updated'', paudit_entity_type = ''Organization'',
     paudit_entity_id = Some DEMO_ORG_ID,
     paudit_event_metadata = JObj [(''timezone'', JStr ''UTC+05:30''), (''operational_mode'', JStr ''STANDARD'')]\<rparr>,
    \<lparr>paudit_id = ''00000000-0000-0000-0000-000000000045'', paudit_organization_id = DEMO_ORG_ID,
     paudit_created_at = ''2026-03-01T10:00:00Z'', paudit_user_id = Some DEMO_USER_ID,
     paudit_action = ''facility.created'', paudit_entity_type = ''Facility'',
     paudit_entity_id = Some ''00000000-0000-0000-0000-000000000051'',
     paudit_event_metadata = JObj [(''code'', JStr ''BOM-H1''), (''name'', JStr ''Main Maintenance Hangar''), (''facility_type'', JStr ''HANGAR'')]\<rparr>]"

definition DEMO_PLATFORM_ORGANIZATIONS :: "BackendPlatformOrganization list" where
  "DEMO_PLATFORM_ORGANIZATIONS = [
    \<lparr>porg_id = ''00000000-0000-0000-0000-000000000001'',
     porg_name = ''KOTA Aerospace Demo Operations'', porg_status = PORG_ACTIVE,
     porg_industry = Some ''DRONE_UAV'', porg_created_at = ''2026-01-15T08:00:00Z'',
     porg_user_count = 8, porg_aircraft_count = 4, porg_drone_count = Some 6\<rparr>,
    \<lparr>porg_id = ''00000000-0000-0000-0000-000000000010'',
     porg_name = ''AeroAir Charter Systems (Demo Org A)'', porg_status = PORG_ACTIVE,
     porg_industry = Some ''AIRCRAFT'', porg_created_at = ''2026-02-01T09:30:00Z'',
     porg_user_count = 14, porg_aircraft_count = 8, porg_drone_count = Some 0\<rparr>,
    \<lparr>porg_id = ''00000000-0000-0000-0000-000000000020'',
     porg_name = ''Horizon Drone Services (Demo Org B)'', porg_status = PORG_ACTIVE,
     porg_industry = Some ''DRONE_UAV'', porg_created_at = ''2026-02-15T11:00:00Z'',
     porg_user_count = 6, porg_aircraft_count = 0, porg_drone_count = Some 12\<rparr>,
    \<lparr>porg_id = ''00000000-0000-0000-0000-000000000030'',
     porg_name = ''Apex Cargo Transport (Demo Org C)'', porg_status = PORG_SUSPENDED,
     porg_industry = Some ''AIRCRAFT'', porg_created_at = ''2026-03-01T14:15:00Z'',
     porg_user_count = 10, porg_aircraft_count = 5, porg_drone_count = Some 0\<rparr>,
    \<lparr>porg_id = ''00000000-0000-0000-0000-000000000040'',
     porg_name = ''Skyline Urban Air Mobility (Demo Org D)'', porg_status = PORG_ACTIVE,
     porg_industry = Some ''EVTOL_AAM'', porg_created_at = ''2026-03-10T16:45:00Z'',
     porg_user_count = 5, porg_aircraft_count = 0, porg_drone_count = Some 4\<rparr>]"

definition DEMO_PLATFORM_PLANS :: "PlanResponse list" where
  "DEMO_PLATFORM_PLANS = [
    \<lparr>plan_id = ''10000000-0000-0000-0000-000000000001'', plan_name = ''Kota Drone'',
     plan_code = ''DRONE_001'',
     plan_description = Some ''Foundational drone fleet management, telemetry, and compliance operations.'',
     plan_is_active = True, plan_suite_id = None, plan_asset_scope = Some ''DRONE'',
     plan_included_features_count = Some 6, plan_tenant_count = Some 2,
     plan_created_at = ''2026-01-01T00:00:00Z'', plan_updated_at = ''2026-01-01T00:00:00Z''\<rparr>,
    \<lparr>plan_id = ''10000000-0000-0000-0000-000000000002'', plan_name = ''Kota Aircraft'',
     plan_code = ''AIRCRAFT_001'',
     plan_description = Some ''Fixed-wing commercial airworthiness, CAMO, MRO work orders, and inspections.'',
     plan_is_active = True, plan_suite_id = None, plan_asset_scope = Some ''AIRCRAFT'',
     plan_included_features_count = Some 6, plan_tenant_count = Some 2,
     plan_created_at = ''2026-01-01T00:00:00Z'', plan_updated_at = ''2026-01-01T00:00:00Z''\<rparr>,
    \<lparr>plan_id = ''10000000-0000-0000-0000-000000000003'', plan_name = ''Kota Helicopter'',
     plan_code = ''HELICOPTER_001'',
     plan_description = Some ''Rotorcraft airframe lifecycle, dynamic component tracking, and flight maintenance.'',
     plan_is_active = True, plan_suite_id = None, plan_asset_scope = Some ''HELICOPTER'',
     plan_included_features_count = Some 5, plan_tenant_count = Some 0,
     plan_created_at = ''2026-01-01T00:00:00Z'', plan_updated_at = ''2026-01-01T00:00:00Z''\<rparr>,
    \<lparr>plan_id = ''10000000-0000-0000-0000-000000000004'', plan_name = ''Kota eVTOL'',
     plan_code = ''EVTOL_001'',
     plan_description = Some ''Advanced Air Mobility (AAM) operations, AI predictive maintenance, and battery intelligence.'',
     plan_is_active = True, plan_suite_id = None, plan_asset_scope = Some ''EVTOL'',
     plan_included_features_count = Some 9, plan_tenant_count = Some 1,
     plan_created_at = ''2026-01-01T00:00:00Z'', plan_updated_at = ''2026-01-01T00:00:00Z''\<rparr>]"

definition DEMO_PLATFORM_FEATURES :: "PlatformFeatureItem list" where
  "DEMO_PLATFORM_FEATURES = [
    \<lparr>pfeature_feature_key = ''drone_fleet_management'',
     pfeature_name = ''Drone Fleet Operations'',
     pfeature_description = ''Operational management of UAS assets, batteries, components, and telemetry.'',
     pfeature_category = FCAT_FLEET_OPERATIONS,
     pfeature_plans = [''starter'', ''professional'', ''enterprise'']\<rparr>,
    \<lparr>pfeature_feature_key = ''work_order_management'',
     pfeature_name = ''Work Order Management'',
     pfeature_description = ''MRO task scheduling, step execution, and technician sign-offs.'',
     pfeature_category = FCAT_MAINTENANCE_MRO,
     pfeature_plans = [''starter'', ''professional'', ''enterprise'']\<rparr>,
    \<lparr>pfeature_feature_key = ''compliance_reporting'',
     pfeature_name = ''Compliance & Regulatory Register'',
     pfeature_description = ''Rule compliance assessments, regulatory requirements tracking, and evidence.'',
     pfeature_category = FCAT_COMPLIANCE_AUDIT,
     pfeature_plans = [''starter'', ''professional'', ''enterprise'']\<rparr>,
    \<lparr>pfeature_feature_key = ''audit_logging'', pfeature_name = ''Audit Trail & Verification'',
     pfeature_description = ''Append-only immutable record of all operational and maintenance transitions.'',
     pfeature_category = FCAT_COMPLIANCE_AUDIT,
     pfeature_plans = [''starter'', ''professional'', ''enterprise'']\<rparr>,
    \<lparr>pfeature_feature_key = ''release_readiness'',
     pfeature_name = ''Release to Service Readiness'',
     pfeature_description = ''Automated pre-flight readiness gate evaluating evidence, RII, and open tasks.'',
     pfeature_category = FCAT_MAINTENANCE_MRO,
     pfeature_plans = [''professional'', ''enterprise'']\<rparr>,
    \<lparr>pfeature_feature_key = ''flight_telemetry'',
     pfeature_name = ''Live Mission & Flight Telemetry'',
     pfeature_description = ''Mission flight logging, airspace integration, and pilot flight telemetry.'',
     pfeature_category = FCAT_FLEET_OPERATIONS,
     pfeature_plans = [''professional'', ''enterprise'']\<rparr>,
    \<lparr>pfeature_feature_key = ''battery_analytics'',
     pfeature_name = ''Battery Cycle & Health Analytics'',
     pfeature_description = ''Predictive health monitoring and cycle lifetime management for UAS batteries.'',
     pfeature_category = FCAT_FLEET_OPERATIONS,
     pfeature_plans = [''professional'', ''enterprise'']\<rparr>,
    \<lparr>pfeature_feature_key = ''lisa_ai_copilot'',
     pfeature_name = ''LISA AI Aerospace Intelligence'',
     pfeature_description = ''Airworthiness knowledge copilot for technical records and regulatory guidance.'',
     pfeature_category = FCAT_INTELLIGENCE_AI, pfeature_plans = [''enterprise'']\<rparr>,
    \<lparr>pfeature_feature_key = ''procurement_management'',
     pfeature_name = ''Procurement & Vendor Intelligence'',
     pfeature_description = ''Part catalog ordering, purchase order workflows, and supplier intelligence.'',
     pfeature_category = FCAT_MAINTENANCE_MRO, pfeature_plans = [''enterprise'']\<rparr>]"

definition DEMO_PLATFORM_SUBSCRIPTIONS :: "SubscriptionResponse list" where
  "DEMO_PLATFORM_SUBSCRIPTIONS = [
    \<lparr>subscr_id = ''20000000-0000-0000-0000-000000000001'',
     subscr_organization_id = ''00000000-0000-0000-0000-000000000001'',
     subscr_plan_id = ''10000000-0000-0000-0000-000000000003'', subscr_status = ''ACTIVE'',
     subscr_starts_at = ''2026-01-15T00:00:00Z'', subscr_ends_at = None,
     subscr_created_at = ''2026-01-15T00:00:00Z'', subscr_updated_at = ''2026-01-15T00:00:00Z''\<rparr>,
    \<lparr>subscr_id = ''20000000-0000-0000-0000-000000000002'',
     subscr_organization_id = ''00000000-0000-0000-0000-000000000010'',
     subscr_plan_id = ''10000000-0000-0000-0000-000000000002'', subscr_status = ''ACTIVE'',
     subscr_starts_at = ''2026-02-01T00:00:00Z'', subscr_ends_at = None,
     subscr_created_at = ''2026-02-01T00:00:00Z'', subscr_updated_at = ''2026-02-01T00:00:00Z''\<rparr>,
    \<lparr>subscr_id = ''20000000-0000-0000-0000-000000000003'',
     subscr_organization_id = ''00000000-0000-0000-0000-000000000020'',
     subscr_plan_id = ''10000000-0000-0000-0000-000000000002'', subscr_status = ''TRIALING'',
     subscr_starts_at = ''2026-02-15T00:00:00Z'',
     subscr_ends_at = Some ''2026-04-15T00:00:00Z'',
     subscr_created_at = ''2026-02-15T00:00:00Z'', subscr_updated_at = ''2026-02-15T00:00:00Z''\<rparr>,
    \<lparr>subscr_id = ''20000000-0000-0000-0000-000000000004'',
     subscr_organization_id = ''00000000-0000-0000-0000-000000000030'',
     subscr_plan_id = ''10000000-0000-0000-0000-000000000001'', subscr_status = ''PAST_DUE'',
     subscr_starts_at = ''2026-03-01T00:00:00Z'', subscr_ends_at = None,
     subscr_created_at = ''2026-03-01T00:00:00Z'', subscr_updated_at = ''2026-03-01T00:00:00Z''\<rparr>,
    \<lparr>subscr_id = ''20000000-0000-0000-0000-000000000005'',
     subscr_organization_id = ''00000000-0000-0000-0000-000000000040'',
     subscr_plan_id = ''10000000-0000-0000-0000-000000000002'', subscr_status = ''ACTIVE'',
     subscr_starts_at = ''2026-03-10T00:00:00Z'', subscr_ends_at = None,
     subscr_created_at = ''2026-03-10T00:00:00Z'', subscr_updated_at = ''2026-03-10T00:00:00Z''\<rparr>]"

definition DEMO_PLATFORM_USERS :: "PlatformUser list" where
  "DEMO_PLATFORM_USERS = [
    \<lparr>puser_id = ''30000000-0000-0000-0000-000000000001'',
     puser_organization_id = ''00000000-0000-0000-0000-000000000001'',
     puser_organization_name = Some ''KOTA Aerospace Demo Operations'',
     puser_email = ''admin@kotaaerospace.com'', puser_full_name = ''Marcus Vance'',
     puser_is_active = True, puser_roles = [''ORG_ADMIN'', ''CAMO_MANAGER''],
     puser_created_at = ''2026-01-15T08:05:00Z''\<rparr>,
    \<lparr>puser_id = ''30000000-0000-0000-0000-000000000002'',
     puser_organization_id = ''00000000-0000-0000-0000-000000000001'',
     puser_organization_name = Some ''KOTA Aerospace Demo Operations'',
     puser_email = ''pilot@kotaaerospace.com'', puser_full_name = ''Elena Rostova'',
     puser_is_active = True, puser_roles = [''CHIEF_PILOT''],
     puser_created_at = ''2026-01-15T08:10:00Z''\<rparr>,
    \<lparr>puser_id = ''30000000-0000-0000-0000-000000000010'',
     puser_organization_id = ''00000000-0000-0000-0000-000000000010'',
     puser_organization_name = Some ''AeroAir Charter Systems (Demo Org A)'',
     puser_email = ''c.mitchell@aeroair.com'', puser_full_name = ''Christopher Mitchell'',
     puser_is_active = True, puser_roles = [''ORG_ADMIN''],
     puser_created_at = ''2026-02-01T09:35:00Z''\<rparr>,
    \<lparr>puser_id = ''30000000-0000-0000-0000-000000000020'',
     puser_organization_id = ''00000000-0000-0000-0000-000000000020'',
     puser_organization_name = Some ''Horizon Drone Services (Demo Org B)'',
     puser_email = ''t.hayes@horizondrones.com'', puser_full_name = ''Tanya Hayes'',
     puser_is_active = True, puser_roles = [''ORG_ADMIN''],
     puser_created_at = ''2026-02-15T11:05:00Z''\<rparr>,
    \<lparr>puser_id = ''30000000-0000-0000-0000-000000000030'',
     puser_organization_id = ''00000000-0000-0000-0000-000000000030'',
     puser_organization_name = Some ''Apex Cargo Transport (Demo Org C)'',
     puser_email = ''d.chen@apexcargo.com'', puser_full_name = ''David Chen'',
     puser_is_active = False, puser_roles = [''ORG_ADMIN''],
     puser_created_at = ''2026-03-01T14:20:00Z''\<rparr>,
    \<lparr>puser_id = ''30000000-0000-0000-0000-000000000040'',
     puser_organization_id = ''00000000-0000-0000-0000-000000000040'',
     puser_organization_name = Some ''Skyline Urban Air Mobility (Demo Org D)'',
     puser_email = ''s.patel@skylineaam.com'', puser_full_name = ''Siddharth Patel'',
     puser_is_active = True, puser_roles = [''ORG_ADMIN''],
     puser_created_at = ''2026-03-10T16:50:00Z''\<rparr>,
    \<lparr>puser_id = ''30000000-0000-0000-0000-000000000099'',
     puser_organization_id = ''00000000-0000-0000-0000-000000000001'',
     puser_organization_name = Some ''KOTA Aerospace (Platform Operator)'',
     puser_email = ''platform.admin@kotaaerospace.com'',
     puser_full_name = ''Platform Master Admin'', puser_is_active = True,
     puser_roles = [''PLATFORM_ADMIN''], puser_created_at = ''2026-01-01T00:00:00Z''\<rparr>]"

definition DEMO_PLATFORM_AUDIT_EVENTS :: "AuditEventResponse list" where
  "DEMO_PLATFORM_AUDIT_EVENTS = [
    \<lparr>paudit_id = ''40000000-0000-0000-0000-000000000001'',
     paudit_organization_id = ''00000000-0000-0000-0000-000000000040'',
     paudit_created_at = ''2026-03-10T16:45:00Z'',
     paudit_user_id = Some ''30000000-0000-0000-0000-000000000099'',
     paudit_action = ''platform.organization.provision'', paudit_entity_type = ''Organization'',
     paudit_entity_id = Some ''00000000-0000-0000-0000-000000000040'',
     paudit_event_metadata = JObj [(''plan_code'', JStr ''professional''), (''admin_email'', JStr ''s.patel@skylineaam.com'')]\<rparr>,
    \<lparr>paudit_id = ''40000000-0000-0000-0000-000000000002'',
     paudit_organization_id = ''00000000-0000-0000-0000-000000000030'',
     paudit_created_at = ''2026-03-08T11:20:00Z'',
     paudit_user_id = Some ''30000000-0000-0000-0000-000000000099'',
     paudit_action = ''platform.organization.suspend'', paudit_entity_type = ''Organization'',
     paudit_entity_id = Some ''00000000-0000-0000-0000-000000000030'',
     paudit_event_metadata = JObj [(''reason'', JStr ''Overdue commercial billing delinquency'')]\<rparr>,
    \<lparr>paudit_id = ''40000000-0000-0000-0000-000000000003'',
     paudit_organization_id = ''00000000-0000-0000-0000-000000000020'',
     paudit_created_at = ''2026-02-20T10:15:00Z'',
     paudit_user_id = Some ''30000000-0000-0000-0000-000000000099'',
     paudit_action = ''platform.entitlement.override_create'',
     paudit_entity_type = ''TenantFeatureOverride'',
     paudit_entity_id = Some ''50000000-0000-0000-0000-000000000001'',
     paudit_event_metadata = JObj [(''feature_key'', JStr ''battery_analytics''), (''enabled'', JBool True), (''reason'', JStr ''Enterprise trial request'')]\<rparr>,
    \<lparr>paudit_id = ''40000000-0000-0000-0000-000000000004'',
     paudit_organization_id = ''00000000-0000-0000-0000-000000000010'',
     paudit_created_at = ''2026-02-01T09:30:00Z'',
     paudit_user_id = Some ''30000000-0000-0000-0000-000000000099'',
     paudit_action = ''platform.subscription.create'', paudit_entity_type = ''Subscription'',
     paudit_entity_id = Some ''20000000-0000-0000-0000-000000000002'',
     paudit_event_metadata = JObj [(''plan_code'', JStr ''professional''), (''status'', JStr ''ACTIVE'')]\<rparr>]"

definition DEMO_DRONES :: "DroneResponse list" where
  "DEMO_DRONES = [
    \<lparr>drone_id = ''drn-kota-001'', drone_organization_id = DEMO_ORG_ID,
     drone_asset_type = ''DRONE'', drone_registration = Some ''KOTA-D001'',
     drone_manufacturer = Some ''SkyRanger Systems'',
     drone_model = Some ''SkyRanger X4 Enterprise'',
     drone_serial_number = Some ''SRX4-2025-0811'', drone_status = ''ACTIVE'',
     drone_facility_id = Some ''fac-hub-north'', drone_created_at = ''2026-01-15T08:00:00Z''\<rparr>,
    \<lparr>drone_id = ''drn-kota-002'', drone_organization_id = DEMO_ORG_ID,
     drone_asset_type = ''DRONE'', drone_registration = Some ''KOTA-D002'',
     drone_manufacturer = Some ''AeroScout Dynamics'',
     drone_model = Some ''AeroScout Pro Survey'', drone_serial_number = Some ''ASP-2025-0422'',
     drone_status = ''ACTIVE'', drone_facility_id = Some ''fac-hub-north'',
     drone_created_at = ''2026-02-01T09:30:00Z''\<rparr>,
    \<lparr>drone_id = ''drn-kota-003'', drone_organization_id = DEMO_ORG_ID,
     drone_asset_type = ''DRONE'', drone_registration = Some ''KOTA-D003'',
     drone_manufacturer = Some ''Guardian Avionics'',
     drone_model = Some ''Guardian V2 Heavy Lift'',
     drone_serial_number = Some ''GV2-2025-1104'', drone_status = ''ACTIVE'',
     drone_facility_id = Some ''fac-hub-east'', drone_created_at = ''2026-02-15T11:00:00Z''\<rparr>,
    \<lparr>drone_id = ''drn-kota-004'', drone_organization_id = DEMO_ORG_ID,
     drone_asset_type = ''DRONE'', drone_registration = Some ''KOTA-D004'',
     drone_manufacturer = Some ''Falcon Wing Aerospace'',
     drone_model = Some ''Falcon Wing VTOL-12'', drone_serial_number = Some ''FW12-2025-0955'',
     drone_status = ''ACTIVE'', drone_facility_id = Some ''fac-hub-east'',
     drone_created_at = ''2026-03-01T14:15:00Z''\<rparr>,
    \<lparr>drone_id = ''drn-kota-005'', drone_organization_id = DEMO_ORG_ID,
     drone_asset_type = ''DRONE'', drone_registration = Some ''KOTA-D005'',
     drone_manufacturer = Some ''HoverTech Industrial'',
     drone_model = Some ''HoverTech 500 Infrastructure'',
     drone_serial_number = Some ''HT500-2025-0199'', drone_status = ''GROUNDED'',
     drone_facility_id = Some ''fac-hub-south'', drone_created_at = ''2026-03-10T10:00:00Z''\<rparr>,
    \<lparr>drone_id = ''drn-kota-006'', drone_organization_id = DEMO_ORG_ID,
     drone_asset_type = ''DRONE'', drone_registration = Some ''KOTA-D006'',
     drone_manufacturer = Some ''SkyRanger Systems'',
     drone_model = Some ''SkyRanger X4 Enterprise'',
     drone_serial_number = Some ''SRX4-2025-0902'', drone_status = ''ACTIVE'',
     drone_facility_id = Some ''fac-hub-south'', drone_created_at = ''2026-03-18T16:20:00Z''\<rparr>]"

definition DEMO_BATTERIES :: "BatteryResponse list" where
  "DEMO_BATTERIES = [
    \<lparr>battery_id = ''bat-kota-001'', battery_organization_id = DEMO_ORG_ID,
     battery_asset_id = Some ''drn-kota-001'', battery_serial_number = ''BAT-D001-A'',
     battery_manufacturer = Some ''VoltaAero'', battery_model = Some ''LiPo 6S 22000mAh'',
     battery_capacity_mah = Some 22000, battery_voltage = Some (248 / 10),
     battery_cycle_count = 42, battery_health_percent = Some 98, battery_status = BAT_GOOD,
     battery_installed_at = Some ''2026-01-20T10:00:00Z'',
     battery_notes = Some ''Nominal cell balance (<0.02V delta), routine charge profile.'',
     battery_created_at = ''2026-01-15T08:00:00Z''\<rparr>,
    \<lparr>battery_id = ''bat-kota-002'', battery_organization_id = DEMO_ORG_ID,
     battery_asset_id = Some ''drn-kota-002'', battery_serial_number = ''BAT-D002-A'',
     battery_manufacturer = Some ''VoltaAero'', battery_model = Some ''LiPo 6S 16000mAh'',
     battery_capacity_mah = Some 16000, battery_voltage = Some (246 / 10),
     battery_cycle_count = 48, battery_health_percent = Some 96, battery_status = BAT_GOOD,
     battery_installed_at = Some ''2026-02-05T09:00:00Z'',
     battery_notes = Some ''Nominal cell balance (<0.02V delta), routine charge profile.'',
     battery_created_at = ''2026-02-01T09:30:00Z''\<rparr>,
    \<lparr>battery_id = ''bat-kota-003'', battery_organization_id = DEMO_ORG_ID,
     battery_asset_id = Some ''drn-kota-003'', battery_serial_number = ''BAT-D003-A'',
     battery_manufacturer = Some ''PowerCore Aero'',
     battery_model = Some ''SolidState 12S 30000mAh'', battery_capacity_mah = Some 30000,
     battery_voltage = Some (492 / 10), battery_cycle_count = 18,
     battery_health_percent = Some 99, battery_status = BAT_GOOD,
     battery_installed_at = Some ''2026-02-18T12:00:00Z'',
     battery_notes = Some ''Operating within optimal temperature and current parameters.'',
     battery_created_at = ''2026-02-15T11:00:00Z''\<rparr>,
    \<lparr>battery_id = ''bat-kota-004'', battery_organization_id = DEMO_ORG_ID,
     battery_asset_id = Some ''drn-kota-004'', battery_serial_number = ''BAT-D004-A'',
     battery_manufacturer = Some ''VoltaAero'', battery_model = Some ''LiPo 8S 24000mAh'',
     battery_capacity_mah = Some 24000, battery_voltage = Some (324 / 10),
     battery_cycle_count = 145, battery_health_percent = Some 88, battery_status = BAT_MONITOR,
     battery_installed_at = Some ''2026-03-05T08:30:00Z'',
     battery_notes = Some ''Minor cycle wear, scheduled for 150-cycle capacity discharge test.'',
     battery_created_at = ''2026-03-01T14:15:00Z''\<rparr>,
    \<lparr>battery_id = ''bat-kota-005'', battery_organization_id = DEMO_ORG_ID,
     battery_asset_id = Some ''drn-kota-005'', battery_serial_number = ''BAT-D005-A'',
     battery_manufacturer = Some ''PowerCore Aero'', battery_model = Some ''LiPo 6S 22000mAh'',
     battery_capacity_mah = Some 22000, battery_voltage = Some (204 / 10),
     battery_cycle_count = 312, battery_health_percent = Some 64, battery_status = BAT_CRITICAL,
     battery_installed_at = Some ''2026-03-12T11:00:00Z'',
     battery_notes = Some ''High internal resistance on Cell 3, voltage sag below threshold.'',
     battery_created_at = ''2026-03-10T10:00:00Z''\<rparr>,
    \<lparr>battery_id = ''bat-kota-006'', battery_organization_id = DEMO_ORG_ID,
     battery_asset_id = Some ''drn-kota-006'', battery_serial_number = ''BAT-D006-A'',
     battery_manufacturer = Some ''VoltaAero'', battery_model = Some ''LiPo 6S 22000mAh'',
     battery_capacity_mah = Some 22000, battery_voltage = Some (242 / 10),
     battery_cycle_count = 98, battery_health_percent = Some 90,
     battery_status = BAT_SERVICE_DUE, battery_installed_at = Some ''2026-03-20T14:00:00Z'',
     battery_notes = Some ''100-cycle calibration discharge due.'',
     battery_created_at = ''2026-03-18T16:20:00Z''\<rparr>]"

definition DEMO_COMPONENTS :: "ComponentResponse list" where
  "DEMO_COMPONENTS = [
    \<lparr>component_id = ''cmp-kota-001'', component_organization_id = DEMO_ORG_ID,
     component_asset_id = Some ''drn-kota-001'',
     component_component_type = ''PROPULSION_MOTOR'',
     component_name = ''T-Motor U8 II KV100 Set'',
     component_serial_number = Some ''TM-U8-9941'', component_manufacturer = Some ''T-Motor'',
     component_model = Some ''U8 II KV100'', component_status = ''SERVICEABLE'',
     component_created_at = ''2026-01-15T08:00:00Z''\<rparr>,
    \<lparr>component_id = ''cmp-kota-002'', component_organization_id = DEMO_ORG_ID,
     component_asset_id = Some ''drn-kota-001'', component_component_type = ''PAYLOAD_CAMERA'',
     component_name = ''FLIR Vue Pro R 640 Thermal Gimbal'',
     component_serial_number = Some ''FLIR-640-1029'',
     component_manufacturer = Some ''Teledyne FLIR'', component_model = Some ''Vue Pro R'',
     component_status = ''SERVICEABLE'', component_created_at = ''2026-01-16T09:00:00Z''\<rparr>,
    \<lparr>component_id = ''cmp-kota-003'', component_organization_id = DEMO_ORG_ID,
     component_asset_id = Some ''drn-kota-002'',
     component_component_type = ''AVIONICS_FLIGHT_CONTROLLER'',
     component_name = ''Cube Orange+ Autopilot'',
     component_serial_number = Some ''CUBE-OR-8812'',
     component_manufacturer = Some ''Cubepilot'',
     component_model = Some ''Cube Orange+ with ADS-B'', component_status = ''SERVICEABLE'',
     component_created_at = ''2026-02-01T09:30:00Z''\<rparr>,
    \<lparr>component_id = ''cmp-kota-004'', component_organization_id = DEMO_ORG_ID,
     component_asset_id = Some ''drn-kota-003'', component_component_type = ''PAYLOAD_LIDAR'',
     component_name = ''Velodyne Puck Lite LiDAR'',
     component_serial_number = Some ''VELO-PL-3301'',
     component_manufacturer = Some ''Velodyne'', component_model = Some ''VLP-16 Puck LITE'',
     component_status = ''SERVICEABLE'', component_created_at = ''2026-02-15T11:00:00Z''\<rparr>,
    \<lparr>component_id = ''cmp-kota-005'', component_organization_id = DEMO_ORG_ID,
     component_asset_id = Some ''drn-kota-004'', component_component_type = ''NAVIGATION_GNSS'',
     component_name = ''Here3+ Precision RTK GNSS'',
     component_serial_number = Some ''HERE3-RTK-5542'',
     component_manufacturer = Some ''Hex Technology'',
     component_model = Some ''Here3+ RTK Dual'', component_status = ''SERVICEABLE'',
     component_created_at = ''2026-03-01T14:15:00Z''\<rparr>,
    \<lparr>component_id = ''cmp-kota-006'', component_organization_id = DEMO_ORG_ID,
     component_asset_id = Some ''drn-kota-005'',
     component_component_type = ''PROPULSION_MOTOR'',
     component_name = ''KDE Direct 7215XF Motor Set'',
     component_serial_number = Some ''KDE-7215-081'',
     component_manufacturer = Some ''KDE Direct'', component_model = Some ''7215XF-135'',
     component_status = ''INSPECT_REQUIRED'', component_created_at = ''2026-03-10T10:00:00Z''\<rparr>,
    \<lparr>component_id = ''cmp-kota-007'', component_organization_id = DEMO_ORG_ID,
     component_asset_id = Some ''drn-kota-006'',
     component_component_type = ''ESC_SPEED_CONTROLLER'',
     component_name = ''T-Motor Flame 80A ESC Set'',
     component_serial_number = Some ''TM-FLAME-4410'',
     component_manufacturer = Some ''T-Motor'', component_model = Some ''Flame 80A 12S'',
     component_status = ''SERVICEABLE'', component_created_at = ''2026-03-18T16:20:00Z''\<rparr>]"

definition DEMO_FLIGHTS :: "FlightResponse list" where
  "DEMO_FLIGHTS = [
    \<lparr>flight_id = ''flt-d01-01'', flight_organization_id = DEMO_ORG_ID,
     flight_asset_id = ''drn-kota-001'', flight_flown_at = ''2026-03-20T10:15:00Z'',
     flight_duration_minutes = 42, flight_cycles = 1,
     flight_pilot_user_id = Some ''00000000-0000-0000-0000-000000000002'',
     flight_notes = Some ''Transmission line corridor inspection. Autonomous waypoint grid, max altitude 85m AGL. Normal landing.'',
     flight_created_at = ''2026-03-20T11:00:00Z''\<rparr>,
    \<lparr>flight_id = ''flt-d01-02'', flight_organization_id = DEMO_ORG_ID,
     flight_asset_id = ''drn-kota-001'', flight_flown_at = ''2026-03-21T14:30:00Z'',
     flight_duration_minutes = 38, flight_cycles = 1,
     flight_pilot_user_id = Some ''00000000-0000-0000-0000-000000000002'',
     flight_notes = Some ''Substation perimeter surveillance. Thermal signature collection. Battery delta <0.01V.'',
     flight_created_at = ''2026-03-21T15:15:00Z''\<rparr>,
    \<lparr>flight_id = ''flt-d02-01'', flight_organization_id = DEMO_ORG_ID,
     flight_asset_id = ''drn-kota-002'', flight_flown_at = ''2026-03-18T09:00:00Z'',
     flight_duration_minutes = 25, flight_cycles = 1,
     flight_pilot_user_id = Some ''00000000-0000-0000-0000-000000000002'',
     flight_notes = Some ''Photogrammetry survey sector B. Normal operation and landing.'',
     flight_created_at = ''2026-03-18T09:30:00Z''\<rparr>,
    \<lparr>flight_id = ''flt-d03-01'', flight_organization_id = DEMO_ORG_ID,
     flight_asset_id = ''drn-kota-003'', flight_flown_at = ''2026-03-22T08:00:00Z'',
     flight_duration_minutes = 55, flight_cycles = 1,
     flight_pilot_user_id = Some ''00000000-0000-0000-0000-000000000002'',
     flight_notes = Some ''LiDAR terrain mapping forest reserve. High crosswind stability test passed.'',
     flight_created_at = ''2026-03-22T09:00:00Z''\<rparr>,
    \<lparr>flight_id = ''flt-d04-01'', flight_organization_id = DEMO_ORG_ID,
     flight_asset_id = ''drn-kota-004'', flight_flown_at = ''2026-03-15T13:00:00Z'',
     flight_duration_minutes = 65, flight_cycles = 1,
     flight_pilot_user_id = Some ''00000000-0000-0000-0000-000000000002'',
     flight_notes = Some ''Long-range pipeline inspection corridor 4. Routine survey flight.'',
     flight_created_at = ''2026-03-15T14:10:00Z''\<rparr>,
    \<lparr>flight_id = ''flt-d05-01'', flight_organization_id = DEMO_ORG_ID,
     flight_asset_id = ''drn-kota-005'', flight_flown_at = ''2026-03-19T11:45:00Z'',
     flight_duration_minutes = 20, flight_cycles = 1,
     flight_pilot_user_id = Some ''00000000-0000-0000-0000-000000000002'',
     flight_notes = Some ''Industrial rooftop inspection. Propeller chip observed during post-flight walkaround. Grounded.'',
     flight_created_at = ''2026-03-19T12:15:00Z''\<rparr>]"

definition DEMO_FINDINGS :: "BackendFinding list" where
  "DEMO_FINDINGS = [
    \<lparr>finding_id = ''fnd-kota-d005-01'', finding_organization_id = DEMO_ORG_ID,
     finding_aircraft_id = None, finding_asset_id = Some ''drn-kota-005'',
     finding_component_id = Some ''cmp-kota-006'', finding_inspection_requirement_id = None,
     finding_work_order_id = None, finding_task_id = None,
     finding_compliance_obligation_id = None, finding_regulatory_requirement_id = None,
     finding_safety_significance = None, finding_compliance_relevance = None,
     finding_title = ''Propeller Blade #3 Leading Edge Scuff and Micro-Fracture'',
     finding_description = ''Post-flight inspection revealed 3mm chip and hairline stress fracture on CW carbon prop #3. Exceeds allowable limits per AMM section 61-10.'',
     finding_severity = ''MAJOR'', finding_status = ''OPEN'',
     finding_discovered_at = ''2026-03-19T12:00:00Z'',
     finding_discovered_by_user_id = Some ''00000000-0000-0000-0000-000000000002'',
     finding_responsible_user_id = Some ''00000000-0000-0000-0000-000000000002'',
     finding_created_at = ''2026-03-19T12:15:00Z'',
     finding_updated_at = ''2026-03-19T12:15:00Z'', finding_dispositions = []\<rparr>,
    \<lparr>finding_id = ''fnd-kota-d003-01'', finding_organization_id = DEMO_ORG_ID,
     finding_aircraft_id = None, finding_asset_id = Some ''drn-kota-003'',
     finding_component_id = Some ''cmp-kota-004'', finding_inspection_requirement_id = None,
     finding_work_order_id = None, finding_task_id = None,
     finding_compliance_obligation_id = None, finding_regulatory_requirement_id = None,
     finding_safety_significance = None, finding_compliance_relevance = None,
     finding_title = ''LiDAR Optical Window Micro-Scratch & Degraded Signal Return'',
     finding_description = ''Telemetry log indicates 15% drop in laser return intensity. Visual inspection confirms 2mm optical window abrasion.'',
     finding_severity = ''MAJOR'', finding_status = ''OPEN'',
     finding_discovered_at = ''2026-03-22T09:15:00Z'',
     finding_discovered_by_user_id = Some ''00000000-0000-0000-0000-000000000002'',
     finding_responsible_user_id = Some ''00000000-0000-0000-0000-000000000002'',
     finding_created_at = ''2026-03-22T09:30:00Z'',
     finding_updated_at = ''2026-03-22T09:30:00Z'', finding_dispositions = []\<rparr>,
    \<lparr>finding_id = ''fnd-kota-d001-01'', finding_organization_id = DEMO_ORG_ID,
     finding_aircraft_id = None, finding_asset_id = Some ''drn-kota-001'',
     finding_component_id = Some ''cmp-kota-002'', finding_inspection_requirement_id = None,
     finding_work_order_id = None, finding_task_id = None,
     finding_compliance_obligation_id = None, finding_regulatory_requirement_id = None,
     finding_safety_significance = None, finding_compliance_relevance = None,
     finding_title = ''Thermal Gimbal Pitch Axis Cable Tension'',
     finding_description = ''Minor tension observed on video feed ribbon during 90 degree pitch down. Calibrated and cleared.'',
     finding_severity = ''MINOR'', finding_status = ''CLOSED'',
     finding_discovered_at = ''2026-03-10T08:00:00Z'',
     finding_discovered_by_user_id = Some ''00000000-0000-0000-0000-000000000002'',
     finding_responsible_user_id = Some ''00000000-0000-0000-0000-000000000002'',
     finding_created_at = ''2026-03-10T08:15:00Z'',
     finding_updated_at = ''2026-03-10T11:00:00Z'',
     finding_dispositions = [\<lparr>disposition_id = ''dsp-001-1'', disposition_organization_id = DEMO_ORG_ID,
     disposition_finding_id = ''fnd-kota-d001-01'',
     disposition_disposition_type = ''NO_ACTION_REQUIRED'',
     disposition_corrective_action = Some ''Harness adjusted and full 360 gimbal movement verified.'',
     disposition_evidence_id = None, disposition_closed_at = Some ''2026-03-10T11:00:00Z'',
     disposition_closed_by_user_id = Some ''00000000-0000-0000-0000-000000000002'',
     disposition_created_at = ''2026-03-10T09:00:00Z''\<rparr>]\<rparr>]"

definition DEMO_MAINTENANCE_DUE :: "(string \<times> DroneMaintenanceDueItem list) list" where
  "DEMO_MAINTENANCE_DUE = [
    (''drn-kota-001'', [
     \<lparr>mdue_requirement = \<lparr>mreq_id = ''mreq-001'', mreq_organization_id = DEMO_ORG_ID,
     mreq_description = ''50-Hour Airframe & Motor Bearing Inspection'',
     mreq_ata_chapter = ''ATA 05'', mreq_interval_type = DIV_FLIGHT_HOURS,
     mreq_fh_interval = Some 50, mreq_fc_interval = None, mreq_calendar_interval_days = None,
     mreq_task_reference = Some ''AMM-DRN-05-10''\<rparr>,
      mdue_aircraft_id = None, mdue_asset_id = Some ''drn-kota-001'', mdue_battery_id = None,
      mdue_component_id = None, mdue_last_accomplished_at = Some ''2026-02-10T00:00:00Z'',
      mdue_due_status = DDUE_NOT_DUE, mdue_due_date = None,
      mdue_reason = ''Current usage: 18.5 / 50.0 FH (31.5 FH remaining)'',
      mdue_current_usage = Some (185 / 10), mdue_remaining_usage = Some (315 / 10),
      mdue_lifetime_usage = Some (685 / 10)\<rparr>,
     \<lparr>mdue_requirement = \<lparr>mreq_id = ''mreq-002'', mreq_organization_id = DEMO_ORG_ID,
     mreq_description = ''Annual Avionics & Barometric Altimeter Calibration'',
     mreq_ata_chapter = ''ATA 34'', mreq_interval_type = DIV_CALENDAR, mreq_fh_interval = None,
     mreq_fc_interval = None, mreq_calendar_interval_days = Some 365,
     mreq_task_reference = Some ''AMM-DRN-34-20''\<rparr>,
      mdue_aircraft_id = None, mdue_asset_id = Some ''drn-kota-001'', mdue_battery_id = None,
      mdue_component_id = None, mdue_last_accomplished_at = Some ''2026-01-15T00:00:00Z'',
      mdue_due_status = DDUE_NOT_DUE, mdue_due_date = Some ''2027-01-15T00:00:00Z'',
      mdue_reason = ''Annual calibration valid until Jan 2027'', mdue_current_usage = Some 67,
      mdue_remaining_usage = Some 298, mdue_lifetime_usage = Some 67\<rparr>]),
    (''drn-kota-003'', [
     \<lparr>mdue_requirement = \<lparr>mreq_id = ''mreq-003'', mreq_organization_id = DEMO_ORG_ID,
     mreq_description = ''50-Hour Motor Bearing & Thrust Test'', mreq_ata_chapter = ''ATA 72'',
     mreq_interval_type = DIV_FLIGHT_HOURS, mreq_fh_interval = Some 50, mreq_fc_interval = None,
     mreq_calendar_interval_days = None, mreq_task_reference = Some ''AMM-GV2-72-01''\<rparr>,
      mdue_aircraft_id = None, mdue_asset_id = Some ''drn-kota-003'', mdue_battery_id = None,
      mdue_component_id = None, mdue_last_accomplished_at = None,
      mdue_due_status = DDUE_OVERDUE, mdue_due_date = None,
      mdue_reason = ''Current usage 51.5 FH exceeds 50.0 FH interval (+1.5 FH overdue)'',
      mdue_current_usage = Some (515 / 10), mdue_remaining_usage = Some (- 15 / 10),
      mdue_lifetime_usage = Some (515 / 10)\<rparr>]),
    (''drn-kota-006'', [
     \<lparr>mdue_requirement = \<lparr>mreq_id = ''mreq-004'', mreq_organization_id = DEMO_ORG_ID,
     mreq_description = ''100-Cycle Battery Capacity Verification'',
     mreq_ata_chapter = ''ATA 24'', mreq_interval_type = DIV_BATTERY_CYCLES,
     mreq_fh_interval = None, mreq_fc_interval = None, mreq_calendar_interval_days = None,
     mreq_task_reference = Some ''AMM-BAT-24-05''\<rparr>,
      mdue_aircraft_id = None, mdue_asset_id = Some ''drn-kota-006'',
      mdue_battery_id = Some ''bat-kota-006'', mdue_component_id = None,
      mdue_last_accomplished_at = None, mdue_due_status = DDUE_DUE_SOON, mdue_due_date = None,
      mdue_reason = ''Cycle count 98 / 100 cycles (2 cycles remaining)'',
      mdue_current_usage = Some 98, mdue_remaining_usage = Some 2, mdue_lifetime_usage = Some 98\<rparr>])]"

definition DEMO_MISSIONS :: "DemoMission list" where
  "DEMO_MISSIONS = [
    \<lparr>mission_id = ''msn-kota-2026-00421'', mission_mission_code = ''MSN-2026-00421'',
     mission_asset_id = ''drn-kota-001'', mission_pilot_name = ''Alex Rivera (Lead Pilot)'',
     mission_purpose = ''Transmission Line Corridor Alpha Inspection'',
     mission_status = DMS_AUTHORIZED,
     mission_operating_area = ''Sector 4 North Corridor (45.21N, 73.12W)'',
     mission_planned_start = ''2026-03-24T09:00:00Z'',
     mission_planned_end = ''2026-03-24T11:30:00Z'',
     mission_preflight_checks = \<lparr>preflight_airframe_condition = PFC_PASS, preflight_battery_state = PFC_PASS, preflight_maintenance_status = PFC_PASS, preflight_inspection_clearance = PFC_PASS, preflight_open_findings = PFC_PASS, preflight_pilot_qualification = PFC_PASS, preflight_airspace_authorization = PFC_PASS\<rparr>,
     mission_overall_preflight = PFO_READY, mission_blockers = [], mission_outcome = None\<rparr>,
    \<lparr>mission_id = ''msn-kota-2026-00422'', mission_mission_code = ''MSN-2026-00422'',
     mission_asset_id = ''drn-kota-002'', mission_pilot_name = ''Alex Rivera'',
     mission_purpose = ''Quarry Photogrammetry Volume Audit'', mission_status = DMS_PRE_FLIGHT,
     mission_operating_area = ''Apex Industrial Quarry (44.88N, 73.50W)'',
     mission_planned_start = ''2026-03-24T13:00:00Z'',
     mission_planned_end = ''2026-03-24T15:00:00Z'',
     mission_preflight_checks = \<lparr>preflight_airframe_condition = PFC_PASS, preflight_battery_state = PFC_FAIL, preflight_maintenance_status = PFC_PASS, preflight_inspection_clearance = PFC_PASS, preflight_open_findings = PFC_FAIL, preflight_pilot_qualification = PFC_PASS, preflight_airspace_authorization = PFC_PASS\<rparr>,
     mission_overall_preflight = PFO_BLOCKED,
     mission_blockers = [''Battery BAT-D002-A is in CRITICAL state (voltage collapse under load)'', ''Unresolved CRITICAL finding on battery pack''],
     mission_outcome = None\<rparr>,
    \<lparr>mission_id = ''msn-kota-2026-00423'', mission_mission_code = ''MSN-2026-00423'',
     mission_asset_id = ''drn-kota-003'', mission_pilot_name = ''Alex Rivera'',
     mission_purpose = ''Forestry LiDAR Canopy Density Mapping'',
     mission_status = DMS_COMPLETED,
     mission_operating_area = ''East Pine Ridge Reserve (45.60N, 72.90W)'',
     mission_planned_start = ''2026-03-22T08:00:00Z'',
     mission_planned_end = ''2026-03-22T09:30:00Z'',
     mission_preflight_checks = \<lparr>preflight_airframe_condition = PFC_PASS, preflight_battery_state = PFC_PASS, preflight_maintenance_status = PFC_PASS, preflight_inspection_clearance = PFC_PASS, preflight_open_findings = PFC_PASS, preflight_pilot_qualification = PFC_PASS, preflight_airspace_authorization = PFC_PASS\<rparr>,
     mission_overall_preflight = PFO_READY, mission_blockers = [],
     mission_outcome = Some ''Mission accomplished. 120 hectares mapped with 100% point cloud coverage. No anomalies.''\<rparr>,
    \<lparr>mission_id = ''msn-kota-2026-00424'', mission_mission_code = ''MSN-2026-00424'',
     mission_asset_id = ''drn-kota-005'', mission_pilot_name = ''Alex Rivera'',
     mission_purpose = ''Solar Farm Thermal Hotspot Scan'', mission_status = DMS_PLANNED,
     mission_operating_area = ''Solar Grid Delta (44.30N, 73.80W)'',
     mission_planned_start = ''2026-03-25T10:00:00Z'',
     mission_planned_end = ''2026-03-25T12:00:00Z'',
     mission_preflight_checks = \<lparr>preflight_airframe_condition = PFC_FAIL, preflight_battery_state = PFC_PASS, preflight_maintenance_status = PFC_PASS, preflight_inspection_clearance = PFC_PASS, preflight_open_findings = PFC_FAIL, preflight_pilot_qualification = PFC_PASS, preflight_airspace_authorization = PFC_PASS\<rparr>,
     mission_overall_preflight = PFO_BLOCKED,
     mission_blockers = [''Airframe is GROUNDED'', ''Open MAJOR finding on propeller blade #3 stress fracture''],
     mission_outcome = None\<rparr>]"

definition DEMO_COMPLIANCE_ASSESSMENTS :: "DemoComplianceAssessment list" where
  "DEMO_COMPLIANCE_ASSESSMENTS = [
    \<lparr>determination_id = ''asmt-drn-001-1'', determination_organization_id = DEMO_ORG_ID,
     determination_asset_id = ''drn-kota-001'',
     determination_requirement_id = ''req-dgca-car-3x'',
     determination_requirement_number = ''DGCA-CAR-SEC3-UAS'',
     determination_authority = ''DGCA'',
     determination_title = ''Type Certification & UAS Operating Rule Compliance'',
     determination_status = DET_COMPLIANT, determination_evaluated_at = ''2026-03-01'',
     determination_evaluated_by_user_id = Some ''usr-tech-01'',
     determination_notes = Some ''UIN verified on DigitalSky. Remote ID and NPNT broadcast active.'',
     determination_override_reason = None, determination_overridden_by_user_id = None\<rparr>,
    \<lparr>determination_id = ''asmt-drn-001-2'', determination_organization_id = DEMO_ORG_ID,
     determination_asset_id = ''drn-kota-001'',
     determination_requirement_id = ''req-batt-safe-01'',
     determination_requirement_number = ''IS-BATT-004'', determination_authority = ''OTHER'',
     determination_title = ''LiPo Smart Battery Safety & Thermal Containment Standard'',
     determination_status = DET_COMPLIANT, determination_evaluated_at = ''2026-03-10'',
     determination_evaluated_by_user_id = Some ''usr-tech-01'',
     determination_notes = Some ''Health verified at 98%, internal resistance balanced across 6 cells.'',
     determination_override_reason = None, determination_overridden_by_user_id = None\<rparr>,
    \<lparr>determination_id = ''asmt-drn-002-1'', determination_organization_id = DEMO_ORG_ID,
     determination_asset_id = ''drn-kota-002'',
     determination_requirement_id = ''req-dgca-car-3x'',
     determination_requirement_number = ''DGCA-CAR-SEC3-UAS'',
     determination_authority = ''DGCA'',
     determination_title = ''Type Certification & UAS Operating Rule Compliance'',
     determination_status = DET_COMPLIANT, determination_evaluated_at = ''2026-03-01'',
     determination_evaluated_by_user_id = Some ''usr-tech-01'',
     determination_notes = Some ''Airframe structure compliant. Operating within registered flight envelope.'',
     determination_override_reason = None, determination_overridden_by_user_id = None\<rparr>,
    \<lparr>determination_id = ''asmt-drn-002-2'', determination_organization_id = DEMO_ORG_ID,
     determination_asset_id = ''drn-kota-002'',
     determination_requirement_id = ''req-batt-safe-01'',
     determination_requirement_number = ''IS-BATT-004'', determination_authority = ''OTHER'',
     determination_title = ''LiPo Smart Battery Safety & Thermal Containment Standard'',
     determination_status = DET_NON_COMPLIANT, determination_evaluated_at = ''2026-03-15'',
     determination_evaluated_by_user_id = Some ''usr-tech-01'',
     determination_notes = Some ''Critical voltage collapse under high discharge rate during benchmark test. Battery grounded.'',
     determination_override_reason = None, determination_overridden_by_user_id = None\<rparr>,
    \<lparr>determination_id = ''asmt-drn-003-1'', determination_organization_id = DEMO_ORG_ID,
     determination_asset_id = ''drn-kota-003'',
     determination_requirement_id = ''req-insp-100h'',
     determination_requirement_number = ''MP-DRN-100H'', determination_authority = ''DGCA'',
     determination_title = ''100-Hour Mandatory Airframe Structural Integrity Inspection'',
     determination_status = DET_NON_COMPLIANT, determination_evaluated_at = ''2026-03-18'',
     determination_evaluated_by_user_id = Some ''usr-tech-02'',
     determination_notes = Some ''Inspection overdue by 12 flight hours. Dispatch blocked pending maintenance accomplishment.'',
     determination_override_reason = None, determination_overridden_by_user_id = None\<rparr>,
    \<lparr>determination_id = ''asmt-drn-004-1'', determination_organization_id = DEMO_ORG_ID,
     determination_asset_id = ''drn-kota-004'',
     determination_requirement_id = ''req-dgca-car-3x'',
     determination_requirement_number = ''DGCA-CAR-SEC3-UAS'',
     determination_authority = ''DGCA'',
     determination_title = ''Type Certification & UAS Operating Rule Compliance'',
     determination_status = DET_COMPLIANT, determination_evaluated_at = ''2026-03-05'',
     determination_evaluated_by_user_id = Some ''usr-tech-01'',
     determination_notes = Some ''VTOL transition controls certified. Airworthiness determination complete.'',
     determination_override_reason = None, determination_overridden_by_user_id = None\<rparr>,
    \<lparr>determination_id = ''asmt-drn-005-1'', determination_organization_id = DEMO_ORG_ID,
     determination_asset_id = ''drn-kota-005'',
     determination_requirement_id = ''req-dgca-car-3x'',
     determination_requirement_number = ''DGCA-CAR-SEC3-UAS'',
     determination_authority = ''DGCA'',
     determination_title = ''Type Certification & UAS Operating Rule Compliance'',
     determination_status = DET_NON_COMPLIANT, determination_evaluated_at = ''2026-03-16'',
     determination_evaluated_by_user_id = Some ''usr-tech-02'',
     determination_notes = Some ''Airframe grounded due to stress fracture on carbon propeller blade #3.'',
     determination_override_reason = None, determination_overridden_by_user_id = None\<rparr>,
    \<lparr>determination_id = ''asmt-drn-005-2'', determination_organization_id = DEMO_ORG_ID,
     determination_asset_id = ''drn-kota-005'',
     determination_requirement_id = ''req-uin-renew'',
     determination_requirement_number = ''DGCA-UIN-RNW'', determination_authority = ''DGCA'',
     determination_title = ''UAS Registration & UIN Digital Certificate Renewal'',
     determination_status = DET_REVIEW_REQUIRED, determination_evaluated_at = ''2026-03-16'',
     determination_evaluated_by_user_id = Some ''usr-tech-02'',
     determination_notes = Some ''Annual digital certificate expiration in 14 days. Renewal application submitted.'',
     determination_override_reason = None, determination_overridden_by_user_id = None\<rparr>,
    \<lparr>determination_id = ''asmt-drn-006-1'', determination_organization_id = DEMO_ORG_ID,
     determination_asset_id = ''drn-kota-006'',
     determination_requirement_id = ''req-dgca-car-3x'',
     determination_requirement_number = ''DGCA-CAR-SEC3-UAS'',
     determination_authority = ''DGCA'',
     determination_title = ''Type Certification & UAS Operating Rule Compliance'',
     determination_status = DET_COMPLIANT, determination_evaluated_at = ''2026-03-02'',
     determination_evaluated_by_user_id = Some ''usr-tech-01'',
     determination_notes = Some ''Autonomous perimeter surveillance system and fail-safe return-to-home verified.'',
     determination_override_reason = None, determination_overridden_by_user_id = None\<rparr>]"

definition DEMO_ASSETS :: "AssetResponse list" where
  "DEMO_ASSETS = [
    \<lparr>asset_id = ''a1000000-0000-0000-0000-000000000001'',
     asset_organization_id = ''demo-org-id'', asset_asset_type = ''AIRCRAFT'',
     asset_manufacturer = Some ''Boeing'', asset_model = Some ''737-800'',
     asset_serial_number = Some ''MSN-30124'', asset_registration = Some ''N737AA'',
     asset_status = ''IN_SERVICE'', asset_acquired_at = Some ''2021-03-15T00:00:00Z'',
     asset_retired_at = None, asset_facility_id = None,
     asset_created_at = ''2021-03-15T00:00:00Z''\<rparr>,
    \<lparr>asset_id = ''a1000000-0000-0000-0000-000000000002'',
     asset_organization_id = ''demo-org-id'', asset_asset_type = ''DRONE'',
     asset_manufacturer = Some ''DJI'', asset_model = Some ''Matrice 300 RTK'',
     asset_serial_number = Some ''1581F1Z882001'', asset_registration = Some ''DRN-M300-01'',
     asset_status = ''IN_SERVICE'', asset_acquired_at = Some ''2023-01-10T00:00:00Z'',
     asset_retired_at = None, asset_facility_id = None,
     asset_created_at = ''2023-01-10T00:00:00Z''\<rparr>,
    \<lparr>asset_id = ''a1000000-0000-0000-0000-000000000003'',
     asset_organization_id = ''demo-org-id'', asset_asset_type = ''HELICOPTER'',
     asset_manufacturer = Some ''Bell Helicopter'', asset_model = Some ''429 GlobalRanger'',
     asset_serial_number = Some ''BH-57019'', asset_registration = Some ''N429HL'',
     asset_status = ''IN_SERVICE'', asset_acquired_at = Some ''2022-06-20T00:00:00Z'',
     asset_retired_at = None, asset_facility_id = None,
     asset_created_at = ''2022-06-20T00:00:00Z''\<rparr>,
    \<lparr>asset_id = ''a1000000-0000-0000-0000-000000000004'',
     asset_organization_id = ''demo-org-id'', asset_asset_type = ''EVTOL'',
     asset_manufacturer = Some ''Joby Aviation'', asset_model = Some ''S4 Pre-Production'',
     asset_serial_number = Some ''JBY-004'', asset_registration = Some ''N401EV'',
     asset_status = ''ACTIVE'', asset_acquired_at = Some ''2024-02-01T00:00:00Z'',
     asset_retired_at = None, asset_facility_id = None,
     asset_created_at = ''2024-02-01T00:00:00Z''\<rparr>,
    \<lparr>asset_id = ''a1000000-0000-0000-0000-000000000005'',
     asset_organization_id = ''demo-org-id'', asset_asset_type = ''DRONE'',
     asset_manufacturer = Some ''Skydio'', asset_model = Some ''X2D Enterprise'',
     asset_serial_number = Some ''SK2-99014'', asset_registration = Some ''DRN-SK2-04'',
     asset_status = ''MAINTENANCE'', asset_acquired_at = Some ''2023-08-14T00:00:00Z'',
     asset_retired_at = None, asset_facility_id = None,
     asset_created_at = ''2023-08-14T00:00:00Z''\<rparr>]"

lemmas demo_ids = DEMO_ORG_ID_def DEMO_ORG_NAME_def DEMO_USER_ID_def DEMO_USER_NAME_def DEMO_USER_EMAIL_def

end
