(* ===== verification/DemoFleet.thy ===== *)
theory DemoFleet
  imports DemoData
begin

text \<open>
  The accessors and calculations of \<open>src/frontend/lib/demo/demoDrones.ts\<close>: the records of one drone,
  its utilization, its deployment readiness and the statistics of the demonstration fleet.
  The readiness is also stated as a specification that does not build the list of blockers, and the
  statistics are shown to partition the fleet.
\<close>

section \<open>The records of one drone\<close>

definition getDemoDrones :: "DroneResponse list" where
  "getDemoDrones = DEMO_DRONES"

definition getDemoDroneById :: "string \<Rightarrow> DroneResponse option" where
  "getDemoDroneById i = find (\<lambda>d. drone_id d = i \<or> drone_registration d = Some i) DEMO_DRONES"

definition getDemoComplianceForDrone :: "string \<Rightarrow> DemoComplianceAssessment list" where
  "getDemoComplianceForDrone i = (case getDemoDroneById i of
     None \<Rightarrow> []
   | Some drone \<Rightarrow> filter (\<lambda>c. determination_asset_id c = drone_id drone) DEMO_COMPLIANCE_ASSESSMENTS)"

definition getDemoBatteryForDrone :: "string \<Rightarrow> BatteryResponse option" where
  "getDemoBatteryForDrone i = (case getDemoDroneById i of
     None \<Rightarrow> None
   | Some drone \<Rightarrow> find (\<lambda>b. battery_asset_id b = Some (drone_id drone)) DEMO_BATTERIES)"

definition getDemoComponentsForDrone :: "string \<Rightarrow> ComponentResponse list" where
  "getDemoComponentsForDrone i = (case getDemoDroneById i of
     None \<Rightarrow> []
   | Some drone \<Rightarrow> filter (\<lambda>c. component_asset_id c = Some (drone_id drone)) DEMO_COMPONENTS)"

definition getDemoFlightsForDrone :: "string \<Rightarrow> FlightResponse list" where
  "getDemoFlightsForDrone i = (case getDemoDroneById i of
     None \<Rightarrow> []
   | Some drone \<Rightarrow> filter (\<lambda>f. flight_asset_id f = drone_id drone) DEMO_FLIGHTS)"

definition getDemoUtilizationForDrone :: "string \<Rightarrow> UtilizationResponse" where
  "getDemoUtilizationForDrone i = (case getDemoDroneById i of
     None \<Rightarrow> \<lparr>usage_asset_id = i, usage_total_flights = 0, usage_total_minutes = 0, usage_total_cycles = 0\<rparr>
   | Some drone \<Rightarrow>
       let flights = getDemoFlightsForDrone (drone_id drone);
           totalMinutes = foldl (\<lambda>s f. s + flight_duration_minutes f) 0 flights;
           totalCycles = foldl (\<lambda>s f. s + flight_cycles f) 0 flights
       in \<lparr>usage_asset_id = drone_id drone, usage_total_flights = int (length flights),
           usage_total_minutes = totalMinutes, usage_total_cycles = totalCycles\<rparr>)"

definition getDemoFindingsForDrone :: "string \<Rightarrow> BackendFinding list" where
  "getDemoFindingsForDrone i = (case getDemoDroneById i of
     None \<Rightarrow> []
   | Some drone \<Rightarrow> filter (\<lambda>f. finding_asset_id f = Some (drone_id drone)) DEMO_FINDINGS)"

definition getDemoMaintenanceForDrone :: "string \<Rightarrow> DroneMaintenanceDueItem list" where
  "getDemoMaintenanceForDrone i = (case getDemoDroneById i of
     None \<Rightarrow> []
   | Some drone \<Rightarrow> or_else (map_of DEMO_MAINTENANCE_DUE (drone_id drone)) [])"

definition getDemoMissionsForDrone :: "string \<Rightarrow> DemoMission list" where
  "getDemoMissionsForDrone i = (case getDemoDroneById i of
     None \<Rightarrow> []
   | Some drone \<Rightarrow> filter (\<lambda>m. mission_asset_id m = drone_id drone) DEMO_MISSIONS)"

section \<open>Deployment readiness\<close>

text \<open>
  The function appends to \<open>blockers\<close> and \<open>findingBlockers\<close> in this order: the status of the drone,
  its battery, its overdue maintenance, one entry for each finding that is not closed.
\<close>

definition battery_blockers :: "BatteryResponse option \<Rightarrow> string list" where
  "battery_blockers battery = (case battery of
     None \<Rightarrow> [''No battery assigned'']
   | Some b \<Rightarrow> if battery_status b = BAT_CRITICAL then [''Battery critical''] else [])"

definition finding_blocker :: "BackendFinding \<Rightarrow> FindingBlocker" where
  "finding_blocker f = \<lparr>fblocker_finding_id = finding_id f, fblocker_title = finding_title f,
     fblocker_severity = finding_severity f, fblocker_status = finding_status f\<rparr>"

definition getDemoDeploymentReadiness :: "string \<Rightarrow> DeploymentReadinessResponse" where
  "getDemoDeploymentReadiness i = (case getDemoDroneById i of
     None \<Rightarrow> \<lparr>deploy_asset_id = i, deploy_status = DEP_BLOCKED, deploy_blockers = [''Drone not found''],
              deploy_finding_blockers = None\<rparr>
   | Some drone \<Rightarrow>
       let openFindings = filter (\<lambda>f. finding_status f \<noteq> ''CLOSED'') (getDemoFindingsForDrone (drone_id drone));
           blockers =
             (if drone_status drone \<noteq> ''ACTIVE'' then [''Drone is not active (status: '' @ drone_status drone @ '')''] else []) @
             battery_blockers (getDemoBatteryForDrone (drone_id drone)) @
             (if list_ex (\<lambda>m. mdue_due_status m = DDUE_OVERDUE) (getDemoMaintenanceForDrone (drone_id drone))
              then [''Maintenance overdue''] else []) @
             map (\<lambda>f. ''Unresolved finding: '' @ finding_title f) openFindings;
           findingBlockers = map finding_blocker openFindings
       in \<lparr>deploy_asset_id = drone_id drone,
           deploy_status = (if blockers = [] then DEP_READY else DEP_BLOCKED),
           deploy_blockers = blockers,
           deploy_finding_blockers = (if length findingBlockers > 0 then Some findingBlockers else None)\<rparr>)"

section \<open>Fleet statistics\<close>

record DemoFleetStatistics =
  stats_totalDrones :: nat
  stats_readyDrones :: nat
  stats_blockedDrones :: nat
  stats_groundedDrones :: nat
  stats_maintenanceDueDrones :: nat
  stats_openFindingsCount :: nat
  stats_totalFlights :: nat
  stats_totalFlightHours :: string

text \<open>\<open>toFixed(1)\<close> of a value whose second decimal is not a tie.\<close>

definition toFixed1 :: "rat \<Rightarrow> string" where
  "toFixed1 x = (let t = \<lfloor>x * 10 + 1 / 2\<rfloor> in show_int (t div 10) @ ''.'' @ show_int (t mod 10))"

text \<open>One pass of the loop over the drones: (ready, blocked, grounded, maintenance due).\<close>

definition count_drone :: "nat \<times> nat \<times> nat \<times> nat \<Rightarrow> DroneResponse \<Rightarrow> nat \<times> nat \<times> nat \<times> nat" where
  "count_drone = (\<lambda>(ready, blocked, grounded, maintDue) drone.
     let grounded = (if drone_status drone = ''GROUNDED'' then Suc grounded else grounded);
         isReady = (deploy_status (getDemoDeploymentReadiness (drone_id drone)) = DEP_READY);
         ready' = (if isReady then Suc ready else ready);
         blocked = (if isReady then blocked else Suc blocked);
         maintDue = (if list_ex (\<lambda>m. mdue_due_status m = DDUE_OVERDUE) (getDemoMaintenanceForDrone (drone_id drone))
                     then Suc maintDue else maintDue)
     in (ready', blocked, grounded, maintDue))"

definition getDemoFleetStatistics :: DemoFleetStatistics where
  "getDemoFleetStatistics =
     (let (ready, blocked, grounded, maintDue) = foldl count_drone (0, 0, 0, 0) DEMO_DRONES in
      \<lparr>stats_totalDrones = length DEMO_DRONES,
       stats_readyDrones = ready,
       stats_blockedDrones = blocked,
       stats_groundedDrones = grounded,
       stats_maintenanceDueDrones = maintDue,
       stats_openFindingsCount = length (filter (\<lambda>f. finding_status f \<noteq> ''CLOSED'') DEMO_FINDINGS),
       stats_totalFlights = length DEMO_FLIGHTS,
       stats_totalFlightHours =
         toFixed1 (of_int (foldl (\<lambda>s f. s + flight_duration_minutes f) 0 DEMO_FLIGHTS) / 60)\<rparr>)"

section \<open>Lemmas\<close>

lemma demo_drone_in: "getDemoDroneById i = Some d \<Longrightarrow> d \<in> set DEMO_DRONES"
  by (auto simp: getDemoDroneById_def find_Some_iff in_set_conv_nth)

lemma demo_drones_by_id: "list_all (\<lambda>d. getDemoDroneById (drone_id d) = Some d) DEMO_DRONES"
  by (simp add: DEMO_DRONES_def getDemoDroneById_def)

lemma demo_drone_again: "getDemoDroneById i = Some d \<Longrightarrow> getDemoDroneById (drone_id d) = Some d"
  using demo_drone_in [of i d] demo_drones_by_id by (simp add: list_all_iff)

lemma demo_drone_accessors:
  assumes "getDemoDroneById i = Some d"
  shows "getDemoBatteryForDrone (drone_id d) = getDemoBatteryForDrone i"
    "getDemoMaintenanceForDrone (drone_id d) = getDemoMaintenanceForDrone i"
    "getDemoFindingsForDrone (drone_id d) = getDemoFindingsForDrone i"
    "getDemoFlightsForDrone (drone_id d) = getDemoFlightsForDrone i"
  using assms demo_drone_again [OF assms]
  by (simp_all add: getDemoBatteryForDrone_def getDemoMaintenanceForDrone_def getDemoFindingsForDrone_def
      getDemoFlightsForDrone_def)

section \<open>The specification of readiness\<close>

text \<open>No list of blockers is built: the drone exists and has nothing against it.\<close>

definition deployable :: "string \<Rightarrow> bool" where
  "deployable i \<longleftrightarrow>
     (case getDemoDroneById i of
        None \<Rightarrow> False
      | Some d \<Rightarrow> drone_status d = ''ACTIVE'' \<and>
          (case getDemoBatteryForDrone i of None \<Rightarrow> False | Some b \<Rightarrow> battery_status b \<noteq> BAT_CRITICAL) \<and>
          list_all (\<lambda>m. mdue_due_status m \<noteq> DDUE_OVERDUE) (getDemoMaintenanceForDrone i) \<and>
          list_all (\<lambda>f. finding_status f = ''CLOSED'') (getDemoFindingsForDrone i))"

lemma battery_blockers_empty:
  "battery_blockers b = [] \<longleftrightarrow> (case b of None \<Rightarrow> False | Some b \<Rightarrow> battery_status b \<noteq> BAT_CRITICAL)"
  by (simp add: battery_blockers_def split: option.split)

lemma no_overdue: "\<not> list_ex (\<lambda>m. mdue_due_status m = DDUE_OVERDUE) ms \<longleftrightarrow> list_all (\<lambda>m. mdue_due_status m \<noteq> DDUE_OVERDUE) ms"
  by (induction ms) simp_all

lemma no_open: "filter (\<lambda>f. finding_status f \<noteq> ''CLOSED'') fs = [] \<longleftrightarrow> list_all (\<lambda>f. finding_status f = ''CLOSED'') fs"
  by (induction fs) simp_all

lemma readiness_deployable: "deploy_status (getDemoDeploymentReadiness i) = DEP_READY \<longleftrightarrow> deployable i"
proof (cases "getDemoDroneById i")
  case None
  then show ?thesis by (simp add: getDemoDeploymentReadiness_def deployable_def)
next
  case (Some d)
  then show ?thesis
    by (simp add: getDemoDeploymentReadiness_def deployable_def demo_drone_accessors Let_def battery_blockers_empty
        no_overdue no_open)
qed

text \<open>The loop of the statistics counts, for any list of drones.\<close>

definition drone_ready :: "DroneResponse \<Rightarrow> bool" where
  "drone_ready d \<longleftrightarrow> deploy_status (getDemoDeploymentReadiness (drone_id d)) = DEP_READY"

definition drone_overdue :: "DroneResponse \<Rightarrow> bool" where
  "drone_overdue d \<longleftrightarrow> list_ex (\<lambda>m. mdue_due_status m = DDUE_OVERDUE) (getDemoMaintenanceForDrone (drone_id d))"

lemma count_drone_foldl:
  "foldl count_drone (r, b, g, m) ds =
   (r + count_if drone_ready ds, b + count_if (\<lambda>d. \<not> drone_ready d) ds,
    g + count_if (\<lambda>d. drone_status d = ''GROUNDED'') ds, m + count_if drone_overdue ds)"
  by (induction ds arbitrary: r b g m)
    (simp_all add: count_drone_def drone_ready_def drone_overdue_def Let_def)

lemma count_if_split: "count_if P xs + count_if (\<lambda>x. \<not> P x) xs = length xs"
  by (simp add: count_if_def sum_length_filter_compl)

section \<open>Properties\<close>

text \<open>
  A drone of the demonstration, looked up by identifier or registration, is READY exactly when it is
  deployable: it is in the fleet and ACTIVE, its battery exists and is not CRITICAL, none of its
  maintenance is overdue and all its findings are closed. Then, and only then, there is no blocker, and
  the blocking findings are listed exactly when a finding is open.
\<close>

theorem demo_readiness_exact:
  "let r = getDemoDeploymentReadiness i in
   (deploy_status r = DEP_READY \<longleftrightarrow> deployable i) \<and>
   (deploy_blockers r = [] \<longleftrightarrow> deployable i) \<and>
   (deploy_finding_blockers r = None \<longleftrightarrow>
      list_all (\<lambda>f. finding_status f = ''CLOSED'') (getDemoFindingsForDrone i))"
proof -
  have a: "deploy_blockers (getDemoDeploymentReadiness i) = [] \<longleftrightarrow>
      deploy_status (getDemoDeploymentReadiness i) = DEP_READY"
    by (simp add: getDemoDeploymentReadiness_def Let_def split: option.split)
  have "deploy_finding_blockers (getDemoDeploymentReadiness i) = None \<longleftrightarrow>
      list_all (\<lambda>f. finding_status f = ''CLOSED'') (getDemoFindingsForDrone i)"
  proof (cases "getDemoDroneById i")
    case None
    then show ?thesis by (simp add: getDemoDeploymentReadiness_def getDemoFindingsForDrone_def)
  next
    case (Some d)
    then show ?thesis
      by (auto simp: getDemoDeploymentReadiness_def demo_drone_accessors Let_def list_all_iff filter_empty_conv)
  qed
  then show ?thesis unfolding Let_def a readiness_deployable by simp
qed

text \<open>
  The statistics of the fleet partition it: each drone is counted once, as ready or as blocked, the
  ready ones are those that are deployable, and the grounded and the overdue ones are never more than
  the drones there are.
\<close>

theorem demo_statistics_partition:
  "stats_readyDrones getDemoFleetStatistics + stats_blockedDrones getDemoFleetStatistics =
     stats_totalDrones getDemoFleetStatistics \<and>
   stats_readyDrones getDemoFleetStatistics = count_if (\<lambda>d. deployable (drone_id d)) DEMO_DRONES \<and>
   stats_groundedDrones getDemoFleetStatistics = count_if (\<lambda>d. drone_status d = ''GROUNDED'') DEMO_DRONES \<and>
   stats_maintenanceDueDrones getDemoFleetStatistics \<le> stats_totalDrones getDemoFleetStatistics"
proof -
  have "drone_ready = (\<lambda>d. deployable (drone_id d))"
    by (rule ext) (simp add: drone_ready_def readiness_deployable)
  then show ?thesis
    by (simp add: getDemoFleetStatistics_def count_drone_foldl count_if_split count_if_le)
qed

definition in_fleet :: "string \<Rightarrow> bool" where
  "in_fleet i \<longleftrightarrow> list_ex (\<lambda>d. drone_id d = i) DEMO_DRONES"

text \<open>
  The synthetic data set is closed: the identifiers of the drones are distinct and differ from every
  registration, and each battery, component, flight, finding, mission, assessment and maintenance entry
  belongs to a drone of the fleet.
\<close>

theorem demo_dataset_closed:
  "distinct (map (Some \<circ> drone_id) DEMO_DRONES @ map drone_registration DEMO_DRONES) \<and>
   list_all (\<lambda>b. list_all in_fleet (case battery_asset_id b of None \<Rightarrow> [] | Some i \<Rightarrow> [i])) DEMO_BATTERIES \<and>
   list_all (\<lambda>c. list_all in_fleet (case component_asset_id c of None \<Rightarrow> [] | Some i \<Rightarrow> [i])) DEMO_COMPONENTS \<and>
   list_all (\<lambda>f. in_fleet (flight_asset_id f)) DEMO_FLIGHTS \<and>
   list_all (\<lambda>f. list_all in_fleet (case finding_asset_id f of None \<Rightarrow> [] | Some i \<Rightarrow> [i])) DEMO_FINDINGS \<and>
   list_all (\<lambda>m. in_fleet (mission_asset_id m)) DEMO_MISSIONS \<and>
   list_all (\<lambda>c. in_fleet (determination_asset_id c)) DEMO_COMPLIANCE_ASSESSMENTS \<and>
   list_all (\<lambda>(i, ms). in_fleet i \<and> list_all (\<lambda>m. mdue_asset_id m = Some i) ms) DEMO_MAINTENANCE_DUE"
proof (intro conjI)
  show "distinct (map (Some \<circ> drone_id) DEMO_DRONES @ map drone_registration DEMO_DRONES)"
    by (simp add: DEMO_DRONES_def)
qed (simp_all add: in_fleet_def DEMO_DRONES_def DEMO_BATTERIES_def DEMO_COMPONENTS_def DEMO_FLIGHTS_def
      DEMO_FINDINGS_def DEMO_MISSIONS_def DEMO_COMPLIANCE_ASSESSMENTS_def DEMO_MAINTENANCE_DUE_def)

text \<open>A mission is BLOCKED for a battery the data set calls GOOD, and the drone's battery is not critical.\<close>

lemma mission_contradicts_battery:
  "list_ex (\<lambda>m. mission_asset_id m = ''drn-kota-002'' \<and> mission_overall_preflight m = PFO_BLOCKED \<and>
     preflight_battery_state (mission_preflight_checks m) = PFC_FAIL) DEMO_MISSIONS \<and>
   map_option battery_status (getDemoBatteryForDrone ''drn-kota-002'') = Some BAT_GOOD"
  by (simp add: DEMO_MISSIONS_def getDemoBatteryForDrone_def getDemoDroneById_def DEMO_DRONES_def DEMO_BATTERIES_def)

end
