(* ===== verification/EvidenceFiles.thy ===== *)
theory EvidenceFiles
  imports DemoFleet ApiClient
begin

text \<open>
  The rules of the evidence-file panel (\<open>src/frontend/lib/api/evidenceFiles.ts\<close>) and the permission hint
  of the flight log (\<open>src/frontend/lib/api/drones.ts\<close>): what may be uploaded, how a size is shown, who is
  offered the controls, and the message an error gives.
\<close>

section \<open>Uploads\<close>

definition ALLOWED_EVIDENCE_FILE_CONTENT_TYPES :: "string list" where
  "ALLOWED_EVIDENCE_FILE_CONTENT_TYPES = [''application/pdf'', ''image/jpeg'', ''image/png'']"

definition MAX_EVIDENCE_FILE_UPLOAD_BYTES :: int where
  "MAX_EVIDENCE_FILE_UPLOAD_BYTES = 10 * 1024 * 1024"

definition isAllowedEvidenceFileType :: "upload_file \<Rightarrow> bool" where
  "isAllowedEvidenceFileType f \<longleftrightarrow> ufile_type f \<in> set ALLOWED_EVIDENCE_FILE_CONTENT_TYPES"

definition isWithinEvidenceFileSizeLimit :: "upload_file \<Rightarrow> bool" where
  "isWithinEvidenceFileSizeLimit f \<longleftrightarrow> ufile_size f \<le> MAX_EVIDENCE_FILE_UPLOAD_BYTES"

text \<open>
  The loop of \<open>formatFileSize\<close>: the value and the index of the unit. Dividing by 1024 is exact on
  floating-point numbers, so the value is the rational one.
\<close>

function size_loop :: "rat \<Rightarrow> nat \<Rightarrow> rat \<times> nat" where
  "size_loop v k = (if v \<ge> 1024 \<and> k < 2 then size_loop (v / 1024) (Suc k) else (v, k))"
  by auto
termination by (relation "measure (\<lambda>(v, k). 2 - k)") auto

declare size_loop.simps [simp del]

definition toFixed0 :: "rat \<Rightarrow> string" where
  "toFixed0 x = show_int \<lfloor>x + 1 / 2\<rfloor>"

definition formatFileSize :: "int \<Rightarrow> string" where
  "formatFileSize bytes =
     (if bytes < 1024 then show_int bytes @ '' B''
      else let (v, k) = size_loop (of_int bytes / 1024) 0
        in (if v < 10 then toFixed1 v else toFixed0 v) @ '' '' @ [''KB'', ''MB'', ''GB''] ! k)"

section \<open>Controls\<close>

datatype EvidenceFileStatus = EFS_PENDING | EFS_STORED | EFS_FAILED | EFS_DELETED

definition canDownloadEvidenceFile :: "EvidenceFileStatus \<Rightarrow> bool" where
  "canDownloadEvidenceFile s \<longleftrightarrow> s = EFS_STORED"

definition canDeleteEvidenceFile :: "EvidenceFileStatus \<Rightarrow> bool" where
  "canDeleteEvidenceFile s \<longleftrightarrow> s = EFS_STORED"

definition EVIDENCE_WRITE_ROLES :: "string list" where
  "EVIDENCE_WRITE_ROLES = [''SUPER_ADMIN'', ''ORG_ADMIN'', ''COMPLIANCE_MANAGER'', ''CAMO_MANAGER'', ''MAINTENANCE_ENGINEER'']"

definition canWriteEvidenceFiles :: "CurrentUser option \<Rightarrow> bool" where
  "canWriteEvidenceFiles user = (case user of
     None \<Rightarrow> False | Some u \<Rightarrow> list_ex (\<lambda>r. r \<in> set EVIDENCE_WRITE_ROLES) (cuser_roles u))"

definition DRONE_WRITE_ROLES :: "string list" where
  "DRONE_WRITE_ROLES = [''SUPER_ADMIN'', ''ORG_ADMIN'', ''CAMO_MANAGER'']"

definition canRecordFlight :: "CurrentUser option \<Rightarrow> bool" where
  "canRecordFlight user = (case user of
     None \<Rightarrow> False | Some u \<Rightarrow> list_ex (\<lambda>r. r \<in> set DRONE_WRITE_ROLES) (cuser_roles u))"

section \<open>Errors\<close>

datatype EvidenceAction = EA_upload | EA_download | EA_delete

definition evidenceFileErrorMessage :: "EvidenceAction \<Rightarrow> NormalizedApiError \<Rightarrow> string" where
  "evidenceFileErrorMessage action err =
     (if nerr_kind err \<noteq> AEK_server then nerr_message err
      else case action of
        EA_upload \<Rightarrow> ''Unable to upload this file. Please try again.''
      | EA_download \<Rightarrow> ''Unable to download this file. It may no longer be available.''
      | EA_delete \<Rightarrow> ''Unable to delete this file. Please try again.'')"

section \<open>Properties\<close>

lemma size_loop_invariant:
  "v * 1024 ^ Suc k = b \<Longrightarrow> k \<le> 2 \<Longrightarrow> 1 \<le> v \<Longrightarrow> size_loop v k = (w, n) \<Longrightarrow>
   w * 1024 ^ Suc n = b \<and> n \<le> 2 \<and> 1 \<le> w \<and> (w < 1024 \<or> n = 2)"
proof (induction v k rule: size_loop.induct)
  case (1 v k)
  show ?case
  proof (cases "v \<ge> 1024 \<and> k < 2")
    case True
    then have "size_loop (v / 1024) (Suc k) = (w, n)" using "1.prems"(4) by (simp add: size_loop.simps [of v k])
    moreover have "v / 1024 * 1024 ^ Suc (Suc k) = b" using "1.prems"(1) by simp
    ultimately show ?thesis using "1.IH" [OF True] True by simp
  next
    case False
    then show ?thesis using "1.prems" by (auto simp: size_loop.simps [of v k])
  qed
qed

text \<open>
  The size of a file is shown in the right unit: from 1024 bytes on the loop ends after at most two
  divisions with a value of at least 1 that stands for exactly the bytes in that unit, below 1024 unless
  the unit is already the gigabyte.
\<close>

theorem file_size_exact:
  assumes "1024 \<le> bytes"
  shows "let (v, k) = size_loop (of_int bytes / 1024) 0 in
    v * 1024 ^ Suc k = of_int bytes \<and> k \<le> 2 \<and> 1 \<le> v \<and> (v < 1024 \<or> k = 2) \<and>
    formatFileSize bytes = (if v < 10 then toFixed1 v else toFixed0 v) @ '' '' @ [''KB'', ''MB'', ''GB''] ! k"
proof -
  obtain v k where vk: "size_loop (of_int bytes / 1024) 0 = (v, k)" by fastforce
  have "1 \<le> (of_int bytes / 1024 :: rat)" using assms by simp
  then have "v * 1024 ^ Suc k = of_int bytes \<and> k \<le> 2 \<and> 1 \<le> v \<and> (v < 1024 \<or> k = 2)"
    by (intro size_loop_invariant [OF _ _ _ vk]) simp_all
  then show ?thesis using assms by (simp add: vk formatFileSize_def)
qed

theorem file_size_exact_witness:
  "let (v, k) = size_loop (of_int 5242880 / 1024) 0 in
    v * 1024 ^ Suc k = of_int 5242880 \<and> k \<le> 2 \<and> 1 \<le> v \<and> (v < 1024 \<or> k = 2) \<and>
    formatFileSize 5242880 = (if v < 10 then toFixed1 v else toFixed0 v) @ '' '' @ [''KB'', ''MB'', ''GB''] ! k"
  by (rule file_size_exact) simp

text \<open>
  The message of a failed evidence-file action, from the response to the screen: after a server error it
  is the fixed text of the action, whatever the body says; after any other error response with a message
  it is that message; and whoever is offered the flight log is offered the evidence uploads.
\<close>

theorem evidence_error_exact:
  "let e = normalizeApiError (response_error status data);
       said = error_message (json_field (error_body data) ''message'')
   in (if status \<ge> 500 then evidenceFileErrorMessage a e = evidenceFileErrorMessage a (normalizeApiError (response_error 500 JNull))
       else evidenceFileErrorMessage a e = (if said = [] then DEFAULT_MESSAGES (error_kind status) else said)) \<and>
      (canRecordFlight user \<le> canWriteEvidenceFiles user)"
proof -
  have "canRecordFlight user \<le> canWriteEvidenceFiles user"
    by (auto simp: canRecordFlight_def canWriteEvidenceFiles_def DRONE_WRITE_ROLES_def EVIDENCE_WRITE_ROLES_def
        list_ex_iff split: option.split)
  then show ?thesis
    by (simp add: response_error_def evidenceFileErrorMessage_def error_kind_def Let_def)
qed

end
