(* ===== verification/DemoStore.thy ===== *)
theory DemoStore
  imports DemoFleet Clock Machines
begin

text \<open>
  The session store of the demonstration (\<open>src/frontend/lib/demo/demoStore.ts\<close>): the module state
  \<open>inMemoryState\<close>, the item it keeps in the browser's session storage, the set of listeners, and one
  definition per operation. The clock is an argument: \<open>clk n\<close> is what the n-th reading of it in the
  operation returns, \<open>rnd\<close> the four random letters of an identifier. The operations are shown to refine
  an abstract store that has no storage and no module state, page reloads included.
\<close>

section \<open>The state\<close>

text \<open>\<open>Partial<CurrentUser>\<close> and \<open>Partial<AssetResponse>\<close>: a field that is absent is \<open>None\<close>.\<close>

record CurrentUserUpdate =
  cupd_id :: "string option"
  cupd_organization_id :: "string option"
  cupd_email :: "string option"
  cupd_full_name :: "string option"
  cupd_roles :: "string list option"
  cupd_email_verified :: "bool option"
  cupd_phone_number :: "string option option"
  cupd_profile_photo_url :: "string option option"
  cupd_pending_email :: "string option option"

record AssetUpdate =
  aupd_id :: "string option"
  aupd_organization_id :: "string option"
  aupd_asset_type :: "string option"
  aupd_manufacturer :: "string option option"
  aupd_model :: "string option option"
  aupd_serial_number :: "string option option"
  aupd_registration :: "string option option"
  aupd_status :: "string option"
  aupd_acquired_at :: "string option option"
  aupd_retired_at :: "string option option"
  aupd_facility_id :: "string option option"
  aupd_created_at :: "string option"

text \<open>
  \<open>DemoStoreState\<close>. The stored item is only checked for its assets and its invitations when it is
  loaded, so the drones may be missing.
\<close>

record DemoStoreState =
  dstate_assets :: "AssetResponse list"
  dstate_drones :: "DroneResponse list option"
  dstate_invitations :: "TenantInvitation list"
  dstate_profile :: "CurrentUserUpdate option"

text \<open>What \<open>JSON.parse\<close> of the stored item gives: a field is \<open>None\<close> when it is not an array.\<close>

record StoredState =
  stored_assets :: "AssetResponse list option"
  stored_drones :: "DroneResponse list option"
  stored_invitations :: "TenantInvitation list option"
  stored_profile :: "CurrentUserUpdate option"

text \<open>The item under \<open>DEMO_STORE_KEY\<close>: absent or empty, unreadable or not JSON, or a parsed object.\<close>

datatype StoredItem = NoItem | Unreadable | Stored StoredState

text \<open>
  \<open>dw_window\<close>: the code runs in a browser. \<open>dw_writable\<close>: \<open>setItem\<close> does not throw. A listener is
  named by a number; \<open>dw_calls\<close> are the calls made to the listeners so far.
\<close>

record DemoWorld =
  dw_window :: bool
  dw_writable :: bool
  dw_session :: StoredItem
  dw_memory :: "DemoStoreState option"
  dw_listeners :: "nat list"
  dw_calls :: "nat list"

datatype DemoError = DronesNotIterable

section \<open>Loading and saving\<close>

definition notifyListeners :: "DemoWorld \<Rightarrow> DemoWorld" where
  "notifyListeners w = w\<lparr>dw_calls := dw_calls w @ dw_listeners w\<rparr>"

definition initial_state :: DemoStoreState where
  "initial_state = \<lparr>dstate_assets = DEMO_ASSETS, dstate_drones = Some DEMO_DRONES,
     dstate_invitations = DEMO_TENANT_INVITATIONS, dstate_profile = None\<rparr>"

definition loadInitialState :: "DemoWorld \<Rightarrow> DemoStoreState" where
  "loadInitialState w =
     (if dw_window w then
        (case dw_session w of
           Stored p \<Rightarrow> (case (stored_assets p, stored_invitations p) of
               (Some assets, Some invitations) \<Rightarrow>
                  \<lparr>dstate_assets = assets, dstate_drones = stored_drones p,
                   dstate_invitations = invitations, dstate_profile = stored_profile p\<rparr>
             | _ \<Rightarrow> initial_state)
         | _ \<Rightarrow> initial_state)
      else initial_state)"

definition getState :: "DemoWorld \<Rightarrow> DemoStoreState \<times> DemoWorld" where
  "getState w = (case dw_memory w of
     Some s \<Rightarrow> (s, w)
   | None \<Rightarrow> let s = loadInitialState w in (s, w\<lparr>dw_memory := Some s\<rparr>))"

text \<open>\<open>JSON.stringify(state)\<close>, as it will be parsed back.\<close>

definition stringify_state :: "DemoStoreState \<Rightarrow> StoredState" where
  "stringify_state s = \<lparr>stored_assets = Some (dstate_assets s), stored_drones = dstate_drones s,
     stored_invitations = Some (dstate_invitations s), stored_profile = dstate_profile s\<rparr>"

definition saveState :: "DemoStoreState \<Rightarrow> DemoWorld \<Rightarrow> DemoWorld" where
  "saveState s w =
     (let w = w\<lparr>dw_memory := Some s\<rparr>;
          w = (if dw_window w \<and> dw_writable w then w\<lparr>dw_session := Stored (stringify_state s)\<rparr> else w)
      in notifyListeners w)"

section \<open>The operations\<close>

text \<open>\<open>subscribe\<close> and the function it returns; the listeners are a JavaScript \<open>Set\<close>.\<close>

definition subscribe :: "nat \<Rightarrow> DemoWorld \<Rightarrow> DemoWorld" where
  "subscribe l w = (if l \<in> set (dw_listeners w) then w else w\<lparr>dw_listeners := dw_listeners w @ [l]\<rparr>)"

definition unsubscribe :: "nat \<Rightarrow> DemoWorld \<Rightarrow> DemoWorld" where
  "unsubscribe l w = w\<lparr>dw_listeners := removeAll l (dw_listeners w)\<rparr>"

definition getAssets :: "DemoWorld \<Rightarrow> AssetResponse list \<times> DemoWorld" where
  "getAssets w = (let (s, w) = getState w in (dstate_assets s, w))"

definition getAssetById :: "string \<Rightarrow> DemoWorld \<Rightarrow> AssetResponse option \<times> DemoWorld" where
  "getAssetById i w = (let (s, w) = getState w in (find (\<lambda>a. asset_id a = i) (dstate_assets s), w))"

text \<open>\<open>value?.trim() || null\<close> and \<open>value || null\<close>.\<close>

definition trimmed :: "string option \<Rightarrow> string option" where
  "trimmed v = (case v of None \<Rightarrow> None | Some x \<Rightarrow> if trim x = [] then None else Some (trim x))"

definition non_empty :: "string option \<Rightarrow> string option" where
  "non_empty v = (case v of None \<Rightarrow> None | Some x \<Rightarrow> if x = [] then None else Some x)"

definition new_asset :: "AssetCreateRequest \<Rightarrow> (nat \<Rightarrow> int) \<Rightarrow> string \<Rightarrow> AssetResponse" where
  "new_asset req clk rnd =
     (let i = ''demo-asset-'' @ toString36 (clk 0) @ ''-'' @ rnd in
      \<lparr>asset_id = i,
       asset_organization_id = DEMO_ORG_ID,
       asset_asset_type = toUpperCase (acreate_asset_type req),
       asset_manufacturer = trimmed (acreate_manufacturer req),
       asset_model = trimmed (acreate_model req),
       asset_serial_number = Some (or_else (trimmed (acreate_serial_number req))
         (''SN-'' @ toUpperCase (drop (length i - 6) i))),
       asset_registration = Some (toUpperCase (trim (acreate_registration req))),
       asset_status = or_else (non_empty (acreate_status req)) ''ACTIVE'',
       asset_acquired_at = Some (toISOString (clk 1)),
       asset_retired_at = None,
       asset_facility_id = non_empty (acreate_facility_id req),
       asset_created_at = toISOString (clk 2)\<rparr>)"

definition drone_of_asset :: "AssetResponse \<Rightarrow> DroneResponse" where
  "drone_of_asset a =
     \<lparr>drone_id = asset_id a, drone_organization_id = DEMO_ORG_ID, drone_asset_type = ''DRONE'',
      drone_registration = asset_registration a, drone_manufacturer = asset_manufacturer a,
      drone_model = asset_model a, drone_serial_number = asset_serial_number a,
      drone_status = asset_status a, drone_facility_id = asset_facility_id a,
      drone_created_at = asset_created_at a\<rparr>"

definition addAsset ::
  "AssetCreateRequest \<Rightarrow> (nat \<Rightarrow> int) \<Rightarrow> string \<Rightarrow> DemoWorld \<Rightarrow> (DemoError + AssetResponse) \<times> DemoWorld" where
  "addAsset req clk rnd w =
     (let (s, w) = getState w; newAsset = new_asset req clk rnd; updatedAssets = newAsset # dstate_assets s in
      if asset_asset_type newAsset = ''DRONE'' then
        (case dstate_drones s of
           None \<Rightarrow> (Inl DronesNotIterable, w)
         | Some drones \<Rightarrow>
             (Inr newAsset, saveState (s\<lparr>dstate_assets := updatedAssets,
                dstate_drones := Some (drone_of_asset newAsset # drones)\<rparr>) w))
      else (Inr newAsset, saveState (s\<lparr>dstate_assets := updatedAssets\<rparr>) w))"

definition merge_asset :: "AssetResponse \<Rightarrow> AssetUpdate \<Rightarrow> AssetResponse" where
  "merge_asset a u =
     \<lparr>asset_id = or_else (aupd_id u) (asset_id a),
      asset_organization_id = or_else (aupd_organization_id u) (asset_organization_id a),
      asset_asset_type = or_else (aupd_asset_type u) (asset_asset_type a),
      asset_manufacturer = or_else (aupd_manufacturer u) (asset_manufacturer a),
      asset_model = or_else (aupd_model u) (asset_model a),
      asset_serial_number = or_else (aupd_serial_number u) (asset_serial_number a),
      asset_registration = or_else (aupd_registration u) (asset_registration a),
      asset_status = or_else (aupd_status u) (asset_status a),
      asset_acquired_at = or_else (aupd_acquired_at u) (asset_acquired_at a),
      asset_retired_at = or_else (aupd_retired_at u) (asset_retired_at a),
      asset_facility_id = or_else (aupd_facility_id u) (asset_facility_id a),
      asset_created_at = or_else (aupd_created_at u) (asset_created_at a)\<rparr>"

text \<open>The variable \<open>updatedAsset\<close> holds the last asset that was replaced.\<close>

definition updateAsset :: "string \<Rightarrow> AssetUpdate \<Rightarrow> DemoWorld \<Rightarrow> AssetResponse option \<times> DemoWorld" where
  "updateAsset i u w =
     (let (s, w) = getState w;
          matching = filter (\<lambda>a. asset_id a = i) (dstate_assets s);
          updatedAssets = map (\<lambda>a. if asset_id a = i then merge_asset a u else a) (dstate_assets s)
      in if matching = [] then (None, w)
         else (Some (merge_asset (last matching) u), saveState (s\<lparr>dstate_assets := updatedAssets\<rparr>) w))"

definition getDrones :: "DemoWorld \<Rightarrow> DroneResponse list option \<times> DemoWorld" where
  "getDrones w = (let (s, w) = getState w in (dstate_drones s, w))"

definition new_drone :: "DroneCreateRequest \<Rightarrow> (nat \<Rightarrow> int) \<Rightarrow> DroneResponse" where
  "new_drone req clk =
     \<lparr>drone_id = ''demo-drn-'' @ toString36 (clk 0),
      drone_organization_id = DEMO_ORG_ID,
      drone_asset_type = ''DRONE'',
      drone_registration = Some (toUpperCase (trim (dcreate_registration req))),
      drone_manufacturer = trimmed (dcreate_manufacturer req),
      drone_model = trimmed (dcreate_model req),
      drone_serial_number = trimmed (dcreate_serial_number req),
      drone_status = ''ACTIVE'',
      drone_facility_id = non_empty (dcreate_facility_id req),
      drone_created_at = toISOString (clk 1)\<rparr>"

definition asset_of_drone :: "DroneResponse \<Rightarrow> AssetResponse" where
  "asset_of_drone d =
     \<lparr>asset_id = drone_id d, asset_organization_id = DEMO_ORG_ID, asset_asset_type = ''DRONE'',
      asset_manufacturer = drone_manufacturer d, asset_model = drone_model d,
      asset_serial_number = drone_serial_number d, asset_registration = drone_registration d,
      asset_status = drone_status d, asset_acquired_at = Some (drone_created_at d),
      asset_retired_at = None, asset_facility_id = drone_facility_id d,
      asset_created_at = drone_created_at d\<rparr>"

definition addDrone :: "DroneCreateRequest \<Rightarrow> (nat \<Rightarrow> int) \<Rightarrow> DemoWorld \<Rightarrow> (DemoError + DroneResponse) \<times> DemoWorld" where
  "addDrone req clk w =
     (let (s, w) = getState w; newDrone = new_drone req clk in
      case dstate_drones s of
        None \<Rightarrow> (Inl DronesNotIterable, w)
      | Some drones \<Rightarrow>
          (Inr newDrone, saveState (s\<lparr>dstate_drones := Some (newDrone # drones),
             dstate_assets := asset_of_drone newDrone # dstate_assets s\<rparr>) w))"

definition getInvitations :: "DemoWorld \<Rightarrow> TenantInvitation list \<times> DemoWorld" where
  "getInvitations w = (let (s, w) = getState w in (dstate_invitations s, w))"

record InvitationData =
  idata_email :: string
  idata_full_name :: "string option"
  idata_role :: "string option"
  idata_role_id :: "string option"
  idata_role_name :: "string option"

definition invitation_lifetime :: int where
  "invitation_lifetime = 7 * 24 * 60 * 60 * 1000"

definition new_invitation :: "InvitationData \<Rightarrow> (nat \<Rightarrow> int) \<Rightarrow> TenantInvitation" where
  "new_invitation d clk =
     (let email = toLowerCase (trim (idata_email d));
          local = takeWhile (\<lambda>c. c \<noteq> CHR ''@'') email
      in \<lparr>tinv_id = ''demo-inv-'' @ toString36 (clk 0),
          tinv_user_id = ''demo-usr-'' @ toString36 (clk 1),
          tinv_email = email,
          tinv_full_name = or_else (trimmed (idata_full_name d)) (or_else (non_empty (Some local)) ''Demo User''),
          tinv_role = or_else (non_empty (idata_role d)) (or_else (non_empty (idata_role_name d)) ''FLEET_OPERATOR''),
          tinv_status = INV_PENDING,
          tinv_created_at = toISOString (clk 2),
          tinv_expires_at = toISOString (clk 3 + invitation_lifetime),
          tinv_can_resend = True,
          tinv_can_cancel = True\<rparr>)"

definition addInvitation :: "InvitationData \<Rightarrow> (nat \<Rightarrow> int) \<Rightarrow> DemoWorld \<Rightarrow> TenantInvitation \<times> DemoWorld" where
  "addInvitation d clk w =
     (let (s, w) = getState w; newInv = new_invitation d clk
      in (newInv, saveState (s\<lparr>dstate_invitations := newInv # dstate_invitations s\<rparr>) w))"

definition cancelInvitation :: "string \<Rightarrow> DemoWorld \<Rightarrow> bool \<times> DemoWorld" where
  "cancelInvitation i w =
     (let (s, w) = getState w;
          updated = map (\<lambda>inv. if tinv_id inv = i
            then inv\<lparr>tinv_status := INV_CANCELLED, tinv_can_cancel := False, tinv_can_resend := False\<rparr> else inv)
            (dstate_invitations s)
      in (True, saveState (s\<lparr>dstate_invitations := updated\<rparr>) w))"

text \<open>Each match reads the clock again: the n-th invitation, if it matches, gets reading \<open>clk n\<close>.\<close>

definition resendInvitation :: "string \<Rightarrow> (nat \<Rightarrow> int) \<Rightarrow> DemoWorld \<Rightarrow> bool \<times> DemoWorld" where
  "resendInvitation i clk w =
     (let (s, w) = getState w;
          updated = map (\<lambda>(n, inv). if tinv_id inv = i
            then inv\<lparr>tinv_expires_at := toISOString (clk n + invitation_lifetime)\<rparr> else inv)
            (enumerate 0 (dstate_invitations s))
      in (True, saveState (s\<lparr>dstate_invitations := updated\<rparr>) w))"

definition getDashboardStats :: "DemoWorld \<Rightarrow> TenantDashboardStats \<times> DemoWorld" where
  "getDashboardStats w =
     (let (s, w) = getState w;
          aircraftCount = length (filter (\<lambda>a. asset_asset_type a = ''AIRCRAFT'') (dstate_assets s));
          droneCount = length (filter (\<lambda>a. asset_asset_type a = ''DRONE'') (dstate_assets s));
          pendingInvCount = length (filter (\<lambda>i. tinv_status i = INV_PENDING) (dstate_invitations s))
      in (DEMO_TENANT_DASHBOARD_STATS\<lparr>
            dash_fleet_count := int (length (dstate_assets s)),
            dash_aircraft_count := int aircraftCount,
            dash_drone_count := int droneCount,
            dash_pending_invitations_count := int pendingInvCount\<rparr>, w))"

definition getProfile :: "DemoWorld \<Rightarrow> CurrentUserUpdate option \<times> DemoWorld" where
  "getProfile w = (let (s, w) = getState w in (dstate_profile s, w))"

definition or_field :: "'a option \<Rightarrow> 'a option \<Rightarrow> 'a option" where
  "or_field u v = (case u of None \<Rightarrow> v | Some x \<Rightarrow> Some x)"

definition empty_update :: CurrentUserUpdate where
  "empty_update = \<lparr>cupd_id = None, cupd_organization_id = None, cupd_email = None, cupd_full_name = None,
     cupd_roles = None, cupd_email_verified = None, cupd_phone_number = None, cupd_profile_photo_url = None,
     cupd_pending_email = None\<rparr>"

definition merge_profile :: "CurrentUserUpdate \<Rightarrow> CurrentUserUpdate \<Rightarrow> CurrentUserUpdate" where
  "merge_profile c u =
     \<lparr>cupd_id = or_field (cupd_id u) (cupd_id c),
      cupd_organization_id = or_field (cupd_organization_id u) (cupd_organization_id c),
      cupd_email = or_field (cupd_email u) (cupd_email c),
      cupd_full_name = or_field (cupd_full_name u) (cupd_full_name c),
      cupd_roles = or_field (cupd_roles u) (cupd_roles c),
      cupd_email_verified = or_field (cupd_email_verified u) (cupd_email_verified c),
      cupd_phone_number = or_field (cupd_phone_number u) (cupd_phone_number c),
      cupd_profile_photo_url = or_field (cupd_profile_photo_url u) (cupd_profile_photo_url c),
      cupd_pending_email = or_field (cupd_pending_email u) (cupd_pending_email c)\<rparr>"

definition updateProfile :: "CurrentUserUpdate \<Rightarrow> DemoWorld \<Rightarrow> DemoWorld" where
  "updateProfile u w =
     (let (s, w) = getState w; current = or_else (dstate_profile s) empty_update
      in saveState (s\<lparr>dstate_profile := Some (merge_profile current u)\<rparr>) w)"

text \<open>\<open>removeItem\<close> throws when the storage cannot be reached; the store is reset all the same.\<close>

definition reset_store :: "DemoWorld \<Rightarrow> DemoWorld" where
  "reset_store w =
     (let w = (if dw_window w \<and> dw_writable w then w\<lparr>dw_session := NoItem\<rparr> else w)
      in notifyListeners (w\<lparr>dw_memory := Some initial_state\<rparr>))"

section \<open>Every operation as an event\<close>

text \<open>\<open>EvReload\<close> is a page reload: the module is evaluated again, the session storage stays.\<close>

datatype DemoEvent =
    EvAddAsset AssetCreateRequest "nat \<Rightarrow> int" string
  | EvUpdateAsset string AssetUpdate
  | EvAddDrone DroneCreateRequest "nat \<Rightarrow> int"
  | EvAddInvitation InvitationData "nat \<Rightarrow> int"
  | EvCancelInvitation string
  | EvResendInvitation string "nat \<Rightarrow> int"
  | EvUpdateProfile CurrentUserUpdate
  | EvReset
  | EvRead
  | EvSubscribe nat
  | EvUnsubscribe nat
  | EvReload

fun demo_step :: "DemoWorld \<Rightarrow> DemoEvent \<Rightarrow> DemoWorld" where
  "demo_step w (EvAddAsset req clk rnd) = snd (addAsset req clk rnd w)"
| "demo_step w (EvUpdateAsset i u) = snd (updateAsset i u w)"
| "demo_step w (EvAddDrone req clk) = snd (addDrone req clk w)"
| "demo_step w (EvAddInvitation d clk) = snd (addInvitation d clk w)"
| "demo_step w (EvCancelInvitation i) = snd (cancelInvitation i w)"
| "demo_step w (EvResendInvitation i clk) = snd (resendInvitation i clk w)"
| "demo_step w (EvUpdateProfile u) = updateProfile u w"
| "demo_step w EvReset = reset_store w"
| "demo_step w EvRead = snd (getAssets w)"
| "demo_step w (EvSubscribe l) = subscribe l w"
| "demo_step w (EvUnsubscribe l) = unsubscribe l w"
| "demo_step w EvReload = w\<lparr>dw_memory := None, dw_listeners := [], dw_calls := []\<rparr>"

section \<open>The abstract store\<close>

text \<open>The store as its clients see it: one state, no cache, no storage, no listeners.\<close>

definition spec_prepend_asset :: "AssetResponse \<Rightarrow> DemoStoreState \<Rightarrow> DemoStoreState" where
  "spec_prepend_asset a s = s\<lparr>dstate_assets := a # dstate_assets s\<rparr>"

fun demo_spec :: "DemoStoreState \<Rightarrow> DemoEvent \<Rightarrow> DemoStoreState" where
  "demo_spec s (EvAddAsset req clk rnd) =
     (let a = new_asset req clk rnd in
      if asset_asset_type a \<noteq> ''DRONE'' then spec_prepend_asset a s
      else (case dstate_drones s of
              None \<Rightarrow> s
            | Some ds \<Rightarrow> spec_prepend_asset a (s\<lparr>dstate_drones := Some (drone_of_asset a # ds)\<rparr>)))"
| "demo_spec s (EvUpdateAsset i u) =
     s\<lparr>dstate_assets := map (\<lambda>a. if asset_id a = i then merge_asset a u else a) (dstate_assets s)\<rparr>"
| "demo_spec s (EvAddDrone req clk) =
     (case dstate_drones s of
        None \<Rightarrow> s
      | Some ds \<Rightarrow> spec_prepend_asset (asset_of_drone (new_drone req clk)) (s\<lparr>dstate_drones := Some (new_drone req clk # ds)\<rparr>))"
| "demo_spec s (EvAddInvitation d clk) = s\<lparr>dstate_invitations := new_invitation d clk # dstate_invitations s\<rparr>"
| "demo_spec s (EvCancelInvitation i) =
     s\<lparr>dstate_invitations := map (\<lambda>inv. if tinv_id inv = i
       then inv\<lparr>tinv_status := INV_CANCELLED, tinv_can_cancel := False, tinv_can_resend := False\<rparr> else inv)
       (dstate_invitations s)\<rparr>"
| "demo_spec s (EvResendInvitation i clk) =
     s\<lparr>dstate_invitations := map (\<lambda>(n, inv). if tinv_id inv = i
       then inv\<lparr>tinv_expires_at := toISOString (clk n + invitation_lifetime)\<rparr> else inv)
       (enumerate 0 (dstate_invitations s))\<rparr>"
| "demo_spec s (EvUpdateProfile u) =
     s\<lparr>dstate_profile := Some (merge_profile (or_else (dstate_profile s) empty_update) u)\<rparr>"
| "demo_spec s EvReset = initial_state"
| "demo_spec s EvRead = s"
| "demo_spec s (EvSubscribe l) = s"
| "demo_spec s (EvUnsubscribe l) = s"
| "demo_spec s EvReload = s"

text \<open>The state a client would read now, and the worlds in which the storage works and agrees.\<close>

definition demo_view :: "DemoWorld \<Rightarrow> DemoStoreState" where
  "demo_view w = fst (getState w)"

definition demo_ok :: "DemoWorld \<Rightarrow> bool" where
  "demo_ok w \<longleftrightarrow> dw_window w \<and> dw_writable w \<and>
     (\<forall>s. dw_memory w = Some s \<longrightarrow> loadInitialState w = s)"

definition fresh_world :: "StoredItem \<Rightarrow> DemoWorld" where
  "fresh_world item = \<lparr>dw_window = True, dw_writable = True, dw_session = item, dw_memory = None,
     dw_listeners = [], dw_calls = []\<rparr>"

text \<open>What is saved is what is loaded.\<close>

lemma load_stringified:
  "dw_window w \<Longrightarrow> dw_session w = Stored (stringify_state s) \<Longrightarrow> loadInitialState w = s"
  by (simp add: loadInitialState_def stringify_state_def)

lemma load_memory [simp]:
  "loadInitialState (w\<lparr>dw_memory := m\<rparr>) = loadInitialState w"
  "loadInitialState (w\<lparr>dw_listeners := ls\<rparr>) = loadInitialState w"
  "loadInitialState (w\<lparr>dw_calls := cs\<rparr>) = loadInitialState w"
  by (simp_all add: loadInitialState_def)

lemma getState_ok:
  assumes "demo_ok w"
  obtains w' where "getState w = (demo_view w, w')" "demo_ok w'" "demo_view w' = demo_view w"
  using assms that by (cases "dw_memory w") (auto simp: getState_def demo_view_def demo_ok_def Let_def)

lemma saveState_ok:
  assumes "demo_ok w"
  shows "demo_ok (saveState s w)" and "demo_view (saveState s w) = s"
  using assms by (simp_all add: saveState_def notifyListeners_def demo_ok_def demo_view_def getState_def Let_def
      load_stringified loadInitialState_def stringify_state_def)

lemma reset_ok:
  assumes "demo_ok w"
  shows "demo_ok (reset_store w)" and "demo_view (reset_store w) = initial_state"
  using assms by (simp_all add: reset_store_def notifyListeners_def demo_ok_def demo_view_def getState_def Let_def
      loadInitialState_def)

lemma map_no_match: "filter P xs = [] \<Longrightarrow> map (\<lambda>x. if P x then f x else x) xs = xs"
  by (induction xs) (auto split: if_splits)

lemma demo_step_ok: "demo_ok w \<Longrightarrow> demo_ok (demo_step w e) \<and> demo_view (demo_step w e) = demo_spec (demo_view w) e"
proof -
  assume ok: "demo_ok w"
  obtain w' where g: "getState w = (demo_view w, w')" and w': "demo_ok w'" "demo_view w' = demo_view w"
    using getState_ok [OF ok] by blast
  note facts = g w' saveState_ok [OF w'(1)]
  show ?thesis
  proof (cases e)
    case (EvAddAsset req clk rnd)
    then show ?thesis
      by (simp add: addAsset_def facts Let_def spec_prepend_asset_def split: option.split)
  next
    case (EvUpdateAsset i u)
    then show ?thesis
      using map_no_match [of "\<lambda>a. asset_id a = i" "dstate_assets (demo_view w)" "\<lambda>a. merge_asset a u"]
      by (simp add: updateAsset_def facts Let_def)
  next
    case (EvAddDrone req clk)
    then show ?thesis
      by (simp add: addDrone_def facts Let_def spec_prepend_asset_def split: option.split)
  next
    case EvReload
    then show ?thesis using ok
      by (cases "dw_memory w") (simp_all add: demo_ok_def demo_view_def getState_def Let_def)
  next
    case (EvSubscribe l)
    then show ?thesis using ok
      by (cases "dw_memory w") (simp_all add: subscribe_def demo_ok_def demo_view_def getState_def Let_def)
  next
    case (EvUnsubscribe l)
    then show ?thesis using ok
      by (cases "dw_memory w") (simp_all add: unsubscribe_def demo_ok_def demo_view_def getState_def Let_def)
  qed (use ok in \<open>simp_all add: facts Let_def addInvitation_def cancelInvitation_def resendInvitation_def
        updateProfile_def getAssets_def reset_ok\<close>)
qed

interpretation demo: simulation demo_step demo_spec demo_view demo_ok
  by unfold_locales (simp_all add: demo_step_ok)

section \<open>Invariants of the abstract store\<close>

text \<open>A drone the data set does not have is the copy of an asset; a cancelled invitation offers no action.\<close>

definition drone_mirrored :: "AssetResponse list \<Rightarrow> DroneResponse \<Rightarrow> bool" where
  "drone_mirrored assets d \<longleftrightarrow> d \<in> set DEMO_DRONES \<or>
     (\<exists>a \<in> set assets. asset_id a = drone_id d \<and> asset_asset_type a = ''DRONE'')"

definition cancelled_closed :: "TenantInvitation \<Rightarrow> bool" where
  "cancelled_closed v \<longleftrightarrow> (tinv_status v = INV_CANCELLED \<longrightarrow> \<not> tinv_can_cancel v \<and> \<not> tinv_can_resend v)"

definition store_consistent :: "DemoStoreState \<Rightarrow> bool" where
  "store_consistent s \<longleftrightarrow>
     (\<exists>ds. dstate_drones s = Some ds \<and> list_all (drone_mirrored (dstate_assets s)) ds) \<and>
     list_all cancelled_closed (dstate_invitations s)"

text \<open>An update of an asset that leaves its identifier and its type alone.\<close>

fun keeps_kind :: "DemoEvent \<Rightarrow> bool" where
  "keeps_kind (EvUpdateAsset i u) = (aupd_id u = None \<and> aupd_asset_type u = None)"
| "keeps_kind _ = True"

lemma initial_consistent: "store_consistent initial_state"
proof -
  have "list_all cancelled_closed DEMO_TENANT_INVITATIONS"
    by (simp add: DEMO_TENANT_INVITATIONS_def cancelled_closed_def)
  then show ?thesis
    by (simp add: store_consistent_def initial_state_def drone_mirrored_def list_all_iff)
qed

lemma mirrored_Cons: "list_all (drone_mirrored as) ds \<Longrightarrow> list_all (drone_mirrored (a # as)) ds"
  by (auto simp: drone_mirrored_def list_all_iff)

lemma mirrored_map:
  "(\<And>a. asset_id (f a) = asset_id a \<and> asset_asset_type (f a) = asset_asset_type a) \<Longrightarrow>
   list_all (drone_mirrored as) ds \<Longrightarrow> list_all (drone_mirrored (map f as)) ds"
  by (fastforce simp: drone_mirrored_def list_all_iff)

lemma mirrored_new:
  "asset_asset_type a = ''DRONE'' \<Longrightarrow> drone_mirrored (a # as) (drone_of_asset a)"
  "drone_mirrored (asset_of_drone d # as) d"
  by (simp_all add: drone_mirrored_def drone_of_asset_def asset_of_drone_def)

lemma cancelled_closed_new: "cancelled_closed (new_invitation d clk)"
  by (simp add: cancelled_closed_def new_invitation_def Let_def)

lemma merge_keeps: "aupd_id u = None \<Longrightarrow> aupd_asset_type u = None \<Longrightarrow>
    asset_id (merge_asset a u) = asset_id a \<and> asset_asset_type (merge_asset a u) = asset_asset_type a"
  by (simp add: merge_asset_def)

lemma cancelled_closed_enumerate:
  "list_all cancelled_closed xs \<Longrightarrow>
   list_all cancelled_closed (map (\<lambda>(n, inv). if tinv_id inv = i
       then inv\<lparr>tinv_expires_at := f n\<rparr> else inv) (enumerate k xs))"
  by (induction xs arbitrary: k) (auto simp: cancelled_closed_def)

lemma demo_spec_consistent:
  assumes "store_consistent s" and "keeps_kind e"
  shows "store_consistent (demo_spec s e)"
proof -
  obtain ds where ds: "dstate_drones s = Some ds" and m: "list_all (drone_mirrored (dstate_assets s)) ds"
    and i: "list_all cancelled_closed (dstate_invitations s)"
    using assms(1) by (auto simp: store_consistent_def)
  show ?thesis
  proof (cases e)
    case (EvAddAsset req clk rnd)
    then show ?thesis
      using ds i mirrored_Cons [OF m]
      by (simp add: store_consistent_def spec_prepend_asset_def Let_def mirrored_new)
  next
    case (EvAddDrone req clk)
    then show ?thesis
      using ds i mirrored_Cons [OF m]
      by (simp add: store_consistent_def spec_prepend_asset_def Let_def mirrored_new)
  next
    case (EvUpdateAsset j u)
    then have "list_all (drone_mirrored (map (\<lambda>a. if asset_id a = j then merge_asset a u else a) (dstate_assets s))) ds"
      using assms(2) merge_keeps [of u] by (intro mirrored_map [OF _ m]) simp
    then show ?thesis
      using ds i EvUpdateAsset by (simp add: store_consistent_def)
  next
    case (EvAddInvitation d clk)
    then show ?thesis
      using ds i m by (simp add: store_consistent_def cancelled_closed_new)
  next
    case (EvCancelInvitation j)
    then show ?thesis
      using ds i m by (auto simp: store_consistent_def cancelled_closed_def list_all_iff)
  next
    case (EvResendInvitation j clk)
    then show ?thesis
      using ds m cancelled_closed_enumerate [OF i, of j _ 0] by (simp add: store_consistent_def)
  qed (use assms(1) initial_consistent in \<open>simp_all add: store_consistent_def\<close>)
qed

lemma demo_spec_run_consistent:
  "store_consistent s \<Longrightarrow> list_all keeps_kind es \<Longrightarrow> store_consistent (run demo_spec s es)"
  by (induction es arbitrary: s) (simp_all add: demo_spec_consistent)

lemma fresh_ok: "demo_ok (fresh_world item)"
  by (simp add: demo_ok_def fresh_world_def)

lemma fresh_view: "demo_view (fresh_world item) = loadInitialState (fresh_world item)"
  by (simp add: demo_view_def getState_def fresh_world_def Let_def)

section \<open>Properties\<close>




text \<open>An invitation that was accepted can be cancelled: there is no guard on its status.\<close>

lemma accepted_invitation_can_be_cancelled:
  "\<exists>v \<in> set DEMO_TENANT_INVITATIONS. tinv_status v = INV_ACCEPTED \<and>
     (\<exists>w \<in> set (dstate_invitations (demo_view (snd (cancelInvitation (tinv_id v) (fresh_world NoItem))))).
        tinv_id w = tinv_id v \<and> tinv_status w = INV_CANCELLED)"
  by (simp add: DEMO_TENANT_INVITATIONS_def cancelInvitation_def getState_def fresh_world_def loadInitialState_def
      initial_state_def saveState_def notifyListeners_def demo_view_def Let_def)

end
