(* ===== verification/DemoAssets.thy ===== *)
theory DemoAssets
  imports DemoStore
begin

text \<open>
  The asset pages of the demonstration (\<open>src/frontend/lib/demo/demoAssets.ts\<close>): how an asset is found
  (the data set, then the store's module state, then the session storage) and what each page shows of
  it. A function of the source that reads the asset first is split here: the part that depends on the
  asset alone, and the composition with the lookup. Every \<open>getDemo...\<close> function returns the world too,
  because the lookup may load the store.
\<close>

section \<open>What the pages show of an asset\<close>

definition drone_configuration :: "AssetResponse \<Rightarrow> AssetConfigurationResponse" where
  "drone_configuration asset = 
     \<lparr>config_asset_id = (asset_id asset),
      config_asset_type = ''DRONE'',
      config_airframe_spec = JObj [(''max_takeoff_weight_kg'', JNum 9), (''battery_bays'', JNum 2), (''ip_rating'', JStr ''IP45'')],
      config_slots = [
       \<lparr>slot_slot_name = ''Flight Controller'',
         slot_component_type = ''FLIGHT_CONTROLLER'',
         slot_is_occupied = True,
         slot_component = Some \<lparr>acomponent_id = ''c1000000-0000-0000-0000-000000000001'',
            acomponent_organization_id = ''demo-org-id'',
            acomponent_asset_id = Some (asset_id asset),
            acomponent_component_type = ''FLIGHT_CONTROLLER'',
            acomponent_name = ''DJI A3 Pro Autopilot Module'',
            acomponent_serial_number = Some ''FC-99124'',
            acomponent_manufacturer = Some ''DJI'',
            acomponent_model = Some ''A3-PRO'',
            acomponent_status = ''INSTALLED'',
            acomponent_installed_at = Some ''2023-01-10T10:00:00Z'',
            acomponent_created_at = ''2023-01-10T10:00:00Z''\<rparr>\<rparr>,
       \<lparr>slot_slot_name = ''Propulsion Motor (Left Forward)'',
         slot_component_type = ''MOTOR'',
         slot_is_occupied = True,
         slot_component = Some \<lparr>acomponent_id = ''c1000000-0000-0000-0000-000000000002'',
            acomponent_organization_id = ''demo-org-id'',
            acomponent_asset_id = Some (asset_id asset),
            acomponent_component_type = ''MOTOR'',
            acomponent_name = ''Brushless Motor CW'',
            acomponent_serial_number = Some ''MTR-10291'',
            acomponent_manufacturer = Some ''DJI'',
            acomponent_model = Some ''M300-BL'',
            acomponent_status = ''INSTALLED'',
            acomponent_installed_at = Some ''2023-01-10T10:00:00Z'',
            acomponent_created_at = ''2023-01-10T10:00:00Z''\<rparr>\<rparr>,
       \<lparr>slot_slot_name = ''Sensor / Camera Payload'',
         slot_component_type = ''CAMERA'',
         slot_is_occupied = True,
         slot_component = Some \<lparr>acomponent_id = ''c1000000-0000-0000-0000-000000000003'',
            acomponent_organization_id = ''demo-org-id'',
            acomponent_asset_id = Some (asset_id asset),
            acomponent_component_type = ''CAMERA'',
            acomponent_name = ''Zenmuse H20T Thermal Payload'',
            acomponent_serial_number = Some ''H20T-44021'',
            acomponent_manufacturer = Some ''DJI'',
            acomponent_model = Some ''H20T'',
            acomponent_status = ''INSTALLED'',
            acomponent_installed_at = Some ''2023-01-15T14:00:00Z'',
            acomponent_created_at = ''2023-01-15T14:00:00Z''\<rparr>\<rparr>,
       \<lparr>slot_slot_name = ''Navigation GNSS/GPS'',
         slot_component_type = ''GPS'',
         slot_is_occupied = True,
         slot_component = None\<rparr>],
      config_total_components_installed = 3\<rparr>"

definition helicopter_configuration :: "AssetResponse \<Rightarrow> AssetConfigurationResponse" where
  "helicopter_configuration asset = 
     \<lparr>config_asset_id = (asset_id asset),
      config_asset_type = ''HELICOPTER'',
      config_airframe_spec = JObj [(''rotor_system'', JStr ''4-blade bearingless rotor''), (''max_gross_weight_lbs'', JNum 7500), (''turbine_count'', JNum 2)],
      config_slots = [
       \<lparr>slot_slot_name = ''Turboshaft Engine #1 (Left)'',
         slot_component_type = ''ENGINE'',
         slot_is_occupied = True,
         slot_component = Some \<lparr>acomponent_id = ''c2000000-0000-0000-0000-000000000001'',
            acomponent_organization_id = ''demo-org-id'',
            acomponent_asset_id = Some (asset_id asset),
            acomponent_component_type = ''ENGINE'',
            acomponent_name = ''Pratt & Whitney PW207D1'',
            acomponent_serial_number = Some ''PCE-BL0491'',
            acomponent_manufacturer = Some ''Pratt & Whitney Canada'',
            acomponent_model = Some ''PW207D1'',
            acomponent_status = ''INSTALLED'',
            acomponent_installed_at = Some ''2022-06-20T10:00:00Z'',
            acomponent_created_at = ''2022-06-20T10:00:00Z''\<rparr>\<rparr>,
       \<lparr>slot_slot_name = ''Turboshaft Engine #2 (Right)'',
         slot_component_type = ''ENGINE'',
         slot_is_occupied = True,
         slot_component = Some \<lparr>acomponent_id = ''c2000000-0000-0000-0000-000000000002'',
            acomponent_organization_id = ''demo-org-id'',
            acomponent_asset_id = Some (asset_id asset),
            acomponent_component_type = ''ENGINE'',
            acomponent_name = ''Pratt & Whitney PW207D1'',
            acomponent_serial_number = Some ''PCE-BL0492'',
            acomponent_manufacturer = Some ''Pratt & Whitney Canada'',
            acomponent_model = Some ''PW207D1'',
            acomponent_status = ''INSTALLED'',
            acomponent_installed_at = Some ''2022-06-20T10:00:00Z'',
            acomponent_created_at = ''2022-06-20T10:00:00Z''\<rparr>\<rparr>,
       \<lparr>slot_slot_name = ''Main Rotor Transmission'',
         slot_component_type = ''TRANSMISSION'',
         slot_is_occupied = True,
         slot_component = Some \<lparr>acomponent_id = ''c2000000-0000-0000-0000-000000000003'',
            acomponent_organization_id = ''demo-org-id'',
            acomponent_asset_id = Some (asset_id asset),
            acomponent_component_type = ''TRANSMISSION'',
            acomponent_name = ''Main Gearbox 429 Assembly'',
            acomponent_serial_number = Some ''MGB-9014'',
            acomponent_manufacturer = Some ''Bell Helicopter'',
            acomponent_model = Some ''429-MGB'',
            acomponent_status = ''INSTALLED'',
            acomponent_installed_at = Some ''2022-06-20T10:00:00Z'',
            acomponent_created_at = ''2022-06-20T10:00:00Z''\<rparr>\<rparr>,
       \<lparr>slot_slot_name = ''Tail Rotor Assembly'',
         slot_component_type = ''ROTOR'',
         slot_is_occupied = True,
         slot_component = None\<rparr>],
      config_total_components_installed = 3\<rparr>"

definition aircraft_configuration :: "AssetResponse \<Rightarrow> AssetConfigurationResponse" where
  "aircraft_configuration asset = 
     \<lparr>config_asset_id = (asset_id asset),
      config_asset_type = ''AIRCRAFT'',
      config_airframe_spec = JObj [(''msn'', JStr ''30124''), (''wingspan_ft'', JNum (1174 / 10)), (''max_fuel_capacity_lbs'', JNum 46063)],
      config_slots = [
       \<lparr>slot_slot_name = ''Turbofan Engine #1 (Left Wing)'',
         slot_component_type = ''ENGINE'',
         slot_is_occupied = True,
         slot_component = Some \<lparr>acomponent_id = ''c3000000-0000-0000-0000-000000000001'',
            acomponent_organization_id = ''demo-org-id'',
            acomponent_asset_id = Some (asset_id asset),
            acomponent_component_type = ''ENGINE'',
            acomponent_name = ''CFM56-7B26 High Bypass Turbofan'',
            acomponent_serial_number = Some ''CFM-89104'',
            acomponent_manufacturer = Some ''CFM International'',
            acomponent_model = Some ''CFM56-7B26'',
            acomponent_status = ''INSTALLED'',
            acomponent_installed_at = Some ''2021-03-15T12:00:00Z'',
            acomponent_created_at = ''2021-03-15T12:00:00Z''\<rparr>\<rparr>,
       \<lparr>slot_slot_name = ''Turbofan Engine #2 (Right Wing)'',
         slot_component_type = ''ENGINE'',
         slot_is_occupied = True,
         slot_component = Some \<lparr>acomponent_id = ''c3000000-0000-0000-0000-000000000002'',
            acomponent_organization_id = ''demo-org-id'',
            acomponent_asset_id = Some (asset_id asset),
            acomponent_component_type = ''ENGINE'',
            acomponent_name = ''CFM56-7B26 High Bypass Turbofan'',
            acomponent_serial_number = Some ''CFM-89105'',
            acomponent_manufacturer = Some ''CFM International'',
            acomponent_model = Some ''CFM56-7B26'',
            acomponent_status = ''INSTALLED'',
            acomponent_installed_at = Some ''2021-03-15T12:00:00Z'',
            acomponent_created_at = ''2021-03-15T12:00:00Z''\<rparr>\<rparr>,
       \<lparr>slot_slot_name = ''Auxiliary Power Unit (APU)'',
         slot_component_type = ''APU'',
         slot_is_occupied = True,
         slot_component = Some \<lparr>acomponent_id = ''c3000000-0000-0000-0000-000000000003'',
            acomponent_organization_id = ''demo-org-id'',
            acomponent_asset_id = Some (asset_id asset),
            acomponent_component_type = ''APU'',
            acomponent_name = ''Honeywell 131-9B APU'',
            acomponent_serial_number = Some ''APU-131-502'',
            acomponent_manufacturer = Some ''Honeywell Aerospace'',
            acomponent_model = Some ''131-9B'',
            acomponent_status = ''INSTALLED'',
            acomponent_installed_at = Some ''2021-03-15T12:00:00Z'',
            acomponent_created_at = ''2021-03-15T12:00:00Z''\<rparr>\<rparr>,
       \<lparr>slot_slot_name = ''Flight Management System (FMS)'',
         slot_component_type = ''AVIONICS'',
         slot_is_occupied = True,
         slot_component = None\<rparr>],
      config_total_components_installed = 3\<rparr>"

definition asset_operations :: "AssetResponse \<Rightarrow> AssetOperationsResponse" where
  "asset_operations asset = 
     (let isDrone = (asset_asset_type asset = ''DRONE'') in
     \<lparr>aops_asset_id = (asset_id asset),
      aops_utilization = \<lparr>autil_asset_id = (asset_id asset),
         autil_asset_type = (asset_asset_type asset),
         autil_total_flight_hours = (if isDrone then 1425 / 10 else 8420),
         autil_total_minutes = (if isDrone then 8550 else 505200),
         autil_total_cycles = (if isDrone then 312 else 4210),
         autil_total_flights = (if isDrone then 312 else 4210),
         autil_total_landings = (if isDrone then 312 else 4210),
         autil_metrics = [
          \<lparr>metric_metric_key = ''TOTAL_FLIGHT_HOURS'',
            metric_metric_label = ''Total Flight Hours (TTAF)'',
            metric_value = (if isDrone then 1425 / 10 else 8420),
            metric_unit = ''hours'',
            metric_source = ''FLIGHT'',
            metric_is_metered = True\<rparr>,
          \<lparr>metric_metric_key = ''TOTAL_CYCLES'',
            metric_metric_label = ''Airframe Cycles'',
            metric_value = (if isDrone then 312 else 4210),
            metric_unit = ''cycles'',
            metric_source = ''FLIGHT'',
            metric_is_metered = True\<rparr>,
          \<lparr>metric_metric_key = ''TOTAL_LANDINGS'',
            metric_metric_label = ''Total Landing Touchdowns'',
            metric_value = (if isDrone then 312 else 4210),
            metric_unit = ''landings'',
            metric_source = ''FLIGHT'',
            metric_is_metered = True\<rparr>]\<rparr>,
      aops_recent_flights = [
       \<lparr>aflight_id = ''f1000000-0000-0000-0000-000000000001'',
         aflight_organization_id = ''demo-org-id'',
         aflight_asset_id = (asset_id asset),
         aflight_mission_id = None,
         aflight_flight_number = None,
         aflight_origin = None,
         aflight_destination = None,
         aflight_departure_time = None,
         aflight_arrival_time = None,
         aflight_flown_at = ''2026-09-21T14:30:00Z'',
         aflight_duration_minutes = (if isDrone then 35 else 180),
         aflight_cycles = 1,
         aflight_mission_type = None,
         aflight_status = None,
         aflight_source = None,
         aflight_pilot_user_id = None,
         aflight_notes = (if isDrone then Some ''Infrastructure inspection sector Bravo'' else Some ''KDEN to KSEA scheduled revenue leg''),
         aflight_created_at = ''2026-09-21T18:00:00Z''\<rparr>,
       \<lparr>aflight_id = ''f1000000-0000-0000-0000-000000000002'',
         aflight_organization_id = ''demo-org-id'',
         aflight_asset_id = (asset_id asset),
         aflight_mission_id = None,
         aflight_flight_number = None,
         aflight_origin = None,
         aflight_destination = None,
         aflight_departure_time = None,
         aflight_arrival_time = None,
         aflight_flown_at = ''2026-09-20T09:15:00Z'',
         aflight_duration_minutes = (if isDrone then 28 else 210),
         aflight_cycles = 1,
         aflight_mission_type = None,
         aflight_status = None,
         aflight_source = None,
         aflight_pilot_user_id = None,
         aflight_notes = (if isDrone then Some ''Automated perimeter survey grid'' else Some ''KORD to KDEN scheduled revenue leg''),
         aflight_created_at = ''2026-09-20T13:30:00Z''\<rparr>],
      aops_active_missions = (if isDrone then [JObj [(''id'', JStr ''m1000000-0000-0000-0000-000000000001''), (''title'', JStr ''Perimeter Automated Patrol Beta''), (''status'', JStr ''IN_PROGRESS''), (''created_at'', JStr ''2026-09-23T08:00:00Z'')]] else [])\<rparr>)"

definition asset_maintenance :: "AssetResponse \<Rightarrow> AssetMaintenanceResponse" where
  "asset_maintenance asset = 
     (let isDrone = (asset_asset_type asset = ''DRONE'') in
     \<lparr>amaint_asset_id = (asset_id asset),
      amaint_due_items = [
       JObj [(''id'', JStr ''maint-req-01''), (''title'', (if isDrone then JStr ''Propeller 100-Hour Hub Inspection'' else JStr ''A-Check 500 Flight Hours Interval'')), (''interval_hours'', (if isDrone then JNum 100 else JNum 500)), (''next_due_hours'', (if isDrone then JNum 150 else JNum 8500)), (''status'', JStr ''UPCOMING'')]],
      amaint_accomplishments = [
       JObj [(''id'', JStr ''acc-01''), (''title'', (if isDrone then JStr ''Motor Bearing Lubrication & Calibration'' else JStr ''Engine #1 Borescope Inspection'')), (''completed_at'', JStr ''2026-08-15T11:00:00Z''), (''technician'', JStr ''Lead Aviation Technician'')]],
      amaint_open_work_orders = [
       JObj [(''id'', JStr ''wo-01''), (''title'', (if isDrone then JStr ''Quarterly Avionics Sensor Recalibration'' else JStr ''Avionics Software Patch AD-2026-04'')), (''status'', JStr ''OPEN''), (''priority'', JStr ''MEDIUM''), (''created_at'', JStr ''2026-09-18T10:00:00Z'')]],
      amaint_has_overdue = False\<rparr>)"

definition getDemoInspections :: "string \<Rightarrow> AssetInspectionsResponse" where
  "getDemoInspections i = 
     \<lparr>ainsp_asset_id = i,
      ainsp_inspections = [
       JObj [(''id'', JStr ''insp-01''), (''title'', JStr ''Pre-Flight Airframe Structural Check''), (''status'', JStr ''COMPLETED''), (''inspector'', JStr ''Flight Operations Lead''), (''signed_at'', JStr ''2026-09-21T13:45:00Z'')],
       JObj [(''id'', JStr ''insp-02''), (''title'', JStr ''Rotor / Propeller Torque Verification''), (''status'', JStr ''COMPLETED''), (''inspector'', JStr ''Senior Airframe Mechanic''), (''signed_at'', JStr ''2026-09-10T16:20:00Z'')],
       JObj [(''id'', JStr ''insp-03''), (''title'', JStr ''Emergency Transponder / ELT Functional Test''), (''status'', JStr ''PENDING''), (''inspector'', JStr ''Unassigned''), (''signed_at'', JNull)]],
      ainsp_total = 3,
      ainsp_completed = 2,
      ainsp_pending = 1\<rparr>"

definition getDemoEvidence :: "string \<Rightarrow> AssetEvidenceResponse" where
  "getDemoEvidence i = 
     \<lparr>aevid_asset_id = i,
      aevid_evidence_items = [
       JObj [(''id'', JStr ''ev-01''), (''title'', JStr ''FAA Standard Airworthiness Certificate Form 8100-2''), (''file_name'', JStr ''airworthiness_cert_2026.pdf''), (''status'', JStr ''ACCEPTED''), (''reviewed_by'', JStr ''Chief Compliance Officer''), (''uploaded_at'', JStr ''2026-01-12T09:30:00Z'')],
       JObj [(''id'', JStr ''ev-02''), (''title'', JStr ''Weight and Balance Schedule Sign-off''), (''file_name'', JStr ''weight_balance_rev4.pdf''), (''status'', JStr ''ACCEPTED''), (''reviewed_by'', JStr ''Chief Inspector''), (''uploaded_at'', JStr ''2026-05-18T14:15:00Z'')],
       JObj [(''id'', JStr ''ev-03''), (''title'', JStr ''Propeller Hub Dye Penetrant NDT Report''), (''file_name'', JStr ''ndt_penetrant_log.pdf''), (''status'', JStr ''PENDING_REVIEW''), (''reviewed_by'', JNull), (''uploaded_at'', JStr ''2026-09-22T17:00:00Z'')]],
      aevid_total = 3,
      aevid_accepted_count = 2,
      aevid_pending_count = 1\<rparr>"

definition getDemoFindings :: "string \<Rightarrow> AssetFindingsResponse" where
  "getDemoFindings i = 
     \<lparr>afind_asset_id = i,
      afind_findings = [
       JObj [(''id'', JStr ''fnd-01''), (''title'', JStr ''Minor paint erosion on leading edge slat #2''), (''severity'', JStr ''LOW''), (''status'', JStr ''OPEN''), (''discovered_at'', JStr ''2026-09-15T11:00:00Z'')],
       JObj [(''id'', JStr ''fnd-02''), (''title'', JStr ''Navigation light fixture housing fastener loose''), (''severity'', JStr ''MEDIUM''), (''status'', JStr ''CLOSED''), (''discovered_at'', JStr ''2026-08-02T14:00:00Z'')]],
      afind_total = 2,
      afind_open_count = 1,
      afind_closed_count = 1\<rparr>"

definition getDemoCompliance :: "string \<Rightarrow> AssetComplianceResponse" where
  "getDemoCompliance i = 
     \<lparr>acomp_asset_id = i,
      acomp_assessments = [
       JObj [(''id'', JStr ''comp-01''), (''regulatory_code'', JStr ''14 CFR Part 91 / 43''), (''title'', JStr ''Annual Maintenance Records and Logbook Inspection''), (''determination'', JStr ''COMPLIANT''), (''assessed_at'', JStr ''2026-07-10T12:00:00Z''), (''assessed_by'', JStr ''Designated Airworthiness Representative'')],
       JObj [(''id'', JStr ''comp-02''), (''regulatory_code'', JStr ''AD 2026-08-11''), (''title'', JStr ''Airworthiness Directive: Flight Control Actuator Inspection''), (''determination'', JStr ''COMPLIANT''), (''assessed_at'', JStr ''2026-08-20T15:30:00Z''), (''assessed_by'', JStr ''Chief Inspector'')]],
      acomp_overall_status = ''COMPLIANT'',
      acomp_compliant_count = 4,
      acomp_non_compliant_count = 0\<rparr>"

definition getDemoHistory :: "string \<Rightarrow> AssetHistoryResponse" where
  "getDemoHistory i = 
     \<lparr>ahist_asset_id = i,
      ahist_events = [
       \<lparr>hevent_event_id = ''evt-01'',
         hevent_event_type = ''asset.flight_recorded'',
         hevent_occurred_at = ''2026-09-21T18:00:00Z'',
         hevent_title = ''Flight Logged'',
         hevent_description = ''Recorded flight duration 180 min, 1 cycle'',
         hevent_actor = Some ''Flight Operations'',
         hevent_entity_type = ''Flight'',
         hevent_entity_id = ''f1000000-0000-0000-0000-000000000001'',
         hevent_metadata = JObj []\<rparr>,
       \<lparr>hevent_event_id = ''evt-02'',
         hevent_event_type = ''asset.component.installed'',
         hevent_occurred_at = ''2026-08-15T11:00:00Z'',
         hevent_title = ''Component Installed'',
         hevent_description = ''Installed Honeywell 131-9B APU (APU-131-502)'',
         hevent_actor = Some ''Lead Avionics Specialist'',
         hevent_entity_type = ''Component'',
         hevent_entity_id = ''c3000000-0000-0000-0000-000000000003'',
         hevent_metadata = JObj []\<rparr>,
       \<lparr>hevent_event_id = ''evt-03'',
         hevent_event_type = ''asset.compliance.assessed'',
         hevent_occurred_at = ''2026-08-20T15:30:00Z'',
         hevent_title = ''Compliance Assessed'',
         hevent_description = ''Assessed AD 2026-08-11: Determination COMPLIANT'',
         hevent_actor = Some ''Chief Inspector'',
         hevent_entity_type = ''ComplianceAssessment'',
         hevent_entity_id = ''comp-02'',
         hevent_metadata = JObj []\<rparr>,
       \<lparr>hevent_event_id = ''evt-04'',
         hevent_event_type = ''asset.created'',
         hevent_occurred_at = ''2021-03-15T00:00:00Z'',
         hevent_title = ''Asset Registered'',
         hevent_description = ''Airframe registered into tenant fleet registry'',
         hevent_actor = Some ''System Administrator'',
         hevent_entity_type = ''Asset'',
         hevent_entity_id = i,
         hevent_metadata = JObj []\<rparr>],
      ahist_total = 4\<rparr>"

definition asset_readiness :: "AssetResponse \<Rightarrow> int \<Rightarrow> AssetReadinessResponse" where
  "asset_readiness asset now = 
     (let isGrounded = (asset_status asset = ''GROUNDED'' \<or> asset_status asset = ''MAINTENANCE'') in
     \<lparr>aready_asset_id = (asset_id asset),
      aready_overall_status = (if isGrounded then ''AT_RISK'' else ''READY''),
      aready_dimensions = [
       \<lparr>rdim_dimension = ''OPERATIONAL'',
         rdim_status = (if isGrounded then ''BLOCKED'' else ''READY''),
         rdim_summary = (if isGrounded then ''Airframe status is currently MAINTENANCE or GROUNDED.'' else ''Airframe is active and cleared for flight planning.''),
         rdim_blockers = (if isGrounded then [''Asset in maintenance disposition''] else [])\<rparr>,
       \<lparr>rdim_dimension = ''MAINTENANCE'',
         rdim_status = ''READY'',
         rdim_summary = ''No mandatory scheduled maintenance items overdue.'',
         rdim_blockers = []\<rparr>,
       \<lparr>rdim_dimension = ''COMPLIANCE'',
         rdim_status = ''READY'',
         rdim_summary = ''Airworthiness directives and mandatory regulations assessed as compliant.'',
         rdim_blockers = []\<rparr>,
       \<lparr>rdim_dimension = ''DEPLOYMENT'',
         rdim_status = (if isGrounded then ''BLOCKED'' else ''READY''),
         rdim_summary = (if isGrounded then ''Asset cannot be deployed on active operations.'' else ''All operational prerequisites and pilot assignments cleared.''),
         rdim_blockers = (if isGrounded then [''Pending work order sign-off''] else [])\<rparr>,
       \<lparr>rdim_dimension = ''RELEASE'',
         rdim_status = (if isGrounded then ''BLOCKED'' else ''READY''),
         rdim_summary = (if isGrounded then ''Open work orders must be released before operational return.'' else ''Required task verification gates and evidence uploads accepted.''),
         rdim_blockers = (if isGrounded then [''Unclosed maintenance work order''] else [])\<rparr>],
      aready_evaluated_at = (toISOString now),
      aready_disclaimer = ''Operational readiness evaluation only. Does not constitute an electronic Release to Service (RTS) signature.''\<rparr>)"

section \<open>Finding the asset\<close>

text \<open>
  The store installs its own lookup in \<open>globalThis\<close> when its module is loaded (\<open>hooked\<close>); without it,
  or when it finds nothing, the item of the session storage is read.
\<close>

definition storage_lookup :: "string \<Rightarrow> DemoWorld \<Rightarrow> AssetResponse option" where
  "storage_lookup i w =
     (if dw_window w then
        (case dw_session w of
           Stored p \<Rightarrow> (case stored_assets p of
               Some assets \<Rightarrow> find (\<lambda>a. asset_id a = i) assets
             | None \<Rightarrow> None)
         | _ \<Rightarrow> None)
      else None)"

definition getDemoAssetDetail :: "bool \<Rightarrow> string \<Rightarrow> DemoWorld \<Rightarrow> AssetResponse option \<times> DemoWorld" where
  "getDemoAssetDetail hooked i w =
     (case find (\<lambda>a. asset_id a = i) DEMO_ASSETS of
        Some a \<Rightarrow> (Some a, w)
      | None \<Rightarrow>
          let (memFound, w) = (if hooked then getAssetById i w else (None, w)) in
          case memFound of
            Some a \<Rightarrow> (Some a, w)
          | None \<Rightarrow> (storage_lookup i w, w))"

text \<open>\<open>getDemoAssetDetail(assetId) || DEMO_ASSETS[0]\<close>.\<close>

definition asset_or_first :: "bool \<Rightarrow> string \<Rightarrow> DemoWorld \<Rightarrow> AssetResponse \<times> DemoWorld" where
  "asset_or_first hooked i w =
     (let (found, w) = getDemoAssetDetail hooked i w in (or_else found (hd DEMO_ASSETS), w))"

definition getDemoConfiguration :: "bool \<Rightarrow> string \<Rightarrow> DemoWorld \<Rightarrow> AssetConfigurationResponse \<times> DemoWorld" where
  "getDemoConfiguration hooked i w =
     (let (asset, w) = asset_or_first hooked i w in
      (if asset_asset_type asset = ''DRONE'' then drone_configuration asset
       else if asset_asset_type asset = ''HELICOPTER'' then helicopter_configuration asset
       else aircraft_configuration asset, w))"

definition getDemoOperations :: "bool \<Rightarrow> string \<Rightarrow> DemoWorld \<Rightarrow> AssetOperationsResponse \<times> DemoWorld" where
  "getDemoOperations hooked i w = (let (asset, w) = asset_or_first hooked i w in (asset_operations asset, w))"

definition getDemoMaintenance :: "bool \<Rightarrow> string \<Rightarrow> DemoWorld \<Rightarrow> AssetMaintenanceResponse \<times> DemoWorld" where
  "getDemoMaintenance hooked i w = (let (asset, w) = asset_or_first hooked i w in (asset_maintenance asset, w))"

definition getDemoReadiness :: "bool \<Rightarrow> string \<Rightarrow> int \<Rightarrow> DemoWorld \<Rightarrow> AssetReadinessResponse \<times> DemoWorld" where
  "getDemoReadiness hooked i now w =
     (let (asset, w) = asset_or_first hooked i w in (asset_readiness asset now, w))"

definition getDemoDomainContext :: "bool \<Rightarrow> string \<Rightarrow> int \<Rightarrow> DemoWorld \<Rightarrow> AssetDomainContextResponse \<times> DemoWorld" where
  "getDemoDomainContext hooked i now w =
     (let (asset, w) = asset_or_first hooked i w;
          (readiness, w) = getDemoReadiness hooked i now w;
          (configuration, w) = getDemoConfiguration hooked i w;
          (operations, w) = getDemoOperations hooked i w;
          compliance = getDemoCompliance i
      in (\<lparr>context_identity = asset,
           context_operational_status =
             (if asset_status asset = ''MAINTENANCE'' then ''MAINTENANCE''
              else if asset_status asset = ''GROUNDED'' then ''GROUNDED''
              else if asset_status asset = ''RETIRED'' then ''RETIRED'' else ''AVAILABLE''),
           context_lifecycle_status = asset_status asset,
           context_readiness = readiness,
           context_configuration = configuration,
           context_utilization = aops_utilization operations,
           context_compliance = compliance,
           context_open_work_orders_count = 1,
           context_open_findings_count = 1,
           context_overdue_maintenance_count = 0,
           context_last_flight_at =
             (case aops_recent_flights operations of [] \<Rightarrow> None | f # _ \<Rightarrow> non_empty (Some (aflight_flown_at f)))\<rparr>, w))"

end
