(* ===== verification/DemoPlatform.thy ===== *)
theory DemoPlatform
  imports DemoData
begin

text \<open>
  The functions of \<open>src/frontend/lib/demo/demoPlatform.ts\<close>: the indicators of the platform dashboard,
  the users and subscriptions of one organization, and the resolution of its entitlements.
\<close>

record PlanCount =
  plancount_planCode :: string
  plancount_planName :: string
  plancount_count :: nat

record FeatureCount =
  featurecount_featureKey :: string
  featurecount_name :: string
  featurecount_orgCount :: nat

record PlatformDashboardKPIs =
  kpi_totalOrganizations :: nat
  kpi_activeOrganizations :: nat
  kpi_suspendedOrganizations :: nat
  kpi_pendingProvisioning :: nat
  kpi_activeSubscriptions :: nat
  kpi_trialSubscriptions :: nat
  kpi_totalUsers :: int
  kpi_totalAircraft :: int
  kpi_totalDrones :: int
  kpi_organizationsByPlan :: "PlanCount list"
  kpi_enabledFeatureDistribution :: "FeatureCount list"
  kpi_recentActivity :: "AuditEventResponse list"

definition plan_counts :: "PlanCount list" where
  "plan_counts = map (\<lambda>(code, name, n). \<lparr>plancount_planCode = code, plancount_planName = name, plancount_count = n\<rparr>)
     [(''enterprise'', ''Enterprise Multi-Domain Control'', 1),
      (''professional'', ''Professional Autonomous Ops'', 3),
      (''starter'', ''Starter Commercial Fleet'', 1)]"

definition feature_counts :: "FeatureCount list" where
  "feature_counts = map (\<lambda>(key, name, n). \<lparr>featurecount_featureKey = key, featurecount_name = name, featurecount_orgCount = n\<rparr>)
     [(''drone_fleet_management'', ''Drone Fleet Operations'', 5),
      (''work_order_management'', ''Work Order Management'', 5),
      (''compliance_reporting'', ''Compliance & Regulatory Register'', 5),
      (''audit_logging'', ''Audit Trail & Verification'', 5),
      (''release_readiness'', ''Release to Service Readiness'', 4),
      (''flight_telemetry'', ''Live Mission & Flight Telemetry'', 4),
      (''battery_analytics'', ''Battery Cycle & Health Analytics'', 4),
      (''lisa_ai_copilot'', ''LISA AI Aerospace Intelligence'', 1),
      (''procurement_management'', ''Procurement & Vendor Intelligence'', 1)]"

definition getDemoPlatformStats :: PlatformDashboardKPIs where
  "getDemoPlatformStats =
     \<lparr>kpi_totalOrganizations = length DEMO_PLATFORM_ORGANIZATIONS,
      kpi_activeOrganizations = length (filter (\<lambda>g. porg_status g = PORG_ACTIVE) DEMO_PLATFORM_ORGANIZATIONS),
      kpi_suspendedOrganizations = length (filter (\<lambda>g. porg_status g = PORG_SUSPENDED) DEMO_PLATFORM_ORGANIZATIONS),
      kpi_pendingProvisioning = 0,
      kpi_activeSubscriptions = length (filter (\<lambda>s. subscr_status s = ''ACTIVE'') DEMO_PLATFORM_SUBSCRIPTIONS),
      kpi_trialSubscriptions = length (filter (\<lambda>s. subscr_status s = ''TRIALING'') DEMO_PLATFORM_SUBSCRIPTIONS),
      kpi_totalUsers = foldl (\<lambda>n g. n + porg_user_count g) 0 DEMO_PLATFORM_ORGANIZATIONS,
      kpi_totalAircraft = foldl (\<lambda>n g. n + porg_aircraft_count g) 0 DEMO_PLATFORM_ORGANIZATIONS,
      kpi_totalDrones = foldl (\<lambda>n g. n + or_else (porg_drone_count g) 0) 0 DEMO_PLATFORM_ORGANIZATIONS,
      kpi_organizationsByPlan = plan_counts,
      kpi_enabledFeatureDistribution = feature_counts,
      kpi_recentActivity = DEMO_PLATFORM_AUDIT_EVENTS\<rparr>"

definition getDemoOrganization :: "string \<Rightarrow> BackendPlatformOrganization option" where
  "getDemoOrganization i = find (\<lambda>g. porg_id g = i) DEMO_PLATFORM_ORGANIZATIONS"

definition getDemoOrganizationUsers :: "string \<Rightarrow> PlatformUser list" where
  "getDemoOrganizationUsers i = filter (\<lambda>u. puser_organization_id u = i) DEMO_PLATFORM_USERS"

definition getDemoOrganizationSubscriptions :: "string \<Rightarrow> SubscriptionResponse list" where
  "getDemoOrganizationSubscriptions i = filter (\<lambda>s. subscr_organization_id s = i) DEMO_PLATFORM_SUBSCRIPTIONS"

definition demo_subscription :: "string \<Rightarrow> SubscriptionResponse option" where
  "demo_subscription i = find (\<lambda>s. subscr_organization_id s = i) DEMO_PLATFORM_SUBSCRIPTIONS"

definition demo_plan :: "string \<Rightarrow> PlanResponse option" where
  "demo_plan i = (case demo_subscription i of
     None \<Rightarrow> None
   | Some s \<Rightarrow> find (\<lambda>p. plan_id p = subscr_plan_id s) DEMO_PLATFORM_PLANS)"

definition lit_porg_status :: "PlatformOrgStatus \<Rightarrow> string" where
  "lit_porg_status s = (case s of PORG_ACTIVE \<Rightarrow> ''ACTIVE'' | PORG_SUSPENDED \<Rightarrow> ''SUSPENDED'')"

definition suspended_entitlements :: "string \<Rightarrow> EntitlementResolutionResponse" where
  "suspended_entitlements i =
     (let org = getDemoOrganization i; sub = demo_subscription i; plan = demo_plan i in
      \<lparr>entitle_organization_id = i,
       entitle_resolution_status = ''SUSPENDED'',
       entitle_organization_status = (case org of None \<Rightarrow> ''UNKNOWN'' | Some g \<Rightarrow> lit_porg_status (porg_status g)),
       entitle_subscription_id = map_option subscr_id sub,
       entitle_subscription_status = map_option subscr_status sub,
       entitle_plan_id = map_option plan_id plan,
       entitle_plan_code = map_option plan_code plan,
       entitle_plan_name = map_option plan_name plan,
       entitle_effective_features = [],
       entitle_usage_limits = [],
       entitle_reason = ''Organization is SUSPENDED. All operational entitlements denied.''\<rparr>)"

definition plan_features :: "string option \<Rightarrow> (string \<times> bool) list" where
  "plan_features code =
     [(''drone_fleet_management'', True),
      (''work_order_management'', True),
      (''compliance_reporting'', True),
      (''audit_logging'', True),
      (''release_readiness'', code = Some ''professional'' \<or> code = Some ''enterprise''),
      (''flight_telemetry'', code = Some ''professional'' \<or> code = Some ''enterprise''),
      (''battery_analytics'', code = Some ''professional'' \<or> code = Some ''enterprise''),
      (''lisa_ai_copilot'', code = Some ''enterprise''),
      (''procurement_management'', code = Some ''enterprise'')]"

definition plan_limits :: "string option \<Rightarrow> UsageLimitConfiguration list" where
  "plan_limits code =
     [\<lparr>ulimit_feature_key = ''fleet_limits'', ulimit_limit_key = ''max_drones'',
       ulimit_limit_value = (if code = Some ''enterprise'' then None else Some 20),
       ulimit_is_unlimited = (code = Some ''enterprise'')\<rparr>,
      \<lparr>ulimit_feature_key = ''user_seats'', ulimit_limit_key = ''max_users'',
       ulimit_limit_value = (if code = Some ''enterprise'' then None else Some 15),
       ulimit_is_unlimited = (code = Some ''enterprise'')\<rparr>]"

definition getDemoOrganizationEntitlements :: "string \<Rightarrow> EntitlementResolutionResponse" where
  "getDemoOrganizationEntitlements i =
     (let sub = demo_subscription i; plan = demo_plan i; code = map_option plan_code plan in
      case getDemoOrganization i of
        None \<Rightarrow> suspended_entitlements i
      | Some org \<Rightarrow>
          if porg_status org = PORG_SUSPENDED then suspended_entitlements i
          else \<lparr>entitle_organization_id = i,
                entitle_resolution_status = ''ACTIVE'',
                entitle_organization_status = lit_porg_status (porg_status org),
                entitle_subscription_id = map_option subscr_id sub,
                entitle_subscription_status = map_option subscr_status sub,
                entitle_plan_id = map_option plan_id plan,
                entitle_plan_code = code,
                entitle_plan_name = map_option plan_name plan,
                entitle_effective_features = plan_features code,
                entitle_usage_limits = plan_limits code,
                entitle_reason = ''Subscription '' @ or_else (map_option subscr_id sub) [] @ '' on plan '' @
                  or_else code [] @ '' is active.''\<rparr>)"

section \<open>Properties\<close>

lemma demo_plan_codes:
  "list_all (\<lambda>p. plan_code p \<in> {''DRONE_001'', ''AIRCRAFT_001'', ''HELICOPTER_001'', ''EVTOL_001''}) DEMO_PLATFORM_PLANS"
  by (simp add: DEMO_PLATFORM_PLANS_def)

lemma demo_plan_in: "demo_plan i = Some p \<Longrightarrow> p \<in> set DEMO_PLATFORM_PLANS"
  by (auto simp: demo_plan_def find_Some_iff in_set_conv_nth split: option.splits)

lemma demo_plan_code:
  "map_option plan_code (demo_plan i) \<noteq> Some ''professional'' \<and> map_option plan_code (demo_plan i) \<noteq> Some ''enterprise''"
  using demo_plan_in [of i] demo_plan_codes by (cases "demo_plan i") (auto simp: list_all_iff)

text \<open>
  The entitlements of an organization of the demonstration: none at all, and no usage limits, when the
  organization is unknown or suspended; otherwise exactly the four basic features, with the limited
  quotas, for every organization and whatever its plan, because no plan of the data set has one of the
  two codes the function tests for.
\<close>

theorem demo_entitlements_exact:
  "let e = getDemoOrganizationEntitlements i in
   (if map_option porg_status (getDemoOrganization i) = Some PORG_ACTIVE
    then map fst (filter snd (entitle_effective_features e)) =
           [''drone_fleet_management'', ''work_order_management'', ''compliance_reporting'', ''audit_logging''] \<and>
         list_all (\<lambda>u. \<not> ulimit_is_unlimited u \<and> ulimit_limit_value u \<noteq> None) (entitle_usage_limits e)
    else entitle_effective_features e = [] \<and> entitle_usage_limits e = [])"
proof (cases "getDemoOrganization i")
  case None
  then show ?thesis by (simp add: getDemoOrganizationEntitlements_def suspended_entitlements_def Let_def)
next
  case (Some org)
  then show ?thesis
    using demo_plan_code [of i]
    by (cases "porg_status org")
      (simp_all add: getDemoOrganizationEntitlements_def suspended_entitlements_def Let_def plan_features_def plan_limits_def)
qed

end
