(* ===== verification/Session.thy ===== *)
theory Session
  imports DemoStore ApiClient
begin

text \<open>
  Authentication on the client: the session provider (\<open>src/frontend/lib/auth/SessionContext.tsx\<close>), the
  data mode (\<open>src/frontend/lib/data-mode/DataModeContext.tsx\<close>) and the guard of the signed-in pages
  (\<open>src/frontend/components/auth/AuthGuard.tsx\<close>). An asynchronous call is two events, its start and its
  answer, so every interleaving of restoring, signing in and signing out is a sequence of events. Shown:
  the session is all or nothing, always REAL, and pages are only rendered, with REAL data, to an
  authenticated user; the races the code leaves open are exhibited.
\<close>

section \<open>The session\<close>

datatype SessionType = SES_REAL | SES_DEMO

text \<open>
  The four states of the provider and its surroundings: the two tokens in the local storage, whether that
  storage can be used, the item of the demonstration store, and the calls under way: the token being
  restored and the tokens of the logins whose \<open>/auth/me\<close> has not answered.
\<close>

record Session =
  ses_user :: "CurrentUser option"
  ses_accessToken :: "string option"
  ses_type :: "SessionType option"
  ses_loading :: bool
  ses_access_item :: "string option"
  ses_refresh_item :: "string option"
  ses_storage_ok :: bool
  ses_demo_item :: StoredItem
  ses_restoring :: "string option"
  ses_cancelled :: bool
  ses_logins :: "string list"

definition session_init :: "string option \<Rightarrow> string option \<Rightarrow> bool \<Rightarrow> StoredItem \<Rightarrow> Session" where
  "session_init access refresh ok item = \<lparr>ses_user = None, ses_accessToken = None, ses_type = None,
     ses_loading = True, ses_access_item = access, ses_refresh_item = refresh, ses_storage_ok = ok,
     ses_demo_item = item, ses_restoring = None, ses_cancelled = False, ses_logins = []\<rparr>"

definition clearSession :: "Session \<Rightarrow> Session" where
  "clearSession s =
     (let s = s\<lparr>ses_user := None, ses_accessToken := None, ses_type := None\<rparr> in
      if ses_storage_ok s then s\<lparr>ses_access_item := None, ses_refresh_item := None\<rparr> else s)"

definition set_session :: "string \<Rightarrow> CurrentUser \<Rightarrow> Session \<Rightarrow> Session" where
  "set_session token me s = s\<lparr>ses_accessToken := Some token, ses_user := Some me, ses_type := Some SES_REAL\<rparr>"

text \<open>\<open>login\<close> up to its \<open>await\<close>, and after it: \<open>k\<close> picks the login that is answered.\<close>

definition login_start :: "string \<Rightarrow> string \<Rightarrow> Session \<Rightarrow> Session" where
  "login_start access refresh s =
     (let s = (if ses_storage_ok s then s\<lparr>ses_access_item := Some access, ses_refresh_item := Some refresh\<rparr> else s)
      in s\<lparr>ses_logins := ses_logins s @ [access]\<rparr>)"

definition drop_login :: "nat \<Rightarrow> Session \<Rightarrow> Session" where
  "drop_login k s = s\<lparr>ses_logins := take k (ses_logins s) @ drop (Suc k) (ses_logins s)\<rparr>"

definition login_answer :: "nat \<Rightarrow> CurrentUser option \<Rightarrow> Session \<Rightarrow> Session" where
  "login_answer k answer s =
     (if k < length (ses_logins s) then
        (case answer of
           None \<Rightarrow> drop_login k s
         | Some me \<Rightarrow> set_session (ses_logins s ! k) me (drop_login k s))
      else s)"

definition logout :: "Session \<Rightarrow> Session" where
  "logout s = clearSession s"

text \<open>The effect of the first load, up to its \<open>await\<close> and after it; the clean-up of the provider cancels it.\<close>

definition restore_start :: "Session \<Rightarrow> Session" where
  "restore_start s =
     (let token = (if ses_storage_ok s then ses_access_item s else None) in
      case truthy_text token of
        None \<Rightarrow> s\<lparr>ses_loading := False\<rparr>
      | Some t \<Rightarrow> s\<lparr>ses_restoring := Some t\<rparr>)"

definition restore_answer :: "CurrentUser option \<Rightarrow> Session \<Rightarrow> Session" where
  "restore_answer answer s =
     (case ses_restoring s of
        None \<Rightarrow> s
      | Some token \<Rightarrow>
          let s = s\<lparr>ses_restoring := None\<rparr>;
              s = (if ses_cancelled s then s
                   else (case answer of None \<Rightarrow> clearSession s | Some me \<Rightarrow> set_session token me s))
          in if ses_cancelled s then s else s\<lparr>ses_loading := False\<rparr>)"

definition merge_user :: "CurrentUser \<Rightarrow> CurrentUserUpdate \<Rightarrow> CurrentUser" where
  "merge_user c u =
     \<lparr>cuser_id = or_else (cupd_id u) (cuser_id c),
      cuser_organization_id = or_else (cupd_organization_id u) (cuser_organization_id c),
      cuser_email = or_else (cupd_email u) (cuser_email c),
      cuser_full_name = or_else (cupd_full_name u) (cuser_full_name c),
      cuser_roles = or_else (cupd_roles u) (cuser_roles c),
      cuser_email_verified = or_else (cupd_email_verified u) (cuser_email_verified c),
      cuser_phone_number = or_else (cupd_phone_number u) (cuser_phone_number c),
      cuser_profile_photo_url = or_else (cupd_profile_photo_url u) (cuser_profile_photo_url c),
      cuser_pending_email = or_else (cupd_pending_email u) (cuser_pending_email c)\<rparr>"

text \<open>The branch of \<open>updateUser\<close> for a DEMO session writes the profile into the demonstration store's item.\<close>

definition write_demo_profile :: "CurrentUserUpdate \<Rightarrow> StoredItem \<Rightarrow> StoredItem" where
  "write_demo_profile u item = (case item of
     Unreadable \<Rightarrow> Unreadable
   | NoItem \<Rightarrow> Stored \<lparr>stored_assets = None, stored_drones = None, stored_invitations = None, stored_profile = Some u\<rparr>
   | Stored p \<Rightarrow> Stored (p\<lparr>stored_profile := Some (merge_profile (or_else (stored_profile p) empty_update) u)\<rparr>))"

definition updateUser :: "CurrentUserUpdate \<Rightarrow> Session \<Rightarrow> Session" where
  "updateUser u s =
     (case ses_user s of
        None \<Rightarrow> s
      | Some prev \<Rightarrow>
          let s = s\<lparr>ses_user := Some (merge_user prev u)\<rparr> in
          if ses_type s = Some SES_DEMO then s\<lparr>ses_demo_item := write_demo_profile u (ses_demo_item s)\<rparr> else s)"

definition isAuthenticated :: "Session \<Rightarrow> bool" where
  "isAuthenticated s \<longleftrightarrow> ses_user s \<noteq> None \<and> ses_type s = Some SES_REAL \<and> truthy_text (ses_accessToken s) \<noteq> None"

definition organizationName :: "Session \<Rightarrow> string option" where
  "organizationName s =
     (if ses_type s = Some SES_DEMO then Some DEMO_ORG_NAME
      else (case ses_user s of
              None \<Rightarrow> None
            | Some u \<Rightarrow> if cuser_organization_id u = [] then None
                         else Some (''Org '' @ take 8 (cuser_organization_id u))))"

section \<open>The data mode\<close>

datatype DataMode = MODE_DEMO | MODE_REAL

record DataModeState =
  mode_stored :: DataMode
  mode_hydrated :: bool
  mode_item :: "string option"
  mode_storage_ok :: bool

definition lit_mode :: "DataMode \<Rightarrow> string" where
  "lit_mode m = (case m of MODE_DEMO \<Rightarrow> ''DEMO'' | MODE_REAL \<Rightarrow> ''REAL'')"

definition loadStoredMode :: "DataModeState \<Rightarrow> DataMode" where
  "loadStoredMode d = (if mode_storage_ok d \<and> mode_item d = Some ''REAL'' then MODE_REAL else MODE_DEMO)"

definition mode_effect :: "DataModeState \<Rightarrow> DataModeState" where
  "mode_effect d = d\<lparr>mode_stored := loadStoredMode d, mode_hydrated := True\<rparr>"

definition setMode :: "SessionType option \<Rightarrow> DataMode \<Rightarrow> DataModeState \<Rightarrow> DataModeState" where
  "setMode sessionType m d =
     (if sessionType = Some SES_REAL \<and> m \<noteq> MODE_REAL then d
      else if sessionType = Some SES_DEMO \<and> m \<noteq> MODE_DEMO then d
      else let d = d\<lparr>mode_stored := m\<rparr> in
        if mode_storage_ok d then d\<lparr>mode_item := Some (lit_mode m)\<rparr> else d)"

definition effectiveMode :: "SessionType option \<Rightarrow> DataModeState \<Rightarrow> DataMode" where
  "effectiveMode sessionType d =
     (if sessionType = Some SES_REAL then MODE_REAL
      else if sessionType = Some SES_DEMO then MODE_DEMO else mode_stored d)"

section \<open>The guard\<close>

datatype GuardView = ShowVerifying | ShowNothing | ShowChildren

definition AuthGuard :: "Session \<Rightarrow> GuardView" where
  "AuthGuard s = (if ses_loading s then ShowVerifying else if \<not> isAuthenticated s then ShowNothing else ShowChildren)"

definition guard_redirects :: "Session \<Rightarrow> bool" where
  "guard_redirects s \<longleftrightarrow> \<not> ses_loading s \<and> \<not> isAuthenticated s"

section \<open>The application: session and data mode together\<close>

datatype AppEvent =
    RestoreStart
  | RestoreAnswer "CurrentUser option"
  | LoginStart string string
  | LoginAnswer nat "CurrentUser option"
  | Logout
  | UpdateUser CurrentUserUpdate
  | ProviderUnmount
  | ModeEffect
  | SetMode DataMode

fun app_step :: "Session \<times> DataModeState \<Rightarrow> AppEvent \<Rightarrow> Session \<times> DataModeState" where
  "app_step (s, d) RestoreStart = (restore_start s, d)"
| "app_step (s, d) (RestoreAnswer a) = (restore_answer a s, d)"
| "app_step (s, d) (LoginStart a r) = (login_start a r s, d)"
| "app_step (s, d) (LoginAnswer k a) = (login_answer k a s, d)"
| "app_step (s, d) Logout = (logout s, d)"
| "app_step (s, d) (UpdateUser u) = (updateUser u s, d)"
| "app_step (s, d) ProviderUnmount = (s\<lparr>ses_cancelled := True\<rparr>, d)"
| "app_step (s, d) ModeEffect = (s, mode_effect d)"
| "app_step (s, d) (SetMode m) = (s, setMode (ses_type s) m d)"

text \<open>The session is all there or not there, and REAL; the demonstration store's item is left as it was.\<close>

definition session_whole :: "StoredItem \<Rightarrow> Session \<Rightarrow> bool" where
  "session_whole item s \<longleftrightarrow>
     (ses_user s = None \<longleftrightarrow> ses_type s = None) \<and> (ses_accessToken s = None \<longleftrightarrow> ses_type s = None) \<and>
     ses_type s \<noteq> Some SES_DEMO \<and> ses_demo_item s = item"

lemma app_step_whole: "session_whole item (fst a) \<Longrightarrow> session_whole item (fst (app_step a e))"
  by (cases a; cases e)
    (auto simp: session_whole_def restore_start_def restore_answer_def login_start_def login_answer_def drop_login_def
      logout_def clearSession_def set_session_def updateUser_def Let_def split: option.splits)

interpretation app: machine app_step "\<lambda>a. session_whole item (fst a)" for item
  by unfold_locales (rule app_step_whole)

definition mode_init :: "string option \<Rightarrow> bool \<Rightarrow> DataModeState" where
  "mode_init item ok = \<lparr>mode_stored = MODE_DEMO, mode_hydrated = False, mode_item = item, mode_storage_ok = ok\<rparr>"

definition app_init :: "Session \<Rightarrow> DataModeState \<Rightarrow> bool" where
  "app_init s d \<longleftrightarrow> (\<exists>a r ok item i k. s = session_init a r ok item \<and> d = mode_init i k)"

section \<open>Properties\<close>

text \<open>
  C2 Under every interleaving of restoring, logins, logouts, profile updates and mode switches: the user,
  the token and the type of the session are set and cleared together, the type is never DEMO and the
  demonstration store is never written; the guarded pages are rendered only to an authenticated user,
  and then the data mode is REAL, whatever mode was stored or asked for.
\<close>

theorem session_safe:
  "let (s, d) = run app_step (session_init a r ok item, mode_init i k) es in
   session_whole item s \<and>
   (AuthGuard s = ShowChildren \<longrightarrow> isAuthenticated s \<and> \<not> ses_loading s \<and> effectiveMode (ses_type s) d = MODE_REAL) \<and>
   (effectiveMode (ses_type s) d = MODE_DEMO \<longrightarrow> \<not> isAuthenticated s \<and> ses_user s = None)"
proof -
  obtain s d where sd: "run app_step (session_init a r ok item, mode_init i k) es = (s, d)" by fastforce
  have "session_whole item (fst (run app_step (session_init a r ok item, mode_init i k) es))"
    by (rule app.run_inv) (simp add: session_whole_def session_init_def)
  then have w: "session_whole item s" by (simp add: sd)
  then have "ses_type s = None \<or> ses_type s = Some SES_REAL"
    unfolding session_whole_def by (metis SessionType.exhaust not_None_eq)
  with w show ?thesis
    by (auto simp: sd AuthGuard_def isAuthenticated_def effectiveMode_def session_whole_def split: if_splits)
qed

definition example_user :: CurrentUser where
  "example_user = \<lparr>cuser_id = ''u1'', cuser_organization_id = ''org-0001-7'', cuser_email = ''a@b.c'',
     cuser_full_name = ''A'', cuser_roles = [''VIEWER''], cuser_email_verified = True, cuser_phone_number = None,
     cuser_profile_photo_url = None, cuser_pending_email = None\<rparr>"

definition login_then_demo :: "AppEvent list" where
  "login_then_demo = [ModeEffect, RestoreStart, LoginStart ''tok'' ''ref'', LoginAnswer 0 (Some example_user), SetMode MODE_DEMO]"

lemma login_then_demo_shows:
  "AuthGuard (fst (run app_step (session_init None None True NoItem, mode_init (Some ''DEMO'') True) login_then_demo)) = ShowChildren"
  by (simp add: login_then_demo_def session_init_def mode_init_def mode_effect_def restore_start_def truthy_text_def
      login_start_def login_answer_def drop_login_def set_session_def setMode_def AuthGuard_def isAuthenticated_def Let_def)

theorem session_safe_witness:
  "\<exists>s d. run app_step (session_init None None True NoItem, mode_init (Some ''DEMO'') True) login_then_demo = (s, d) \<and>
     session_whole NoItem s \<and> AuthGuard s = ShowChildren \<and> isAuthenticated s \<and> effectiveMode (ses_type s) d = MODE_REAL"
  using session_safe [of None None True NoItem "Some ''DEMO''" True login_then_demo] login_then_demo_shows
  by (cases "run app_step (session_init None None True NoItem, mode_init (Some ''DEMO'') True) login_then_demo") simp

section \<open>What the provider does not guard against\<close>

lemmas session_ops = session_init_def mode_init_def restore_start_def restore_answer_def truthy_text_def login_start_def
  login_answer_def drop_login_def set_session_def logout_def clearSession_def Let_def

text \<open>The restoration of an old token fails after a login succeeded: the new session and its tokens are gone.\<close>

lemma restore_failure_ends_new_session:
  "let s = fst (run app_step (session_init (Some ''old'') (Some ''r0'') True NoItem, mode_init None True)
     [RestoreStart, LoginStart ''new'' ''r1'', LoginAnswer 0 (Some u), RestoreAnswer None]) in
   ses_user s = None \<and> ses_access_item s = None \<and> ses_refresh_item s = None"
  by (simp add: session_ops)

text \<open>A login that is answered after the logout signs the user in again, with no token in the storage.\<close>

lemma late_login_undoes_logout:
  "let s = fst (run app_step (session_init None None True NoItem, mode_init None True)
     [RestoreStart, LoginStart ''new'' ''r1'', Logout, LoginAnswer 0 (Some u)]) in
   isAuthenticated s \<and> ses_access_item s = None"
  by (simp add: session_ops isAuthenticated_def)

text \<open>A login whose \<open>/auth/me\<close> fails leaves its tokens in the storage, for the next load to restore.\<close>

lemma failed_login_keeps_tokens:
  "let s = fst (run app_step (session_init None None True NoItem, mode_init None True)
     [RestoreStart, LoginStart ''new'' ''r1'', LoginAnswer 0 None]) in
   \<not> isAuthenticated s \<and> ses_access_item s = Some ''new'' \<and> ses_refresh_item s = Some ''r1''"
  by (simp add: session_ops isAuthenticated_def)

end
