(* ===== verification/MroState.thy ===== *)
theory MroState
  imports Store Clock
begin

text \<open>
  The shared execution state of the maintenance pages
  (\<open>src/frontend/lib/mro-state/MroStateContext.tsx\<close>): what the technician recorded on the checklist of
  each work order, what the inspector decided, and the audit log both leave. Every operation is one
  definition from state to state; the work orders are those of the world, the clock is an argument.
  The log only grows, its live identifiers are unique, and no operation adds or removes a checklist.
\<close>

section \<open>State\<close>

datatype ChecklistItemResult = CIR_PASS | CIR_FAIL | CIR_NOT_APPLICABLE | CIR_UNKNOWN

text \<open>A field is \<open>None\<close> when it is undefined, which a patch of an item that does not exist leaves behind.\<close>

record ChecklistItemState =
  item_result :: "ChecklistItemResult option option"
  item_actualValue :: "string option"
  item_note :: "string option"
  item_evidenceAttached :: "bool option"

datatype SubmissionStatus = SUB_IN_PROGRESS | SUB_SUBMITTED

record WorkOrderChecklistRecord =
  chk_checklistId :: string
  chk_workOrderId :: string
  chk_technicianId :: "string option"
  chk_submissionStatus :: SubmissionStatus
  chk_items :: "(string \<times> ChecklistItemState) list"
  chk_technicianSignOff :: "TechnicianSignOff option"
  chk_submittedAt :: "string option"
  chk_inspectorId :: "string option"
  chk_inspectorDecisionStatus :: InspectorReviewStatus
  chk_inspectorComments :: string
  chk_inspectorReviewedAt :: "string option"

definition blankItem :: "ChecklistItemResult option \<Rightarrow> ChecklistItemState" where
  "blankItem result = \<lparr>item_result = Some result, item_actualValue = Some [], item_note = Some [],
     item_evidenceAttached = Some False\<rparr>"

definition noted_item :: "ChecklistItemResult \<Rightarrow> string \<Rightarrow> bool \<Rightarrow> ChecklistItemState" where
  "noted_item r n e = \<lparr>item_result = Some (Some r), item_actualValue = Some [], item_note = Some n,
     item_evidenceAttached = Some e\<rparr>"

definition sign_off :: "string \<Rightarrow> string \<Rightarrow> TechnicianSignOff" where
  "sign_off t time = \<lparr>so_technicianId = t, so_timestamp = time, so_confirmed = True\<rparr>"

definition buildInitialRecords :: "(string \<times> WorkOrderChecklistRecord) list" where
  "buildInitialRecords =
     [(''wo-1042'',
       \<lparr>chk_checklistId = ''chk-1042'', chk_workOrderId = ''wo-1042'', chk_technicianId = Some ''tech-1'',
        chk_submissionStatus = SUB_SUBMITTED,
        chk_items =
          [(''i1'', blankItem (Some CIR_PASS)), (''i2'', blankItem (Some CIR_PASS)), (''i3'', blankItem (Some CIR_PASS)),
           (''i4'', blankItem (Some CIR_PASS)), (''i5'', blankItem (Some CIR_PASS)),
           (''i6'', noted_item CIR_FAIL ''Minor scoring observed on fan blade root (see finding).'' True),
           (''i7'', noted_item CIR_UNKNOWN
              (''Borescope measurement tooling was recalibrating '' @ em_dash @ '' clearance not verified this shift.'') False),
           (''i8'', blankItem (Some CIR_PASS)), (''i9'', blankItem (Some CIR_PASS)), (''i10'', blankItem (Some CIR_PASS))],
        chk_technicianSignOff = Some (sign_off ''tech-1'' ''2026-03-16T13:40:00Z''),
        chk_submittedAt = Some ''2026-03-16T13:40:00Z'',
        chk_inspectorId = Some ''tech-3'', chk_inspectorDecisionStatus = IR_PENDING_INSPECTION,
        chk_inspectorComments = [], chk_inspectorReviewedAt = None\<rparr>),
      (''wo-1043'',
       \<lparr>chk_checklistId = ''chk-1043'', chk_workOrderId = ''wo-1043'', chk_technicianId = Some ''tech-4'',
        chk_submissionStatus = SUB_SUBMITTED,
        chk_items = map (\<lambda>i. (i, blankItem (Some CIR_PASS)))
          [''i1'', ''i2'', ''i3'', ''i4'', ''i5'', ''i6'', ''i7'', ''i8'', ''i9'', ''i10''],
        chk_technicianSignOff = Some (sign_off ''tech-4'' ''2026-03-08T14:20:00Z''),
        chk_submittedAt = Some ''2026-03-08T14:20:00Z'',
        chk_inspectorId = Some ''tech-5'', chk_inspectorDecisionStatus = IR_APPROVED,
        chk_inspectorComments = ''Leak check satisfactory. Approved.'',
        chk_inspectorReviewedAt = Some ''2026-03-08T15:00:00Z''\<rparr>),
      (''wo-1045'',
       \<lparr>chk_checklistId = ''chk-1045'', chk_workOrderId = ''wo-1045'', chk_technicianId = Some ''tech-3'',
        chk_submissionStatus = SUB_SUBMITTED,
        chk_items =
          [(''s1'', blankItem (Some CIR_PASS)), (''s2'', blankItem (Some CIR_PASS)),
           (''s3'', noted_item CIR_FAIL
              (''Hairline fatigue indication at station 340 '' @ em_dash @ '' see finding-2.'') True),
           (''s4'', blankItem (Some CIR_PASS)), (''s5'', blankItem (Some CIR_PASS)), (''s6'', blankItem (Some CIR_PASS))],
        chk_technicianSignOff = Some (sign_off ''tech-3'' ''2026-03-16T17:00:00Z''),
        chk_submittedAt = Some ''2026-03-16T17:00:00Z'',
        chk_inspectorId = Some ''tech-5'', chk_inspectorDecisionStatus = IR_PENDING_INSPECTION,
        chk_inspectorComments = [], chk_inspectorReviewedAt = None\<rparr>),
      (''wo-1048'',
       \<lparr>chk_checklistId = ''chk-1048'', chk_workOrderId = ''wo-1048'', chk_technicianId = Some ''tech-5'',
        chk_submissionStatus = SUB_SUBMITTED,
        chk_items = map (\<lambda>i. (i, blankItem (Some CIR_PASS))) [''a1'', ''a2'', ''a3'', ''a4'', ''a5''],
        chk_technicianSignOff = Some (sign_off ''tech-5'' ''2026-03-09T18:00:00Z''),
        chk_submittedAt = Some ''2026-03-09T18:00:00Z'',
        chk_inspectorId = Some ''tech-3'', chk_inspectorDecisionStatus = IR_PENDING_INSPECTION,
        chk_inspectorComments = [], chk_inspectorReviewedAt = None\<rparr>),
      (''wo-1044'',
       \<lparr>chk_checklistId = ''chk-1044'', chk_workOrderId = ''wo-1044'', chk_technicianId = Some ''tech-1'',
        chk_submissionStatus = SUB_IN_PROGRESS,
        chk_items =
          [(''d1'', blankItem (Some CIR_PASS)), (''d2'', blankItem (Some CIR_PASS)), (''d3'', blankItem None),
           (''d4'', blankItem None), (''d5'', blankItem None)],
        chk_technicianSignOff = None, chk_submittedAt = None, chk_inspectorId = None,
        chk_inspectorDecisionStatus = IR_PENDING_INSPECTION,
        chk_inspectorComments = [], chk_inspectorReviewedAt = None\<rparr>)]"

text \<open>\<open>auditEventCounter\<close> is a variable of the module, the other two are states of the provider.\<close>

record MroWorld =
  mro_submissions :: "(string \<times> WorkOrderChecklistRecord) list"
  mro_auditLog :: "AuditEvent list"
  mro_counter :: nat

definition mro_init :: "AuditEvent list \<Rightarrow> MroWorld" where
  "mro_init seedAuditEvents = \<lparr>mro_submissions = buildInitialRecords, mro_auditLog = seedAuditEvents, mro_counter = 1000\<rparr>"

section \<open>Operations\<close>

text \<open>The fields of an event that the operations set.\<close>

record AuditInput =
  ain_actor :: string
  ain_actorRole :: string
  ain_action :: string
  ain_objectType :: string
  ain_objectLabel :: string
  ain_previousState :: "string option"
  ain_newState :: "string option"
  ain_reason :: "string option"
  ain_timestamp :: "string option"

definition live_audit_id :: "nat \<Rightarrow> string" where
  "live_audit_id n = ''aud-live-'' @ show_nat n"

definition audit_event :: "nat \<Rightarrow> AuditInput \<Rightarrow> int \<Rightarrow> AuditEvent" where
  "audit_event n ev now =
     \<lparr>au_id = live_audit_id n, au_timestamp = or_else (ain_timestamp ev) (toISOString now),
      au_actor = ain_actor ev, au_actorRole = ain_actorRole ev, au_action = ain_action ev,
      au_objectType = ain_objectType ev, au_objectLabel = ain_objectLabel ev,
      au_previousState = ain_previousState ev, au_newState = ain_newState ev, au_reason = ain_reason ev,
      au_relatedAssessmentId = None, au_actorType = None, au_organizationId = None, au_reasonCode = None\<rparr>"

definition addAuditEvent :: "AuditInput \<Rightarrow> int \<Rightarrow> MroWorld \<Rightarrow> MroWorld" where
  "addAuditEvent ev now m =
     (let n = mro_counter m + 1
      in m\<lparr>mro_counter := n, mro_auditLog := audit_event n ev now # mro_auditLog m\<rparr>)"

text \<open>\<open>{ ...object, [key]: value }\<close>: the value is replaced in its place or added at the end.\<close>

fun put_key :: "string \<Rightarrow> 'v \<Rightarrow> (string \<times> 'v) list \<Rightarrow> (string \<times> 'v) list" where
  "put_key k v [] = [(k, v)]"
| "put_key k v (p # ps) = (if fst p = k then (k, v) # ps else p # put_key k v ps)"

text \<open>\<open>setSubmissions\<close> with an update of one record; nothing happens without that record.\<close>

definition update_submission ::
  "string \<Rightarrow> (WorkOrderChecklistRecord \<Rightarrow> WorkOrderChecklistRecord) \<Rightarrow> MroWorld \<Rightarrow> MroWorld" where
  "update_submission i f m =
     (case map_of (mro_submissions m) i of
        None \<Rightarrow> m
      | Some r \<Rightarrow> m\<lparr>mro_submissions := put_key i (f r) (mro_submissions m)\<rparr>)"

definition or_patch :: "'a option \<Rightarrow> 'a option \<Rightarrow> 'a option" where
  "or_patch p v = (case p of None \<Rightarrow> v | Some x \<Rightarrow> Some x)"

definition no_item :: ChecklistItemState where
  "no_item = \<lparr>item_result = None, item_actualValue = None, item_note = None, item_evidenceAttached = None\<rparr>"

definition patch_item :: "ChecklistItemState \<Rightarrow> ChecklistItemState \<Rightarrow> ChecklistItemState" where
  "patch_item s p = \<lparr>item_result = or_patch (item_result p) (item_result s),
     item_actualValue = or_patch (item_actualValue p) (item_actualValue s),
     item_note = or_patch (item_note p) (item_note s),
     item_evidenceAttached = or_patch (item_evidenceAttached p) (item_evidenceAttached s)\<rparr>"

definition lit_result :: "ChecklistItemResult \<Rightarrow> string" where
  "lit_result r = (case r of CIR_PASS \<Rightarrow> ''PASS'' | CIR_FAIL \<Rightarrow> ''FAIL'' | CIR_NOT_APPLICABLE \<Rightarrow> ''NOT_APPLICABLE''
     | CIR_UNKNOWN \<Rightarrow> ''UNKNOWN'')"

definition work_order_label :: "world \<Rightarrow> string \<Rightarrow> string" where
  "work_order_label W i = (case getWorkOrderById W i of None \<Rightarrow> i | Some w \<Rightarrow> wo_workOrderNumber w)"

definition technician_event :: "string \<Rightarrow> string \<Rightarrow> string \<Rightarrow> string option \<Rightarrow> string \<Rightarrow> AuditInput" where
  "technician_event action objectType objectLabel previous new =
     \<lparr>ain_actor = ''Prototype Technician'', ain_actorRole = ''Technician'', ain_action = action,
      ain_objectType = objectType, ain_objectLabel = objectLabel, ain_previousState = previous,
      ain_newState = Some new, ain_reason = None, ain_timestamp = None\<rparr>"

definition updateChecklistItem ::
  "world \<Rightarrow> string \<Rightarrow> string \<Rightarrow> ChecklistItemState \<Rightarrow> (nat \<Rightarrow> int) \<Rightarrow> MroWorld \<Rightarrow> MroWorld" where
  "updateChecklistItem W i item patch clk m =
     (let m = update_submission i (\<lambda>r. r\<lparr>chk_items :=
              put_key item (patch_item (or_else (map_of (chk_items r) item) no_item) patch) (chk_items r)\<rparr>) m;
          label = item @ '' on '' @ work_order_label W i;
          m = (case item_result patch of
                 Some (Some res) \<Rightarrow>
                   let m = addAuditEvent (technician_event ''checklist.item_updated'' ''ChecklistItem'' label None
                             (lit_result res)) (clk 0) m
                   in if res = CIR_FAIL
                      then addAuditEvent (technician_event ''finding.created'' ''Finding'' label None ''FAIL'') (clk 1) m
                      else m
               | _ \<Rightarrow> m)
      in if item_evidenceAttached patch = Some True
         then addAuditEvent (technician_event ''evidence.attached'' ''Evidence'' label None ''ATTACHED'') (clk 2) m
         else m)"

definition technicianSignOff :: "world \<Rightarrow> string \<Rightarrow> string \<Rightarrow> (nat \<Rightarrow> int) \<Rightarrow> MroWorld \<Rightarrow> MroWorld" where
  "technicianSignOff W i technicianId clk m =
     (let timestamp = toISOString (clk 0);
          m = update_submission i (\<lambda>r. r\<lparr>chk_technicianSignOff := Some (sign_off technicianId timestamp)\<rparr>) m
      in addAuditEvent (technician_event ''checklist.technician_signoff'' ''WorkOrder'' (work_order_label W i) None
           ''SIGNED_OFF'') (clk 1) m)"

definition truthy_option :: "string option \<Rightarrow> bool" where
  "truthy_option v \<longleftrightarrow> v \<noteq> None \<and> v \<noteq> Some []"

definition submitForInspection :: "world \<Rightarrow> string \<Rightarrow> (nat \<Rightarrow> int) \<Rightarrow> MroWorld \<Rightarrow> MroWorld" where
  "submitForInspection W i clk m =
     (let timestamp = toISOString (clk 0);
          m = update_submission i (\<lambda>r. r\<lparr>chk_submissionStatus := SUB_SUBMITTED, chk_submittedAt := Some timestamp\<rparr>) m;
          label = work_order_label W i;
          m = addAuditEvent (technician_event ''work_order.submitted_for_inspection'' ''WorkOrder'' label
                (Some ''IN_PROGRESS'') ''WAITING_INSPECTION'') (clk 1) m;
          hasInspector = (case getWorkOrderById W i of None \<Rightarrow> False | Some w \<Rightarrow> truthy_option (wo_inspectorId w))
      in addAuditEvent
           \<lparr>ain_actor = (if hasInspector then ''Prototype Inspector'' else ''System''), ain_actorRole = ''Inspector'',
            ain_action = ''inspection.review_started'', ain_objectType = ''Inspection'', ain_objectLabel = label,
            ain_previousState = None, ain_newState = Some ''PENDING_INSPECTION'', ain_reason = None,
            ain_timestamp = None\<rparr> (clk 2) m)"

definition decision_action :: "InspectorReviewStatus \<Rightarrow> string" where
  "decision_action s = (case s of
     IR_PENDING_INSPECTION \<Rightarrow> ''inspection.review_started''
   | IR_APPROVED \<Rightarrow> ''inspection.approved''
   | IR_REJECTED \<Rightarrow> ''inspection.rejected''
   | IR_RETURNED_FOR_CORRECTION \<Rightarrow> ''inspection.returned_for_correction'')"

definition decision_text :: "InspectorReviewStatus \<Rightarrow> string" where
  "decision_text s = (case s of
     IR_PENDING_INSPECTION \<Rightarrow> ''PENDING_INSPECTION'' | IR_APPROVED \<Rightarrow> ''APPROVED'' | IR_REJECTED \<Rightarrow> ''REJECTED''
   | IR_RETURNED_FOR_CORRECTION \<Rightarrow> ''RETURNED_FOR_CORRECTION'')"

definition submitInspectorDecision ::
  "world \<Rightarrow> string \<Rightarrow> InspectorReviewStatus \<Rightarrow> string \<Rightarrow> (nat \<Rightarrow> int) \<Rightarrow> MroWorld \<Rightarrow> MroWorld" where
  "submitInspectorDecision W i status comments clk m =
     (let timestamp = toISOString (clk 0);
          m = update_submission i (\<lambda>r. r\<lparr>chk_inspectorDecisionStatus := status, chk_inspectorComments := comments,
                chk_inspectorReviewedAt := Some timestamp\<rparr>) m
      in addAuditEvent
           \<lparr>ain_actor = ''Prototype Inspector'', ain_actorRole = ''Inspector'', ain_action = decision_action status,
            ain_objectType = ''Inspection'', ain_objectLabel = work_order_label W i,
            ain_previousState = Some ''PENDING_INSPECTION'', ain_newState = Some (decision_text status),
            ain_reason = (if comments = [] then None else Some comments), ain_timestamp = None\<rparr> (clk 1) m)"

definition useChecklistRecord :: "string \<Rightarrow> MroWorld \<Rightarrow> WorkOrderChecklistRecord option" where
  "useChecklistRecord i m = map_of (mro_submissions m) i"

section \<open>The machine\<close>

datatype MroEvent =
    McItem string string ChecklistItemState "nat \<Rightarrow> int"
  | McSignOff string string "nat \<Rightarrow> int"
  | McSubmit string "nat \<Rightarrow> int"
  | McDecide string InspectorReviewStatus string "nat \<Rightarrow> int"
  | McAudit AuditInput int

fun mro_step :: "world \<Rightarrow> MroWorld \<Rightarrow> MroEvent \<Rightarrow> MroWorld" where
  "mro_step W m (McItem i item patch clk) = updateChecklistItem W i item patch clk m"
| "mro_step W m (McSignOff i t clk) = technicianSignOff W i t clk m"
| "mro_step W m (McSubmit i clk) = submitForInspection W i clk m"
| "mro_step W m (McDecide i st c clk) = submitInspectorDecision W i st c clk m"
| "mro_step W m (McAudit ev now) = addAuditEvent ev now m"

text \<open>From \<open>m\<close> to \<open>m'\<close> the log grew by the events of the counter values in between, newest first.\<close>

definition live_ids :: "nat \<Rightarrow> nat \<Rightarrow> string list" where
  "live_ids a b = map live_audit_id (rev [Suc a..<Suc b])"

definition mro_extends :: "MroWorld \<Rightarrow> MroWorld \<Rightarrow> bool" where
  "mro_extends m m' \<longleftrightarrow> mro_counter m \<le> mro_counter m' \<and>
     (\<exists>new. mro_auditLog m' = new @ mro_auditLog m \<and> map au_id new = live_ids (mro_counter m) (mro_counter m')) \<and>
     map fst (mro_submissions m') = map fst (mro_submissions m)"

lemma live_ids_append: "a \<le> b \<Longrightarrow> b \<le> c \<Longrightarrow> live_ids b c @ live_ids a b = live_ids a c"
proof -
  assume "a \<le> b" "b \<le> c"
  then have "[Suc a..<Suc c] = [Suc a..<Suc b] @ [Suc b..<Suc c]"
    using upt_add_eq_append [of "Suc a" "Suc b" "c - b"] by (simp del: upt_Suc)
  then show ?thesis by (simp add: live_ids_def del: upt_Suc)
qed

lemma live_ids_distinct: "distinct (live_ids a b)"
  by (simp add: live_ids_def distinct_map live_audit_id_def inj_on_def)

lemma extends_refl: "mro_extends m m"
  by (simp add: mro_extends_def live_ids_def)

lemma extends_trans: "mro_extends m n \<Longrightarrow> mro_extends n q \<Longrightarrow> mro_extends m q"
proof -
  assume mn: "mro_extends m n" and nq: "mro_extends n q"
  obtain a where a: "mro_auditLog n = a @ mro_auditLog m" "map au_id a = live_ids (mro_counter m) (mro_counter n)"
    using mn by (auto simp: mro_extends_def)
  obtain b where b: "mro_auditLog q = b @ mro_auditLog n" "map au_id b = live_ids (mro_counter n) (mro_counter q)"
    using nq by (auto simp: mro_extends_def)
  have "map au_id (b @ a) = live_ids (mro_counter m) (mro_counter q)"
    using mn nq live_ids_append by (simp add: a b mro_extends_def)
  then show ?thesis using mn nq by (auto simp: mro_extends_def a b intro!: exI [of _ "b @ a"])
qed

lemma extends_audit: "mro_extends m (addAuditEvent ev now m)"
  by (simp add: mro_extends_def addAuditEvent_def audit_event_def live_ids_def Let_def)

lemma put_key_keys: "map_of ps k \<noteq> None \<Longrightarrow> map fst (put_key k v ps) = map fst ps"
  by (induction ps) auto

lemma extends_update: "mro_extends m (update_submission i f m)"
  by (simp add: mro_extends_def update_submission_def live_ids_def put_key_keys split: option.split)

lemmas extends_intros = extends_refl extends_audit extends_update extends_trans [OF _ extends_audit]

lemma extends_step: "mro_extends m (mro_step W m e)"
  by (cases e)
    (auto simp: updateChecklistItem_def technicianSignOff_def submitForInspection_def submitInspectorDecision_def Let_def
      intro!: extends_intros split: option.split)

interpretation mro: monotone_machine "mro_step W" mro_extends for W
  by unfold_locales (rule extends_refl extends_step | erule (1) extends_trans)+

section \<open>Properties\<close>

text \<open>
  The audit log of the execution state only grows: after any sequence of checklist updates, sign-offs,
  submissions, inspector decisions and events, the old log is the tail of the new one, the new events
  carry consecutive live identifiers, newest first and without repetition, and the work orders that
  have a checklist record are the same.
\<close>

theorem mro_audit_append_only:
  "let m' = run (mro_step W) m es in
   \<exists>new. mro_auditLog m' = new @ mro_auditLog m \<and> map au_id new = live_ids (mro_counter m) (mro_counter m') \<and>
     distinct (map au_id new) \<and> length new = mro_counter m' - mro_counter m \<and>
     map fst (mro_submissions m') = map fst (mro_submissions m)"
proof -
  have e: "mro_extends m (run (mro_step W) m es)" by (rule mro.run_rel)
  then obtain new where n: "mro_auditLog (run (mro_step W) m es) = new @ mro_auditLog m"
      "map au_id new = live_ids (mro_counter m) (mro_counter (run (mro_step W) m es))"
    unfolding mro_extends_def by blast
  have "length new = length (live_ids (mro_counter m) (mro_counter (run (mro_step W) m es)))"
    by (simp flip: n(2))
  then show ?thesis using e n live_ids_distinct by (auto simp: mro_extends_def Let_def live_ids_def)
qed

text \<open>The operations check nothing: an inspector can approve a checklist that was never submitted or signed.\<close>

lemma approval_without_submission:
  "let m = submitInspectorDecision W ''wo-1044'' IR_APPROVED [] clk (mro_init seed) in
   \<exists>r. useChecklistRecord ''wo-1044'' m = Some r \<and> chk_submissionStatus r = SUB_IN_PROGRESS \<and>
     chk_technicianSignOff r = None \<and> chk_inspectorDecisionStatus r = IR_APPROVED"
  by (simp add: submitInspectorDecision_def mro_init_def buildInitialRecords_def update_submission_def addAuditEvent_def
      useChecklistRecord_def Let_def)

text \<open>A work order without a checklist record changes nothing and is logged all the same.\<close>

lemma submission_without_record:
  assumes "map_of (mro_submissions m) i = None"
  shows "mro_submissions (submitForInspection W i clk m) = mro_submissions m \<and>
    mro_counter (submitForInspection W i clk m) = mro_counter m + 2"
  using assms by (simp add: submitForInspection_def update_submission_def addAuditEvent_def Let_def)

end
