(* ===== verification/Badges.thy ===== *)
theory Badges
  imports Labels Gates
begin

text \<open>
  The status badges every page shows (\<open>src/frontend/components/status/StatusBadge.tsx\<close> and
  \<open>src/frontend/components/readiness/ReadinessIndicator.tsx\<close>): a table from status text to one of
  fifteen kinds of badge for each vocabulary, and what is shown for a text outside its table. Shown: a
  green badge is given only to the statuses a table lists as good, so a missing, misspelt or unknown
  status is never green; and on the statuses the control logic computes the badges say what it means.
\<close>


datatype BadgeKind =
    BK_APPLICABLE
  | BK_NOT_APPLICABLE
  | BK_REVIEW_REQUIRED
  | BK_INSUFFICIENT_DATA
  | BK_COMPLIANT
  | BK_NON_COMPLIANT
  | BK_TRUE
  | BK_FALSE
  | BK_UNKNOWN
  | BK_ACTIVE
  | BK_STORED
  | BK_WRITTEN_OFF
  | BK_VERIFIED
  | BK_UNVERIFIED
  | BK_PENDING

text \<open>What a badge function returns.\<close>

record Badge =
  badge_status :: BadgeKind
  badge_label :: string

primrec badge_text :: "BadgeKind \<Rightarrow> string" where
  "badge_text BK_APPLICABLE = ''Applicable''"
| "badge_text BK_NOT_APPLICABLE = ''Not Applicable''"
| "badge_text BK_REVIEW_REQUIRED = ''Review Required''"
| "badge_text BK_INSUFFICIENT_DATA = ''Insufficient Data''"
| "badge_text BK_COMPLIANT = ''Compliant''"
| "badge_text BK_NON_COMPLIANT = ''Non-Compliant''"
| "badge_text BK_TRUE = ''True''"
| "badge_text BK_FALSE = ''False''"
| "badge_text BK_UNKNOWN = ''Unknown''"
| "badge_text BK_ACTIVE = ''Active''"
| "badge_text BK_STORED = ''Stored''"
| "badge_text BK_WRITTEN_OFF = ''Written Off''"
| "badge_text BK_VERIFIED = ''Verified''"
| "badge_text BK_UNVERIFIED = ''Unverified''"
| "badge_text BK_PENDING = ''Pending''"

primrec badge_class :: "BadgeKind \<Rightarrow> string" where
  "badge_class BK_APPLICABLE = ''ac-badge-applicable''"
| "badge_class BK_NOT_APPLICABLE = ''ac-badge-not_applicable''"
| "badge_class BK_REVIEW_REQUIRED = ''ac-badge-review_required''"
| "badge_class BK_INSUFFICIENT_DATA = ''ac-badge-insufficient_data''"
| "badge_class BK_COMPLIANT = ''ac-badge-compliant''"
| "badge_class BK_NON_COMPLIANT = ''ac-badge-non_compliant''"
| "badge_class BK_TRUE = ''ac-badge-true''"
| "badge_class BK_FALSE = ''ac-badge-false''"
| "badge_class BK_UNKNOWN = ''ac-badge-unknown''"
| "badge_class BK_ACTIVE = ''ac-badge-active''"
| "badge_class BK_STORED = ''ac-badge-stored''"
| "badge_class BK_WRITTEN_OFF = ''ac-badge-neutral''"
| "badge_class BK_VERIFIED = ''ac-badge-compliant''"
| "badge_class BK_UNVERIFIED = ''ac-badge-review_required''"
| "badge_class BK_PENDING = ''ac-badge-unknown''"

text \<open>\<open>StatusBadge\<close>: the classes and the text of the badge. Here the label is optional.\<close>

definition render_badge :: "BadgeKind \<Rightarrow> string option \<Rightarrow> string \<times> string" where
  "render_badge status label = (''ac-badge '' @ badge_class status, or_else label (badge_text status))"

definition WORK_ORDER_STATUS_MAP :: "(string \<times> BadgeKind) list" where
  "WORK_ORDER_STATUS_MAP = [
     (''DRAFT'', BK_PENDING),
     (''OPEN'', BK_PENDING),
     (''PLANNED'', BK_PENDING),
     (''ASSIGNED'', BK_PENDING),
     (''IN_PROGRESS'', BK_REVIEW_REQUIRED),
     (''ON_HOLD'', BK_REVIEW_REQUIRED),
     (''INSPECTION'', BK_INSUFFICIENT_DATA),
     (''COMPLETED'', BK_COMPLIANT),
     (''CLOSED'', BK_COMPLIANT),
     (''CANCELLED'', BK_UNKNOWN)]"

definition TAT_STATUS_MAP :: "(string \<times> BadgeKind) list" where
  "TAT_STATUS_MAP = [
     (''ON_TRACK'', BK_COMPLIANT),
     (''AT_RISK'', BK_REVIEW_REQUIRED),
     (''DELAYED'', BK_NON_COMPLIANT),
     (''UNKNOWN'', BK_INSUFFICIENT_DATA)]"

definition WORK_PACKAGE_STATUS_MAP :: "(string \<times> BadgeKind) list" where
  "WORK_PACKAGE_STATUS_MAP = [
     (''NOT_STARTED'', BK_PENDING),
     (''IN_PROGRESS'', BK_REVIEW_REQUIRED),
     (''BLOCKED'', BK_NON_COMPLIANT),
     (''READY_FOR_INSPECTION'', BK_INSUFFICIENT_DATA),
     (''COMPLETED'', BK_COMPLIANT)]"

definition INSPECTOR_REVIEW_STATUS_MAP :: "(string \<times> BadgeKind) list" where
  "INSPECTOR_REVIEW_STATUS_MAP = [
     (''PENDING_INSPECTION'', BK_INSUFFICIENT_DATA),
     (''APPROVED'', BK_COMPLIANT),
     (''REJECTED'', BK_NON_COMPLIANT),
     (''RETURNED_FOR_CORRECTION'', BK_REVIEW_REQUIRED)]"

definition PROJECT_STATUS_MAP :: "(string \<times> BadgeKind) list" where
  "PROJECT_STATUS_MAP = [
     (''PLANNED'', BK_PENDING),
     (''IN_PROGRESS'', BK_REVIEW_REQUIRED),
     (''ON_HOLD'', BK_UNKNOWN),
     (''COMPLETED'', BK_COMPLIANT),
     (''CANCELLED'', BK_UNKNOWN)]"

definition PRIORITY_MAP :: "(string \<times> BadgeKind) list" where
  "PRIORITY_MAP = [
     (''LOW'', BK_COMPLIANT),
     (''MEDIUM'', BK_PENDING),
     (''HIGH'', BK_REVIEW_REQUIRED),
     (''CRITICAL'', BK_NON_COMPLIANT)]"

definition COMPLIANCE_OBLIGATION_STATUS_MAP :: "(string \<times> BadgeKind) list" where
  "COMPLIANCE_OBLIGATION_STATUS_MAP = [
     (''COMPLIANT'', BK_COMPLIANT),
     (''NON_COMPLIANT'', BK_NON_COMPLIANT),
     (''DUE'', BK_PENDING),
     (''OVERDUE'', BK_NON_COMPLIANT),
     (''IN_PROGRESS'', BK_REVIEW_REQUIRED),
     (''BLOCKED'', BK_INSUFFICIENT_DATA),
     (''REVIEW_REQUIRED'', BK_REVIEW_REQUIRED),
     (''NOT_APPLICABLE'', BK_NOT_APPLICABLE),
     (''NOT_EVALUATED'', BK_UNKNOWN),
     (''PENDING'', BK_PENDING)]"

definition EVIDENCE_VERIFICATION_MAP :: "(string \<times> BadgeKind) list" where
  "EVIDENCE_VERIFICATION_MAP = [
     (''VERIFIED'', BK_VERIFIED),
     (''UNVERIFIED'', BK_UNVERIFIED),
     (''REJECTED'', BK_NON_COMPLIANT)]"

definition CHECKLIST_RESULT_MAP :: "(string \<times> BadgeKind) list" where
  "CHECKLIST_RESULT_MAP = [
     (''PASS'', BK_COMPLIANT),
     (''FAIL'', BK_NON_COMPLIANT),
     (''NOT_APPLICABLE'', BK_UNKNOWN),
     (''UNKNOWN'', BK_INSUFFICIENT_DATA)]"

definition DEFECT_STATUS_MAP :: "(string \<times> BadgeKind) list" where
  "DEFECT_STATUS_MAP = [
     (''OPEN'', BK_NON_COMPLIANT),
     (''DEFERRED'', BK_UNKNOWN),
     (''RESOLVED'', BK_COMPLIANT)]"

definition PART_STATUS_MAP :: "(string \<times> BadgeKind) list" where
  "PART_STATUS_MAP = [
     (''IN_STOCK'', BK_COMPLIANT),
     (''ORDERED'', BK_PENDING),
     (''AWAITING_RECEIPT'', BK_REVIEW_REQUIRED)]"

definition CERTIFICATE_VERIFICATION_MAP :: "(string \<times> BadgeKind) list" where
  "CERTIFICATE_VERIFICATION_MAP = [
     (''PRESENT'', BK_COMPLIANT),
     (''MISSING'', BK_REVIEW_REQUIRED),
     (''REFERENCE_UNKNOWN'', BK_INSUFFICIENT_DATA),
     (''NOT_VERIFIED'', BK_UNVERIFIED)]"

definition TRACEABILITY_STATUS_MAP :: "(string \<times> BadgeKind) list" where
  "TRACEABILITY_STATUS_MAP = [
     (''TRACEABLE'', BK_COMPLIANT),
     (''PARTIAL'', BK_REVIEW_REQUIRED),
     (''UNKNOWN'', BK_INSUFFICIENT_DATA)]"

definition RISK_LEVEL_MAP :: "(string \<times> BadgeKind) list" where
  "RISK_LEVEL_MAP = [
     (''LOW'', BK_COMPLIANT),
     (''MEDIUM'', BK_REVIEW_REQUIRED),
     (''HIGH'', BK_NON_COMPLIANT)]"

definition OPERATIONAL_STATUS_MAP :: "(string \<times> BadgeKind) list" where
  "OPERATIONAL_STATUS_MAP = [
     (''OPERATIONAL'', BK_COMPLIANT),
     (''UNDER_MAINTENANCE'', BK_REVIEW_REQUIRED),
     (''AOG'', BK_NON_COMPLIANT),
     (''STORED'', BK_STORED),
     (''WRITTEN_OFF'', BK_WRITTEN_OFF)]"

definition GENERIC_STATUS_MAP :: "(string \<times> BadgeKind) list" where
  "GENERIC_STATUS_MAP = [
     (''ACTIVE'', BK_ACTIVE),
     (''OPEN'', BK_PENDING),
     (''PENDING'', BK_PENDING),
     (''IN_PROGRESS'', BK_REVIEW_REQUIRED),
     (''COMPLETED'', BK_COMPLIANT),
     (''DONE'', BK_COMPLIANT),
     (''CANCELLED'', BK_UNKNOWN),
     (''CLOSED'', BK_COMPLIANT)]"

definition EVIDENCE_FILE_STATUS_MAP :: "(string \<times> BadgeKind) list" where
  "EVIDENCE_FILE_STATUS_MAP = [
     (''PENDING'', BK_PENDING),
     (''STORED'', BK_COMPLIANT),
     (''FAILED'', BK_NON_COMPLIANT),
     (''DELETED'', BK_WRITTEN_OFF)]"

definition LIFECYCLE_EVENT_STATUS_MAP :: "(string \<times> BadgeKind) list" where
  "LIFECYCLE_EVENT_STATUS_MAP = [
     (''BATTERY_INSTALLATION'', BK_ACTIVE),
     (''COMPONENT_INSTALLATION'', BK_ACTIVE),
     (''BATTERY_REMOVAL'', BK_NON_COMPLIANT),
     (''COMPONENT_REMOVAL'', BK_NON_COMPLIANT)]"

definition LIFECYCLE_EVENT_LABEL_MAP :: "(string \<times> string) list" where
  "LIFECYCLE_EVENT_LABEL_MAP = [
     (''BATTERY_INSTALLATION'', ''Battery Installed''),
     (''COMPONENT_INSTALLATION'', ''Component Installed''),
     (''BATTERY_REMOVAL'', ''Battery Removed''),
     (''COMPONENT_REMOVAL'', ''Component Removed'')]"

definition MAINTENANCE_DUE_STATUS_MAP :: "(string \<times> BadgeKind) list" where
  "MAINTENANCE_DUE_STATUS_MAP = [
     (''NOT_DUE'', BK_COMPLIANT),
     (''DUE_SOON'', BK_REVIEW_REQUIRED),
     (''OVERDUE'', BK_NON_COMPLIANT),
     (''UNKNOWN'', BK_INSUFFICIENT_DATA)]"

definition ASSET_STATUS_MAP :: "(string \<times> BadgeKind) list" where
  "ASSET_STATUS_MAP = [
     (''ACTIVE'', BK_COMPLIANT),
     (''GOOD'', BK_COMPLIANT),
     (''READY'', BK_COMPLIANT),
     (''GROUNDED'', BK_NON_COMPLIANT),
     (''CRITICAL'', BK_NON_COMPLIANT),
     (''BLOCKED'', BK_NON_COMPLIANT)]"

definition OPERATIONAL_STATE_MAP :: "(string \<times> BadgeKind) list" where
  "OPERATIONAL_STATE_MAP = [
     (''AVAILABLE'', BK_COMPLIANT),
     (''IN_MISSION'', BK_ACTIVE),
     (''UNDER_INSPECTION'', BK_INSUFFICIENT_DATA),
     (''MAINTENANCE'', BK_REVIEW_REQUIRED),
     (''GROUNDED'', BK_NON_COMPLIANT),
     (''AOG'', BK_NON_COMPLIANT),
     (''INACTIVE'', BK_UNKNOWN),
     (''RETIRED'', BK_WRITTEN_OFF)]"

definition INTELLIGENCE_RISK_PRIORITY_MAP :: "(string \<times> BadgeKind) list" where
  "INTELLIGENCE_RISK_PRIORITY_MAP = [
     (''LOW'', BK_COMPLIANT),
     (''MEDIUM'', BK_PENDING),
     (''HIGH'', BK_REVIEW_REQUIRED),
     (''CRITICAL'', BK_NON_COMPLIANT),
     (''UNKNOWN'', BK_INSUFFICIENT_DATA)]"

definition INTELLIGENCE_READINESS_MAP :: "(string \<times> BadgeKind) list" where
  "INTELLIGENCE_READINESS_MAP = [
     (''READY'', BK_COMPLIANT),
     (''BLOCKED'', BK_NON_COMPLIANT),
     (''UNKNOWN'', BK_INSUFFICIENT_DATA)]"

definition INTELLIGENCE_DECISION_MAP :: "(string \<times> BadgeKind) list" where
  "INTELLIGENCE_DECISION_MAP = [
     (''NO_ACTION_REQUIRED'', BK_COMPLIANT),
     (''MONITOR'', BK_REVIEW_REQUIRED),
     (''ACTION_REQUIRED'', BK_NON_COMPLIANT),
     (''IMMEDIATE_ACTION_REQUIRED'', BK_NON_COMPLIANT),
     (''INSUFFICIENT_DATA'', BK_INSUFFICIENT_DATA)]"

definition INTELLIGENCE_DECISION_LABEL_MAP :: "(string \<times> string) list" where
  "INTELLIGENCE_DECISION_LABEL_MAP = [
     (''NO_ACTION_REQUIRED'', ''No Action Required''),
     (''MONITOR'', ''Monitor''),
     (''ACTION_REQUIRED'', ''Action Required''),
     (''IMMEDIATE_ACTION_REQUIRED'', ''Immediate Action Required''),
     (''INSUFFICIENT_DATA'', ''Insufficient Data'')]"

definition INTELLIGENCE_AEROSPACE_STATUS_MAP :: "(string \<times> BadgeKind) list" where
  "INTELLIGENCE_AEROSPACE_STATUS_MAP = [
     (''NOMINAL'', BK_COMPLIANT),
     (''DEGRADED'', BK_REVIEW_REQUIRED),
     (''RESTRICTED'', BK_NON_COMPLIANT),
     (''GROUNDED_INTEL'', BK_NON_COMPLIANT),
     (''UNKNOWN_INTEL'', BK_INSUFFICIENT_DATA)]"

text \<open>\<open>MAP[s] ?? "UNKNOWN"\<close>. The keys every object inherits, such as \<open>constructor\<close>, are left aside.\<close>

definition badge_of :: "(string \<times> BadgeKind) list \<Rightarrow> string \<Rightarrow> BadgeKind" where
  "badge_of m s = or_else (map_of m s) BK_UNKNOWN"

definition workOrderStatusBadge :: "string \<Rightarrow> Badge" where
  "workOrderStatusBadge status = \<lparr>badge_status = badge_of WORK_ORDER_STATUS_MAP status, badge_label = unscore status\<rparr>"

definition tatStatusBadge :: "string \<Rightarrow> Badge" where
  "tatStatusBadge status = \<lparr>badge_status = badge_of TAT_STATUS_MAP status, badge_label = unscore status\<rparr>"

definition overdueBadge :: Badge where
  "overdueBadge = \<lparr>badge_status = BK_NON_COMPLIANT, badge_label = ''Overdue''\<rparr>"

definition workPackageStatusBadge :: "string \<Rightarrow> Badge" where
  "workPackageStatusBadge status = \<lparr>badge_status = badge_of WORK_PACKAGE_STATUS_MAP status, badge_label = unscore status\<rparr>"

definition inspectorReviewStatusBadge :: "string \<Rightarrow> Badge" where
  "inspectorReviewStatusBadge status = \<lparr>badge_status = badge_of INSPECTOR_REVIEW_STATUS_MAP status, badge_label = unscore status\<rparr>"

definition projectStatusBadge :: "string \<Rightarrow> Badge" where
  "projectStatusBadge status = \<lparr>badge_status = badge_of PROJECT_STATUS_MAP status, badge_label = unscore status\<rparr>"

definition priorityBadge :: "string \<Rightarrow> Badge" where
  "priorityBadge priority = \<lparr>badge_status = badge_of PRIORITY_MAP priority, badge_label = priority\<rparr>"

definition complianceObligationStatusBadge :: "string \<Rightarrow> Badge" where
  "complianceObligationStatusBadge status = \<lparr>badge_status = badge_of COMPLIANCE_OBLIGATION_STATUS_MAP status, badge_label = unscore status\<rparr>"

definition evidenceVerificationBadge :: "string \<Rightarrow> Badge" where
  "evidenceVerificationBadge status = \<lparr>badge_status = badge_of EVIDENCE_VERIFICATION_MAP status, badge_label = unscore status\<rparr>"

definition checklistResultBadge :: "string \<Rightarrow> Badge" where
  "checklistResultBadge result = \<lparr>badge_status = badge_of CHECKLIST_RESULT_MAP result, badge_label = unscore result\<rparr>"

definition defectStatusBadge :: "string \<Rightarrow> Badge" where
  "defectStatusBadge status = \<lparr>badge_status = badge_of DEFECT_STATUS_MAP status, badge_label = status\<rparr>"

definition partStatusBadge :: "string \<Rightarrow> Badge" where
  "partStatusBadge status = \<lparr>badge_status = badge_of PART_STATUS_MAP status, badge_label = unscore status\<rparr>"

definition certificateVerificationBadge :: "string \<Rightarrow> Badge" where
  "certificateVerificationBadge status = \<lparr>badge_status = badge_of CERTIFICATE_VERIFICATION_MAP status, badge_label = unscore status\<rparr>"

definition traceabilityStatusBadge :: "string \<Rightarrow> Badge" where
  "traceabilityStatusBadge status = \<lparr>badge_status = badge_of TRACEABILITY_STATUS_MAP status, badge_label = unscore status\<rparr>"

definition riskLevelBadge :: "string \<Rightarrow> Badge" where
  "riskLevelBadge risk = \<lparr>badge_status = badge_of RISK_LEVEL_MAP risk, badge_label = risk\<rparr>"

definition operationalStatusBadge :: "string \<Rightarrow> Badge" where
  "operationalStatusBadge status = \<lparr>badge_status = badge_of OPERATIONAL_STATUS_MAP status, badge_label = unscore status\<rparr>"

definition genericStatusBadge :: "string \<Rightarrow> Badge" where
  "genericStatusBadge status = \<lparr>badge_status = badge_of GENERIC_STATUS_MAP status, badge_label = unscore status\<rparr>"

definition evidenceFileStatusBadge :: "string \<Rightarrow> Badge" where
  "evidenceFileStatusBadge status = \<lparr>badge_status = badge_of EVIDENCE_FILE_STATUS_MAP status, badge_label = unscore status\<rparr>"

definition lifecycleEventBadge :: "string \<Rightarrow> Badge" where
  "lifecycleEventBadge eventType = \<lparr>badge_status = badge_of LIFECYCLE_EVENT_STATUS_MAP eventType, badge_label = or_else (map_of LIFECYCLE_EVENT_LABEL_MAP eventType) (unscore eventType)\<rparr>"

definition maintenanceDueStatusBadge :: "string \<Rightarrow> Badge" where
  "maintenanceDueStatusBadge status = \<lparr>badge_status = badge_of MAINTENANCE_DUE_STATUS_MAP status, badge_label = unscore status\<rparr>"

definition assetStatusBadge :: "string \<Rightarrow> Badge" where
  "assetStatusBadge status = \<lparr>badge_status = badge_of ASSET_STATUS_MAP status, badge_label = status\<rparr>"

definition findingSeverityBadge :: "string \<Rightarrow> Badge" where
  "findingSeverityBadge severity = \<lparr>badge_status = (if severity = ''CRITICAL'' \<or> severity = ''MAJOR'' then BK_NON_COMPLIANT else BK_PENDING), badge_label = severity\<rparr>"

definition findingStatusBadge :: "string \<Rightarrow> Badge" where
  "findingStatusBadge status = \<lparr>badge_status = (if status = ''CLOSED'' then BK_COMPLIANT else if status = ''IN_PROGRESS'' then BK_REVIEW_REQUIRED else BK_PENDING), badge_label = unscore status\<rparr>"

definition operationalStateBadge :: "string \<Rightarrow> Badge" where
  "operationalStateBadge state = \<lparr>badge_status = badge_of OPERATIONAL_STATE_MAP state, badge_label = unscore state\<rparr>"

definition intelligenceRiskLevelBadge :: "string \<Rightarrow> Badge" where
  "intelligenceRiskLevelBadge level = \<lparr>badge_status = badge_of INTELLIGENCE_RISK_PRIORITY_MAP level, badge_label = level\<rparr>"

definition intelligenceReadinessBadge :: "string \<Rightarrow> Badge" where
  "intelligenceReadinessBadge state = \<lparr>badge_status = badge_of INTELLIGENCE_READINESS_MAP state, badge_label = state\<rparr>"

definition intelligenceDecisionBadge :: "string \<Rightarrow> Badge" where
  "intelligenceDecisionBadge state = \<lparr>badge_status = badge_of INTELLIGENCE_DECISION_MAP state, badge_label = or_else (map_of INTELLIGENCE_DECISION_LABEL_MAP state) (unscore state)\<rparr>"

definition intelligenceAerospaceStatusBadge :: "string \<Rightarrow> Badge" where
  "intelligenceAerospaceStatusBadge status = \<lparr>badge_status = badge_of INTELLIGENCE_AEROSPACE_STATUS_MAP status, badge_label = unscore status\<rparr>"

text \<open>\<open>ReadinessIndicator.tsx\<close>.\<close>

definition readinessStatusBadge :: "string \<Rightarrow> Badge" where
  "readinessStatusBadge status =
     (if status = ''READY'' then \<lparr>badge_status = BK_COMPLIANT, badge_label = ''Ready''\<rparr>
      else if status = ''BLOCKED'' then \<lparr>badge_status = BK_NON_COMPLIANT, badge_label = ''Blocked''\<rparr>
      else \<lparr>badge_status = BK_UNKNOWN, badge_label = status\<rparr>)"

text \<open>The line beside the badge of \<open>ReadinessIndicator\<close>: \<open>None\<close> when there is no blocker.\<close>

definition blocker_line :: "'b list \<Rightarrow> string option" where
  "blocker_line blockers =
     (if length blockers > 0
      then Some (show_nat (length blockers) @ '' blocker'' @ (if length blockers = 1 then '''' else ''s''))
      else None)"

section \<open>The statuses of the control logic\<close>

primrec lit_TatStatus :: "TatStatus \<Rightarrow> string" where
  "lit_TatStatus TAT_ON_TRACK = ''ON_TRACK''"
| "lit_TatStatus TAT_AT_RISK = ''AT_RISK''"
| "lit_TatStatus TAT_DELAYED = ''DELAYED''"
| "lit_TatStatus TAT_UNKNOWN = ''UNKNOWN''"

primrec lit_OperationalStatus :: "OperationalStatus \<Rightarrow> string" where
  "lit_OperationalStatus OS_OPERATIONAL = ''OPERATIONAL''"
| "lit_OperationalStatus OS_UNDER_MAINTENANCE = ''UNDER_MAINTENANCE''"
| "lit_OperationalStatus OS_AOG = ''AOG''"
| "lit_OperationalStatus OS_STORED = ''STORED''"
| "lit_OperationalStatus OS_WRITTEN_OFF = ''WRITTEN_OFF''"

primrec lit_RiskLevel :: "RiskLevel \<Rightarrow> string" where
  "lit_RiskLevel RL_LOW = ''LOW''"
| "lit_RiskLevel RL_MEDIUM = ''MEDIUM''"
| "lit_RiskLevel RL_HIGH = ''HIGH''"

section \<open>Lemmas\<close>

text \<open>The classes \<open>globals.css\<close> paints in the colour of compliance, and the kinds that have them.\<close>

definition green_classes :: "string list" where
  "green_classes = [''ac-badge-compliant'', ''ac-badge-not_applicable'', ''ac-badge-true'', ''ac-badge-active'']"

definition green :: "Badge \<Rightarrow> bool" where
  "green b \<longleftrightarrow> badge_class (badge_status b) \<in> set green_classes"

definition green_kinds :: "BadgeKind set" where
  "green_kinds = {BK_COMPLIANT, BK_VERIFIED, BK_NOT_APPLICABLE, BK_TRUE, BK_ACTIVE}"

definition badge_functions :: "(string \<Rightarrow> Badge) list" where
  "badge_functions =
     [workOrderStatusBadge, tatStatusBadge, workPackageStatusBadge, inspectorReviewStatusBadge, projectStatusBadge,
      priorityBadge, complianceObligationStatusBadge, evidenceVerificationBadge, checklistResultBadge,
      defectStatusBadge, partStatusBadge, certificateVerificationBadge, traceabilityStatusBadge, riskLevelBadge,
      operationalStatusBadge, genericStatusBadge, evidenceFileStatusBadge, lifecycleEventBadge,
      maintenanceDueStatusBadge, assetStatusBadge, findingSeverityBadge, findingStatusBadge, operationalStateBadge,
      intelligenceRiskLevelBadge, intelligenceReadinessBadge, intelligenceDecisionBadge,
      intelligenceAerospaceStatusBadge, readinessStatusBadge]"

lemma green_iff: "green b \<longleftrightarrow> badge_status b \<in> green_kinds"
  unfolding green_def green_classes_def green_kinds_def by (cases "badge_status b") simp_all

lemma green_simp [simp]: "green \<lparr>badge_status = k, badge_label = l\<rparr> \<longleftrightarrow> k \<in> green_kinds"
  by (simp add: green_iff)

definition table_greens :: "(string \<times> BadgeKind) list \<Rightarrow> string list" where
  "table_greens m = map fst (filter (\<lambda>(k, v). v \<in> green_kinds) m)"

lemma badge_of_green:
  assumes "distinct (map fst m)"
  shows "{s. badge_of m s \<in> green_kinds} = set (table_greens m)"
proof -
  have "badge_of m s \<in> green_kinds \<longleftrightarrow> s \<in> set (table_greens m)" for s
  proof (cases "map_of m s")
    case None
    then have "(s, v) \<notin> set m" for v by (metis weak_map_of_SomeI not_Some_eq)
    then show ?thesis
      using None by (auto simp: badge_of_def table_greens_def green_kinds_def)
  next
    case (Some v)
    then have "(s, w) \<in> set m \<longleftrightarrow> w = v" for w
      using assms by (metis map_of_eq_Some_iff option.inject)
    then show ?thesis
      using Some by (force simp: badge_of_def table_greens_def)
  qed
  then show ?thesis by blast
qed

text \<open>The statuses each function shows in green.\<close>

definition green_statuses :: "(string \<Rightarrow> Badge) \<Rightarrow> string set" where
  "green_statuses f = {s. green (f s)}"

lemma table_function:
  assumes "\<And>s. badge_status (f s) = badge_of m s" and "distinct (map fst m)"
  shows "green_statuses f = set (table_greens m)"
  unfolding green_statuses_def green_iff assms(1) by (rule badge_of_green [OF assms(2)])

lemma green_workOrderStatusBadge: "green_statuses workOrderStatusBadge = set (table_greens WORK_ORDER_STATUS_MAP)"
  by (rule table_function) (simp_all add: workOrderStatusBadge_def WORK_ORDER_STATUS_MAP_def)

lemma green_tatStatusBadge: "green_statuses tatStatusBadge = set (table_greens TAT_STATUS_MAP)"
  by (rule table_function) (simp_all add: tatStatusBadge_def TAT_STATUS_MAP_def)

lemma green_workPackageStatusBadge: "green_statuses workPackageStatusBadge = set (table_greens WORK_PACKAGE_STATUS_MAP)"
  by (rule table_function) (simp_all add: workPackageStatusBadge_def WORK_PACKAGE_STATUS_MAP_def)

lemma green_inspectorReviewStatusBadge: "green_statuses inspectorReviewStatusBadge = set (table_greens INSPECTOR_REVIEW_STATUS_MAP)"
  by (rule table_function) (simp_all add: inspectorReviewStatusBadge_def INSPECTOR_REVIEW_STATUS_MAP_def)

lemma green_projectStatusBadge: "green_statuses projectStatusBadge = set (table_greens PROJECT_STATUS_MAP)"
  by (rule table_function) (simp_all add: projectStatusBadge_def PROJECT_STATUS_MAP_def)

lemma green_priorityBadge: "green_statuses priorityBadge = set (table_greens PRIORITY_MAP)"
  by (rule table_function) (simp_all add: priorityBadge_def PRIORITY_MAP_def)

lemma green_complianceObligationStatusBadge: "green_statuses complianceObligationStatusBadge = set (table_greens COMPLIANCE_OBLIGATION_STATUS_MAP)"
  by (rule table_function) (simp_all add: complianceObligationStatusBadge_def COMPLIANCE_OBLIGATION_STATUS_MAP_def)

lemma green_evidenceVerificationBadge: "green_statuses evidenceVerificationBadge = set (table_greens EVIDENCE_VERIFICATION_MAP)"
  by (rule table_function) (simp_all add: evidenceVerificationBadge_def EVIDENCE_VERIFICATION_MAP_def)

lemma green_checklistResultBadge: "green_statuses checklistResultBadge = set (table_greens CHECKLIST_RESULT_MAP)"
  by (rule table_function) (simp_all add: checklistResultBadge_def CHECKLIST_RESULT_MAP_def)

lemma green_defectStatusBadge: "green_statuses defectStatusBadge = set (table_greens DEFECT_STATUS_MAP)"
  by (rule table_function) (simp_all add: defectStatusBadge_def DEFECT_STATUS_MAP_def)

lemma green_partStatusBadge: "green_statuses partStatusBadge = set (table_greens PART_STATUS_MAP)"
  by (rule table_function) (simp_all add: partStatusBadge_def PART_STATUS_MAP_def)

lemma green_certificateVerificationBadge: "green_statuses certificateVerificationBadge = set (table_greens CERTIFICATE_VERIFICATION_MAP)"
  by (rule table_function) (simp_all add: certificateVerificationBadge_def CERTIFICATE_VERIFICATION_MAP_def)

lemma green_traceabilityStatusBadge: "green_statuses traceabilityStatusBadge = set (table_greens TRACEABILITY_STATUS_MAP)"
  by (rule table_function) (simp_all add: traceabilityStatusBadge_def TRACEABILITY_STATUS_MAP_def)

lemma green_riskLevelBadge: "green_statuses riskLevelBadge = set (table_greens RISK_LEVEL_MAP)"
  by (rule table_function) (simp_all add: riskLevelBadge_def RISK_LEVEL_MAP_def)

lemma green_operationalStatusBadge: "green_statuses operationalStatusBadge = set (table_greens OPERATIONAL_STATUS_MAP)"
  by (rule table_function) (simp_all add: operationalStatusBadge_def OPERATIONAL_STATUS_MAP_def)

lemma green_genericStatusBadge: "green_statuses genericStatusBadge = set (table_greens GENERIC_STATUS_MAP)"
  by (rule table_function) (simp_all add: genericStatusBadge_def GENERIC_STATUS_MAP_def)

lemma green_evidenceFileStatusBadge: "green_statuses evidenceFileStatusBadge = set (table_greens EVIDENCE_FILE_STATUS_MAP)"
  by (rule table_function) (simp_all add: evidenceFileStatusBadge_def EVIDENCE_FILE_STATUS_MAP_def)

lemma green_lifecycleEventBadge: "green_statuses lifecycleEventBadge = set (table_greens LIFECYCLE_EVENT_STATUS_MAP)"
  by (rule table_function) (simp_all add: lifecycleEventBadge_def LIFECYCLE_EVENT_STATUS_MAP_def)

lemma green_maintenanceDueStatusBadge: "green_statuses maintenanceDueStatusBadge = set (table_greens MAINTENANCE_DUE_STATUS_MAP)"
  by (rule table_function) (simp_all add: maintenanceDueStatusBadge_def MAINTENANCE_DUE_STATUS_MAP_def)

lemma green_assetStatusBadge: "green_statuses assetStatusBadge = set (table_greens ASSET_STATUS_MAP)"
  by (rule table_function) (simp_all add: assetStatusBadge_def ASSET_STATUS_MAP_def)

lemma green_operationalStateBadge: "green_statuses operationalStateBadge = set (table_greens OPERATIONAL_STATE_MAP)"
  by (rule table_function) (simp_all add: operationalStateBadge_def OPERATIONAL_STATE_MAP_def)

lemma green_intelligenceRiskLevelBadge: "green_statuses intelligenceRiskLevelBadge = set (table_greens INTELLIGENCE_RISK_PRIORITY_MAP)"
  by (rule table_function) (simp_all add: intelligenceRiskLevelBadge_def INTELLIGENCE_RISK_PRIORITY_MAP_def)

lemma green_intelligenceReadinessBadge: "green_statuses intelligenceReadinessBadge = set (table_greens INTELLIGENCE_READINESS_MAP)"
  by (rule table_function) (simp_all add: intelligenceReadinessBadge_def INTELLIGENCE_READINESS_MAP_def)

lemma green_intelligenceDecisionBadge: "green_statuses intelligenceDecisionBadge = set (table_greens INTELLIGENCE_DECISION_MAP)"
  by (rule table_function) (simp_all add: intelligenceDecisionBadge_def INTELLIGENCE_DECISION_MAP_def)

lemma green_intelligenceAerospaceStatusBadge: "green_statuses intelligenceAerospaceStatusBadge = set (table_greens INTELLIGENCE_AEROSPACE_STATUS_MAP)"
  by (rule table_function) (simp_all add: intelligenceAerospaceStatusBadge_def INTELLIGENCE_AEROSPACE_STATUS_MAP_def)

lemma green_findings:
  "green_statuses findingSeverityBadge = set []"
  "green_statuses findingStatusBadge = set [''CLOSED'']"
  "green_statuses readinessStatusBadge = set [''READY'']"
  by (auto simp: green_statuses_def green_iff green_kinds_def findingSeverityBadge_def findingStatusBadge_def readinessStatusBadge_def)

lemmas green_tables =
  green_workOrderStatusBadge
  green_tatStatusBadge
  green_workPackageStatusBadge
  green_inspectorReviewStatusBadge
  green_projectStatusBadge
  green_priorityBadge
  green_complianceObligationStatusBadge
  green_evidenceVerificationBadge
  green_checklistResultBadge
  green_defectStatusBadge
  green_partStatusBadge
  green_certificateVerificationBadge
  green_traceabilityStatusBadge
  green_riskLevelBadge
  green_operationalStatusBadge
  green_genericStatusBadge
  green_evidenceFileStatusBadge
  green_lifecycleEventBadge
  green_maintenanceDueStatusBadge
  green_assetStatusBadge
  green_operationalStateBadge
  green_intelligenceRiskLevelBadge
  green_intelligenceReadinessBadge
  green_intelligenceDecisionBadge
  green_intelligenceAerospaceStatusBadge
  green_findings

definition badge_tables :: "(string \<times> BadgeKind) list list" where
  "badge_tables =
     [WORK_ORDER_STATUS_MAP, TAT_STATUS_MAP, WORK_PACKAGE_STATUS_MAP, INSPECTOR_REVIEW_STATUS_MAP,
      PROJECT_STATUS_MAP, PRIORITY_MAP, COMPLIANCE_OBLIGATION_STATUS_MAP, EVIDENCE_VERIFICATION_MAP,
      CHECKLIST_RESULT_MAP, DEFECT_STATUS_MAP, PART_STATUS_MAP, CERTIFICATE_VERIFICATION_MAP,
      TRACEABILITY_STATUS_MAP, RISK_LEVEL_MAP, OPERATIONAL_STATUS_MAP, GENERIC_STATUS_MAP,
      EVIDENCE_FILE_STATUS_MAP, LIFECYCLE_EVENT_STATUS_MAP, MAINTENANCE_DUE_STATUS_MAP, ASSET_STATUS_MAP,
      OPERATIONAL_STATE_MAP, INTELLIGENCE_RISK_PRIORITY_MAP, INTELLIGENCE_READINESS_MAP, INTELLIGENCE_DECISION_MAP,
      INTELLIGENCE_AEROSPACE_STATUS_MAP]"

lemma green_words:
  "set (concat (map table_greens badge_tables)) \<union> set [''CLOSED''] \<union> set [''READY''] =
     set [''COMPLETED'', ''CLOSED'', ''ON_TRACK'', ''APPROVED'', ''LOW'', ''COMPLIANT'',
      ''NOT_APPLICABLE'', ''VERIFIED'', ''PASS'', ''RESOLVED'', ''IN_STOCK'', ''PRESENT'',
      ''TRACEABLE'', ''OPERATIONAL'', ''ACTIVE'', ''DONE'', ''STORED'', ''BATTERY_INSTALLATION'',
      ''COMPONENT_INSTALLATION'', ''NOT_DUE'', ''GOOD'', ''READY'', ''AVAILABLE'', ''IN_MISSION'',
      ''NO_ACTION_REQUIRED'', ''NOMINAL'']"
  by code_simp

section \<open>Properties\<close>

text \<open>
  Green has to be earned: over all the badge functions, the statuses some function shows in green are
  exactly these 26, all of which name a finished, cleared, healthy or not applicable condition; a status
  that is unknown, empty, misspelt or of another vocabulary is never green.
\<close>

theorem green_badges_exact:
  "(\<Union>f \<in> set badge_functions. {s. green (f s)}) =
     set [''COMPLETED'', ''CLOSED'', ''ON_TRACK'', ''APPROVED'', ''LOW'', ''COMPLIANT'',
      ''NOT_APPLICABLE'', ''VERIFIED'', ''PASS'', ''RESOLVED'', ''IN_STOCK'', ''PRESENT'',
      ''TRACEABLE'', ''OPERATIONAL'', ''ACTIVE'', ''DONE'', ''STORED'', ''BATTERY_INSTALLATION'',
      ''COMPONENT_INSTALLATION'', ''NOT_DUE'', ''GOOD'', ''READY'', ''AVAILABLE'', ''IN_MISSION'',
      ''NO_ACTION_REQUIRED'', ''NOMINAL'']"
proof -
  have "(\<Union>f \<in> set badge_functions. {s. green (f s)}) =
      set (concat (map table_greens badge_tables)) \<union> set [''CLOSED''] \<union> set [''READY'']"
    unfolding green_statuses_def [symmetric] badge_functions_def badge_tables_def
    by (simp only: list.set list.map concat.simps set_append UN_insert UN_empty green_tables Un_empty_right Un_empty_left ac_simps)
  then show ?thesis by (simp only: green_words)
qed

text \<open>
  The colour of an aircraft in the control tower: it is green exactly when the aircraft is active and has
  neither a serious open defect nor an open work order, and red exactly when it is active and has a serious
  open defect.
\<close>

theorem fleet_badge_exact:
  "let b = operationalStatusBadge (lit_OperationalStatus (operational_status W a));
       grounded = (\<exists>d \<in> set (defectsForAircraft W (ac_id a)). open_serious d);
       working = (\<exists>w \<in> set (workOrdersForAircraft W (ac_id a)). wo_open w);
       active = (ac_status a \<noteq> AS_STORED \<and> ac_status a \<noteq> AS_WRITTEN_OFF) in
   (green b \<longleftrightarrow> active \<and> \<not> grounded \<and> \<not> working) \<and>
   (badge_status b = BK_NON_COMPLIANT \<longleftrightarrow> active \<and> grounded)"
  by (auto simp: operational_status_def operationalStatusBadge_def OPERATIONAL_STATUS_MAP_def badge_of_def
      green_kinds_def find_None_iff filter_empty_conv Let_def)

section \<open>Statuses without a colour\<close>

text \<open>
  Two statuses of the work orders, waiting for parts and waiting for inspection, are not in the table: they
  get the badge of an unknown status, as a cancelled work order does.
\<close>

lemma waiting_work_orders_look_unknown:
  "badge_status (workOrderStatusBadge (lit_WorkOrderStatus w)) = BK_UNKNOWN \<longleftrightarrow>
     w \<in> {WO_WAITING_PARTS, WO_WAITING_INSPECTION, WO_CANCELLED}"
  by (cases w) (simp_all add: workOrderStatusBadge_def WORK_ORDER_STATUS_MAP_def badge_of_def)

end
