(* ===== verification/Roles.thy ===== *)
theory Roles
  imports Clock
begin

text \<open>
  Roles and the role preview: the permission matrix of \<open>src/frontend/lib/mock/roles.ts\<close> with its
  lookups and mutations, and the previewed role of \<open>src/frontend/lib/role-sim/RoleSimContext.tsx\<close>, which
  dims the navigation. The array of roles is the state; a mutation returns it updated. The clock is an
  argument.
\<close>

definition PLATFORM_NAME :: string where
  "PLATFORM_NAME = ''KOTA'S AEROSPACE''"

section \<open>The matrix\<close>

datatype PermissionLevel = PL_NONE | PL_VIEW | PL_EDIT | PL_APPROVE

datatype PermissionModule =
    PM_Aircraft | PM_Compliance | PM_MRO_Operations | PM_Inspection | PM_Evidence | PM_Audit | PM_AI | PM_Administration

definition PERMISSION_MODULES :: "PermissionModule list" where
  "PERMISSION_MODULES = [PM_Aircraft, PM_Compliance, PM_MRO_Operations, PM_Inspection, PM_Evidence, PM_Audit, PM_AI,
     PM_Administration]"

record ModulePermission =
  perm_module :: PermissionModule
  perm_level :: PermissionLevel
  perm_notes :: "string option"

datatype AccountStatus = ACC_ACTIVE | ACC_INACTIVE

record AiAccess =
  ai_ask :: bool
  ai_analytics :: bool
  ai_reports :: bool

record Role =
  role_id :: string
  role_name :: string
  role_description :: string
  role_scope :: string
  role_permissions :: "ModulePermission list"
  role_aiAccess :: AiAccess
  role_status :: AccountStatus
  role_lastUpdated :: string

record UserAccount =
  user_id :: string
  user_name :: string
  user_roleId :: string
  user_department :: string
  user_assignedAircraftIds :: "string list"
  user_assignedProjectIds :: "string list"
  user_status :: AccountStatus
  user_lastActivity :: string

definition perm :: "PermissionModule \<Rightarrow> PermissionLevel \<Rightarrow> string option \<Rightarrow> ModulePermission" where
  "perm permModule level notes = \<lparr>perm_module = permModule, perm_level = level, perm_notes = notes\<rparr>"

definition ROLES :: "Role list" where
  "ROLES =
    [\<lparr>role_id = ''role-org-admin'', role_name = ''Organization Admin'',
      role_description = ''Full administrative control over the organization's '' @ PLATFORM_NAME @ '' tenant, including user and role management.'',
      role_scope = ''Organization-wide'',
      role_permissions =
       [perm PM_Aircraft PL_EDIT None,
        perm PM_Compliance PL_APPROVE None,
        perm PM_MRO_Operations PL_APPROVE None,
        perm PM_Inspection PL_APPROVE None,
        perm PM_Evidence PL_EDIT None,
        perm PM_Audit PL_APPROVE (Some ''View and export''),
        perm PM_AI PL_APPROVE (Some ''Ask, analytics, and reports''),
        perm PM_Administration PL_APPROVE (Some ''Manage users, roles, organization'')],
      role_aiAccess = \<lparr>ai_ask = True, ai_analytics = True, ai_reports = True\<rparr>,
      role_status = ACC_ACTIVE, role_lastUpdated = ''2026-02-10''\<rparr>,
     \<lparr>role_id = ''role-compliance-manager'', role_name = ''Compliance Manager'',
      role_description = ''Owns applicability assessments and regulatory compliance decisions across the fleet.'',
      role_scope = ''Fleet-wide'',
      role_permissions =
       [perm PM_Aircraft PL_VIEW None,
        perm PM_Compliance PL_APPROVE None,
        perm PM_MRO_Operations PL_VIEW None,
        perm PM_Inspection PL_VIEW None,
        perm PM_Evidence PL_EDIT None,
        perm PM_Audit PL_VIEW None,
        perm PM_AI PL_APPROVE None,
        perm PM_Administration PL_NONE None],
      role_aiAccess = \<lparr>ai_ask = True, ai_analytics = True, ai_reports = True\<rparr>,
      role_status = ACC_ACTIVE, role_lastUpdated = ''2026-02-14''\<rparr>,
     \<lparr>role_id = ''role-maintenance-manager'', role_name = ''Maintenance Manager'',
      role_description = ''Oversees MRO projects, work packages, and technician assignment across the hangar floor.'',
      role_scope = ''Fleet-wide'',
      role_permissions =
       [perm PM_Aircraft PL_VIEW None,
        perm PM_Compliance PL_VIEW None,
        perm PM_MRO_Operations PL_APPROVE None,
        perm PM_Inspection PL_VIEW None,
        perm PM_Evidence PL_VIEW None,
        perm PM_Audit PL_VIEW None,
        perm PM_AI PL_APPROVE None,
        perm PM_Administration PL_NONE None],
      role_aiAccess = \<lparr>ai_ask = True, ai_analytics = True, ai_reports = True\<rparr>,
      role_status = ACC_ACTIVE, role_lastUpdated = ''2026-03-01''\<rparr>,
     \<lparr>role_id = ''role-maintenance-planner'', role_name = ''Maintenance Planner'',
      role_description = ''Plans work orders and work packages and assigns technicians to tasks.'',
      role_scope = ''Assigned projects'',
      role_permissions =
       [perm PM_Aircraft PL_VIEW None,
        perm PM_Compliance PL_VIEW None,
        perm PM_MRO_Operations PL_EDIT (Some ''Create work orders, assign technicians''),
        perm PM_Inspection PL_VIEW None,
        perm PM_Evidence PL_VIEW None,
        perm PM_Audit PL_VIEW None,
        perm PM_AI PL_VIEW None,
        perm PM_Administration PL_NONE None],
      role_aiAccess = \<lparr>ai_ask = True, ai_analytics = True, ai_reports = False\<rparr>,
      role_status = ACC_ACTIVE, role_lastUpdated = ''2026-03-05''\<rparr>,
     \<lparr>role_id = ''role-technician'', role_name = ''Technician'',
      role_description = ''Executes assigned work orders and checklists, and signs off completed tasks.'',
      role_scope = ''Assigned work orders only'',
      role_permissions =
       [perm PM_Aircraft PL_VIEW None,
        perm PM_Compliance PL_NONE None,
        perm PM_MRO_Operations PL_EDIT (Some ''Execute checklist, submit for inspection''),
        perm PM_Inspection PL_NONE None,
        perm PM_Evidence PL_EDIT (Some ''Upload''),
        perm PM_Audit PL_NONE None,
        perm PM_AI PL_VIEW None,
        perm PM_Administration PL_NONE None],
      role_aiAccess = \<lparr>ai_ask = True, ai_analytics = False, ai_reports = False\<rparr>,
      role_status = ACC_ACTIVE, role_lastUpdated = ''2026-03-10''\<rparr>,
     \<lparr>role_id = ''role-inspector'', role_name = ''Inspector'',
      role_description = ''Reviews completed technician work and issues the pass/fail/return decision that closes the trust loop.'',
      role_scope = ''Assigned inspection queue'',
      role_permissions =
       [perm PM_Aircraft PL_VIEW None,
        perm PM_Compliance PL_VIEW None,
        perm PM_MRO_Operations PL_VIEW None,
        perm PM_Inspection PL_APPROVE (Some ''Review, approve, reject, return''),
        perm PM_Evidence PL_VIEW None,
        perm PM_Audit PL_VIEW None,
        perm PM_AI PL_VIEW None,
        perm PM_Administration PL_NONE None],
      role_aiAccess = \<lparr>ai_ask = True, ai_analytics = True, ai_reports = False\<rparr>,
      role_status = ACC_ACTIVE, role_lastUpdated = ''2026-03-12''\<rparr>,
     \<lparr>role_id = ''role-reliability-engineer'', role_name = ''Reliability Engineer'',
      role_description = ''Analyzes defect and maintenance trends to identify fleet-wide reliability and compliance risk.'',
      role_scope = ''Fleet-wide, read-only'',
      role_permissions =
       [perm PM_Aircraft PL_VIEW None,
        perm PM_Compliance PL_VIEW None,
        perm PM_MRO_Operations PL_VIEW None,
        perm PM_Inspection PL_VIEW None,
        perm PM_Evidence PL_VIEW None,
        perm PM_Audit PL_VIEW None,
        perm PM_AI PL_APPROVE (Some ''Ask, analytics, and reports''),
        perm PM_Administration PL_NONE None],
      role_aiAccess = \<lparr>ai_ask = True, ai_analytics = True, ai_reports = True\<rparr>,
      role_status = ACC_ACTIVE, role_lastUpdated = ''2026-02-20''\<rparr>,
     \<lparr>role_id = ''role-auditor'', role_name = ''Auditor'',
      role_description = ''Independent read-only access to the full audit trail and underlying records for compliance review.'',
      role_scope = ''Organization-wide, read-only'',
      role_permissions =
       [perm PM_Aircraft PL_VIEW None,
        perm PM_Compliance PL_VIEW None,
        perm PM_MRO_Operations PL_VIEW None,
        perm PM_Inspection PL_VIEW None,
        perm PM_Evidence PL_VIEW None,
        perm PM_Audit PL_APPROVE (Some ''View and export''),
        perm PM_AI PL_VIEW None,
        perm PM_Administration PL_NONE None],
      role_aiAccess = \<lparr>ai_ask = True, ai_analytics = False, ai_reports = True\<rparr>,
      role_status = ACC_ACTIVE, role_lastUpdated = ''2026-01-30''\<rparr>,
     \<lparr>role_id = ''role-executive'', role_name = ''Executive / Management'',
      role_description = ''Fleet-wide read-only visibility into compliance exposure, maintenance risk, and operations reporting.'',
      role_scope = ''Organization-wide, read-only'',
      role_permissions =
       [perm PM_Aircraft PL_VIEW None,
        perm PM_Compliance PL_VIEW None,
        perm PM_MRO_Operations PL_VIEW None,
        perm PM_Inspection PL_VIEW None,
        perm PM_Evidence PL_NONE None,
        perm PM_Audit PL_VIEW None,
        perm PM_AI PL_APPROVE None,
        perm PM_Administration PL_NONE None],
      role_aiAccess = \<lparr>ai_ask = True, ai_analytics = True, ai_reports = True\<rparr>,
      role_status = ACC_ACTIVE, role_lastUpdated = ''2026-03-15''\<rparr>,
     \<lparr>role_id = ''role-read-only'', role_name = ''Read Only'',
      role_description = ''Minimal view-only access for stakeholders who need visibility without any edit capability.'',
      role_scope = ''Organization-wide, read-only'',
      role_permissions =
       [perm PM_Aircraft PL_VIEW None,
        perm PM_Compliance PL_VIEW None,
        perm PM_MRO_Operations PL_VIEW None,
        perm PM_Inspection PL_VIEW None,
        perm PM_Evidence PL_VIEW None,
        perm PM_Audit PL_VIEW None,
        perm PM_AI PL_VIEW None,
        perm PM_Administration PL_NONE None],
      role_aiAccess = \<lparr>ai_ask = True, ai_analytics = False, ai_reports = False\<rparr>,
      role_status = ACC_ACTIVE, role_lastUpdated = ''2026-03-17''\<rparr>]"

definition USERS :: "UserAccount list" where
  "USERS =
    [\<lparr>user_id = ''user-1'', user_name = ''Priya Nair'', user_roleId = ''role-org-admin'', user_department = ''IT & Systems'',
      user_assignedAircraftIds = [], user_assignedProjectIds = [],
      user_status = ACC_ACTIVE, user_lastActivity = ''2026-03-17T08:10:00Z''\<rparr>,
     \<lparr>user_id = ''user-2'', user_name = ''Elena Petrov'', user_roleId = ''role-compliance-manager'', user_department = ''Compliance'',
      user_assignedAircraftIds = [''ac-1'', ''ac-3'', ''ac-5'', ''ac-7''], user_assignedProjectIds = [],
      user_status = ACC_ACTIVE, user_lastActivity = ''2026-03-17T07:40:00Z''\<rparr>,
     \<lparr>user_id = ''user-3'', user_name = ''Marcus Webb'', user_roleId = ''role-maintenance-manager'', user_department = ''Maintenance'',
      user_assignedAircraftIds = [''ac-1'', ''ac-3'', ''ac-5'', ''ac-7''], user_assignedProjectIds = [''proj-1'', ''proj-2'', ''proj-3'', ''proj-4''],
      user_status = ACC_ACTIVE, user_lastActivity = ''2026-03-17T09:05:00Z''\<rparr>,
     \<lparr>user_id = ''user-4'', user_name = ''Ananya Rao'', user_roleId = ''role-maintenance-planner'', user_department = ''Maintenance Planning'',
      user_assignedAircraftIds = [''ac-1'', ''ac-7''], user_assignedProjectIds = [''proj-1'', ''proj-3''],
      user_status = ACC_ACTIVE, user_lastActivity = ''2026-03-16T18:22:00Z''\<rparr>,
     \<lparr>user_id = ''user-5'', user_name = ''Rahul Menon'', user_roleId = ''role-technician'', user_department = ''Line Maintenance'',
      user_assignedAircraftIds = [''ac-1''], user_assignedProjectIds = [''proj-1''],
      user_status = ACC_ACTIVE, user_lastActivity = ''2026-03-17T06:55:00Z''\<rparr>,
     \<lparr>user_id = ''user-6'', user_name = ''Diego Alvarez'', user_roleId = ''role-inspector'', user_department = ''Quality / Inspection'',
      user_assignedAircraftIds = [''ac-1'', ''ac-3''], user_assignedProjectIds = [''proj-1'', ''proj-2''],
      user_status = ACC_ACTIVE, user_lastActivity = ''2026-03-17T09:30:00Z''\<rparr>,
     \<lparr>user_id = ''user-7'', user_name = ''Sara Kavanagh'', user_roleId = ''role-inspector'', user_department = ''Quality / Inspection'',
      user_assignedAircraftIds = [''ac-3'', ''ac-5''], user_assignedProjectIds = [''proj-2'', ''proj-4''],
      user_status = ACC_ACTIVE, user_lastActivity = ''2026-03-17T05:15:00Z''\<rparr>,
     \<lparr>user_id = ''user-8'', user_name = ''Wei Zhang'', user_roleId = ''role-reliability-engineer'', user_department = ''Engineering'',
      user_assignedAircraftIds = [''ac-1'', ''ac-3'', ''ac-5'', ''ac-7''], user_assignedProjectIds = [],
      user_status = ACC_ACTIVE, user_lastActivity = ''2026-03-16T14:00:00Z''\<rparr>,
     \<lparr>user_id = ''user-9'', user_name = ''Fatima Al-Sayed'', user_roleId = ''role-auditor'', user_department = ''Internal Audit'',
      user_assignedAircraftIds = [], user_assignedProjectIds = [],
      user_status = ACC_ACTIVE, user_lastActivity = ''2026-03-15T11:12:00Z''\<rparr>,
     \<lparr>user_id = ''user-10'', user_name = ''James Okafor'', user_roleId = ''role-executive'', user_department = ''Executive'',
      user_assignedAircraftIds = [], user_assignedProjectIds = [],
      user_status = ACC_ACTIVE, user_lastActivity = ''2026-03-14T09:00:00Z''\<rparr>,
     \<lparr>user_id = ''user-11'', user_name = ''Guest Viewer'', user_roleId = ''role-read-only'', user_department = ''External Stakeholder'',
      user_assignedAircraftIds = [], user_assignedProjectIds = [],
      user_status = ACC_ACTIVE, user_lastActivity = ''2026-03-12T10:00:00Z''\<rparr>]"

section \<open>Lookups and mutations\<close>

text \<open>The module state: the array and the counter of the identifiers.\<close>

record RoleStore =
  store_roles :: "Role list"
  store_roleIdCounter :: nat

definition role_store_init :: RoleStore where
  "role_store_init = \<lparr>store_roles = ROLES, store_roleIdCounter = length ROLES\<rparr>"

definition getRoleById :: "RoleStore \<Rightarrow> string \<Rightarrow> Role option" where
  "getRoleById st i = find (\<lambda>r. role_id r = i) (store_roles st)"

definition getUserById :: "string \<Rightarrow> UserAccount option" where
  "getUserById i = find (\<lambda>u. user_id u = i) USERS"

definition usersForRole :: "string \<Rightarrow> UserAccount list" where
  "usersForRole i = filter (\<lambda>u. user_roleId u = i) USERS"

record RoleAccessSummary =
  access_approve :: "PermissionModule list"
  access_edit :: "PermissionModule list"
  access_view :: "PermissionModule list"
  access_none :: "PermissionModule list"

definition modules_with :: "Role \<Rightarrow> PermissionLevel \<Rightarrow> PermissionModule list" where
  "modules_with role l = map perm_module (filter (\<lambda>p. perm_level p = l) (role_permissions role))"

definition roleAccessSummary :: "Role \<Rightarrow> RoleAccessSummary" where
  "roleAccessSummary role =
     \<lparr>access_approve = modules_with role PL_APPROVE, access_edit = modules_with role PL_EDIT,
      access_view = modules_with role PL_VIEW, access_none = modules_with role PL_NONE\<rparr>"

record RoleInput =
  input_name :: string
  input_description :: string
  input_scope :: string
  input_permissions :: "ModulePermission list"

text \<open>\<open>new Date().toISOString().slice(0, 10)\<close>.\<close>

definition iso_today :: "int \<Rightarrow> string" where
  "iso_today now = take 10 (toISOString now)"

definition patch_role :: "RoleInput \<Rightarrow> int \<Rightarrow> Role \<Rightarrow> Role" where
  "patch_role p now r =
     r\<lparr>role_name := input_name p, role_description := input_description p, role_scope := input_scope p,
       role_permissions := input_permissions p, role_lastUpdated := iso_today now\<rparr>"

text \<open>\<open>update_first p f xs\<close>: the object \<open>xs.find(p)\<close> is changed in place.\<close>

fun update_first :: "('a \<Rightarrow> bool) \<Rightarrow> ('a \<Rightarrow> 'a) \<Rightarrow> 'a list \<Rightarrow> 'a list" where
  "update_first P f [] = []"
| "update_first P f (x # xs) = (if P x then f x # xs else x # update_first P f xs)"

definition updateRole :: "string \<Rightarrow> RoleInput \<Rightarrow> int \<Rightarrow> RoleStore \<Rightarrow> Role option \<times> RoleStore" where
  "updateRole i p now st =
     (case getRoleById st i of
        None \<Rightarrow> (None, st)
      | Some r \<Rightarrow> (Some (patch_role p now r),
          st\<lparr>store_roles := update_first (\<lambda>r. role_id r = i) (patch_role p now) (store_roles st)\<rparr>))"

definition createRole :: "RoleInput \<Rightarrow> int \<Rightarrow> RoleStore \<Rightarrow> Role \<times> RoleStore" where
  "createRole p now st =
     (let n = store_roleIdCounter st + 1;
          role = \<lparr>role_id = ''role-custom-'' @ show_nat n, role_name = input_name p,
            role_description = input_description p, role_scope = input_scope p,
            role_permissions = input_permissions p,
            role_aiAccess = \<lparr>ai_ask = list_ex (\<lambda>q. perm_module q = PM_AI \<and> perm_level q \<noteq> PL_NONE) (input_permissions p),
              ai_analytics = False, ai_reports = False\<rparr>,
            role_status = ACC_ACTIVE, role_lastUpdated = iso_today now\<rparr>
      in (role, st\<lparr>store_roleIdCounter := n, store_roles := store_roles st @ [role]\<rparr>))"

definition defaultPermissions :: "ModulePermission list" where
  "defaultPermissions = map (\<lambda>m. perm m PL_NONE None) PERMISSION_MODULES"

section \<open>The previewed role\<close>

definition SIMULATABLE_ROLE_IDS :: "string list" where
  "SIMULATABLE_ROLE_IDS =
    [''role-org-admin'',
     ''role-compliance-manager'',
     ''role-maintenance-manager'',
     ''role-maintenance-planner'',
     ''role-inspector'',
     ''role-reliability-engineer'',
     ''role-technician'',
     ''role-auditor'',
     ''role-executive'',
     ''role-read-only'']"

definition DEFAULT_ROLE_ID :: string where
  "DEFAULT_ROLE_ID = ''role-org-admin''"

text \<open>\<open>useMemo\<close> keeps the role of the last change of \<open>roleId\<close>; an edit of that role is an edit of the same
  object, so looking it up again gives the same permissions.\<close>

definition accessFor :: "RoleStore \<Rightarrow> string \<Rightarrow> PermissionModule \<Rightarrow> PermissionLevel" where
  "accessFor st roleId m =
     (case getRoleById st roleId of
        None \<Rightarrow> PL_NONE
      | Some role \<Rightarrow> (case find (\<lambda>p. perm_module p = m) (role_permissions role) of None \<Rightarrow> PL_NONE | Some p \<Rightarrow> perm_level p))"

definition simulatableRoles :: "RoleStore \<Rightarrow> Role list" where
  "simulatableRoles st = filter (\<lambda>r. role_id r \<in> set SIMULATABLE_ROLE_IDS) (store_roles st)"

definition NAV_MODULE_MAP :: "(string \<times> PermissionModule) list" where
  "NAV_MODULE_MAP =
    [(''/compliance'', PM_Compliance),
     (''/regulations'', PM_Compliance),
     (''/assessments'', PM_Compliance),
     (''/evidence'', PM_Evidence),
     (''/documents'', PM_Compliance),
     (''/maintenance/control-center'', PM_MRO_Operations),
     (''/maintenance/control-tower'', PM_MRO_Operations),
     (''/maintenance/discrepancies'', PM_MRO_Operations),
     (''/maintenance/operations'', PM_MRO_Operations),
     (''/maintenance/hangar'', PM_MRO_Operations),
     (''/maintenance/planning'', PM_MRO_Operations),
     (''/maintenance/release-readiness'', PM_MRO_Operations),
     (''/maintenance/material-readiness'', PM_MRO_Operations),
     (''/maintenance/projects'', PM_MRO_Operations),
     (''/maintenance/work-orders'', PM_MRO_Operations),
     (''/maintenance/technicians'', PM_MRO_Operations),
     (''/maintenance/tasks'', PM_MRO_Operations),
     (''/maintenance/defects'', PM_MRO_Operations),
     (''/maintenance/parts'', PM_MRO_Operations),
     (''/maintenance/records'', PM_MRO_Operations),
     (''/maintenance/inspections'', PM_Inspection),
     (''/audit'', PM_Audit),
     (''/ai'', PM_AI),
     (''/reports'', PM_AI),
     (''/organization/users'', PM_Administration),
     (''/organization/roles'', PM_Administration)]"

section \<open>Lemmas\<close>

text \<open>The machine of the mutations.\<close>

datatype RoleEvent = EvUpdateRole string RoleInput int | EvCreateRole RoleInput int

fun role_step :: "RoleStore \<Rightarrow> RoleEvent \<Rightarrow> RoleStore" where
  "role_step st (EvUpdateRole i p now) = snd (updateRole i p now st)"
| "role_step st (EvCreateRole p now) = snd (createRole p now st)"

definition custom_id :: "nat \<Rightarrow> string" where
  "custom_id n = ''role-custom-'' @ show_nat n"

text \<open>The identifiers are distinct, and the given ones are below the counter.\<close>

definition roles_inv :: "RoleStore \<Rightarrow> bool" where
  "roles_inv st \<longleftrightarrow> distinct (map role_id (store_roles st)) \<and>
     (\<forall>n > store_roleIdCounter st. custom_id n \<notin> set (map role_id (store_roles st)))"

lemma update_first_key:
  "(\<And>x. key (f x) = key x) \<Longrightarrow> map key (update_first P f xs) = map key xs"
  by (induction xs) auto

lemma updateRole_keys [simp]:
  "map role_id (store_roles (snd (updateRole i p now st))) = map role_id (store_roles st)"
  "store_roleIdCounter (snd (updateRole i p now st)) = store_roleIdCounter st"
  by (simp_all add: updateRole_def update_first_key patch_role_def split: option.split)

lemma role_ids_ok: "roles_inv role_store_init"
proof -
  have d: "distinct (map role_id ROLES)" by code_simp
  have "list_all (\<lambda>i. i ! 5 \<noteq> CHR ''c'' \<or> i ! 6 \<noteq> CHR ''u'') (map role_id ROLES)" by code_simp
  moreover have "custom_id n ! 5 = CHR ''c'' \<and> custom_id n ! 6 = CHR ''u''" for n by (simp add: custom_id_def)
  ultimately have "custom_id n \<notin> set (map role_id ROLES)" for n
    unfolding list_all_iff by metis
  with d show ?thesis
    by (simp add: roles_inv_def role_store_init_def)
qed

lemma roles_inv_step: "roles_inv st \<Longrightarrow> roles_inv (role_step st e)"
proof (cases e)
  case (EvUpdateRole i p now)
  assume "roles_inv st"
  then show ?thesis using EvUpdateRole by (simp add: roles_inv_def)
next
  case (EvCreateRole p now)
  assume "roles_inv st"
  then show ?thesis
    using EvCreateRole by (auto simp: roles_inv_def createRole_def custom_id_def Let_def)
qed

interpretation role_store: machine role_step roles_inv
  by unfold_locales (rule roles_inv_step)

lemma find_appended: "(\<forall>x \<in> set xs. \<not> P x) \<Longrightarrow> P y \<Longrightarrow> find P (xs @ [y]) = Some y"
  by (induction xs) auto

section \<open>Properties\<close>

text \<open>
  After any edits and creations of roles the identifiers are distinct, and a role that is created then is
  the one its identifier finds; previewing it gives exactly the levels that were entered for it.
\<close>

theorem created_role_found:
  "let st = run role_step role_store_init es; (r, st') = createRole p now st in
   distinct (map role_id (store_roles st')) \<and> getRoleById st' (role_id r) = Some r \<and>
   accessFor st' (role_id r) m =
     (case find (\<lambda>q. perm_module q = m) (input_permissions p) of None \<Rightarrow> PL_NONE | Some q \<Rightarrow> perm_level q)"
proof -
  define st where "st = run role_step role_store_init es"
  have i: "roles_inv st" unfolding st_def by (rule role_store.run_inv [OF role_ids_ok])
  have d: "distinct (map role_id (store_roles (snd (createRole p now st))))"
    using roles_inv_step [OF i, of "EvCreateRole p now"] by (simp add: roles_inv_def)
  have "\<forall>r \<in> set (store_roles st). role_id r \<noteq> custom_id (Suc (store_roleIdCounter st))"
    using i unfolding roles_inv_def by (metis image_eqI image_set lessI)
  then have f: "getRoleById (snd (createRole p now st)) (role_id (fst (createRole p now st))) = Some (fst (createRole p now st))"
    by (simp add: getRoleById_def createRole_def custom_id_def Let_def find_appended)
  have a: "role_permissions (fst (createRole p now st)) = input_permissions p"
    by (simp add: createRole_def Let_def)
  show ?thesis
    using d f a by (simp add: st_def [symmetric] Let_def split_beta accessFor_def)
qed

end
