(* ===== verification/Navigation.thy ===== *)
theory Navigation
  imports Roles Entitlements Session
begin

text \<open>
  The sidebar (\<open>src/frontend/components/layout/Sidebar.tsx\<close> and \<open>SidebarDrawerContext.tsx\<close>): which
  groups a user gets, which entries are highlighted and which are denied, by the previewed role or by
  the plan, and what a click does. Shown: the platform operators get a sidebar of their own, which
  neither the preview nor the entitlements touch; a denied entry does not navigate.
\<close>

record NavItem =
  nav_href :: string
  nav_label :: string
  nav_glyph :: string

record NavGroup =
  group_label :: string
  group_items :: "NavItem list"

definition NAV_GROUPS :: "NavGroup list" where
  "NAV_GROUPS =
    [\<lparr>group_label = ''Operations'', group_items =
      [\<lparr>nav_href = ''/dashboard'', nav_label = ''Dashboard'', nav_glyph = [CHR 0xE2, CHR 0x97, CHR 0xA7]\<rparr>,
       \<lparr>nav_href = ''/executive'', nav_label = ''Executive'', nav_glyph = [CHR 0xE2, CHR 0x97, CHR 0x86]\<rparr>,
       \<lparr>nav_href = ''/notifications'', nav_label = ''Notifications'', nav_glyph = [CHR 0xF0, CHR 0x9F, CHR 0x94, CHR 0x94]\<rparr>,
       \<lparr>nav_href = ''/pilot'', nav_label = ''Pilot Workflow'', nav_glyph = [CHR 0xE2, CHR 0x96, CHR 0xB6]\<rparr>,
       \<lparr>nav_href = ''/maintenance/control-center'', nav_label = ''Maintenance Control Center'', nav_glyph = [CHR 0xE2, CHR 0x97, CHR 0x88]\<rparr>,
       \<lparr>nav_href = ''/maintenance/control-tower'', nav_label = ''Control Tower'', nav_glyph = [CHR 0xE2, CHR 0x97, CHR 0x89]\<rparr>,
       \<lparr>nav_href = ''/intelligence/fleet'', nav_label = ''Fleet Intelligence'', nav_glyph = [CHR 0xE2, CHR 0x97, CHR 0x88]\<rparr>,
       \<lparr>nav_href = ''/maintenance/hangar'', nav_label = ''Hangar Floor'', nav_glyph = [CHR 0xE2, CHR 0x9B, CHR 0xAD]\<rparr>,
       \<lparr>nav_href = ''/automation'', nav_label = ''Automation Queue'', nav_glyph = [CHR 0xE2, CHR 0x9A, CHR 0x99]\<rparr>,
       \<lparr>nav_href = ''/ai'', nav_label = ''AI Command Center'', nav_glyph = [CHR 0xE2, CHR 0x9C, CHR 0xA6]\<rparr>]\<rparr>,
     \<lparr>group_label = ''Assets'', group_items =
      [\<lparr>nav_href = ''/assets'', nav_label = ''Fleet Registry'', nav_glyph = [CHR 0xE2, CHR 0x97, CHR 0xAB]\<rparr>,
       \<lparr>nav_href = ''/fleet/health'', nav_label = ''Fleet Health'', nav_glyph = [CHR 0xE2, CHR 0x99, CHR 0xA5]\<rparr>,
       \<lparr>nav_href = ''/aircraft'', nav_label = ''Aircraft'', nav_glyph = [CHR 0xE2, CHR 0x9C, CHR 0x88]\<rparr>,
       \<lparr>nav_href = ''/drones'', nav_label = ''Drones'', nav_glyph = [CHR 0xE2, CHR 0x97, CHR 0x86]\<rparr>,
       \<lparr>nav_href = ''/engines'', nav_label = ''Engines'', nav_glyph = [CHR 0xE2, CHR 0x97, CHR 0x8E]\<rparr>,
       \<lparr>nav_href = ''/components'', nav_label = ''Components'', nav_glyph = [CHR 0xE2, CHR 0x96, CHR 0xA4]\<rparr>,
       \<lparr>nav_href = ''/facilities'', nav_label = ''Facilities'', nav_glyph = [CHR 0xE2, CHR 0x8C, CHR 0x82]\<rparr>]\<rparr>,
     \<lparr>group_label = ''MRO'', group_items =
      [\<lparr>nav_href = ''/maintenance/work-orders'', nav_label = ''Work Orders'', nav_glyph = [CHR 0xE2, CHR 0x98, CHR 0xB0]\<rparr>,
       \<lparr>nav_href = ''/maintenance/tasks'', nav_label = ''Tasks'', nav_glyph = [CHR 0xE2, CHR 0x98, CHR 0x91]\<rparr>,
       \<lparr>nav_href = ''/maintenance/planning'', nav_label = ''Planning'', nav_glyph = [CHR 0xE2, CHR 0x97, CHR 0x94]\<rparr>,
       \<lparr>nav_href = ''/maintenance/projects'', nav_label = ''Projects'', nav_glyph = [CHR 0xE2, CHR 0x97, CHR 0x88]\<rparr>,
       \<lparr>nav_href = ''/maintenance/technicians'', nav_label = ''Technicians'', nav_glyph = [CHR 0xF0, CHR 0x9F, CHR 0x91, CHR 0xB7]\<rparr>,
       \<lparr>nav_href = ''/maintenance/operations'', nav_label = ''Maintenance Operations'', nav_glyph = [CHR 0xE2, CHR 0x97, CHR 0xAA]\<rparr>,
       \<lparr>nav_href = ''/maintenance-program'', nav_label = ''Maintenance Program'', nav_glyph = [CHR 0xE2, CHR 0x96, CHR 0xA6]\<rparr>,
       \<lparr>nav_href = ''/maintenance/discrepancies'', nav_label = ''Discrepancy Intelligence'', nav_glyph = [CHR 0xE2, CHR 0x9A, CHR 0xA1]\<rparr>,
       \<lparr>nav_href = ''/maintenance/defects'', nav_label = ''Defects'', nav_glyph = [CHR 0xE2, CHR 0x9A, CHR 0xA0]\<rparr>,
       \<lparr>nav_href = ''/maintenance/deferred'', nav_label = ''Deferred / MEL'', nav_glyph = [CHR 0xE2, CHR 0x97, CHR 0x91]\<rparr>,
       \<lparr>nav_href = ''/maintenance/parts'', nav_label = ''Parts'', nav_glyph = [CHR 0xE2, CHR 0x9B, CHR 0xAD]\<rparr>,
       \<lparr>nav_href = ''/maintenance/material-readiness'', nav_label = ''Material Readiness'', nav_glyph = [CHR 0xE2, CHR 0x96, CHR 0xA4]\<rparr>,
       \<lparr>nav_href = ''/maintenance/release-readiness'', nav_label = ''Release Readiness'', nav_glyph = [CHR 0xE2, CHR 0x9C, CHR 0x93]\<rparr>,
       \<lparr>nav_href = ''/maintenance/records'', nav_label = ''Maintenance Records'', nav_glyph = [CHR 0xF0, CHR 0x9F, CHR 0x97, CHR 0x8E]\<rparr>]\<rparr>,
     \<lparr>group_label = ''Inspection & Evidence'', group_items =
      [\<lparr>nav_href = ''/maintenance/inspections'', nav_label = ''Inspections'', nav_glyph = [CHR 0xF0, CHR 0x9F, CHR 0x94, CHR 0x8D]\<rparr>,
       \<lparr>nav_href = ''/evidence'', nav_label = ''Evidence'', nav_glyph = [CHR 0xE2, CHR 0x96, CHR 0xA3]\<rparr>,
       \<lparr>nav_href = ''/documents'', nav_label = ''Documents'', nav_glyph = [CHR 0xF0, CHR 0x9F, CHR 0x97, CHR 0x8E]\<rparr>]\<rparr>,
     \<lparr>group_label = ''Compliance'', group_items =
      [\<lparr>nav_href = ''/compliance'', nav_label = ''AeroComply'', nav_glyph = [CHR 0xE2, CHR 0x97, CHR 0x86]\<rparr>,
       \<lparr>nav_href = ''/regulations'', nav_label = ''Regulations'', nav_glyph = [CHR 0xC2, CHR 0xA7]\<rparr>,
       \<lparr>nav_href = ''/compliance/regulatory-register'', nav_label = ''Regulatory Register'', nav_glyph = [CHR 0xC2, CHR 0xA7]\<rparr>,
       \<lparr>nav_href = ''/assessments'', nav_label = ''Assessments'', nav_glyph = [CHR 0xE2, CHR 0x9C, CHR 0x93]\<rparr>,
       \<lparr>nav_href = ''/assessment-intelligence'', nav_label = ''Assessment Intelligence'', nav_glyph = [CHR 0xE2, CHR 0x97, CHR 0x86]\<rparr>,
       \<lparr>nav_href = ''/compliance/pre-audit'', nav_label = ''Pre-Audit'', nav_glyph = [CHR 0xE2, CHR 0x9C, CHR 0x93]\<rparr>,
       \<lparr>nav_href = ''/audit'', nav_label = ''Audit Trail'', nav_glyph = [CHR 0xE2, CHR 0x89, CHR 0xA1]\<rparr>,
       \<lparr>nav_href = ''/data-import'', nav_label = ''Data Import'', nav_glyph = [CHR 0xE2, CHR 0x87, CHR 0xA7]\<rparr>]\<rparr>,
     \<lparr>group_label = ''Resources'', group_items =
      [\<lparr>nav_href = ''/procurement'', nav_label = ''Procurement'', nav_glyph = [CHR 0xE2, CHR 0x97, CHR 0xA7]\<rparr>,
       \<lparr>nav_href = ''/procurement/parts'', nav_label = ''Parts Search'', nav_glyph = [CHR 0xE2, CHR 0x9B, CHR 0xAD]\<rparr>,
       \<lparr>nav_href = ''/procurement/cart'', nav_label = ''My Cart'', nav_glyph = [CHR 0xE2, CHR 0x96, CHR 0xA2]\<rparr>,
       \<lparr>nav_href = ''/procurement/approvals'', nav_label = ''Approvals'', nav_glyph = [CHR 0xE2, CHR 0x9C, CHR 0x93]\<rparr>,
       \<lparr>nav_href = ''/procurement/purchase-orders'', nav_label = ''Purchase Orders'', nav_glyph = [CHR 0xF0, CHR 0x9F, CHR 0x97, CHR 0x8E]\<rparr>,
       \<lparr>nav_href = ''/procurement/vendors'', nav_label = ''Vendor Intelligence'', nav_glyph = [CHR 0xE2, CHR 0x97, CHR 0xAB]\<rparr>,
       \<lparr>nav_href = ''/finance'', nav_label = ''MRO Finance'', nav_glyph = ''$''\<rparr>]\<rparr>,
     \<lparr>group_label = ''Administration'', group_items =
      [\<lparr>nav_href = ''/tenant/dashboard'', nav_label = ''Tenant Dashboard'', nav_glyph = [CHR 0xE2, CHR 0x97, CHR 0xA7]\<rparr>,
       \<lparr>nav_href = ''/tenant/profile'', nav_label = ''Organization Profile'', nav_glyph = [CHR 0xE2, CHR 0x97, CHR 0xAB]\<rparr>,
       \<lparr>nav_href = ''/tenant/users'', nav_label = ''Personnel Directory'', nav_glyph = [CHR 0xF0, CHR 0x9F, CHR 0x91, CHR 0xA5]\<rparr>,
       \<lparr>nav_href = ''/tenant/roles'', nav_label = ''Roles & Permissions'', nav_glyph = [CHR 0xE2, CHR 0x97, CHR 0x88]\<rparr>,
       \<lparr>nav_href = ''/tenant/invitations'', nav_label = ''Invitations'', nav_glyph = [CHR 0xE2, CHR 0x9C, CHR 0x89]\<rparr>,
       \<lparr>nav_href = ''/tenant/teams'', nav_label = ''Workforce Teams'', nav_glyph = [CHR 0xE2, CHR 0x97, CHR 0x94]\<rparr>,
       \<lparr>nav_href = ''/tenant/facilities'', nav_label = ''Facilities & Sites'', nav_glyph = [CHR 0xE2, CHR 0x8C, CHR 0x82]\<rparr>,
       \<lparr>nav_href = ''/tenant/fleet'', nav_label = ''Fleet & Assets'', nav_glyph = [CHR 0xE2, CHR 0x9C, CHR 0x88]\<rparr>,
       \<lparr>nav_href = ''/tenant/subscription'', nav_label = ''Plan & Subscription'', nav_glyph = [CHR 0xE2, CHR 0x97, CHR 0x86]\<rparr>,
       \<lparr>nav_href = ''/tenant/entitlements'', nav_label = ''Feature Access'', nav_glyph = [CHR 0xF0, CHR 0x9F, CHR 0x94, CHR 0x92]\<rparr>,
       \<lparr>nav_href = ''/tenant/usage'', nav_label = ''Resource Usage'', nav_glyph = [CHR 0xF0, CHR 0x9F, CHR 0x93, CHR 0x8A]\<rparr>,
       \<lparr>nav_href = ''/tenant/audit'', nav_label = ''Organization Audit'', nav_glyph = [CHR 0xE2, CHR 0x89, CHR 0xA1]\<rparr>,
       \<lparr>nav_href = ''/tenant/settings'', nav_label = ''Tenant Settings'', nav_glyph = [CHR 0xE2, CHR 0x9A, CHR 0x99]\<rparr>,
       \<lparr>nav_href = ''/organization/readiness'', nav_label = ''Pilot Readiness'', nav_glyph = [CHR 0xE2, CHR 0x9C, CHR 0x93]\<rparr>,
       \<lparr>nav_href = ''/reports'', nav_label = ''Reports'', nav_glyph = [CHR 0xE2, CHR 0x96, CHR 0xA6]\<rparr>,
       \<lparr>nav_href = ''/workspace'', nav_label = ''Workspace'', nav_glyph = [CHR 0xE2, CHR 0x96, CHR 0xA2]\<rparr>,
       \<lparr>nav_href = ''/integrations'', nav_label = ''Integrations'', nav_glyph = [CHR 0xE2, CHR 0x97, CHR 0xAB]\<rparr>]\<rparr>]"

definition PLATFORM_NAV_GROUPS :: "NavGroup list" where
  "PLATFORM_NAV_GROUPS =
    [\<lparr>group_label = ''Platform Control Plane'', group_items =
      [\<lparr>nav_href = ''/platform/dashboard'', nav_label = ''Dashboard'', nav_glyph = [CHR 0xE2, CHR 0x97, CHR 0xA7]\<rparr>,
       \<lparr>nav_href = ''/platform/organizations'', nav_label = ''Organizations'', nav_glyph = [CHR 0xE2, CHR 0x9B, CHR 0xA8]\<rparr>,
       \<lparr>nav_href = ''/platform/users'', nav_label = ''Users & Staff'', nav_glyph = [CHR 0xF0, CHR 0x9F, CHR 0x91, CHR 0xA5]\<rparr>,
       \<lparr>nav_href = ''/platform/subscriptions'', nav_label = ''Subscriptions'', nav_glyph = [CHR 0xF0, CHR 0x9F, CHR 0x92, CHR 0xB3]\<rparr>,
       \<lparr>nav_href = ''/platform/plans'', nav_label = ''Plans'', nav_glyph = [CHR 0xE2, CHR 0x97, CHR 0x88]\<rparr>,
       \<lparr>nav_href = ''/platform/features'', nav_label = ''Features Registry'', nav_glyph = [CHR 0xE2, CHR 0x96, CHR 0xA4]\<rparr>,
       \<lparr>nav_href = ''/platform/product-catalog'', nav_label = ''Product Catalog'', nav_glyph = [CHR 0xE2, CHR 0x96, CHR 0xA6]\<rparr>,
       \<lparr>nav_href = ''/platform/entitlements'', nav_label = ''Entitlements'', nav_glyph = [CHR 0xF0, CHR 0x9F, CHR 0x94, CHR 0x92]\<rparr>,
       \<lparr>nav_href = ''/platform/provisioning'', nav_label = ''Provisioning'', nav_glyph = [CHR 0xE2, CHR 0x9A, CHR 0xA1]\<rparr>,
       \<lparr>nav_href = ''/platform/usage'', nav_label = ''Usage & Limits'', nav_glyph = [CHR 0xF0, CHR 0x9F, CHR 0x93, CHR 0x8A]\<rparr>,
       \<lparr>nav_href = ''/platform/deleted-records'', nav_label = ''Deletion Requests'', nav_glyph = [CHR 0xF0, CHR 0x9F, CHR 0x97, CHR 0x91]\<rparr>,
       \<lparr>nav_href = ''/platform/audit'', nav_label = ''Audit / Activity'', nav_glyph = [CHR 0xE2, CHR 0x89, CHR 0xA1]\<rparr>,
       \<lparr>nav_href = ''/platform/approvals'', nav_label = ''Approvals'', nav_glyph = [CHR 0xE2, CHR 0x9C, CHR 0x93]\<rparr>,
       \<lparr>nav_href = ''/platform/monitoring'', nav_label = ''Monitoring & Health'', nav_glyph = [CHR 0xE2, CHR 0x99, CHR 0xA5]\<rparr>,
       \<lparr>nav_href = ''/platform/settings'', nav_label = ''Settings'', nav_glyph = [CHR 0xE2, CHR 0x9A, CHR 0x99]\<rparr>]\<rparr>]"

section \<open>The entries\<close>

definition isActive :: "string \<Rightarrow> string \<Rightarrow> bool" where
  "isActive pathname href =
     (if href = ''/dashboard'' \<or> href = ''/platform/dashboard'' \<or> href = ''/tenant/dashboard'' \<or> href = ''/organization''
      then pathname = href
      else pathname = href \<or> startsWith pathname (href @ ''/''))"

definition is_platform_user :: "CurrentUser option \<Rightarrow> bool" where
  "is_platform_user user =
     (case user of None \<Rightarrow> False
      | Some u \<Rightarrow> list_ex (\<lambda>r. r = ''PLATFORM_ADMIN'' \<or> r = ''PLATFORM_STAFF'') (cuser_roles u))"

text \<open>What the sidebar reads of its surroundings.\<close>

record SidebarInput =
  side_pathname :: string
  side_roles :: RoleStore
  side_roleId :: string
  side_user :: "CurrentUser option"
  side_features :: "(string \<times> bool) list option"
  side_mode :: DataMode

record NavEntry =
  entry_href :: string
  entry_label :: string
  entry_active :: bool
  entry_denied :: bool
  entry_title :: "string option"

definition nav_level :: "RoleStore \<Rightarrow> string \<Rightarrow> string \<Rightarrow> PermissionLevel" where
  "nav_level st roleId href =
     (case map_of NAV_MODULE_MAP href of None \<Rightarrow> PL_APPROVE | Some m \<Rightarrow> accessFor st roleId m)"

definition nav_entry :: "SidebarInput \<Rightarrow> NavItem \<Rightarrow> NavEntry" where
  "nav_entry x item =
     (let roleSimDenied = (nav_level (side_roles x) (side_roleId x) (nav_href item) = PL_NONE);
          entitlementDenied = (\<not> is_platform_user (side_user x) \<and> isNavItemEntitlementGated (nav_href item) (side_features x))
      in \<lparr>entry_href = nav_href item,
          entry_label = nav_label item,
          entry_active = isActive (side_pathname x) (nav_href item),
          entry_denied = (roleSimDenied \<or> entitlementDenied),
          entry_title = (if roleSimDenied
                         then Some (''Not available for the simulated role (prototype only '' @ em_dash @ '' not enforced)'')
                         else if entitlementDenied then Some ''Not included in your organization's current plan''
                         else None)\<rparr>)"

text \<open>The link of the logo, the groups with the label that is shown above each, and the banner.\<close>

record SidebarView =
  sidebar_home :: string
  sidebar_groups :: "(string option \<times> NavEntry list) list"
  sidebar_banner :: string

definition Sidebar :: "SidebarInput \<Rightarrow> SidebarView" where
  "Sidebar x =
     (let platform = is_platform_user (side_user x);
          groups = (if platform then PLATFORM_NAV_GROUPS else NAV_GROUPS)
      in \<lparr>sidebar_home = (if platform then ''/platform/dashboard'' else ''/dashboard''),
          sidebar_groups = map (\<lambda>(gi, g). (if gi > 0 then Some (group_label g) else None, map (nav_entry x) (group_items g)))
            (List.enumerate 0 groups),
          sidebar_banner = (if side_mode x = MODE_REAL
            then ''REAL ENVIRONMENT '' @ [CHR 0xC2, CHR 0xB7] @ '' LIVE API DATA''
            else ''DEMO ENVIRONMENT '' @ [CHR 0xC2, CHR 0xB7] @ '' SYNTHETIC DATA'')\<rparr>)"

section \<open>The drawer and the clicks\<close>

datatype DrawerEvent = DrawerToggle | DrawerClose | DrawerKey string

text \<open>The key listener is there only while the drawer is open.\<close>

fun drawer_step :: "bool \<Rightarrow> DrawerEvent \<Rightarrow> bool" where
  "drawer_step is_open DrawerToggle = (\<not> is_open)"
| "drawer_step is_open DrawerClose = False"
| "drawer_step is_open (DrawerKey k) = (if is_open \<and> k = ''Escape'' then False else is_open)"

text \<open>A click on an entry: where it navigates to, and the drawer.\<close>

definition click_entry :: "NavEntry \<Rightarrow> bool \<Rightarrow> string option \<times> bool" where
  "click_entry e is_open =
     (if entry_denied e then (None, is_open) else (Some (entry_href e), drawer_step is_open DrawerClose))"

section \<open>Lemmas\<close>

definition sidebar_entries :: "SidebarInput \<Rightarrow> NavEntry list" where
  "sidebar_entries x = concat (map snd (sidebar_groups (Sidebar x)))"

definition side_groups :: "SidebarInput \<Rightarrow> NavGroup list" where
  "side_groups x = (if is_platform_user (side_user x) then PLATFORM_NAV_GROUPS else NAV_GROUPS)"

lemma labelled_entries:
  "map snd (map (\<lambda>(gi, g). (if gi > 0 then Some (group_label g) else None, map (nav_entry x) (group_items g)))
     (List.enumerate k gs)) = map (\<lambda>g. map (nav_entry x) (group_items g)) gs" for k :: nat
  by (induction gs arbitrary: k) simp_all

lemma sidebar_entries_eq: "sidebar_entries x = map (nav_entry x) (concat (map group_items (side_groups x)))"
proof -
  have "sidebar_groups (Sidebar x) =
      map (\<lambda>(gi, g). (if gi > 0 then Some (group_label g) else None, map (nav_entry x) (group_items g)))
        (List.enumerate 0 (side_groups x))"
    unfolding Sidebar_def Let_def side_groups_def by (simp only: SidebarView.select_convs)
  then show ?thesis
    unfolding sidebar_entries_def map_concat map_map by (simp only: labelled_entries comp_def)
qed

definition platform_hrefs :: "string list" where
  "platform_hrefs = map nav_href (concat (map group_items PLATFORM_NAV_GROUPS))"

definition tenant_hrefs :: "string list" where
  "tenant_hrefs = map nav_href (concat (map group_items NAV_GROUPS))"

lemma platform_hrefs_ok:
  "list_all (\<lambda>h. startsWith h ''/platform/'' \<and> map_of NAV_MODULE_MAP h = None) platform_hrefs"
  by code_simp

lemma tenant_hrefs_ok: "list_all (\<lambda>h. \<not> startsWith h ''/platform/'') tenant_hrefs" "distinct tenant_hrefs"
  by code_simp+

lemma no_administration_entry:
  "list_all (\<lambda>h. map_of NAV_MODULE_MAP h \<noteq> Some PM_Administration) (tenant_hrefs @ platform_hrefs)"
  by code_simp

lemma entry_href_nav [simp]: "entry_href (nav_entry x i) = nav_href i"
  by (simp add: nav_entry_def Let_def)

lemma entry_of_href:
  "e \<in> set (sidebar_entries x) \<Longrightarrow> entry_href e \<in> set (if is_platform_user (side_user x) then platform_hrefs else tenant_hrefs)"
  by (auto simp: sidebar_entries_eq side_groups_def platform_hrefs_def tenant_hrefs_def intro!: imageI)

lemma highlighted_entries:
  "map entry_href (filter entry_active (map (nav_entry x) is)) = filter (isActive (side_pathname x)) (map nav_href is)"
  by (induction "is") (simp_all add: nav_entry_def Let_def)

lemma sidebar_highlighted:
  "map entry_href (filter entry_active (sidebar_entries x)) =
     filter (isActive (side_pathname x)) (if is_platform_user (side_user x) then platform_hrefs else tenant_hrefs)"
  by (simp add: sidebar_entries_eq side_groups_def highlighted_entries platform_hrefs_def tenant_hrefs_def)

lemma platform_entry:
  assumes "is_platform_user (side_user x)" and "e \<in> set (sidebar_entries x)"
  shows "startsWith (entry_href e) ''/platform/'' \<and> \<not> entry_denied e"
proof -
  obtain i where i: "e = nav_entry x i" "i \<in> set (concat (map group_items PLATFORM_NAV_GROUPS))"
    using assms by (auto simp: sidebar_entries_eq side_groups_def)
  then have "nav_href i \<in> set platform_hrefs" by (auto simp: platform_hrefs_def intro!: imageI)
  then have "startsWith (nav_href i) ''/platform/''" "map_of NAV_MODULE_MAP (nav_href i) = None"
    using platform_hrefs_ok by (auto simp: list_all_iff)
  then show ?thesis using assms(1) i(1) by (simp add: nav_entry_def nav_level_def Let_def)
qed

section \<open>Properties\<close>

text \<open>
  C30 What the sidebar lets a user do. A platform operator sees platform pages only, and every one of them
  opens, whatever role is previewed and whatever the entitlements say; any other user sees no platform page,
  and an entry opens its page, closing the drawer, exactly when the previewed role has a level for its module
  and the plan does not disable its feature.
\<close>

theorem sidebar_isolation:
  "if is_platform_user (side_user x)
   then list_all (\<lambda>e. startsWith (entry_href e) ''/platform/'' \<and> click_entry e is_open = (Some (entry_href e), False))
          (sidebar_entries x)
   else list_all (\<lambda>e. \<not> startsWith (entry_href e) ''/platform/'' \<and>
            click_entry e is_open =
              (if nav_level (side_roles x) (side_roleId x) (entry_href e) = PL_NONE \<or>
                  isNavItemEntitlementGated (entry_href e) (side_features x)
               then (None, is_open) else (Some (entry_href e), False)))
          (sidebar_entries x)"
proof (cases "is_platform_user (side_user x)")
  case True
  then show ?thesis using platform_entry [OF True] by (simp add: list_all_iff click_entry_def)
next
  case False
  have "click_entry e is_open =
      (if nav_level (side_roles x) (side_roleId x) (entry_href e) = PL_NONE \<or>
          isNavItemEntitlementGated (entry_href e) (side_features x)
       then (None, is_open) else (Some (entry_href e), False))" if "e \<in> set (sidebar_entries x)" for e
    using that False by (auto simp: sidebar_entries_eq click_entry_def nav_entry_def Let_def)
  moreover have "\<not> startsWith (entry_href e) ''/platform/''" if "e \<in> set (sidebar_entries x)" for e
    using entry_of_href [OF that] tenant_hrefs_ok(1) False by (simp add: list_all_iff)
  ultimately show ?thesis using False by (simp add: list_all_iff)
qed

section \<open>What the sidebar does not do\<close>

text \<open>
  The administration module governs \<open>/organization/users\<close> and \<open>/organization/roles\<close>, which are not in the
  sidebar: two roles that differ there only give the same sidebar.
\<close>

lemma administration_preview_changes_nothing:
  assumes "\<And>m. m \<noteq> PM_Administration \<Longrightarrow> accessFor st i m = accessFor st' j m"
  shows "sidebar_entries (x\<lparr>side_roles := st, side_roleId := i\<rparr>) = sidebar_entries (x\<lparr>side_roles := st', side_roleId := j\<rparr>)"
proof -
  have "nav_level st i (nav_href it) = nav_level st' j (nav_href it)"
    if "it \<in> set (concat (map group_items (side_groups x)))" for it
  proof -
    have "nav_href it \<in> set (tenant_hrefs @ platform_hrefs)"
      using that by (auto simp: side_groups_def tenant_hrefs_def platform_hrefs_def split: if_splits)
    then have "map_of NAV_MODULE_MAP (nav_href it) \<noteq> Some PM_Administration"
      using no_administration_entry by (simp add: list_all_iff)
    then show ?thesis using assms by (auto simp: nav_level_def split: option.split)
  qed
  then show ?thesis
    unfolding sidebar_entries_eq by (auto simp: side_groups_def nav_entry_def Let_def)
qed

text \<open>A page below another page of the sidebar is announced as the current page together with it.\<close>

lemma two_current_pages:
  assumes "\<not> is_platform_user (side_user x)" and "side_pathname x = ''/procurement/vendors''"
  shows "map entry_href (filter entry_active (sidebar_entries x)) = [''/procurement'', ''/procurement/vendors'']"
proof -
  have "filter (isActive ''/procurement/vendors'') tenant_hrefs = [''/procurement'', ''/procurement/vendors'']"
    by code_simp
  then show ?thesis using assms by (simp add: sidebar_highlighted)
qed

end
