(* ===== verification/Search.thy ===== *)
theory Search
  imports Fleet Labels Seed
begin

text \<open>
  The global search: the index of \<open>src/frontend/lib/mock/search.ts\<close> over the records of the world, and
  the search box of \<open>src/frontend/components/search/GlobalSearch.tsx\<close> with its keyboard. Shown: a key or a
  click only ever opens a result that is listed, the list loses nothing while no type has more than six
  hits, and where the arrow keys lead.
\<close>

section \<open>The index\<close>

datatype SearchResultType =
    SR_Aircraft | SR_Engine | SR_Component | SR_Part | SR_WorkOrder | SR_Technician | SR_Vendor | SR_PurchaseOrder
  | SR_Regulation

record SearchResult =
  sr_type :: SearchResultType
  sr_id :: string
  sr_title :: string
  sr_subtitle :: string
  sr_href :: string

definition includesQ :: "string option \<Rightarrow> string \<Rightarrow> bool" where
  "includesQ v q = (case v of None \<Rightarrow> False | Some s \<Rightarrow> s \<noteq> [] \<and> str_includes (toLowerCase s) q)"

definition search_aircraft :: "string \<Rightarrow> Aircraft list \<Rightarrow> SearchResult list" where
  "search_aircraft q xs =
     map (\<lambda>a. \<lparr>sr_type = SR_Aircraft, sr_id = ac_id a, sr_title = currentRegistration a,
        sr_subtitle = ''MSN '' @ ac_msn a, sr_href = ''/aircraft/'' @ ac_id a\<rparr>)
       (filter (\<lambda>a. includesQ (Some (currentRegistration a)) q \<or> includesQ (Some (ac_msn a)) q) xs)"

definition search_engines :: "string \<Rightarrow> Engine list \<Rightarrow> SearchResult list" where
  "search_engines q xs =
     map (\<lambda>e. \<lparr>sr_type = SR_Engine, sr_id = en_id e, sr_title = en_serialNumber e, sr_subtitle = ''Engine'',
        sr_href = ''/engines/'' @ en_id e\<rparr>)
       (filter (\<lambda>e. includesQ (Some (en_serialNumber e)) q) xs)"

definition serial_title :: "string \<Rightarrow> string \<Rightarrow> string" where
  "serial_title partNumber serial = partNumber @ '' '' @ em_dash @ '' SN '' @ serial"

definition search_components :: "string \<Rightarrow> world \<Rightarrow> SearchResult list" where
  "search_components q W =
     List.map_filter (\<lambda>ci. case componentForInstance W (ci_id ci) of
         None \<Rightarrow> None
       | Some c \<Rightarrow>
           if includesQ (Some (ci_serialNumber ci)) q \<or> includesQ (Some (cp_partNumber c)) q \<or> includesQ (Some (cp_description c)) q
           then Some \<lparr>sr_type = SR_Component, sr_id = ci_id ci,
                  sr_title = serial_title (cp_partNumber c) (ci_serialNumber ci),
                  sr_subtitle = cp_description c, sr_href = ''/components/'' @ ci_id ci\<rparr>
           else None)
       (componentInstances W)"

definition search_parts :: "string \<Rightarrow> Part list \<Rightarrow> SearchResult list" where
  "search_parts q xs =
     map (\<lambda>p. \<lparr>sr_type = SR_Part, sr_id = pt_id p,
        sr_title = (case pt_serialNumber p of
            None \<Rightarrow> pt_partNumber p
          | Some s \<Rightarrow> if s = [] then pt_partNumber p else serial_title (pt_partNumber p) s),
        sr_subtitle = pt_description p, sr_href = ''/maintenance/parts/'' @ pt_id p\<rparr>)
       (filter (\<lambda>p. includesQ (Some (pt_partNumber p)) q \<or> includesQ (pt_serialNumber p) q \<or>
                    includesQ (Some (pt_description p)) q \<or> includesQ (pt_batchOrLot p) q) xs)"

definition search_work_orders :: "string \<Rightarrow> WorkOrder list \<Rightarrow> SearchResult list" where
  "search_work_orders q xs =
     map (\<lambda>w. \<lparr>sr_type = SR_WorkOrder, sr_id = wo_id w, sr_title = wo_workOrderNumber w, sr_subtitle = wo_title w,
        sr_href = ''/maintenance/work-orders/'' @ wo_id w\<rparr>)
       (filter (\<lambda>w. includesQ (Some (wo_workOrderNumber w)) q \<or> includesQ (Some (wo_title w)) q) xs)"

definition search_technicians :: "string \<Rightarrow> Technician list \<Rightarrow> SearchResult list" where
  "search_technicians q xs =
     map (\<lambda>t. \<lparr>sr_type = SR_Technician, sr_id = te_id t, sr_title = te_name t, sr_subtitle = te_role t,
        sr_href = ''/maintenance/technicians/'' @ te_id t\<rparr>)
       (filter (\<lambda>t. includesQ (Some (te_name t)) q \<or> includesQ (Some (te_role t)) q) xs)"

definition search_vendors :: "string \<Rightarrow> Vendor list \<Rightarrow> SearchResult list" where
  "search_vendors q xs =
     map (\<lambda>v. \<lparr>sr_type = SR_Vendor, sr_id = ve_id v, sr_title = ve_name v,
        sr_subtitle = or_else (ve_vendorCode v) ''Vendor'', sr_href = ''/procurement/vendors/'' @ ve_id v\<rparr>)
       (filter (\<lambda>v. includesQ (Some (ve_name v)) q \<or> includesQ (ve_vendorCode v) q \<or> includesQ (ve_legalName v) q) xs)"

definition search_purchase_orders :: "string \<Rightarrow> PurchaseOrder list \<Rightarrow> SearchResult list" where
  "search_purchase_orders q xs =
     map (\<lambda>p. \<lparr>sr_type = SR_PurchaseOrder, sr_id = po_id p, sr_title = po_poNumber p,
        sr_subtitle = lit_PurchaseOrderStatus (po_status p), sr_href = ''/procurement/purchase-orders/'' @ po_id p\<rparr>)
       (filter (\<lambda>p. includesQ (Some (po_poNumber p)) q) xs)"

definition search_regulations :: "string \<Rightarrow> RegulatoryRequirement list \<Rightarrow> SearchResult list" where
  "search_regulations q xs =
     map (\<lambda>r. \<lparr>sr_type = SR_Regulation, sr_id = rr_id r, sr_title = rr_requirementNumber r,
        sr_subtitle = lit_RequirementType (rr_requirementType r), sr_href = ''/regulations/'' @ rr_id r\<rparr>)
       (filter (\<lambda>r. includesQ (Some (rr_requirementNumber r)) q \<or> includesQ (Some (rr_description r)) q) xs)"

definition searchAll :: "world \<Rightarrow> string \<Rightarrow> SearchResult list" where
  "searchAll W query =
     (let q = toLowerCase (trim query) in
      if q = [] then []
      else search_aircraft q (aircraft W) @ search_engines q (engines W) @ search_components q W @
        search_parts q (parts W) @ search_work_orders q (workOrders W) @ search_technicians q (technicians W) @
        search_vendors q (vendors W) @ search_purchase_orders q (purchaseOrders W) @
        search_regulations q (regulatoryRequirements W))"

section \<open>The list\<close>

definition TYPE_ORDER :: "SearchResultType list" where
  "TYPE_ORDER = [SR_Aircraft, SR_Engine, SR_Component, SR_Part, SR_WorkOrder, SR_Technician, SR_Vendor, SR_PurchaseOrder,
     SR_Regulation]"

definition MAX_PER_GROUP :: nat where
  "MAX_PER_GROUP = 6"

definition group_items_of :: "SearchResult list \<Rightarrow> SearchResultType \<Rightarrow> SearchResult list" where
  "group_items_of results t = take MAX_PER_GROUP (filter (\<lambda>r. sr_type r = t) results)"

definition groupResults :: "SearchResult list \<Rightarrow> (SearchResultType \<times> SearchResult list) list" where
  "groupResults results =
     filter (\<lambda>(t, items). length items > 0) (map (\<lambda>t. (t, group_items_of results t)) TYPE_ORDER)"

text \<open>\<open>groups.flatMap((g) => g.items)\<close>.\<close>

definition flat_results :: "SearchResult list \<Rightarrow> SearchResult list" where
  "flat_results results = concat (map snd (groupResults results))"

section \<open>The search box\<close>

text \<open>
  \<open>box_results\<close> is what the memo of the last query holds, \<open>box_pushed\<close> the paths the router was sent to.
\<close>

record SearchBox =
  box_query :: string
  box_open :: bool
  box_results :: "SearchResult list"
  box_activeIndex :: int
  box_pushed :: "string list"

definition search_init :: SearchBox where
  "search_init = \<lparr>box_query = [], box_open = False, box_results = [], box_activeIndex = -1, box_pushed = []\<rparr>"

definition flatResults :: "SearchBox \<Rightarrow> SearchResult list" where
  "flatResults s = flat_results (box_results s)"

text \<open>The remainder of JavaScript takes the sign of the dividend.\<close>

definition js_rem :: "int \<Rightarrow> int \<Rightarrow> int" where
  "js_rem a b = (if a < 0 then - ((- a) mod b) else a mod b)"

text \<open>A change of the query computes the results again and runs the effect that clears the selection.\<close>

definition set_query :: "world \<Rightarrow> string \<Rightarrow> SearchBox \<Rightarrow> SearchBox" where
  "set_query W q s =
     (if q = box_query s then s
      else s\<lparr>box_query := q, box_results := searchAll W q, box_activeIndex := -1\<rparr>)"

definition go :: "world \<Rightarrow> string \<Rightarrow> SearchBox \<Rightarrow> SearchBox" where
  "go W href s =
     (let s' = set_query W [] (s\<lparr>box_open := False\<rparr>) in s'\<lparr>box_pushed := box_pushed s' @ [href]\<rparr>)"

datatype SearchEvent =
    BoxInput string
  | BoxFocus
  | BoxShortcut
  | BoxBlurTimeout
  | BoxKey string
  | BoxHover nat
  | BoxClick nat

definition onInputKeyDown :: "world \<Rightarrow> string \<Rightarrow> SearchBox \<Rightarrow> SearchBox" where
  "onInputKeyDown W key s =
     (let flat = flatResults s; n = int (length flat) in
      if \<not> box_open s \<or> flat = [] then s
      else if key = ''ArrowDown'' then s\<lparr>box_activeIndex := js_rem (box_activeIndex s + 1) n\<rparr>
      else if key = ''ArrowUp'' then s\<lparr>box_activeIndex := js_rem (box_activeIndex s - 1 + n) n\<rparr>
      else if key = ''Enter'' \<and> box_activeIndex s \<ge> 0 then go W (sr_href (flat ! nat (box_activeIndex s))) s
      else if key = ''Escape'' then s\<lparr>box_open := False\<rparr>
      else s)"

text \<open>The options are on the page while the box is open and the query is not blank.\<close>

definition options_shown :: "SearchBox \<Rightarrow> nat" where
  "options_shown s = (if box_open s \<and> trim (box_query s) \<noteq> [] then length (flatResults s) else 0)"

fun search_step :: "world \<Rightarrow> SearchBox \<Rightarrow> SearchEvent \<Rightarrow> SearchBox" where
  "search_step W s (BoxInput q) = (set_query W q s)\<lparr>box_open := True\<rparr>"
| "search_step W s BoxFocus = s\<lparr>box_open := True\<rparr>"
| "search_step W s BoxShortcut = s\<lparr>box_open := True\<rparr>"
| "search_step W s BoxBlurTimeout = s\<lparr>box_open := False\<rparr>"
| "search_step W s (BoxKey k) = onInputKeyDown W k s"
| "search_step W s (BoxHover i) = (if i < options_shown s then s\<lparr>box_activeIndex := int i\<rparr> else s)"
| "search_step W s (BoxClick i) = (if i < options_shown s then go W (sr_href (flatResults s ! i)) s else s)"

section \<open>Lemmas\<close>

text \<open>The records may change between the events, so an event comes with the world it finds.\<close>

definition box_step :: "SearchBox \<Rightarrow> world \<times> SearchEvent \<Rightarrow> SearchBox" where
  "box_step s x = search_step (fst x) s (snd x)"

definition box_inv :: "SearchBox \<Rightarrow> bool" where
  "box_inv s \<longleftrightarrow> box_activeIndex s = -1 \<or>
     0 \<le> box_activeIndex s \<and> box_activeIndex s < int (length (flatResults s))"

lemma flat_nil [simp]: "flat_results [] = []"
  by (simp add: flat_results_def groupResults_def group_items_of_def TYPE_ORDER_def)

lemma js_rem_bounds:
  assumes "0 < n" and "- 1 \<le> a"
  shows "0 \<le> js_rem a n \<and> js_rem a n < n \<or> a = - 1 \<and> 1 < n"
  using assms by (cases "a = - 1") (auto simp: js_rem_def)

lemma js_rem_in: "0 < n \<Longrightarrow> 0 \<le> a \<Longrightarrow> 0 \<le> js_rem a n \<and> js_rem a n < n"
  by (simp add: js_rem_def)

lemma js_rem_minus_one [simp]: "js_rem (- 1) 1 = 0"
  by (simp add: js_rem_def)

lemma set_query_inv: "box_inv s \<Longrightarrow> box_inv (set_query W q s)"
  by (simp add: set_query_def box_inv_def)

lemma flat_of [simp]:
  "flatResults (s\<lparr>box_open := b\<rparr>) = flatResults s"
  "flatResults (s\<lparr>box_activeIndex := i\<rparr>) = flatResults s"
  "flatResults (s\<lparr>box_pushed := p\<rparr>) = flatResults s"
  by (simp_all add: flatResults_def)

lemma open_inv [simp]: "box_inv (s\<lparr>box_open := b\<rparr>) = box_inv s" "box_inv (s\<lparr>box_pushed := p\<rparr>) = box_inv s"
  by (simp_all add: box_inv_def)

lemma go_inv: "box_inv s \<Longrightarrow> box_inv (go W h s)"
  by (simp add: go_def Let_def set_query_inv)

lemma arrow_inv:
  assumes "box_inv s" and "flatResults s \<noteq> []"
  shows "box_inv (s\<lparr>box_activeIndex := js_rem (box_activeIndex s + 1) (int (length (flatResults s)))\<rparr>)"
    and "box_inv (s\<lparr>box_activeIndex := js_rem (box_activeIndex s - 1 + int (length (flatResults s))) (int (length (flatResults s)))\<rparr>)"
proof -
  let ?n = "int (length (flatResults s))"
  have n: "0 < ?n" using assms by simp
  have a: "- 1 \<le> box_activeIndex s" using assms(1) by (auto simp: box_inv_def)
  show "box_inv (s\<lparr>box_activeIndex := js_rem (box_activeIndex s + 1) ?n\<rparr>)"
    using js_rem_in [OF n, of "box_activeIndex s + 1"] a by (simp add: box_inv_def)
  show "box_inv (s\<lparr>box_activeIndex := js_rem (box_activeIndex s - 1 + ?n) ?n\<rparr>)"
  proof (cases "box_activeIndex s = - 1 \<and> ?n = 1")
    case True
    then show ?thesis by (simp add: box_inv_def)
  next
    case False
    then have "0 \<le> box_activeIndex s - 1 + ?n" using a n by linarith
    then show ?thesis using js_rem_in [OF n, of "box_activeIndex s - 1 + ?n"] by (simp add: box_inv_def)
  qed
qed

lemma key_inv: "box_inv s \<Longrightarrow> box_inv (onInputKeyDown W k s)"
  using arrow_inv [of s] by (simp add: onInputKeyDown_def Let_def go_inv)

interpretation search_box: machine box_step box_inv
proof
  fix s and x :: "world \<times> SearchEvent"
  assume i: "box_inv s"
  obtain W e where x: "x = (W, e)" by fastforce
  show "box_inv (box_step s x)"
  proof (cases e)
    case (BoxHover j)
    then show ?thesis using i by (simp add: x box_step_def box_inv_def options_shown_def)
  qed (use i in \<open>simp_all add: x box_step_def set_query_inv key_inv go_inv\<close>)
qed

text \<open>What one event sends the router.\<close>

lemma go_pushed [simp]: "box_pushed (go W h s) = box_pushed s @ [h]" "box_open (go W h s) = False"
  by (simp_all add: go_def set_query_def Let_def)

definition opens_listed :: "SearchBox \<Rightarrow> SearchBox \<Rightarrow> bool" where
  "opens_listed s s' \<longleftrightarrow>
     (\<exists>r \<in> set (flatResults s). box_pushed s' = box_pushed s @ [sr_href r] \<and> \<not> box_open s')"

lemma key_opens:
  assumes "box_inv s"
  shows "box_pushed (onInputKeyDown W k s) = box_pushed s \<or> opens_listed s (onInputKeyDown W k s)"
proof -
  have "flatResults s ! nat (box_activeIndex s) \<in> set (flatResults s)" if "0 \<le> box_activeIndex s"
    using assms that by (auto simp: box_inv_def)
  then show ?thesis by (auto simp: onInputKeyDown_def opens_listed_def Let_def)
qed

lemma step_opens:
  assumes "box_inv s"
  shows "box_pushed (search_step W s e) = box_pushed s \<or> opens_listed s (search_step W s e)"
proof (cases e)
  case (BoxKey k)
  then show ?thesis using key_opens [OF assms] by simp
next
  case (BoxClick i)
  then show ?thesis by (auto simp: opens_listed_def options_shown_def)
qed (simp_all add: set_query_def)

lemma filter_of_other:
  assumes "t' \<noteq> t"
  shows "filter (\<lambda>r. sr_type r = t') (group_items_of rs t) = []"
  using assms by (auto simp: group_items_of_def filter_empty_conv dest: in_set_takeD)

lemma filter_of_same: "filter (\<lambda>r. sr_type r = t) (group_items_of rs t) = group_items_of rs t"
  by (rule filter_True) (auto simp: group_items_of_def dest: in_set_takeD)

lemma flat_eq: "flat_results rs = concat (map (group_items_of rs) TYPE_ORDER)"
proof -
  have "concat (map snd (filter (\<lambda>(t, items). length items > 0) (map (\<lambda>t. (t, group_items_of rs t)) ts))) =
      concat (map (group_items_of rs) ts)" for ts
    by (induction ts) auto
  then show ?thesis by (simp only: flat_results_def groupResults_def)
qed

lemma filter_flat: "filter (\<lambda>r. sr_type r = t) (flat_results rs) = group_items_of rs t"
  by (cases t) (simp_all add: flat_eq TYPE_ORDER_def filter_of_other filter_of_same)

text \<open>The index lists the hits type by type, in the order of the groups.\<close>

definition of_type :: "SearchResultType \<Rightarrow> SearchResult list \<Rightarrow> bool" where
  "of_type t rs \<longleftrightarrow> (\<forall>r \<in> set rs. sr_type r = t)"

lemma segments_typed:
  "of_type SR_Aircraft (search_aircraft q as)" "of_type SR_Engine (search_engines q es)"
  "of_type SR_Component (search_components q W)" "of_type SR_Part (search_parts q ps)"
  "of_type SR_WorkOrder (search_work_orders q ws)" "of_type SR_Technician (search_technicians q ts)"
  "of_type SR_Vendor (search_vendors q vs)" "of_type SR_PurchaseOrder (search_purchase_orders q os)"
  "of_type SR_Regulation (search_regulations q rs)"
  by (auto simp: of_type_def search_aircraft_def search_engines_def search_components_def search_parts_def
      search_work_orders_def search_technicians_def search_vendors_def search_purchase_orders_def search_regulations_def
      List.map_filter_def split: option.splits if_splits)

lemma filter_typed: "of_type t rs \<Longrightarrow> filter (\<lambda>r. sr_type r = t') rs = (if t' = t then rs else [])"
  by (auto simp: of_type_def filter_empty_conv)

lemma searchAll_by_type: "concat (map (\<lambda>t. filter (\<lambda>r. sr_type r = t) (searchAll W q)) TYPE_ORDER) = searchAll W q"
  by (simp add: searchAll_def Let_def TYPE_ORDER_def filter_typed [OF segments_typed(1)] filter_typed [OF segments_typed(2)]
      filter_typed [OF segments_typed(3)] filter_typed [OF segments_typed(4)] filter_typed [OF segments_typed(5)]
      filter_typed [OF segments_typed(6)] filter_typed [OF segments_typed(7)] filter_typed [OF segments_typed(8)]
      filter_typed [OF segments_typed(9)])

text \<open>The arrow keys on an open box.\<close>

definition press :: "world \<Rightarrow> string \<Rightarrow> nat \<Rightarrow> SearchBox \<Rightarrow> SearchBox" where
  "press W k m s = ((onInputKeyDown W k) ^^ m) s"

lemma press_down:
  assumes "box_open s" and "flatResults s \<noteq> []" and "box_activeIndex s = - 1"
  shows "press W ''ArrowDown'' (Suc m) s =
    s\<lparr>box_activeIndex := int (m mod length (flatResults s))\<rparr>"
proof (induction m)
  case 0
  then show ?case using assms by (simp add: press_def onInputKeyDown_def Let_def js_rem_def)
next
  case (Suc m)
  have "press W ''ArrowDown'' (Suc (Suc m)) s = onInputKeyDown W ''ArrowDown'' (press W ''ArrowDown'' (Suc m) s)"
    by (simp add: press_def)
  also have "\<dots> = s\<lparr>box_activeIndex := int (Suc m mod length (flatResults s))\<rparr>"
  proof -
    have "\<not> int m mod int (length (flatResults s)) + 1 < 0"
      by (simp add: not_less add_nonneg_nonneg zmod_int [symmetric])
    then show ?thesis
      using assms by (simp add: Suc onInputKeyDown_def Let_def js_rem_def zmod_int mod_simps add.commute)
  qed
  finally show ?case .
qed

section \<open>Properties\<close>

text \<open>
  C29 The search box under any sequence of typing, keys, hovering, clicks, focus changes and changes of the
  records: the selection is always one of the listed results or none; an event sends the router nowhere, or to
  a listed result, once, and closes the box; and no type lists more than six results.
\<close>

theorem search_opens_listed:
  "let s = run box_step search_init es; s' = search_step W s e in
   box_inv s \<and> (box_pushed s' = box_pushed s \<or> opens_listed s s') \<and>
   list_all (\<lambda>t. length (filter (\<lambda>r. sr_type r = t) (flatResults s)) \<le> 6) TYPE_ORDER"
proof -
  have i: "box_inv (run box_step search_init es)"
    by (rule search_box.run_inv) (simp add: box_inv_def search_init_def)
  then show ?thesis
    using step_opens [OF i] by (simp add: Let_def flatResults_def filter_flat group_items_of_def MAX_PER_GROUP_def list_all_iff)
qed

text \<open>
  While no type has more than six hits, the list shows exactly the hits of the index, in its order.
\<close>

theorem search_list_complete:
  assumes "\<And>t. length (filter (\<lambda>r. sr_type r = t) (searchAll W q)) \<le> 6"
  shows "flat_results (searchAll W q) = searchAll W q"
proof -
  have "group_items_of (searchAll W q) t = filter (\<lambda>r. sr_type r = t) (searchAll W q)" for t
    using assms [of t] by (simp add: group_items_of_def MAX_PER_GROUP_def)
  then show ?thesis using searchAll_by_type [of W q] by (simp add: flat_eq cong: map_cong)
qed

definition brake_found :: "SearchResult list \<Rightarrow> bool" where
  "brake_found rs \<longleftrightarrow> map sr_id rs = [''part-4'', ''wo-1053''] \<and>
     list_all (\<lambda>t. length (filter (\<lambda>r. sr_type r = t) rs) \<le> 6) TYPE_ORDER"

lemma brake_search: "brake_found (searchAll seed_world ''brake'')"
  by code_simp

lemma brake_hits:
  "map sr_id (searchAll seed_world ''brake'') = [''part-4'', ''wo-1053'']"
  "list_all (\<lambda>t. length (filter (\<lambda>r. sr_type r = t) (searchAll seed_world ''brake'')) \<le> 6) TYPE_ORDER"
  using brake_search unfolding brake_found_def by (rule conjunct1, rule conjunct2)

lemma in_type_order: "t \<in> set TYPE_ORDER"
  by (cases t) (simp_all add: TYPE_ORDER_def)

theorem search_list_complete_witness:
  "map sr_id (flat_results (searchAll seed_world ''brake'')) = [''part-4'', ''wo-1053'']"
proof -
  have "flat_results (searchAll seed_world ''brake'') = searchAll seed_world ''brake''"
    by (rule search_list_complete) (use brake_hits(2) in_type_order in \<open>simp add: list_all_iff\<close>)
  then show ?thesis by (simp only: brake_hits)
qed

text \<open>
  From an open box with nothing selected, the m-th press of the down arrow selects the m-th result and wraps
  around after the last one, so every result can be reached from the keyboard; and the first press of the up
  arrow selects the last but one of two or more results, not the last.
\<close>

theorem arrow_keys_exact:
  assumes "box_open s" and "flatResults s \<noteq> []" and "box_activeIndex s = - 1"
  shows "box_activeIndex (press W ''ArrowDown'' (Suc m) s) = int (m mod length (flatResults s)) \<and>
    box_activeIndex (press W ''ArrowUp'' 1 s) = int (length (flatResults s) - 2)"
proof -
  obtain k where "length (flatResults s) = Suc k" using assms(2) by (cases "flatResults s") auto
  then have "box_activeIndex (press W ''ArrowUp'' 1 s) = int (length (flatResults s) - 2)"
    using assms by (cases k) (simp_all add: press_def onInputKeyDown_def Let_def js_rem_def)
  then show ?thesis using press_down [OF assms] by simp
qed

definition brake_box :: SearchBox where
  "brake_box = search_step seed_world search_init (BoxInput ''brake'')"

definition box_of_two :: "SearchBox \<Rightarrow> bool" where
  "box_of_two s \<longleftrightarrow> box_open s \<and> length (flatResults s) = 2 \<and> box_activeIndex s = - 1"

lemma brake_box_of_two: "box_of_two brake_box"
  by code_simp

lemma brake_box_state: "box_open brake_box" "length (flatResults brake_box) = 2" "box_activeIndex brake_box = - 1"
  using brake_box_of_two by (simp_all add: box_of_two_def)

theorem arrow_keys_exact_witness:
  "box_activeIndex (press seed_world ''ArrowDown'' 2 brake_box) = 1 \<and>
   box_activeIndex (press seed_world ''ArrowUp'' 1 brake_box) = 0"
proof -
  have "flatResults brake_box \<noteq> []" using brake_box_state(2) by auto
  then show ?thesis
    using arrow_keys_exact [of brake_box seed_world 1] brake_box_state by (simp add: numeral_2_eq_2)
qed

end
