(* ===== verification/ClientMaintenance.thy ===== *)
theory ClientMaintenance
  imports Json
begin

text \<open>
  The types of \<open>src/frontend/lib/api/workOrders.ts\<close>, \<open>tasks.ts\<close> and \<open>parts.ts\<close> that the work-order page reads.
  An interface is a record whose fields carry a prefix. A field that may be null or absent is an
  option, a union of literals a datatype, a value of no declared shape a \<open>json\<close>.
\<close>

record BackendWorkOrder =
  bwo_id :: string
  bwo_organization_id :: string
  bwo_aircraft_id :: "string option"
  bwo_asset_id :: "string option"
  bwo_work_order_number :: string
  bwo_status :: string
  bwo_priority :: string
  bwo_title :: "string option"
  bwo_description :: "string option"
  bwo_work_order_type :: "string option"
  bwo_maintenance_category :: "string option"
  bwo_scheduled_start :: "string option"
  bwo_scheduled_end :: "string option"
  bwo_actual_start :: "string option"
  bwo_actual_end :: "string option"
  bwo_due_at :: "string option"
  bwo_estimated_hours :: "rat option"
  bwo_actual_hours :: "rat option"
  bwo_estimated_cost :: "rat option"
  bwo_actual_cost :: "rat option"
  bwo_assigned_to_user_id :: "string option"
  bwo_location :: "string option"
  bwo_source_type :: "string option"
  bwo_source_reference :: "string option"
  bwo_compliance_required :: bool
  bwo_compliance_reference :: "string option"
  bwo_completed_at :: "string option"
  bwo_closed_at :: "string option"
  bwo_cancelled_at :: "string option"
  bwo_cancellation_reason :: "string option"
  bwo_created_by_user_id :: "string option"
  bwo_created_at :: string
  bwo_updated_at :: "string option"
  bwo_deleted_at :: "string option"

datatype BackendTatStatus = BTAT_ON_TRACK | BTAT_AT_RISK | BTAT_DELAYED | BTAT_UNKNOWN

record TatStatusResponse =
  btat_work_order_id :: string
  btat_status :: "BackendTatStatus"
  btat_due_date :: "string option"
  btat_days_remaining :: "int option"
  btat_days_overdue :: "int option"
  btat_reason :: string

record BackendTask =
  btask_id :: string
  btask_organization_id :: string
  btask_work_order_id :: string
  btask_description :: string
  btask_task_number :: "string option"
  btask_title :: "string option"
  btask_execution_state :: string
  btask_estimated_hours :: "rat option"
  btask_actual_hours :: "rat option"
  btask_started_at :: "string option"
  btask_completed_at :: "string option"
  btask_sequence :: "int option"
  btask_assigned_technician_user_id :: "string option"
  btask_evidence_required :: "bool option"
  btask_notes :: "string option"
  btask_created_at :: string

record BackendPartRequirement =
  breq_id :: string
  breq_organization_id :: string
  breq_work_order_id :: string
  breq_task_id :: "string option"
  breq_part_id :: string
  breq_required_quantity :: rat
  breq_fulfilled_quantity :: rat
  breq_status :: string
  breq_priority :: string
  breq_created_at :: string

end
