(* ===== verification/WorkOrderService.thy ===== *)
theory WorkOrderService
  imports Prelude Contracts
begin

text \<open>
  The service side of a work order, \<open>src/backend/app/services/work_order_service.py\<close>: the graph of the
  allowed transitions and the operations the work-order page calls, for one work order that was found in the
  organization of the caller. What the service reads of other tables in an operation (the tasks, the
  inspection requirements, the blockers of the release, whether a user belongs to the organization) is an
  argument of the operation; the clock is an argument.
\<close>

definition WO_ALLOWED_TRANSITIONS :: "(string \<times> string list) list" where
  "WO_ALLOWED_TRANSITIONS =
     [(''DRAFT'', [''OPEN'', ''CANCELLED'']),
      (''OPEN'', [''PLANNED'', ''ASSIGNED'', ''CANCELLED'']),
      (''PLANNED'', [''ASSIGNED'', ''CANCELLED'']),
      (''ASSIGNED'', [''IN_PROGRESS'', ''PLANNED'', ''CANCELLED'']),
      (''IN_PROGRESS'', [''ON_HOLD'', ''INSPECTION'', ''CANCELLED'']),
      (''ON_HOLD'', [''IN_PROGRESS'', ''CANCELLED'']),
      (''INSPECTION'', [''COMPLETED'', ''IN_PROGRESS'', ''CANCELLED'']),
      (''COMPLETED'', [''CLOSED'']),
      (''CLOSED'', []),
      (''CANCELLED'', [])]"

definition allowed_targets :: "string \<Rightarrow> string list" where
  "allowed_targets s = or_else (map_of WO_ALLOWED_TRANSITIONS s) []"

text \<open>The columns the operations read and write, and the audit events they record.\<close>

record AuditEntry =
  audit_action :: string
  audit_previous :: string
  audit_new :: string

record ServiceWorkOrder =
  sw_status :: string
  sw_assigned_to :: "string option"
  sw_actual_start :: "int option"
  sw_actual_end :: "int option"
  sw_completed_at :: "int option"
  sw_closed_at :: "int option"
  sw_cancelled_at :: "int option"
  sw_cancellation_reason :: "string option"
  sw_audit :: "AuditEntry list"

text \<open>What the gates read: the states of the tasks and of the inspection requirements of the work order, and
  the blockers of its release when its readiness is \<open>BLOCKED\<close>.\<close>

record GateInput =
  gate_task_states :: "string list"
  gate_inspection_states :: "string list"
  gate_release_blockers :: "string list option"

datatype ServiceError =
    InvalidTransition string string
  | NoTechnician string
  | TasksUncompleted nat
  | InspectionsUnsatisfied nat
  | ReleaseBlocked "string list"
  | ReasonRequired
  | CannotAssign string
  | UserNotInOrganization

definition satisfies_completion_gate :: "string \<Rightarrow> bool" where
  "satisfies_completion_gate status \<longleftrightarrow> status = ''COMPLETED'' \<or> status = ''NOT_REQUIRED''"

text \<open>\<open>len(s)\<close> counts code points: the bytes that do not continue one.\<close>

definition continues :: "char \<Rightarrow> bool" where
  "continues c \<longleftrightarrow> 128 \<le> (of_char c :: nat) \<and> (of_char c :: nat) < 192"

definition py_len :: "string \<Rightarrow> nat" where
  "py_len s = length (filter (\<lambda>c. \<not> continues c) s)"

definition count_where :: "('b \<Rightarrow> bool) \<Rightarrow> 'b list \<Rightarrow> nat" where
  "count_where P xs = length (filter P xs)"

text \<open>The branch of the target status: an error, or the columns it sets.\<close>

definition transition_gate ::
  "GateInput \<Rightarrow> string option \<Rightarrow> int \<Rightarrow> string \<Rightarrow> ServiceWorkOrder \<Rightarrow> ServiceError + ServiceWorkOrder" where
  "transition_gate g reason now target w =
     (if target = ''ASSIGNED'' then
        (if sw_assigned_to w = None then Inl (NoTechnician target) else Inr w)
      else if target = ''IN_PROGRESS'' then
        (if sw_assigned_to w = None then Inl (NoTechnician target)
         else Inr (if sw_actual_start w = None then w\<lparr>sw_actual_start := Some now\<rparr> else w))
      else if target = ''INSPECTION'' then
        (let n = count_where (\<lambda>s. s \<noteq> ''COMPLETED'') (gate_task_states g)
         in if n > 0 then Inl (TasksUncompleted n) else Inr w)
      else if target = ''COMPLETED'' then
        (let n = count_where (\<lambda>s. \<not> satisfies_completion_gate s) (gate_inspection_states g)
         in if n > 0 then Inl (InspectionsUnsatisfied n)
            else Inr (w\<lparr>sw_completed_at := Some now,
                        sw_actual_end := (if sw_actual_end w = None then Some now else sw_actual_end w)\<rparr>))
      else if target = ''CLOSED'' then
        (case gate_release_blockers g of
           Some bs \<Rightarrow> Inl (ReleaseBlocked bs)
         | None \<Rightarrow> Inr (w\<lparr>sw_closed_at := Some now\<rparr>))
      else if target = ''CANCELLED'' then
        (case reason of
           None \<Rightarrow> Inl ReasonRequired
         | Some r \<Rightarrow>
             if r = [] \<or> py_len (trim r) < 3 then Inl ReasonRequired
             else Inr (w\<lparr>sw_cancelled_at := Some now, sw_cancellation_reason := Some (trim r)\<rparr>))
      else Inr w)"

definition transition_work_order ::
  "GateInput \<Rightarrow> string option \<Rightarrow> int \<Rightarrow> string \<Rightarrow> ServiceWorkOrder \<Rightarrow> ServiceError + ServiceWorkOrder" where
  "transition_work_order g reason now target w =
     (if sw_status w = target then Inr w
      else if target \<notin> set (allowed_targets (sw_status w)) then Inl (InvalidTransition (sw_status w) target)
      else (case transition_gate g reason now target w of
              Inl e \<Rightarrow> Inl e
            | Inr w' \<Rightarrow> Inr (w'\<lparr>sw_status := target,
                 sw_audit := sw_audit w @
                   [\<lparr>audit_action = ''work_order.transitioned'', audit_previous = sw_status w, audit_new = target\<rparr>]\<rparr>)))"

definition cancel_work_order ::
  "GateInput \<Rightarrow> string \<Rightarrow> int \<Rightarrow> ServiceWorkOrder \<Rightarrow> ServiceError + ServiceWorkOrder" where
  "cancel_work_order g reason now w = transition_work_order g (Some reason) now ''CANCELLED'' w"

definition close_work_order :: "GateInput \<Rightarrow> int \<Rightarrow> ServiceWorkOrder \<Rightarrow> ServiceError + ServiceWorkOrder" where
  "close_work_order g now w = transition_work_order g None now ''CLOSED'' w"

definition complete_work_order :: "GateInput \<Rightarrow> int \<Rightarrow> ServiceWorkOrder \<Rightarrow> ServiceError + ServiceWorkOrder" where
  "complete_work_order g now w = transition_work_order g None now ''COMPLETED'' w"

text \<open>\<open>member u\<close>: the user belongs to the organization.\<close>

definition assign_work_order ::
  "(string \<Rightarrow> bool) \<Rightarrow> string \<Rightarrow> ServiceWorkOrder \<Rightarrow> ServiceError + ServiceWorkOrder" where
  "assign_work_order member user w =
     (if sw_status w = ''CLOSED'' \<or> sw_status w = ''CANCELLED'' then Inl (CannotAssign (sw_status w))
      else if \<not> member user then Inl UserNotInOrganization
      else let new = (if sw_status w = ''OPEN'' \<or> sw_status w = ''PLANNED'' then ''ASSIGNED'' else sw_status w)
        in Inr (w\<lparr>sw_assigned_to := Some user, sw_status := new,
             sw_audit := sw_audit w @
               [\<lparr>audit_action = ''work_order.assigned'', audit_previous = sw_status w, audit_new = new\<rparr>]\<rparr>))"

text \<open>\<open>WorkOrderCancelRequest\<close>: what validation makes of the two fields of the body, \<open>None\<close> for a
  rejected request.\<close>

definition py_or :: "string option \<Rightarrow> string option \<Rightarrow> string option" where
  "py_or a b = (if a = None \<or> a = Some [] then b else a)"

definition within_length :: "nat \<Rightarrow> string option \<Rightarrow> bool" where
  "within_length n v = (case v of None \<Rightarrow> True | Some s \<Rightarrow> py_len s \<le> n)"

definition cancel_request :: "string option \<Rightarrow> string option \<Rightarrow> string option" where
  "cancel_request cancellation_reason reason =
     (if \<not> within_length 500 cancellation_reason \<or> \<not> within_length 500 reason then None
      else (case py_or cancellation_reason reason of
              None \<Rightarrow> None
            | Some v \<Rightarrow> if v = [] \<or> py_len (trim v) < 3 then None else Some (trim v)))"

section \<open>The operations as a machine\<close>

datatype ServiceCall =
    CallTransition string "string option"
  | CallComplete
  | CallClose
  | CallCancel string
  | CallAssign string

fun service_answer ::
  "(string \<Rightarrow> bool) \<Rightarrow> GateInput \<Rightarrow> int \<Rightarrow> ServiceCall \<Rightarrow> ServiceWorkOrder \<Rightarrow> ServiceError + ServiceWorkOrder" where
  "service_answer member g now (CallTransition target reason) w = transition_work_order g reason now target w"
| "service_answer member g now CallComplete w = complete_work_order g now w"
| "service_answer member g now CallClose w = close_work_order g now w"
| "service_answer member g now (CallCancel reason) w = cancel_work_order g reason now w"
| "service_answer member g now (CallAssign user) w = assign_work_order member user w"

text \<open>An error rolls the session back.\<close>

definition service_call ::
  "(string \<Rightarrow> bool) \<Rightarrow> GateInput \<Rightarrow> int \<Rightarrow> ServiceCall \<Rightarrow> ServiceWorkOrder \<Rightarrow> ServiceWorkOrder" where
  "service_call member g now c w = (case service_answer member g now c w of Inl e \<Rightarrow> w | Inr w' \<Rightarrow> w')"

section \<open>Lemmas\<close>

definition terminal :: "string \<Rightarrow> bool" where
  "terminal s \<longleftrightarrow> s = ''CLOSED'' \<or> s = ''CANCELLED''"

lemma allowed_targets_simps [simp]:
  "allowed_targets ''DRAFT'' = [''OPEN'', ''CANCELLED'']"
  "allowed_targets ''OPEN'' = [''PLANNED'', ''ASSIGNED'', ''CANCELLED'']"
  "allowed_targets ''PLANNED'' = [''ASSIGNED'', ''CANCELLED'']"
  "allowed_targets ''ASSIGNED'' = [''IN_PROGRESS'', ''PLANNED'', ''CANCELLED'']"
  "allowed_targets ''IN_PROGRESS'' = [''ON_HOLD'', ''INSPECTION'', ''CANCELLED'']"
  "allowed_targets ''ON_HOLD'' = [''IN_PROGRESS'', ''CANCELLED'']"
  "allowed_targets ''INSPECTION'' = [''COMPLETED'', ''IN_PROGRESS'', ''CANCELLED'']"
  "allowed_targets ''COMPLETED'' = [''CLOSED'']"
  "allowed_targets ''CLOSED'' = []"
  "allowed_targets ''CANCELLED'' = []"
  by (simp_all add: allowed_targets_def WO_ALLOWED_TRANSITIONS_def)

text \<open>What a call that succeeds does to the status.\<close>

lemma transition_gate_keeps:
  "transition_gate g reason now target w = Inr w' \<Longrightarrow>
   sw_status w' = sw_status w \<and> sw_audit w' = sw_audit w \<and> sw_assigned_to w' = sw_assigned_to w"
  by (auto simp: transition_gate_def Let_def split: if_splits option.splits)

lemma transition_moves:
  assumes "transition_work_order g reason now target w = Inr w'"
  shows "sw_status w' = target \<and> (sw_status w = target \<or> target \<in> set (allowed_targets (sw_status w)))"
  using assms by (auto simp: transition_work_order_def split: if_splits sum.splits)

text \<open>The audit trail, read as moves of the status.\<close>

definition legal_move :: "AuditEntry \<Rightarrow> bool" where
  "legal_move e \<longleftrightarrow>
     audit_action e = ''work_order.transitioned'' \<and> audit_new e \<in> set (allowed_targets (audit_previous e)) \<or>
     audit_action e = ''work_order.assigned'' \<and> \<not> terminal (audit_previous e) \<and>
       (audit_new e = audit_previous e \<or> audit_new e \<in> set (allowed_targets (audit_previous e)))"

fun replay :: "string \<Rightarrow> AuditEntry list \<Rightarrow> string option" where
  "replay s [] = Some s"
| "replay s (e # es) = (if audit_previous e = s \<and> legal_move e then replay (audit_new e) es else None)"

lemma replay_append:
  "replay s es = Some t \<Longrightarrow> audit_previous e = t \<Longrightarrow> legal_move e \<Longrightarrow> replay s (es @ [e]) = Some (audit_new e)"
  by (induction es arbitrary: s) (auto split: if_splits)

definition explained :: "string \<Rightarrow> ServiceWorkOrder \<Rightarrow> bool" where
  "explained s w \<longleftrightarrow> replay s (sw_audit w) = Some (sw_status w)"

lemma transition_explained:
  assumes "explained s w" and "transition_work_order g reason now target w = Inr w'"
  shows "explained s w'"
proof (cases "sw_status w = target")
  case True
  then show ?thesis using assms by (simp add: transition_work_order_def)
next
  case False
  then obtain v where t: "target \<in> set (allowed_targets (sw_status w))"
    and v: "transition_gate g reason now target w = Inr v"
    and w': "w' = v\<lparr>sw_status := target, sw_audit := sw_audit w @
      [\<lparr>audit_action = ''work_order.transitioned'', audit_previous = sw_status w, audit_new = target\<rparr>]\<rparr>"
    using assms(2) by (auto simp: transition_work_order_def split: if_splits sum.splits)
  show ?thesis
    using replay_append [OF assms(1) [unfolded explained_def], of
      "\<lparr>audit_action = ''work_order.transitioned'', audit_previous = sw_status w, audit_new = target\<rparr>"] t
    by (simp add: explained_def w' legal_move_def)
qed

lemma assign_explained:
  assumes "explained s w" and "assign_work_order member user w = Inr w'"
  shows "explained s w'"
proof -
  let ?new = "if sw_status w = ''OPEN'' \<or> sw_status w = ''PLANNED'' then ''ASSIGNED'' else sw_status w"
  let ?e = "\<lparr>audit_action = ''work_order.assigned'', audit_previous = sw_status w, audit_new = ?new\<rparr>"
  have w': "w' = w\<lparr>sw_assigned_to := Some user, sw_status := ?new, sw_audit := sw_audit w @ [?e]\<rparr>"
    and n: "\<not> terminal (sw_status w)"
    using assms(2) by (auto simp: assign_work_order_def terminal_def Let_def split: if_splits)
  have "legal_move ?e" using n by (simp add: legal_move_def)
  then have "replay s (sw_audit w @ [?e]) = Some ?new"
    using replay_append [OF assms(1) [unfolded explained_def], of ?e] by simp
  then show ?thesis by (simp add: explained_def w')
qed

definition service_step ::
  "ServiceWorkOrder \<Rightarrow> (string \<Rightarrow> bool) \<times> GateInput \<times> int \<times> ServiceCall \<Rightarrow> ServiceWorkOrder" where
  "service_step w x = (case x of (member, g, now, c) \<Rightarrow> service_call member g now c w)"

lemma answer_explained:
  assumes "explained s w" and "service_answer member g now c w = Inr w'"
  shows "explained s w'"
  using assms
  by (cases c) (auto simp: complete_work_order_def close_work_order_def cancel_work_order_def
      intro: transition_explained assign_explained)

interpretation work_order_service: machine service_step "explained s" for s
  by unfold_locales (auto simp: service_step_def service_call_def split: prod.splits sum.splits intro: answer_explained)

section \<open>Properties\<close>

text \<open>
  The audit trail of a work order explains its status: after any sequence of assignments, transitions,
  completions, closings and cancellations, whatever the gates answered, replaying the trail from the first
  status through legal moves only gives the present status.
\<close>

theorem audit_trail_explains_status:
  assumes "sw_audit w = []"
  shows "replay (sw_status w) (sw_audit (run service_step w calls)) = Some (sw_status (run service_step w calls))"
proof -
  have "explained (sw_status w) w" using assms by (simp add: explained_def)
  then have "explained (sw_status w) (run service_step w calls)" by (rule work_order_service.run_inv)
  then show ?thesis by (simp add: explained_def)
qed

definition draft_row :: ServiceWorkOrder where
  "draft_row = \<lparr>sw_status = ''DRAFT'', sw_assigned_to = None, sw_actual_start = None, sw_actual_end = None,
     sw_completed_at = None, sw_closed_at = None, sw_cancelled_at = None, sw_cancellation_reason = None, sw_audit = []\<rparr>"

definition clear_gates :: GateInput where
  "clear_gates = \<lparr>gate_task_states = [], gate_inspection_states = [], gate_release_blockers = None\<rparr>"

definition sample_calls :: "((string \<Rightarrow> bool) \<times> GateInput \<times> int \<times> ServiceCall) list" where
  "sample_calls = [(\<lambda>_. True, clear_gates, 1, CallTransition ''OPEN'' None),
     (\<lambda>_. True, clear_gates, 2, CallAssign ''t1''), (\<lambda>_. True, clear_gates, 3, CallClose)]"

theorem audit_trail_explains_status_witness:
  "replay ''DRAFT'' (sw_audit (run service_step draft_row sample_calls)) = Some ''ASSIGNED''"
proof -
  have "sw_status (run service_step draft_row sample_calls) = ''ASSIGNED''" by code_simp
  moreover have "sw_audit draft_row = []" "sw_status draft_row = ''DRAFT''" by (simp_all add: draft_row_def)
  ultimately show ?thesis using audit_trail_explains_status [of draft_row sample_calls] by simp
qed

end
