(* ===== verification/PageKit.thy ===== *)
theory PageKit
  imports Session WorkOrderService
begin

text \<open>
  What the pages share: the session a render reads and a call remembers, the answers of
  \<open>Promise.allSettled\<close>, the calls that are under way, and small tests on texts.
\<close>

type_synonym org_session = "DataMode \<times> string option \<times> bool"

text \<open>A text that is there and not empty.\<close>

definition some_text :: "string option \<Rightarrow> bool" where
  "some_text t \<longleftrightarrow> t \<noteq> None \<and> t \<noteq> Some []"

text \<open>\<open>reason.trim() || null\<close>.\<close>

definition reason_or_null :: "string \<Rightarrow> string option" where
  "reason_or_null reason = (if trim reason = [] then None else Some (trim reason))"

text \<open>\<open>s.length\<close> counts UTF-16 units: a code point of four bytes is two of them.\<close>

definition js_len :: "string \<Rightarrow> nat" where
  "js_len s = py_len s + length (filter (\<lambda>c. 240 \<le> (of_char c :: nat)) s)"

definition fulfilled :: "client_error + 'a \<Rightarrow> 'a \<Rightarrow> 'a" where
  "fulfilled r old = (case r of Inl e \<Rightarrow> old | Inr v \<Rightarrow> v)"

lemma json_request_token [simp]: "rq_token (json_request m t path b) = Some t"
  by (simp add: json_request_def)

text \<open>The calls under way are a list of their kinds with the sessions they were started in.\<close>

definition remove_nth :: "nat \<Rightarrow> 'b list \<Rightarrow> 'b list" where
  "remove_nth n xs = take n xs @ drop (Suc n) xs"

lemma list_all_remove_nth: "list_all P xs \<Longrightarrow> list_all P (remove_nth n xs)"
  by (auto simp: remove_nth_def list_all_iff dest: in_set_takeD in_set_dropD)

lemma count_remove_nth:
  assumes "n < length xs"
  shows "length (filter (\<lambda>x. P (fst x)) (remove_nth n xs)) + of_bool (P (fst (xs ! n))) = length (filter (\<lambda>x. P (fst x)) xs)"
proof -
  have "filter Q xs = filter Q (take n xs) @ (if Q (xs ! n) then [xs ! n] else []) @ filter Q (drop (Suc n) xs)" for Q
    by (subst id_take_nth_drop [OF assms]) simp
  from this [of "\<lambda>x. P (fst x)"] show ?thesis by (simp add: remove_nth_def)
qed

end
