(* ===== verification/WorkOrderPage.thy ===== *)
theory WorkOrderPage
  imports ClientMaintenance ClientDrones ApiMaintenance PageKit
begin

text \<open>
  The page of one work order with real data
  (\<open>RealWorkOrderDetail\<close> in \<open>src/frontend/app/(app)/maintenance/work-orders/[id]/page.tsx\<close>): its state,
  what it offers in which status, and its handlers. A handler is two steps, the part before its \<open>await\<close>
  and the part after it; the answers come from outside. Composed with the service of \<open>WorkOrderService\<close>:
  which of the offered actions the service can accept, and that a work order can be brought from draft to
  closed. An empty text of a token or a field is what JavaScript takes for false.
\<close>

section \<open>Numbers in text fields\<close>

text \<open>\<open>parseFloat\<close>; \<open>None\<close> is \<open>NaN\<close>, and the infinities are left aside.\<close>

definition decimal_digits :: "string \<Rightarrow> nat" where
  "decimal_digits s = foldl (\<lambda>a c. 10 * a + digit_val c) 0 s"

definition after_char :: "string \<Rightarrow> string \<Rightarrow> string option" where
  "after_char cs s = (case s of [] \<Rightarrow> None | c # r \<Rightarrow> if c \<in> set cs then Some r else None)"

definition exponent_of :: "string \<Rightarrow> int" where
  "exponent_of s = (case after_char ''eE'' s of
     None \<Rightarrow> 0
   | Some r \<Rightarrow> (case after_char ''-'' r of
       Some q \<Rightarrow> - int (decimal_digits (takeWhile is_digit q))
     | None \<Rightarrow> int (decimal_digits (takeWhile is_digit (or_else (after_char ''+'' r) r)))))"

definition scale10 :: "rat \<Rightarrow> int \<Rightarrow> rat" where
  "scale10 x k = (if k < 0 then x / 10 ^ nat (- k) else x * 10 ^ nat k)"

definition parseFloat :: "string \<Rightarrow> rat option" where
  "parseFloat text =
     (let s = dropWhile is_space text;
          negative = (after_char ''-'' s \<noteq> None);
          s = or_else (after_char ''+-'' s) s;
          whole = takeWhile is_digit s;
          rest = dropWhile is_digit s;
          frac = (case after_char ''.'' rest of None \<Rightarrow> [] | Some r \<Rightarrow> takeWhile is_digit r);
          tail = (case after_char ''.'' rest of None \<Rightarrow> rest | Some r \<Rightarrow> dropWhile is_digit r);
          v = scale10 (of_nat (decimal_digits (whole @ frac))) (exponent_of tail - int (length frac))
      in if whole = [] \<and> frac = [] then None else Some (if negative then - v else v))"

section \<open>State\<close>

text \<open>The requests that are under way: an action of the page, the completion of a task.\<close>

datatype PageAction =
    ActTransition string "string option"
  | ActComplete
  | ActClose
  | ActAssign string
  | ActCancel string
  | ActAddTask

text \<open>
  The fields of the form for a task, then the page: the states of the component in their order, the token
  and the session flag it reads, the number of loads under way, the action under way and the session of the
  render it was started in, the same session for a task completion, and for the statements the actions that
  were sent, each with the status the page showed.
\<close>

record TaskForm =
  form_number :: string
  form_title :: string
  form_desc :: string
  form_hours :: string
  form_evidence :: bool
  form_notes :: string

definition empty_form :: TaskForm where
  "empty_form = \<lparr>form_number = [], form_title = [], form_desc = [], form_hours = [], form_evidence = False, form_notes = []\<rparr>"

record WorkOrderPage =
  page_wo :: "BackendWorkOrder option"
  page_tasks :: "BackendTask list"
  page_parts :: "BackendPartRequirement list"
  page_findings :: "BackendFinding list"
  page_tat :: "TatStatusResponse option"
  page_loading :: bool
  page_error :: "NormalizedApiError option"
  page_actionError :: "string option"
  page_actionSuccess :: "string option"
  page_isSubmitting :: bool
  page_readinessRefreshKey :: nat
  page_busyTaskId :: "string option"
  page_showAssignModal :: bool
  page_assigneeId :: string
  page_showCancelModal :: bool
  page_cancellationReason :: string
  page_showAddTaskModal :: bool
  page_form :: TaskForm
  page_token :: "string option"
  page_isAuthenticated :: bool
  page_loads :: nat
  page_flight :: "(PageAction \<times> string option \<times> bool) option"
  page_taskSession :: "string option \<times> bool"
  page_requests :: "request list"
  page_log :: "(string \<times> PageAction) list"

definition page_init :: "string option \<Rightarrow> bool \<Rightarrow> WorkOrderPage" where
  "page_init token auth =
     \<lparr>page_wo = None, page_tasks = [], page_parts = [], page_findings = [], page_tat = None, page_loading = True,
      page_error = None, page_actionError = None, page_actionSuccess = None, page_isSubmitting = False,
      page_readinessRefreshKey = 0, page_busyTaskId = None, page_showAssignModal = False, page_assigneeId = [],
      page_showCancelModal = False, page_cancellationReason = [], page_showAddTaskModal = False,
      page_form = empty_form, page_token = token, page_isAuthenticated = auth, page_loads = 0, page_flight = None,
      page_taskSession = (None, False), page_requests = [], page_log = []\<rparr>"

section \<open>Loading\<close>

definition has_token :: "WorkOrderPage \<Rightarrow> bool" where
  "has_token p \<longleftrightarrow> some_text (page_token p)"

definition token_of :: "WorkOrderPage \<Rightarrow> string" where
  "token_of p = or_else (page_token p) []"

definition load_requests :: "string \<Rightarrow> string \<Rightarrow> request list" where
  "load_requests token i =
     [workOrdersApi_get token i, tasksApi_listForWorkOrder token i, partRequirementsApi_listForWorkOrder token i,
      findingsApi_listForWorkOrder token i, workOrdersApi_getTat token i]"

text \<open>\<open>loadData\<close> of the render with this session.\<close>

definition load_with :: "string option \<times> bool \<Rightarrow> string \<Rightarrow> WorkOrderPage \<Rightarrow> WorkOrderPage" where
  "load_with session i p = (case session of (token, auth) \<Rightarrow>
     if \<not> auth \<or> \<not> some_text token then p\<lparr>page_loading := False\<rparr>
     else p\<lparr>page_loading := True, page_error := None, page_loads := page_loads p + 1,
            page_requests := page_requests p @ load_requests (or_else token []) i\<rparr>)"

definition page_session :: "WorkOrderPage \<Rightarrow> string option \<times> bool" where
  "page_session p = (page_token p, page_isAuthenticated p)"

definition loadData :: "string \<Rightarrow> WorkOrderPage \<Rightarrow> WorkOrderPage" where
  "loadData i p = load_with (page_session p) i p"

text \<open>\<open>Promise.allSettled\<close>: the five answers of a load.\<close>

record LoadAnswer =
  answer_wo :: "client_error + BackendWorkOrder"
  answer_tasks :: "client_error + BackendTask list"
  answer_parts :: "client_error + BackendPartRequirement list"
  answer_findings :: "client_error + BackendFinding list"
  answer_tat :: "client_error + TatStatusResponse"

definition load_settled :: "LoadAnswer \<Rightarrow> WorkOrderPage \<Rightarrow> WorkOrderPage" where
  "load_settled a p =
     (if page_loads p = 0 then p
      else let p = (case answer_wo a of
                      Inr w \<Rightarrow> p\<lparr>page_wo := Some w\<rparr>
                    | Inl e \<Rightarrow> p\<lparr>page_error := Some (normalizeApiError e)\<rparr>)
        in p\<lparr>page_tasks := fulfilled (answer_tasks a) (page_tasks p),
             page_parts := fulfilled (answer_parts a) (page_parts p),
             page_findings := fulfilled (answer_findings a) (page_findings p),
             page_tat := (case answer_tat a of Inl e \<Rightarrow> page_tat p | Inr t \<Rightarrow> Some t),
             page_loading := False, page_loads := page_loads p - 1\<rparr>)"

section \<open>What the page shows\<close>

datatype PagePanel = PanelSignIn | PanelLoading | PanelError NormalizedApiError | PanelEmpty | PanelContent BackendWorkOrder

text \<open>The branch of the page and of \<open>RealDataPanel\<close>.\<close>

definition page_panel :: "WorkOrderPage \<Rightarrow> PagePanel" where
  "page_panel p =
     (if \<not> page_isAuthenticated p then PanelSignIn
      else if page_loading p then PanelLoading
      else (case page_error p of
              Some e \<Rightarrow> PanelError e
            | None \<Rightarrow> (case page_wo p of None \<Rightarrow> PanelEmpty | Some w \<Rightarrow> PanelContent w)))"

text \<open>The status while the content is shown.\<close>

definition shown_status :: "WorkOrderPage \<Rightarrow> string option" where
  "shown_status p = (case page_panel p of PanelContent w \<Rightarrow> Some (bwo_status w) | _ \<Rightarrow> None)"

datatype PageButton =
    BtnTransition string "string option"
  | BtnComplete
  | BtnClose
  | BtnOpenAssign
  | BtnOpenCancel

text \<open>The contextual buttons of a status.\<close>

definition action_buttons :: "string \<Rightarrow> PageButton list" where
  "action_buttons status =
     (if status = ''DRAFT'' then [BtnTransition ''OPEN'' None] else []) @
     (if status = ''OPEN'' then [BtnTransition ''PLANNED'' None] else []) @
     (if status = ''PLANNED'' then [BtnOpenAssign] else []) @
     (if status = ''ASSIGNED'' then [BtnTransition ''IN_PROGRESS'' None, BtnOpenAssign] else []) @
     (if status = ''IN_PROGRESS''
      then [BtnTransition ''INSPECTION'' None, BtnTransition ''ON_HOLD'' (Some ''Awaiting parts / hold'')] else []) @
     (if status = ''ON_HOLD'' then [BtnTransition ''IN_PROGRESS'' None] else []) @
     (if status = ''INSPECTION''
      then [BtnComplete, BtnTransition ''IN_PROGRESS'' (Some ''Returned for rework'')] else []) @
     (if status = ''COMPLETED'' then [BtnClose] else []) @
     (if status \<noteq> ''CLOSED'' \<and> status \<noteq> ''CANCELLED'' then [BtnOpenCancel] else [])"

text \<open>The button of the assignment card, and the one above the tasks.\<close>

definition offers_assignment :: "string \<Rightarrow> bool" where
  "offers_assignment status \<longleftrightarrow> status \<noteq> ''CLOSED'' \<and> status \<noteq> ''CANCELLED''"

definition offers_add_task :: "string \<Rightarrow> bool" where
  "offers_add_task status \<longleftrightarrow> status \<noteq> ''CLOSED'' \<and> status \<noteq> ''CANCELLED''"

definition offers_task_completion :: "string \<Rightarrow> BackendTask \<Rightarrow> bool" where
  "offers_task_completion status t \<longleftrightarrow>
     btask_execution_state t \<noteq> ''COMPLETED'' \<and> status \<noteq> ''CLOSED'' \<and> status \<noteq> ''CANCELLED''"

definition LIFECYCLE_STEPS :: "string list" where
  "LIFECYCLE_STEPS = [''DRAFT'', ''OPEN'', ''PLANNED'', ''ASSIGNED'', ''IN_PROGRESS'', ''INSPECTION'', ''COMPLETED'', ''CLOSED'']"

text \<open>\<open>xs.indexOf(x)\<close>.\<close>

definition index_of :: "string \<Rightarrow> string list \<Rightarrow> int" where
  "index_of x xs = (let n = length (takeWhile (\<lambda>y. y \<noteq> x) xs) in if n = length xs then -1 else int n)"

text \<open>The pipeline: each step with whether it is the current one and whether it is past; \<open>None\<close> for the
  line of a cancelled work order.\<close>

definition pipeline :: "string \<Rightarrow> (string \<times> bool \<times> bool) list option" where
  "pipeline status =
     (if status = ''CANCELLED'' then None
      else Some (map (\<lambda>(idx, s). (s, status = s, index_of status LIFECYCLE_STEPS > int idx)) (List.enumerate 0 LIFECYCLE_STEPS)))"

section \<open>Handlers\<close>

text \<open>What every handler does before its \<open>await\<close>, once its guard has passed.\<close>

definition begin_action :: "PageAction \<Rightarrow> request \<Rightarrow> WorkOrderPage \<Rightarrow> WorkOrderPage" where
  "begin_action act r p =
     p\<lparr>page_actionError := None, page_actionSuccess := None, page_isSubmitting := True,
       page_flight := Some (act, page_session p), page_requests := page_requests p @ [r],
       page_log := page_log p @ [(or_else (shown_status p) [], act)]\<rparr>"

definition handleTransition :: "string \<Rightarrow> string \<Rightarrow> string option \<Rightarrow> WorkOrderPage \<Rightarrow> WorkOrderPage" where
  "handleTransition i targetStatus reason p =
     (if \<not> has_token p \<or> page_isSubmitting p then p
      else begin_action (ActTransition targetStatus reason)
        (workOrdersApi_transition (token_of p) i
           (JObj ([(''target_status'', JStr targetStatus)] @ field_if ''reason'' (map_option JStr reason)))) p)"

definition handleComplete :: "string \<Rightarrow> WorkOrderPage \<Rightarrow> WorkOrderPage" where
  "handleComplete i p =
     (if \<not> has_token p \<or> page_isSubmitting p then p
      else begin_action ActComplete (workOrdersApi_complete (token_of p) i) p)"

definition handleClose :: "string \<Rightarrow> WorkOrderPage \<Rightarrow> WorkOrderPage" where
  "handleClose i p =
     (if \<not> has_token p \<or> page_isSubmitting p then p
      else begin_action ActClose (workOrdersApi_close (token_of p) i) p)"

definition handleAssignSubmit :: "string \<Rightarrow> WorkOrderPage \<Rightarrow> WorkOrderPage" where
  "handleAssignSubmit i p =
     (if \<not> has_token p \<or> trim (page_assigneeId p) = [] \<or> page_isSubmitting p then p
      else begin_action (ActAssign (trim (page_assigneeId p)))
        (workOrdersApi_assign (token_of p) i
           (JObj [(''assigned_to_user_id'', JStr (trim (page_assigneeId p)))])) p)"

definition handleCancelSubmit :: "string \<Rightarrow> WorkOrderPage \<Rightarrow> WorkOrderPage" where
  "handleCancelSubmit i p =
     (if \<not> has_token p \<or> js_len (trim (page_cancellationReason p)) < 3 \<or> page_isSubmitting p then p
      else begin_action (ActCancel (trim (page_cancellationReason p)))
        (workOrdersApi_cancel (token_of p) i
           (JObj [(''cancellation_reason'', JStr (trim (page_cancellationReason p)))])) p)"

text \<open>A field \<open>trim() || undefined\<close>; \<open>NaN\<close> is sent as null.\<close>

definition text_field :: "string \<Rightarrow> string \<Rightarrow> (string \<times> json) list" where
  "text_field k v = (if trim v = [] then [] else [(k, JStr (trim v))])"

definition hours_field :: "string \<Rightarrow> (string \<times> json) list" where
  "hours_field v = (if v = [] then []
     else [(''estimated_hours'', case parseFloat v of None \<Rightarrow> JNull | Some x \<Rightarrow> JNum x)])"

definition task_payload :: "TaskForm \<Rightarrow> json" where
  "task_payload f =
     JObj ([(''description'', JStr (trim (form_desc f)))] @ text_field ''task_number'' (form_number f) @
       text_field ''title'' (form_title f) @ hours_field (form_hours f) @
       [(''evidence_required'', JBool (form_evidence f))] @ text_field ''notes'' (form_notes f))"

definition handleAddTaskSubmit :: "string \<Rightarrow> WorkOrderPage \<Rightarrow> WorkOrderPage" where
  "handleAddTaskSubmit i p =
     (if \<not> has_token p \<or> trim (form_desc (page_form p)) = [] \<or> page_isSubmitting p then p
      else begin_action ActAddTask (tasksApi_create (token_of p) i (task_payload (page_form p))) p)"

text \<open>The part of the handler after its \<open>await\<close>: \<open>updated\<close> is what the request returned, which the handler
  for a new task does not look at.\<close>

fun action_success :: "PageAction \<Rightarrow> BackendWorkOrder \<Rightarrow> WorkOrderPage \<Rightarrow> WorkOrderPage" where
  "action_success (ActTransition target reason) updated p =
     p\<lparr>page_wo := Some updated,
       page_actionSuccess := Some (''Status transitioned to '' @ unscore target @ ''.''),
       page_readinessRefreshKey := page_readinessRefreshKey p + 1\<rparr>"
| "action_success ActComplete updated p =
     p\<lparr>page_wo := Some updated, page_actionSuccess := Some ''Work order marked as COMPLETED.'',
       page_readinessRefreshKey := page_readinessRefreshKey p + 1\<rparr>"
| "action_success ActClose updated p =
     p\<lparr>page_wo := Some updated,
       page_actionSuccess := Some ''Work order successfully CLOSED. Release readiness verified.'',
       page_readinessRefreshKey := page_readinessRefreshKey p + 1\<rparr>"
| "action_success (ActAssign user) updated p =
     p\<lparr>page_wo := Some updated, page_showAssignModal := False, page_assigneeId := [],
       page_actionSuccess := Some ''Technician successfully assigned.''\<rparr>"
| "action_success (ActCancel reason) updated p =
     p\<lparr>page_wo := Some updated, page_showCancelModal := False, page_cancellationReason := [],
       page_actionSuccess := Some ''Work order CANCELLED.''\<rparr>"
| "action_success ActAddTask updated p =
     p\<lparr>page_showAddTaskModal := False, page_form := empty_form,
       page_actionSuccess := Some ''Task added successfully.'',
       page_readinessRefreshKey := page_readinessRefreshKey p + 1\<rparr>"

definition action_settled :: "string \<Rightarrow> client_error + BackendWorkOrder \<Rightarrow> WorkOrderPage \<Rightarrow> WorkOrderPage" where
  "action_settled i result p =
     (case page_flight p of
        None \<Rightarrow> p
      | Some (act, session) \<Rightarrow>
          (case result of
             Inl e \<Rightarrow> p\<lparr>page_actionError := Some (nerr_message (normalizeApiError e))\<rparr>
           | Inr updated \<Rightarrow> load_with session i (action_success act updated p))
          \<lparr>page_isSubmitting := False, page_flight := None\<rparr>)"

definition completeTask :: "string \<Rightarrow> string \<Rightarrow> WorkOrderPage \<Rightarrow> WorkOrderPage" where
  "completeTask i taskId p =
     (if \<not> has_token p \<or> (page_busyTaskId p \<noteq> None \<and> page_busyTaskId p \<noteq> Some []) then p
      else p\<lparr>page_actionError := None, page_actionSuccess := None, page_busyTaskId := Some taskId, page_taskSession := page_session p,
             page_requests := page_requests p @ [tasksApi_complete (token_of p) i taskId]\<rparr>)"

definition task_settled :: "string \<Rightarrow> client_error option \<Rightarrow> WorkOrderPage \<Rightarrow> WorkOrderPage" where
  "task_settled i failed p =
     (if page_busyTaskId p = None then p
      else (case failed of
              Some e \<Rightarrow> p\<lparr>page_actionError := Some (nerr_message (normalizeApiError e))\<rparr>
            | None \<Rightarrow> load_with (page_taskSession p) i (p\<lparr>page_actionSuccess := Some ''Task completed.'',
                page_readinessRefreshKey := page_readinessRefreshKey p + 1\<rparr>))
           \<lparr>page_busyTaskId := None\<rparr>)"

section \<open>The page as a machine\<close>

text \<open>
  What a user can do is what the page shows: a button of the status, not disabled while an action is under
  way, and the forms of the open dialogs. Every one of them is there only with the content. The effect
  runs on mounting and when the session changes.
\<close>

datatype PageEvent =
    PageEffect
  | SessionChange "string option" bool
  | LoadSettled LoadAnswer
  | ActionSettled "client_error + BackendWorkOrder"
  | TaskSettled "client_error option"
  | Press PageButton
  | OpenAssign
  | OpenAddTask
  | CloseAssign
  | CloseCancel
  | CloseAddTask
  | TypeAssignee string
  | TypeReason string
  | TypeForm TaskForm
  | SubmitAssign
  | SubmitCancel
  | SubmitAddTask
  | PressCompleteTask BackendTask

fun press_button :: "string \<Rightarrow> PageButton \<Rightarrow> WorkOrderPage \<Rightarrow> WorkOrderPage" where
  "press_button i (BtnTransition target reason) p = handleTransition i target reason p"
| "press_button i BtnComplete p = handleComplete i p"
| "press_button i BtnClose p = handleClose i p"
| "press_button i BtnOpenAssign p = p\<lparr>page_showAssignModal := True\<rparr>"
| "press_button i BtnOpenCancel p = p\<lparr>page_showCancelModal := True\<rparr>"

fun content_event :: "string \<Rightarrow> string \<Rightarrow> WorkOrderPage \<Rightarrow> PageEvent \<Rightarrow> WorkOrderPage" where
  "content_event i status p (Press b) =
     (if b \<in> set (action_buttons status) \<and> \<not> page_isSubmitting p then press_button i b p else p)"
| "content_event i status p OpenAssign = (if offers_assignment status then p\<lparr>page_showAssignModal := True\<rparr> else p)"
| "content_event i status p OpenAddTask = (if offers_add_task status then p\<lparr>page_showAddTaskModal := True\<rparr> else p)"
| "content_event i status p CloseAssign = p\<lparr>page_showAssignModal := False\<rparr>"
| "content_event i status p CloseCancel = p\<lparr>page_showCancelModal := False\<rparr>"
| "content_event i status p CloseAddTask = p\<lparr>page_showAddTaskModal := False\<rparr>"
| "content_event i status p (TypeAssignee v) = (if page_showAssignModal p then p\<lparr>page_assigneeId := v\<rparr> else p)"
| "content_event i status p (TypeReason v) = (if page_showCancelModal p then p\<lparr>page_cancellationReason := v\<rparr> else p)"
| "content_event i status p (TypeForm f) = (if page_showAddTaskModal p then p\<lparr>page_form := f\<rparr> else p)"
| "content_event i status p SubmitAssign = (if page_showAssignModal p then handleAssignSubmit i p else p)"
| "content_event i status p SubmitCancel = (if page_showCancelModal p then handleCancelSubmit i p else p)"
| "content_event i status p SubmitAddTask = (if page_showAddTaskModal p then handleAddTaskSubmit i p else p)"
| "content_event i status p (PressCompleteTask t) =
     (if t \<in> set (page_tasks p) \<and> offers_task_completion status t \<and> page_busyTaskId p \<noteq> Some (btask_id t)
      then completeTask i (btask_id t) p else p)"
| "content_event i status p e = p"

definition session_change :: "string \<Rightarrow> string option \<Rightarrow> bool \<Rightarrow> WorkOrderPage \<Rightarrow> WorkOrderPage" where
  "session_change i token auth p = loadData i (p\<lparr>page_token := token, page_isAuthenticated := auth\<rparr>)"

definition page_step :: "string \<Rightarrow> WorkOrderPage \<Rightarrow> PageEvent \<Rightarrow> WorkOrderPage" where
  "page_step i p e =
     (case e of
        PageEffect \<Rightarrow> loadData i p
      | SessionChange token auth \<Rightarrow> session_change i token auth p
      | LoadSettled a \<Rightarrow> load_settled a p
      | ActionSettled r \<Rightarrow> action_settled i r p
      | TaskSettled f \<Rightarrow> task_settled i f p
      | _ \<Rightarrow> (case shown_status p of None \<Rightarrow> p | Some status \<Rightarrow> content_event i status p e))"

section \<open>Lemmas\<close>

text \<open>What a sent action asks of the service in the status that was shown.\<close>

fun fits_status :: "string \<Rightarrow> PageAction \<Rightarrow> bool" where
  "fits_status st (ActTransition target reason) = (target \<in> set (allowed_targets st))"
| "fits_status st ActComplete = (''COMPLETED'' \<in> set (allowed_targets st))"
| "fits_status st ActClose = (''CLOSED'' \<in> set (allowed_targets st))"
| "fits_status st (ActAssign user) = (user \<noteq> [])"
| "fits_status st (ActCancel reason) = (3 \<le> js_len reason)"
| "fits_status st ActAddTask = True"

definition page_ok :: "WorkOrderPage \<Rightarrow> bool" where
  "page_ok p \<longleftrightarrow> (page_isSubmitting p \<longleftrightarrow> page_flight p \<noteq> None) \<and>
     list_all (\<lambda>(st, act). fits_status st act) (page_log p)"

lemma load_with_simps [simp]:
  "page_isSubmitting (load_with session i p) = page_isSubmitting p"
  "page_flight (load_with session i p) = page_flight p"
  "page_log (load_with session i p) = page_log p"
  "page_wo (load_with session i p) = page_wo p"
  "page_actionError (load_with session i p) = page_actionError p"
  "page_actionSuccess (load_with session i p) = page_actionSuccess p"
  "page_token (load_with session i p) = page_token p"
  "page_isAuthenticated (load_with session i p) = page_isAuthenticated p"
  "page_busyTaskId (load_with session i p) = page_busyTaskId p"
  "page_showAssignModal (load_with session i p) = page_showAssignModal p"
  by (simp_all add: load_with_def split: prod.split)

lemma load_settled_simps [simp]:
  "page_isSubmitting (load_settled a p) = page_isSubmitting p"
  "page_flight (load_settled a p) = page_flight p"
  "page_log (load_settled a p) = page_log p"
  "page_actionError (load_settled a p) = page_actionError p"
  "page_token (load_settled a p) = page_token p"
  "page_isAuthenticated (load_settled a p) = page_isAuthenticated p"
  by (simp_all add: load_settled_def Let_def split: sum.split)

lemma action_success_simps [simp]:
  "page_log (action_success act updated p) = page_log p"
  "page_loads (action_success act updated p) = page_loads p"
  "page_token (action_success act updated p) = page_token p"
  "page_isAuthenticated (action_success act updated p) = page_isAuthenticated p"
  "page_actionError (action_success act updated p) = page_actionError p"
  by (cases act; simp)+

text \<open>Nothing but the start of an action changes the log, and the buttons fit the status.\<close>

lemma begin_ok:
  "page_ok p \<Longrightarrow> shown_status p = Some st \<Longrightarrow> fits_status st act \<Longrightarrow> page_ok (begin_action act rq p)"
  by (simp add: page_ok_def begin_action_def)

lemma button_fits:
  assumes "b \<in> set (action_buttons st)"
  shows "case b of BtnTransition target reason \<Rightarrow> fits_status st (ActTransition target reason)
    | BtnComplete \<Rightarrow> fits_status st ActComplete | BtnClose \<Rightarrow> fits_status st ActClose | _ \<Rightarrow> True"
  using assms by (auto simp: action_buttons_def split: if_splits)

lemma press_ok:
  assumes ok: "page_ok p" and st: "shown_status p = Some st" and b: "b \<in> set (action_buttons st)"
  shows "page_ok (press_button i b p)"
proof (cases b)
  case (BtnTransition target reason)
  then show ?thesis
    using button_fits [OF b] ok begin_ok [OF ok st] by (simp add: handleTransition_def)
next
  case BtnComplete
  then show ?thesis
    using button_fits [OF b] ok begin_ok [OF ok st] by (simp add: handleComplete_def)
next
  case BtnClose
  then show ?thesis
    using button_fits [OF b] ok begin_ok [OF ok st] by (simp add: handleClose_def)
qed (use ok in \<open>simp_all add: page_ok_def\<close>)

lemma content_ok:
  assumes ok: "page_ok p" and st: "shown_status p = Some st"
  shows "page_ok (content_event i st p e)"
proof (cases e)
  case (Press b)
  then show ?thesis using press_ok [OF ok st] ok by simp
next
  case SubmitAssign
  then show ?thesis using ok begin_ok [OF ok st] by (simp add: handleAssignSubmit_def)
next
  case SubmitCancel
  then show ?thesis using ok begin_ok [OF ok st] by (simp add: handleCancelSubmit_def)
next
  case SubmitAddTask
  then show ?thesis using ok begin_ok [OF ok st] by (simp add: handleAddTaskSubmit_def)
qed (use ok in \<open>simp_all add: page_ok_def completeTask_def\<close>)

lemma settled_ok: "page_ok p \<Longrightarrow> page_ok (action_settled i result p)"
  by (auto simp: page_ok_def action_settled_def split: option.split sum.split)

lemma task_settled_ok: "page_ok p \<Longrightarrow> page_ok (task_settled i failed p)"
  by (auto simp: page_ok_def task_settled_def split: option.split)

lemma session_change_ok: "page_ok p \<Longrightarrow> page_ok (session_change i token auth p)"
  by (simp add: page_ok_def session_change_def loadData_def)

lemma user_ok: "page_ok p \<Longrightarrow> page_ok (case shown_status p of None \<Rightarrow> p | Some status \<Rightarrow> content_event i status p e)"
  by (cases "shown_status p") (simp_all add: content_ok del: content_event.simps)

lemma loadData_ok: "page_ok p \<Longrightarrow> page_ok (loadData i p)"
  by (simp add: page_ok_def loadData_def)

lemma load_settled_ok: "page_ok p \<Longrightarrow> page_ok (load_settled a p)"
  by (simp add: page_ok_def)

lemma page_ok_step: "page_ok p \<Longrightarrow> page_ok (page_step i p e)"
  using user_ok [of p i e] unfolding page_step_def
  by (cases e) (simp_all only: PageEvent.case loadData_ok session_change_ok load_settled_ok settled_ok task_settled_ok)

interpretation work_order_page: machine "page_step i" page_ok for i
  by unfold_locales (rule page_ok_step)

section \<open>The page and the service\<close>

text \<open>
  The page alone at work on the row of the service. An action that is under way is answered with the gates,
  the members and the time of that moment: the row changes and the page gets it, or the page gets the error,
  whose text is \<open>explain\<close>. A load brings the row as it is.
\<close>

record PageSystem =
  sys_page :: WorkOrderPage
  sys_row :: ServiceWorkOrder

text \<open>The columns of the response the statements are about; the others are those of \<open>base\<close>.\<close>

definition row_view :: "BackendWorkOrder \<Rightarrow> ServiceWorkOrder \<Rightarrow> BackendWorkOrder" where
  "row_view base w = base\<lparr>bwo_status := sw_status w, bwo_assigned_to_user_id := sw_assigned_to w,
     bwo_cancellation_reason := sw_cancellation_reason w\<rparr>"

fun call_of :: "PageAction \<Rightarrow> ServiceCall option" where
  "call_of (ActTransition target reason) = Some (CallTransition target reason)"
| "call_of ActComplete = Some CallComplete"
| "call_of ActClose = Some CallClose"
| "call_of (ActAssign user) = Some (CallAssign user)"
| "call_of (ActCancel reason) = map_option CallCancel (cancel_request (Some reason) None)"
| "call_of ActAddTask = None"

datatype SystemEvent =
    UserEvent PageEvent
  | ServiceAnswers "string \<Rightarrow> bool" GateInput int
  | LoadArrives LoadAnswer

definition service_result ::
  "(ServiceError \<Rightarrow> string) \<Rightarrow> BackendWorkOrder \<Rightarrow> (string \<Rightarrow> bool) \<Rightarrow> GateInput \<Rightarrow> int \<Rightarrow> PageAction \<Rightarrow> ServiceWorkOrder \<Rightarrow>
   (client_error + BackendWorkOrder) \<times> ServiceWorkOrder" where
  "service_result explain base member g now act w =
     (case call_of act of
        None \<Rightarrow> ((case act of ActAddTask \<Rightarrow> Inr base | _ \<Rightarrow> Inl (ApiError 422 None [])), w)
      | Some c \<Rightarrow>
          (case service_answer member g now c w of
             Inl e \<Rightarrow> (Inl (ApiError 409 None (explain e)), w)
           | Inr w' \<Rightarrow> (Inr (row_view base w'), w')))"

fun system_step ::
  "(ServiceError \<Rightarrow> string) \<Rightarrow> BackendWorkOrder \<Rightarrow> string \<Rightarrow> PageSystem \<Rightarrow> SystemEvent \<Rightarrow> PageSystem" where
  "system_step explain base i s (UserEvent e) =
     (case e of ActionSettled r \<Rightarrow> s | LoadSettled a \<Rightarrow> s
        | _ \<Rightarrow> s\<lparr>sys_page := page_step i (sys_page s) e\<rparr>)"
| "system_step explain base i s (ServiceAnswers member g now) =
     (case page_flight (sys_page s) of
        None \<Rightarrow> s
      | Some (act, session) \<Rightarrow>
          (let (r, w') = service_result explain base member g now act (sys_row s)
           in \<lparr>sys_page = page_step i (sys_page s) (ActionSettled r), sys_row = w'\<rparr>))"
| "system_step explain base i s (LoadArrives a) =
     s\<lparr>sys_page := page_step i (sys_page s) (LoadSettled (a\<lparr>answer_wo := Inr (row_view base (sys_row s))\<rparr>))\<rparr>"

definition starts :: "WorkOrderPage \<Rightarrow> string \<Rightarrow> WorkOrderPage \<Rightarrow> bool" where
  "starts p st p' \<longleftrightarrow> page_wo p' = page_wo p \<and>
     (page_flight p' = page_flight p \<and> page_log p' = page_log p \<or>
      (\<exists>act. page_flight p' = Some (act, page_session p) \<and> page_log p' = page_log p @ [(st, act)]))"

lemma begin_starts: "shown_status p = Some st \<Longrightarrow> starts p st (begin_action act rq p)"
  by (simp add: starts_def begin_action_def)

lemma press_starts: "shown_status p = Some st \<Longrightarrow> starts p st (press_button i b p)"
  using begin_starts [of p st]
  by (cases b) (simp_all add: handleTransition_def handleComplete_def handleClose_def, simp_all add: starts_def)

lemma content_starts: "shown_status p = Some st \<Longrightarrow> starts p st (content_event i st p e)"
  using begin_starts [of p st] press_starts [of p st]
  by (cases e)
    (simp_all add: handleAssignSubmit_def handleCancelSubmit_def handleAddTaskSubmit_def completeTask_def,
      simp_all add: starts_def)

lemma shown_wo: "shown_status p = Some st \<Longrightarrow> \<exists>w. page_wo p = Some w \<and> st = bwo_status w"
  by (auto simp: shown_status_def page_panel_def split: if_splits option.splits)

definition system_ok :: "BackendWorkOrder \<Rightarrow> PageSystem \<Rightarrow> bool" where
  "system_ok base s \<longleftrightarrow> page_ok (sys_page s) \<and>
     (page_wo (sys_page s) = None \<or> page_wo (sys_page s) = Some (row_view base (sys_row s))) \<and>
     (page_flight (sys_page s) = None \<or>
      (\<exists>act session log. page_flight (sys_page s) = Some (act, session) \<and>
         page_log (sys_page s) = log @ [(sw_status (sys_row s), act)]))"

lemma row_view_status [simp]: "bwo_status (row_view base w) = sw_status w"
  by (simp add: row_view_def)

lemma system_user:
  assumes ok: "system_ok base s" and st: "shown_status (sys_page s) = Some st"
  shows "system_ok base (s\<lparr>sys_page := content_event i st (sys_page s) e\<rparr>)"
proof -
  obtain w where w: "page_wo (sys_page s) = Some w" "st = bwo_status w" using shown_wo [OF st] by blast
  then have row: "w = row_view base (sys_row s)" using ok by (auto simp: system_ok_def)
  have p: "page_ok (content_event i st (sys_page s) e)" using ok st by (simp add: system_ok_def content_ok del: content_event.simps)
  show ?thesis
    using content_starts [OF st, of i e] ok p w row unfolding system_ok_def starts_def
    by (auto simp del: content_event.simps)
qed

lemma system_quiet:
  assumes "system_ok base s" and "page_ok p" and "page_wo p = page_wo (sys_page s)"
    and "page_flight p = page_flight (sys_page s)" and "page_log p = page_log (sys_page s)"
  shows "system_ok base (s\<lparr>sys_page := p\<rparr>)"
  using assms by (simp add: system_ok_def)

lemma system_user_step:
  assumes ok: "system_ok base s"
  shows "system_ok base (system_step explain base i s (UserEvent e))"
proof -
  have p: "page_ok (sys_page s)" using ok by (simp add: system_ok_def)
  have user: "system_ok base (s\<lparr>sys_page := (case shown_status (sys_page s) of None \<Rightarrow> sys_page s
      | Some status \<Rightarrow> content_event i status (sys_page s) e)\<rparr>)"
    using system_user [OF ok] ok by (cases "shown_status (sys_page s)") (simp_all del: content_event.simps)
  have load: "system_ok base (s\<lparr>sys_page := loadData i (sys_page s)\<rparr>)"
    by (rule system_quiet [OF ok loadData_ok [OF p]]) (simp_all add: loadData_def)
  have change: "system_ok base (s\<lparr>sys_page := session_change i token auth (sys_page s)\<rparr>)" for token auth
    by (rule system_quiet [OF ok session_change_ok [OF p]]) (simp_all add: session_change_def loadData_def)
  have task: "system_ok base (s\<lparr>sys_page := task_settled i f (sys_page s)\<rparr>)" for f
    by (rule system_quiet [OF ok task_settled_ok [OF p]]) (auto simp: task_settled_def split: option.split)
  show ?thesis
    using user load change task ok
    by (cases e) (simp_all only: system_step.simps page_step_def PageEvent.case)
qed

lemma system_load_step:
  assumes ok: "system_ok base s"
  shows "system_ok base (system_step explain base i s (LoadArrives a))"
proof -
  let ?a = "a\<lparr>answer_wo := Inr (row_view base (sys_row s))\<rparr>"
  have "page_ok (load_settled ?a (sys_page s))" using ok by (simp add: system_ok_def load_settled_ok)
  moreover have "page_wo (load_settled ?a (sys_page s)) =
      (if page_loads (sys_page s) = 0 then page_wo (sys_page s) else Some (row_view base (sys_row s)))"
    by (simp add: load_settled_def Let_def)
  ultimately show ?thesis using ok by (auto simp: system_ok_def page_step_def)
qed

text \<open>What the service answers, and what the page makes of it.\<close>

lemma result_view:
  "service_result explain base member g now act w = (r, w') \<Longrightarrow>
   (case r of Inl e \<Rightarrow> w' = w | Inr v \<Rightarrow> if act = ActAddTask then w' = w else v = row_view base w')"
  by (cases act) (auto simp: service_result_def split: option.splits sum.splits)

lemma settled_wo:
  assumes "page_flight p = Some (act, session)"
  shows "page_wo (action_settled i r p) =
    (case r of Inl e \<Rightarrow> page_wo p | Inr v \<Rightarrow> if act = ActAddTask then page_wo p else Some v)"
    and "page_flight (action_settled i r p) = None"
  using assms by (cases act; cases r; simp add: action_settled_def)+

lemma system_answer_step:
  assumes ok: "system_ok base s"
  shows "system_ok base (system_step explain base i s (ServiceAnswers member g now))"
proof (cases "page_flight (sys_page s)")
  case None
  then show ?thesis using ok by simp
next
  case (Some f)
  then obtain act session where f: "page_flight (sys_page s) = Some (act, session)" by (cases f) simp
  obtain r w' where r: "service_result explain base member g now act (sys_row s) = (r, w')" by fastforce
  have "page_ok (action_settled i r (sys_page s))" using ok by (simp add: system_ok_def settled_ok)
  then show ?thesis
    using ok result_view [OF r] settled_wo [OF f, of i r]
    by (cases r) (auto simp: system_ok_def f r page_step_def split: if_splits)
qed

interpretation page_system: machine "system_step explain base i" "system_ok base" for explain base i
proof
  fix s e
  assume "system_ok base s"
  then show "system_ok base (system_step explain base i s e)"
    by (cases e) (simp_all only: system_user_step system_load_step system_answer_step)
qed

definition system_init :: "string option \<Rightarrow> bool \<Rightarrow> ServiceWorkOrder \<Rightarrow> PageSystem" where
  "system_init token auth w = \<lparr>sys_page = page_init token auth, sys_row = w\<rparr>"

lemma system_init_ok: "system_ok base (system_init token auth w)"
  by (simp add: system_ok_def system_init_def page_init_def page_ok_def)

definition rejects_move :: "ServiceError + ServiceWorkOrder \<Rightarrow> bool" where
  "rejects_move r = (case r of Inl (InvalidTransition a b) \<Rightarrow> True | _ \<Rightarrow> False)"

definition move_of :: "PageAction \<Rightarrow> ServiceCall option" where
  "move_of act = (case act of ActCancel reason \<Rightarrow> None | _ \<Rightarrow> call_of act)"

lemma gate_no_rejection: "\<not> (\<exists>a b. transition_gate g reason now target w = Inl (InvalidTransition a b))"
  by (auto simp: transition_gate_def Let_def split: option.splits)

lemma allowed_not_rejected:
  assumes "target \<in> set (allowed_targets (sw_status w))"
  shows "\<not> rejects_move (transition_work_order g reason now target w)"
  using assms gate_no_rejection [of g reason now target w]
  by (auto simp: rejects_move_def transition_work_order_def split: sum.splits ServiceError.splits)

lemma assign_not_rejected: "\<not> rejects_move (assign_work_order member user w)"
  by (simp add: assign_work_order_def rejects_move_def Let_def)

lemma move_accepted:
  assumes "fits_status (sw_status w) act" and "move_of act = Some c"
  shows "\<not> rejects_move (service_answer member g now c w)"
  using assms allowed_not_rejected assign_not_rejected
  by (cases act) (auto simp: move_of_def complete_work_order_def close_work_order_def)

section \<open>Properties\<close>


definition button_target :: "PageButton \<Rightarrow> string" where
  "button_target b = (case b of BtnTransition target reason \<Rightarrow> target | BtnComplete \<Rightarrow> ''COMPLETED'' | BtnClose \<Rightarrow> ''CLOSED''
     | BtnOpenAssign \<Rightarrow> ''ASSIGNED'' | BtnOpenCancel \<Rightarrow> ''CANCELLED'')"


section \<open>From draft to closed\<close>

text \<open>The content is shown, nothing is under way, and it shows the row.\<close>

definition ready :: "BackendWorkOrder \<Rightarrow> string \<Rightarrow> ServiceWorkOrder \<Rightarrow> PageSystem \<Rightarrow> bool" where
  "ready base token w s \<longleftrightarrow>
     (let p = sys_page s in
      sys_row s = w \<and> page_wo p = Some (row_view base w) \<and> page_isAuthenticated p \<and> page_token p = Some token \<and>
      token \<noteq> [] \<and> \<not> page_loading p \<and> page_error p = None \<and> \<not> page_isSubmitting p \<and> page_flight p = None \<and>
      page_loads p = 0 \<and> page_actionError p = None)"

lemma ready_shows: "ready base token w s \<Longrightarrow> shown_status (sys_page s) = Some (sw_status w)"
  by (simp add: ready_def shown_status_def page_panel_def Let_def)

fun action_of :: "PageButton \<Rightarrow> PageAction option" where
  "action_of (BtnTransition target reason) = Some (ActTransition target reason)"
| "action_of BtnComplete = Some ActComplete"
| "action_of BtnClose = Some ActClose"
| "action_of BtnOpenAssign = None"
| "action_of BtnOpenCancel = None"

definition pressed :: "WorkOrderPage \<Rightarrow> PageAction \<Rightarrow> WorkOrderPage \<Rightarrow> bool" where
  "pressed p act p' \<longleftrightarrow> (\<exists>rq. p' = begin_action act rq p)"

lemma press_begins:
  assumes "ready base token w s" and "action_of b = Some act"
  shows "pressed (sys_page s) act (press_button i b (sys_page s))"
  using assms by (cases b) (auto simp: pressed_def ready_def Let_def handleTransition_def handleComplete_def handleClose_def
      has_token_def some_text_def)

lemma success_shows:
  assumes "act \<noteq> ActAddTask"
  shows "page_wo (action_success act v p) = Some v" and "page_loading (action_success act v p) = page_loading p"
    and "page_error (action_success act v p) = page_error p"
  using assms by (cases act; simp)+

text \<open>An action that was begun on a ready page, answered by the service and loaded again.\<close>

lemma answered_round:
  assumes r: "ready base token w s" and b: "pressed (sys_page s) act p" and c: "call_of act = Some c"
    and a: "service_answer member g now c w = Inr w'"
  shows "ready base token w' (run (system_step explain base i) (s\<lparr>sys_page := p\<rparr>) [ServiceAnswers member g now, LoadArrives l])"
proof -
  obtain rq where p: "p = begin_action act rq (sys_page s)" using b by (auto simp: pressed_def)
  have n: "act \<noteq> ActAddTask" using c by auto
  show ?thesis
    using r c a n unfolding ready_def Let_def
    by (simp add: p begin_action_def service_result_def page_step_def action_settled_def page_session_def load_with_def
        some_text_def load_settled_def success_shows)
qed

definition button_events :: "(string \<Rightarrow> bool) \<Rightarrow> GateInput \<Rightarrow> int \<Rightarrow> LoadAnswer \<Rightarrow> PageButton \<Rightarrow> SystemEvent list" where
  "button_events member g now l b = [UserEvent (Press b), ServiceAnswers member g now, LoadArrives l]"

definition assign_events :: "(string \<Rightarrow> bool) \<Rightarrow> GateInput \<Rightarrow> int \<Rightarrow> LoadAnswer \<Rightarrow> string \<Rightarrow> SystemEvent list" where
  "assign_events member g now l user =
     [UserEvent (Press BtnOpenAssign), UserEvent (TypeAssignee user), UserEvent SubmitAssign,
      ServiceAnswers member g now, LoadArrives l]"

lemma button_round:
  assumes r: "ready base token w s" and b: "b \<in> set (action_buttons (sw_status w))" and act: "action_of b = Some act"
    and c: "call_of act = Some c" and a: "service_answer member g now c w = Inr w'"
  shows "ready base token w' (run (system_step explain base i) s (button_events member g now l b))"
proof -
  have "\<not> page_isSubmitting (sys_page s)" using r by (simp add: ready_def Let_def)
  then have "system_step explain base i s (UserEvent (Press b)) = s\<lparr>sys_page := press_button i b (sys_page s)\<rparr>"
    using ready_shows [OF r] b by (simp add: page_step_def)
  then show ?thesis
    using answered_round [OF r press_begins [OF r act] c a] by (simp add: button_events_def)
qed

lemma shown_status_form [simp]:
  "shown_status (p\<lparr>page_showAssignModal := x\<rparr>) = shown_status p"
  "shown_status (p\<lparr>page_assigneeId := v\<rparr>) = shown_status p"
  by (simp_all add: shown_status_def page_panel_def split: option.split)

lemma assign_round:
  assumes r: "ready base token w s" and st: "BtnOpenAssign \<in> set (action_buttons (sw_status w))"
    and u: "trim user \<noteq> []" and a: "service_answer member g now (CallAssign (trim user)) w = Inr w'"
  shows "ready base token w' (run (system_step explain base i) s (assign_events member g now l user))"
proof -
  let ?p = "(sys_page s)\<lparr>page_showAssignModal := True, page_assigneeId := user\<rparr>"
  let ?run = "run (system_step explain base i)"
  have f: "\<not> page_isSubmitting (sys_page s)" "has_token (sys_page s)"
    using r by (simp_all add: ready_def Let_def has_token_def some_text_def)
  have shown: "shown_status ?p = Some (sw_status w)"
    using ready_shows [OF r] by simp
  have typed: "run (system_step explain base i) s [UserEvent (Press BtnOpenAssign), UserEvent (TypeAssignee user)] =
      s\<lparr>sys_page := ?p\<rparr>"
    using ready_shows [OF r] st f by (simp add: page_step_def)
  have r': "ready base token w (s\<lparr>sys_page := ?p\<rparr>)" using r by (simp add: ready_def Let_def)
  have "handleAssignSubmit i ?p = begin_action (ActAssign (trim user))
      (workOrdersApi_assign (token_of ?p) i (JObj [(''assigned_to_user_id'', JStr (trim user))])) ?p"
    using f u by (simp add: handleAssignSubmit_def has_token_def)
  then have submitted: "pressed ?p (ActAssign (trim user)) (handleAssignSubmit i ?p)"
    and step: "system_step explain base i (s\<lparr>sys_page := ?p\<rparr>) (UserEvent SubmitAssign) =
      s\<lparr>sys_page := handleAssignSubmit i ?p\<rparr>"
    using shown by (auto simp: pressed_def page_step_def)
  have loaded: "ready base token w' (?run (s\<lparr>sys_page := handleAssignSubmit i ?p\<rparr>) [ServiceAnswers member g now, LoadArrives l])"
    using answered_round [OF r', of "ActAssign (trim user)" "handleAssignSubmit i ?p"] submitted a by simp
  have "?run s (assign_events member g now l user) =
      ?run (?run s [UserEvent (Press BtnOpenAssign), UserEvent (TypeAssignee user)])
        [UserEvent SubmitAssign, ServiceAnswers member g now, LoadArrives l]"
    by (simp only: assign_events_def run.simps)
  also have "\<dots> = ?run (s\<lparr>sys_page := ?p\<rparr>) [UserEvent SubmitAssign, ServiceAnswers member g now, LoadArrives l]"
    by (simp only: typed)
  also have "\<dots> = ?run (s\<lparr>sys_page := handleAssignSubmit i ?p\<rparr>) [ServiceAnswers member g now, LoadArrives l]"
    by (simp only: run.simps step)
  finally show ?thesis using loaded by simp
qed

definition gates_clear :: "GateInput \<Rightarrow> bool" where
  "gates_clear g \<longleftrightarrow> count_where (\<lambda>s. s \<noteq> ''COMPLETED'') (gate_task_states g) = 0 \<and>
     count_where (\<lambda>s. \<not> satisfies_completion_gate s) (gate_inspection_states g) = 0 \<and> gate_release_blockers g = None"

definition life_cycle :: "(string \<Rightarrow> bool) \<Rightarrow> GateInput \<Rightarrow> int \<Rightarrow> LoadAnswer \<Rightarrow> string \<Rightarrow> SystemEvent list" where
  "life_cycle member g now l user =
     button_events member g now l (BtnTransition ''OPEN'' None) @
     button_events member g now l (BtnTransition ''PLANNED'' None) @
     assign_events member g now l user @
     button_events member g now l (BtnTransition ''IN_PROGRESS'' None) @
     button_events member g now l (BtnTransition ''INSPECTION'' None) @
     button_events member g now l BtnComplete @
     button_events member g now l BtnClose"

lemma clear_gate:
  assumes "gates_clear g" and "target \<noteq> ''CANCELLED''" and "sw_assigned_to w \<noteq> None \<or> target \<in> {''OPEN'', ''PLANNED''}"
  shows "\<exists>v. transition_gate g reason now target w = Inr v"
proof (cases "sw_assigned_to w")
  case None
  then have "target = ''OPEN'' \<or> target = ''PLANNED''" using assms(3) by simp
  then have "transition_gate g reason now target w = Inr w" by (elim disjE) (simp_all add: transition_gate_def)
  then show ?thesis by blast
next
  case (Some u)
  then show ?thesis
    using assms(1,2) unfolding transition_gate_def gates_clear_def Let_def
    by (simp split: if_split)
qed

lemma clear_transition:
  assumes "gates_clear g" and t: "target \<in> set (allowed_targets (sw_status w))" and n: "sw_status w \<noteq> target"
    and "target \<noteq> ''CANCELLED''" and "sw_assigned_to w \<noteq> None \<or> target \<in> {''OPEN'', ''PLANNED''}"
  shows "\<exists>w'. transition_work_order g reason now target w = Inr w' \<and> sw_status w' = target \<and>
    sw_assigned_to w' = sw_assigned_to w"
proof -
  obtain v where v: "transition_gate g reason now target w = Inr v"
    using clear_gate [OF assms(1,4,5)] by blast
  then show ?thesis
    using t n transition_gate_keeps [OF v] by (simp add: transition_work_order_def)
qed

lemma button_calls:
  assumes "action_of b \<noteq> None"
  obtains act c reason where "action_of b = Some act" and "call_of act = Some c"
    and "\<And>member g now w. service_answer member g now c w = transition_work_order g reason now (button_target b) w"
proof (cases b)
  case (BtnTransition target reason)
  show thesis
    by (rule that [of "ActTransition target reason" "CallTransition target reason" reason])
      (simp_all add: BtnTransition button_target_def)
next
  case BtnComplete
  show thesis
    by (rule that [of ActComplete CallComplete None]) (simp_all add: BtnComplete button_target_def complete_work_order_def)
next
  case BtnClose
  show thesis
    by (rule that [of ActClose CallClose None]) (simp_all add: BtnClose button_target_def close_work_order_def)
qed (use assms in simp_all)

lemma move_round:
  assumes r: "ready base token w s" and b: "b \<in> set (action_buttons (sw_status w))"
    and a: "action_of b \<noteq> None" and g: "gates_clear g"
    and m: "button_target b \<in> set (allowed_targets (sw_status w))" "sw_status w \<noteq> button_target b"
      "button_target b \<noteq> ''CANCELLED''" "sw_assigned_to w \<noteq> None \<or> button_target b \<in> {''OPEN'', ''PLANNED''}"
  shows "\<exists>w'. ready base token w' (run (system_step explain base i) s (button_events member g now l b)) \<and>
    sw_status w' = button_target b \<and> sw_assigned_to w' = sw_assigned_to w"
proof -
  obtain act c reason where c: "action_of b = Some act" "call_of act = Some c"
    and e: "\<And>member g now w. service_answer member g now c w = transition_work_order g reason now (button_target b) w"
    using button_calls [OF a] by metis
  obtain w' where w': "transition_work_order g reason now (button_target b) w = Inr w'" "sw_status w' = button_target b"
    "sw_assigned_to w' = sw_assigned_to w"
    using clear_transition [OF g m] by blast
  have "ready base token w' (run (system_step explain base i) s (button_events member g now l b))"
    by (rule button_round [OF r b c]) (simp only: e w'(1))
  then show ?thesis using w' by blast
qed

text \<open>
  C3 A work order can be brought from draft to closed on its page. From a page that shows a draft, pressing the
  offered buttons and assigning a member ends, when the gates are clear, on a page that shows the closed work
  order, with that technician and with no error; the service holds the same.
\<close>

theorem page_drives_to_closed:
  assumes "ready base token w s" and "sw_status w = ''DRAFT''" and "gates_clear g"
    and "trim user \<noteq> []" and "member (trim user)"
  shows "let s' = run (system_step explain base i) s (life_cycle member g now l user) in
    shown_status (sys_page s') = Some ''CLOSED'' \<and> sw_status (sys_row s') = ''CLOSED'' \<and>
    sw_assigned_to (sys_row s') = Some (trim user) \<and> page_actionError (sys_page s') = None"
proof -
  let ?run = "run (system_step explain base i)" and ?press = "button_events member g now l"
  note round = move_round [OF _ _ _ assms(3), where member = member and now = now and l = l and explain = explain and i = i]
  obtain w1 where 1: "ready base token w1 (?run s (?press (BtnTransition ''OPEN'' None)))" "sw_status w1 = ''OPEN''"
    using round [OF assms(1), of "BtnTransition ''OPEN'' None"] assms(2) by (auto simp: action_buttons_def button_target_def)
  let ?s1 = "?run s (?press (BtnTransition ''OPEN'' None))"
  obtain w2 where 2: "ready base token w2 (?run ?s1 (?press (BtnTransition ''PLANNED'' None)))" "sw_status w2 = ''PLANNED''"
    using round [OF 1(1), of "BtnTransition ''PLANNED'' None"] 1(2) by (auto simp: action_buttons_def button_target_def)
  let ?s2 = "?run ?s1 (?press (BtnTransition ''PLANNED'' None))"
  obtain w3 where w3: "service_answer member g now (CallAssign (trim user)) w2 = Inr w3" "sw_status w3 = ''ASSIGNED''"
    "sw_assigned_to w3 = Some (trim user)"
    using assms(5) 2(2) by (simp add: assign_work_order_def Let_def)
  let ?s3 = "?run ?s2 (assign_events member g now l user)"
  have 3: "ready base token w3 ?s3"
    by (rule assign_round [OF 2(1) _ assms(4) w3(1)]) (simp add: 2(2) action_buttons_def)
  let ?s4 = "?run ?s3 (?press (BtnTransition ''IN_PROGRESS'' None))"
  obtain w4 where 4: "ready base token w4 ?s4" "sw_status w4 = ''IN_PROGRESS''" "sw_assigned_to w4 = Some (trim user)"
    using round [OF 3, of "BtnTransition ''IN_PROGRESS'' None"] w3 by (auto simp: action_buttons_def button_target_def)
  let ?s5 = "?run ?s4 (?press (BtnTransition ''INSPECTION'' None))"
  obtain w5 where 5: "ready base token w5 ?s5" "sw_status w5 = ''INSPECTION''" "sw_assigned_to w5 = Some (trim user)"
    using round [OF 4(1), of "BtnTransition ''INSPECTION'' None"] 4 by (auto simp: action_buttons_def button_target_def)
  let ?s6 = "?run ?s5 (?press BtnComplete)"
  obtain w6 where 6: "ready base token w6 ?s6" "sw_status w6 = ''COMPLETED''" "sw_assigned_to w6 = Some (trim user)"
    using round [OF 5(1), of BtnComplete] 5 by (auto simp: action_buttons_def button_target_def)
  obtain w7 where 7: "ready base token w7 (?run ?s6 (?press BtnClose))" "sw_status w7 = ''CLOSED''" "sw_assigned_to w7 = Some (trim user)"
    using round [OF 6(1), of BtnClose] 6 by (auto simp: action_buttons_def button_target_def)
  have "?run s (life_cycle member g now l user) = ?run ?s6 (?press BtnClose)"
    by (simp only: life_cycle_def run_append)
  then show ?thesis
    using 7 ready_shows [OF 7(1)] by (simp add: ready_def Let_def)
qed

definition sample_wo :: BackendWorkOrder where
  "sample_wo =
     \<lparr>bwo_id = ''wo-1'', bwo_organization_id = ''x'', bwo_aircraft_id = None, bwo_asset_id = None,
     bwo_work_order_number = ''WO-1'', bwo_status = ''DRAFT'', bwo_priority = ''NORMAL'', bwo_title = None,
     bwo_description = None, bwo_work_order_type = None, bwo_maintenance_category = None, bwo_scheduled_start = None,
     bwo_scheduled_end = None, bwo_actual_start = None, bwo_actual_end = None, bwo_due_at = None,
     bwo_estimated_hours = None, bwo_actual_hours = None, bwo_estimated_cost = None, bwo_actual_cost = None,
     bwo_assigned_to_user_id = None, bwo_location = None, bwo_source_type = None, bwo_source_reference = None,
     bwo_compliance_required = False, bwo_compliance_reference = None, bwo_completed_at = None, bwo_closed_at = None,
     bwo_cancelled_at = None, bwo_cancellation_reason = None, bwo_created_by_user_id = None, bwo_created_at = ''x'',
     bwo_updated_at = None, bwo_deleted_at = None\<rparr>"

definition empty_load :: LoadAnswer where
  "empty_load = \<lparr>answer_wo = Inr sample_wo, answer_tasks = Inr [], answer_parts = Inr [], answer_findings = Inr [],
     answer_tat = Inl (Thrown TypeErrorExn)\<rparr>"

definition opened_page :: PageSystem where
  "opened_page = run (system_step (\<lambda>_. []) sample_wo ''wo-1'') (system_init (Some ''tok'') True draft_row)
     [UserEvent PageEffect, LoadArrives empty_load]"

lemma opened_page_ready: "ready sample_wo ''tok'' draft_row opened_page"
  by (simp add: opened_page_def system_init_def page_init_def ready_def page_step_def loadData_def load_with_def
      page_session_def some_text_def load_settled_def empty_load_def Let_def)

theorem page_drives_to_closed_witness:
  "let s' = run (system_step (\<lambda>_. []) sample_wo ''wo-1'') opened_page
        (life_cycle (\<lambda>u. u = ''t-7'') clear_gates 5 empty_load '' t-7 '') in
    shown_status (sys_page s') = Some ''CLOSED'' \<and> sw_status (sys_row s') = ''CLOSED'' \<and>
    sw_assigned_to (sys_row s') = Some ''t-7'' \<and> page_actionError (sys_page s') = None"
proof -
  have t: "trim '' t-7 '' = ''t-7''" by code_simp
  have "gates_clear clear_gates" by (simp add: gates_clear_def clear_gates_def count_where_def)
  then show ?thesis
    using page_drives_to_closed [OF opened_page_ready, of clear_gates "'' t-7 ''" "\<lambda>u. u = ''t-7''" "\<lambda>_. []" "''wo-1''" 5 empty_load]
    by (simp add: t draft_row_def)
qed

section \<open>What the page does not guard against\<close>

text \<open>
  Two loads can be under way at once (a task completion and an action each start one), and nothing discards the
  older one: when its answer is the later to arrive, the page goes back to the status it brings.
\<close>

lemma late_load_wins:
  assumes "page_loads p = 2" and "page_isAuthenticated p" and "page_error p = None"
    and "answer_wo newer = Inr w" and "answer_wo older = Inr v"
  shows "shown_status (load_settled older (load_settled newer p)) = Some (bwo_status v)"
  using assms by (simp add: load_settled_def shown_status_def page_panel_def Let_def)

text \<open>
  The dialogs do not look at the status again: a reason of three characters is sent for a work order that was
  closed in the meantime.
\<close>

lemma cancel_dialog_ignores_status:
  assumes "page_showCancelModal p" and "has_token p" and "3 \<le> js_len (trim (page_cancellationReason p))"
    and "\<not> page_isSubmitting p" and "shown_status p = Some ''CLOSED''"
  shows "last (page_log (page_step i p SubmitCancel)) = (''CLOSED'', ActCancel (trim (page_cancellationReason p)))"
  using assms by (simp add: page_step_def handleCancelSubmit_def begin_action_def)

text \<open>A task that was cancelled is offered for completion, and it keeps the work order out of inspection.\<close>

lemma cancelled_task_offered:
  "offers_task_completion ''IN_PROGRESS'' (t\<lparr>btask_execution_state := ''CANCELLED''\<rparr>)"
  "gate_task_states g = [''CANCELLED''] \<Longrightarrow>
   transition_work_order g reason now ''INSPECTION'' (w\<lparr>sw_status := ''IN_PROGRESS''\<rparr>) = Inl (TasksUncompleted 1)"
  by (simp_all add: offers_task_completion_def transition_work_order_def transition_gate_def count_where_def)

text \<open>The two sides count the characters of a reason differently: an emoji is two for the page and one for the
  service.\<close>

lemma reason_lengths_differ:
  "3 \<le> js_len [CHR 0xF0, CHR 0x9F, CHR 0x98, CHR 0x80, CHR ''a'']"
  "cancel_request (Some [CHR 0xF0, CHR 0x9F, CHR 0x98, CHR 0x80, CHR ''a'']) None = None"
  by code_simp+

end
