(* ===== verification/ClientCatalog.thy ===== *)
theory ClientCatalog
  imports Json
begin

text \<open>
  The features of a plan, the usage limits of a tenant and the features of the product catalog
  (\<open>src/frontend/lib/api/plan.ts\<close>, \<open>entitlement.ts\<close>, \<open>productCatalog.ts\<close>).
  An interface is a record whose fields carry a prefix. A field that may be null or absent is an
  option, a union of literals a datatype, a value of no declared shape a \<open>json\<close>.
\<close>

record PlanFeatureResponse =
  planfeat_id :: string
  planfeat_plan_id :: string
  planfeat_feature_key :: string
  planfeat_enabled :: bool
  planfeat_created_at :: string
  planfeat_updated_at :: string

record TenantUsageLimitResponse =
  tlimit_id :: string
  tlimit_organization_id :: string
  tlimit_feature_key :: string
  tlimit_limit_key :: string
  tlimit_limit_value :: "int option"
  tlimit_is_unlimited :: bool
  tlimit_created_at :: string
  tlimit_updated_at :: string

record ProductFeatureResponse =
  catfeat_id :: string
  catfeat_module_id :: string
  catfeat_code :: string
  catfeat_name :: string
  catfeat_description :: "string option"
  catfeat_is_active :: bool
  catfeat_created_at :: string
  catfeat_updated_at :: string

record ProductPageResponse =
  catpage_id :: string
  catpage_module_id :: string
  catpage_code :: string
  catpage_name :: string
  catpage_description :: "string option"
  catpage_route :: "string option"
  catpage_display_order :: int
  catpage_is_active :: bool
  catpage_created_at :: string
  catpage_updated_at :: string

record ProductModuleWithChildrenResponse =
  catmodule_id :: string
  catmodule_suite_id :: string
  catmodule_code :: string
  catmodule_name :: string
  catmodule_description :: "string option"
  catmodule_display_order :: int
  catmodule_is_active :: bool
  catmodule_created_at :: string
  catmodule_updated_at :: string
  catmodule_pages :: "ProductPageResponse list"
  catmodule_features :: "ProductFeatureResponse list"

record ProductSuiteWithChildrenResponse =
  catsuite_id :: string
  catsuite_code :: string
  catsuite_name :: string
  catsuite_description :: "string option"
  catsuite_display_order :: int
  catsuite_is_active :: bool
  catsuite_created_at :: string
  catsuite_updated_at :: string
  catsuite_modules :: "ProductModuleWithChildrenResponse list"

record PlanSubscribedTenantResponse =
  ptenant_organization_id :: string
  ptenant_organization_name :: string
  ptenant_organization_status :: string
  ptenant_subscription_id :: string
  ptenant_subscription_status :: string
  ptenant_starts_at :: string
  ptenant_ends_at :: "string option"

record PlanLimitResponse =
  plimit_id :: string
  plimit_plan_id :: string
  plimit_limit_key :: string
  plimit_limit_value :: "int option"
  plimit_is_unlimited :: bool
  plimit_created_at :: string
  plimit_updated_at :: string

end
