(* ===== verification/EntitlementService.thy ===== *)
theory EntitlementService
  imports ClientPlatform Contracts "HOL-Library.AList"
begin

text \<open>
  The service side of what an organization may use: the resolver
  (\<open>src/backend/app/services/entitlement_service.py\<close>) and the administration of the overrides and limits of
  one tenant (\<open>tenant_entitlement_admin_service.py\<close>), over the tables they read and write. A time is a
  number; the clock and the identifier of a new row are arguments. A text built for a reader (the reason of a
  resolution, the message of an error) is a constructor with the parameters of the text. Shown: what the
  resolver answers, that nothing crosses from one tenant to another, which changes need the permission to
  expand, and which expand without it.
\<close>

section \<open>Tables\<close>

record OrganizationRow =
  orow_id :: string
  orow_name :: string
  orow_status :: string
  orow_deleted_at :: "int option"

record SubscriptionRow =
  srow_id :: string
  srow_organization_id :: string
  srow_plan_id :: string
  srow_status :: string
  srow_starts_at :: int
  srow_ends_at :: "int option"
  srow_created_at :: int
  srow_updated_at :: int

record PlanRow =
  prow_id :: string
  prow_code :: string
  prow_name :: string
  prow_description :: "string option"
  prow_is_active :: bool
  prow_asset_scope :: "string option"
  prow_created_at :: int
  prow_updated_at :: int

record PlanFeatureRow =
  pfrow_id :: string
  pfrow_plan_id :: string
  pfrow_feature_key :: string
  pfrow_enabled :: bool
  pfrow_created_at :: int
  pfrow_updated_at :: int

record PlanLimitRow =
  plrow_id :: string
  plrow_plan_id :: string
  plrow_limit_key :: string
  plrow_limit_value :: "int option"
  plrow_is_unlimited :: bool
  plrow_created_at :: int
  plrow_updated_at :: int

record TenantFeatureOverride =
  ovrow_id :: string
  ovrow_organization_id :: string
  ovrow_feature_key :: string
  ovrow_enabled :: bool
  ovrow_reason :: "string option"
  ovrow_created_by :: "string option"
  ovrow_expires_at :: "int option"
  ovrow_created_at :: int

record TenantUsageLimit =
  lmrow_id :: string
  lmrow_organization_id :: string
  lmrow_feature_key :: string
  lmrow_limit_key :: string
  lmrow_limit_value :: "int option"
  lmrow_is_unlimited :: bool
  lmrow_created_at :: int

record ServiceAudit =
  evrow_organization_id :: string
  evrow_user_id :: "string option"
  evrow_action :: string
  evrow_entity_type :: string
  evrow_entity_id :: string
  evrow_metadata :: json

record EntitlementDb =
  edb_organizations :: "OrganizationRow list"
  edb_subscriptions :: "SubscriptionRow list"
  edb_plans :: "PlanRow list"
  edb_plan_features :: "PlanFeatureRow list"
  edb_plan_limits :: "PlanLimitRow list"
  edb_overrides :: "TenantFeatureOverride list"
  edb_limits :: "TenantUsageLimit list"
  edb_audit :: "ServiceAudit list"

section \<open>The resolver\<close>

datatype EntitlementResolutionStatus =
    RES_ACTIVE | RES_INACTIVE_PLAN | RES_SUSPENDED | RES_NO_SUBSCRIPTION | RES_AMBIGUOUS | RES_INVALID

datatype ResolutionReason =
    OrganizationNotFound
  | OrganizationSuspended
  | OrganizationDeleted
  | NoCurrentSubscription
  | ManyCurrentSubscriptions "string list"
  | PlanNotFound string
  | PlanInactive string
  | SubscriptionCurrent string string

record EntitlementResolution =
  reso_organization_id :: string
  reso_status :: EntitlementResolutionStatus
  reso_organization_status :: string
  reso_subscription_id :: "string option"
  reso_subscription_status :: "string option"
  reso_plan_id :: "string option"
  reso_plan_code :: "string option"
  reso_effective_features :: "(string \<times> bool) list"
  reso_usage_limits :: "UsageLimitConfiguration list"
  reso_reason :: ResolutionReason

definition SERVICE_GRANTING_STATUSES :: "string list" where
  "SERVICE_GRANTING_STATUSES = [''TRIALING'', ''ACTIVE'', ''PAST_DUE'']"

definition is_current_subscription :: "SubscriptionRow \<Rightarrow> int \<Rightarrow> bool" where
  "is_current_subscription s as_of \<longleftrightarrow>
     srow_status s \<in> set SERVICE_GRANTING_STATUSES \<and> \<not> srow_starts_at s > as_of \<and>
     (case srow_ends_at s of None \<Rightarrow> True | Some e \<Rightarrow> \<not> e \<le> as_of)"

definition subscription_candidates :: "EntitlementDb \<Rightarrow> string \<Rightarrow> int \<Rightarrow> SubscriptionRow list" where
  "subscription_candidates db organization as_of =
     filter (\<lambda>s. is_current_subscription s as_of)
       (filter (\<lambda>s. srow_organization_id s = organization \<and> srow_status s \<in> set SERVICE_GRANTING_STATUSES \<and>
                   srow_starts_at s \<le> as_of) (edb_subscriptions db))"

text \<open>The dictionaries: a key that is there keeps its place and gets the new value.\<close>

definition dict_of :: "('r \<Rightarrow> string) \<Rightarrow> ('r \<Rightarrow> 'v) \<Rightarrow> (string \<times> 'v) list \<Rightarrow> 'r list \<Rightarrow> (string \<times> 'v) list" where
  "dict_of key val d rows = foldl (\<lambda>m r. AList.update (key r) (val r) m) d rows"

definition plan_feature_map :: "EntitlementDb \<Rightarrow> string \<Rightarrow> (string \<times> bool) list" where
  "plan_feature_map db plan =
     dict_of pfrow_feature_key pfrow_enabled [] (filter (\<lambda>f. pfrow_plan_id f = plan) (edb_plan_features db))"

definition org_overrides :: "EntitlementDb \<Rightarrow> string \<Rightarrow> TenantFeatureOverride list" where
  "org_overrides db organization = filter (\<lambda>r. ovrow_organization_id r = organization) (edb_overrides db)"

definition active_override :: "int \<Rightarrow> TenantFeatureOverride \<Rightarrow> bool" where
  "active_override as_of r \<longleftrightarrow> (case ovrow_expires_at r of None \<Rightarrow> True | Some e \<Rightarrow> e > as_of)"

definition effective_feature_map :: "EntitlementDb \<Rightarrow> string \<Rightarrow> string \<Rightarrow> int \<Rightarrow> (string \<times> bool) list" where
  "effective_feature_map db organization plan as_of =
     dict_of ovrow_feature_key ovrow_enabled (plan_feature_map db plan)
       (filter (active_override as_of) (org_overrides db organization))"

definition org_limits :: "EntitlementDb \<Rightarrow> string \<Rightarrow> TenantUsageLimit list" where
  "org_limits db organization = filter (\<lambda>r. lmrow_organization_id r = organization) (edb_limits db)"

definition tenant_limit :: "string \<Rightarrow> TenantUsageLimit \<Rightarrow> UsageLimitConfiguration" where
  "tenant_limit limit_key row = \<lparr>ulimit_feature_key = lmrow_feature_key row, ulimit_limit_key = limit_key,
     ulimit_limit_value = lmrow_limit_value row, ulimit_is_unlimited = lmrow_is_unlimited row\<rparr>"

definition plan_limit :: "PlanLimitRow \<Rightarrow> UsageLimitConfiguration" where
  "plan_limit pl = \<lparr>ulimit_feature_key = plrow_limit_key pl, ulimit_limit_key = plrow_limit_key pl,
     ulimit_limit_value = plrow_limit_value pl, ulimit_is_unlimited = plrow_is_unlimited pl\<rparr>"

definition effective_limit_map ::
  "PlanLimitRow list \<Rightarrow> TenantUsageLimit list \<Rightarrow> (string \<times> UsageLimitConfiguration) list" where
  "effective_limit_map plan_rows tenant_rows =
     (let tenant = dict_of lmrow_limit_key id [] tenant_rows;
          baseline = dict_of plrow_limit_key
            (\<lambda>pl. case map_of tenant (plrow_limit_key pl) of
                    Some row \<Rightarrow> tenant_limit (plrow_limit_key pl) row
                  | None \<Rightarrow> plan_limit pl) [] plan_rows
      in foldl (\<lambda>m row. if map_of m (lmrow_limit_key row) = None
                       then AList.update (lmrow_limit_key row) (tenant_limit (lmrow_limit_key row) row) m else m)
           baseline tenant_rows)"

definition effective_limits :: "EntitlementDb \<Rightarrow> string \<Rightarrow> string \<Rightarrow> UsageLimitConfiguration list" where
  "effective_limits db organization plan =
     sort_key (\<lambda>r. [ulimit_feature_key r, ulimit_limit_key r])
       (map snd (effective_limit_map (filter (\<lambda>l. plrow_plan_id l = plan) (edb_plan_limits db))
          (org_limits db organization)))"

definition denied ::
  "string \<Rightarrow> EntitlementResolutionStatus \<Rightarrow> string \<Rightarrow> ResolutionReason \<Rightarrow> EntitlementResolution" where
  "denied organization status organization_status reason =
     \<lparr>reso_organization_id = organization, reso_status = status, reso_organization_status = organization_status,
      reso_subscription_id = None, reso_subscription_status = None, reso_plan_id = None, reso_plan_code = None,
      reso_effective_features = [], reso_usage_limits = [], reso_reason = reason\<rparr>"

definition resolve_plan :: "EntitlementDb \<Rightarrow> OrganizationRow \<Rightarrow> SubscriptionRow \<Rightarrow> int \<Rightarrow> EntitlementResolution" where
  "resolve_plan db org s as_of =
     (case find (\<lambda>p. prow_id p = srow_plan_id s) (edb_plans db) of
        None \<Rightarrow> (denied (orow_id org) RES_INVALID (orow_status org) (PlanNotFound (srow_id s)))
          \<lparr>reso_subscription_id := Some (srow_id s), reso_subscription_status := Some (srow_status s),
           reso_plan_id := Some (srow_plan_id s)\<rparr>
      | Some p \<Rightarrow>
          \<lparr>reso_organization_id = orow_id org,
           reso_status = (if prow_is_active p then RES_ACTIVE else RES_INACTIVE_PLAN),
           reso_organization_status = orow_status org,
           reso_subscription_id = Some (srow_id s), reso_subscription_status = Some (srow_status s),
           reso_plan_id = Some (prow_id p), reso_plan_code = Some (prow_code p),
           reso_effective_features = effective_feature_map db (orow_id org) (prow_id p) as_of,
           reso_usage_limits = effective_limits db (orow_id org) (prow_id p),
           reso_reason = (if prow_is_active p then SubscriptionCurrent (srow_id s) (prow_code p)
                          else PlanInactive (prow_code p))\<rparr>)"

definition resolve_entitlements :: "EntitlementDb \<Rightarrow> string \<Rightarrow> int \<Rightarrow> EntitlementResolution" where
  "resolve_entitlements db organization as_of =
     (case find (\<lambda>r. orow_id r = organization) (edb_organizations db) of
        None \<Rightarrow> denied organization RES_INVALID ''UNKNOWN'' OrganizationNotFound
      | Some org \<Rightarrow>
          if orow_status org = ''SUSPENDED''
          then denied organization RES_SUSPENDED (orow_status org) OrganizationSuspended
          else if orow_deleted_at org \<noteq> None
          then denied organization RES_SUSPENDED ''DELETED'' OrganizationDeleted
          else (case subscription_candidates db organization as_of of
                  [] \<Rightarrow> denied organization RES_NO_SUBSCRIPTION (orow_status org) NoCurrentSubscription
                | [s] \<Rightarrow> resolve_plan db org s as_of
                | ss \<Rightarrow> denied organization RES_AMBIGUOUS (orow_status org)
                    (ManyCurrentSubscriptions (sort (map srow_id ss)))))"

section \<open>Administration\<close>

datatype EntitlementError =
    OrganizationMissing
  | OverrideMissing
  | LimitMissing
  | DuplicateOverride string
  | DuplicateLimit string string
  | ExpansionForbidden
  | MultipleRows

text \<open>The permission \<open>platform:entitlement_override\<close> among those of the roles.\<close>

definition may_expand :: "string list \<Rightarrow> bool" where
  "may_expand roles \<longleftrightarrow> list_ex (\<lambda>r. r = ''SUPER_ADMIN'' \<or> r = ''PLATFORM_ADMIN'') roles"

definition org_exists :: "EntitlementDb \<Rightarrow> string \<Rightarrow> bool" where
  "org_exists db organization \<longleftrightarrow> find (\<lambda>r. orow_id r = organization) (edb_organizations db) \<noteq> None"

definition feature_granted :: "EntitlementResolution \<Rightarrow> string \<Rightarrow> bool" where
  "feature_granted r k = or_else (map_of (reso_effective_features r) k) False"

definition classify_feature_override :: "EntitlementDb \<Rightarrow> string \<Rightarrow> string \<Rightarrow> bool \<Rightarrow> int \<Rightarrow> bool" where
  "classify_feature_override db organization k proposed now \<longleftrightarrow>
     (if \<not> proposed then False else \<not> feature_granted (resolve_entitlements db organization now) k)"

definition classify_usage_limit :: "int option \<Rightarrow> bool \<Rightarrow> int option \<Rightarrow> bool \<Rightarrow> bool \<Rightarrow> bool" where
  "classify_usage_limit current_value current_unlimited proposed_value proposed_unlimited has_row \<longleftrightarrow>
     (if proposed_unlimited \<and> \<not> current_unlimited then True
      else if current_unlimited then False
      else if \<not> has_row then False
      else (case (proposed_value, current_value) of (Some p, Some c) \<Rightarrow> p > c | _ \<Rightarrow> False))"

text \<open>\<open>scalar_one_or_none()\<close>.\<close>

definition one_or_none :: "'r list \<Rightarrow> EntitlementError + 'r option" where
  "one_or_none rows = (case rows of [] \<Rightarrow> Inr None | [r] \<Rightarrow> Inr (Some r) | _ \<Rightarrow> Inl MultipleRows)"

definition override_row :: "string \<Rightarrow> string \<Rightarrow> TenantFeatureOverride \<Rightarrow> bool" where
  "override_row organization k r \<longleftrightarrow> ovrow_organization_id r = organization \<and> ovrow_feature_key r = k"

definition limit_row :: "string \<Rightarrow> string \<Rightarrow> string \<Rightarrow> TenantUsageLimit \<Rightarrow> bool" where
  "limit_row organization f k r \<longleftrightarrow>
     lmrow_organization_id r = organization \<and> lmrow_feature_key r = f \<and> lmrow_limit_key r = k"

definition record_audit_event :: "ServiceAudit \<Rightarrow> EntitlementDb \<Rightarrow> EntitlementDb" where
  "record_audit_event ev db = db\<lparr>edb_audit := edb_audit db @ [ev]\<rparr>"

definition override_event :: "string \<Rightarrow> string option \<Rightarrow> string \<Rightarrow> string \<Rightarrow> json \<Rightarrow> ServiceAudit" where
  "override_event organization actor what i meta =
     \<lparr>evrow_organization_id = organization, evrow_user_id = actor,
      evrow_action = ''platform.tenant_feature_override.'' @ what, evrow_entity_type = ''TenantFeatureOverride'',
      evrow_entity_id = i, evrow_metadata = meta\<rparr>"

definition limit_event :: "string \<Rightarrow> string option \<Rightarrow> string \<Rightarrow> string \<Rightarrow> json \<Rightarrow> ServiceAudit" where
  "limit_event organization actor what i meta =
     \<lparr>evrow_organization_id = organization, evrow_user_id = actor,
      evrow_action = ''platform.tenant_usage_limit.'' @ what, evrow_entity_type = ''TenantUsageLimit'',
      evrow_entity_id = i, evrow_metadata = meta\<rparr>"

definition list_feature_overrides :: "EntitlementDb \<Rightarrow> string \<Rightarrow> EntitlementError + TenantFeatureOverride list" where
  "list_feature_overrides db organization =
     (if \<not> org_exists db organization then Inl OrganizationMissing
      else Inr (sort_key (\<lambda>r. - ovrow_created_at r) (org_overrides db organization)))"

definition list_usage_limits :: "EntitlementDb \<Rightarrow> string \<Rightarrow> EntitlementError + TenantUsageLimit list" where
  "list_usage_limits db organization =
     (if \<not> org_exists db organization then Inl OrganizationMissing
      else Inr (sort_key (\<lambda>r. - lmrow_created_at r) (org_limits db organization)))"

text \<open>Who calls, when, and the identifier a new row gets.\<close>

record Caller =
  caller_id :: "string option"
  caller_roles :: "string list"
  caller_now :: int
  caller_new_id :: string

definition new_override ::
  "Caller \<Rightarrow> string \<Rightarrow> string \<Rightarrow> bool \<Rightarrow> string option \<Rightarrow> int option \<Rightarrow> TenantFeatureOverride" where
  "new_override c organization k enabled reason expires_at =
     \<lparr>ovrow_id = caller_new_id c, ovrow_organization_id = organization, ovrow_feature_key = k,
      ovrow_enabled = enabled, ovrow_reason = reason, ovrow_created_by = caller_id c,
      ovrow_expires_at = expires_at, ovrow_created_at = caller_now c\<rparr>"

definition create_feature_override ::
  "Caller \<Rightarrow> string \<Rightarrow> string \<Rightarrow> bool \<Rightarrow> string option \<Rightarrow> int option \<Rightarrow> EntitlementDb \<Rightarrow> EntitlementError + EntitlementDb" where
  "create_feature_override c organization k enabled reason expires_at db =
     (if \<not> org_exists db organization then Inl OrganizationMissing
      else let expansive = classify_feature_override db organization k enabled (caller_now c) in
        if expansive \<and> \<not> may_expand (caller_roles c) then Inl ExpansionForbidden
        else (case one_or_none (filter (override_row organization k) (edb_overrides db)) of
                Inl e \<Rightarrow> Inl e
              | Inr (Some r) \<Rightarrow> Inl (DuplicateOverride k)
              | Inr None \<Rightarrow> Inr (record_audit_event
                  (override_event organization (caller_id c) ''created'' (caller_new_id c)
                     (JObj [(''feature_key'', JStr k), (''enabled'', JBool enabled), (''expansive'', JBool expansive)]))
                  (db\<lparr>edb_overrides := edb_overrides db @
                     [new_override c organization k enabled reason expires_at]\<rparr>))))"

definition get_override :: "EntitlementDb \<Rightarrow> string \<Rightarrow> string \<Rightarrow> EntitlementError + TenantFeatureOverride" where
  "get_override db organization k =
     (case one_or_none (filter (override_row organization k) (edb_overrides db)) of
        Inl e \<Rightarrow> Inl e
      | Inr None \<Rightarrow> Inl OverrideMissing
      | Inr (Some r) \<Rightarrow> Inr r)"

text \<open>A field of the request that is null or absent is \<open>None\<close>, and is not written.\<close>

definition given :: "'v option \<Rightarrow> 'v \<Rightarrow> 'v" where
  "given v old = (case v of None \<Rightarrow> old | Some x \<Rightarrow> x)"

definition changes :: "'v option \<Rightarrow> 'v \<Rightarrow> bool" where
  "changes v old \<longleftrightarrow> (case v of None \<Rightarrow> False | Some x \<Rightarrow> x \<noteq> old)"

definition override_updates ::
  "bool option \<Rightarrow> string option \<Rightarrow> int option \<Rightarrow> TenantFeatureOverride \<Rightarrow> (string \<times> json) list" where
  "override_updates enabled reason expires_at r =
     (if changes enabled (ovrow_enabled r) then [(''enabled'', JBool (given enabled (ovrow_enabled r)))] else []) @
     (if changes (map_option Some reason) (ovrow_reason r) then [(''reason'', jstr reason)] else []) @
     (if changes (map_option Some expires_at) (ovrow_expires_at r)
      then [(''expires_at'', case expires_at of None \<Rightarrow> JNull | Some e \<Rightarrow> JNum (of_int e))] else [])"

definition written_override ::
  "bool option \<Rightarrow> string option \<Rightarrow> int option \<Rightarrow> TenantFeatureOverride \<Rightarrow> TenantFeatureOverride" where
  "written_override enabled reason expires_at r =
     r\<lparr>ovrow_enabled := given enabled (ovrow_enabled r),
       ovrow_reason := (if reason = None then ovrow_reason r else reason),
       ovrow_expires_at := (if expires_at = None then ovrow_expires_at r else expires_at)\<rparr>"

definition replace_rows :: "('r \<Rightarrow> bool) \<Rightarrow> 'r \<Rightarrow> 'r list \<Rightarrow> 'r list" where
  "replace_rows P new rows = map (\<lambda>x. if P x then new else x) rows"

definition update_feature_override ::
  "Caller \<Rightarrow> string \<Rightarrow> string \<Rightarrow> bool option \<Rightarrow> string option \<Rightarrow> int option \<Rightarrow> EntitlementDb \<Rightarrow>
     EntitlementError + EntitlementDb" where
  "update_feature_override c organization k enabled reason expires_at db =
     (case get_override db organization k of
        Inl e \<Rightarrow> Inl e
      | Inr r \<Rightarrow>
          if changes enabled (ovrow_enabled r) \<and>
             classify_feature_override db organization k (given enabled (ovrow_enabled r)) (caller_now c) \<and>
             \<not> may_expand (caller_roles c)
          then Inl ExpansionForbidden
          else let updates = override_updates enabled reason expires_at r;
                   written = db\<lparr>edb_overrides := replace_rows (override_row organization k)
                     (written_override enabled reason expires_at r) (edb_overrides db)\<rparr>
            in Inr (if updates = [] then written
                    else record_audit_event
                      (override_event organization (caller_id c) ''updated'' (ovrow_id r) (JObj updates)) written))"

definition remove_feature_override ::
  "Caller \<Rightarrow> string \<Rightarrow> string \<Rightarrow> EntitlementDb \<Rightarrow> EntitlementError + EntitlementDb" where
  "remove_feature_override c organization k db =
     (case get_override db organization k of
        Inl e \<Rightarrow> Inl e
      | Inr r \<Rightarrow> Inr (record_audit_event
          (override_event organization (caller_id c) ''removed'' (ovrow_id r) (JObj [(''feature_key'', JStr k)]))
          (db\<lparr>edb_overrides := filter (\<lambda>x. \<not> override_row organization k x) (edb_overrides db)\<rparr>)))"

definition jint :: "int option \<Rightarrow> json" where
  "jint v = (case v of None \<Rightarrow> JNull | Some n \<Rightarrow> JNum (of_int n))"

definition new_limit :: "Caller \<Rightarrow> string \<Rightarrow> string \<Rightarrow> string \<Rightarrow> int option \<Rightarrow> bool \<Rightarrow> TenantUsageLimit" where
  "new_limit c organization f k v unlimited =
     \<lparr>lmrow_id = caller_new_id c, lmrow_organization_id = organization, lmrow_feature_key = f, lmrow_limit_key = k,
      lmrow_limit_value = (if unlimited then None else v), lmrow_is_unlimited = unlimited,
      lmrow_created_at = caller_now c\<rparr>"

definition create_usage_limit ::
  "Caller \<Rightarrow> string \<Rightarrow> string \<Rightarrow> string \<Rightarrow> int option \<Rightarrow> bool \<Rightarrow> EntitlementDb \<Rightarrow> EntitlementError + EntitlementDb" where
  "create_usage_limit c organization f k v unlimited db =
     (if \<not> org_exists db organization then Inl OrganizationMissing
      else let expansive = classify_usage_limit None False v unlimited False in
        if expansive \<and> \<not> may_expand (caller_roles c) then Inl ExpansionForbidden
        else (case one_or_none (filter (limit_row organization f k) (edb_limits db)) of
                Inl e \<Rightarrow> Inl e
              | Inr (Some r) \<Rightarrow> Inl (DuplicateLimit f k)
              | Inr None \<Rightarrow> Inr (record_audit_event
                  (limit_event organization (caller_id c) ''created'' (caller_new_id c)
                     (JObj [(''feature_key'', JStr f), (''limit_key'', JStr k), (''limit_value'', jint v),
                            (''is_unlimited'', JBool unlimited), (''expansive'', JBool expansive)]))
                  (db\<lparr>edb_limits := edb_limits db @
                     [new_limit c organization f k v unlimited]\<rparr>))))"

definition get_usage_limit :: "EntitlementDb \<Rightarrow> string \<Rightarrow> string \<Rightarrow> string \<Rightarrow> EntitlementError + TenantUsageLimit" where
  "get_usage_limit db organization f k =
     (case one_or_none (filter (limit_row organization f k) (edb_limits db)) of
        Inl e \<Rightarrow> Inl e
      | Inr None \<Rightarrow> Inl LimitMissing
      | Inr (Some r) \<Rightarrow> Inr r)"

definition limit_updates :: "int option \<Rightarrow> bool option \<Rightarrow> TenantUsageLimit \<Rightarrow> (string \<times> json) list" where
  "limit_updates v unlimited r =
     (if changes unlimited (lmrow_is_unlimited r)
      then [(''is_unlimited'', JBool (given unlimited (lmrow_is_unlimited r)))] else []) @
     (if unlimited = Some True then (if lmrow_limit_value r \<noteq> None then [(''limit_value'', JNull)] else [])
      else if changes (map_option Some v) (lmrow_limit_value r) then [(''limit_value'', jint v)] else [])"

definition written_limit :: "int option \<Rightarrow> bool option \<Rightarrow> TenantUsageLimit \<Rightarrow> TenantUsageLimit" where
  "written_limit v unlimited r =
     r\<lparr>lmrow_is_unlimited := given unlimited (lmrow_is_unlimited r),
       lmrow_limit_value := (if unlimited = Some True then None else if v = None then lmrow_limit_value r else v)\<rparr>"

definition update_usage_limit ::
  "Caller \<Rightarrow> string \<Rightarrow> string \<Rightarrow> string \<Rightarrow> int option \<Rightarrow> bool option \<Rightarrow> EntitlementDb \<Rightarrow>
     EntitlementError + EntitlementDb" where
  "update_usage_limit c organization f k v unlimited db =
     (case get_usage_limit db organization f k of
        Inl e \<Rightarrow> Inl e
      | Inr r \<Rightarrow>
          let expansive = classify_usage_limit (lmrow_limit_value r) (lmrow_is_unlimited r)
                (if v = None then lmrow_limit_value r else v) (given unlimited (lmrow_is_unlimited r)) True in
          if expansive \<and> \<not> may_expand (caller_roles c) then Inl ExpansionForbidden
          else let updates = limit_updates v unlimited r;
                   written = db\<lparr>edb_limits := replace_rows (limit_row organization f k)
                     (written_limit v unlimited r) (edb_limits db)\<rparr>
            in Inr (if updates = [] then written
                    else record_audit_event
                      (limit_event organization (caller_id c) ''updated'' (lmrow_id r)
                         (JObj (updates @ [(''expansive'', JBool expansive)]))) written))"

definition remove_usage_limit ::
  "Caller \<Rightarrow> string \<Rightarrow> string \<Rightarrow> string \<Rightarrow> EntitlementDb \<Rightarrow> EntitlementError + EntitlementDb" where
  "remove_usage_limit c organization f k db =
     (case get_usage_limit db organization f k of
        Inl e \<Rightarrow> Inl e
      | Inr r \<Rightarrow> Inr (record_audit_event
          (limit_event organization (caller_id c) ''removed'' (lmrow_id r)
             (JObj [(''feature_key'', JStr f), (''limit_key'', JStr k)]))
          (db\<lparr>edb_limits := filter (\<lambda>x. \<not> limit_row organization f k x) (edb_limits db)\<rparr>)))"

text \<open>The calls of the administration, one after the other; a call that fails is rolled back.\<close>

datatype AdminCall =
    CreateOverride string string bool "string option" "int option"
  | UpdateOverride string string "bool option" "string option" "int option"
  | RemoveOverride string string
  | CreateLimit string string string "int option" bool
  | UpdateLimit string string string "int option" "bool option"
  | RemoveLimit string string string

fun admin_call :: "Caller \<Rightarrow> AdminCall \<Rightarrow> EntitlementDb \<Rightarrow> EntitlementError + EntitlementDb" where
  "admin_call c (CreateOverride g k enabled reason expires) db = create_feature_override c g k enabled reason expires db"
| "admin_call c (UpdateOverride g k enabled reason expires) db = update_feature_override c g k enabled reason expires db"
| "admin_call c (RemoveOverride g k) db = remove_feature_override c g k db"
| "admin_call c (CreateLimit g f k v unlimited) db = create_usage_limit c g f k v unlimited db"
| "admin_call c (UpdateLimit g f k v unlimited) db = update_usage_limit c g f k v unlimited db"
| "admin_call c (RemoveLimit g f k) db = remove_usage_limit c g f k db"

fun call_org :: "AdminCall \<Rightarrow> string" where
  "call_org (CreateOverride g k enabled reason expires) = g"
| "call_org (UpdateOverride g k enabled reason expires) = g"
| "call_org (RemoveOverride g k) = g"
| "call_org (CreateLimit g f k v unlimited) = g"
| "call_org (UpdateLimit g f k v unlimited) = g"
| "call_org (RemoveLimit g f k) = g"

definition admin_step :: "EntitlementDb \<Rightarrow> Caller \<times> AdminCall \<Rightarrow> EntitlementDb" where
  "admin_step db e = (case admin_call (fst e) (snd e) db of Inl err \<Rightarrow> db | Inr db' \<Rightarrow> db')"

section \<open>Lemmas\<close>

text \<open>The rows one call can find more than once are not there twice: the unique constraint of the limits, and
  for the overrides what the check before the insertion keeps.\<close>

definition override_key :: "TenantFeatureOverride \<Rightarrow> string \<times> string" where
  "override_key r = (ovrow_organization_id r, ovrow_feature_key r)"

definition limit_key :: "TenantUsageLimit \<Rightarrow> string \<times> string \<times> string" where
  "limit_key r = (lmrow_organization_id r, lmrow_feature_key r, lmrow_limit_key r)"

definition rows_unique :: "EntitlementDb \<Rightarrow> bool" where
  "rows_unique db \<longleftrightarrow> distinct (map override_key (edb_overrides db)) \<and> distinct (map limit_key (edb_limits db))"

lemma override_row_key: "override_row g k r \<longleftrightarrow> override_key r = (g, k)"
  by (simp add: override_row_def override_key_def)

lemma limit_row_key: "limit_row g f k r \<longleftrightarrow> limit_key r = (g, f, k)"
  by (simp add: limit_row_def limit_key_def)

lemma one_or_none_Inr:
  "one_or_none rows = Inr None \<longleftrightarrow> rows = []"
  "one_or_none rows = Inr (Some r) \<longleftrightarrow> rows = [r]"
  by (auto simp: one_or_none_def split: list.splits)

lemma one_or_none_single [simp]: "one_or_none [] = Inr None" "one_or_none [r] = Inr (Some r)"
  by (simp_all add: one_or_none_def)

lemma get_override_Inr: "get_override db g k = Inr r \<longleftrightarrow> filter (override_row g k) (edb_overrides db) = [r]"
  unfolding get_override_def
  by (cases "one_or_none (filter (override_row g k) (edb_overrides db))")
    (auto simp: one_or_none_Inr split: option.splits)

lemma get_usage_limit_Inr: "get_usage_limit db g f k = Inr r \<longleftrightarrow> filter (limit_row g f k) (edb_limits db) = [r]"
  unfolding get_usage_limit_def
  by (cases "one_or_none (filter (limit_row g f k) (edb_limits db))")
    (auto simp: one_or_none_Inr split: option.splits)

lemma filter_single_mem: "filter P xs = [r] \<Longrightarrow> r \<in> set xs \<and> P r"
  using mem_Collect_eq set_filter [of P xs] by auto

lemma filter_single_unique: "filter P xs = [r] \<Longrightarrow> x \<in> set xs \<Longrightarrow> P x \<Longrightarrow> x = r"
  using set_filter [of P xs] by auto

lemma replace_same: "filter P xs = [r] \<Longrightarrow> replace_rows P r xs = xs"
  unfolding replace_rows_def by (rule map_idI) (auto dest: filter_single_unique)

lemma replace_keys: "filter P xs = [r] \<Longrightarrow> key new = key r \<Longrightarrow> map key (replace_rows P new xs) = map key xs"
  unfolding replace_rows_def by (auto dest: filter_single_unique)

lemma filter_replace:
  "(\<And>x. P x \<Longrightarrow> \<not> Q x) \<Longrightarrow> \<not> Q new \<Longrightarrow> filter Q (replace_rows P new xs) = filter Q xs"
  unfolding replace_rows_def by (induction xs) auto

lemma find_replace:
  "filter P xs = [r] \<Longrightarrow> (\<And>x. Q x \<Longrightarrow> P x) \<Longrightarrow> find Q (replace_rows P new xs) = (if Q new then Some new else None)"
  unfolding replace_rows_def by (induction xs) (auto simp: find_None_iff filter_empty_conv split: if_splits)

lemma find_other_replace:
  "\<not> Q new \<Longrightarrow> (\<And>x. Q x \<Longrightarrow> \<not> P x) \<Longrightarrow> find Q (replace_rows P new xs) = find Q xs"
  unfolding replace_rows_def by (induction xs) auto

lemma find_append: "find P (xs @ ys) = (case find P xs of None \<Rightarrow> find P ys | Some x \<Rightarrow> Some x)"
  by (induction xs) auto

lemma find_filter: "find P (filter Q xs) = find (\<lambda>x. Q x \<and> P x) xs"
  by (induction xs) auto

lemma find_hd: "find P xs = (case filter P xs of [] \<Rightarrow> None | x # _ \<Rightarrow> Some x)"
  by (induction xs) auto

lemma distinct_filter_single:
  assumes "distinct (map key xs)" and "\<And>x y. P x \<Longrightarrow> P y \<Longrightarrow> key x = key y"
  shows "filter P xs = [] \<or> (\<exists>x. filter P xs = [x])"
proof (cases "filter P xs")
  case (Cons x ys)
  have d: "distinct (map key (filter P xs))" by (rule distinct_map_filter [OF assms(1)])
  have P: "\<forall>z \<in> set (x # ys). P z" unfolding Cons [symmetric] by simp
  have "ys = []"
  proof (rule ccontr)
    assume "ys \<noteq> []"
    then obtain y where y: "y \<in> set ys" by (cases ys) auto
    with P have "key x = key y" using assms(2) by auto
    with d y show False by (simp add: Cons)
  qed
  with Cons show ?thesis by simp
qed simp

text \<open>Where a key is there once, the first row of a sorted list is the row.\<close>

lemma find_sorted:
  assumes "distinct (map key xs)" and "\<And>x y. P x \<Longrightarrow> P y \<Longrightarrow> key x = key y"
  shows "find P (sort_key f xs) = find P xs"
proof -
  have "sort_key f (filter P xs) = filter P xs"
    using distinct_filter_single [OF assms, of P] by (auto simp: sort_key_def)
  then show ?thesis by (simp add: find_hd filter_sort)
qed

lemma found_map: "find P (map f xs) = map_option f (find (P \<circ> f) xs)"
  by (induction xs) auto

text \<open>What a call that succeeds has checked and written.\<close>

lemma create_override_Inr:
  "create_feature_override c g k enabled reason expires db = Inr db' \<longleftrightarrow>
   org_exists db g \<and> (classify_feature_override db g k enabled (caller_now c) \<longrightarrow> may_expand (caller_roles c)) \<and>
   filter (override_row g k) (edb_overrides db) = [] \<and>
   db' = record_audit_event (override_event g (caller_id c) ''created'' (caller_new_id c)
       (JObj [(''feature_key'', JStr k), (''enabled'', JBool enabled),
          (''expansive'', JBool (classify_feature_override db g k enabled (caller_now c)))]))
     (db\<lparr>edb_overrides := edb_overrides db @ [new_override c g k enabled reason expires]\<rparr>)"
  unfolding create_feature_override_def Let_def
  by (cases "one_or_none (filter (override_row g k) (edb_overrides db))")
    (auto simp: one_or_none_Inr split: option.splits)

definition wrote_override :: "Caller \<Rightarrow> string \<Rightarrow> string \<Rightarrow> bool option \<Rightarrow> string option \<Rightarrow> int option \<Rightarrow>
    TenantFeatureOverride \<Rightarrow> EntitlementDb \<Rightarrow> EntitlementDb" where
  "wrote_override c g k enabled reason expires r db =
     (let written = db\<lparr>edb_overrides := replace_rows (override_row g k) (written_override enabled reason expires r)
            (edb_overrides db)\<rparr>;
          updates = override_updates enabled reason expires r
      in if updates = [] then written
         else record_audit_event (override_event g (caller_id c) ''updated'' (ovrow_id r) (JObj updates)) written)"

lemma update_override_Inr:
  "update_feature_override c g k enabled reason expires db = Inr db' \<longleftrightarrow>
   (\<exists>r. filter (override_row g k) (edb_overrides db) = [r] \<and>
      (changes enabled (ovrow_enabled r) \<and>
       classify_feature_override db g k (given enabled (ovrow_enabled r)) (caller_now c) \<longrightarrow> may_expand (caller_roles c)) \<and>
      db' = wrote_override c g k enabled reason expires r db)"
  unfolding update_feature_override_def get_override_Inr [symmetric] wrote_override_def Let_def
  by (cases "get_override db g k") auto

lemma remove_override_Inr:
  "remove_feature_override c g k db = Inr db' \<longleftrightarrow>
   (\<exists>r. filter (override_row g k) (edb_overrides db) = [r] \<and>
      db' = record_audit_event
        (override_event g (caller_id c) ''removed'' (ovrow_id r) (JObj [(''feature_key'', JStr k)]))
        (db\<lparr>edb_overrides := filter (\<lambda>x. \<not> override_row g k x) (edb_overrides db)\<rparr>))"
  unfolding remove_feature_override_def get_override_Inr [symmetric]
  by (cases "get_override db g k") auto

lemma create_limit_Inr:
  "create_usage_limit c g f k v unlimited db = Inr db' \<longleftrightarrow>
   org_exists db g \<and> (unlimited \<longrightarrow> may_expand (caller_roles c)) \<and>
   filter (limit_row g f k) (edb_limits db) = [] \<and>
   db' = record_audit_event (limit_event g (caller_id c) ''created'' (caller_new_id c)
       (JObj [(''feature_key'', JStr f), (''limit_key'', JStr k), (''limit_value'', jint v),
          (''is_unlimited'', JBool unlimited), (''expansive'', JBool unlimited)]))
     (db\<lparr>edb_limits := edb_limits db @ [new_limit c g f k v unlimited]\<rparr>)"
proof -
  have "classify_usage_limit None False v unlimited False \<longleftrightarrow> unlimited" by (simp add: classify_usage_limit_def)
  then show ?thesis
    unfolding create_usage_limit_def Let_def
    by (cases "one_or_none (filter (limit_row g f k) (edb_limits db))")
      (auto simp: one_or_none_Inr split: option.splits)
qed

definition wrote_limit :: "Caller \<Rightarrow> string \<Rightarrow> string \<Rightarrow> string \<Rightarrow> int option \<Rightarrow> bool option \<Rightarrow>
    TenantUsageLimit \<Rightarrow> EntitlementDb \<Rightarrow> EntitlementDb" where
  "wrote_limit c g f k v unlimited r db =
     (let written = db\<lparr>edb_limits := replace_rows (limit_row g f k) (written_limit v unlimited r) (edb_limits db)\<rparr>;
          updates = limit_updates v unlimited r;
          expansive = classify_usage_limit (lmrow_limit_value r) (lmrow_is_unlimited r)
            (if v = None then lmrow_limit_value r else v) (given unlimited (lmrow_is_unlimited r)) True
      in if updates = [] then written
         else record_audit_event (limit_event g (caller_id c) ''updated'' (lmrow_id r)
           (JObj (updates @ [(''expansive'', JBool expansive)]))) written)"

lemma update_limit_Inr:
  "update_usage_limit c g f k v unlimited db = Inr db' \<longleftrightarrow>
   (\<exists>r. filter (limit_row g f k) (edb_limits db) = [r] \<and>
      (classify_usage_limit (lmrow_limit_value r) (lmrow_is_unlimited r)
         (if v = None then lmrow_limit_value r else v) (given unlimited (lmrow_is_unlimited r)) True \<longrightarrow>
       may_expand (caller_roles c)) \<and>
      db' = wrote_limit c g f k v unlimited r db)"
  unfolding update_usage_limit_def get_usage_limit_Inr [symmetric] wrote_limit_def Let_def
  by (cases "get_usage_limit db g f k") auto

lemma remove_limit_Inr:
  "remove_usage_limit c g f k db = Inr db' \<longleftrightarrow>
   (\<exists>r. filter (limit_row g f k) (edb_limits db) = [r] \<and>
      db' = record_audit_event
        (limit_event g (caller_id c) ''removed'' (lmrow_id r)
           (JObj [(''feature_key'', JStr f), (''limit_key'', JStr k)]))
        (db\<lparr>edb_limits := filter (\<lambda>x. \<not> limit_row g f k x) (edb_limits db)\<rparr>))"
  unfolding remove_usage_limit_def get_usage_limit_Inr [symmetric]
  by (cases "get_usage_limit db g f k") auto

lemmas admin_Inr = create_override_Inr update_override_Inr remove_override_Inr
  create_limit_Inr update_limit_Inr remove_limit_Inr

lemma new_row_simps [simp]:
  "ovrow_organization_id (new_override c g k enabled reason expires) = g"
  "ovrow_feature_key (new_override c g k enabled reason expires) = k"
  "ovrow_enabled (new_override c g k enabled reason expires) = enabled"
  "ovrow_expires_at (new_override c g k enabled reason expires) = expires"
  "override_key (new_override c g k enabled reason expires) = (g, k)"
  "limit_key (new_limit c g f k' v unlimited) = (g, f, k')"
  "lmrow_organization_id (new_limit c g f k' v unlimited) = g"
  "lmrow_limit_key (new_limit c g f k' v unlimited) = k'"
  "override_key (written_override e reason expires r) = override_key r"
  "limit_key (written_limit v u l) = limit_key l"
  by (simp_all add: new_override_def new_limit_def override_key_def limit_key_def written_override_def written_limit_def)

lemma record_audit_simps [simp]:
  "edb_organizations (record_audit_event ev db) = edb_organizations db"
  "edb_subscriptions (record_audit_event ev db) = edb_subscriptions db"
  "edb_plans (record_audit_event ev db) = edb_plans db"
  "edb_plan_features (record_audit_event ev db) = edb_plan_features db"
  "edb_plan_limits (record_audit_event ev db) = edb_plan_limits db"
  "edb_overrides (record_audit_event ev db) = edb_overrides db"
  "edb_limits (record_audit_event ev db) = edb_limits db"
  "edb_audit (record_audit_event ev db) = edb_audit db @ [ev]"
  by (simp_all add: record_audit_event_def)

lemma wrote_override_simps [simp]:
  "edb_organizations (wrote_override c g k e reason x r db) = edb_organizations db"
  "edb_subscriptions (wrote_override c g k e reason x r db) = edb_subscriptions db"
  "edb_plans (wrote_override c g k e reason x r db) = edb_plans db"
  "edb_plan_features (wrote_override c g k e reason x r db) = edb_plan_features db"
  "edb_plan_limits (wrote_override c g k e reason x r db) = edb_plan_limits db"
  "edb_overrides (wrote_override c g k e reason x r db) =
     replace_rows (override_row g k) (written_override e reason x r) (edb_overrides db)"
  "edb_limits (wrote_override c g k e reason x r db) = edb_limits db"
  by (simp_all add: wrote_override_def Let_def)

lemma wrote_limit_simps [simp]:
  "edb_organizations (wrote_limit c g f k v u r db) = edb_organizations db"
  "edb_subscriptions (wrote_limit c g f k v u r db) = edb_subscriptions db"
  "edb_plans (wrote_limit c g f k v u r db) = edb_plans db"
  "edb_plan_features (wrote_limit c g f k v u r db) = edb_plan_features db"
  "edb_plan_limits (wrote_limit c g f k v u r db) = edb_plan_limits db"
  "edb_overrides (wrote_limit c g f k v u r db) = edb_overrides db"
  "edb_limits (wrote_limit c g f k v u r db) = replace_rows (limit_row g f k) (written_limit v u r) (edb_limits db)"
  by (simp_all add: wrote_limit_def Let_def)

lemma admin_call_orgs:
  assumes "admin_call c call db = Inr db'"
  shows "edb_organizations db' = edb_organizations db" "edb_subscriptions db' = edb_subscriptions db"
    "edb_plans db' = edb_plans db" "edb_plan_features db' = edb_plan_features db"
    "edb_plan_limits db' = edb_plan_limits db"
  using assms by (cases call; auto simp: admin_Inr)+

lemma single_key: "filter (override_row g k) xs = [r] \<Longrightarrow> override_key r = (g, k)"
  by (drule filter_single_mem) (simp add: override_row_key)

lemma single_limit_key: "filter (limit_row g f k) xs = [r] \<Longrightarrow> limit_key r = (g, f, k)"
  by (drule filter_single_mem) (simp add: limit_row_key)

lemma admin_call_unique:
  assumes "rows_unique db" and "admin_call c call db = Inr db'"
  shows "rows_unique db'"
  using assms
  by (cases call)
    (auto simp: rows_unique_def admin_Inr filter_empty_conv override_row_key limit_row_key replace_keys distinct_map_filter)

interpretation entitlement_admin: machine admin_step rows_unique
  by unfold_locales (auto simp: admin_step_def admin_call_unique split: sum.split)

section \<open>One tenant does not see another\<close>

text \<open>All that can be read about one organization: what is resolved for it at any time, its rows and its
  events.\<close>

definition tenant_view :: "EntitlementDb \<Rightarrow> string \<Rightarrow>
    (int \<Rightarrow> EntitlementResolution) \<times> TenantFeatureOverride list \<times> TenantUsageLimit list \<times> ServiceAudit list" where
  "tenant_view db g = (\<lambda>t. resolve_entitlements db g t, org_overrides db g, org_limits db g,
     filter (\<lambda>ev. evrow_organization_id ev = g) (edb_audit db))"

lemma find_org_id: "find (\<lambda>r. orow_id r = g) rows = Some org \<Longrightarrow> orow_id org = g"
  by (auto simp: find_Some_iff)

lemma resolve_same:
  assumes "edb_organizations db' = edb_organizations db" "edb_subscriptions db' = edb_subscriptions db"
    "edb_plans db' = edb_plans db" "edb_plan_features db' = edb_plan_features db"
    "edb_plan_limits db' = edb_plan_limits db"
    and rows: "org_overrides db' g = org_overrides db g" "org_limits db' g = org_limits db g"
  shows "resolve_entitlements db' g t = resolve_entitlements db g t"
proof -
  have c: "subscription_candidates db' g t = subscription_candidates db g t"
    by (simp add: subscription_candidates_def assms)
  have "effective_feature_map db' g p t = effective_feature_map db g p t" "effective_limits db' g p = effective_limits db g p"
    for p by (simp_all add: effective_feature_map_def effective_limits_def plan_feature_map_def assms)
  then have "resolve_plan db' org s t = resolve_plan db org s t" if "orow_id org = g" for org s
    by (simp add: resolve_plan_def that assms split: option.split)
  then show ?thesis
    by (auto simp: resolve_entitlements_def assms c dest: find_org_id split: option.split list.split)
qed

lemma other_rows:
  assumes "admin_call c call db = Inr db'" and "call_org call \<noteq> g"
  shows "org_overrides db' g = org_overrides db g \<and> org_limits db' g = org_limits db g"
proof (cases call)
  case (UpdateOverride g' k enabled reason expires)
  then obtain r where r: "filter (override_row g' k) (edb_overrides db) = [r]"
      and db': "db' = wrote_override c g' k enabled reason expires r db"
    using assms by (auto simp: admin_Inr)
  have "ovrow_organization_id r \<noteq> g"
    using filter_single_mem [OF r] assms(2) UpdateOverride by (simp add: override_row_def)
  then show ?thesis
    using assms(2) UpdateOverride
    by (auto simp: db' org_overrides_def org_limits_def override_row_def written_override_def intro!: filter_replace)
next
  case (UpdateLimit g' f k v unlimited)
  then obtain r where r: "filter (limit_row g' f k) (edb_limits db) = [r]"
      and db': "db' = wrote_limit c g' f k v unlimited r db"
    using assms by (auto simp: admin_Inr)
  have "lmrow_organization_id r \<noteq> g"
    using filter_single_mem [OF r] assms(2) UpdateLimit by (simp add: limit_row_def)
  then show ?thesis
    using assms(2) UpdateLimit
    by (auto simp: db' org_overrides_def org_limits_def limit_row_def written_limit_def intro!: filter_replace)
qed (use assms in \<open>auto simp: admin_Inr org_overrides_def org_limits_def override_row_def limit_row_def
    intro!: filter_cong [OF refl]\<close>)

lemma call_audit:
  assumes "admin_call c call db = Inr db'"
  shows "\<exists>evs. edb_audit db' = edb_audit db @ evs \<and> length evs \<le> 1 \<and>
    (\<forall>ev \<in> set evs. evrow_organization_id ev = call_org call \<and> evrow_user_id ev = caller_id c) \<and>
    (evs = [] \<longrightarrow> db' = db)"
  using assms
proof (cases call)
  case (UpdateOverride g k enabled reason expires)
  then obtain r where r: "filter (override_row g k) (edb_overrides db) = [r]"
      and db': "db' = wrote_override c g k enabled reason expires r db"
    using assms by (auto simp: admin_Inr)
  show ?thesis
  proof (cases "override_updates enabled reason expires r = []")
    case True
    then have "written_override enabled reason expires r = r"
      by (cases enabled; cases reason; cases expires)
        (auto simp: override_updates_def written_override_def given_def changes_def split: if_splits)
    with True show ?thesis by (simp add: db' wrote_override_def replace_same [OF r])
  next
    case False
    then show ?thesis
      by (simp add: db' wrote_override_def Let_def UpdateOverride override_event_def)
  qed
next
  case (UpdateLimit g f k v unlimited)
  then obtain r where r: "filter (limit_row g f k) (edb_limits db) = [r]"
      and db': "db' = wrote_limit c g f k v unlimited r db"
    using assms by (auto simp: admin_Inr)
  show ?thesis
  proof (cases "limit_updates v unlimited r = []")
    case True
    then have "written_limit v unlimited r = r"
      by (cases unlimited; cases v)
        (auto simp: limit_updates_def written_limit_def given_def changes_def split: if_splits)
    with True show ?thesis by (simp add: db' wrote_limit_def replace_same [OF r])
  next
    case False
    then show ?thesis by (simp add: db' wrote_limit_def Let_def UpdateLimit limit_event_def)
  qed
qed (auto simp: admin_Inr override_event_def limit_event_def)

lemma other_view:
  assumes "call_org (snd e) \<noteq> g"
  shows "tenant_view (admin_step db e) g = tenant_view db g"
proof (cases "admin_call (fst e) (snd e) db")
  case (Inr db')
  then have s: "admin_step db e = db'" by (simp add: admin_step_def)
  obtain evs where "edb_audit db' = edb_audit db @ evs"
      and "\<forall>ev \<in> set evs. evrow_organization_id ev = call_org (snd e)"
    using call_audit [OF Inr] by blast
  then have "filter (\<lambda>ev. evrow_organization_id ev = g) (edb_audit db') = filter (\<lambda>ev. evrow_organization_id ev = g) (edb_audit db)"
    using assms by simp
  then show ?thesis
    using other_rows [OF Inr assms] resolve_same [OF admin_call_orgs [OF Inr]] by (simp add: s tenant_view_def)
qed (simp add: admin_step_def)

text \<open>
  C17 The tenants are isolated: whatever calls the administration makes on behalf of other organizations, with
  whatever outcome, the entitlements resolved for an organization at any time, its overrides, its limits and
  its part of the audit trail stay as they were.
\<close>

theorem tenants_isolated:
  assumes "\<And>e. e \<in> set calls \<Longrightarrow> call_org (snd e) \<noteq> g"
  shows "tenant_view (run admin_step db calls) g = tenant_view db g"
  using assms by (induction calls arbitrary: db) (simp_all add: other_view)

text \<open>
  C34 Every change is in the audit trail: the administration only appends to it, at most one event for a call,
  each with the organization the call was about and the user who made it; and when nothing was appended,
  nothing was changed.
\<close>

theorem every_change_audited:
  "\<exists>evs. edb_audit (run admin_step db calls) = edb_audit db @ evs \<and> length evs \<le> length calls \<and>
     set (map (\<lambda>ev. (evrow_organization_id ev, evrow_user_id ev)) evs) \<subseteq>
       set (map (\<lambda>(c, call). (call_org call, caller_id c)) calls) \<and>
     (0 < length evs \<or> run admin_step db calls = db)"
proof (induction calls arbitrary: db)
  case (Cons e calls)
  obtain evs where run: "edb_audit (run admin_step (admin_step db e) calls) = edb_audit (admin_step db e) @ evs"
      "length evs \<le> length calls"
      "set (map (\<lambda>ev. (evrow_organization_id ev, evrow_user_id ev)) evs) \<subseteq>
        set (map (\<lambda>(c, call). (call_org call, caller_id c)) calls)"
      "0 < length evs \<or> run admin_step (admin_step db e) calls = admin_step db e"
    using Cons.IH [of "admin_step db e"] by blast
  obtain ev1 where step: "edb_audit (admin_step db e) = edb_audit db @ ev1" "length ev1 \<le> 1"
      "\<forall>ev \<in> set ev1. evrow_organization_id ev = call_org (snd e) \<and> evrow_user_id ev = caller_id (fst e)"
      "ev1 = [] \<longrightarrow> admin_step db e = db"
  proof (cases "admin_call (fst e) (snd e) db")
    case (Inl err)
    then show ?thesis by (intro that [of "[]"]) (simp_all add: admin_step_def)
  next
    case (Inr db')
    then show ?thesis using call_audit [OF Inr] that by (auto simp: admin_step_def)
  qed
  show ?case
    using run step by (intro exI [where x = "ev1 @ evs"]) (auto split: prod.split)
qed simp

section \<open>What is granted\<close>

lemma dict_of_lookup:
  "map_of (dict_of key val d rows) k =
     (case find (\<lambda>r. key r = k) (rev rows) of None \<Rightarrow> map_of d k | Some r \<Rightarrow> Some (val r))"
  by (induction rows arbitrary: d rule: rev_induct) (auto simp: dict_of_def update_conv')

lemma find_rev: "distinct (map key xs) \<Longrightarrow> (\<And>x y. x \<in> set xs \<Longrightarrow> y \<in> set xs \<Longrightarrow> P x \<Longrightarrow> P y \<Longrightarrow> key x = key y) \<Longrightarrow>
   find P (rev xs) = find P xs"
proof (induction xs)
  case (Cons a xs)
  have "find P xs = None" if "P a"
    using that Cons.prems by (auto simp: find_None_iff)
  then show ?case using Cons by (auto simp: find_append split: option.split)
qed simp

text \<open>The unexpired override of a feature, and the plan that grants: the only subscription of the organization
  that is current, of an organization that is there and neither suspended nor deleted.\<close>

definition live_override :: "EntitlementDb \<Rightarrow> string \<Rightarrow> int \<Rightarrow> string \<Rightarrow> TenantFeatureOverride option" where
  "live_override db g t k = find (\<lambda>r. override_row g k r \<and> active_override t r) (edb_overrides db)"

definition in_good_standing :: "EntitlementDb \<Rightarrow> string \<Rightarrow> bool" where
  "in_good_standing db g \<longleftrightarrow>
     (case find (\<lambda>r. orow_id r = g) (edb_organizations db) of
        None \<Rightarrow> False
      | Some org \<Rightarrow> orow_status org \<noteq> ''SUSPENDED'' \<and> orow_deleted_at org = None)"

definition granting_plan :: "EntitlementDb \<Rightarrow> string \<Rightarrow> int \<Rightarrow> string option" where
  "granting_plan db g t =
     (if in_good_standing db g then
        (case filter (\<lambda>s. srow_organization_id s = g \<and> is_current_subscription s t) (edb_subscriptions db) of
           [s] \<Rightarrow> map_option prow_id (find (\<lambda>p. prow_id p = srow_plan_id s) (edb_plans db))
         | _ \<Rightarrow> None)
      else None)"

definition plan_grants :: "EntitlementDb \<Rightarrow> string \<Rightarrow> string \<Rightarrow> bool" where
  "plan_grants db plan k = or_else (map_of (plan_feature_map db plan) k) False"

lemma candidates_eq:
  "subscription_candidates db g t =
     filter (\<lambda>s. srow_organization_id s = g \<and> is_current_subscription s t) (edb_subscriptions db)"
  by (auto simp: subscription_candidates_def is_current_subscription_def intro!: filter_cong [OF refl])

lemma resolve_plan_features:
  assumes "orow_id org = g"
  shows "reso_effective_features (resolve_plan db org s t) =
      (case find (\<lambda>p. prow_id p = srow_plan_id s) (edb_plans db) of None \<Rightarrow> []
       | Some p \<Rightarrow> effective_feature_map db g (prow_id p) t)"
    "reso_usage_limits (resolve_plan db org s t) =
      (case find (\<lambda>p. prow_id p = srow_plan_id s) (edb_plans db) of None \<Rightarrow> []
       | Some p \<Rightarrow> effective_limits db g (prow_id p))"
  by (simp_all add: resolve_plan_def denied_def assms split: option.split)

lemma denied_features [simp]:
  "reso_effective_features (denied g st o_st why) = []" "reso_usage_limits (denied g st o_st why) = []"
  by (simp_all add: denied_def)

lemma resolve_features:
  "reso_effective_features (resolve_entitlements db g t) =
     (case granting_plan db g t of None \<Rightarrow> [] | Some p \<Rightarrow> effective_feature_map db g p t)"
  "reso_usage_limits (resolve_entitlements db g t) =
     (case granting_plan db g t of None \<Rightarrow> [] | Some p \<Rightarrow> effective_limits db g p)"
proof -
  let ?cs = "filter (\<lambda>s. srow_organization_id s = g \<and> is_current_subscription s t) (edb_subscriptions db)"
  have "reso_effective_features (resolve_entitlements db g t) =
      (case granting_plan db g t of None \<Rightarrow> [] | Some p \<Rightarrow> effective_feature_map db g p t) \<and>
    reso_usage_limits (resolve_entitlements db g t) =
      (case granting_plan db g t of None \<Rightarrow> [] | Some p \<Rightarrow> effective_limits db g p)"
  proof (cases "in_good_standing db g")
    case False
    then show ?thesis
      by (auto simp: resolve_entitlements_def granting_plan_def in_good_standing_def split: option.splits)
  next
    case True
    then obtain org where org: "find (\<lambda>r. orow_id r = g) (edb_organizations db) = Some org"
        and ok: "orow_status org \<noteq> ''SUSPENDED''" "orow_deleted_at org = None"
      by (auto simp: in_good_standing_def split: option.splits)
    note id = find_org_id [OF org]
    show ?thesis
    proof (cases ?cs)
      case Nil
      then show ?thesis using org ok True by (simp add: resolve_entitlements_def granting_plan_def candidates_eq)
    next
      case (Cons s ss)
      then show ?thesis
        using org ok True resolve_plan_features [OF id, of db s t]
        by (cases ss) (simp_all add: resolve_entitlements_def granting_plan_def candidates_eq split: option.split)
    qed
  qed
  then show "reso_effective_features (resolve_entitlements db g t) =
      (case granting_plan db g t of None \<Rightarrow> [] | Some p \<Rightarrow> effective_feature_map db g p t)"
    "reso_usage_limits (resolve_entitlements db g t) =
      (case granting_plan db g t of None \<Rightarrow> [] | Some p \<Rightarrow> effective_limits db g p)" by blast+
qed

lemma effective_lookup:
  assumes "rows_unique db"
  shows "map_of (effective_feature_map db g p t) k =
    (case live_override db g t k of None \<Rightarrow> map_of (plan_feature_map db p) k | Some r \<Rightarrow> Some (ovrow_enabled r))"
proof -
  let ?P = "\<lambda>r. override_row g k r \<and> active_override t r"
  have "find (\<lambda>r. ovrow_feature_key r = k) (rev (filter (active_override t) (org_overrides db g))) =
      find ?P (rev (edb_overrides db))"
    by (simp add: org_overrides_def rev_filter find_filter override_row_def conj_ac)
  also have "\<dots> = live_override db g t k"
    unfolding live_override_def using assms
    by (intro find_rev [where key = override_key]) (auto simp: rows_unique_def override_row_key)
  finally show ?thesis by (simp add: effective_feature_map_def dict_of_lookup)
qed

lemma granted_iff:
  assumes "rows_unique db"
  shows "feature_granted (resolve_entitlements db g t) k \<longleftrightarrow>
    (\<exists>p. granting_plan db g t = Some p \<and>
       (case live_override db g t k of None \<Rightarrow> plan_grants db p k | Some r \<Rightarrow> ovrow_enabled r))"
  by (auto simp: feature_granted_def resolve_features effective_lookup [OF assms] plan_grants_def or_else_def
      split: option.splits)

text \<open>
  The resolver grants a feature exactly when the organization is in good standing with one current
  subscription and the plan of it is there, and the unexpired override of the feature, or the plan when there
  is none, says so. This holds after any calls of the administration.
\<close>

theorem entitlements_exact:
  assumes "rows_unique db"
  shows "feature_granted (resolve_entitlements (run admin_step db calls) g t) k \<longleftrightarrow>
    (\<exists>p. granting_plan (run admin_step db calls) g t = Some p \<and>
       (case live_override (run admin_step db calls) g t k of
          None \<Rightarrow> plan_grants (run admin_step db calls) p k
        | Some r \<Rightarrow> ovrow_enabled r))"
  by (rule granted_iff) (rule entitlement_admin.run_inv [OF assms])

section \<open>What a call changes\<close>

lemma admin_call_plan:
  assumes "admin_call c call db = Inr db'"
  shows "granting_plan db' g t = granting_plan db g t" "plan_grants db' p k = plan_grants db p k"
  unfolding granting_plan_def in_good_standing_def plan_grants_def plan_feature_map_def admin_call_orgs [OF assms]
  by (rule refl)+

lemma live_before:
  assumes "filter (override_row g k) (edb_overrides db) = rows"
  shows "live_override db g t k = find (active_override t) rows"
  using assms [symmetric] by (simp add: live_override_def find_filter)

lemma live_new:
  assumes none: "filter (override_row g k) (edb_overrides db) = []"
    and rows: "edb_overrides db' = edb_overrides db @ [r]" and key: "override_key r = (g, k)"
  shows "live_override db' g' t k' =
    (if (g', k') = (g, k) then (if active_override t r then Some r else None) else live_override db g' t k')"
proof (cases "(g', k') = (g, k)")
  case True
  have "filter (override_row g k) (edb_overrides db') = [r]"
    using none key by (simp add: rows override_row_key)
  with True show ?thesis by (simp add: live_before)
next
  case False
  then show ?thesis using key by (auto simp: live_override_def rows find_append override_row_key split: option.split)
qed

lemma live_written:
  assumes "filter (override_row g k) (edb_overrides db) = [r]"
    and "edb_overrides db' = replace_rows (override_row g k) new (edb_overrides db)" and "override_key new = (g, k)"
  shows "live_override db' g' t k' =
    (if (g', k') = (g, k) then (if active_override t new then Some new else None) else live_override db g' t k')"
proof (cases "(g', k') = (g, k)")
  case True
  then show ?thesis
    using find_replace [OF assms(1), of "\<lambda>r. override_row g k r \<and> active_override t r" new] assms(2,3)
    by (simp add: live_override_def override_row_key)
next
  case False
  then have "find (\<lambda>r. override_row g' k' r \<and> active_override t r) (replace_rows (override_row g k) new (edb_overrides db)) =
      live_override db g' t k'"
    unfolding live_override_def using assms(3) by (intro find_other_replace) (auto simp: override_row_key)
  with False assms(2) show ?thesis by (auto simp: live_override_def)
qed

lemma live_removed:
  assumes "edb_overrides db' = filter (\<lambda>x. \<not> override_row g k x) (edb_overrides db)"
  shows "live_override db' g' t k' = (if (g', k') = (g, k) then None else live_override db g' t k')"
proof (cases "(g', k') = (g, k)")
  case True
  then show ?thesis by (auto simp: live_override_def assms find_filter find_None_iff)
next
  case False
  then have "(\<lambda>x. \<not> override_row g k x \<and> override_row g' k' x \<and> active_override t x) =
      (\<lambda>x. override_row g' k' x \<and> active_override t x)"
    by (auto simp: override_row_key)
  with False show ?thesis by (auto simp: live_override_def assms find_filter)
qed

text \<open>The calls that neither remove an override nor move its expiry.\<close>

fun keeps_expiry :: "AdminCall \<Rightarrow> bool" where
  "keeps_expiry (RemoveOverride g k) = False"
| "keeps_expiry (UpdateOverride g k enabled reason expires) = (expires = None)"
| "keeps_expiry call = True"

text \<open>A row that is created or switched on when its classification allows it grants nothing new: \<open>after\<close> is
  what holds of the feature when the call has succeeded.\<close>

lemma created_grants_nothing:
  assumes unique: "rows_unique db" and none: "filter (override_row g' k') (edb_overrides db) = []"
    and allowed: "\<not> classify_feature_override db g' k' enabled (caller_now c)"
    and rows: "edb_overrides db' = edb_overrides db @ [new_override c g' k' enabled reason expires]"
    and p: "granting_plan db g (caller_now c) = Some p"
    and after: "case live_override db' g (caller_now c) k of None \<Rightarrow> plan_grants db p k | Some r \<Rightarrow> ovrow_enabled r"
  shows "feature_granted (resolve_entitlements db g (caller_now c)) k"
proof (cases "(g, k) = (g', k') \<and> active_override (caller_now c) (new_override c g' k' enabled reason expires)")
  case True
  then have "enabled" using live_new [OF none rows, of g "caller_now c" k] after by simp
  with True allowed show ?thesis by (simp add: classify_feature_override_def)
next
  case False
  then have "live_override db' g (caller_now c) k = live_override db g (caller_now c) k"
    using live_new [OF none rows, of g "caller_now c" k] live_before [OF none, of "caller_now c"] by (auto split: if_splits)
  with p after show ?thesis by (simp add: granted_iff [OF unique])
qed

lemma updated_grants_nothing:
  assumes unique: "rows_unique db" and r: "filter (override_row g' k') (edb_overrides db) = [r]"
    and allowed: "changes enabled (ovrow_enabled r) \<Longrightarrow>
      \<not> classify_feature_override db g' k' (given enabled (ovrow_enabled r)) t"
    and rows: "edb_overrides db' =
      replace_rows (override_row g' k') (written_override enabled reason None r) (edb_overrides db)"
    and p: "granting_plan db g t = Some p"
    and after: "case live_override db' g t k of None \<Rightarrow> plan_grants db p k | Some r \<Rightarrow> ovrow_enabled r"
  shows "feature_granted (resolve_entitlements db g t) k"
proof -
  have new: "ovrow_enabled (written_override enabled reason None r) = given enabled (ovrow_enabled r)"
    "active_override t (written_override enabled reason None r) = active_override t r"
    by (simp_all add: written_override_def active_override_def)
  have key: "override_key (written_override enabled reason None r) = (g', k')" using single_key [OF r] by simp
  show ?thesis
  proof (cases "(g, k) = (g', k') \<and> active_override t r")
    case True
    then have on: "given enabled (ovrow_enabled r)" "live_override db g t k = Some r"
      using live_written [OF r rows key, of g t k] live_before [OF r, of t] after by (simp_all add: new)
    show ?thesis
    proof (cases "changes enabled (ovrow_enabled r)")
      case True
      with on allowed \<open>(g, k) = (g', k') \<and> active_override t r\<close> show ?thesis
        by (simp add: classify_feature_override_def)
    next
      case False
      with on have "ovrow_enabled r" by (cases enabled) (auto simp: given_def changes_def)
      with on p show ?thesis by (simp add: granted_iff [OF unique])
    qed
  next
    case False
    then have "live_override db' g t k = live_override db g t k"
      using live_written [OF r rows key, of g t k] live_before [OF r, of t] new by (auto split: if_splits)
    with p after show ?thesis by (simp add: granted_iff [OF unique])
  qed
qed

text \<open>
  C4 Expansion needs the permission: a call by someone without \<open>platform:entitlement_override\<close> that succeeds,
  other than the removal of an override and a new expiry, leaves no organization with a feature it did not
  have at that moment.
\<close>

theorem expansion_needs_permission:
  assumes unique: "rows_unique db" and ok: "admin_call c call db = Inr db'"
    and no: "\<not> may_expand (caller_roles c)" and kind: "keeps_expiry call"
    and granted: "feature_granted (resolve_entitlements db' g (caller_now c)) k"
  shows "feature_granted (resolve_entitlements db g (caller_now c)) k"
proof -
  obtain p where p: "granting_plan db g (caller_now c) = Some p"
      and after: "case live_override db' g (caller_now c) k of None \<Rightarrow> plan_grants db p k | Some r \<Rightarrow> ovrow_enabled r"
    using granted unfolding granted_iff [OF admin_call_unique [OF unique ok]] admin_call_plan [OF ok] by blast
  show ?thesis
  proof (cases call)
    case (CreateOverride g' k' enabled reason expires)
    then show ?thesis
      using ok no by (intro created_grants_nothing [OF unique _ _ _ p after]) (auto simp: admin_Inr)
  next
    case (UpdateOverride g' k' enabled reason expires)
    then obtain r where "filter (override_row g' k') (edb_overrides db) = [r]"
        "changes enabled (ovrow_enabled r) \<Longrightarrow> \<not> classify_feature_override db g' k' (given enabled (ovrow_enabled r)) (caller_now c)"
        "edb_overrides db' = replace_rows (override_row g' k') (written_override enabled reason None r) (edb_overrides db)"
      using ok no kind by (auto simp: admin_Inr)
    then show ?thesis by (rule updated_grants_nothing [OF unique _ _ _ p after])
  qed (use ok kind p after granted_iff [OF unique, of g "caller_now c" k] in \<open>auto simp: admin_Inr live_override_def\<close>)
qed

text \<open>
  Removing an override gives the feature back to the plan, and touches no other feature and no other
  organization. When the override had disabled a feature of the plan this widens what the tenant may use, and
  it needs no permission to expand.
\<close>

theorem removal_restores_plan:
  assumes "rows_unique db" and "remove_feature_override c g k db = Inr db'"
  shows "feature_granted (resolve_entitlements db' g' t) k' \<longleftrightarrow>
    (if (g', k') = (g, k) then (\<exists>p. granting_plan db g t = Some p \<and> plan_grants db p k)
     else feature_granted (resolve_entitlements db g' t) k')"
proof -
  have ok: "admin_call c (RemoveOverride g k) db = Inr db'" using assms(2) by simp
  have "live_override db' g' t k' = (if (g', k') = (g, k) then None else live_override db g' t k')"
    using ok by (intro live_removed) (auto simp: admin_Inr)
  then show ?thesis
    unfolding granted_iff [OF admin_call_unique [OF assms(1) ok]] granted_iff [OF assms(1)] admin_call_plan [OF ok]
    by simp
qed

text \<open>
  A new expiry is not looked at: anyone who may administer the tenant can bring an expired override that
  enabled a feature outside the plan back to life, and the feature is granted again.
\<close>

theorem expired_override_revived:
  assumes unique: "rows_unique db" and r: "filter (override_row g k) (edb_overrides db) = [r]"
    and on: "ovrow_enabled r" and expired: "\<not> active_override (caller_now c) r"
    and p: "granting_plan db g (caller_now c) = Some p" and out: "\<not> plan_grants db p k"
    and e: "caller_now c < e"
  shows "\<exists>db'. update_feature_override c g k None None (Some e) db = Inr db' \<and>
    feature_granted (resolve_entitlements db' g (caller_now c)) k \<and>
    \<not> feature_granted (resolve_entitlements db g (caller_now c)) k"
proof -
  let ?db' = "wrote_override c g k None None (Some e) r db"
  have call: "update_feature_override c g k None None (Some e) db = Inr ?db'"
    by (simp add: update_override_Inr r changes_def)
  then have ok: "admin_call c (UpdateOverride g k None None (Some e)) db = Inr ?db'" by simp
  have live: "live_override ?db' g (caller_now c) k = Some (written_override None None (Some e) r)"
  proof -
    have "active_override (caller_now c) (written_override None None (Some e) r)"
      using e by (simp add: active_override_def written_override_def)
    then show ?thesis
      using single_key [OF r] live_written [OF r, of ?db' "written_override None None (Some e) r" g "caller_now c" k] by simp
  qed
  have "feature_granted (resolve_entitlements ?db' g (caller_now c)) k"
    unfolding granted_iff [OF admin_call_unique [OF unique ok]] admin_call_plan [OF ok]
    using p live on by (simp add: written_override_def given_def)
  moreover have "\<not> feature_granted (resolve_entitlements db g (caller_now c)) k"
    unfolding granted_iff [OF unique] using p out live_before [OF r] expired by simp
  ultimately show ?thesis using call by blast
qed

section \<open>Limits\<close>

text \<open>Each entry is filed under its own key.\<close>

definition limits_keyed :: "(string \<times> UsageLimitConfiguration) list \<Rightarrow> bool" where
  "limits_keyed m \<longleftrightarrow> distinct (map fst m) \<and> (\<forall>(k, u) \<in> set m. ulimit_limit_key u = k)"

lemma set_update_subset: "set (AList.update k v m) \<subseteq> insert (k, v) (set m)"
  by (induction m) auto

lemma limits_keyed_update: "limits_keyed m \<Longrightarrow> ulimit_limit_key v = k \<Longrightarrow> limits_keyed (AList.update k v m)"
  unfolding limits_keyed_def using set_update_subset [of k v m] by (auto simp: distinct_update)

lemma limit_of_key [simp]:
  "ulimit_limit_key (tenant_limit k r) = k" "ulimit_limit_key (plan_limit pl) = plrow_limit_key pl"
  by (simp_all add: tenant_limit_def plan_limit_def)

lemma dict_of_keyed:
  "limits_keyed d \<Longrightarrow> (\<And>r. ulimit_limit_key (val r) = key r) \<Longrightarrow> limits_keyed (dict_of key val d rows)"
  by (induction rows arbitrary: d) (simp_all add: dict_of_def limits_keyed_update)

definition add_standalone ::
  "(string \<times> UsageLimitConfiguration) list \<Rightarrow> TenantUsageLimit \<Rightarrow> (string \<times> UsageLimitConfiguration) list" where
  "add_standalone m row = (if map_of m (lmrow_limit_key row) = None
     then AList.update (lmrow_limit_key row) (tenant_limit (lmrow_limit_key row) row) m else m)"

lemma standalone_keyed: "limits_keyed m \<Longrightarrow> limits_keyed (foldl add_standalone m rows)"
  by (induction rows arbitrary: m) (simp_all add: add_standalone_def limits_keyed_update)

lemma standalone_lookup:
  "map_of (foldl add_standalone m rows) k =
     (case map_of m k of Some u \<Rightarrow> Some u
      | None \<Rightarrow> map_option (tenant_limit k) (find (\<lambda>r. lmrow_limit_key r = k) rows))"
  by (induction rows arbitrary: m) (auto simp: add_standalone_def update_conv' split: option.splits)

lemma effective_limit_map_keyed: "limits_keyed (effective_limit_map P T)"
  unfolding effective_limit_map_def Let_def add_standalone_def [symmetric]
  by (intro standalone_keyed dict_of_keyed) (simp_all add: limits_keyed_def split: option.split)

lemma limit_lookup_last:
  assumes "find (\<lambda>r. lmrow_limit_key r = k) T = None" and "lmrow_limit_key row = k"
  shows "map_of (effective_limit_map P (T @ [row])) k = Some (tenant_limit k row)"
proof -
  let ?tenant = "dict_of lmrow_limit_key id [] (T @ [row])"
  let ?base = "dict_of plrow_limit_key (\<lambda>pl. case map_of ?tenant (plrow_limit_key pl) of
      Some row \<Rightarrow> tenant_limit (plrow_limit_key pl) row | None \<Rightarrow> plan_limit pl) [] P"
  have t: "map_of ?tenant k = Some row" using assms(2) by (simp add: dict_of_lookup)
  have b: "map_of ?base k \<in> {None, Some (tenant_limit k row)}"
  proof (cases "find (\<lambda>pl. plrow_limit_key pl = k) (rev P)")
    case None
    then show ?thesis by (simp add: dict_of_lookup [of plrow_limit_key])
  next
    case (Some pl)
    then have "plrow_limit_key pl = k" by (auto simp: find_Some_iff)
    with Some show ?thesis by (simp add: dict_of_lookup [of plrow_limit_key] t)
  qed
  have "effective_limit_map P (T @ [row]) = foldl add_standalone ?base (T @ [row])"
    unfolding effective_limit_map_def Let_def add_standalone_def by (rule refl)
  then show ?thesis
    using b assms standalone_lookup [of ?base "T @ [row]" k] by (auto simp: find_append)
qed

lemma filter_keyed:
  assumes "limits_keyed m" and "map_of m k = Some u"
  shows "filter (\<lambda>v. ulimit_limit_key v = k) (map snd m) = [u]"
  using assms
proof (induction m)
  case (Cons a m)
  obtain k' v where a: "a = (k', v)" by force
  show ?case
  proof (cases "k' = k")
    case True
    then have "\<forall>w \<in> set (map snd m). ulimit_limit_key w \<noteq> k"
      using Cons.prems(1) by (force simp: limits_keyed_def a)
    then have "filter (\<lambda>v. ulimit_limit_key v = k) (map snd m) = []" by (simp add: filter_empty_conv)
    with True Cons.prems show ?thesis by (simp add: limits_keyed_def a)
  next
    case False
    with Cons show ?thesis by (auto simp: limits_keyed_def a)
  qed
qed simp

text \<open>
  The first limit of a tenant replaces the one of the plan and needs no permission, whatever its value:
  anyone who may administer the tenant can raise a ceiling of the plan by creating the row, and from then on
  the resolver answers with that value.
\<close>

theorem first_limit_replaces_plan:
  assumes g: "org_exists db g"
    and none: "find (\<lambda>r. lmrow_limit_key r = k) (org_limits db g) = None"
    and p: "granting_plan db g t = Some p"
  shows "\<exists>db'. create_usage_limit c g f k (Some v) False db = Inr db' \<and>
    filter (\<lambda>u. ulimit_limit_key u = k) (reso_usage_limits (resolve_entitlements db' g t)) =
      [\<lparr>ulimit_feature_key = f, ulimit_limit_key = k, ulimit_limit_value = Some v, ulimit_is_unlimited = False\<rparr>]"
proof -
  let ?row = "new_limit c g f k (Some v) False"
  have empty: "filter (limit_row g f k) (edb_limits db) = []"
    using none by (auto simp: org_limits_def find_filter find_None_iff filter_empty_conv limit_row_def)
  then obtain db' where call: "create_usage_limit c g f k (Some v) False db = Inr db'"
    using g by (auto simp: create_limit_Inr)
  then have ok: "admin_call c (CreateLimit g f k (Some v) False) db = Inr db'" by simp
  have rows: "org_limits db' g = org_limits db g @ [?row]"
    using call by (auto simp: create_limit_Inr org_limits_def)
  have "reso_usage_limits (resolve_entitlements db' g t) = effective_limits db' g p"
    using p by (simp add: resolve_features admin_call_plan [OF ok])
  moreover have "filter (\<lambda>u. ulimit_limit_key u = k) (effective_limits db' g p) = [tenant_limit k ?row]"
    unfolding effective_limits_def rows filter_sort
    by (subst filter_keyed [OF effective_limit_map_keyed limit_lookup_last]) (simp_all add: none)
  ultimately show ?thesis using call by (auto simp: tenant_limit_def new_limit_def)
qed

section \<open>A tenant on a small plan\<close>

text \<open>The plan has work orders and reports and five seats. Work orders are disabled for the tenant, and an
  override that had enabled the copilot has expired.\<close>

definition sample_db :: EntitlementDb where
  "sample_db =
     \<lparr>edb_organizations = [\<lparr>orow_id = ''acme'', orow_name = ''Acme'', orow_status = ''ACTIVE'', orow_deleted_at = None\<rparr>],
      edb_subscriptions = [\<lparr>srow_id = ''sub-1'', srow_organization_id = ''acme'', srow_plan_id = ''starter'',
        srow_status = ''ACTIVE'', srow_starts_at = 0, srow_ends_at = None, srow_created_at = 0,
        srow_updated_at = 0\<rparr>],
      edb_plans = [\<lparr>prow_id = ''starter'', prow_code = ''STARTER'', prow_name = ''Starter'',
        prow_description = None, prow_is_active = True, prow_asset_scope = Some ''DRONE'', prow_created_at = 0, prow_updated_at = 0\<rparr>],
      edb_plan_features = [\<lparr>pfrow_id = ''f-1'', pfrow_plan_id = ''starter'', pfrow_feature_key = ''reports'',
          pfrow_enabled = True, pfrow_created_at = 0, pfrow_updated_at = 0\<rparr>,
        \<lparr>pfrow_id = ''f-2'', pfrow_plan_id = ''starter'', pfrow_feature_key = ''work_orders'',
          pfrow_enabled = True, pfrow_created_at = 0, pfrow_updated_at = 0\<rparr>],
      edb_plan_limits = [\<lparr>plrow_id = ''l-1'', plrow_plan_id = ''starter'', plrow_limit_key = ''max_users'',
        plrow_limit_value = Some 5, plrow_is_unlimited = False, plrow_created_at = 0, plrow_updated_at = 0\<rparr>],
      edb_overrides = [\<lparr>ovrow_id = ''o-1'', ovrow_organization_id = ''acme'', ovrow_feature_key = ''work_orders'',
          ovrow_enabled = False, ovrow_reason = None, ovrow_created_by = None, ovrow_expires_at = None, ovrow_created_at = 1\<rparr>,
        \<lparr>ovrow_id = ''o-2'', ovrow_organization_id = ''acme'', ovrow_feature_key = ''copilot'',
          ovrow_enabled = True, ovrow_reason = Some ''trial'', ovrow_created_by = None, ovrow_expires_at = Some 50,
          ovrow_created_at = 2\<rparr>],
      edb_limits = [], edb_audit = []\<rparr>"

definition copilot_row :: TenantFeatureOverride where
  "copilot_row = edb_overrides sample_db ! 1"

definition staff :: Caller where
  "staff = \<lparr>caller_id = Some ''u-1'', caller_roles = [''PLATFORM_STAFF''], caller_now = 100, caller_new_id = ''row-9''\<rparr>"

definition staff_disables :: "Caller \<times> AdminCall" where
  "staff_disables = (staff, CreateOverride ''acme'' ''reports'' False None (Some 200))"

lemma sample_db_eval:
  "rows_unique sample_db \<and> org_exists sample_db ''acme'' \<and>
   granting_plan sample_db ''acme'' 100 = Some ''starter'' \<and> (\<not> plan_grants sample_db ''starter'' ''copilot'') \<and>
   find (\<lambda>r. lmrow_limit_key r = ''max_users'') (org_limits sample_db ''acme'') = None \<and>
   filter (override_row ''acme'' ''copilot'') (edb_overrides sample_db) = [copilot_row] \<and>
   ovrow_enabled copilot_row \<and> (\<not> active_override 100 copilot_row) \<and>
   (\<not> may_expand (caller_roles staff)) \<and> caller_now staff = 100 \<and>
   admin_call staff (snd staff_disables) sample_db = Inr (admin_step sample_db staff_disables) \<and>
   keeps_expiry (snd staff_disables) \<and>
   feature_granted (resolve_entitlements (admin_step sample_db staff_disables) ''acme'' 250) ''reports'' \<and>
   (\<not> feature_granted (resolve_entitlements (admin_step sample_db staff_disables) ''acme'' 100) ''reports'') \<and>
   remove_feature_override staff ''acme'' ''work_orders'' sample_db =
     Inr (admin_step sample_db (staff, RemoveOverride ''acme'' ''work_orders'')) \<and>
   plan_grants sample_db ''starter'' ''work_orders'' \<and>
   (\<not> feature_granted (resolve_entitlements sample_db ''acme'' 100) ''work_orders'') \<and>
   fst staff_disables = staff \<and> call_org (snd staff_disables) = ''acme''"
  by code_simp

theorem entitlements_exact_witness:
  "feature_granted (resolve_entitlements (run admin_step sample_db [staff_disables]) ''acme'' 100) ''reports'' \<longleftrightarrow>
    (\<exists>p. granting_plan (run admin_step sample_db [staff_disables]) ''acme'' 100 = Some p \<and>
       (case live_override (run admin_step sample_db [staff_disables]) ''acme'' 100 ''reports'' of
          None \<Rightarrow> plan_grants (run admin_step sample_db [staff_disables]) p ''reports''
        | Some r \<Rightarrow> ovrow_enabled r))"
  by (rule entitlements_exact) (simp add: sample_db_eval)

theorem tenants_isolated_witness:
  "tenant_view (run admin_step sample_db [staff_disables, (staff, RemoveOverride ''acme'' ''work_orders'')]) ''globex'' =
   tenant_view sample_db ''globex''"
  by (rule tenants_isolated) (auto simp: sample_db_eval)

theorem every_change_audited_run:
  "length (edb_audit (run admin_step sample_db [staff_disables, staff_disables])) = 1"
  by code_simp

theorem expansion_needs_permission_witness:
  "feature_granted (resolve_entitlements (admin_step sample_db (staff, CreateOverride ''acme'' ''sms'' False None None))
     ''acme'' (caller_now staff)) ''reports'' \<and>
   feature_granted (resolve_entitlements sample_db ''acme'' (caller_now staff)) ''reports''"
proof -
  let ?call = "CreateOverride ''acme'' ''sms'' False None None"
  have e: "admin_call staff ?call sample_db = Inr (admin_step sample_db (staff, ?call)) \<and>
    feature_granted (resolve_entitlements (admin_step sample_db (staff, ?call)) ''acme'' (caller_now staff)) ''reports''"
    by code_simp
  with expansion_needs_permission [of sample_db staff ?call "admin_step sample_db (staff, ?call)" "''acme''" "''reports''"]
  show ?thesis using sample_db_eval by simp
qed

theorem removal_restores_plan_witness:
  "feature_granted (resolve_entitlements (admin_step sample_db (staff, RemoveOverride ''acme'' ''work_orders'')) ''acme'' 100)
     ''work_orders'' \<and>
   \<not> feature_granted (resolve_entitlements sample_db ''acme'' 100) ''work_orders''"
  using removal_restores_plan
    [of sample_db staff "''acme''" "''work_orders''" "admin_step sample_db (staff, RemoveOverride ''acme'' ''work_orders'')"
      "''acme''" 100 "''work_orders''"] sample_db_eval
  by simp

theorem expired_override_revived_witness:
  "\<exists>db'. update_feature_override staff ''acme'' ''copilot'' None None (Some 500) sample_db = Inr db' \<and>
    feature_granted (resolve_entitlements db' ''acme'' (caller_now staff)) ''copilot'' \<and>
    \<not> feature_granted (resolve_entitlements sample_db ''acme'' (caller_now staff)) ''copilot''"
  by (rule expired_override_revived [where r = copilot_row and p = "''starter''"]) (use sample_db_eval in simp_all)

theorem first_limit_replaces_plan_witness:
  "\<exists>db'. create_usage_limit staff ''acme'' ''seats'' ''max_users'' (Some 1000000) False sample_db = Inr db' \<and>
    filter (\<lambda>u. ulimit_limit_key u = ''max_users'') (reso_usage_limits (resolve_entitlements db' ''acme'' 100)) =
      [\<lparr>ulimit_feature_key = ''seats'', ulimit_limit_key = ''max_users'', ulimit_limit_value = Some 1000000,
        ulimit_is_unlimited = False\<rparr>]"
  by (rule first_limit_replaces_plan [where p = "''starter''"]) (use sample_db_eval in simp_all)

end
