(* ===== verification/OrganizationPage.thy ===== *)
theory OrganizationPage
  imports ClientCatalog ClientTenant DemoPlatform ApiPlatform PageKit EntitlementService
begin

text \<open>
  The page of one organization in the platform administration
  (\<open>src/frontend/app/(app)/platform/organizations/[organizationId]/page.tsx\<close>): its state, the table of the
  features, and every handler, with real and with demonstration data. A call to the service is two events, its
  start and its answer; a timer is an event too. Composed with \<open>EntitlementService\<close>: when the table shows what
  the resolver grants, and what saving an override does to both.
\<close>

section \<open>State\<close>

datatype OrganizationTab =
    TAB_Overview | TAB_Users | TAB_Subscription | TAB_Entitlements | TAB_Usage | TAB_Audit | TAB_Provisioning

datatype RowSource = SRC_Plan | SRC_TenantOverride

record FeatureRow =
  row_feature_key :: string
  row_name :: string
  row_enabled :: bool
  row_planEnabled :: bool
  row_source :: RowSource
  row_override :: "TenantFeatureOverrideResponse option"

datatype OverrideState = OVS_INHERIT | OVS_ENABLED | OVS_DISABLED

record OverrideModalState =
  modal_open :: bool
  modal_featureKey :: string
  modal_featureName :: string
  modal_planEnabled :: bool
  modal_overrideState :: OverrideState
  modal_reason :: string
  modal_existingOverride :: "TenantFeatureOverrideResponse option"

definition ASSIGNABLE_TENANT_ROLES :: "(string \<times> string) list" where
  "ASSIGNABLE_TENANT_ROLES =
     [(''ORG_ADMIN'', ''Organization Administrator''),
      (''CAMO_MANAGER'', ''CAMO Manager''),
      (''COMPLIANCE_MANAGER'', ''Compliance Manager''),
      (''QUALITY_MANAGER'', ''Quality Manager''),
      (''MAINTENANCE_ENGINEER'', ''Maintenance Engineer''),
      (''VIEWER'', ''Stakeholder / Viewer'')]"

record AddUserForm =
  auf_full_name :: string
  auf_email :: string
  auf_role :: string
  auf_password :: string

definition blank_user_form :: AddUserForm where
  "blank_user_form = \<lparr>auf_full_name = [], auf_email = [], auf_role = ''VIEWER'', auf_password = []\<rparr>"

text \<open>The mode and the session a render reads; a call that is under way remembers the ones it was started
  in. The calls, and the timers of the messages.\<close>

datatype OrgFlight = FlyStatus | FlyInvite | FlyAddUser | FlyReset string | FlySave | FlyRemove

datatype OrgTimer = TmInvite | TmAddUser | TmFeedback

text \<open>What was asked of the service, for the statements.\<close>

datatype OrgAction =
    AskSuspend string
  | AskActivate string
  | AskInvite string string
  | AskAddUser string string string string
  | AskReset string string
  | AskCreateOverride string bool "string option"
  | AskUpdateOverride string bool "string option"
  | AskRemoveOverride string
  | AskResend string
  | AskRevoke string

record OrgPage =
  og_tab :: OrganizationTab
  og_org :: "BackendPlatformOrganization option"
  og_users :: "PlatformUser list"
  og_subscriptions :: "SubscriptionResponse list"
  og_entitlements :: "EntitlementResolutionResponse option"
  og_overrides :: "TenantFeatureOverrideResponse list"
  og_limits :: "TenantUsageLimitResponse list"
  og_auditEvents :: "AuditEventResponse list"
  og_loading :: bool
  og_error :: "NormalizedApiError option"
  og_showInviteAdmin :: bool
  og_inviteEmail :: string
  og_inviteFullName :: string
  og_inviteBusy :: bool
  og_inviteError :: "NormalizedApiError option"
  og_inviteSuccess :: bool
  og_showAddUser :: bool
  og_addUserForm :: AddUserForm
  og_addUserBusy :: bool
  og_addUserError :: "NormalizedApiError option"
  og_addUserSuccess :: bool
  og_resettingUser :: "PlatformUser option"
  og_resetPasswordValue :: string
  og_resetBusy :: bool
  og_resetError :: "NormalizedApiError option"
  og_resetSuccessMessage :: "string option"
  og_confirmSuspend :: bool
  og_actionBusy :: bool
  og_catalogFeatures :: "ProductFeatureResponse list"
  og_planFeatures :: "PlanFeatureResponse list"
  og_overrideModal :: OverrideModalState
  og_overrideBusy :: bool
  og_overrideError :: "NormalizedApiError option"
  og_overrideFeedback :: "string option"
  og_mode :: DataMode
  og_token :: "string option"
  og_isAuthenticated :: bool
  og_roles :: "string list option"
  og_loads :: "string list"
  og_planLoads :: nat
  og_flights :: "(OrgFlight \<times> org_session) list"
  og_timers :: "OrgTimer list"
  og_requests :: "request list"
  og_log :: "(org_session \<times> OrgAction) list"

definition closed_modal :: OverrideModalState where
  "closed_modal = \<lparr>modal_open = False, modal_featureKey = [], modal_featureName = [], modal_planEnabled = False,
     modal_overrideState = OVS_INHERIT, modal_reason = [], modal_existingOverride = None\<rparr>"

definition org_page_init :: "DataMode \<Rightarrow> string option \<Rightarrow> bool \<Rightarrow> string list option \<Rightarrow> OrgPage" where
  "org_page_init mode token auth roles =
     \<lparr>og_tab = TAB_Overview, og_org = None, og_users = [], og_subscriptions = [], og_entitlements = None,
      og_overrides = [], og_limits = [], og_auditEvents = [], og_loading = True, og_error = None,
      og_showInviteAdmin = False, og_inviteEmail = [], og_inviteFullName = [], og_inviteBusy = False,
      og_inviteError = None, og_inviteSuccess = False, og_showAddUser = False, og_addUserForm = blank_user_form,
      og_addUserBusy = False, og_addUserError = None, og_addUserSuccess = False, og_resettingUser = None,
      og_resetPasswordValue = [], og_resetBusy = False, og_resetError = None, og_resetSuccessMessage = None,
      og_confirmSuspend = False, og_actionBusy = False, og_catalogFeatures = [], og_planFeatures = [],
      og_overrideModal = closed_modal, og_overrideBusy = False, og_overrideError = None, og_overrideFeedback = None,
      og_mode = mode, og_token = token, og_isAuthenticated = auth, og_roles = roles, og_loads = [],
      og_planLoads = 0, og_flights = [], og_timers = [], og_requests = [], og_log = []\<rparr>"

definition og_session :: "OrgPage \<Rightarrow> org_session" where
  "og_session p = (og_mode p, og_token p, og_isAuthenticated p)"

definition isPlatformUser :: "OrgPage \<Rightarrow> bool" where
  "isPlatformUser p = (case og_roles p of
     None \<Rightarrow> False
   | Some rs \<Rightarrow> list_ex (\<lambda>r. r = ''PLATFORM_ADMIN'' \<or> r = ''PLATFORM_STAFF'') rs)"

section \<open>Loading\<close>

definition fallback_organization :: "string \<Rightarrow> int \<Rightarrow> BackendPlatformOrganization" where
  "fallback_organization i now =
     \<lparr>porg_id = i, porg_name = ''Demo Organization'', porg_status = PORG_ACTIVE, porg_industry = Some ''DRONE_UAV'',
      porg_created_at = toISOString now, porg_user_count = 4, porg_aircraft_count = 2, porg_drone_count = Some 6\<rparr>"

definition demo_overrides :: "string \<Rightarrow> TenantFeatureOverrideResponse list" where
  "demo_overrides i =
     [\<lparr>foverride_id = ''50000000-0000-0000-0000-000000000001'', foverride_organization_id = i,
       foverride_feature_key = ''battery_analytics'', foverride_enabled = True,
       foverride_reason = Some ''Trial authorization for drone fleet evaluation'',
       foverride_expires_at = None, foverride_created_at = ''2026-02-20T10:15:00Z''\<rparr>]"

definition demo_limits :: "string \<Rightarrow> TenantUsageLimitResponse list" where
  "demo_limits i =
     [\<lparr>tlimit_id = ''60000000-0000-0000-0000-000000000001'', tlimit_organization_id = i,
       tlimit_feature_key = ''fleet_limits'', tlimit_limit_key = ''max_drones'', tlimit_limit_value = Some 20,
       tlimit_is_unlimited = False, tlimit_created_at = ''2026-01-15T00:00:00Z'',
       tlimit_updated_at = ''2026-01-15T00:00:00Z''\<rparr>]"

text \<open>The demonstration branch of \<open>loadData\<close>; its filter of the audit events lets all of them pass.\<close>

definition load_demo :: "string \<Rightarrow> int \<Rightarrow> OrgPage \<Rightarrow> OrgPage" where
  "load_demo i now p =
     p\<lparr>og_org := Some (or_else (getDemoOrganization i) (fallback_organization i now)),
       og_users := getDemoOrganizationUsers i,
       og_subscriptions := getDemoOrganizationSubscriptions i,
       og_entitlements := Some (getDemoOrganizationEntitlements i),
       og_auditEvents := take 8 (filter (\<lambda>e. paudit_organization_id e = i \<or> True) DEMO_PLATFORM_AUDIT_EVENTS),
       og_overrides := demo_overrides i,
       og_limits := demo_limits i,
       og_loading := False,
       og_error := None\<rparr>"

definition org_load_requests :: "string \<Rightarrow> string \<Rightarrow> request list" where
  "org_load_requests token i =
     [platformApi_getOrganization token i, platformApi_listOrganizationUsers token i,
      subscriptionApi_listForOrganization token i, entitlementApi_getEntitlements token i,
      entitlementApi_listFeatureOverrides token i, entitlementApi_listUsageLimits token i,
      auditApi_listAuditEvents token (Some i) None None None None (Some 20) None,
      productCatalogApi_listFeatures token]"

definition org_load :: "org_session \<Rightarrow> string \<Rightarrow> int \<Rightarrow> OrgPage \<Rightarrow> OrgPage" where
  "org_load session i now p = (case session of (mode, token, auth) \<Rightarrow>
     if mode = MODE_DEMO then load_demo i now p
     else if \<not> auth \<or> \<not> some_text token then p\<lparr>og_loading := False\<rparr>
     else p\<lparr>og_loading := True, og_error := None, og_loads := og_loads p @ [or_else token []],
            og_requests := og_requests p @ org_load_requests (or_else token []) i\<rparr>)"

text \<open>The eight answers of a load.\<close>

record OrgAnswer =
  oans_org :: "client_error + BackendPlatformOrganization"
  oans_users :: "client_error + PlatformUser list"
  oans_subscriptions :: "client_error + SubscriptionResponse list"
  oans_entitlements :: "client_error + EntitlementResolutionResponse"
  oans_overrides :: "client_error + TenantFeatureOverrideResponse list"
  oans_limits :: "client_error + TenantUsageLimitResponse list"
  oans_audit :: "client_error + AuditEventResponse list"
  oans_catalog :: "client_error + ProductFeatureResponse list"

text \<open>The features of the plan are asked for when the answer names a plan.\<close>

definition settle_entitlements :: "string \<Rightarrow> client_error + EntitlementResolutionResponse \<Rightarrow> OrgPage \<Rightarrow> OrgPage" where
  "settle_entitlements token answer p = (case answer of
     Inl e \<Rightarrow> p
   | Inr r \<Rightarrow>
       (let p = p\<lparr>og_entitlements := Some r\<rparr> in
        if some_text (entitle_plan_id r)
        then p\<lparr>og_planLoads := og_planLoads p + 1,
               og_requests := og_requests p @ [planApi_listPlanFeatures token (or_else (entitle_plan_id r) [])]\<rparr>
        else p))"

definition org_load_settled :: "nat \<Rightarrow> OrgAnswer \<Rightarrow> OrgPage \<Rightarrow> OrgPage" where
  "org_load_settled n a p =
     (if length (og_loads p) \<le> n then p
      else let token = og_loads p ! n;
               p = (case oans_org a of
                      Inr g \<Rightarrow> p\<lparr>og_org := Some g\<rparr>
                    | Inl e \<Rightarrow> p\<lparr>og_error := Some (normalizeApiError e)\<rparr>);
               p = settle_entitlements token (oans_entitlements a)
                     (p\<lparr>og_users := fulfilled (oans_users a) (og_users p),
                        og_subscriptions := fulfilled (oans_subscriptions a) (og_subscriptions p)\<rparr>)
        in p\<lparr>og_overrides := fulfilled (oans_overrides a) (og_overrides p),
             og_limits := fulfilled (oans_limits a) (og_limits p),
             og_auditEvents := fulfilled (oans_audit a) (og_auditEvents p),
             og_catalogFeatures := fulfilled (oans_catalog a) (og_catalogFeatures p),
             og_loading := False, og_loads := remove_nth n (og_loads p)\<rparr>)"

text \<open>\<open>.then(setPlanFeatures).catch(() => {})\<close>.\<close>

definition plan_features_settled :: "client_error + PlanFeatureResponse list \<Rightarrow> OrgPage \<Rightarrow> OrgPage" where
  "plan_features_settled answer p =
     (if og_planLoads p = 0 then p
      else p\<lparr>og_planFeatures := fulfilled answer (og_planFeatures p), og_planLoads := og_planLoads p - 1\<rparr>)"

section \<open>The table of the features\<close>

definition word_char :: "char \<Rightarrow> bool" where
  "word_char c \<longleftrightarrow> is_alnum c \<or> c = CHR ''_''"

text \<open>\<open>replace(/\b\w/g, upper)\<close>: a word character after none.\<close>

fun capitalise :: "bool \<Rightarrow> string \<Rightarrow> string" where
  "capitalise inside [] = []"
| "capitalise inside (c # cs) =
     (if word_char c \<and> \<not> inside then upper_char c else c) # capitalise (word_char c) cs"

definition formatFeatureKey :: "string \<Rightarrow> string" where
  "formatFeatureKey k = capitalise False (map (\<lambda>c. if c = CHR ''.'' \<or> c = CHR ''_'' then CHR '' '' else c) k)"

definition add_absent :: "(string \<times> string) list \<Rightarrow> string \<times> string \<Rightarrow> (string \<times> string) list" where
  "add_absent m kn = (if map_of m (fst kn) = None then m @ [kn] else m)"

definition named :: "string \<Rightarrow> string \<times> string" where
  "named k = (k, formatFeatureKey k)"

text \<open>The names, in the order in which their features were first met.\<close>

definition featureMap :: "OrgPage \<Rightarrow> (string \<times> string) list" where
  "featureMap p =
     (let m = dict_of catfeat_code catfeat_name [] (og_catalogFeatures p);
          m = foldl add_absent m (map (\<lambda>f. (pfeature_feature_key f, pfeature_name f)) DEMO_PLATFORM_FEATURES);
          m = foldl add_absent m (map (\<lambda>f. named (planfeat_feature_key f)) (og_planFeatures p));
          m = foldl add_absent m (case og_entitlements p of None \<Rightarrow> []
                | Some e \<Rightarrow> map (\<lambda>kv. named (fst kv)) (entitle_effective_features e))
      in foldl add_absent m (map (\<lambda>r. named (foverride_feature_key r)) (og_overrides p)))"

definition plan_code_of :: "OrgPage \<Rightarrow> string option" where
  "plan_code_of p = (case og_entitlements p of None \<Rightarrow> None | Some e \<Rightarrow> entitle_plan_code e)"

definition in_demo_plan :: "string \<Rightarrow> string \<Rightarrow> bool" where
  "in_demo_plan k plan = (case find (\<lambda>f. pfeature_feature_key f = k) DEMO_PLATFORM_FEATURES of
     None \<Rightarrow> False
   | Some f \<Rightarrow> plan \<in> set (pfeature_plans f))"

definition row_plan_enabled :: "OrgPage \<Rightarrow> string \<Rightarrow> TenantFeatureOverrideResponse option \<Rightarrow> bool" where
  "row_plan_enabled p k override =
     (if og_mode p = MODE_DEMO
      then (if plan_code_of p = Some ''enterprise'' then True
            else if plan_code_of p = Some ''professional'' then in_demo_plan k ''professional'' \<or> in_demo_plan k ''starter''
            else in_demo_plan k ''starter'')
      else (case find (\<lambda>f. planfeat_feature_key f = k) (og_planFeatures p) of
              Some f \<Rightarrow> planfeat_enabled f
            | None \<Rightarrow>
                (case og_entitlements p of
                   None \<Rightarrow> False
                 | Some e \<Rightarrow> override = None \<and> or_else (map_of (entitle_effective_features e) k) False)))"

definition feature_row :: "OrgPage \<Rightarrow> string \<times> string \<Rightarrow> FeatureRow" where
  "feature_row p kn =
     (let override = find (\<lambda>r. foverride_feature_key r = fst kn) (og_overrides p);
          planEnabled = row_plan_enabled p (fst kn) override
      in \<lparr>row_feature_key = fst kn, row_name = snd kn,
          row_enabled = (case override of None \<Rightarrow> planEnabled | Some r \<Rightarrow> foverride_enabled r),
          row_planEnabled = planEnabled,
          row_source = (if override = None then SRC_Plan else SRC_TenantOverride),
          row_override = override\<rparr>)"

definition featureRows :: "OrgPage \<Rightarrow> FeatureRow list" where
  "featureRows p = map (feature_row p) (featureMap p)"

section \<open>Handlers\<close>

text \<open>A call of a handler: what is asked, the request, and the session of this render.\<close>

definition fly :: "OrgFlight \<Rightarrow> OrgAction \<Rightarrow> request \<Rightarrow> OrgPage \<Rightarrow> OrgPage" where
  "fly f act r p = p\<lparr>og_flights := og_flights p @ [(f, og_session p)], og_requests := og_requests p @ [r],
     og_log := og_log p @ [(og_session p, act)]\<rparr>"

definition og_token_text :: "OrgPage \<Rightarrow> string" where
  "og_token_text p = or_else (og_token p) []"

definition handleToggleOrgStatus :: "OrgPage \<Rightarrow> OrgPage" where
  "handleToggleOrgStatus p =
     (if og_mode p = MODE_DEMO then
        (case og_org p of
           None \<Rightarrow> p
         | Some g \<Rightarrow> p\<lparr>og_org := Some (g\<lparr>porg_status :=
             (if porg_status g = PORG_ACTIVE then PORG_SUSPENDED else PORG_ACTIVE)\<rparr>)\<rparr>)
        \<lparr>og_confirmSuspend := False\<rparr>
      else (case og_org p of
              None \<Rightarrow> p
            | Some g \<Rightarrow>
                if \<not> some_text (og_token p) then p
                else if porg_status g = PORG_ACTIVE
                then fly FlyStatus (AskSuspend (porg_id g))
                  (platformApi_suspendOrganization (og_token_text p) (porg_id g)) (p\<lparr>og_actionBusy := True\<rparr>)
                else fly FlyStatus (AskActivate (porg_id g))
                  (platformApi_activateOrganization (og_token_text p) (porg_id g)) (p\<lparr>og_actionBusy := True\<rparr>)))"

text \<open>\<open>String(Date.now()).slice(-12)\<close> in the identifier of a synthetic record.\<close>

definition synthetic_id :: "string \<Rightarrow> int \<Rightarrow> string" where
  "synthetic_id prefix now = prefix @ (let s = show_int now in drop (length s - 12) s)"

definition synthetic_user :: "string \<Rightarrow> int \<Rightarrow> string \<Rightarrow> string \<Rightarrow> string \<Rightarrow> string \<Rightarrow> PlatformUser" where
  "synthetic_user prefix now i email name role =
     \<lparr>puser_id = synthetic_id prefix now, puser_organization_id = i, puser_organization_name = None,
      puser_email = email, puser_full_name = name, puser_is_active = True, puser_roles = [role],
      puser_created_at = toISOString now\<rparr>"

definition handleInviteAdmin :: "string \<Rightarrow> int \<Rightarrow> OrgPage \<Rightarrow> OrgPage" where
  "handleInviteAdmin i now p =
     (let email = trim (og_inviteEmail p); name = trim (og_inviteFullName p) in
      if email = [] \<or> name = [] then p
      else if og_mode p = MODE_DEMO
      then p\<lparr>og_users := synthetic_user ''30000000-0000-0000-0000-'' now i email name ''ORG_ADMIN'' # og_users p,
             og_inviteSuccess := True, og_timers := og_timers p @ [TmInvite]\<rparr>
      else if \<not> some_text (og_token p) then p
      else fly FlyInvite (AskInvite email name)
        (platformApi_inviteOrganizationAdmin (og_token_text p) i
           (JObj [(''email'', JStr email), (''full_name'', JStr name)]))
        (p\<lparr>og_inviteBusy := True, og_inviteError := None\<rparr>))"

definition short_password :: NormalizedApiError where
  "short_password = \<lparr>nerr_kind = AEK_validation, nerr_message = ''Password must be at least 8 characters.'',
     nerr_status = None\<rparr>"

definition handleCreateOrgUser :: "string \<Rightarrow> int \<Rightarrow> OrgPage \<Rightarrow> OrgPage" where
  "handleCreateOrgUser i now p =
     (let f = og_addUserForm p; email = trim (auf_email f); name = trim (auf_full_name f) in
      if email = [] \<or> name = [] \<or> auf_password f = [] then p
      else if js_len (auf_password f) < 8 then p\<lparr>og_addUserError := Some short_password\<rparr>
      else if og_mode p = MODE_DEMO
      then p\<lparr>og_users := synthetic_user ''40000000-0000-0000-0000-'' now i email name (auf_role f) # og_users p,
             og_addUserSuccess := True, og_timers := og_timers p @ [TmAddUser]\<rparr>
      else if \<not> some_text (og_token p) then p
      else fly FlyAddUser (AskAddUser email name (auf_role f) (auf_password f))
        (platformApi_createOrganizationUser (og_token_text p) i
           (JObj [(''email'', JStr email), (''full_name'', JStr name), (''role'', JStr (auf_role f)),
                  (''password'', JStr (auf_password f))]))
        (p\<lparr>og_addUserBusy := True, og_addUserError := None\<rparr>))"

definition handleOpenResetPassword :: "PlatformUser \<Rightarrow> OrgPage \<Rightarrow> OrgPage" where
  "handleOpenResetPassword u p =
     p\<lparr>og_resettingUser := Some u, og_resetPasswordValue := [], og_resetError := None, og_resetSuccessMessage := None\<rparr>"

definition handleResetOrgUserPassword :: "string \<Rightarrow> OrgPage \<Rightarrow> OrgPage" where
  "handleResetOrgUserPassword i p =
     (case og_resettingUser p of
        None \<Rightarrow> p
      | Some u \<Rightarrow>
          if js_len (og_resetPasswordValue p) < 8 then p\<lparr>og_resetError := Some short_password\<rparr>
          else if og_mode p = MODE_DEMO
          then p\<lparr>og_resetSuccessMessage :=
                   Some (''Password reset. Share the new password with '' @ puser_full_name u @ '' directly.'')\<rparr>
          else if \<not> some_text (og_token p) then p
          else fly (FlyReset (puser_full_name u)) (AskReset (puser_id u) (og_resetPasswordValue p))
            (platformApi_resetOrganizationUserPassword (og_token_text p) i (puser_id u) (og_resetPasswordValue p))
            (p\<lparr>og_resetBusy := True, og_resetError := None\<rparr>))"

definition handleOpenOverrideModal :: "FeatureRow \<Rightarrow> OrgPage \<Rightarrow> OrgPage" where
  "handleOpenOverrideModal f p =
     p\<lparr>og_overrideModal :=
         \<lparr>modal_open = True, modal_featureKey = row_feature_key f, modal_featureName = row_name f,
          modal_planEnabled = row_planEnabled f,
          modal_overrideState = (case row_override f of
              Some r \<Rightarrow> if foverride_enabled r then OVS_ENABLED else OVS_DISABLED
            | None \<Rightarrow> if row_planEnabled f then OVS_DISABLED else OVS_ENABLED),
          modal_reason = (case row_override f of None \<Rightarrow> [] | Some r \<Rightarrow> or_else (foverride_reason r) []),
          modal_existingOverride = row_override f\<rparr>,
       og_overrideError := None\<rparr>"

definition close_modal :: "OrgPage \<Rightarrow> OrgPage" where
  "close_modal p = p\<lparr>og_overrideModal := og_overrideModal p\<lparr>modal_open := False\<rparr>\<rparr>"

definition saved_overrides ::
  "string \<Rightarrow> int \<Rightarrow> OverrideModalState \<Rightarrow> TenantFeatureOverrideResponse list \<Rightarrow> TenantFeatureOverrideResponse list" where
  "saved_overrides i now m os =
     (let k = modal_featureKey m; on = (modal_overrideState m = OVS_ENABLED) in
      if modal_overrideState m = OVS_INHERIT then filter (\<lambda>r. foverride_feature_key r \<noteq> k) os
      else if modal_existingOverride m \<noteq> None
      then map (\<lambda>r. if foverride_feature_key r = k
                    then r\<lparr>foverride_enabled := on, foverride_reason := reason_or_null (modal_reason m)\<rparr> else r) os
      else \<lparr>foverride_id = synthetic_id ''50000000-0000-0000-0000-'' now, foverride_organization_id = i,
             foverride_feature_key = k, foverride_enabled = on, foverride_reason = reason_or_null (modal_reason m),
             foverride_expires_at = None, foverride_created_at = toISOString now\<rparr> # os)"

definition override_call :: "OverrideModalState \<Rightarrow> OrgAction option" where
  "override_call m =
     (let k = modal_featureKey m; on = (modal_overrideState m = OVS_ENABLED) in
      if modal_overrideState m = OVS_INHERIT
      then (if modal_existingOverride m = None then None else Some (AskRemoveOverride k))
      else if modal_existingOverride m \<noteq> None then Some (AskUpdateOverride k on (reason_or_null (modal_reason m)))
      else Some (AskCreateOverride k on (reason_or_null (modal_reason m))))"

fun override_request :: "string \<Rightarrow> string \<Rightarrow> OrgAction \<Rightarrow> request" where
  "override_request token i (AskRemoveOverride k) = entitlementApi_removeFeatureOverride token i k"
| "override_request token i (AskUpdateOverride k on reason) =
     entitlementApi_updateFeatureOverride token i k (JObj [(''enabled'', JBool on), (''reason'', jstr reason)])"
| "override_request token i (AskCreateOverride k on reason) =
     entitlementApi_createFeatureOverride token i
       (JObj ([(''feature_key'', JStr k), (''enabled'', JBool on)] @ field_if ''reason'' (map_option JStr reason)))"
| "override_request token i act = entitlementApi_listFeatureOverrides token i"

definition saved_message :: string where
  "saved_message = ''Feature entitlement updated successfully.''"

definition removed_message :: string where
  "removed_message = ''Override removed. Tenant returned to plan inheritance.''"

definition handleSaveOverrideModal :: "string \<Rightarrow> int \<Rightarrow> OrgPage \<Rightarrow> OrgPage" where
  "handleSaveOverrideModal i now p =
     (let m = og_overrideModal p in
      if \<not> modal_open m then p
      else if og_mode p = MODE_DEMO
      then close_modal (p\<lparr>og_overrides := saved_overrides i now m (og_overrides p),
             og_overrideFeedback := Some saved_message, og_timers := og_timers p @ [TmFeedback]\<rparr>)
      else if \<not> some_text (og_token p) then p
      else let p = p\<lparr>og_overrideBusy := True, og_overrideError := None\<rparr> in
        (case override_call m of
           None \<Rightarrow> (close_modal p)\<lparr>og_overrideBusy := False\<rparr>
         | Some act \<Rightarrow> fly FlySave act (override_request (og_token_text p) i act) p))"

definition handleRemoveOverride :: "string \<Rightarrow> string \<Rightarrow> OrgPage \<Rightarrow> OrgPage" where
  "handleRemoveOverride i k p =
     (if og_mode p = MODE_DEMO
      then p\<lparr>og_overrides := filter (\<lambda>r. foverride_feature_key r \<noteq> k) (og_overrides p),
             og_overrideFeedback := Some removed_message, og_timers := og_timers p @ [TmFeedback]\<rparr>
      else if \<not> some_text (og_token p) then p
      else fly FlyRemove (AskRemoveOverride k) (entitlementApi_removeFeatureOverride (og_token_text p) i k)
        (p\<lparr>og_actionBusy := True\<rparr>))"

text \<open>The buttons of the provisioning tab; their answers are not looked at.\<close>

definition ask_only :: "OrgAction \<Rightarrow> request \<Rightarrow> OrgPage \<Rightarrow> OrgPage" where
  "ask_only act r p =
     (if og_mode p = MODE_REAL \<and> some_text (og_token p)
      then p\<lparr>og_requests := og_requests p @ [r], og_log := og_log p @ [(og_session p, act)]\<rparr> else p)"

definition resend_invitation :: "OrgPage \<Rightarrow> OrgPage" where
  "resend_invitation p = (case og_users p of
     [] \<Rightarrow> p
   | u # us \<Rightarrow> ask_only (AskResend (puser_id u)) (platformApi_resendAdminInvitation (og_token_text p) (puser_id u)) p)"

definition revoke_invitation :: "OrgPage \<Rightarrow> OrgPage" where
  "revoke_invitation p = (case og_users p of
     [] \<Rightarrow> p
   | u # us \<Rightarrow> ask_only (AskRevoke (puser_id u)) (platformApi_revokeAdminInvitation (og_token_text p) (puser_id u)) p)"

section \<open>Answers\<close>

definition flight_success ::
  "string \<Rightarrow> int \<Rightarrow> OrgFlight \<Rightarrow> org_session \<Rightarrow> BackendPlatformOrganization \<Rightarrow> OrgPage \<Rightarrow> OrgPage" where
  "flight_success i now f session updated p = (case f of
     FlyStatus \<Rightarrow> org_load session i now (p\<lparr>og_org := Some updated, og_confirmSuspend := False\<rparr>)
   | FlyInvite \<Rightarrow> (org_load session i now (p\<lparr>og_inviteSuccess := True\<rparr>))\<lparr>og_timers := og_timers p @ [TmInvite]\<rparr>
   | FlyAddUser \<Rightarrow> (org_load session i now (p\<lparr>og_addUserSuccess := True\<rparr>))\<lparr>og_timers := og_timers p @ [TmAddUser]\<rparr>
   | FlyReset name \<Rightarrow> p\<lparr>og_resetSuccessMessage :=
       Some (''Password reset. Share the new password with '' @ name @ '' directly '' @ em_dash @ '' it will not be shown again.'')\<rparr>
   | FlySave \<Rightarrow> (org_load session i now (close_modal (p\<lparr>og_overrideFeedback := Some saved_message\<rparr>)))
       \<lparr>og_timers := og_timers p @ [TmFeedback]\<rparr>
   | FlyRemove \<Rightarrow> (org_load session i now (p\<lparr>og_overrideFeedback := Some removed_message\<rparr>))
       \<lparr>og_timers := og_timers p @ [TmFeedback]\<rparr>)"

definition flight_failure :: "OrgFlight \<Rightarrow> client_error \<Rightarrow> OrgPage \<Rightarrow> OrgPage" where
  "flight_failure f e p = (let n = Some (normalizeApiError e) in case f of
     FlyStatus \<Rightarrow> p\<lparr>og_error := n\<rparr>
   | FlyInvite \<Rightarrow> p\<lparr>og_inviteError := n\<rparr>
   | FlyAddUser \<Rightarrow> p\<lparr>og_addUserError := n\<rparr>
   | FlyReset name \<Rightarrow> p\<lparr>og_resetError := n\<rparr>
   | FlySave \<Rightarrow> p\<lparr>og_overrideError := n\<rparr>
   | FlyRemove \<Rightarrow> p\<lparr>og_error := n\<rparr>)"

definition flight_finally :: "OrgFlight \<Rightarrow> OrgPage \<Rightarrow> OrgPage" where
  "flight_finally f p = (case f of
     FlyStatus \<Rightarrow> p\<lparr>og_actionBusy := False\<rparr>
   | FlyInvite \<Rightarrow> p\<lparr>og_inviteBusy := False\<rparr>
   | FlyAddUser \<Rightarrow> p\<lparr>og_addUserBusy := False\<rparr>
   | FlyReset name \<Rightarrow> p\<lparr>og_resetBusy := False\<rparr>
   | FlySave \<Rightarrow> p\<lparr>og_overrideBusy := False\<rparr>
   | FlyRemove \<Rightarrow> p\<lparr>og_actionBusy := False\<rparr>)"

definition flight_settled ::
  "string \<Rightarrow> int \<Rightarrow> nat \<Rightarrow> client_error + BackendPlatformOrganization \<Rightarrow> OrgPage \<Rightarrow> OrgPage" where
  "flight_settled i now n result p =
     (if length (og_flights p) \<le> n then p
      else (case og_flights p ! n of (f, session) \<Rightarrow>
        flight_finally f
          (case result of
             Inl e \<Rightarrow> flight_failure f e (p\<lparr>og_flights := remove_nth n (og_flights p)\<rparr>)
           | Inr updated \<Rightarrow> flight_success i now f session updated (p\<lparr>og_flights := remove_nth n (og_flights p)\<rparr>))))"

definition timer_fires :: "OrgTimer \<Rightarrow> OrgPage \<Rightarrow> OrgPage" where
  "timer_fires t p =
     (if t \<notin> set (og_timers p) then p
      else let p = p\<lparr>og_timers := remove1 t (og_timers p)\<rparr> in
        (case t of
           TmInvite \<Rightarrow> p\<lparr>og_showInviteAdmin := False, og_inviteSuccess := False, og_inviteEmail := [], og_inviteFullName := []\<rparr>
         | TmAddUser \<Rightarrow> p\<lparr>og_showAddUser := False, og_addUserSuccess := False, og_addUserForm := blank_user_form\<rparr>
         | TmFeedback \<Rightarrow> p\<lparr>og_overrideFeedback := None\<rparr>))"

section \<open>The page as a machine\<close>

text \<open>
  What a user can do is what is shown: the header once the organization is there, the content of the selected
  tab, the dialogs that are open, and no button that is disabled. A selection offers the roles of the list.
  Every event carries the time of the clock.
\<close>

datatype OrgPanel = OPanelSignIn | OPanelDenied | OPanelLoading | OPanelError NormalizedApiError | OPanelEmpty | OPanelContent

definition org_panel :: "OrgPage \<Rightarrow> OrgPanel" where
  "org_panel p =
     (if og_mode p = MODE_REAL \<and> \<not> og_isAuthenticated p then OPanelSignIn
      else if og_mode p = MODE_REAL \<and> \<not> isPlatformUser p then OPanelDenied
      else if og_loading p then OPanelLoading
      else (case og_error p of
              Some e \<Rightarrow> OPanelError e
            | None \<Rightarrow> if og_org p = None then OPanelEmpty else OPanelContent))"

definition on_tab :: "OrganizationTab \<Rightarrow> OrgPage \<Rightarrow> bool" where
  "on_tab t p \<longleftrightarrow> org_panel p = OPanelContent \<and> og_tab p = t"

datatype OrgEvent =
    OrgEffect
  | OrgSessionChange DataMode "string option" bool "string list option"
  | OrgLoadSettled nat OrgAnswer
  | OrgPlanFeatures "client_error + PlanFeatureResponse list"
  | OrgFlightSettled nat "client_error + BackendPlatformOrganization"
  | OrgTimerFires OrgTimer
  | PressStatus
  | ConfirmSuspension
  | CancelSuspension
  | SelectTab OrganizationTab
  | ToggleAddUser
  | ToggleInvite
  | TypeUserForm AddUserForm
  | TypeInviteForm string string
  | SubmitUser
  | SubmitInvite
  | PressReset PlatformUser
  | TypePassword string
  | SubmitReset
  | CloseReset
  | PressOverride FeatureRow
  | PressRemove FeatureRow
  | ChooseState OverrideState
  | TypeOverrideReason string
  | SubmitOverride
  | CancelOverride
  | DismissFeedback
  | PressResend
  | PressRevoke

fun org_event :: "string \<Rightarrow> int \<Rightarrow> OrgPage \<Rightarrow> OrgEvent \<Rightarrow> OrgPage" where
  "org_event i now p OrgEffect = org_load (og_session p) i now p"
| "org_event i now p (OrgSessionChange mode token auth roles) =
     (let q = p\<lparr>og_mode := mode, og_token := token, og_isAuthenticated := auth, og_roles := roles\<rparr> in
      if og_session q = og_session p then q else org_load (og_session q) i now q)"
| "org_event i now p (OrgLoadSettled n a) = org_load_settled n a p"
| "org_event i now p (OrgPlanFeatures a) = plan_features_settled a p"
| "org_event i now p (OrgFlightSettled n r) = flight_settled i now n r p"
| "org_event i now p (OrgTimerFires t) = timer_fires t p"
| "org_event i now p PressStatus =
     (case og_org p of
        None \<Rightarrow> p
      | Some g \<Rightarrow> if og_actionBusy p then p
          else if porg_status g = PORG_ACTIVE then p\<lparr>og_confirmSuspend := True\<rparr> else handleToggleOrgStatus p)"
| "org_event i now p ConfirmSuspension =
     (if og_confirmSuspend p \<and> \<not> og_actionBusy p then handleToggleOrgStatus p else p)"
| "org_event i now p CancelSuspension = (if og_confirmSuspend p then p\<lparr>og_confirmSuspend := False\<rparr> else p)"
| "org_event i now p (SelectTab t) = (if org_panel p = OPanelContent then p\<lparr>og_tab := t\<rparr> else p)"
| "org_event i now p ToggleAddUser = (if on_tab TAB_Users p then p\<lparr>og_showAddUser := \<not> og_showAddUser p\<rparr> else p)"
| "org_event i now p ToggleInvite = (if on_tab TAB_Users p then p\<lparr>og_showInviteAdmin := \<not> og_showInviteAdmin p\<rparr> else p)"
| "org_event i now p (TypeUserForm f) =
     (if on_tab TAB_Users p \<and> og_showAddUser p \<and> auf_role f \<in> set (map fst ASSIGNABLE_TENANT_ROLES)
      then p\<lparr>og_addUserForm := f\<rparr> else p)"
| "org_event i now p (TypeInviteForm email name) =
     (if on_tab TAB_Users p \<and> og_showInviteAdmin p then p\<lparr>og_inviteEmail := email, og_inviteFullName := name\<rparr> else p)"
| "org_event i now p SubmitUser =
     (if on_tab TAB_Users p \<and> og_showAddUser p \<and> \<not> og_addUserBusy p then handleCreateOrgUser i now p else p)"
| "org_event i now p SubmitInvite =
     (if on_tab TAB_Users p \<and> og_showInviteAdmin p \<and> \<not> og_inviteBusy p then handleInviteAdmin i now p else p)"
| "org_event i now p (PressReset u) =
     (if on_tab TAB_Users p \<and> u \<in> set (og_users p) then handleOpenResetPassword u p else p)"
| "org_event i now p (TypePassword v) =
     (if og_resettingUser p \<noteq> None \<and> og_resetSuccessMessage p = None then p\<lparr>og_resetPasswordValue := v\<rparr> else p)"
| "org_event i now p SubmitReset =
     (if og_resetSuccessMessage p = None \<and> \<not> og_resetBusy p then handleResetOrgUserPassword i p else p)"
| "org_event i now p CloseReset = p\<lparr>og_resettingUser := None\<rparr>"
| "org_event i now p (PressOverride f) =
     (if on_tab TAB_Entitlements p \<and> f \<in> set (featureRows p) then handleOpenOverrideModal f p else p)"
| "org_event i now p (PressRemove f) =
     (if on_tab TAB_Entitlements p \<and> f \<in> set (featureRows p) \<and> row_override f \<noteq> None \<and> \<not> og_actionBusy p
      then handleRemoveOverride i (row_feature_key f) p else p)"
| "org_event i now p (ChooseState st) =
     (if modal_open (og_overrideModal p)
      then p\<lparr>og_overrideModal := og_overrideModal p\<lparr>modal_overrideState := st\<rparr>\<rparr> else p)"
| "org_event i now p (TypeOverrideReason v) =
     (if modal_open (og_overrideModal p) \<and> \<not> og_overrideBusy p
      then p\<lparr>og_overrideModal := og_overrideModal p\<lparr>modal_reason := v\<rparr>\<rparr> else p)"
| "org_event i now p SubmitOverride = (if \<not> og_overrideBusy p then handleSaveOverrideModal i now p else p)"
| "org_event i now p CancelOverride =
     (if modal_open (og_overrideModal p) \<and> \<not> og_overrideBusy p then close_modal p else p)"
| "org_event i now p DismissFeedback = (if on_tab TAB_Entitlements p then p\<lparr>og_overrideFeedback := None\<rparr> else p)"
| "org_event i now p PressResend = (if on_tab TAB_Provisioning p then resend_invitation p else p)"
| "org_event i now p PressRevoke = (if on_tab TAB_Provisioning p then revoke_invitation p else p)"

definition org_step :: "string \<Rightarrow> OrgPage \<Rightarrow> int \<times> OrgEvent \<Rightarrow> OrgPage" where
  "org_step i p e = org_event i (fst e) p (snd e)"

section \<open>What is asked of the service\<close>

definition in_flight :: "(OrgFlight \<Rightarrow> bool) \<Rightarrow> OrgPage \<Rightarrow> nat" where
  "in_flight P p = length (filter (\<lambda>x. P (fst x)) (og_flights p))"

fun is_reset :: "OrgFlight \<Rightarrow> bool" where
  "is_reset (FlyReset name) = True"
| "is_reset f = False"

definition is_action :: "OrgFlight \<Rightarrow> bool" where
  "is_action f \<longleftrightarrow> f = FlyStatus \<or> f = FlyRemove"

fun fair_action :: "OrgAction \<Rightarrow> bool" where
  "fair_action (AskInvite email name) \<longleftrightarrow> email \<noteq> [] \<and> name \<noteq> []"
| "fair_action (AskAddUser email name role password) \<longleftrightarrow>
     email \<noteq> [] \<and> name \<noteq> [] \<and> role \<in> set (map fst ASSIGNABLE_TENANT_ROLES) \<and> 8 \<le> js_len password"
| "fair_action (AskReset user password) \<longleftrightarrow> 8 \<le> js_len password"
| "fair_action act \<longleftrightarrow> True"

definition fair_ask :: "org_session \<times> OrgAction \<Rightarrow> bool" where
  "fair_ask e = (case e of ((mode, token, auth), act) \<Rightarrow> mode = MODE_REAL \<and> some_text token \<and> fair_action act)"

text \<open>One call of each kind at a time, the suspension and the removal of an override being of one kind; the
  flag of the kind says whether there is one.\<close>

definition calls_match :: "OrgPage \<Rightarrow> bool" where
  "calls_match p \<longleftrightarrow>
     in_flight is_action p = of_bool (og_actionBusy p) \<and>
     in_flight (\<lambda>f. f = FlyInvite) p = of_bool (og_inviteBusy p) \<and>
     in_flight (\<lambda>f. f = FlyAddUser) p = of_bool (og_addUserBusy p) \<and>
     in_flight is_reset p = of_bool (og_resetBusy p) \<and>
     in_flight (\<lambda>f. f = FlySave) p = of_bool (og_overrideBusy p)"

definition tokens_ok :: "OrgPage \<Rightarrow> bool" where
  "tokens_ok p \<longleftrightarrow> list_all (\<lambda>r. some_text (rq_token r)) (og_requests p) \<and> list_all (\<lambda>t. t \<noteq> []) (og_loads p)"

definition form_ok :: "OrgPage \<Rightarrow> bool" where
  "form_ok p \<longleftrightarrow> auf_role (og_addUserForm p) \<in> set (map fst ASSIGNABLE_TENANT_ROLES)"

definition org_page_ok :: "OrgPage \<Rightarrow> bool" where
  "org_page_ok p \<longleftrightarrow> list_all fair_ask (og_log p) \<and> tokens_ok p \<and> form_ok p \<and> calls_match p"

lemma load_frame [simp]:
  "og_log (org_load se i now p) = og_log p" "og_flights (org_load se i now p) = og_flights p"
  "og_addUserForm (org_load se i now p) = og_addUserForm p" "og_actionBusy (org_load se i now p) = og_actionBusy p"
  "og_inviteBusy (org_load se i now p) = og_inviteBusy p" "og_addUserBusy (org_load se i now p) = og_addUserBusy p"
  "og_resetBusy (org_load se i now p) = og_resetBusy p" "og_overrideBusy (org_load se i now p) = og_overrideBusy p"
  "og_overrideModal (org_load se i now p) = og_overrideModal p" "og_mode (org_load se i now p) = og_mode p"
  "og_token (org_load se i now p) = og_token p" "og_planFeatures (org_load se i now p) = og_planFeatures p"
  "og_overrideFeedback (org_load se i now p) = og_overrideFeedback p"
  "og_overrideError (org_load se i now p) = og_overrideError p"
  "og_isAuthenticated (org_load se i now p) = og_isAuthenticated p" "og_planLoads (org_load se i now p) = og_planLoads p"
  by (simp_all add: org_load_def load_demo_def split: prod.split)

lemma settle_frame [simp]:
  "og_log (settle_entitlements k a p) = og_log p" "og_flights (settle_entitlements k a p) = og_flights p"
  "og_addUserForm (settle_entitlements k a p) = og_addUserForm p" "og_actionBusy (settle_entitlements k a p) = og_actionBusy p"
  "og_inviteBusy (settle_entitlements k a p) = og_inviteBusy p" "og_addUserBusy (settle_entitlements k a p) = og_addUserBusy p"
  "og_resetBusy (settle_entitlements k a p) = og_resetBusy p" "og_overrideBusy (settle_entitlements k a p) = og_overrideBusy p"
  "og_loads (settle_entitlements k a p) = og_loads p"
  "og_catalogFeatures (settle_entitlements k a p) = og_catalogFeatures p"
  "og_overrides (settle_entitlements k a p) = og_overrides p"
  "og_planFeatures (settle_entitlements k a p) = og_planFeatures p"
  "og_mode (settle_entitlements k a p) = og_mode p"
  by (simp_all add: settle_entitlements_def Let_def split: sum.split)

lemma load_settled_frame [simp]:
  "og_log (org_load_settled n a p) = og_log p" "og_flights (org_load_settled n a p) = og_flights p"
  "og_addUserForm (org_load_settled n a p) = og_addUserForm p" "og_actionBusy (org_load_settled n a p) = og_actionBusy p"
  "og_inviteBusy (org_load_settled n a p) = og_inviteBusy p" "og_addUserBusy (org_load_settled n a p) = og_addUserBusy p"
  "og_resetBusy (org_load_settled n a p) = og_resetBusy p" "og_overrideBusy (org_load_settled n a p) = og_overrideBusy p"
  by (simp_all add: org_load_settled_def Let_def split: sum.split)

lemmas api_defs = platformApi_getOrganization_def platformApi_listOrganizationUsers_def
  subscriptionApi_listForOrganization_def entitlementApi_getEntitlements_def entitlementApi_listFeatureOverrides_def
  entitlementApi_listUsageLimits_def auditApi_listAuditEvents_def productCatalogApi_listFeatures_def
  planApi_listPlanFeatures_def platformApi_suspendOrganization_def platformApi_activateOrganization_def
  platformApi_inviteOrganizationAdmin_def platformApi_createOrganizationUser_def
  platformApi_resetOrganizationUserPassword_def entitlementApi_removeFeatureOverride_def
  entitlementApi_updateFeatureOverride_def entitlementApi_createFeatureOverride_def
  platformApi_resendAdminInvitation_def platformApi_revokeAdminInvitation_def

lemma tokens_load: "tokens_ok p \<Longrightarrow> tokens_ok (org_load se i now p)"
  by (auto simp: tokens_ok_def org_load_def load_demo_def org_load_requests_def api_defs some_text_def or_else_def
      split: prod.split)

lemma tokens_settle: "tokens_ok p \<Longrightarrow> t \<noteq> [] \<Longrightarrow> tokens_ok (settle_entitlements t a p)"
  by (auto simp: tokens_ok_def settle_entitlements_def Let_def api_defs some_text_def split: sum.split)

lemma tokens_load_settled: "tokens_ok p \<Longrightarrow> tokens_ok (org_load_settled n a p)"
proof -
  assume ok: "tokens_ok p"
  have "og_loads p ! n \<noteq> []" if "n < length (og_loads p)"
    using ok that by (simp add: tokens_ok_def list_all_length)
  moreover have "tokens_ok (q\<lparr>og_users := u, og_subscriptions := s\<rparr>)" if "tokens_ok q" for q u s
    using that by (simp add: tokens_ok_def)
  moreover have "tokens_ok (p\<lparr>og_org := g\<rparr>)" "tokens_ok (p\<lparr>og_error := e\<rparr>)" for g e
    using ok by (simp_all add: tokens_ok_def)
  ultimately show ?thesis
    using ok list_all_remove_nth [of "\<lambda>t. t \<noteq> []" "og_loads p" n]
      tokens_settle [of _ "og_loads p ! n" "oans_entitlements a"]
    by (auto simp: org_load_settled_def Let_def tokens_ok_def split: sum.split)
qed

lemma flight_counts:
  "in_flight P (fly f act r p) = in_flight P p + of_bool (P f)"
  "n < length (og_flights p) \<Longrightarrow>
     length (filter (\<lambda>x. P (fst x)) (remove_nth n (og_flights p))) + of_bool (P (fst (og_flights p ! n))) = in_flight P p"
  using count_remove_nth [of n "og_flights p" P] by (simp_all add: in_flight_def fly_def)

lemma fly_frame [simp]:
  "og_log (fly f act r p) = og_log p @ [(og_session p, act)]" "og_requests (fly f act r p) = og_requests p @ [r]"
  "og_loads (fly f act r p) = og_loads p" "og_addUserForm (fly f act r p) = og_addUserForm p"
  "og_actionBusy (fly f act r p) = og_actionBusy p" "og_inviteBusy (fly f act r p) = og_inviteBusy p"
  "og_addUserBusy (fly f act r p) = og_addUserBusy p" "og_resetBusy (fly f act r p) = og_resetBusy p"
  "og_overrideBusy (fly f act r p) = og_overrideBusy p" "og_overrides (fly f act r p) = og_overrides p"
  "og_overrideModal (fly f act r p) = og_overrideModal p"
  by (simp_all add: fly_def)

lemma ask_real:
  "og_mode p \<noteq> MODE_DEMO \<Longrightarrow> some_text (og_token p) \<Longrightarrow> fair_action act \<Longrightarrow> fair_ask (og_session p, act)"
  by (cases "og_mode p") (simp_all add: fair_ask_def og_session_def)

lemma token_text: "some_text (og_token p) \<Longrightarrow> some_text (Some (og_token_text p))"
  by (auto simp: some_text_def og_token_text_def or_else_def)

lemmas page_ok_defs = org_page_ok_def tokens_ok_def form_ok_def calls_match_def

text \<open>Starting a call of a kind that is not under way; \<open>q\<close> differs from \<open>p\<close> in the flags and messages.\<close>

lemma fly_page_ok:
  assumes "org_page_ok p" and "og_mode p \<noteq> MODE_DEMO" "some_text (og_token p)" "fair_action act"
    and "rq_token r = Some (og_token_text p)"
    and "og_log q = og_log p" "og_requests q = og_requests p" "og_loads q = og_loads p"
      "og_addUserForm q = og_addUserForm p" "og_session q = og_session p"
    and "calls_match (fly f act r q)"
  shows "org_page_ok (fly f act r q)"
  using assms ask_real [OF assms(2,3,4)] token_text [OF assms(3)]
  by (simp add: org_page_ok_def tokens_ok_def form_ok_def)

lemma fly_matches:
  assumes "calls_match p" and "og_flights q = og_flights p"
    and "of_bool (is_action f) + of_bool (og_actionBusy p) = (of_bool (og_actionBusy q) :: nat)"
      "of_bool (f = FlyInvite) + of_bool (og_inviteBusy p) = (of_bool (og_inviteBusy q) :: nat)"
      "of_bool (f = FlyAddUser) + of_bool (og_addUserBusy p) = (of_bool (og_addUserBusy q) :: nat)"
      "of_bool (is_reset f) + of_bool (og_resetBusy p) = (of_bool (og_resetBusy q) :: nat)"
      "of_bool (f = FlySave) + of_bool (og_overrideBusy p) = (of_bool (og_overrideBusy q) :: nat)"
  shows "calls_match (fly f act r q)"
  using assms unfolding calls_match_def flight_counts(1) fly_frame by (simp add: in_flight_def)

lemma same_ok:
  assumes "org_page_ok p" and "og_log q = og_log p" "og_requests q = og_requests p" "og_loads q = og_loads p"
    "og_addUserForm q = og_addUserForm p" "og_flights q = og_flights p" "og_actionBusy q = og_actionBusy p"
    "og_inviteBusy q = og_inviteBusy p" "og_addUserBusy q = og_addUserBusy p" "og_resetBusy q = og_resetBusy p"
    "og_overrideBusy q = og_overrideBusy p"
  shows "org_page_ok q"
  using assms unfolding org_page_ok_def tokens_ok_def form_ok_def calls_match_def in_flight_def by simp

lemma page_ok_calls: "org_page_ok p \<Longrightarrow> calls_match p"
  by (simp add: org_page_ok_def)

lemma toggle_ok: "org_page_ok p \<Longrightarrow> \<not> og_actionBusy p \<Longrightarrow> org_page_ok (handleToggleOrgStatus p)"
  unfolding handleToggleOrgStatus_def
  by (auto simp: is_action_def api_defs og_session_def og_token_text_def split: option.split
      intro: same_ok intro!: fly_page_ok fly_matches [OF page_ok_calls])

lemma invite_ok: "org_page_ok p \<Longrightarrow> \<not> og_inviteBusy p \<Longrightarrow> org_page_ok (handleInviteAdmin i now p)"
  unfolding handleInviteAdmin_def Let_def
  by (auto simp: is_action_def api_defs og_session_def og_token_text_def
      intro: same_ok intro!: fly_page_ok fly_matches [OF page_ok_calls])

lemma user_role: "org_page_ok p \<Longrightarrow> auf_role (og_addUserForm p) \<in> set (map fst ASSIGNABLE_TENANT_ROLES)"
  by (simp add: org_page_ok_def form_ok_def)

lemma create_user_ok:
  assumes ok: "org_page_ok p" and idle: "\<not> og_addUserBusy p"
  shows "org_page_ok (handleCreateOrgUser i now p)"
proof -
  let ?f = "og_addUserForm p"
  have "fair_action (AskAddUser (trim (auf_email ?f)) (trim (auf_full_name ?f)) (auf_role ?f) (auf_password ?f))"
    if "trim (auf_email ?f) \<noteq> []" "trim (auf_full_name ?f) \<noteq> []" "8 \<le> js_len (auf_password ?f)"
    using that user_role [OF ok] by (simp del: set_map)
  then show ?thesis
    using ok idle unfolding handleCreateOrgUser_def Let_def
    by (auto simp del: fair_action.simps simp: is_action_def api_defs og_session_def og_token_text_def
        intro: same_ok intro!: fly_page_ok [of p] fly_matches [OF page_ok_calls])
qed

lemma reset_page_ok: "org_page_ok p \<Longrightarrow> \<not> og_resetBusy p \<Longrightarrow> org_page_ok (handleResetOrgUserPassword i p)"
  unfolding handleResetOrgUserPassword_def
  by (auto simp: is_action_def api_defs og_session_def og_token_text_def split: option.split
      intro: same_ok intro!: fly_page_ok fly_matches [OF page_ok_calls])

lemma override_asks:
  "override_call m = Some act \<Longrightarrow> fair_action act \<and> rq_token (override_request t i act) = Some t"
  by (auto simp: override_call_def Let_def api_defs split: if_splits)

lemma save_ok:
  assumes ok: "org_page_ok p" and idle: "\<not> og_overrideBusy p"
  shows "org_page_ok (handleSaveOverrideModal i now p)"
proof (cases "override_call (og_overrideModal p)")
  case None
  then show ?thesis using ok idle by (auto simp: handleSaveOverrideModal_def Let_def close_modal_def intro: same_ok)
next
  case (Some act)
  then show ?thesis
    using ok idle override_asks [OF Some]
    by (auto simp: handleSaveOverrideModal_def Let_def close_modal_def is_action_def og_session_def og_token_text_def
        intro: same_ok intro!: fly_page_ok fly_matches [OF page_ok_calls])
qed

lemma remove_ok: "org_page_ok p \<Longrightarrow> \<not> og_actionBusy p \<Longrightarrow> org_page_ok (handleRemoveOverride i k p)"
  unfolding handleRemoveOverride_def
  by (auto simp: is_action_def api_defs og_session_def og_token_text_def
      intro: same_ok intro!: fly_page_ok fly_matches [OF page_ok_calls])

lemma ask_only_ok:
  assumes "org_page_ok p" and "fair_action act" and "rq_token r = Some (og_token_text p)"
  shows "org_page_ok (ask_only act r p)"
  using assms ask_real [of p act] token_text [of p]
  by (auto simp: ask_only_def org_page_ok_def tokens_ok_def form_ok_def calls_match_def in_flight_def og_session_def)

lemma load_ok: "org_page_ok p \<Longrightarrow> org_page_ok (org_load se i now p)"
  using tokens_load [of p se i now] by (simp add: org_page_ok_def form_ok_def calls_match_def in_flight_def)

lemma load_settled_page_ok: "org_page_ok p \<Longrightarrow> org_page_ok (org_load_settled n a p)"
  using tokens_load_settled [of p n a] by (simp add: org_page_ok_def form_ok_def calls_match_def in_flight_def)

text \<open>The end of a call clears its flag.\<close>

lemma calls_end:
  assumes "calls_match p" and n: "n < length (og_flights p)" and f: "fst (og_flights p ! n) = f"
    and "og_flights q = remove_nth n (og_flights p)"
    and "og_actionBusy q = og_actionBusy p" "og_inviteBusy q = og_inviteBusy p" "og_addUserBusy q = og_addUserBusy p"
      "og_resetBusy q = og_resetBusy p" "og_overrideBusy q = og_overrideBusy p"
  shows "calls_match (flight_finally f q)"
proof -
  have count: "in_flight P q + of_bool (P f) = in_flight P p" for P
    using flight_counts(2) [OF n, of P] assms(4) f by (simp add: in_flight_def)
  have same: "in_flight P (flight_finally f q) = in_flight P q" for P
    by (cases f) (simp_all add: in_flight_def flight_finally_def)
  show ?thesis
    using assms count [of is_action] count [of "\<lambda>f. f = FlyInvite"] count [of "\<lambda>f. f = FlyAddUser"] count [of is_reset]
      count [of "\<lambda>f. f = FlySave"]
    unfolding calls_match_def same
    by (cases f) (auto simp: flight_finally_def is_action_def of_bool_def split: if_splits)
qed

lemma success_frame [simp]:
  "og_log (flight_success i now f se u p) = og_log p" "og_flights (flight_success i now f se u p) = og_flights p"
  "og_addUserForm (flight_success i now f se u p) = og_addUserForm p"
  "og_actionBusy (flight_success i now f se u p) = og_actionBusy p"
  "og_inviteBusy (flight_success i now f se u p) = og_inviteBusy p"
  "og_addUserBusy (flight_success i now f se u p) = og_addUserBusy p"
  "og_resetBusy (flight_success i now f se u p) = og_resetBusy p"
  "og_overrideBusy (flight_success i now f se u p) = og_overrideBusy p"
  by (cases f; simp add: flight_success_def close_modal_def)+

lemma tokens_success: "tokens_ok p \<Longrightarrow> tokens_ok (flight_success i now f se u p)"
proof -
  assume ok: "tokens_ok p"
  have ext: "tokens_ok (q\<lparr>og_timers := ts\<rparr>) = tokens_ok q" for q ts by (simp add: tokens_ok_def)
  have "tokens_ok (p\<lparr>og_org := g, og_confirmSuspend := b\<rparr>)" "tokens_ok (p\<lparr>og_inviteSuccess := b\<rparr>)"
    "tokens_ok (p\<lparr>og_addUserSuccess := b\<rparr>)" "tokens_ok (p\<lparr>og_overrideFeedback := m\<rparr>)"
    "tokens_ok (close_modal (p\<lparr>og_overrideFeedback := m\<rparr>))" "tokens_ok (p\<lparr>og_resetSuccessMessage := m\<rparr>)" for g b m
    using ok by (simp_all add: tokens_ok_def close_modal_def)
  then show ?thesis by (cases f) (simp_all add: flight_success_def ext tokens_load)
qed

lemma failure_frame [simp]:
  "og_log (flight_failure f e p) = og_log p" "og_flights (flight_failure f e p) = og_flights p"
  "og_addUserForm (flight_failure f e p) = og_addUserForm p" "og_requests (flight_failure f e p) = og_requests p"
  "og_loads (flight_failure f e p) = og_loads p"
  "og_actionBusy (flight_failure f e p) = og_actionBusy p" "og_inviteBusy (flight_failure f e p) = og_inviteBusy p"
  "og_addUserBusy (flight_failure f e p) = og_addUserBusy p" "og_resetBusy (flight_failure f e p) = og_resetBusy p"
  "og_overrideBusy (flight_failure f e p) = og_overrideBusy p"
  by (cases f; simp add: flight_failure_def Let_def)+

lemma finally_frame [simp]:
  "og_log (flight_finally f p) = og_log p" "og_requests (flight_finally f p) = og_requests p"
  "og_loads (flight_finally f p) = og_loads p" "og_addUserForm (flight_finally f p) = og_addUserForm p"
  by (cases f; simp add: flight_finally_def)+

lemma flight_settled_ok:
  assumes ok: "org_page_ok p"
  shows "org_page_ok (flight_settled i now n result p)"
proof (cases "n < length (og_flights p)")
  case True
  obtain f se where f: "og_flights p ! n = (f, se)" by (cases "og_flights p ! n")
  let ?p = "p\<lparr>og_flights := remove_nth n (og_flights p)\<rparr>"
  define q where "q = (case result of Inl e \<Rightarrow> flight_failure f e ?p | Inr u \<Rightarrow> flight_success i now f se u ?p)"
  have t: "tokens_ok ?p" using ok by (simp add: org_page_ok_def tokens_ok_def)
  then have q: "tokens_ok q" "og_log q = og_log p" "og_addUserForm q = og_addUserForm p"
    by (simp_all add: q_def tokens_success tokens_ok_def [of "flight_failure f e ?p" for e] split: sum.split)
      (simp add: tokens_ok_def)
  have "calls_match (flight_finally f q)"
    using calls_end [OF page_ok_calls [OF ok] True, of f q] f by (simp add: q_def split: sum.split)
  moreover have "flight_settled i now n result p = flight_finally f q"
    using True f by (simp add: flight_settled_def q_def)
  ultimately show ?thesis
    using q ok by (simp add: org_page_ok_def tokens_ok_def form_ok_def)
qed (use ok in \<open>simp add: flight_settled_def\<close>)

lemma timer_ok: "org_page_ok p \<Longrightarrow> org_page_ok (timer_fires t p)"
  by (cases t) (auto simp: timer_fires_def Let_def org_page_ok_def tokens_ok_def form_ok_def calls_match_def in_flight_def
      blank_user_form_def ASSIGNABLE_TENANT_ROLES_def)

lemma session_ok: "org_page_ok p \<Longrightarrow> org_page_ok (org_event i now p (OrgSessionChange mode token auth roles))"
  by (auto simp: Let_def intro!: load_ok intro: same_ok)

lemma org_event_ok:
  assumes ok: "org_page_ok p"
  shows "org_page_ok (org_event i now p e)"
proof (cases e)
  case OrgEffect
  then show ?thesis by (simp add: load_ok ok)
next
  case (OrgSessionChange mode token auth roles)
  then show ?thesis using session_ok [OF ok] by blast
next
  case (OrgLoadSettled n a)
  then show ?thesis by (simp add: load_settled_page_ok ok)
next
  case (OrgPlanFeatures a)
  then show ?thesis using ok by (auto simp: plan_features_settled_def intro: same_ok)
next
  case (OrgFlightSettled n r)
  then show ?thesis by (simp add: flight_settled_ok ok)
next
  case (OrgTimerFires t)
  then show ?thesis by (simp add: timer_ok ok)
next
  case PressStatus
  then show ?thesis using ok by (auto intro: same_ok intro!: toggle_ok split: option.split)
next
  case ConfirmSuspension
  then show ?thesis using ok by (auto intro!: toggle_ok)
next
  case (TypeUserForm f)
  then show ?thesis
    using ok by (auto simp: org_page_ok_def tokens_ok_def form_ok_def calls_match_def in_flight_def simp del: set_map)
next
  case SubmitUser
  then show ?thesis using ok by (auto intro!: create_user_ok)
next
  case SubmitInvite
  then show ?thesis using ok by (auto intro!: invite_ok)
next
  case (PressReset u)
  then show ?thesis using ok by (auto simp: handleOpenResetPassword_def intro: same_ok)
next
  case SubmitReset
  then show ?thesis using ok by (auto intro!: reset_page_ok)
next
  case (PressOverride f)
  then show ?thesis using ok by (auto simp: handleOpenOverrideModal_def intro: same_ok)
next
  case (PressRemove f)
  then show ?thesis using ok by (auto intro!: remove_ok)
next
  case SubmitOverride
  then show ?thesis using ok by (auto intro!: save_ok)
next
  case CancelOverride
  then show ?thesis using ok by (auto simp: close_modal_def intro: same_ok)
next
  case PressResend
  then show ?thesis using ok by (auto simp: resend_invitation_def api_defs intro!: ask_only_ok split: list.split)
next
  case PressRevoke
  then show ?thesis using ok by (auto simp: revoke_invitation_def api_defs intro!: ask_only_ok split: list.split)
qed (use ok in \<open>auto intro: same_ok\<close>)

interpretation organization_page: machine "org_step i" org_page_ok for i
  by unfold_locales (simp add: org_step_def org_event_ok)

lemma org_page_init_ok: "org_page_ok (org_page_init mode token auth roles)"
  by (simp add: org_page_init_def org_page_ok_def tokens_ok_def form_ok_def calls_match_def in_flight_def
      blank_user_form_def ASSIGNABLE_TENANT_ROLES_def)


end
