(* ===== verification/PlanService.thy ===== *)
theory PlanService
  imports EntitlementService WorkOrderService
begin

text \<open>
  The administration of the plans (\<open>src/backend/app/services/plan_service.py\<close>) over the tables of
  \<open>EntitlementService\<close>, and the rules of its requests (\<open>src/backend/app/schemas/plan.py\<close>). The clock, who acts and
  the identifiers of new rows are arguments. Shown: an edit of a plan reaches the tenants of this plan and nobody
  else, the limits of a plan are exactly those that were sent last, what is never written, and what the trail of
  a plan can lose. The creation of a plan and the suite of a plan are left out.
\<close>

section \<open>Operations\<close>

datatype PlanError =
    PlanMissing
  | DuplicatePlanCode string
  | DuplicatePlanFeature string
  | EmptyLimitKey
  | DuplicateLimitKey string
  | InvalidLimit
  | UniqueViolated

record PlanActor =
  actor_id :: "string option"
  actor_organization_id :: string
  actor_now :: int
  actor_new_id :: "string \<Rightarrow> string"

definition plan_event :: "PlanActor \<Rightarrow> string \<Rightarrow> string \<Rightarrow> string \<Rightarrow> json \<Rightarrow> ServiceAudit" where
  "plan_event a what kind i meta =
     \<lparr>evrow_organization_id = actor_organization_id a, evrow_user_id = actor_id a,
      evrow_action = ''platform.'' @ what, evrow_entity_type = kind, evrow_entity_id = i, evrow_metadata = meta\<rparr>"

definition plan_by_id :: "EntitlementDb \<Rightarrow> string \<Rightarrow> PlanRow option" where
  "plan_by_id db p = find (\<lambda>r. prow_id r = p) (edb_plans db)"

text \<open>The counts: the features that are enabled, and the organizations with a subscription that grants,
  whatever its dates.\<close>

definition included_features_count :: "EntitlementDb \<Rightarrow> string \<Rightarrow> nat" where
  "included_features_count db p =
     length (filter (\<lambda>f. pfrow_plan_id f = p \<and> pfrow_enabled f) (edb_plan_features db))"

definition tenant_count :: "EntitlementDb \<Rightarrow> string \<Rightarrow> nat" where
  "tenant_count db p =
     length (remdups (map srow_organization_id
       (filter (\<lambda>s. srow_plan_id s = p \<and> srow_status s \<in> set [''ACTIVE'', ''TRIALING'', ''PAST_DUE''])
          (edb_subscriptions db))))"

definition get_plan :: "EntitlementDb \<Rightarrow> string \<Rightarrow> PlanError + PlanRow \<times> nat \<times> nat" where
  "get_plan db p = (case plan_by_id db p of
     None \<Rightarrow> Inl PlanMissing
   | Some r \<Rightarrow> Inr (r, included_features_count db p, tenant_count db p))"

definition write_plan :: "PlanRow \<Rightarrow> EntitlementDb \<Rightarrow> EntitlementDb" where
  "write_plan new db = db\<lparr>edb_plans := replace_rows (\<lambda>r. prow_id r = prow_id new) new (edb_plans db)\<rparr>"

text \<open>A row that changes gets the time of the change.\<close>

definition touched_plan :: "int \<Rightarrow> PlanRow \<Rightarrow> PlanRow \<Rightarrow> PlanRow" where
  "touched_plan now old new = (if new = old then old else new\<lparr>prow_updated_at := now\<rparr>)"

text \<open>A field of the request that is null or absent is \<open>None\<close>, and is not written.\<close>

definition plan_updates :: "string option \<Rightarrow> string option \<Rightarrow> string option \<Rightarrow> string option \<Rightarrow> (string \<times> json) list" where
  "plan_updates name code description scope =
     field_if ''name'' (map_option JStr name) @ field_if ''code'' (map_option JStr code) @
     field_if ''description'' (map_option JStr description) @ field_if ''asset_scope'' (map_option JStr scope)"

definition update_plan ::
  "PlanActor \<Rightarrow> string \<Rightarrow> string option \<Rightarrow> string option \<Rightarrow> string option \<Rightarrow> string option \<Rightarrow> EntitlementDb \<Rightarrow>
     PlanError + EntitlementDb" where
  "update_plan a p name code description scope db =
     (case plan_by_id db p of
        None \<Rightarrow> Inl PlanMissing
      | Some r \<Rightarrow>
          let new = r\<lparr>prow_name := given name (prow_name r), prow_code := given code (prow_code r),
                prow_description := (if description = None then prow_description r else description),
                prow_asset_scope := (if scope = None then prow_asset_scope r else scope)\<rparr>;
              updates = plan_updates name code description scope
          in if updates = [] then Inr db
             else if list_ex (\<lambda>x. prow_id x \<noteq> p \<and> prow_code x = prow_code new) (edb_plans db)
             then Inl (DuplicatePlanCode (prow_code new))
             else Inr (record_audit_event (plan_event a ''plan.updated'' ''Plan'' p (JObj updates))
                         (write_plan (touched_plan (actor_now a) r new) db)))"

definition set_plan_active :: "PlanActor \<Rightarrow> string \<Rightarrow> bool \<Rightarrow> EntitlementDb \<Rightarrow> PlanError + EntitlementDb" where
  "set_plan_active a p is_active db =
     (case plan_by_id db p of
        None \<Rightarrow> Inl PlanMissing
      | Some r \<Rightarrow> Inr (record_audit_event
          (plan_event a (if is_active then ''plan.activated'' else ''plan.deactivated'') ''Plan'' p (JObj []))
          (write_plan (touched_plan (actor_now a) r (r\<lparr>prow_is_active := is_active\<rparr>)) db)))"

definition plan_features_of :: "EntitlementDb \<Rightarrow> string \<Rightarrow> PlanFeatureRow list" where
  "plan_features_of db p = sort_key pfrow_feature_key (filter (\<lambda>f. pfrow_plan_id f = p) (edb_plan_features db))"

definition list_plan_features :: "EntitlementDb \<Rightarrow> string \<Rightarrow> PlanError + PlanFeatureRow list" where
  "list_plan_features db p = (if plan_by_id db p = None then Inl PlanMissing else Inr (plan_features_of db p))"

definition feature_of :: "string \<Rightarrow> string \<Rightarrow> PlanFeatureRow \<Rightarrow> bool" where
  "feature_of p k f \<longleftrightarrow> pfrow_plan_id f = p \<and> pfrow_feature_key f = k"

definition new_plan_feature :: "PlanActor \<Rightarrow> string \<Rightarrow> string \<Rightarrow> bool \<Rightarrow> PlanFeatureRow" where
  "new_plan_feature a p k enabled =
     \<lparr>pfrow_id = actor_new_id a k, pfrow_plan_id = p, pfrow_feature_key = k, pfrow_enabled = enabled,
      pfrow_created_at = actor_now a, pfrow_updated_at = actor_now a\<rparr>"

definition feature_event :: "PlanActor \<Rightarrow> string \<Rightarrow> string \<Rightarrow> string \<Rightarrow> string \<Rightarrow> bool \<Rightarrow> ServiceAudit" where
  "feature_event a what i p k enabled =
     plan_event a (''plan_feature.'' @ what) ''PlanFeature'' i
       (JObj [(''plan_id'', JStr p), (''feature_key'', JStr k), (''enabled'', JBool enabled)])"

definition create_plan_feature ::
  "PlanActor \<Rightarrow> string \<Rightarrow> string \<Rightarrow> bool \<Rightarrow> EntitlementDb \<Rightarrow> PlanError + EntitlementDb" where
  "create_plan_feature a p k enabled db =
     (if plan_by_id db p = None then Inl PlanMissing
      else if list_ex (feature_of p k) (edb_plan_features db) then Inl (DuplicatePlanFeature k)
      else Inr (record_audit_event (feature_event a ''created'' (actor_new_id a k) p k enabled)
                 (db\<lparr>edb_plan_features := edb_plan_features db @ [new_plan_feature a p k enabled]\<rparr>)))"

definition switched :: "int \<Rightarrow> bool \<Rightarrow> PlanFeatureRow \<Rightarrow> PlanFeatureRow" where
  "switched now enabled f =
     (if pfrow_enabled f = enabled then f else f\<lparr>pfrow_enabled := enabled, pfrow_updated_at := now\<rparr>)"

definition set_plan_feature_enabled ::
  "PlanActor \<Rightarrow> string \<Rightarrow> string \<Rightarrow> bool \<Rightarrow> EntitlementDb \<Rightarrow> PlanError + EntitlementDb" where
  "set_plan_feature_enabled a p k enabled db =
     (case find (feature_of p k) (edb_plan_features db) of
        None \<Rightarrow> create_plan_feature a p k enabled db
      | Some f \<Rightarrow> Inr (record_audit_event
          (feature_event a (if enabled then ''enabled'' else ''disabled'') (pfrow_id f) p k enabled)
          (db\<lparr>edb_plan_features :=
             replace_rows (feature_of p k) (switched (actor_now a) enabled f) (edb_plan_features db)\<rparr>)))"

text \<open>\<open>bulk_set_plan_features\<close>: the keys that were there when it began are switched, the others created; the
  constraint refuses a key that would be created twice.\<close>

definition key_text :: "string \<times> bool \<Rightarrow> string" where
  "key_text kb = fst kb @ (if snd kb then ''=True'' else ''=False'')"

definition bulk_feature ::
  "PlanActor \<Rightarrow> string \<Rightarrow> string list \<Rightarrow> PlanFeatureRow list \<times> string list \<times> string list \<Rightarrow> string \<times> bool \<Rightarrow>
     PlanFeatureRow list \<times> string list \<times> string list" where
  "bulk_feature a p existing st kb =
     (case st of (rows, created, modified) \<Rightarrow>
        if fst kb \<in> set existing then
          (if list_ex (\<lambda>f. feature_of p (fst kb) f \<and> pfrow_enabled f \<noteq> snd kb) rows
           then (map (\<lambda>f. if feature_of p (fst kb) f then switched (actor_now a) (snd kb) f else f) rows, created,
                 modified @ [key_text kb])
           else st)
        else (rows @ [new_plan_feature a p (fst kb) (snd kb)], created @ [key_text kb], modified))"

definition bulk_set_plan_features ::
  "PlanActor \<Rightarrow> string \<Rightarrow> (string \<times> bool) list \<Rightarrow> EntitlementDb \<Rightarrow> PlanError + EntitlementDb" where
  "bulk_set_plan_features a p items db =
     (if plan_by_id db p = None then Inl PlanMissing
      else let existing = map pfrow_feature_key (filter (\<lambda>f. pfrow_plan_id f = p) (edb_plan_features db)) in
        if \<not> distinct (filter (\<lambda>k. k \<notin> set existing) (map fst items)) then Inl UniqueViolated
        else (case foldl (bulk_feature a p existing) (edb_plan_features db, [], []) items of
                (rows, created, modified) \<Rightarrow>
                  if created = [] \<and> modified = [] then Inr db
                  else Inr (record_audit_event
                    (plan_event a ''plan.features_updated'' ''Plan'' p
                       (JObj [(''created'', JArr (map JStr created)), (''modified'', JArr (map JStr modified)),
                              (''total_configured'', JNum (of_nat (length items)))]))
                    (db\<lparr>edb_plan_features := rows\<rparr>))))"

section \<open>Limits\<close>

record PlanLimitItem =
  plitem_limit_key :: string
  plitem_limit_value :: "int option"
  plitem_is_unlimited :: bool

text \<open>The request: a value is not negative, and there is one unless the limit is unlimited.\<close>

definition validate_limit :: "PlanLimitItem \<Rightarrow> PlanLimitItem option" where
  "validate_limit i =
     (if plitem_limit_key i = [] \<or> py_len (plitem_limit_key i) > 128 then None
      else if (case plitem_limit_value i of None \<Rightarrow> False | Some v \<Rightarrow> v < 0) then None
      else if plitem_is_unlimited i then Some (i\<lparr>plitem_limit_value := None\<rparr>)
      else if plitem_limit_value i = None then None else Some i)"

fun check_limit_keys :: "string list \<Rightarrow> PlanLimitItem list \<Rightarrow> PlanError option" where
  "check_limit_keys seen [] = None"
| "check_limit_keys seen (i # is) =
     (let k = trim (plitem_limit_key i) in
      if k = [] then Some EmptyLimitKey
      else if k \<in> set seen then Some (DuplicateLimitKey k)
      else check_limit_keys (k # seen) is)"

definition limit_of :: "string \<Rightarrow> string \<Rightarrow> PlanLimitRow \<Rightarrow> bool" where
  "limit_of p k l \<longleftrightarrow> plrow_plan_id l = p \<and> plrow_limit_key l = k"

definition limit_of_plan_event :: "PlanActor \<Rightarrow> string \<Rightarrow> string \<Rightarrow> string \<Rightarrow> string \<Rightarrow> (string \<times> json) list \<Rightarrow> ServiceAudit" where
  "limit_of_plan_event a what i p k meta =
     plan_event a (''plan_limit.'' @ what) ''PlanLimit'' i (JObj ([(''plan_id'', JStr p), (''limit_key'', JStr k)] @ meta))"

definition item_value :: "PlanLimitItem \<Rightarrow> int option" where
  "item_value i = (if plitem_is_unlimited i then None else plitem_limit_value i)"

definition upsert_limit :: "PlanActor \<Rightarrow> string \<Rightarrow> EntitlementDb \<Rightarrow> PlanLimitItem \<Rightarrow> EntitlementDb" where
  "upsert_limit a p db i =
     (let k = trim (plitem_limit_key i); unlimited = plitem_is_unlimited i; v = item_value i in
      case find (limit_of p k) (edb_plan_limits db) of
        Some pl \<Rightarrow>
          if plrow_limit_value pl \<noteq> v \<or> plrow_is_unlimited pl \<noteq> unlimited
          then record_audit_event
            (limit_of_plan_event a ''updated'' (plrow_id pl) p k
               [(''previous_value'', jint (plrow_limit_value pl)), (''previous_unlimited'', JBool (plrow_is_unlimited pl)),
                (''new_value'', jint v), (''new_unlimited'', JBool unlimited)])
            (db\<lparr>edb_plan_limits := replace_rows (limit_of p k)
               (pl\<lparr>plrow_limit_value := v, plrow_is_unlimited := unlimited, plrow_updated_at := actor_now a\<rparr>)
               (edb_plan_limits db)\<rparr>)
          else db
      | None \<Rightarrow> record_audit_event
          (limit_of_plan_event a ''created'' (actor_new_id a k) p k
             [(''limit_value'', jint v), (''is_unlimited'', JBool unlimited)])
          (db\<lparr>edb_plan_limits := edb_plan_limits db @
             [\<lparr>plrow_id = actor_new_id a k, plrow_plan_id = p, plrow_limit_key = k, plrow_limit_value = v,
               plrow_is_unlimited = unlimited, plrow_created_at = actor_now a, plrow_updated_at = actor_now a\<rparr>]\<rparr>))"

definition drop_limit :: "PlanActor \<Rightarrow> string \<Rightarrow> EntitlementDb \<Rightarrow> PlanLimitRow \<Rightarrow> EntitlementDb" where
  "drop_limit a p db pl =
     record_audit_event
       (limit_of_plan_event a ''removed'' (plrow_id pl) p (plrow_limit_key pl)
          [(''previous_value'', jint (plrow_limit_value pl)), (''previous_unlimited'', JBool (plrow_is_unlimited pl))])
       (db\<lparr>edb_plan_limits := filter (\<lambda>l. \<not> limit_of p (plrow_limit_key pl) l) (edb_plan_limits db)\<rparr>)"

definition bulk_set_plan_limits ::
  "PlanActor \<Rightarrow> string \<Rightarrow> PlanLimitItem list \<Rightarrow> EntitlementDb \<Rightarrow> PlanError + EntitlementDb" where
  "bulk_set_plan_limits a p items db =
     (if plan_by_id db p = None then Inl PlanMissing
      else (case check_limit_keys [] items of
              Some e \<Rightarrow> Inl e
            | None \<Rightarrow>
                let keys = map (trim \<circ> plitem_limit_key) items;
                    gone = filter (\<lambda>l. plrow_plan_id l = p \<and> plrow_limit_key l \<notin> set keys) (edb_plan_limits db)
                in Inr (foldl (drop_limit a p) (foldl (upsert_limit a p) db items) gone)))"

definition put_plan_limits ::
  "PlanActor \<Rightarrow> string \<Rightarrow> PlanLimitItem list \<Rightarrow> EntitlementDb \<Rightarrow> PlanError + EntitlementDb" where
  "put_plan_limits a p items db =
     (case those (map validate_limit items) of
        None \<Rightarrow> Inl InvalidLimit
      | Some valid \<Rightarrow> bulk_set_plan_limits a p valid db)"

definition plan_limits_of :: "EntitlementDb \<Rightarrow> string \<Rightarrow> PlanLimitRow list" where
  "plan_limits_of db p = filter (\<lambda>l. plrow_plan_id l = p) (edb_plan_limits db)"

definition list_plan_limits :: "EntitlementDb \<Rightarrow> string \<Rightarrow> PlanError + PlanLimitRow list" where
  "list_plan_limits db p =
     (if plan_by_id db p = None then Inl PlanMissing else Inr (sort_key plrow_created_at (plan_limits_of db p)))"

section \<open>Subscribers and the trail\<close>

text \<open>The join: every subscription to the plan, whatever its status, with its organization.\<close>

definition list_plan_subscribers :: "EntitlementDb \<Rightarrow> string \<Rightarrow> PlanError + (OrganizationRow \<times> SubscriptionRow) list" where
  "list_plan_subscribers db p =
     (if plan_by_id db p = None then Inl PlanMissing
      else Inr (sort_key (\<lambda>(g, s). - srow_starts_at s)
        (concat (map (\<lambda>g. map (\<lambda>s. (g, s))
             (filter (\<lambda>s. srow_organization_id s = orow_id g \<and> srow_plan_id s = p) (edb_subscriptions db)))
           (edb_organizations db)))))"

definition event_of_plan :: "string \<Rightarrow> ServiceAudit \<Rightarrow> bool" where
  "event_of_plan p e \<longleftrightarrow>
     (evrow_entity_type e = ''Plan'' \<and> evrow_entity_id e = p) \<or>
     (evrow_entity_type e \<in> set [''PlanFeature'', ''PlanLimit''] \<and> json_field (evrow_metadata e) ''plan_id'' = Some (JStr p))"

definition event_of_any_plan :: "string \<Rightarrow> ServiceAudit \<Rightarrow> bool" where
  "event_of_any_plan p e \<longleftrightarrow>
     (evrow_entity_type e = ''Plan'' \<and> evrow_entity_id e = p) \<or> evrow_entity_type e \<in> set [''PlanFeature'', ''PlanLimit'']"

text \<open>The newest three times \<open>limit\<close> rows of the query, then those of this plan, then \<open>limit\<close> of them.\<close>

definition list_plan_audit_events :: "EntitlementDb \<Rightarrow> string \<Rightarrow> nat \<Rightarrow> PlanError + ServiceAudit list" where
  "list_plan_audit_events db p limit =
     (if plan_by_id db p = None then Inl PlanMissing
      else Inr (take limit (filter (event_of_plan p)
        (take (limit * 3) (filter (event_of_any_plan p) (rev (edb_audit db)))))))"

text \<open>The calls that change a plan, one after the other; a call that fails is rolled back.\<close>

datatype PlanCall =
    UpdatePlan string "string option" "string option" "string option" "string option"
  | SetPlanActive string bool
  | CreatePlanFeature string string bool
  | SetPlanFeature string string bool
  | SetPlanFeatures string "(string \<times> bool) list"
  | SetPlanLimits string "PlanLimitItem list"

fun plan_call :: "PlanActor \<Rightarrow> PlanCall \<Rightarrow> EntitlementDb \<Rightarrow> PlanError + EntitlementDb" where
  "plan_call a (UpdatePlan p name code description scope) db = update_plan a p name code description scope db"
| "plan_call a (SetPlanActive p on) db = set_plan_active a p on db"
| "plan_call a (CreatePlanFeature p k on) db = create_plan_feature a p k on db"
| "plan_call a (SetPlanFeature p k on) db = set_plan_feature_enabled a p k on db"
| "plan_call a (SetPlanFeatures p items) db = bulk_set_plan_features a p items db"
| "plan_call a (SetPlanLimits p items) db = put_plan_limits a p items db"

fun call_plan :: "PlanCall \<Rightarrow> string" where
  "call_plan (UpdatePlan p name code description scope) = p"
| "call_plan (SetPlanActive p on) = p"
| "call_plan (CreatePlanFeature p k on) = p"
| "call_plan (SetPlanFeature p k on) = p"
| "call_plan (SetPlanFeatures p items) = p"
| "call_plan (SetPlanLimits p items) = p"

definition plan_service_step :: "EntitlementDb \<Rightarrow> PlanActor \<times> PlanCall \<Rightarrow> EntitlementDb" where
  "plan_service_step db e = (case plan_call (fst e) (snd e) db of Inl err \<Rightarrow> db | Inr db' \<Rightarrow> db')"

section \<open>What a call leaves as it was\<close>

text \<open>What is read of a plan: its row, its features and its limits.\<close>

definition plan_part :: "EntitlementDb \<Rightarrow> string \<Rightarrow> PlanRow option \<times> PlanFeatureRow list \<times> PlanLimitRow list" where
  "plan_part db q = (plan_by_id db q, filter (\<lambda>f. pfrow_plan_id f = q) (edb_plan_features db), plan_limits_of db q)"

definition same_tenants :: "EntitlementDb \<Rightarrow> EntitlementDb \<Rightarrow> bool" where
  "same_tenants db db' \<longleftrightarrow>
     edb_organizations db' = edb_organizations db \<and> edb_subscriptions db' = edb_subscriptions db \<and>
     edb_overrides db' = edb_overrides db \<and> edb_limits db' = edb_limits db"

definition touches_only :: "string \<Rightarrow> EntitlementDb \<Rightarrow> EntitlementDb \<Rightarrow> bool" where
  "touches_only p db db' \<longleftrightarrow> same_tenants db db' \<and> (\<forall>q. q \<noteq> p \<longrightarrow> plan_part db' q = plan_part db q) \<and>
     map_option prow_id (plan_by_id db' p) = map_option prow_id (plan_by_id db p)"

lemma touches_refl [simp]: "touches_only p db db"
  by (simp add: touches_only_def same_tenants_def)

lemma touches_trans: "touches_only p db db' \<Longrightarrow> touches_only p db' db'' \<Longrightarrow> touches_only p db db''"
  by (simp add: touches_only_def same_tenants_def)

lemma touches_record [simp]: "touches_only p db (record_audit_event ev db') = touches_only p db db'"
  by (simp add: touches_only_def same_tenants_def plan_part_def plan_by_id_def plan_limits_of_def)

lemma find_replace_other:
  "key new = k \<Longrightarrow> find (\<lambda>r. key r = q) (replace_rows (\<lambda>r. key r = k) new rows) =
     (if q = k then map_option (\<lambda>r. new) (find (\<lambda>r. key r = q) rows) else find (\<lambda>r. key r = q) rows)"
  by (induction rows) (auto simp: replace_rows_def)

lemma touches_plan: "prow_id new = p \<Longrightarrow> touches_only p db (write_plan new db)"
proof -
  assume new: "prow_id new = p"
  have "map_option prow_id (find (\<lambda>r. prow_id r = p) (replace_rows (\<lambda>r. prow_id r = p) new (edb_plans db))) =
      map_option prow_id (find (\<lambda>r. prow_id r = p) (edb_plans db))"
  proof (cases "find (\<lambda>r. prow_id r = p) (edb_plans db)")
    case (Some r)
    then have "prow_id r = p" by (auto simp: find_Some_iff)
    with Some new show ?thesis by (simp add: find_replace_other [where key = prow_id])
  qed (simp add: find_replace_other [where key = prow_id, OF new])
  then show ?thesis
    using new find_replace_other [where key = prow_id, OF new]
    by (simp add: touches_only_def same_tenants_def plan_part_def plan_by_id_def plan_limits_of_def write_plan_def)
qed

lemma touches_features:
  "(\<And>q. q \<noteq> p \<Longrightarrow> filter (\<lambda>f. pfrow_plan_id f = q) rows = filter (\<lambda>f. pfrow_plan_id f = q) (edb_plan_features db)) \<Longrightarrow>
   touches_only p db (db\<lparr>edb_plan_features := rows\<rparr>)"
  by (auto simp: touches_only_def same_tenants_def plan_part_def plan_by_id_def plan_limits_of_def)

lemma touches_limits:
  "(\<And>q. q \<noteq> p \<Longrightarrow> filter (\<lambda>l. plrow_plan_id l = q) rows = filter (\<lambda>l. plrow_plan_id l = q) (edb_plan_limits db)) \<Longrightarrow>
   touches_only p db (db\<lparr>edb_plan_limits := rows\<rparr>)"
  by (auto simp: touches_only_def same_tenants_def plan_part_def plan_by_id_def plan_limits_of_def)

lemma plan_by_id_id: "plan_by_id db p = Some r \<Longrightarrow> prow_id r = p"
  by (auto simp: plan_by_id_def find_Some_iff)

lemma find_limit: "find (limit_of p k) rows = Some pl \<Longrightarrow> plrow_plan_id pl = p \<and> plrow_limit_key pl = k"
  by (auto simp: find_Some_iff limit_of_def)

lemma find_feature: "find (feature_of p k) rows = Some f \<Longrightarrow> pfrow_plan_id f = p \<and> pfrow_feature_key f = k"
  by (auto simp: find_Some_iff feature_of_def)

lemma switched_simps [simp]:
  "pfrow_plan_id (switched now on f) = pfrow_plan_id f" "pfrow_feature_key (switched now on f) = pfrow_feature_key f"
  "pfrow_enabled (switched now on f) = on"
  by (simp_all add: switched_def)

lemma upsert_touches: "touches_only p db (upsert_limit a p db i)"
proof (cases "find (limit_of p (trim (plitem_limit_key i))) (edb_plan_limits db)")
  case (Some pl)
  then show ?thesis
    using find_limit [OF Some]
    by (auto simp: upsert_limit_def Let_def limit_of_def intro!: touches_limits filter_replace)
qed (auto simp: upsert_limit_def Let_def intro!: touches_limits)

lemma drop_touches: "touches_only p db (drop_limit a p db pl)"
  unfolding drop_limit_def touches_record
  by (rule touches_limits) (auto simp: limit_of_def filter_filter intro!: filter_cong)

lemma foldl_touches: "(\<And>db x. touches_only p db (f db x)) \<Longrightarrow> touches_only p db (foldl f db xs)"
  by (induction xs arbitrary: db) (auto intro: touches_trans)

lemma bulk_feature_other:
  assumes "q \<noteq> p"
  shows "filter (\<lambda>f. pfrow_plan_id f = q) (fst (bulk_feature a p ks st kb)) = filter (\<lambda>f. pfrow_plan_id f = q) (fst st)"
proof -
  have "filter (\<lambda>f. pfrow_plan_id f = q) (map (\<lambda>f. if feature_of p k f then switched n on f else f) rows) =
      filter (\<lambda>f. pfrow_plan_id f = q) rows" for k n on rows
    using assms by (induction rows) (auto simp: feature_of_def)
  then show ?thesis using assms by (auto simp: bulk_feature_def new_plan_feature_def split: prod.split)
qed

lemma bulk_features_other:
  "q \<noteq> p \<Longrightarrow> filter (\<lambda>f. pfrow_plan_id f = q) (fst (foldl (bulk_feature a p ks) st items)) =
     filter (\<lambda>f. pfrow_plan_id f = q) (fst st)"
  by (induction items arbitrary: st) (simp_all add: bulk_feature_other)

lemma bulk_features_touches:
  assumes "bulk_set_plan_features a p items db = Inr db'"
  shows "touches_only p db db'"
proof -
  obtain rows created modified where f: "foldl (bulk_feature a p (map pfrow_feature_key (filter (\<lambda>f. pfrow_plan_id f = p)
      (edb_plan_features db)))) (edb_plan_features db, [], []) items = (rows, created, modified)"
    by (metis prod_cases3)
  then have "touches_only p db (db\<lparr>edb_plan_features := rows\<rparr>)"
    using bulk_features_other [of _ p a _ "(edb_plan_features db, [], [])" items] by (intro touches_features) (metis fst_conv)
  then show ?thesis
    using assms f by (auto simp: bulk_set_plan_features_def Let_def split: if_splits)
qed

lemma bulk_limits_touches: "bulk_set_plan_limits a p items db = Inr db' \<Longrightarrow> touches_only p db db'"
  by (auto simp: bulk_set_plan_limits_def Let_def split: if_splits option.splits
      intro!: touches_trans [OF foldl_touches [OF upsert_touches] foldl_touches [OF drop_touches]])

lemma create_feature_touches: "create_plan_feature a p k on db = Inr db' \<Longrightarrow> touches_only p db db'"
  by (auto simp: create_plan_feature_def new_plan_feature_def split: if_splits intro!: touches_features)

lemma set_feature_touches:
  assumes "set_plan_feature_enabled a p k on db = Inr db'"
  shows "touches_only p db db'"
proof (cases "find (feature_of p k) (edb_plan_features db)")
  case (Some f)
  then show ?thesis
    using assms find_feature [OF Some]
    by (auto simp: set_plan_feature_enabled_def feature_of_def intro!: touches_features filter_replace)
qed (use assms create_feature_touches in \<open>auto simp: set_plan_feature_enabled_def\<close>)

lemma touched_id [simp]: "prow_id (touched_plan now old new) = prow_id new"
  by (simp add: touched_plan_def)

lemma update_plan_touches:
  assumes "update_plan a p name code description scope db = Inr db'"
  shows "touches_only p db db'"
proof (cases "plan_by_id db p")
  case (Some r)
  then show ?thesis
    using assms plan_by_id_id [OF Some]
    by (auto simp: update_plan_def Let_def split: if_splits intro!: touches_plan)
qed (use assms in \<open>simp add: update_plan_def\<close>)

lemma set_active_touches:
  assumes "set_plan_active a p on db = Inr db'"
  shows "touches_only p db db'"
proof (cases "plan_by_id db p")
  case (Some r)
  then show ?thesis
    using assms plan_by_id_id [OF Some] by (auto simp: set_plan_active_def intro!: touches_plan)
qed (use assms in \<open>simp add: set_plan_active_def\<close>)

lemma plan_call_touches:
  assumes "plan_call a call db = Inr db'"
  shows "touches_only (call_plan call) db db'"
proof (cases call)
  case (SetPlanLimits p items)
  then show ?thesis
    using assms by (auto simp: put_plan_limits_def split: option.splits intro: bulk_limits_touches)
qed (use assms in \<open>auto intro: update_plan_touches set_active_touches create_feature_touches set_feature_touches
      bulk_features_touches\<close>)

section \<open>The tenants of a plan\<close>

lemma touched_plan_ids: "touches_only p db db' \<Longrightarrow> map_option prow_id (plan_by_id db' q) = map_option prow_id (plan_by_id db q)"
  by (cases "q = p") (simp_all add: touches_only_def plan_part_def)

lemma touched_granting:
  assumes "touches_only p db db'"
  shows "granting_plan db' g t = granting_plan db g t"
proof -
  have "edb_organizations db' = edb_organizations db" "edb_subscriptions db' = edb_subscriptions db"
    using assms by (simp_all add: touches_only_def same_tenants_def)
  then show ?thesis
    using touched_plan_ids [OF assms]
    by (simp add: granting_plan_def in_good_standing_def plan_by_id_def split: list.split)
qed

lemma untouched_plan:
  assumes touch: "touches_only p db db'" and part: "plan_part db' (srow_plan_id s) = plan_part db (srow_plan_id s)"
  shows "resolve_plan db' org s t = resolve_plan db org s t"
proof -
  let ?q = "srow_plan_id s"
  have found: "find (\<lambda>r. prow_id r = ?q) (edb_plans db') = find (\<lambda>r. prow_id r = ?q) (edb_plans db)"
    using part by (simp add: plan_part_def plan_by_id_def)
  have maps: "effective_feature_map db' g ?q t = effective_feature_map db g ?q t" "effective_limits db' g ?q = effective_limits db g ?q" for g
    using part touch
    by (simp_all add: effective_feature_map_def effective_limits_def plan_feature_map_def org_overrides_def org_limits_def
        plan_part_def plan_limits_of_def touches_only_def same_tenants_def)
  show ?thesis
  proof (cases "find (\<lambda>r. prow_id r = ?q) (edb_plans db)")
    case (Some pl)
    then have "prow_id pl = ?q" by (auto simp: find_Some_iff)
    then show ?thesis unfolding resolve_plan_def found Some by (simp add: maps)
  qed (simp add: resolve_plan_def found)
qed

lemma single_candidate:
  assumes "subscription_candidates db g t = [s]" and "in_good_standing db g"
  shows "granting_plan db g t = map_option prow_id (plan_by_id db (srow_plan_id s))"
  using assms by (simp add: granting_plan_def candidates_eq plan_by_id_def)

lemma resolve_other_plan:
  assumes touch: "touches_only p db db'" and other: "granting_plan db g t \<noteq> Some p"
  shows "resolve_entitlements db' g t = resolve_entitlements db g t"
proof -
  have same: "edb_organizations db' = edb_organizations db" "subscription_candidates db' g t = subscription_candidates db g t"
    using touch by (simp_all add: touches_only_def same_tenants_def subscription_candidates_def)
  have "resolve_plan db' org s t = resolve_plan db org s t"
    if s: "subscription_candidates db g t = [s]" and good: "in_good_standing db g" for org s
  proof (cases "srow_plan_id s = p")
    case False
    then show ?thesis using touch by (intro untouched_plan [OF touch]) (simp add: touches_only_def)
  next
    case True
    then have "plan_by_id db p = None"
      using other single_candidate [OF s good] by (cases "plan_by_id db p") (auto dest: plan_by_id_id)
    then have "plan_by_id db' p = None" using touched_plan_ids [OF touch, of p] by simp
    with \<open>plan_by_id db p = None\<close> True show ?thesis by (simp add: resolve_plan_def plan_by_id_def)
  qed
  then show ?thesis
    unfolding resolve_entitlements_def same
    by (auto simp: in_good_standing_def split: option.split list.split)
qed

lemma plan_step_touches:
  "touches_only (call_plan (snd e)) db (plan_service_step db e)"
  using plan_call_touches by (auto simp: plan_service_step_def split: sum.split)

text \<open>
  C12 An edit of a plan stays with its tenants: whatever calls change the plans, an organization whose current
  subscription is to none of these plans resolves to exactly what it resolved to before.
\<close>

theorem plan_edits_isolated:
  assumes "\<And>e. e \<in> set calls \<Longrightarrow> granting_plan db g t \<noteq> Some (call_plan (snd e))"
  shows "resolve_entitlements (run plan_service_step db calls) g t = resolve_entitlements db g t"
  using assms
proof (induction calls arbitrary: db)
  case (Cons e calls)
  note touch = plan_step_touches [of e db]
  have "resolve_entitlements (plan_service_step db e) g t = resolve_entitlements db g t"
    by (rule resolve_other_plan [OF touch]) (simp add: Cons.prems)
  moreover have "granting_plan (plan_service_step db e) g t = granting_plan db g t" by (rule touched_granting [OF touch])
  ultimately show ?case using Cons by simp
qed simp

section \<open>Features\<close>

definition plan_keys_unique :: "EntitlementDb \<Rightarrow> bool" where
  "plan_keys_unique db \<longleftrightarrow>
     distinct (map (\<lambda>f. (pfrow_plan_id f, pfrow_feature_key f)) (edb_plan_features db)) \<and>
     distinct (map (\<lambda>l. (plrow_plan_id l, plrow_limit_key l)) (edb_plan_limits db))"

lemma plan_feature_lookup:
  assumes "plan_keys_unique db"
  shows "map_of (plan_feature_map db p) k = map_option pfrow_enabled (find (feature_of p k) (edb_plan_features db))"
proof -
  let ?xs = "filter (\<lambda>f. pfrow_plan_id f = p) (edb_plan_features db)"
  have "distinct (map pfrow_feature_key ?xs)"
    using assms by (auto simp: plan_keys_unique_def distinct_map inj_on_def intro: distinct_filter)
  then have "find (\<lambda>f. pfrow_feature_key f = k) (rev ?xs) = find (\<lambda>f. pfrow_feature_key f = k) ?xs"
    by (rule find_rev) simp
  then show ?thesis
    by (simp add: plan_feature_map_def dict_of_lookup find_filter feature_of_def [abs_def] split: option.split)
qed

lemma set_feature_found:
  assumes ok: "set_plan_feature_enabled a p k on db = Inr db'"
  shows "find (feature_of p k') (edb_plan_features db') =
      (if k' = k then map_option (switched (actor_now a) on) (Some (or_else (find (feature_of p k) (edb_plan_features db))
          (new_plan_feature a p k on)))
       else find (feature_of p k') (edb_plan_features db))"
proof (cases "find (feature_of p k) (edb_plan_features db)")
  case None
  then have rows: "edb_plan_features db' = edb_plan_features db @ [new_plan_feature a p k on]"
    using ok by (auto simp: set_plan_feature_enabled_def create_plan_feature_def split: if_splits)
  have new: "feature_of p k' (new_plan_feature a p k on) \<longleftrightarrow> k' = k" "switched n on (new_plan_feature a p k on) = new_plan_feature a p k on" for k' n
    by (auto simp: feature_of_def new_plan_feature_def switched_def)
  show ?thesis using None by (simp add: rows find_append new or_else_def split: option.split)
next
  case (Some f)
  let ?new = "switched (actor_now a) on f"
  have rows: "edb_plan_features db' = replace_rows (feature_of p k) ?new (edb_plan_features db)"
    using ok Some by (auto simp: set_plan_feature_enabled_def)
  have new: "feature_of p k' ?new \<longleftrightarrow> k = k'" for k' by (simp add: feature_of_def find_feature [OF Some])
  have "find (feature_of p k) (replace_rows (feature_of p k) ?new rows) = map_option (\<lambda>f. ?new) (find (feature_of p k) rows)"
    for rows by (induction rows) (auto simp: replace_rows_def new)
  moreover have "find (feature_of p k') (replace_rows (feature_of p k) ?new rows) = find (feature_of p k') rows" if "k' \<noteq> k" for rows
  proof (rule find_other_replace)
    show "\<not> feature_of p k' ?new" using that new by simp
    show "\<not> feature_of p k x" if "feature_of p k' x" for x using that \<open>k' \<noteq> k\<close> by (simp add: feature_of_def)
  qed
  ultimately show ?thesis using Some by (simp add: rows or_else_def)
qed

lemma replaced_distinct:
  "find P rows = Some r \<Longrightarrow> key new = key r \<Longrightarrow> (\<And>x. x \<in> set rows \<Longrightarrow> P x \<Longrightarrow> key x = key r) \<Longrightarrow>
   map key (replace_rows P new rows) = map key rows"
  by (auto simp: replace_rows_def)

lemma set_feature_unique:
  assumes unique: "plan_keys_unique db" and ok: "set_plan_feature_enabled a p k on db = Inr db'"
  shows "plan_keys_unique db'"
proof (cases "find (feature_of p k) (edb_plan_features db)")
  case None
  then have "edb_plan_features db' = edb_plan_features db @ [new_plan_feature a p k on]" "edb_plan_limits db' = edb_plan_limits db"
    using ok by (auto simp: set_plan_feature_enabled_def create_plan_feature_def split: if_splits)
  then show ?thesis
    using unique None by (auto simp: plan_keys_unique_def new_plan_feature_def find_None_iff feature_of_def)
next
  case (Some f)
  have "map (\<lambda>f. (pfrow_plan_id f, pfrow_feature_key f)) (replace_rows (feature_of p k) (switched (actor_now a) on f)
      (edb_plan_features db)) = map (\<lambda>f. (pfrow_plan_id f, pfrow_feature_key f)) (edb_plan_features db)"
    using find_feature [OF Some] by (intro replaced_distinct [OF Some]) (auto simp: feature_of_def)
  with assms Some show ?thesis by (auto simp: set_plan_feature_enabled_def plan_keys_unique_def)
qed

text \<open>
  A feature that is switched on a plan is switched for its tenants: an organization on the plan is granted the
  feature afterwards exactly when it was enabled, unless an unexpired override of its own decides; and no
  organization on the plan gains or loses any other feature.
\<close>

theorem plan_feature_reaches_tenants:
  assumes unique: "rows_unique db" "plan_keys_unique db" and ok: "set_plan_feature_enabled a p k on db = Inr db'"
    and g: "granting_plan db g t = Some p"
  shows "feature_granted (resolve_entitlements db' g t) k' \<longleftrightarrow>
    (if k' = k \<and> live_override db g t k = None then on else feature_granted (resolve_entitlements db g t) k')"
proof -
  have touch: "touches_only p db db'" by (rule set_feature_touches [OF ok])
  have unique': "rows_unique db'" using unique(1) touch by (simp add: rows_unique_def touches_only_def same_tenants_def)
  have live: "live_override db' g t k'' = live_override db g t k''" for k''
    using touch by (simp add: live_override_def touches_only_def same_tenants_def)
  have plan: "granting_plan db' g t = Some p" using touched_granting [OF touch] g by simp
  have "plan_grants db' p k' = (if k' = k then on else plan_grants db p k')"
    by (simp add: plan_grants_def plan_feature_lookup [OF unique(2)] plan_feature_lookup [OF set_feature_unique [OF unique(2) ok]]
        set_feature_found [OF ok] or_else_def option.map_comp comp_def split: option.split)
  then show ?thesis
    by (auto simp: granted_iff [OF unique'] granted_iff [OF unique(1)] plan g live split: option.split)
qed

section \<open>The limits of a plan\<close>

text \<open>A limit as the resolver and the page read it.\<close>

definition limit_setting :: "PlanLimitRow \<Rightarrow> int option \<times> bool" where
  "limit_setting l = (plrow_limit_value l, plrow_is_unlimited l)"

definition plan_limit_at :: "EntitlementDb \<Rightarrow> string \<Rightarrow> string \<Rightarrow> (int option \<times> bool) option" where
  "plan_limit_at db p k = map_option limit_setting (find (limit_of p k) (edb_plan_limits db))"

definition item_setting :: "PlanLimitItem \<Rightarrow> int option \<times> bool" where
  "item_setting i = (item_value i, plitem_is_unlimited i)"

definition item_key :: "PlanLimitItem \<Rightarrow> string" where
  "item_key i = trim (plitem_limit_key i)"

lemma upsert_at:
  "plan_limit_at (upsert_limit a p db i) p k = (if k = item_key i then Some (item_setting i) else plan_limit_at db p k)"
proof (cases "find (limit_of p (item_key i)) (edb_plan_limits db)")
  case None
  then show ?thesis
    by (auto simp: upsert_limit_def Let_def plan_limit_at_def item_key_def find_append limit_of_def item_setting_def
        limit_setting_def split: option.split)
next
  case (Some pl)
  let ?new = "pl\<lparr>plrow_limit_value := item_value i, plrow_is_unlimited := plitem_is_unlimited i, plrow_updated_at := actor_now a\<rparr>"
  have new: "limit_of p k' ?new \<longleftrightarrow> item_key i = k'" for k' by (simp add: limit_of_def find_limit [OF Some])
  have at: "find (limit_of p (item_key i)) (replace_rows (limit_of p (item_key i)) ?new rows) =
      map_option (\<lambda>l. ?new) (find (limit_of p (item_key i)) rows)" for rows
    by (induction rows) (auto simp: replace_rows_def new)
  have other: "find (limit_of p k') (replace_rows (limit_of p (item_key i)) ?new rows) = find (limit_of p k') rows"
    if "k' \<noteq> item_key i" for k' rows
  proof (rule find_other_replace)
    show "\<not> limit_of p k' ?new" using that new by simp
    show "\<not> limit_of p (item_key i) x" if "limit_of p k' x" for x using that \<open>k' \<noteq> item_key i\<close> by (simp add: limit_of_def)
  qed
  show ?thesis
    using Some at other
    by (auto simp: upsert_limit_def Let_def plan_limit_at_def item_key_def [symmetric] item_setting_def limit_setting_def)
qed

lemma find_filter_conj: "find P (filter Q xs) = find (\<lambda>x. Q x \<and> P x) xs"
  by (rule find_filter)

lemma drop_at:
  "plan_limit_at (drop_limit a p db pl) p k = (if k = plrow_limit_key pl then None else plan_limit_at db p k)"
proof -
  have "(\<lambda>l. \<not> limit_of p (plrow_limit_key pl) l \<and> limit_of p k l) =
      (if k = plrow_limit_key pl then (\<lambda>l. False) else limit_of p k)"
    by (auto simp: limit_of_def)
  moreover have "find (\<lambda>l. False) xs = None" for xs :: "PlanLimitRow list" by (induction xs) auto
  ultimately show ?thesis by (simp add: drop_limit_def plan_limit_at_def find_filter)
qed

lemma upserts_at:
  "distinct (map item_key items) \<Longrightarrow>
   plan_limit_at (foldl (upsert_limit a p) db items) p k =
     (case find (\<lambda>i. item_key i = k) items of Some i \<Rightarrow> Some (item_setting i) | None \<Rightarrow> plan_limit_at db p k)"
proof (induction items arbitrary: db)
  case (Cons i items)
  have "find (\<lambda>j. item_key j = item_key i) items = None"
    using Cons.prems unfolding find_None_iff by (metis distinct.simps(2) imageI list.set_map list.simps(9))
  then show ?case using Cons by (auto simp: upsert_at split: option.split)
qed simp

lemma drops_at:
  "plan_limit_at (foldl (drop_limit a p) db gone) p k =
     (if k \<in> plrow_limit_key ` set gone then None else plan_limit_at db p k)"
  by (induction gone arbitrary: db) (auto simp: drop_at)

lemma checked_keys: "check_limit_keys seen items = None \<Longrightarrow>
   distinct (map item_key items) \<and> set (map item_key items) \<inter> set seen = {} \<and> [] \<notin> set (map item_key items)"
proof (induction items arbitrary: seen)
  case (Cons i items)
  then have "item_key i \<noteq> []" "item_key i \<notin> set seen" "check_limit_keys (item_key i # seen) items = None"
    by (auto simp: item_key_def Let_def split: if_splits)
  with Cons.IH [of "item_key i # seen"] show ?case by auto
qed simp

lemma bulk_limits_at:
  assumes "bulk_set_plan_limits a p items db = Inr db'"
  shows "distinct (map item_key items)"
    "plan_limit_at db' p k = map_option item_setting (find (\<lambda>i. item_key i = k) items)"
proof -
  let ?gone = "filter (\<lambda>l. plrow_plan_id l = p \<and> plrow_limit_key l \<notin> set (map item_key items)) (edb_plan_limits db)"
  have keys: "map (trim \<circ> plitem_limit_key) items = map item_key items" by (simp add: item_key_def)
  have db': "db' = foldl (drop_limit a p) (foldl (upsert_limit a p) db items) ?gone"
    and checked: "check_limit_keys [] items = None"
    using assms unfolding bulk_set_plan_limits_def Let_def keys by (auto split: if_splits option.splits)
  show d: "distinct (map item_key items)" using checked_keys [OF checked] by simp
  show "plan_limit_at db' p k = map_option item_setting (find (\<lambda>i. item_key i = k) items)"
  proof (cases "find (\<lambda>i. item_key i = k) items")
    case (Some i)
    then have "k \<in> set (map item_key items)" by (auto simp: find_Some_iff)
    then have "k \<notin> plrow_limit_key ` set ?gone" by (auto simp del: set_map)
    with Some show ?thesis by (simp add: db' drops_at upserts_at [OF d])
  next
    case None
    then have out: "k \<notin> set (map item_key items)" by (auto simp: find_None_iff)
    have "plan_limit_at db p k = None \<or> k \<in> plrow_limit_key ` set ?gone"
    proof (cases "find (limit_of p k) (edb_plan_limits db)")
      case (Some l)
      then have "l \<in> set ?gone" "plrow_limit_key l = k"
        using out by (auto simp: find_Some_iff limit_of_def simp del: set_map)
      then show ?thesis by blast
    qed (simp add: plan_limit_at_def)
    with None show ?thesis by (auto simp: db' drops_at upserts_at [OF d])
  qed
qed

text \<open>Uniqueness is kept.\<close>

definition limits_unique :: "EntitlementDb \<Rightarrow> bool" where
  "limits_unique db \<longleftrightarrow> distinct (map (\<lambda>l. (plrow_plan_id l, plrow_limit_key l)) (edb_plan_limits db))"

lemma upsert_unique: "limits_unique db \<Longrightarrow> limits_unique (upsert_limit a p db i)"
proof (cases "find (limit_of p (trim (plitem_limit_key i))) (edb_plan_limits db)")
  case None
  then have "\<exists>l. edb_plan_limits (upsert_limit a p db i) = edb_plan_limits db @ [l] \<and> plrow_plan_id l = p \<and>
      plrow_limit_key l = trim (plitem_limit_key i)"
    by (simp add: upsert_limit_def Let_def)
  moreover assume "limits_unique db"
  ultimately show ?thesis
    using None by (force simp: limits_unique_def find_None_iff limit_of_def)
next
  case (Some pl)
  moreover assume "limits_unique db"
  moreover have "map (\<lambda>l. (plrow_plan_id l, plrow_limit_key l)) (replace_rows (limit_of p (trim (plitem_limit_key i)))
      (pl\<lparr>plrow_limit_value := v, plrow_is_unlimited := u, plrow_updated_at := n\<rparr>) (edb_plan_limits db)) =
      map (\<lambda>l. (plrow_plan_id l, plrow_limit_key l)) (edb_plan_limits db)" for v u n
    using find_limit [OF Some] by (intro replaced_distinct [OF Some]) (auto simp: limit_of_def)
  ultimately show ?thesis by (simp add: upsert_limit_def Let_def limits_unique_def)
qed

lemma drop_unique: "limits_unique db \<Longrightarrow> limits_unique (drop_limit a p db pl)"
  by (simp add: drop_limit_def limits_unique_def distinct_map_filter)

lemma foldl_inv: "P db \<Longrightarrow> (\<And>db x. P db \<Longrightarrow> P (f db x)) \<Longrightarrow> P (foldl f db xs)"
  by (induction xs arbitrary: db) auto

lemma bulk_limits_unique: "limits_unique db \<Longrightarrow> bulk_set_plan_limits a p items db = Inr db' \<Longrightarrow> limits_unique db'"
  by (auto simp: bulk_set_plan_limits_def Let_def split: if_splits option.splits
      intro!: foldl_inv [where P = limits_unique] upsert_unique drop_unique)

text \<open>The limits of the resolver, for a tenant without rows of its own for the key.\<close>

lemma tenant_free_lookup:
  assumes none: "find (\<lambda>r. lmrow_limit_key r = k) T = None" and d: "distinct (map plrow_limit_key P)"
  shows "map_of (effective_limit_map P T) k = map_option plan_limit (find (\<lambda>l. plrow_limit_key l = k) P)"
proof -
  let ?tenant = "dict_of lmrow_limit_key id [] T"
  let ?base = "dict_of plrow_limit_key (\<lambda>pl. case map_of ?tenant (plrow_limit_key pl) of
      Some row \<Rightarrow> tenant_limit (plrow_limit_key pl) row | None \<Rightarrow> plan_limit pl) [] P"
  have "find (\<lambda>r. lmrow_limit_key r = k) (rev T) = None" using none by (auto simp: find_None_iff)
  then have t: "map_of ?tenant k = None" by (simp add: dict_of_lookup)
  have r: "find (\<lambda>l. plrow_limit_key l = k) (rev P) = find (\<lambda>l. plrow_limit_key l = k) P"
    by (rule find_rev [OF d]) simp
  have b: "map_of ?base k = map_option plan_limit (find (\<lambda>l. plrow_limit_key l = k) P)"
  proof (cases "find (\<lambda>l. plrow_limit_key l = k) P")
    case (Some l)
    then have "plrow_limit_key l = k" by (auto simp: find_Some_iff)
    with Some show ?thesis
      by (simp add: dict_of_lookup [of plrow_limit_key] t r)
  qed (simp add: dict_of_lookup [of plrow_limit_key] r)
  have "effective_limit_map P T = foldl add_standalone ?base T"
    unfolding effective_limit_map_def Let_def add_standalone_def by (rule refl)
  then show ?thesis by (simp add: standalone_lookup b none split: option.split)
qed

lemma filter_absent:
  assumes "limits_keyed m" and "map_of m k = None"
  shows "filter (\<lambda>v. ulimit_limit_key v = k) (map snd m) = []"
  using assms by (fastforce simp: limits_keyed_def filter_empty_conv map_of_eq_None_iff image_iff)

lemma resolved_limit:
  assumes unique: "limits_unique db" and g: "granting_plan db g t = Some p"
    and none: "find (\<lambda>r. lmrow_limit_key r = k) (org_limits db g) = None"
  shows "filter (\<lambda>u. ulimit_limit_key u = k) (reso_usage_limits (resolve_entitlements db g t)) =
    (case plan_limit_at db p k of None \<Rightarrow> []
     | Some (v, u) \<Rightarrow> [\<lparr>ulimit_feature_key = k, ulimit_limit_key = k, ulimit_limit_value = v, ulimit_is_unlimited = u\<rparr>])"
proof -
  let ?P = "filter (\<lambda>l. plrow_plan_id l = p) (edb_plan_limits db)"
  let ?m = "effective_limit_map ?P (org_limits db g)"
  have d: "distinct (map plrow_limit_key ?P)"
    using unique by (auto simp: limits_unique_def distinct_map inj_on_def intro: distinct_filter)
  have at: "map_of ?m k = map_option plan_limit (find (limit_of p k) (edb_plan_limits db))"
    by (simp add: tenant_free_lookup [OF none d] find_filter limit_of_def [abs_def])
  have lims: "filter (\<lambda>u. ulimit_limit_key u = k) (reso_usage_limits (resolve_entitlements db g t)) =
      sort_key (\<lambda>r. [ulimit_feature_key r, ulimit_limit_key r]) (filter (\<lambda>u. ulimit_limit_key u = k) (map snd ?m))"
    using g by (simp add: resolve_features effective_limits_def filter_sort)
  show ?thesis
  proof (cases "find (limit_of p k) (edb_plan_limits db)")
    case None
    then show ?thesis
      unfolding lims using filter_absent [OF effective_limit_map_keyed, of ?P "org_limits db g" k] at
      by (simp add: plan_limit_at_def)
  next
    case (Some l)
    then show ?thesis
      unfolding lims using filter_keyed [OF effective_limit_map_keyed, of ?P "org_limits db g" k] at find_limit [OF Some]
      by (simp add: plan_limit_at_def limit_setting_def plan_limit_def)
  qed
qed

text \<open>What a valid request sends.\<close>

lemma validated: "validate_limit i = Some j \<Longrightarrow> plitem_limit_key j = plitem_limit_key i \<and> item_setting j = item_setting i"
  by (auto simp: validate_limit_def item_setting_def item_value_def split: if_splits)

lemma those_map: "those (map f xs) = Some ys \<Longrightarrow> list_all2 (\<lambda>x y. f x = Some y) xs ys"
  by (induction xs arbitrary: ys) (auto split: option.splits)

lemma validated_find:
  assumes "those (map validate_limit items) = Some valid"
  shows "map_option item_setting (find (\<lambda>i. item_key i = k) valid) = map_option item_setting (find (\<lambda>i. item_key i = k) items)"
    "map item_key valid = map item_key items"
proof -
  have "list_all2 (\<lambda>i j. item_key j = item_key i \<and> item_setting j = item_setting i) items valid"
    using those_map [OF assms] by (rule list_all2_mono) (auto dest: validated simp: item_key_def)
  then show "map_option item_setting (find (\<lambda>i. item_key i = k) valid) = map_option item_setting (find (\<lambda>i. item_key i = k) items)"
    "map item_key valid = map item_key items"
    by (induction rule: list_all2_induct) auto
qed

text \<open>
  The limits that were saved last are the limits of the tenants: after a save of the limits of a plan, an
  organization on it without limits of its own for a key has exactly the one limit that was sent for it, and none
  for a key that was not sent.
\<close>

theorem plan_limits_reach_tenants:
  assumes unique: "limits_unique db" and ok: "put_plan_limits a p items db = Inr db'"
    and g: "granting_plan db g t = Some p"
    and none: "find (\<lambda>r. lmrow_limit_key r = k) (org_limits db g) = None"
  shows "filter (\<lambda>u. ulimit_limit_key u = k) (reso_usage_limits (resolve_entitlements db' g t)) =
    (case find (\<lambda>i. item_key i = k) items of None \<Rightarrow> []
     | Some i \<Rightarrow> [\<lparr>ulimit_feature_key = k, ulimit_limit_key = k, ulimit_limit_value = item_value i,
                   ulimit_is_unlimited = plitem_is_unlimited i\<rparr>])"
proof -
  obtain valid where v: "those (map validate_limit items) = Some valid" "bulk_set_plan_limits a p valid db = Inr db'"
    using ok by (auto simp: put_plan_limits_def split: option.splits)
  have touch: "touches_only p db db'" by (rule bulk_limits_touches [OF v(2)])
  have "org_limits db' g = org_limits db g" using touch by (simp add: touches_only_def same_tenants_def org_limits_def)
  then have "filter (\<lambda>u. ulimit_limit_key u = k) (reso_usage_limits (resolve_entitlements db' g t)) =
    (case plan_limit_at db' p k of None \<Rightarrow> []
     | Some (v, u) \<Rightarrow> [\<lparr>ulimit_feature_key = k, ulimit_limit_key = k, ulimit_limit_value = v, ulimit_is_unlimited = u\<rparr>])"
    using resolved_limit [OF bulk_limits_unique [OF unique v(2)], of g t p k] touched_granting [OF touch, of g t] g none by simp
  moreover have "plan_limit_at db' p k = map_option item_setting (find (\<lambda>i. item_key i = k) items)"
    by (simp add: bulk_limits_at(2) [OF v(2)] validated_find(1) [OF v(1)])
  ultimately show ?thesis by (simp add: item_setting_def split: option.split)
qed

section \<open>What is never written, and what a trail loses\<close>

lemma write_plan_found:
  "plan_by_id db (prow_id new) \<noteq> None \<Longrightarrow> plan_by_id (write_plan new db) (prow_id new) = Some new"
  using find_replace_other [where key = prow_id and new = new and k = "prow_id new" and q = "prow_id new"]
  by (auto simp: plan_by_id_def write_plan_def)

lemma plan_by_id_record [simp]: "plan_by_id (record_audit_event ev db) p = plan_by_id db p"
  by (simp add: plan_by_id_def)

text \<open>
  The scope and the description of a plan cannot be taken away: an update that sends null for them, as the
  page does for a universal plan and for an empty description, leaves them as they were.
\<close>

theorem null_scope_not_written:
  assumes "update_plan a p name code None None db = Inr db'" and "plan_by_id db p = Some r"
  shows "\<exists>r'. plan_by_id db' p = Some r' \<and> prow_asset_scope r' = prow_asset_scope r \<and>
    prow_description r' = prow_description r"
proof -
  let ?new = "r\<lparr>prow_name := given name (prow_name r), prow_code := given code (prow_code r)\<rparr>"
  have "plan_by_id db' p = Some r \<or> plan_by_id db' p = Some (touched_plan (actor_now a) r ?new)"
    using assms plan_by_id_id [OF assms(2)] write_plan_found [of db "touched_plan (actor_now a) r ?new"]
    by (auto simp: update_plan_def Let_def split: if_splits)
  then show ?thesis by (auto simp: touched_plan_def)
qed

text \<open>
  The trail of a plan can be lost: when the newest three times \<open>limit\<close> events of features and limits are of
  other plans, the trail is empty, whatever happened to this plan before.
\<close>

theorem plan_trail_lost:
  assumes "plan_by_id db p \<noteq> None"
    and "edb_audit db = old @ map (\<lambda>k. feature_event a what (ids k) q k on) keys" and "q \<noteq> p" and "3 * limit \<le> length keys"
  shows "list_plan_audit_events db p limit = Inr []"
proof -
  let ?es = "map (\<lambda>k. feature_event a what (ids k) q k on) keys"
  have any: "filter (event_of_any_plan p) (rev ?es) = rev ?es"
    by (rule filter_True) (auto simp: event_of_any_plan_def feature_event_def plan_event_def)
  have none: "filter (event_of_plan p) (take n (rev ?es)) = []" for n
  proof (rule filter_False)
    show "\<forall>e \<in> set (take n (rev ?es)). \<not> event_of_plan p e"
      using assms(3) by (auto dest!: in_set_takeD simp: event_of_plan_def feature_event_def plan_event_def)
  qed
  have "take (limit * 3) (filter (event_of_any_plan p) (rev (edb_audit db))) = take (limit * 3) (rev ?es)"
    using assms(4) by (simp add: assms(2) any)
  then show ?thesis using assms(1) none by (simp add: list_plan_audit_events_def)
qed

section \<open>Two plans\<close>

text \<open>Beside the tenant of \<open>sample_db\<close>, one on a second plan.\<close>

definition two_plans :: EntitlementDb where
  "two_plans = sample_db
     \<lparr>edb_organizations := edb_organizations sample_db @
        [\<lparr>orow_id = ''globex'', orow_name = ''Globex'', orow_status = ''ACTIVE'', orow_deleted_at = None\<rparr>],
      edb_subscriptions := edb_subscriptions sample_db @
        [\<lparr>srow_id = ''sub-2'', srow_organization_id = ''globex'', srow_plan_id = ''pro'', srow_status = ''ACTIVE'',
          srow_starts_at = 0, srow_ends_at = None, srow_created_at = 0, srow_updated_at = 0\<rparr>],
      edb_plans := edb_plans sample_db @
        [\<lparr>prow_id = ''pro'', prow_code = ''PRO'', prow_name = ''Pro'', prow_description = None, prow_is_active = True,
          prow_asset_scope = None, prow_created_at = 0, prow_updated_at = 0\<rparr>]\<rparr>"

definition platform_actor :: PlanActor where
  "platform_actor = \<lparr>actor_id = Some ''u-1'', actor_organization_id = ''platform'', actor_now = 300,
     actor_new_id = (\<lambda>k. ''new-'' @ k)\<rparr>"

definition sample_limits :: "PlanLimitItem list" where
  "sample_limits = [\<lparr>plitem_limit_key = ''max_users'', plitem_limit_value = Some 40, plitem_is_unlimited = False\<rparr>,
     \<lparr>plitem_limit_key = ''storage_gb'', plitem_limit_value = None, plitem_is_unlimited = True\<rparr>]"

definition sample_edits :: "(PlanActor \<times> PlanCall) list" where
  "sample_edits = [(platform_actor, SetPlanFeature ''starter'' ''copilot'' True),
     (platform_actor, SetPlanLimits ''starter'' sample_limits),
     (platform_actor, UpdatePlan ''starter'' (Some ''Starter 2'') (Some ''STARTER_2'') None None)]"

definition after_edit :: "PlanCall \<Rightarrow> EntitlementDb" where
  "after_edit call = plan_service_step two_plans (platform_actor, call)"

lemma two_plans_eval:
  "granting_plan two_plans ''globex'' 100 = Some ''pro'' \<and> granting_plan two_plans ''acme'' 100 = Some ''starter'' \<and>
   rows_unique two_plans \<and> plan_keys_unique two_plans \<and> limits_unique two_plans \<and>
   live_override two_plans ''acme'' 100 ''copilot'' = None \<and> org_limits two_plans ''acme'' = [] \<and>
   call_plan (snd (hd sample_edits)) = ''starter''"
  by code_simp

lemma sample_edits_plan: "e \<in> set sample_edits \<Longrightarrow> call_plan (snd e) = ''starter''"
  by (auto simp: sample_edits_def)

theorem plan_edits_isolated_witness:
  "resolve_entitlements (run plan_service_step two_plans sample_edits) ''globex'' 100 =
   resolve_entitlements two_plans ''globex'' 100"
  by (rule plan_edits_isolated) (use sample_edits_plan two_plans_eval in auto)

lemma feature_call_succeeds:
  "set_plan_feature_enabled platform_actor ''starter'' ''copilot'' True two_plans =
     Inr (after_edit (SetPlanFeature ''starter'' ''copilot'' True))"
  by code_simp

theorem plan_feature_reaches_tenants_witness:
  "feature_granted (resolve_entitlements (after_edit (SetPlanFeature ''starter'' ''copilot'' True)) ''acme'' 100) ''copilot''"
  using plan_feature_reaches_tenants [OF _ _ feature_call_succeeds, where g = "''acme''" and t = 100 and k' = "''copilot''"]
    two_plans_eval by simp

lemma limits_call_succeeds:
  "put_plan_limits platform_actor ''starter'' sample_limits two_plans = Inr (after_edit (SetPlanLimits ''starter'' sample_limits))"
  by code_simp

theorem plan_limits_reach_tenants_witness:
  "filter (\<lambda>u. ulimit_limit_key u = ''max_users'')
     (reso_usage_limits (resolve_entitlements (after_edit (SetPlanLimits ''starter'' sample_limits)) ''acme'' 100)) =
   [\<lparr>ulimit_feature_key = ''max_users'', ulimit_limit_key = ''max_users'', ulimit_limit_value = Some 40,
     ulimit_is_unlimited = False\<rparr>]"
proof -
  have "find (\<lambda>i. item_key i = ''max_users'') sample_limits = Some (hd sample_limits)" by code_simp
  then show ?thesis
    using plan_limits_reach_tenants [OF _ limits_call_succeeds, where g = "''acme''" and t = 100 and k = "''max_users''"]
      two_plans_eval by (simp add: sample_limits_def item_value_def)
qed

theorem null_scope_not_written_witness:
  "\<exists>r'. plan_by_id (after_edit (UpdatePlan ''starter'' (Some ''Starter'') (Some ''STARTER'') None None)) ''starter'' = Some r' \<and>
    prow_asset_scope r' = Some ''DRONE'' \<and> prow_description r' = None"
proof -
  have "update_plan platform_actor ''starter'' (Some ''Starter'') (Some ''STARTER'') None None two_plans =
      Inr (after_edit (UpdatePlan ''starter'' (Some ''Starter'') (Some ''STARTER'') None None))" by code_simp
  moreover have "plan_by_id two_plans ''starter'' = Some (hd (edb_plans sample_db))" by code_simp
  ultimately show ?thesis using null_scope_not_written by (fastforce simp: sample_db_def)
qed

theorem plan_trail_lost_witness:
  "list_plan_audit_events (two_plans\<lparr>edb_audit := [plan_event platform_actor ''plan.created'' ''Plan'' ''starter'' (JObj [])] @
     map (\<lambda>k. feature_event platform_actor ''enabled'' k ''pro'' k True) [''a'', ''b'', ''c'']\<rparr>) ''starter'' 1 = Inr []"
proof (rule plan_trail_lost [where ids = id and q = "''pro''" and keys = "[''a'', ''b'', ''c'']" and on = True and
    old = "[plan_event platform_actor ''plan.created'' ''Plan'' ''starter'' (JObj [])]" and a = platform_actor and what = "''enabled''"])
  have "plan_by_id two_plans ''starter'' = Some (hd (edb_plans sample_db))" by code_simp
  then show "plan_by_id (two_plans\<lparr>edb_audit := es\<rparr>) ''starter'' \<noteq> None" for es by (simp add: plan_by_id_def)
qed simp_all

end
