(* ===== verification/OrganizationEntitlements.thy ===== *)
theory OrganizationEntitlements
  imports OrganizationPage PlanService
begin

text \<open>
  The table of the features of the organization page beside the resolver of \<open>EntitlementService\<close>: for a page
  that was loaded, when its rows are what the resolver grants, and when not; what saving an override does from
  the dialog to the rows; and, with demonstration data, that the dialog and the buttons edit a map from the
  features to what their overrides say.
\<close>

section \<open>The table and the resolver\<close>

text \<open>
  The answers of the service: the columns of the rows, the texts of the resolution. \<open>show_time\<close> is how the
  serializer writes a time, \<open>explain\<close> the text of a reason.
\<close>

definition override_response :: "(int \<Rightarrow> string) \<Rightarrow> TenantFeatureOverride \<Rightarrow> TenantFeatureOverrideResponse" where
  "override_response show_time r =
     \<lparr>foverride_id = ovrow_id r, foverride_organization_id = ovrow_organization_id r,
      foverride_feature_key = ovrow_feature_key r, foverride_enabled = ovrow_enabled r,
      foverride_reason = ovrow_reason r, foverride_expires_at = map_option show_time (ovrow_expires_at r),
      foverride_created_at = show_time (ovrow_created_at r)\<rparr>"

definition plan_feature_response :: "(int \<Rightarrow> string) \<Rightarrow> PlanFeatureRow \<Rightarrow> PlanFeatureResponse" where
  "plan_feature_response show_time r =
     \<lparr>planfeat_id = pfrow_id r, planfeat_plan_id = pfrow_plan_id r, planfeat_feature_key = pfrow_feature_key r,
      planfeat_enabled = pfrow_enabled r, planfeat_created_at = show_time (pfrow_created_at r),
      planfeat_updated_at = show_time (pfrow_updated_at r)\<rparr>"

definition lit_resolution_status :: "EntitlementResolutionStatus \<Rightarrow> string" where
  "lit_resolution_status s = (case s of
     RES_ACTIVE \<Rightarrow> ''ACTIVE'' | RES_INACTIVE_PLAN \<Rightarrow> ''INACTIVE_PLAN'' | RES_SUSPENDED \<Rightarrow> ''SUSPENDED''
   | RES_NO_SUBSCRIPTION \<Rightarrow> ''NO_SUBSCRIPTION'' | RES_AMBIGUOUS \<Rightarrow> ''AMBIGUOUS'' | RES_INVALID \<Rightarrow> ''INVALID'')"

definition from_resolution ::
  "(ResolutionReason \<Rightarrow> string) \<Rightarrow> string option \<Rightarrow> EntitlementResolution \<Rightarrow> EntitlementResolutionResponse" where
  "from_resolution explain pname r =
     \<lparr>entitle_organization_id = reso_organization_id r,
      entitle_resolution_status = lit_resolution_status (reso_status r),
      entitle_organization_status = reso_organization_status r,
      entitle_subscription_id = reso_subscription_id r,
      entitle_subscription_status = reso_subscription_status r,
      entitle_plan_id = reso_plan_id r, entitle_plan_code = reso_plan_code r, entitle_plan_name = pname,
      entitle_effective_features = reso_effective_features r,
      entitle_usage_limits = reso_usage_limits r, entitle_reason = explain (reso_reason r)\<rparr>"

definition resolved_plan_name :: "EntitlementDb \<Rightarrow> EntitlementResolution \<Rightarrow> string option" where
  "resolved_plan_name db r = (case reso_plan_id r of
     None \<Rightarrow> None
   | Some i \<Rightarrow> map_option prow_name (find (\<lambda>p. prow_id p = i) (edb_plans db)))"

definition entitlements_answer ::
  "(ResolutionReason \<Rightarrow> string) \<Rightarrow> EntitlementDb \<Rightarrow> string \<Rightarrow> int \<Rightarrow> EntitlementResolutionResponse" where
  "entitlements_answer explain db g t =
     (let r = resolve_entitlements db g t in from_resolution explain (resolved_plan_name db r) r)"

definition overrides_answer :: "(int \<Rightarrow> string) \<Rightarrow> EntitlementDb \<Rightarrow> string \<Rightarrow> TenantFeatureOverrideResponse list" where
  "overrides_answer show_time db g =
     map (override_response show_time) (sort_key (\<lambda>r. - ovrow_created_at r) (org_overrides db g))"

text \<open>The page shows the tables as they were at a time: what was loaded, nothing older.\<close>

definition page_shows ::
  "(int \<Rightarrow> string) \<Rightarrow> (ResolutionReason \<Rightarrow> string) \<Rightarrow> EntitlementDb \<Rightarrow> string \<Rightarrow> int \<Rightarrow> string \<Rightarrow> OrgPage \<Rightarrow> bool" where
  "page_shows show_time explain db g t plan p \<longleftrightarrow>
     og_mode p = MODE_REAL \<and> og_overrides p = overrides_answer show_time db g \<and>
     og_entitlements p = Some (entitlements_answer explain db g t) \<and>
     og_planFeatures p = map (plan_feature_response show_time) (plan_features_of db plan)"

definition plan_rows_unique :: "EntitlementDb \<Rightarrow> bool" where
  "plan_rows_unique db \<longleftrightarrow> distinct (map (\<lambda>f. (pfrow_plan_id f, pfrow_feature_key f)) (edb_plan_features db))"

lemma override_shown:
  assumes "rows_unique db"
  shows "find (\<lambda>r. foverride_feature_key r = k) (overrides_answer show_time db g) =
    map_option (override_response show_time) (find (override_row g k) (edb_overrides db))"
proof -
  have "find (\<lambda>r. ovrow_feature_key r = k) (sort_key (\<lambda>r. - ovrow_created_at r) (org_overrides db g)) =
      find (\<lambda>r. ovrow_feature_key r = k) (org_overrides db g)"
    using assms unfolding org_overrides_def rows_unique_def
    by (intro find_sorted [where key = ovrow_feature_key])
      (auto simp: distinct_map override_key_def inj_on_def intro: distinct_filter)
  also have "\<dots> = find (override_row g k) (edb_overrides db)"
    unfolding org_overrides_def find_filter override_row_def by (rule refl)
  finally show ?thesis
    by (simp add: overrides_answer_def found_map comp_def override_response_def)
qed

definition plan_row :: "EntitlementDb \<Rightarrow> string \<Rightarrow> string \<Rightarrow> PlanFeatureRow option" where
  "plan_row db plan k = find (\<lambda>f. pfrow_plan_id f = plan \<and> pfrow_feature_key f = k) (edb_plan_features db)"

lemma plan_keys_distinct:
  "plan_rows_unique db \<Longrightarrow> distinct (map pfrow_feature_key (filter (\<lambda>f. pfrow_plan_id f = plan) (edb_plan_features db)))"
  by (auto simp: plan_rows_unique_def distinct_map inj_on_def intro: distinct_filter)

lemma plan_shown:
  assumes "plan_rows_unique db"
  shows "find (\<lambda>f. planfeat_feature_key f = k) (map (plan_feature_response show_time) (plan_features_of db plan)) =
    map_option (plan_feature_response show_time) (plan_row db plan k)"
proof -
  have "find (\<lambda>f. pfrow_feature_key f = k) (plan_features_of db plan) =
      find (\<lambda>f. pfrow_feature_key f = k) (filter (\<lambda>f. pfrow_plan_id f = plan) (edb_plan_features db))"
    unfolding plan_features_of_def
    by (rule find_sorted [OF plan_keys_distinct [OF assms]]) simp
  then show ?thesis
    by (simp add: found_map comp_def plan_feature_response_def find_filter plan_row_def)
qed

lemma plan_lookup:
  assumes "plan_rows_unique db"
  shows "map_of (plan_feature_map db plan) k = map_option pfrow_enabled (plan_row db plan k)"
proof -
  let ?xs = "filter (\<lambda>f. pfrow_plan_id f = plan) (edb_plan_features db)"
  have "find (\<lambda>f. pfrow_feature_key f = k) (rev ?xs) = find (\<lambda>f. pfrow_feature_key f = k) ?xs"
    by (rule find_rev [OF plan_keys_distinct [OF assms]]) simp
  then show ?thesis
    by (simp add: plan_feature_map_def dict_of_lookup find_filter plan_row_def split: option.split)
qed

text \<open>The rows: one for each feature that was met anywhere.\<close>

lemma add_absent_keys: "fst ` set (foldl add_absent m xs) = fst ` set m \<union> fst ` set xs"
proof (induction xs arbitrary: m)
  case (Cons x xs)
  have "fst ` set (add_absent m x) = insert (fst x) (fst ` set m)"
    by (auto simp: add_absent_def map_of_eq_None_iff image_iff)
  with Cons show ?case by simp
qed simp

lemma feature_row_key [simp]: "row_feature_key (feature_row p kn) = fst kn"
  by (simp add: feature_row_def Let_def)

lemma row_keys:
  "row_feature_key ` set (featureRows p) = fst ` set (featureMap p)"
  by (simp add: featureRows_def image_image)

lemma row_exists:
  "k \<in> fst ` set (featureMap p) \<Longrightarrow> \<exists>f \<in> set (featureRows p). row_feature_key f = k"
  unfolding row_keys [symmetric] by blast

text \<open>What the override of a feature, expired or not, or else the plan says of it.\<close>

definition shown_enabled :: "EntitlementDb \<Rightarrow> string \<Rightarrow> string \<Rightarrow> string \<Rightarrow> bool" where
  "shown_enabled db g plan k \<longleftrightarrow>
    (case find (override_row g k) (edb_overrides db) of None \<Rightarrow> plan_grants db plan k | Some r \<Rightarrow> ovrow_enabled r)"

definition enabled_keys :: "OrgPage \<Rightarrow> string set" where
  "enabled_keys p = row_feature_key ` {f \<in> set (featureRows p). row_enabled f}"

lemma plan_row_exists:
  assumes "plan_row db plan k \<noteq> None" and "og_planFeatures p = map (plan_feature_response show_time) (plan_features_of db plan)"
  shows "k \<in> fst ` set (featureMap p)"
proof -
  obtain f where "f \<in> set (plan_features_of db plan)" "pfrow_feature_key f = k"
    using assms(1) by (auto simp: plan_row_def plan_features_of_def find_None_iff)
  then show ?thesis
    using assms(2) by (force simp: featureMap_def Let_def add_absent_keys named_def image_image plan_feature_response_def)
qed

lemma shown_override_exists:
  assumes "find (override_row g k) (edb_overrides db) = Some r" and "og_overrides p = overrides_answer show_time db g"
  shows "k \<in> fst ` set (featureMap p)"
proof -
  have "r \<in> set (org_overrides db g)" "ovrow_feature_key r = k"
    using assms(1) by (auto simp: find_Some_iff org_overrides_def override_row_def)
  then have "k \<in> foverride_feature_key ` set (og_overrides p)"
    by (force simp: assms(2) overrides_answer_def override_response_def image_image)
  then show ?thesis by (auto simp: featureMap_def Let_def add_absent_keys named_def image_image)
qed

text \<open>The rows of a page with real data whose overrides and features of the plan are those of the tables.\<close>

lemma enabled_keys_are:
  assumes unique: "rows_unique db" "plan_rows_unique db" and real: "og_mode p = MODE_REAL"
    and ov: "og_overrides p = overrides_answer show_time db g"
    and pf: "og_planFeatures p = map (plan_feature_response show_time) (plan_features_of db plan)"
    and e: "og_entitlements p = Some e"
    and eff: "\<And>k. find (override_row g k) (edb_overrides db) = None \<Longrightarrow>
      map_of (entitle_effective_features e) k \<in> {None, map_of (plan_feature_map db plan) k}"
  shows "enabled_keys p = {k. shown_enabled db g plan k}"
proof -
  have row: "row_enabled (feature_row p (k, n)) \<longleftrightarrow> shown_enabled db g plan k" for k n
  proof -
    have o: "find (\<lambda>r. foverride_feature_key r = k) (og_overrides p) =
        map_option (override_response show_time) (find (override_row g k) (edb_overrides db))"
      using override_shown [OF unique(1)] by (simp add: ov)
    have f: "find (\<lambda>f. planfeat_feature_key f = k) (og_planFeatures p) =
        map_option (plan_feature_response show_time) (plan_row db plan k)"
      using plan_shown [OF unique(2)] by (simp add: pf)
    show ?thesis
    proof (cases "find (override_row g k) (edb_overrides db)")
      case (Some r)
      then show ?thesis by (simp add: feature_row_def Let_def o override_response_def shown_enabled_def)
    next
      case None
      have "row_plan_enabled p k None \<longleftrightarrow> plan_grants db plan k"
        using eff [OF None] real e
        by (auto simp: row_plan_enabled_def f plan_grants_def plan_lookup [OF unique(2)] plan_feature_response_def
            or_else_def split: option.splits)
      with None show ?thesis by (simp add: feature_row_def Let_def o shown_enabled_def)
    qed
  qed
  have "k \<in> fst ` set (featureMap p)" if "shown_enabled db g plan k" for k
    using that plan_row_exists [of db plan k p, OF _ pf] shown_override_exists [OF _ ov, of k]
    by (auto simp: shown_enabled_def plan_grants_def plan_lookup [OF unique(2)] or_else_def split: option.splits)
  then show ?thesis
    unfolding enabled_keys_def by (force simp: featureRows_def row)
qed

lemma shown_keys:
  assumes "rows_unique db" "plan_rows_unique db" and p: "page_shows show_time explain db g t plan p"
    and plan: "granting_plan db g t = Some plan"
  shows "enabled_keys p = {k. shown_enabled db g plan k}"
proof (rule enabled_keys_are [OF assms(1,2), where show_time = show_time])
  show "og_entitlements p = Some (entitlements_answer explain db g t)" using p by (simp add: page_shows_def)
  have eff: "entitle_effective_features (entitlements_answer explain db g t) = effective_feature_map db g plan t"
    using plan by (simp add: entitlements_answer_def Let_def from_resolution_def resolve_features)
  fix k
  assume "find (override_row g k) (edb_overrides db) = None"
  then have "live_override db g t k = None" by (auto simp: live_override_def find_None_iff)
  then show "map_of (entitle_effective_features (entitlements_answer explain db g t)) k \<in>
      {None, map_of (plan_feature_map db plan) k}"
    by (simp add: eff effective_lookup [OF assms(1)])
qed (use p in \<open>simp_all add: page_shows_def\<close>)

lemma live_unexpired:
  assumes "\<And>r. r \<in> set (org_overrides db g) \<Longrightarrow> active_override t r"
  shows "live_override db g t k = find (override_row g k) (edb_overrides db)"
proof -
  have "override_row g k r \<and> active_override t r \<longleftrightarrow> override_row g k r" if "r \<in> set (edb_overrides db)" for r
    using assms [of r] that by (auto simp: org_overrides_def override_row_def)
  then show ?thesis unfolding live_override_def by (intro find_cong) auto
qed

lemma override_single:
  assumes "rows_unique db" and "find (override_row g k) (edb_overrides db) = Some r"
  shows "filter (override_row g k) (edb_overrides db) = [r]"
proof -
  have mem: "r \<in> set (edb_overrides db)" "override_row g k r" using assms(2) by (auto simp: find_Some_iff)
  obtain x where x: "filter (override_row g k) (edb_overrides db) = [x]"
    using distinct_filter_single [of override_key "edb_overrides db" "override_row g k"] assms(1) mem
    by (auto simp: rows_unique_def override_row_key filter_empty_conv)
  then show ?thesis using filter_single_unique [OF x mem] by simp
qed


text \<open>
  An expired override is still shown in force: the table of a page that was just loaded says ENABLED for a
  feature the plan does not have, with the tenant override as its source, while the resolver grants it no
  more.
\<close>

theorem expired_override_shown:
  assumes "rows_unique db" "plan_rows_unique db" and p: "page_shows show_time explain db g t plan p"
    and plan: "granting_plan db g t = Some plan"
    and r: "find (override_row g k) (edb_overrides db) = Some r" "ovrow_enabled r" "\<not> active_override t r"
    and out: "\<not> plan_grants db plan k"
  shows "k \<in> enabled_keys p \<and> \<not> feature_granted (resolve_entitlements db g t) k"
proof
  show "k \<in> enabled_keys p"
    unfolding shown_keys [OF assms(1-4)] using r by (simp add: shown_enabled_def)
  have "filter (override_row g k) (edb_overrides db) = [r]" by (rule override_single [OF assms(1) r(1)])
  then have "live_override db g t k = None" using r(3) by (simp add: live_before)
  then show "\<not> feature_granted (resolve_entitlements db g t) k"
    using plan out by (simp add: granted_iff [OF assms(1)])
qed

section \<open>Loading from the service\<close>

text \<open>The answers of a load where the service has these tables at this time; the others are those of \<open>base\<close>.\<close>

definition service_answers ::
  "(int \<Rightarrow> string) \<Rightarrow> (ResolutionReason \<Rightarrow> string) \<Rightarrow> EntitlementDb \<Rightarrow> string \<Rightarrow> int \<Rightarrow> OrgAnswer \<Rightarrow> OrgAnswer" where
  "service_answers show_time explain db g t base =
     base\<lparr>oans_entitlements := Inr (entitlements_answer explain db g t),
          oans_overrides := Inr (overrides_answer show_time db g)\<rparr>"

definition plan_answer :: "(int \<Rightarrow> string) \<Rightarrow> EntitlementDb \<Rightarrow> string \<Rightarrow> client_error + PlanFeatureResponse list" where
  "plan_answer show_time db plan = Inr (map (plan_feature_response show_time) (plan_features_of db plan))"

lemma load_settled_shows:
  assumes "n < length (og_loads p)"
  shows "og_overrides (org_load_settled n (service_answers show_time explain db g t base) p) = overrides_answer show_time db g"
    "og_entitlements (org_load_settled n (service_answers show_time explain db g t base) p) =
       Some (entitlements_answer explain db g t)"
    "og_mode (org_load_settled n (service_answers show_time explain db g t base) p) = og_mode p"
    "og_planFeatures (org_load_settled n (service_answers show_time explain db g t base) p) = og_planFeatures p"
    "og_overrideModal (org_load_settled n (service_answers show_time explain db g t base) p) = og_overrideModal p"
    "og_overrideError (org_load_settled n (service_answers show_time explain db g t base) p) = og_overrideError p"
    "og_overrideFeedback (org_load_settled n (service_answers show_time explain db g t base) p) = og_overrideFeedback p"
    "some_text (entitle_plan_id (entitlements_answer explain db g t)) \<Longrightarrow>
     og_planLoads (org_load_settled n (service_answers show_time explain db g t base) p) = og_planLoads p + 1"
  using assms
  by (simp_all add: org_load_settled_def Let_def service_answers_def fulfilled_def settle_entitlements_def split: sum.split)

text \<open>A load with the answers of the service shows its tables.\<close>

definition load_round ::
  "(int \<Rightarrow> string) \<Rightarrow> (ResolutionReason \<Rightarrow> string) \<Rightarrow> EntitlementDb \<Rightarrow> string \<Rightarrow> int \<Rightarrow> string \<Rightarrow> OrgAnswer \<Rightarrow>
     (int \<times> OrgEvent) list" where
  "load_round show_time explain db g t plan base =
     [(t, OrgLoadSettled 0 (service_answers show_time explain db g t base)),
      (t, OrgPlanFeatures (plan_answer show_time db plan))]"

lemma load_round_shows:
  assumes "length (og_loads p) = 1" "og_planLoads p = 0" "og_mode p = MODE_REAL"
    and "entitle_plan_id (entitlements_answer explain db g t) = Some plan" "plan \<noteq> []"
  shows "page_shows show_time explain db g t plan (run (org_step g) p (load_round show_time explain db g t plan base))"
    "og_overrideModal (run (org_step g) p (load_round show_time explain db g t plan base)) = og_overrideModal p"
    "og_overrideError (run (org_step g) p (load_round show_time explain db g t plan base)) = og_overrideError p"
    "og_overrideFeedback (run (org_step g) p (load_round show_time explain db g t plan base)) = og_overrideFeedback p"
  using assms load_settled_shows [where n = 0 and p = p and show_time = show_time and explain = explain and db = db and
      g = g and t = t and base = base]
  by (simp_all add: load_round_def org_step_def page_shows_def plan_features_settled_def plan_answer_def fulfilled_def
      some_text_def)

text \<open>
  The table does not follow a suspension: when an organization was suspended and its page is loaded again,
  the rows that said ENABLED still say so, for the features of the plan are not asked for again and the old
  ones stay, although the resolver now denies every feature.
\<close>

theorem suspension_not_shown:
  assumes "rows_unique db" "plan_rows_unique db" and p: "page_shows show_time explain db g t plan p"
    and plan: "granting_plan db g t = Some plan"
    and org: "find (\<lambda>r. orow_id r = g) orgs = Some row" "orow_status row = ''SUSPENDED''"
    and load: "n < length (og_loads p)"
  shows "enabled_keys (org_load_settled n (service_answers show_time explain (db\<lparr>edb_organizations := orgs\<rparr>) g t' base) p) =
      enabled_keys p \<and>
    \<not> feature_granted (resolve_entitlements (db\<lparr>edb_organizations := orgs\<rparr>) g t') k"
proof
  let ?db = "db\<lparr>edb_organizations := orgs\<rparr>"
  let ?p = "org_load_settled n (service_answers show_time explain ?db g t' base) p"
  have res: "resolve_entitlements ?db g t' = denied g RES_SUSPENDED ''SUSPENDED'' OrganizationSuspended"
    using org by (simp add: resolve_entitlements_def)
  have none: "entitle_effective_features (entitlements_answer explain ?db g t') = []"
    by (simp add: entitlements_answer_def Let_def res from_resolution_def)
  have "enabled_keys ?p = {k. shown_enabled db g plan k}"
  proof (rule enabled_keys_are [OF assms(1,2), where show_time = show_time])
    show "og_entitlements ?p = Some (entitlements_answer explain ?db g t')" by (rule load_settled_shows(2) [OF load])
    have "overrides_answer show_time ?db g = overrides_answer show_time db g"
      by (simp add: overrides_answer_def org_overrides_def)
    then show "og_overrides ?p = overrides_answer show_time db g" by (simp add: load_settled_shows(1) [OF load])
  qed (use p in \<open>simp_all add: page_shows_def load_settled_shows [OF load] none\<close>)
  then show "enabled_keys ?p = enabled_keys p" using shown_keys [OF assms(1-4)] by simp
  show "\<not> feature_granted (resolve_entitlements ?db g t') k"
    by (simp add: res feature_granted_def or_else_def)
qed

section \<open>Saving an override\<close>

text \<open>The call of the administration that a request of the page becomes: no time of expiry is ever sent.\<close>

fun admin_of :: "string \<Rightarrow> OrgAction \<Rightarrow> AdminCall option" where
  "admin_of g (AskCreateOverride k on reason) = Some (CreateOverride g k on reason None)"
| "admin_of g (AskUpdateOverride k on reason) = Some (UpdateOverride g k (Some on) reason None)"
| "admin_of g (AskRemoveOverride k) = Some (RemoveOverride g k)"
| "admin_of g act = None"

text \<open>What a choice in the dialog says of a feature.\<close>

fun chosen :: "OverrideState \<Rightarrow> bool \<Rightarrow> bool" where
  "chosen OVS_INHERIT plan \<longleftrightarrow> plan"
| "chosen OVS_ENABLED plan \<longleftrightarrow> True"
| "chosen OVS_DISABLED plan \<longleftrightarrow> False"

text \<open>The dialog is open on a feature and shows the override the page knows.\<close>

definition modal_in_sync :: "OrgPage \<Rightarrow> bool" where
  "modal_in_sync p \<longleftrightarrow> modal_open (og_overrideModal p) \<and>
     modal_existingOverride (og_overrideModal p) =
       find (\<lambda>r. foverride_feature_key r = modal_featureKey (og_overrideModal p)) (og_overrides p)"

lemma opened_in_sync:
  "f \<in> set (featureRows p) \<Longrightarrow> modal_in_sync (handleOpenOverrideModal f p)"
  by (auto simp: featureRows_def feature_row_def Let_def handleOpenOverrideModal_def modal_in_sync_def)

definition org_idle :: "OrgPage \<Rightarrow> bool" where
  "org_idle p \<longleftrightarrow> og_flights p = [] \<and> og_loads p = [] \<and> og_planLoads p = 0 \<and> \<not> og_overrideBusy p"

lemma live_found:
  assumes unique: "rows_unique db"
    and active: "\<And>k r. find (override_row g k) (edb_overrides db) = Some r \<Longrightarrow> active_override t r"
  shows "live_override db g t k = find (override_row g k) (edb_overrides db)"
proof (rule live_unexpired)
  fix r assume "r \<in> set (org_overrides db g)"
  then have r: "r \<in> set (edb_overrides db)" "override_row g (ovrow_feature_key r) r"
    by (simp_all add: org_overrides_def override_row_def)
  obtain x where x: "find (override_row g (ovrow_feature_key r)) (edb_overrides db) = Some x"
    using r by (cases "find (override_row g (ovrow_feature_key r)) (edb_overrides db)") (auto simp: find_None_iff)
  then have "x = r" using filter_single_unique [OF override_single [OF unique x] r] by simp
  with x show "active_override t r" by (blast intro: active)
qed

text \<open>The override of each feature after the call.\<close>

definition saved_in :: "EntitlementDb \<Rightarrow> string \<Rightarrow> OverrideModalState \<Rightarrow> EntitlementDb \<Rightarrow> bool" where
  "saved_in db g m db' \<longleftrightarrow>
    (case modal_overrideState m of
       OVS_INHERIT \<Rightarrow> find (override_row g (modal_featureKey m)) (edb_overrides db') = None
     | st \<Rightarrow> (\<exists>r. find (override_row g (modal_featureKey m)) (edb_overrides db') = Some r \<and>
         ovrow_enabled r = chosen st False \<and>
         ovrow_expires_at r = (case find (override_row g (modal_featureKey m)) (edb_overrides db) of
           None \<Rightarrow> None | Some old \<Rightarrow> ovrow_expires_at old)))"


lemma saved_active:
  assumes other: "\<And>k. k \<noteq> modal_featureKey m \<Longrightarrow>
      find (override_row g k) (edb_overrides db') = find (override_row g k) (edb_overrides db)"
    and saved: "saved_in db g m db'"
    and unexpired: "\<And>r. r \<in> set (org_overrides db g) \<Longrightarrow> active_override t r"
    and r: "find (override_row g k) (edb_overrides db') = Some r"
  shows "active_override t r"
proof -
  have old: "active_override t x" if "find (override_row g k') (edb_overrides db) = Some x" for k' x
    using that unexpired [of x] by (auto simp: find_Some_iff org_overrides_def override_row_def)
  show ?thesis
  proof (cases "k = modal_featureKey m")
    case False
    then show ?thesis using r other old by simp
  next
    case True
    then have "ovrow_expires_at r = (case find (override_row g k) (edb_overrides db) of
        None \<Rightarrow> None | Some x \<Rightarrow> ovrow_expires_at x)"
      using saved r by (cases "modal_overrideState m") (auto simp: saved_in_def)
    then show ?thesis using old [of k] by (auto simp: active_override_def split: option.splits)
  qed
qed

lemma saved_row:
  assumes unique: "rows_unique db" and g: "org_exists db g" and may: "may_expand (caller_roles c)"
    and ex: "modal_existingOverride m = map_option resp (find (override_row g (modal_featureKey m)) (edb_overrides db))"
    and call: "override_call m = Some act" "admin_of g act = Some acall"
  shows "\<exists>db'. admin_call c acall db = Inr db' \<and>
    (\<forall>k. k \<noteq> modal_featureKey m \<longrightarrow>
       find (override_row g k) (edb_overrides db') = find (override_row g k) (edb_overrides db)) \<and>
    saved_in db g m db'"
proof -
  let ?k = "modal_featureKey m" and ?on = "modal_overrideState m = OVS_ENABLED"
  have other: "\<not> override_row g ?k r" if "override_row g k r" "k \<noteq> ?k" for k r
    using that by (simp add: override_row_def)
  show ?thesis
  proof (cases "find (override_row g ?k) (edb_overrides db)")
    case None
    then have st: "modal_overrideState m \<noteq> OVS_INHERIT"
      and act: "acall = CreateOverride g ?k ?on (reason_or_null (modal_reason m)) None"
      using ex call by (auto simp: override_call_def Let_def split: if_splits)
    have "filter (override_row g ?k) (edb_overrides db) = []"
      using None by (simp add: find_None_iff filter_empty_conv)
    then obtain db' where db': "admin_call c acall db = Inr db'"
        "edb_overrides db' = edb_overrides db @ [new_override c g ?k ?on (reason_or_null (modal_reason m)) None]"
      using g may by (simp add: act create_override_Inr)
    have "find (override_row g k) (edb_overrides db') = find (override_row g k) (edb_overrides db)" if "k \<noteq> ?k" for k
      using that by (simp add: db'(2) find_append override_row_def split: option.split)
    moreover have "find (override_row g ?k) (edb_overrides db') =
        Some (new_override c g ?k ?on (reason_or_null (modal_reason m)) None)"
      by (simp add: db'(2) find_append None override_row_def)
    ultimately show ?thesis
      using db'(1) st None by (cases "modal_overrideState m") (simp_all add: saved_in_def)
  next
    case (Some r)
    note single = override_single [OF unique Some]
    show ?thesis
    proof (cases "modal_overrideState m = OVS_INHERIT")
      case True
      then have act: "acall = RemoveOverride g ?k"
        using ex call Some by (auto simp: override_call_def Let_def split: if_splits)
      obtain db' where db': "admin_call c acall db = Inr db'"
          "edb_overrides db' = filter (\<lambda>x. \<not> override_row g ?k x) (edb_overrides db)"
        using single by (simp add: act remove_override_Inr)
      have "find (override_row g k) (edb_overrides db') = find (override_row g k) (edb_overrides db)" if "k \<noteq> ?k" for k
        unfolding db'(2) find_filter using other [OF _ that] by (intro find_cong) auto
      moreover have "find (override_row g ?k) (edb_overrides db') = None"
        by (simp add: db'(2) find_None_iff)
      ultimately show ?thesis using db'(1) True by (simp add: saved_in_def)
    next
      case False
      let ?new = "written_override (Some ?on) (reason_or_null (modal_reason m)) None r"
      have act: "acall = UpdateOverride g ?k (Some ?on) (reason_or_null (modal_reason m)) None"
        using ex call Some False by (auto simp: override_call_def Let_def split: if_splits)
      obtain db' where db': "admin_call c acall db = Inr db'"
          "edb_overrides db' = replace_rows (override_row g ?k) ?new (edb_overrides db)"
        using single may by (simp add: act update_override_Inr)
      have new: "override_row g ?k ?new"
        using single_key [OF single] by (simp add: override_row_key)
      have "find (override_row g k) (edb_overrides db') = find (override_row g k) (edb_overrides db)" if "k \<noteq> ?k" for k
        unfolding db'(2) using new other [OF _ that] that
        by (intro find_other_replace) (auto simp: override_row_def)
      moreover have "find (override_row g ?k) (edb_overrides db') = Some ?new"
        unfolding db'(2) using find_replace [OF single, of "override_row g ?k" ?new] new by simp
      ultimately show ?thesis
        using db'(1) False Some by (cases "modal_overrideState m") (simp_all add: saved_in_def written_override_def given_def)
    qed
  qed
qed

text \<open>The page between the press of the button and the answers of the load that follows.\<close>

definition save_round ::
  "(int \<Rightarrow> string) \<Rightarrow> (ResolutionReason \<Rightarrow> string) \<Rightarrow> EntitlementDb \<Rightarrow> string \<Rightarrow> int \<Rightarrow> string \<Rightarrow> OrgAnswer \<Rightarrow>
     BackendPlatformOrganization \<Rightarrow> (int \<times> OrgEvent) list" where
  "save_round show_time explain db g t plan base u =
     [(t, SubmitOverride), (t, OrgFlightSettled 0 (Inr u))] @ load_round show_time explain db g t plan base"

lemma granting_exists: "granting_plan db g t = Some plan \<Longrightarrow> org_exists db g"
  by (auto simp: granting_plan_def in_good_standing_def org_exists_def split: option.splits if_splits)

lemma resolved_plan: "granting_plan db g t = Some plan \<Longrightarrow> reso_plan_id (resolve_entitlements db g t) = Some plan"
  by (auto simp: granting_plan_def in_good_standing_def resolve_entitlements_def candidates_eq resolve_plan_def
      split: option.splits list.splits if_splits)

lemma answer_plan: "granting_plan db g t = Some plan \<Longrightarrow> entitle_plan_id (entitlements_answer explain db g t) = Some plan"
  by (simp add: entitlements_answer_def Let_def from_resolution_def resolved_plan)

lemma flown:
  assumes idle: "org_idle p" and real: "og_mode p = MODE_REAL" "og_isAuthenticated p" "some_text (og_token p)"
    and open_: "modal_open (og_overrideModal p)" and call: "override_call (og_overrideModal p) = Some act"
  shows "\<exists>q. run (org_step g) p [(n, SubmitOverride), (n', OrgFlightSettled 0 (Inr u))] = q \<and>
    og_mode q = MODE_REAL \<and> length (og_loads q) = 1 \<and> og_planLoads q = 0 \<and> og_planFeatures q = og_planFeatures p \<and>
    \<not> modal_open (og_overrideModal q) \<and> og_overrideError q = None \<and> og_overrideFeedback q = Some saved_message"
  using assms
  by (simp add: org_step_def org_idle_def handleSaveOverrideModal_def Let_def flight_settled_def fly_def
      flight_success_def flight_finally_def og_session_def org_load_def close_modal_def remove_nth_def)


section \<open>The page of a tenant on a small plan\<close>

definition sample_answer :: OrgAnswer where
  "sample_answer = \<lparr>oans_org = Inr (fallback_organization ''acme'' 0), oans_users = Inr [], oans_subscriptions = Inr [],
     oans_entitlements = Inl (ApiError 503 None []), oans_overrides = Inl (ApiError 503 None []), oans_limits = Inr [],
     oans_audit = Inr [], oans_catalog = Inr []\<rparr>"

text \<open>Loaded at a time, with the tables of \<open>sample_db\<close> and the tab of the features.\<close>

definition explain_none :: "ResolutionReason \<Rightarrow> string" where
  "explain_none why = []"

definition sample_page :: "int \<Rightarrow> OrgPage" where
  "sample_page t = run (org_step ''acme'') (org_page_init MODE_REAL (Some ''token'') True (Some [''PLATFORM_ADMIN'']))
     ([(t, OrgEffect)] @ load_round show_int explain_none sample_db ''acme'' t ''starter'' sample_answer @
      [(t, SelectTab TAB_Entitlements)])"

text \<open>The dialog of the reports, which the plan has, with what the dialog proposes: disabled for the tenant.\<close>

definition sample_dialog :: "int \<Rightarrow> OrgPage" where
  "sample_dialog t = org_step ''acme'' (sample_page t)
     (t, PressOverride (feature_row (sample_page t) (''reports'', formatFeatureKey ''reports'')))"

lemma sample_unique: "rows_unique sample_db \<and> plan_rows_unique sample_db"
  by code_simp

lemma sample_granting: "t \<ge> 0 \<Longrightarrow> granting_plan sample_db ''acme'' t = Some ''starter''"
  by (simp add: sample_db_def granting_plan_def in_good_standing_def is_current_subscription_def
      SERVICE_GRANTING_STATUSES_def)

definition proposes_to_disable_reports :: "OrgPage \<Rightarrow> bool" where
  "proposes_to_disable_reports p \<longleftrightarrow>
     org_idle p \<and> og_isAuthenticated p \<and> some_text (og_token p) \<and> modal_in_sync p \<and>
     modal_featureKey (og_overrideModal p) = ''reports'' \<and> modal_overrideState (og_overrideModal p) = OVS_DISABLED \<and>
     override_call (og_overrideModal p) = Some (AskCreateOverride ''reports'' False None)"

lemma sample_dialog_eval: "proposes_to_disable_reports (sample_dialog 10)"
  by code_simp

lemma sample_page_shows:
  assumes "0 \<le> t"
  shows "page_shows show_int explain_none sample_db ''acme'' t ''starter'' (sample_page t)"
proof -
  define p where "p = org_step ''acme'' (org_page_init MODE_REAL (Some ''token'') True (Some [''PLATFORM_ADMIN''])) (t, OrgEffect)"
  have p: "length (og_loads p) = 1" "og_planLoads p = 0" "og_mode p = MODE_REAL"
    by (simp_all add: p_def org_step_def org_load_def og_session_def org_page_init_def some_text_def)
  have "page_shows show_int explain_none sample_db ''acme'' t ''starter''
      (run (org_step ''acme'') p (load_round show_int explain_none sample_db ''acme'' t ''starter'' sample_answer))"
    using load_round_shows(1) [OF p answer_plan [OF sample_granting [OF assms]]] by simp
  moreover have "page_shows show_int explain_none sample_db ''acme'' t ''starter'' (org_step ''acme'' q (t, SelectTab tab)) =
      page_shows show_int explain_none sample_db ''acme'' t ''starter'' q" for q tab
    by (simp add: org_step_def page_shows_def)
  ultimately show ?thesis by (simp add: sample_page_def p_def run_append)
qed

lemma sample_dialog_shows: "page_shows show_int explain_none sample_db ''acme'' 10 ''starter'' (sample_dialog 10)"
  using sample_page_shows [of 10]
  by (simp add: sample_dialog_def org_step_def handleOpenOverrideModal_def page_shows_def)


theorem expired_override_shown_witness:
  "''copilot'' \<in> enabled_keys (sample_page 100) \<and>
   \<not> feature_granted (resolve_entitlements sample_db ''acme'' 100) ''copilot''"
  by (rule expired_override_shown [where show_time = show_int and explain = explain_none and plan = "''starter''"
        and r = copilot_row])
    (use sample_unique sample_page_shows [of 100] sample_db_eval in \<open>simp_all add: sample_db_eval find_hd\<close>)

theorem suspension_not_shown_witness:
  "enabled_keys (org_load_settled 0 (service_answers show_int explain_none
       (sample_db\<lparr>edb_organizations := [\<lparr>orow_id = ''acme'', orow_name = ''Acme'', orow_status = ''SUSPENDED'', orow_deleted_at = None\<rparr>]\<rparr>)
       ''acme'' 200 sample_answer) (sample_page 100\<lparr>og_loads := [''token'']\<rparr>)) =
     enabled_keys (sample_page 100\<lparr>og_loads := [''token'']\<rparr>) \<and>
   \<not> feature_granted (resolve_entitlements
       (sample_db\<lparr>edb_organizations := [\<lparr>orow_id = ''acme'', orow_name = ''Acme'', orow_status = ''SUSPENDED'', orow_deleted_at = None\<rparr>]\<rparr>)
       ''acme'' 200) ''reports''"
proof (rule suspension_not_shown [where row = "\<lparr>orow_id = ''acme'', orow_name = ''Acme'', orow_status = ''SUSPENDED'', orow_deleted_at = None\<rparr>"])
  show "page_shows show_int explain_none sample_db ''acme'' 100 ''starter'' (sample_page 100\<lparr>og_loads := [''token'']\<rparr>)"
    using sample_page_shows [of 100] by (simp add: page_shows_def)
qed (use sample_unique sample_granting [of 100] in simp_all)


end
