(* ===== verification/PlanPage.thy ===== *)
theory PlanPage
  imports ClientCatalog ClientTenant DemoPlatform ApiPlatform PageKit PlanService
begin

text \<open>
  The page of one plan in the platform administration (\<open>src/frontend/app/(app)/platform/plans/[planId]/page.tsx\<close>):
  its state, the loads, the features in their groups with the search and the filter, the limits and their
  editing, and every handler, with real and with demonstration data. A call to the service is two events, its
  start and its answer; a timer is an event too. Whole numbers are exact here, which \<open>parseInt\<close> in the browser is up to
  \<open>2^53\<close>. Shown: what the page asks of the service is fit to be asked, the groups and the filter lose no feature, and
  which counts are right.
\<close>

section \<open>The standard limits\<close>

record LimitSpec =
  spec_key :: string
  spec_dimension :: string
  spec_category :: string
  spec_unit :: string
  spec_description :: string
  spec_defaultVal :: int

definition limit_spec :: "string \<Rightarrow> string \<Rightarrow> string \<Rightarrow> string \<Rightarrow> string \<Rightarrow> int \<Rightarrow> LimitSpec" where
  "limit_spec k dimension category unt description v =
     \<lparr>spec_key = k, spec_dimension = dimension, spec_category = category, spec_unit = unt,
      spec_description = description, spec_defaultVal = v\<rparr>"

definition STANDARD_LIMIT_SPECS :: "(string \<times> LimitSpec list) list" where
  "STANDARD_LIMIT_SPECS =
    [(''DRONE'', [
      limit_spec ''max_assets'' ''Maximum Assets'' ''Fleet'' ''airframes''
        ''Autonomous UAV fleet capacity'' 100,
      limit_spec ''max_users'' ''Maximum Users'' ''Users'' ''seats''
        ''Licensed remote pilots & mission coordinators'' 25,
      limit_spec ''monthly_work_orders'' ''Monthly Work Orders'' ''MRO'' ''orders/mo''
        ''Scheduled and unscheduled battery/component repairs'' 500,
      limit_spec ''storage_gb'' ''Storage'' ''Infrastructure'' ''GB''
        ''High-frequency mission telemetry and flight logs'' 50,
      limit_spec ''monthly_lisa_ai_tokens'' ''Monthly LISA AI Tokens'' ''Intelligence'' ''tokens/mo''
        ''Airworthiness manual queries and copilot assist'' 100000,
      limit_spec ''monthly_api_requests'' ''Monthly API Requests'' ''Integration'' ''req/mo''
        ''Fleet dispatch and UTM external integrations'' 10000]),
     (''AIRCRAFT'', [
      limit_spec ''max_assets'' ''Maximum Assets'' ''Fleet'' ''aircraft''
        ''Fixed-wing commercial aircraft airframes'' 50,
      limit_spec ''max_users'' ''Maximum Users'' ''Users'' ''seats''
        ''CAMO managers, technicians, and quality inspectors'' 40,
      limit_spec ''monthly_work_orders'' ''Monthly Work Orders'' ''MRO'' ''orders/mo''
        ''Line and base maintenance tasks and task cards'' 1000,
      limit_spec ''storage_gb'' ''Storage'' ''Infrastructure'' ''GB''
        ''Form 1 release certificates, ADs, and SB records'' 200,
      limit_spec ''monthly_lisa_ai_tokens'' ''Monthly LISA AI Tokens'' ''Intelligence'' ''tokens/mo''
        ''Regulatory compliance analysis and technical records'' 500000,
      limit_spec ''monthly_api_requests'' ''Monthly API Requests'' ''Integration'' ''req/mo''
        ''Maintenance ERP and electronic flight bag sync'' 50000]),
     (''HELICOPTER'', [
      limit_spec ''max_assets'' ''Maximum Assets'' ''Fleet'' ''helicopters''
        ''Registered rotorcraft airframes and dynamic components'' 30,
      limit_spec ''max_users'' ''Maximum Users'' ''Users'' ''seats''
        ''Rotorcraft engineers, inspectors, and chief pilots'' 30,
      limit_spec ''monthly_work_orders'' ''Monthly Work Orders'' ''MRO'' ''orders/mo''
        ''Turbine, gearbox, and rotor blade inspections'' 600,
      limit_spec ''storage_gb'' ''Storage'' ''Infrastructure'' ''GB''
        ''Component retirement tracking and life-limited parts'' 100,
      limit_spec ''monthly_lisa_ai_tokens'' ''Monthly LISA AI Tokens'' ''Intelligence'' ''tokens/mo''
        ''Airworthiness directive search and AMM queries'' 200000,
      limit_spec ''monthly_api_requests'' ''Monthly API Requests'' ''Integration'' ''req/mo''
        ''Dispatch operations and maintenance integration'' 20000]),
     (''EVTOL'', [
      limit_spec ''max_assets'' ''Maximum Assets'' ''Fleet'' ''airframes''
        ''Next-gen electric vertical takeoff and landing airframes'' 75,
      limit_spec ''max_users'' ''Maximum Users'' ''Users'' ''seats''
        ''Flight operations center, battery engineers, and safety'' 50,
      limit_spec ''monthly_work_orders'' ''Monthly Work Orders'' ''MRO'' ''orders/mo''
        ''Electric propulsion and high-voltage battery maintenance'' 1500,
      limit_spec ''storage_gb'' ''Storage'' ''Infrastructure'' ''GB''
        ''Continuous flight sensor stream and battery telemetry'' 500,
      limit_spec ''monthly_lisa_ai_tokens'' ''Monthly LISA AI Tokens'' ''Intelligence'' ''tokens/mo''
        ''Predictive maintenance and airworthiness copilot'' 1000000,
      limit_spec ''monthly_api_requests'' ''Monthly API Requests'' ''Integration'' ''req/mo''
        ''Real-time vertiport and urban air traffic interfaces'' 100000]),
     (''ALL'', [
      limit_spec ''max_assets'' ''Maximum Assets'' ''Fleet'' ''assets''
        ''Multi-domain fleet tracking capacity'' 100,
      limit_spec ''max_users'' ''Maximum Users'' ''Users'' ''seats''
        ''Active organization user accounts'' 50,
      limit_spec ''monthly_work_orders'' ''Monthly Work Orders'' ''MRO'' ''orders/mo''
        ''Total monthly maintenance executions'' 1000,
      limit_spec ''storage_gb'' ''Storage'' ''Infrastructure'' ''GB''
        ''Compliance evidence and media records'' 150,
      limit_spec ''monthly_lisa_ai_tokens'' ''Monthly LISA AI Tokens'' ''Intelligence'' ''tokens/mo''
        ''Aerospace intelligence copilot queries'' 250000,
      limit_spec ''monthly_api_requests'' ''Monthly API Requests'' ''Integration'' ''req/mo''
        ''External system API integration limits'' 25000])]"

definition ASSET_SCOPES :: "string list" where
  "ASSET_SCOPES = [''DRONE'', ''AIRCRAFT'', ''HELICOPTER'', ''EVTOL'', ''ALL'']"

text \<open>\<open>STANDARD_LIMIT_SPECS[(scope ?? "ALL").toUpperCase()] ?? STANDARD_LIMIT_SPECS.ALL\<close>.\<close>

definition specs_of :: "string option \<Rightarrow> LimitSpec list" where
  "specs_of scope =
     (case map_of STANDARD_LIMIT_SPECS (toUpperCase (or_else scope ''ALL'')) of
        Some specs \<Rightarrow> specs
      | None \<Rightarrow> or_else (map_of STANDARD_LIMIT_SPECS ''ALL'') [])"

record EditablePlanLimit =
  lim_key :: string
  lim_dimension :: string
  lim_category :: string
  lim_unit :: string
  lim_description :: string
  lim_value :: int
  lim_isUnlimited :: bool

definition editable_limit :: "LimitSpec \<Rightarrow> int \<Rightarrow> bool \<Rightarrow> EditablePlanLimit" where
  "editable_limit s v unlimited =
     \<lparr>lim_key = spec_key s, lim_dimension = spec_dimension s, lim_category = spec_category s, lim_unit = spec_unit s,
      lim_description = spec_description s, lim_value = v, lim_isUnlimited = unlimited\<rparr>"

definition default_limits :: "string option \<Rightarrow> EditablePlanLimit list" where
  "default_limits scope = map (\<lambda>s. editable_limit s (spec_defaultVal s) False) (specs_of scope)"

text \<open>The limits of the service, put into the rows of the standard; of two for a key the last.\<close>

definition loaded_limits :: "string option \<Rightarrow> PlanLimitResponse list \<Rightarrow> EditablePlanLimit list" where
  "loaded_limits scope ls =
     (let m = dict_of plimit_limit_key id [] ls in
      map (\<lambda>s. case map_of m (spec_key s) of
                 None \<Rightarrow> editable_limit s (spec_defaultVal s) False
               | Some bl \<Rightarrow> editable_limit s (or_else (plimit_limit_value bl) (spec_defaultVal s)) (plimit_is_unlimited bl))
        (specs_of scope))"

section \<open>State\<close>

record CatalogFeatureItem =
  item_feature_key :: string
  item_name :: string
  item_moduleName :: string
  item_suiteName :: string
  item_description :: string

datatype FeatureFilter = FLT_all | FLT_included | FLT_excluded

record PendingFeatureAction =
  pending_featureKey :: string
  pending_featureName :: string
  pending_newEnabled :: bool

datatype PlanFlight = PfOverview | PfActive | PfFeature string bool | PfCategory | PfLimits | PfTrail

text \<open>What was asked of the service, for the statements.\<close>

datatype PlanAction =
    AskUpdatePlan string string string "string option" "string option"
  | AskSetActive string bool
  | AskSetFeature string string bool
  | AskSetFeatures string "(string \<times> bool) list"
  | AskSetLimits string "PlanLimitItem list"

record PlanPage =
  pp_plan :: "PlanResponse option"
  pp_planError :: "NormalizedApiError option"
  pp_loading :: bool
  pp_allCatalogFeatures :: "CatalogFeatureItem list"
  pp_planFeaturesMap :: "(string \<times> bool) list"
  pp_featuresLoading :: bool
  pp_subscribedTenants :: "PlanSubscribedTenantResponse list"
  pp_tenantsLoading :: bool
  pp_auditEvents :: "AuditEventResponse list"
  pp_auditLoading :: bool
  pp_featureSearch :: string
  pp_featureFilter :: FeatureFilter
  pp_editingOverview :: bool
  pp_editName :: string
  pp_editCode :: string
  pp_editDescription :: string
  pp_editScope :: string
  pp_editBusy :: bool
  pp_editError :: "NormalizedApiError option"
  pp_pendingFeatureToggle :: "PendingFeatureAction option"
  pp_toggleBusy :: bool
  pp_planToggleActive :: "bool option"
  pp_editableLimits :: "EditablePlanLimit list"
  pp_limitsBusy :: bool
  pp_limitsSuccess :: "string option"
  pp_limitsError :: "string option"
  pp_mode :: DataMode
  pp_token :: "string option"
  pp_isAuthenticated :: bool
  pp_loads :: nat
  pp_flights :: "(PlanFlight \<times> org_session) list"
  pp_timers :: "nat list"
  pp_requests :: "request list"
  pp_log :: "(org_session \<times> PlanAction) list"

definition plan_page_init :: "DataMode \<Rightarrow> string option \<Rightarrow> bool \<Rightarrow> PlanPage" where
  "plan_page_init mode token auth =
     \<lparr>pp_plan = None, pp_planError = None, pp_loading = True, pp_allCatalogFeatures = [], pp_planFeaturesMap = [],
      pp_featuresLoading = False, pp_subscribedTenants = [], pp_tenantsLoading = False, pp_auditEvents = [],
      pp_auditLoading = False, pp_featureSearch = [], pp_featureFilter = FLT_all, pp_editingOverview = False,
      pp_editName = [], pp_editCode = [], pp_editDescription = [], pp_editScope = ''DRONE'', pp_editBusy = False,
      pp_editError = None, pp_pendingFeatureToggle = None, pp_toggleBusy = False, pp_planToggleActive = None,
      pp_editableLimits = [], pp_limitsBusy = False, pp_limitsSuccess = None, pp_limitsError = None,
      pp_mode = mode, pp_token = token, pp_isAuthenticated = auth, pp_loads = 0, pp_flights = [], pp_timers = [],
      pp_requests = [], pp_log = []\<rparr>"

definition pp_session :: "PlanPage \<Rightarrow> org_session" where
  "pp_session p = (pp_mode p, pp_token p, pp_isAuthenticated p)"

definition pp_token_text :: "PlanPage \<Rightarrow> string" where
  "pp_token_text p = or_else (pp_token p) []"

section \<open>Loading\<close>

definition category_name :: "FeatureCategory \<Rightarrow> string" where
  "category_name c = (case c of
     FCAT_FLEET_OPERATIONS \<Rightarrow> ''Fleet Operations''
   | FCAT_MAINTENANCE_MRO \<Rightarrow> ''Maintenance & MRO''
   | FCAT_COMPLIANCE_AUDIT \<Rightarrow> ''Compliance & Audit''
   | FCAT_INTELLIGENCE_AI \<Rightarrow> ''Intelligence & AI'')"

definition demo_catalog :: "CatalogFeatureItem list" where
  "demo_catalog = map (\<lambda>f.
     \<lparr>item_feature_key = pfeature_feature_key f, item_name = pfeature_name f,
      item_moduleName = category_name (pfeature_category f), item_suiteName = ''Platform Suite'',
      item_description = pfeature_description f\<rparr>) DEMO_PLATFORM_FEATURES"

definition demo_included :: "string \<Rightarrow> CatalogFeatureItem \<Rightarrow> bool" where
  "demo_included code f \<longleftrightarrow>
     str_includes (toLowerCase code) ''enterprise'' \<or> str_includes (toLowerCase code) ''evtol'' \<or>
     (str_includes (toLowerCase code) ''aircraft'' \<and> item_moduleName f \<noteq> ''Fleet Operations'') \<or>
     (str_includes (toLowerCase code) ''drone'' \<and> str_includes (item_feature_key f) ''drone'') \<or>
     item_feature_key f = ''work_order_management'' \<or> item_feature_key f = ''compliance_management''"

definition demo_plan_tenants :: "PlanSubscribedTenantResponse list" where
  "demo_plan_tenants = map (\<lambda>g.
     \<lparr>ptenant_organization_id = porg_id g, ptenant_organization_name = porg_name g,
      ptenant_organization_status = (if porg_status g = PORG_ACTIVE then ''ACTIVE'' else ''SUSPENDED''),
      ptenant_subscription_id = ''sub-'' @ drop (length (porg_id g) - 6) (porg_id g),
      ptenant_subscription_status = ''ACTIVE'', ptenant_starts_at = ''2026-01-15T00:00:00Z'',
      ptenant_ends_at = None\<rparr>) (take 2 DEMO_PLATFORM_ORGANIZATIONS)"

definition demo_plan_event :: "string \<Rightarrow> string \<Rightarrow> string \<Rightarrow> string option \<Rightarrow> json \<Rightarrow> string \<Rightarrow> AuditEventResponse" where
  "demo_plan_event i action kind entity meta created =
     \<lparr>paudit_id = i, paudit_organization_id = ''00000000-0000-0000-0000-000000000001'', paudit_created_at = created,
      paudit_user_id = Some ''00000000-0000-0000-0000-000000000099'', paudit_action = action,
      paudit_entity_type = kind, paudit_entity_id = entity, paudit_event_metadata = meta\<rparr>"

definition demo_plan_of :: "string \<Rightarrow> PlanResponse" where
  "demo_plan_of i = or_else (find (\<lambda>p. plan_id p = i) DEMO_PLATFORM_PLANS) (hd DEMO_PLATFORM_PLANS)"

definition show_plan :: "PlanResponse \<Rightarrow> PlanPage \<Rightarrow> PlanPage" where
  "show_plan plan p =
     p\<lparr>pp_plan := Some plan, pp_editName := plan_name plan, pp_editCode := plan_code plan,
       pp_editDescription := or_else (plan_description plan) [], pp_editScope := or_else (plan_asset_scope plan) ''ALL''\<rparr>"

definition load_demo_plan :: "string \<Rightarrow> PlanPage \<Rightarrow> PlanPage" where
  "load_demo_plan i p =
     (let plan = demo_plan_of i in
      (show_plan plan p)
        \<lparr>pp_allCatalogFeatures := demo_catalog,
         pp_planFeaturesMap := dict_of item_feature_key (demo_included (plan_code plan)) [] demo_catalog,
         pp_subscribedTenants := demo_plan_tenants,
         pp_auditEvents :=
           [demo_plan_event ''audit-001'' ''platform.plan.created'' ''Plan'' (Some (plan_id plan))
              (JObj [(''code'', JStr (plan_code plan)), (''name'', JStr (plan_name plan)),
                     (''asset_scope'', jstr (plan_asset_scope plan))]) (plan_created_at plan),
            demo_plan_event ''audit-002'' ''platform.plan.features_updated'' ''Plan'' (Some (plan_id plan))
              (JObj [(''total_configured'', JNum 9)]) (plan_updated_at plan)],
         pp_editableLimits := default_limits (plan_asset_scope plan),
         pp_loading := False\<rparr>)"

definition plan_load_requests :: "string \<Rightarrow> string \<Rightarrow> request list" where
  "plan_load_requests token i =
     [planApi_getPlan token i, planApi_listPlanFeatures token i, productCatalogApi_getCatalogTree token,
      planApi_listPlanTenants token i, planApi_getPlanAuditTrail token i, planApi_listPlanLimits token i]"

definition plan_load :: "org_session \<Rightarrow> string \<Rightarrow> PlanPage \<Rightarrow> PlanPage" where
  "plan_load session i p = (case session of (mode, token, auth) \<Rightarrow>
     if mode = MODE_DEMO then load_demo_plan i p
     else if \<not> auth \<or> \<not> some_text token then p\<lparr>pp_loading := False\<rparr>
     else p\<lparr>pp_loading := True, pp_planError := None, pp_featuresLoading := True, pp_tenantsLoading := True,
            pp_auditLoading := True, pp_loads := pp_loads p + 1,
            pp_requests := pp_requests p @ plan_load_requests (or_else token []) i\<rparr>)"

text \<open>The six answers of a load.\<close>

record PlanAnswer =
  pans_plan :: "client_error + PlanResponse"
  pans_features :: "client_error + PlanFeatureResponse list"
  pans_catalog :: "client_error + ProductSuiteWithChildrenResponse list"
  pans_tenants :: "client_error + PlanSubscribedTenantResponse list"
  pans_audit :: "client_error + AuditEventResponse list"
  pans_limits :: "client_error + PlanLimitResponse list"

definition flattened :: "ProductSuiteWithChildrenResponse list \<Rightarrow> CatalogFeatureItem list" where
  "flattened suites = concat (map (\<lambda>s. concat (map (\<lambda>m. map (\<lambda>f.
       \<lparr>item_feature_key = catfeat_code f, item_name = catfeat_name f, item_moduleName = catmodule_name m,
        item_suiteName = catsuite_name s, item_description = or_else (catfeat_description f) []\<rparr>)
       (filter catfeat_is_active (catmodule_features m))) (catsuite_modules s))) suites)"

text \<open>An empty catalog, or none, is replaced by that of the demonstration.\<close>

definition catalog_features :: "client_error + ProductSuiteWithChildrenResponse list \<Rightarrow> CatalogFeatureItem list" where
  "catalog_features answer = (case answer of
     Inl e \<Rightarrow> demo_catalog
   | Inr suites \<Rightarrow> if flattened suites = [] then demo_catalog else flattened suites)"

definition plan_load_settled :: "PlanAnswer \<Rightarrow> PlanPage \<Rightarrow> PlanPage" where
  "plan_load_settled a p =
     (if pp_loads p = 0 then p
      else let scope = (case pans_plan a of Inl e \<Rightarrow> None | Inr plan \<Rightarrow> plan_asset_scope plan);
               p = (case pans_plan a of
                      Inr plan \<Rightarrow> show_plan plan p
                    | Inl e \<Rightarrow> p\<lparr>pp_planError := Some (normalizeApiError e)\<rparr>)
        in p\<lparr>pp_editableLimits := loaded_limits scope (fulfilled (pans_limits a) []),
             pp_planFeaturesMap := dict_of planfeat_feature_key planfeat_enabled [] (fulfilled (pans_features a) []),
             pp_allCatalogFeatures := catalog_features (pans_catalog a),
             pp_subscribedTenants := fulfilled (pans_tenants a) [],
             pp_auditEvents := fulfilled (pans_audit a) [],
             pp_loading := False, pp_featuresLoading := False, pp_tenantsLoading := False, pp_auditLoading := False,
             pp_loads := pp_loads p - 1\<rparr>)"

section \<open>The features that are shown\<close>

definition group_key :: "CatalogFeatureItem \<Rightarrow> string" where
  "group_key f = (if item_moduleName f \<noteq> [] then item_moduleName f
     else if item_suiteName f \<noteq> [] then item_suiteName f else ''General Capabilities'')"

definition featuresByModule :: "PlanPage \<Rightarrow> (string \<times> CatalogFeatureItem list) list" where
  "featuresByModule p = group_by group_key (pp_allCatalogFeatures p)"

definition is_included :: "PlanPage \<Rightarrow> string \<Rightarrow> bool" where
  "is_included p k \<longleftrightarrow> map_of (pp_planFeaturesMap p) k = Some True"

definition matches_query :: "string \<Rightarrow> CatalogFeatureItem \<Rightarrow> bool" where
  "matches_query query f \<longleftrightarrow>
     query = [] \<or> str_includes (toLowerCase (item_name f)) query \<or>
     str_includes (toLowerCase (item_feature_key f)) query \<or> str_includes (toLowerCase (item_description f)) query"

definition feature_query :: "PlanPage \<Rightarrow> string" where
  "feature_query p = trim (toLowerCase (pp_featureSearch p))"

definition feature_shown :: "PlanPage \<Rightarrow> CatalogFeatureItem \<Rightarrow> bool" where
  "feature_shown p f \<longleftrightarrow> matches_query (feature_query p) f \<and>
     (case pp_featureFilter p of
        FLT_included \<Rightarrow> is_included p (item_feature_key f)
      | FLT_excluded \<Rightarrow> \<not> is_included p (item_feature_key f)
      | FLT_all \<Rightarrow> True)"

definition filteredFeaturesByModule :: "PlanPage \<Rightarrow> (string \<times> CatalogFeatureItem list) list" where
  "filteredFeaturesByModule p =
     filter (\<lambda>g. snd g \<noteq> []) (map (\<lambda>g. (fst g, filter (feature_shown p) (snd g))) (featuresByModule p))"

definition includedCount :: "PlanPage \<Rightarrow> nat" where
  "includedCount p = length (filter snd (pp_planFeaturesMap p))"

text \<open>The number on the button of the excluded.\<close>

definition excludedCount :: "PlanPage \<Rightarrow> int" where
  "excludedCount p = int (length (pp_allCatalogFeatures p)) - int (includedCount p)"

definition module_included :: "PlanPage \<Rightarrow> CatalogFeatureItem list \<Rightarrow> nat" where
  "module_included p items = length (filter (\<lambda>f. is_included p (item_feature_key f)) items)"

section \<open>Handlers\<close>

definition plan_fly :: "PlanFlight \<Rightarrow> PlanAction \<Rightarrow> request \<Rightarrow> PlanPage \<Rightarrow> PlanPage" where
  "plan_fly f act r p = p\<lparr>pp_flights := pp_flights p @ [(f, pp_session p)], pp_requests := pp_requests p @ [r],
     pp_log := pp_log p @ [(pp_session p, act)]\<rparr>"

definition scope_or_null :: "string \<Rightarrow> string option" where
  "scope_or_null scope = (if scope = ''ALL'' then None else Some scope)"

definition handleSaveOverview :: "PlanPage \<Rightarrow> PlanPage" where
  "handleSaveOverview p =
     (case pp_plan p of
        None \<Rightarrow> p
      | Some plan \<Rightarrow>
          let name = trim (pp_editName p); code = toUpperCase (trim (pp_editCode p));
              description = reason_or_null (pp_editDescription p); scope = scope_or_null (pp_editScope p) in
          if name = [] \<or> trim (pp_editCode p) = [] then p
          else if pp_mode p = MODE_DEMO
          then p\<lparr>pp_plan := Some (plan\<lparr>plan_name := name, plan_code := code, plan_description := description,
                   plan_asset_scope := scope\<rparr>),
                 pp_editingOverview := False\<rparr>
          else if \<not> some_text (pp_token p) then p
          else plan_fly PfOverview (AskUpdatePlan (plan_id plan) name code description scope)
            (planApi_updatePlan (pp_token_text p) (plan_id plan)
               (JObj [(''name'', JStr name), (''code'', JStr code), (''description'', jstr description),
                      (''asset_scope'', jstr scope)]))
            (p\<lparr>pp_editBusy := True, pp_editError := None\<rparr>))"

definition handleTogglePlanActive :: "PlanPage \<Rightarrow> PlanPage" where
  "handleTogglePlanActive p =
     (case (pp_plan p, pp_planToggleActive p) of
        (Some plan, Some on) \<Rightarrow>
          if pp_mode p = MODE_DEMO
          then p\<lparr>pp_plan := Some (plan\<lparr>plan_is_active := on\<rparr>), pp_planToggleActive := None\<rparr>
          else if \<not> some_text (pp_token p) then p
          else plan_fly PfActive (AskSetActive (plan_id plan) on)
            (if on then planApi_activatePlan (pp_token_text p) (plan_id plan)
             else planApi_deactivatePlan (pp_token_text p) (plan_id plan))
            (p\<lparr>pp_toggleBusy := True\<rparr>)
      | _ \<Rightarrow> p)"

definition set_feature :: "string \<Rightarrow> bool \<Rightarrow> PlanPage \<Rightarrow> PlanPage" where
  "set_feature k on p = p\<lparr>pp_planFeaturesMap := AList.update k on (pp_planFeaturesMap p)\<rparr>"

definition handleConfirmFeatureToggle :: "PlanPage \<Rightarrow> PlanPage" where
  "handleConfirmFeatureToggle p =
     (case (pp_plan p, pp_pendingFeatureToggle p) of
        (Some plan, Some a) \<Rightarrow>
          if pp_mode p = MODE_DEMO
          then (set_feature (pending_featureKey a) (pending_newEnabled a) p)\<lparr>pp_pendingFeatureToggle := None\<rparr>
          else if \<not> some_text (pp_token p) then p
          else plan_fly (PfFeature (pending_featureKey a) (pending_newEnabled a))
            (AskSetFeature (plan_id plan) (pending_featureKey a) (pending_newEnabled a))
            (planApi_setPlanFeatureEnabled (pp_token_text p) (plan_id plan) (pending_featureKey a) (pending_newEnabled a))
            (p\<lparr>pp_toggleBusy := True\<rparr>)
      | _ \<Rightarrow> p)"

definition handleToggleCategory :: "CatalogFeatureItem list \<Rightarrow> bool \<Rightarrow> PlanPage \<Rightarrow> PlanPage" where
  "handleToggleCategory items enableAll p =
     (case pp_plan p of
        None \<Rightarrow> p
      | Some plan \<Rightarrow>
          if pp_mode p = MODE_DEMO
          then p\<lparr>pp_planFeaturesMap := dict_of item_feature_key (\<lambda>f. enableAll) (pp_planFeaturesMap p) items\<rparr>
          else if \<not> some_text (pp_token p) then p
          else plan_fly PfCategory (AskSetFeatures (plan_id plan) (map (\<lambda>f. (item_feature_key f, enableAll)) items))
            (planApi_bulkSetPlanFeatures (pp_token_text p) (plan_id plan)
               (JArr (map (\<lambda>f. JObj [(''feature_key'', JStr (item_feature_key f)), (''enabled'', JBool enableAll)]) items)))
            p)"

definition bad_limit :: "EditablePlanLimit \<Rightarrow> bool" where
  "bad_limit l \<longleftrightarrow> \<not> lim_isUnlimited l \<and> lim_value l < 0"

definition limit_item :: "EditablePlanLimit \<Rightarrow> PlanLimitItem" where
  "limit_item l = \<lparr>plitem_limit_key = lim_key l,
     plitem_limit_value = (if lim_isUnlimited l then None else Some (lim_value l)), plitem_is_unlimited = lim_isUnlimited l\<rparr>"

definition limit_item_json :: "PlanLimitItem \<Rightarrow> json" where
  "limit_item_json i = JObj [(''limit_key'', JStr (plitem_limit_key i)), (''limit_value'', jint (plitem_limit_value i)),
     (''is_unlimited'', JBool (plitem_is_unlimited i))]"

definition limit_message :: "EditablePlanLimit \<Rightarrow> string" where
  "limit_message l = ''Please provide a valid non-negative integer for '' @ lim_dimension l @ ''.''"

definition handleSaveLimits :: "string \<Rightarrow> PlanPage \<Rightarrow> PlanPage" where
  "handleSaveLimits i p =
     (let p = p\<lparr>pp_limitsBusy := True, pp_limitsSuccess := None, pp_limitsError := None\<rparr> in
      case find bad_limit (pp_editableLimits p) of
        Some l \<Rightarrow> p\<lparr>pp_limitsError := Some (limit_message l), pp_limitsBusy := False\<rparr>
      | None \<Rightarrow>
          if pp_mode p = MODE_DEMO then p\<lparr>pp_timers := pp_timers p @ [length (pp_editableLimits p)]\<rparr>
          else if \<not> some_text (pp_token p) then p\<lparr>pp_limitsBusy := False\<rparr>
          else let items = map limit_item (pp_editableLimits p) in
            plan_fly PfLimits (AskSetLimits i items)
              (planApi_bulkSetPlanLimits (pp_token_text p) i (JArr (map limit_item_json items))) p)"

text \<open>\<open>parseInt(text, 10)\<close> of an input of numbers, \<open>NaN\<close> and the empty text being zero.\<close>

definition unsigned_value :: "string \<Rightarrow> nat" where
  "unsigned_value ds = (if ds \<noteq> [] \<and> is_digit (hd ds) then or_else (parseInt ds) 0 else 0)"

definition typed_value :: "string \<Rightarrow> int" where
  "typed_value text = (case dropWhile is_space text of
     [] \<Rightarrow> 0
   | c # ds \<Rightarrow> if c = CHR ''-'' then - int (unsigned_value ds)
       else if c = CHR ''+'' then int (unsigned_value ds) else int (unsigned_value (c # ds)))"

definition edit_limit :: "nat \<Rightarrow> (EditablePlanLimit \<Rightarrow> EditablePlanLimit) \<Rightarrow> PlanPage \<Rightarrow> PlanPage" where
  "edit_limit n f p = p\<lparr>pp_editableLimits :=
     map (\<lambda>(k, l). if k = n then f l else l) (enumerate 0 (pp_editableLimits p))\<rparr>"

section \<open>Answers\<close>

text \<open>What comes back: the plan for the calls that answer with one, the trail for its own.\<close>

type_synonym plan_reply = "client_error + PlanResponse \<times> AuditEventResponse list"

definition saved_limits_text :: string where
  "saved_limits_text = ''Plan usage limits saved successfully and active for all subscribers.''"

definition plan_flight_success ::
  "string \<Rightarrow> PlanFlight \<Rightarrow> org_session \<Rightarrow> PlanResponse \<times> AuditEventResponse list \<Rightarrow> PlanPage \<Rightarrow> PlanPage" where
  "plan_flight_success i f session reply p = (case f of
     PfOverview \<Rightarrow> (plan_load session i (p\<lparr>pp_plan := Some (fst reply), pp_editingOverview := False\<rparr>))\<lparr>pp_editBusy := False\<rparr>
   | PfActive \<Rightarrow> (plan_load session i (p\<lparr>pp_planToggleActive := None\<rparr>))\<lparr>pp_toggleBusy := False\<rparr>
   | PfFeature k on \<Rightarrow> (plan_load session i ((set_feature k on p)\<lparr>pp_pendingFeatureToggle := None\<rparr>))\<lparr>pp_toggleBusy := False\<rparr>
   | PfCategory \<Rightarrow> plan_load session i p
   | PfLimits \<Rightarrow> (case session of (mode, token, auth) \<Rightarrow>
       p\<lparr>pp_limitsSuccess := Some saved_limits_text, pp_flights := pp_flights p @ [(PfTrail, session)],
         pp_requests := pp_requests p @ [planApi_getPlanAuditTrail (or_else token []) i]\<rparr>)
   | PfTrail \<Rightarrow> p\<lparr>pp_auditEvents := snd reply, pp_limitsBusy := False\<rparr>)"

definition plan_flight_failure :: "PlanFlight \<Rightarrow> client_error \<Rightarrow> PlanPage \<Rightarrow> PlanPage" where
  "plan_flight_failure f e p = (let n = normalizeApiError e in case f of
     PfOverview \<Rightarrow> p\<lparr>pp_editError := Some n, pp_editBusy := False\<rparr>
   | PfActive \<Rightarrow> p\<lparr>pp_planError := Some n, pp_toggleBusy := False\<rparr>
   | PfFeature k on \<Rightarrow> p\<lparr>pp_planError := Some n, pp_toggleBusy := False\<rparr>
   | PfCategory \<Rightarrow> p\<lparr>pp_planError := Some n\<rparr>
   | PfLimits \<Rightarrow> p\<lparr>pp_limitsError := Some (nerr_message n), pp_limitsBusy := False\<rparr>
   | PfTrail \<Rightarrow> p\<lparr>pp_limitsError := Some (nerr_message n), pp_limitsBusy := False\<rparr>)"

definition plan_flight_settled :: "string \<Rightarrow> nat \<Rightarrow> plan_reply \<Rightarrow> PlanPage \<Rightarrow> PlanPage" where
  "plan_flight_settled i n reply p =
     (if length (pp_flights p) \<le> n then p
      else (case pp_flights p ! n of (f, session) \<Rightarrow>
        (case reply of
           Inl e \<Rightarrow> plan_flight_failure f e (p\<lparr>pp_flights := remove_nth n (pp_flights p)\<rparr>)
         | Inr r \<Rightarrow> plan_flight_success i f session r (p\<lparr>pp_flights := remove_nth n (pp_flights p)\<rparr>))))"

text \<open>The demonstration saves the limits after a while; the number of them is that of the render that saved.\<close>

definition plan_timer_fires :: "string \<Rightarrow> int \<Rightarrow> PlanPage \<Rightarrow> PlanPage" where
  "plan_timer_fires i now p = (case pp_timers p of
     [] \<Rightarrow> p
   | saved # ts \<Rightarrow>
       p\<lparr>pp_timers := ts, pp_limitsBusy := False,
         pp_limitsSuccess := Some ''Plan usage limits saved successfully (Demo mode).'',
         pp_auditEvents := demo_plan_event (''audit-'' @ show_int now) ''platform.plan_limit.updated'' ''PlanLimit'' (Some i)
             (JObj [(''plan_id'', JStr i), (''total_limits'', JNum (of_nat saved))]) (toISOString now) # pp_auditEvents p\<rparr>)"

section \<open>The page as a machine\<close>

text \<open>
  What a user can do is what is shown: the content once there is a plan, the form while it is edited, the features
  that the filter lets pass, the dialogs that are open; and no button or input that is disabled. A dialog can be left
  with the escape key while its call is under way. Every event carries the time of the clock.
\<close>

datatype PlanPanel = PPanelSignIn | PPanelLoading | PPanelForbidden | PPanelNotFound | PPanelContent

definition plan_panel :: "PlanPage \<Rightarrow> PlanPanel" where
  "plan_panel p =
     (if \<not> pp_isAuthenticated p then PPanelSignIn
      else if pp_loading p then PPanelLoading
      else if map_option nerr_kind (pp_planError p) = Some AEK_forbidden then PPanelForbidden
      else if pp_plan p = None then PPanelNotFound else PPanelContent)"

datatype PlanEvent =
    PlanEffect
  | PlanSessionChange DataMode "string option" bool
  | PlanLoadSettled PlanAnswer
  | PlanFlightSettled nat plan_reply
  | PlanTimerFires
  | PressEdit
  | TypeName string
  | TypeCode string
  | TypeDescription string
  | SelectScope string
  | PressSaveOverview
  | PressCancelEdit
  | PressPlanToggle
  | ConfirmPlanToggle
  | CancelPlanToggle
  | SelectFilter FeatureFilter
  | TypeFeatureSearch string
  | PressFeature CatalogFeatureItem
  | ConfirmFeature
  | CancelFeature
  | PressCategory string bool
  | TypeLimit nat string
  | TickUnlimited nat bool
  | PressSaveLimits

fun content_event_of_plan :: "string \<Rightarrow> PlanPage \<Rightarrow> PlanEvent \<Rightarrow> PlanPage" where
  "content_event_of_plan i p PressEdit = p\<lparr>pp_editingOverview := \<not> pp_editingOverview p\<rparr>"
| "content_event_of_plan i p (TypeName v) = (if pp_editingOverview p then p\<lparr>pp_editName := v\<rparr> else p)"
| "content_event_of_plan i p (TypeCode v) = (if pp_editingOverview p then p\<lparr>pp_editCode := toUpperCase v\<rparr> else p)"
| "content_event_of_plan i p (TypeDescription v) = (if pp_editingOverview p then p\<lparr>pp_editDescription := v\<rparr> else p)"
| "content_event_of_plan i p (SelectScope v) =
     (if pp_editingOverview p \<and> v \<in> set ASSET_SCOPES then p\<lparr>pp_editScope := v\<rparr> else p)"
| "content_event_of_plan i p PressSaveOverview =
     (if pp_editingOverview p \<and> \<not> pp_editBusy p \<and> trim (pp_editName p) \<noteq> [] \<and> trim (pp_editCode p) \<noteq> []
      then handleSaveOverview p else p)"
| "content_event_of_plan i p PressCancelEdit =
     (if pp_editingOverview p \<and> \<not> pp_editBusy p then p\<lparr>pp_editingOverview := False\<rparr> else p)"
| "content_event_of_plan i p PressPlanToggle =
     (case pp_plan p of None \<Rightarrow> p | Some plan \<Rightarrow> p\<lparr>pp_planToggleActive := Some (\<not> plan_is_active plan)\<rparr>)"
| "content_event_of_plan i p ConfirmPlanToggle =
     (if pp_planToggleActive p \<noteq> None \<and> \<not> pp_toggleBusy p then handleTogglePlanActive p else p)"
| "content_event_of_plan i p CancelPlanToggle = p\<lparr>pp_planToggleActive := None\<rparr>"
| "content_event_of_plan i p (SelectFilter f) = p\<lparr>pp_featureFilter := f\<rparr>"
| "content_event_of_plan i p (TypeFeatureSearch v) = p\<lparr>pp_featureSearch := v\<rparr>"
| "content_event_of_plan i p (PressFeature f) =
     (if f \<in> set (concat (map snd (filteredFeaturesByModule p)))
      then p\<lparr>pp_pendingFeatureToggle := Some
        \<lparr>pending_featureKey = item_feature_key f, pending_featureName = item_name f,
         pending_newEnabled = (\<not> is_included p (item_feature_key f))\<rparr>\<rparr>
      else p)"
| "content_event_of_plan i p ConfirmFeature =
     (if pp_pendingFeatureToggle p \<noteq> None \<and> \<not> pp_toggleBusy p then handleConfirmFeatureToggle p else p)"
| "content_event_of_plan i p CancelFeature = p\<lparr>pp_pendingFeatureToggle := None\<rparr>"
| "content_event_of_plan i p (PressCategory m enable) =
     (case map_of (filteredFeaturesByModule p) m of
        None \<Rightarrow> p
      | Some items \<Rightarrow> handleToggleCategory items enable p)"
| "content_event_of_plan i p (TypeLimit n text) =
     (if pp_limitsBusy p then p
      else edit_limit n (\<lambda>l. if lim_isUnlimited l then l else l\<lparr>lim_value := typed_value text\<rparr>) p)"
| "content_event_of_plan i p (TickUnlimited n on) =
     (if pp_limitsBusy p then p else edit_limit n (\<lambda>l. l\<lparr>lim_isUnlimited := on\<rparr>) p)"
| "content_event_of_plan i p PressSaveLimits = (if pp_limitsBusy p then p else handleSaveLimits i p)"
| "content_event_of_plan i p e = p"

fun plan_event_step :: "string \<Rightarrow> int \<Rightarrow> PlanPage \<Rightarrow> PlanEvent \<Rightarrow> PlanPage" where
  "plan_event_step i now p PlanEffect = plan_load (pp_session p) i p"
| "plan_event_step i now p (PlanSessionChange mode token auth) =
     (let q = p\<lparr>pp_mode := mode, pp_token := token, pp_isAuthenticated := auth\<rparr> in
      if pp_session q = pp_session p then q else plan_load (pp_session q) i q)"
| "plan_event_step i now p (PlanLoadSettled a) = plan_load_settled a p"
| "plan_event_step i now p (PlanFlightSettled n r) = plan_flight_settled i n r p"
| "plan_event_step i now p PlanTimerFires = plan_timer_fires i now p"
| "plan_event_step i now p e = (if plan_panel p = PPanelContent then content_event_of_plan i p e else p)"

definition plan_step :: "string \<Rightarrow> PlanPage \<Rightarrow> int \<times> PlanEvent \<Rightarrow> PlanPage" where
  "plan_step i p e = plan_event_step i (fst e) p (snd e)"

section \<open>What is asked of the service\<close>

definition STANDARD_LIMIT_KEYS :: "string list" where
  "STANDARD_LIMIT_KEYS = [''max_assets'', ''max_users'', ''monthly_work_orders'', ''storage_gb'',
     ''monthly_lisa_ai_tokens'', ''monthly_api_requests'']"

lemma table_keys: "list_all (\<lambda>e. map spec_key (snd e) = STANDARD_LIMIT_KEYS) STANDARD_LIMIT_SPECS"
  by (simp add: STANDARD_LIMIT_SPECS_def limit_spec_def STANDARD_LIMIT_KEYS_def)

lemma specs_keys [simp]: "map spec_key (specs_of scope) = STANDARD_LIMIT_KEYS"
proof -
  have found: "map spec_key specs = STANDARD_LIMIT_KEYS" if "map_of STANDARD_LIMIT_SPECS k = Some specs" for k specs
    using map_of_SomeD [OF that] table_keys by (auto simp: list_all_iff)
  have all: "map_of STANDARD_LIMIT_SPECS ''ALL'' \<noteq> None" by (simp add: STANDARD_LIMIT_SPECS_def)
  show ?thesis
  proof (cases "map_of STANDARD_LIMIT_SPECS (toUpperCase (or_else scope ''ALL''))")
    case None
    then show ?thesis using all found [of "''ALL''"] by (auto simp: specs_of_def or_else_def)
  qed (simp add: specs_of_def found)
qed

lemma default_keys: "map lim_key (default_limits scope) = STANDARD_LIMIT_KEYS"
proof -
  have "map lim_key (default_limits scope) = map spec_key (specs_of scope)"
    by (simp add: default_limits_def editable_limit_def del: specs_keys)
  then show ?thesis by simp
qed

lemma loaded_keys: "map lim_key (loaded_limits scope ls) = STANDARD_LIMIT_KEYS"
proof -
  have "map lim_key (loaded_limits scope ls) = map spec_key (specs_of scope)"
    by (auto simp: loaded_limits_def Let_def editable_limit_def simp del: specs_keys split: option.split)
  then show ?thesis by simp
qed

lemma edited_keys:
  assumes "\<And>l. lim_key (f l) = lim_key l"
  shows "map lim_key (pp_editableLimits (edit_limit n f p)) = map lim_key (pp_editableLimits p)"
proof -
  have "map lim_key (map (\<lambda>(k, l). if k = n then f l else l) (enumerate m ls)) = map lim_key ls" for m ls
    by (induction ls arbitrary: m) (simp_all add: assms)
  then show ?thesis by (simp add: edit_limit_def)
qed

fun fair_plan_action :: "PlanAction \<Rightarrow> bool" where
  "fair_plan_action (AskUpdatePlan i name code description scope) \<longleftrightarrow> name \<noteq> [] \<and> code \<noteq> []"
| "fair_plan_action (AskSetLimits i items) \<longleftrightarrow>
     map plitem_limit_key items = STANDARD_LIMIT_KEYS \<and> list_all (\<lambda>it. validate_limit it = Some it) items \<and>
     check_limit_keys [] items = None"
| "fair_plan_action act \<longleftrightarrow> True"

definition fair_plan_ask :: "org_session \<times> PlanAction \<Rightarrow> bool" where
  "fair_plan_ask e = (case e of ((mode, token, auth), act) \<Rightarrow> mode = MODE_REAL \<and> some_text token \<and> fair_plan_action act)"

lemma keys_checked:
  "distinct (map item_key items) \<Longrightarrow> set (map item_key items) \<inter> set seen = {} \<Longrightarrow> [] \<notin> set (map item_key items) \<Longrightarrow>
   check_limit_keys seen items = None"
proof (induction items arbitrary: seen)
  case (Cons i items)
  have "check_limit_keys (item_key i # seen) items = None"
    using Cons.prems by (intro Cons.IH) auto
  with Cons.prems show ?case by (auto simp: item_key_def Let_def)
qed simp

lemma standard_keys_ok:
  "distinct STANDARD_LIMIT_KEYS" "map trim STANDARD_LIMIT_KEYS = STANDARD_LIMIT_KEYS"
  "list_all (\<lambda>k. k \<noteq> [] \<and> py_len k \<le> 128) STANDARD_LIMIT_KEYS"
  by code_simp+

lemma limit_items_fair:
  assumes keys: "map lim_key ls = STANDARD_LIMIT_KEYS" and valid: "find bad_limit ls = None"
  shows "fair_plan_action (AskSetLimits i (map limit_item ls))"
proof -
  have k: "map plitem_limit_key (map limit_item ls) = STANDARD_LIMIT_KEYS"
    using keys by (simp add: comp_def limit_item_def)
  have items: "map item_key (map limit_item ls) = STANDARD_LIMIT_KEYS"
    using arg_cong [OF k, of "map trim"] by (simp add: comp_def item_key_def standard_keys_ok(2))
  have "validate_limit (limit_item l) = Some (limit_item l)" if "l \<in> set ls" for l
  proof -
    have "lim_key l \<in> set STANDARD_LIMIT_KEYS" using that arg_cong [OF keys, of set] by auto
    then have "lim_key l \<noteq> []" "\<not> 128 < py_len (lim_key l)" using standard_keys_ok(3) by (auto simp: list_all_iff)
    moreover have "\<not> bad_limit l" using valid that by (auto simp: find_None_iff)
    ultimately show ?thesis by (auto simp: validate_limit_def limit_item_def bad_limit_def)
  qed
  moreover have "check_limit_keys [] (map limit_item ls) = None"
    by (rule keys_checked; unfold items) (use standard_keys_ok in \<open>auto simp: list_all_iff\<close>)
  ultimately show ?thesis using k by (simp add: list_all_iff)
qed

definition plan_in_flight :: "(PlanFlight \<Rightarrow> bool) \<Rightarrow> PlanPage \<Rightarrow> nat" where
  "plan_in_flight P p = length (filter (\<lambda>x. P (fst x)) (pp_flights p))"

fun is_toggle :: "PlanFlight \<Rightarrow> bool" where
  "is_toggle PfActive = True"
| "is_toggle (PfFeature k on) = True"
| "is_toggle f = False"

definition is_limits :: "PlanFlight \<Rightarrow> bool" where
  "is_limits f \<longleftrightarrow> f = PfLimits \<or> f = PfTrail"

text \<open>One edit, one toggle and one save of the limits at a time; the flag of the kind says whether there is one.
  The buttons of the groups have no flag.\<close>

definition plan_flags_match :: "PlanPage \<Rightarrow> bool" where
  "plan_flags_match p \<longleftrightarrow>
     plan_in_flight (\<lambda>f. f = PfOverview) p = of_bool (pp_editBusy p) \<and>
     plan_in_flight is_toggle p = of_bool (pp_toggleBusy p) \<and>
     plan_in_flight is_limits p + length (pp_timers p) = of_bool (pp_limitsBusy p)"

definition plan_tokens_ok :: "PlanPage \<Rightarrow> bool" where
  "plan_tokens_ok p \<longleftrightarrow> list_all (\<lambda>r. some_text (rq_token r)) (pp_requests p) \<and>
     list_all (\<lambda>x. some_text (fst (snd (snd x)))) (pp_flights p)"

definition limits_loaded :: "PlanPage \<Rightarrow> bool" where
  "limits_loaded p \<longleftrightarrow> map lim_key (pp_editableLimits p) = STANDARD_LIMIT_KEYS \<or> (pp_plan p = None \<and> pp_flights p = [])"

definition plan_page_ok :: "PlanPage \<Rightarrow> bool" where
  "plan_page_ok p \<longleftrightarrow> list_all fair_plan_ask (pp_log p) \<and> plan_tokens_ok p \<and> plan_flags_match p \<and> limits_loaded p"

lemmas plan_ok_defs = plan_page_ok_def plan_tokens_ok_def plan_flags_match_def limits_loaded_def

lemmas plan_api_defs = planApi_getPlan_def planApi_listPlanFeatures_def productCatalogApi_getCatalogTree_def
  planApi_listPlanTenants_def planApi_getPlanAuditTrail_def planApi_listPlanLimits_def planApi_updatePlan_def
  planApi_activatePlan_def planApi_deactivatePlan_def planApi_setPlanFeatureEnabled_def
  planApi_bulkSetPlanFeatures_def planApi_bulkSetPlanLimits_def

lemma plan_load_frame [simp]:
  "pp_log (plan_load se i p) = pp_log p" "pp_flights (plan_load se i p) = pp_flights p"
  "pp_timers (plan_load se i p) = pp_timers p" "pp_editBusy (plan_load se i p) = pp_editBusy p"
  "pp_toggleBusy (plan_load se i p) = pp_toggleBusy p" "pp_limitsBusy (plan_load se i p) = pp_limitsBusy p"
  "pp_mode (plan_load se i p) = pp_mode p" "pp_token (plan_load se i p) = pp_token p"
  "pp_isAuthenticated (plan_load se i p) = pp_isAuthenticated p"
  by (simp_all add: plan_load_def load_demo_plan_def show_plan_def Let_def split: prod.split)

lemma plan_load_tokens:
  "list_all (\<lambda>r. some_text (rq_token r)) (pp_requests p) \<Longrightarrow>
   list_all (\<lambda>r. some_text (rq_token r)) (pp_requests (plan_load se i p))"
  by (auto simp: plan_load_def load_demo_plan_def show_plan_def Let_def plan_load_requests_def plan_api_defs some_text_def
      or_else_def split: prod.split)

lemma plan_load_limits: "limits_loaded p \<Longrightarrow> limits_loaded (plan_load se i p)"
  by (auto simp: limits_loaded_def plan_load_def load_demo_plan_def show_plan_def Let_def default_keys split: prod.split)

lemma plan_load_ok: "plan_page_ok p \<Longrightarrow> plan_page_ok (plan_load se i p)"
  using plan_load_limits [of p se i] plan_load_tokens [of p se i]
  by (simp add: plan_page_ok_def plan_tokens_ok_def plan_flags_match_def plan_in_flight_def)

lemma plan_load_settled_ok: "plan_page_ok p \<Longrightarrow> plan_page_ok (plan_load_settled a p)"
  by (cases "pp_loads p = 0"; cases "pans_plan a")
    (simp_all add: plan_ok_defs plan_in_flight_def plan_load_settled_def show_plan_def Let_def loaded_keys)

text \<open>Starting a call; \<open>q\<close> differs from \<open>p\<close> in a flag and the messages.\<close>

lemma plan_fly_ok:
  assumes "plan_page_ok p" and "pp_mode p \<noteq> MODE_DEMO" "some_text (pp_token p)" "fair_plan_action act"
    and "rq_token r = Some (pp_token_text p)" and "map lim_key (pp_editableLimits p) = STANDARD_LIMIT_KEYS"
    and "pp_log q = pp_log p" "pp_requests q = pp_requests p" "pp_flights q = pp_flights p" "pp_session q = pp_session p"
      "pp_editableLimits q = pp_editableLimits p"
    and "plan_flags_match (plan_fly f act r q)"
  shows "plan_page_ok (plan_fly f act r q)"
  using assms
  by (cases "pp_mode p")
    (auto simp: plan_page_ok_def plan_tokens_ok_def limits_loaded_def plan_fly_def fair_plan_ask_def pp_session_def
      pp_token_text_def some_text_def or_else_def)

lemma plan_fly_matches:
  assumes "plan_flags_match p" and "pp_flights q = pp_flights p" "pp_timers q = pp_timers p"
    and "of_bool (f = PfOverview) + of_bool (pp_editBusy p) = (of_bool (pp_editBusy q) :: nat)"
      "of_bool (is_toggle f) + of_bool (pp_toggleBusy p) = (of_bool (pp_toggleBusy q) :: nat)"
      "of_bool (is_limits f) + of_bool (pp_limitsBusy p) = (of_bool (pp_limitsBusy q) :: nat)"
  shows "plan_flags_match (plan_fly f act r q)"
proof -
  have count: "plan_in_flight P (plan_fly f act r q) = plan_in_flight P p + of_bool (P f)" for P
    using assms(2) by (simp add: plan_in_flight_def plan_fly_def)
  have frame: "pp_editBusy (plan_fly f act r q) = pp_editBusy q" "pp_toggleBusy (plan_fly f act r q) = pp_toggleBusy q"
    "pp_limitsBusy (plan_fly f act r q) = pp_limitsBusy q" "pp_timers (plan_fly f act r q) = pp_timers p"
    using assms(3) by (simp_all add: plan_fly_def)
  show ?thesis
    using assms(1,4-6) unfolding plan_flags_match_def count frame by linarith
qed

lemma plan_same_ok:
  assumes "plan_page_ok p" and "pp_log q = pp_log p" "pp_requests q = pp_requests p" "pp_flights q = pp_flights p"
    "pp_timers q = pp_timers p" "pp_editBusy q = pp_editBusy p" "pp_toggleBusy q = pp_toggleBusy p"
    "pp_limitsBusy q = pp_limitsBusy p" "map lim_key (pp_editableLimits q) = map lim_key (pp_editableLimits p)"
    "pp_plan q = None \<longleftrightarrow> pp_plan p = None"
  shows "plan_page_ok q"
  using assms by (simp add: plan_ok_defs plan_in_flight_def)

lemma plan_limits_there: "plan_page_ok p \<Longrightarrow> pp_plan p \<noteq> None \<Longrightarrow> map lim_key (pp_editableLimits p) = STANDARD_LIMIT_KEYS"
  by (auto simp: plan_page_ok_def limits_loaded_def)

lemma plan_flags: "plan_page_ok p \<Longrightarrow> plan_flags_match p"
  by (simp add: plan_page_ok_def)

lemma save_overview_ok:
  "plan_page_ok p \<Longrightarrow> \<not> pp_editBusy p \<Longrightarrow> plan_page_ok (handleSaveOverview p)"
  unfolding handleSaveOverview_def Let_def
  by (auto simp: plan_limits_there plan_api_defs pp_session_def pp_token_text_def is_limits_def toUpperCase_def
      split: option.split intro: plan_same_ok intro!: plan_fly_ok [of p] plan_fly_matches [OF plan_flags])

lemma toggle_plan_ok:
  "plan_page_ok p \<Longrightarrow> \<not> pp_toggleBusy p \<Longrightarrow> plan_page_ok (handleTogglePlanActive p)"
  unfolding handleTogglePlanActive_def
  by (auto simp: plan_limits_there plan_api_defs pp_session_def pp_token_text_def is_limits_def
      split: option.split intro: plan_same_ok intro!: plan_fly_ok [of p] plan_fly_matches [OF plan_flags])

lemma confirm_feature_ok:
  "plan_page_ok p \<Longrightarrow> \<not> pp_toggleBusy p \<Longrightarrow> plan_page_ok (handleConfirmFeatureToggle p)"
  unfolding handleConfirmFeatureToggle_def
  by (auto simp: plan_limits_there plan_api_defs pp_session_def pp_token_text_def is_limits_def set_feature_def
      split: option.split intro: plan_same_ok intro!: plan_fly_ok [of p] plan_fly_matches [OF plan_flags])

lemma toggle_category_ok: "plan_page_ok p \<Longrightarrow> plan_page_ok (handleToggleCategory items on p)"
  unfolding handleToggleCategory_def
  by (auto simp: plan_limits_there plan_api_defs is_limits_def
      split: option.split intro: plan_same_ok intro!: plan_fly_ok [of p] plan_fly_matches [OF plan_flags])

lemma save_limits_ok:
  assumes ok: "plan_page_ok p" and idle: "\<not> pp_limitsBusy p" and plan: "pp_plan p \<noteq> None"
  shows "plan_page_ok (handleSaveLimits i p)"
proof (cases "find bad_limit (pp_editableLimits p)")
  case None
  note keys = plan_limits_there [OF ok plan]
  have timer: "plan_page_ok (p\<lparr>pp_limitsBusy := True, pp_limitsSuccess := None, pp_limitsError := None,
      pp_timers := pp_timers p @ [n]\<rparr>)" for n
    using ok idle by (simp add: plan_ok_defs plan_in_flight_def)
  show ?thesis
    using ok idle None limit_items_fair [OF keys None, of i] timer keys
    by (auto simp: handleSaveLimits_def Let_def plan_api_defs pp_session_def pp_token_text_def is_limits_def
        simp del: fair_plan_action.simps
        intro: plan_same_ok intro!: plan_fly_ok [of p] plan_fly_matches [OF plan_flags])
next
  case (Some l)
  then show ?thesis using ok idle by (auto simp: handleSaveLimits_def Let_def intro: plan_same_ok)
qed

text \<open>The end of a call.\<close>

lemma plan_flight_ends:
  assumes match: "plan_flags_match p" and n: "n < length (pp_flights p)" and f: "fst (pp_flights p ! n) = f"
    and q: "pp_flights q = remove_nth n (pp_flights p) @ nx" "pp_timers q = pp_timers p"
    and nx: "\<And>P. length (filter (\<lambda>x. P (fst x)) nx) = of_bool (nx \<noteq> [] \<and> P PfTrail)"
    and flags: "pp_editBusy q = (pp_editBusy p \<and> f \<noteq> PfOverview)" "pp_toggleBusy q = (pp_toggleBusy p \<and> \<not> is_toggle f)"
      "pp_limitsBusy q = (pp_limitsBusy p \<and> (is_limits f \<longrightarrow> nx \<noteq> []))" and only: "nx \<noteq> [] \<Longrightarrow> is_limits f"
  shows "plan_flags_match q"
proof -
  have count: "plan_in_flight P q + of_bool (P f) = plan_in_flight P p + of_bool (nx \<noteq> [] \<and> P PfTrail)" for P
    using count_remove_nth [OF n, of P] f q(1) nx [of P] by (simp add: plan_in_flight_def)
  have "plan_in_flight (\<lambda>f. f = PfOverview) q = of_bool (pp_editBusy q)"
    using match count [of "\<lambda>f. f = PfOverview"] flags(1) unfolding plan_flags_match_def by (auto split: if_splits simp: of_bool_def)
  moreover have "plan_in_flight is_toggle q = of_bool (pp_toggleBusy q)"
    using match count [of is_toggle] flags(2) unfolding plan_flags_match_def by (auto split: if_splits simp: of_bool_def)
  moreover have "plan_in_flight is_limits q + length (pp_timers q) = of_bool (pp_limitsBusy q)"
  proof -
    have "plan_in_flight is_limits q + length (pp_timers q) + of_bool (is_limits f) =
        of_bool (pp_limitsBusy p) + of_bool (nx \<noteq> [])"
      using match count [of is_limits] q(2) unfolding plan_flags_match_def by (simp add: is_limits_def [of PfTrail])
    then show ?thesis
      using flags(3) only by (cases "nx = []"; cases "is_limits f"; cases "pp_limitsBusy p") simp_all
  qed
  ultimately show ?thesis by (simp add: plan_flags_match_def)
qed

lemma plan_tokens_end:
  "plan_tokens_ok p \<Longrightarrow> plan_tokens_ok (p\<lparr>pp_flights := remove_nth n (pp_flights p)\<rparr>)"
  by (simp add: plan_tokens_ok_def list_all_remove_nth)

lemma limits_end: "limits_loaded p \<Longrightarrow> limits_loaded (p\<lparr>pp_flights := remove_nth n (pp_flights p)\<rparr>)"
  by (auto simp: limits_loaded_def remove_nth_def)

lemma plan_load_keys:
  "map lim_key (pp_editableLimits p) = STANDARD_LIMIT_KEYS \<Longrightarrow>
   map lim_key (pp_editableLimits (plan_load se i p)) = STANDARD_LIMIT_KEYS"
  by (simp add: plan_load_def load_demo_plan_def show_plan_def Let_def default_keys split: prod.split)

lemma plan_load_tokens_ok: "plan_tokens_ok p \<Longrightarrow> plan_tokens_ok (plan_load se i p)"
  using plan_load_tokens [of p se i] by (simp add: plan_tokens_ok_def)

lemma plan_success_log: "pp_log (plan_flight_success i f se r p) = pp_log p"
  by (cases f; cases se) (simp_all add: plan_flight_success_def set_feature_def)

lemma plan_success_keys:
  assumes "map lim_key (pp_editableLimits p) = STANDARD_LIMIT_KEYS"
  shows "map lim_key (pp_editableLimits (plan_flight_success i f se r p)) = STANDARD_LIMIT_KEYS"
  by (cases f; cases se) (simp_all add: plan_flight_success_def set_feature_def plan_load_keys assms)

lemma plan_success_tokens:
  assumes ok: "plan_tokens_ok p" and tok: "some_text (fst (snd se))"
  shows "plan_tokens_ok (plan_flight_success i f se r p)"
proof -
  have same: "plan_tokens_ok q" if "pp_requests q = pp_requests p'" "pp_flights q = pp_flights p'" "plan_tokens_ok p'" for q p'
    using that by (simp add: plan_tokens_ok_def)
  have load: "plan_tokens_ok (plan_load se i q)" if "pp_requests q = pp_requests p" "pp_flights q = pp_flights p" for q
    by (rule plan_load_tokens_ok) (rule same [OF that ok])
  show ?thesis
  proof (cases "f = PfLimits")
    case True
    obtain mode token auth where se: "se = (mode, token, auth)" by (cases se)
    then have "some_text (Some (or_else token []))" using tok by (auto simp: some_text_def or_else_def)
    then show ?thesis using ok tok True se by (simp add: plan_flight_success_def plan_tokens_ok_def plan_api_defs)
  next
    case False
    then show ?thesis
      by (cases f) (auto simp: plan_flight_success_def set_feature_def intro: same [OF _ _ load] same [OF _ _ ok] load)
  qed
qed

lemma plan_failure_parts:
  shows "pp_requests (plan_flight_failure f e p) = pp_requests p" "pp_log (plan_flight_failure f e p) = pp_log p"
    "pp_flights (plan_flight_failure f e p) = pp_flights p" "pp_timers (plan_flight_failure f e p) = pp_timers p"
    "pp_editableLimits (plan_flight_failure f e p) = pp_editableLimits p"
  by (cases f; simp add: plan_flight_failure_def Let_def)+

lemma plan_settled_ok:
  assumes ok: "plan_page_ok p"
  shows "plan_page_ok (plan_flight_settled i n reply p)"
proof (cases "n < length (pp_flights p)")
  case True
  obtain f se where f: "pp_flights p ! n = (f, se)" by (cases "pp_flights p ! n")
  define p' where "p' = p\<lparr>pp_flights := remove_nth n (pp_flights p)\<rparr>"
  define q where "q = (case reply of Inl e \<Rightarrow> plan_flight_failure f e p' | Inr r \<Rightarrow> plan_flight_success i f se r p')"
  have keys: "map lim_key (pp_editableLimits p') = STANDARD_LIMIT_KEYS"
    using ok True by (auto simp: p'_def plan_page_ok_def limits_loaded_def)
  have tok: "plan_tokens_ok p'" "some_text (fst (snd se))"
    using ok True f nth_mem [OF True] plan_tokens_end [of p n]
    by (auto simp: p'_def plan_page_ok_def plan_tokens_ok_def list_all_iff)
  have parts: "plan_tokens_ok q" "map lim_key (pp_editableLimits q) = STANDARD_LIMIT_KEYS" "pp_log q = pp_log p"
    using tok keys
    by (simp_all add: q_def plan_success_log plan_success_keys plan_success_tokens plan_failure_parts
        plan_tokens_ok_def [of "plan_flight_failure f e p'" for e] split: sum.split)
      (simp_all add: p'_def plan_tokens_ok_def)
  define nx where "nx = (if f = PfLimits \<and> (\<exists>r. reply = Inr r) then [(PfTrail, se)] else [])"
  have "plan_flags_match q"
  proof (rule plan_flight_ends [OF plan_flags [OF ok] True, where nx = nx and f = f])
    show "fst (pp_flights p ! n) = f" by (simp add: f)
    show "pp_flights q = remove_nth n (pp_flights p) @ nx" "pp_timers q = pp_timers p"
      by (cases reply; cases f; cases se; simp add: q_def nx_def p'_def plan_failure_parts plan_flight_success_def set_feature_def)+
    show "pp_editBusy q = (pp_editBusy p \<and> f \<noteq> PfOverview)" "pp_toggleBusy q = (pp_toggleBusy p \<and> \<not> is_toggle f)"
      "pp_limitsBusy q = (pp_limitsBusy p \<and> (is_limits f \<longrightarrow> nx \<noteq> []))"
      by (cases reply; cases f; cases se; simp add: q_def nx_def p'_def plan_flight_failure_def Let_def plan_flight_success_def
          set_feature_def is_limits_def)+
  qed (auto simp: nx_def is_limits_def split: if_splits)
  moreover have "plan_flight_settled i n reply p = q" using True f by (simp add: plan_flight_settled_def q_def p'_def split: sum.split)
  ultimately show ?thesis using parts ok by (simp add: plan_page_ok_def limits_loaded_def)
qed (use ok in \<open>simp add: plan_flight_settled_def\<close>)

lemma plan_timer_ok: "plan_page_ok p \<Longrightarrow> plan_page_ok (plan_timer_fires i now p)"
  by (auto simp: plan_timer_fires_def plan_ok_defs plan_in_flight_def of_bool_def split: list.split if_splits)

lemma edited_ok:
  assumes "plan_page_ok p" and "\<And>l. lim_key (f l) = lim_key l"
  shows "plan_page_ok (edit_limit n f p)"
  by (rule plan_same_ok [OF assms(1)]) (simp_all add: edited_keys [OF assms(2)], simp_all add: edit_limit_def)

lemma content_event_ok:
  assumes ok: "plan_page_ok p" and panel: "plan_panel p = PPanelContent"
  shows "plan_page_ok (content_event_of_plan i p e)"
proof -
  have plan: "pp_plan p \<noteq> None" using panel by (auto simp: plan_panel_def split: if_splits)
  show ?thesis
  proof (cases e)
    case PressSaveOverview
    then show ?thesis using ok by (simp add: save_overview_ok)
  next
    case ConfirmPlanToggle
    then show ?thesis using ok by (simp add: toggle_plan_ok)
  next
    case ConfirmFeature
    then show ?thesis using ok by (simp add: confirm_feature_ok)
  next
    case (PressCategory m on)
    then show ?thesis using ok by (simp add: toggle_category_ok split: option.split)
  next
    case (TypeLimit n v)
    then show ?thesis using ok by (auto intro!: edited_ok)
  next
    case (TickUnlimited n on)
    then show ?thesis using ok by (auto intro!: edited_ok)
  next
    case PressSaveLimits
    then show ?thesis using ok plan by (simp add: save_limits_ok)
  next
    case PressPlanToggle
    then show ?thesis using ok plan by (auto intro: plan_same_ok split: option.split)
  qed (use ok in \<open>auto intro: plan_same_ok\<close>)
qed

lemma plan_event_ok:
  assumes ok: "plan_page_ok p"
  shows "plan_page_ok (plan_event_step i now p e)"
proof (cases e)
  case (PlanSessionChange mode token auth)
  have "plan_page_ok (p\<lparr>pp_mode := mode, pp_token := token, pp_isAuthenticated := auth\<rparr>)"
    using ok by (auto intro: plan_same_ok)
  with PlanSessionChange show ?thesis by (simp add: Let_def plan_load_ok)
qed (use ok in \<open>simp_all add: plan_load_ok plan_load_settled_ok plan_settled_ok plan_timer_ok content_event_ok del: content_event_of_plan.simps\<close>)

interpretation plan_page: machine "plan_step i" plan_page_ok for i
  by unfold_locales (simp add: plan_step_def plan_event_ok)

lemma plan_page_init_ok: "plan_page_ok (plan_page_init mode token auth)"
  by (simp add: plan_page_init_def plan_ok_defs plan_in_flight_def)

text \<open>
  C11 Whatever the user does on the page of a plan, and whatever the session, the service and the clock do in between:
  what the page asks it asks with real data and a token; a plan it saves has a name and a code; the limits it saves
  are one for each of the six standard keys, none negative, so that the service refuses none of them as invalid; and
  of an edit, a switch and a save of the limits at most one each is under way, with its button disabled exactly then.
\<close>

theorem plan_page_safe:
  "list_all fair_plan_ask (pp_log (run (plan_step i) (plan_page_init mode token auth) es)) \<and>
   list_all (\<lambda>r. some_text (rq_token r)) (pp_requests (run (plan_step i) (plan_page_init mode token auth) es)) \<and>
   plan_flags_match (run (plan_step i) (plan_page_init mode token auth) es)"
proof -
  have "plan_page_ok (run (plan_step i) (plan_page_init mode token auth) es)"
    by (rule plan_page.run_inv [OF plan_page_init_ok])
  then show ?thesis by (simp add: plan_page_ok_def plan_tokens_ok_def)
qed

section \<open>What the filter shows\<close>

definition shown_features :: "PlanPage \<Rightarrow> CatalogFeatureItem list" where
  "shown_features p = concat (map snd (filteredFeaturesByModule p))"

lemma group_add_mset: "mset (concat (map snd (group_add k x g))) = add_mset x (mset (concat (map snd g)))"
  by (induction k x g rule: group_add.induct) auto

lemma group_by_mset: "mset (concat (map snd (group_by key xs))) = mset xs"
  by (induction xs rule: rev_induct) (simp_all add: group_by_snoc group_add_mset, simp add: group_by_def)

lemma shown_mset: "mset (shown_features p) = mset (filter (feature_shown p) (pp_allCatalogFeatures p))"
proof -
  have "concat (map snd (filter (\<lambda>g. snd g \<noteq> []) (map (\<lambda>g. (fst g, filter P (snd g))) gs))) =
      filter P (concat (map snd gs))" for P and gs :: "(string \<times> CatalogFeatureItem list) list"
    by (induction gs) auto
  then have "shown_features p = filter (feature_shown p) (concat (map snd (featuresByModule p)))"
    by (simp add: shown_features_def filteredFeaturesByModule_def)
  then show ?thesis by (simp add: group_by_mset featuresByModule_def)
qed

text \<open>
  The groups and the filter lose no feature and show none twice: whatever is searched for, the included and
  the excluded features together are all that the search finds, and without a search all is the whole catalog.
\<close>

theorem filters_partition:
  "mset (shown_features (p\<lparr>pp_featureFilter := FLT_included\<rparr>)) + mset (shown_features (p\<lparr>pp_featureFilter := FLT_excluded\<rparr>)) =
     mset (shown_features (p\<lparr>pp_featureFilter := FLT_all\<rparr>)) \<and>
   mset (shown_features (p\<lparr>pp_featureFilter := FLT_all, pp_featureSearch := []\<rparr>)) = mset (pp_allCatalogFeatures p)"
proof
  let ?Q = "\<lambda>f. matches_query (feature_query p) f"
  let ?I = "\<lambda>f. is_included p (item_feature_key f)"
  have q: "feature_query (p\<lparr>pp_featureFilter := x\<rparr>) = feature_query p" "is_included (p\<lparr>pp_featureFilter := x\<rparr>) = is_included p" for x
    by (simp_all add: feature_query_def is_included_def fun_eq_iff)
  have "mset (filter (\<lambda>f. ?Q f \<and> ?I f) xs) + mset (filter (\<lambda>f. ?Q f \<and> \<not> ?I f) xs) = mset (filter ?Q xs)" for xs
    by (induction xs) auto
  then show "mset (shown_features (p\<lparr>pp_featureFilter := FLT_included\<rparr>)) +
      mset (shown_features (p\<lparr>pp_featureFilter := FLT_excluded\<rparr>)) = mset (shown_features (p\<lparr>pp_featureFilter := FLT_all\<rparr>))"
    by (simp add: shown_mset feature_shown_def [abs_def] q)
  have "feature_shown (p\<lparr>pp_featureFilter := FLT_all, pp_featureSearch := []\<rparr>) f" for f
    by (simp add: feature_shown_def matches_query_def feature_query_def toLowerCase_def trim_def)
  then show "mset (shown_features (p\<lparr>pp_featureFilter := FLT_all, pp_featureSearch := []\<rparr>)) = mset (pp_allCatalogFeatures p)"
    by (simp add: shown_mset)
qed

text \<open>The number on the button of the excluded features, and the features that are.\<close>

definition excluded_features :: "PlanPage \<Rightarrow> CatalogFeatureItem list" where
  "excluded_features p = filter (\<lambda>f. \<not> is_included p (item_feature_key f)) (pp_allCatalogFeatures p)"

definition enabled_outside :: "PlanPage \<Rightarrow> string list" where
  "enabled_outside p = filter (\<lambda>k. k \<notin> item_feature_key ` set (pp_allCatalogFeatures p))
     (map fst (filter snd (pp_planFeaturesMap p)))"

lemma count_by_key:
  assumes "distinct ks" and "distinct (map key xs)" and mem: "\<And>k. k \<in> set ks \<longleftrightarrow> P k"
  shows "length ks = length (filter (\<lambda>x. P (key x)) xs) + length (filter (\<lambda>k. k \<notin> key ` set xs) ks)"
proof -
  let ?in = "filter (\<lambda>k. k \<in> key ` set xs) ks" and ?ys = "map key (filter (\<lambda>x. P (key x)) xs)"
  have "set ?in = set ?ys" using mem by auto
  then have "length ?in = length ?ys"
    using distinct_card [OF distinct_filter [OF assms(1)], of "\<lambda>k. k \<in> key ` set xs"]
      distinct_card [OF distinct_map_filter [OF assms(2)], of "\<lambda>x. P (key x)"] by simp
  then show ?thesis
    using sum_length_filter_compl [of "\<lambda>k. k \<in> key ` set xs" ks] by simp
qed

text \<open>
  The number of the excluded features is wrong by the features of the plan that the catalog does not show: it
  is the number of the excluded features of the catalog less the number of the enabled keys outside it.
\<close>

theorem excluded_count_off:
  assumes "distinct (map fst (pp_planFeaturesMap p))" and "distinct (map item_feature_key (pp_allCatalogFeatures p))"
  shows "excludedCount p = int (length (excluded_features p)) - int (length (enabled_outside p))"
proof -
  let ?ks = "map fst (filter snd (pp_planFeaturesMap p))"
  have "k \<in> set ?ks \<longleftrightarrow> (k, True) \<in> set (pp_planFeaturesMap p)" for k by force
  then have mem: "k \<in> set ?ks \<longleftrightarrow> is_included p k" for k
    unfolding is_included_def map_of_eq_Some_iff [OF assms(1)] by blast
  have "length ?ks = length (filter (\<lambda>f. is_included p (item_feature_key f)) (pp_allCatalogFeatures p)) +
      length (enabled_outside p)"
    unfolding enabled_outside_def
    by (rule count_by_key [OF distinct_map_filter [OF assms(1)] assms(2) mem])
  then show ?thesis
    using sum_length_filter_compl [of "\<lambda>f. is_included p (item_feature_key f)" "pp_allCatalogFeatures p"]
    by (simp add: excludedCount_def includedCount_def excluded_features_def)
qed

text \<open>A plan that has one feature, which the catalog does not show: minus one excluded.\<close>

definition outside_page :: PlanPage where
  "outside_page = (plan_page_init MODE_REAL (Some ''token'') True)\<lparr>pp_planFeaturesMap := [(''retired_feature'', True)]\<rparr>"

theorem excluded_count_off_witness: "excludedCount outside_page = - 1"
  using excluded_count_off [of outside_page]
  by (simp add: outside_page_def plan_page_init_def excluded_features_def enabled_outside_def)

end
