(* ===== verification/PlanEntitlements.thy ===== *)
theory PlanEntitlements
  imports PlanPage
begin

text \<open>
  The limits on the page of a plan, the service that keeps them and the tenants that have them: what a save on
  the page does in the service, what the page shows when it is loaded again, and what becomes of the limits of
  a plan whose limits could not be read.
\<close>

section \<open>From the rows of the service to those of the page\<close>

definition plan_limit_response :: "(int \<Rightarrow> string) \<Rightarrow> PlanLimitRow \<Rightarrow> PlanLimitResponse" where
  "plan_limit_response show_time l =
     \<lparr>plimit_id = plrow_id l, plimit_plan_id = plrow_plan_id l, plimit_limit_key = plrow_limit_key l,
      plimit_limit_value = plrow_limit_value l, plimit_is_unlimited = plrow_is_unlimited l,
      plimit_created_at = show_time (plrow_created_at l), plimit_updated_at = show_time (plrow_updated_at l)\<rparr>"

definition limits_answer :: "(int \<Rightarrow> string) \<Rightarrow> EntitlementDb \<Rightarrow> string \<Rightarrow> client_error + PlanLimitResponse list" where
  "limits_answer show_time db i =
     Inr (map (plan_limit_response show_time) (sort_key plrow_created_at (plan_limits_of db i)))"

lemma answered_limit:
  assumes "limits_unique db"
  shows "map_of (dict_of plimit_limit_key id [] (fulfilled (limits_answer show_time db i) [])) k =
    map_option (plan_limit_response show_time) (find (limit_of i k) (edb_plan_limits db))"
proof -
  let ?ls = "plan_limits_of db i"
  have d: "distinct (map plrow_limit_key ?ls)"
    using assms unfolding plan_limits_of_def limits_unique_def
    by (auto simp: distinct_map inj_on_def intro: distinct_filter)
  then have "distinct (map plrow_limit_key (sort_key plrow_created_at ?ls))"
    by (simp add: distinct_map)
  then have "find (\<lambda>l. plrow_limit_key l = k) (rev (sort_key plrow_created_at ?ls)) =
      find (\<lambda>l. plrow_limit_key l = k) (sort_key plrow_created_at ?ls)"
    by (rule find_rev) simp
  also have "\<dots> = find (\<lambda>l. plrow_limit_key l = k) ?ls" by (rule find_sorted [OF d]) simp
  also have "\<dots> = find (limit_of i k) (edb_plan_limits db)"
    unfolding plan_limits_of_def find_filter limit_of_def [abs_def] by (rule refl)
  finally show ?thesis
    by (simp add: dict_of_lookup limits_answer_def fulfilled_def rev_map found_map comp_def plan_limit_response_def
        split: option.split)
qed

text \<open>What the page shows for a key of the standard, and what it would send for it.\<close>

lemma loaded_item:
  assumes "limits_unique db"
  shows "map limit_item (loaded_limits scope (fulfilled (limits_answer show_time db i) [])) =
    map (\<lambda>s. case plan_limit_at db i (spec_key s) of
           None \<Rightarrow> limit_item (editable_limit s (spec_defaultVal s) False)
         | Some (v, u) \<Rightarrow> limit_item (editable_limit s (or_else v (spec_defaultVal s)) u)) (specs_of scope)"
  by (auto simp: loaded_limits_def Let_def answered_limit [OF assms] plan_limit_at_def limit_setting_def
      plan_limit_response_def split: option.split)

lemma items_at:
  assumes keys: "map lim_key ls = STANDARD_LIMIT_KEYS" and l: "l \<in> set ls"
  shows "find (\<lambda>it. item_key it = lim_key l) (map limit_item ls) = Some (limit_item l)"
proof -
  have k: "item_key (limit_item x) = lim_key x" if "x \<in> set ls" for x
  proof -
    have "lim_key x \<in> set STANDARD_LIMIT_KEYS" using that arg_cong [OF keys, of set] by auto
    then have "trim (lim_key x) = lim_key x"
      using standard_keys_ok(2) map_eq_conv [of trim STANDARD_LIMIT_KEYS id] by simp
    then show ?thesis by (simp add: item_key_def limit_item_def)
  qed
  then have "find (\<lambda>it. item_key it = lim_key l) (map limit_item ls) = map_option limit_item (find (\<lambda>x. lim_key x = lim_key l) ls)"
    unfolding found_map by (intro arg_cong [where f = "map_option limit_item"] find_cong) auto
  moreover have "distinct (map lim_key ls)" using keys standard_keys_ok(1) by simp
  ultimately show ?thesis using find_distinct [OF _ l, of lim_key] by simp
qed

text \<open>The call that a request of the page becomes.\<close>

fun plan_call_of :: "PlanAction \<Rightarrow> PlanCall" where
  "plan_call_of (AskUpdatePlan i name code description scope) = UpdatePlan i (Some name) (Some code) description scope"
| "plan_call_of (AskSetActive i on) = SetPlanActive i on"
| "plan_call_of (AskSetFeature i k on) = SetPlanFeature i k on"
| "plan_call_of (AskSetFeatures i items) = SetPlanFeatures i items"
| "plan_call_of (AskSetLimits i items) = SetPlanLimits i items"

text \<open>The content with the limits at rest, with real data.\<close>

definition limits_at_rest :: "PlanPage \<Rightarrow> bool" where
  "limits_at_rest p \<longleftrightarrow> plan_panel p = PPanelContent \<and> pp_mode p = MODE_REAL \<and> some_text (pp_token p) \<and>
     \<not> pp_limitsBusy p \<and> find bad_limit (pp_editableLimits p) = None"

lemma save_asks:
  assumes "limits_at_rest p"
  shows "pp_log (plan_step i p (now, PressSaveLimits)) =
    pp_log p @ [(pp_session p, AskSetLimits i (map limit_item (pp_editableLimits p)))]"
  using assms
  by (simp add: limits_at_rest_def plan_step_def handleSaveLimits_def Let_def plan_fly_def pp_session_def)

lemma fair_call_succeeds:
  assumes fair: "fair_plan_action (AskSetLimits i items)" and plan: "plan_by_id db i \<noteq> None"
  shows "\<exists>db'. put_plan_limits a i items db = Inr db' \<and> bulk_set_plan_limits a i items db = Inr db'"
proof -
  have "map validate_limit items = map Some items" using fair by (simp add: list_all_iff)
  then have "those (map validate_limit items) = Some items"
    by (induction items) auto
  then show ?thesis
    using fair plan by (simp add: put_plan_limits_def bulk_set_plan_limits_def Let_def)
qed

text \<open>A save of rows that are there for every key of the standard, none of them negative.\<close>

lemma saved_rows:
  assumes keys: "map lim_key ls = STANDARD_LIMIT_KEYS" and valid: "find bad_limit ls = None"
    and plan: "plan_by_id db i \<noteq> None" and unique: "limits_unique db"
  shows "\<exists>db'. put_plan_limits a i (map limit_item ls) db = Inr db' \<and> touches_only i db db' \<and> limits_unique db' \<and>
    (\<forall>l \<in> set ls. plan_limit_at db' i (lim_key l) = Some (item_setting (limit_item l)))"
proof -
  obtain db' where db': "put_plan_limits a i (map limit_item ls) db = Inr db'"
      "bulk_set_plan_limits a i (map limit_item ls) db = Inr db'"
    using fair_call_succeeds [OF limit_items_fair [OF keys valid] plan] by blast
  have "plan_limit_at db' i (lim_key l) = Some (item_setting (limit_item l))" if "l \<in> set ls" for l
    using bulk_limits_at(2) [OF db'(2), of "lim_key l"] items_at [OF keys that] by simp
  then show ?thesis
    using db' bulk_limits_touches [OF db'(2)] bulk_limits_unique [OF unique db'(2)] by blast
qed

lemma same_items:
  assumes keys: "map lim_key ls = STANDARD_LIMIT_KEYS" and unique: "limits_unique db'"
    and at: "\<And>l. l \<in> set ls \<Longrightarrow> plan_limit_at db' i (lim_key l) = Some (item_setting (limit_item l))"
  shows "map limit_item (loaded_limits scope (fulfilled (limits_answer show_time db' i) [])) = map limit_item ls"
proof -
  let ?row = "\<lambda>s. case plan_limit_at db' i (spec_key s) of
           None \<Rightarrow> limit_item (editable_limit s (spec_defaultVal s) False)
         | Some (v, u) \<Rightarrow> limit_item (editable_limit s (or_else v (spec_defaultVal s)) u)"
  have row: "?row s = limit_item l" if "l \<in> set ls" "spec_key s = lim_key l" for s l
    using at [OF that(1)] that(2)
    by (auto simp: item_setting_def item_value_def limit_item_def editable_limit_def or_else_def)
  have both: "map spec_key (specs_of scope) = map lim_key ls" using keys by simp
  then have len: "length (specs_of scope) = length ls" by (metis length_map)
  have "map ?row (specs_of scope) = map limit_item ls"
  proof (rule nth_equalityI)
    fix n
    assume "n < length (map ?row (specs_of scope))"
    then have n: "n < length (specs_of scope)" "n < length ls" using len by simp_all
    then have "spec_key (specs_of scope ! n) = lim_key (ls ! n)"
      using arg_cong [OF both, of "\<lambda>xs. xs ! n"] by (simp del: specs_keys)
    then show "map ?row (specs_of scope) ! n = map limit_item ls ! n"
      using row [OF nth_mem [OF n(2)]] n by simp
  qed (simp add: len)
  then show ?thesis by (simp add: loaded_item [OF unique])
qed


text \<open>
  Limits that could not be read are written over: when all of a load succeeds but the request for the limits,
  the page shows the defaults of the asset scope with no error, and pressing Save replaces whatever limits the
  plan had with these defaults.
\<close>

theorem failed_limits_overwritten:
  assumes p: "p = plan_step i (run (plan_step i) (plan_page_init mode token auth) es) (now, PlanLoadSettled answers)"
    and loading: "0 < pp_loads (run (plan_step i) (plan_page_init mode token auth) es)"
    and ok: "pans_plan answers = Inr shown" and failed: "pans_limits answers = Inl e"
    and page: "pp_isAuthenticated p" "pp_planError p = None" "pp_mode p = MODE_REAL" "some_text (pp_token p)"
      "\<not> pp_limitsBusy p"
    and plan: "plan_by_id db i \<noteq> None" and unique: "limits_unique db"
  shows "plan_panel p = PPanelContent \<and> pp_planError p = None \<and>
    (\<exists>act db'. pp_log (plan_step i p (now, PressSaveLimits)) = pp_log p @ [(pp_session p, act)] \<and>
      plan_call a (plan_call_of act) db = Inr db' \<and>
      (\<forall>s \<in> set (specs_of (plan_asset_scope shown)).
         plan_limit_at db' i (spec_key s) = Some (Some (spec_defaultVal s), False)))"
proof -
  let ?ls = "default_limits (plan_asset_scope shown)"
  have rows: "pp_editableLimits p = ?ls" "pp_plan p = Some shown" "\<not> pp_loading p"
    using loading ok failed
    by (simp_all add: p plan_step_def plan_load_settled_def Let_def show_plan_def fulfilled_def loaded_limits_def
        default_limits_def dict_of_def)
  have "list_all (\<lambda>e. list_all (\<lambda>s. 0 \<le> spec_defaultVal s) (snd e)) STANDARD_LIMIT_SPECS"
    by (simp add: STANDARD_LIMIT_SPECS_def limit_spec_def)
  then have dflt: "0 \<le> spec_defaultVal s" if "s \<in> set (specs_of scope)" for s scope
    using that by (auto simp: specs_of_def or_else_def list_all_iff dest!: map_of_SomeD map_of_SomeD [OF sym] split: option.splits)
  then have valid: "find bad_limit ?ls = None"
    by (auto simp: find_None_iff default_limits_def bad_limit_def editable_limit_def dest: dflt)
  have rest: "limits_at_rest p" using page rows valid by (simp add: limits_at_rest_def plan_panel_def)
  obtain db' where db': "put_plan_limits a i (map limit_item ?ls) db = Inr db'"
      and at: "\<And>l. l \<in> set ?ls \<Longrightarrow> plan_limit_at db' i (lim_key l) = Some (item_setting (limit_item l))"
    using saved_rows [OF default_keys valid plan unique] by blast
  have "plan_limit_at db' i (spec_key s) = Some (Some (spec_defaultVal s), False)"
    if "s \<in> set (specs_of (plan_asset_scope shown))" for s
    using at [of "editable_limit s (spec_defaultVal s) False"] that
    by (simp add: default_limits_def editable_limit_def item_setting_def item_value_def limit_item_def)
  then show ?thesis
    using rest page(2) save_asks [OF rest, of i now] db'
    by (auto simp: limits_at_rest_def rows intro!: exI [of _ "AskSetLimits i (map limit_item ?ls)"])
qed

section \<open>A page of a plan\<close>

text \<open>The page of a plan of \<open>two_plans\<close>, loaded; the answer for the limits is an argument.\<close>

definition starter_response :: PlanResponse where
  "starter_response =
     \<lparr>plan_id = ''starter'', plan_name = ''Starter'', plan_code = ''STARTER'', plan_description = None, plan_is_active = True,
      plan_suite_id = None, plan_asset_scope = Some ''DRONE'', plan_included_features_count = None, plan_tenant_count = None,
      plan_created_at = ''0'', plan_updated_at = ''0''\<rparr>"

definition starter_answers :: "client_error + PlanLimitResponse list \<Rightarrow> PlanAnswer" where
  "starter_answers limits =
     \<lparr>pans_plan = Inr starter_response, pans_features = Inr [], pans_catalog = Inr [], pans_tenants = Inr [],
      pans_audit = Inr [], pans_limits = limits\<rparr>"

definition starter_loading :: PlanPage where
  "starter_loading = run (plan_step ''starter'') (plan_page_init MODE_REAL (Some ''token'') True) [(0, PlanEffect)]"

definition starter_page :: "client_error + PlanLimitResponse list \<Rightarrow> PlanPage" where
  "starter_page limits = plan_step ''starter'' starter_loading (0, PlanLoadSettled (starter_answers limits))"

text \<open>The second row is typed anew, the fourth made unlimited.\<close>

definition edited_events :: "(int \<times> PlanEvent) list" where
  "edited_events = [(0, PlanEffect), (0, PlanLoadSettled (starter_answers (limits_answer show_int two_plans ''starter''))),
     (0, TypeLimit 1 ''40''), (0, TickUnlimited 3 True)]"

definition edited_page :: PlanPage where
  "edited_page = run (plan_step ''starter'') (plan_page_init MODE_REAL (Some ''token'') True) edited_events"

definition edited_limit :: EditablePlanLimit where
  "edited_limit = pp_editableLimits edited_page ! 3"

definition edited_as_expected :: "PlanPage \<Rightarrow> bool" where
  "edited_as_expected p \<longleftrightarrow> limits_at_rest p \<and> length (pp_editableLimits p) = 6 \<and>
     lim_key (pp_editableLimits p ! 3) = ''storage_gb'' \<and> lim_isUnlimited (pp_editableLimits p ! 3)"

lemma edited_page_eval: "edited_as_expected edited_page"
  by code_simp

definition failed_as_expected :: "PlanPage \<Rightarrow> bool" where
  "failed_as_expected p \<longleftrightarrow> pp_loads starter_loading = 1 \<and> pp_isAuthenticated p \<and> pp_planError p = None \<and>
     pp_mode p = MODE_REAL \<and> some_text (pp_token p) \<and> \<not> pp_limitsBusy p"

definition unavailable :: "client_error + PlanLimitResponse list" where
  "unavailable = Inl (ApiError 503 None ''Service Unavailable'')"

lemma failed_page_eval: "failed_as_expected (starter_page unavailable)"
  by code_simp

lemma starter_plan: "plan_by_id two_plans ''starter'' \<noteq> None \<and> granting_plan two_plans ''acme'' 100 = Some ''starter'' \<and>
    limits_unique two_plans \<and> org_limits two_plans ''acme'' = []"
  by code_simp


theorem failed_limits_overwritten_witness:
  "\<exists>act db'. pp_log (plan_step ''starter'' (starter_page unavailable) (0, PressSaveLimits)) =
      pp_log (starter_page unavailable) @ [(pp_session (starter_page unavailable), act)] \<and>
    plan_call platform_actor (plan_call_of act) two_plans = Inr db' \<and>
    plan_limit_at db' ''starter'' ''max_users'' = Some (Some 25, False)"
proof -
  have spec: "limit_spec ''max_users'' ''Maximum Users'' ''Users'' ''seats'' ''Licensed remote pilots & mission coordinators'' 25
      \<in> set (specs_of (Some ''DRONE''))"
    by code_simp
  have page: "starter_page unavailable = plan_step ''starter'' (run (plan_step ''starter'')
      (plan_page_init MODE_REAL (Some ''token'') True) [(0, PlanEffect)]) (0, PlanLoadSettled (starter_answers unavailable))"
    by (simp add: starter_page_def starter_loading_def)
  have "plan_panel (starter_page unavailable) = PPanelContent \<and> pp_planError (starter_page unavailable) = None \<and>
    (\<exists>act db'. pp_log (plan_step ''starter'' (starter_page unavailable) (0, PressSaveLimits)) =
        pp_log (starter_page unavailable) @ [(pp_session (starter_page unavailable), act)] \<and>
      plan_call platform_actor (plan_call_of act) two_plans = Inr db' \<and>
      (\<forall>s \<in> set (specs_of (plan_asset_scope starter_response)).
         plan_limit_at db' ''starter'' (spec_key s) = Some (Some (spec_defaultVal s), False)))"
    by (rule failed_limits_overwritten [OF page, where shown = starter_response])
      (use failed_page_eval starter_plan in \<open>simp_all add: failed_as_expected_def starter_loading_def starter_answers_def
        unavailable_def\<close>)
  moreover have "plan_asset_scope starter_response = Some ''DRONE''" by (simp add: starter_response_def)
  ultimately show ?thesis using spec by (force simp: limit_spec_def)
qed

end
