(* ===== verification/SubscriptionsPage.thy ===== *)
theory SubscriptionsPage
  imports PageKit ApiPlatform ClientPlatform Entitlements
begin

text \<open>
  The page of the subscriptions of one organization
  (\<open>src/frontend/app/(app)/platform/organizations/[organizationId]/subscriptions/page.tsx\<close>): its state, the
  load, the groups, the two forms, the dialog that confirms, and the one call it makes. A call is two events, its start
  and its answer. The inputs of a local time are modelled for a process whose time zone is UTC, for the
  years that have four digits. Every event carries the time of the render it acts on.
\<close>

section \<open>Local times\<close>

text \<open>The value of an input of type \<open>datetime-local\<close>, read by \<open>new Date(s)\<close>.\<close>

definition local_time :: "string \<Rightarrow> int option" where
  "local_time s =
     (if length s = 16 \<and> s ! 10 = CHR ''T'' \<and> s ! 13 = CHR '':'' \<and> all_digits (take 2 (drop 11 s)) \<and> all_digits (drop 14 s)
      then (case parse_day (take 10 s) of
              None \<Rightarrow> None
            | Some d \<Rightarrow>
                let h = int (digits_value (take 2 (drop 11 s))); m = int (digits_value (drop 14 s))
                in if h < 24 \<and> m < 60 then Some (d * ms_per_day + (h * 60 + m) * 60000) else None)
      else None)"

definition local_text :: "int \<Rightarrow> string" where
  "local_text t =
     (let n = nat (t mod ms_per_day) in
      iso_of_day (t div ms_per_day) @ ''T'' @ two_digits (n div 3600000) @ '':'' @ two_digits (n div 60000 mod 60))"

lemma local_text_code [code]:
  "local_text t =
     (let n = t mod ms_per_day in
      iso_of_day (t div ms_per_day) @ ''T'' @ int_two_digits (n div 3600000) @ '':'' @ int_two_digits (n div 60000 mod 60))"
  by (simp add: local_text_def Let_def two_digits_int zdiv_int zmod_int ms_per_day_def)

definition toDateTimeLocalValue :: "string \<Rightarrow> string" where
  "toDateTimeLocalValue s = (case getTime s of None \<Rightarrow> [] | Some t \<Rightarrow> local_text t)"

text \<open>\<open>new Date(s).toISOString()\<close> throws for a text that is no time.\<close>

definition sent_time :: "string \<Rightarrow> string option" where
  "sent_time s = map_option toISOString (local_time s)"

section \<open>State\<close>

datatype PendingAction =
    ActCreate string string string "string option"
  | ActTransition SubscriptionResponse string
  | ActCancel SubscriptionResponse
  | ActEdit SubscriptionResponse string string "string option"

text \<open>The token and the sign-in a render reads.\<close>

type_synonym sub_session = "string option \<times> bool"

record SubscriptionsPage =
  sp_subs :: "SubscriptionResponse list option"
  sp_subsError :: "NormalizedApiError option"
  sp_plans :: "PlanResponse list option"
  sp_plansError :: "NormalizedApiError option"
  sp_loading :: bool
  sp_newPlanId :: string
  sp_newStatus :: string
  sp_newStartsAt :: string
  sp_newEndsAt :: string
  sp_editingId :: "string option"
  sp_editPlanId :: string
  sp_editStartsAt :: string
  sp_editEndsAt :: string
  sp_pendingAction :: "PendingAction option"
  sp_actionBusy :: bool
  sp_actionError :: "NormalizedApiError option"
  sp_token :: "string option"
  sp_isAuthenticated :: bool
  sp_loads :: nat
  sp_flights :: "(PendingAction \<times> sub_session) list"
  sp_requests :: "request list"
  sp_log :: "(sub_session \<times> PendingAction) list"

definition subs_page_init :: "string option \<Rightarrow> bool \<Rightarrow> SubscriptionsPage" where
  "subs_page_init token auth =
     \<lparr>sp_subs = None, sp_subsError = None, sp_plans = None, sp_plansError = None, sp_loading = True,
      sp_newPlanId = [], sp_newStatus = ''ACTIVE'', sp_newStartsAt = [], sp_newEndsAt = [], sp_editingId = None,
      sp_editPlanId = [], sp_editStartsAt = [], sp_editEndsAt = [], sp_pendingAction = None, sp_actionBusy = False,
      sp_actionError = None, sp_token = token, sp_isAuthenticated = auth, sp_loads = 0, sp_flights = [],
      sp_requests = [], sp_log = []\<rparr>"

definition sp_session :: "SubscriptionsPage \<Rightarrow> sub_session" where
  "sp_session p = (sp_token p, sp_isAuthenticated p)"

section \<open>Loading\<close>

text \<open>The effect throws the clean-up of the load away, so that no load is ever cancelled.\<close>

definition subs_load_requests :: "string \<Rightarrow> string \<Rightarrow> request list" where
  "subs_load_requests token i = [subscriptionApi_listForOrganization token i, planApi_listPlans token]"

definition subs_load :: "sub_session \<Rightarrow> string \<Rightarrow> SubscriptionsPage \<Rightarrow> SubscriptionsPage" where
  "subs_load session i p = (case session of (token, auth) \<Rightarrow>
     if \<not> auth \<or> \<not> some_text token then p\<lparr>sp_loading := False\<rparr>
     else p\<lparr>sp_loading := True, sp_subsError := None, sp_plansError := None, sp_loads := sp_loads p + 1,
            sp_requests := sp_requests p @ subs_load_requests (or_else token []) i\<rparr>)"

record SubsAnswer =
  sans_subs :: "client_error + SubscriptionResponse list"
  sans_plans :: "client_error + PlanResponse list"

definition subs_load_settled :: "SubsAnswer \<Rightarrow> SubscriptionsPage \<Rightarrow> SubscriptionsPage" where
  "subs_load_settled a p =
     (if sp_loads p = 0 then p
      else let p = (case sans_subs a of
                      Inr ss \<Rightarrow> p\<lparr>sp_subs := Some ss\<rparr>
                    | Inl e \<Rightarrow> p\<lparr>sp_subsError := Some (normalizeApiError e)\<rparr>);
               p = (case sans_plans a of
                      Inr ps \<Rightarrow> p\<lparr>sp_plans := Some ps\<rparr>
                    | Inl e \<Rightarrow> p\<lparr>sp_plansError := Some (normalizeApiError e)\<rparr>)
        in p\<lparr>sp_loading := False, sp_loads := sp_loads p - 1\<rparr>)"

section \<open>What the page shows\<close>

definition shown_plan_name :: "SubscriptionsPage \<Rightarrow> string \<Rightarrow> string" where
  "shown_plan_name p i = (case sp_plans p of
     None \<Rightarrow> i
   | Some ps \<Rightarrow> (case find (\<lambda>x. plan_id x = i) ps of None \<Rightarrow> i | Some x \<Rightarrow> plan_name x))"

definition sub_group :: "int \<Rightarrow> SubscriptionResponse \<Rightarrow> SubscriptionGroup" where
  "sub_group now s = groupSubscription (subscr_status s) (subscr_starts_at s) (subscr_ends_at s) now"

definition group_rows :: "int \<Rightarrow> SubscriptionGroup \<Rightarrow> SubscriptionsPage \<Rightarrow> SubscriptionResponse list" where
  "group_rows now g p = filter (\<lambda>s. sub_group now s = g) (or_else (sp_subs p) [])"

text \<open>The buttons of a row: the moves, the cancellation, the edit.\<close>

definition offered_moves :: "SubscriptionResponse \<Rightarrow> string list" where
  "offered_moves s = filter (\<lambda>t. t \<noteq> ''CANCELED'') (next_statuses (subscr_status s))"

definition offers_cancel :: "SubscriptionResponse \<Rightarrow> bool" where
  "offers_cancel s \<longleftrightarrow> ''CANCELED'' \<in> set (next_statuses (subscr_status s))"

definition offers_edit :: "SubscriptionResponse \<Rightarrow> bool" where
  "offers_edit s \<longleftrightarrow> subscr_status s \<noteq> ''CANCELED''"

text \<open>The form is under the group, and not under the historical one.\<close>

definition edit_form_shown :: "int \<Rightarrow> SubscriptionsPage \<Rightarrow> SubscriptionResponse \<Rightarrow> bool" where
  "edit_form_shown now p s \<longleftrightarrow>
     s \<in> set (or_else (sp_subs p) []) \<and> sub_group now s \<noteq> GRP_Historical \<and> sp_editingId p = Some (subscr_id s)"

datatype SubsPanel = SPanelSignIn | SPanelLoading | SPanelForbidden | SPanelNotFound | SPanelContent

definition subs_panel :: "SubscriptionsPage \<Rightarrow> SubsPanel" where
  "subs_panel p =
     (if \<not> sp_isAuthenticated p then SPanelSignIn
      else if sp_loading p then SPanelLoading
      else if map_option nerr_kind (sp_subsError p) = Some AEK_forbidden \<or>
              map_option nerr_kind (sp_plansError p) = Some AEK_forbidden then SPanelForbidden
      else if map_option nerr_kind (sp_subsError p) = Some AEK_not_found then SPanelNotFound
      else SPanelContent)"

section \<open>Handlers\<close>

text \<open>An end that is empty is sent as null; a text that is no time throws, and nothing happens.\<close>

definition ends_or_null :: "string \<Rightarrow> string option option" where
  "ends_or_null s = (if s = [] then Some None else map_option Some (sent_time s))"

definition submitCreate :: "SubscriptionsPage \<Rightarrow> SubscriptionsPage" where
  "submitCreate p =
     (if sp_newPlanId p = [] \<or> sp_newStartsAt p = [] then p
      else (case (sent_time (sp_newStartsAt p), ends_or_null (sp_newEndsAt p)) of
              (Some starts, Some ends) \<Rightarrow>
                p\<lparr>sp_pendingAction := Some (ActCreate (sp_newPlanId p) (sp_newStatus p) starts ends)\<rparr>
            | _ \<Rightarrow> p))"

definition startEdit :: "SubscriptionResponse \<Rightarrow> SubscriptionsPage \<Rightarrow> SubscriptionsPage" where
  "startEdit s p =
     p\<lparr>sp_editingId := Some (subscr_id s), sp_editPlanId := subscr_plan_id s,
       sp_editStartsAt := toDateTimeLocalValue (subscr_starts_at s),
       sp_editEndsAt := (if some_text (subscr_ends_at s) then toDateTimeLocalValue (or_else (subscr_ends_at s) []) else [])\<rparr>"

definition submitEdit :: "SubscriptionResponse \<Rightarrow> SubscriptionsPage \<Rightarrow> SubscriptionsPage" where
  "submitEdit s p =
     (if sp_editStartsAt p = [] then p
      else (case (sent_time (sp_editStartsAt p), ends_or_null (sp_editEndsAt p)) of
              (Some starts, Some ends) \<Rightarrow>
                p\<lparr>sp_pendingAction := Some (ActEdit s (sp_editPlanId p) starts ends)\<rparr>
            | _ \<Rightarrow> p))"

text \<open>A field that is undefined is not in the body.\<close>

definition action_request :: "string \<Rightarrow> string \<Rightarrow> PendingAction \<Rightarrow> request" where
  "action_request token i act = (case act of
     ActCreate plan status starts ends \<Rightarrow> subscriptionApi_create token i
       (JObj [(''plan_id'', JStr plan), (''status'', JStr status), (''starts_at'', JStr starts), (''ends_at'', jstr ends)])
   | ActTransition s new \<Rightarrow> subscriptionApi_update token (subscr_id s) (JObj [(''status'', JStr new)])
   | ActCancel s \<Rightarrow> subscriptionApi_cancel token (subscr_id s)
   | ActEdit s plan starts ends \<Rightarrow> subscriptionApi_update token (subscr_id s)
       (JObj ((if plan \<noteq> subscr_plan_id s then [(''plan_id'', JStr plan)] else []) @
         [(''starts_at'', JStr starts), (''ends_at'', jstr ends)])))"

definition confirmAction :: "string \<Rightarrow> SubscriptionsPage \<Rightarrow> SubscriptionsPage" where
  "confirmAction i p = (case sp_pendingAction p of
     None \<Rightarrow> p
   | Some act \<Rightarrow>
       if \<not> some_text (sp_token p) then p
       else p\<lparr>sp_actionBusy := True, sp_actionError := None, sp_flights := sp_flights p @ [(act, sp_session p)],
              sp_requests := sp_requests p @ [action_request (or_else (sp_token p) []) i act],
              sp_log := sp_log p @ [(sp_session p, act)]\<rparr>)"

definition is_create :: "PendingAction \<Rightarrow> bool" where
  "is_create act = (case act of ActCreate plan status starts ends \<Rightarrow> True | _ \<Rightarrow> False)"

definition sub_action_success :: "string \<Rightarrow> PendingAction \<Rightarrow> sub_session \<Rightarrow> SubscriptionsPage \<Rightarrow> SubscriptionsPage" where
  "sub_action_success i act session p =
     (let p = p\<lparr>sp_pendingAction := None, sp_editingId := None\<rparr>;
          p = (if is_create act then p\<lparr>sp_newPlanId := [], sp_newStartsAt := [], sp_newEndsAt := []\<rparr> else p)
      in (subs_load session i p)\<lparr>sp_actionBusy := False\<rparr>)"

definition sub_action_settled :: "string \<Rightarrow> nat \<Rightarrow> client_error option \<Rightarrow> SubscriptionsPage \<Rightarrow> SubscriptionsPage" where
  "sub_action_settled i n result p =
     (if length (sp_flights p) \<le> n then p
      else (case sp_flights p ! n of (act, session) \<Rightarrow>
        let p = p\<lparr>sp_flights := remove_nth n (sp_flights p)\<rparr> in
        (case result of
           Some e \<Rightarrow> p\<lparr>sp_actionError := Some (normalizeApiError e), sp_actionBusy := False\<rparr>
         | None \<Rightarrow> sub_action_success i act session p)))"

section \<open>The page as a machine\<close>

text \<open>
  What a user can do is what is shown. The dialog is outside the panels; its button is disabled while the call is
  under way, but the escape key and a click beside it still leave it.
\<close>

datatype SubsEvent =
    SubsEffect
  | SubsSessionChange "string option" bool
  | SubsLoadSettled SubsAnswer
  | SubsActionSettled nat "client_error option"
  | PressMove SubscriptionResponse string
  | PressCancelSub SubscriptionResponse
  | PressEditSub SubscriptionResponse
  | SelectEditPlan string
  | TypeEditStart string
  | TypeEditEnd string
  | PressSaveEdit SubscriptionResponse
  | PressLeaveEdit
  | SelectNewPlan string
  | SelectNewStatus string
  | TypeNewStart string
  | TypeNewEnd string
  | PressCreate
  | PressConfirm
  | DismissDialog

definition local_value :: "string \<Rightarrow> bool" where
  "local_value v \<longleftrightarrow> v = [] \<or> local_time v \<noteq> None"

definition plan_ids :: "SubscriptionsPage \<Rightarrow> string list" where
  "plan_ids p = map plan_id (or_else (sp_plans p) [])"

definition row_shown :: "SubscriptionsPage \<Rightarrow> SubscriptionResponse \<Rightarrow> bool" where
  "row_shown p s \<longleftrightarrow> s \<in> set (or_else (sp_subs p) [])"

definition edit_shown :: "int \<Rightarrow> SubscriptionsPage \<Rightarrow> bool" where
  "edit_shown now p \<longleftrightarrow> list_ex (edit_form_shown now p) (or_else (sp_subs p) [])"

fun subs_content_event :: "int \<Rightarrow> SubscriptionsPage \<Rightarrow> SubsEvent \<Rightarrow> SubscriptionsPage" where
  "subs_content_event now p (PressMove s new) =
     (if row_shown p s \<and> new \<in> set (offered_moves s) then p\<lparr>sp_pendingAction := Some (ActTransition s new)\<rparr> else p)"
| "subs_content_event now p (PressCancelSub s) =
     (if row_shown p s \<and> offers_cancel s then p\<lparr>sp_pendingAction := Some (ActCancel s)\<rparr> else p)"
| "subs_content_event now p (PressEditSub s) = (if row_shown p s \<and> offers_edit s then startEdit s p else p)"
| "subs_content_event now p (SelectEditPlan v) =
     (if edit_shown now p \<and> v \<in> set (plan_ids p) then p\<lparr>sp_editPlanId := v\<rparr> else p)"
| "subs_content_event now p (TypeEditStart v) =
     (if edit_shown now p \<and> local_value v then p\<lparr>sp_editStartsAt := v\<rparr> else p)"
| "subs_content_event now p (TypeEditEnd v) =
     (if edit_shown now p \<and> local_value v then p\<lparr>sp_editEndsAt := v\<rparr> else p)"
| "subs_content_event now p (PressSaveEdit s) =
     (if edit_form_shown now p s \<and> sp_editStartsAt p \<noteq> [] then submitEdit s p else p)"
| "subs_content_event now p PressLeaveEdit = (if edit_shown now p then p\<lparr>sp_editingId := None\<rparr> else p)"
| "subs_content_event now p (SelectNewPlan v) =
     (if v \<in> set ([] # plan_ids p) \<and> plan_ids p \<noteq> [] then p\<lparr>sp_newPlanId := v\<rparr> else p)"
| "subs_content_event now p (SelectNewStatus v) = (if v \<in> set CREATABLE_STATUSES then p\<lparr>sp_newStatus := v\<rparr> else p)"
| "subs_content_event now p (TypeNewStart v) = (if local_value v then p\<lparr>sp_newStartsAt := v\<rparr> else p)"
| "subs_content_event now p (TypeNewEnd v) = (if local_value v then p\<lparr>sp_newEndsAt := v\<rparr> else p)"
| "subs_content_event now p PressCreate =
     (if sp_newPlanId p \<noteq> [] \<and> sp_newStartsAt p \<noteq> [] then submitCreate p else p)"
| "subs_content_event now p e = p"

fun subs_event_step :: "string \<Rightarrow> int \<Rightarrow> SubscriptionsPage \<Rightarrow> SubsEvent \<Rightarrow> SubscriptionsPage" where
  "subs_event_step i now p SubsEffect = subs_load (sp_session p) i p"
| "subs_event_step i now p (SubsSessionChange token auth) =
     (let q = p\<lparr>sp_token := token, sp_isAuthenticated := auth\<rparr> in
      if sp_session q = sp_session p then q else subs_load (sp_session q) i q)"
| "subs_event_step i now p (SubsLoadSettled a) = subs_load_settled a p"
| "subs_event_step i now p (SubsActionSettled n r) = sub_action_settled i n r p"
| "subs_event_step i now p PressConfirm =
     (if sp_isAuthenticated p \<and> sp_pendingAction p \<noteq> None \<and> \<not> sp_actionBusy p then confirmAction i p else p)"
| "subs_event_step i now p DismissDialog =
     (if sp_isAuthenticated p \<and> sp_pendingAction p \<noteq> None
      then p\<lparr>sp_pendingAction := None, sp_actionError := None\<rparr> else p)"
| "subs_event_step i now p e = (if subs_panel p = SPanelContent then subs_content_event now p e else p)"

definition subs_step :: "string \<Rightarrow> SubscriptionsPage \<Rightarrow> int \<times> SubsEvent \<Rightarrow> SubscriptionsPage" where
  "subs_step i p e = subs_event_step i (fst e) p (snd e)"

section \<open>Times that are sent\<close>

definition in_era :: "int \<Rightarrow> bool" where
  "in_era t \<longleftrightarrow> day_from_year 0 * ms_per_day \<le> t \<and> t < day_from_year 10000 * ms_per_day"

lemma digits_below: "all_digits s \<Longrightarrow> digits_value s < 10 ^ length s"
proof (induction s rule: rev_induct)
  case (snoc c s)
  then have "digits_value s < 10 ^ length s" "digit_val c < 10"
    by (auto simp: all_digits_def is_digit_def digit_val_def)
  then show ?case by (simp add: digits_value_snoc)
qed (simp add: digits_value_def)

lemma parse_day_era: "parse_day s = Some d \<Longrightarrow> day_from_year 0 \<le> d \<and> d < day_from_year 10000"
proof -
  assume "parse_day s = Some d"
  then obtain y m k where v: "valid_date y m k" "day_number y m k = d"
    by (auto simp: parse_day_def Let_def split: if_splits)
  then have "0 \<le> y" "y + 1 \<le> 10000" by (auto simp: valid_date_def)
  then show ?thesis
    using day_number_in_year [OF v(1)] v(2) day_from_year_mono [of 0 y] day_from_year_mono [of "y + 1" 10000] by linarith
qed

lemma parse_clock_day: "parse_clock s = Some c \<Longrightarrow> 0 \<le> c \<and> c < ms_per_day"
proof -
  assume c: "parse_clock s = Some c"
  have ms: "digits_value (drop 9 s) < 1000"
  proof (cases "length s = 8")
    case False
    then have "length (drop 9 s) = 3" "all_digits (drop 9 s)" using c by (auto simp: parse_clock_def split: if_splits)
    then show ?thesis using digits_below [of "drop 9 s"] by simp
  qed (simp add: digits_value_def)
  define h m sec where "h = int (digits_value (take 2 s))" and "m = int (digits_value (take 2 (drop 3 s)))"
    and "sec = int (digits_value (take 2 (drop 6 s)))"
  then have "h < 24 \<and> m < 60 \<and> sec < 60 \<and> c = ((h * 60 + m) * 60 + sec) * 1000 + int (digits_value (drop 9 s))"
    "0 \<le> h" "0 \<le> m" "0 \<le> sec"
    using c by (simp_all add: parse_clock_def Let_def split: if_split_asm)
  moreover have "int (digits_value (drop 9 s)) < 1000" using ms by simp
  ultimately show ?thesis by (simp add: ms_per_day_def)
qed

lemma era_of_day:
  assumes "day_from_year 0 \<le> d" "d < day_from_year 10000" "0 \<le> c" "c < ms_per_day"
  shows "in_era (d * ms_per_day + c)"
proof -
  have "d + 1 \<le> day_from_year 10000" using assms(2) by simp
  then have "(d + 1) * ms_per_day \<le> day_from_year 10000 * ms_per_day"
    by (rule mult_right_mono) (simp add: ms_per_day_def)
  moreover have "day_from_year 0 * ms_per_day \<le> d * ms_per_day"
    using assms(1) by (rule mult_right_mono) (simp add: ms_per_day_def)
  ultimately show ?thesis using assms(3,4) by (simp add: in_era_def ms_per_day_def)
qed

lemma getTime_era: "getTime s = Some t \<Longrightarrow> in_era t"
  using era_of_day [of _ 0]
  by (auto simp: getTime_def ms_per_day_def split: if_splits option.splits dest!: parse_day_era parse_clock_day
      intro!: era_of_day [unfolded ms_per_day_def])

definition is_minute :: "string \<Rightarrow> bool" where
  "is_minute s \<longleftrightarrow> (case getTime s of None \<Rightarrow> False | Some t \<Rightarrow> t mod 60000 = 0)"

lemma getTime_back: "in_era t \<Longrightarrow> getTime (toISOString t) = Some t"
  by (rule getTime_toISOString_aux) (simp_all add: in_era_def)

lemma local_time_shape:
  assumes "local_time s = Some t"
  shows "in_era t" "t mod 60000 = 0"
proof -
  obtain d where d: "parse_day (take 10 s) = Some d"
    using assms by (auto simp: local_time_def split: if_splits option.splits)
  define h m where "h = int (digits_value (take 2 (drop 11 s)))" and "m = int (digits_value (drop 14 s))"
  then have h: "0 \<le> h" "h < 24" "0 \<le> m" "m < 60" and t: "t = d * ms_per_day + (h * 60 + m) * 60000"
    using assms d by (simp_all add: local_time_def Let_def split: if_split_asm)
  show "in_era t" unfolding t using parse_day_era [OF d] h by (intro era_of_day) (auto simp: ms_per_day_def)
  have "t = (d * 1440 + h * 60 + m) * 60000" by (simp add: t ms_per_day_def)
  then show "t mod 60000 = 0" by simp
qed

lemma sent_time_minute: "sent_time v = Some s \<Longrightarrow> is_minute s"
  using local_time_shape [of v] getTime_back by (auto simp: sent_time_def is_minute_def)

lemma minutes_of_day:
  assumes "0 \<le> (n::int)" "n < 86400000"
  shows "(n div 3600000 * 60 + n div 60000 mod 60) * 60000 = n - n mod 60000" "n div 3600000 < 24"
proof -
  have "n div 3600000 = n div 60000 div 60" by (simp add: zdiv_zmult2_eq [symmetric])
  then have "n div 3600000 * 60 + n div 60000 mod 60 = n div 60000" by simp
  then show "(n div 3600000 * 60 + n div 60000 mod 60) * 60000 = n - n mod 60000"
    by (simp add: minus_mod_eq_div_mult)
  show "n div 3600000 < 24" using assms by simp
qed

text \<open>The form shows the minute of a time, and what it shows is read as this minute.\<close>

lemma local_text_back:
  assumes "in_era t"
  shows "local_time (local_text t) = Some (t - t mod 60000)"
proof -
  define d where "d = t div ms_per_day"
  define n where "n = nat (t mod ms_per_day)"
  have n: "n < 86400000" "int n = t mod ms_per_day"
    by (simp_all add: n_def ms_per_day_def nat_less_iff)
  have t: "t = d * ms_per_day + int n" by (simp add: d_def n(2))
  have d: "day_from_year 0 \<le> d" "d < day_from_year 10000"
    using assms n(1) by (simp_all add: in_era_def t ms_per_day_def)
  have len: "length (iso_of_day d) = 10" "parse_day (iso_of_day d) = Some d" using length_iso_of_day [OF d] .
  have tx: "local_text t = iso_of_day d @ ''T'' @ two_digits (n div 3600000) @ '':'' @ two_digits (n div 60000 mod 60)"
    by (simp add: local_text_def d_def n_def Let_def)
  have h: "n div 3600000 < 24" using n(1) by (intro less_mult_imp_div_less) simp
  have v: "digits_value (two_digits (n div 3600000)) = n div 3600000"
      "digits_value (two_digits (n div 60000 mod 60)) = n div 60000 mod 60"
    using h by (simp_all add: digits_value_two)
  have parts: "length (local_text t) = 16" "local_text t ! 10 = CHR ''T''" "local_text t ! 13 = CHR '':''"
      "take 2 (drop 11 (local_text t)) = two_digits (n div 3600000)" "drop 14 (local_text t) = two_digits (n div 60000 mod 60)"
      "take 10 (local_text t) = iso_of_day d"
    by (simp_all add: tx len nth_append)
  have "(int n div 3600000 * 60 + int n div 60000 mod 60) * 60000 = int n - int n mod 60000"
    using n(1) by (intro minutes_of_day) simp_all
  then have m: "(int (n div 3600000) * 60 + int (n div 60000 mod 60)) * 60000 = int n - int n mod 60000"
    by (simp add: zdiv_int zmod_int)
  have "t mod 60000 = int n mod 60000"
  proof -
    have "t = int n + d * 1440 * 60000" by (simp add: t ms_per_day_def)
    then show ?thesis by (simp only: mod_mult_self1)
  qed
  moreover have "int (n div 3600000) < 24" "int (n div 60000 mod 60) < 60" using h by (simp_all del: of_nat_mod)
  ultimately show ?thesis
    unfolding local_time_def parts Let_def v
    using m by (simp add: len t)
qed

lemma local_value_shown: "local_value (toDateTimeLocalValue s)"
  by (auto simp: local_value_def toDateTimeLocalValue_def local_text_back getTime_era split: option.split)

section \<open>What is asked of the service\<close>

fun fair_sub_action :: "PendingAction \<Rightarrow> bool" where
  "fair_sub_action (ActCreate plan status starts ends) \<longleftrightarrow>
     plan \<noteq> [] \<and> status \<in> set CREATABLE_STATUSES \<and> is_minute starts \<and> (case ends of None \<Rightarrow> True | Some e \<Rightarrow> is_minute e)"
| "fair_sub_action (ActTransition s new) \<longleftrightarrow> new \<in> set (next_statuses (subscr_status s)) \<and> new \<noteq> ''CANCELED''"
| "fair_sub_action (ActCancel s) \<longleftrightarrow> ''CANCELED'' \<in> set (next_statuses (subscr_status s))"
| "fair_sub_action (ActEdit s plan starts ends) \<longleftrightarrow>
     subscr_status s \<noteq> ''CANCELED'' \<and> is_minute starts \<and> (case ends of None \<Rightarrow> True | Some e \<Rightarrow> is_minute e)"

definition fair_sub_ask :: "sub_session \<times> PendingAction \<Rightarrow> bool" where
  "fair_sub_ask e \<longleftrightarrow> some_text (fst (fst e)) \<and> fair_sub_action (snd e)"

definition subs_tokens_ok :: "SubscriptionsPage \<Rightarrow> bool" where
  "subs_tokens_ok p \<longleftrightarrow> list_all (\<lambda>r. some_text (rq_token r)) (sp_requests p) \<and>
     list_all (\<lambda>x. some_text (fst (snd x))) (sp_flights p)"

text \<open>One call at a time; the flag says whether there is one.\<close>

definition subs_calls_match :: "SubscriptionsPage \<Rightarrow> bool" where
  "subs_calls_match p \<longleftrightarrow> length (sp_flights p) = of_bool (sp_actionBusy p)"

definition subs_forms_ok :: "SubscriptionsPage \<Rightarrow> bool" where
  "subs_forms_ok p \<longleftrightarrow> sp_newStatus p \<in> set CREATABLE_STATUSES \<and> list_all local_value
     [sp_newStartsAt p, sp_newEndsAt p, sp_editStartsAt p, sp_editEndsAt p] \<and>
     (case sp_pendingAction p of None \<Rightarrow> True | Some act \<Rightarrow> fair_sub_action act)"

definition subs_page_ok :: "SubscriptionsPage \<Rightarrow> bool" where
  "subs_page_ok p \<longleftrightarrow> list_all fair_sub_ask (sp_log p) \<and> subs_tokens_ok p \<and> subs_calls_match p \<and> subs_forms_ok p"

lemmas subs_ok_defs = subs_page_ok_def subs_tokens_ok_def subs_calls_match_def subs_forms_ok_def

lemmas subs_api_defs = subscriptionApi_listForOrganization_def subscriptionApi_create_def subscriptionApi_update_def
  subscriptionApi_cancel_def planApi_listPlans_def

lemma subs_load_ok: "subs_page_ok p \<Longrightarrow> subs_page_ok (subs_load se i p)"
  by (auto simp: subs_ok_defs subs_load_def subs_load_requests_def subs_api_defs some_text_def or_else_def split: prod.split)

lemma subs_load_settled_ok: "subs_page_ok p \<Longrightarrow> subs_page_ok (subs_load_settled a p)"
  by (cases "sans_subs a"; cases "sans_plans a") (simp_all add: subs_ok_defs subs_load_settled_def Let_def)

lemma action_token: "rq_token (action_request t i act) = Some t"
  by (cases act) (simp_all add: action_request_def subs_api_defs)

lemma confirm_ok: "subs_page_ok p \<Longrightarrow> \<not> sp_actionBusy p \<Longrightarrow> subs_page_ok (confirmAction i p)"
  by (auto simp: confirmAction_def subs_ok_defs fair_sub_ask_def sp_session_def action_token some_text_def or_else_def
      split: option.splits)

lemma ends_minute: "ends_or_null s = Some e \<Longrightarrow> (case e of None \<Rightarrow> True | Some x \<Rightarrow> is_minute x)"
  by (auto simp: ends_or_null_def sent_time_minute split: if_splits option.split)

lemma submitCreate_ok: "subs_page_ok p \<Longrightarrow> subs_page_ok (submitCreate p)"
  using ends_minute [of "sp_newEndsAt p"]
  by (auto simp: submitCreate_def subs_ok_defs sent_time_minute split: option.splits)

lemma submitEdit_ok: "subs_page_ok p \<Longrightarrow> subscr_status s \<noteq> ''CANCELED'' \<Longrightarrow> subs_page_ok (submitEdit s p)"
  using ends_minute [of "sp_editEndsAt p"]
  by (auto simp: submitEdit_def subs_ok_defs sent_time_minute split: option.splits)

lemma startEdit_ok: "subs_page_ok p \<Longrightarrow> subs_page_ok (startEdit s p)"
  by (auto simp: startEdit_def subs_ok_defs local_value_shown) (simp add: local_value_def)

lemma shown_form_not_canceled: "edit_form_shown now p s \<Longrightarrow> subscr_status s \<noteq> ''CANCELED''"
  by (auto simp: edit_form_shown_def sub_group_def groupSubscription_def)

lemma subs_content_ok: "subs_page_ok p \<Longrightarrow> subs_page_ok (subs_content_event now p e)"
proof (cases e)
  case (PressEditSub s)
  then show "subs_page_ok p \<Longrightarrow> ?thesis" by (simp add: startEdit_ok)
next
  case (PressSaveEdit s)
  then show "subs_page_ok p \<Longrightarrow> ?thesis" using shown_form_not_canceled by (auto intro: submitEdit_ok)
next
  case PressCreate
  then show "subs_page_ok p \<Longrightarrow> ?thesis" by (simp add: submitCreate_ok)
qed (auto simp: subs_ok_defs offered_moves_def offers_cancel_def)

lemma sub_settled_ok:
  assumes ok: "subs_page_ok p"
  shows "subs_page_ok (sub_action_settled i n result p)"
proof (cases "n < length (sp_flights p)")
  case True
  obtain act se where f: "sp_flights p ! n = (act, se)" by (cases "sp_flights p ! n")
  let ?p = "p\<lparr>sp_flights := remove_nth n (sp_flights p)\<rparr>"
  have none: "sp_flights p = [(act, se)]" "sp_actionBusy p"
    using ok True f by (cases "sp_flights p"; auto simp: subs_ok_defs of_bool_def split: if_splits)+
  then have gone: "sp_flights ?p = []" using True by (simp add: remove_nth_def)
  have base: "subs_page_ok (?p\<lparr>sp_actionError := e, sp_actionBusy := False\<rparr>)" for e
    using ok gone by (simp add: subs_ok_defs)
  have idle: "subs_page_ok (?p\<lparr>sp_pendingAction := None, sp_editingId := None, sp_newPlanId := x, sp_newStartsAt := y,
      sp_newEndsAt := z, sp_actionBusy := False\<rparr>)" if "local_value y" "local_value z" for x y z
    using ok gone that by (simp add: subs_ok_defs)
  have busy: "(subs_load se i q)\<lparr>sp_actionBusy := False\<rparr> = subs_load se i (q\<lparr>sp_actionBusy := False\<rparr>)" for q
    by (simp add: subs_load_def split: prod.split)
  have "subs_page_ok (sub_action_success i act se ?p)"
  proof (cases "is_create act")
    case True
    then show ?thesis
      using subs_load_ok [OF idle [of "[]" "[]" "[]"], of se i]
      by (simp add: sub_action_success_def Let_def busy local_value_def)
  next
    case False
    have "subs_page_ok (?p\<lparr>sp_pendingAction := None, sp_editingId := None, sp_actionBusy := False\<rparr>)"
      using ok gone by (simp add: subs_ok_defs)
    then show ?thesis
      using False subs_load_ok [of "?p\<lparr>sp_pendingAction := None, sp_editingId := None, sp_actionBusy := False\<rparr>" se i]
      by (simp add: sub_action_success_def Let_def busy)
  qed
  then show ?thesis using base True f by (simp add: sub_action_settled_def Let_def split: option.split)
qed (use ok in \<open>simp add: sub_action_settled_def\<close>)

lemma subs_event_ok:
  assumes ok: "subs_page_ok p"
  shows "subs_page_ok (subs_event_step i now p e)"
proof (cases e)
  case (SubsSessionChange token auth)
  have "subs_page_ok (p\<lparr>sp_token := token, sp_isAuthenticated := auth\<rparr>)" using ok by (simp add: subs_ok_defs)
  with SubsSessionChange show ?thesis by (simp add: Let_def subs_load_ok)
next
  case DismissDialog
  then show ?thesis using ok by (simp add: subs_ok_defs)
qed (use ok in \<open>simp_all add: subs_load_ok subs_load_settled_ok sub_settled_ok confirm_ok subs_content_ok del: subs_content_event.simps\<close>)

interpretation subscriptions_page: machine "subs_step i" subs_page_ok for i
  by unfold_locales (simp add: subs_step_def subs_event_ok)

lemma subs_page_init_ok: "subs_page_ok (subs_page_init token auth)"
  by (simp add: subs_page_init_def subs_ok_defs CREATABLE_STATUSES_def local_value_def)

text \<open>
  C15 Whatever the user does on the page of the subscriptions, and whatever the session and the service do in
  between: what is asked is asked with a token; a subscription is created with a plan and one of the four statuses
  that can be created; a move is one the table of the transitions has for the status of the row, and never into
  CANCELED; only what can be cancelled is cancelled and nothing cancelled is edited; every time is a valid
  time of a whole minute; and at most one call is under way, with its button disabled exactly then.
\<close>

theorem subscriptions_page_safe:
  "list_all fair_sub_ask (sp_log (run (subs_step i) (subs_page_init token auth) es)) \<and>
   list_all (\<lambda>r. some_text (rq_token r)) (sp_requests (run (subs_step i) (subs_page_init token auth) es)) \<and>
   subs_calls_match (run (subs_step i) (subs_page_init token auth) es)"
proof -
  have "subs_page_ok (run (subs_step i) (subs_page_init token auth) es)"
    by (rule subscriptions_page.run_inv [OF subs_page_init_ok])
  then show ?thesis by (simp add: subs_page_ok_def subs_tokens_ok_def)
qed

section \<open>The form of an edit\<close>

text \<open>
  An edit moves the start: opening the form of a row and saving it with nothing changed sends the start
  without its seconds, up to a minute earlier, so that an edit of the plan alone also changes the start of every
  subscription that does not start on a full minute.
\<close>

theorem edit_truncates_start:
  assumes row: "row_shown p s" "offers_edit s" and t: "getTime (subscr_starts_at s) = Some t"
    and group: "sub_group now s \<noteq> GRP_Historical" and panel: "subs_panel p = SPanelContent" and open_end: "subscr_ends_at s = None"
  shows "\<exists>starts. sp_pendingAction (run (subs_step i) p [(now, PressEditSub s), (now, PressSaveEdit s)]) =
      Some (ActEdit s (subscr_plan_id s) starts None) \<and>
    getTime starts = Some (t - t mod 60000) \<and> (getTime starts = getTime (subscr_starts_at s) \<longleftrightarrow> t mod 60000 = 0)"
proof -
  let ?q = "startEdit s p"
  have bck: "local_time (local_text t) = Some (t - t mod 60000)" by (rule local_text_back [OF getTime_era [OF t]])
  then have ne: "local_text t \<noteq> []" by (auto simp: local_time_def)
  have sent: "sent_time (sp_editStartsAt ?q) = Some (toISOString (t - t mod 60000))"
    using t bck by (simp add: startEdit_def toDateTimeLocalValue_def sent_time_def)
  have ends: "ends_or_null (sp_editEndsAt ?q) = Some None"
    using open_end by (simp add: startEdit_def ends_or_null_def some_text_def)
  have "sp_isAuthenticated ?q = sp_isAuthenticated p" "sp_loading ?q = sp_loading p" "sp_subsError ?q = sp_subsError p"
    "sp_plansError ?q = sp_plansError p" by (simp_all add: startEdit_def)
  then have "subs_panel ?q = subs_panel p" by (simp only: subs_panel_def)
  then have "subs_panel ?q = SPanelContent" using panel by simp
  moreover have "edit_form_shown now ?q s"
    using row group by (simp add: edit_form_shown_def startEdit_def row_shown_def)
  moreover have "sp_editStartsAt ?q \<noteq> []" using t ne by (simp add: startEdit_def toDateTimeLocalValue_def)
  ultimately have "sp_pendingAction (run (subs_step i) p [(now, PressEditSub s), (now, PressSaveEdit s)]) =
      Some (ActEdit s (sp_editPlanId ?q) (toISOString (t - t mod 60000)) None)"
    using row panel sent ends by (simp add: subs_step_def submitEdit_def)
  moreover have "getTime (toISOString (t - t mod 60000)) = Some (t - t mod 60000)"
    by (rule getTime_back) (rule local_time_shape(1) [OF bck])
  ultimately show ?thesis using t by (simp add: startEdit_def)
qed

text \<open>The button is offered for a subscription that ended, and shows nothing.\<close>

lemma ended_edit_hidden: "sub_group now s = GRP_Historical \<Longrightarrow> \<not> edit_form_shown now (startEdit s p) s"
  by (simp add: edit_form_shown_def)

definition sample_subscription :: SubscriptionResponse where
  "sample_subscription =
     \<lparr>subscr_id = ''sub-1'', subscr_organization_id = ''acme'', subscr_plan_id = ''starter'', subscr_status = ''ACTIVE'',
      subscr_starts_at = ''2026-01-15T08:30:25Z'', subscr_ends_at = None, subscr_created_at = ''2026-01-15T08:30:25Z'',
      subscr_updated_at = ''2026-01-15T08:30:25Z''\<rparr>"

definition sample_subs_page :: SubscriptionsPage where
  "sample_subs_page = run (subs_step ''acme'') (subs_page_init (Some ''token'') True)
     [(0, SubsEffect), (0, SubsLoadSettled \<lparr>sans_subs = Inr [sample_subscription], sans_plans = Inr []\<rparr>)]"

definition sample_page_ready :: "SubscriptionsPage \<Rightarrow> bool" where
  "sample_page_ready p \<longleftrightarrow> row_shown p sample_subscription \<and> offers_edit sample_subscription \<and>
     sub_group 1800000000000 sample_subscription \<noteq> GRP_Historical \<and> subs_panel p = SPanelContent \<and>
     getTime (subscr_starts_at sample_subscription) = Some 1768465825000"

lemma sample_subs_page_eval: "sample_page_ready sample_subs_page"
  by code_simp

theorem edit_truncates_start_witness:
  "\<exists>starts. sp_pendingAction (run (subs_step ''acme'') sample_subs_page
      [(1800000000000, PressEditSub sample_subscription), (1800000000000, PressSaveEdit sample_subscription)]) =
      Some (ActEdit sample_subscription ''starter'' starts None) \<and> getTime starts = Some 1768465800000"
proof -
  have "subscr_ends_at sample_subscription = None" "subscr_plan_id sample_subscription = ''starter''"
    by (simp_all add: sample_subscription_def)
  then show ?thesis
    using edit_truncates_start [of sample_subs_page sample_subscription 1768465825000 1800000000000 "''acme''"]
      sample_subs_page_eval
    by (auto simp: sample_page_ready_def)
qed

end
