(* ===== verification/SubscriptionService.thy ===== *)
theory SubscriptionService
  imports PlanService Entitlements
begin

text \<open>
  The subscriptions of the organizations (\<open>src/backend/app/services/subscription_service.py\<close>) over the tables of
  \<open>EntitlementService\<close>. The clock, who acts, the identifier of a new row and how a time is written in the trail are
  arguments. Shown: no sequence of calls makes the entitlements of an organization ambiguous, the history is kept
  and every status moves along the table, what a cancellation and a creation do to the resolution, and what an
  update never writes.
\<close>

section \<open>Operations\<close>

datatype SubscriptionError =
    SubOrganizationMissing
  | SubPlanMissing
  | SubscriptionMissing
  | InvalidStatus string
  | InvalidTransition string string
  | AmbiguousState string
  | SubscriptionConflict

record SubscriptionActor =
  sactor_id :: "string option"
  sactor_now :: int
  sactor_new_id :: string
  sactor_isoformat :: "int \<Rightarrow> string"

definition ALL_STATUSES :: "string list" where
  "ALL_STATUSES = [''TRIALING'', ''ACTIVE'', ''PAST_DUE'', ''CANCELED'', ''SCHEDULED'']"

definition SERVICE_TRANSITIONS :: "(string \<times> string list) list" where
  "SERVICE_TRANSITIONS =
     [(''TRIALING'', [''ACTIVE'', ''PAST_DUE'', ''CANCELED'']),
      (''ACTIVE'', [''PAST_DUE'', ''CANCELED'']),
      (''PAST_DUE'', [''ACTIVE'', ''CANCELED'']),
      (''SCHEDULED'', [''TRIALING'', ''ACTIVE'', ''CANCELED'']),
      (''CANCELED'', [])]"

definition service_allows :: "string \<Rightarrow> string \<Rightarrow> bool" where
  "service_allows s t \<longleftrightarrow> t \<in> set (or_else (map_of SERVICE_TRANSITIONS s) [])"

definition ranges_overlap :: "int \<Rightarrow> int option \<Rightarrow> int \<Rightarrow> int option \<Rightarrow> bool" where
  "ranges_overlap a_start a_end b_start b_end =
     (if (case a_end of None \<Rightarrow> False | Some e \<Rightarrow> b_start \<ge> e) then False
      else if (case b_end of None \<Rightarrow> False | Some e \<Rightarrow> a_start \<ge> e) then False
      else True)"

text \<open>The first row the new state would be ambiguous with.\<close>

definition ambiguous_with ::
  "EntitlementDb \<Rightarrow> string \<Rightarrow> string \<Rightarrow> int \<Rightarrow> int option \<Rightarrow> string option \<Rightarrow> SubscriptionRow option" where
  "ambiguous_with db organization status starts_at ends_at exclude =
     (if status \<notin> set SERVICE_GRANTING_STATUSES then None
      else find (\<lambda>other. ranges_overlap starts_at ends_at (srow_starts_at other) (srow_ends_at other))
        (filter (\<lambda>s. srow_organization_id s = organization \<and> srow_status s \<in> set SERVICE_GRANTING_STATUSES \<and>
                     exclude \<noteq> Some (srow_id s)) (edb_subscriptions db)))"

definition get_subscription :: "EntitlementDb \<Rightarrow> string \<Rightarrow> SubscriptionRow option" where
  "get_subscription db i = find (\<lambda>s. srow_id s = i) (edb_subscriptions db)"

definition list_subscriptions_for_org :: "EntitlementDb \<Rightarrow> string \<Rightarrow> SubscriptionError + SubscriptionRow list" where
  "list_subscriptions_for_org db organization =
     (if \<not> org_exists db organization then Inl SubOrganizationMissing
      else Inr (sort_key (\<lambda>s. - srow_created_at s)
        (filter (\<lambda>s. srow_organization_id s = organization) (edb_subscriptions db))))"

definition sub_event :: "SubscriptionActor \<Rightarrow> string \<Rightarrow> string \<Rightarrow> string \<Rightarrow> json \<Rightarrow> ServiceAudit" where
  "sub_event a what organization i meta =
     \<lparr>evrow_organization_id = organization, evrow_user_id = sactor_id a,
      evrow_action = ''platform.subscription.'' @ what, evrow_entity_type = ''Subscription'', evrow_entity_id = i,
      evrow_metadata = meta\<rparr>"

text \<open>The row is inserted; the primary key refuses an identifier that is there.\<close>

definition insert_subscription ::
  "SubscriptionActor \<Rightarrow> string \<Rightarrow> string \<Rightarrow> string \<Rightarrow> int \<Rightarrow> int option \<Rightarrow> ServiceAudit \<Rightarrow> EntitlementDb \<Rightarrow>
     SubscriptionError + EntitlementDb" where
  "insert_subscription a organization plan status starts_at ends_at ev db =
     (if get_subscription db (sactor_new_id a) \<noteq> None then Inl SubscriptionConflict
      else Inr (record_audit_event ev (db\<lparr>edb_subscriptions := edb_subscriptions db @
        [\<lparr>srow_id = sactor_new_id a, srow_organization_id = organization, srow_plan_id = plan, srow_status = status,
          srow_starts_at = starts_at, srow_ends_at = ends_at, srow_created_at = sactor_now a,
          srow_updated_at = sactor_now a\<rparr>]\<rparr>)))"

definition create_subscription ::
  "SubscriptionActor \<Rightarrow> string \<Rightarrow> string \<Rightarrow> string \<Rightarrow> int \<Rightarrow> int option \<Rightarrow> EntitlementDb \<Rightarrow>
     SubscriptionError + EntitlementDb" where
  "create_subscription a organization plan status starts_at ends_at db =
     (if \<not> org_exists db organization then Inl SubOrganizationMissing
      else if plan_by_id db plan = None then Inl SubPlanMissing
      else if status \<notin> set ALL_STATUSES then Inl (InvalidStatus status)
      else (case ambiguous_with db organization status starts_at ends_at None of
              Some other \<Rightarrow> Inl (AmbiguousState (srow_id other))
            | None \<Rightarrow> insert_subscription a organization plan status starts_at ends_at
                (sub_event a ''created'' organization (sactor_new_id a)
                   (JObj [(''plan_id'', JStr plan), (''status'', JStr status)])) db))"

definition schedule_subscription ::
  "SubscriptionActor \<Rightarrow> string \<Rightarrow> string \<Rightarrow> int \<Rightarrow> int option \<Rightarrow> EntitlementDb \<Rightarrow> SubscriptionError + EntitlementDb" where
  "schedule_subscription a organization plan starts_at ends_at db =
     (if \<not> org_exists db organization then Inl SubOrganizationMissing
      else if plan_by_id db plan = None then Inl SubPlanMissing
      else insert_subscription a organization plan ''SCHEDULED'' starts_at ends_at
        (sub_event a ''scheduled'' organization (sactor_new_id a) (JObj [(''plan_id'', JStr plan)])) db)"

definition write_subscription :: "SubscriptionRow \<Rightarrow> EntitlementDb \<Rightarrow> EntitlementDb" where
  "write_subscription new db =
     db\<lparr>edb_subscriptions := replace_rows (\<lambda>s. srow_id s = srow_id new) new (edb_subscriptions db)\<rparr>"

text \<open>A field that is null or absent is \<open>None\<close>, and is not written.\<close>

definition updated_subscription ::
  "string option \<Rightarrow> string option \<Rightarrow> int option \<Rightarrow> int option \<Rightarrow> SubscriptionRow \<Rightarrow> SubscriptionRow" where
  "updated_subscription status plan starts_at ends_at s =
     s\<lparr>srow_status := given status (srow_status s), srow_plan_id := given plan (srow_plan_id s),
       srow_starts_at := given starts_at (srow_starts_at s),
       srow_ends_at := (if ends_at = None then srow_ends_at s else ends_at)\<rparr>"

definition subscription_updates ::
  "(int \<Rightarrow> string) \<Rightarrow> string option \<Rightarrow> string option \<Rightarrow> int option \<Rightarrow> int option \<Rightarrow> SubscriptionRow \<Rightarrow> (string \<times> json) list" where
  "subscription_updates isoformat status plan starts_at ends_at s =
     (if changes status (srow_status s) then field_if ''status'' (map_option JStr status) else []) @
     (if changes plan (srow_plan_id s) then field_if ''plan_id'' (map_option JStr plan) else []) @
     (if changes starts_at (srow_starts_at s) then field_if ''starts_at'' (map_option (JStr \<circ> isoformat) starts_at) else []) @
     (if ends_at \<noteq> None \<and> ends_at \<noteq> srow_ends_at s then field_if ''ends_at'' (map_option (JStr \<circ> isoformat) ends_at) else [])"

definition status_error :: "string option \<Rightarrow> SubscriptionRow \<Rightarrow> SubscriptionError option" where
  "status_error status s =
     (case status of
        None \<Rightarrow> None
      | Some new \<Rightarrow>
          if new = srow_status s then None
          else if new \<notin> set ALL_STATUSES then Some (InvalidStatus new)
          else if \<not> service_allows (srow_status s) new then Some (InvalidTransition (srow_status s) new)
          else None)"

definition update_subscription ::
  "SubscriptionActor \<Rightarrow> string \<Rightarrow> string option \<Rightarrow> string option \<Rightarrow> int option \<Rightarrow> int option \<Rightarrow> EntitlementDb \<Rightarrow>
     SubscriptionError + EntitlementDb" where
  "update_subscription a i status plan starts_at ends_at db =
     (case get_subscription db i of
        None \<Rightarrow> Inl SubscriptionMissing
      | Some s \<Rightarrow>
          (case status_error status s of
             Some e \<Rightarrow> Inl e
           | None \<Rightarrow>
               if plan \<noteq> None \<and> plan_by_id db (or_else plan []) = None then Inl SubPlanMissing
               else let new = updated_subscription status plan starts_at ends_at s;
                        updates = subscription_updates (sactor_isoformat a) status plan starts_at ends_at s
                 in (case ambiguous_with db (srow_organization_id s) (srow_status new) (srow_starts_at new)
                            (srow_ends_at new) (Some (srow_id s)) of
                       Some other \<Rightarrow> Inl (AmbiguousState (srow_id other))
                     | None \<Rightarrow>
                         if updates = [] then Inr db
                         else Inr (record_audit_event
                           (sub_event a ''updated'' (srow_organization_id s) (srow_id s) (JObj updates))
                           (write_subscription (new\<lparr>srow_updated_at := sactor_now a\<rparr>) db)))))"

definition cancel_subscription :: "SubscriptionActor \<Rightarrow> string \<Rightarrow> EntitlementDb \<Rightarrow> SubscriptionError + EntitlementDb" where
  "cancel_subscription a i db =
     (case get_subscription db i of
        None \<Rightarrow> Inl SubscriptionMissing
      | Some s \<Rightarrow>
          if \<not> service_allows (srow_status s) ''CANCELED'' \<and> srow_status s \<noteq> ''CANCELED''
          then Inl (InvalidTransition (srow_status s) ''CANCELED'')
          else if srow_status s = ''CANCELED'' then Inr db
          else Inr (record_audit_event (sub_event a ''canceled'' (srow_organization_id s) (srow_id s) (JObj []))
            (write_subscription (s\<lparr>srow_status := ''CANCELED'', srow_updated_at := sactor_now a\<rparr>) db)))"

text \<open>The calls one after the other; a call that fails is rolled back.\<close>

datatype SubscriptionCall =
    CreateSubscription string string string int "int option"
  | ScheduleSubscription string string int "int option"
  | UpdateSubscription string "string option" "string option" "int option" "int option"
  | CancelSubscription string

fun subscription_call :: "SubscriptionActor \<Rightarrow> SubscriptionCall \<Rightarrow> EntitlementDb \<Rightarrow> SubscriptionError + EntitlementDb" where
  "subscription_call a (CreateSubscription g p status starts ends) db = create_subscription a g p status starts ends db"
| "subscription_call a (ScheduleSubscription g p starts ends) db = schedule_subscription a g p starts ends db"
| "subscription_call a (UpdateSubscription i status p starts ends) db = update_subscription a i status p starts ends db"
| "subscription_call a (CancelSubscription i) db = cancel_subscription a i db"

definition subscription_service_step :: "EntitlementDb \<Rightarrow> SubscriptionActor \<times> SubscriptionCall \<Rightarrow> EntitlementDb" where
  "subscription_service_step db e = (case subscription_call (fst e) (snd e) db of Inl err \<Rightarrow> db | Inr db' \<Rightarrow> db')"

section \<open>The same table in the client\<close>

lemma same_transitions: "SERVICE_TRANSITIONS = ALLOWED_TRANSITIONS"
  by (simp add: SERVICE_TRANSITIONS_def ALLOWED_TRANSITIONS_def)

lemma same_granting: "set SERVICE_GRANTING_STATUSES = set CURRENT_GRANTING_STATUSES"
  by (simp add: SERVICE_GRANTING_STATUSES_def CURRENT_GRANTING_STATUSES_def)

lemma allows_step: "service_allows s t \<longleftrightarrow> sub_step s t"
  by (simp add: service_allows_def same_transitions sub_step.simps next_statuses_def)

lemma allowed_cases: "service_allows s t \<Longrightarrow>
    s \<in> {''TRIALING'', ''ACTIVE'', ''PAST_DUE'', ''SCHEDULED''} \<and> t \<in> {''TRIALING'', ''ACTIVE'', ''PAST_DUE'', ''CANCELED''}"
  by (auto simp: service_allows_def SERVICE_TRANSITIONS_def or_else_def split: if_splits)

section \<open>No ambiguity\<close>

definition grants :: "SubscriptionRow \<Rightarrow> bool" where
  "grants s \<longleftrightarrow> srow_status s \<in> set SERVICE_GRANTING_STATUSES"

definition clash :: "SubscriptionRow \<Rightarrow> SubscriptionRow \<Rightarrow> bool" where
  "clash s o' \<longleftrightarrow> srow_organization_id s = srow_organization_id o' \<and> grants s \<and> grants o' \<and>
     ranges_overlap (srow_starts_at s) (srow_ends_at s) (srow_starts_at o') (srow_ends_at o')"

definition sub_ids_unique :: "EntitlementDb \<Rightarrow> bool" where
  "sub_ids_unique db \<longleftrightarrow> distinct (map srow_id (edb_subscriptions db))"

text \<open>Of one organization no two subscriptions that grant overlap.\<close>

definition unambiguous :: "EntitlementDb \<Rightarrow> bool" where
  "unambiguous db \<longleftrightarrow> sub_ids_unique db \<and>
     (\<forall>s \<in> set (edb_subscriptions db). \<forall>o' \<in> set (edb_subscriptions db). srow_id s \<noteq> srow_id o' \<longrightarrow> \<not> clash s o')"

lemma overlap_sym: "ranges_overlap a b c d = ranges_overlap c d a b"
  by (simp add: ranges_overlap_def)

lemma clash_sym: "clash s o' = clash o' s"
  by (auto simp: clash_def overlap_sym)

text \<open>Two ranges that hold a common time overlap.\<close>

lemma current_clash:
  assumes "is_current_subscription s t" "is_current_subscription o' t" "srow_organization_id s = srow_organization_id o'"
  shows "clash s o'"
  using assms by (auto simp: is_current_subscription_def clash_def grants_def ranges_overlap_def split: option.splits)

lemma one_candidate:
  assumes ok: "unambiguous db"
  shows "length (subscription_candidates db g t) \<le> 1"
proof (rule ccontr)
  let ?cs = "subscription_candidates db g t"
  assume "\<not> length ?cs \<le> 1"
  then obtain s o' rest where cs: "?cs = s # o' # rest" by (cases ?cs; cases "tl ?cs") auto
  have "distinct (map srow_id ?cs)"
    unfolding candidates_eq using ok unfolding unambiguous_def sub_ids_unique_def by (blast intro: distinct_map_filter)
  then have ids: "srow_id s \<noteq> srow_id o'" by (simp add: cs)
  have mem: "s \<in> set ?cs" "o' \<in> set ?cs" by (simp_all add: cs)
  then have "clash s o'" unfolding candidates_eq by (intro current_clash [where t = t]) simp_all
  with mem ids ok show False unfolding candidates_eq unambiguous_def by simp
qed

lemma not_ambiguous:
  assumes "unambiguous db"
  shows "reso_status (resolve_entitlements db g t) \<noteq> RES_AMBIGUOUS"
proof -
  have plan: "reso_status (resolve_plan db org s t) \<noteq> RES_AMBIGUOUS" for org s
    by (simp add: resolve_plan_def denied_def split: option.split)
  consider "subscription_candidates db g t = []" | s where "subscription_candidates db g t = [s]"
    using one_candidate [OF assms, of g t] by (cases "subscription_candidates db g t") auto
  then show ?thesis
    by cases (auto simp: resolve_entitlements_def plan denied_def split: option.split)
qed

text \<open>What the check of the service rules out.\<close>

lemma checked_clash:
  assumes none: "ambiguous_with db (srow_organization_id new) (srow_status new) (srow_starts_at new) (srow_ends_at new) ex = None"
    and o: "x \<in> set (edb_subscriptions db)" "ex \<noteq> Some (srow_id x)"
  shows "\<not> clash new x"
  using assms by (auto simp: ambiguous_with_def clash_def grants_def find_None_iff split: if_splits)

lemma unambiguous_record [simp]:
  "unambiguous (record_audit_event ev db) = unambiguous db" "sub_ids_unique (record_audit_event ev db) = sub_ids_unique db"
  "edb_subscriptions (record_audit_event ev db) = edb_subscriptions db"
  by (simp_all add: unambiguous_def sub_ids_unique_def record_audit_event_def)

lemma unambiguous_insert:
  assumes ok: "unambiguous db" and fresh: "get_subscription db (srow_id new) = None"
    and no: "\<And>x. x \<in> set (edb_subscriptions db) \<Longrightarrow> \<not> clash new x"
  shows "unambiguous (db\<lparr>edb_subscriptions := edb_subscriptions db @ [new]\<rparr>)"
proof -
  have "\<not> clash x new" if "x \<in> set (edb_subscriptions db)" for x using no [OF that] clash_sym by blast
  then show ?thesis
    using ok fresh no
    by (auto simp: unambiguous_def sub_ids_unique_def get_subscription_def find_None_iff)
qed

lemma write_ids: "map srow_id (replace_rows (\<lambda>s. srow_id s = srow_id new) new rows) = map srow_id rows"
  by (auto simp: replace_rows_def)

lemma written_rows:
  "x \<in> set (edb_subscriptions (write_subscription new db)) \<Longrightarrow>
   x = new \<or> (x \<in> set (edb_subscriptions db) \<and> srow_id x \<noteq> srow_id new)"
  by (auto simp: write_subscription_def replace_rows_def)

lemma unambiguous_write:
  assumes ok: "unambiguous db"
    and no: "\<And>x. x \<in> set (edb_subscriptions db) \<Longrightarrow> srow_id x \<noteq> srow_id new \<Longrightarrow> \<not> clash new x"
  shows "unambiguous (write_subscription new db)"
proof -
  have "\<not> clash s o'" if "s \<in> set (edb_subscriptions (write_subscription new db))"
      "o' \<in> set (edb_subscriptions (write_subscription new db))" "srow_id s \<noteq> srow_id o'" for s o'
    using written_rows [OF that(1)] written_rows [OF that(2)] that(3) no ok clash_sym
    unfolding unambiguous_def by metis
  moreover have "sub_ids_unique (write_subscription new db)"
    using ok by (simp add: unambiguous_def sub_ids_unique_def write_subscription_def write_ids)
  ultimately show ?thesis by (simp add: unambiguous_def)
qed

lemma scheduled_no_clash: "srow_status new \<notin> set SERVICE_GRANTING_STATUSES \<Longrightarrow> \<not> clash new x"
  by (simp add: clash_def grants_def)

lemma not_granting: "''SCHEDULED'' \<notin> set SERVICE_GRANTING_STATUSES" "''CANCELED'' \<notin> set SERVICE_GRANTING_STATUSES"
  by (simp_all add: SERVICE_GRANTING_STATUSES_def)

lemma inserted_unambiguous:
  assumes "unambiguous db" and "insert_subscription a g p status starts ends ev db = Inr db'"
    and "ambiguous_with db g status starts ends None = None"
  shows "unambiguous db'"
proof -
  let ?new = "\<lparr>srow_id = sactor_new_id a, srow_organization_id = g, srow_plan_id = p, srow_status = status,
          srow_starts_at = starts, srow_ends_at = ends, srow_created_at = sactor_now a, srow_updated_at = sactor_now a\<rparr>"
  have "unambiguous (db\<lparr>edb_subscriptions := edb_subscriptions db @ [?new]\<rparr>)"
    using assms checked_clash [of db ?new None]
    by (intro unambiguous_insert) (auto simp: insert_subscription_def split: if_splits)
  then show ?thesis using assms(2) by (auto simp: insert_subscription_def split: if_splits)
qed

lemma get_subscription_id: "get_subscription db i = Some s \<Longrightarrow> srow_id s = i \<and> s \<in> set (edb_subscriptions db)"
  by (auto simp: get_subscription_def find_Some_iff)

lemma updated_frame [simp]:
  "srow_id (updated_subscription status plan starts ends s) = srow_id s"
  "srow_organization_id (updated_subscription status plan starts ends s) = srow_organization_id s"
  "srow_created_at (updated_subscription status plan starts ends s) = srow_created_at s"
  by (simp_all add: updated_subscription_def)

text \<open>An update that succeeds either writes nothing or the updated row, which passed the checks.\<close>

lemma update_cases:
  assumes "update_subscription a i status plan starts ends db = Inr db'"
  obtains (same) "db' = db"
  | (written) s ev where "get_subscription db i = Some s" "status_error status s = None"
      "ambiguous_with db (srow_organization_id s) (srow_status (updated_subscription status plan starts ends s))
         (srow_starts_at (updated_subscription status plan starts ends s))
         (srow_ends_at (updated_subscription status plan starts ends s)) (Some (srow_id s)) = None"
      "db' = record_audit_event ev
         (write_subscription (updated_subscription status plan starts ends s\<lparr>srow_updated_at := sactor_now a\<rparr>) db)"
proof (cases "get_subscription db i")
  case None
  then show ?thesis using assms by (simp add: update_subscription_def)
next
  case (Some s)
  let ?new = "updated_subscription status plan starts ends s"
  let ?other = "ambiguous_with db (srow_organization_id s) (srow_status ?new) (srow_starts_at ?new) (srow_ends_at ?new)
      (Some (srow_id s))"
  let ?ups = "subscription_updates (sactor_isoformat a) status plan starts ends s"
  have checks: "status_error status s = None" "\<not> (plan \<noteq> None \<and> plan_by_id db (or_else plan []) = None)" "?other = None"
    using assms by (simp_all add: update_subscription_def Some Let_def split: option.split_asm if_split_asm)
  show ?thesis
  proof (cases "?ups = []")
    case True
    then show ?thesis using assms checks same by (simp add: update_subscription_def Some Let_def split: if_split_asm)
  next
    case False
    then have "db' = record_audit_event (sub_event a ''updated'' (srow_organization_id s) (srow_id s) (JObj ?ups))
        (write_subscription (?new\<lparr>srow_updated_at := sactor_now a\<rparr>) db)"
      using assms checks by (simp add: update_subscription_def Some Let_def split: if_split_asm)
    with Some checks show ?thesis by (intro written)
  qed
qed

lemma update_unambiguous:
  assumes ok: "unambiguous db" and up: "update_subscription a i status plan starts ends db = Inr db'"
  shows "unambiguous db'"
  using up
proof (cases rule: update_cases)
  case same
  then show ?thesis using ok by simp
next
  case (written s ev)
  let ?new = "updated_subscription status plan starts ends s\<lparr>srow_updated_at := sactor_now a\<rparr>"
  have "\<not> clash ?new x" if "x \<in> set (edb_subscriptions db)" "srow_id x \<noteq> srow_id ?new" for x
    using checked_clash [of db ?new "Some (srow_id s)" x] written(3) that by simp
  then show ?thesis using unambiguous_write [OF ok, of ?new] written(4) by simp
qed

lemma cancel_cases:
  assumes "cancel_subscription a i db = Inr db'"
  obtains (already) s where "get_subscription db i = Some s" "srow_status s = ''CANCELED''" "db' = db"
  | (written) s ev where "get_subscription db i = Some s" "service_allows (srow_status s) ''CANCELED''"
      "db' = record_audit_event ev (write_subscription (s\<lparr>srow_status := ''CANCELED'', srow_updated_at := sactor_now a\<rparr>) db)"
  using assms by (auto simp: cancel_subscription_def split: option.splits if_splits)

lemma cancel_unambiguous:
  assumes ok: "unambiguous db" and c: "cancel_subscription a i db = Inr db'"
  shows "unambiguous db'"
  using c
proof (cases rule: cancel_cases)
  case (written s ev)
  then show ?thesis
    using unambiguous_write [OF ok] scheduled_no_clash not_granting(2) by simp
qed (use ok in simp)

lemma call_unambiguous:
  assumes ok: "unambiguous db" and call: "subscription_call a c db = Inr db'"
  shows "unambiguous db'"
proof (cases c)
  case (CreateSubscription g p status starts ends)
  then show ?thesis
    using call inserted_unambiguous [OF ok] by (auto simp: create_subscription_def split: if_splits option.splits)
next
  case (ScheduleSubscription g p starts ends)
  then show ?thesis
    using call inserted_unambiguous [OF ok]
    by (auto simp: schedule_subscription_def ambiguous_with_def not_granting split: if_splits)
next
  case (UpdateSubscription i status plan starts ends)
  then show ?thesis using call update_unambiguous [OF ok] by simp
next
  case (CancelSubscription i)
  then show ?thesis using call cancel_unambiguous [OF ok] by simp
qed

interpretation subscription_service: machine subscription_service_step unambiguous
  by unfold_locales (auto simp: subscription_service_step_def dest: call_unambiguous split: sum.split)


section \<open>History\<close>

lemma sub_steps_trans: "sub_steps t u \<Longrightarrow> sub_steps s t \<Longrightarrow> sub_steps s u"
  by (induction rule: sub_steps.induct) (auto intro: sub_more)

text \<open>A later state of the same row: a subscription is never moved to another organization.\<close>

definition later_row :: "SubscriptionRow \<Rightarrow> SubscriptionRow \<Rightarrow> bool" where
  "later_row r r' \<longleftrightarrow> srow_id r' = srow_id r \<and> srow_organization_id r' = srow_organization_id r \<and>
     srow_created_at r' = srow_created_at r \<and> sub_steps (srow_status r) (srow_status r')"

definition history_kept :: "EntitlementDb \<Rightarrow> EntitlementDb \<Rightarrow> bool" where
  "history_kept db db' \<longleftrightarrow> (sub_ids_unique db \<longrightarrow> sub_ids_unique db' \<and>
     (\<forall>r \<in> set (edb_subscriptions db). \<exists>r' \<in> set (edb_subscriptions db'). later_row r r'))"

lemma later_refl: "later_row r r"
  by (simp add: later_row_def sub_refl)

lemma later_trans: "later_row r r' \<Longrightarrow> later_row r' r'' \<Longrightarrow> later_row r r''"
  by (auto simp: later_row_def intro: sub_steps_trans)

lemma history_refl: "history_kept db db"
  by (auto simp: history_kept_def intro: later_refl)

lemma history_trans: "history_kept db db' \<Longrightarrow> history_kept db' db'' \<Longrightarrow> history_kept db db''"
  unfolding history_kept_def using later_trans by metis

lemma history_record [simp]: "history_kept db (record_audit_event ev db') = history_kept db db'"
  by (simp add: history_kept_def)

lemma history_write:
  assumes s: "get_subscription db i = Some s" and new: "later_row s new"
  shows "history_kept db (write_subscription new db)"
  unfolding history_kept_def
proof (intro impI conjI ballI)
  assume unique: "sub_ids_unique db"
  show "sub_ids_unique (write_subscription new db)"
    using unique by (simp add: sub_ids_unique_def write_subscription_def write_ids)
  fix r
  assume r: "r \<in> set (edb_subscriptions db)"
  have id: "srow_id new = srow_id s" using new by (simp add: later_row_def)
  show "\<exists>r' \<in> set (edb_subscriptions (write_subscription new db)). later_row r r'"
  proof (cases "srow_id r = srow_id s")
    case True
    then have "r = s"
      using unique r get_subscription_id [OF s] by (auto simp: sub_ids_unique_def distinct_map inj_on_def)
    then show ?thesis using r new id by (auto simp: write_subscription_def replace_rows_def image_iff intro!: bexI [of _ new])
  next
    case False
    then show ?thesis using r id by (auto simp: write_subscription_def replace_rows_def image_iff intro!: bexI [of _ r] later_refl)
  qed
qed

lemma history_insert:
  assumes "insert_subscription a g p status starts ends ev db = Inr db'"
  shows "history_kept db db'"
  using assms later_refl
  by (fastforce simp: insert_subscription_def history_kept_def sub_ids_unique_def get_subscription_def find_None_iff
      split: if_splits)

lemma status_moves:
  assumes "status_error status s = None"
  shows "sub_steps (srow_status s) (given status (srow_status s))"
proof (cases "status = None \<or> status = Some (srow_status s)")
  case True
  then show ?thesis by (auto simp: given_def sub_refl)
next
  case False
  then obtain new where "status = Some new" "service_allows (srow_status s) new"
    using assms by (auto simp: status_error_def split: if_splits)
  then show ?thesis using sub_more [OF sub_refl] by (auto simp: given_def allows_step)
qed

lemma call_history:
  assumes call: "subscription_call a c db = Inr db'"
  shows "history_kept db db'"
proof (cases c)
  case (CreateSubscription g p status starts ends)
  then show ?thesis using call by (auto simp: create_subscription_def intro: history_insert split: if_splits option.splits)
next
  case (ScheduleSubscription g p starts ends)
  then show ?thesis using call by (auto simp: schedule_subscription_def intro: history_insert split: if_splits)
next
  case (UpdateSubscription i status plan starts ends)
  then have "update_subscription a i status plan starts ends db = Inr db'" using call by simp
  then show ?thesis
  proof (cases rule: update_cases)
    case (written s ev)
    have "later_row s (updated_subscription status plan starts ends s\<lparr>srow_updated_at := sactor_now a\<rparr>)"
      using status_moves [OF written(2)] by (simp add: later_row_def) (simp add: updated_subscription_def)
    then show ?thesis using history_write [OF written(1)] written(4) by simp
  qed (simp add: history_refl)
next
  case (CancelSubscription i)
  then have "cancel_subscription a i db = Inr db'" using call by simp
  then show ?thesis
  proof (cases rule: cancel_cases)
    case (written s ev)
    then have "later_row s (s\<lparr>srow_status := ''CANCELED'', srow_updated_at := sactor_now a\<rparr>)"
      using sub_more [OF sub_refl] by (auto simp: later_row_def allows_step)
    then show ?thesis using history_write [OF written(1)] written(3) by simp
  qed (simp add: history_refl)
qed

interpretation subscription_history: monotone_machine subscription_service_step history_kept
proof
  show "history_kept s s" for s by (rule history_refl)
  show "history_kept s t \<Longrightarrow> history_kept t u \<Longrightarrow> history_kept s u" for s t u by (rule history_trans)
  show "history_kept s (subscription_service_step s e)" for s e
    using call_history [of "fst e" "snd e" s] by (auto simp: subscription_service_step_def history_refl split: sum.split)
qed

lemma steps_from_canceled: "sub_steps s t \<Longrightarrow> s = ''CANCELED'' \<Longrightarrow> t = ''CANCELED''"
proof (induction rule: sub_steps.induct)
  case (sub_more s t u)
  then show ?case using allowed_cases [of t u] by (auto simp: allows_step)
qed simp

text \<open>
  The history is kept: whatever calls are made, every subscription is still there afterwards, with its
  organization and its time of creation, its status reached along the table of the transitions; and one that was
  cancelled is cancelled for ever.
\<close>

theorem subscription_history:
  assumes "sub_ids_unique db" and "r \<in> set (edb_subscriptions db)"
  shows "\<exists>r' \<in> set (edb_subscriptions (run subscription_service_step db calls)).
    srow_id r' = srow_id r \<and> srow_organization_id r' = srow_organization_id r \<and> srow_created_at r' = srow_created_at r \<and>
    sub_steps (srow_status r) (srow_status r') \<and> (srow_status r = ''CANCELED'' \<longrightarrow> srow_status r' = ''CANCELED'')"
proof -
  have "history_kept db (run subscription_service_step db calls)" by (rule subscription_history.run_rel)
  then obtain r' where "r' \<in> set (edb_subscriptions (run subscription_service_step db calls))" "later_row r r'"
    using assms by (auto simp: history_kept_def)
  then show ?thesis using steps_from_canceled [of "srow_status r" "srow_status r'"] by (auto simp: later_row_def)
qed

section \<open>What a call means for the tenant\<close>

lemma candidates_written:
  "subscription_candidates (write_subscription new db) g t =
     filter (\<lambda>s. srow_organization_id s = g \<and> is_current_subscription s t)
       (replace_rows (\<lambda>s. srow_id s = srow_id new) new (edb_subscriptions db))"
  by (simp add: candidates_eq write_subscription_def)

lemma standing_same: "edb_organizations db' = edb_organizations db \<Longrightarrow> in_good_standing db' g = in_good_standing db g"
  by (simp add: in_good_standing_def)

lemma no_candidates:
  assumes "subscription_candidates db g t = []" and "in_good_standing db g"
  shows "reso_status (resolve_entitlements db g t) = RES_NO_SUBSCRIPTION"
  using assms by (auto simp: resolve_entitlements_def in_good_standing_def denied_def split: option.splits)

lemma orgs_frame [simp]:
  "edb_organizations (record_audit_event ev db) = edb_organizations db"
  "edb_organizations (write_subscription new db) = edb_organizations db"
  "edb_plans (record_audit_event ev db) = edb_plans db" "edb_plans (write_subscription new db) = edb_plans db"
  by (simp_all add: record_audit_event_def write_subscription_def)

lemma candidates_record [simp]:
  "subscription_candidates (record_audit_event ev db) g t = subscription_candidates db g t"
  by (simp add: subscription_candidates_def)

definition canceled_db :: "SubscriptionActor \<Rightarrow> SubscriptionRow \<Rightarrow> EntitlementDb \<Rightarrow> EntitlementDb" where
  "canceled_db a s db = record_audit_event (sub_event a ''canceled'' (srow_organization_id s) (srow_id s) (JObj []))
     (write_subscription (s\<lparr>srow_status := ''CANCELED'', srow_updated_at := sactor_now a\<rparr>) db)"

lemma current_cancels:
  assumes "get_subscription db i = Some s" "is_current_subscription s t"
  shows "cancel_subscription a i db = Inr (canceled_db a s db)"
proof -
  have "srow_status s \<in> set SERVICE_GRANTING_STATUSES" using assms(2) by (simp add: is_current_subscription_def)
  then have "srow_status s \<noteq> ''CANCELED''" "service_allows (srow_status s) ''CANCELED''"
    by (auto simp: SERVICE_GRANTING_STATUSES_def service_allows_def SERVICE_TRANSITIONS_def or_else_def)
  then show ?thesis using assms(1) by (simp add: cancel_subscription_def canceled_db_def)
qed

lemma canceled_candidates:
  assumes ok: "unambiguous db" and mem: "s \<in> set (edb_subscriptions db)" and cur: "is_current_subscription s t"
    and org: "srow_organization_id s = g"
  shows "subscription_candidates (canceled_db a s db) g t = []"
proof -
  let ?new = "s\<lparr>srow_status := ''CANCELED'', srow_updated_at := sactor_now a\<rparr>"
  have "\<not> (srow_organization_id x = g \<and> is_current_subscription x t)"
    if "x \<in> set (replace_rows (\<lambda>s. srow_id s = srow_id ?new) ?new (edb_subscriptions db))" for x
  proof -
    have "x = ?new \<or> (x \<in> set (edb_subscriptions db) \<and> srow_id x \<noteq> srow_id s)"
      using written_rows [of x ?new db] that by (simp add: write_subscription_def)
    then show ?thesis
    proof
      assume "x = ?new"
      then show ?thesis using not_granting(2) by (simp add: is_current_subscription_def)
    next
      assume "x \<in> set (edb_subscriptions db) \<and> srow_id x \<noteq> srow_id s"
      then show ?thesis
        using current_clash [OF _ cur, of x] ok mem org unfolding unambiguous_def by metis
    qed
  qed
  then show ?thesis unfolding canceled_db_def candidates_record candidates_written by (simp add: filter_empty_conv)
qed

lemma nothing_granted:
  assumes "subscription_candidates db g t = []"
  shows "\<not> feature_granted (resolve_entitlements db g t) k"
proof -
  have "granting_plan db g t = None" using assms by (simp add: granting_plan_def candidates_eq)
  then show ?thesis by (simp add: feature_granted_def resolve_features or_else_def)
qed

text \<open>
  Cancelling the current subscription takes the entitlements away: where nothing is ambiguous, once the
  subscription that is current for an organization in good standing is cancelled, the resolver finds none, at that
  time, and grants no feature.
\<close>

theorem cancel_denies:
  assumes ok: "unambiguous db" and s: "get_subscription db i = Some s" "is_current_subscription s t"
    and org: "srow_organization_id s = g" "in_good_standing db g"
  shows "\<exists>db'. cancel_subscription a i db = Inr db' \<and>
    reso_status (resolve_entitlements db' g t) = RES_NO_SUBSCRIPTION \<and> \<not> feature_granted (resolve_entitlements db' g t) k"
proof -
  have mem: "s \<in> set (edb_subscriptions db)" using get_subscription_id [OF s(1)] by simp
  note none = canceled_candidates [OF ok mem s(2) org(1), of a]
  have "reso_status (resolve_entitlements (canceled_db a s db) g t) = RES_NO_SUBSCRIPTION"
    by (rule no_candidates [OF none]) (simp add: canceled_db_def standing_same org(2))
  then show ?thesis using current_cancels [OF s, of a] nothing_granted [OF none] by blast
qed

text \<open>
  A subscription that was created grants at once: where nothing was ambiguous and the call succeeds with a status
  that grants, the organization in good standing is on the plan at every time of the range, and by this
  subscription.
\<close>

theorem created_subscription_grants:
  assumes ok: "unambiguous db" and call: "create_subscription a g p status starts ends db = Inr db'"
    and status: "status \<in> set SERVICE_GRANTING_STATUSES" and t: "starts \<le> t" "\<And>e. ends = Some e \<Longrightarrow> t < e"
    and org: "in_good_standing db g"
  shows "granting_plan db' g t = Some p \<and>
    reso_subscription_id (resolve_entitlements db' g t) = Some (sactor_new_id a)"
proof -
  let ?new = "\<lparr>srow_id = sactor_new_id a, srow_organization_id = g, srow_plan_id = p, srow_status = status,
          srow_starts_at = starts, srow_ends_at = ends, srow_created_at = sactor_now a, srow_updated_at = sactor_now a\<rparr>"
  have check: "ambiguous_with db g status starts ends None = None" and plan: "plan_by_id db p \<noteq> None"
    and db': "\<exists>ev. db' = record_audit_event ev (db\<lparr>edb_subscriptions := edb_subscriptions db @ [?new]\<rparr>)"
    using call by (auto simp: create_subscription_def insert_subscription_def split: if_splits option.splits)
  have cur: "is_current_subscription ?new t" using status t by (auto simp: is_current_subscription_def split: option.split)
  have "\<not> (srow_organization_id x = g \<and> is_current_subscription x t)" if "x \<in> set (edb_subscriptions db)" for x
    using checked_clash [of db ?new None x] check that current_clash [OF cur, of x] by auto
  then have "filter (\<lambda>s. srow_organization_id s = g \<and> is_current_subscription s t) (edb_subscriptions db) = []"
    by (simp add: filter_empty_conv)
  then have cands: "subscription_candidates db' g t = [?new]"
    using db' cur by (auto simp: candidates_eq record_audit_event_def)
  have orgs: "edb_organizations db' = edb_organizations db" "plan_by_id db' p = plan_by_id db p"
    using db' by (auto simp: record_audit_event_def plan_by_id_def)
  then have good: "in_good_standing db' g" using org standing_same by blast
  obtain r where r: "plan_by_id db' p = Some r" "prow_id r = p" using plan orgs(2) plan_by_id_id by fastforce
  then have found: "find (\<lambda>x. prow_id x = p) (edb_plans db') = Some r" by (simp add: plan_by_id_def)
  have "granting_plan db' g t = Some p"
    using cands good r by (simp add: granting_plan_def candidates_eq plan_by_id_def)
  moreover have "reso_subscription_id (resolve_entitlements db' g t) = Some (sactor_new_id a)"
    using cands good by (auto simp: resolve_entitlements_def in_good_standing_def resolve_plan_def found split: option.splits)
  ultimately show ?thesis by blast
qed

section \<open>What an update does not write, and what it does\<close>

lemma written_found:
  "get_subscription db (srow_id new) \<noteq> None \<Longrightarrow>
   get_subscription (record_audit_event ev (write_subscription new db)) (srow_id new) = Some new"
  using find_replace_other [where key = srow_id and new = new and k = "srow_id new" and q = "srow_id new"]
  by (auto simp: get_subscription_def write_subscription_def)

text \<open>
  A subscription cannot be made open-ended again: an update that sends null for the end, as the page does when
  the field was emptied, leaves the end as it was, whatever else it changes.
\<close>

theorem end_not_removed:
  assumes "update_subscription a i status plan starts None db = Inr db'" and s: "get_subscription db i = Some s"
  shows "\<exists>s'. get_subscription db' i = Some s' \<and> srow_ends_at s' = srow_ends_at s"
  using assms(1)
proof (cases rule: update_cases)
  case (written r ev)
  let ?new = "updated_subscription status plan starts None r\<lparr>srow_updated_at := sactor_now a\<rparr>"
  have "r = s" "srow_id ?new = i" using written(1) s get_subscription_id [OF s] by simp_all
  then have "get_subscription db' i = Some ?new"
    using written_found [of db ?new ev] written(1,4) by simp
  then show ?thesis by (simp add: updated_subscription_def \<open>r = s\<close>)
qed (use s in simp)

text \<open>
  The history of a cancelled subscription can be rewritten: an update of its plan and its range succeeds,
  although CANCELED is final and a change of the plan is said to be a new subscription.
\<close>

theorem canceled_history_rewritten:
  assumes s: "get_subscription db i = Some s" "srow_status s = ''CANCELED''" and plan: "plan_by_id db p \<noteq> None"
    and new: "p \<noteq> srow_plan_id s"
  shows "\<exists>db' s'. update_subscription a i None (Some p) (Some starts) (Some ends) db = Inr db' \<and>
    get_subscription db' i = Some s' \<and> srow_status s' = ''CANCELED'' \<and> srow_plan_id s' = p \<and>
    srow_starts_at s' = starts \<and> srow_ends_at s' = Some ends"
proof -
  let ?new = "updated_subscription None (Some p) (Some starts) (Some ends) s\<lparr>srow_updated_at := sactor_now a\<rparr>"
  have status: "srow_status (updated_subscription None (Some p) (Some starts) (Some ends) s) = ''CANCELED''"
    using s(2) by (simp add: updated_subscription_def given_def)
  have "subscription_updates iso None (Some p) (Some starts) (Some ends) s \<noteq> []" for iso
    using new by (simp add: subscription_updates_def changes_def field_if_def)
  then have "\<exists>ev. update_subscription a i None (Some p) (Some starts) (Some ends) db =
      Inr (record_audit_event ev (write_subscription ?new db))"
    using s(1) plan status not_granting(2)
    by (simp add: update_subscription_def status_error_def Let_def ambiguous_with_def or_else_def) (rule exI, rule refl)
  moreover have "get_subscription (record_audit_event ev (write_subscription ?new db)) i = Some ?new" for ev
    using written_found [of db ?new ev] s(1) get_subscription_id [OF s(1)] by simp
  ultimately show ?thesis by (force simp: updated_subscription_def given_def s(2))
qed

section \<open>Two tenants\<close>

definition sub_actor :: SubscriptionActor where
  "sub_actor = \<lparr>sactor_id = Some ''u-1'', sactor_now = 300, sactor_new_id = ''sub-3'', sactor_isoformat = show_int\<rparr>"

text \<open>The tenant of \<open>sample_db\<close> is cancelled at once and moved to the second plan later.\<close>

definition sub_calls :: "(SubscriptionActor \<times> SubscriptionCall) list" where
  "sub_calls = [(sub_actor, CreateSubscription ''acme'' ''pro'' ''ACTIVE'' 500 None),
     (sub_actor, CancelSubscription ''sub-1''),
     (sub_actor, CreateSubscription ''acme'' ''pro'' ''ACTIVE'' 500 None)]"

definition after_sub_call :: "SubscriptionCall \<Rightarrow> EntitlementDb \<Rightarrow> EntitlementDb" where
  "after_sub_call call db = subscription_service_step db (sub_actor, call)"

lemma two_plans_unambiguous: "unambiguous two_plans \<and> sub_ids_unique two_plans \<and> in_good_standing two_plans ''acme''"
  by code_simp

definition acme_subscription :: SubscriptionRow where
  "acme_subscription = hd (edb_subscriptions two_plans)"

lemma acme_subscription_eval:
  "get_subscription two_plans (srow_id acme_subscription) = Some acme_subscription \<and>
   is_current_subscription acme_subscription 100 \<and> srow_organization_id acme_subscription = ''acme'' \<and>
   srow_plan_id acme_subscription = ''starter'' \<and> acme_subscription \<in> set (edb_subscriptions two_plans)"
  by code_simp


theorem subscription_history_witness:
  "\<exists>r' \<in> set (edb_subscriptions (run subscription_service_step two_plans sub_calls)).
    srow_id r' = srow_id acme_subscription \<and> sub_steps (srow_status acme_subscription) (srow_status r')"
  using subscription_history [of two_plans acme_subscription sub_calls] two_plans_unambiguous acme_subscription_eval by blast

theorem cancel_denies_witness:
  "\<exists>db'. cancel_subscription sub_actor (srow_id acme_subscription) two_plans = Inr db' \<and>
    reso_status (resolve_entitlements db' ''acme'' 100) = RES_NO_SUBSCRIPTION \<and>
    \<not> feature_granted (resolve_entitlements db' ''acme'' 100) ''reports''"
  by (rule cancel_denies [of two_plans "srow_id acme_subscription" acme_subscription 100])
    (use two_plans_unambiguous acme_subscription_eval in simp_all)

lemma create_after_cancel:
  "create_subscription sub_actor ''acme'' ''pro'' ''TRIALING'' 500 (Some 900)
     (after_sub_call (CancelSubscription ''sub-1'') two_plans) =
   Inr (after_sub_call (CreateSubscription ''acme'' ''pro'' ''TRIALING'' 500 (Some 900))
     (after_sub_call (CancelSubscription ''sub-1'') two_plans)) \<and>
   in_good_standing (after_sub_call (CancelSubscription ''sub-1'') two_plans) ''acme'' \<and>
   unambiguous (after_sub_call (CancelSubscription ''sub-1'') two_plans)"
  by code_simp

theorem created_subscription_grants_witness:
  "granting_plan (after_sub_call (CreateSubscription ''acme'' ''pro'' ''TRIALING'' 500 (Some 900))
     (after_sub_call (CancelSubscription ''sub-1'') two_plans)) ''acme'' 600 = Some ''pro''"
  using created_subscription_grants [of "after_sub_call (CancelSubscription ''sub-1'') two_plans" sub_actor "''acme''" "''pro''"
      "''TRIALING''" 500 "Some 900"] create_after_cancel
  by (simp add: SERVICE_GRANTING_STATUSES_def)

lemma end_sent_as_null:
  "update_subscription sub_actor ''sub-1'' None None (Some 10) None
     (after_sub_call (UpdateSubscription ''sub-1'' None None None (Some 400)) two_plans) =
   Inr (after_sub_call (UpdateSubscription ''sub-1'' None None (Some 10) None)
     (after_sub_call (UpdateSubscription ''sub-1'' None None None (Some 400)) two_plans)) \<and>
   map_option srow_ends_at (get_subscription
     (after_sub_call (UpdateSubscription ''sub-1'' None None None (Some 400)) two_plans) ''sub-1'') = Some (Some 400)"
  by code_simp

theorem end_not_removed_witness:
  "\<exists>s'. get_subscription (after_sub_call (UpdateSubscription ''sub-1'' None None (Some 10) None)
     (after_sub_call (UpdateSubscription ''sub-1'' None None None (Some 400)) two_plans)) ''sub-1'' = Some s' \<and>
   srow_ends_at s' = Some 400"
  using end_sent_as_null end_not_removed by fastforce

lemma canceled_eval:
  "map_option srow_status (get_subscription (after_sub_call (CancelSubscription ''sub-1'') two_plans) ''sub-1'') =
     Some ''CANCELED'' \<and>
   map_option srow_plan_id (get_subscription (after_sub_call (CancelSubscription ''sub-1'') two_plans) ''sub-1'') =
     Some ''starter'' \<and>
   plan_by_id (after_sub_call (CancelSubscription ''sub-1'') two_plans) ''pro'' \<noteq> None"
  by code_simp

theorem canceled_history_rewritten_witness:
  "\<exists>db' s'. update_subscription sub_actor ''sub-1'' None (Some ''pro'') (Some 1) (Some 2)
      (after_sub_call (CancelSubscription ''sub-1'') two_plans) = Inr db' \<and>
    get_subscription db' ''sub-1'' = Some s' \<and> srow_status s' = ''CANCELED'' \<and> srow_plan_id s' = ''pro''"
proof -
  obtain s where "get_subscription (after_sub_call (CancelSubscription ''sub-1'') two_plans) ''sub-1'' = Some s"
      "srow_status s = ''CANCELED''" "srow_plan_id s = ''starter''"
    using canceled_eval by auto
  then show ?thesis
    using canceled_history_rewritten [of "after_sub_call (CancelSubscription ''sub-1'') two_plans" "''sub-1''" s "''pro''"
        sub_actor 1 2] canceled_eval by auto
qed

end
