(* ===== verification/SubscriptionEntitlements.thy ===== *)
theory SubscriptionEntitlements
  imports SubscriptionsPage SubscriptionService
begin

text \<open>
  The page of the subscriptions beside the service that keeps them and the resolver that reads them. \<open>show_time\<close>
  is how the serializer writes a time; what is relied on is that the page reads it back.
\<close>

definition subscription_response :: "(int \<Rightarrow> string) \<Rightarrow> SubscriptionRow \<Rightarrow> SubscriptionResponse" where
  "subscription_response show_time r =
     \<lparr>subscr_id = srow_id r, subscr_organization_id = srow_organization_id r, subscr_plan_id = srow_plan_id r,
      subscr_status = srow_status r, subscr_starts_at = show_time (srow_starts_at r),
      subscr_ends_at = map_option show_time (srow_ends_at r), subscr_created_at = show_time (srow_created_at r),
      subscr_updated_at = show_time (srow_updated_at r)\<rparr>"

definition subscriptions_answer :: "(int \<Rightarrow> string) \<Rightarrow> EntitlementDb \<Rightarrow> string \<Rightarrow> SubscriptionResponse list" where
  "subscriptions_answer show_time db g =
     (case list_subscriptions_for_org db g of Inl e \<Rightarrow> [] | Inr rows \<Rightarrow> map (subscription_response show_time) rows)"

text \<open>The page shows the rows of the organization as the service has them, and the times of the rows read back.\<close>

definition in_sync :: "(int \<Rightarrow> string) \<Rightarrow> EntitlementDb \<Rightarrow> string \<Rightarrow> SubscriptionsPage \<Rightarrow> bool" where
  "in_sync show_time db g p \<longleftrightarrow> org_exists db g \<and> sp_subs p = Some (subscriptions_answer show_time db g)"

definition reads_back :: "(int \<Rightarrow> string) \<Rightarrow> EntitlementDb \<Rightarrow> bool" where
  "reads_back show_time db \<longleftrightarrow> list_all (\<lambda>r. getTime (show_time (srow_starts_at r)) = Some (srow_starts_at r) \<and>
     (case srow_ends_at r of None \<Rightarrow> True | Some e \<Rightarrow> getTime (show_time e) = Some e)) (edb_subscriptions db)"

lemma answer_mset:
  assumes "org_exists db g"
  shows "mset (subscriptions_answer show_time db g) =
    image_mset (subscription_response show_time) (mset (filter (\<lambda>s. srow_organization_id s = g) (edb_subscriptions db)))"
  using assms by (simp add: subscriptions_answer_def list_subscriptions_for_org_def)

lemma answer_rows:
  assumes "org_exists db g"
  shows "set (subscriptions_answer show_time db g) =
    subscription_response show_time ` {r \<in> set (edb_subscriptions db). srow_organization_id r = g}"
  using arg_cong [OF answer_mset [OF assms, of show_time], of set_mset] by simp

text \<open>A row is in the current group exactly when the resolver counts it.\<close>

lemma group_current:
  assumes "reads_back show_time db" and "r \<in> set (edb_subscriptions db)"
  shows "sub_group now (subscription_response show_time r) = GRP_Current \<longleftrightarrow> is_current_subscription r now"
proof -
  have start: "getTime (show_time (srow_starts_at r)) = Some (srow_starts_at r)"
    and ends: "\<And>e. srow_ends_at r = Some e \<Longrightarrow> getTime (show_time e) = Some e"
    using assms by (auto simp: reads_back_def list_all_iff)
  have ne: "show_time e \<noteq> []" if "srow_ends_at r = Some e" for e
    using ends [OF that] by (auto simp: getTime_def)
  have statuses: "srow_status r = ''CANCELED'' \<Longrightarrow> srow_status r \<notin> set SERVICE_GRANTING_STATUSES"
    "srow_status r = ''SCHEDULED'' \<Longrightarrow> srow_status r \<notin> set SERVICE_GRANTING_STATUSES"
    using not_granting by auto
  show ?thesis
    using start ends ne statuses
    by (cases "srow_ends_at r")
      (auto simp: sub_group_def subscription_response_def groupSubscription_def is_current_subscription_def
        same_granting Let_def)
qed

lemma current_rows:
  assumes sync: "in_sync show_time db g p" and rb: "reads_back show_time db"
  shows "mset (group_rows now GRP_Current p) =
    image_mset (subscription_response show_time) (mset (subscription_candidates db g now))"
proof -
  let ?rows = "filter (\<lambda>s. srow_organization_id s = g) (edb_subscriptions db)"
  let ?f = "subscription_response show_time"
  have "mset (group_rows now GRP_Current p) =
      filter_mset (\<lambda>s. sub_group now s = GRP_Current) (image_mset ?f (mset ?rows))"
    using sync answer_mset [of db g show_time] by (simp add: group_rows_def in_sync_def or_else_def)
  also have "\<dots> = mset (map ?f (filter (\<lambda>r. sub_group now (?f r) = GRP_Current) ?rows))"
    by (simp only: mset_map mset_filter filter_mset_image_mset)
  also have "filter (\<lambda>r. sub_group now (?f r) = GRP_Current) ?rows = subscription_candidates db g now"
    unfolding candidates_eq filter_filter using group_current [OF rb] by (intro filter_cong) auto
  finally show ?thesis by simp
qed

text \<open>
  C33 What the page lists as current is what the resolver counts: on a page that shows the rows of the service, the
  current group has exactly the candidates of the resolver at that time, so that the page and the resolver agree
  on whether there is none, one or more than one.
\<close>

theorem current_group_is_candidates:
  assumes sync: "in_sync show_time db g p" and rb: "reads_back show_time db"
  shows "mset (group_rows now GRP_Current p) =
    image_mset (subscription_response show_time) (mset (subscription_candidates db g now))"
  by (rule current_rows [OF sync rb])

text \<open>The call of the service that an action of the page becomes.\<close>

fun sub_call_of :: "string \<Rightarrow> PendingAction \<Rightarrow> SubscriptionCall" where
  "sub_call_of g (ActCreate plan status starts ends) =
     CreateSubscription g plan status (or_else (getTime starts) 0) (Option.bind ends getTime)"
| "sub_call_of g (ActTransition s new) = UpdateSubscription (subscr_id s) (Some new) None None None"
| "sub_call_of g (ActCancel s) = CancelSubscription (subscr_id s)"
| "sub_call_of g (ActEdit s plan starts ends) = UpdateSubscription (subscr_id s) None
     (if plan \<noteq> subscr_plan_id s then Some plan else None) (getTime starts) (Option.bind ends getTime)"

lemma shown_row:
  assumes "in_sync show_time db g p" and "row_shown p s" and "unambiguous db"
  obtains r where "get_subscription db (subscr_id s) = Some r" "s = subscription_response show_time r"
    "srow_organization_id r = g" "r \<in> set (edb_subscriptions db)"
proof -
  obtain r where r: "r \<in> set (edb_subscriptions db)" "srow_organization_id r = g" "s = subscription_response show_time r"
    using assms(1,2) by (auto simp: in_sync_def row_shown_def or_else_def answer_rows)
  have "get_subscription db (srow_id r) = Some r"
    unfolding get_subscription_def
    by (rule find_distinct) (use assms(3) r in \<open>simp_all add: unambiguous_def sub_ids_unique_def\<close>)
  then show ?thesis using that [of r] r by (simp add: subscription_response_def)
qed

text \<open>A row that grants already stays free of clashes while its range stays.\<close>

lemma granting_unambiguous:
  assumes ok: "unambiguous db" and r: "r \<in> set (edb_subscriptions db)" "srow_status r \<in> set SERVICE_GRANTING_STATUSES"
  shows "ambiguous_with db (srow_organization_id r) status (srow_starts_at r) (srow_ends_at r) (Some (srow_id r)) = None"
proof -
  have "\<not> ranges_overlap (srow_starts_at r) (srow_ends_at r) (srow_starts_at x) (srow_ends_at x)"
    if "x \<in> set (edb_subscriptions db)" "srow_organization_id x = srow_organization_id r"
      "srow_status x \<in> set SERVICE_GRANTING_STATUSES" "srow_id x \<noteq> srow_id r" for x
    using ok r that unfolding unambiguous_def clash_def grants_def by metis
  then show ?thesis by (auto simp: ambiguous_with_def find_None_iff)
qed


section \<open>A cancellation\<close>

definition subs_idle :: "SubscriptionsPage \<Rightarrow> bool" where
  "subs_idle p \<longleftrightarrow> subs_panel p = SPanelContent \<and> some_text (sp_token p) \<and> \<not> sp_actionBusy p \<and> sp_flights p = [] \<and>
     sp_loads p = 0"

text \<open>The presses, the answer, and the load that follows, with the rows of the service.\<close>

definition cancel_events :: "int \<Rightarrow> SubscriptionResponse \<Rightarrow> (int \<times> SubsEvent) list" where
  "cancel_events now s = [(now, PressCancelSub s), (now, PressConfirm)]"

definition answer_events :: "int \<Rightarrow> SubscriptionResponse list \<Rightarrow> PlanResponse list \<Rightarrow> (int \<times> SubsEvent) list" where
  "answer_events now ss ps =
     [(now, SubsActionSettled 0 None), (now, SubsLoadSettled \<lparr>sans_subs = Inr ss, sans_plans = Inr ps\<rparr>)]"

lemma cancel_asks:
  assumes idle: "subs_idle p" and s: "row_shown p s" "offers_cancel s"
    and q: "q = run (subs_step g) p (cancel_events now s)"
  shows "sp_flights q = [(ActCancel s, sp_session p)]" "sp_log q = sp_log p @ [(sp_session p, ActCancel s)]"
    "sp_loads q = 0" "sp_isAuthenticated p"
  using assms
  by (simp_all add: subs_idle_def cancel_events_def subs_step_def confirmAction_def sp_session_def subs_panel_def
      split: if_splits)

lemma answer_shows:
  assumes "sp_flights q = [(act, se)]" "sp_loads q = 0" "some_text (fst se)" "snd se"
  shows "sp_subs (run (subs_step g) q (answer_events now ss ps)) = Some ss"
    "sp_pendingAction (run (subs_step g) q (answer_events now ss ps)) = None"
    "sp_actionBusy (run (subs_step g) q (answer_events now ss ps)) = False"
  using assms
  by (cases se; simp add: answer_events_def subs_step_def sub_action_settled_def remove_nth_def Let_def sub_action_success_def
      subs_load_def subs_load_settled_def)+


section \<open>Examples\<close>

text \<open>The page of \<open>acme\<close>, once the rows of the service have come in.\<close>

definition acme_rows :: "SubscriptionResponse list" where
  "acme_rows = subscriptions_answer toISOString two_plans ''acme''"

definition acme_page :: SubscriptionsPage where
  "acme_page = run (subs_step ''acme'') (subs_page_init (Some ''token'') True)
     [(100, SubsEffect), (100, SubsLoadSettled \<lparr>sans_subs = Inr acme_rows, sans_plans = Inr []\<rparr>)]"

definition acme_row :: SubscriptionResponse where
  "acme_row = subscription_response toISOString acme_subscription"

lemma acme_rows_eval:
  "org_exists two_plans ''acme'' \<and> srow_status acme_subscription = ''ACTIVE'' \<and>
   list_all (\<lambda>r. srow_starts_at r = 0 \<and> srow_ends_at r = None) (edb_subscriptions two_plans) \<and>
   map srow_id (subscription_candidates two_plans ''acme'' 100) = [''sub-1'']"
  by code_simp

lemma acme_page_subs:
  "sp_subs acme_page = Some (subscriptions_answer toISOString two_plans ''acme'')" "subs_idle acme_page"
  by (simp_all add: acme_page_def acme_rows_def subs_step_def subs_load_def subs_load_settled_def subs_page_init_def
      sp_session_def some_text_def subs_idle_def subs_panel_def Let_def)

lemma acme_page_reads: "reads_back toISOString two_plans"
proof -
  have "getTime (toISOString 0) = Some 0" by code_simp
  then show ?thesis using acme_rows_eval by (auto simp: reads_back_def list_all_iff)
qed

lemma acme_page_row:
  "row_shown acme_page acme_row" "sub_group 100 acme_row = GRP_Current" "offers_cancel acme_row"
  "''PAST_DUE'' \<in> set (offered_moves acme_row)" "subscr_status acme_row \<noteq> ''SCHEDULED''"
proof -
  have r: "acme_subscription \<in> set (edb_subscriptions two_plans)" "srow_organization_id acme_subscription = ''acme''"
      "is_current_subscription acme_subscription 100"
    using acme_subscription_eval by simp_all
  then show "row_shown acme_page acme_row"
    using acme_rows_eval by (auto simp: row_shown_def acme_page_subs or_else_def acme_row_def answer_rows)
  show "sub_group 100 acme_row = GRP_Current"
    using r(3) group_current [OF acme_page_reads r(1)] by (simp add: acme_row_def)
  have "subscr_status acme_row = ''ACTIVE''"
    using acme_rows_eval by (simp add: acme_row_def subscription_response_def)
  then show "offers_cancel acme_row" "''PAST_DUE'' \<in> set (offered_moves acme_row)" "subscr_status acme_row \<noteq> ''SCHEDULED''"
    by (simp_all add: offers_cancel_def offered_moves_def next_statuses_def ALLOWED_TRANSITIONS_def or_else_def)
qed

lemma acme_in_sync: "in_sync toISOString two_plans ''acme'' acme_page"
  using acme_rows_eval acme_page_subs(1) by (simp add: in_sync_def)

theorem current_group_is_candidates_witness: "size (group_rows 100 GRP_Current acme_page) = 1"
proof -
  have "mset (group_rows 100 GRP_Current acme_page) =
      image_mset (subscription_response toISOString) (mset (subscription_candidates two_plans ''acme'' 100))"
    by (rule current_group_is_candidates [OF acme_in_sync acme_page_reads])
  moreover have "length (subscription_candidates two_plans ''acme'' 100) = 1"
    using acme_rows_eval arg_cong [of _ "[''sub-1'']" length] by fastforce
  ultimately show ?thesis by (metis size_image_mset size_mset)
qed



end
