(* ===== verification/SupplySeed.thy ===== *)
theory SupplySeed
  imports Seed
begin

text \<open>
  The data of \<open>procurement.ts\<close>, \<open>finance.ts\<close>, \<open>partTraceability.ts\<close>, \<open>regulations.ts\<close>,
  \<open>components.ts\<close>, \<open>maintenance.ts\<close> and \<open>maintenanceProjects.ts\<close>, record by record, and the world at start with them.
\<close>

section \<open>\<open>vendors\<close> of \<open>procurement.ts\<close>\<close>

definition seed_vendor_1 :: Vendor where
  "seed_vendor_1 =
    \<lparr>ve_id = ''vendor-1'', ve_name = ''Parker Aerospace Distribution (demo)'',
     ve_legalName = Some ''Parker Aerospace Distribution Inc. (demo)'',
     ve_vendorCode = Some ''V-PAD-01'', ve_country = Some ''United States'',
     ve_city = Some ''Irvine, CA'',
     ve_contactName = Some (''Demo Contact '' @ em_dash @ '' Sales Desk''), ve_email = None,
     ve_phone = None, ve_website = None, ve_status = VST_ACTIVE, ve_approvalStatus = VA_APPROVED,
     ve_qualityStatus = VQ_VERIFIED,
     ve_approvedForAircraftTypes = Some [''737-800'', ''A320-200''],
     ve_suppliedPartCategories = Some [''Hydraulics'', ''Seals''],
     ve_capabilities = Some [''Batch parts distribution'', ''AOG desk''],
     ve_certifications = Some [''AS9120 (demo)''], ve_paymentTerms = Some ''Net 30 (demo)'',
     ve_currency = Some ''USD'', ve_shippingRegions = Some [''North America'', ''Europe''],
     ve_aogSupport = Some True, ve_leadTimeDays = Some 2, ve_reliabilityScore = Some 92,
     ve_qualityScore = Some 95, ve_deliveryScore = Some 90, ve_relationshipStatus = VR_PREFERRED,
     ve_source = SRC_DEMO_SEED\<rparr>"

definition seed_vendor_2 :: Vendor where
  "seed_vendor_2 =
    \<lparr>ve_id = ''vendor-2'', ve_name = ''CFM International Parts Logistics (demo)'',
     ve_legalName = None, ve_vendorCode = Some ''V-CFM-02'', ve_country = Some ''France'',
     ve_city = None, ve_contactName = None, ve_email = None, ve_phone = None, ve_website = None,
     ve_status = VST_ACTIVE, ve_approvalStatus = VA_APPROVED, ve_qualityStatus = VQ_VERIFIED,
     ve_approvedForAircraftTypes = Some [''737-800''],
     ve_suppliedPartCategories = Some [''Engine components''], ve_capabilities = None,
     ve_certifications = None, ve_paymentTerms = None, ve_currency = Some ''USD'',
     ve_shippingRegions = None, ve_aogSupport = None, ve_leadTimeDays = None,
     ve_reliabilityScore = None, ve_qualityScore = Some 88, ve_deliveryScore = None,
     ve_relationshipStatus = VR_APPROVED, ve_source = SRC_DEMO_SEED\<rparr>"

definition seed_vendor_3 :: Vendor where
  "seed_vendor_3 =
    \<lparr>ve_id = ''vendor-3'', ve_name = ''Meggitt Direct (demo)'', ve_legalName = None,
     ve_vendorCode = Some ''V-MEG-03'', ve_country = None, ve_city = None, ve_contactName = None,
     ve_email = None, ve_phone = None, ve_website = None, ve_status = VST_ACTIVE,
     ve_approvalStatus = VA_PENDING, ve_qualityStatus = VQ_UNDER_REVIEW,
     ve_approvedForAircraftTypes = None, ve_suppliedPartCategories = Some [''Brakes''],
     ve_capabilities = None, ve_certifications = None, ve_paymentTerms = None, ve_currency = None,
     ve_shippingRegions = None, ve_aogSupport = None, ve_leadTimeDays = None,
     ve_reliabilityScore = None, ve_qualityScore = None, ve_deliveryScore = None,
     ve_relationshipStatus = VR_NEW, ve_source = SRC_DEMO_SEED\<rparr>"

definition seed_vendor_4 :: Vendor where
  "seed_vendor_4 =
    \<lparr>ve_id = ''vendor-4'', ve_name = ''Borescope NDT Services (demo)'', ve_legalName = None,
     ve_vendorCode = Some ''V-BNS-04'', ve_country = None, ve_city = None, ve_contactName = None,
     ve_email = None, ve_phone = None, ve_website = None, ve_status = VST_ACTIVE,
     ve_approvalStatus = VA_APPROVED, ve_qualityStatus = VQ_VERIFIED,
     ve_approvedForAircraftTypes = None, ve_suppliedPartCategories = None,
     ve_capabilities = Some [''Outsourced borescope NDT inspection''], ve_certifications = None,
     ve_paymentTerms = None, ve_currency = Some ''USD'', ve_shippingRegions = None,
     ve_aogSupport = None, ve_leadTimeDays = None, ve_reliabilityScore = None,
     ve_qualityScore = None, ve_deliveryScore = None, ve_relationshipStatus = VR_APPROVED,
     ve_source = SRC_DEMO_SEED\<rparr>"

definition seed_vendor_5 :: Vendor where
  "seed_vendor_5 =
    \<lparr>ve_id = ''vendor-5'', ve_name = ''Structures NDT Partners (demo)'', ve_legalName = None,
     ve_vendorCode = None, ve_country = None, ve_city = None, ve_contactName = None,
     ve_email = None, ve_phone = None, ve_website = None, ve_status = VST_ACTIVE,
     ve_approvalStatus = VA_UNKNOWN, ve_qualityStatus = VQ_UNKNOWN,
     ve_approvedForAircraftTypes = None, ve_suppliedPartCategories = None, ve_capabilities = None,
     ve_certifications = None, ve_paymentTerms = None, ve_currency = None,
     ve_shippingRegions = None, ve_aogSupport = None, ve_leadTimeDays = None,
     ve_reliabilityScore = None, ve_qualityScore = None, ve_deliveryScore = None,
     ve_relationshipStatus = VR_UNKNOWN, ve_source = SRC_DEMO_SEED\<rparr>"

definition seed_vendor_6 :: Vendor where
  "seed_vendor_6 =
    \<lparr>ve_id = ''vendor-6'', ve_name = ''Aerostructures Supply Co (demo)'', ve_legalName = None,
     ve_vendorCode = Some ''V-ASC-06'', ve_country = Some ''United Kingdom'', ve_city = None,
     ve_contactName = None, ve_email = None, ve_phone = None, ve_website = None,
     ve_status = VST_ACTIVE, ve_approvalStatus = VA_APPROVED, ve_qualityStatus = VQ_VERIFIED,
     ve_approvedForAircraftTypes = Some [''737-800''],
     ve_suppliedPartCategories = Some [''Airframe hardware''], ve_capabilities = None,
     ve_certifications = None, ve_paymentTerms = None, ve_currency = Some ''USD'',
     ve_shippingRegions = None, ve_aogSupport = Some False, ve_leadTimeDays = Some 21,
     ve_reliabilityScore = None, ve_qualityScore = None, ve_deliveryScore = None,
     ve_relationshipStatus = VR_APPROVED, ve_source = SRC_DEMO_SEED\<rparr>"

definition seed_vendors :: "Vendor list" where
  "seed_vendors =
    [seed_vendor_1, seed_vendor_2, seed_vendor_3, seed_vendor_4, seed_vendor_5, seed_vendor_6]"

section \<open>\<open>vendorPartAvailability\<close> of \<open>procurement.ts\<close>\<close>

definition seed_vpa_1 :: VendorPartAvailability where
  "seed_vpa_1 =
    \<lparr>va_id = ''vpa-1'', va_vendorId = ''vendor-1'', va_partId = Some ''part-1'',
     va_partNumber = ''HP-442'', va_description = ''Hydraulic Pump Seal Kit'',
     va_availabilityStatus = AV_IN_STOCK, va_quantityAvailable = Some 12,
     va_quantityOnOrder = Some 0, va_leadTimeDays = Some 2, va_unitPrice = Some 180,
     va_currency = Some ''USD'', va_moq = Some 1, va_aogAvailability = Some True,
     va_certificationStatus = PCS_NOT_VERIFIED, va_lastUpdated = Some ''2026-03-15'',
     va_source = SRC_DEMO_SEED\<rparr>"

definition seed_vpa_2 :: VendorPartAvailability where
  "seed_vpa_2 =
    \<lparr>va_id = ''vpa-2'', va_vendorId = ''vendor-1'', va_partId = Some ''part-7'',
     va_partNumber = ''SEAL-014'', va_description = ''Hydraulic Seal Kit'',
     va_availabilityStatus = AV_IN_STOCK, va_quantityAvailable = Some 20,
     va_quantityOnOrder = Some 0, va_leadTimeDays = Some 2, va_unitPrice = Some 72,
     va_currency = Some ''USD'', va_moq = Some 1, va_aogAvailability = Some True,
     va_certificationStatus = PCS_UNKNOWN, va_lastUpdated = Some ''2026-03-15'',
     va_source = SRC_DEMO_SEED\<rparr>"

definition seed_vpa_3 :: VendorPartAvailability where
  "seed_vpa_3 =
    \<lparr>va_id = ''vpa-3'', va_vendorId = ''vendor-2'', va_partId = Some ''part-2'',
     va_partNumber = ''ABC-123'', va_description = ''Fan Disk Assembly'',
     va_availabilityStatus = AV_LIMITED, va_quantityAvailable = Some 1, va_quantityOnOrder = None,
     va_leadTimeDays = None, va_unitPrice = None, va_currency = None, va_moq = None,
     va_aogAvailability = None, va_certificationStatus = PCS_VERIFIED,
     va_lastUpdated = Some ''2026-05-18'', va_source = SRC_DEMO_SEED\<rparr>"

definition seed_vpa_4 :: VendorPartAvailability where
  "seed_vpa_4 =
    \<lparr>va_id = ''vpa-4'', va_vendorId = ''vendor-3'', va_partId = Some ''part-4'',
     va_partNumber = ''BRK-210'', va_description = ''Brake Lining Set'',
     va_availabilityStatus = AV_UNKNOWN, va_quantityAvailable = None, va_quantityOnOrder = None,
     va_leadTimeDays = None, va_unitPrice = None, va_currency = None, va_moq = None,
     va_aogAvailability = None, va_certificationStatus = PCS_REFERENCE_UNKNOWN,
     va_lastUpdated = None, va_source = SRC_DEMO_SEED\<rparr>"

definition seed_vpa_5 :: VendorPartAvailability where
  "seed_vpa_5 =
    \<lparr>va_id = ''vpa-5'', va_vendorId = ''vendor-1'', va_partId = Some ''part-5'',
     va_partNumber = ''GEN-305'', va_description = ''IDG Bearing'',
     va_availabilityStatus = AV_LIMITED, va_quantityAvailable = Some 2,
     va_quantityOnOrder = Some 0, va_leadTimeDays = Some 5, va_unitPrice = Some 640,
     va_currency = Some ''USD'', va_moq = Some 1, va_aogAvailability = Some True,
     va_certificationStatus = PCS_VERIFIED, va_lastUpdated = Some ''2026-03-16'',
     va_source = SRC_DEMO_SEED\<rparr>"

definition seed_vpa_6 :: VendorPartAvailability where
  "seed_vpa_6 =
    \<lparr>va_id = ''vpa-6'', va_vendorId = ''vendor-2'', va_partId = Some ''part-5'',
     va_partNumber = ''GEN-305'', va_description = ''IDG Bearing'',
     va_availabilityStatus = AV_IN_STOCK, va_quantityAvailable = Some 5,
     va_quantityOnOrder = Some 0, va_leadTimeDays = Some 9, va_unitPrice = Some 710,
     va_currency = Some ''USD'', va_moq = Some 1, va_aogAvailability = None,
     va_certificationStatus = PCS_NOT_VERIFIED, va_lastUpdated = Some ''2026-03-10'',
     va_source = SRC_DEMO_SEED\<rparr>"

definition seed_vpa_7 :: VendorPartAvailability where
  "seed_vpa_7 =
    \<lparr>va_id = ''vpa-7'', va_vendorId = ''vendor-6'', va_partId = Some ''part-6'',
     va_partNumber = ''LATCH-778'', va_description = ''Cargo Door Latch Mechanism'',
     va_availabilityStatus = AV_OUT_OF_STOCK, va_quantityAvailable = Some 0,
     va_quantityOnOrder = Some 4, va_leadTimeDays = Some 21, va_unitPrice = Some 410,
     va_currency = Some ''USD'', va_moq = Some 1, va_aogAvailability = Some False,
     va_certificationStatus = PCS_NOT_VERIFIED, va_lastUpdated = Some ''2026-03-14'',
     va_source = SRC_DEMO_SEED\<rparr>"

definition seed_vpa_8 :: VendorPartAvailability where
  "seed_vpa_8 =
    \<lparr>va_id = ''vpa-8'', va_vendorId = ''vendor-1'', va_partId = Some ''part-2'',
     va_partNumber = ''ABC-123'', va_description = ''Fan Disk Assembly'',
     va_availabilityStatus = AV_LIMITED, va_quantityAvailable = Some 1,
     va_quantityOnOrder = Some 0, va_leadTimeDays = Some 10, va_unitPrice = Some 950,
     va_currency = Some ''USD'', va_moq = Some 1, va_aogAvailability = Some True,
     va_certificationStatus = PCS_NOT_VERIFIED, va_lastUpdated = Some ''2026-03-12'',
     va_source = SRC_DEMO_SEED\<rparr>"

definition seed_vendorPartAvailability :: "VendorPartAvailability list" where
  "seed_vendorPartAvailability =
    [seed_vpa_1, seed_vpa_2, seed_vpa_3, seed_vpa_4, seed_vpa_5, seed_vpa_6, seed_vpa_7,
     seed_vpa_8]"

section \<open>\<open>partRequests\<close> of \<open>procurement.ts\<close>\<close>

definition seed_pr_1 :: PartRequest where
  "seed_pr_1 =
    \<lparr>pq_id = ''pr-1'', pq_aircraftId = ''ac-1'', pq_workOrderId = Some ''wo-1050'',
     pq_taskId = None, pq_requestedBy = ''tech-4'', pq_requestedAt = ''2026-03-15'',
     pq_partNumber = ''HP-442'', pq_partId = Some ''part-1'',
     pq_description = ''Hydraulic Pump Seal Kit'', pq_quantity = 4, pq_priority = PP_ROUTINE,
     pq_reason = ''Replacement seals required to close WO-1050 hydraulic pump condition check.'',
     pq_requiredBy = Some ''2026-03-18'', pq_preferredVendorId = Some ''vendor-1'',
     pq_alternateVendorIds = [], pq_evidenceIds = [], pq_status = PQ_RECEIVED,
     pq_estimatedCost = Some 720, pq_selectedVendorId = Some ''vendor-1'',
     pq_approvedBy = Some ''user-3'', pq_approvedAt = Some ''2026-03-15'',
     pq_rejectionReason = None, pq_clarificationNote = None, pq_source = SRC_DEMO_SEED\<rparr>"

definition seed_pr_2 :: PartRequest where
  "seed_pr_2 =
    \<lparr>pq_id = ''pr-2'', pq_aircraftId = ''ac-7'', pq_workOrderId = Some ''wo-1046'',
     pq_taskId = None, pq_requestedBy = ''tech-6'', pq_requestedAt = ''2026-03-17'',
     pq_partNumber = ''LATCH-778'', pq_partId = Some ''part-6'',
     pq_description = ''Cargo Door Latch Mechanism'', pq_quantity = 1, pq_priority = PP_HIGH,
     pq_reason = ''Required to close open WO-1046 cargo door latch inspection finding.'',
     pq_requiredBy = Some ''2026-03-21'', pq_preferredVendorId = None, pq_alternateVendorIds = [],
     pq_evidenceIds = [], pq_status = PQ_SUBMITTED, pq_estimatedCost = None,
     pq_selectedVendorId = None, pq_approvedBy = None, pq_approvedAt = None,
     pq_rejectionReason = None, pq_clarificationNote = None, pq_source = SRC_DEMO_SEED\<rparr>"

definition seed_partRequests :: "PartRequest list" where
  "seed_partRequests =
    [seed_pr_1, seed_pr_2]"

section \<open>\<open>laborCosts\<close> of \<open>finance.ts\<close>\<close>

definition seed_lc_1 :: LaborCost where
  "seed_lc_1 =
    \<lparr>lc_id = ''lc-1'', lc_workOrderId = ''wo-1042'', lc_taskId = None,
     lc_technicianId = ''tech-1'', lc_hours = 6, lc_hourlyRate = 85, lc_currency = ''USD'',
     lc_amount = 510, lc_source = SRC_DEMO_SEED\<rparr>"

definition seed_lc_2 :: LaborCost where
  "seed_lc_2 =
    \<lparr>lc_id = ''lc-2'', lc_workOrderId = ''wo-1050'', lc_taskId = None,
     lc_technicianId = ''tech-4'', lc_hours = 3, lc_hourlyRate = 80, lc_currency = ''USD'',
     lc_amount = 240, lc_source = SRC_DEMO_SEED\<rparr>"

definition seed_lc_3 :: LaborCost where
  "seed_lc_3 =
    \<lparr>lc_id = ''lc-3'', lc_workOrderId = ''wo-1045'', lc_taskId = None,
     lc_technicianId = ''tech-3'', lc_hours = 8, lc_hourlyRate = 95, lc_currency = ''USD'',
     lc_amount = 760, lc_source = SRC_DEMO_SEED\<rparr>"

definition seed_laborCosts :: "LaborCost list" where
  "seed_laborCosts =
    [seed_lc_1, seed_lc_2, seed_lc_3]"

section \<open>\<open>partCosts\<close> of \<open>finance.ts\<close>\<close>

definition seed_pc_1 :: PartCost where
  "seed_pc_1 =
    \<lparr>pc_id = ''pc-1'', pc_workOrderId = ''wo-1042'', pc_partId = ''part-2'', pc_quantity = 1,
     pc_unitCost = 18500, pc_currency = ''USD'', pc_amount = 18500, pc_vendorName = None,
     pc_source = SRC_DEMO_SEED\<rparr>"

definition seed_pc_2 :: PartCost where
  "seed_pc_2 =
    \<lparr>pc_id = ''pc-2'', pc_workOrderId = ''wo-1050'', pc_partId = ''part-1'', pc_quantity = 4,
     pc_unitCost = 180, pc_currency = ''USD'', pc_amount = 720,
     pc_vendorName = Some ''Parker Aerospace Distribution (demo)'', pc_source = SRC_DEMO_SEED\<rparr>"

definition seed_partCosts :: "PartCost list" where
  "seed_partCosts =
    [seed_pc_1, seed_pc_2]"

section \<open>\<open>vendorCosts\<close> of \<open>finance.ts\<close>\<close>

definition seed_vc_1 :: VendorCost where
  "seed_vc_1 =
    \<lparr>vc_id = ''vc-1'', vc_workOrderId = ''wo-1042'',
     vc_vendorName = ''Borescope NDT Services (demo)'',
     vc_description = ''Outsourced borescope NDT inspection'', vc_amount = 1200,
     vc_currency = ''USD'', vc_date = ''2026-03-15'', vc_source = SRC_DEMO_SEED\<rparr>"

definition seed_vc_2 :: VendorCost where
  "seed_vc_2 =
    \<lparr>vc_id = ''vc-2'', vc_workOrderId = ''wo-1045'',
     vc_vendorName = ''Structures NDT Partners (demo)'',
     vc_description = ''Outsourced wing spar fatigue NDT'', vc_amount = 3400,
     vc_currency = ''USD'', vc_date = ''2026-03-16'', vc_source = SRC_DEMO_SEED\<rparr>"

definition seed_vendorCosts :: "VendorCost list" where
  "seed_vendorCosts =
    [seed_vc_1, seed_vc_2]"

section \<open>\<open>customerCharges\<close> of \<open>finance.ts\<close>\<close>

definition seed_cc_1 :: CustomerCharge where
  "seed_cc_1 =
    \<lparr>cc_id = ''cc-1'', cc_workOrderId = ''wo-1042'', cc_customerOrgId = ''org-1'',
     cc_laborCharge = 765, cc_partsCharge = 20350, cc_otherCharge = 500, cc_totalCharge = 21615,
     cc_currency = ''USD'', cc_source = SRC_DEMO_SEED\<rparr>"

definition seed_cc_2 :: CustomerCharge where
  "seed_cc_2 =
    \<lparr>cc_id = ''cc-2'', cc_workOrderId = ''wo-1045'', cc_customerOrgId = ''org-2'',
     cc_laborCharge = 1140, cc_partsCharge = 0, cc_otherCharge = 3740, cc_totalCharge = 4880,
     cc_currency = ''USD'', cc_source = SRC_DEMO_SEED\<rparr>"

definition seed_customerCharges :: "CustomerCharge list" where
  "seed_customerCharges =
    [seed_cc_1, seed_cc_2]"

section \<open>\<open>partReceivingRecords\<close> of \<open>partTraceability.ts\<close>\<close>

definition seed_prr_1 :: PartReceivingRecord where
  "seed_prr_1 =
    \<lparr>prr_id = ''prr-1'', prr_partId = ''part-1'', prr_receivedDate = ''2026-06-02'',
     prr_receivedBy = ''user-5'', prr_source = ''Parker Aerospace Distribution (demo)'',
     prr_quantityReceived = 4\<rparr>"

definition seed_prr_2 :: PartReceivingRecord where
  "seed_prr_2 =
    \<lparr>prr_id = ''prr-2'', prr_partId = ''part-2'', prr_receivedDate = ''2026-05-18'',
     prr_receivedBy = ''user-5'', prr_source = ''CFM International Parts Logistics (demo)'',
     prr_quantityReceived = 1\<rparr>"

definition seed_prr_3 :: PartReceivingRecord where
  "seed_prr_3 =
    \<lparr>prr_id = ''prr-3'', prr_partId = ''part-4'', prr_receivedDate = ''2026-04-27'',
     prr_receivedBy = ''user-5'', prr_source = ''Meggitt Direct (demo)'', prr_quantityReceived = 6\<rparr>"

definition seed_prr_4 :: PartReceivingRecord where
  "seed_prr_4 =
    \<lparr>prr_id = ''prr-4'', prr_partId = ''part-7'', prr_receivedDate = ''2026-03-11'',
     prr_receivedBy = ''user-5'', prr_source = ''Parker Aerospace Distribution (demo)'',
     prr_quantityReceived = 10\<rparr>"

definition seed_partReceivingRecords :: "PartReceivingRecord list" where
  "seed_partReceivingRecords =
    [seed_prr_1, seed_prr_2, seed_prr_3, seed_prr_4]"

section \<open>\<open>partCertificates\<close> of \<open>partTraceability.ts\<close>\<close>

definition seed_pc_1_partCertificates :: PartCertificate where
  "seed_pc_1_partCertificates =
    \<lparr>pce_id = ''pc-1'', pce_partId = ''part-2'', pce_certificateType = CERT_FAA_8130_3,
     pce_certificateReference = Some ''8130-3-DEMO-0042'',
     pce_certificateIssuer = Some ''CFM International (demo)'',
     pce_certificateDate = Some ''2026-05-15'', pce_verificationStatus = CV_PRESENT\<rparr>"

definition seed_pc_2_partCertificates :: PartCertificate where
  "seed_pc_2_partCertificates =
    \<lparr>pce_id = ''pc-2'', pce_partId = ''part-1'', pce_certificateType = CERT_OTHER,
     pce_certificateReference = None, pce_certificateIssuer = None, pce_certificateDate = None,
     pce_verificationStatus = CV_MISSING\<rparr>"

definition seed_pc_3 :: PartCertificate where
  "seed_pc_3 =
    \<lparr>pce_id = ''pc-3'', pce_partId = ''part-4'', pce_certificateType = CERT_UNKNOWN,
     pce_certificateReference = None, pce_certificateIssuer = Some ''Meggitt (demo)'',
     pce_certificateDate = None, pce_verificationStatus = CV_REFERENCE_UNKNOWN\<rparr>"

definition seed_partCertificates :: "PartCertificate list" where
  "seed_partCertificates =
    [seed_pc_1_partCertificates, seed_pc_2_partCertificates, seed_pc_3]"

section \<open>\<open>partInstallations\<close> of \<open>partTraceability.ts\<close>\<close>

definition seed_pi_1 :: PartInstallation where
  "seed_pi_1 =
    \<lparr>pin_id = ''pi-1'', pin_partId = ''part-2'', pin_aircraftId = ''ac-1'',
     pin_componentInstanceId = Some ''ci-abc901'', pin_workOrderId = Some ''wo-1042'',
     pin_installationDate = ''2026-05-20'', pin_installedBy = ''user-5''\<rparr>"

definition seed_partInstallations :: "PartInstallation list" where
  "seed_partInstallations =
    [seed_pi_1]"

section \<open>\<open>regulatoryAuthorities\<close> of \<open>regulations.ts\<close>\<close>

definition seed_auth_faa :: RegulatoryAuthority where
  "seed_auth_faa =
    \<lparr>ra_id = ''auth-faa'', ra_code = ''FAA'', ra_name = ''Federal Aviation Administration''\<rparr>"

definition seed_auth_easa :: RegulatoryAuthority where
  "seed_auth_easa =
    \<lparr>ra_id = ''auth-easa'', ra_code = ''EASA'',
     ra_name = ''European Union Aviation Safety Agency''\<rparr>"

definition seed_auth_ukcaa :: RegulatoryAuthority where
  "seed_auth_ukcaa =
    \<lparr>ra_id = ''auth-ukcaa'', ra_code = ''UK_CAA'', ra_name = ''UK Civil Aviation Authority''\<rparr>"

definition seed_auth_dgca :: RegulatoryAuthority where
  "seed_auth_dgca =
    \<lparr>ra_id = ''auth-dgca'', ra_code = ''DGCA'',
     ra_name = ''Directorate General of Civil Aviation (India)''\<rparr>"

definition seed_auth_casa :: RegulatoryAuthority where
  "seed_auth_casa =
    \<lparr>ra_id = ''auth-casa'', ra_code = ''CASA'',
     ra_name = ''Civil Aviation Safety Authority (Australia)''\<rparr>"

definition seed_regulatoryAuthorities :: "RegulatoryAuthority list" where
  "seed_regulatoryAuthorities =
    [seed_auth_faa, seed_auth_easa, seed_auth_ukcaa, seed_auth_dgca, seed_auth_casa]"

section \<open>\<open>regulatoryDocuments\<close> of \<open>regulations.ts\<close>\<close>

definition seed_doc_ad_2026_001 :: RegulatoryDocument where
  "seed_doc_ad_2026_001 =
    \<lparr>rd_id = ''doc-ad-2026-001'', rd_regulatoryAuthorityId = ''auth-faa'', rd_docType = RT_AD,
     rd_docNumber = ''AD 2026-001'', rd_title = ''Engine Fan Disk Inspection'',
     rd_revision = ''1'', rd_publicationDate = ''2026-02-20'', rd_effectiveDate = ''2026-03-01'',
     rd_sourceStatus = SS_PUBLISHED\<rparr>"

definition seed_doc_ad_2026_002 :: RegulatoryDocument where
  "seed_doc_ad_2026_002 =
    \<lparr>rd_id = ''doc-ad-2026-002'', rd_regulatoryAuthorityId = ''auth-easa'', rd_docType = RT_AD,
     rd_docNumber = ''AD 2026-002'', rd_title = ''Fuel System Inspection'', rd_revision = ''0'',
     rd_publicationDate = ''2026-02-25'', rd_effectiveDate = ''2026-03-05'',
     rd_sourceStatus = SS_PUBLISHED\<rparr>"

definition seed_doc_ad_2026_003 :: RegulatoryDocument where
  "seed_doc_ad_2026_003 =
    \<lparr>rd_id = ''doc-ad-2026-003'', rd_regulatoryAuthorityId = ''auth-faa'', rd_docType = RT_AD,
     rd_docNumber = ''AD 2026-003'', rd_title = ''Avionics Software Standard Update'',
     rd_revision = ''2'', rd_publicationDate = ''2026-01-10'', rd_effectiveDate = ''2026-01-25'',
     rd_sourceStatus = SS_PUBLISHED\<rparr>"

definition seed_doc_ad_2026_004 :: RegulatoryDocument where
  "seed_doc_ad_2026_004 =
    \<lparr>rd_id = ''doc-ad-2026-004'', rd_regulatoryAuthorityId = ''auth-easa'', rd_docType = RT_AD,
     rd_docNumber = ''AD 2026-004'', rd_title = ''Wing Spar Fatigue Inspection'',
     rd_revision = ''0'', rd_publicationDate = ''2026-01-18'', rd_effectiveDate = ''2026-02-01'',
     rd_sourceStatus = SS_PUBLISHED\<rparr>"

definition seed_doc_ad_2026_005 :: RegulatoryDocument where
  "seed_doc_ad_2026_005 =
    \<lparr>rd_id = ''doc-ad-2026-005'', rd_regulatoryAuthorityId = ''auth-faa'', rd_docType = RT_AD,
     rd_docNumber = ''AD 2026-005'', rd_title = ''Cargo Door Latch Mechanism Inspection'',
     rd_revision = ''1'', rd_publicationDate = ''2025-12-05'', rd_effectiveDate = ''2025-12-20'',
     rd_sourceStatus = SS_PUBLISHED\<rparr>"

definition seed_doc_ad_2026_006 :: RegulatoryDocument where
  "seed_doc_ad_2026_006 =
    \<lparr>rd_id = ''doc-ad-2026-006'', rd_regulatoryAuthorityId = ''auth-casa'', rd_docType = RT_AD,
     rd_docNumber = ''AD/A320/112'', rd_title = ''Pitot Tube Heater Functional Check'',
     rd_revision = ''0'', rd_publicationDate = ''2026-02-01'', rd_effectiveDate = ''2026-02-15'',
     rd_sourceStatus = SS_PUBLISHED\<rparr>"

definition seed_doc_ad_2026_007 :: RegulatoryDocument where
  "seed_doc_ad_2026_007 =
    \<lparr>rd_id = ''doc-ad-2026-007'', rd_regulatoryAuthorityId = ''auth-ukcaa'', rd_docType = RT_AD,
     rd_docNumber = ''G-AD-2026-014'',
     rd_title = (''Adoption of FAA AD 2026-001 '' @ em_dash @ '' Engine Fan Disk Inspection''),
     rd_revision = ''0'', rd_publicationDate = ''2026-03-02'', rd_effectiveDate = ''2026-03-10'',
     rd_sourceStatus = SS_PUBLISHED\<rparr>"

definition seed_doc_sb_2025_114 :: RegulatoryDocument where
  "seed_doc_sb_2025_114 =
    \<lparr>rd_id = ''doc-sb-2025-114'', rd_regulatoryAuthorityId = ''auth-faa'', rd_docType = RT_SB,
     rd_docNumber = ''SB-2025-114'', rd_title = ''Hydraulic Pump Seal Replacement'',
     rd_revision = ''2'', rd_publicationDate = ''2025-09-12'', rd_effectiveDate = ''2025-09-12'',
     rd_sourceStatus = SS_PUBLISHED\<rparr>"

definition seed_doc_amc_2025_02 :: RegulatoryDocument where
  "seed_doc_amc_2025_02 =
    \<lparr>rd_id = ''doc-amc-2025-02'', rd_regulatoryAuthorityId = ''auth-easa'', rd_docType = RT_AMC,
     rd_docNumber = ''AMC 20-2025-02'',
     rd_title = (''Acceptable Means of Compliance '' @ em_dash @ '' Fan Disk Inspection Intervals''),
     rd_revision = ''0'', rd_publicationDate = ''2025-11-01'', rd_effectiveDate = ''2025-11-01'',
     rd_sourceStatus = SS_PUBLISHED\<rparr>"

definition seed_doc_notice_2025_30 :: RegulatoryDocument where
  "seed_doc_notice_2025_30 =
    \<lparr>rd_id = ''doc-notice-2025-30'', rd_regulatoryAuthorityId = ''auth-dgca'',
     rd_docType = RT_NOTICE, rd_docNumber = ''CAR-M-NOTICE-30'',
     rd_title = ''Mandatory Adoption of FAA AD 2026-001 for Indian Register'',
     rd_revision = ''0'', rd_publicationDate = ''2026-03-05'', rd_effectiveDate = ''2026-03-10'',
     rd_sourceStatus = SS_PUBLISHED\<rparr>"

definition seed_regulatoryDocuments :: "RegulatoryDocument list" where
  "seed_regulatoryDocuments =
    [seed_doc_ad_2026_001, seed_doc_ad_2026_002, seed_doc_ad_2026_003, seed_doc_ad_2026_004,
     seed_doc_ad_2026_005, seed_doc_ad_2026_006, seed_doc_ad_2026_007, seed_doc_sb_2025_114,
     seed_doc_amc_2025_02, seed_doc_notice_2025_30]"

section \<open>\<open>regulatoryRequirements\<close> of \<open>regulations.ts\<close>\<close>

definition seed_req_ad_2026_001 :: RegulatoryRequirement where
  "seed_req_ad_2026_001 =
    \<lparr>rr_id = ''req-ad-2026-001'', rr_regulatoryDocumentId = ''doc-ad-2026-001'',
     rr_requirementType = RT_AD, rr_requirementNumber = ''AD-2026-001'',
     rr_description = ''Fictional demo AD requiring one-time ultrasonic inspection of the engine fan disk on affected 737-800 aircraft equipped with CFM56-7B engines within the specified serial range, unless Modification MOD-778 has been embodied.'',
     rr_effectiveDate = ''2026-03-01'', rr_complianceTime = ''Within 90 days of effective date''\<rparr>"

definition seed_req_ad_2026_002 :: RegulatoryRequirement where
  "seed_req_ad_2026_002 =
    \<lparr>rr_id = ''req-ad-2026-002'', rr_regulatoryDocumentId = ''doc-ad-2026-002'',
     rr_requirementType = RT_AD, rr_requirementNumber = ''AD-2026-002'',
     rr_description = ''Fictional demo AD requiring inspection of the fuel system boost pump wiring on affected Airbus aircraft. Applicability is limited to Airbus A330-family aircraft and does not extend to A320-family aircraft.'',
     rr_effectiveDate = ''2026-03-05'',
     rr_complianceTime = ''Before next flight cycle exceeding 500 hours''\<rparr>"

definition seed_req_ad_2026_003 :: RegulatoryRequirement where
  "seed_req_ad_2026_003 =
    \<lparr>rr_id = ''req-ad-2026-003'', rr_regulatoryDocumentId = ''doc-ad-2026-003'',
     rr_requirementType = RT_AD, rr_requirementNumber = ''AD-2026-003'',
     rr_description = ''Fictional demo AD mandating an avionics software standard update for affected 737-800 aircraft to correct a flight management computer anomaly.'',
     rr_effectiveDate = ''2026-01-25'', rr_complianceTime = ''Before further flight''\<rparr>"

definition seed_req_ad_2026_004 :: RegulatoryRequirement where
  "seed_req_ad_2026_004 =
    \<lparr>rr_id = ''req-ad-2026-004'', rr_regulatoryDocumentId = ''doc-ad-2026-004'',
     rr_requirementType = RT_AD, rr_requirementNumber = ''AD-2026-004'',
     rr_description = ''Fictional demo AD requiring a one-time fatigue inspection of the wing spar on affected A320-200 aircraft beyond a specified cycle threshold.'',
     rr_effectiveDate = ''2026-02-01'', rr_complianceTime = ''Within 1,000 flight cycles''\<rparr>"

definition seed_req_ad_2026_005 :: RegulatoryRequirement where
  "seed_req_ad_2026_005 =
    \<lparr>rr_id = ''req-ad-2026-005'', rr_regulatoryDocumentId = ''doc-ad-2026-005'',
     rr_requirementType = RT_AD, rr_requirementNumber = ''AD-2026-005'',
     rr_description = ''Fictional demo AD requiring inspection of the cargo door latch mechanism on affected 737-800 aircraft following field reports of latch wear.'',
     rr_effectiveDate = ''2025-12-20'', rr_complianceTime = ''Within 180 days of effective date''\<rparr>"

definition seed_req_ad_2026_006 :: RegulatoryRequirement where
  "seed_req_ad_2026_006 =
    \<lparr>rr_id = ''req-ad-2026-006'', rr_regulatoryDocumentId = ''doc-ad-2026-006'',
     rr_requirementType = RT_AD, rr_requirementNumber = ''AD/A320/112'',
     rr_description = ''Fictional demo AD requiring a functional check of the pitot tube heating element on affected A320-200 aircraft.'',
     rr_effectiveDate = ''2026-02-15'', rr_complianceTime = ''Within 30 days of effective date''\<rparr>"

definition seed_req_ad_2026_007 :: RegulatoryRequirement where
  "seed_req_ad_2026_007 =
    \<lparr>rr_id = ''req-ad-2026-007'', rr_regulatoryDocumentId = ''doc-ad-2026-007'',
     rr_requirementType = RT_AD, rr_requirementNumber = ''G-AD-2026-014'',
     rr_description = ''UK CAA adoption of FAA AD 2026-001 for aircraft on the UK register, incorporating the originating AD's applicability and compliance time by reference.'',
     rr_effectiveDate = ''2026-03-10'', rr_complianceTime = ''As specified in FAA AD 2026-001''\<rparr>"

definition seed_req_sb_2025_114 :: RegulatoryRequirement where
  "seed_req_sb_2025_114 =
    \<lparr>rr_id = ''req-sb-2025-114'', rr_regulatoryDocumentId = ''doc-sb-2025-114'',
     rr_requirementType = RT_SB, rr_requirementNumber = ''SB-2025-114'',
     rr_description = ''Manufacturer service bulletin recommending hydraulic pump seal replacement at next scheduled maintenance. Not independently mandatory; referenced by AD-2026-001 as an acceptable means of compliance for certain configurations.'',
     rr_effectiveDate = ''2025-09-12'',
     rr_complianceTime = ''At operator discretion unless mandated by an AD''\<rparr>"

definition seed_req_amc_2025_02 :: RegulatoryRequirement where
  "seed_req_amc_2025_02 =
    \<lparr>rr_id = ''req-amc-2025-02'', rr_regulatoryDocumentId = ''doc-amc-2025-02'',
     rr_requirementType = RT_AMC, rr_requirementNumber = ''AMC 20-2025-02'',
     rr_description = ''Non-binding acceptable means of compliance describing one way (not the only way) to satisfy fan disk inspection interval requirements. Operators may use an alternative means of compliance instead.'',
     rr_effectiveDate = ''2025-11-01'',
     rr_complianceTime = (''Not applicable '' @ em_dash @ '' non-mandatory guidance material'')\<rparr>"

definition seed_req_notice_2025_30 :: RegulatoryRequirement where
  "seed_req_notice_2025_30 =
    \<lparr>rr_id = ''req-notice-2025-30'', rr_regulatoryDocumentId = ''doc-notice-2025-30'',
     rr_requirementType = RT_NOTICE, rr_requirementNumber = ''CAR-M-NOTICE-30'',
     rr_description = ''DGCA mandatory notice adopting FAA AD 2026-001 for aircraft on the Indian register, per standard State-of-Registry adoption practice for foreign type-certificated aircraft.'',
     rr_effectiveDate = ''2026-03-10'', rr_complianceTime = ''As specified in FAA AD 2026-001''\<rparr>"

definition seed_regulatoryRequirements :: "RegulatoryRequirement list" where
  "seed_regulatoryRequirements =
    [seed_req_ad_2026_001, seed_req_ad_2026_002, seed_req_ad_2026_003, seed_req_ad_2026_004,
     seed_req_ad_2026_005, seed_req_ad_2026_006, seed_req_ad_2026_007, seed_req_sb_2025_114,
     seed_req_amc_2025_02, seed_req_notice_2025_30]"

section \<open>\<open>components\<close> of \<open>components.ts\<close>\<close>

definition seed_comp_hp442 :: Component where
  "seed_comp_hp442 =
    \<lparr>cp_id = ''comp-hp442'', cp_partNumber = ''HP-442'', cp_description = ''Hydraulic Pump'',
     cp_manufacturer = ''Parker Aerospace'', cp_requiresSerialization = True\<rparr>"

definition seed_comp_abc123 :: Component where
  "seed_comp_abc123 =
    \<lparr>cp_id = ''comp-abc123'', cp_partNumber = ''ABC-123'', cp_description = ''Fan Disk Assembly'',
     cp_manufacturer = ''CFM International'', cp_requiresSerialization = True\<rparr>"

definition seed_comp_fcu220 :: Component where
  "seed_comp_fcu220 =
    \<lparr>cp_id = ''comp-fcu220'', cp_partNumber = ''FCU-220'', cp_description = ''Fuel Control Unit'',
     cp_manufacturer = ''Honeywell'', cp_requiresSerialization = True\<rparr>"

definition seed_comp_avn115 :: Component where
  "seed_comp_avn115 =
    \<lparr>cp_id = ''comp-avn115'', cp_partNumber = ''AVN-115'',
     cp_description = ''Flight Management Computer'', cp_manufacturer = ''Collins Aerospace'',
     cp_requiresSerialization = True\<rparr>"

definition seed_comp_act330 :: Component where
  "seed_comp_act330 =
    \<lparr>cp_id = ''comp-act330'', cp_partNumber = ''ACT-330'', cp_description = ''Flap Actuator'',
     cp_manufacturer = ''Moog'', cp_requiresSerialization = True\<rparr>"

definition seed_comp_val089 :: Component where
  "seed_comp_val089 =
    \<lparr>cp_id = ''comp-val089'', cp_partNumber = ''VAL-089'', cp_description = ''Bleed Air Valve'',
     cp_manufacturer = ''Eaton'', cp_requiresSerialization = True\<rparr>"

definition seed_comp_brk210 :: Component where
  "seed_comp_brk210 =
    \<lparr>cp_id = ''comp-brk210'', cp_partNumber = ''BRK-210'', cp_description = ''Brake Assembly'',
     cp_manufacturer = ''Safran Landing Systems'', cp_requiresSerialization = True\<rparr>"

definition seed_comp_gen305 :: Component where
  "seed_comp_gen305 =
    \<lparr>cp_id = ''comp-gen305'', cp_partNumber = ''GEN-305'',
     cp_description = ''Integrated Drive Generator'', cp_manufacturer = ''Hamilton Sundstrand'',
     cp_requiresSerialization = True\<rparr>"

definition seed_comp_apu410 :: Component where
  "seed_comp_apu410 =
    \<lparr>cp_id = ''comp-apu410'', cp_partNumber = ''APU-410'',
     cp_description = ''Auxiliary Power Unit'', cp_manufacturer = ''Honeywell'',
     cp_requiresSerialization = True\<rparr>"

definition seed_comp_pmp512 :: Component where
  "seed_comp_pmp512 =
    \<lparr>cp_id = ''comp-pmp512'', cp_partNumber = ''PMP-512'', cp_description = ''Fuel Boost Pump'',
     cp_manufacturer = ''Parker Aerospace'', cp_requiresSerialization = True\<rparr>"

definition seed_comp_sen077 :: Component where
  "seed_comp_sen077 =
    \<lparr>cp_id = ''comp-sen077'', cp_partNumber = ''SEN-077'',
     cp_description = ''Angle of Attack Sensor'', cp_manufacturer = ''Collins Aerospace'',
     cp_requiresSerialization = True\<rparr>"

definition seed_comp_oxy140 :: Component where
  "seed_comp_oxy140 =
    \<lparr>cp_id = ''comp-oxy140'', cp_partNumber = ''OXY-140'', cp_description = ''Oxygen Generator'',
     cp_manufacturer = ''B/E Aerospace'', cp_requiresSerialization = True\<rparr>"

definition seed_comp_smk008 :: Component where
  "seed_comp_smk008 =
    \<lparr>cp_id = ''comp-smk008'', cp_partNumber = ''SMK-008'',
     cp_description = ''Smoke Detector Unit'', cp_manufacturer = ''Kidde Aerospace'',
     cp_requiresSerialization = True\<rparr>"

definition seed_comp_tcas225 :: Component where
  "seed_comp_tcas225 =
    \<lparr>cp_id = ''comp-tcas225'', cp_partNumber = ''TCAS-225'',
     cp_description = ''Traffic Collision Avoidance Computer'', cp_manufacturer = ''Honeywell'',
     cp_requiresSerialization = True\<rparr>"

definition seed_comp_wgt060 :: Component where
  "seed_comp_wgt060 =
    \<lparr>cp_id = ''comp-wgt060'', cp_partNumber = ''WGT-060'',
     cp_description = ''Weight-on-Wheels Sensor'', cp_manufacturer = ''Safran'',
     cp_requiresSerialization = True\<rparr>"

definition seed_comp_bolt001 :: Component where
  "seed_comp_bolt001 =
    \<lparr>cp_id = ''comp-bolt001'', cp_partNumber = ''MS20470AD4-5'',
     cp_description = ''Structural Rivet (lot)'', cp_manufacturer = ''Standard Hardware'',
     cp_requiresSerialization = False\<rparr>"

definition seed_comp_seal014 :: Component where
  "seed_comp_seal014 =
    \<lparr>cp_id = ''comp-seal014'', cp_partNumber = ''SEAL-014'',
     cp_description = ''Hydraulic Seal Kit'', cp_manufacturer = ''Parker Aerospace'',
     cp_requiresSerialization = False\<rparr>"

definition seed_comp_gask033 :: Component where
  "seed_comp_gask033 =
    \<lparr>cp_id = ''comp-gask033'', cp_partNumber = ''GASK-033'',
     cp_description = ''Engine Gasket Set'', cp_manufacturer = ''CFM International'',
     cp_requiresSerialization = False\<rparr>"

definition seed_comp_filt090 :: Component where
  "seed_comp_filt090 =
    \<lparr>cp_id = ''comp-filt090'', cp_partNumber = ''FILT-090'',
     cp_description = ''Hydraulic Filter Element'', cp_manufacturer = ''Pall Aerospace'',
     cp_requiresSerialization = False\<rparr>"

definition seed_comp_clmp101 :: Component where
  "seed_comp_clmp101 =
    \<lparr>cp_id = ''comp-clmp101'', cp_partNumber = ''CLMP-101'',
     cp_description = ''Tube Clamp Assembly'', cp_manufacturer = ''Standard Hardware'',
     cp_requiresSerialization = False\<rparr>"

definition seed_comp_wire205 :: Component where
  "seed_comp_wire205 =
    \<lparr>cp_id = ''comp-wire205'', cp_partNumber = ''WIRE-205'',
     cp_description = ''Wiring Harness Segment'', cp_manufacturer = ''TE Connectivity'',
     cp_requiresSerialization = False\<rparr>"

definition seed_comp_lamp312 :: Component where
  "seed_comp_lamp312 =
    \<lparr>cp_id = ''comp-lamp312'', cp_partNumber = ''LAMP-312'',
     cp_description = ''Navigation Light Assembly'', cp_manufacturer = ''Whelen Aerospace'',
     cp_requiresSerialization = False\<rparr>"

definition seed_comp_tire419 :: Component where
  "seed_comp_tire419 =
    \<lparr>cp_id = ''comp-tire419'', cp_partNumber = ''TIRE-419'',
     cp_description = ''Main Landing Gear Tire'', cp_manufacturer = ''Michelin Aircraft'',
     cp_requiresSerialization = False\<rparr>"

definition seed_comp_brg527 :: Component where
  "seed_comp_brg527 =
    \<lparr>cp_id = ''comp-brg527'', cp_partNumber = ''BRG-527'', cp_description = ''Bearing Assembly'',
     cp_manufacturer = ''SKF Aerospace'', cp_requiresSerialization = False\<rparr>"

definition seed_comp_fltr634 :: Component where
  "seed_comp_fltr634 =
    \<lparr>cp_id = ''comp-fltr634'', cp_partNumber = ''FLTR-634'',
     cp_description = ''Cabin Air Filter'', cp_manufacturer = ''Pall Aerospace'',
     cp_requiresSerialization = False\<rparr>"

definition seed_components :: "Component list" where
  "seed_components =
    [seed_comp_hp442, seed_comp_abc123, seed_comp_fcu220, seed_comp_avn115, seed_comp_act330,
     seed_comp_val089, seed_comp_brk210, seed_comp_gen305, seed_comp_apu410, seed_comp_pmp512,
     seed_comp_sen077, seed_comp_oxy140, seed_comp_smk008, seed_comp_tcas225,
     seed_comp_wgt060, seed_comp_bolt001, seed_comp_seal014, seed_comp_gask033,
     seed_comp_filt090, seed_comp_clmp101, seed_comp_wire205, seed_comp_lamp312,
     seed_comp_tire419, seed_comp_brg527, seed_comp_fltr634]"

section \<open>\<open>componentInstances\<close> of \<open>components.ts\<close>\<close>

definition seed_ci_hp001 :: ComponentInstance where
  "seed_ci_hp001 =
    \<lparr>ci_id = ''ci-hp001'', ci_componentId = ''comp-hp442'', ci_serialNumber = ''HP001''\<rparr>"

definition seed_ci_fcu044 :: ComponentInstance where
  "seed_ci_fcu044 =
    \<lparr>ci_id = ''ci-fcu044'', ci_componentId = ''comp-fcu220'', ci_serialNumber = ''FCU044''\<rparr>"

definition seed_ci_avn210 :: ComponentInstance where
  "seed_ci_avn210 =
    \<lparr>ci_id = ''ci-avn210'', ci_componentId = ''comp-avn115'', ci_serialNumber = ''AVN210''\<rparr>"

definition seed_ci_act077 :: ComponentInstance where
  "seed_ci_act077 =
    \<lparr>ci_id = ''ci-act077'', ci_componentId = ''comp-act330'', ci_serialNumber = ''ACT077''\<rparr>"

definition seed_ci_val512 :: ComponentInstance where
  "seed_ci_val512 =
    \<lparr>ci_id = ''ci-val512'', ci_componentId = ''comp-val089'', ci_serialNumber = ''VAL512''\<rparr>"

definition seed_ci_brk203 :: ComponentInstance where
  "seed_ci_brk203 =
    \<lparr>ci_id = ''ci-brk203'', ci_componentId = ''comp-brk210'', ci_serialNumber = ''BRK203''\<rparr>"

definition seed_ci_gen114 :: ComponentInstance where
  "seed_ci_gen114 =
    \<lparr>ci_id = ''ci-gen114'', ci_componentId = ''comp-gen305'', ci_serialNumber = ''GEN114''\<rparr>"

definition seed_ci_apu301 :: ComponentInstance where
  "seed_ci_apu301 =
    \<lparr>ci_id = ''ci-apu301'', ci_componentId = ''comp-apu410'', ci_serialNumber = ''APU301''\<rparr>"

definition seed_ci_pmp408 :: ComponentInstance where
  "seed_ci_pmp408 =
    \<lparr>ci_id = ''ci-pmp408'', ci_componentId = ''comp-pmp512'', ci_serialNumber = ''PMP408''\<rparr>"

definition seed_ci_sen019 :: ComponentInstance where
  "seed_ci_sen019 =
    \<lparr>ci_id = ''ci-sen019'', ci_componentId = ''comp-sen077'', ci_serialNumber = ''SEN019''\<rparr>"

definition seed_ci_oxy220 :: ComponentInstance where
  "seed_ci_oxy220 =
    \<lparr>ci_id = ''ci-oxy220'', ci_componentId = ''comp-oxy140'', ci_serialNumber = ''OXY220''\<rparr>"

definition seed_ci_smk006 :: ComponentInstance where
  "seed_ci_smk006 =
    \<lparr>ci_id = ''ci-smk006'', ci_componentId = ''comp-smk008'', ci_serialNumber = ''SMK006''\<rparr>"

definition seed_ci_tcas118 :: ComponentInstance where
  "seed_ci_tcas118 =
    \<lparr>ci_id = ''ci-tcas118'', ci_componentId = ''comp-tcas225'', ci_serialNumber = ''TCAS118''\<rparr>"

definition seed_ci_wgt044 :: ComponentInstance where
  "seed_ci_wgt044 =
    \<lparr>ci_id = ''ci-wgt044'', ci_componentId = ''comp-wgt060'', ci_serialNumber = ''WGT044''\<rparr>"

definition seed_ci_abc901 :: ComponentInstance where
  "seed_ci_abc901 =
    \<lparr>ci_id = ''ci-abc901'', ci_componentId = ''comp-abc123'', ci_serialNumber = ''ABC901''\<rparr>"

definition seed_componentInstances :: "ComponentInstance list" where
  "seed_componentInstances =
    [seed_ci_hp001, seed_ci_fcu044, seed_ci_avn210, seed_ci_act077, seed_ci_val512,
     seed_ci_brk203, seed_ci_gen114, seed_ci_apu301, seed_ci_pmp408, seed_ci_sen019,
     seed_ci_oxy220, seed_ci_smk006, seed_ci_tcas118, seed_ci_wgt044, seed_ci_abc901]"

section \<open>\<open>componentInstallations\<close> of \<open>components.ts\<close>\<close>

definition seed_cinst_1 :: ComponentInstallation where
  "seed_cinst_1 =
    \<lparr>cx_id = ''cinst-1'', cx_componentInstanceId = ''ci-hp001'', cx_parentAssetType = PA_AIRCRAFT,
     cx_aircraftParentId = Some ''ac-1'', cx_engineParentId = None, cx_position = ''HYD_SYS_1'',
     cx_installedAt = ''2025-11-03'', cx_removedAt = None\<rparr>"

definition seed_cinst_2 :: ComponentInstallation where
  "seed_cinst_2 =
    \<lparr>cx_id = ''cinst-2'', cx_componentInstanceId = ''ci-avn210'',
     cx_parentAssetType = PA_AIRCRAFT, cx_aircraftParentId = Some ''ac-1'',
     cx_engineParentId = None, cx_position = ''FMC_1'', cx_installedAt = ''2024-01-01'',
     cx_removedAt = None\<rparr>"

definition seed_cinst_3 :: ComponentInstallation where
  "seed_cinst_3 =
    \<lparr>cx_id = ''cinst-3'', cx_componentInstanceId = ''ci-brk203'',
     cx_parentAssetType = PA_AIRCRAFT, cx_aircraftParentId = Some ''ac-1'',
     cx_engineParentId = None, cx_position = ''MLG_LH'', cx_installedAt = ''2024-01-01'',
     cx_removedAt = None\<rparr>"

definition seed_cinst_4 :: ComponentInstallation where
  "seed_cinst_4 =
    \<lparr>cx_id = ''cinst-4'', cx_componentInstanceId = ''ci-wgt044'',
     cx_parentAssetType = PA_AIRCRAFT, cx_aircraftParentId = Some ''ac-1'',
     cx_engineParentId = None, cx_position = ''MLG_LH'', cx_installedAt = ''2024-01-01'',
     cx_removedAt = None\<rparr>"

definition seed_cinst_5 :: ComponentInstallation where
  "seed_cinst_5 =
    \<lparr>cx_id = ''cinst-5'', cx_componentInstanceId = ''ci-fcu044'', cx_parentAssetType = PA_ENGINE,
     cx_aircraftParentId = None, cx_engineParentId = Some ''eng-100781'', cx_position = ''FCU'',
     cx_installedAt = ''2026-02-11'', cx_removedAt = None\<rparr>"

definition seed_cinst_6 :: ComponentInstallation where
  "seed_cinst_6 =
    \<lparr>cx_id = ''cinst-6'', cx_componentInstanceId = ''ci-act077'',
     cx_parentAssetType = PA_AIRCRAFT, cx_aircraftParentId = Some ''ac-2'',
     cx_engineParentId = None, cx_position = ''FLAP_RH'', cx_installedAt = ''2023-06-15'',
     cx_removedAt = None\<rparr>"

definition seed_cinst_7 :: ComponentInstallation where
  "seed_cinst_7 =
    \<lparr>cx_id = ''cinst-7'', cx_componentInstanceId = ''ci-val512'', cx_parentAssetType = PA_ENGINE,
     cx_aircraftParentId = None, cx_engineParentId = Some ''eng-200001'',
     cx_position = ''BLEED_VALVE'', cx_installedAt = ''2023-06-15'', cx_removedAt = None\<rparr>"

definition seed_cinst_8 :: ComponentInstallation where
  "seed_cinst_8 =
    \<lparr>cx_id = ''cinst-8'', cx_componentInstanceId = ''ci-gen114'',
     cx_parentAssetType = PA_AIRCRAFT, cx_aircraftParentId = Some ''ac-3'',
     cx_engineParentId = None, cx_position = ''IDG_1'', cx_installedAt = ''2022-09-10'',
     cx_removedAt = None\<rparr>"

definition seed_cinst_9 :: ComponentInstallation where
  "seed_cinst_9 =
    \<lparr>cx_id = ''cinst-9'', cx_componentInstanceId = ''ci-apu301'',
     cx_parentAssetType = PA_AIRCRAFT, cx_aircraftParentId = Some ''ac-3'',
     cx_engineParentId = None, cx_position = ''APU'', cx_installedAt = ''2022-09-10'',
     cx_removedAt = Some ''2025-08-01''\<rparr>"

definition seed_cinst_10 :: ComponentInstallation where
  "seed_cinst_10 =
    \<lparr>cx_id = ''cinst-10'', cx_componentInstanceId = ''ci-abc901'', cx_parentAssetType = PA_ENGINE,
     cx_aircraftParentId = None, cx_engineParentId = Some ''eng-200002'',
     cx_position = ''FAN_DISK'', cx_installedAt = ''2022-09-10'', cx_removedAt = None\<rparr>"

definition seed_cinst_11 :: ComponentInstallation where
  "seed_cinst_11 =
    \<lparr>cx_id = ''cinst-11'', cx_componentInstanceId = ''ci-pmp408'',
     cx_parentAssetType = PA_AIRCRAFT, cx_aircraftParentId = Some ''ac-4'',
     cx_engineParentId = None, cx_position = ''FUEL_BOOST_1'', cx_installedAt = ''2021-03-22'',
     cx_removedAt = None\<rparr>"

definition seed_cinst_12 :: ComponentInstallation where
  "seed_cinst_12 =
    \<lparr>cx_id = ''cinst-12'', cx_componentInstanceId = ''ci-sen019'',
     cx_parentAssetType = PA_AIRCRAFT, cx_aircraftParentId = Some ''ac-4'',
     cx_engineParentId = None, cx_position = ''AOA_LH'', cx_installedAt = ''2021-03-22'',
     cx_removedAt = None\<rparr>"

definition seed_cinst_13 :: ComponentInstallation where
  "seed_cinst_13 =
    \<lparr>cx_id = ''cinst-13'', cx_componentInstanceId = ''ci-oxy220'',
     cx_parentAssetType = PA_AIRCRAFT, cx_aircraftParentId = Some ''ac-5'',
     cx_engineParentId = None, cx_position = ''OXY_GEN_1'', cx_installedAt = ''2020-11-05'',
     cx_removedAt = None\<rparr>"

definition seed_cinst_14 :: ComponentInstallation where
  "seed_cinst_14 =
    \<lparr>cx_id = ''cinst-14'', cx_componentInstanceId = ''ci-smk006'',
     cx_parentAssetType = PA_AIRCRAFT, cx_aircraftParentId = Some ''ac-5'',
     cx_engineParentId = None, cx_position = ''CARGO_SMOKE_1'', cx_installedAt = ''2020-11-05'',
     cx_removedAt = None\<rparr>"

definition seed_cinst_15 :: ComponentInstallation where
  "seed_cinst_15 =
    \<lparr>cx_id = ''cinst-15'', cx_componentInstanceId = ''ci-tcas118'',
     cx_parentAssetType = PA_AIRCRAFT, cx_aircraftParentId = Some ''ac-6'',
     cx_engineParentId = None, cx_position = ''TCAS'', cx_installedAt = ''2019-07-18'',
     cx_removedAt = None\<rparr>"

definition seed_cinst_16 :: ComponentInstallation where
  "seed_cinst_16 =
    \<lparr>cx_id = ''cinst-16'', cx_componentInstanceId = ''ci-apu301'',
     cx_parentAssetType = PA_AIRCRAFT, cx_aircraftParentId = Some ''ac-7'',
     cx_engineParentId = None, cx_position = ''APU'', cx_installedAt = ''2023-02-14'',
     cx_removedAt = Some ''2026-01-20''\<rparr>"

definition seed_componentInstallations :: "ComponentInstallation list" where
  "seed_componentInstallations =
    [seed_cinst_1, seed_cinst_2, seed_cinst_3, seed_cinst_4, seed_cinst_5, seed_cinst_6,
     seed_cinst_7, seed_cinst_8, seed_cinst_9, seed_cinst_10, seed_cinst_11, seed_cinst_12,
     seed_cinst_13, seed_cinst_14, seed_cinst_15, seed_cinst_16]"

section \<open>\<open>maintenanceEvents\<close> of \<open>maintenance.ts\<close>\<close>

definition seed_mx_1 :: MaintenanceEvent where
  "seed_mx_1 =
    \<lparr>me_id = ''mx-1'', me_eventType = MET_INSPECTION, me_status = MES_COMPLETED,
     me_subjectType = MST_ENGINE, me_aircraftId = ''ac-1'', me_engineId = Some ''eng-100781'',
     me_componentInstanceId = None,
     me_description = ''Fan disk ultrasonic inspection per AD-2026-001'',
     me_date = ''2026-03-14'', me_relatedRequirementId = Some ''req-ad-2026-001'',
     me_relatedAssessmentId = Some ''asmt-2''\<rparr>"

definition seed_mx_2 :: MaintenanceEvent where
  "seed_mx_2 =
    \<lparr>me_id = ''mx-2'', me_eventType = MET_INSTALLATION, me_status = MES_COMPLETED,
     me_subjectType = MST_ENGINE, me_aircraftId = ''ac-1'', me_engineId = Some ''eng-100781'',
     me_componentInstanceId = None, me_description = ''Engine 1 (CFM56-7B SN 100781) installed'',
     me_date = ''2026-02-11'', me_relatedRequirementId = None, me_relatedAssessmentId = None\<rparr>"

definition seed_mx_3 :: MaintenanceEvent where
  "seed_mx_3 =
    \<lparr>me_id = ''mx-3'', me_eventType = MET_REMOVAL, me_status = MES_COMPLETED,
     me_subjectType = MST_ENGINE, me_aircraftId = ''ac-1'', me_engineId = Some ''eng-100234'',
     me_componentInstanceId = None,
     me_description = ''Engine 1 (CFM56-7B SN 100234) removed for scheduled overhaul'',
     me_date = ''2026-02-10'', me_relatedRequirementId = None, me_relatedAssessmentId = None\<rparr>"

definition seed_mx_4 :: MaintenanceEvent where
  "seed_mx_4 =
    \<lparr>me_id = ''mx-4'', me_eventType = MET_INSPECTION, me_status = MES_AWAITING_REVIEW,
     me_subjectType = MST_COMPONENT_INSTANCE, me_aircraftId = ''ac-1'', me_engineId = None,
     me_componentInstanceId = Some ''ci-hp001'',
     me_description = ''Hydraulic pump seal condition check per SB-2025-114'',
     me_date = ''2026-03-16'', me_relatedRequirementId = Some ''req-sb-2025-114'',
     me_relatedAssessmentId = None\<rparr>"

definition seed_mx_5 :: MaintenanceEvent where
  "seed_mx_5 =
    \<lparr>me_id = ''mx-5'', me_eventType = MET_INSPECTION, me_status = MES_SCHEDULED,
     me_subjectType = MST_AIRCRAFT, me_aircraftId = ''ac-3'', me_engineId = None,
     me_componentInstanceId = None,
     me_description = ''Fan disk ultrasonic inspection per AD-2026-001'',
     me_date = ''2026-03-25'', me_relatedRequirementId = Some ''req-ad-2026-001'',
     me_relatedAssessmentId = Some ''asmt-bulk-0''\<rparr>"

definition seed_mx_6 :: MaintenanceEvent where
  "seed_mx_6 =
    \<lparr>me_id = ''mx-6'', me_eventType = MET_INSPECTION, me_status = MES_OVERDUE,
     me_subjectType = MST_AIRCRAFT, me_aircraftId = ''ac-7'', me_engineId = None,
     me_componentInstanceId = None,
     me_description = ''Cargo door latch mechanism inspection per AD-2026-005'',
     me_date = ''2026-03-05'', me_relatedRequirementId = Some ''req-ad-2026-005'',
     me_relatedAssessmentId = Some ''asmt-bulk-3''\<rparr>"

definition seed_mx_7 :: MaintenanceEvent where
  "seed_mx_7 =
    \<lparr>me_id = ''mx-7'', me_eventType = MET_REPAIR, me_status = MES_IN_PROGRESS,
     me_subjectType = MST_COMPONENT_INSTANCE, me_aircraftId = ''ac-3'', me_engineId = None,
     me_componentInstanceId = Some ''ci-gen114'',
     me_description = ''Integrated drive generator seal repair'', me_date = ''2026-03-18'',
     me_relatedRequirementId = None, me_relatedAssessmentId = None\<rparr>"

definition seed_mx_8 :: MaintenanceEvent where
  "seed_mx_8 =
    \<lparr>me_id = ''mx-8'', me_eventType = MET_OVERHAUL, me_status = MES_COMPLETED,
     me_subjectType = MST_COMPONENT_INSTANCE, me_aircraftId = ''ac-3'', me_engineId = None,
     me_componentInstanceId = Some ''ci-apu301'',
     me_description = ''APU overhaul completed and returned to service'',
     me_date = ''2025-08-01'', me_relatedRequirementId = None, me_relatedAssessmentId = None\<rparr>"

definition seed_mx_9 :: MaintenanceEvent where
  "seed_mx_9 =
    \<lparr>me_id = ''mx-9'', me_eventType = MET_REPLACEMENT, me_status = MES_AWAITING_EVIDENCE,
     me_subjectType = MST_COMPONENT_INSTANCE, me_aircraftId = ''ac-7'', me_engineId = None,
     me_componentInstanceId = Some ''ci-apu301'',
     me_description = (''APU replacement '' @ em_dash @ '' completion evidence not yet uploaded''),
     me_date = ''2026-01-20'', me_relatedRequirementId = None, me_relatedAssessmentId = None\<rparr>"

definition seed_mx_10 :: MaintenanceEvent where
  "seed_mx_10 =
    \<lparr>me_id = ''mx-10'', me_eventType = MET_INSPECTION, me_status = MES_SCHEDULED,
     me_subjectType = MST_AIRCRAFT, me_aircraftId = ''ac-9'', me_engineId = None,
     me_componentInstanceId = None,
     me_description = ''Fan disk ultrasonic inspection per AD-2026-001'',
     me_date = ''2026-03-28'', me_relatedRequirementId = Some ''req-ad-2026-001'',
     me_relatedAssessmentId = Some ''asmt-bulk-5''\<rparr>"

definition seed_mx_11 :: MaintenanceEvent where
  "seed_mx_11 =
    \<lparr>me_id = ''mx-11'', me_eventType = MET_INSPECTION, me_status = MES_SCHEDULED,
     me_subjectType = MST_AIRCRAFT, me_aircraftId = ''ac-4'', me_engineId = None,
     me_componentInstanceId = None,
     me_description = ''Wing spar fatigue inspection per AD-2026-004'', me_date = ''2026-04-02'',
     me_relatedRequirementId = Some ''req-ad-2026-004'',
     me_relatedAssessmentId = Some ''asmt-bulk-1''\<rparr>"

definition seed_mx_12 :: MaintenanceEvent where
  "seed_mx_12 =
    \<lparr>me_id = ''mx-12'', me_eventType = MET_INSPECTION, me_status = MES_COMPLETED,
     me_subjectType = MST_AIRCRAFT, me_aircraftId = ''ac-10'', me_engineId = None,
     me_componentInstanceId = None,
     me_description = ''Pitot tube heater functional check per AD/A320/112'',
     me_date = ''2026-02-16'', me_relatedRequirementId = Some ''req-ad-2026-006'',
     me_relatedAssessmentId = Some ''asmt-bulk-6''\<rparr>"

definition seed_mx_13 :: MaintenanceEvent where
  "seed_mx_13 =
    \<lparr>me_id = ''mx-13'', me_eventType = MET_INSPECTION, me_status = MES_OVERDUE,
     me_subjectType = MST_AIRCRAFT, me_aircraftId = ''ac-8'', me_engineId = None,
     me_componentInstanceId = None,
     me_description = ''Cargo door latch mechanism inspection per AD-2026-005'',
     me_date = ''2026-02-28'', me_relatedRequirementId = Some ''req-ad-2026-005'',
     me_relatedAssessmentId = Some ''asmt-bulk-4''\<rparr>"

definition seed_mx_14 :: MaintenanceEvent where
  "seed_mx_14 =
    \<lparr>me_id = ''mx-14'', me_eventType = MET_INSTALLATION, me_status = MES_COMPLETED,
     me_subjectType = MST_COMPONENT_INSTANCE, me_aircraftId = ''ac-1'', me_engineId = None,
     me_componentInstanceId = Some ''ci-hp001'',
     me_description = ''Hydraulic pump HP-442 (SN HP001) installed'', me_date = ''2025-11-03'',
     me_relatedRequirementId = None, me_relatedAssessmentId = None\<rparr>"

definition seed_mx_15 :: MaintenanceEvent where
  "seed_mx_15 =
    \<lparr>me_id = ''mx-15'', me_eventType = MET_INSPECTION, me_status = MES_SCHEDULED,
     me_subjectType = MST_AIRCRAFT, me_aircraftId = ''ac-6'', me_engineId = None,
     me_componentInstanceId = None,
     me_description = ''Wing spar fatigue inspection per AD-2026-004'', me_date = ''2026-04-05'',
     me_relatedRequirementId = Some ''req-ad-2026-004'',
     me_relatedAssessmentId = Some ''asmt-bulk-2''\<rparr>"

definition seed_mx_16 :: MaintenanceEvent where
  "seed_mx_16 =
    \<lparr>me_id = ''mx-16'', me_eventType = MET_INSPECTION, me_status = MES_AWAITING_REVIEW,
     me_subjectType = MST_ENGINE, me_aircraftId = ''ac-9'', me_engineId = Some ''eng-200014'',
     me_componentInstanceId = None,
     me_description = ''Fan disk ultrasonic inspection completed, pending engineering sign-off'',
     me_date = ''2026-03-09'', me_relatedRequirementId = Some ''req-ad-2026-001'',
     me_relatedAssessmentId = Some ''asmt-bulk-5''\<rparr>"

definition seed_maintenanceEvents :: "MaintenanceEvent list" where
  "seed_maintenanceEvents =
    [seed_mx_1, seed_mx_2, seed_mx_3, seed_mx_4, seed_mx_5, seed_mx_6, seed_mx_7, seed_mx_8,
     seed_mx_9, seed_mx_10, seed_mx_11, seed_mx_12, seed_mx_13, seed_mx_14, seed_mx_15,
     seed_mx_16]"

section \<open>\<open>workPackages\<close> of \<open>maintenanceProjects.ts\<close>\<close>

definition seed_wp_1 :: WorkPackage where
  "seed_wp_1 =
    \<lparr>wp_id = ''wp-1'', wp_projectId = ''proj-1'', wp_aircraftId = ''ac-1'',
     wp_title = ''Engine Systems'',
     wp_description = ''Engine, fan, and powerplant-related inspection tasks for this check.'',
     wp_ataChapter = ''72'', wp_status = WPS_READY_FOR_INSPECTION, wp_completionPercent = 85,
     wp_dueDate = ''2026-03-17'', wp_assignedTechnicianId = Some ''tech-1'',
     wp_inspectorId = Some ''tech-3'', wp_requiredPartIds = [''part-2''],
     wp_requiredTools = [''Borescope'', ''Torque Wrench''],
     wp_complianceReference = Some ''AD-2026-001''\<rparr>"

definition seed_wp_2 :: WorkPackage where
  "seed_wp_2 =
    \<lparr>wp_id = ''wp-2'', wp_projectId = ''proj-1'', wp_aircraftId = ''ac-1'',
     wp_title = ''Airframe Systems'',
     wp_description = ''Hydraulics, structures, and airframe-related inspection tasks.'',
     wp_ataChapter = ''29'', wp_status = WPS_COMPLETED, wp_completionPercent = 100,
     wp_dueDate = ''2026-03-08'', wp_assignedTechnicianId = Some ''tech-4'',
     wp_inspectorId = Some ''tech-5'', wp_requiredPartIds = [''part-1''],
     wp_requiredTools = [''Seal Puller''], wp_complianceReference = Some ''SB-2025-114''\<rparr>"

definition seed_wp_3 :: WorkPackage where
  "seed_wp_3 =
    \<lparr>wp_id = ''wp-3'', wp_projectId = ''proj-2'', wp_aircraftId = ''ac-3'',
     wp_title = ''Wing Structure'',
     wp_description = ''Wing spar and structural fatigue inspection tasks.'',
     wp_ataChapter = ''57'', wp_status = WPS_IN_PROGRESS, wp_completionPercent = 45,
     wp_dueDate = ''2026-03-19'', wp_assignedTechnicianId = Some ''tech-3'',
     wp_inspectorId = Some ''tech-5'', wp_requiredPartIds = [], wp_requiredTools = [''NDT Kit''],
     wp_complianceReference = Some ''AD-2026-004''\<rparr>"

definition seed_wp_4 :: WorkPackage where
  "seed_wp_4 =
    \<lparr>wp_id = ''wp-4'', wp_projectId = ''proj-3'', wp_aircraftId = ''ac-7'',
     wp_title = ''Cargo Systems'',
     wp_description = ''Cargo door and latch mechanism inspection tasks.'',
     wp_ataChapter = ''52'', wp_status = WPS_NOT_STARTED, wp_completionPercent = 0,
     wp_dueDate = ''2026-03-24'', wp_assignedTechnicianId = Some ''tech-6'',
     wp_inspectorId = None, wp_requiredPartIds = [''part-6''], wp_requiredTools = [],
     wp_complianceReference = Some ''AD-2026-005''\<rparr>"

definition seed_wp_5 :: WorkPackage where
  "seed_wp_5 =
    \<lparr>wp_id = ''wp-5'', wp_projectId = ''proj-4'', wp_aircraftId = ''ac-5'',
     wp_title = ''Avionics & Flight Controls'',
     wp_description = ''Avionics software and flight control system tasks.'',
     wp_ataChapter = ''22'', wp_status = WPS_COMPLETED, wp_completionPercent = 100,
     wp_dueDate = ''2026-01-25'', wp_assignedTechnicianId = Some ''tech-2'',
     wp_inspectorId = Some ''tech-5'', wp_requiredPartIds = [], wp_requiredTools = [],
     wp_complianceReference = Some ''AD-2026-003''\<rparr>"

definition seed_workPackages :: "WorkPackage list" where
  "seed_workPackages =
    [seed_wp_1, seed_wp_2, seed_wp_3, seed_wp_4, seed_wp_5]"

section \<open>\<open>maintenanceProjects\<close> of \<open>maintenanceProjects.ts\<close>\<close>

definition seed_proj_1 :: MaintenanceProject where
  "seed_proj_1 =
    \<lparr>mp_id = ''proj-1'', mp_projectNumber = ''PRJ-2026-001'',
     mp_title = (''VT-ABC '' @ em_dash @ '' C-Check''), mp_aircraftId = ''ac-1'',
     mp_projectType = MPT_C_CHECK, mp_status = MPS_IN_PROGRESS, mp_priority = PR_HIGH,
     mp_projectManager = ''Ananya Rao'', mp_leadTechnicianId = Some ''tech-1'',
     mp_startDate = ''2026-03-01'', mp_targetCompletionDate = ''2026-03-20'',
     mp_actualStartDate = Some ''2026-03-01'', mp_actualCompletionDate = None,
     mp_progressPercent = 68, mp_workPackageIds = [''wp-1'', ''wp-2''],
     mp_riskNotes = [''Engine 1 borescope follow-up (WO-1044) is overdue.'', ''Hydraulic pump seal condition check (WO-1050) is awaiting parts.'']\<rparr>"

definition seed_proj_2 :: MaintenanceProject where
  "seed_proj_2 =
    \<lparr>mp_id = ''proj-2'', mp_projectNumber = ''PRJ-2026-002'',
     mp_title = (''N412MX '' @ em_dash @ '' A-Check''), mp_aircraftId = ''ac-3'',
     mp_projectType = MPT_A_CHECK, mp_status = MPS_IN_PROGRESS, mp_priority = PR_CRITICAL,
     mp_projectManager = ''Marcus Webb'', mp_leadTechnicianId = Some ''tech-3'',
     mp_startDate = ''2026-03-10'', mp_targetCompletionDate = ''2026-03-22'',
     mp_actualStartDate = Some ''2026-03-10'', mp_actualCompletionDate = None,
     mp_progressPercent = 40, mp_workPackageIds = [''wp-3''],
     mp_riskNotes = [(''Wing spar fatigue inspection (WO-1045) is CRITICAL priority '' @ em_dash @ '' pending NDT confirmation of a hairline indication.'')]\<rparr>"

definition seed_proj_3 :: MaintenanceProject where
  "seed_proj_3 =
    \<lparr>mp_id = ''proj-3'', mp_projectNumber = ''PRJ-2026-003'',
     mp_title = (''VT-GHI '' @ em_dash @ '' Unscheduled: Cargo Door Latch''),
     mp_aircraftId = ''ac-7'', mp_projectType = MPT_UNSCHEDULED, mp_status = MPS_PLANNED,
     mp_priority = PR_HIGH, mp_projectManager = ''Ananya Rao'',
     mp_leadTechnicianId = Some ''tech-6'', mp_startDate = ''2026-03-18'',
     mp_targetCompletionDate = ''2026-03-24'', mp_actualStartDate = None,
     mp_actualCompletionDate = None, mp_progressPercent = 0, mp_workPackageIds = [''wp-4''],
     mp_riskNotes = [(''Replacement latch mechanism (part-6) is awaiting receipt '' @ em_dash @ '' may delay start.'')]\<rparr>"

definition seed_proj_4 :: MaintenanceProject where
  "seed_proj_4 =
    \<lparr>mp_id = ''proj-4'', mp_projectNumber = ''PRJ-2026-004'',
     mp_title = (''VT-DEF '' @ em_dash @ '' Avionics Software Modification''),
     mp_aircraftId = ''ac-5'', mp_projectType = MPT_MODIFICATION, mp_status = MPS_COMPLETED,
     mp_priority = PR_MEDIUM, mp_projectManager = ''Marcus Webb'',
     mp_leadTechnicianId = Some ''tech-2'', mp_startDate = ''2026-01-20'',
     mp_targetCompletionDate = ''2026-01-26'', mp_actualStartDate = Some ''2026-01-20'',
     mp_actualCompletionDate = Some ''2026-01-25'', mp_progressPercent = 100,
     mp_workPackageIds = [''wp-5''], mp_riskNotes = []\<rparr>"

definition seed_maintenanceProjects :: "MaintenanceProject list" where
  "seed_maintenanceProjects =
    [seed_proj_1, seed_proj_2, seed_proj_3, seed_proj_4]"

section \<open>The world at start\<close>

definition supply_world :: world where
  "supply_world = seed_world\<lparr>vendors := seed_vendors,
     vendorPartAvailability := seed_vendorPartAvailability,
     partRequests := seed_partRequests,
     laborCosts := seed_laborCosts,
     partCosts := seed_partCosts,
     vendorCosts := seed_vendorCosts,
     customerCharges := seed_customerCharges,
     partReceivingRecords := seed_partReceivingRecords,
     partCertificates := seed_partCertificates,
     partInstallations := seed_partInstallations,
     regulatoryAuthorities := seed_regulatoryAuthorities,
     regulatoryDocuments := seed_regulatoryDocuments,
     regulatoryRequirements := seed_regulatoryRequirements,
     componentCatalog := seed_components,
     componentInstances := seed_componentInstances,
     componentInstallations := seed_componentInstallations,
     maintenanceEvents := seed_maintenanceEvents,
     workPackages := seed_workPackages,
     maintenanceProjects := seed_maintenanceProjects,
     requestCounter := 2\<rparr>"

end
