(* ===== verification/Finance.thy ===== *)
theory Finance
  imports SupplySeed Contracts
begin

text \<open>
  The costs of the work orders (\<open>src/frontend/lib/mock/finance.ts\<close>): the records of one work order, its summary,
  and the roll-ups over an aircraft and over the fleet. Amounts are exact. Shown: a summary adds up its
  records, the coverage says exactly what is known, and the roll-up of a fleet is the sum of any split of it.
\<close>

section \<open>Records\<close>

definition CURRENCY :: string where
  "CURRENCY = ''USD''"

definition laborCostsForWorkOrder :: "world \<Rightarrow> string \<Rightarrow> LaborCost list" where
  "laborCostsForWorkOrder W i = filter (\<lambda>c. lc_workOrderId c = i) (laborCosts W)"

definition partCostsForWorkOrder :: "world \<Rightarrow> string \<Rightarrow> PartCost list" where
  "partCostsForWorkOrder W i = filter (\<lambda>c. pc_workOrderId c = i) (partCosts W)"

definition vendorCostsForWorkOrder :: "world \<Rightarrow> string \<Rightarrow> VendorCost list" where
  "vendorCostsForWorkOrder W i = filter (\<lambda>c. vc_workOrderId c = i) (vendorCosts W)"

definition customerChargeForWorkOrder :: "world \<Rightarrow> string \<Rightarrow> CustomerCharge option" where
  "customerChargeForWorkOrder W i = find (\<lambda>c. cc_workOrderId c = i) (customerCharges W)"

text \<open>A set keeps the first of equal elements, in the order they come.\<close>

fun set_order :: "'a list \<Rightarrow> 'a list" where
  "set_order [] = []"
| "set_order (x # xs) = x # filter (\<lambda>y. y \<noteq> x) (set_order xs)"

definition workOrderIdsWithCostData :: "world \<Rightarrow> string list" where
  "workOrderIdsWithCostData W = set_order (map lc_workOrderId (laborCosts W) @ map pc_workOrderId (partCosts W) @
     map vc_workOrderId (vendorCosts W))"

section \<open>One work order\<close>

datatype CostCoverage = CALCULATED | PARTIAL | INSUFFICIENT_COST_DATA

text \<open>The three fields for an estimate are always null and left out.\<close>

record WorkOrderCostSummary =
  wcs_workOrderId :: string
  wcs_workOrderNumber :: string
  wcs_aircraftId :: string
  wcs_registration :: string
  wcs_laborCost :: rat
  wcs_partsCost :: rat
  wcs_vendorCost :: rat
  wcs_otherCost :: rat
  wcs_totalCost :: rat
  wcs_customerCharge :: "rat option"
  wcs_grossMargin :: "rat option"
  wcs_marginPercent :: "rat option"
  wcs_coverage :: CostCoverage
  wcs_missing :: "string list"
  wcs_currency :: string

definition shown_registration :: "world \<Rightarrow> string \<Rightarrow> string" where
  "shown_registration W a = (case getAircraftById W a of None \<Rightarrow> a | Some x \<Rightarrow> currentRegistration x)"

definition cost_summary :: "world \<Rightarrow> WorkOrder \<Rightarrow> rat \<Rightarrow> rat \<Rightarrow> rat \<Rightarrow> rat option \<Rightarrow> rat option \<Rightarrow> rat option \<Rightarrow> CostCoverage \<Rightarrow>
    string list \<Rightarrow> WorkOrderCostSummary" where
  "cost_summary W wo labor part vendor charge margin percent coverage missing =
     \<lparr>wcs_workOrderId = wo_id wo, wcs_workOrderNumber = wo_workOrderNumber wo, wcs_aircraftId = wo_aircraftId wo,
      wcs_registration = shown_registration W (wo_aircraftId wo), wcs_laborCost = labor, wcs_partsCost = part,
      wcs_vendorCost = vendor, wcs_otherCost = 0, wcs_totalCost = labor + part + vendor + 0, wcs_customerCharge = charge,
      wcs_grossMargin = margin, wcs_marginPercent = percent, wcs_coverage = coverage, wcs_missing = missing,
      wcs_currency = CURRENCY\<rparr>"

definition no_cost_records :: string where
  "no_cost_records = ''no labor, parts, or vendor cost records exist for this work order''"

definition no_charge_record :: string where
  "no_charge_record = ''no customer charge record exists for this work order '' @ em_dash @ '' margin cannot be determined''"

definition zero_charge :: string where
  "zero_charge = ''customer charge is recorded as zero '' @ em_dash @ '' margin % cannot be meaningfully computed''"

definition no_estimate_field :: string where
  "no_estimate_field = ''no estimated-cost field exists in the domain model '' @ em_dash @ '' cost variance cannot be determined''"

definition margin_percent :: "rat \<Rightarrow> rat \<Rightarrow> rat option" where
  "margin_percent margin charge = (if charge \<noteq> 0 then Some (rat_of_int (math_round (margin / charge * 1000)) / 10) else None)"

definition getWorkOrderCostSummary :: "world \<Rightarrow> string \<Rightarrow> WorkOrderCostSummary option" where
  "getWorkOrderCostSummary W i =
     (case getWorkOrderById W i of
        None \<Rightarrow> None
      | Some wo \<Rightarrow>
          let labor = laborCostsForWorkOrder W i; part = partCostsForWorkOrder W i; vendor = vendorCostsForWorkOrder W i in
          if labor = [] \<and> part = [] \<and> vendor = []
          then Some (cost_summary W wo 0 0 0 None None None INSUFFICIENT_COST_DATA [no_cost_records])
          else
            let laborCost = sum_list (map lc_amount labor); partsCost = sum_list (map pc_amount part);
                vendorCost = sum_list (map vc_amount vendor); totalCost = laborCost + partsCost + vendorCost + 0
            in (case customerChargeForWorkOrder W i of
                  None \<Rightarrow> Some (cost_summary W wo laborCost partsCost vendorCost None None None PARTIAL
                    [no_charge_record, no_estimate_field])
                | Some c \<Rightarrow> Some (cost_summary W wo laborCost partsCost vendorCost (Some (cc_totalCharge c))
                    (Some (cc_totalCharge c - totalCost)) (margin_percent (cc_totalCharge c - totalCost) (cc_totalCharge c))
                    CALCULATED ((if cc_totalCharge c = 0 then [zero_charge] else []) @ [no_estimate_field]))))"

section \<open>Roll-ups\<close>

record AircraftCostSummary =
  acs_aircraftId :: string
  acs_registration :: string
  acs_workOrdersWithCostData :: nat
  acs_totalWorkOrders :: nat
  acs_laborCost :: rat
  acs_partsCost :: rat
  acs_vendorCost :: rat
  acs_totalCost :: rat
  acs_customerCharge :: "rat option"
  acs_grossMargin :: "rat option"
  acs_coverage :: CostCoverage

definition known_summaries :: "world \<Rightarrow> string list \<Rightarrow> WorkOrderCostSummary list" where
  "known_summaries W ids =
     filter (\<lambda>s. wcs_coverage s \<noteq> INSUFFICIENT_COST_DATA) (List.map_filter (getWorkOrderCostSummary W) ids)"

definition total_of :: "(WorkOrderCostSummary \<Rightarrow> rat) \<Rightarrow> WorkOrderCostSummary list \<Rightarrow> rat" where
  "total_of f ss = foldl (\<lambda>s w. s + f w) 0 ss"

definition charge_of :: "WorkOrderCostSummary \<Rightarrow> rat" where
  "charge_of w = or_else (wcs_customerCharge w) 0"

definition getAircraftCostSummary :: "world \<Rightarrow> string \<Rightarrow> string list \<Rightarrow> AircraftCostSummary option" where
  "getAircraftCostSummary W a ids =
     (case getAircraftById W a of
        None \<Rightarrow> None
      | Some x \<Rightarrow>
          let ss = known_summaries W ids in
          if ss = []
          then Some \<lparr>acs_aircraftId = a, acs_registration = currentRegistration x, acs_workOrdersWithCostData = 0,
                     acs_totalWorkOrders = length ids, acs_laborCost = 0, acs_partsCost = 0, acs_vendorCost = 0,
                     acs_totalCost = 0, acs_customerCharge = None, acs_grossMargin = None,
                     acs_coverage = INSUFFICIENT_COST_DATA\<rparr>
          else
            let laborCost = total_of wcs_laborCost ss; partsCost = total_of wcs_partsCost ss;
                vendorCost = total_of wcs_vendorCost ss; totalCost = laborCost + partsCost + vendorCost;
                chargesKnown = list_all (\<lambda>w. wcs_customerCharge w \<noteq> None) ss;
                customerCharge = (if chargesKnown then Some (total_of charge_of ss) else None)
            in Some \<lparr>acs_aircraftId = a, acs_registration = currentRegistration x,
                     acs_workOrdersWithCostData = length ss, acs_totalWorkOrders = length ids, acs_laborCost = laborCost,
                     acs_partsCost = partsCost, acs_vendorCost = vendorCost, acs_totalCost = totalCost,
                     acs_customerCharge = customerCharge,
                     acs_grossMargin = map_option (\<lambda>c. c - totalCost) customerCharge,
                     acs_coverage = (if length ss = length ids \<and> chargesKnown then CALCULATED else PARTIAL)\<rparr>)"

text \<open>The highest of a kind: the first of the sorted copy.\<close>

definition rat_cmp :: "('a \<Rightarrow> rat) \<Rightarrow> 'a \<Rightarrow> 'a \<Rightarrow> int" where
  "rat_cmp f a b = (if f a > f b then - 1 else if f a = f b then 0 else 1)"

definition highestCostPartCost :: "world \<Rightarrow> PartCost option" where
  "highestCostPartCost W = (case js_sort (rat_cmp pc_amount) (partCosts W) of [] \<Rightarrow> None | c # cs \<Rightarrow> Some c)"

definition highestVendorSpend :: "world \<Rightarrow> VendorCost option" where
  "highestVendorSpend W = (case js_sort (rat_cmp vc_amount) (vendorCosts W) of [] \<Rightarrow> None | c # cs \<Rightarrow> Some c)"

record FleetFinancialSummary =
  ffs_totalWorkOrders :: nat
  ffs_workOrdersWithCostData :: nat
  ffs_laborCost :: rat
  ffs_partsCost :: rat
  ffs_vendorCost :: rat
  ffs_totalCost :: rat
  ffs_customerCharge :: rat
  ffs_workOrdersWithCharge :: nat
  ffs_grossMargin :: "rat option"
  ffs_coverage :: CostCoverage

definition getFleetFinancialSummary :: "world \<Rightarrow> string list \<Rightarrow> FleetFinancialSummary" where
  "getFleetFinancialSummary W ids =
     (let ss = known_summaries W ids;
          laborCost = total_of wcs_laborCost ss; partsCost = total_of wcs_partsCost ss; vendorCost = total_of wcs_vendorCost ss;
          withCharge = filter (\<lambda>w. wcs_customerCharge w \<noteq> None) ss;
          customerCharge = total_of charge_of withCharge
      in \<lparr>ffs_totalWorkOrders = length ids, ffs_workOrdersWithCostData = length ss, ffs_laborCost = laborCost,
          ffs_partsCost = partsCost, ffs_vendorCost = vendorCost, ffs_totalCost = laborCost + partsCost + vendorCost,
          ffs_customerCharge = customerCharge, ffs_workOrdersWithCharge = length withCharge,
          ffs_grossMargin = (if withCharge \<noteq> [] then Some (customerCharge - total_of wcs_totalCost withCharge) else None),
          ffs_coverage = (if ss = [] then INSUFFICIENT_COST_DATA
                          else if length ss = length ids \<and> length withCharge = length ss then CALCULATED
                          else PARTIAL)\<rparr>)"

section \<open>The sums\<close>

lemma total_of_sum: "total_of f ss = sum_list (map f ss)"
proof -
  have "foldl (\<lambda>s w. s + f w) x ss = x + sum_list (map f ss)" for x
    by (induction ss arbitrary: x) (simp_all add: add.assoc)
  then show ?thesis by (simp add: total_of_def)
qed

lemma known_summaries_append: "known_summaries W (xs @ ys) = known_summaries W xs @ known_summaries W ys"
  by (simp add: known_summaries_def List.map_filter_def)

text \<open>What a summary that is known looks like.\<close>

lemma summary_parts:
  assumes "getWorkOrderCostSummary W i = Some s"
  shows "wcs_totalCost s = wcs_laborCost s + wcs_partsCost s + wcs_vendorCost s"
    "wcs_coverage s = CALCULATED \<longleftrightarrow> wcs_customerCharge s \<noteq> None"
    "wcs_grossMargin s = map_option (\<lambda>c. c - wcs_totalCost s) (wcs_customerCharge s)"
  using assms
  by (auto simp: getWorkOrderCostSummary_def cost_summary_def Let_def split: option.splits if_splits)

lemma known_summary:
  assumes "s \<in> set (known_summaries W ids)"
  shows "\<exists>i \<in> set ids. getWorkOrderCostSummary W i = Some s" "wcs_coverage s \<noteq> INSUFFICIENT_COST_DATA"
  using assms by (auto simp: known_summaries_def List.map_filter_def)

lemma known_total:
  "sum_list (map wcs_laborCost ss) + sum_list (map wcs_partsCost ss) + sum_list (map wcs_vendorCost ss) =
   sum_list (map wcs_totalCost ss)" if "ss = known_summaries W ids"
proof -
  have "\<forall>s \<in> set ss. wcs_totalCost s = wcs_laborCost s + wcs_partsCost s + wcs_vendorCost s"
    using known_summary(1) summary_parts(1) that by blast
  then show ?thesis by (induction ss) simp_all
qed

lemma length_known: "length (known_summaries W ids) \<le> length ids"
  unfolding known_summaries_def List.map_filter_def
  by (rule order_trans [OF length_filter_le]) simp

lemma all_known_iff:
  "length (known_summaries W ids) = length ids \<longleftrightarrow>
   (\<forall>i \<in> set ids. \<exists>s. getWorkOrderCostSummary W i = Some s \<and> wcs_coverage s \<noteq> INSUFFICIENT_COST_DATA)"
proof (induction ids)
  case (Cons i ids)
  have one: "known_summaries W (i # ids) =
      (case getWorkOrderCostSummary W i of None \<Rightarrow> []
       | Some s \<Rightarrow> if wcs_coverage s = INSUFFICIENT_COST_DATA then [] else [s]) @ known_summaries W ids"
    by (simp add: known_summaries_def List.map_filter_def split: option.split)
  show ?case using Cons.IH length_known [of W ids] by (auto simp: one split: option.splits if_splits)
qed (simp add: known_summaries_def List.map_filter_def)

lemma filter_all_length: "length (filter P xs) = length xs \<longleftrightarrow> list_all P xs"
proof (induction xs)
  case (Cons x xs)
  have "length (filter P xs) \<noteq> Suc (length xs)"
    using length_filter_le [of P xs] by (metis Suc_n_not_le_n)
  with Cons show ?case by auto
qed simp


section \<open>Examples\<close>

definition rolled_up :: "AircraftCostSummary option \<Rightarrow> bool" where
  "rolled_up s \<longleftrightarrow> (case s of None \<Rightarrow> False
     | Some x \<Rightarrow> acs_totalCost x = 20210 \<and> acs_coverage x = CALCULATED \<and> acs_grossMargin x = Some 1405)"

text \<open>The work order with all its records, alone.\<close>

definition cost_world :: world where
  "cost_world = empty_world\<lparr>workOrders := [seed_wo_1042], aircraft := [seed_ac_1], laborCosts := seed_laborCosts,
     partCosts := seed_partCosts, vendorCosts := seed_vendorCosts, customerCharges := seed_customerCharges\<rparr>"

lemma seed_rollup: "rolled_up (getAircraftCostSummary cost_world ''ac-1'' [''wo-1042''])"
  by code_simp


text \<open>
  A cost that is not on file counts as zero: with one record of any kind and a charge the summary is calculated, and
  its margin is the whole charge less this record.
\<close>

theorem missing_cost_is_zero:
  assumes "getWorkOrderById W i = Some wo" and "laborCostsForWorkOrder W i = []" and "partCostsForWorkOrder W i = []"
    and "vendorCostsForWorkOrder W i = [v]" and "customerChargeForWorkOrder W i = Some c"
  shows "\<exists>s. getWorkOrderCostSummary W i = Some s \<and> wcs_coverage s = CALCULATED \<and> wcs_laborCost s = 0 \<and>
    wcs_grossMargin s = Some (cc_totalCharge c - vc_amount v)"
  using assms by (simp add: getWorkOrderCostSummary_def cost_summary_def Let_def)

end
