(* ===== verification/Procurement.thy ===== *)
theory Procurement
  imports SupplySeed Labels Contracts Clock
begin

text \<open>
  Procurement with the demonstration data (\<open>src/frontend/lib/mock/procurement.ts\<close>): the lookups, the score of
  the vendors of a part, the cart, the requests for parts and the purchase orders, as operations on the world. The
  clock is an argument, the weights, prices and scores are exact rationals. The operations do not look at the status of what they change, apart from the creation
  of a purchase order; what the pages over them guarantee is in \<open>ProcurementDesk\<close>.
\<close>

section \<open>Lookups\<close>

definition getVendorById :: "world \<Rightarrow> string \<Rightarrow> Vendor option" where
  "getVendorById W i = find (\<lambda>v. ve_id v = i) (vendors W)"

definition vendorPartAvailabilityForPart :: "world \<Rightarrow> string \<Rightarrow> VendorPartAvailability list" where
  "vendorPartAvailabilityForPart W p = filter (\<lambda>a. va_partId a = Some p) (vendorPartAvailability W)"

definition vendorPartAvailabilityForVendor :: "world \<Rightarrow> string \<Rightarrow> VendorPartAvailability list" where
  "vendorPartAvailabilityForVendor W v = filter (\<lambda>a. va_vendorId a = v) (vendorPartAvailability W)"

definition partRequestsForVendor :: "world \<Rightarrow> string \<Rightarrow> PartRequest list" where
  "partRequestsForVendor W v =
     filter (\<lambda>r. pq_preferredVendorId r = Some v \<or> pq_selectedVendorId r = Some v) (partRequests W)"

definition partRequestsForAircraft :: "world \<Rightarrow> string \<Rightarrow> PartRequest list" where
  "partRequestsForAircraft W a = filter (\<lambda>r. pq_aircraftId r = a) (partRequests W)"

definition getPartRequestById :: "world \<Rightarrow> string \<Rightarrow> PartRequest option" where
  "getPartRequestById W i = find (\<lambda>r. pq_id r = i) (partRequests W)"

definition getPurchaseOrderById :: "world \<Rightarrow> string \<Rightarrow> PurchaseOrder option" where
  "getPurchaseOrderById W i = find (\<lambda>p. po_id p = i) (purchaseOrders W)"

definition partsWithoutVendorAvailability :: "world \<Rightarrow> string list \<Rightarrow> string list" where
  "partsWithoutVendorAvailability W ids =
     filter (\<lambda>i. Some i \<notin> set (map va_partId (vendorPartAvailability W)) \<and> getPartById W i \<noteq> None) ids"

text \<open>The line of a vendor for a part.\<close>

definition vendor_line :: "world \<Rightarrow> string option \<Rightarrow> string \<Rightarrow> VendorPartAvailability option" where
  "vendor_line W part v = find (\<lambda>l. va_vendorId l = v) (vendorPartAvailabilityForPart W (or_else part []))"

section \<open>The score of a vendor\<close>

text \<open>\<open>WEIGHTS\<close>. A factor that is known has a weight, its points and a text; one that is missing only a text.\<close>

datatype ScoreFactor = Known rat rat string | Missing string

definition W_availability :: rat where "W_availability = 30 / 100"
definition W_certification :: rat where "W_certification = 25 / 100"
definition W_leadTime :: rat where "W_leadTime = 20 / 100"
definition W_price :: rat where "W_price = 15 / 100"
definition W_reliability :: rat where "W_reliability = 10 / 100"

lemmas weights_def = W_availability_def W_certification_def W_leadTime_def W_price_def W_reliability_def

definition AVAILABILITY_SCORE :: "PartAvailabilityStatus \<Rightarrow> rat" where
  "AVAILABILITY_SCORE s =
     (case s of AV_IN_STOCK \<Rightarrow> 100 | AV_LIMITED \<Rightarrow> 55 | AV_ON_ORDER \<Rightarrow> 30 | AV_OUT_OF_STOCK \<Rightarrow> 0 | AV_UNKNOWN \<Rightarrow> 0)"

definition CERT_SCORE :: "PartCertificationStatus \<Rightarrow> rat" where
  "CERT_SCORE s = (case s of PCS_VERIFIED \<Rightarrow> 100 | PCS_NOT_VERIFIED \<Rightarrow> 40 | PCS_REFERENCE_UNKNOWN \<Rightarrow> 20 | PCS_UNKNOWN \<Rightarrow> 0)"

primrec lit_PartCertificationStatus :: "PartCertificationStatus \<Rightarrow> string" where
  "lit_PartCertificationStatus PCS_VERIFIED = ''VERIFIED''"
| "lit_PartCertificationStatus PCS_REFERENCE_UNKNOWN = ''REFERENCE_UNKNOWN''"
| "lit_PartCertificationStatus PCS_NOT_VERIFIED = ''NOT_VERIFIED''"
| "lit_PartCertificationStatus PCS_UNKNOWN = ''UNKNOWN''"

definition availability_factor :: "VendorPartAvailability \<Rightarrow> ScoreFactor" where
  "availability_factor l =
     (if va_availabilityStatus l \<noteq> AV_UNKNOWN
      then Known W_availability (AVAILABILITY_SCORE (va_availabilityStatus l))
        (''Availability: '' @ unscore (lit_PartAvailabilityStatus (va_availabilityStatus l)))
      else Missing ''live availability not confirmed'')"

definition certification_factor :: "VendorPartAvailability \<Rightarrow> ScoreFactor" where
  "certification_factor l =
     (if va_certificationStatus l \<noteq> PCS_UNKNOWN
      then Known W_certification (CERT_SCORE (va_certificationStatus l))
        (''Certification: '' @ unscore (lit_PartCertificationStatus (va_certificationStatus l)))
      else Missing ''certification status unknown'')"

definition lead_time_factor :: "VendorPartAvailability \<Rightarrow> ScoreFactor" where
  "lead_time_factor l = (case va_leadTimeDays l of
     Some d \<Rightarrow> Known W_leadTime (if d \<le> 2 then 100 else if d \<le> 5 then 70 else if d \<le> 10 then 40 else 20)
       (show_int d @ ''-day lead time'')
   | None \<Rightarrow> Missing ''lead time not on file'')"

definition price_score :: "rat \<Rightarrow> rat \<Rightarrow> rat" where
  "price_score minPrice price = (if minPrice = 0 then 100 else max 0 (100 - (price - minPrice) / minPrice * 100))"

definition price_factor :: "rat option \<Rightarrow> VendorPartAvailability \<Rightarrow> ScoreFactor" where
  "price_factor minPrice l = (case (va_unitPrice l, minPrice) of
     (Some p, Some m) \<Rightarrow> Known W_price (price_score m p)
       (''Price: '' @ or_else (va_currency l) [] @ '' '' @ show_num p)
   | _ \<Rightarrow> Missing ''price not on file'')"

definition reliability_factor :: "Vendor option \<Rightarrow> ScoreFactor" where
  "reliability_factor v = (case Option.bind v ve_reliabilityScore of
     Some s \<Rightarrow> Known W_reliability s (''Reliability score '' @ show_num s)
   | None \<Rightarrow> Missing ''vendor reliability history unavailable'')"

definition min_price :: "VendorPartAvailability list \<Rightarrow> rat option" where
  "min_price ls = (case List.map_filter va_unitPrice ls of [] \<Rightarrow> None | p # ps \<Rightarrow> Some (foldl min p ps))"

definition line_factors :: "world \<Rightarrow> rat option \<Rightarrow> VendorPartAvailability \<Rightarrow> ScoreFactor list" where
  "line_factors W minPrice l =
     [availability_factor l, certification_factor l, lead_time_factor l, price_factor minPrice l,
      reliability_factor (getVendorById W (va_vendorId l))]"

fun factor_weight :: "ScoreFactor \<Rightarrow> rat" where
  "factor_weight (Known w p t) = w"
| "factor_weight (Missing t) = 0"

fun factor_points :: "ScoreFactor \<Rightarrow> rat" where
  "factor_points (Known w p t) = w * p"
| "factor_points (Missing t) = 0"

fun factor_known :: "ScoreFactor \<Rightarrow> bool" where
  "factor_known (Known w p t) = True"
| "factor_known (Missing t) = False"

fun factor_text :: "ScoreFactor \<Rightarrow> string" where
  "factor_text (Known w p t) = t"
| "factor_text (Missing t) = t"

datatype ScoreConfidence = SCF_HIGH | SCF_MEDIUM | SCF_LOW | SCF_UNKNOWN

record VendorScoreResult =
  vs_vendorId :: string
  vs_vendorName :: string
  vs_line :: VendorPartAvailability
  vs_score :: "int option"
  vs_confidence :: ScoreConfidence
  vs_missingFactors :: "string list"
  vs_factors :: "string list"

definition factors_score :: "ScoreFactor list \<Rightarrow> int option" where
  "factors_score fs =
     (let weightedSum = sum_list (map factor_points fs); weightTotal = sum_list (map factor_weight fs)
      in if weightTotal > 0 then Some (math_round (weightedSum / weightTotal)) else None)"

definition factors_confidence :: "ScoreFactor list \<Rightarrow> ScoreConfidence" where
  "factors_confidence fs =
     (let weightTotal = sum_list (map factor_weight fs)
      in if factors_score fs = None then SCF_UNKNOWN
         else if weightTotal \<ge> 85 / 100 then SCF_HIGH
         else if weightTotal \<ge> 50 / 100 then SCF_MEDIUM
         else SCF_LOW)"

definition score_line :: "world \<Rightarrow> rat option \<Rightarrow> VendorPartAvailability \<Rightarrow> VendorScoreResult" where
  "score_line W minPrice l =
     (let fs = line_factors W minPrice l in
      \<lparr>vs_vendorId = va_vendorId l,
       vs_vendorName = (case getVendorById W (va_vendorId l) of None \<Rightarrow> va_vendorId l | Some v \<Rightarrow> ve_name v),
       vs_line = l, vs_score = factors_score fs, vs_confidence = factors_confidence fs,
       vs_missingFactors = map factor_text (filter (\<lambda>f. \<not> factor_known f) fs),
       vs_factors = map factor_text (filter factor_known fs)\<rparr>)"

definition score_cmp :: "VendorScoreResult \<Rightarrow> VendorScoreResult \<Rightarrow> int" where
  "score_cmp a b = or_else (vs_score b) (- 1) - or_else (vs_score a) (- 1)"

definition scoreVendorOptionsForPart :: "world \<Rightarrow> string \<Rightarrow> VendorScoreResult list" where
  "scoreVendorOptionsForPart W p =
     (let ls = vendorPartAvailabilityForPart W p
      in js_sort score_cmp (map (score_line W (min_price ls)) ls))"

section \<open>The cart\<close>

definition addCartItem :: "ProcurementCartItem \<Rightarrow> world \<Rightarrow> ProcurementCartItem \<times> world" where
  "addCartItem input W =
     (let n = cartCounter W + 1; item = input\<lparr>ct_id := ''cart-'' @ show_nat n\<rparr>
      in (item, W\<lparr>cartCounter := n, cartItems := cartItems W @ [item]\<rparr>))"

definition removeCartItem :: "string \<Rightarrow> world \<Rightarrow> bool \<times> world" where
  "removeCartItem i W =
     (case find (\<lambda>c. ct_id c = i) (cartItems W) of
        None \<Rightarrow> (False, W)
      | Some c \<Rightarrow> (True, W\<lparr>cartItems := remove_first (\<lambda>c. ct_id c = i) (cartItems W)\<rparr>))"

definition updateCartItemQuantity :: "string \<Rightarrow> int \<Rightarrow> world \<Rightarrow> world" where
  "updateCartItemQuantity i q W =
     W\<lparr>cartItems := update_first (\<lambda>c. ct_id c = i) (\<lambda>c. c\<lparr>ct_quantity := q\<rparr>) (cartItems W)\<rparr>"

definition clearCart :: "world \<Rightarrow> world" where
  "clearCart W = W\<lparr>cartItems := []\<rparr>"

text \<open>Neither an absent vendor nor the empty text is one.\<close>

definition vendor_given :: "string option \<Rightarrow> bool" where
  "vendor_given v \<longleftrightarrow> v \<noteq> None \<and> v \<noteq> Some []"

definition cart_line :: "world \<Rightarrow> ProcurementCartItem \<Rightarrow> VendorPartAvailability option" where
  "cart_line W item =
     (if vendor_given (ct_preferredVendorId item)
      then vendor_line W (ct_partId item) (or_else (ct_preferredVendorId item) []) else None)"

definition cartItemLineTotal :: "world \<Rightarrow> ProcurementCartItem \<Rightarrow> rat option" where
  "cartItemLineTotal W item =
     map_option (\<lambda>p. p * rat_of_int (ct_quantity item)) (Option.bind (cart_line W item) va_unitPrice)"

record CartSummary =
  cs_itemCount :: nat
  cs_itemsWithKnownPrice :: nat
  cs_knownTotal :: rat
  cs_fullyCalculable :: bool
  cs_currency :: "string option"

text \<open>The accumulator of the loop: the items with a price, their total, the currency, and whether it is mixed.\<close>

definition summary_item :: "world \<Rightarrow> nat \<times> rat \<times> string option \<times> bool \<Rightarrow> ProcurementCartItem \<Rightarrow>
    nat \<times> rat \<times> string option \<times> bool" where
  "summary_item W acc item = (case acc of (n, known, currency, mixed) \<Rightarrow>
     (case cartItemLineTotal W item of
        None \<Rightarrow> acc
      | Some t \<Rightarrow>
          let c = Option.bind (cart_line W item) va_currency
          in if \<not> vendor_given c then (n + 1, known + t, currency, mixed)
             else if currency = None then (n + 1, known + t, c, mixed)
             else if currency \<noteq> c then (n + 1, known + t, currency, True)
             else (n + 1, known + t, currency, mixed)))"

definition cartSummary :: "world \<Rightarrow> CartSummary" where
  "cartSummary W =
     (case foldl (summary_item W) (0, 0, None, False) (cartItems W) of (n, known, currency, mixed) \<Rightarrow>
        \<lparr>cs_itemCount = length (cartItems W), cs_itemsWithKnownPrice = n, cs_knownTotal = known,
         cs_fullyCalculable = (cartItems W \<noteq> [] \<and> n = length (cartItems W)),
         cs_currency = (if mixed then None else currency)\<rparr>)"

section \<open>Requests\<close>

definition today :: "int \<Rightarrow> string" where
  "today now = take 10 (toISOString now)"

definition request_id :: "nat \<Rightarrow> string" where
  "request_id n = ''pr-'' @ show_nat n"

definition new_request :: "nat \<Rightarrow> ProcurementCartItem \<Rightarrow> rat option \<Rightarrow> int \<Rightarrow> PartRequest" where
  "new_request n item cost now =
     \<lparr>pq_id = request_id n, pq_aircraftId = ct_aircraftId item, pq_workOrderId = ct_workOrderId item, pq_taskId = None,
      pq_requestedBy = ct_requestedBy item, pq_requestedAt = today now, pq_partNumber = ct_partNumber item,
      pq_partId = ct_partId item, pq_description = ct_description item, pq_quantity = ct_quantity item,
      pq_priority = ct_priority item, pq_reason = ct_justification item, pq_requiredBy = None,
      pq_preferredVendorId = ct_preferredVendorId item, pq_alternateVendorIds = [], pq_evidenceIds = [],
      pq_status = PQ_SUBMITTED, pq_estimatedCost = cost, pq_selectedVendorId = None, pq_approvedBy = None,
      pq_approvedAt = None, pq_rejectionReason = None, pq_clarificationNote = None, pq_source = SRC_DEMO_SEED\<rparr>"

definition createPartRequestFromCartItem :: "ProcurementCartItem \<Rightarrow> rat option \<Rightarrow> int \<Rightarrow> world \<Rightarrow> PartRequest \<times> world" where
  "createPartRequestFromCartItem item cost now W =
     (let n = requestCounter W + 1; r = new_request n item cost now
      in (r, W\<lparr>requestCounter := n, partRequests := partRequests W @ [r]\<rparr>))"

text \<open>\<open>a ?? b\<close>.\<close>

definition coalesce :: "'a option \<Rightarrow> 'a option \<Rightarrow> 'a option" where
  "coalesce a b = (if a = None then b else a)"

definition approved :: "string \<Rightarrow> string option \<Rightarrow> int \<Rightarrow> PartRequest \<Rightarrow> PartRequest" where
  "approved by vendor now r = r\<lparr>pq_status := PQ_APPROVED, pq_approvedBy := Some by, pq_approvedAt := Some (today now),
     pq_selectedVendorId := coalesce vendor (pq_preferredVendorId r)\<rparr>"

definition rejected :: "string \<Rightarrow> string \<Rightarrow> int \<Rightarrow> PartRequest \<Rightarrow> PartRequest" where
  "rejected by reason now r = r\<lparr>pq_status := PQ_REJECTED, pq_approvedBy := Some by, pq_approvedAt := Some (today now),
     pq_rejectionReason := Some reason\<rparr>"

definition returned :: "string \<Rightarrow> PartRequest \<Rightarrow> PartRequest" where
  "returned note r = r\<lparr>pq_status := PQ_CLARIFICATION_REQUIRED, pq_clarificationNote := Some note\<rparr>"

definition with_status :: "PartRequestStatus \<Rightarrow> PartRequest \<Rightarrow> PartRequest" where
  "with_status s r = r\<lparr>pq_status := s\<rparr>"

definition update_request :: "string \<Rightarrow> (PartRequest \<Rightarrow> PartRequest) \<Rightarrow> world \<Rightarrow> world" where
  "update_request i f W = W\<lparr>partRequests := update_first (\<lambda>r. pq_id r = i) f (partRequests W)\<rparr>"

text \<open>The three decisions return the record, or nothing when there is none.\<close>

definition decide_request :: "string \<Rightarrow> (PartRequest \<Rightarrow> PartRequest) \<Rightarrow> world \<Rightarrow> PartRequest option \<times> world" where
  "decide_request i f W =
     (case getPartRequestById W i of None \<Rightarrow> (None, W) | Some r \<Rightarrow> (Some (f r), update_request i f W))"

definition approvePartRequest :: "string \<Rightarrow> string \<Rightarrow> string option \<Rightarrow> int \<Rightarrow> world \<Rightarrow> PartRequest option \<times> world" where
  "approvePartRequest i by vendor now W = decide_request i (approved by vendor now) W"

definition rejectPartRequest :: "string \<Rightarrow> string \<Rightarrow> string \<Rightarrow> int \<Rightarrow> world \<Rightarrow> PartRequest option \<times> world" where
  "rejectPartRequest i by reason now W = decide_request i (rejected by reason now) W"

definition returnPartRequestForClarification :: "string \<Rightarrow> string \<Rightarrow> world \<Rightarrow> PartRequest option \<times> world" where
  "returnPartRequestForClarification i note W = decide_request i (returned note) W"

section \<open>Purchase orders\<close>

definition order_id :: "nat \<Rightarrow> string" where
  "order_id n = ''po-'' @ show_nat n"

definition new_order :: "world \<Rightarrow> nat \<Rightarrow> string \<Rightarrow> PartRequest \<Rightarrow> string \<Rightarrow> int \<Rightarrow> PurchaseOrder" where
  "new_order W n vendor r by now =
     (let line = vendor_line W (pq_partId r) vendor;
          part = (if vendor_given (pq_partId r) then getPartById W (or_else (pq_partId r) []) else None);
          unitPrice = Option.bind line va_unitPrice;
          subtotal = (case unitPrice of None \<Rightarrow> 0 | Some p \<Rightarrow> p * rat_of_int (pq_quantity r))
      in \<lparr>po_id = order_id n, po_poNumber = ''PO-2026-'' @ show_nat (1000 + n), po_vendorId = vendor,
          po_requestIds = [pq_id r],
          po_items = [\<lparr>pl_requestId = pq_id r, pl_partNumber = pq_partNumber r, pl_description = pq_description r,
            pl_manufacturer = Option.bind part pt_manufacturer, pl_quantity = pq_quantity r, pl_unitPrice = unitPrice,
            pl_currency = Option.bind line va_currency\<rparr>],
          po_aircraftId = Some (pq_aircraftId r),
          po_workOrderIds = (if vendor_given (pq_workOrderId r) then [or_else (pq_workOrderId r) []] else []),
          po_createdBy = by, po_approvedBy = pq_approvedBy r, po_createdAt = today now, po_status = PO_DRAFT,
          po_currency = or_else (Option.bind line va_currency) ''USD'', po_subtotal = subtotal, po_tax = None,
          po_shipping = None, po_total = subtotal, po_requiredBy = pq_requiredBy r, po_expectedDelivery = None,
          po_notes = None, po_vendorAcknowledgedAt = None, po_sentAt = None, po_source = SRC_DEMO_SEED\<rparr>)"

datatype OrderError = RequestNotFound | RequestNotApproved | NoVendorSelected | VendorNotFound

definition chosen_vendor :: "PartRequest \<Rightarrow> string option" where
  "chosen_vendor r = coalesce (pq_selectedVendorId r) (pq_preferredVendorId r)"

definition createPurchaseOrderFromRequest :: "string \<Rightarrow> string \<Rightarrow> int \<Rightarrow> world \<Rightarrow> (OrderError + PurchaseOrder) \<times> world" where
  "createPurchaseOrderFromRequest i by now W =
     (case getPartRequestById W i of
        None \<Rightarrow> (Inl RequestNotFound, W)
      | Some r \<Rightarrow>
          if pq_status r \<noteq> PQ_APPROVED then (Inl RequestNotApproved, W)
          else if \<not> vendor_given (chosen_vendor r) then (Inl NoVendorSelected, W)
          else (case getVendorById W (or_else (chosen_vendor r) []) of
                  None \<Rightarrow> (Inl VendorNotFound, W)
                | Some v \<Rightarrow>
                    let n = poCounter W + 1; po = new_order W n (or_else (chosen_vendor r) []) r by now
                    in (Inr po, update_request i (with_status PQ_ORDERED)
                          (W\<lparr>poCounter := n, purchaseOrders := purchaseOrders W @ [po]\<rparr>))))"

definition update_order :: "string \<Rightarrow> (PurchaseOrder \<Rightarrow> PurchaseOrder) \<Rightarrow> world \<Rightarrow> world" where
  "update_order i f W = W\<lparr>purchaseOrders := update_first (\<lambda>p. po_id p = i) f (purchaseOrders W)\<rparr>"

definition marked_sent :: "int \<Rightarrow> PurchaseOrder \<Rightarrow> PurchaseOrder" where
  "marked_sent now p = p\<lparr>po_status := PO_SENT, po_sentAt := Some (today now)\<rparr>"

definition marked_received :: "PurchaseOrder \<Rightarrow> PurchaseOrder" where
  "marked_received p = p\<lparr>po_status := PO_RECEIVED\<rparr>"

definition sendPurchaseOrder :: "string \<Rightarrow> int \<Rightarrow> world \<Rightarrow> PurchaseOrder option \<times> world" where
  "sendPurchaseOrder i now W =
     (case getPurchaseOrderById W i of
        None \<Rightarrow> (None, W)
      | Some p \<Rightarrow> (Some (marked_sent now p), update_order i (marked_sent now) W))"

definition receivePurchaseOrder :: "string \<Rightarrow> world \<Rightarrow> PurchaseOrder option \<times> world" where
  "receivePurchaseOrder i W =
     (case getPurchaseOrderById W i of
        None \<Rightarrow> (None, W)
      | Some p \<Rightarrow> (Some (marked_received p),
          foldl (\<lambda>W r. update_request r (with_status PQ_RECEIVED) W) (update_order i marked_received W) (po_requestIds p)))"

section \<open>The machine\<close>

datatype ProcurementOp =
    AddToCart ProcurementCartItem
  | RemoveFromCart string
  | SetCartQuantity string int
  | EmptyCart
  | SubmitRequest ProcurementCartItem "rat option" int
  | ApproveRequest string string "string option" int
  | RejectRequest string string string int
  | ReturnRequest string string
  | GenerateOrder string string int
  | SendOrder string int
  | ReceiveOrder string

fun procurement_step :: "world \<Rightarrow> ProcurementOp \<Rightarrow> world" where
  "procurement_step W (AddToCart item) = snd (addCartItem item W)"
| "procurement_step W (RemoveFromCart i) = snd (removeCartItem i W)"
| "procurement_step W (SetCartQuantity i q) = updateCartItemQuantity i q W"
| "procurement_step W EmptyCart = clearCart W"
| "procurement_step W (SubmitRequest item cost now) = snd (createPartRequestFromCartItem item cost now W)"
| "procurement_step W (ApproveRequest i by v now) = snd (approvePartRequest i by v now W)"
| "procurement_step W (RejectRequest i by reason now) = snd (rejectPartRequest i by reason now W)"
| "procurement_step W (ReturnRequest i note) = snd (returnPartRequestForClarification i note W)"
| "procurement_step W (GenerateOrder i by now) = snd (createPurchaseOrderFromRequest i by now W)"
| "procurement_step W (SendOrder i now) = snd (sendPurchaseOrder i now W)"
| "procurement_step W (ReceiveOrder i) = snd (receivePurchaseOrder i W)"

lemmas procurement_operations =
  addCartItem_def removeCartItem_def updateCartItemQuantity_def clearCart_def createPartRequestFromCartItem_def
  approvePartRequest_def rejectPartRequest_def returnPartRequestForClarification_def
  createPurchaseOrderFromRequest_def sendPurchaseOrder_def receivePurchaseOrder_def

section \<open>The invariant of the store\<close>

text \<open>Identifiers are distinct and none is ahead of its counter.\<close>

definition ids_ok :: "(nat \<Rightarrow> string) \<Rightarrow> nat \<Rightarrow> string list \<Rightarrow> bool" where
  "ids_ok f n ks \<longleftrightarrow> distinct ks \<and> (\<forall>k. f k \<in> set ks \<longrightarrow> k \<le> n)"

definition cart_id :: "nat \<Rightarrow> string" where
  "cart_id n = ''cart-'' @ show_nat n"

definition order_sum :: "PurchaseOrder \<Rightarrow> rat" where
  "order_sum p = (\<Sum>l \<leftarrow> po_items p. case pl_unitPrice l of None \<Rightarrow> 0 | Some x \<Rightarrow> x * rat_of_int (pl_quantity l))"

text \<open>What a purchase order says of itself: its sums, and one item for each request.\<close>

definition order_sound :: "PurchaseOrder \<Rightarrow> bool" where
  "order_sound p \<longleftrightarrow> po_subtotal p = order_sum p \<and> po_total p = po_subtotal p \<and>
     map pl_requestId (po_items p) = po_requestIds p"

definition orders_known :: "world \<Rightarrow> bool" where
  "orders_known W \<longleftrightarrow>
     (\<forall>p \<in> set (purchaseOrders W). set (po_requestIds p) \<subseteq> set (map pq_id (partRequests W)) \<and> order_sound p)"

definition listed :: "world \<Rightarrow> string \<Rightarrow> bool" where
  "listed W i \<longleftrightarrow> (\<exists>p \<in> set (purchaseOrders W). i \<in> set (po_requestIds p))"

definition ordered_backed :: "world \<Rightarrow> bool" where
  "ordered_backed W \<longleftrightarrow> (\<forall>r \<in> set (partRequests W). pq_status r = PQ_ORDERED \<longrightarrow> listed W (pq_id r))"

definition procurement_inv :: "world \<Rightarrow> bool" where
  "procurement_inv W \<longleftrightarrow>
     ids_ok cart_id (cartCounter W) (map ct_id (cartItems W)) \<and>
     ids_ok request_id (requestCounter W) (map pq_id (partRequests W)) \<and>
     ids_ok order_id (poCounter W) (map po_id (purchaseOrders W)) \<and>
     orders_known W \<and> ordered_backed W"

lemma id_inj [simp]:
  "cart_id m = cart_id n \<longleftrightarrow> m = n" "request_id m = request_id n \<longleftrightarrow> m = n" "order_id m = order_id n \<longleftrightarrow> m = n"
  by (simp_all add: cart_id_def request_id_def order_id_def)

lemma ids_ok_snoc:
  assumes "ids_ok f n ks" and "\<And>i j. f i = f j \<longleftrightarrow> i = j"
  shows "ids_ok f (n + 1) (ks @ [f (n + 1)])"
proof -
  have "f (n + 1) \<notin> set ks" using assms(1) by (auto simp: ids_ok_def)
  then show ?thesis using assms by (auto simp: ids_ok_def le_SucI)
qed

lemma ids_ok_remove: "ids_ok f n (map key xs) \<Longrightarrow> ids_ok f n (map key (remove_first P xs))"
proof -
  have "distinct (map key xs) \<Longrightarrow> distinct (map key (remove_first P xs))"
    by (induction xs) (use remove_first_subset in fastforce)+
  then show "ids_ok f n (map key xs) \<Longrightarrow> ids_ok f n (map key (remove_first P xs))"
    using remove_first_subset [of P xs] by (fastforce simp: ids_ok_def)
qed

interpretation quantity_upd: keyed_update ct_id "\<lambda>c. c\<lparr>ct_quantity := q\<rparr>" for q
  by unfold_locales simp

interpretation approve_upd: keyed_update pq_id "approved by v now" for "by" v now
  by unfold_locales (simp add: approved_def)

interpretation reject_upd: keyed_update pq_id "rejected by reason now" for "by" reason now
  by unfold_locales (simp add: rejected_def)

interpretation return_upd: keyed_update pq_id "returned remark" for remark
  by unfold_locales (simp add: returned_def)

interpretation status_upd: keyed_update pq_id "with_status s" for s
  by unfold_locales (simp add: with_status_def)

interpretation sent_upd: keyed_update po_id "marked_sent now" for now
  by unfold_locales (simp add: marked_sent_def)

interpretation received_upd: keyed_update po_id marked_received
  by unfold_locales (simp add: marked_received_def)

text \<open>What a decision on a request leaves alone.\<close>

lemma update_request_frame [simp]:
  "cartItems (update_request i f W) = cartItems W" "cartCounter (update_request i f W) = cartCounter W"
  "requestCounter (update_request i f W) = requestCounter W" "poCounter (update_request i f W) = poCounter W"
  "purchaseOrders (update_request i f W) = purchaseOrders W" "vendors (update_request i f W) = vendors W"
  "listed (update_request i f W) = listed W"
  by (simp_all add: update_request_def listed_def fun_eq_iff)

lemma update_order_frame [simp]:
  "cartItems (update_order i f W) = cartItems W" "cartCounter (update_order i f W) = cartCounter W"
  "requestCounter (update_order i f W) = requestCounter W" "poCounter (update_order i f W) = poCounter W"
  "partRequests (update_order i f W) = partRequests W"
  by (simp_all add: update_order_def)

lemma update_request_ids:
  assumes "\<And>r. pq_id (f r) = pq_id r"
  shows "map pq_id (partRequests (update_request i f W)) = map pq_id (partRequests W)"
  using keyed_update.keys_update [of pq_id f] assms by (simp add: update_request_def keyed_update_def)

lemma updated_request_mem:
  "r \<in> set (partRequests (update_request i f W)) \<Longrightarrow>
   r \<in> set (partRequests W) \<or> (\<exists>x \<in> set (partRequests W). pq_id x = i \<and> r = f x)"
  unfolding update_request_def using set_update_first [of r "\<lambda>r. pq_id r = i" f "partRequests W"]
  by (auto dest: find_Some_mem)

lemma orders_known_request:
  assumes id: "\<And>r. pq_id (f r) = pq_id r" and known: "orders_known W"
  shows "orders_known (update_request i f W)"
  using known by (simp only: orders_known_def update_request_frame update_request_ids [OF id])

lemma inv_update_request:
  assumes inv: "procurement_inv W" and id: "\<And>r. pq_id (f r) = pq_id r"
    and backed: "\<And>r. pq_status (f r) = PQ_ORDERED \<Longrightarrow> listed W (pq_id r)"
  shows "procurement_inv (update_request i f W)"
proof -
  have known: "orders_known W" using inv by (simp add: procurement_inv_def)
  have "ordered_backed (update_request i f W)"
    unfolding ordered_backed_def
  proof (intro ballI impI)
    fix r
    assume "r \<in> set (partRequests (update_request i f W))" and st: "pq_status r = PQ_ORDERED"
    then consider "r \<in> set (partRequests W)" | x where "pq_id x = i" "r = f x"
      using updated_request_mem by blast
    then show "listed (update_request i f W) (pq_id r)"
      using inv st id backed by cases (auto simp: procurement_inv_def ordered_backed_def)
  qed
  moreover have "orders_known (update_request i f W)" by (rule orders_known_request [OF id known])
  ultimately show ?thesis
    using inv by (simp add: procurement_inv_def update_request_ids [OF id] del: list.map_comp map_map)
qed

lemma inv_decide:
  assumes "procurement_inv W" and "\<And>r. pq_id (f r) = pq_id r" and "\<And>r. pq_status (f r) \<noteq> PQ_ORDERED"
  shows "procurement_inv (snd (decide_request i f W))"
  using assms inv_update_request [of W f i] by (simp add: decide_request_def split: option.split)

lemma inv_update_order:
  assumes inv: "procurement_inv W" and f: "\<And>p. po_id (f p) = po_id p"
    "\<And>p. po_requestIds (f p) = po_requestIds p" "\<And>p. order_sound (f p) = order_sound p"
  shows "procurement_inv (update_order i f W)"
proof -
  have ids: "map po_id (purchaseOrders (update_order i f W)) = map po_id (purchaseOrders W)"
    using keyed_update.keys_update [of po_id f] f(1) by (simp add: update_order_def keyed_update_def)
  have mem: "\<exists>x \<in> set (purchaseOrders W). po_requestIds p = po_requestIds x \<and> order_sound p = order_sound x"
    if "p \<in> set (purchaseOrders (update_order i f W))" for p
    using that set_update_first [of p "\<lambda>p. po_id p = i" f "purchaseOrders W"] f(2,3)
    by (auto simp: update_order_def dest!: find_Some_mem)
  have "map po_requestIds (purchaseOrders (update_order i f W)) = map po_requestIds (purchaseOrders W)"
    using keyed_update.keys_update [of po_requestIds f] f(2) by (simp add: update_order_def keyed_update_def)
  then have "listed (update_order i f W) = listed W"
    unfolding listed_def fun_eq_iff by (metis (no_types, lifting) in_set_conv_nth length_map nth_map)
  then have "ordered_backed (update_order i f W)"
    using inv by (simp add: procurement_inv_def ordered_backed_def)
  moreover have "orders_known (update_order i f W)"
    using inv mem unfolding procurement_inv_def orders_known_def update_order_frame by metis
  ultimately show ?thesis using inv ids by (simp add: procurement_inv_def)
qed

lemma order_status_frame [simp]:
  "order_sound (marked_sent now p) = order_sound p" "order_sound (marked_received p) = order_sound p"
  "po_requestIds (marked_sent now p) = po_requestIds p" "po_requestIds (marked_received p) = po_requestIds p"
  by (simp_all add: order_sound_def order_sum_def marked_sent_def marked_received_def)

lemma new_order_sound: "order_sound (new_order W n v r by now)"
  by (simp add: order_sound_def order_sum_def new_order_def Let_def split: option.split)

text \<open>The two records a creation appends.\<close>

lemma inv_new_request:
  assumes inv: "procurement_inv W"
  shows "procurement_inv (snd (createPartRequestFromCartItem item cost now W))"
proof -
  have "ids_ok request_id (requestCounter W + 1) (map pq_id (partRequests W) @ [request_id (requestCounter W + 1)])"
    using inv by (intro ids_ok_snoc) (simp_all add: procurement_inv_def)
  then show ?thesis
    using inv
    by (auto simp: procurement_inv_def createPartRequestFromCartItem_def Let_def new_request_def orders_known_def
        ordered_backed_def listed_def)
qed

lemma inv_new_order:
  assumes inv: "procurement_inv W"
  shows "procurement_inv (snd (createPurchaseOrderFromRequest i by now W))"
proof (cases "\<exists>v r. getPartRequestById W i = Some r \<and> pq_status r = PQ_APPROVED \<and> vendor_given (chosen_vendor r) \<and>
    getVendorById W (or_else (chosen_vendor r) []) = Some v")
  case True
  then obtain r where r: "getPartRequestById W i = Some r" by blast
  let ?po = "new_order W (poCounter W + 1) (or_else (chosen_vendor r) []) r by now"
  let ?W = "W\<lparr>poCounter := poCounter W + 1, purchaseOrders := purchaseOrders W @ [?po]\<rparr>"
  have rid: "pq_id r = i" "r \<in> set (partRequests W)" using r by (auto simp: getPartRequestById_def dest: find_Some_mem)
  have po: "po_id ?po = order_id (poCounter W + 1)" "po_requestIds ?po = [i]"
    using rid by (simp_all add: new_order_def Let_def)
  have "ids_ok order_id (poCounter W + 1) (map po_id (purchaseOrders W) @ [order_id (poCounter W + 1)])"
    using inv by (intro ids_ok_snoc) (simp_all add: procurement_inv_def)
  then have W: "procurement_inv ?W"
    using inv rid po new_order_sound
    by (auto simp: procurement_inv_def orders_known_def ordered_backed_def listed_def)
  have "listed ?W i" using po by (auto simp: listed_def)
  have "procurement_inv (update_request i (with_status PQ_ORDERED) ?W)"
    unfolding procurement_inv_def
  proof (intro conjI)
    show "ordered_backed (update_request i (with_status PQ_ORDERED) ?W)"
      unfolding ordered_backed_def
    proof (intro ballI impI)
      fix x
      assume "x \<in> set (partRequests (update_request i (with_status PQ_ORDERED) ?W))" and st: "pq_status x = PQ_ORDERED"
      then consider "x \<in> set (partRequests ?W)" | y where "pq_id y = i" "x = with_status PQ_ORDERED y"
        using updated_request_mem by blast
      then show "listed (update_request i (with_status PQ_ORDERED) ?W) (pq_id x)"
        using W st \<open>listed ?W i\<close> by cases (auto simp: procurement_inv_def ordered_backed_def with_status_def)
    qed
    show "orders_known (update_request i (with_status PQ_ORDERED) ?W)"
      by (rule orders_known_request) (use W in \<open>simp_all add: procurement_inv_def status_upd.key_upd\<close>)
  qed (use W in \<open>simp_all add: procurement_inv_def update_request_ids status_upd.key_upd\<close>)
  then show ?thesis using True r by (auto simp: createPurchaseOrderFromRequest_def Let_def)
next
  case False
  then have "snd (createPurchaseOrderFromRequest i by now W) = W"
    by (auto simp: createPurchaseOrderFromRequest_def Let_def split: option.split)
  then show ?thesis using inv by simp
qed

lemma inv_receive:
  assumes inv: "procurement_inv W"
  shows "procurement_inv (snd (receivePurchaseOrder i W))"
proof -
  have "procurement_inv (foldl (\<lambda>W r. update_request r (with_status PQ_RECEIVED) W) V rs)" if "procurement_inv V" for V rs
    using that
  proof (induction rs arbitrary: V)
    case (Cons r rs)
    have "procurement_inv (update_request r (with_status PQ_RECEIVED) V)"
      by (rule inv_update_request [OF Cons.prems]) (simp_all add: with_status_def)
    then show ?case using Cons.IH by simp
  qed simp
  moreover have "procurement_inv (update_order i marked_received W)"
    by (rule inv_update_order [OF inv]) (simp_all add: received_upd.key_upd)
  ultimately show ?thesis using inv by (simp add: receivePurchaseOrder_def split: option.split)
qed

interpretation procurement: machine procurement_step procurement_inv
proof
  fix W op
  assume inv: "procurement_inv W"
  show "procurement_inv (procurement_step W op)"
  proof (cases op)
    case (AddToCart item)
    have "ids_ok cart_id (cartCounter W + 1) (map ct_id (cartItems W) @ [cart_id (cartCounter W + 1)])"
      using inv by (intro ids_ok_snoc) (simp_all add: procurement_inv_def)
    then show ?thesis
      using inv AddToCart
      by (auto simp: procurement_inv_def addCartItem_def Let_def cart_id_def orders_known_def ordered_backed_def listed_def)
  next
    case (RemoveFromCart i)
    then show ?thesis
      using inv by (auto simp: procurement_inv_def removeCartItem_def orders_known_def ordered_backed_def listed_def
          intro: ids_ok_remove split: option.split)
  next
    case (SetCartQuantity i q)
    then show ?thesis
      using inv
      by (auto simp: procurement_inv_def updateCartItemQuantity_def quantity_upd.keys_update orders_known_def
          ordered_backed_def listed_def)
  next
    case EmptyCart
    then show ?thesis
      using inv by (auto simp: procurement_inv_def clearCart_def ids_ok_def orders_known_def ordered_backed_def listed_def)
  next
    case (SendOrder i now)
    have "procurement_inv (update_order i (marked_sent now) W)"
      by (rule inv_update_order [OF inv]) (simp_all add: sent_upd.key_upd)
    then show ?thesis using inv SendOrder by (simp add: sendPurchaseOrder_def split: option.split)
  qed (use inv in \<open>simp_all add: inv_new_request inv_new_order inv_receive inv_decide approvePartRequest_def
      rejectPartRequest_def returnPartRequestForClarification_def approved_def rejected_def returned_def\<close>)
qed

lemma supply_requests:
  "partRequests supply_world = [seed_pr_1, seed_pr_2]" "purchaseOrders supply_world = []" "cartItems supply_world = []"
  "requestCounter supply_world = 2" "vendors supply_world = seed_vendors"
  "vendorPartAvailability supply_world = seed_vendorPartAvailability"
  by (simp_all add: supply_world_def seed_partRequests_def seed_world_def empty_world_def)

lemma seed_request_ids: "pq_id seed_pr_1 = request_id 1" "pq_id seed_pr_2 = request_id 2"
  by code_simp+

lemma supply_inv: "procurement_inv supply_world"
proof -
  have "pq_status seed_pr_1 = PQ_RECEIVED" "pq_status seed_pr_2 = PQ_SUBMITTED"
    by (simp_all add: seed_pr_1_def seed_pr_2_def)
  then show ?thesis
    by (simp add: procurement_inv_def ids_ok_def orders_known_def ordered_backed_def supply_requests seed_request_ids)
qed

definition sample_item :: ProcurementCartItem where
  "sample_item =
     \<lparr>ct_id = [], ct_partNumber = ''HP-442'', ct_partId = Some ''part-1'', ct_description = ''Hydraulic Pump Seal Kit'',
      ct_quantity = 2, ct_aircraftId = ''ac-1'', ct_workOrderId = Some ''wo-1050'', ct_priority = PP_ROUTINE,
      ct_justification = ''Seals'', ct_requestedBy = ''user-3'', ct_preferredVendorId = Some ''vendor-1'', ct_notes = None\<rparr>"

text \<open>
  Whatever is done with the cart, the requests and the orders, their identifiers stay distinct, every order sums
  up its items and belongs to requests that exist, and a request that counts as ordered is on some order.
\<close>

theorem procurement_store_invariant: "procurement_inv W \<Longrightarrow> procurement_inv (run procurement_step W ops)"
  by (rule procurement.run_inv)

theorem procurement_store_invariant_witness:
  "procurement_inv (run procurement_step supply_world
     [AddToCart sample_item, SubmitRequest sample_item None 0, ApproveRequest ''pr-3'' ''user-3'' None 0,
      GenerateOrder ''pr-3'' ''user-3'' 0, SendOrder ''po-1'' 0, ReceiveOrder ''po-1''])"
  by (rule procurement_store_invariant [OF supply_inv])

section \<open>Nothing is rewritten\<close>

text \<open>What was asked for and what was ordered: everything but the decision and the delivery.\<close>

definition asked :: "PartRequest \<Rightarrow> PartRequest" where
  "asked r = r\<lparr>pq_status := PQ_DRAFT, pq_selectedVendorId := None, pq_approvedBy := None, pq_approvedAt := None,
     pq_rejectionReason := None, pq_clarificationNote := None\<rparr>"

definition ordered_goods :: "PurchaseOrder \<Rightarrow> PurchaseOrder" where
  "ordered_goods p = p\<lparr>po_status := PO_DRAFT, po_sentAt := None\<rparr>"

definition extends_by :: "('a \<Rightarrow> 'b) \<Rightarrow> 'a list \<Rightarrow> 'a list \<Rightarrow> bool" where
  "extends_by f xs ys \<longleftrightarrow> (\<exists>zs. map f ys = map f xs @ zs)"

definition procurement_kept :: "world \<Rightarrow> world \<Rightarrow> bool" where
  "procurement_kept V W \<longleftrightarrow> extends_by asked (partRequests V) (partRequests W) \<and>
     extends_by ordered_goods (purchaseOrders V) (purchaseOrders W)"

lemma extends_by_simps [simp]: "extends_by f xs xs" "extends_by f xs (xs @ ys)"
  by (simp_all add: extends_by_def)

lemma extends_by_trans: "extends_by f xs ys \<Longrightarrow> extends_by f ys zs \<Longrightarrow> extends_by f xs zs"
  by (auto simp: extends_by_def)

lemma extends_by_update: "(\<And>x. f (g x) = f x) \<Longrightarrow> extends_by f xs (update_first P g xs)"
  using keyed_update.keys_update [of f g P xs] by (simp add: extends_by_def keyed_update_def)

lemma asked_simps [simp]:
  "asked (approved by v now r) = asked r" "asked (rejected by reason now r) = asked r"
  "asked (returned remark r) = asked r" "asked (with_status s r) = asked r"
  "ordered_goods (marked_sent now p) = ordered_goods p" "ordered_goods (marked_received p) = ordered_goods p"
  by (simp_all add: asked_def approved_def rejected_def returned_def with_status_def ordered_goods_def marked_sent_def marked_received_def)

lemma ordered_goods_frame:
  "po_id (ordered_goods p) = po_id p" "po_vendorId (ordered_goods p) = po_vendorId p"
  "po_items (ordered_goods p) = po_items p" "po_total (ordered_goods p) = po_total p"
  by (simp_all add: ordered_goods_def)

lemma kept_request: "(\<And>r. asked (f r) = asked r) \<Longrightarrow> procurement_kept W (update_request i f W)"
  by (simp add: procurement_kept_def update_request_def extends_by_update)

lemma kept_order: "(\<And>p. ordered_goods (f p) = ordered_goods p) \<Longrightarrow> procurement_kept W (update_order i f W)"
  by (simp add: procurement_kept_def update_order_def extends_by_update)

lemma kept_grow:
  "partRequests W = partRequests V @ rs \<Longrightarrow> purchaseOrders W = purchaseOrders V @ ps \<Longrightarrow> procurement_kept V W"
  "partRequests W = partRequests V \<Longrightarrow> purchaseOrders W = purchaseOrders V \<Longrightarrow> procurement_kept V W"
  "partRequests W = partRequests V @ rs \<Longrightarrow> purchaseOrders W = purchaseOrders V \<Longrightarrow> procurement_kept V W"
  by (simp_all add: procurement_kept_def)

lemma kept_trans: "procurement_kept U V \<Longrightarrow> procurement_kept V W \<Longrightarrow> procurement_kept U W"
  by (auto simp: procurement_kept_def elim: extends_by_trans)

lemma kept_decide: "(\<And>r. asked (f r) = asked r) \<Longrightarrow> procurement_kept W (snd (decide_request i f W))"
  by (simp add: decide_request_def kept_request split: option.split) (simp add: procurement_kept_def)

lemma kept_receive: "procurement_kept W (snd (receivePurchaseOrder i W))"
proof -
  have "procurement_kept V (foldl (\<lambda>W r. update_request r (with_status PQ_RECEIVED) W) V rs)" for V rs
  proof (induction rs arbitrary: V)
    case Nil
    then show ?case by (simp add: procurement_kept_def)
  next
    case (Cons r rs)
    have "procurement_kept V (update_request r (with_status PQ_RECEIVED) V)" by (rule kept_request) simp
    from kept_trans [OF this Cons.IH] show ?case by simp
  qed
  moreover have "procurement_kept W (update_order i marked_received W)" by (rule kept_order) simp
  ultimately have "procurement_kept W (foldl (\<lambda>W r. update_request r (with_status PQ_RECEIVED) W) (update_order i marked_received W) rs)"
    for rs by (rule kept_trans [rotated])
  then show ?thesis by (simp add: receivePurchaseOrder_def kept_grow(2) split: option.split)
qed

lemma kept_new_order: "procurement_kept W (snd (createPurchaseOrderFromRequest i by now W))"
proof -
  have "procurement_kept W (update_request i (with_status PQ_ORDERED) (W\<lparr>poCounter := n, purchaseOrders := purchaseOrders W @ [po]\<rparr>))"
    for n po
  proof (rule kept_trans)
    show "procurement_kept W (W\<lparr>poCounter := n, purchaseOrders := purchaseOrders W @ [po]\<rparr>)"
      by (simp add: procurement_kept_def)
    show "procurement_kept (W\<lparr>poCounter := n, purchaseOrders := purchaseOrders W @ [po]\<rparr>)
        (update_request i (with_status PQ_ORDERED) (W\<lparr>poCounter := n, purchaseOrders := purchaseOrders W @ [po]\<rparr>))"
      by (rule kept_request) (rule asked_simps)
  qed
  then show ?thesis
    by (simp add: createPurchaseOrderFromRequest_def Let_def kept_grow(2) split: option.split)
qed

interpretation procurement_history: monotone_machine procurement_step procurement_kept
proof
  show "procurement_kept W W" for W by (simp add: procurement_kept_def)
  show "procurement_kept U V \<Longrightarrow> procurement_kept V W \<Longrightarrow> procurement_kept U W" for U V W by (rule kept_trans)
  show "procurement_kept W (procurement_step W op)" for W op
  proof (cases op)
    case (SendOrder i now)
    then show ?thesis
      by (simp add: sendPurchaseOrder_def kept_order split: option.split) (simp add: procurement_kept_def)
  next
    case (RemoveFromCart i)
    then show ?thesis by (simp add: removeCartItem_def procurement_kept_def split: option.split)
  qed (simp_all add: kept_receive kept_new_order kept_decide kept_grow approvePartRequest_def rejectPartRequest_def
      returnPartRequestForClarification_def addCartItem_def updateCartItemQuantity_def clearCart_def
      createPartRequestFromCartItem_def Let_def)
qed

lemma extends_by_member:
  assumes "extends_by f xs ys" and "x \<in> set xs"
  obtains y where "y \<in> set ys" "f y = f x"
proof -
  obtain zs where "map f ys = map f xs @ zs" using assms(1) by (auto simp: extends_by_def)
  then have "f x \<in> f ` set ys" using assms(2) by (metis UnCI image_eqI image_set set_append)
  then show ?thesis using that by force
qed

text \<open>
  No operation removes or rewrites what was asked for or ordered: every request and every order stays, with
  its part, quantity, vendor and sums; only the decision on it and its delivery change.
\<close>

theorem procurement_history_kept:
  assumes "p \<in> set (purchaseOrders W)"
  shows "\<exists>p' \<in> set (purchaseOrders (run procurement_step W ops)).
    po_id p' = po_id p \<and> po_vendorId p' = po_vendorId p \<and> po_items p' = po_items p \<and> po_total p' = po_total p"
proof -
  have "extends_by ordered_goods (purchaseOrders W) (purchaseOrders (run procurement_step W ops))"
    using procurement_history.run_rel [of W ops] by (simp add: procurement_kept_def)
  then obtain p' where "p' \<in> set (purchaseOrders (run procurement_step W ops))" "ordered_goods p' = ordered_goods p"
    using assms by (rule extends_by_member)
  then show ?thesis using ordered_goods_frame [of p'] ordered_goods_frame [of p] by metis
qed

definition sample_order :: PurchaseOrder where
  "sample_order = new_order supply_world 1 ''vendor-1'' (new_request 3 sample_item None 0) ''user-3'' 0"

theorem procurement_history_kept_witness:
  "\<exists>p' \<in> set (purchaseOrders (run procurement_step (supply_world\<lparr>purchaseOrders := [sample_order]\<rparr>) [SendOrder ''po-1'' 0])).
    po_id p' = po_id sample_order \<and> po_vendorId p' = po_vendorId sample_order \<and> po_items p' = po_items sample_order \<and>
    po_total p' = po_total sample_order"
  by (rule procurement_history_kept) simp

section \<open>The ranking of the vendors\<close>

text \<open>The data the score relies on: no price is negative, and a reliability is between 0 and 100.\<close>

definition price_ok :: "VendorPartAvailability \<Rightarrow> bool" where
  "price_ok l \<longleftrightarrow> (case va_unitPrice l of None \<Rightarrow> True | Some x \<Rightarrow> 0 \<le> x)"

definition reliability_ok :: "Vendor \<Rightarrow> bool" where
  "reliability_ok v \<longleftrightarrow> (case ve_reliabilityScore v of None \<Rightarrow> True | Some x \<Rightarrow> 0 \<le> x \<and> x \<le> 100)"

definition prices_ok :: "world \<Rightarrow> bool" where
  "prices_ok W \<longleftrightarrow> list_all price_ok (vendorPartAvailability W) \<and> list_all reliability_ok (vendors W)"

definition factor_ok :: "ScoreFactor \<Rightarrow> bool" where
  "factor_ok f \<longleftrightarrow> 0 \<le> factor_weight f \<and> 0 \<le> factor_points f \<and> factor_points f \<le> 100 * factor_weight f \<and>
     (factor_known f \<longleftrightarrow> 0 < factor_weight f)"

lemma foldl_min_le: "foldl min (p::rat) ps \<le> p \<and> (\<forall>x \<in> set ps. foldl min p ps \<le> x)"
proof (induction ps arbitrary: p)
  case (Cons a ps)
  have "foldl min (min p a) ps \<le> min p a" using Cons.IH by blast
  then show ?case using Cons.IH [of "min p a"] by simp
qed simp

lemma foldl_min_mem: "foldl min (p::rat) ps \<in> insert p (set ps)"
  by (induction ps arbitrary: p) (auto simp: min_def)

lemma map_filter_member: "x \<in> set (List.map_filter f xs) \<longleftrightarrow> (\<exists>y \<in> set xs. f y = Some x)"
  by (induction xs) (auto simp: List.map_filter_simps split: option.splits)

lemma min_price_bounds:
  assumes "min_price ls = Some m" and "list_all price_ok ls"
  shows "0 \<le> m" and "l \<in> set ls \<Longrightarrow> va_unitPrice l = Some x \<Longrightarrow> m \<le> x"
proof -
  obtain p ps where ps: "List.map_filter va_unitPrice ls = p # ps" "m = foldl min p ps"
    using assms(1) by (auto simp: min_price_def split: list.splits)
  have "m \<in> set (List.map_filter va_unitPrice ls)" using foldl_min_mem [of p ps] ps by auto
  then obtain l' where "l' \<in> set ls" "va_unitPrice l' = Some m" by (auto simp: map_filter_member)
  moreover from this have "price_ok l'" using assms(2) by (simp add: list_all_iff)
  ultimately show "0 \<le> m" by (simp add: price_ok_def)
  show "m \<le> x" if "l \<in> set ls" "va_unitPrice l = Some x"
  proof -
    have "x \<in> set (List.map_filter va_unitPrice ls)" unfolding map_filter_member using that by (intro bexI [of _ l])
    then have "x = p \<or> x \<in> set ps" by (simp add: ps(1))
    then show ?thesis using foldl_min_le [of p ps] unfolding ps(2) by blast
  qed
qed

lemma price_score_bounds:
  assumes "0 \<le> m" and "m \<le> x"
  shows "0 \<le> price_score m x" and "price_score m x \<le> 100"
proof -
  have "0 \<le> (x - m) / m * 100" if "m \<noteq> 0" using assms that by simp
  then show "0 \<le> price_score m x" "price_score m x \<le> 100" by (auto simp: price_score_def)
qed

lemma price_factor_ok:
  assumes "min_price ls = mp" and "list_all price_ok ls" and "l \<in> set ls"
  shows "factor_ok (price_factor mp l)"
proof (cases "va_unitPrice l")
  case None
  then show ?thesis by (simp add: factor_ok_def price_factor_def)
next
  case (Some x)
  show ?thesis
  proof (cases mp)
    case None
    then show ?thesis using Some by (simp add: factor_ok_def price_factor_def)
  next
    fix m
    assume m: "mp = Some m"
    have "0 \<le> m" "m \<le> x" using min_price_bounds [of ls m] assms Some m by auto
    from price_score_bounds [OF this] show ?thesis
      using Some m by (simp add: factor_ok_def price_factor_def W_price_def)
  qed
qed

lemma line_factors_ok:
  assumes ok: "prices_ok W" and l: "l \<in> set (vendorPartAvailabilityForPart W p)"
  shows "list_all factor_ok (line_factors W (min_price (vendorPartAvailabilityForPart W p)) l)"
proof -
  have "list_all price_ok (vendorPartAvailabilityForPart W p)"
    using ok by (auto simp: prices_ok_def vendorPartAvailabilityForPart_def list_all_iff)
  from price_factor_ok [OF refl this l]
  have "factor_ok (price_factor (min_price (vendorPartAvailabilityForPart W p)) l)" .
  moreover have "factor_ok (reliability_factor (getVendorById W (va_vendorId l)))"
  proof (cases "Option.bind (getVendorById W (va_vendorId l)) ve_reliabilityScore")
    case None
    then show ?thesis by (simp add: reliability_factor_def factor_ok_def)
  next
    case (Some x)
    then obtain v where v: "getVendorById W (va_vendorId l) = Some v" "ve_reliabilityScore v = Some x"
      by (auto simp: bind_eq_Some_conv)
    have "v \<in> set (vendors W)" using v(1) by (auto simp: getVendorById_def dest: find_Some_mem)
    then have "reliability_ok v" using ok by (simp add: prices_ok_def list_all_iff)
    then show ?thesis using Some v(2) by (simp add: reliability_factor_def factor_ok_def reliability_ok_def W_reliability_def)
  qed
  moreover have "factor_ok (availability_factor l)"
    by (cases "va_availabilityStatus l")
      (simp_all add: availability_factor_def factor_ok_def W_availability_def AVAILABILITY_SCORE_def)
  moreover have "factor_ok (certification_factor l)"
    by (cases "va_certificationStatus l")
      (simp_all add: certification_factor_def factor_ok_def W_certification_def CERT_SCORE_def)
  moreover have "factor_ok (lead_time_factor l)"
    by (cases "va_leadTimeDays l") (simp_all add: lead_time_factor_def factor_ok_def W_leadTime_def)
  ultimately show ?thesis by (simp add: line_factors_def)
qed

lemma factor_sums:
  assumes "list_all factor_ok fs"
  shows "0 \<le> sum_list (map factor_points fs)"
    "sum_list (map factor_points fs) \<le> 100 * sum_list (map factor_weight fs)"
    "0 \<le> sum_list (map factor_weight fs)"
    "0 < sum_list (map factor_weight fs) \<longleftrightarrow> filter factor_known fs \<noteq> []"
proof -
  have "0 \<le> sum_list (map factor_points fs) \<and> sum_list (map factor_points fs) \<le> 100 * sum_list (map factor_weight fs) \<and>
    0 \<le> sum_list (map factor_weight fs) \<and> (0 < sum_list (map factor_weight fs) \<longleftrightarrow> filter factor_known fs \<noteq> [])"
    using assms
  proof (induction fs)
    case (Cons f fs)
    then have f: "0 \<le> factor_weight f" "0 \<le> factor_points f" "factor_points f \<le> 100 * factor_weight f"
        "factor_known f \<longleftrightarrow> 0 < factor_weight f"
      by (simp_all add: factor_ok_def)
    have fs: "list_all factor_ok fs" using Cons.prems by simp
    from Cons.IH [OF fs] f(1-3) have "0 < factor_weight f + sum_list (map factor_weight fs) \<longleftrightarrow>
        0 < factor_weight f \<or> 0 < sum_list (map factor_weight fs)"
      by linarith
    then show ?case using Cons.IH [OF fs] f by simp
  qed simp
  then show "0 \<le> sum_list (map factor_points fs)"
    "sum_list (map factor_points fs) \<le> 100 * sum_list (map factor_weight fs)"
    "0 \<le> sum_list (map factor_weight fs)"
    "0 < sum_list (map factor_weight fs) \<longleftrightarrow> filter factor_known fs \<noteq> []" by blast+
qed

lemma factors_score_bounds:
  assumes ok: "list_all factor_ok fs"
  shows "case factors_score fs of None \<Rightarrow> filter factor_known fs = [] | Some k \<Rightarrow> 0 \<le> k \<and> k \<le> 100"
proof (cases "0 < sum_list (map factor_weight fs)")
  case True
  define q where "q = sum_list (map factor_points fs) / sum_list (map factor_weight fs)"
  have "0 \<le> q" "q \<le> 100" unfolding q_def using factor_sums [OF ok] True by (simp_all add: divide_le_eq)
  then have "0 \<le> math_round q" "math_round q \<le> 100" by (simp_all add: math_round_def le_floor_iff floor_le_iff)
  then show ?thesis using True by (simp add: factors_score_def q_def Let_def)
next
  case False
  then show ?thesis using factor_sums(4) [OF ok] by (simp add: factors_score_def Let_def)
qed

text \<open>The comparator is the difference of a rank, so that the sort puts the highest score first.\<close>

interpretation vendor_rank: rank_comparator "\<lambda>r. - or_else (vs_score r) (- 1)" .

lemma score_cmp_rank: "score_cmp = (\<lambda>a b. - or_else (vs_score a) (- 1) - - or_else (vs_score b) (- 1))"
  by (simp add: score_cmp_def fun_eq_iff)

lemma options_mset:
  "mset (map vs_line (scoreVendorOptionsForPart W p)) = mset (vendorPartAvailabilityForPart W p)"
proof -
  have "vs_line \<circ> score_line W mp = id" for mp by (simp add: fun_eq_iff score_line_def Let_def)
  then show ?thesis by (simp add: scoreVendorOptionsForPart_def Let_def image_mset.compositionality)
qed

lemma option_of_line:
  assumes "r \<in> set (scoreVendorOptionsForPart W p)"
  obtains l where "l \<in> set (vendorPartAvailabilityForPart W p)"
    "r = score_line W (min_price (vendorPartAvailabilityForPart W p)) l"
  using assms by (auto simp: scoreVendorOptionsForPart_def Let_def)

lemma options_sorted:
  "sorted_wrt (\<lambda>a b. or_else (vs_score a) (- 1) \<ge> or_else (vs_score b) (- 1)) (scoreVendorOptionsForPart W p)"
  using vendor_rank.by_rank.js_sort_sorted [of "map (score_line W (min_price (vendorPartAvailabilityForPart W p)))
    (vendorPartAvailabilityForPart W p)"]
  by (simp add: scoreVendorOptionsForPart_def Let_def score_cmp_rank)

text \<open>
  C20 The ranking of the vendors of a part: every line of the part is scored exactly once, the best score comes
  first, a score lies between 0 and 100 and is absent only when nothing is known of the line, and of the five
  factors each is either named as known or named as missing.
\<close>

theorem vendor_ranking_sound:
  assumes ok: "prices_ok W"
  shows "mset (map vs_line (scoreVendorOptionsForPart W p)) = mset (vendorPartAvailabilityForPart W p) \<and>
    sorted_wrt (\<lambda>a b. or_else (vs_score a) (- 1) \<ge> or_else (vs_score b) (- 1)) (scoreVendorOptionsForPart W p) \<and>
    (\<forall>r \<in> set (scoreVendorOptionsForPart W p).
       (case vs_score r of None \<Rightarrow> vs_factors r = [] | Some k \<Rightarrow> 0 \<le> k \<and> k \<le> 100) \<and>
       length (vs_factors r) + length (vs_missingFactors r) = 5)"
proof (intro conjI ballI)
  show "mset (map vs_line (scoreVendorOptionsForPart W p)) = mset (vendorPartAvailabilityForPart W p)"
    by (rule options_mset)
  show "sorted_wrt (\<lambda>a b. or_else (vs_score a) (- 1) \<ge> or_else (vs_score b) (- 1)) (scoreVendorOptionsForPart W p)"
    by (rule options_sorted)
  fix r
  assume "r \<in> set (scoreVendorOptionsForPart W p)"
  then obtain l where l: "l \<in> set (vendorPartAvailabilityForPart W p)"
      "r = score_line W (min_price (vendorPartAvailabilityForPart W p)) l"
    by (rule option_of_line)
  let ?fs = "line_factors W (min_price (vendorPartAvailabilityForPart W p)) l"
  show "case vs_score r of None \<Rightarrow> vs_factors r = [] | Some k \<Rightarrow> 0 \<le> k \<and> k \<le> 100"
    using factors_score_bounds [OF line_factors_ok [OF ok l(1)]]
    by (simp add: l(2) score_line_def Let_def split: option.splits)
  have "length ?fs = 5" by (simp add: line_factors_def)
  then show "length (vs_factors r) + length (vs_missingFactors r) = 5"
    using sum_length_filter_compl [of factor_known ?fs] by (simp add: l(2) score_line_def Let_def)
qed

theorem vendor_ranking_sound_witness:
  "mset (map vs_line (scoreVendorOptionsForPart supply_world ''part-5'')) =
   mset (vendorPartAvailabilityForPart supply_world ''part-5'') \<and>
   sorted_wrt (\<lambda>a b. or_else (vs_score a) (- 1) \<ge> or_else (vs_score b) (- 1)) (scoreVendorOptionsForPart supply_world ''part-5'')"
proof -
  have "list_all price_ok seed_vendorPartAvailability" "list_all reliability_ok seed_vendors" by code_simp+
  then have "prices_ok supply_world" by (simp add: prices_ok_def supply_requests)
  from vendor_ranking_sound [OF this, of "''part-5''"] show ?thesis by blast
qed

text \<open>High confidence needs the availability, the certification and the lead time, and the price or the reliability.\<close>

lemma high_confidence:
  "factors_confidence (line_factors W mp l) = SCF_HIGH \<longleftrightarrow>
   va_availabilityStatus l \<noteq> AV_UNKNOWN \<and> va_certificationStatus l \<noteq> PCS_UNKNOWN \<and> va_leadTimeDays l \<noteq> None \<and>
   (factor_known (price_factor mp l) \<or> factor_known (reliability_factor (getVendorById W (va_vendorId l))))"
proof -
  have a: "factor_weight (availability_factor l) = (if va_availabilityStatus l \<noteq> AV_UNKNOWN then 30 / 100 else 0)"
    by (simp add: availability_factor_def W_availability_def)
  have b: "factor_weight (certification_factor l) = (if va_certificationStatus l \<noteq> PCS_UNKNOWN then 25 / 100 else 0)"
    by (simp add: certification_factor_def W_certification_def)
  have c: "factor_weight (lead_time_factor l) = (if va_leadTimeDays l \<noteq> None then 20 / 100 else 0)"
    by (simp add: lead_time_factor_def W_leadTime_def split: option.split)
  have d: "factor_weight (price_factor mp l) = (if factor_known (price_factor mp l) then 15 / 100 else 0)"
    by (simp add: price_factor_def W_price_def split: option.split)
  have e: "factor_weight (reliability_factor v) = (if factor_known (reliability_factor v) then 10 / 100 else 0)" for v
    by (simp add: reliability_factor_def W_reliability_def split: option.split)
  define ka kb kc kd ke where k: "ka = (va_availabilityStatus l \<noteq> AV_UNKNOWN)" "kb = (va_certificationStatus l \<noteq> PCS_UNKNOWN)"
    "kc = (va_leadTimeDays l \<noteq> None)" "kd = factor_known (price_factor mp l)"
    "ke = factor_known (reliability_factor (getVendorById W (va_vendorId l)))"
  define t where "t = (if ka then 30 / 100 else 0) + ((if kb then 25 / 100 else 0) + ((if kc then 20 / 100 else 0) +
    ((if kd then 15 / 100 else 0) + (if ke then 10 / 100 else (0::rat)))))"
  have "sum_list (map factor_weight (line_factors W mp l)) = t"
    by (simp add: line_factors_def a b c d e t_def k)
  then have "factors_confidence (line_factors W mp l) = SCF_HIGH \<longleftrightarrow> t \<ge> 85 / 100"
    by (auto simp: factors_confidence_def factors_score_def Let_def)
  also have "\<dots> \<longleftrightarrow> ka \<and> kb \<and> kc \<and> (kd \<or> ke)"
    unfolding t_def by (cases ka; cases kb; cases kc; cases kd; cases ke) simp_all
  finally show ?thesis by (simp add: k)
qed

section \<open>The summary of the cart\<close>

text \<open>The currencies of the items that have a price, and the state of the loop after some items.\<close>

definition priced_currencies :: "world \<Rightarrow> ProcurementCartItem list \<Rightarrow> string list" where
  "priced_currencies W items = List.map_filter (\<lambda>i.
     if cartItemLineTotal W i = None then None
     else let c = Option.bind (cart_line W i) va_currency in if vendor_given c then c else None) items"

definition loop_state :: "world \<Rightarrow> ProcurementCartItem list \<Rightarrow> nat \<times> rat \<times> string option \<times> bool" where
  "loop_state W items =
     (let cs = priced_currencies W items in
      (count_if (\<lambda>i. cartItemLineTotal W i \<noteq> None) items, sum_list (List.map_filter (cartItemLineTotal W) items),
       (case cs of [] \<Rightarrow> None | c # _ \<Rightarrow> Some c), list_ex (\<lambda>c. c \<noteq> hd cs) cs))"

lemma map_filter_snoc:
  "List.map_filter f (xs @ [x]) = List.map_filter f xs @ (case f x of None \<Rightarrow> [] | Some y \<Rightarrow> [y])"
  by (simp add: List.map_filter_def split: option.split)

lemma count_if_snoc: "count_if P (xs @ [x]) = count_if P xs + (if P x then 1 else 0)"
  by (simp add: count_if_def)

lemma loop_state_snoc: "loop_state W (items @ [i]) = summary_item W (loop_state W items) i"
proof (cases "cartItemLineTotal W i")
  case None
  then have "priced_currencies W (items @ [i]) = priced_currencies W items"
    by (simp add: priced_currencies_def map_filter_snoc)
  then show ?thesis using None by (simp add: loop_state_def summary_item_def map_filter_snoc count_if_snoc Let_def)
next
  case (Some t)
  define c where "c = Option.bind (cart_line W i) va_currency"
  have cs: "priced_currencies W (items @ [i]) = priced_currencies W items @ (if vendor_given c then [or_else c []] else [])"
    using Some by (auto simp: priced_currencies_def map_filter_snoc c_def vendor_given_def Let_def or_else_def split: option.splits)
  show ?thesis
    using Some
    by (cases "priced_currencies W items"; cases c)
      (auto simp: loop_state_def summary_item_def map_filter_snoc count_if_snoc cs c_def [symmetric] vendor_given_def
        Let_def or_else_def)
qed

lemma loop_result: "foldl (summary_item W) (0, 0, None, False) items = loop_state W items"
proof (induction items rule: rev_induct)
  case Nil
  show ?case by (simp add: loop_state_def priced_currencies_def count_if_def List.map_filter_def Let_def)
next
  case (snoc i items)
  then show ?case by (simp add: loop_state_snoc)
qed

text \<open>
  The summary of the cart adds up exactly the items whose price is known, counts them, is complete only when
  every item of a cart with items is among them, and names a currency only when all of them that have one agree.
\<close>

theorem cart_summary_exact:
  "cs_itemCount (cartSummary W) = length (cartItems W) \<and>
   cs_itemsWithKnownPrice (cartSummary W) = count_if (\<lambda>i. cartItemLineTotal W i \<noteq> None) (cartItems W) \<and>
   cs_knownTotal (cartSummary W) = sum_list (List.map_filter (cartItemLineTotal W) (cartItems W)) \<and>
   (cs_fullyCalculable (cartSummary W) \<longleftrightarrow> cartItems W \<noteq> [] \<and> list_all (\<lambda>i. cartItemLineTotal W i \<noteq> None) (cartItems W)) \<and>
   (cs_currency (cartSummary W) = Some c \<longleftrightarrow> set (priced_currencies W (cartItems W)) = {c})"
proof -
  have "count_if P xs = length xs \<longleftrightarrow> list_all P xs" for P and xs :: "ProcurementCartItem list"
  proof (induction xs)
    case (Cons x xs)
    then show ?case using count_if_le [of P xs] by auto
  qed simp
  then show ?thesis
    by (cases "priced_currencies W (cartItems W)")
      (auto simp: cartSummary_def loop_result loop_state_def Let_def list_ex_iff)
qed

end
