(* ===== verification/ProcurementDesk.thy ===== *)
theory ProcurementDesk
  imports Procurement SupplySeed MroState Roles
begin

text \<open>
  The pages of the procurement (\<open>src/frontend/app/(app)/procurement/parts\<close>, \<open>cart\<close>, \<open>approvals/[id]\<close> and
  \<open>purchase-orders/[id]\<close>, each its \<open>page.tsx\<close>) over the store of \<open>Procurement\<close> and the audit log of \<open>MroState\<close>.
  A browser shows one of them at a time; going to another one forgets the local state of the page. A user can only press
  what is shown. Shown: through the pages a request is ordered at most once and received only after it was
  sent, which the operations of the store alone do not give, and every request can be brought to its end.
\<close>

section \<open>Who is signed in\<close>

definition DEV_DEMO_USER_ID :: string where
  "DEV_DEMO_USER_ID = ''user-3''"

text \<open>The user, and the name of the role when there is one (\<open>lib/domain/currentUser.ts\<close>).\<close>

definition getCurrentUser :: "RoleStore \<Rightarrow> (UserAccount \<times> Role option) option" where
  "getCurrentUser st = map_option (\<lambda>u. (u, getRoleById st (user_roleId u))) (getUserById DEV_DEMO_USER_ID)"

definition current_name :: "RoleStore \<Rightarrow> string" where
  "current_name st = (case getCurrentUser st of None \<Rightarrow> ''Unknown User'' | Some (u, r) \<Rightarrow> user_name u)"

definition current_role :: "RoleStore \<Rightarrow> string \<Rightarrow> string" where
  "current_role st fallback = (case getCurrentUser st of Some (u, Some r) \<Rightarrow> role_name r | _ \<Rightarrow> fallback)"

section \<open>The part search\<close>

definition workOrdersRequiringPart :: "world \<Rightarrow> string \<Rightarrow> WorkOrder list" where
  "workOrdersRequiringPart W p = filter (\<lambda>w. p \<in> set (wo_requiredPartIds w) \<and> wo_open w) (workOrders W)"

definition part_matches :: "world \<Rightarrow> string \<Rightarrow> string option \<Rightarrow> PartAvailabilityStatus option \<Rightarrow>
    PartCertificationStatus option \<Rightarrow> Part \<Rightarrow> bool" where
  "part_matches W query aircraftFilter availabilityFilter certFilter p =
     (let q = toLowerCase (trim query); ls = vendorPartAvailabilityForPart W (pt_id p) in
      \<not> (q \<noteq> [] \<and> \<not> (str_includes (toLowerCase (pt_partNumber p)) q \<or> str_includes (toLowerCase (pt_description p)) q \<or>
                       str_includes (toLowerCase (or_else (pt_manufacturer p) [])) q)) \<and>
      (case aircraftFilter of None \<Rightarrow> True
       | Some a \<Rightarrow> list_ex (\<lambda>w. wo_aircraftId w = a) (workOrdersRequiringPart W (pt_id p))) \<and>
      (case availabilityFilter of None \<Rightarrow> True | Some s \<Rightarrow> list_ex (\<lambda>l. va_availabilityStatus l = s) ls) \<and>
      (case certFilter of None \<Rightarrow> True | Some s \<Rightarrow> list_ex (\<lambda>l. va_certificationStatus l = s) ls))"

definition part_search :: "world \<Rightarrow> string \<Rightarrow> string option \<Rightarrow> PartAvailabilityStatus option \<Rightarrow>
    PartCertificationStatus option \<Rightarrow> Part list" where
  "part_search W query a s c = filter (part_matches W query a s c) (parts W)"

text \<open>The best option of a part (\<open>BestOptionSummary\<close>) and what speaks for it.\<close>

definition best_option :: "VendorScoreResult list \<Rightarrow> VendorScoreResult option" where
  "best_option ss = find (\<lambda>s. vs_score s \<noteq> None) ss"

definition price_cmp :: "VendorScoreResult \<Rightarrow> VendorScoreResult \<Rightarrow> int" where
  "price_cmp a b = (let x = or_else (va_unitPrice (vs_line a)) 0; y = or_else (va_unitPrice (vs_line b)) 0
     in if x < y then - 1 else if y < x then 1 else 0)"

definition cheapest_known :: "VendorScoreResult list \<Rightarrow> VendorScoreResult option" where
  "cheapest_known ss = (case js_sort price_cmp (filter (\<lambda>s. va_unitPrice (vs_line s) \<noteq> None) ss) of
     [] \<Rightarrow> None | s # _ \<Rightarrow> Some s)"

definition best_reasons :: "VendorScoreResult list \<Rightarrow> string list" where
  "best_reasons ss = (case best_option ss of
     None \<Rightarrow> []
   | Some b \<Rightarrow>
       (if va_availabilityStatus (vs_line b) = AV_IN_STOCK then [''Known availability (in stock)''] else []) @
       (if va_unitPrice (vs_line b) \<noteq> None then [''Known price''] else []) @
       (if va_certificationStatus (vs_line b) = PCS_VERIFIED then [''Verified traceability/certification''] else []) @
       (if map_option vs_vendorId (cheapest_known ss) = Some (vs_vendorId b)
        then [''Lowest known cost among compared vendors''] else []))"

lemma find_split: "find P xs = Some b \<Longrightarrow> \<exists>as bs. xs = as @ b # bs \<and> (\<forall>a \<in> set as. \<not> P a)"
proof (induction xs)
  case (Cons x xs)
  show ?case
  proof (cases "P x")
    case True
    then show ?thesis using Cons.prems by (intro exI [of _ "[]"] exI [of _ xs]) simp
  next
    case False
    then obtain as bs where "xs = as @ b # bs" "\<forall>a \<in> set as. \<not> P a" using Cons by auto
    then show ?thesis using False by (intro exI [of _ "x # as"] exI [of _ bs]) simp
  qed
qed simp

text \<open>The first option with a score is one with the highest.\<close>

lemma best_option_highest:
  assumes "best_option (scoreVendorOptionsForPart W p) = Some b" and "x \<in> set (scoreVendorOptionsForPart W p)"
  shows "or_else (vs_score x) (- 1) \<le> or_else (vs_score b) (- 1) \<or> vs_score x = None"
proof (cases "vs_score x")
  case (Some k)
  obtain as bs where split: "scoreVendorOptionsForPart W p = as @ b # bs" and none: "\<forall>a \<in> set as. vs_score a = None"
    using find_split [OF assms(1) [unfolded best_option_def]] by blast
  have "sorted_wrt (\<lambda>a b. or_else (vs_score a) (- 1) \<ge> or_else (vs_score b) (- 1)) (as @ b # bs)"
    using options_sorted [of W p] by (simp add: split)
  moreover have "x = b \<or> x \<in> set bs" using assms(2) none Some split by auto
  ultimately show ?thesis by (auto simp: sorted_wrt_append)
qed simp

section \<open>State\<close>

datatype DeskView = ViewParts string | ViewCart | ViewRequest string | ViewOrder string

datatype DecisionMode = DecisionIdle | Rejecting | Clarifying

text \<open>The search of the parts: the text and the three filters.\<close>

type_synonym PartSearch = "string \<times> string option \<times> PartAvailabilityStatus option \<times> PartCertificationStatus option"

definition parts_shown :: "world \<Rightarrow> PartSearch \<Rightarrow> Part list" where
  "parts_shown W z = (case z of (query, a, s, c) \<Rightarrow> part_search W query a s c)"

definition opening_search :: "DeskView \<Rightarrow> PartSearch" where
  "opening_search v = (case v of ViewParts q \<Rightarrow> (q, None, None, None) | _ \<Rightarrow> ([], None, None, None))"

record Desk =
  desk_world :: world
  desk_mro :: MroWorld
  desk_view :: DeskView
  desk_search :: PartSearch
  desk_added :: "(string \<times> string) list"
  desk_confirmingId :: "string option"
  desk_submittedIds :: "string list"
  desk_mode :: DecisionMode
  desk_rejectReason :: string
  desk_clarificationNote :: string
  desk_poError :: "OrderError option"
  desk_showEmailPreview :: bool

definition visit :: "DeskView \<Rightarrow> Desk \<Rightarrow> Desk" where
  "visit v d = d\<lparr>desk_view := v, desk_search := opening_search v, desk_added := [], desk_confirmingId := None, desk_submittedIds := [],
     desk_mode := DecisionIdle, desk_rejectReason := [], desk_clarificationNote := [], desk_poError := None,
     desk_showEmailPreview := False\<rparr>"

definition desk_init :: "world \<Rightarrow> MroWorld \<Rightarrow> Desk" where
  "desk_init W m =
     \<lparr>desk_world = W, desk_mro = m, desk_view = ViewParts [], desk_search = opening_search (ViewParts []), desk_added = [], desk_confirmingId = None,
      desk_submittedIds = [], desk_mode = DecisionIdle, desk_rejectReason = [], desk_clarificationNote = [],
      desk_poError = None, desk_showEmailPreview = False\<rparr>"

definition procurement_event :: "string \<Rightarrow> string \<Rightarrow> string \<Rightarrow> string \<Rightarrow> string \<Rightarrow> string option \<Rightarrow> string option \<Rightarrow>
    string option \<Rightarrow> AuditInput" where
  "procurement_event actor actor_role action kind label previous new reason =
     \<lparr>ain_actor = actor, ain_actorRole = actor_role, ain_action = ''procurement.'' @ action, ain_objectType = kind,
      ain_objectLabel = label, ain_previousState = previous, ain_newState = new, ain_reason = reason, ain_timestamp = None\<rparr>"

definition audited :: "AuditInput \<Rightarrow> int \<Rightarrow> Desk \<Rightarrow> Desk" where
  "audited ev now d = d\<lparr>desk_mro := addAuditEvent ev now (desk_mro d)\<rparr>"

text \<open>What the form of a vendor holds when its button is pressed.\<close>

record AddForm =
  add_part :: string
  add_vendor :: string
  add_workOrder :: string
  add_quantity :: int
  add_priority :: PartRequestPriority
  add_justification :: string

definition cart_input :: "RoleStore \<Rightarrow> Part \<Rightarrow> WorkOrder \<Rightarrow> AddForm \<Rightarrow> ProcurementCartItem" where
  "cart_input st p w f =
     \<lparr>ct_id = [], ct_partNumber = pt_partNumber p, ct_partId = Some (pt_id p), ct_description = pt_description p,
      ct_quantity = add_quantity f, ct_aircraftId = wo_aircraftId w, ct_workOrderId = Some (wo_id w),
      ct_priority = add_priority f, ct_justification = trim (add_justification f),
      ct_requestedBy = (case getCurrentUser st of None \<Rightarrow> ''unknown'' | Some (u, r) \<Rightarrow> user_id u),
      ct_preferredVendorId = Some (add_vendor f), ct_notes = None\<rparr>"

text \<open>A changed search forgets what was added in the rows that go.\<close>

definition refine_search :: "PartSearch \<Rightarrow> Desk \<Rightarrow> Desk" where
  "refine_search z d = d\<lparr>desk_search := z,
     desk_added := filter (\<lambda>(p, v). p \<in> set (map pt_id (parts_shown (desk_world d) z))) (desk_added d)\<rparr>"

definition add_to_cart :: "RoleStore \<Rightarrow> AddForm \<Rightarrow> int \<Rightarrow> Desk \<Rightarrow> Desk" where
  "add_to_cart st f now d =
     (let W = desk_world d in
      case (find (\<lambda>p. pt_id p = add_part f) (parts_shown W (desk_search d)), find (\<lambda>w. wo_id w = add_workOrder f) (workOrdersRequiringPart W (add_part f))) of
        (Some p, Some w) \<Rightarrow>
          if trim (add_justification f) = [] \<or> add_quantity f < 1 \<or> (add_part f, add_vendor f) \<in> set (desk_added d) \<or>
             add_vendor f \<notin> set (map va_vendorId (vendorPartAvailabilityForPart W (add_part f)))
          then d
          else audited (procurement_event (current_name st) ''Technician'' ''cart_item_added'' ''ProcurementCartItem''
                 (pt_partNumber p @ '' x'' @ show_int (add_quantity f)) None (Some ''IN_CART'') None) now
               (d\<lparr>desk_world := snd (addCartItem (cart_input st p w f) W),
                  desk_added := (add_part f, add_vendor f) # desk_added d\<rparr>)
      | _ \<Rightarrow> d)"

section \<open>The cart\<close>

definition remove_item :: "RoleStore \<Rightarrow> string \<Rightarrow> int \<Rightarrow> Desk \<Rightarrow> Desk" where
  "remove_item st i now d =
     audited (procurement_event (current_name st) ''Technician'' ''cart_item_removed'' ''ProcurementCartItem'' i
       (Some ''IN_CART'') None None) now (d\<lparr>desk_world := snd (removeCartItem i (desk_world d))\<rparr>)"

definition setQty :: "RoleStore \<Rightarrow> string \<Rightarrow> int \<Rightarrow> int \<Rightarrow> int \<Rightarrow> Desk \<Rightarrow> Desk" where
  "setQty st i qty previousQty now d =
     (let q = max 1 qty in
      if q = previousQty then d
      else audited (procurement_event (current_name st) ''Technician'' ''cart_updated'' ''ProcurementCartItem'' i
             (Some (''qty '' @ show_int previousQty)) (Some (''qty '' @ show_int q)) None) now
           (d\<lparr>desk_world := updateCartItemQuantity i q (desk_world d)\<rparr>))"

definition confirmSubmit :: "RoleStore \<Rightarrow> ProcurementCartItem \<Rightarrow> int \<Rightarrow> Desk \<Rightarrow> Desk" where
  "confirmSubmit st item now d =
     (case createPartRequestFromCartItem item (cartItemLineTotal (desk_world d) item) now (desk_world d) of
        (r, W) \<Rightarrow>
          audited (procurement_event (current_name st) ''Technician'' ''request_submitted'' ''PartRequest'' (pq_id r) None
              (Some ''SUBMITTED'') (Some (pq_reason r))) now
            (d\<lparr>desk_world := snd (removeCartItem (ct_id item) W), desk_confirmingId := None,
               desk_submittedIds := desk_submittedIds d @ [pq_id r]\<rparr>))"

section \<open>A request\<close>

definition undecided :: "PartRequest \<Rightarrow> bool" where
  "undecided r \<longleftrightarrow> pq_status r = PQ_SUBMITTED \<or> pq_status r = PQ_UNDER_REVIEW"

datatype Decision = DecideApprove | DecideReject | DecideClarify

definition decide :: "RoleStore \<Rightarrow> PartRequest \<Rightarrow> Decision \<Rightarrow> int \<Rightarrow> Desk \<Rightarrow> Desk" where
  "decide st r action now d =
     (case getCurrentUser st of
        None \<Rightarrow> d
      | Some (u, _) \<Rightarrow>
          let i = pq_id r; W = desk_world d;
              log = (\<lambda>act new reason. audited (procurement_event (user_name u) (current_role st ''Management'') act
                ''PartRequest'' i (Some ''SUBMITTED'') (Some new) reason) now)
          in (case action of
                DecideApprove \<Rightarrow> log ''request_approved'' ''APPROVED'' None
                  (d\<lparr>desk_world := snd (approvePartRequest i (user_id u) (pq_preferredVendorId r) now W), desk_mode := DecisionIdle\<rparr>)
              | DecideReject \<Rightarrow>
                  let reason = trim (desk_rejectReason d) in
                  if reason = [] then d
                  else log ''request_rejected'' ''REJECTED'' (Some reason)
                    (d\<lparr>desk_world := snd (rejectPartRequest i (user_id u) reason now W), desk_mode := DecisionIdle\<rparr>)
              | DecideClarify \<Rightarrow>
                  let remark = trim (desk_clarificationNote d) in
                  if remark = [] then d
                  else log ''clarification_requested'' ''CLARIFICATION_REQUIRED'' (Some remark)
                    (d\<lparr>desk_world := snd (returnPartRequestForClarification i remark W), desk_mode := DecisionIdle\<rparr>)))"

definition generate_order :: "RoleStore \<Rightarrow> PartRequest \<Rightarrow> int \<Rightarrow> Desk \<Rightarrow> Desk" where
  "generate_order st r now d =
     (case getCurrentUser st of
        None \<Rightarrow> d
      | Some (u, _) \<Rightarrow>
          (case createPurchaseOrderFromRequest (pq_id r) (user_id u) now (desk_world d) of
             (Inl e, W) \<Rightarrow> d\<lparr>desk_poError := Some e\<rparr>
           | (Inr po, W) \<Rightarrow>
               visit (ViewOrder (po_id po))
                 (audited (procurement_event (user_name u) (current_role st ''Procurement'') ''po_generated''
                   ''PurchaseOrder'' (po_poNumber po) None (Some ''DRAFT'') None) now (d\<lparr>desk_world := W\<rparr>))))"

section \<open>An order\<close>

definition send_order :: "RoleStore \<Rightarrow> PurchaseOrder \<Rightarrow> int \<Rightarrow> Desk \<Rightarrow> Desk" where
  "send_order st p now d =
     (case getCurrentUser st of
        None \<Rightarrow> d
      | Some (u, _) \<Rightarrow>
          audited (procurement_event (user_name u) (current_role st ''Procurement'') ''po_sent'' ''PurchaseOrder''
              (po_poNumber p) (Some ''DRAFT'') (Some ''SENT'') None) now
            (d\<lparr>desk_world := snd (sendPurchaseOrder (po_id p) now (desk_world d)), desk_showEmailPreview := False\<rparr>))"

text \<open>The status of the entry is read after the update, from the object that was updated.\<close>

definition receive_order :: "RoleStore \<Rightarrow> PurchaseOrder \<Rightarrow> int \<Rightarrow> Desk \<Rightarrow> Desk" where
  "receive_order st p now d =
     (case getCurrentUser st of
        None \<Rightarrow> d
      | Some (u, _) \<Rightarrow>
          (case receivePurchaseOrder (po_id p) (desk_world d) of (result, W) \<Rightarrow>
             let status = (case result of None \<Rightarrow> po_status p | Some x \<Rightarrow> po_status x) in
             audited (procurement_event (user_name u) (current_role st ''Receiving'') ''po_received'' ''PurchaseOrder''
                 (po_poNumber p) (Some (lit_PurchaseOrderStatus status)) (Some ''RECEIVED'') None) now
               (d\<lparr>desk_world := W\<rparr>)))"

section \<open>The pages as a machine\<close>

datatype DeskEvent =
    Visit DeskView
  | TypeSearch PartSearch
  | PressAdd AddForm
  | PressRemove string
  | PressLess string
  | PressMore string
  | PressSubmit string
  | PressLeaveSubmit
  | PressConfirmSubmit
  | PressApprove
  | PressReject
  | PressClarify
  | TypeReason string
  | TypeNote string
  | PressLeaveDecision
  | PressConfirmReject
  | PressConfirmClarify
  | PressGenerate
  | PressSend
  | PressLeaveSend
  | PressConfirmSend
  | PressReceive

definition in_cart :: "string \<Rightarrow> Desk \<Rightarrow> ProcurementCartItem option" where
  "in_cart i d = (if desk_view d = ViewCart then find (\<lambda>c. ct_id c = i) (cartItems (desk_world d)) else None)"

definition request_shown :: "Desk \<Rightarrow> PartRequest option" where
  "request_shown d = (case desk_view d of ViewRequest i \<Rightarrow> getPartRequestById (desk_world d) i | _ \<Rightarrow> None)"

definition order_shown :: "Desk \<Rightarrow> PurchaseOrder option" where
  "order_shown d = (case desk_view d of ViewOrder i \<Rightarrow> getPurchaseOrderById (desk_world d) i | _ \<Rightarrow> None)"

text \<open>The request while its decision is asked for in this mode.\<close>

definition deciding :: "DecisionMode \<Rightarrow> Desk \<Rightarrow> PartRequest option" where
  "deciding m d = (case request_shown d of None \<Rightarrow> None | Some r \<Rightarrow> if undecided r \<and> desk_mode d = m then Some r else None)"

definition with_item :: "ProcurementCartItem option \<Rightarrow> (ProcurementCartItem \<Rightarrow> Desk) \<Rightarrow> Desk \<Rightarrow> Desk" where
  "with_item c f d = (case c of None \<Rightarrow> d | Some x \<Rightarrow> f x)"

fun desk_press :: "RoleStore \<Rightarrow> int \<Rightarrow> Desk \<Rightarrow> DeskEvent \<Rightarrow> Desk" where
  "desk_press st now d (Visit v) = visit v d"
| "desk_press st now d (TypeSearch z) = (case desk_view d of ViewParts _ \<Rightarrow> refine_search z d | _ \<Rightarrow> d)"
| "desk_press st now d (PressAdd f) = (case desk_view d of ViewParts _ \<Rightarrow> add_to_cart st f now d | _ \<Rightarrow> d)"
| "desk_press st now d (PressRemove i) = with_item (in_cart i d) (\<lambda>c. remove_item st i now d) d"
| "desk_press st now d (PressLess i) =
     with_item (in_cart i d) (\<lambda>c. if ct_quantity c \<le> 1 then d else setQty st i (ct_quantity c - 1) (ct_quantity c) now d) d"
| "desk_press st now d (PressMore i) =
     with_item (in_cart i d) (\<lambda>c. setQty st i (ct_quantity c + 1) (ct_quantity c) now d) d"
| "desk_press st now d (PressSubmit i) = with_item (in_cart i d) (\<lambda>c. d\<lparr>desk_confirmingId := Some i\<rparr>) d"
| "desk_press st now d PressLeaveSubmit = (if desk_view d = ViewCart then d\<lparr>desk_confirmingId := None\<rparr> else d)"
| "desk_press st now d PressConfirmSubmit =
     with_item (Option.bind (desk_confirmingId d) (\<lambda>i. in_cart i d)) (\<lambda>c. confirmSubmit st c now d) d"
| "desk_press st now d PressApprove = (case deciding DecisionIdle d of None \<Rightarrow> d | Some r \<Rightarrow> decide st r DecideApprove now d)"
| "desk_press st now d PressReject = (case deciding DecisionIdle d of None \<Rightarrow> d | Some r \<Rightarrow> d\<lparr>desk_mode := Rejecting\<rparr>)"
| "desk_press st now d PressClarify = (case deciding DecisionIdle d of None \<Rightarrow> d | Some r \<Rightarrow> d\<lparr>desk_mode := Clarifying\<rparr>)"
| "desk_press st now d (TypeReason s) = (case deciding Rejecting d of None \<Rightarrow> d | Some r \<Rightarrow> d\<lparr>desk_rejectReason := s\<rparr>)"
| "desk_press st now d (TypeNote s) = (case deciding Clarifying d of None \<Rightarrow> d | Some r \<Rightarrow> d\<lparr>desk_clarificationNote := s\<rparr>)"
| "desk_press st now d PressLeaveDecision =
     (if deciding Rejecting d \<noteq> None \<or> deciding Clarifying d \<noteq> None then d\<lparr>desk_mode := DecisionIdle\<rparr> else d)"
| "desk_press st now d PressConfirmReject =
     (case deciding Rejecting d of None \<Rightarrow> d
      | Some r \<Rightarrow> if trim (desk_rejectReason d) = [] then d else decide st r DecideReject now d)"
| "desk_press st now d PressConfirmClarify =
     (case deciding Clarifying d of None \<Rightarrow> d
      | Some r \<Rightarrow> if trim (desk_clarificationNote d) = [] then d else decide st r DecideClarify now d)"
| "desk_press st now d PressGenerate =
     (case request_shown d of None \<Rightarrow> d | Some r \<Rightarrow> if pq_status r = PQ_APPROVED then generate_order st r now d else d)"
| "desk_press st now d PressSend =
     (case order_shown d of None \<Rightarrow> d | Some p \<Rightarrow> if po_status p = PO_DRAFT then d\<lparr>desk_showEmailPreview := True\<rparr> else d)"
| "desk_press st now d PressLeaveSend = (if order_shown d \<noteq> None then d\<lparr>desk_showEmailPreview := False\<rparr> else d)"
| "desk_press st now d PressConfirmSend =
     (case order_shown d of None \<Rightarrow> d | Some p \<Rightarrow> if desk_showEmailPreview d then send_order st p now d else d)"
| "desk_press st now d PressReceive =
     (case order_shown d of None \<Rightarrow> d
      | Some p \<Rightarrow> if po_status p = PO_SENT \<or> po_status p = PO_ACKNOWLEDGED then receive_order st p now d else d)"

definition desk_step :: "RoleStore \<Rightarrow> Desk \<Rightarrow> int \<times> DeskEvent \<Rightarrow> Desk" where
  "desk_step st d e = desk_press st (fst e) d (snd e)"

section \<open>What the pages guarantee\<close>

text \<open>An order belongs to one request, whose status says how far it is; it has a date of dispatch unless it is a draft.\<close>

definition order_matches :: "world \<Rightarrow> PurchaseOrder \<Rightarrow> bool" where
  "order_matches W p \<longleftrightarrow>
     (\<exists>r \<in> set (partRequests W). po_requestIds p = [pq_id r] \<and>
        (po_status p \<in> {PO_DRAFT, PO_SENT} \<and> pq_status r = PQ_ORDERED \<or>
         po_status p = PO_RECEIVED \<and> pq_status r = PQ_RECEIVED)) \<and>
     (po_status p = PO_DRAFT \<longleftrightarrow> po_sentAt p = None)"

definition ordered_ids :: "world \<Rightarrow> string list" where
  "ordered_ids W = concat (map po_requestIds (purchaseOrders W))"

definition store_orderly :: "world \<Rightarrow> bool" where
  "store_orderly W \<longleftrightarrow> procurement_inv W \<and> distinct (ordered_ids W) \<and> list_all (order_matches W) (purchaseOrders W)"

text \<open>The preview of the mail is open over a draft only.\<close>

definition desk_ok :: "Desk \<Rightarrow> bool" where
  "desk_ok d \<longleftrightarrow> store_orderly (desk_world d) \<and>
     (desk_showEmailPreview d \<longrightarrow> (\<exists>p. order_shown d = Some p \<and> po_status p = PO_DRAFT))"

lemma listed_status:
  assumes ok: "store_orderly W" and r: "r \<in> set (partRequests W)" and l: "pq_id r \<in> set (ordered_ids W)"
  shows "pq_status r = PQ_ORDERED \<or> pq_status r = PQ_RECEIVED"
proof -
  obtain p where p: "p \<in> set (purchaseOrders W)" "pq_id r \<in> set (po_requestIds p)"
    using l by (auto simp: ordered_ids_def)
  then obtain x where x: "x \<in> set (partRequests W)" "po_requestIds p = [pq_id x]"
      "pq_status x = PQ_ORDERED \<or> pq_status x = PQ_RECEIVED"
    using ok by (auto simp: store_orderly_def list_all_iff order_matches_def)
  have "distinct (map pq_id (partRequests W))" using ok by (simp add: store_orderly_def procurement_inv_def ids_ok_def)
  then have "x = r" using p(2) x(1,2) r by (auto dest: distinct_map [THEN iffD1] inj_onD)
  then show ?thesis using x(3) by simp
qed

lemma update_request_keeps:
  "y \<in> set (partRequests W) \<Longrightarrow> pq_id y \<noteq> i \<Longrightarrow> y \<in> set (partRequests (update_request i f W))"
proof -
  have "y \<in> set xs \<Longrightarrow> pq_id y \<noteq> i \<Longrightarrow> y \<in> set (Contracts.update_first (\<lambda>r. pq_id r = i) f xs)" for xs
    by (induction xs) auto
  then show "y \<in> set (partRequests W) \<Longrightarrow> pq_id y \<noteq> i \<Longrightarrow> ?thesis" by (simp add: update_request_def)
qed

lemma matches_other:
  assumes "order_matches W p" and "i \<notin> set (po_requestIds p)"
  shows "order_matches (update_request i f W) p"
  unfolding order_matches_def
proof (rule conjI)
  from assms(1) obtain r where r: "r \<in> set (partRequests W)" and one: "po_requestIds p = [pq_id r]"
      and st: "po_status p \<in> {PO_DRAFT, PO_SENT} \<and> pq_status r = PQ_ORDERED \<or>
               po_status p = PO_RECEIVED \<and> pq_status r = PQ_RECEIVED"
    unfolding order_matches_def by (elim conjE bexE)
  have "pq_id r \<noteq> i" using one assms(2) by simp
  then have "r \<in> set (partRequests (update_request i f W))" by (rule update_request_keeps [OF r])
  then show "\<exists>r \<in> set (partRequests (update_request i f W)). po_requestIds p = [pq_id r] \<and>
        (po_status p \<in> {PO_DRAFT, PO_SENT} \<and> pq_status r = PQ_ORDERED \<or>
         po_status p = PO_RECEIVED \<and> pq_status r = PQ_RECEIVED)"
    using one st by (intro bexI [of _ r] conjI)
next
  show "po_status p = PO_DRAFT \<longleftrightarrow> po_sentAt p = None" using assms(1) unfolding order_matches_def by (rule conjunct2)
qed

lemma matches_mono:
  "order_matches V p \<Longrightarrow> set (partRequests V) \<subseteq> set (partRequests W) \<Longrightarrow> order_matches W p"
  unfolding order_matches_def by blast

text \<open>A decision on a request that is not ordered keeps the store in order.\<close>

lemma orderly_decide:
  assumes ok: "store_orderly W" and r: "getPartRequestById W i = Some r" "pq_status r \<notin> {PQ_ORDERED, PQ_RECEIVED}"
    and f: "\<And>r. pq_id (f r) = pq_id r" "\<And>r. pq_status (f r) \<noteq> PQ_ORDERED"
  shows "store_orderly (snd (decide_request i f W))"
proof -
  have rid: "pq_id r = i" "r \<in> set (partRequests W)" using r(1) by (auto simp: getPartRequestById_def dest: find_Some_mem)
  have free: "i \<notin> set (ordered_ids W)" using listed_status [OF ok rid(2)] r(2) rid(1) by auto
  have "procurement_inv (snd (decide_request i f W))"
    by (rule inv_decide) (use ok f in \<open>simp_all add: store_orderly_def\<close>)
  moreover have "order_matches (update_request i f W) p" if "p \<in> set (purchaseOrders W)" for p
    by (rule matches_other) (use ok that free in \<open>auto simp: store_orderly_def list_all_iff ordered_ids_def\<close>)
  ultimately show ?thesis
    using ok r(1) by (simp add: store_orderly_def decide_request_def ordered_ids_def list_all_iff)
qed

text \<open>What does not touch the requests and the orders.\<close>

lemma orderly_cart:
  assumes "store_orderly V" and "procurement_inv W" and "partRequests W = partRequests V @ rs"
    and "purchaseOrders W = purchaseOrders V"
  shows "store_orderly W"
  using assms matches_mono [of V _ W] by (auto simp: store_orderly_def ordered_ids_def list_all_iff)

lemma orderly_create:
  assumes ok: "store_orderly W" and r: "getPartRequestById W i = Some r" "pq_status r = PQ_APPROVED"
    and c: "createPurchaseOrderFromRequest i by now W = (Inr po, V)"
  shows "store_orderly V" "po_status po = PO_DRAFT" "getPurchaseOrderById V (po_id po) = Some po"
proof -
  have rid: "pq_id r = i" "r \<in> set (partRequests W)" using r(1) by (auto simp: getPartRequestById_def dest: find_Some_mem)
  have inv: "procurement_inv V" using inv_new_order [of W i "by" now] ok c by (simp add: store_orderly_def)
  define U where "U = W\<lparr>poCounter := poCounter W + 1, purchaseOrders := purchaseOrders W @ [po]\<rparr>"
  have po: "po = new_order W (poCounter W + 1) (or_else (chosen_vendor r) []) r by now"
      and V: "V = update_request i (with_status PQ_ORDERED) U"
    using r c by (auto simp: createPurchaseOrderFromRequest_def Let_def U_def split: option.splits if_splits)
  have parts: "po_requestIds po = [i]" "po_status po = PO_DRAFT" "po_sentAt po = None"
    by (simp_all add: po new_order_def Let_def rid)
  show "po_status po = PO_DRAFT" by (rule parts(2))
  have orders: "purchaseOrders V = purchaseOrders W @ [po]" by (simp add: V U_def)
  have free: "i \<notin> set (ordered_ids W)" using listed_status [OF ok rid(2)] r(2) rid(1) by auto
  have "distinct (map po_id (purchaseOrders W @ [po]))"
    using inv orders by (simp add: procurement_inv_def ids_ok_def)
  then show "getPurchaseOrderById V (po_id po) = Some po"
    unfolding getPurchaseOrderById_def orders by (intro find_distinct) simp_all
  have "order_matches V p" if "p \<in> set (purchaseOrders W)" for p
    unfolding V
  proof (rule matches_other)
    have "order_matches W p" using ok that by (simp add: store_orderly_def list_all_iff)
    then show "order_matches U p" by (rule matches_mono) (simp add: U_def)
    show "i \<notin> set (po_requestIds p)" using free that by (auto simp: ordered_ids_def)
  qed
  moreover have "order_matches V po"
  proof -
    have "getPartRequestById V i = Some (with_status PQ_ORDERED r)"
      using status_upd.find_update_same [of i "partRequests W" r] r(1)
      by (simp add: V U_def getPartRequestById_def update_request_def)
    then have "with_status PQ_ORDERED r \<in> set (partRequests V)" by (auto simp: getPartRequestById_def dest: find_Some_mem)
    then show ?thesis
      unfolding order_matches_def using parts rid(1) by (auto intro!: bexI [of _ "with_status PQ_ORDERED r"] simp: with_status_def)
  qed
  ultimately show "store_orderly V"
    using ok inv free by (simp add: store_orderly_def orders ordered_ids_def parts(1) list_all_iff)
qed

lemma orders_distinct: "store_orderly W \<Longrightarrow> distinct (map po_id (purchaseOrders W))"
  by (simp add: store_orderly_def procurement_inv_def ids_ok_def)

text \<open>The members of a list whose first match is updated.\<close>

lemma update_first_member:
  assumes "distinct (map key xs)" and "find (\<lambda>x. key x = k) xs = Some x"
  shows "set (Contracts.update_first (\<lambda>x. key x = k) f xs) = insert (f x) (set xs - {x})"
  using assms
proof (induction xs)
  case (Cons y ys)
  show ?case
  proof (cases "key y = k")
    case True
    then have "x = y" "x \<notin> set ys" using Cons.prems by auto
    then show ?thesis using True by auto
  next
    case False
    then have "find (\<lambda>x. key x = k) ys = Some x" "x \<noteq> y" using Cons.prems(2) by (auto dest: find_Some_mem)
    then show ?thesis using Cons.IH Cons.prems(1) False by auto
  qed
qed simp

lemma orderly_order:
  assumes ok: "store_orderly W" and p: "getPurchaseOrderById W i = Some p"
    and inv: "procurement_inv V" and orders: "purchaseOrders V = Contracts.update_first (\<lambda>p. po_id p = i) f (purchaseOrders W)"
    and f: "\<And>p. po_requestIds (f p) = po_requestIds p" and new: "order_matches V (f p)"
    and others: "\<And>q. q \<in> set (purchaseOrders W) \<Longrightarrow> q \<noteq> p \<Longrightarrow> order_matches V q"
  shows "store_orderly V"
proof -
  have "set (purchaseOrders V) = insert (f p) (set (purchaseOrders W) - {p})"
    unfolding orders by (rule update_first_member) (use orders_distinct [OF ok] p in \<open>simp_all add: getPurchaseOrderById_def\<close>)
  then have "list_all (order_matches V) (purchaseOrders V)" using new others by (auto simp: list_all_iff)
  moreover have "ordered_ids V = ordered_ids W"
    using keyed_update.keys_update [of po_requestIds f] f by (simp add: ordered_ids_def orders keyed_update_def)
  ultimately show ?thesis using ok inv by (simp add: store_orderly_def)
qed

lemma orderly_send:
  assumes ok: "store_orderly W" and p: "getPurchaseOrderById W i = Some p" "po_status p = PO_DRAFT"
  shows "store_orderly (snd (sendPurchaseOrder i now W))"
proof -
  have mem: "p \<in> set (purchaseOrders W)" using p(1) by (auto simp: getPurchaseOrderById_def dest: find_Some_mem)
  have "procurement_inv (update_order i (marked_sent now) W)"
    by (rule inv_update_order) (use ok in \<open>simp_all add: store_orderly_def sent_upd.key_upd\<close>)
  moreover have same: "order_matches (update_order i (marked_sent now) W) q" if "order_matches W q" for q
    using that by (rule matches_mono) (simp add: update_order_def)
  moreover have "order_matches W (marked_sent now p)"
  proof -
    have "order_matches W p" using ok mem by (simp add: store_orderly_def list_all_iff)
    then obtain r where "r \<in> set (partRequests W)" "po_requestIds p = [pq_id r]" "pq_status r = PQ_ORDERED"
      using p(2) unfolding order_matches_def by auto
    then show ?thesis unfolding order_matches_def by (auto simp: marked_sent_def)
  qed
  moreover have "order_matches W q" if "q \<in> set (purchaseOrders W)" for q
    using ok that by (simp add: store_orderly_def list_all_iff)
  ultimately have "store_orderly (update_order i (marked_sent now) W)"
    using orderly_order [OF ok p(1), of "update_order i (marked_sent now) W" "marked_sent now"] by (simp add: update_order_def)
  then show ?thesis using p(1) by (simp add: sendPurchaseOrder_def)
qed

lemma orderly_receive:
  assumes ok: "store_orderly W" and p: "getPurchaseOrderById W i = Some p" "po_status p = PO_SENT"
  shows "store_orderly (snd (receivePurchaseOrder i W))"
proof -
  have mem: "p \<in> set (purchaseOrders W)" using p(1) by (auto simp: getPurchaseOrderById_def dest: find_Some_mem)
  then have "order_matches W p" using ok by (simp add: store_orderly_def list_all_iff)
  then obtain r where r: "r \<in> set (partRequests W)" "po_requestIds p = [pq_id r]" "po_sentAt p \<noteq> None"
    using p(2) by (auto simp: order_matches_def)
  define V where "V = update_request (pq_id r) (with_status PQ_RECEIVED) (update_order i marked_received W)"
  have V: "snd (receivePurchaseOrder i W) = V" using p(1) r(2) by (simp add: receivePurchaseOrder_def V_def)
  have inv: "procurement_inv V" using inv_receive [of W i] ok V by (simp add: store_orderly_def)
  have one: "pq_id r \<notin> set (po_requestIds q)" if "q \<in> set (purchaseOrders W)" "q \<noteq> p" for q
  proof
    assume q: "pq_id r \<in> set (po_requestIds q)"
    have "distinct (concat (map po_requestIds (purchaseOrders W)))" using ok by (simp add: store_orderly_def ordered_ids_def)
    obtain as bs where ab: "purchaseOrders W = as @ p # bs" using mem by (auto dest: split_list)
    then have "q \<in> set as \<or> q \<in> set bs" using that by auto
    then show False
      using \<open>distinct (concat (map po_requestIds (purchaseOrders W)))\<close> q r(2) unfolding ab by auto
  qed
  have "find (\<lambda>x. pq_id x = pq_id r) (partRequests W) = Some r"
    using ok r(1) by (intro find_distinct) (simp_all add: store_orderly_def procurement_inv_def ids_ok_def)
  then have "getPartRequestById V (pq_id r) = Some (with_status PQ_RECEIVED r)"
    using status_upd.find_update_same by (simp add: V_def getPartRequestById_def update_request_def)
  then have rec: "with_status PQ_RECEIVED r \<in> set (partRequests V)" by (auto simp: getPartRequestById_def dest: find_Some_mem)
  have new: "order_matches V (marked_received p)"
    unfolding order_matches_def using r(2,3) rec
    by (auto intro!: bexI [of _ "with_status PQ_RECEIVED r"] simp: with_status_def marked_received_def)
  have others: "order_matches V q" if "q \<in> set (purchaseOrders W)" "q \<noteq> p" for q
    unfolding V_def
  proof (rule matches_other)
    have "order_matches W q" using ok that(1) by (simp add: store_orderly_def list_all_iff)
    then show "order_matches (update_order i marked_received W) q" by (rule matches_mono) (simp add: update_order_def)
  qed (rule one [OF that])
  have orders: "purchaseOrders V = Contracts.update_first (\<lambda>p. po_id p = i) marked_received (purchaseOrders W)"
    by (simp add: V_def) (simp add: update_order_def)
  show ?thesis unfolding V using orderly_order [OF ok p(1) inv orders _ new others] by simp
qed

section \<open>Every step of a page\<close>

lemma audited_simps [simp]:
  "desk_world (audited ev now d) = desk_world d" "desk_view (audited ev now d) = desk_view d"
  "desk_showEmailPreview (audited ev now d) = desk_showEmailPreview d"
  by (simp_all add: audited_def)

lemma visit_simps [simp]:
  "desk_world (visit v d) = desk_world d" "desk_view (visit v d) = v" "\<not> desk_showEmailPreview (visit v d)"
  by (simp_all add: visit_def)

lemma orderly_inv: "store_orderly W \<Longrightarrow> procurement_inv W"
  by (simp add: store_orderly_def)

text \<open>Without the preview only the store matters.\<close>

lemma desk_ok_closed: "store_orderly (desk_world d) \<Longrightarrow> \<not> desk_showEmailPreview d \<Longrightarrow> desk_ok d"
  by (simp add: desk_ok_def)

lemma desk_ok_store: "desk_ok d \<Longrightarrow> store_orderly (desk_world d)"
  by (simp add: desk_ok_def)

lemma preview_closed: "desk_ok d \<Longrightarrow> order_shown d = None \<Longrightarrow> \<not> desk_showEmailPreview d"
  by (auto simp: desk_ok_def)

lemma orderly_steps:
  assumes ok: "store_orderly W"
  shows "store_orderly (snd (addCartItem c W))" "store_orderly (snd (removeCartItem i W))"
    "store_orderly (updateCartItemQuantity i q W)" "store_orderly (snd (createPartRequestFromCartItem c cost now W))"
proof -
  note inv = orderly_inv [OF ok]
  show "store_orderly (snd (addCartItem c W))"
    using orderly_cart [OF ok, of _ "[]"] procurement.step_inv [OF inv, of "AddToCart c"] by (simp add: addCartItem_def Let_def)
  show "store_orderly (snd (removeCartItem i W))"
    using orderly_cart [OF ok, of _ "[]"] procurement.step_inv [OF inv, of "RemoveFromCart i"] ok
    by (simp add: removeCartItem_def split: option.split)
  show "store_orderly (updateCartItemQuantity i q W)"
    using orderly_cart [OF ok, of _ "[]"] procurement.step_inv [OF inv, of "SetCartQuantity i q"]
    by (simp add: updateCartItemQuantity_def)
  show "store_orderly (snd (createPartRequestFromCartItem c cost now W))"
    by (rule orderly_cart [OF ok inv_new_request [OF inv]]) (simp_all add: createPartRequestFromCartItem_def Let_def)
qed

lemma request_view: "request_shown d = Some r \<Longrightarrow> order_shown d = None"
  by (auto simp: request_shown_def order_shown_def split: DeskView.splits)

lemma request_shown_by: "request_shown d = Some r \<Longrightarrow> getPartRequestById (desk_world d) (pq_id r) = Some r"
  by (auto simp: request_shown_def getPartRequestById_def split: DeskView.splits dest: find_Some_mem)

lemma order_shown_by: "order_shown d = Some p \<Longrightarrow> getPurchaseOrderById (desk_world d) (po_id p) = Some p"
  by (auto simp: order_shown_def getPurchaseOrderById_def split: DeskView.splits dest: find_Some_mem)

lemma deciding_Some: "deciding m d = Some r \<Longrightarrow> request_shown d = Some r \<and> undecided r"
  by (auto simp: deciding_def split: option.splits if_splits)

lemma ok_decide:
  assumes ok: "desk_ok d" and r: "request_shown d = Some r" "undecided r"
  shows "desk_ok (decide st r a now d)"
proof (rule desk_ok_closed)
  have W: "store_orderly (desk_world d)" by (rule desk_ok_store [OF ok])
  have "store_orderly (snd (decide_request (pq_id r) f (desk_world d)))"
    if "\<And>r. pq_id (f r) = pq_id r" "\<And>r. pq_status (f r) \<noteq> PQ_ORDERED" for f
    by (rule orderly_decide [OF W request_shown_by [OF r(1)] _ that]) (use r(2) in \<open>auto simp: undecided_def\<close>)
  then have "store_orderly (snd (approvePartRequest (pq_id r) u v now (desk_world d)))"
      "store_orderly (snd (rejectPartRequest (pq_id r) u reason now (desk_world d)))"
      "store_orderly (snd (returnPartRequestForClarification (pq_id r) remark (desk_world d)))" for u v reason remark
    by (simp_all add: approvePartRequest_def rejectPartRequest_def returnPartRequestForClarification_def approved_def
        rejected_def returned_def)
  then show "store_orderly (desk_world (decide st r a now d))"
    using W by (simp add: decide_def Let_def split: option.split Decision.split)
  show "\<not> desk_showEmailPreview (decide st r a now d)"
    using preview_closed [OF ok request_view [OF r(1)]]
    by (simp add: decide_def Let_def split: option.split Decision.split)
qed

lemma ok_generate:
  assumes ok: "desk_ok d" and r: "request_shown d = Some r" "pq_status r = PQ_APPROVED"
  shows "desk_ok (generate_order st r now d)"
proof (rule desk_ok_closed)
  have W: "store_orderly (desk_world d)" by (rule desk_ok_store [OF ok])
  note created = orderly_create(1) [OF W request_shown_by [OF r(1)] r(2)]
  show "store_orderly (desk_world (generate_order st r now d))"
    using W by (auto simp: generate_order_def split: option.split prod.split sum.split dest: created)
  show "\<not> desk_showEmailPreview (generate_order st r now d)"
    using preview_closed [OF ok request_view [OF r(1)]]
    by (simp add: generate_order_def split: option.split prod.split sum.split)
qed

lemma ok_send:
  assumes ok: "desk_ok d" and p: "order_shown d = Some p" and pv: "desk_showEmailPreview d"
  shows "desk_ok (send_order st p now d)"
proof -
  have "po_status p = PO_DRAFT" using ok p pv by (auto simp: desk_ok_def)
  then have "store_orderly (snd (sendPurchaseOrder (po_id p) now (desk_world d)))"
    by (rule orderly_send [OF desk_ok_store [OF ok] order_shown_by [OF p]])
  then show ?thesis using ok desk_ok_closed by (simp add: send_order_def split: option.split)
qed

lemma ok_receive:
  assumes ok: "desk_ok d" and p: "order_shown d = Some p" and st: "po_status p = PO_SENT \<or> po_status p = PO_ACKNOWLEDGED"
  shows "desk_ok (receive_order st p now d)"
proof (rule desk_ok_closed)
  have W: "store_orderly (desk_world d)" by (rule desk_ok_store [OF ok])
  have "p \<in> set (purchaseOrders (desk_world d))"
    using order_shown_by [OF p] by (auto simp: getPurchaseOrderById_def dest: find_Some_mem)
  then have "order_matches (desk_world d) p" using W by (simp add: store_orderly_def list_all_iff)
  then have "po_status p \<in> {PO_DRAFT, PO_SENT, PO_RECEIVED}" unfolding order_matches_def by auto
  then have "po_status p = PO_SENT" using st by auto
  then have "store_orderly (snd (receivePurchaseOrder (po_id p) (desk_world d)))"
    by (rule orderly_receive [OF W order_shown_by [OF p]])
  then show "store_orderly (desk_world (receive_order st p now d))"
    using W by (cases "receivePurchaseOrder (po_id p) (desk_world d)") (simp add: receive_order_def Let_def split: option.split)
  have "\<not> desk_showEmailPreview d" using ok p st by (auto simp: desk_ok_def)
  then show "\<not> desk_showEmailPreview (receive_order st p now d)"
    by (simp add: receive_order_def Let_def split: option.split prod.split)
qed

lemma in_cart_view: "in_cart i d = Some c \<Longrightarrow> order_shown d = None"
  by (auto simp: in_cart_def order_shown_def split: if_splits)

lemma ok_cart_page:
  assumes "desk_ok d" and "order_shown d = None"
  shows "desk_ok (add_to_cart st f now d)" "desk_ok (remove_item st i now d)" "desk_ok (setQty st i q k now d)"
    "desk_ok (confirmSubmit st c now d)"
proof -
  have W: "store_orderly (desk_world d)" and closed: "\<not> desk_showEmailPreview d"
    by (rule desk_ok_store [OF assms(1)]) (rule preview_closed [OF assms])
  show "desk_ok (add_to_cart st f now d)"
    using W closed assms(1) by (auto intro!: desk_ok_closed simp: add_to_cart_def Let_def orderly_steps split: option.split)
  show "desk_ok (remove_item st i now d)" "desk_ok (setQty st i q k now d)"
    using W closed by (auto intro!: desk_ok_closed simp: remove_item_def setQty_def Let_def orderly_steps)
  have "store_orderly (snd (createPartRequestFromCartItem c (cartItemLineTotal (desk_world d) c) now (desk_world d)))"
    by (rule orderly_steps [OF W])
  then show "desk_ok (confirmSubmit st c now d)"
    using closed
    by (cases "createPartRequestFromCartItem c (cartItemLineTotal (desk_world d) c) now (desk_world d)")
      (simp add: desk_ok_closed confirmSubmit_def orderly_steps)
qed

lemma ok_local:
  "desk_ok d \<Longrightarrow> order_shown d = None \<Longrightarrow> desk_world d' = desk_world d \<Longrightarrow>
   desk_showEmailPreview d' = desk_showEmailPreview d \<Longrightarrow> desk_ok d'"
  using preview_closed desk_ok_store by (simp add: desk_ok_closed)

interpretation desk: machine "desk_step st" desk_ok for st
proof
  fix d and e :: "int \<times> DeskEvent"
  assume ok: "desk_ok d"
  obtain now ev where e: "e = (now, ev)" by (cases e)
  note views = in_cart_view deciding_Some request_view
  have "desk_ok (desk_press st now d ev)"
  proof (cases ev)
    case (Visit v)
    then show ?thesis using desk_ok_store [OF ok] by (simp add: desk_ok_closed)
  next
    case (TypeSearch z)
    have "desk_view d = ViewParts q \<Longrightarrow> order_shown d = None" for q by (simp add: order_shown_def)
    then show ?thesis using TypeSearch ok by (auto intro: ok_local simp: refine_search_def split: DeskView.split)
  next
    case (PressAdd f)
    have "desk_view d = ViewParts q \<Longrightarrow> order_shown d = None" for q by (simp add: order_shown_def)
    then show ?thesis using PressAdd ok by (simp add: ok_cart_page split: DeskView.split)
  next
    case (PressRemove i)
    then show ?thesis using ok views(1) by (auto simp: with_item_def ok_cart_page split: option.split)
  next
    case (PressLess i)
    then show ?thesis using ok views(1) by (auto simp: with_item_def ok_cart_page split: option.split)
  next
    case (PressMore i)
    then show ?thesis using ok views(1) by (auto simp: with_item_def ok_cart_page split: option.split)
  next
    case (PressSubmit i)
    then show ?thesis using ok views(1) by (auto simp: with_item_def intro: ok_local split: option.split)
  next
    case PressLeaveSubmit
    have "desk_view d = ViewCart \<Longrightarrow> order_shown d = None" by (simp add: order_shown_def)
    then show ?thesis using PressLeaveSubmit ok by (auto intro: ok_local)
  next
    case PressConfirmSubmit
    then show ?thesis
      using ok views(1) by (auto simp: with_item_def ok_cart_page bind_eq_Some_conv split: option.split)
  next
    case PressLeaveDecision
    then show ?thesis using ok views(2,3) by (auto intro: ok_local)
  next
    case PressGenerate
    then show ?thesis using ok by (auto simp: ok_generate split: option.split)
  next
    case PressSend
    have "order_shown (d\<lparr>desk_showEmailPreview := b\<rparr>) = order_shown d" for b
      by (simp add: order_shown_def split: DeskView.split)
    then show ?thesis using PressSend ok by (auto simp: desk_ok_def split: option.split)
  next
    case PressLeaveSend
    then show ?thesis using ok by (auto simp: desk_ok_store desk_ok_closed)
  next
    case PressConfirmSend
    then show ?thesis using ok by (auto simp: ok_send split: option.split)
  next
    case PressReceive
    then show ?thesis using ok by (auto simp: ok_receive split: option.split)
  qed (use ok views(2,3) ok_decide in \<open>auto intro: ok_local split: option.split\<close>)
  then show "desk_ok (desk_step st d e)" by (simp add: desk_step_def e)
qed

text \<open>The pages start over a store that is in order, as the seed is.\<close>

lemma desk_start: "store_orderly W \<Longrightarrow> desk_ok (desk_init W m)"
  by (rule desk_ok_closed) (simp_all add: desk_init_def)

lemma supply_orderly: "store_orderly supply_world"
  using supply_inv by (simp add: store_orderly_def ordered_ids_def supply_requests)

text \<open>
  C18 Whatever is pressed on the four pages, in any order and on any of them, no request is on two purchase orders, and
  the order of a request and the request agree: ordered while the order is a draft or sent, received when it is
  received, and only what was sent is received.
\<close>

theorem desk_orders_once:
  assumes "store_orderly W"
  shows "distinct (ordered_ids (desk_world (run (desk_step st) (desk_init W m) es))) \<and>
    list_all (order_matches (desk_world (run (desk_step st) (desk_init W m) es)))
      (purchaseOrders (desk_world (run (desk_step st) (desk_init W m) es)))"
  using desk_ok_store [OF desk.run_inv [OF desk_start [OF assms]]] by (simp add: store_orderly_def)

theorem desk_orders_once_witness:
  "distinct (ordered_ids (desk_world (run (desk_step role_store_init) (desk_init supply_world (mro_init []))
     [(0, Visit (ViewRequest ''pr-2'')), (0, PressApprove), (0, PressGenerate)]))) \<and>
   list_all (order_matches (desk_world (run (desk_step role_store_init) (desk_init supply_world (mro_init []))
     [(0, Visit (ViewRequest ''pr-2'')), (0, PressApprove), (0, PressGenerate)])))
     (purchaseOrders (desk_world (run (desk_step role_store_init) (desk_init supply_world (mro_init []))
       [(0, Visit (ViewRequest ''pr-2'')), (0, PressApprove), (0, PressGenerate)])))"
  by (rule desk_orders_once [OF supply_orderly])

text \<open>
  The operations of the store alone do not say so: whatever its status, a request with a preferred vendor on file is
  approved and ordered once more.
\<close>

theorem store_orders_again:
  assumes r: "getPartRequestById W i = Some r"
    and v: "pq_preferredVendorId r = Some v" "v \<noteq> []" "getVendorById W v \<noteq> None"
  shows "ordered_ids (run procurement_step W [ApproveRequest i u None now, GenerateOrder i u now]) = ordered_ids W @ [i]"
proof -
  define V where "V = update_request i (approved u None now) W"
  have rid: "pq_id r = i" using r by (auto simp: getPartRequestById_def dest: find_Some_mem)
  have "getPartRequestById V i = Some (approved u None now r)"
    using r by (simp add: V_def getPartRequestById_def update_request_def approve_upd.find_update_same)
  moreover have "chosen_vendor (approved u None now r) = Some v" "pq_status (approved u None now r) = PQ_APPROVED"
    using v(1) by (simp_all add: chosen_vendor_def approved_def coalesce_def)
  moreover have "getVendorById V v \<noteq> None" using v(3) by (simp add: V_def getVendorById_def update_request_def)
  ultimately have "ordered_ids (snd (createPurchaseOrderFromRequest i u now V)) = ordered_ids V @ [i]"
    using v(2) rid
    by (auto simp: createPurchaseOrderFromRequest_def Let_def vendor_given_def ordered_ids_def update_request_def
        new_order_def approved_def)
  then show ?thesis
    using r by (simp add: approvePartRequest_def decide_request_def V_def [symmetric]) (simp add: V_def ordered_ids_def update_request_def)
qed

section \<open>A request to its end\<close>

lemma signed_in: "\<exists>u r. getCurrentUser st = Some (u, r)"
  by (simp add: getCurrentUser_def getUserById_def DEV_DEMO_USER_ID_def USERS_def)

text \<open>Pressing approve.\<close>

lemma approve_step:
  assumes r: "request_shown d = Some r" "undecided r" "desk_mode d = DecisionIdle"
  obtains u where "desk_world (desk_press st now d PressApprove) =
      update_request (pq_id r) (approved u (pq_preferredVendorId r) now) (desk_world d)"
    and "request_shown (desk_press st now d PressApprove) = Some (approved u (pq_preferredVendorId r) now r)"
proof -
  obtain u x where u: "getCurrentUser st = Some (u, x)" using signed_in by blast
  let ?d = "desk_press st now d PressApprove"
  have W: "desk_world ?d = update_request (pq_id r) (approved (user_id u) (pq_preferredVendorId r) now) (desk_world d)"
    using r u request_shown_by [OF r(1)]
    by (simp add: deciding_def decide_def Let_def approvePartRequest_def decide_request_def)
  have "desk_view ?d = desk_view d"
    using r u by (simp add: deciding_def decide_def Let_def)
  moreover have "desk_view d = ViewRequest (pq_id r)"
    using r(1) by (auto simp: request_shown_def getPartRequestById_def split: DeskView.splits dest: find_Some_mem)
  ultimately have "request_shown ?d = Some (approved (user_id u) (pq_preferredVendorId r) now r)"
    using request_shown_by [OF r(1)] W
    by (simp add: request_shown_def getPartRequestById_def update_request_def approve_upd.find_update_same)
  with W show ?thesis by (rule that)
qed

text \<open>Pressing generate, when the vendor is known.\<close>

lemma generate_step:
  assumes ok: "desk_ok d" and r: "request_shown d = Some r" "pq_status r = PQ_APPROVED"
    and v: "chosen_vendor r = Some v" "v \<noteq> []" "getVendorById (desk_world d) v \<noteq> None"
  obtains p where "order_shown (desk_press st now d PressGenerate) = Some p" and "po_status p = PO_DRAFT"
    and "po_requestIds p = [pq_id r]" and "po_vendorId p = v"
proof -
  obtain u x where u: "getCurrentUser st = Some (u, x)" using signed_in by blast
  note rid = request_shown_by [OF r(1)]
  define p where "p = new_order (desk_world d) (poCounter (desk_world d) + 1) v r (user_id u) now"
  have "\<exists>V. createPurchaseOrderFromRequest (pq_id r) (user_id u) now (desk_world d) = (Inr p, V)"
    using rid r v by (auto simp: createPurchaseOrderFromRequest_def Let_def vendor_given_def p_def)
  then obtain V where c: "createPurchaseOrderFromRequest (pq_id r) (user_id u) now (desk_world d) = (Inr p, V)" ..
  note made = orderly_create [OF desk_ok_store [OF ok] rid r(2) c]
  have "order_shown (desk_press st now d PressGenerate) = Some p"
    using r u c made(3) by (simp add: generate_order_def order_shown_def)
  then show ?thesis
    by (rule that) (simp_all add: p_def new_order_def Let_def)
qed

lemma order_pressed:
  assumes p: "order_shown d = Some p" and i: "po_status p = PO_DRAFT"
  shows "order_shown (desk_press st now (desk_press st now d PressSend) PressConfirmSend) = Some (marked_sent now p)"
proof -
  obtain u x where u: "getCurrentUser st = Some (u, x)" using signed_in by blast
  have view: "desk_view d = ViewOrder (po_id p)"
    using p by (auto simp: order_shown_def getPurchaseOrderById_def split: DeskView.splits dest: find_Some_mem)
  note find = order_shown_by [OF p]
  have "order_shown (d\<lparr>desk_showEmailPreview := True\<rparr>) = Some p" using view find by (simp add: order_shown_def)
  then show ?thesis
    using p i u view find
    by (simp add: send_order_def order_shown_def sendPurchaseOrder_def)
      (simp add: getPurchaseOrderById_def update_order_def sent_upd.find_update_same)
qed

lemma order_received:
  assumes p: "order_shown d = Some p" and st: "po_status p = PO_SENT" and q: "po_requestIds p = [i]"
    and r: "getPartRequestById (desk_world d) i = Some r"
  shows "order_shown (desk_press st now d PressReceive) = Some (marked_received p)"
    and "getPartRequestById (desk_world (desk_press st now d PressReceive)) i = Some (with_status PQ_RECEIVED r)"
proof -
  obtain u x where u: "getCurrentUser st = Some (u, x)" using signed_in by blast
  have view: "desk_view d = ViewOrder (po_id p)"
    using p by (auto simp: order_shown_def getPurchaseOrderById_def split: DeskView.splits dest: find_Some_mem)
  note find = order_shown_by [OF p]
  have press: "desk_press st now d PressReceive = receive_order st p now d" using p st by simp
  have W: "desk_world (receive_order st p now d) =
      update_request i (with_status PQ_RECEIVED) (update_order (po_id p) marked_received (desk_world d))"
    using u find q by (simp add: receive_order_def receivePurchaseOrder_def Let_def)
  show "getPartRequestById (desk_world (desk_press st now d PressReceive)) i = Some (with_status PQ_RECEIVED r)"
    using r unfolding press W
    by (simp add: getPartRequestById_def update_request_def update_order_def status_upd.find_update_same)
  have "desk_view (receive_order st p now d) = desk_view d"
    using u find by (simp add: receive_order_def receivePurchaseOrder_def Let_def)
  then show "order_shown (desk_press st now d PressReceive) = Some (marked_received p)"
    using find unfolding press
    by (simp add: order_shown_def view W) (simp add: getPurchaseOrderById_def update_request_def update_order_def received_upd.find_update_same)
qed

text \<open>
  C19 A request that waits for its decision, with a preferred vendor on file, can be brought to its end by the buttons of
  the pages: approved, ordered from that vendor, sent and received, after which the request and its order say so.
\<close>

theorem request_reaches_delivery:
  assumes ok: "store_orderly W" and r: "getPartRequestById W i = Some r" "undecided r"
    and v: "pq_preferredVendorId r = Some v" "v \<noteq> []" "getVendorById W v \<noteq> None"
    and d: "d = run (desk_step st) (desk_init W m) (map (Pair now)
      [Visit (ViewRequest i), PressApprove, PressGenerate, PressSend, PressConfirmSend, PressReceive])"
  shows "map_option pq_status (getPartRequestById (desk_world d) i) = Some PQ_RECEIVED \<and>
    (\<exists>p. order_shown d = Some p \<and> po_status p = PO_RECEIVED \<and> po_requestIds p = [i] \<and> po_vendorId p = v)"
proof -
  have rid: "pq_id r = i" using r(1) by (auto simp: getPartRequestById_def dest: find_Some_mem)
  define d1 where "d1 = visit (ViewRequest i) (desk_init W m)"
  define d2 where "d2 = desk_press st now d1 PressApprove"
  define d3 where "d3 = desk_press st now d2 PressGenerate"
  define d4 where "d4 = desk_press st now (desk_press st now d3 PressSend) PressConfirmSend"
  have ok1: "desk_ok d1" using ok by (intro desk_ok_closed) (simp_all add: d1_def desk_init_def)
  have step: "desk_ok (desk_press st now x e)" if "desk_ok x" for x e
    using desk.step_inv [OF that, of st "(now, e)"] by (simp add: desk_step_def)
  have "request_shown d1 = Some r" "desk_mode d1 = DecisionIdle" "desk_world d1 = W"
    using r(1) by (simp_all add: d1_def request_shown_def desk_init_def) (simp add: visit_def)
  then obtain u where W2: "desk_world d2 = update_request i (approved u (Some v) now) W"
      and r2: "request_shown d2 = Some (approved u (Some v) now r)"
    using approve_step [OF _ r(2), of d1 st now] v(1) rid unfolding d2_def by metis
  have "getVendorById (desk_world d2) v \<noteq> None" using v(3) by (simp add: W2 getVendorById_def update_request_def)
  then obtain p where p: "order_shown d3 = Some p" "po_status p = PO_DRAFT" "po_requestIds p = [i]" "po_vendorId p = v"
    using generate_step [OF step [OF ok1, of PressApprove, folded d2_def] r2 _ _ v(2), of st now] rid
    unfolding d3_def by (auto simp: approved_def chosen_vendor_def coalesce_def)
  have p4: "order_shown d4 = Some (marked_sent now p)" unfolding d4_def by (rule order_pressed [OF p(1,2)])
  have "desk_ok d4" unfolding d4_def d3_def d2_def by (intro step ok1)
  moreover have "marked_sent now p \<in> set (purchaseOrders (desk_world d4))"
    using order_shown_by [OF p4] by (auto simp: getPurchaseOrderById_def dest: find_Some_mem)
  ultimately have "i \<in> set (map pq_id (partRequests (desk_world d4)))"
    using p(3) by (auto simp: desk_ok_def store_orderly_def procurement_inv_def orders_known_def)
  then obtain x where x: "getPartRequestById (desk_world d4) i = Some x"
    by (cases "getPartRequestById (desk_world d4) i") (auto simp: getPartRequestById_def find_None_iff)
  have "d = desk_press st now d4 PressReceive"
    by (simp add: d desk_step_def d1_def d2_def d3_def d4_def del: desk_press.simps(2-))
  then show ?thesis
    using order_received [OF p4 _ _ x, of st now] p(3,4) by (simp add: marked_sent_def marked_received_def with_status_def)
qed

definition asked_world :: world where
  "asked_world = snd (createPartRequestFromCartItem sample_item None 0 supply_world)"

theorem request_reaches_delivery_witness:
  "map_option pq_status (getPartRequestById (desk_world (run (desk_step role_store_init) (desk_init asked_world (mro_init [])) (map (Pair 0)
      [Visit (ViewRequest ''pr-3''), PressApprove, PressGenerate, PressSend, PressConfirmSend, PressReceive]))) ''pr-3'') =
   Some PQ_RECEIVED"
proof -
  have W: "store_orderly asked_world" unfolding asked_world_def by (rule orderly_steps [OF supply_orderly])
  have r: "getPartRequestById asked_world ''pr-3'' = Some (new_request 3 sample_item None 0)"
  proof -
    have i: "''pr-3'' = request_id 3" by code_simp
    show ?thesis
      unfolding i getPartRequestById_def asked_world_def createPartRequestFromCartItem_def Let_def
      by (simp add: supply_requests seed_request_ids) (simp add: new_request_def)
  qed
  have u: "undecided (new_request 3 sample_item None 0)" by (simp add: new_request_def undecided_def)
  have v: "pq_preferredVendorId (new_request 3 sample_item None 0) = Some ''vendor-1''"
    by (simp add: new_request_def sample_item_def)
  have "getVendorById asked_world ''vendor-1'' = getVendorById supply_world ''vendor-1''"
    by (simp add: getVendorById_def asked_world_def createPartRequestFromCartItem_def Let_def)
  also have "\<dots> = Some seed_vendor_1"
    by (simp add: getVendorById_def supply_requests seed_vendors_def seed_vendor_1_def)
  finally have "getVendorById asked_world ''vendor-1'' \<noteq> None" by simp
  then show ?thesis using request_reaches_delivery [OF W r u v _ _ refl, of role_store_init "mro_init []" 0] by simp
qed

section \<open>A request that cannot\<close>

text \<open>An approved request without a vendor.\<close>

definition vendorless :: "string \<Rightarrow> PartRequest \<Rightarrow> Desk \<Rightarrow> bool" where
  "vendorless i r d \<longleftrightarrow> desk_ok d \<and> getPartRequestById (desk_world d) i = Some r \<and> pq_status r = PQ_APPROVED \<and>
     \<not> vendor_given (chosen_vendor r)"

lemma find_grow: "find P xs = Some x \<Longrightarrow> find P (xs @ ys) = Some x"
  by (induction xs) auto

lemma request_other:
  "j \<noteq> i \<Longrightarrow> (\<And>r. pq_id (f r) = pq_id r) \<Longrightarrow> getPartRequestById (update_request j f W) i = getPartRequestById W i"
  using keyed_update.find_update_other [of pq_id f i j "partRequests W"]
  by (simp add: getPartRequestById_def update_request_def keyed_update_def)

lemma request_cart:
  assumes "getPartRequestById W i = Some r"
  shows "getPartRequestById (snd (addCartItem c W)) i = Some r" "getPartRequestById (snd (removeCartItem j W)) i = Some r"
    "getPartRequestById (updateCartItemQuantity j q W) i = Some r"
    "getPartRequestById (snd (createPartRequestFromCartItem c cost now W)) i = Some r"
    "getPartRequestById (snd (sendPurchaseOrder j now W)) i = Some r"
  using assms
  by (simp_all add: getPartRequestById_def addCartItem_def removeCartItem_def updateCartItemQuantity_def Let_def find_grow
      createPartRequestFromCartItem_def sendPurchaseOrder_def update_order_def split: option.split)

lemma request_decide:
  assumes i: "getPartRequestById (desk_world d) i = Some r" "pq_status r = PQ_APPROVED"
    and x: "request_shown d = Some x" "undecided x"
  shows "getPartRequestById (desk_world (decide st x a now d)) i = Some r"
proof -
  have "x \<noteq> r" using i(2) x(2) by (auto simp: undecided_def)
  then have other: "pq_id x \<noteq> i" using request_shown_by [OF x(1)] i(1) by auto
  have "getPartRequestById (snd (decide_request (pq_id x) f (desk_world d))) i = Some r"
    if "\<And>r. pq_id (f r) = pq_id r" for f
    using request_other [OF other that] i(1) by (simp add: decide_request_def split: option.split)
  then show ?thesis
    using i(1)
    by (simp add: decide_def Let_def approvePartRequest_def rejectPartRequest_def returnPartRequestForClarification_def
        approved_def rejected_def returned_def split: option.split Decision.split)
qed

lemma request_generate:
  assumes i: "getPartRequestById (desk_world d) i = Some r" "\<not> vendor_given (chosen_vendor r)"
  shows "getPartRequestById (desk_world (generate_order st x now d)) i = Some r"
proof -
  have "getPartRequestById (snd (createPurchaseOrderFromRequest (pq_id x) by now (desk_world d))) i = Some r" for "by"
  proof (cases "pq_id x = i")
    case True
    then show ?thesis using i by (simp add: createPurchaseOrderFromRequest_def)
  next
    case False
    then have "getPartRequestById (update_request (pq_id x) (with_status PQ_ORDERED)
        (desk_world d\<lparr>poCounter := n, purchaseOrders := ps\<rparr>)) i = Some r" for n ps
      using i(1) by (simp add: request_other with_status_def) (simp add: getPartRequestById_def)
    then show ?thesis using i(1) by (simp add: createPurchaseOrderFromRequest_def Let_def split: option.split)
  qed
  then have "createPurchaseOrderFromRequest (pq_id x) by now (desk_world d) = (e, V) \<Longrightarrow> getPartRequestById V i = Some r"
    for "by" e V by (metis snd_conv)
  then show ?thesis using i(1) by (auto simp: generate_order_def split: option.split prod.split sum.split)
qed

lemma request_receive:
  assumes ok: "store_orderly (desk_world d)" and i: "getPartRequestById (desk_world d) i = Some r" "pq_status r = PQ_APPROVED"
    and p: "order_shown d = Some p"
  shows "getPartRequestById (desk_world (receive_order st p now d)) i = Some r"
proof -
  have "p \<in> set (purchaseOrders (desk_world d))"
    using order_shown_by [OF p] by (auto simp: getPurchaseOrderById_def dest: find_Some_mem)
  then have "order_matches (desk_world d) p" using ok by (simp add: store_orderly_def list_all_iff)
  then obtain x where x: "x \<in> set (partRequests (desk_world d))" "po_requestIds p = [pq_id x]" "pq_status x \<noteq> PQ_APPROVED"
    unfolding order_matches_def by auto
  have "getPartRequestById (desk_world d) (pq_id x) = Some x"
    unfolding getPartRequestById_def
    using ok x(1) by (intro find_distinct) (simp_all add: store_orderly_def procurement_inv_def ids_ok_def)
  then have other: "pq_id x \<noteq> i" using i x(3) by auto
  have "getPartRequestById (update_order j f W) i = getPartRequestById W i" for j f W
    by (simp add: getPartRequestById_def update_order_def)
  then show ?thesis
    using i(1) x(2) order_shown_by [OF p]
    by (simp add: receive_order_def receivePurchaseOrder_def Let_def request_other [OF other] with_status_def split: option.split)
qed

lemma request_kept:
  assumes d: "vendorless i r d"
  shows "getPartRequestById (desk_world (desk_press st now d e)) i = Some r"
proof -
  have ok: "store_orderly (desk_world d)" and i: "getPartRequestById (desk_world d) i = Some r"
      and st: "pq_status r = PQ_APPROVED" and v: "\<not> vendor_given (chosen_vendor r)"
    using d by (simp_all add: vendorless_def desk_ok_store)
  note cart = request_cart [OF i]
  show ?thesis
  proof (cases e)
    case (PressAdd f)
    then show ?thesis using i by (simp add: add_to_cart_def Let_def cart split: option.split DeskView.split)
  next
    case (TypeSearch z)
    then show ?thesis using i by (simp add: refine_search_def split: DeskView.split)
  next
    case PressConfirmSubmit
    have "getPartRequestById (snd (createPartRequestFromCartItem c k now (desk_world d))) i = Some r" for c k by (rule cart)
    then have "createPartRequestFromCartItem c k now (desk_world d) = (x, V) \<Longrightarrow>
        getPartRequestById (snd (removeCartItem j V)) i = Some r" for c k x V j
      by (metis snd_conv request_cart(2))
    then show ?thesis
      using PressConfirmSubmit i by (simp add: with_item_def confirmSubmit_def split: option.split prod.split)
  next
    case PressGenerate
    then show ?thesis using request_generate [OF i v] i by (simp split: option.split)
  next
    case PressReceive
    then show ?thesis using request_receive [OF ok i st] i by (simp split: option.split)
  qed (use i request_decide [OF i st] deciding_Some in \<open>auto simp: with_item_def remove_item_def setQty_def Let_def cart
    send_order_def split: option.split\<close>)
qed

interpretation vendorless: machine "desk_step st" "vendorless i r" for st i r
proof
  fix d and e :: "int \<times> DeskEvent"
  assume d: "vendorless i r d"
  then have "desk_ok (desk_step st d e)" by (intro desk.step_inv) (simp add: vendorless_def)
  then show "vendorless i r (desk_step st d e)"
    using d request_kept [OF d, of st "fst e" "snd e"] by (simp add: vendorless_def desk_step_def)
qed

text \<open>
  A request that was approved without a vendor, as the page allows, stays as it is whatever is pressed on the four
  pages: it can be neither ordered nor decided again.
\<close>

theorem approved_without_vendor_stuck:
  assumes "store_orderly W" and "getPartRequestById W i = Some r" and "pq_status r = PQ_APPROVED"
    and "\<not> vendor_given (chosen_vendor r)"
  shows "getPartRequestById (desk_world (run (desk_step st) (desk_init W m) es)) i = Some r"
proof -
  have "vendorless i r (desk_init W m)"
    using assms desk_start [OF assms(1)] by (simp add: vendorless_def desk_init_def)
  from vendorless.run_inv [OF this] show ?thesis by (simp add: vendorless_def)
qed

definition approved_world :: world where
  "approved_world = snd (approvePartRequest ''pr-2'' ''user-3'' (pq_preferredVendorId seed_pr_2) 0 supply_world)"

theorem approved_without_vendor_stuck_witness:
  "map_option pq_status (getPartRequestById (desk_world (run (desk_step role_store_init) (desk_init approved_world (mro_init []))
     [(0, Visit (ViewRequest ''pr-2'')), (0, PressGenerate)])) ''pr-2'') = Some PQ_APPROVED"
proof -
  have seed: "getPartRequestById supply_world ''pr-2'' = Some seed_pr_2"
    by (simp add: getPartRequestById_def supply_requests seed_pr_1_def seed_pr_2_def)
  have W: "store_orderly approved_world"
    unfolding approved_world_def approvePartRequest_def
    by (rule orderly_decide [OF supply_orderly seed]) (simp_all add: seed_pr_2_def approved_def)
  have r: "getPartRequestById approved_world ''pr-2'' = Some (approved ''user-3'' None 0 seed_pr_2)"
    using seed unfolding approved_world_def approvePartRequest_def decide_request_def
    by (simp add: getPartRequestById_def update_request_def approve_upd.find_update_same) (simp add: seed_pr_2_def)
  have "\<not> vendor_given (chosen_vendor (approved ''user-3'' None 0 seed_pr_2))"
    by (simp add: vendor_given_def chosen_vendor_def approved_def coalesce_def seed_pr_2_def)
  from approved_without_vendor_stuck [OF W r _ this, of role_store_init "mro_init []" "[(0, Visit (ViewRequest ''pr-2'')), (0, PressGenerate)]"]
  show ?thesis by (simp add: approved_def)
qed

section \<open>What the log says of a receipt\<close>

text \<open>The entry of a receipt gives the status after it as the one before.\<close>

theorem receipt_trail_wrong:
  assumes "order_shown d = Some p" and "po_status p = PO_SENT"
  shows "map au_previousState (take 1 (mro_auditLog (desk_mro (desk_press st now d PressReceive)))) = [Some ''RECEIVED'']"
proof -
  obtain u x where u: "getCurrentUser st = Some (u, x)" using signed_in by blast
  show ?thesis
    using assms u order_shown_by [OF assms(1)]
    by (simp add: receive_order_def receivePurchaseOrder_def Let_def audited_def addAuditEvent_def audit_event_def
        procurement_event_def marked_received_def)
qed

end
