(* ===== verification/Applicability.thy ===== *)
theory Applicability
  imports Fleet Contracts Clock
begin

text \<open>
  The decision whether a regulation applies to an aircraft (\<open>src/frontend/lib/mock/kleene.ts\<close>, the tree and the page of an
  assessment and the page of its review). A rule is a tree of conditions over three values; unknown is not
  false. Shown: what the tree decides holds however the unknown conditions turn out, more evidence
  never changes a decided node, and every node has a result. The page reads the result of the
  assessment from its record, which the tree need not confirm.
\<close>

section \<open>Three values\<close>

definition kleeneAnd :: "ConditionResult \<Rightarrow> ConditionResult \<Rightarrow> ConditionResult" where
  "kleeneAnd a b =
     (if a = K_FALSE \<or> b = K_FALSE then K_FALSE else if a = K_UNKNOWN \<or> b = K_UNKNOWN then K_UNKNOWN else K_TRUE)"

definition kleeneOr :: "ConditionResult \<Rightarrow> ConditionResult \<Rightarrow> ConditionResult" where
  "kleeneOr a b =
     (if a = K_TRUE \<or> b = K_TRUE then K_TRUE else if a = K_UNKNOWN \<or> b = K_UNKNOWN then K_UNKNOWN else K_FALSE)"

definition kleeneNot :: "ConditionResult \<Rightarrow> ConditionResult" where
  "kleeneNot a = (if a = K_UNKNOWN then K_UNKNOWN else if a = K_TRUE then K_FALSE else K_TRUE)"

section \<open>The evaluation of a tree\<close>

type_synonym Results = "string \<rightharpoonup> ConditionResult"

text \<open>\<open>results[id] ?? "UNKNOWN"\<close>.\<close>

definition result_at :: "Results \<Rightarrow> string \<Rightarrow> ConditionResult" where
  "result_at m i = (case m i of None \<Rightarrow> K_UNKNOWN | Some r \<Rightarrow> r)"

definition combine :: "ConditionType \<Rightarrow> ConditionResult list \<Rightarrow> ConditionResult" where
  "combine t rs =
     (if t = CT_AND then foldl kleeneAnd K_TRUE rs
      else if t = CT_OR then foldl kleeneOr K_FALSE rs
      else kleeneNot (case rs of [] \<Rightarrow> K_UNKNOWN | r # _ \<Rightarrow> r))"

definition COMBINATORS :: "ConditionType set" where
  "COMBINATORS = {CT_AND, CT_OR, CT_NOT}"

text \<open>\<open>visit\<close> with the object \<open>results\<close> it writes: the children of a combinator first, in order.\<close>

fun visit_node :: "Results \<Rightarrow> ApplicabilityCondition \<Rightarrow> Results \<Rightarrow> ConditionResult \<times> Results"
  and visit_nodes :: "Results \<Rightarrow> ApplicabilityCondition list \<Rightarrow> Results \<Rightarrow> ConditionResult list \<times> Results" where
  "visit_node leaf (Condition i t l ps None) m =
     (let r = (if t \<in> COMBINATORS then combine t [] else result_at leaf i) in (r, m(i \<mapsto> r)))"
| "visit_node leaf (Condition i t l ps (Some cs)) m =
     (if t \<in> COMBINATORS
      then (case visit_nodes leaf cs m of (rs, m) \<Rightarrow> (combine t rs, m(i \<mapsto> combine t rs)))
      else (result_at leaf i, m(i \<mapsto> result_at leaf i)))"
| "visit_nodes leaf [] m = ([], m)"
| "visit_nodes leaf (c # cs) m =
     (case visit_node leaf c m of (r, m) \<Rightarrow> (case visit_nodes leaf cs m of (rs, m) \<Rightarrow> (r # rs, m)))"

definition evaluateTree :: "ApplicabilityCondition \<Rightarrow> Results \<Rightarrow> Results" where
  "evaluateTree node leaf = snd (visit_node leaf node Map.empty)"

section \<open>The value of a node, as a reference\<close>

text \<open>The value of a condition, and the conditions whose results the evaluation writes, in its order.\<close>

fun node_value :: "Results \<Rightarrow> ApplicabilityCondition \<Rightarrow> ConditionResult" where
  "node_value leaf (Condition i t l ps children) =
     (if t \<in> COMBINATORS then combine t (case children of None \<Rightarrow> [] | Some cs \<Rightarrow> map (node_value leaf) cs)
      else result_at leaf i)"

fun visited :: "ApplicabilityCondition \<Rightarrow> ApplicabilityCondition list" where
  "visited (Condition i t l ps None) = [Condition i t l ps None]"
| "visited (Condition i t l ps (Some cs)) =
     (if t \<in> COMBINATORS then concat (map visited cs) else []) @ [Condition i t l ps (Some cs)]"

definition write_all :: "Results \<Rightarrow> ApplicabilityCondition list \<Rightarrow> Results \<Rightarrow> Results" where
  "write_all leaf cs m = foldl (\<lambda>m c. m(cond_id c \<mapsto> node_value leaf c)) m cs"

lemma write_all_simps [simp]:
  "write_all leaf [] m = m" "write_all leaf (c # cs) m = write_all leaf cs (m(cond_id c \<mapsto> node_value leaf c))"
  "write_all leaf (as @ bs) m = write_all leaf bs (write_all leaf as m)"
  by (simp_all add: write_all_def)

lemma visit_writes:
  "visit_node leaf c m = (node_value leaf c, write_all leaf (visited c) m)"
  "visit_nodes leaf cs m = (map (node_value leaf) cs, write_all leaf (concat (map visited cs)) m)"
proof (induction leaf c m and leaf cs m rule: visit_node_visit_nodes.induct)
  case (1 leaf i t l ps m)
  show ?case by (cases "t \<in> COMBINATORS") (simp_all add: Let_def fun_upd_def)
next
  case (2 leaf i t l ps cs m)
  then show ?case by (cases "t \<in> COMBINATORS") (simp_all add: fun_upd_def)
qed simp_all

lemma evaluateTree_writes: "evaluateTree n leaf = write_all leaf (visited n) Map.empty"
  by (simp add: evaluateTree_def visit_writes)

lemma write_all_mem:
  "i \<in> set (map cond_id cs) \<Longrightarrow> write_all leaf cs m i \<noteq> None"
  "write_all leaf cs m i = (if i \<in> set (map cond_id cs) then write_all leaf cs Map.empty i else m i)"
proof -
  show eq: "write_all leaf cs m i = (if i \<in> set (map cond_id cs) then write_all leaf cs Map.empty i else m i)" for m
  proof (induction cs rule: rev_induct)
    case (snoc c cs)
    then show ?case by simp
  qed simp
  show "i \<in> set (map cond_id cs) \<Longrightarrow> write_all leaf cs m i \<noteq> None"
    by (induction cs rule: rev_induct) auto
qed

text \<open>Every condition that is visited has its value, when no two have the same identifier.\<close>

lemma write_all_value:
  assumes "distinct (map cond_id cs)" and "c \<in> set cs"
  shows "write_all leaf cs m (cond_id c) = Some (node_value leaf c)"
  using assms
proof (induction cs rule: rev_induct)
  case (snoc x xs)
  show ?case
  proof (cases "c = x")
    case False
    then have "c \<in> set xs" "cond_id c \<noteq> cond_id x" using snoc.prems by (auto simp: image_iff)
    then show ?thesis using snoc by simp
  qed simp
qed simp

text \<open>A rule as it should be: only combinators have children, and a negation has one.\<close>

fun well_formed :: "ApplicabilityCondition \<Rightarrow> bool" where
  "well_formed (Condition i t l ps children) \<longleftrightarrow>
     (case children of None \<Rightarrow> t \<noteq> CT_NOT
      | Some cs \<Rightarrow> t \<in> COMBINATORS \<and> (t = CT_NOT \<longrightarrow> length cs = 1) \<and> list_all well_formed cs)"

lemma root_visited: "n \<in> set (visited n)"
  by (cases n rule: visited.cases) simp_all

lemma visited_flatten: "well_formed n \<Longrightarrow> set (visited n) = set (flattenConditions n)"
proof (induction n rule: visited.induct)
  case (2 i t l ps cs)
  then have comb: "t \<in> COMBINATORS" and wf: "\<forall>c \<in> set cs. well_formed c" by (simp_all add: list_all_iff)
  have "set (visited c) = set (flattenConditions c)" if "c \<in> set cs" for c
    by (rule "2.IH" [OF comb that]) (use wf that in blast)
  then show ?case using comb by simp
qed simp

section \<open>Every node has its value\<close>

lemma tree_value:
  assumes "well_formed n" and "distinct (map cond_id (flattenConditions n))" and "c \<in> set (flattenConditions n)"
  shows "evaluateTree n leaf (cond_id c) = Some (node_value leaf c)"
proof -
  have inj: "inj_on cond_id (set (visited n))"
    unfolding visited_flatten [OF assms(1)] using assms(2) by (simp add: distinct_map)
  have "inj_on cond_id (set cs) \<Longrightarrow> c \<in> set cs \<Longrightarrow> write_all leaf cs m (cond_id c) = Some (node_value leaf c)" for cs m
  proof (induction cs rule: rev_induct)
    case (snoc x xs)
    show ?case
    proof (cases "c = x")
      case False
      moreover have "cond_id c = cond_id x \<Longrightarrow> c = x" using snoc.prems by (intro inj_onD [of cond_id "set (xs @ [x])"]) simp_all
      moreover have "inj_on cond_id (set xs)" by (rule inj_on_subset [OF snoc.prems(1)]) auto
      ultimately show ?thesis using snoc by auto
    qed simp
  qed simp
  from this [OF inj] show ?thesis using assms(3) visited_flatten [OF assms(1)] by (simp add: evaluateTree_writes)
qed

lemma root_value: "evaluateTree n leaf (cond_id n) = Some (node_value leaf n)"
  by (cases n rule: visited.cases) (simp_all add: evaluateTree_writes)

section \<open>Unknown is not false\<close>

text \<open>The rule over the two values, once every condition has one of them.\<close>

fun rule_holds :: "(string \<Rightarrow> bool) \<Rightarrow> ApplicabilityCondition \<Rightarrow> bool" where
  "rule_holds f (Condition i t l ps None) = (if t = CT_AND then True else if t = CT_OR then False else f i)"
| "rule_holds f (Condition i t l ps (Some cs)) =
     (if t = CT_AND then list_all (rule_holds f) cs
      else if t = CT_OR then list_ex (rule_holds f) cs
      else if t = CT_NOT then (case cs of [] \<Rightarrow> True | c # _ \<Rightarrow> \<not> rule_holds f c)
      else f i)"

definition says :: "ConditionResult \<Rightarrow> bool \<Rightarrow> bool" where
  "says r b \<longleftrightarrow> (r = K_TRUE \<longrightarrow> b) \<and> (r = K_FALSE \<longrightarrow> \<not> b)"

text \<open>A result is refined when it was unknown or stays.\<close>

definition refines_result :: "ConditionResult \<Rightarrow> ConditionResult \<Rightarrow> bool" where
  "refines_result r r' \<longleftrightarrow> r = K_UNKNOWN \<or> r' = r"

text \<open>An operation on three values that stands for one on two: sound for what its arguments say, and monotone.\<close>

locale kleene_operation =
  fixes kop :: "ConditionResult \<Rightarrow> ConditionResult \<Rightarrow> ConditionResult" and bop :: "bool \<Rightarrow> bool \<Rightarrow> bool"
  assumes sound: "says a x \<Longrightarrow> says b y \<Longrightarrow> says (kop a b) (bop x y)"
    and mono: "refines_result a a' \<Longrightarrow> refines_result b b' \<Longrightarrow> refines_result (kop a b) (kop a' b')"
begin

lemma fold_sound: "list_all2 says rs bs \<Longrightarrow> says r b \<Longrightarrow> says (foldl kop r rs) (foldl bop b bs)"
  by (induction rs bs arbitrary: r b rule: list_all2_induct) (simp_all add: sound)

lemma fold_mono: "list_all2 refines_result rs rs' \<Longrightarrow> refines_result r r' \<Longrightarrow> refines_result (foldl kop r rs) (foldl kop r' rs')"
  by (induction rs rs' arbitrary: r r' rule: list_all2_induct) (simp_all add: mono)

end

interpretation k_and: kleene_operation kleeneAnd "(\<and>)"
proof
  show "says a x \<Longrightarrow> says b y \<Longrightarrow> says (kleeneAnd a b) (x \<and> y)" for a b x y
    by (cases a; cases b) (auto simp: says_def kleeneAnd_def)
  show "refines_result a a' \<Longrightarrow> refines_result b b' \<Longrightarrow> refines_result (kleeneAnd a b) (kleeneAnd a' b')" for a a' b b'
    by (cases a; cases b) (auto simp: refines_result_def kleeneAnd_def)
qed

interpretation k_or: kleene_operation kleeneOr "(\<or>)"
proof
  show "says a x \<Longrightarrow> says b y \<Longrightarrow> says (kleeneOr a b) (x \<or> y)" for a b x y
    by (cases a; cases b) (auto simp: says_def kleeneOr_def)
  show "refines_result a a' \<Longrightarrow> refines_result b b' \<Longrightarrow> refines_result (kleeneOr a b) (kleeneOr a' b')" for a a' b b'
    by (cases a; cases b) (auto simp: refines_result_def kleeneOr_def)
qed

lemma foldl_bool: "foldl (\<and>) b bs \<longleftrightarrow> b \<and> list_all id bs" "foldl (\<or>) b bs \<longleftrightarrow> b \<or> list_ex id bs"
  by (induction bs arbitrary: b) auto

text \<open>The world \<open>f\<close> is one of those that the results allow.\<close>

definition allowed :: "(string \<Rightarrow> bool) \<Rightarrow> Results \<Rightarrow> bool" where
  "allowed f leaf \<longleftrightarrow> (\<forall>i. says (result_at leaf i) (f i))"

lemma says_not: "says a x \<Longrightarrow> says (kleeneNot a) (\<not> x)"
  by (cases a) (auto simp: says_def kleeneNot_def)

lemma value_says: "well_formed n \<Longrightarrow> allowed f leaf \<Longrightarrow> says (node_value leaf n) (rule_holds f n)"
proof (induction f n rule: rule_holds.induct)
  case (1 f i t l ps)
  then show ?case
    by (cases t) (auto simp: allowed_def COMBINATORS_def combine_def says_def)
next
  case (2 f i t l ps cs)
  have wf: "well_formed c" if "c \<in> set cs" for c using "2.prems"(1) that by (simp add: list_all_iff)
  consider "t = CT_AND" | "t = CT_OR" | "t = CT_NOT" using "2.prems"(1) by (auto simp: COMBINATORS_def)
  then show ?case
  proof cases
    case 1
    then have "list_all2 says (map (node_value leaf) cs) (map (rule_holds f) cs)"
      using "2.IH"(1) "2.prems"(2) wf by (simp add: list_all2_map1 list_all2_map2 list_all2_same)
    from k_and.fold_sound [OF this, of K_TRUE True] show ?thesis
      using 1 by (simp add: says_def combine_def COMBINATORS_def foldl_bool list_all_iff)
  next
    case 2
    then have "list_all2 says (map (node_value leaf) cs) (map (rule_holds f) cs)"
      using "2.IH"(2) "2.prems"(2) wf by (simp add: list_all2_map1 list_all2_map2 list_all2_same)
    from k_or.fold_sound [OF this, of K_FALSE False] show ?thesis
      using 2 by (simp add: says_def combine_def COMBINATORS_def foldl_bool list_ex_iff)
  next
    case 3
    then obtain c where c: "cs = [c]" using "2.prems"(1) by (auto simp: length_Suc_conv)
    have "says (node_value leaf c) (rule_holds f c)"
      using "2.IH"(3) "2.prems"(2) wf 3 c by simp
    from says_not [OF this] show ?thesis using 3 c by (simp add: combine_def COMBINATORS_def)
  qed
qed

section \<open>More evidence\<close>

definition more_known :: "Results \<Rightarrow> Results \<Rightarrow> bool" where
  "more_known leaf leaf' \<longleftrightarrow> (\<forall>i. result_at leaf i = K_UNKNOWN \<or> result_at leaf' i = result_at leaf i)"

lemma refines_combine: "list_all2 refines_result rs rs' \<Longrightarrow> refines_result (combine t rs) (combine t rs')"
proof -
  assume rs: "list_all2 refines_result rs rs'"
  have "refines_result (kleeneNot (case rs of [] \<Rightarrow> K_UNKNOWN | r # _ \<Rightarrow> r)) (kleeneNot (case rs' of [] \<Rightarrow> K_UNKNOWN | r # _ \<Rightarrow> r))"
    using rs by (cases rs; cases rs') (auto simp: refines_result_def kleeneNot_def)
  then show ?thesis
    using k_and.fold_mono [OF rs, of K_TRUE K_TRUE] k_or.fold_mono [OF rs, of K_FALSE K_FALSE]
    by (simp add: combine_def) (simp add: refines_result_def)
qed

lemma value_refines: "more_known leaf leaf' \<Longrightarrow> refines_result (node_value leaf n) (node_value leaf' n)"
proof (induction n rule: visited.induct)
  case (1 i t l ps)
  have "refines_result (combine t []) (combine t [])" by (simp add: refines_result_def)
  then show ?case using 1 by (simp add: more_known_def refines_result_def)
next
  case (2 i t l ps cs)
  show ?case
  proof (cases "t \<in> COMBINATORS")
    case True
    have "list_all2 refines_result (map (node_value leaf) cs) (map (node_value leaf') cs)"
      using "2.IH" [OF True] "2.prems" by (simp add: list_all2_map1 list_all2_map2 list_all2_same)
    from refines_combine [OF this] show ?thesis using True by simp
  next
    case False
    then show ?thesis using "2.prems" by (simp add: more_known_def refines_result_def)
  qed
qed

lemma write_all_refines:
  assumes "more_known leaf leaf'"
  shows "write_all leaf cs Map.empty i = Some r \<Longrightarrow> r \<noteq> K_UNKNOWN \<Longrightarrow> write_all leaf' cs Map.empty i = Some r"
proof (induction cs rule: rev_induct)
  case (snoc c cs)
  show ?case
  proof (cases "i = cond_id c")
    case True
    then show ?thesis using snoc.prems value_refines [OF assms, of c] by (auto simp: refines_result_def)
  next
    case False
    then show ?thesis using snoc by simp
  qed
qed simp

section \<open>The page of an assessment\<close>

datatype 'a PageOutcome = PageNotFound | PageThrows | PageShows 'a

text \<open>\<open>Object.fromEntries\<close>: of two entries with one key the last counts.\<close>

definition leaf_results :: "ApplicabilityAssessment \<Rightarrow> Results" where
  "leaf_results a = map_of (rev (map (\<lambda>e. (ce_conditionId e, ce_result e)) (aa_conditionEvaluations a)))"

record AssessmentView =
  vw_assessment :: ApplicabilityAssessment
  vw_requirement :: RegulatoryRequirement
  vw_rule :: "ApplicabilityRule option"
  vw_subjectLabel :: string
  vw_subjectHref :: string
  vw_treeResults :: "Results option"
  vw_evidence :: "Evidence list"
  vw_lineage :: "ApplicabilityAssessment list"

definition subject_label :: "world \<Rightarrow> ApplicabilityAssessment \<Rightarrow> string" where
  "subject_label W a =
     (if aa_subjectType a = SUB_AIRCRAFT
      then (case getAircraftById W (aa_subjectId a) of None \<Rightarrow> aa_subjectId a | Some x \<Rightarrow> currentRegistration x)
      else (case getEngineById W (aa_subjectId a) of None \<Rightarrow> aa_subjectId a | Some e \<Rightarrow> en_serialNumber e))"

definition subject_href :: "ApplicabilityAssessment \<Rightarrow> string" where
  "subject_href a = (if aa_subjectType a = SUB_AIRCRAFT then ''/aircraft/'' else ''/engines/'') @ aa_subjectId a"

text \<open>An endless chain of predecessors never returns, so that nothing is shown.\<close>

definition AssessmentDetailPage :: "world \<Rightarrow> string \<Rightarrow> AssessmentView PageOutcome option" where
  "AssessmentDetailPage W i =
     (case getAssessmentById W i of
        None \<Rightarrow> Some PageNotFound
      | Some a \<Rightarrow>
          (case getRequirementById W (aa_regulatoryRequirementId a) of
             None \<Rightarrow> Some PageThrows
           | Some q \<Rightarrow>
               let rule = getRuleForRequirement W (rr_id q) in
               map_option (\<lambda>lineage. PageShows
                 \<lparr>vw_assessment = a, vw_requirement = q, vw_rule = rule, vw_subjectLabel = subject_label W a,
                  vw_subjectHref = subject_href a,
                  vw_treeResults = map_option (\<lambda>r. evaluateTree (ru_rootCondition r) (leaf_results a)) rule,
                  vw_evidence = evidenceForAssessment W (aa_id a), vw_lineage = lineage\<rparr>)
               (lineageFor W (aa_id a))))"

text \<open>\<open>ConditionTree\<close>: the rows with their depth and their badge; a collapsed node hides its children.\<close>

fun condition_rows :: "(string \<Rightarrow> bool) \<Rightarrow> Results option \<Rightarrow> nat \<Rightarrow> ApplicabilityCondition \<Rightarrow>
    (nat \<times> string \<times> ConditionResult option) list" where
  "condition_rows collapsed results depth (Condition i t l ps None) = [(depth, l, Option.bind results (\<lambda>m. m i))]"
| "condition_rows collapsed results depth (Condition i t l ps (Some cs)) =
     (depth, l, Option.bind results (\<lambda>m. m i)) #
     (if collapsed i then [] else concat (map (condition_rows collapsed results (depth + 1)) cs))"

text \<open>\<open>WhyPanel\<close>: the conditions that are resolved, and whether the remark on unknown ones is shown.\<close>

definition why_supported :: "ConditionEvaluation list \<Rightarrow> nat" where
  "why_supported es = length (filter (\<lambda>e. ce_result e = K_TRUE \<or> ce_result e = K_FALSE) es)"

definition why_unresolved :: "ConditionEvaluation list \<Rightarrow> bool" where
  "why_unresolved es \<longleftrightarrow> list_ex (\<lambda>e. ce_result e = K_UNKNOWN) es"

lemma why_panel: "why_unresolved es \<longleftrightarrow> why_supported es < length es"
proof (induction es)
  case (Cons e es)
  have "why_supported es \<le> length es" by (simp add: why_supported_def)
  moreover have "why_supported (e # es) = (if ce_result e = K_UNKNOWN then why_supported es else Suc (why_supported es))"
    by (cases "ce_result e") (simp_all add: why_supported_def)
  moreover have "why_unresolved (e # es) \<longleftrightarrow> ce_result e = K_UNKNOWN \<or> why_unresolved es" by (simp add: why_unresolved_def)
  ultimately show ?case using Cons by auto
qed (simp add: why_supported_def why_unresolved_def)

section \<open>The review\<close>

datatype DecisionOption =
    OPT_CONFIRM_APPLICABLE | OPT_CONFIRM_NOT_APPLICABLE | OPT_REQUEST_MORE_EVIDENCE | OPT_OVERRIDE_WITH_JUSTIFICATION

record Review =
  rev_decision :: "DecisionOption option"
  rev_comment :: string
  rev_submitted :: "(DecisionOption \<times> string \<times> string) option"

definition review_init :: Review where
  "review_init = \<lparr>rev_decision = None, rev_comment = [], rev_submitted = None\<rparr>"

definition requiresJustification :: "Review \<Rightarrow> bool" where
  "requiresJustification s \<longleftrightarrow> rev_decision s = Some OPT_OVERRIDE_WITH_JUSTIFICATION"

definition canSubmit :: "Review \<Rightarrow> bool" where
  "canSubmit s \<longleftrightarrow> rev_decision s \<noteq> None \<and> (\<not> requiresJustification s \<or> trim (rev_comment s) \<noteq> [])"

definition handleSubmitReview :: "int \<Rightarrow> Review \<Rightarrow> Review" where
  "handleSubmitReview now s =
     (case rev_decision s of
        None \<Rightarrow> s
      | Some d \<Rightarrow> if \<not> canSubmit s then s else s\<lparr>rev_submitted := Some (d, rev_comment s, toISOString now)\<rparr>)"

datatype ReviewEvent = ChooseDecision DecisionOption | TypeComment string | PressSubmitDecision int

text \<open>Once submitted, the form is not shown any more.\<close>

fun review_step :: "Review \<Rightarrow> ReviewEvent \<Rightarrow> Review" where
  "review_step s (ChooseDecision d) = (if rev_submitted s = None then s\<lparr>rev_decision := Some d\<rparr> else s)"
| "review_step s (TypeComment c) = (if rev_submitted s = None then s\<lparr>rev_comment := c\<rparr> else s)"
| "review_step s (PressSubmitDecision now) =
     (if rev_submitted s = None \<and> canSubmit s then handleSubmitReview now s else s)"

definition review_ok :: "Review \<Rightarrow> bool" where
  "review_ok s \<longleftrightarrow> (case rev_submitted s of
     None \<Rightarrow> True
   | Some (d, c, moment) \<Rightarrow> d \<noteq> OPT_OVERRIDE_WITH_JUSTIFICATION \<or> trim c \<noteq> [])"

interpretation review: machine review_step review_ok
proof
  fix s e
  assume "review_ok s"
  then show "review_ok (review_step s e)"
    by (cases e) (auto simp: review_ok_def handleSubmitReview_def canSubmit_def requiresJustification_def split: option.splits)
qed

lemma submitted_stays: "rev_submitted s = Some x \<Longrightarrow> run review_step s es = s"
proof (induction es)
  case (Cons e es)
  then show ?case by (cases e) simp_all
qed simp

section \<open>What the decision rests on\<close>

text \<open>
  C6 Unknown is not false: what the tree of a well-formed rule decides at its root holds in every world that the
  results of its conditions allow, whichever way the unknown ones turn out.
\<close>

theorem unknown_is_not_false:
  assumes "well_formed n" and "allowed f leaf"
  shows "case evaluateTree n leaf (cond_id n) of
    None \<Rightarrow> False
  | Some r \<Rightarrow> (if r = K_TRUE then rule_holds f n else if r = K_FALSE then \<not> rule_holds f n else True)"
  using value_says [OF assms] by (simp add: root_value says_def)

text \<open>
  C7 More evidence never revises the tree: a node that is decided keeps its result when unknown conditions become known,
  for every node of every rule.
\<close>

theorem evidence_never_revises:
  assumes "more_known leaf leaf'" and "evaluateTree n leaf i = Some r" and "r \<noteq> K_UNKNOWN"
  shows "evaluateTree n leaf' i = Some r"
  using write_all_refines [OF assms(1)] assms(2,3) by (simp add: evaluateTree_writes)

text \<open>
  C8 The tree that is shown is decided everywhere: with well-formed rules of distinct identifiers every condition of the
  rule has the value of its part of the rule, and every row has a badge.
\<close>

theorem tree_shown_decided:
  assumes "well_formed n" and "distinct (map cond_id (flattenConditions n))"
  shows "list_all (\<lambda>c. evaluateTree n leaf (cond_id c) = Some (node_value leaf c)) (flattenConditions n) \<and>
    list_all (\<lambda>(k, l, badge). badge \<noteq> None) (condition_rows collapsed (Some (evaluateTree n leaf)) 0 n)"
proof (rule conjI)
  have vals: "evaluateTree n leaf (cond_id c) = Some (node_value leaf c)" if "c \<in> set (flattenConditions n)" for c
    by (rule tree_value [OF assms that])
  then show "list_all (\<lambda>c. evaluateTree n leaf (cond_id c) = Some (node_value leaf c)) (flattenConditions n)"
    by (simp add: list_all_iff)
  have "set (flattenConditions c) \<subseteq> set (flattenConditions n) \<Longrightarrow>
      list_all (\<lambda>(k, l, badge). badge \<noteq> None) (condition_rows collapsed (Some (evaluateTree n leaf)) k c)" for c k
  proof (induction collapsed "Some (evaluateTree n leaf)" k c rule: condition_rows.induct)
    case (1 collapsed k i t l ps)
    then show ?case using vals [of "Condition i t l ps None"] by simp
  next
    case (2 collapsed k i t l ps cs)
    have "list_all (\<lambda>(k, l, badge). badge \<noteq> None) (condition_rows collapsed (Some (evaluateTree n leaf)) (k + 1) c)"
      if "\<not> collapsed i" "c \<in> set cs" for c
      using "2.hyps"(1) [OF that] "2.prems" that(2) by auto
    then show ?case using vals [of "Condition i t l ps (Some cs)"] "2.prems" by (auto simp: list_all_iff)
  qed
  then show "list_all (\<lambda>(k, l, badge). badge \<noteq> None) (condition_rows collapsed (Some (evaluateTree n leaf)) 0 n)" by simp
qed

text \<open>
  An override is never submitted without a justification, and what was submitted is not changed any more, whatever is
  pressed.
\<close>

theorem review_justified:
  "review_ok (run review_step review_init es) \<and>
   (rev_submitted (run review_step review_init es) = None \<or>
    run review_step review_init (es @ fs) = run review_step review_init es)"
proof
  show "review_ok (run review_step review_init es)"
    by (rule review.run_inv) (simp add: review_ok_def review_init_def)
  show "rev_submitted (run review_step review_init es) = None \<or>
      run review_step review_init (es @ fs) = run review_step review_init es"
    using submitted_stays by (cases "rev_submitted (run review_step review_init es)") (auto simp: run_append)
qed

end
