(* ===== verification/AssessmentSeed.thy ===== *)
theory AssessmentSeed
  imports Applicability SupplySeed
begin

text \<open>
  The rules of \<open>src/frontend/lib/mock/regulations.ts\<close> and the assessments of \<open>assessments.ts\<close>: the four
  written by hand, whose results their trees confirm, and those generated from a plan, whose
  results the trees of their rules do not reach.
\<close>

section \<open>The rules\<close>

definition modificationExclusion :: ApplicabilityCondition where
  "modificationExclusion =
     Condition ''cond-mod-778'' CT_MODIFICATION_EXCLUSION ''Modification MOD-778 embodied'' (Some [(''modification'', PV_string ''MOD-778'')]) None"

definition componentCondition :: ApplicabilityCondition where
  "componentCondition =
     Condition ''cond-component-abc123'' CT_COMPONENT_PART ''Component P/N = ABC-123 installed'' (Some [(''partNumber'', PV_string ''ABC-123'')]) None"

definition engineCondition :: ApplicabilityCondition where
  "engineCondition =
     Condition ''cond-engine-cfm567b'' CT_ENGINE_TYPE ''Engine Type = CFM56-7B'' (Some [(''engineType'', PV_string ''CFM56-7B'')]) None"

definition msnRangeCondition :: ApplicabilityCondition where
  "msnRangeCondition =
     Condition ''cond-msn-35000-37000'' CT_MSN_RANGE (''MSN between 35000'' @ [CHR 0xE2, CHR 0x80, CHR 0x93] @ ''37000'') (Some [(''min'', PV_number 35000), (''max'', PV_number 37000)]) None"

definition variantCondition :: ApplicabilityCondition where
  "variantCondition =
     Condition ''cond-variant-738'' CT_AIRCRAFT_VARIANT ''Aircraft Variant = Boeing 737-800'' (Some [(''variant'', PV_string ''737-800'')]) None"

definition ad2026001Root :: ApplicabilityCondition where
  "ad2026001Root =
     Condition ''cond-root-ad-2026-001'' CT_AND ''ALL'' None (Some
        [variantCondition,
         Condition ''cond-and-msn-engine-component'' CT_AND ''AND'' None (Some
            [msnRangeCondition,
             engineCondition,
             componentCondition]),
         Condition ''cond-not-mod-778'' CT_NOT ''NOT'' None (Some
            [modificationExclusion])])"

definition ad2026002Root :: ApplicabilityCondition where
  "ad2026002Root =
     Condition ''cond-root-ad-2026-002'' CT_AND ''ALL'' None (Some
        [Condition ''cond-variant-a330'' CT_AIRCRAFT_VARIANT ''Aircraft Variant = Airbus A330-200/300'' (Some [(''variant'', PV_string ''A330'')]) None])"

definition ad2026003Root :: ApplicabilityCondition where
  "ad2026003Root =
     Condition ''cond-root-ad-2026-003'' CT_AND ''ALL'' None (Some
        [Condition ''cond-variant-738-r3'' CT_AIRCRAFT_VARIANT ''Aircraft Variant = Boeing 737-800'' (Some [(''variant'', PV_string ''737-800'')]) None,
         Condition ''cond-msn-35500-36500'' CT_MSN_RANGE (''MSN between 35500'' @ [CHR 0xE2, CHR 0x80, CHR 0x93] @ ''36500'') (Some [(''min'', PV_number 35500), (''max'', PV_number 36500)]) None])"

definition seed_applicabilityRules :: "ApplicabilityRule list" where
  "seed_applicabilityRules =
    [\<lparr>ru_id = ''rule-ad-2026-001'', ru_regulatoryRequirementId = ''req-ad-2026-001'', ru_ruleVersion = ''v1.0'', ru_description = ''Structured applicability for AD-2026-001.'',
      ru_rootCondition = ad2026001Root\<rparr>,
     \<lparr>ru_id = ''rule-ad-2026-002'', ru_regulatoryRequirementId = ''req-ad-2026-002'', ru_ruleVersion = ''v1.0'', ru_description = ''Structured applicability for AD-2026-002.'',
      ru_rootCondition = ad2026002Root\<rparr>,
     \<lparr>ru_id = ''rule-ad-2026-003'', ru_regulatoryRequirementId = ''req-ad-2026-003'', ru_ruleVersion = ''v1.0'', ru_description = ''Structured applicability for AD-2026-003.'',
      ru_rootCondition = ad2026003Root\<rparr>]"

section \<open>The assessments written by hand\<close>

definition asmt1Evaluations :: "ConditionEvaluation list" where
  "asmt1Evaluations =
    [\<lparr>ce_conditionId = ''cond-variant-738'', ce_conditionType = CT_AIRCRAFT_VARIANT,
      ce_label = ''Aircraft Variant = Boeing 737-800'', ce_expected = ''737-800'',
      ce_actual = Some ''737-800'', ce_result = K_TRUE, ce_evidenceIds = [],
      ce_note = None\<rparr>,
     \<lparr>ce_conditionId = ''cond-msn-35000-37000'', ce_conditionType = CT_MSN_RANGE,
      ce_label = (''MSN between 35000'' @ [CHR 0xE2, CHR 0x80, CHR 0x93] @ ''37000''), ce_expected = (''35000'' @ [CHR 0xE2, CHR 0x80, CHR 0x93] @ ''37000''),
      ce_actual = Some ''35124'', ce_result = K_TRUE, ce_evidenceIds = [],
      ce_note = None\<rparr>,
     \<lparr>ce_conditionId = ''cond-engine-cfm567b'', ce_conditionType = CT_ENGINE_TYPE,
      ce_label = ''Engine Type = CFM56-7B'', ce_expected = ''CFM56-7B'',
      ce_actual = Some ''CFM56-7B (SN 100781, Engine 1)'', ce_result = K_TRUE, ce_evidenceIds = [''ev-1''],
      ce_note = None\<rparr>,
     \<lparr>ce_conditionId = ''cond-component-abc123'', ce_conditionType = CT_COMPONENT_PART,
      ce_label = ''Component P/N = ABC-123 installed'', ce_expected = ''Installed'',
      ce_actual = None, ce_result = K_UNKNOWN, ce_evidenceIds = [],
      ce_note = Some (''No installation record found for ABC-123 on VT-ABC. Absence is not confirmed '' @ em_dash @ '' evidence has simply not been provided yet.'')\<rparr>,
     \<lparr>ce_conditionId = ''cond-mod-778'', ce_conditionType = CT_MODIFICATION_EXCLUSION,
      ce_label = ''Modification MOD-778 embodied?'', ce_expected = ''Not embodied'',
      ce_actual = None, ce_result = K_UNKNOWN, ce_evidenceIds = [],
      ce_note = Some (''Modification/STC tracking is not yet a structured M1 capability (see docs/ontology/M1_SCOPE.md) '' @ em_dash @ '' absence cannot be assumed.'')\<rparr>]"

definition asmt2Evaluations :: "ConditionEvaluation list" where
  "asmt2Evaluations =
    [\<lparr>ce_conditionId = ''cond-variant-738'', ce_conditionType = CT_AIRCRAFT_VARIANT,
      ce_label = ''Aircraft Variant = Boeing 737-800'', ce_expected = ''737-800'',
      ce_actual = Some ''737-800'', ce_result = K_TRUE, ce_evidenceIds = [],
      ce_note = None\<rparr>,
     \<lparr>ce_conditionId = ''cond-msn-35000-37000'', ce_conditionType = CT_MSN_RANGE,
      ce_label = (''MSN between 35000'' @ [CHR 0xE2, CHR 0x80, CHR 0x93] @ ''37000''), ce_expected = (''35000'' @ [CHR 0xE2, CHR 0x80, CHR 0x93] @ ''37000''),
      ce_actual = Some ''35124'', ce_result = K_TRUE, ce_evidenceIds = [],
      ce_note = None\<rparr>,
     \<lparr>ce_conditionId = ''cond-engine-cfm567b'', ce_conditionType = CT_ENGINE_TYPE,
      ce_label = ''Engine Type = CFM56-7B'', ce_expected = ''CFM56-7B'',
      ce_actual = Some ''CFM56-7B (SN 100781, Engine 1)'', ce_result = K_TRUE, ce_evidenceIds = [''ev-1''],
      ce_note = None\<rparr>,
     \<lparr>ce_conditionId = ''cond-component-abc123'', ce_conditionType = CT_COMPONENT_PART,
      ce_label = ''Component P/N = ABC-123 installed'', ce_expected = ''Installed'',
      ce_actual = Some ''ABC-123 (SN ABC902) confirmed installed'', ce_result = K_TRUE, ce_evidenceIds = [''ev-3''],
      ce_note = None\<rparr>,
     \<lparr>ce_conditionId = ''cond-mod-778'', ce_conditionType = CT_MODIFICATION_EXCLUSION,
      ce_label = ''Modification MOD-778 embodied?'', ce_expected = ''Not embodied'',
      ce_actual = Some ''Confirmed not embodied'', ce_result = K_FALSE, ce_evidenceIds = [''ev-4''],
      ce_note = None\<rparr>]"

definition asmt3Evaluations :: "ConditionEvaluation list" where
  "asmt3Evaluations =
    [\<lparr>ce_conditionId = ''cond-variant-a330'', ce_conditionType = CT_AIRCRAFT_VARIANT,
      ce_label = ''Aircraft Variant = Airbus A330-200/300'', ce_expected = ''A330'',
      ce_actual = Some ''A320-200'', ce_result = K_FALSE, ce_evidenceIds = [],
      ce_note = None\<rparr>]"

definition asmt4Evaluations :: "ConditionEvaluation list" where
  "asmt4Evaluations =
    [\<lparr>ce_conditionId = ''cond-variant-738-r3'', ce_conditionType = CT_AIRCRAFT_VARIANT,
      ce_label = ''Aircraft Variant = Boeing 737-800'', ce_expected = ''737-800'',
      ce_actual = Some ''737-800'', ce_result = K_TRUE, ce_evidenceIds = [],
      ce_note = None\<rparr>,
     \<lparr>ce_conditionId = ''cond-msn-35500-36500'', ce_conditionType = CT_MSN_RANGE,
      ce_label = (''MSN between 35500'' @ [CHR 0xE2, CHR 0x80, CHR 0x93] @ ''36500''), ce_expected = (''35500'' @ [CHR 0xE2, CHR 0x80, CHR 0x93] @ ''36500''),
      ce_actual = Some ''35980'', ce_result = K_TRUE, ce_evidenceIds = [],
      ce_note = None\<rparr>]"

definition hero_asmt_1 :: "ConfigurationSnapshot \<Rightarrow> ApplicabilityAssessment" where
  "hero_asmt_1 snapshot =
    \<lparr>aa_id = ''asmt-1'', aa_regulatoryRequirementId = ''req-ad-2026-001'',
     aa_applicabilityRuleId = ''rule-ad-2026-001'', aa_subjectType = SUB_AIRCRAFT, aa_subjectId = ''ac-1'',
     aa_previousAssessmentId = None, aa_systemResult = SR_INSUFFICIENT_DATA,
     aa_confidence = 40 / 100, aa_conditionEvaluations = asmt1Evaluations,
     aa_ruleVersion = ''v1.0'', aa_regulatoryDocumentVersion = ''rev. 1'',
     aa_configurationSnapshot = snapshot, aa_evaluatedAt = ''2026-03-12T10:42:00Z'',
     aa_humanDecision = HD_REQUEST_MORE_EVIDENCE, aa_humanDecisionBy = Some ''Priya Nair'',
     aa_humanDecisionByRole = Some ''Compliance Engineer'', aa_humanDecisionAt = Some ''2026-03-12T11:05:00Z'',
     aa_overrideReason = None, aa_finalStatus = FS_REVIEW_REQUIRED,
     aa_changeReason = None, aa_evidenceIds = [''ev-1'', ''ev-2'']\<rparr>"

definition hero_asmt_2 :: "ConfigurationSnapshot \<Rightarrow> ApplicabilityAssessment" where
  "hero_asmt_2 snapshot =
    \<lparr>aa_id = ''asmt-2'', aa_regulatoryRequirementId = ''req-ad-2026-001'',
     aa_applicabilityRuleId = ''rule-ad-2026-001'', aa_subjectType = SUB_AIRCRAFT, aa_subjectId = ''ac-1'',
     aa_previousAssessmentId = Some ''asmt-1'', aa_systemResult = SR_APPLICABLE,
     aa_confidence = 97 / 100, aa_conditionEvaluations = asmt2Evaluations,
     aa_ruleVersion = ''v1.0'', aa_regulatoryDocumentVersion = ''rev. 1'',
     aa_configurationSnapshot = snapshot, aa_evaluatedAt = ''2026-03-14T09:20:00Z'',
     aa_humanDecision = HD_CONFIRMED_APPLICABLE, aa_humanDecisionBy = Some ''Priya Nair'',
     aa_humanDecisionByRole = Some ''Compliance Engineer'', aa_humanDecisionAt = Some ''2026-03-14T09:35:00Z'',
     aa_overrideReason = None, aa_finalStatus = FS_NON_COMPLIANT,
     aa_changeReason = Some CR_NEW_EVIDENCE, aa_evidenceIds = [''ev-1'', ''ev-3'', ''ev-4'']\<rparr>"

definition hero_asmt_3 :: "ConfigurationSnapshot \<Rightarrow> ApplicabilityAssessment" where
  "hero_asmt_3 snapshot =
    \<lparr>aa_id = ''asmt-3'', aa_regulatoryRequirementId = ''req-ad-2026-002'',
     aa_applicabilityRuleId = ''rule-ad-2026-002'', aa_subjectType = SUB_AIRCRAFT, aa_subjectId = ''ac-2'',
     aa_previousAssessmentId = None, aa_systemResult = SR_NOT_APPLICABLE,
     aa_confidence = 99 / 100, aa_conditionEvaluations = asmt3Evaluations,
     aa_ruleVersion = ''v1.0'', aa_regulatoryDocumentVersion = ''rev. 0'',
     aa_configurationSnapshot = snapshot, aa_evaluatedAt = ''2026-03-11T08:15:00Z'',
     aa_humanDecision = HD_CONFIRMED_NOT_APPLICABLE, aa_humanDecisionBy = Some ''Rohan Verma'',
     aa_humanDecisionByRole = Some ''CAMO Engineer'', aa_humanDecisionAt = Some ''2026-03-11T09:00:00Z'',
     aa_overrideReason = None, aa_finalStatus = FS_COMPLIANT,
     aa_changeReason = None, aa_evidenceIds = [''ev-5'']\<rparr>"

definition hero_asmt_4 :: "ConfigurationSnapshot \<Rightarrow> ApplicabilityAssessment" where
  "hero_asmt_4 snapshot =
    \<lparr>aa_id = ''asmt-4'', aa_regulatoryRequirementId = ''req-ad-2026-003'',
     aa_applicabilityRuleId = ''rule-ad-2026-003'', aa_subjectType = SUB_AIRCRAFT, aa_subjectId = ''ac-5'',
     aa_previousAssessmentId = None, aa_systemResult = SR_APPLICABLE,
     aa_confidence = 98 / 100, aa_conditionEvaluations = asmt4Evaluations,
     aa_ruleVersion = ''v1.0'', aa_regulatoryDocumentVersion = ''rev. 2'',
     aa_configurationSnapshot = snapshot, aa_evaluatedAt = ''2026-01-26T08:00:00Z'',
     aa_humanDecision = HD_CONFIRMED_APPLICABLE, aa_humanDecisionBy = Some ''Priya Nair'',
     aa_humanDecisionByRole = Some ''Compliance Engineer'', aa_humanDecisionAt = Some ''2026-01-26T08:30:00Z'',
     aa_overrideReason = None, aa_finalStatus = FS_COMPLIANT,
     aa_changeReason = None, aa_evidenceIds = [''ev-6'']\<rparr>"

text \<open>The snapshots are taken from the world; an assessment of an unknown aircraft or engine fails.\<close>

definition heroAssessments :: "world \<Rightarrow> ApplicabilityAssessment list option" where
  "heroAssessments W = those
    [map_option hero_asmt_1 (buildSnapshot W ''ac-1'' ''2026-03-12'' ''DV-7F31A2''),
     map_option hero_asmt_2 (buildSnapshot W ''ac-1'' ''2026-03-14'' ''DV-9C42E7''),
     map_option hero_asmt_3 (buildSnapshot W ''ac-2'' ''2026-03-11'' ''DV-2A88B1''),
     map_option hero_asmt_4 (buildSnapshot W ''ac-5'' ''2026-01-26'' ''DV-11F09D'')]"

section \<open>The generated assessments\<close>

record BulkPlan =
  bp_aircraftId :: string
  bp_requirementId :: string
  bp_ruleId :: string
  bp_applicable :: bool
  bp_date :: string

definition bulkPlan :: "BulkPlan list" where
  "bulkPlan =
    [\<lparr>bp_aircraftId = ''ac-3'', bp_requirementId = ''req-ad-2026-001'', bp_ruleId = ''rule-ad-2026-001'', bp_applicable = True,
      bp_date = ''2026-03-08''\<rparr>,
     \<lparr>bp_aircraftId = ''ac-4'', bp_requirementId = ''req-ad-2026-004'', bp_ruleId = ''rule-ad-2026-003'', bp_applicable = True,
      bp_date = ''2026-02-02''\<rparr>,
     \<lparr>bp_aircraftId = ''ac-6'', bp_requirementId = ''req-ad-2026-004'', bp_ruleId = ''rule-ad-2026-003'', bp_applicable = False,
      bp_date = ''2026-02-03''\<rparr>,
     \<lparr>bp_aircraftId = ''ac-7'', bp_requirementId = ''req-ad-2026-005'', bp_ruleId = ''rule-ad-2026-003'', bp_applicable = True,
      bp_date = ''2025-12-21''\<rparr>,
     \<lparr>bp_aircraftId = ''ac-8'', bp_requirementId = ''req-ad-2026-005'', bp_ruleId = ''rule-ad-2026-003'', bp_applicable = False,
      bp_date = ''2025-12-22''\<rparr>,
     \<lparr>bp_aircraftId = ''ac-9'', bp_requirementId = ''req-ad-2026-001'', bp_ruleId = ''rule-ad-2026-001'', bp_applicable = True,
      bp_date = ''2026-03-09''\<rparr>,
     \<lparr>bp_aircraftId = ''ac-10'', bp_requirementId = ''req-ad-2026-006'', bp_ruleId = ''rule-ad-2026-003'', bp_applicable = True,
      bp_date = ''2026-02-16''\<rparr>,
     \<lparr>bp_aircraftId = ''ac-3'', bp_requirementId = ''req-ad-2026-005'', bp_ruleId = ''rule-ad-2026-003'', bp_applicable = True,
      bp_date = ''2025-12-23''\<rparr>,
     \<lparr>bp_aircraftId = ''ac-4'', bp_requirementId = ''req-ad-2026-006'', bp_ruleId = ''rule-ad-2026-003'', bp_applicable = False,
      bp_date = ''2026-02-17''\<rparr>,
     \<lparr>bp_aircraftId = ''ac-6'', bp_requirementId = ''req-ad-2026-002'', bp_ruleId = ''rule-ad-2026-002'', bp_applicable = False,
      bp_date = ''2026-03-07''\<rparr>,
     \<lparr>bp_aircraftId = ''ac-9'', bp_requirementId = ''req-ad-2026-004'', bp_ruleId = ''rule-ad-2026-003'', bp_applicable = True,
      bp_date = ''2026-02-04''\<rparr>]"

fun hex_digits :: "nat \<Rightarrow> string" where
  "hex_digits n = (if n < 16 then [''0123456789ABCDEF'' ! n] else hex_digits (n div 16) @ [''0123456789ABCDEF'' ! (n mod 16)])"

declare hex_digits.simps [simp del]

text \<open>\<open>toString(16).toUpperCase()\<close>.\<close>

definition hex_upper :: "nat \<Rightarrow> string" where
  "hex_upper n = hex_digits n"

definition bulk_evaluation :: "nat \<Rightarrow> BulkPlan \<Rightarrow> ConditionEvaluation" where
  "bulk_evaluation i p =
     \<lparr>ce_conditionId = ''cond-bulk-'' @ show_nat i, ce_conditionType = CT_AIRCRAFT_VARIANT, ce_label = ''Aircraft Variant match'',
      ce_expected = ''matched variant'',
      ce_actual = Some (if bp_applicable p then ''matched variant'' else ''different variant''),
      ce_result = (if bp_applicable p then K_TRUE else K_FALSE), ce_evidenceIds = [], ce_note = None\<rparr>"

definition bulk_assessment :: "nat \<Rightarrow> BulkPlan \<Rightarrow> ConfigurationSnapshot \<Rightarrow> ApplicabilityAssessment" where
  "bulk_assessment i p snapshot =
     \<lparr>aa_id = ''asmt-bulk-'' @ show_nat i, aa_regulatoryRequirementId = bp_requirementId p,
      aa_applicabilityRuleId = bp_ruleId p, aa_subjectType = SUB_AIRCRAFT, aa_subjectId = bp_aircraftId p,
      aa_previousAssessmentId = None,
      aa_systemResult = (if bp_applicable p then SR_APPLICABLE else SR_NOT_APPLICABLE),
      aa_confidence = (if bp_applicable p then 95 / 100 else 97 / 100), aa_conditionEvaluations = [bulk_evaluation i p],
      aa_ruleVersion = ''v1.0'', aa_regulatoryDocumentVersion = ''rev. 0'', aa_configurationSnapshot = snapshot,
      aa_evaluatedAt = bp_date p @ ''T08:00:00Z'',
      aa_humanDecision = (if bp_applicable p then HD_CONFIRMED_APPLICABLE else HD_CONFIRMED_NOT_APPLICABLE),
      aa_humanDecisionBy = Some ''Rohan Verma'', aa_humanDecisionByRole = Some ''CAMO Engineer'',
      aa_humanDecisionAt = Some (bp_date p @ ''T08:30:00Z''), aa_overrideReason = None,
      aa_finalStatus = (if bp_applicable p then FS_NON_COMPLIANT else FS_COMPLIANT), aa_changeReason = None,
      aa_evidenceIds = [''ev-bulk-'' @ show_nat i]\<rparr>"

definition bulkAssessments :: "world \<Rightarrow> ApplicabilityAssessment list option" where
  "bulkAssessments W = those (map (\<lambda>(i, p). map_option (bulk_assessment i p)
     (buildSnapshot W (bp_aircraftId p) (bp_date p) (''DV-'' @ hex_upper (1000 + i)))) (enumerate 0 bulkPlan))"

definition module_assessments :: "world \<Rightarrow> ApplicabilityAssessment list option" where
  "module_assessments W = (case (heroAssessments W, bulkAssessments W) of (Some h, Some b) \<Rightarrow> Some (h @ b) | _ \<Rightarrow> None)"

section \<open>What the trees say\<close>

text \<open>The root of the tree says the same as the result of the record.\<close>

definition confirms :: "ConditionResult option \<Rightarrow> SystemResult \<Rightarrow> bool" where
  "confirms r s \<longleftrightarrow>
     (s = SR_APPLICABLE \<and> r = Some K_TRUE \<or> s = SR_NOT_APPLICABLE \<and> r = Some K_FALSE \<or>
      (s = SR_INSUFFICIENT_DATA \<or> s = SR_REVIEW_REQUIRED) \<and> r = Some K_UNKNOWN)"

definition root_result :: "ApplicabilityRule \<Rightarrow> ApplicabilityAssessment \<Rightarrow> ConditionResult option" where
  "root_result r a = evaluateTree (ru_rootCondition r) (leaf_results a) (cond_id (ru_rootCondition r))"

definition rule_of :: "ApplicabilityAssessment \<Rightarrow> ApplicabilityRule option" where
  "rule_of a = find (\<lambda>r. ru_regulatoryRequirementId r = aa_regulatoryRequirementId a) seed_applicabilityRules"

lemma root_result_value: "root_result r a = Some (node_value (leaf_results a) (ru_rootCondition r))"
  by (simp add: root_result_def root_value)

lemmas rules_def = seed_applicabilityRules_def ad2026001Root_def ad2026002Root_def ad2026003Root_def variantCondition_def
  msnRangeCondition_def engineCondition_def componentCondition_def modificationExclusion_def

lemma rules_well_formed:
  "list_all (\<lambda>r. well_formed (ru_rootCondition r) \<and> distinct (map cond_id (flattenConditions (ru_rootCondition r))))
     seed_applicabilityRules"
  by (simp add: rules_def COMBINATORS_def)

lemma rule_facts:
  assumes "r \<in> set seed_applicabilityRules"
  shows "well_formed (ru_rootCondition r)" "distinct (map cond_id (flattenConditions (ru_rootCondition r)))"
  using rules_well_formed assms by (simp_all add: list_all_iff)

text \<open>
  The trees confirm the results of the assessments written by hand, whatever their snapshots.
\<close>

theorem hero_results_confirmed:
  "list_all (\<lambda>a. case rule_of a of None \<Rightarrow> False | Some r \<Rightarrow> confirms (root_result r a) (aa_systemResult a))
     [hero_asmt_1 s, hero_asmt_2 s, hero_asmt_3 s, hero_asmt_4 s]"
proof -
  note simps = rule_of_def rules_def root_result_value confirms_def leaf_results_def COMBINATORS_def combine_def
    kleeneAnd_def kleeneOr_def kleeneNot_def result_at_def
  show ?thesis
    by (simp add: simps hero_asmt_1_def hero_asmt_2_def hero_asmt_3_def hero_asmt_4_def asmt1Evaluations_def
        asmt2Evaluations_def asmt3Evaluations_def asmt4Evaluations_def)
qed

text \<open>
  The generated ones name a condition that no rule has: the tree of every one of them that has a rule is undecided at
  its root, while the record says that the regulation applies or does not.
\<close>

theorem bulk_results_unconfirmed:
  assumes "rule_of (bulk_assessment i p s) = Some r"
  shows "root_result r (bulk_assessment i p s) = Some K_UNKNOWN \<and> \<not> confirms (root_result r (bulk_assessment i p s)) (aa_systemResult (bulk_assessment i p s))"
proof -
  have "r \<in> set seed_applicabilityRules" using assms by (auto simp: rule_of_def dest: find_Some_mem)
  then consider "ru_rootCondition r = ad2026001Root" | "ru_rootCondition r = ad2026002Root" | "ru_rootCondition r = ad2026003Root"
    by (auto simp: seed_applicabilityRules_def)
  then have "root_result r (bulk_assessment i p s) = Some K_UNKNOWN"
    by cases (simp_all add: root_result_value leaf_results_def bulk_assessment_def bulk_evaluation_def rules_def
        COMBINATORS_def combine_def kleeneAnd_def kleeneNot_def result_at_def)
  then show ?thesis by (simp add: confirms_def bulk_assessment_def)
qed

section \<open>The properties on the seed\<close>

definition demo_snapshot :: ConfigurationSnapshot where
  "demo_snapshot =
     \<lparr>cs_capturedAt = ''2026-03-12'', cs_aircraftVariant = ''737-800'', cs_msn = ''35124'', cs_registration = ''VT-ABC'',
      cs_engines = [], cs_components = [], cs_dataVersion = ''DV-7F31A2''\<rparr>"

lemma root_facts:
  "well_formed ad2026001Root" "distinct (map cond_id (flattenConditions ad2026001Root))" "well_formed ad2026002Root"
  by (simp_all add: rules_def COMBINATORS_def)

text \<open>The results of the first assessment, and of the one that replaced it.\<close>

definition first_results :: Results where
  "first_results = leaf_results (hero_asmt_1 demo_snapshot)"

definition second_results :: Results where
  "second_results = leaf_results (hero_asmt_2 demo_snapshot)"

lemma reassessment_knows_more: "more_known first_results second_results"
  by (simp add: more_known_def first_results_def second_results_def leaf_results_def hero_asmt_1_def hero_asmt_2_def
      asmt1Evaluations_def asmt2Evaluations_def result_at_def)

theorem unknown_is_not_false_witness: "\<not> rule_holds (\<lambda>i. False) ad2026002Root"
proof -
  define leaf where "leaf = leaf_results (hero_asmt_3 demo_snapshot)"
  have "allowed (\<lambda>i. False) leaf"
    by (simp add: allowed_def says_def leaf_def leaf_results_def hero_asmt_3_def asmt3Evaluations_def result_at_def)
  moreover have "node_value leaf ad2026002Root = K_FALSE"
    by (simp add: leaf_def leaf_results_def hero_asmt_3_def asmt3Evaluations_def result_at_def rules_def COMBINATORS_def
        combine_def kleeneAnd_def)
  ultimately show ?thesis using unknown_is_not_false [OF root_facts(3), of "\<lambda>i. False" leaf] by (simp add: root_value)
qed

theorem evidence_never_revises_witness:
  "evaluateTree ad2026001Root second_results ''cond-variant-738'' = Some K_TRUE"
proof (rule evidence_never_revises [OF reassessment_knows_more])
  have "variantCondition \<in> set (flattenConditions ad2026001Root)"
    by (simp add: rules_def)
  from tree_value [OF root_facts(1,2) this, of first_results]
  show "evaluateTree ad2026001Root first_results ''cond-variant-738'' = Some K_TRUE"
    by (simp add: variantCondition_def COMBINATORS_def first_results_def leaf_results_def hero_asmt_1_def asmt1Evaluations_def
        result_at_def)
qed simp

theorem tree_shown_decided_witness:
  "list_all (\<lambda>c. evaluateTree ad2026001Root first_results (cond_id c) = Some (node_value first_results c))
     (flattenConditions ad2026001Root) \<and>
   list_all (\<lambda>(k, l, badge). badge \<noteq> None)
     (condition_rows (\<lambda>i. False) (Some (evaluateTree ad2026001Root first_results)) 0 ad2026001Root)"
  by (rule tree_shown_decided [OF root_facts(1,2)])

end
