(* ===== verification/LisaIntent.thy ===== *)
theory LisaIntent
  imports Prelude Contracts
begin

text \<open>
  The resolver of what is asked of the assistant (\<open>src/frontend/lib/mock/ai/intent.ts\<close>): the table of the intents, the
  scores of a question and their order. Shown: the answer is exactly the intents with a positive score, best first,
  the best with confidence 1, and it depends neither on the case nor on the spaces of the question.
\<close>

section \<open>The table\<close>

datatype LisaIntent =
    LI_WORK_ORDER_PRIORITY | LI_OVERDUE_MAINTENANCE | LI_DUE_SOON_MAINTENANCE | LI_AIRCRAFT_HEALTH |
    LI_AOG_RECOVERY | LI_RELEASE_READINESS | LI_INSPECTION_RII | LI_TECHNICIAN_AUTHORIZATION |
    LI_DEFERRED_MEL | LI_EVIDENCE | LI_PARTS_MATERIAL | LI_TRACEABILITY | LI_UTILIZATION |
    LI_MAINTENANCE_PROGRAM | LI_COMPLIANCE | LI_AUDIT | LI_AUTOMATION | LI_PROJECT | LI_TAT_STATUS

record IntentMatch =
  im_intent :: LisaIntent
  im_confidence :: rat
  im_matchedTerms :: "string list"

record IntentDefinition =
  id_intent :: LisaIntent
  id_phrases :: "string list"
  id_terms :: "string list"
  id_negativeTerms :: "string list option"

definition INTENT_DEFINITIONS :: "IntentDefinition list" where
  "INTENT_DEFINITIONS =
    [\<lparr>id_intent = LI_WORK_ORDER_PRIORITY,
      id_phrases =
        [''work order'', ''work orders'', ''need attention'', ''needs attention'', ''what should i'',
         ''what needs my attention'', ''do first'', ''focus on'', ''operational problem'', ''biggest problem'',
         ''do next'', ''complete first'', ''what is urgent'', (''what'' @ [CHR 0x27] @ ''s urgent''),
         ''blocking us'', ''next one'', ''which one'', ''what about it''],
      id_terms =
        [''job'', ''jobs'', ''task'', ''tasks'', ''backlog'', ''priority'', ''critical'', ''urgent'',
         ''important'', ''immediate'', ''prioritize'', ''prioritise'', ''smartly'', ''smart'', ''handle'',
         ''deal with'', ''today''],
      id_negativeTerms = None\<rparr>,
     \<lparr>id_intent = LI_OVERDUE_MAINTENANCE,
      id_phrases =
        [''past due'', ''behind on'', ''fell behind''],
      id_terms =
        [''overdue'', ''late'', ''missed'', ''expired'', ''behind''],
      id_negativeTerms = None\<rparr>,
     \<lparr>id_intent = LI_DUE_SOON_MAINTENANCE,
      id_phrases =
        [''due soon'', ''coming due'', ''coming up'', ''next maintenance'', ''prepare for''],
      id_terms =
        [''upcoming'', ''approaching'', ''scheduled'', ''pending''],
      id_negativeTerms = None\<rparr>,
     \<lparr>id_intent = LI_AIRCRAFT_HEALTH,
      id_phrases =
        [''aircraft health'', ''aircraft status'', ''fleet health'', ''operational status'', ''how is'',
         ''at risk'', ''why is'', (''what'' @ [CHR 0x27] @ ''s wrong''), ''what is wrong'', ''anything wrong'',
         (''what'' @ [CHR 0x27] @ ''s stopping''), ''what is stopping''],
      id_terms =
        [''condition'', ''risk'', ''flagged'', ''problem'', ''problems'', ''wrong''],
      id_negativeTerms = None\<rparr>,
     \<lparr>id_intent = LI_AOG_RECOVERY,
      id_phrases =
        [''aircraft on ground'', ''return to service'', ''get back'', ''get aircraft back'', ''recovery plan'',
         ''recovery blocker''],
      id_terms =
        [''aog'', ''grounded'', ''recovery'', ''recover''],
      id_negativeTerms = None\<rparr>,
     \<lparr>id_intent = LI_RELEASE_READINESS,
      id_phrases =
        [''release ready'', ''ready for release'', (''why can'' @ [CHR 0x27] @ ''t we release''),
         ''why cant we release'', ''blocking release'', ''return to service'',
         (''what'' @ [CHR 0x27] @ ''s blocking''), ''what is blocking''],
      id_terms =
        [''release'', ''rts'', ''blocking'', ''blocked''],
      id_negativeTerms = Some [''release the part'', ''vendor'']\<rparr>,
     \<lparr>id_intent = LI_INSPECTION_RII,
      id_phrases =
        [''independent inspection'', ''who needs to inspect'', ''inspection status'', ''inspection required''],
      id_terms =
        [''inspection'', ''inspect'', ''rii'', ''inspector''],
      id_negativeTerms = None\<rparr>,
     \<lparr>id_intent = LI_TECHNICIAN_AUTHORIZATION,
      id_phrases =
        [''who can work'', ''who can perform'', ''who is qualified'', ''who is authorized'',
         ''authorized technician'', ''certified technician''],
      id_terms =
        [''technician'', ''mechanic'', ''qualified'', ''authorized'', ''certified''],
      id_negativeTerms = None\<rparr>,
     \<lparr>id_intent = LI_DEFERRED_MEL,
      id_phrases =
        [''deferred item'', ''deferred items'', ''what is deferred'', ''blocking closure''],
      id_terms =
        [''deferred'', ''deferral'', ''mel'', ''limitation'', ''closure''],
      id_negativeTerms = None\<rparr>,
     \<lparr>id_intent = LI_EVIDENCE,
      id_phrases =
        [''missing evidence'', ''rejected evidence'', ''pending evidence'', ''upload evidence'',
         ''task evidence''],
      id_terms =
        [''evidence'', ''photo'', ''proof''],
      id_negativeTerms = None\<rparr>,
     \<lparr>id_intent = LI_PARTS_MATERIAL,
      id_phrases =
        [''holding this up'', ''holding it up'', ''what parts'', ''missing part''],
      id_terms =
        [''part'', ''parts'', ''material'', ''materials'', ''shortage'', ''stock'', ''unavailable'',
         ''component'', ''spare'', ''procurement'', ''purchase'', ''supplier''],
      id_negativeTerms = None\<rparr>,
     \<lparr>id_intent = LI_TRACEABILITY,
      id_phrases =
        [''serial number'', ''part number'', ''component history'', ''part history''],
      id_terms =
        [''traceability'', ''installed'', ''removed'', ''quarantine'', ''quarantined''],
      id_negativeTerms = None\<rparr>,
     \<lparr>id_intent = LI_UTILIZATION,
      id_phrases =
        [''flight hours'', ''flight cycles'', ''flying hours'', ''cycles flown''],
      id_terms =
        [''utilization'', ''utilisation'', ''usage''],
      id_negativeTerms = None\<rparr>,
     \<lparr>id_intent = LI_MAINTENANCE_PROGRAM,
      id_phrases =
        [''maintenance program'', ''maintenance requirement'', ''calendar interval'', ''maintenance interval'',
         ''maintenance status''],
      id_terms =
        [''interval''],
      id_negativeTerms = None\<rparr>,
     \<lparr>id_intent = LI_COMPLIANCE,
      id_phrases =
        [''overdue regulatory'', ''non-compliant'', ''non compliant''],
      id_terms =
        [''compliance'', ''regulatory'', ''regulation'', ''applicability'', ''assessment''],
      id_negativeTerms = None\<rparr>,
     \<lparr>id_intent = LI_AUDIT,
      id_phrases =
        [''who changed'', ''who uploaded'', ''who reviewed'', ''audit trail''],
      id_terms =
        [''audit'', ''ledger''],
      id_negativeTerms = None\<rparr>,
     \<lparr>id_intent = LI_AUTOMATION,
      id_phrases =
        [''automation queue'', ''what can be automated'', ''approval queue''],
      id_terms =
        [''automation'', ''automated''],
      id_negativeTerms = None\<rparr>,
     \<lparr>id_intent = LI_PROJECT,
      id_phrases =
        [''remaining work'', ''resource utilization'', ''project status'', ''project risk''],
      id_terms =
        [''project'', ''progress''],
      id_negativeTerms = None\<rparr>,
     \<lparr>id_intent = LI_TAT_STATUS,
      id_phrases =
        [''turnaround time'', ''tat risk'', ''tat status'', ''miss tat'', ''missing tat'',
         (''what'' @ [CHR 0x27] @ ''s delaying''), ''what is delaying'', ''taking so long'',
         ''taking this long'', ''at risk of missing''],
      id_terms =
        [''tat'', ''turnaround'', ''delaying''],
      id_negativeTerms = None\<rparr>]"

primrec INTENT_LABEL :: "LisaIntent \<Rightarrow> string" where
  "INTENT_LABEL LI_WORK_ORDER_PRIORITY = ''Operational Priority''"
| "INTENT_LABEL LI_OVERDUE_MAINTENANCE = ''Overdue Maintenance''"
| "INTENT_LABEL LI_DUE_SOON_MAINTENANCE = ''Upcoming Maintenance''"
| "INTENT_LABEL LI_AIRCRAFT_HEALTH = ''Aircraft Health''"
| "INTENT_LABEL LI_AOG_RECOVERY = ''AOG Recovery''"
| "INTENT_LABEL LI_RELEASE_READINESS = ''Release Readiness''"
| "INTENT_LABEL LI_INSPECTION_RII = ''Inspection / Independent Inspection''"
| "INTENT_LABEL LI_TECHNICIAN_AUTHORIZATION = ''Technician Authorization''"
| "INTENT_LABEL LI_DEFERRED_MEL = ''Deferred Item / MEL''"
| "INTENT_LABEL LI_EVIDENCE = ''Execution Evidence''"
| "INTENT_LABEL LI_PARTS_MATERIAL = ''Parts / Material''"
| "INTENT_LABEL LI_TRACEABILITY = ''Part Traceability''"
| "INTENT_LABEL LI_UTILIZATION = ''Aircraft Utilization''"
| "INTENT_LABEL LI_MAINTENANCE_PROGRAM = ''Maintenance Program''"
| "INTENT_LABEL LI_COMPLIANCE = ''Regulatory Compliance''"
| "INTENT_LABEL LI_AUDIT = ''Audit History''"
| "INTENT_LABEL LI_AUTOMATION = ''Automation Queue''"
| "INTENT_LABEL LI_PROJECT = ''Project Status''"
| "INTENT_LABEL LI_TAT_STATUS = ''Turnaround Time (TAT)''"

primrec INTENT_DATA_AREAS :: "LisaIntent \<Rightarrow> string" where
  "INTENT_DATA_AREAS LI_WORK_ORDER_PRIORITY = (''Work Order Planning '' @ [CHR 0xC2, CHR 0xB7] @ '' Release Readiness '' @ [CHR 0xC2, CHR 0xB7] @ '' AOG'')"
| "INTENT_DATA_AREAS LI_OVERDUE_MAINTENANCE = ''Maintenance Due Engine''"
| "INTENT_DATA_AREAS LI_DUE_SOON_MAINTENANCE = ''Maintenance Due Engine''"
| "INTENT_DATA_AREAS LI_AIRCRAFT_HEALTH = (''Control Tower '' @ [CHR 0xC2, CHR 0xB7] @ '' Defects '' @ [CHR 0xC2, CHR 0xB7] @ '' Work Orders'')"
| "INTENT_DATA_AREAS LI_AOG_RECOVERY = ''AOG Recovery Orchestration''"
| "INTENT_DATA_AREAS LI_RELEASE_READINESS = ''Release Readiness Engine''"
| "INTENT_DATA_AREAS LI_INSPECTION_RII = ''Inspection / RII Engine''"
| "INTENT_DATA_AREAS LI_TECHNICIAN_AUTHORIZATION = ''Technician Authorization Matrix''"
| "INTENT_DATA_AREAS LI_DEFERRED_MEL = ''Deferred / MEL Operations''"
| "INTENT_DATA_AREAS LI_EVIDENCE = ''Execution Evidence Records''"
| "INTENT_DATA_AREAS LI_PARTS_MATERIAL = (''Material Readiness '' @ [CHR 0xC2, CHR 0xB7] @ '' Procurement'')"
| "INTENT_DATA_AREAS LI_TRACEABILITY = ''Part Traceability Engine''"
| "INTENT_DATA_AREAS LI_UTILIZATION = ''Aircraft Utilization Intelligence''"
| "INTENT_DATA_AREAS LI_MAINTENANCE_PROGRAM = ''Maintenance Program / Due Engine''"
| "INTENT_DATA_AREAS LI_COMPLIANCE = ''Applicability / Compliance Assessments''"
| "INTENT_DATA_AREAS LI_AUDIT = ''Audit Trail''"
| "INTENT_DATA_AREAS LI_AUTOMATION = ''Automation Queue''"
| "INTENT_DATA_AREAS LI_PROJECT = ''Project Analytics''"
| "INTENT_DATA_AREAS LI_TAT_STATUS = (''Work Order Due Dates '' @ [CHR 0xC2, CHR 0xB7] @ '' Release Readiness'')"

section \<open>The resolver\<close>

text \<open>\<open>replace(/\\s+/g, " ")\<close>: a run of white space becomes one space.\<close>

function collapse_spaces :: "string \<Rightarrow> string" where
  "collapse_spaces [] = []"
| "collapse_spaces (c # cs) =
     (if is_space c then CHR '' '' # collapse_spaces (dropWhile is_space cs) else c # collapse_spaces cs)"
  by pat_completeness auto

termination collapse_spaces
  by (relation "measure length") (auto simp: length_dropWhile_le le_imp_less_Suc)

definition normalizeQuestion :: "string \<Rightarrow> string" where
  "normalizeQuestion s = collapse_spaces (trim (toLowerCase s))"

definition intent_score :: "string \<Rightarrow> IntentDefinition \<Rightarrow> int" where
  "intent_score q d =
     3 * int (length (filter (str_includes q) (id_phrases d))) + int (length (filter (str_includes q) (id_terms d))) -
     2 * int (length (filter (str_includes q) (or_else (id_negativeTerms d) [])))"

definition matched_terms :: "string \<Rightarrow> IntentDefinition \<Rightarrow> string list" where
  "matched_terms q d = filter (str_includes q) (id_phrases d) @ filter (str_includes q) (id_terms d)"

definition scored_intents :: "string \<Rightarrow> IntentMatch list" where
  "scored_intents q =
     map (\<lambda>d. \<lparr>im_intent = id_intent d, im_confidence = of_int (intent_score q d), im_matchedTerms = matched_terms q d\<rparr>)
       (filter (\<lambda>d. 0 < intent_score q d) INTENT_DEFINITIONS)"

definition top_score :: "IntentMatch list \<Rightarrow> rat" where
  "top_score ms = foldl max 1 (map im_confidence ms)"

definition relative :: "rat \<Rightarrow> IntentMatch \<Rightarrow> IntentMatch" where
  "relative k m = m\<lparr>im_confidence := im_confidence m / k\<rparr>"

definition confidence_cmp :: "IntentMatch \<Rightarrow> IntentMatch \<Rightarrow> int" where
  "confidence_cmp a b = (if im_confidence b < im_confidence a then - 1 else if im_confidence a < im_confidence b then 1 else 0)"

definition resolveLisaIntent :: "string \<Rightarrow> IntentMatch list" where
  "resolveLisaIntent question =
     (let ms = scored_intents (normalizeQuestion question) in js_sort confidence_cmp (map (relative (top_score ms)) ms))"

section \<open>The order of the answer\<close>

interpretation by_confidence: comparator confidence_cmp
  by unfold_locales (auto simp: confidence_cmp_def split: if_splits)

lemma foldl_max_start: "(a::rat) \<le> foldl max a xs"
proof (induction xs arbitrary: a)
  case (Cons y ys)
  from Cons.IH [of "max a y"] show ?case by simp
qed simp

lemma foldl_max: "x \<in> set xs \<Longrightarrow> (x::rat) \<le> foldl max a xs"
proof (induction xs arbitrary: a)
  case (Cons y ys)
  then show ?case using foldl_max_start [of "max a y" ys] by auto
qed simp

lemma foldl_max_mem: "foldl max (a::rat) xs = a \<or> foldl max a xs \<in> set xs"
proof (induction xs arbitrary: a)
  case (Cons y ys)
  from Cons.IH [of "max a y"] show ?case by (auto simp: max_def split: if_splits)
qed simp

lemma scored_at_least: "m \<in> set (scored_intents q) \<Longrightarrow> 1 \<le> im_confidence m"
proof -
  assume "m \<in> set (scored_intents q)"
  then obtain d where "0 < intent_score q d" "im_confidence m = of_int (intent_score q d)"
    by (auto simp: scored_intents_def)
  then have "1 \<le> intent_score q d" by simp
  then have "of_int 1 \<le> (of_int (intent_score q d) :: rat)" by (simp only: of_int_le_iff)
  then show ?thesis by (simp add: \<open>im_confidence m = of_int (intent_score q d)\<close>)
qed

lemma top_score_facts:
  "1 \<le> top_score ms" "m \<in> set ms \<Longrightarrow> im_confidence m \<le> top_score ms"
  "ms \<noteq> [] \<Longrightarrow> \<forall>m \<in> set ms. 1 \<le> im_confidence m \<Longrightarrow> \<exists>m \<in> set ms. im_confidence m = top_score ms"
proof -
  show "1 \<le> top_score ms" by (simp add: top_score_def foldl_max_start)
  show "m \<in> set ms \<Longrightarrow> im_confidence m \<le> top_score ms" by (simp add: top_score_def foldl_max)
  assume ms: "ms \<noteq> []" "\<forall>m \<in> set ms. 1 \<le> im_confidence m"
  then obtain m where m: "m \<in> set ms" "1 \<le> im_confidence m" by (cases ms) auto
  consider "top_score ms = 1" | "top_score ms \<in> im_confidence ` set ms"
    using foldl_max_mem [of 1 "map im_confidence ms"] by (auto simp: top_score_def)
  then show "\<exists>m \<in> set ms. im_confidence m = top_score ms"
  proof cases
    case 1
    then show ?thesis using m foldl_max [of "im_confidence m" "map im_confidence ms" 1] by (force simp: top_score_def)
  qed auto
qed

text \<open>
  C40 The answer to a question is exactly the intents of the table with a positive score, the best ones first; their
  confidences lie above 0 and at most at 1, and the first one has 1.
\<close>

theorem intents_ranked:
  "mset (map im_intent (resolveLisaIntent s)) =
     mset (map id_intent (filter (\<lambda>d. 0 < intent_score (normalizeQuestion s) d) INTENT_DEFINITIONS)) \<and>
   sorted_wrt (\<lambda>a b. im_confidence a \<ge> im_confidence b) (resolveLisaIntent s) \<and>
   list_all (\<lambda>m. 0 < im_confidence m \<and> im_confidence m \<le> 1) (resolveLisaIntent s) \<and>
   (case resolveLisaIntent s of [] \<Rightarrow> True | m # _ \<Rightarrow> im_confidence m = 1)"
proof (intro conjI)
  define q where "q = normalizeQuestion s"
  define ms where "ms = scored_intents q"
  have answer: "resolveLisaIntent s = js_sort confidence_cmp (map (relative (top_score ms)) ms)"
    by (simp add: resolveLisaIntent_def q_def ms_def Let_def)
  have "mset (map im_intent (resolveLisaIntent s)) = mset (map im_intent ms)"
    by (simp add: answer relative_def image_mset.compositionality comp_def)
  also have "map im_intent ms = map id_intent (filter (\<lambda>d. 0 < intent_score q d) INTENT_DEFINITIONS)"
    by (simp add: ms_def scored_intents_def comp_def)
  finally show "mset (map im_intent (resolveLisaIntent s)) =
      mset (map id_intent (filter (\<lambda>d. 0 < intent_score (normalizeQuestion s) d) INTENT_DEFINITIONS))" by (simp add: q_def)
  have "sorted_wrt (\<lambda>a b. confidence_cmp a b \<le> 0) (resolveLisaIntent s)"
    unfolding answer by (rule by_confidence.js_sort_sorted)
  then show sorted: "sorted_wrt (\<lambda>a b. im_confidence a \<ge> im_confidence b) (resolveLisaIntent s)"
    by (rule sorted_wrt_mono_rel [rotated]) (simp add: confidence_cmp_def split: if_splits)
  have bounds: "0 < im_confidence m \<and> im_confidence m \<le> 1" if "m \<in> set (resolveLisaIntent s)" for m
  proof -
    have "m \<in> set (map (relative (top_score ms)) ms)" using that by (simp add: answer)
    then obtain x where x: "x \<in> set ms" "m = relative (top_score ms) x" by auto
    have "1 \<le> im_confidence x" using x(1) scored_at_least by (simp add: ms_def)
    then show ?thesis using top_score_facts(1) [of ms] top_score_facts(2) [OF x(1)] by (simp add: x(2) relative_def)
  qed
  then show "list_all (\<lambda>m. 0 < im_confidence m \<and> im_confidence m \<le> 1) (resolveLisaIntent s)" by (simp add: list_all_iff)
  show "case resolveLisaIntent s of [] \<Rightarrow> True | m # _ \<Rightarrow> im_confidence m = 1"
  proof (cases "resolveLisaIntent s")
    case (Cons a as)
    then have "ms \<noteq> []" by (auto simp: answer)
    then obtain x where x: "x \<in> set ms" "im_confidence x = top_score ms"
      using top_score_facts(3) [of ms] scored_at_least by (auto simp: ms_def)
    have "relative (top_score ms) x \<in> set (resolveLisaIntent s)" using x(1) by (simp add: answer)
    moreover have "im_confidence (relative (top_score ms) x) = 1"
      using top_score_facts(1) [of ms] x(2) by (simp add: relative_def)
    ultimately have "1 \<le> im_confidence a" using sorted Cons by auto
    moreover have "im_confidence a \<le> 1" using bounds [of a] Cons by simp
    ultimately show ?thesis using Cons by simp
  qed simp
qed

text \<open>A term counts inside of a word: a question for any status is taken for one about the turnaround time.\<close>

theorem status_is_turnaround: "map im_intent (resolveLisaIntent ''Status'') = [LI_TAT_STATUS]"
  by code_simp

end
