(* ===== verification/AlertState.thy ===== *)
theory AlertState
  imports Prelude Contracts
begin

text \<open>
  What the user did with the alerts (\<open>src/frontend/lib/mock/ai/alertState.ts\<close>): a status for each identifier of an
  alert, in memory and in the storage of the browser, which may fail at each call. Shown: a reload gives back
  every status as long as the storage works, and two tabs overwrite each other.
\<close>

section \<open>State\<close>

datatype AlertStatus = ALERT_OPEN | ALERT_ACKNOWLEDGED | ALERT_RESOLVED

type_synonym AlertStateMap = "string \<rightharpoonup> AlertStatus"

text \<open>The item in the storage: absent, a text that is not parsed, a value that is no object, or an object.\<close>

datatype AlertItem = NoAlertItem | CorruptAlertItem | OtherAlertItem | StoredAlerts AlertStateMap

text \<open>Whether the storage answers is an argument of each access.\<close>

definition loadStoredState :: "bool \<Rightarrow> AlertItem \<Rightarrow> AlertStateMap" where
  "loadStoredState readable item = (case item of StoredAlerts m \<Rightarrow> if readable then m else Map.empty | _ \<Rightarrow> Map.empty)"

record AlertTab =
  tab_state :: AlertStateMap
  tab_stored :: AlertItem

definition set_status :: "string \<Rightarrow> AlertStatus \<Rightarrow> bool \<Rightarrow> AlertTab \<Rightarrow> AlertTab" where
  "set_status i s writable a =
     (let m = (tab_state a)(i \<mapsto> s) in a\<lparr>tab_state := m, tab_stored := (if writable then StoredAlerts m else tab_stored a)\<rparr>)"

definition statusFor :: "AlertTab \<Rightarrow> string \<Rightarrow> AlertStatus" where
  "statusFor a i = (case tab_state a i of None \<Rightarrow> ALERT_OPEN | Some s \<Rightarrow> s)"

definition acknowledge_alert :: "string \<Rightarrow> bool \<Rightarrow> AlertTab \<Rightarrow> AlertTab" where
  "acknowledge_alert i = set_status i ALERT_ACKNOWLEDGED"

definition resolve_alert :: "string \<Rightarrow> bool \<Rightarrow> AlertTab \<Rightarrow> AlertTab" where
  "resolve_alert i = set_status i ALERT_RESOLVED"

definition reopen_alert :: "string \<Rightarrow> bool \<Rightarrow> AlertTab \<Rightarrow> AlertTab" where
  "reopen_alert i = set_status i ALERT_OPEN"

text \<open>A page that is loaded starts empty and reads the storage once.\<close>

definition mount_alerts :: "bool \<Rightarrow> AlertItem \<Rightarrow> AlertTab" where
  "mount_alerts readable item = \<lparr>tab_state = loadStoredState readable item, tab_stored = item\<rparr>"

datatype AlertEvent = Acknowledge string bool | Resolve string bool | Reopen string bool

fun alert_step :: "AlertTab \<Rightarrow> AlertEvent \<Rightarrow> AlertTab" where
  "alert_step a (Acknowledge i w) = acknowledge_alert i w a"
| "alert_step a (Resolve i w) = resolve_alert i w a"
| "alert_step a (Reopen i w) = reopen_alert i w a"

fun writes :: "AlertEvent \<Rightarrow> bool" where
  "writes (Acknowledge i w) = w"
| "writes (Resolve i w) = w"
| "writes (Reopen i w) = w"

fun touches :: "AlertEvent \<Rightarrow> string" where
  "touches (Acknowledge i w) = i"
| "touches (Resolve i w) = i"
| "touches (Reopen i w) = i"

lemmas alert_defs = acknowledge_alert_def resolve_alert_def reopen_alert_def set_status_def Let_def

section \<open>A reload\<close>

definition stored_as_shown :: "AlertTab \<Rightarrow> bool" where
  "stored_as_shown a \<longleftrightarrow> loadStoredState True (tab_stored a) = tab_state a"

lemma step_stored: "stored_as_shown a \<Longrightarrow> writes e \<Longrightarrow> stored_as_shown (alert_step a e)"
  by (cases e) (simp_all add: stored_as_shown_def alert_defs loadStoredState_def)

lemma run_stored: "stored_as_shown a \<Longrightarrow> list_all writes es \<Longrightarrow> stored_as_shown (run alert_step a es)"
  by (induction es arbitrary: a) (simp_all add: step_stored)

lemma mount_stored: "stored_as_shown (mount_alerts True item)"
  by (simp add: stored_as_shown_def mount_alerts_def)

text \<open>An alert that was not touched keeps its status.\<close>

lemma status_frame: "list_all (\<lambda>e. touches e \<noteq> i) es \<Longrightarrow> statusFor (run alert_step a es) i = statusFor a i"
proof (induction es arbitrary: a)
  case (Cons e es)
  then have "statusFor (alert_step a e) i = statusFor a i" by (cases e) (auto simp: statusFor_def alert_defs)
  then show ?case using Cons by simp
qed simp

text \<open>
  Nothing is lost by a reload: as long as the storage can be read and written, a page that is loaded again shows every
  alert with the status it had, whatever was acknowledged, resolved and reopened before.
\<close>

theorem alerts_survive_reload:
  assumes "list_all writes es"
  shows "statusFor (mount_alerts True (tab_stored (run alert_step (mount_alerts True item) es))) i =
    statusFor (run alert_step (mount_alerts True item) es) i"
  using run_stored [OF mount_stored assms]
  by (simp add: stored_as_shown_def statusFor_def) (simp add: mount_alerts_def)

theorem alerts_survive_reload_witness:
  "statusFor (mount_alerts True (tab_stored (run alert_step (mount_alerts True NoAlertItem)
     [Acknowledge ''a'' True, Resolve ''b'' True, Reopen ''a'' True]))) ''b'' = ALERT_RESOLVED"
  using alerts_survive_reload [of "[Acknowledge ''a'' True, Resolve ''b'' True, Reopen ''a'' True]" NoAlertItem "''b''"]
  by (simp add: statusFor_def alert_defs)

text \<open>
  Two tabs that were loaded from one storage: the second one writes what it knows, and what the first one acknowledged
  is open again after a reload.
\<close>

theorem tabs_overwrite:
  assumes "i \<noteq> j" and "statusFor (mount_alerts True item) i = ALERT_OPEN"
  shows "statusFor (mount_alerts True (tab_stored (acknowledge_alert j True
    ((mount_alerts True item)\<lparr>tab_stored := tab_stored (acknowledge_alert i True (mount_alerts True item))\<rparr>)))) i = ALERT_OPEN"
  using assms by (simp add: alert_defs mount_alerts_def statusFor_def loadStoredState_def)

end
