(* ===== verification/Spec2Isabelle.thy ===== *)
theory Spec2Isabelle
  imports WorkOrders Fleet Risk Planning EvidenceStore Gates DueEngine Examples
    ApiMaintenance ApiPlatform ApiIntelligence Entitlements EvidenceFiles
    DemoAssets DemoPlatform Session MroState Badges Navigation Search WorkOrderPage OrganizationEntitlements PlanEntitlements
    SubscriptionEntitlements Finance ProcurementDesk AssessmentSeed LisaIntent AlertState
begin

text \<open>
  AeroComply, the client and its maintenance control logic.

  The program is a maintenance and compliance workbench for operators of aircraft and drones. Its
  implementation language is TypeScript, under \<open>src/frontend\<close>. Two parts of it decide something, and
  both are modelled here.

  The first part is the client under \<open>src/frontend/lib\<close>: the API client and its typed endpoints, the
  session and the data mode, entitlements, the rules of the evidence files, the shared execution state,
  and the demonstration tenant that stands in for the backend.

  \<^item> \<open>Json\<close>, \<open>ClientAssets\<close>, \<open>ClientDrones\<close>, \<open>ClientTenant\<close>, \<open>ClientPlatform\<close>: the values that cross the
    network, and the interfaces of \<open>lib/api/*.ts\<close> the functions below use. An interface is a record
    whose fields carry a short prefix.
  \<^item> \<open>Requests\<close>: a request (method, path, token, body) and what the paths are built with,
    \<open>encodeURIComponent\<close> and \<open>URLSearchParams\<close>, with the decoders and their round trips.
  \<^item> \<open>ApiClient\<close> (\<open>lib/apiClient.ts\<close>): one attempt, the single retry, the reading of the response, the
    classification of an error for the user, and the login. The network is an argument. At most two
    identical attempts are made, the second only after a failure that brought no response; the login
    settles within a bounded time; a server error never shows the text of its body.
  \<^item> \<open>ApiFleet\<close>, \<open>ApiMaintenance\<close>, \<open>ApiPlatform\<close>, \<open>ApiIntelligence\<close>: one definition per method of the typed
    clients, the request it makes. The query of a work-order search reads back as its parameters.
  \<^item> \<open>Clock\<close>: \<open>toISOString\<close>, and that reading it back gives the time.
  \<^item> \<open>Entitlements\<close>: when an override expires, the states of a subscription, the gray navigation items,
    and the hook that fetches the entitlements as a step relation over its renders and answers.
  \<^item> \<open>EvidenceFiles\<close>: what may be uploaded, how a size is shown, who sees the controls, and the message
    for an error.
  \<^item> \<open>DemoData\<close>: the data set of \<open>lib/demo/*.ts\<close>, constant by constant. \<open>DemoFleet\<close>: its accessors, the
    readiness of a drone and its specification, the fleet statistics. \<open>DemoPlatform\<close>: the dashboard and
    the resolution of entitlements. \<open>DemoAssets\<close>: the asset pages.
  \<^item> \<open>DemoStore\<close> (\<open>lib/demo/demoStore.ts\<close>): the module state, its copy in the session storage, the
    listeners and every operation. The operations refine a store that has no copy at all, page reloads
    included, and an invariant holds in every state they reach. \<open>Machines\<close> has the locale of that
    refinement, interpreted in \<open>DemoStore\<close>.
  \<^item> \<open>Session\<close>: the session provider, the data mode and the guard of the signed-in pages. An
    asynchronous call is two events, so every interleaving is a list of events.
  \<^item> \<open>MroState\<close> (\<open>lib/mro-state/MroStateContext.tsx\<close>): checklists, inspections and the audit log.

  The pages and components over it, as far as they decide something:

  \<^item> \<open>ClientMaintenance\<close>, \<open>WorkOrderService\<close>, \<open>WorkOrderPage\<close>: the page of one work order with real data, its
    states, buttons, dialogs and handlers, and the service it talks to (\<open>work_order_service.py\<close>), with its
    graph of transitions and its gates. Composed: the page shows the status of the row, the service never
    rejects a move the page offers except the cancellation of a completed work order, and a draft can be
    brought to closed. The audit trail of the service explains its status.
  \<^item> \<open>EntitlementService\<close> (\<open>entitlement_service.py\<close>, \<open>tenant_entitlement_admin_service.py\<close>): the tables of the
    entitlements, the resolver that says what an organization is granted, and the administration of its
    overrides and limits. An expansion beyond the plan needs a permission, tenants do not touch each other,
    every change is in the trail; a first limit escapes the check.
  \<^item> \<open>PlanService\<close> (\<open>plan_service.py\<close>, \<open>schemas/plan.py\<close>): the plans, their features and limits. An edit reaches
    the tenants of its plan and nobody else; null is never written; a trail can be lost.
  \<^item> \<open>SubscriptionService\<close> (\<open>subscription_service.py\<close>): the subscriptions of the organizations. No sequence of
    calls makes the entitlements ambiguous; the history is kept, but a canceled row can be rewritten.
  \<^item> \<open>PageKit\<close>: what the pages below share (sessions, answers, calls under way).
  \<^item> \<open>OrganizationPage\<close>, \<open>PlanPage\<close> (\<open>app/(app)/platform/organizations/[organizationId]/page.tsx\<close>,
    \<open>app/(app)/platform/plans/[planId]/page.tsx\<close>): the pages that administer one organization and one plan, each a machine of
    its loads, clicks, answers and timers, with an invariant of what it asks of the service and of its flags.
    \<open>ClientCatalog\<close> has the types of the plan and catalog clients.
  \<^item> \<open>SubscriptionsPage\<close> (\<open>app/(app)/platform/organizations/[organizationId]/subscriptions/page.tsx\<close>): the page of the
    subscriptions of one organization, with its forms, its dialog and its one call.
    \<open>SubscriptionEntitlements\<close> composes it with the service: what it lists as current is what the resolver
    counts, the service accepts what it offers, and a cancellation reaches the resolver and the page.
  \<^item> \<open>OrganizationEntitlements\<close>, \<open>PlanEntitlements\<close>: the pages composed with the service. The table of an
    organization agrees with the resolver, except for expired overrides and after a suspension; an override and
    the limits of a plan, once saved, are what the tenants have and what the page shows again; limits
    that could not be read are written over.
  \<^item> \<open>Badges\<close>: the tables of the status badges. Green is given to the listed good statuses only.
  \<^item> \<open>Roles\<close>, \<open>Navigation\<close>: the permission matrix, the previewed role, the sidebar and its clicks.
  \<^item> \<open>Search\<close>: the search index over the world, and the search box as a machine of keys and clicks.

  The second part is \<open>src/frontend/lib/mock/\<close>: module-level arrays of records (work orders, parts,
  technicians, defects, tasks, evidence, deferred items, assessments and so on), a few mutations of
  them, and \<open>ai/analytics.ts\<close>, which computes every status the pages and the assistant show from
  these arrays.

  \<^item> \<open>Prelude\<close>: the JavaScript library the code uses (strings, \<open>find\<close>, \<open>sort\<close>, \<open>Map\<close> grouping,
    rounding) with its laws.
  \<^item> \<open>Contracts\<close>: the interfaces the components share, as locales: a comparator for \<open>Array.sort\<close>, an
    in-place update that keeps the key of a record, a classification that partitions a list (so that
    the counts of a summary add up), and a machine with an invariant or a relation that every step
    keeps. Each is interpreted on the model's definitions in the theory of the component.
  \<^item> \<open>Dates\<close>: ISO dates, \<open>Date.getTime\<close>, \<open>daysBetween\<close> and the ISO text of a day; the proleptic
    Gregorian calendar for the years 0 to 9999.
  \<^item> \<open>DomainCompliance\<close>, \<open>DomainOperations\<close>, \<open>DomainCommerce\<close> (together \<open>Domain\<close>): the types of
    \<open>types.ts\<close>. An interface is a record whose fields carry a short prefix, a union of string
    literals a datatype, a field \<open>T | null\<close> an option.
  \<^item> \<open>Store\<close>: the record \<open>world\<close>, one field for every array, and the lookups of \<open>workOrders.ts\<close>,
    \<open>parts.ts\<close>, \<open>technicians.ts\<close>, \<open>aircraft.ts\<close> and their siblings. An operation that assigns to an
    object of an array returns the world with that array updated. \<open>Labels\<close> has the literal text of
    the unions that appear in messages.
  \<^item> \<open>WorkOrders\<close>: assign, start, unassign, complete, escalate (\<open>workOrders.ts\<close>), the machine they
    form and the relation \<open>wo_move\<close> of what one operation does to one record. Closed work orders stay
    closed; the stage never goes back.
  \<^item> \<open>EvidenceStore\<close>: submission, removal and review of execution evidence (\<open>evidenceRecords.ts\<close>).
    The clock is an argument of each operation. Ids stay unique under the live counter; a reviewed
    record is never removed.
  \<^item> \<open>Fleet\<close>: engines and components as of a date, requirements, assessments and their lineage loop.
    The loop follows \<open>previousAssessmentId\<close> and is a \<open>partial_function\<close>; no fuel is used.
  \<^item> \<open>Applicability\<close> (\<open>kleene.ts\<close>, the pages of an assessment and of its review): the rule of a regulation as a tree
    over three values. What it decides holds however the unknown conditions turn out, more evidence
    revises nothing, and every node has its result. \<open>AssessmentSeed\<close> has the rules and the assessments of the
    demonstration: the trees confirm those written by hand and not the generated ones.
  \<^item> \<open>LisaIntent\<close> (\<open>ai/intent.ts\<close>): the intents of a question, ranked. \<open>AlertState\<close> (\<open>ai/alertState.ts\<close>): what was done
    with each alert, which survives a reload.
  \<^item> \<open>Risk\<close>: the operational risk of an aircraft, the control tower and the discrepancy groups.
  \<^item> \<open>Planning\<close>: planning rows and their summary, the ranking of technicians, authorization.
  \<^item> \<open>Gates\<close>: deferred items, the execution evidence gate, the execution state, inspector
    eligibility, the six safety gates, release readiness and the turnaround status.
  \<^item> \<open>DueEngine\<close>: utilization quality and the due status of the maintenance requirements.
  \<^item> \<open>Procurement\<close> (\<open>procurement.ts\<close>): the score of the vendors of a part, the cart, the requests and the purchase
    orders. Scores lie between 0 and 100 and rank every vendor; what was ordered is never rewritten.
    \<open>ProcurementDesk\<close> has the four pages over it (\<open>app/(app)/procurement\<close>) as one machine: through
    them a request is on one order at most and goes in step with it, and one with a vendor can be
    brought to its delivery; one approved without a vendor is stuck.
  \<^item> \<open>Finance\<close> (\<open>finance.ts\<close>): the cost summaries of a work order, an aircraft and the fleet, and that they agree.
  \<^item> \<open>Seed\<close>, \<open>SupplySeed\<close>: the records the program starts with, of most of the stores. \<open>Examples\<close>: the
    witnesses, each a property applied to concrete data, most of them to the seed world.

  These components interact through the world only. The release readiness is the centre: it reads the
  six gates, which read the planning row (parts), the technician ranking (eligible inspectors), the task
  (reference, evidence requirement), the evidence store and the execution state; it adds the overdue
  deferred items and the open assessments. The turnaround status reads the release readiness. On the
  client side the session decides the data mode and what the guard renders; the demonstration store
  reads the data set and is read by the asset pages; every endpoint is sent by the API client, whose
  errors the evidence-file panel and the session classify.

  Modelling choices. A lookup the code asserts with \<open>!\<close> is an option, \<open>None\<close> for the exception.
  A day count that the code would compute as \<open>NaN\<close> is \<open>None\<close>, and every comparison with it is
  false, as in the code. The current date of the demo, \<open>MOCK_TODAY\<close>, is the constant of the code; the
  local clock is an argument, and where one operation reads it several times, \<open>clk n\<close> is the n-th
  reading. \<open>getTime\<close> reads the ISO forms the server sends, in UTC. \<open>setDate\<close> followed by \<open>toISOString\<close> is
  modelled for a process whose time zone is UTC, and so are the inputs of a local time, for years of four digits. Strings hold UTF-8 bytes. The item in the browser's
  storage is absent, unreadable or a stored value. A payload the code passes on unread is a \<open>json\<close>.
  Nothing is bounded by fuel: the retry is at most one, and the loops recurse on their data or with a
  measure.

  Not modelled: the rendering of the React pages under \<open>src/frontend/app\<close> and
  \<open>src/frontend/components\<close>, apart from the guard, the sidebar, the search box, the badges and the
  pages of a work order, an organization, its subscriptions, a plan, the procurement and an assessment; the assistant's text dispatch (\<open>ai/engine.ts\<close>) and the report texts,
  which print what is modelled here; the Python backend, which the API client's network argument stands
  for, apart from the transitions of a work order, the entitlements, the plans (without the creation of a
  plan and its suite) and the subscriptions. On the pages, whole numbers are exact, which \<open>parseInt\<close> is up to \<open>2^53\<close>, and a column of
  the database holds any integer.
\<close>

end
